(* ===== verification/Prelude.thy ===== *)
theory Prelude
  imports Complex_Main "HOL-Library.Sublist"
begin

text \<open>
  The vocabulary every component shares: errors as values, tables of rows with the query shapes
  the services use, and the parts of the JavaScript standard library the code calls on strings
  (\<open>trim\<close>, \<open>toUpperCase\<close>, \<open>includes\<close>, \<open>split\<close>, \<open>parseInt\<close>, \<open>String.replace\<close> with the
  placeholder pattern). Strings are lists of characters; the case conversions act on ASCII
  letters, which is the alphabet of every keyword table in the source.
\<close>

named_theorems table_simps \<open>rows found and rows changed by the table operations\<close>
named_theorems op_defs \<open>definitions of the operations, for unfolding handlers\<close>
named_theorems keeps_intros \<open>rules that carry an invariant of the state through an operation\<close>
named_theorems frame_simps \<open>what an operation leaves alone\<close>

type_synonym uuid = string
type_synonym instant = int  \<comment> \<open>milliseconds since the epoch, as \<open>Date.getTime()\<close>\<close>

section \<open>Errors as values\<close>

datatype exn =
    ForbiddenException string
  | BadRequestException string
  | NotFoundException string
  | ConflictException string
  | UnauthorizedException string
  | PrismaError string
  | PlainError string

text \<open>The message of an error; Prisma's is represented by its code.\<close>

fun exnText :: "exn \<Rightarrow> string" where
  "exnText (ForbiddenException s) = s"
| "exnText (BadRequestException s) = s"
| "exnText (NotFoundException s) = s"
| "exnText (ConflictException s) = s"
| "exnText (UnauthorizedException s) = s"
| "exnText (PrismaError s) = s"
| "exnText (PlainError s) = s"

type_synonym 'a outcome = "exn + 'a"

definition is_ok :: "'a outcome \<Rightarrow> bool" where
  "is_ok r = (case r of Inl _ \<Rightarrow> False | Inr _ \<Rightarrow> True)"

lemma is_ok_simps [simp]: "is_ok (Inl e) = False" "is_ok (Inr x) = True"
  by (simp_all add: is_ok_def)

lemma is_okE: "is_ok (fst p) \<Longrightarrow> (\<And>x. p = (Inr x, snd p) \<Longrightarrow> thesis) \<Longrightarrow> thesis"
  by (cases p; cases "fst p") auto

section \<open>JavaScript values\<close>

text \<open>
  JSON columns and untyped payloads. A \<open>Date\<close> inside one is kept as the instant it denotes, a number that is
  not whole as its decimal text.
\<close>

datatype json =
    JNull
  | JBool bool
  | JNum int
  | JFrac string
  | JStr string
  | JDate instant
  | JArr "json list"
  | JObj "(string \<times> json) list"

text \<open>Property read with optional chaining: \<open>None\<close> is \<open>undefined\<close>.\<close>

fun jget :: "json option \<Rightarrow> string \<Rightarrow> json option" where
  "jget (Some (JObj kvs)) k = map_of kvs k"
| "jget _ k = None"

definition jstr :: "json option \<Rightarrow> string option" where
  "jstr j = (case j of Some (JStr s) \<Rightarrow> Some s | _ \<Rightarrow> None)"

text \<open>Truthiness, \<open>a || b\<close> and \<open>a ?? b\<close> on optional strings.\<close>

definition truthy :: "string option \<Rightarrow> bool" where
  "truthy s = (case s of None \<Rightarrow> False | Some x \<Rightarrow> x \<noteq> [])"

definition or_str :: "string option \<Rightarrow> string option \<Rightarrow> string option" where
  "or_str a b = (if truthy a then a else b)"

definition coalesce :: "'a option \<Rightarrow> 'a \<Rightarrow> 'a" where
  "coalesce a d = (case a of None \<Rightarrow> d | Some x \<Rightarrow> x)"

lemma truthy_simps [simp]: "truthy None = False" "truthy (Some x) = (x \<noteq> [])"
  by (simp_all add: truthy_def)

lemma or_str_None [simp]: "or_str None b = b"
  by (simp add: or_str_def)

lemma coalesce_simps [simp]: "coalesce None d = d" "coalesce (Some x) d = x"
  by (simp_all add: coalesce_def)

section \<open>Numbers as text\<close>

definition digit_char :: "nat \<Rightarrow> char" where
  "digit_char n = char_of (48 + n)"

fun show_nat :: "nat \<Rightarrow> string" where
  "show_nat n = (if n < 10 then [digit_char n] else show_nat (n div 10) @ [digit_char (n mod 10)])"

declare show_nat.simps [simp del]

definition show_int :: "int \<Rightarrow> string" where
  "show_int i = (if i < 0 then CHR ''-'' # show_nat (nat (- i)) else show_nat (nat i))"

lemma show_nat_nonempty: "show_nat n \<noteq> []"
  by (subst show_nat.simps) simp

section \<open>Strings\<close>

definition char_code :: "char \<Rightarrow> nat" where
  "char_code c = of_char c"

definition is_digit :: "char \<Rightarrow> bool" where
  "is_digit c = (48 \<le> char_code c \<and> char_code c \<le> 57)"

definition is_lower :: "char \<Rightarrow> bool" where
  "is_lower c = (97 \<le> char_code c \<and> char_code c \<le> 122)"

definition is_upper :: "char \<Rightarrow> bool" where
  "is_upper c = (65 \<le> char_code c \<and> char_code c \<le> 90)"

definition is_space :: "char \<Rightarrow> bool" where
  "is_space c = (char_code c = 32 \<or> (9 \<le> char_code c \<and> char_code c \<le> 13) \<or> char_code c = 160)"

text \<open>\<open>\w\<close>: letters, digits and the underscore.\<close>

definition is_word_char :: "char \<Rightarrow> bool" where
  "is_word_char c = (is_digit c \<or> is_lower c \<or> is_upper c \<or> char_code c = 95)"

definition upper_char :: "char \<Rightarrow> char" where
  "upper_char c = (if is_lower c then char_of (char_code c - 32) else c)"

definition lower_char :: "char \<Rightarrow> char" where
  "lower_char c = (if is_upper c then char_of (char_code c + 32) else c)"

definition toUpperCase :: "string \<Rightarrow> string" where
  "toUpperCase s = map upper_char s"

definition toLowerCase :: "string \<Rightarrow> string" where
  "toLowerCase s = map lower_char s"

definition trim :: "string \<Rightarrow> string" where
  "trim s = rev (dropWhile is_space (rev (dropWhile is_space s)))"

definition startsWith :: "string \<Rightarrow> string \<Rightarrow> bool" where
  "startsWith s p = prefix p s"

fun str_includes :: "string \<Rightarrow> string \<Rightarrow> bool" where
  "str_includes [] p = (p = [])"
| "str_includes (c # s) p = (prefix p (c # s) \<or> str_includes s p)"

text \<open>\<open>replace(/[..]+/g, r)\<close>: every maximal run of characters of a class becomes \<open>r\<close>.\<close>

fun replace_runs :: "(char \<Rightarrow> bool) \<Rightarrow> string \<Rightarrow> bool \<Rightarrow> string \<Rightarrow> string" where
  "replace_runs p r inRun [] = []"
| "replace_runs p r inRun (c # s) =
     (if \<not> p c then c # replace_runs p r False s
      else if inRun then replace_runs p r True s else r @ replace_runs p r True s)"

definition replaceRuns :: "(char \<Rightarrow> bool) \<Rightarrow> string \<Rightarrow> string \<Rightarrow> string" where
  "replaceRuns p r s = replace_runs p r False s"

text \<open>\<open>split\<close> on a character, \<open>join\<close> with a separator, \<open>split(/\s+/)\<close>.\<close>

fun split_on :: "(char \<Rightarrow> bool) \<Rightarrow> string \<Rightarrow> string list" where
  "split_on p [] = [[]]"
| "split_on p (c # s) =
     (if p c then [] # split_on p s
      else (case split_on p s of [] \<Rightarrow> [[c]] | w # ws \<Rightarrow> (c # w) # ws))"

fun join :: "string \<Rightarrow> string list \<Rightarrow> string" where
  "join sep [] = []"
| "join sep [x] = x"
| "join sep (x # y # xs) = x @ sep @ join sep (y # xs)"

text \<open>
  \<open>parseInt(s, 10)\<close>: leading white space, an optional sign, then the longest run of digits;
  \<open>None\<close> is \<open>NaN\<close>.
\<close>

definition digits_value :: "string \<Rightarrow> int" where
  "digits_value ds = foldl (\<lambda>acc c. 10 * acc + (int (char_code c) - 48)) 0 ds"

definition parseInt :: "string \<Rightarrow> int option" where
  "parseInt s =
     (let t = dropWhile is_space s;
          neg = (case t of c # _ \<Rightarrow> c = CHR ''-'' | [] \<Rightarrow> False);
          u = (case t of c # r \<Rightarrow> if c = CHR ''-'' \<or> c = CHR ''+'' then r else t | [] \<Rightarrow> []);
          ds = takeWhile is_digit u
      in if ds = [] then None
         else Some (if neg then - digits_value ds else digits_value ds))"

section \<open>Placeholders\<close>

text \<open>
  \<open>template.replace(/\{\{(\w+)\}\}/g, f)\<close>: scan from the left; where two braces, a maximal
  non-empty run of word characters and two braces follow, emit the replacement and go on after
  the match; elsewhere copy one character.
\<close>

definition placeholder_at :: "string \<Rightarrow> (string \<times> string) option" where
  "placeholder_at s =
     (if prefix ''{{'' s then
        (let r = drop 2 s; key = takeWhile is_word_char r; rest = dropWhile is_word_char r
         in if key \<noteq> [] \<and> prefix ''}}'' rest then Some (key, drop 2 rest) else None)
      else None)"

lemma placeholder_at_shorter: "placeholder_at s = Some (k, r) \<Longrightarrow> length r < length s"
proof -
  assume a: "placeholder_at s = Some (k, r)"
  then have p: "prefix ''{{'' s" and r: "r = drop 2 (dropWhile is_word_char (drop 2 s))"
    by (auto simp: placeholder_at_def Let_def split: if_splits)
  from p have "2 \<le> length s" by (auto dest: prefix_length_le)
  moreover have "length (dropWhile is_word_char (drop 2 s)) \<le> length (drop 2 s)"
    by (rule length_dropWhile_le)
  ultimately show ?thesis using r by simp
qed

function replace_placeholders :: "(string \<Rightarrow> string) \<Rightarrow> string \<Rightarrow> string" where
  "replace_placeholders f s =
     (case placeholder_at s of
        Some (key, rest) \<Rightarrow> f key @ replace_placeholders f rest
      | None \<Rightarrow> (case s of [] \<Rightarrow> [] | c # t \<Rightarrow> c # replace_placeholders f t))"
  by pat_completeness auto
termination
  by (relation "measure (\<lambda>(f, s). length s)") (auto dest: placeholder_at_shorter)

declare replace_placeholders.simps [simp del]

lemma replace_placeholders_Nil [simp]: "replace_placeholders f [] = []"
  by (simp add: replace_placeholders.simps [of f "[]"] placeholder_at_def)

lemma replace_placeholders_skip:
  "placeholder_at (c # t) = None \<Longrightarrow> replace_placeholders f (c # t) = c # replace_placeholders f t"
  by (simp add: replace_placeholders.simps [of f "c # t"])

lemma replace_placeholders_match:
  "placeholder_at s = Some (k, r) \<Longrightarrow> replace_placeholders f s = f k @ replace_placeholders f r"
  by (simp add: replace_placeholders.simps [of f s])

lemma placeholder_at_split:
  assumes "placeholder_at s = Some (k, r)"
  shows "s = ''{{'' @ k @ ''}}'' @ r"
proof -
  from assms have p: "prefix ''{{'' s"
    and k: "k = takeWhile is_word_char (drop 2 s)"
    and q: "prefix ''}}'' (dropWhile is_word_char (drop 2 s))"
    and r: "r = drop 2 (dropWhile is_word_char (drop 2 s))"
    by (auto simp: placeholder_at_def Let_def split: if_splits)
  from p obtain u where u: "s = ''{{'' @ u" by (auto simp: prefix_def)
  from q u obtain v where v: "dropWhile is_word_char u = ''}}'' @ v" by (auto simp: prefix_def)
  have "u = takeWhile is_word_char u @ dropWhile is_word_char u"
    by simp
  then show ?thesis using u v k r by simp
qed

text \<open>What every object inherits, as the text of the function or of the prototype.\<close>

definition OBJECT_METHODS :: "string list" where
  "OBJECT_METHODS = [''toString'', ''valueOf'', ''hasOwnProperty'', ''isPrototypeOf'', ''propertyIsEnumerable'',
     ''toLocaleString'', ''__defineGetter__'', ''__defineSetter__'', ''__lookupGetter__'', ''__lookupSetter__'']"

definition inherited :: "string \<Rightarrow> string option" where
  "inherited key =
     (if key = ''constructor'' then Some ''function Object() { [native code] }''
      else if key = ''__proto__'' then Some ''[object Object]''
      else if key \<in> set OBJECT_METHODS then Some (''function '' @ key @ ''() { [native code] }'')
      else None)"

text \<open>Leaving every placeholder as it stands is the identity.\<close>

lemma replace_placeholders_keep:
  assumes "\<And>k. f k = ''{{'' @ k @ ''}}''"
  shows "replace_placeholders f s = s"
proof (induction s rule: measure_induct_rule [of length])
  case (less s)
  show ?case
  proof (cases "placeholder_at s")
    case None
    then show ?thesis
      by (cases s) (simp_all add: replace_placeholders_skip less)
  next
    case (Some kr)
    obtain k r where kr: "kr = (k, r)" by (cases kr)
    with Some have p: "placeholder_at s = Some (k, r)" by simp
    then have "length r < length s" by (rule placeholder_at_shorter)
    then have "replace_placeholders f r = r" by (rule less)
    then have "replace_placeholders f s = f k @ r"
      by (simp add: replace_placeholders_match [OF p])
    then show ?thesis
      using placeholder_at_split [OF p] assms [of k] by simp
  qed
qed

section \<open>Tables\<close>

text \<open>
  A table is the list of its rows in the order the database returns them when a query names no
  order. \<open>findFirst\<close> and \<open>findUnique\<close> are \<open>List.find\<close>, \<open>findMany\<close> is \<open>filter\<close>, \<open>count\<close>
  its length, \<open>update\<close> and \<open>updateMany\<close> are the following.
\<close>

definition update_where :: "('r \<Rightarrow> bool) \<Rightarrow> ('r \<Rightarrow> 'r) \<Rightarrow> 'r list \<Rightarrow> 'r list" where
  "update_where p f rs = map (\<lambda>r. if p r then f r else r) rs"

definition delete_where :: "('r \<Rightarrow> bool) \<Rightarrow> 'r list \<Rightarrow> 'r list" where
  "delete_where p rs = filter (\<lambda>r. \<not> p r) rs"

definition count_where :: "('r \<Rightarrow> bool) \<Rightarrow> 'r list \<Rightarrow> nat" where
  "count_where p rs = length (filter p rs)"

text \<open>\<open>orderBy\<close>: stable; a descending order puts NULL first, an ascending one last.\<close>

definition order_asc :: "('r \<Rightarrow> int) \<Rightarrow> 'r list \<Rightarrow> 'r list" where
  "order_asc k rs = sort_key k rs"

definition order_desc :: "('r \<Rightarrow> int) \<Rightarrow> 'r list \<Rightarrow> 'r list" where
  "order_desc k rs = sort_key (\<lambda>r. - k r) rs"

definition order_desc_null :: "('r \<Rightarrow> int option) \<Rightarrow> 'r list \<Rightarrow> 'r list" where
  "order_desc_null k rs =
     filter (\<lambda>r. k r = None) rs @ order_desc (\<lambda>r. the (k r)) (filter (\<lambda>r. k r \<noteq> None) rs)"

definition first_of :: "'r list \<Rightarrow> 'r option" where
  "first_of rs = (case rs of [] \<Rightarrow> None | r # _ \<Rightarrow> Some r)"

lemma first_of_simps [simp]: "first_of [] = None" "first_of (r # rs) = Some r"
  by (simp_all add: first_of_def)

lemma update_where_simps [simp]:
  "update_where p f [] = []"
  "update_where p f (r # rs) = (if p r then f r else r) # update_where p f rs"
  by (simp_all add: update_where_def)

lemma length_update_where [table_simps, simp]: "length (update_where p f rs) = length rs"
  by (simp add: update_where_def)

lemma set_update_where: "r \<in> set (update_where p f rs) \<longleftrightarrow>
    (\<exists>q \<in> set rs. r = (if p q then f q else q))"
  by (auto simp: update_where_def)

lemma update_where_nothing: "(\<And>r. r \<in> set rs \<Longrightarrow> \<not> p r) \<Longrightarrow> update_where p f rs = rs"
  by (induction rs) auto

lemma update_where_twice [table_simps]:
  "(\<And>r. p (f r) = p r) \<Longrightarrow>
   update_where p g (update_where p f rs) = update_where p (\<lambda>r. g (f r)) rs"
  by (induction rs) auto

lemma find_update_where_other [table_simps]:
  "(\<And>r. p r \<Longrightarrow> q (f r) = q r) \<Longrightarrow>
   List.find q (update_where p f rs) =
     map_option (\<lambda>r. if p r then f r else r) (List.find q rs)"
  by (induction rs) auto

lemma find_SomeD: "List.find p rs = Some r \<Longrightarrow> r \<in> set rs \<and> p r"
  by (auto simp: find_Some_iff)

lemma find_unique:
  assumes "t \<in> set rs" and "p t" and "\<And>r. r \<in> set rs \<Longrightarrow> p r \<Longrightarrow> r = t"
  shows "List.find p rs = Some t"
proof (cases "List.find p rs")
  case None
  with assms(1,2) show ?thesis by (auto simp: find_None_iff)
next
  case (Some r)
  with assms(3) [of r] find_SomeD [OF Some] show ?thesis by simp
qed

lemma find_first_of: "List.find p rs = first_of (filter p rs)"
  by (induction rs) auto

lemma first_of_SomeD: "first_of rs = Some r \<Longrightarrow> r \<in> set rs"
  by (cases rs) auto

lemma find_append: "List.find p (xs @ ys) = (case List.find p xs of None \<Rightarrow> List.find p ys | Some r \<Rightarrow> Some r)"
  by (induction xs) auto

text \<open>A key that no row has.\<close>

lemma find_absent:
  assumes "k \<notin> key ` set rs"
  shows "List.find (\<lambda>r. key r = k) rs = None" and "List.find (\<lambda>r. key r = k \<and> q r) rs = None"
  using assms by (induction rs) auto

lemma find_concat_None: "List.find p (concat xss) = None \<longleftrightarrow> (\<forall>xs \<in> set xss. \<forall>x \<in> set xs. \<not> p x)"
  by (auto simp: find_None_iff)

text \<open>Ordering by a key of an image.\<close>

lemma map_insort_key: "map h (insort_key (\<lambda>x. g (h x)) x xs) = insort_key g (h x) (map h xs)"
  by (induction xs) auto

lemma map_order_asc: "map h (order_asc (\<lambda>x. g (h x)) xs) = order_asc g (map h xs)"
  unfolding order_asc_def by (induction xs) (simp_all add: map_insort_key)

lemma set_order_asc [simp]: "set (order_asc k rs) = set rs"
  by (simp add: order_asc_def)

lemma set_order_desc [simp]: "set (order_desc k rs) = set rs"
  by (simp add: order_desc_def)

lemma order_asc_Nil [simp]: "order_asc k [] = []"
  by (simp add: order_asc_def)

lemma order_asc_eq_Nil [simp]: "(order_asc k rs = []) = (rs = [])"
  by (metis list.set(1) set_empty set_order_asc)

lemma first_of_order_asc_least:
  assumes "first_of (order_asc k rs) = Some r" and "q \<in> set rs"
  shows "k r \<le> k q"
proof -
  from assms(1) obtain ts where ts: "order_asc k rs = r # ts"
    by (cases "order_asc k rs") auto
  have "sorted (map k (order_asc k rs))" by (simp add: order_asc_def)
  with ts have "\<forall>t \<in> set (r # ts). k r \<le> k t" by auto
  moreover have "set (r # ts) = set rs" using ts set_order_asc [of k rs] by simp
  ultimately show ?thesis using assms(2) by blast
qed

lemma map_update_where_same:
  "(\<And>r. p r \<Longrightarrow> k (f r) = k r) \<Longrightarrow> map k (update_where p f rs) = map k rs"
  by (induction rs) auto

lemma filter_update_where_off:
  "(\<And>r. p r \<Longrightarrow> \<not> q (f r)) \<Longrightarrow>
   filter q (update_where p f rs) = filter (\<lambda>r. q r \<and> \<not> p r) rs"
  by (induction rs) auto

end
