(* ===== verification/Schema.thy ===== *)
theory Schema
  imports Prelude
begin

text \<open>
  The data model of \<open>prisma/schema.prisma\<close>: its enums, one record per table (the columns the
  services read or write), and the state of the whole program, \<open>world\<close>: the database, the Redis
  counters, the job queues and the messages handed to providers. What lives outside the
  repository (provider results, phone parsing, HMAC, locale formatting, configuration) is the
  record \<open>env\<close>, an argument of every operation that needs it.
\<close>

section \<open>Enums\<close>

datatype UserRole = OWNER | ADMIN | STAFF

datatype PlanType = PLAN_SMS | PLAN_SMS_VOICE | PLAN_SMS_VOICE_AI

datatype SubscriptionStatus = TRIALING | ACTIVE | PAST_DUE | CANCELLED | EXPIRED | DEPRECATED

datatype ReminderStatus = R_PENDING | R_SENT | R_DELIVERED | R_FAILED | R_CANCELLED

datatype AppointmentStatus = A_SCHEDULED | A_CONFIRMED | A_COMPLETED | A_CANCELLED | A_NO_SHOW

datatype ChannelType = SMS | VOICE | EMAIL | WHATSAPP

fun channelName :: "ChannelType \<Rightarrow> string" where
  "channelName SMS = ''SMS''"
| "channelName VOICE = ''VOICE''"
| "channelName EMAIL = ''EMAIL''"
| "channelName WHATSAPP = ''WHATSAPP''"

datatype MessageDirection = OUTBOUND | INBOUND

datatype EventStatus = E_DRAFT | E_PUBLISHED | E_ACTIVE | E_COMPLETED | E_CANCELLED

datatype EventType = ET_APPOINTMENT | ET_MEETING | ET_WEBINAR | ET_TRAINING | ET_CONSULTATION | ET_OTHER

datatype EventParticipantStatus = P_invited | P_confirmed | P_cancelled | P_pending

section \<open>Rows\<close>

record tenant =
  tenant_id :: "uuid"
  tenant_name :: "string"
  tenant_slug :: "string"
  tenant_settings :: "json"
  tenant_aiMonthlyLimit :: "int"
  tenant_aiTrialLimit :: "int"
  tenant_aiUsageCount :: "int"
  tenant_planType :: "PlanType"
  tenant_smsTrialLimit :: "int"
  tenant_smsUsageCount :: "int"
  tenant_subscriptionRenewalDate :: "instant option"
  tenant_subscriptionStatus :: "SubscriptionStatus"
  tenant_trialActive :: "bool"
  tenant_trialEndDate :: "instant option"
  tenant_trialStartDate :: "instant"
  tenant_voiceUsageCount :: "int"
  tenant_paystackCustomerId :: "string option"
  tenant_whatsappMonthlyLimit :: "int"
  tenant_whatsappUsageCount :: "int"
  tenant_contactLimit :: "int"
  tenant_eventLimit :: "int"
  tenant_workflowLimit :: "int"
  tenant_automationExecutionsThisMonth :: "int"
  tenant_lastResetDate :: "instant"

record user =
  user_id :: "uuid"
  user_tenantId :: "uuid"
  user_email :: "string"
  user_firstName :: "string option"
  user_lastName :: "string option"
  user_role :: "UserRole"
  user_passwordHash :: "string"
  user_refreshToken :: "string option"
  user_createdAt :: "instant"
  user_passwordResetExpiresAt :: "instant option"
  user_passwordResetTokenHash :: "string option"

record customer =
  customer_id :: "uuid"
  customer_tenantId :: "uuid"
  customer_firstName :: "string"
  customer_lastName :: "string"
  customer_email :: "string option"
  customer_phone :: "string option"
  customer_unsubscribed :: "bool"
  customer_unsubscribedAt :: "instant option"

record contact =
  contact_id :: "uuid"
  contact_tenantId :: "uuid"
  contact_name :: "string"
  contact_phone :: "string option"
  contact_email :: "string option"
  contact_unsubscribed :: "bool"
  contact_isDemoData :: "bool"
  contact_lastAppointment :: "instant option"
  contact_tags :: "string list"
  contact_notes :: "string option"
  contact_createdAt :: "instant"

record location =
  location_id :: "uuid"
  location_tenantId :: "uuid"
  location_name :: "string"
  location_address :: "string option"
  location_timezone :: "string"
  location_phone :: "string option"
  location_isActive :: "bool"

record appointment =
  appointment_id :: "uuid"
  appointment_tenantId :: "uuid"
  appointment_customerId :: "uuid option"
  appointment_title :: "string"
  appointment_scheduledAt :: "instant"
  appointment_durationMinutes :: "int"
  appointment_status :: "AppointmentStatus"
  appointment_notes :: "string option"
  appointment_locationId :: "uuid option"
  appointment_campaignId :: "uuid option"
  appointment_eventId :: "uuid option"
  appointment_audienceSegmentId :: "uuid option"
  appointment_isDemoData :: "bool"

record participant =
  participant_id :: "uuid"
  participant_appointmentId :: "uuid"
  participant_contactId :: "uuid"
  participant_status :: "string"

record event =
  event_id :: "uuid"
  event_tenantId :: "uuid"
  event_title :: "string"
  event_location :: "string option"
  event_startTime :: "instant"
  event_status :: "EventStatus"
  event_isDemoData :: "bool"
  event_description :: "string option"
  event_endTime :: "instant option"
  event_eventType :: "EventType"
  event_createdBy :: "uuid option"
  event_incentiveType :: "string option"
  event_incentiveValue :: "string option"
  event_incentiveMessage :: "string option"

record eventAutomation =
  eventAutomation_id :: "uuid"
  eventAutomation_tenantId :: "uuid"
  eventAutomation_eventId :: "uuid"
  eventAutomation_remindNonResponders :: "bool"
  eventAutomation_sendLocationOnConfirm :: "bool"
  eventAutomation_sendFollowupAfter :: "bool"

record eventParticipant =
  eventParticipant_id :: "uuid"
  eventParticipant_eventId :: "uuid"
  eventParticipant_contactId :: "uuid"
  eventParticipant_tenantId :: "uuid"
  eventParticipant_status :: "EventParticipantStatus"
  eventParticipant_lastResponseAt :: "instant option"
  eventParticipant_qrToken :: "string option"
  eventParticipant_arrivedAt :: "instant option"
  eventParticipant_qrScannedBy :: "string option"
  eventParticipant_couponCode :: "string option"
  eventParticipant_couponSentAt :: "instant option"
  eventParticipant_isDemoData :: "bool"

record rsvpEvent =
  rsvpEvent_id :: "uuid"
  rsvpEvent_eventId :: "uuid"
  rsvpEvent_contactId :: "uuid"
  rsvpEvent_tenantId :: "uuid"
  rsvpEvent_response :: "string"
  rsvpEvent_channel :: "string"
  rsvpEvent_createdAt :: "instant"

record eventResponse =
  eventResponse_id :: "uuid"
  eventResponse_eventId :: "uuid"
  eventResponse_contactId :: "uuid"
  eventResponse_tenantId :: "uuid"
  eventResponse_response :: "string"
  eventResponse_responseStatus :: "EventParticipantStatus"
  eventResponse_timestamp :: "instant"

record template =
  template_id :: "uuid"
  template_tenantId :: "uuid"
  template_body :: "string"
  template_name :: "string"
  template_channel :: "ChannelType"
  template_subject :: "string option"
  template_variables :: "string list"
  template_isActive :: "bool"
  template_createdAt :: "instant"

record channelStrategy =
  channelStrategy_id :: "uuid"
  channelStrategy_tenantId :: "uuid"
  channelStrategy_name :: "string"
  channelStrategy_chain :: "ChannelType list"
  channelStrategy_fallbackOnFailed :: "bool"
  channelStrategy_fallbackOnUndelivered :: "bool"
  channelStrategy_fallbackOnUnread :: "bool"
  channelStrategy_unreadWindowMinutes :: "int"
  channelStrategy_isDefault :: "bool"
  channelStrategy_isActive :: "bool"
  channelStrategy_createdAt :: "instant"

record reminderRule =
  reminderRule_id :: "uuid"
  reminderRule_tenantId :: "uuid"
  reminderRule_name :: "string"
  reminderRule_channel :: "ChannelType"
  reminderRule_templateId :: "uuid option"
  reminderRule_offsetMinutes :: "int"
  reminderRule_isActive :: "bool"
  reminderRule_messageTemplate :: "string option"
  reminderRule_channelStrategyId :: "uuid option"
  reminderRule_targetType :: "string option"
  reminderRule_targetId :: "string option"

record reminder =
  reminder_id :: "uuid"
  reminder_tenantId :: "uuid"
  reminder_appointmentId :: "uuid option"
  reminder_reminderRuleId :: "uuid option"
  reminder_channel :: "ChannelType"
  reminder_scheduledSendTime :: "instant"
  reminder_status :: "ReminderStatus"
  reminder_messageContent :: "string option"
  reminder_contactId :: "uuid option"
  reminder_eventId :: "uuid option"
  reminder_sentAt :: "instant option"

record messageLog =
  messageLog_id :: "uuid"
  messageLog_tenantId :: "uuid"
  messageLog_reminderId :: "uuid option"
  messageLog_channel :: "ChannelType"
  messageLog_direction :: "MessageDirection"
  messageLog_recipient :: "string"
  messageLog_content :: "string option"
  messageLog_providerMessageId :: "string option"
  messageLog_providerStatus :: "string option"
  messageLog_sentAt :: "instant option"
  messageLog_deliveredAt :: "instant option"
  messageLog_createdAt :: "instant"
  messageLog_contactId :: "uuid option"
  messageLog_eventId :: "uuid option"
  messageLog_isDemoData :: "bool"

record failedReminder =
  failedReminder_id :: "uuid"
  failedReminder_tenantId :: "uuid"
  failedReminder_reminderId :: "uuid"
  failedReminder_errorCode :: "string option"
  failedReminder_errorMessage :: "string option"
  failedReminder_lastRetryAt :: "instant option"
  failedReminder_retryCount :: "int"

record failoverLog =
  failoverLog_id :: "uuid"
  failoverLog_tenantId :: "uuid"
  failoverLog_reminderId :: "uuid option"
  failoverLog_fromChannel :: "ChannelType"
  failoverLog_toChannel :: "ChannelType"
  failoverLog_reason :: "string"
  failoverLog_success :: "bool"

record subscriptionRecord =
  subscriptionRecord_id :: "uuid"
  subscriptionRecord_tenantId :: "uuid"
  subscriptionRecord_provider :: "string"
  subscriptionRecord_providerSubscriptionId :: "string option"
  subscriptionRecord_planType :: "PlanType"
  subscriptionRecord_status :: "SubscriptionStatus"
  subscriptionRecord_amount :: "rat"
  subscriptionRecord_currency :: "string"
  subscriptionRecord_createdAt :: "instant"
  subscriptionRecord_currentPeriodStart :: "instant"
  subscriptionRecord_currentPeriodEnd :: "instant option"

record auditLog =
  auditLog_id :: "uuid"
  auditLog_tenantId :: "uuid"
  auditLog_userId :: "uuid option"
  auditLog_action :: "string"
  auditLog_entity :: "string"
  auditLog_entityId :: "string"
  auditLog_oldValues :: "json option"
  auditLog_newValues :: "json option"

record processedWebhook =
  processedWebhook_eventId :: "string"
  processedWebhook_processedAt :: "instant"

record googleConnection =
  googleConnection_tenantId :: "uuid"
  googleConnection_locationId :: "string"
  googleConnection_id :: "uuid"
  googleConnection_googleAccountId :: "string"
  googleConnection_locationName :: "string option"
  googleConnection_accessToken :: "string"
  googleConnection_refreshToken :: "string"
  googleConnection_tokenExpiresAt :: "instant"
  googleConnection_connectedAt :: "instant"

record rescheduleSession =
  rescheduleSession_id :: "uuid"
  rescheduleSession_tenantId :: "uuid"
  rescheduleSession_appointmentId :: "uuid"
  rescheduleSession_phone :: "string"
  rescheduleSession_channel :: "ChannelType"
  rescheduleSession_offeredSlots :: "instant list"
  rescheduleSession_expiresAt :: "instant"
  rescheduleSession_createdAt :: "instant"

datatype CalendarProvider = GOOGLE | OUTLOOK

datatype CalendarSyncStatus = CS_IDLE | CS_SYNCING | CS_ERROR

record calendarConnection =
  calendarConnection_id :: "uuid"
  calendarConnection_tenantId :: "uuid"
  calendarConnection_provider :: "CalendarProvider"
  calendarConnection_accessToken :: "string"
  calendarConnection_refreshToken :: "string"
  calendarConnection_expiresAt :: "instant"
  calendarConnection_email :: "string option"
  calendarConnection_syncStatus :: "CalendarSyncStatus"
  calendarConnection_lastSyncAt :: "instant option"
  calendarConnection_syncError :: "string option"
  calendarConnection_connectedAt :: "instant"

datatype ReviewReplyStatus = RR_PENDING | RR_SUGGESTED | RR_APPROVED | RR_SKIPPED

record googleReview =
  googleReview_id :: "uuid"
  googleReview_tenantId :: "uuid"
  googleReview_connectionId :: "uuid"
  googleReview_googleReviewId :: "string"
  googleReview_reviewerName :: "string"
  googleReview_reviewerPhotoUrl :: "string option"
  googleReview_rating :: "int"
  googleReview_comment :: "string option"
  googleReview_reviewedAt :: "instant"
  googleReview_aiSuggestion :: "string option"
  googleReview_draftReply :: "string option"
  googleReview_status :: "ReviewReplyStatus"
  googleReview_repliedAt :: "instant option"
  googleReview_createdAt :: "instant"

record aIUsageLog =
  aIUsageLog_id :: "uuid"
  aIUsageLog_tenantId :: "uuid"
  aIUsageLog_feature :: "string"
  aIUsageLog_promptTokens :: "int"
  aIUsageLog_completionTokens :: "int"
  aIUsageLog_tokensUsed :: "int"
  aIUsageLog_model :: "string option"
  aIUsageLog_inputText :: "string option"
  aIUsageLog_outputText :: "string option"
  aIUsageLog_costUsd :: "rat option"
  aIUsageLog_createdAt :: "instant"

record calendarSyncedEvent =
  calendarSyncedEvent_id :: "uuid"
  calendarSyncedEvent_tenantId :: "uuid"
  calendarSyncedEvent_startAt :: "instant"
  calendarSyncedEvent_endAt :: "instant"
  calendarSyncedEvent_appointmentId :: "uuid option"
  calendarSyncedEvent_eventId :: "uuid option"
  calendarSyncedEvent_connectionId :: "uuid"
  calendarSyncedEvent_externalEventId :: "string"
  calendarSyncedEvent_title :: "string"
  calendarSyncedEvent_attendeeEmail :: "string option"

record feedbackRequest =
  feedbackRequest_id :: "uuid"
  feedbackRequest_tenantId :: "uuid"
  feedbackRequest_appointmentId :: "uuid option"
  feedbackRequest_customerId :: "uuid"
  feedbackRequest_phone :: "string"
  feedbackRequest_channel :: "ChannelType"
  feedbackRequest_status :: "string"
  feedbackRequest_sentAt :: "instant"
  feedbackRequest_expiresAt :: "instant"
  feedbackRequest_eventId :: "uuid option"

record feedbackResponse =
  feedbackResponse_id :: "uuid"
  feedbackResponse_tenantId :: "uuid"
  feedbackResponse_requestId :: "uuid"
  feedbackResponse_customerId :: "uuid"
  feedbackResponse_rating :: "int"
  feedbackResponse_sentiment :: "string"
  feedbackResponse_reviewLinkSent :: "bool"
  feedbackResponse_privateFormSent :: "bool"
  feedbackResponse_receivedAt :: "instant"

record tag =
  tag_id :: "uuid"
  tag_tenantId :: "uuid"
  tag_name :: "string"

record contactTag =
  contactTag_id :: "uuid"
  contactTag_contactId :: "uuid"
  contactTag_tagId :: "uuid"

record contactGroup =
  contactGroup_id :: "uuid"
  contactGroup_tenantId :: "uuid"
  contactGroup_name :: "string"

record contactGroupMember =
  contactGroupMember_groupId :: "uuid"
  contactGroupMember_contactId :: "uuid"

record audienceSegment =
  audienceSegment_id :: "uuid"
  audienceSegment_campaignId :: "uuid"
  audienceSegment_name :: "string"
  audienceSegment_tagId :: "uuid option"
  audienceSegment_createdAt :: "instant"

record campaign =
  campaign_id :: "uuid"
  campaign_tenantId :: "uuid"
  campaign_name :: "string"
  campaign_description :: "string option"
  campaign_body :: "string option"
  campaign_channel :: "string option"
  campaign_scheduledAt :: "instant option"
  campaign_status :: "string"
  campaign_createdAt :: "instant"
  campaign_isDemoData :: "bool"

record campaignRecipient =
  campaignRecipient_id :: "uuid"
  campaignRecipient_campaignId :: "uuid"
  campaignRecipient_contactId :: "uuid option"
  campaignRecipient_recipient :: "string"
  campaignRecipient_channel :: "ChannelType"
  campaignRecipient_status :: "string"
  campaignRecipient_sentAt :: "instant option"
  campaignRecipient_responseText :: "string option"
  campaignRecipient_respondedAt :: "instant option"
  campaignRecipient_messageBody :: "string"
  campaignRecipient_errorMessage :: "string option"
  campaignRecipient_createdAt :: "instant"

record messageResponse =
  messageResponse_id :: "uuid"
  messageResponse_tenantId :: "uuid"
  messageResponse_contactId :: "uuid option"
  messageResponse_broadcastId :: "uuid"
  messageResponse_campaignRecipientId :: "uuid option"
  messageResponse_responseText :: "string"
  messageResponse_responseStatus :: "EventParticipantStatus"
  messageResponse_timestamp :: "instant"

record contactActivity =
  contactActivity_id :: "uuid"
  contactActivity_tenantId :: "uuid"
  contactActivity_contactId :: "uuid"
  contactActivity_activityType :: "string"
  contactActivity_referenceId :: "string option"
  contactActivity_metadata :: "json"
  contactActivity_createdAt :: "instant"

record workflowCondition =
  workflowCondition_conditionType :: "string"
  workflowCondition_operator :: "string"
  workflowCondition_value :: "string"

record workflowAction =
  workflowAction_id :: "uuid"
  workflowAction_stepOrder :: "int"
  workflowAction_type :: "string"
  workflowAction_config :: "json"
  workflowAction_delayMinutes :: "int"
  workflowAction_conditions :: "workflowCondition list"

record workflow =
  workflow_id :: "uuid"
  workflow_tenantId :: "uuid"
  workflow_name :: "string"
  workflow_isActive :: "bool"
  workflow_triggerType :: "string option"
  workflow_actions :: "workflowAction list"
  workflow_isDemoData :: "bool"
  workflow_description :: "string option"
  workflow_triggerConfig :: "json"
  workflow_createdAt :: "instant"

record workflowExecution =
  workflowExecution_id :: "uuid"
  workflowExecution_workflowId :: "uuid"
  workflowExecution_tenantId :: "uuid"
  workflowExecution_triggerType :: "string"
  workflowExecution_triggerEntityId :: "string"
  workflowExecution_status :: "string"
  workflowExecution_actionsRun :: "int"
  workflowExecution_actionsSkipped :: "int"
  workflowExecution_error :: "string option"
  workflowExecution_startedAt :: "instant"
  workflowExecution_completedAt :: "instant option"

record formField =
  ff_name :: "string"
  ff_label :: "string"
  ff_type :: "string"
  ff_required :: "bool"
  ff_options :: "string list option"
  ff_placeholder :: "string option"

record contactForm =
  contactForm_id :: "uuid"
  contactForm_tenantId :: "uuid"
  contactForm_title :: "string"
  contactForm_description :: "string option"
  contactForm_fields :: "formField list"
  contactForm_isActive :: "bool"
  contactForm_slug :: "string"
  contactForm_eventId :: "uuid option"
  contactForm_submissions :: "int"
  contactForm_createdAt :: "instant"

record serviceItem =
  service_name :: "string"
  service_duration :: "int"
  service_price :: "rat option"

record widgetConfig =
  widgetConfig_tenantId :: "uuid"
  widgetConfig_businessName :: "string"
  widgetConfig_welcomeMessage :: "string option"
  widgetConfig_services :: "serviceItem list"
  widgetConfig_accentColor :: "string"
  widgetConfig_workingDays :: "int list"
  widgetConfig_workingHoursStart :: "string"
  widgetConfig_workingHoursEnd :: "string"
  widgetConfig_slotDuration :: "int"
  widgetConfig_isActive :: "bool"

section \<open>Queues, providers and the environment\<close>

text \<open>
  A BullMQ job: its queue, its id (adding a job whose id is already in the queue is ignored by
  BullMQ; the ids here embed a fresh row id), its name, its payload and its delay in ms.
\<close>

record job =
  job_queue :: string
  job_id :: string
  job_name :: string
  job_data :: json
  job_delay :: int

datatype Provider = TWILIO | TERMII | MOCK | SMTP

record outmsg =
  out_provider :: Provider
  out_channel :: ChannelType
  out_from :: string
  out_to :: string
  out_subject :: string
  out_content :: string

record send_result =
  sr_success :: bool
  sr_id :: "string option"
  sr_error :: "string option"

text \<open>
  \<open>e_send n m\<close> is what a provider answers to message \<open>m\<close> when \<open>n\<close> messages were handed over
  before it. \<open>e_parsePhone\<close> is libphonenumber's parse-and-validate (\<open>None\<close> when invalid),
  \<open>e_hmac\<close> the hex HMAC, \<open>e_stringify\<close> is \<open>JSON.stringify\<close>, \<open>e_parseJson\<close> is \<open>JSON.parse\<close>
  (\<open>None\<close> when it throws), \<open>e_http\<close> what a remote service answers,
  \<open>e_gateway n\<close> the same for the message gateway after \<open>n\<close> messages, \<open>e_renderTwiml\<close> the TwiML
  library's rendering, \<open>e_tz\<close> the offset in ms of the
  process's local time from UTC, and the \<open>e_format\<close> functions the locale formatting of dates.
\<close>

text \<open>
  An HTTP call made with \<open>axios\<close> or \<open>fetch\<close>: the parsed response body, or the error thrown, with
  its message and the response body it carries, if any.
\<close>

record http_request =
  rq_method :: string
  rq_url :: string
  rq_headers :: "(string \<times> string) list"
  rq_body :: json

text \<open>What a TwiML document says: the verbs the code builds, before the library renders them.\<close>

datatype twiml = Say string | GatherSay string string

type_synonym http_reply = "(string \<times> json option) + json"

record env =
  e_config :: "string \<Rightarrow> string option"
  e_configNum :: "string \<Rightarrow> int option"
  e_send :: "nat \<Rightarrow> outmsg \<Rightarrow> send_result"
  e_parsePhone :: "string \<Rightarrow> string \<Rightarrow> string option"
  e_hmac :: "string \<Rightarrow> string \<Rightarrow> string \<Rightarrow> string"
  e_stringify :: "json \<Rightarrow> string"
  e_parseJson :: "string \<Rightarrow> json option"
  e_http :: "http_request \<Rightarrow> http_reply"
  e_gateway :: "nat \<Rightarrow> http_request \<Rightarrow> http_reply"
  e_renderTwiml :: "twiml list \<Rightarrow> string"
  e_tz :: int
  e_formatDateTime :: "instant \<Rightarrow> string"
  e_formatDate :: "instant \<Rightarrow> string"
  e_formatTime :: "instant \<Rightarrow> string"
  e_formatSlot :: "instant \<Rightarrow> string"

section \<open>The state\<close>

text \<open>
  \<open>w_uuid\<close> is the database's supply of row ids and \<open>w_next\<close> how many were drawn. \<open>w_redis\<close>
  holds the Redis counters with the instant at which each expires (\<open>None\<close>: no expiry set).
\<close>

record world =
  w_tenants :: "tenant list"
  w_users :: "user list"
  w_customers :: "customer list"
  w_contacts :: "contact list"
  w_locations :: "location list"
  w_appointments :: "appointment list"
  w_participants :: "participant list"
  w_events :: "event list"
  w_eventParticipants :: "eventParticipant list"
  w_rsvpEvents :: "rsvpEvent list"
  w_eventResponses :: "eventResponse list"
  w_templates :: "template list"
  w_channelStrategies :: "channelStrategy list"
  w_reminderRules :: "reminderRule list"
  w_reminders :: "reminder list"
  w_messageLogs :: "messageLog list"
  w_failedReminders :: "failedReminder list"
  w_failoverLogs :: "failoverLog list"
  w_subscriptionRecords :: "subscriptionRecord list"
  w_auditLogs :: "auditLog list"
  w_processedWebhooks :: "processedWebhook list"
  w_googleConnections :: "googleConnection list"
  w_rescheduleSessions :: "rescheduleSession list"
  w_calendarSyncedEvents :: "calendarSyncedEvent list"
  w_feedbackRequests :: "feedbackRequest list"
  w_feedbackResponses :: "feedbackResponse list"
  w_campaigns :: "campaign list"
  w_campaignRecipients :: "campaignRecipient list"
  w_messageResponses :: "messageResponse list"
  w_contactActivities :: "contactActivity list"
  w_workflows :: "workflow list"
  w_workflowExecutions :: "workflowExecution list"
  w_eventAutomations :: "eventAutomation list"
  w_contactTags :: "contactTag list"
  w_contactGroupMembers :: "contactGroupMember list"
  w_audienceSegments :: "audienceSegment list"
  w_tags :: "tag list"
  w_contactGroups :: "contactGroup list"
  w_contactForms :: "contactForm list"
  w_widgetConfigs :: "widgetConfig list"
  w_calendarConnections :: "calendarConnection list"
  w_googleReviews :: "googleReview list"
  w_aIUsageLogs :: "aIUsageLog list"
  w_redis :: "string \<Rightarrow> (int \<times> instant option) option"
  w_jobs :: "job list"
  w_outbox :: "outmsg list"
  w_uuid :: "nat \<Rightarrow> uuid"
  w_next :: nat

definition newId :: "world \<Rightarrow> uuid" where
  "newId w = w_uuid w (w_next w)"

definition bump :: "world \<Rightarrow> world" where
  "bump w = w\<lparr>w_next := Suc (w_next w)\<rparr>"

definition addJob :: "job \<Rightarrow> world \<Rightarrow> world" where
  "addJob j w = w\<lparr>w_jobs := w_jobs w @ [j]\<rparr>"

definition emptyWorld :: "(nat \<Rightarrow> uuid) \<Rightarrow> world" where
  "emptyWorld u = \<lparr>
     w_tenants = [],
     w_users = [],
     w_customers = [],
     w_contacts = [],
     w_locations = [],
     w_appointments = [],
     w_participants = [],
     w_events = [],
     w_eventParticipants = [],
     w_rsvpEvents = [],
     w_eventResponses = [],
     w_templates = [],
     w_channelStrategies = [],
     w_reminderRules = [],
     w_reminders = [],
     w_messageLogs = [],
     w_failedReminders = [],
     w_failoverLogs = [],
     w_subscriptionRecords = [],
     w_auditLogs = [],
     w_processedWebhooks = [],
     w_googleConnections = [],
     w_rescheduleSessions = [],
     w_calendarSyncedEvents = [],
     w_feedbackRequests = [],
     w_feedbackResponses = [],
     w_campaigns = [],
     w_campaignRecipients = [],
     w_messageResponses = [],
     w_contactActivities = [],
     w_workflows = [],
     w_workflowExecutions = [],
     w_eventAutomations = [],
     w_contactTags = [],
     w_contactGroupMembers = [],
     w_audienceSegments = [],
     w_tags = [],
     w_contactGroups = [],
     w_contactForms = [],
     w_widgetConfigs = [],
     w_calendarConnections = [],
     w_googleReviews = [],
     w_aIUsageLogs = [],
     w_redis = (\<lambda>_. None),
     w_jobs = [],
     w_outbox = [],
     w_uuid = u,
     w_next = 0\<rparr>"

end
