(* ===== verification/Store.thy ===== *)
theory Store
  imports Schema
begin

text \<open>
  How the services act on the state: actions that return a value or throw and leave the state
  they had reached (a thrown exception does not roll the database back), the interface of a keyed
  table as a locale, and its interpretations on the tables of \<open>world\<close>.
\<close>

section \<open>Actions\<close>

type_synonym 'a act = "world \<Rightarrow> 'a outcome \<times> world"

definition returnA :: "'a \<Rightarrow> 'a act" where
  "returnA x w = (Inr x, w)"

definition throwA :: "exn \<Rightarrow> 'a act" where
  "throwA e w = (Inl e, w)"

definition modifyA :: "(world \<Rightarrow> world) \<Rightarrow> unit act" where
  "modifyA f w = (Inr (), f w)"

definition bindA :: "'a act \<Rightarrow> ('a \<Rightarrow> 'b act) \<Rightarrow> 'b act" where
  "bindA m k w = (case m w of (Inl e, w') \<Rightarrow> (Inl e, w') | (Inr x, w') \<Rightarrow> k x w')"

definition thenA :: "unit act \<Rightarrow> 'b act \<Rightarrow> 'b act" where
  "thenA m k = bindA m (\<lambda>_. k)"

definition whenA :: "bool \<Rightarrow> unit act \<Rightarrow> unit act" where
  "whenA b m = (if b then m else returnA ())"

text \<open>\<open>promise.catch(() => {})\<close> and \<open>try { await m } catch { log }\<close>: the error is dropped.\<close>

definition swallowA :: "unit act \<Rightarrow> unit act" where
  "swallowA m w = (Inr (), snd (m w))"

text \<open>\<open>$transaction\<close>: an exception undoes what the block has written.\<close>

definition transactionA :: "'a act \<Rightarrow> 'a act" where
  "transactionA m w = (case m w of (Inl e, v) \<Rightarrow> (Inl e, w) | (Inr x, v) \<Rightarrow> (Inr x, v))"

fun forEachA :: "('x \<Rightarrow> unit act) \<Rightarrow> 'x list \<Rightarrow> unit act" where
  "forEachA f [] w = (Inr (), w)"
| "forEachA f (x # xs) w = thenA (f x) (forEachA f xs) w"

lemma returnA_run [simp]: "returnA x w = (Inr x, w)"
  by (simp add: returnA_def)

lemma throwA_run [simp]: "throwA e w = (Inl e, w)"
  by (simp add: throwA_def)

lemma modifyA_run [simp]: "modifyA f w = (Inr (), f w)"
  by (simp add: modifyA_def)

lemma swallowA_run [simp]: "swallowA m w = (Inr (), snd (m w))"
  by (simp add: swallowA_def)

lemma forEachA_swallow:
  "forEachA (\<lambda>x. swallowA (f x)) [] w = (Inr (), w)"
  "forEachA (\<lambda>x. swallowA (f x)) (x # xs) w = forEachA (\<lambda>x. swallowA (f x)) xs (snd (f x w))"
  by (simp_all add: thenA_def bindA_def)

lemma whenA_simps [simp]: "whenA True m = m" "whenA False m = returnA ()"
  by (simp_all add: whenA_def)

lemma whenA_modifyA: "whenA b (modifyA f) w = (Inr (), if b then f w else w)"
  by (simp add: whenA_def)

lemma bindA_ok [simp]: "m w = (Inr x, w') \<Longrightarrow> bindA m k w = k x w'"
  by (simp add: bindA_def)

lemma bindA_error [simp]: "m w = (Inl e, w') \<Longrightarrow> bindA m k w = (Inl e, w')"
  by (simp add: bindA_def)

lemma thenA_ok [simp]: "m w = (Inr (), w') \<Longrightarrow> thenA m k w = k w'"
  by (simp add: thenA_def)

lemma thenA_error [simp]: "m w = (Inl e, w') \<Longrightarrow> thenA m k w = (Inl e, w')"
  by (simp add: thenA_def)

text \<open>An invariant of both parts is an invariant of the sequence.\<close>

lemma snd_thenA:
  assumes "P (snd (m w))" and "\<And>v. P v \<Longrightarrow> P (snd (k v))"
  shows "P (snd (thenA m k w))"
  using assms by (auto simp: thenA_def bindA_def split: prod.splits sum.splits)

lemma snd_bindA:
  assumes "P (snd (m w))" and "\<And>x v. P v \<Longrightarrow> P (snd (k x v))"
  shows "P (snd (bindA m k w))"
  using assms by (auto simp: bindA_def split: prod.splits sum.splits)

lemma snd_forEachA:
  assumes "P w" and "\<And>x v. x \<in> set xs \<Longrightarrow> P v \<Longrightarrow> P (snd (f x v))"
  shows "P (snd (forEachA f xs w))"
  using assms
proof (induction xs arbitrary: w)
  case (Cons x xs)
  have "P (snd (thenA (f x) (forEachA f xs) w))"
    by (rule snd_thenA) (use Cons in auto)
  then show ?case by simp
qed simp

text \<open>
  \<open>keeps P m\<close>: the operation carries the state predicate over, whether it returns or throws. The
  rules follow the shape of an operation; what is left are its primitive writes.
\<close>

definition keeps :: "(world \<Rightarrow> bool) \<Rightarrow> 'a act \<Rightarrow> bool" where
  "keeps P m = (\<forall>w. P w \<longrightarrow> P (snd (m w)))"

lemma keepsI: "(\<And>w. P w \<Longrightarrow> P (snd (m w))) \<Longrightarrow> keeps P m"
  by (simp add: keeps_def)

lemma keepsD: "keeps P m \<Longrightarrow> P w \<Longrightarrow> P (snd (m w))"
  by (simp add: keeps_def)

lemma keeps_basic [keeps_intros]:
  "keeps P (returnA x)" "keeps P (throwA e)" "keeps P (\<lambda>w. (r, w))"
  by (simp_all add: keeps_def)

lemma keeps_thenA [keeps_intros]: "keeps P m \<Longrightarrow> keeps P k \<Longrightarrow> keeps P (thenA m k)"
  by (auto simp: keeps_def intro: snd_thenA)

lemma keeps_bindA [keeps_intros]: "keeps P m \<Longrightarrow> (\<And>x. keeps P (k x)) \<Longrightarrow> keeps P (bindA m k)"
  by (auto simp: keeps_def intro: snd_bindA)

lemma keeps_whenA [keeps_intros]: "keeps P m \<Longrightarrow> keeps P (whenA b m)"
  by (simp add: keeps_def whenA_def)

lemma keeps_swallowA [keeps_intros]: "keeps P m \<Longrightarrow> keeps P (swallowA m)"
  by (simp add: keeps_def)

lemma keeps_forEachA [keeps_intros]: "(\<And>x. keeps P (f x)) \<Longrightarrow> keeps P (forEachA f xs)"
  by (auto simp: keeps_def intro: snd_forEachA)

lemma keeps_if [keeps_intros]: "(b \<Longrightarrow> keeps P m) \<Longrightarrow> (\<not> b \<Longrightarrow> keeps P k) \<Longrightarrow> keeps P (if b then m else k)"
  by simp

lemma keeps_option [keeps_intros]:
  "keeps P m \<Longrightarrow> (\<And>x. keeps P (k x)) \<Longrightarrow> keeps P (case v of None \<Rightarrow> m | Some x \<Rightarrow> k x)"
  by (cases v) simp_all

text \<open>
  The same for an operation that looks at the state: \<open>leaves P r\<close> speaks of the state a result
  comes with, and its rules go through the conditions and matches of the operation's body.
\<close>

definition leaves :: "(world \<Rightarrow> bool) \<Rightarrow> 'a outcome \<times> world \<Rightarrow> bool" where
  "leaves P r = P (snd r)"

lemma keeps_leaves: "(\<And>w. P w \<Longrightarrow> leaves P (m w)) \<Longrightarrow> keeps P m"
  by (simp add: keeps_def leaves_def)

lemma leaves_op: "keeps P m \<Longrightarrow> P w \<Longrightarrow> leaves P (m w)"
  by (simp add: keeps_def leaves_def)

lemma leaves_rules:
  "P w \<Longrightarrow> leaves P (r, w)"
  "(b \<Longrightarrow> leaves P x) \<Longrightarrow> (\<not> b \<Longrightarrow> leaves P y) \<Longrightarrow> leaves P (if b then x else y)"
  "(v = None \<Longrightarrow> leaves P x) \<Longrightarrow> (\<And>a. v = Some a \<Longrightarrow> leaves P (f a)) \<Longrightarrow>
     leaves P (case v of None \<Rightarrow> x | Some a \<Rightarrow> f a)"
  "(\<And>e. s = Inl e \<Longrightarrow> leaves P (g e)) \<Longrightarrow> (\<And>a. s = Inr a \<Longrightarrow> leaves P (f' a)) \<Longrightarrow>
     leaves P (case s of Inl e \<Rightarrow> g e | Inr a \<Rightarrow> f' a)"
  "(\<And>a c. p = (a, c) \<Longrightarrow> leaves P (h a c)) \<Longrightarrow> leaves P (case p of (a, c) \<Rightarrow> h a c)"
  by (simp_all add: leaves_def split: option.split sum.split prod.split)

lemma leaves_thenA: "leaves P (m w) \<Longrightarrow> (\<And>v. P v \<Longrightarrow> leaves P (k v)) \<Longrightarrow> leaves P (thenA m k w)"
  by (simp add: leaves_def snd_thenA)

lemma leaves_bindA: "leaves P (m w) \<Longrightarrow> (\<And>x v. P v \<Longrightarrow> leaves P (k x v)) \<Longrightarrow> leaves P (bindA m k w)"
  by (simp add: leaves_def snd_bindA)

lemma leaves_forEachA:
  "P w \<Longrightarrow> (\<And>x v. P v \<Longrightarrow> leaves P (f x v)) \<Longrightarrow> leaves P (forEachA f xs w)"
  by (simp add: leaves_def snd_forEachA)

lemma leaves_swallowA: "leaves P (m w) \<Longrightarrow> leaves P (swallowA m w)"
  by (simp add: leaves_def)

lemma leaves_basic: "P w \<Longrightarrow> leaves P (returnA x w)" "P w \<Longrightarrow> leaves P (throwA e w)"
  by (simp_all add: leaves_def)

lemma leaves_whenA: "(b \<Longrightarrow> leaves P (m w)) \<Longrightarrow> P w \<Longrightarrow> leaves P (whenA b m w)"
  by (simp add: leaves_def whenA_def)

lemmas leaves_intros = leaves_rules leaves_thenA leaves_bindA leaves_forEachA leaves_swallowA
  leaves_basic leaves_whenA

section \<open>The interface of a keyed table\<close>

locale keyed_table =
  fixes rows :: "'w \<Rightarrow> 'r list"
    and put :: "'r list \<Rightarrow> 'w \<Rightarrow> 'w"
    and key :: "'r \<Rightarrow> 'k"
  assumes rows_put: "rows (put rs w) = rs"
    and put_put: "put rs (put qs w) = put rs w"
    and put_rows: "put (rows w) w = w"
begin

lemma find_updated:
  assumes "\<And>r. key (f r) = key r"
  shows "List.find (\<lambda>r. key r = k) (rows (put (update_where (\<lambda>r. key r = k) f (rows w)) w)) =
           map_option f (List.find (\<lambda>r. key r = k) (rows w))"
proof -
  have "List.find (\<lambda>r. key r = k) (update_where (\<lambda>r. key r = k) f rs) =
        map_option f (List.find (\<lambda>r. key r = k) rs)" for rs
    using assms by (induction rs) auto
  then show ?thesis by (simp add: rows_put)
qed

lemma find_other:
  assumes "\<And>r. key (f r) = key r" and "j \<noteq> k"
  shows "List.find (\<lambda>r. key r = j) (rows (put (update_where (\<lambda>r. key r = k) f (rows w)) w)) =
           List.find (\<lambda>r. key r = j) (rows w)"
proof -
  have "List.find (\<lambda>r. key r = j) (update_where (\<lambda>r. key r = k) f rs) =
        List.find (\<lambda>r. key r = j) rs" for rs
    using assms by (induction rs) auto
  then show ?thesis by (simp add: rows_put)
qed

lemma keys_updated:
  assumes "\<And>r. key (f r) = key r"
  shows "map key (rows (put (update_where p f (rows w)) w)) = map key (rows w)"
  using assms by (simp add: rows_put map_update_where_same)

lemma update_absent:
  assumes "k \<notin> key ` set (rows w)"
  shows "put (update_where (\<lambda>r. key r = k) f (rows w)) w = w"
proof -
  have "update_where (\<lambda>r. key r = k) f (rows w) = rows w"
    by (rule update_where_nothing) (use assms in auto)
  then show ?thesis by (simp add: put_rows)
qed

end

text \<open>
  \<open>update({ where: { id }, data })\<close>: one row by key; Prisma throws P2025 when there is none.
\<close>

definition updateRow ::
  "(world \<Rightarrow> 'r list) \<Rightarrow> ('r list \<Rightarrow> world \<Rightarrow> world) \<Rightarrow> ('r \<Rightarrow> uuid) \<Rightarrow> uuid \<Rightarrow> ('r \<Rightarrow> 'r) \<Rightarrow> unit act" where
  "updateRow rows put key k f w =
     (if k \<in> key ` set (rows w)
      then (Inr (), put (update_where (\<lambda>r. key r = k) f (rows w)) w)
      else (Inl (PrismaError ''P2025''), w))"

lemma updateRow_ok: "k \<in> key ` set (rows w) \<Longrightarrow>
    updateRow rows put key k f w = (Inr (), put (update_where (\<lambda>r. key r = k) f (rows w)) w)"
  by (simp add: updateRow_def)

lemma keeps_updateRow:
  "(\<And>w. P w \<Longrightarrow> P (put (update_where (\<lambda>r. key r = k) f (rows w)) w)) \<Longrightarrow> keeps P (updateRow rows put key k f)"
  by (simp add: keeps_def updateRow_def)

abbreviation putTenants :: "tenant list \<Rightarrow> world \<Rightarrow> world" where
  "putTenants rs w \<equiv> w\<lparr>w_tenants := rs\<rparr>"
abbreviation putCustomers :: "customer list \<Rightarrow> world \<Rightarrow> world" where
  "putCustomers rs w \<equiv> w\<lparr>w_customers := rs\<rparr>"
abbreviation putContacts :: "contact list \<Rightarrow> world \<Rightarrow> world" where
  "putContacts rs w \<equiv> w\<lparr>w_contacts := rs\<rparr>"
abbreviation putAppointments :: "appointment list \<Rightarrow> world \<Rightarrow> world" where
  "putAppointments rs w \<equiv> w\<lparr>w_appointments := rs\<rparr>"
abbreviation putReminders :: "reminder list \<Rightarrow> world \<Rightarrow> world" where
  "putReminders rs w \<equiv> w\<lparr>w_reminders := rs\<rparr>"
abbreviation putEventParticipants :: "eventParticipant list \<Rightarrow> world \<Rightarrow> world" where
  "putEventParticipants rs w \<equiv> w\<lparr>w_eventParticipants := rs\<rparr>"
abbreviation putFeedbackRequests :: "feedbackRequest list \<Rightarrow> world \<Rightarrow> world" where
  "putFeedbackRequests rs w \<equiv> w\<lparr>w_feedbackRequests := rs\<rparr>"
abbreviation putCampaignRecipients :: "campaignRecipient list \<Rightarrow> world \<Rightarrow> world" where
  "putCampaignRecipients rs w \<equiv> w\<lparr>w_campaignRecipients := rs\<rparr>"

interpretation tenants: keyed_table w_tenants putTenants tenant_id
  by unfold_locales simp_all

interpretation customers: keyed_table w_customers putCustomers customer_id
  by unfold_locales simp_all

interpretation contacts: keyed_table w_contacts putContacts contact_id
  by unfold_locales simp_all

interpretation appointments: keyed_table w_appointments putAppointments appointment_id
  by unfold_locales simp_all

interpretation reminders: keyed_table w_reminders putReminders reminder_id
  by unfold_locales simp_all

interpretation eventParticipants:
  keyed_table w_eventParticipants putEventParticipants eventParticipant_id
  by unfold_locales simp_all

interpretation feedbackRequests:
  keyed_table w_feedbackRequests putFeedbackRequests feedbackRequest_id
  by unfold_locales simp_all

section \<open>Rows by id\<close>

definition findTenant :: "uuid \<Rightarrow> world \<Rightarrow> tenant option" where
  "findTenant t w = List.find (\<lambda>r. tenant_id r = t) (w_tenants w)"

definition updateTenant :: "uuid \<Rightarrow> (tenant \<Rightarrow> tenant) \<Rightarrow> unit act" where
  "updateTenant = updateRow w_tenants putTenants tenant_id"

definition updateAppointment :: "uuid \<Rightarrow> (appointment \<Rightarrow> appointment) \<Rightarrow> unit act" where
  "updateAppointment = updateRow w_appointments putAppointments appointment_id"

definition updateCustomer :: "uuid \<Rightarrow> (customer \<Rightarrow> customer) \<Rightarrow> unit act" where
  "updateCustomer = updateRow w_customers putCustomers customer_id"

definition updateContact :: "uuid \<Rightarrow> (contact \<Rightarrow> contact) \<Rightarrow> unit act" where
  "updateContact = updateRow w_contacts putContacts contact_id"

definition updateReminder :: "uuid \<Rightarrow> (reminder \<Rightarrow> reminder) \<Rightarrow> unit act" where
  "updateReminder = updateRow w_reminders putReminders reminder_id"

definition tenantExists :: "uuid \<Rightarrow> world \<Rightarrow> bool" where
  "tenantExists t w = (t \<in> tenant_id ` set (w_tenants w))"

lemma findTenant_None_iff: "findTenant t w = None \<longleftrightarrow> \<not> tenantExists t w"
  by (auto simp: findTenant_def tenantExists_def find_None_iff)

lemma findTenant_SomeD: "findTenant t w = Some r \<Longrightarrow> tenant_id r = t \<and> r \<in> set (w_tenants w)"
  by (auto simp: findTenant_def dest: find_SomeD)

lemma findTenant_exists: "findTenant t w = Some r \<Longrightarrow> tenantExists t w"
  by (auto simp: tenantExists_def dest: findTenant_SomeD)

lemma updateTenant_ok [simp]: "tenantExists t w \<Longrightarrow>
    updateTenant t f w = (Inr (), putTenants (update_where (\<lambda>r. tenant_id r = t) f (w_tenants w)) w)"
  by (simp add: updateTenant_def updateRow_ok tenantExists_def)

lemma updateTenant_missing [simp]: "\<not> tenantExists t w \<Longrightarrow>
    updateTenant t f w = (Inl (PrismaError ''P2025''), w)"
  by (simp add: updateTenant_def updateRow_def tenantExists_def)

lemma keeps_updateTenant:
  "(\<And>w. P w \<Longrightarrow> P (putTenants (update_where (\<lambda>r. tenant_id r = t) f (w_tenants w)) w)) \<Longrightarrow>
   keeps P (updateTenant t f)"
  unfolding updateTenant_def by (rule keeps_updateRow)

text \<open>Two kinds of invariant: a part of the state that is not touched, and a condition on all tenants.\<close>

definition tenantsAll :: "(tenant \<Rightarrow> bool) \<Rightarrow> world \<Rightarrow> bool" where
  "tenantsAll Q w = (\<forall>t \<in> set (w_tenants w). Q t)"

lemma keeps_updateTenant_all [keeps_intros]:
  "(\<And>r. Q r \<Longrightarrow> Q (f r)) \<Longrightarrow> keeps (tenantsAll Q) (updateTenant t f)"
  by (rule keeps_updateTenant) (auto simp: tenantsAll_def set_update_where)

lemma keeps_updateTenant_frame [keeps_intros]:
  "(\<And>w rs. g (w\<lparr>w_tenants := rs\<rparr>) = g w) \<Longrightarrow> keeps (\<lambda>w. g w = c) (updateTenant t f)"
  by (rule keeps_updateTenant) simp

lemma findTenant_update:
  assumes "\<And>r. tenant_id (f r) = tenant_id r"
  shows "findTenant s (putTenants (update_where (\<lambda>r. tenant_id r = t) f (w_tenants w)) w) =
           (if s = t then map_option f (findTenant s w) else findTenant s w)"
  using tenants.find_updated [of f t w] tenants.find_other [of f s t w] assms
  by (simp add: findTenant_def)

lemma tenantExists_update [simp]:
  assumes "\<And>r. tenant_id (f r) = tenant_id r"
  shows "tenantExists s (putTenants (update_where p f (w_tenants w)) w) = tenantExists s w"
proof -
  have "tenant_id ` set (update_where p f (w_tenants w)) = tenant_id ` set (w_tenants w)"
    using assms by (simp add: map_update_where_same flip: set_map)
  then show ?thesis by (simp add: tenantExists_def)
qed

end
