(* ===== verification/Audit_Log.thy ===== *)
theory Audit_Log
  imports Store
begin

text \<open>
  \<open>modules/audit/audit.service.ts\<close>: one row per logged entry. The row references its tenant, so
  the insert of an entry for an unknown tenant (or by an unknown user) fails; \<open>log\<close> catches that
  and returns normally.
\<close>

record AuditLogEntry =
  entry_tenantId :: uuid
  entry_userId :: "uuid option"
  entry_action :: string
  entry_entity :: string
  entry_entityId :: string
  entry_oldValues :: "json option"
  entry_newValues :: "json option"

definition auditRefsExist :: "AuditLogEntry \<Rightarrow> world \<Rightarrow> bool" where
  "auditRefsExist e w =
     (tenantExists (entry_tenantId e) w \<and>
      (case entry_userId e of None \<Rightarrow> True | Some u \<Rightarrow> u \<in> user_id ` set (w_users w)))"

definition audit_log :: "AuditLogEntry \<Rightarrow> unit act" where
  "audit_log e w =
     (if auditRefsExist e w
      then (Inr (), bump (w\<lparr>w_auditLogs := w_auditLogs w @
             [\<lparr>auditLog_id = newId w, auditLog_tenantId = entry_tenantId e,
               auditLog_userId = entry_userId e, auditLog_action = entry_action e,
               auditLog_entity = entry_entity e, auditLog_entityId = entry_entityId e,
               auditLog_oldValues = entry_oldValues e,
               auditLog_newValues = entry_newValues e\<rparr>]\<rparr>))
      else (Inr (), w))"

text \<open>The shape most callers use: no old values.\<close>

definition auditEntry ::
  "uuid \<Rightarrow> uuid option \<Rightarrow> string \<Rightarrow> string \<Rightarrow> string \<Rightarrow> (string \<times> json) list \<Rightarrow> AuditLogEntry" where
  "auditEntry t u act ent entId kvs =
     \<lparr>entry_tenantId = t, entry_userId = u, entry_action = act, entry_entity = ent,
      entry_entityId = entId, entry_oldValues = None, entry_newValues = Some (JObj kvs)\<rparr>"

text \<open>
  What \<open>log\<close> may touch: the audit table and the id supply. \<open>sameButAudit\<close> is the state with both
  erased, so one equation says that everything else is as it was.
\<close>

definition eraseAudit :: "world \<Rightarrow> world" where
  "eraseAudit w = w\<lparr>w_auditLogs := [], w_next := 0\<rparr>"

lemma audit_log_ok [simp]: "fst (audit_log e w) = Inr ()"
  by (simp add: audit_log_def)

lemma audit_log_pair: "audit_log e w = (Inr (), snd (audit_log e w))"
  by (metis audit_log_ok prod.collapse)

lemma audit_log_erase [simp]: "eraseAudit (snd (audit_log e w)) = eraseAudit w"
  by (simp add: audit_log_def eraseAudit_def bump_def)

lemma thenA_audit [simp]: "thenA (audit_log e) k w = k (snd (audit_log e w))"
  by (subst thenA_ok [OF audit_log_pair]) simp

text \<open>The fields an audit write leaves alone, as rewrite rules.\<close>

lemma audit_log_frame [simp]:
  "w_tenants (snd (audit_log e w)) = w_tenants w"
  "w_users (snd (audit_log e w)) = w_users w"
  "w_customers (snd (audit_log e w)) = w_customers w"
  "w_contacts (snd (audit_log e w)) = w_contacts w"
  "w_locations (snd (audit_log e w)) = w_locations w"
  "w_appointments (snd (audit_log e w)) = w_appointments w"
  "w_participants (snd (audit_log e w)) = w_participants w"
  "w_events (snd (audit_log e w)) = w_events w"
  "w_eventParticipants (snd (audit_log e w)) = w_eventParticipants w"
  "w_rsvpEvents (snd (audit_log e w)) = w_rsvpEvents w"
  "w_eventResponses (snd (audit_log e w)) = w_eventResponses w"
  "w_templates (snd (audit_log e w)) = w_templates w"
  "w_channelStrategies (snd (audit_log e w)) = w_channelStrategies w"
  "w_reminderRules (snd (audit_log e w)) = w_reminderRules w"
  "w_reminders (snd (audit_log e w)) = w_reminders w"
  "w_messageLogs (snd (audit_log e w)) = w_messageLogs w"
  "w_failedReminders (snd (audit_log e w)) = w_failedReminders w"
  "w_failoverLogs (snd (audit_log e w)) = w_failoverLogs w"
  "w_subscriptionRecords (snd (audit_log e w)) = w_subscriptionRecords w"
  "w_processedWebhooks (snd (audit_log e w)) = w_processedWebhooks w"
  "w_googleConnections (snd (audit_log e w)) = w_googleConnections w"
  "w_rescheduleSessions (snd (audit_log e w)) = w_rescheduleSessions w"
  "w_calendarSyncedEvents (snd (audit_log e w)) = w_calendarSyncedEvents w"
  "w_feedbackRequests (snd (audit_log e w)) = w_feedbackRequests w"
  "w_feedbackResponses (snd (audit_log e w)) = w_feedbackResponses w"
  "w_campaigns (snd (audit_log e w)) = w_campaigns w"
  "w_campaignRecipients (snd (audit_log e w)) = w_campaignRecipients w"
  "w_messageResponses (snd (audit_log e w)) = w_messageResponses w"
  "w_contactActivities (snd (audit_log e w)) = w_contactActivities w"
  "w_workflows (snd (audit_log e w)) = w_workflows w"
  "w_workflowExecutions (snd (audit_log e w)) = w_workflowExecutions w"
  "w_redis (snd (audit_log e w)) = w_redis w"
  "w_jobs (snd (audit_log e w)) = w_jobs w"
  "w_outbox (snd (audit_log e w)) = w_outbox w"
  "w_uuid (snd (audit_log e w)) = w_uuid w"
  by (simp_all add: audit_log_def bump_def)

lemma audit_log_rows: "auditRefsExist e w \<Longrightarrow>
    w_auditLogs (snd (audit_log e w)) = w_auditLogs w @
      [\<lparr>auditLog_id = newId w, auditLog_tenantId = entry_tenantId e,
        auditLog_userId = entry_userId e, auditLog_action = entry_action e,
        auditLog_entity = entry_entity e, auditLog_entityId = entry_entityId e,
        auditLog_oldValues = entry_oldValues e, auditLog_newValues = entry_newValues e\<rparr>]"
  by (simp add: audit_log_def bump_def)

lemma audit_log_rejected: "\<not> auditRefsExist e w \<Longrightarrow> audit_log e w = (Inr (), w)"
  by (simp add: audit_log_def)

lemma auditRefsExist_system [simp]:
  "entry_userId e = None \<Longrightarrow> auditRefsExist e w = tenantExists (entry_tenantId e) w"
  by (simp add: auditRefsExist_def)

lemma audit_log_tenantExists [simp]: "tenantExists t (snd (audit_log e w)) = tenantExists t w"
  by (simp add: tenantExists_def)

lemma keeps_audit_log_all [keeps_intros]: "keeps (tenantsAll Q) (audit_log e)"
  by (simp add: keeps_def tenantsAll_def)

lemma keeps_audit_log_frame [keeps_intros]:
  "(\<And>w. g (snd (audit_log e w)) = g w) \<Longrightarrow> keeps (\<lambda>w. g w = c) (audit_log e)"
  by (simp add: keeps_def)

lemma audit_log_findTenant [simp]: "findTenant t (snd (audit_log e w)) = findTenant t w"
  by (simp add: findTenant_def)

end
