(* ===== verification/Plan_Limits.thy ===== *)
theory Plan_Limits
  imports Schema
begin

text \<open>
  \<open>modules/plan/plan-limits.ts\<close>: the caps of each tier and the lookup with its TRIAL default.
\<close>

record PlanLimits =
  contactLimit :: int
  campaignAudienceLimit :: int
  workflowLimit :: int
  eventLimit :: int
  smsMonthlyLimit :: int
  whatsappMonthlyLimit :: int
  voiceMonthlyLimit :: int
  aiMonthlyLimit :: int
  automationExecutionsLimit :: int

definition PLAN_LIMITS :: "(string \<times> PlanLimits) list" where
  "PLAN_LIMITS =
    [(''TRIAL'', \<lparr>contactLimit = 100, campaignAudienceLimit = 50, workflowLimit = 3,
        eventLimit = 50, smsMonthlyLimit = 100, whatsappMonthlyLimit = 0, voiceMonthlyLimit = 0,
        aiMonthlyLimit = 5, automationExecutionsLimit = 50\<rparr>),
     (''SMS'', \<lparr>contactLimit = 1000, campaignAudienceLimit = 500, workflowLimit = 10,
        eventLimit = 500, smsMonthlyLimit = 2000, whatsappMonthlyLimit = 500,
        voiceMonthlyLimit = 0, aiMonthlyLimit = 0, automationExecutionsLimit = 500\<rparr>),
     (''SMS_VOICE'', \<lparr>contactLimit = 5000, campaignAudienceLimit = 2000, workflowLimit = 25,
        eventLimit = 2000, smsMonthlyLimit = 10000, whatsappMonthlyLimit = 2000,
        voiceMonthlyLimit = 1000, aiMonthlyLimit = 0, automationExecutionsLimit = 2000\<rparr>),
     (''SMS_VOICE_AI'', \<lparr>contactLimit = 20000, campaignAudienceLimit = 10000,
        workflowLimit = 100, eventLimit = 10000, smsMonthlyLimit = 50000,
        whatsappMonthlyLimit = 10000, voiceMonthlyLimit = 5000, aiMonthlyLimit = 500,
        automationExecutionsLimit = 10000\<rparr>)]"

definition getLimitsForPlan :: "string \<Rightarrow> PlanLimits" where
  "getLimitsForPlan planType =
     coalesce (map_of PLAN_LIMITS planType) (the (map_of PLAN_LIMITS ''TRIAL''))"

text \<open>The key of a plan in the table: the name of the enum value.\<close>

fun planKey :: "PlanType \<Rightarrow> string" where
  "planKey PLAN_SMS = ''SMS''"
| "planKey PLAN_SMS_VOICE = ''SMS_VOICE''"
| "planKey PLAN_SMS_VOICE_AI = ''SMS_VOICE_AI''"

text \<open>Tiers from the cheapest on; a higher tier never has a smaller cap.\<close>

fun planTier :: "PlanType \<Rightarrow> nat" where
  "planTier PLAN_SMS = 1"
| "planTier PLAN_SMS_VOICE = 2"
| "planTier PLAN_SMS_VOICE_AI = 3"

lemma getLimitsForPlan_values [simp]:
  "getLimitsForPlan ''TRIAL'' = \<lparr>contactLimit = 100, campaignAudienceLimit = 50,
     workflowLimit = 3, eventLimit = 50, smsMonthlyLimit = 100, whatsappMonthlyLimit = 0,
     voiceMonthlyLimit = 0, aiMonthlyLimit = 5, automationExecutionsLimit = 50\<rparr>"
  "getLimitsForPlan ''SMS'' = \<lparr>contactLimit = 1000, campaignAudienceLimit = 500,
     workflowLimit = 10, eventLimit = 500, smsMonthlyLimit = 2000, whatsappMonthlyLimit = 500,
     voiceMonthlyLimit = 0, aiMonthlyLimit = 0, automationExecutionsLimit = 500\<rparr>"
  "getLimitsForPlan ''SMS_VOICE'' = \<lparr>contactLimit = 5000, campaignAudienceLimit = 2000,
     workflowLimit = 25, eventLimit = 2000, smsMonthlyLimit = 10000,
     whatsappMonthlyLimit = 2000, voiceMonthlyLimit = 1000, aiMonthlyLimit = 0,
     automationExecutionsLimit = 2000\<rparr>"
  "getLimitsForPlan ''SMS_VOICE_AI'' = \<lparr>contactLimit = 20000, campaignAudienceLimit = 10000,
     workflowLimit = 100, eventLimit = 10000, smsMonthlyLimit = 50000,
     whatsappMonthlyLimit = 10000, voiceMonthlyLimit = 5000, aiMonthlyLimit = 500,
     automationExecutionsLimit = 10000\<rparr>"
  by (simp_all add: getLimitsForPlan_def PLAN_LIMITS_def)

lemma PLAN_LIMITS_planKey: "map_of PLAN_LIMITS (planKey p) = Some (getLimitsForPlan (planKey p))"
  by (cases p) (simp_all add: getLimitsForPlan_def PLAN_LIMITS_def)

lemma smsMonthlyLimit_positive: "0 < smsMonthlyLimit (getLimitsForPlan (planKey p))"
  by (cases p) simp_all

lemma limits_monotone:
  "planTier p \<le> planTier q \<Longrightarrow>
     contactLimit (getLimitsForPlan (planKey p)) \<le> contactLimit (getLimitsForPlan (planKey q)) \<and>
     smsMonthlyLimit (getLimitsForPlan (planKey p)) \<le> smsMonthlyLimit (getLimitsForPlan (planKey q)) \<and>
     whatsappMonthlyLimit (getLimitsForPlan (planKey p))
       \<le> whatsappMonthlyLimit (getLimitsForPlan (planKey q)) \<and>
     aiMonthlyLimit (getLimitsForPlan (planKey p)) \<le> aiMonthlyLimit (getLimitsForPlan (planKey q))"
  by (cases p; cases q) simp_all

end
