(* ===== verification/Usage_Validation.thy ===== *)
theory Usage_Validation
  imports Audit_Log Plan_Limits
begin

text \<open>
  \<open>modules/plan/usage-validation.service.ts\<close>: who may use a metered feature, how much is left,
  and the counter a use increments. The counters live in the tenant row.
\<close>

datatype FeatureType = F_SMS | F_VOICE | F_AI | F_WHATSAPP | CONTACT_COUNT | EVENT_COUNT
  | WORKFLOW_COUNT

fun featureName :: "FeatureType \<Rightarrow> string" where
  "featureName F_SMS = ''SMS''"
| "featureName F_VOICE = ''VOICE''"
| "featureName F_AI = ''AI''"
| "featureName F_WHATSAPP = ''WHATSAPP''"
| "featureName CONTACT_COUNT = ''CONTACT_COUNT''"
| "featureName EVENT_COUNT = ''EVENT_COUNT''"
| "featureName WORKFLOW_COUNT = ''WORKFLOW_COUNT''"

record UsageCheckResult =
  allowed :: bool
  reason :: "string option"
  remaining :: "int option"

definition allow :: "int option \<Rightarrow> UsageCheckResult" where
  "allow n = \<lparr>allowed = True, reason = None, remaining = n\<rparr>"

definition refuse :: "string \<Rightarrow> int option \<Rightarrow> UsageCheckResult" where
  "refuse why n = \<lparr>allowed = False, reason = Some why, remaining = n\<rparr>"

lemma allow_simps [simp]: "allowed (allow n) = True" "remaining (allow n) = n"
  "reason (allow n) = None"
  by (simp_all add: allow_def)

lemma refuse_simps [simp]: "allowed (refuse why n) = False" "remaining (refuse why n) = n"
  "reason (refuse why n) = Some why"
  by (simp_all add: refuse_def)

section \<open>Access by subscription status and plan\<close>

definition checkPlanAccess :: "tenant \<Rightarrow> FeatureType \<Rightarrow> UsageCheckResult" where
  "checkPlanAccess t feature =
     (case feature of
        F_SMS \<Rightarrow> allow None
      | F_VOICE \<Rightarrow>
          if tenant_planType t = PLAN_SMS
          then refuse ''Voice features require SMS_VOICE or SMS_VOICE_AI plan.'' None
          else allow None
      | F_WHATSAPP \<Rightarrow>
          if tenant_planType t = PLAN_SMS
          then refuse ''WhatsApp features require SMS_VOICE or SMS_VOICE_AI plan.'' None
          else allow None
      | F_AI \<Rightarrow>
          if tenant_planType t \<noteq> PLAN_SMS_VOICE_AI
          then refuse ''AI features require SMS_VOICE_AI plan.'' None
          else allow None
      | _ \<Rightarrow> refuse (''Unknown feature: '' @ featureName feature) None)"

definition trialExpired :: "instant \<Rightarrow> tenant \<Rightarrow> bool" where
  "trialExpired now t = (case tenant_trialEndDate t of None \<Rightarrow> False | Some e \<Rightarrow> now > e)"

definition checkSubscriptionAccess :: "instant \<Rightarrow> tenant \<Rightarrow> FeatureType \<Rightarrow> UsageCheckResult" where
  "checkSubscriptionAccess now t feature =
     (if tenant_trialActive t then
        (if trialExpired now t \<and> tenant_subscriptionStatus t \<noteq> ACTIVE
         then refuse ''Trial has expired. Please subscribe to continue using Meetora.'' None
         else if feature = F_VOICE \<or> feature = F_WHATSAPP
         then refuse ((if feature = F_VOICE then ''Voice'' else ''WhatsApp'') @
                '' features are not available during the trial period. Please upgrade your plan.'') None
         else allow None)
      else if tenant_subscriptionStatus t \<noteq> ACTIVE
      then refuse ''No active subscription. Please subscribe to access this feature.'' None
      else checkPlanAccess t feature)"

section \<open>Feature limits\<close>

definition checkTrialLimits :: "tenant \<Rightarrow> FeatureType \<Rightarrow> UsageCheckResult" where
  "checkTrialLimits t feature =
     (case feature of
        F_SMS \<Rightarrow>
          if tenant_smsUsageCount t \<ge> tenant_smsTrialLimit t
          then refuse (''Trial SMS limit reached ('' @ show_int (tenant_smsTrialLimit t) @
                       ''). Please subscribe to continue.'') (Some 0)
          else allow (Some (tenant_smsTrialLimit t - tenant_smsUsageCount t))
      | F_AI \<Rightarrow>
          if tenant_aiUsageCount t \<ge> tenant_aiTrialLimit t
          then refuse (''Trial AI limit reached ('' @ show_int (tenant_aiTrialLimit t) @
                       ''). Please subscribe to continue.'') (Some 0)
          else allow (Some (tenant_aiTrialLimit t - tenant_aiUsageCount t))
      | _ \<Rightarrow> allow None)"

text \<open>\<open>checkTotalCount\<close>: the stored rows of the tenant that are not demo data, against its column.\<close>

datatype CountModel = M_contact | M_event | M_workflow

fun modelName :: "CountModel \<Rightarrow> string" where
  "modelName M_contact = ''contact''"
| "modelName M_event = ''event''"
| "modelName M_workflow = ''workflow''"

fun modelCount :: "world \<Rightarrow> uuid \<Rightarrow> CountModel \<Rightarrow> nat" where
  "modelCount w t M_contact =
     count_where (\<lambda>r. contact_tenantId r = t \<and> \<not> contact_isDemoData r) (w_contacts w)"
| "modelCount w t M_event =
     count_where (\<lambda>r. event_tenantId r = t \<and> \<not> event_isDemoData r) (w_events w)"
| "modelCount w t M_workflow =
     count_where (\<lambda>r. workflow_tenantId r = t \<and> \<not> workflow_isDemoData r) (w_workflows w)"

fun modelLimit :: "tenant \<Rightarrow> CountModel \<Rightarrow> int" where
  "modelLimit t M_contact = tenant_contactLimit t"
| "modelLimit t M_event = tenant_eventLimit t"
| "modelLimit t M_workflow = tenant_workflowLimit t"

definition checkTotalCount :: "world \<Rightarrow> tenant \<Rightarrow> CountModel \<Rightarrow> UsageCheckResult" where
  "checkTotalCount w t m =
     (let count = int (modelCount w (tenant_id t) m); limit = modelLimit t m
      in if count \<ge> limit
         then refuse (''Maximum '' @ modelName m @ '' limit reached ('' @ show_int limit @
                      ''). Please upgrade your plan for more.'') (Some 0)
         else allow (Some (limit - count)))"

definition monthlyCheck :: "string \<Rightarrow> int \<Rightarrow> int \<Rightarrow> UsageCheckResult" where
  "monthlyCheck name used limit =
     (if used \<ge> limit
      then refuse (''Monthly '' @ name @ '' usage limit reached ('' @ show_int limit @
                   ''). Resets at next billing cycle.'') (Some 0)
      else allow (Some (limit - used)))"

definition checkFeatureLimits :: "world \<Rightarrow> tenant \<Rightarrow> FeatureType \<Rightarrow> UsageCheckResult" where
  "checkFeatureLimits w t feature =
     (if tenant_trialActive t \<or> tenant_subscriptionStatus t = TRIALING
      then checkTrialLimits t feature
      else (case feature of
          F_AI \<Rightarrow> monthlyCheck ''AI'' (tenant_aiUsageCount t) (tenant_aiMonthlyLimit t)
        | F_WHATSAPP \<Rightarrow>
            monthlyCheck ''WhatsApp'' (tenant_whatsappUsageCount t) (tenant_whatsappMonthlyLimit t)
        | F_SMS \<Rightarrow>
            (let limit = (case map_of PLAN_LIMITS (planKey (tenant_planType t)) of
                            None \<Rightarrow> 0 | Some l \<Rightarrow> smsMonthlyLimit l)
             in if limit > 0 \<and> tenant_smsUsageCount t \<ge> limit
                then refuse (''Monthly SMS usage limit reached ('' @ show_int limit @
                             ''). Resets at next billing cycle.'') (Some 0)
                else allow (if limit > 0 then Some (limit - tenant_smsUsageCount t) else None))
        | CONTACT_COUNT \<Rightarrow> checkTotalCount w t M_contact
        | EVENT_COUNT \<Rightarrow> checkTotalCount w t M_event
        | WORKFLOW_COUNT \<Rightarrow> checkTotalCount w t M_workflow
        | _ \<Rightarrow> allow None))"

section \<open>The service's operations\<close>

text \<open>\<open>validate\<close>: check only.\<close>

definition validate :: "instant \<Rightarrow> uuid \<Rightarrow> FeatureType \<Rightarrow> world \<Rightarrow> UsageCheckResult" where
  "validate now tenantId feature w =
     (case findTenant tenantId w of
        None \<Rightarrow> refuse ''Tenant not found'' None
      | Some t \<Rightarrow>
          (let statusCheck = checkSubscriptionAccess now t feature
           in if \<not> allowed statusCheck then statusCheck else checkFeatureLimits w t feature))"

definition addUsage :: "FeatureType \<Rightarrow> tenant \<Rightarrow> tenant" where
  "addUsage feature t =
     (case feature of
        F_SMS \<Rightarrow> t\<lparr>tenant_smsUsageCount := tenant_smsUsageCount t + 1\<rparr>
      | F_VOICE \<Rightarrow> t\<lparr>tenant_voiceUsageCount := tenant_voiceUsageCount t + 1\<rparr>
      | F_WHATSAPP \<Rightarrow> t\<lparr>tenant_whatsappUsageCount := tenant_whatsappUsageCount t + 1\<rparr>
      | _ \<Rightarrow> t\<lparr>tenant_aiUsageCount := tenant_aiUsageCount t + 1\<rparr>)"

definition incrementUsage :: "uuid \<Rightarrow> FeatureType \<Rightarrow> unit act" where
  "incrementUsage tenantId feature = updateTenant tenantId (addUsage feature)"

definition logBlockedAttempt ::
  "instant \<Rightarrow> uuid \<Rightarrow> uuid option \<Rightarrow> FeatureType \<Rightarrow> string \<Rightarrow> unit act" where
  "logBlockedAttempt now tenantId userId feature why =
     audit_log (auditEntry tenantId userId ''CREATE'' ''BlockedAttempt'' tenantId
       [(''feature'', JStr (featureName feature)), (''reason'', JStr why),
        (''timestamp'', JDate now)])"

definition validateAndIncrement ::
  "instant \<Rightarrow> uuid \<Rightarrow> FeatureType \<Rightarrow> uuid option \<Rightarrow> UsageCheckResult act" where
  "validateAndIncrement now tenantId feature userId w =
     (case findTenant tenantId w of
        None \<Rightarrow> (Inl (ForbiddenException ''Tenant not found''), w)
      | Some t \<Rightarrow>
          (let statusCheck = checkSubscriptionAccess now t feature
           in if \<not> allowed statusCheck
              then thenA (logBlockedAttempt now tenantId userId feature (the (reason statusCheck)))
                     (throwA (ForbiddenException (the (reason statusCheck)))) w
              else let limitCheck = checkFeatureLimits w t feature
                   in if \<not> allowed limitCheck
                      then thenA (logBlockedAttempt now tenantId userId feature (the (reason limitCheck)))
                             (throwA (ForbiddenException (the (reason limitCheck)))) w
                      else thenA (incrementUsage tenantId feature)
                             (returnA (allow (case remaining limitCheck of
                                None \<Rightarrow> None
                              | Some n \<Rightarrow> if n = 0 then None else Some (n - 1)))) w))"

text \<open>\<open>getUsageStats\<close>: the dashboard's numbers; the trial days left round up and never go below 0.\<close>

definition trialDaysRemaining :: "instant \<Rightarrow> instant option \<Rightarrow> int" where
  "trialDaysRemaining now trialEnd =
     (case trialEnd of
        None \<Rightarrow> 0
      | Some e \<Rightarrow> max 0 (- ((now - e) div (1000 * 60 * 60 * 24))))"

record UsageStats =
  stats_plan :: PlanType
  stats_status :: SubscriptionStatus
  stats_trialActive :: bool
  stats_daysRemaining :: int
  stats_endsAt :: "instant option"
  stats_sms :: "int \<times> int option"
  stats_voice :: int
  stats_ai :: "int \<times> int"
  stats_whatsapp :: "int \<times> int"
  stats_contactsLimit :: int
  stats_eventsLimit :: int
  stats_workflowsLimit :: int

definition getUsageStats :: "instant \<Rightarrow> uuid \<Rightarrow> world \<Rightarrow> UsageStats outcome" where
  "getUsageStats now tenantId w =
     (case findTenant tenantId w of
        None \<Rightarrow> Inl (ForbiddenException ''Tenant not found'')
      | Some t \<Rightarrow> Inr \<lparr>
          stats_plan = tenant_planType t,
          stats_status = tenant_subscriptionStatus t,
          stats_trialActive = tenant_trialActive t,
          stats_daysRemaining = trialDaysRemaining now (tenant_trialEndDate t),
          stats_endsAt = tenant_trialEndDate t,
          stats_sms = (tenant_smsUsageCount t,
                       if tenant_trialActive t then Some (tenant_smsTrialLimit t) else None),
          stats_voice = tenant_voiceUsageCount t,
          stats_ai = (tenant_aiUsageCount t,
                      if tenant_trialActive t then tenant_aiTrialLimit t else tenant_aiMonthlyLimit t),
          stats_whatsapp = (tenant_whatsappUsageCount t, tenant_whatsappMonthlyLimit t),
          stats_contactsLimit = tenant_contactLimit t,
          stats_eventsLimit = tenant_eventLimit t,
          stats_workflowsLimit = tenant_workflowLimit t\<rparr>)"

section \<open>What the checks decide\<close>

text \<open>The counter of a feature and the cap that applies to it, if one does.\<close>

fun usage :: "FeatureType \<Rightarrow> tenant \<Rightarrow> int" where
  "usage F_SMS t = tenant_smsUsageCount t"
| "usage F_VOICE t = tenant_voiceUsageCount t"
| "usage F_WHATSAPP t = tenant_whatsappUsageCount t"
| "usage _ t = tenant_aiUsageCount t"

definition metered :: "FeatureType set" where
  "metered = {F_SMS, F_VOICE, F_AI, F_WHATSAPP}"

definition usageCap :: "FeatureType \<Rightarrow> tenant \<Rightarrow> int option" where
  "usageCap f t =
     (if tenant_trialActive t \<or> tenant_subscriptionStatus t = TRIALING
      then (if f = F_SMS then Some (tenant_smsTrialLimit t)
            else if f = F_AI then Some (tenant_aiTrialLimit t) else None)
      else (if f = F_SMS then Some (smsMonthlyLimit (getLimitsForPlan (planKey (tenant_planType t))))
            else if f = F_AI then Some (tenant_aiMonthlyLimit t)
            else if f = F_WHATSAPP then Some (tenant_whatsappMonthlyLimit t) else None))"

definition underCap :: "FeatureType \<Rightarrow> tenant \<Rightarrow> bool" where
  "underCap f t = (case usageCap f t of None \<Rightarrow> True | Some c \<Rightarrow> usage f t < c)"

lemma checkFeatureLimits_allowed:
  "f \<in> metered \<Longrightarrow> allowed (checkFeatureLimits w t f) \<longleftrightarrow> underCap f t"
  using smsMonthlyLimit_positive [of "tenant_planType t"]
  by (cases f) (auto simp: metered_def checkFeatureLimits_def checkTrialLimits_def monthlyCheck_def
      underCap_def usageCap_def PLAN_LIMITS_planKey Let_def)

lemma checkFeatureLimits_remaining:
  "f \<in> metered \<Longrightarrow> underCap f t \<Longrightarrow>
     remaining (checkFeatureLimits w t f) = map_option (\<lambda>c. c - usage f t) (usageCap f t)"
  using smsMonthlyLimit_positive [of "tenant_planType t"]
  by (cases f) (auto simp: metered_def checkFeatureLimits_def checkTrialLimits_def monthlyCheck_def
      underCap_def usageCap_def PLAN_LIMITS_planKey Let_def split: if_splits)

lemma checkFeatureLimits_frame: "w_contacts v = w_contacts w \<Longrightarrow> w_events v = w_events w \<Longrightarrow>
    w_workflows v = w_workflows w \<Longrightarrow> checkFeatureLimits v t f = checkFeatureLimits w t f"
proof -
  assume a: "w_contacts v = w_contacts w" "w_events v = w_events w" "w_workflows v = w_workflows w"
  have "checkTotalCount v t m = checkTotalCount w t m" for m
    using a by (cases m) (simp_all add: checkTotalCount_def)
  then show ?thesis
    by (cases f) (simp_all add: checkFeatureLimits_def)
qed

lemma addUsage_keeps [simp]:
  "tenant_id (addUsage f t) = tenant_id t"
  "tenant_trialActive (addUsage f t) = tenant_trialActive t"
  "tenant_subscriptionStatus (addUsage f t) = tenant_subscriptionStatus t"
  "tenant_planType (addUsage f t) = tenant_planType t"
  "tenant_trialEndDate (addUsage f t) = tenant_trialEndDate t"
  "usageCap g (addUsage f t) = usageCap g t"
  "checkSubscriptionAccess now (addUsage f t) g = checkSubscriptionAccess now t g"
  by (cases f; simp add: addUsage_def usageCap_def checkSubscriptionAccess_def trialExpired_def
      checkPlanAccess_def cong: FeatureType.case_cong)+

lemma usage_addUsage: "f \<in> metered \<Longrightarrow> g \<in> metered \<Longrightarrow>
    usage g (addUsage f t) = usage g t + (if f = g then 1 else 0)"
  by (cases f; cases g) (auto simp: metered_def addUsage_def)

text \<open>A successful call, taken apart: who was found, that both checks passed, and the write.\<close>

lemma validateAndIncrement_okD:
  assumes "validateAndIncrement now t f u w = (Inr r, w')"
  obtains tn where "findTenant t w = Some tn" "allowed (checkSubscriptionAccess now tn f)"
    "allowed (checkFeatureLimits w tn f)"
    "w' = putTenants (update_where (\<lambda>r. tenant_id r = t) (addUsage f) (w_tenants w)) w"
    "r = allow (case remaining (checkFeatureLimits w tn f) of
                  None \<Rightarrow> None | Some n \<Rightarrow> if n = 0 then None else Some (n - 1))"
  using assms
  by (auto simp: validateAndIncrement_def incrementUsage_def logBlockedAttempt_def Let_def
        findTenant_exists split: option.splits if_splits)

lemma validateAndIncrement_blockedD:
  assumes "validateAndIncrement now t f u w = (Inl e, w')"
  shows "(findTenant t w = None \<and> w' = w \<and> e = ForbiddenException ''Tenant not found'') \<or>
    (\<exists>why. findTenant t w \<noteq> None \<and> e = ForbiddenException why \<and>
       w' = snd (logBlockedAttempt now t u f why w))"
  using assms
  by (auto simp: validateAndIncrement_def incrementUsage_def logBlockedAttempt_def Let_def
        findTenant_exists split: option.splits if_splits)

lemma validateAndIncrement_ok_iff:
  "is_ok (fst (validateAndIncrement now t f u w)) = allowed (validate now t f w)"
  by (simp add: validateAndIncrement_def validate_def incrementUsage_def logBlockedAttempt_def
        Let_def findTenant_exists split: option.splits)

end
