(* ===== verification/Quota.thy ===== *)
theory Quota
  imports Prelude
begin

text \<open>
  The contract of a counted resource: an attempt is granted exactly while the counter is below
  its cap, and a granted attempt counts one. The plan's usage counters and the Redis rate limiter
  both keep it; what it gives is how a whole run of attempts is answered.
\<close>

fun attempts :: "('e \<Rightarrow> 's \<Rightarrow> bool \<times> 's) \<Rightarrow> 'e list \<Rightarrow> 's \<Rightarrow> bool list \<times> 's" where
  "attempts f [] s = ([], s)"
| "attempts f (e # es) s =
     (let (b, s') = f e s; (bs, s'') = attempts f es s' in (b # bs, s''))"

lemma count_list_replicate: "count_list (replicate n x) y = (if x = y then n else 0)"
  by (induction n) auto

locale quota =
  fixes attempt :: "'e \<Rightarrow> 's \<Rightarrow> bool \<times> 's"
    and used :: "'s \<Rightarrow> int"
    and cap :: "'s \<Rightarrow> int"
    and inv :: "'s \<Rightarrow> bool"
    and ok :: "'e \<Rightarrow> bool"
  assumes inv_attempt: "inv s \<Longrightarrow> ok e \<Longrightarrow> inv (snd (attempt e s))"
    and cap_attempt: "inv s \<Longrightarrow> ok e \<Longrightarrow> cap (snd (attempt e s)) = cap s"
    and granted_iff: "inv s \<Longrightarrow> ok e \<Longrightarrow> fst (attempt e s) \<longleftrightarrow> used s < cap s"
    and used_attempt: "inv s \<Longrightarrow> ok e \<Longrightarrow>
          used (snd (attempt e s)) = used s + (if used s < cap s then 1 else 0)"
begin

lemma run_answers:
  assumes "inv s" and "\<forall>e \<in> set es. ok e"
  shows "fst (attempts attempt es s) =
           replicate (min (length es) (nat (cap s - used s))) True @
           replicate (length es - nat (cap s - used s)) False"
  using assms
proof (induction es arbitrary: s)
  case Nil
  then show ?case by simp
next
  case (Cons e es)
  let ?s' = "snd (attempt e s)"
  have inv': "inv ?s'" and cap': "cap ?s' = cap s"
    and grant: "fst (attempt e s) = (used s < cap s)"
    and used': "used ?s' = used s + (if used s < cap s then 1 else 0)"
    using Cons.prems inv_attempt cap_attempt granted_iff used_attempt by simp_all
  have IH: "fst (attempts attempt es ?s') =
      replicate (min (length es) (nat (cap ?s' - used ?s'))) True @
      replicate (length es - nat (cap ?s' - used ?s')) False"
    using Cons.IH [OF inv'] Cons.prems by simp
  show ?case
  proof (cases "used s < cap s")
    case True
    then obtain k where k: "nat (cap s - used s) = Suc k" "nat (cap ?s' - used ?s') = k"
      using used' cap' by (cases "nat (cap s - used s)") auto
    show ?thesis using IH grant True k by (simp add: case_prod_beta Let_def)
  next
    case False
    then show ?thesis using IH grant used' cap' by (simp add: case_prod_beta Let_def)
  qed
qed

lemma run_used:
  assumes "inv s" and "\<forall>e \<in> set es. ok e"
  shows "used (snd (attempts attempt es s)) =
           used s + int (min (length es) (nat (cap s - used s)))"
  using assms
proof (induction es arbitrary: s)
  case (Cons e es)
  let ?s' = "snd (attempt e s)"
  have "used (snd (attempts attempt es ?s')) =
          used ?s' + int (min (length es) (nat (cap ?s' - used ?s')))"
    using Cons by (simp add: inv_attempt)
  then show ?case
    using Cons.prems cap_attempt [of s e] used_attempt [of s e]
    by (auto simp: case_prod_beta Let_def min_def)
qed simp

lemma granted_at_most:
  assumes "inv s" and "\<forall>e \<in> set es. ok e"
  shows "count_list (fst (attempts attempt es s)) True = min (length es) (nat (cap s - used s))"
  by (simp add: run_answers [OF assms] count_list_append count_list_replicate)

end

end
