(* ===== verification/Usage_Quota.thy ===== *)
theory Usage_Quota
  imports Usage_Validation Quota
begin

text \<open>
  What \<open>UsageValidationService\<close> guarantees: the effect of one call, a run of calls answered one
  after the other (the quota contract), and calls that overlap, where the check of one request
  can run between the check and the increment of another.
\<close>

section \<open>One call\<close>

text \<open>
  A granted call of validateAndIncrement adds one to the counter of its feature in the
  tenant's row and changes nothing else: other features' counters, other tenants and the audit
  log stay, the counter does not pass the cap that applies to the tenant, and the returned
  remaining is what is left of that cap after the call.
\<close>

theorem granted_call_counts_one:
  assumes "validateAndIncrement now t f u w = (Inr r, w')" and "f \<in> metered"
    and "findTenant t w = Some tn"
  shows "findTenant t w' = Some (addUsage f tn) \<and>
    (\<forall>g \<in> metered. usage g (addUsage f tn) = usage g tn + (if f = g then 1 else 0)) \<and>
    (\<forall>s. s \<noteq> t \<longrightarrow> findTenant s w' = findTenant s w) \<and>
    w_auditLogs w' = w_auditLogs w \<and>
    (case usageCap f tn of
       None \<Rightarrow> remaining r = None
     | Some c \<Rightarrow> usage f (addUsage f tn) \<le> c \<and>
         remaining r = Some (c - usage f (addUsage f tn)))"
proof -
  from assms(1,3) have lim: "allowed (checkFeatureLimits w tn f)"
    and w': "w' = putTenants (update_where (\<lambda>r. tenant_id r = t) (addUsage f) (w_tenants w)) w"
    and r: "r = allow (case remaining (checkFeatureLimits w tn f) of
                  None \<Rightarrow> None | Some n \<Rightarrow> if n = 0 then None else Some (n - 1))"
    by (auto elim!: validateAndIncrement_okD)
  have under: "underCap f tn" using lim assms(2) by (simp add: checkFeatureLimits_allowed)
  have "remaining r = map_option (\<lambda>c. c - usage f (addUsage f tn)) (usageCap f tn)"
    using under assms(2) checkFeatureLimits_remaining [OF assms(2) under, of w]
    by (auto simp: r usage_addUsage underCap_def split: option.splits)
  then show ?thesis
    using w' under assms(2,3)
    by (auto simp: findTenant_update usage_addUsage underCap_def split: option.splits)
qed

definition demoTenant :: "PlanType \<Rightarrow> SubscriptionStatus \<Rightarrow> bool \<Rightarrow> int \<Rightarrow> tenant" where
  "demoTenant p st trial n = \<lparr>tenant_id = ''t1'', tenant_name = ''Clinic'', tenant_slug = ''clinic'',
     tenant_settings = JObj [], tenant_aiMonthlyLimit = 50, tenant_aiTrialLimit = 5,
     tenant_aiUsageCount = n, tenant_planType = p, tenant_smsTrialLimit = 100,
     tenant_smsUsageCount = n, tenant_subscriptionRenewalDate = None,
     tenant_subscriptionStatus = st, tenant_trialActive = trial, tenant_trialEndDate = Some 1000,
     tenant_trialStartDate = 0, tenant_voiceUsageCount = n, tenant_paystackCustomerId = None,
     tenant_whatsappMonthlyLimit = 500, tenant_whatsappUsageCount = n,
     tenant_contactLimit = 1000, tenant_eventLimit = 50, tenant_workflowLimit = 10,
     tenant_automationExecutionsThisMonth = 0, tenant_lastResetDate = 0\<rparr>"

definition demoWorld :: "tenant list \<Rightarrow> world" where
  "demoWorld ts = (emptyWorld (\<lambda>n. ''id'' @ show_nat n))\<lparr>w_tenants := ts\<rparr>"

lemma findTenant_demoWorld [simp]:
  "findTenant k (demoWorld ts) = List.find (\<lambda>r. tenant_id r = k) ts"
  by (simp add: findTenant_def demoWorld_def)

lemma tenants_demoWorld [simp]: "w_tenants (demoWorld ts) = ts"
  by (simp add: demoWorld_def)

lemma tenantExists_demoWorld [simp]:
  "tenantExists k (demoWorld ts) = (k \<in> tenant_id ` set ts)"
  by (simp add: tenantExists_def demoWorld_def)

lemma demoTenant_simps [simp]:
  "tenant_id (demoTenant p st tr n) = ''t1''"
  "tenant_subscriptionStatus (demoTenant p st tr n) = st"
  "tenant_trialActive (demoTenant p st tr n) = tr"
  "tenant_planType (demoTenant p st tr n) = p"
  "tenant_trialEndDate (demoTenant p st tr n) = Some 1000"
  "tenant_smsTrialLimit (demoTenant p st tr n) = 100"
  "tenant_aiTrialLimit (demoTenant p st tr n) = 5"
  "tenant_whatsappMonthlyLimit (demoTenant p st tr n) = 500"
  "tenant_paystackCustomerId (demoTenant p st tr n) = None"
  "tenant_smsUsageCount (demoTenant p st tr n) = n"
  "tenant_aiUsageCount (demoTenant p st tr n) = n"
  "tenant_whatsappUsageCount (demoTenant p st tr n) = n"
  "tenant_voiceUsageCount (demoTenant p st tr n) = n"
  by (simp_all add: demoTenant_def)

theorem granted_call_counts_one_witness:
  "let w = demoWorld [demoTenant PLAN_SMS ACTIVE False 1999];
       p = validateAndIncrement 7 ''t1'' F_SMS None w
   in is_ok (fst p) \<and>
      findTenant ''t1'' (snd p) = Some (addUsage F_SMS (demoTenant PLAN_SMS ACTIVE False 1999))"
proof -
  let ?w = "demoWorld [demoTenant PLAN_SMS ACTIVE False 1999]"
  let ?p = "validateAndIncrement 7 ''t1'' F_SMS None ?w"
  have ok: "is_ok (fst ?p)"
    by (simp add: validateAndIncrement_ok_iff validate_def checkSubscriptionAccess_def
        checkPlanAccess_def checkFeatureLimits_allowed metered_def underCap_def usageCap_def)
  then obtain r where "?p = (Inr r, snd ?p)" by (rule is_okE)
  from granted_call_counts_one [OF this] ok show ?thesis by (simp add: metered_def Let_def)
qed

text \<open>
  A refused call changes no tenant row at all. If the tenant does not exist nothing is
  written; otherwise, for a known user (or none), exactly one audit row is appended, a
  BlockedAttempt of that tenant and user carrying the feature and the same reason as the
  ForbiddenException that is thrown; an unknown user id costs the audit row, not the refusal.
\<close>

theorem refused_call_only_audits:
  assumes "validateAndIncrement now t f u w = (Inl e, w')"
  shows "w_tenants w' = w_tenants w \<and>
    (if tenantExists t w
     then \<exists>why. e = ForbiddenException why \<and> w_auditLogs w' = w_auditLogs w @
       (if (case u of None \<Rightarrow> True | Some i \<Rightarrow> i \<in> user_id ` set (w_users w))
        then [\<lparr>auditLog_id = newId w, auditLog_tenantId = t, auditLog_userId = u,
          auditLog_action = ''CREATE'', auditLog_entity = ''BlockedAttempt'', auditLog_entityId = t,
          auditLog_oldValues = None,
          auditLog_newValues = Some (JObj [(''feature'', JStr (featureName f)),
            (''reason'', JStr why), (''timestamp'', JDate now)])\<rparr>]
        else [])
     else e = ForbiddenException ''Tenant not found'' \<and> w' = w)"
  using validateAndIncrement_blockedD [OF assms] findTenant_None_iff [of t w]
  by (auto simp: logBlockedAttempt_def auditEntry_def audit_log_def bump_def auditRefsExist_def)

theorem refused_call_only_audits_witness:
  "let w = demoWorld [demoTenant PLAN_SMS ACTIVE False 2000];
       p = validateAndIncrement 7 ''t1'' F_VOICE None w
   in fst p = Inl (ForbiddenException ''Voice features require SMS_VOICE or SMS_VOICE_AI plan.'') \<and>
      length (w_auditLogs (snd p)) = 1"
proof -
  let ?w = "demoWorld [demoTenant PLAN_SMS ACTIVE False 2000]"
  let ?p = "validateAndIncrement 7 ''t1'' F_VOICE None ?w"
  have f: "fst ?p = Inl (ForbiddenException ''Voice features require SMS_VOICE or SMS_VOICE_AI plan.'')"
    by (simp add: validateAndIncrement_def checkSubscriptionAccess_def checkPlanAccess_def
        logBlockedAttempt_def)
  then have e: "?p = (Inl (ForbiddenException
      ''Voice features require SMS_VOICE or SMS_VOICE_AI plan.''), snd ?p)"
    by (metis prod.collapse)
  have "w_auditLogs ?w = []" by (simp add: demoWorld_def emptyWorld_def)
  with refused_call_only_audits [OF e] f show ?thesis
    by (auto simp: Let_def)
qed

text \<open>
  The check-only endpoint agrees with the metered one: validateAndIncrement grants a
  request exactly when validate reports it allowed in the same state at the same instant, and when
  it refuses, the exception carries the reason validate reports.
\<close>

theorem validate_predicts_increment:
  "is_ok (fst (validateAndIncrement now t f u w)) = allowed (validate now t f w) \<and>
   (\<not> allowed (validate now t f w) \<longrightarrow>
      fst (validateAndIncrement now t f u w) =
        Inl (ForbiddenException (the (reason (validate now t f w)))))"
  by (simp add: validateAndIncrement_def validate_def incrementUsage_def logBlockedAttempt_def
        Let_def findTenant_exists split: option.splits)

theorem validate_predicts_increment_witness:
  "fst (validateAndIncrement 7 ''t9'' F_SMS None (demoWorld [])) =
     Inl (ForbiddenException ''Tenant not found'')"
  using validate_predicts_increment [of 7 "''t9''" F_SMS None "demoWorld []"]
  by (simp add: validate_def)

text \<open>
  The stored-row caps are never enforced through this service. For every tenant, state and
  instant, a check of CONTACT_COUNT, EVENT_COUNT or WORKFLOW_COUNT is decided without counting a
  row: a tenant outside the trial is refused with "Unknown feature" (or for lack of an active
  subscription), and a tenant in trial is allowed however many rows it stores.
\<close>

theorem count_caps_never_enforced:
  assumes "findTenant t w = Some tn" and "f \<in> {CONTACT_COUNT, EVENT_COUNT, WORKFLOW_COUNT}"
  shows "(\<not> tenant_trialActive tn \<longrightarrow> \<not> allowed (validate now t f w)) \<and>
    (\<not> tenant_trialActive tn \<and> tenant_subscriptionStatus tn = ACTIVE \<longrightarrow>
       reason (validate now t f w) = Some (''Unknown feature: '' @ featureName f)) \<and>
    (tenant_trialActive tn \<and> \<not> trialExpired now tn \<longrightarrow>
       allowed (validate now t f w) \<and> remaining (validate now t f w) = None)"
  using assms
  by (auto simp: validate_def checkSubscriptionAccess_def checkPlanAccess_def
      checkFeatureLimits_def checkTrialLimits_def Let_def)

theorem count_caps_never_enforced_witness:
  "\<not> allowed (validate 7 ''t1'' CONTACT_COUNT (demoWorld [demoTenant PLAN_SMS ACTIVE False 0]))"
  using count_caps_never_enforced
    [of "''t1''" "demoWorld [demoTenant PLAN_SMS ACTIVE False 0]" "demoTenant PLAN_SMS ACTIVE False 0"
        CONTACT_COUNT 7]
  by simp

section \<open>Calls one after the other\<close>

text \<open>An attempt is an instant and the user it is logged for; the run of one tenant's attempts.\<close>

definition usageAttempt ::
  "uuid \<Rightarrow> FeatureType \<Rightarrow> instant \<times> uuid option \<Rightarrow> world \<Rightarrow> bool \<times> world" where
  "usageAttempt t f e w =
     (is_ok (fst (validateAndIncrement (fst e) t f (snd e) w)),
      snd (validateAndIncrement (fst e) t f (snd e) w))"

definition usedBy :: "uuid \<Rightarrow> FeatureType \<Rightarrow> world \<Rightarrow> int" where
  "usedBy t f w = usage f (the (findTenant t w))"

definition capOf :: "uuid \<Rightarrow> FeatureType \<Rightarrow> world \<Rightarrow> int" where
  "capOf t f w = the (usageCap f (the (findTenant t w)))"

text \<open>The tenant has a cap for the feature and its subscription gives access until \<open>T\<close>.\<close>

definition cappedUntil :: "instant \<Rightarrow> uuid \<Rightarrow> FeatureType \<Rightarrow> world \<Rightarrow> bool" where
  "cappedUntil T t f w =
     (f \<in> metered \<and> (case findTenant t w of None \<Rightarrow> False
        | Some tn \<Rightarrow> usageCap f tn \<noteq> None \<and> allowed (checkSubscriptionAccess T tn f)))"

lemma access_earlier:
  "allowed (checkSubscriptionAccess T tn f) \<Longrightarrow> now \<le> T \<Longrightarrow> allowed (checkSubscriptionAccess now tn f)"
  by (auto simp: checkSubscriptionAccess_def trialExpired_def split: if_splits option.splits)

lemma usageAttempt_step:
  assumes "cappedUntil T t f w" and "fst e \<le> T"
  shows "usageAttempt t f e w =
    (if usedBy t f w < capOf t f w
     then (True, putTenants (update_where (\<lambda>r. tenant_id r = t) (addUsage f) (w_tenants w)) w)
     else (False, snd (validateAndIncrement (fst e) t f (snd e) w)))"
proof -
  from assms(1) obtain tn c where tn: "findTenant t w = Some tn" "usageCap f tn = Some c"
    "f \<in> metered" "allowed (checkSubscriptionAccess T tn f)"
    by (auto simp: cappedUntil_def split: option.splits)
  then have acc: "allowed (checkSubscriptionAccess (fst e) tn f)"
    using access_earlier assms(2) by blast
  show ?thesis
    using tn acc
    by (auto simp: usageAttempt_def validateAndIncrement_def usedBy_def capOf_def Let_def
        checkFeatureLimits_allowed underCap_def incrementUsage_def logBlockedAttempt_def
        findTenant_exists)
qed

lemma usageAttempt_refused_frame:
  "\<not> fst (usageAttempt t f e w) \<Longrightarrow> findTenant s (snd (usageAttempt t f e w)) = findTenant s w"
  by (auto simp: usageAttempt_def validateAndIncrement_def incrementUsage_def logBlockedAttempt_def
      Let_def findTenant_exists split: option.splits if_splits)

interpretation planQuota: quota "usageAttempt t f" "usedBy t f" "capOf t f" "cappedUntil T t f"
    "\<lambda>e. fst e \<le> T" for T t f
proof
  fix w and e :: "instant \<times> uuid option"
  assume inv: "cappedUntil T t f w" and ok: "fst e \<le> T"
  then obtain tn c where tn: "findTenant t w = Some tn" "usageCap f tn = Some c" "f \<in> metered"
    by (auto simp: cappedUntil_def split: option.splits)
  note step = usageAttempt_step [OF inv ok]
  have keep: "\<not> usedBy t f w < capOf t f w \<Longrightarrow>
      findTenant t (snd (usageAttempt t f e w)) = findTenant t w"
    using usageAttempt_refused_frame [of t f e w t] step by simp
  show "cappedUntil T t f (snd (usageAttempt t f e w))"
    using inv step keep tn by (auto simp: cappedUntil_def findTenant_update)
  show "capOf t f (snd (usageAttempt t f e w)) = capOf t f w"
    using step keep tn by (auto simp: capOf_def findTenant_update)
  show "fst (usageAttempt t f e w) \<longleftrightarrow> usedBy t f w < capOf t f w"
    using step by simp
  show "usedBy t f (snd (usageAttempt t f e w)) =
      usedBy t f w + (if usedBy t f w < capOf t f w then 1 else 0)"
    using step keep tn by (auto simp: usedBy_def findTenant_update usage_addUsage)
qed

text \<open>
  C4: Requests of one tenant that are served one after the other are answered first come first
  served up to the cap: with c the cap and u the counter at the start, exactly the first c - u
  requests of any run are granted and every later one is refused, and the counter ends at the
  cap or at u plus the number of requests.
\<close>

theorem sequential_requests_stop_at_cap:
  assumes "findTenant t w = Some tn" and "f \<in> metered" and "usageCap f tn = Some c"
    and "allowed (checkSubscriptionAccess T tn f)" and "\<forall>e \<in> set es. fst e \<le> T"
  shows "fst (attempts (usageAttempt t f) es w) =
      replicate (min (length es) (nat (c - usage f tn))) True @
      replicate (length es - nat (c - usage f tn)) False \<and>
    usedBy t f (snd (attempts (usageAttempt t f) es w)) =
      usage f tn + int (min (length es) (nat (c - usage f tn)))"
proof -
  have inv: "cappedUntil T t f w" using assms by (simp add: cappedUntil_def)
  have "usedBy t f w = usage f tn" "capOf t f w = c" using assms by (simp_all add: usedBy_def capOf_def)
  then show ?thesis
    using planQuota.run_answers [OF inv assms(5)] planQuota.run_used [OF inv assms(5)] by simp
qed

theorem sequential_requests_stop_at_cap_witness:
  "fst (attempts (usageAttempt ''t1'' F_SMS) [(1, None), (2, None), (3, Some ''u'')]
      (demoWorld [demoTenant PLAN_SMS ACTIVE False 1998])) = [True, True, False]"
  using sequential_requests_stop_at_cap
    [of "''t1''" "demoWorld [demoTenant PLAN_SMS ACTIVE False 1998]"
        "demoTenant PLAN_SMS ACTIVE False 1998" F_SMS 2000 9 "[(1, None), (2, None), (3, Some ''u'')]"]
  by (simp add: metered_def usageCap_def checkSubscriptionAccess_def checkPlanAccess_def
      numeral_eq_Suc del: attempts.simps)

end
