(* ===== verification/Usage_Race.thy ===== *)
theory Usage_Race
  imports Usage_Quota
begin

text \<open>
  \<open>validateAndIncrement\<close> reads the tenant, checks, and then increments in a second database
  call. Requests that are served at the same time interleave at that point: here one step is
  either the check of a request or the increment of a request whose check passed. \<open>n\<close> bounds how
  many requests are in flight at once; the pair is the state and how many of them have passed
  their check and not yet incremented.
\<close>

inductive usage_step :: "uuid \<Rightarrow> FeatureType \<Rightarrow> nat \<Rightarrow> world \<times> nat \<Rightarrow> world \<times> nat \<Rightarrow> bool"
  for t f n where
  check: "allowed (validate now t f w) \<Longrightarrow> k < n \<Longrightarrow> usage_step t f n (w, k) (w, Suc k)"
| increment: "incrementUsage t f w = (Inr (), w') \<Longrightarrow> usage_step t f n (w, Suc k) (w', k)"

inductive_cases usage_stepE: "usage_step t f n (w, k) s"

inductive_simps usage_step_zero: "usage_step t f n (w, 0) s"

text \<open>A check directly followed by its increment is the sequential call.\<close>

lemma sequential_is_check_then_increment:
  assumes "allowed (validate now t f w)" and "0 < n"
  shows "(usage_step t f n)\<^sup>*\<^sup>* (w, 0) (snd (validateAndIncrement now t f u w), 0)"
proof -
  obtain r where "validateAndIncrement now t f u w = (Inr r, snd (validateAndIncrement now t f u w))"
    using assms(1) validateAndIncrement_ok_iff [of now t f u w] by (metis is_okE)
  then have inc: "incrementUsage t f w = (Inr (), snd (validateAndIncrement now t f u w))"
    by (elim validateAndIncrement_okD) (simp add: incrementUsage_def findTenant_exists)
  have "usage_step t f n (w, 0) (w, Suc 0)" by (rule check [OF assms])
  with increment [OF inc, of n 0] show ?thesis by (meson converse_rtranclp_into_rtranclp rtranclp.rtrancl_refl)
qed

definition raceInv :: "uuid \<Rightarrow> FeatureType \<Rightarrow> nat \<Rightarrow> int \<Rightarrow> int \<Rightarrow> world \<times> nat \<Rightarrow> bool" where
  "raceInv t f n c B s =
     (snd s \<le> n \<and> (case findTenant t (fst s) of None \<Rightarrow> False
        | Some tn \<Rightarrow> usageCap f tn = Some c \<and> usage f tn + int (snd s) \<le> B))"

lemma usage_step_raceInv:
  assumes "usage_step t f n s s'" and "f \<in> metered" and "raceInv t f n c B s" and "c - 1 + int n \<le> B"
  shows "raceInv t f n c B s'"
  using assms
proof (cases rule: usage_step.cases)
  case (check now w k)
  with assms obtain tn where tn: "findTenant t w = Some tn" "usageCap f tn = Some c"
    by (auto simp: raceInv_def split: option.splits)
  with check(3) assms(2) have "usage f tn < c"
    by (auto simp: validate_def Let_def checkFeatureLimits_allowed underCap_def split: if_splits)
  with check assms(4) tn show ?thesis by (auto simp: raceInv_def)
next
  case (increment w w' k)
  with assms obtain tn where tn: "findTenant t w = Some tn" "usageCap f tn = Some c"
    "usage f tn + int (Suc k) \<le> B" "Suc k \<le> n"
    by (auto simp: raceInv_def split: option.splits)
  with increment(3) have "w' = putTenants (update_where (\<lambda>r. tenant_id r = t) (addUsage f) (w_tenants w)) w"
    by (simp add: incrementUsage_def findTenant_exists)
  with tn increment(2) assms(2) show ?thesis by (auto simp: raceInv_def findTenant_update usage_addUsage)
qed

lemma usage_steps_raceInv:
  assumes "(usage_step t f n)\<^sup>*\<^sup>* s s'" and "f \<in> metered" and "raceInv t f n c B s"
    and "c - 1 + int n \<le> B"
  shows "raceInv t f n c B s'"
  using assms by (induction rule: rtranclp_induct) (auto intro: usage_step_raceInv)

text \<open>
  With at most n requests of a tenant in flight at once, its counter never passes
  c - 1 + n (or the value it started from, if that was higher), where c is the cap: overlapping
  requests can overshoot the cap by at most n - 1, and with n = 1 not at all.
\<close>

theorem overlapping_requests_bound:
  assumes "findTenant t w = Some tn" and "f \<in> metered" and "usageCap f tn = Some c"
    and "(usage_step t f n)\<^sup>*\<^sup>* (w, 0) (w', k)"
  shows "\<exists>tn'. findTenant t w' = Some tn' \<and> usageCap f tn' = Some c \<and>
    usage f tn' + int k \<le> max (usage f tn) (c - 1 + int n)"
proof -
  have "raceInv t f n c (max (usage f tn) (c - 1 + int n)) (w, 0)"
    using assms by (simp add: raceInv_def)
  then have "raceInv t f n c (max (usage f tn) (c - 1 + int n)) (w', k)"
    using usage_steps_raceInv [OF assms(4,2)] by simp
  then show ?thesis by (auto simp: raceInv_def split: option.splits)
qed

lemma checks_pass_together:
  assumes "allowed (validate now t f w)" and "j \<le> n"
  shows "(usage_step t f n)\<^sup>*\<^sup>* (w, 0) (w, j)"
  using assms(2)
proof (induction j)
  case (Suc j)
  then have "(usage_step t f n)\<^sup>*\<^sup>* (w, 0) (w, j)" by simp
  moreover have "usage_step t f n (w, j) (w, Suc j)"
    using Suc.prems check [OF assms(1)] by simp
  ultimately show ?case by (rule rtranclp.rtrancl_into_rtrancl)
qed simp

lemma increments_drain:
  assumes "findTenant t w = Some tn" and "f \<in> metered"
  shows "\<exists>w' tn'. (usage_step t f n)\<^sup>*\<^sup>* (w, k) (w', 0) \<and> findTenant t w' = Some tn' \<and>
    usage f tn' = usage f tn + int k"
  using assms
proof (induction k arbitrary: w tn)
  case 0
  then show ?case by auto
next
  case (Suc k)
  let ?w = "putTenants (update_where (\<lambda>r. tenant_id r = t) (addUsage f) (w_tenants w)) w"
  have "usage_step t f n (w, Suc k) (?w, k)"
    by (rule increment) (use Suc.prems in \<open>simp add: incrementUsage_def findTenant_exists\<close>)
  moreover have "findTenant t ?w = Some (addUsage f tn)"
    using Suc.prems by (simp add: findTenant_update)
  with Suc obtain w' tn' where "(usage_step t f n)\<^sup>*\<^sup>* (?w, k) (w', 0)" "findTenant t w' = Some tn'"
    "usage f tn' = usage f (addUsage f tn) + int k" by blast
  ultimately show ?case
    using Suc.prems(2) by (auto simp: usage_addUsage intro: converse_rtranclp_into_rtranclp)
qed

text \<open>
  The bound on overlapping requests is attained, so the cap is not a cap under
  concurrency: when a tenant with access has one unit left, n requests in flight at once can all
  pass their check and leave the counter at c - 1 + n, which is above the cap c for n = 2 or more.
\<close>

theorem overlapping_requests_overshoot:
  assumes "findTenant t w = Some tn" and "f \<in> metered" and "usageCap f tn = Some c"
    and "usage f tn = c - 1" and "allowed (checkSubscriptionAccess now tn f)"
  shows "\<exists>w' tn'. (usage_step t f n)\<^sup>*\<^sup>* (w, 0) (w', 0) \<and> findTenant t w' = Some tn' \<and>
    usage f tn' = c - 1 + int n"
proof -
  have "allowed (validate now t f w)"
    using assms by (simp add: validate_def checkFeatureLimits_allowed underCap_def)
  then have "(usage_step t f n)\<^sup>*\<^sup>* (w, 0) (w, n)" by (rule checks_pass_together) simp
  with increments_drain [OF assms(1,2), of n n] assms(4) show ?thesis
    by (metis (no_types, lifting) rtranclp_trans)
qed

theorem overlapping_requests_overshoot_witness:
  "\<exists>w' tn'. (usage_step ''t1'' F_SMS 3)\<^sup>*\<^sup>* (demoWorld [demoTenant PLAN_SMS ACTIVE False 1999], 0) (w', 0) \<and>
     findTenant ''t1'' w' = Some tn' \<and> usage F_SMS tn' = 2002"
  using overlapping_requests_overshoot
    [of "''t1''" "demoWorld [demoTenant PLAN_SMS ACTIVE False 1999]" "demoTenant PLAN_SMS ACTIVE False 1999"
        F_SMS 2000 7 3]
  by (simp add: metered_def usageCap_def checkSubscriptionAccess_def checkPlanAccess_def)

theorem overlapping_requests_bound_witness:
  "\<exists>tn'. findTenant ''t1'' (demoWorld [demoTenant PLAN_SMS ACTIVE False 1999]) = Some tn' \<and>
     usage F_SMS tn' + 1 \<le> 2000"
proof -
  let ?w = "demoWorld [demoTenant PLAN_SMS ACTIVE False 1999]"
  have "allowed (validate 7 ''t1'' F_SMS ?w)"
    by (simp add: validate_def checkSubscriptionAccess_def checkPlanAccess_def
        checkFeatureLimits_allowed metered_def underCap_def usageCap_def)
  then have "usage_step ''t1'' F_SMS 1 (?w, 0) (?w, 1)"
    using check [of 7 "''t1''" F_SMS ?w 0 1] by simp
  then have "(usage_step ''t1'' F_SMS 1)\<^sup>*\<^sup>* (?w, 0) (?w, 1)" by simp
  from overlapping_requests_bound [OF _ _ _ this, of "demoTenant PLAN_SMS ACTIVE False 1999" 2000]
  show ?thesis by (simp add: metered_def usageCap_def)
qed

end
