(* ===== verification/Redis_Counters.thy ===== *)
theory Redis_Counters
  imports Store Quota
begin

text \<open>
  The Redis commands the services use on counters, over the \<open>w_redis\<close> part of the state: a
  counter with the instant it expires at. An expired key reads as absent. On top of them the
  fixed-window counter both \<open>RateLimitService.enforceWindow\<close> and
  \<open>AutomationExecutionTracker.trackExecution\<close> are written with: INCR, and EXPIRE on the first
  increment.
\<close>

definition redisLive :: "instant \<Rightarrow> string \<Rightarrow> world \<Rightarrow> (int \<times> instant option) option" where
  "redisLive now key w =
     (case w_redis w key of
        None \<Rightarrow> None
      | Some (n, None) \<Rightarrow> Some (n, None)
      | Some (n, Some e) \<Rightarrow> if now < e then Some (n, Some e) else None)"

definition redisGet :: "instant \<Rightarrow> string \<Rightarrow> world \<Rightarrow> int option" where
  "redisGet now key w = map_option fst (redisLive now key w)"

definition redisIncr :: "instant \<Rightarrow> string \<Rightarrow> world \<Rightarrow> int \<times> world" where
  "redisIncr now key w =
     (case redisLive now key w of
        None \<Rightarrow> (1, w\<lparr>w_redis := (w_redis w)(key := Some (1, None))\<rparr>)
      | Some (n, e) \<Rightarrow> (n + 1, w\<lparr>w_redis := (w_redis w)(key := Some (n + 1, e))\<rparr>))"

definition redisExpire :: "instant \<Rightarrow> string \<Rightarrow> int \<Rightarrow> world \<Rightarrow> world" where
  "redisExpire now key seconds w =
     (case redisLive now key w of
        None \<Rightarrow> w
      | Some (n, _) \<Rightarrow> w\<lparr>w_redis := (w_redis w)(key := Some (n, Some (now + seconds * 1000)))\<rparr>)"

text \<open>TTL: -2 without a key, -1 without an expiry, else the seconds left, rounded as Redis does.\<close>

definition redisTtl :: "instant \<Rightarrow> string \<Rightarrow> world \<Rightarrow> int" where
  "redisTtl now key w =
     (case redisLive now key w of
        None \<Rightarrow> - 2
      | Some (n, None) \<Rightarrow> - 1
      | Some (n, Some e) \<Rightarrow> (e - now + 500) div 1000)"

definition redisDel :: "string \<Rightarrow> world \<Rightarrow> world" where
  "redisDel key w = w\<lparr>w_redis := (w_redis w)(key := None)\<rparr>"

text \<open>INCR, then EXPIRE when this was the first call of the window.\<close>

definition countInWindow :: "instant \<Rightarrow> string \<Rightarrow> int \<Rightarrow> world \<Rightarrow> int \<times> world" where
  "countInWindow now key windowSeconds w =
     (let (count, w1) = redisIncr now key w
      in (count, if count = 1 then redisExpire now key windowSeconds w1 else w1))"

section \<open>The window as a quota\<close>

text \<open>
  A window is open on \<open>key\<close> until \<open>e\<close>: a counter from 1 on with that expiry. Calls before \<open>e\<close>
  count up and keep the expiry, whatever the answer given for the count.
\<close>

definition windowOpen :: "string \<Rightarrow> instant \<Rightarrow> world \<Rightarrow> bool" where
  "windowOpen key e w = (\<exists>n \<ge> 1. w_redis w key = Some (n, Some e))"

definition windowCount :: "string \<Rightarrow> world \<Rightarrow> int" where
  "windowCount key w = (case w_redis w key of None \<Rightarrow> 0 | Some (n, _) \<Rightarrow> n)"

definition windowAttempt :: "string \<Rightarrow> int \<Rightarrow> int \<Rightarrow> instant \<Rightarrow> world \<Rightarrow> bool \<times> world" where
  "windowAttempt key limit windowSeconds now w =
     (let (count, w') = countInWindow now key windowSeconds w in (count \<le> limit, w'))"

lemma countInWindow_open:
  assumes "windowOpen key e w" and "now < e"
  shows "countInWindow now key s w =
    (windowCount key w + 1,
     w\<lparr>w_redis := (w_redis w)(key := Some (windowCount key w + 1, Some e))\<rparr>)"
  using assms
  by (auto simp: countInWindow_def redisIncr_def redisLive_def windowOpen_def windowCount_def)

lemma countInWindow_fresh:
  assumes "redisLive now key w = None" and "0 < s"
  shows "countInWindow now key s w =
    (1, w\<lparr>w_redis := (w_redis w)(key := Some (1, Some (now + s * 1000)))\<rparr>)"
  using assms by (simp add: countInWindow_def redisIncr_def redisExpire_def redisLive_def)

lemma windowOpen_put [simp]:
  "windowOpen key e (w\<lparr>w_redis := (w_redis w)(key := Some (n, Some e))\<rparr>) = (1 \<le> n)"
  by (simp add: windowOpen_def)

lemma windowCount_put [simp]:
  "windowCount key (w\<lparr>w_redis := (w_redis w)(key := Some (n, x))\<rparr>) = n"
  by (simp add: windowCount_def)

lemma windowOpen_count: "windowOpen key e w \<Longrightarrow> 1 \<le> windowCount key w"
  by (auto simp: windowOpen_def windowCount_def)

interpretation window: quota "windowAttempt key limit s" "\<lambda>w. min (windowCount key w) (max limit 1)"
    "\<lambda>_. max limit 1" "\<lambda>w. windowOpen key e w \<and> 1 \<le> limit" "\<lambda>now. now < e" for key limit s e
proof
  fix w and now :: instant
  assume "windowOpen key e w \<and> 1 \<le> limit" and "now < e"
  then have step: "windowAttempt key limit s now w = (windowCount key w + 1 \<le> limit,
      w\<lparr>w_redis := (w_redis w)(key := Some (windowCount key w + 1, Some e))\<rparr>)"
    and pos: "1 \<le> windowCount key w" and lim: "1 \<le> limit"
    by (auto simp: windowAttempt_def countInWindow_open windowOpen_count)
  show "windowOpen key e (snd (windowAttempt key limit s now w)) \<and> 1 \<le> limit"
    using step pos lim by simp
  show "max limit 1 = max limit 1" ..
  show "fst (windowAttempt key limit s now w) \<longleftrightarrow> min (windowCount key w) (max limit 1) < max limit 1"
    using step lim by auto
  show "min (windowCount key (snd (windowAttempt key limit s now w))) (max limit 1) =
      min (windowCount key w) (max limit 1) +
      (if min (windowCount key w) (max limit 1) < max limit 1 then 1 else 0)"
    using step lim by auto
qed

text \<open>
  A whole window: the first call opens it, and of the calls before it closes exactly the first
  \<open>limit\<close> are within the limit.
\<close>

lemma window_run:
  assumes "redisLive t0 key w = None" and "0 < s" and "1 \<le> limit"
    and "\<forall>t \<in> set ts. t < t0 + s * 1000"
  shows "fst (attempts (windowAttempt key limit s) (t0 # ts) w) =
    replicate (min (Suc (length ts)) (nat limit)) True @
    replicate (Suc (length ts) - nat limit) False"
proof -
  let ?w = "w\<lparr>w_redis := (w_redis w)(key := Some (1, Some (t0 + s * 1000)))\<rparr>"
  have first: "windowAttempt key limit s t0 w = (True, ?w)"
    using assms by (simp add: windowAttempt_def countInWindow_fresh)
  have "fst (attempts (windowAttempt key limit s) ts ?w) =
      replicate (min (length ts) (nat (limit - 1))) True @
      replicate (length ts - nat (limit - 1)) False"
    using window.run_answers [of key "t0 + s * 1000" ?w limit ts s] assms by simp
  moreover obtain k where "nat limit = Suc k" "nat (limit - 1) = k"
    using assms(3) by (cases "nat limit") auto
  ultimately show ?thesis using first by (simp add: case_prod_beta Let_def)
qed

end
