(* ===== verification/Rate_Limit.thy ===== *)
theory Rate_Limit
  imports Redis_Counters Usage_Validation
begin

text \<open>
  \<open>modules/plan/rate-limit.service.ts\<close>: at most so many SMS calls per hour and, in trial, AI calls
  per day, counted in Redis across all replicas.
\<close>

definition hourlySmsLimit :: "env \<Rightarrow> int" where
  "hourlySmsLimit E = coalesce (e_configNum E ''HOURLY_SMS_RATE_LIMIT'') 20"

definition dailyAiLimit :: "env \<Rightarrow> int" where
  "dailyAiLimit E = coalesce (e_configNum E ''TRIAL_DAILY_AI_LIMIT'') 2"

definition rateKey :: "uuid \<Rightarrow> string \<Rightarrow> string" where
  "rateKey tenantId bucket = ''rl:'' @ tenantId @ '':'' @ bucket"

text \<open>\<open>bucket.replace('_', ' ')\<close> replaces the first underscore.\<close>

fun replaceUnderscore :: "string \<Rightarrow> string" where
  "replaceUnderscore [] = []"
| "replaceUnderscore (c # s) = (if c = CHR ''_'' then CHR '' '' # s else c # replaceUnderscore s)"

definition enforceWindow :: "instant \<Rightarrow> uuid \<Rightarrow> string \<Rightarrow> int \<Rightarrow> int \<Rightarrow> unit act" where
  "enforceWindow now tenantId bucket limit windowSeconds w =
     (let key = rateKey tenantId bucket;
          (count, w1) = countInWindow now key windowSeconds w
      in if count > limit
         then (let ttl = redisTtl now key w1;
                   resetInMinutes = - ((- ttl) div 60);
                   unit = (if bucket = ''AI_DAILY'' then ''daily'' else ''hourly'')
               in (Inl (ForbiddenException (replaceUnderscore bucket @ '' rate limit exceeded ('' @
                     show_int limit @ ''/'' @ unit @ ''). Try again in '' @
                     show_int resetInMinutes @ '' minutes.'')), w1))
         else (Inr (), w1))"

definition checkRateLimit :: "env \<Rightarrow> instant \<Rightarrow> uuid \<Rightarrow> FeatureType \<Rightarrow> bool \<Rightarrow> unit act" where
  "checkRateLimit E now tenantId feature isTrial =
     thenA (whenA (feature = F_SMS)
              (enforceWindow now tenantId ''SMS'' (hourlySmsLimit E) (60 * 60)))
           (whenA (feature = F_AI \<and> isTrial)
              (enforceWindow now tenantId ''AI_DAILY'' (dailyAiLimit E) (24 * 60 * 60)))"

definition getStatus :: "env \<Rightarrow> instant \<Rightarrow> uuid \<Rightarrow> FeatureType \<Rightarrow> world \<Rightarrow> int \<times> instant option" where
  "getStatus E now tenantId feature w =
     (let bucket = (if feature = F_SMS then ''SMS'' else ''AI_DAILY'');
          key = rateKey tenantId bucket;
          limit = (if feature = F_SMS then hourlySmsLimit E else dailyAiLimit E);
          count = coalesce (redisGet now key w) 0;
          ttl = redisTtl now key w
      in (max 0 (limit - count), if ttl > 0 then Some (now + ttl * 1000) else None))"

section \<open>Properties\<close>

lemma enforceWindow_attempt:
  "is_ok (fst (enforceWindow now t b l s w)) = fst (windowAttempt (rateKey t b) l s now w) \<and>
   snd (enforceWindow now t b l s w) = snd (windowAttempt (rateKey t b) l s now w)"
  by (simp add: enforceWindow_def windowAttempt_def case_prod_beta Let_def)

lemma checkRateLimit_sms:
  "checkRateLimit E now t F_SMS tr w = enforceWindow now t ''SMS'' (hourlySmsLimit E) 3600 w"
  by (simp add: checkRateLimit_def thenA_def bindA_def split: prod.split sum.split)

lemma enforceWindow_frame: "(snd (enforceWindow now t b l s w))\<lparr>w_redis := r\<rparr> = w\<lparr>w_redis := r\<rparr>"
proof -
  have "(snd (countInWindow now k s w))\<lparr>w_redis := r\<rparr> = w\<lparr>w_redis := r\<rparr>" for k
    by (simp add: countInWindow_def redisIncr_def redisExpire_def case_prod_beta Let_def
        split: option.split)
  then show ?thesis by (simp add: enforceWindow_def case_prod_beta Let_def)
qed

lemma checkRateLimit_frame: "(snd (checkRateLimit E now t f tr w))\<lparr>w_redis := r\<rparr> = w\<lparr>w_redis := r\<rparr>"
  unfolding checkRateLimit_def
  by (rule snd_thenA; cases f; simp add: whenA_def enforceWindow_frame)

lemma enforceWindow_tenants [simp]: "w_tenants (snd (enforceWindow now t b l s w)) = w_tenants w"
  using arg_cong [OF enforceWindow_frame [where r = "w_redis w"], of w_tenants] by simp

lemma checkRateLimit_tenants [simp]: "w_tenants (snd (checkRateLimit E now t f tr w)) = w_tenants w"
  using arg_cong [OF checkRateLimit_frame [where r = "w_redis w"], of w_tenants] by simp

definition rateAttempt :: "env \<Rightarrow> uuid \<Rightarrow> instant \<Rightarrow> world \<Rightarrow> bool \<times> world" where
  "rateAttempt E t now w =
     (is_ok (fst (checkRateLimit E now t F_SMS False w)),
      snd (checkRateLimit E now t F_SMS False w))"

lemma rateAttempt_window:
  "rateAttempt E t = windowAttempt (rateKey t ''SMS'') (hourlySmsLimit E) 3600"
  by (intro ext prod_eqI) (simp_all add: rateAttempt_def checkRateLimit_sms enforceWindow_attempt)

text \<open>
  The SMS rate limit is exact within a window, whichever replica serves a call: after the
  first call finds no live counter, of all calls of that tenant before the hour is over exactly the
  first hourlySmsLimit (the configured number) pass, and every later one is rejected. Rejected
  calls count as well, but never extend the window.
\<close>

theorem sms_rate_limit_exact:
  assumes "redisLive t0 (rateKey t ''SMS'') w = None" and "1 \<le> hourlySmsLimit E"
    and "\<forall>u \<in> set ts. u < t0 + 3600 * 1000"
  shows "fst (attempts (rateAttempt E t) (t0 # ts) w) =
    replicate (min (Suc (length ts)) (nat (hourlySmsLimit E))) True @
    replicate (Suc (length ts) - nat (hourlySmsLimit E)) False"
  unfolding rateAttempt_window by (rule window_run) (use assms in simp_all)

definition demoEnv :: env where
  "demoEnv = \<lparr>e_config = (\<lambda>_. None), e_configNum = [''HOURLY_SMS_RATE_LIMIT'' \<mapsto> 2],
     e_send = (\<lambda>n m. \<lparr>sr_success = True, sr_id = Some (''sid'' @ show_nat n), sr_error = None\<rparr>),
     e_parsePhone = (\<lambda>s c. if startsWith s ''+'' then Some s else None),
     e_hmac = (\<lambda>a k s. a @ k @ s), e_stringify = (\<lambda>j. ''{}''),
     e_parseJson = (\<lambda>s. None), e_http = (\<lambda>r. Inl (''ECONNREFUSED'', None)),
     e_gateway = (\<lambda>n r. Inl (''ECONNREFUSED'', None)), e_renderTwiml = (\<lambda>v. ''<Response/>''), e_tz = 0,
     e_formatDateTime = show_int, e_formatDate = show_int, e_formatTime = show_int,
     e_formatSlot = show_int\<rparr>"

theorem sms_rate_limit_exact_witness:
  "fst (attempts (rateAttempt demoEnv ''t1'') [10, 20, 3600009] (emptyWorld show_nat)) =
     [True, True, False]"
  using sms_rate_limit_exact [of 10 "''t1''" "emptyWorld show_nat" demoEnv "[20, 3600009]"]
  by (simp add: redisLive_def emptyWorld_def hourlySmsLimit_def demoEnv_def numeral_eq_Suc
      del: attempts.simps)

end
