(* ===== verification/Plan_Guard.thy ===== *)
theory Plan_Guard
  imports Rate_Limit Usage_Quota
begin

text \<open>
  \<open>modules/plan/plan.guard.ts\<close>, the guard in front of every metered endpoint, the usage endpoints
  of \<open>usage.controller.ts\<close>, and \<open>usage-reset.job.ts\<close>, the monthly job that zeroes the counters.
\<close>

text \<open>The metadata of the handler wins over that of its class (\<open>getAllAndOverride\<close>).\<close>

definition featureOf :: "FeatureType option \<Rightarrow> FeatureType option \<Rightarrow> FeatureType option" where
  "featureOf handlerMeta classMeta = (case handlerMeta of None \<Rightarrow> classMeta | Some f \<Rightarrow> Some f)"

record request_user =
  ru_tenantId :: "uuid option"
  ru_userId :: "uuid option"

definition canActivate ::
  "env \<Rightarrow> instant \<Rightarrow> FeatureType option \<Rightarrow> FeatureType option \<Rightarrow> request_user option \<Rightarrow> bool act" where
  "canActivate E now handlerMeta classMeta user w =
     (case featureOf handlerMeta classMeta of
        None \<Rightarrow> (Inr True, w)
      | Some feature \<Rightarrow>
          (let tid = Option.bind user ru_tenantId in
           if \<not> truthy tid then (Inl (ForbiddenException ''No tenant context''), w)
           else let tenantId = the tid;
                    isTrial = (case findTenant tenantId w of None \<Rightarrow> False | Some t \<Rightarrow> tenant_trialActive t)
                in thenA (checkRateLimit E now tenantId feature isTrial)
                     (bindA (validateAndIncrement now tenantId feature (Option.bind user ru_userId))
                        (\<lambda>_. returnA True)) w))"

section \<open>The usage endpoints\<close>

text \<open>\<open>GET /usage/check/...\<close>: the check-only answer, with the window's state for SMS and AI.\<close>

definition checkEndpoint ::
  "env \<Rightarrow> instant \<Rightarrow> uuid \<Rightarrow> FeatureType \<Rightarrow> world \<Rightarrow>
   UsageCheckResult \<times> (int \<times> instant option) option" where
  "checkEndpoint E now tenantId feature w =
     (validate now tenantId feature w,
      if feature = F_SMS \<or> feature = F_AI then Some (getStatus E now tenantId feature w) else None)"

section \<open>The monthly reset\<close>

definition resetTenant :: "instant \<Rightarrow> tenant \<Rightarrow> tenant" where
  "resetTenant now t = t\<lparr>tenant_automationExecutionsThisMonth := 0, tenant_aiUsageCount := 0,
     tenant_smsUsageCount := 0, tenant_lastResetDate := now\<rparr>"

definition resetMonthlyUsage :: "instant \<Rightarrow> world \<Rightarrow> world" where
  "resetMonthlyUsage now w = putTenants (update_where (\<lambda>_. True) (resetTenant now) (w_tenants w)) w"

lemma findTenant_reset: "findTenant t (resetMonthlyUsage now w) = map_option (resetTenant now) (findTenant t w)"
proof -
  have "List.find (\<lambda>r. tenant_id r = t) (update_where (\<lambda>_. True) (resetTenant now) rs) =
        map_option (resetTenant now) (List.find (\<lambda>r. tenant_id r = t) rs)" for rs
    by (induction rs) (auto simp: resetTenant_def)
  then show ?thesis by (simp add: findTenant_def resetMonthlyUsage_def)
qed

section \<open>Properties\<close>

text \<open>
  C6: The guard admits a metered request exactly when the rate limiter has a slot and the plan
  check of the same instant allows the feature; otherwise it throws. A request the limiter turns
  away leaves every tenant row (and so every usage counter) as it was, and so does one the plan
  check refuses; an admitted one is charged exactly as validateAndIncrement charges it.
\<close>

theorem guard_admits_and_charges:
  assumes "featureOf hm cm = Some f" and "user = Some u" and "ru_tenantId u = Some t" and "t \<noteq> []"
    and "trial = (case findTenant t w of None \<Rightarrow> False | Some tn \<Rightarrow> tenant_trialActive tn)"
    and rl: "rl = checkRateLimit E now t f trial w"
  shows "is_ok (fst (canActivate E now hm cm user w)) = (is_ok (fst rl) \<and> allowed (validate now t f w)) \<and>
    w_tenants (snd (canActivate E now hm cm user w)) =
      (if is_ok (fst rl) \<and> allowed (validate now t f w)
       then update_where (\<lambda>r. tenant_id r = t) (addUsage f) (w_tenants w) else w_tenants w)"
proof -
  let ?w1 = "snd rl"
  have tenants: "w_tenants ?w1 = w_tenants w" by (simp add: rl)
  have same: "allowed (validate now t f ?w1) = allowed (validate now t f w)"
  proof -
    have "(snd (checkRateLimit E now t f trial w))\<lparr>w_redis := w_redis w\<rparr> = w"
      using checkRateLimit_frame [of "w_redis w" E now t f trial w] by simp
    then have w1: "w = ?w1\<lparr>w_redis := w_redis w\<rparr>" by (simp add: rl)
    have "validate now t f (v\<lparr>w_redis := r\<rparr>) = validate now t f v" for v r
      using checkFeatureLimits_frame [of "v\<lparr>w_redis := r\<rparr>" v _ f]
      by (simp add: validate_def findTenant_def Let_def split: option.split)
    then show ?thesis by (subst w1) simp
  qed
  have unfold: "canActivate E now hm cm user w =
      thenA (checkRateLimit E now t f trial)
        (bindA (validateAndIncrement now t f (ru_userId u)) (\<lambda>_. returnA True)) w"
    using assms(1-5) by (simp add: canActivate_def Let_def)
  show ?thesis
  proof (cases "fst rl")
    case (Inl e)
    then have "checkRateLimit E now t f trial w = (Inl e, ?w1)"
      unfolding rl by (metis prod.collapse)
    then show ?thesis using tenants Inl by (simp add: unfold)
  next
    case (Inr x)
    then have step: "checkRateLimit E now t f trial w = (Inr (), ?w1)"
      unfolding rl by (metis (full_types) old.unit.exhaust prod.collapse)
    obtain r w2 where vi: "validateAndIncrement now t f (ru_userId u) ?w1 = (r, w2)"
      by (cases "validateAndIncrement now t f (ru_userId u) ?w1")
    have ok: "is_ok r = allowed (validate now t f w)"
      using validateAndIncrement_ok_iff [of now t f "ru_userId u" ?w1] vi same by simp
    show ?thesis
    proof (cases r)
      case (Inl e)
      then have "w_tenants w2 = w_tenants ?w1"
        using validateAndIncrement_blockedD [of now t f "ru_userId u" ?w1 e w2] vi
        by (auto simp: logBlockedAttempt_def)
      then show ?thesis using step vi ok Inl tenants Inr by (simp add: unfold bindA_def)
    next
      case Ok: (Inr a)
      with vi have vi': "validateAndIncrement now t f (ru_userId u) ?w1 = (Inr a, w2)" by simp
      have "w_tenants w2 = update_where (\<lambda>r. tenant_id r = t) (addUsage f) (w_tenants w)"
        by (rule validateAndIncrement_okD [OF vi']) (simp add: tenants)
      then show ?thesis using step vi ok Ok Inr by (simp add: unfold bindA_def)
    qed
  qed
qed

theorem guard_admits_and_charges_witness:
  "let w = demoWorld [demoTenant PLAN_SMS ACTIVE False 1999];
       u = Some \<lparr>ru_tenantId = Some ''t1'', ru_userId = None\<rparr>
   in is_ok (fst (canActivate demoEnv 7 (Some F_SMS) None u w)) \<and>
      map tenant_smsUsageCount (w_tenants (snd (canActivate demoEnv 7 (Some F_SMS) None u w))) = [2000]"
proof -
  let ?w = "demoWorld [demoTenant PLAN_SMS ACTIVE False 1999]"
  let ?u = "\<lparr>ru_tenantId = Some ''t1'', ru_userId = None\<rparr>"
  have "is_ok (fst (checkRateLimit demoEnv 7 ''t1'' F_SMS tr ?w))" for tr
    by (simp add: checkRateLimit_sms enforceWindow_def countInWindow_def redisIncr_def
        redisExpire_def redisLive_def demoWorld_def emptyWorld_def hourlySmsLimit_def demoEnv_def)
  moreover have "allowed (validate 7 ''t1'' F_SMS ?w)"
    by (simp add: validate_def checkSubscriptionAccess_def
        checkPlanAccess_def checkFeatureLimits_allowed metered_def underCap_def usageCap_def)
  ultimately have "is_ok (fst (canActivate demoEnv 7 (Some F_SMS) None (Some ?u) ?w)) \<and>
      w_tenants (snd (canActivate demoEnv 7 (Some F_SMS) None (Some ?u) ?w)) =
        update_where (\<lambda>r. tenant_id r = ''t1'') (addUsage F_SMS) (w_tenants ?w)"
    using guard_admits_and_charges [of "Some F_SMS" None F_SMS "Some ?u" ?u "''t1''" False ?w
        "checkRateLimit demoEnv 7 ''t1'' F_SMS False ?w" demoEnv 7]
    by (simp only: featureOf_def option.case request_user.simps findTenant_demoWorld
        demoTenant_simps find.simps simp_thms if_True list.distinct not_False_eq_True)
  then show ?thesis by (simp add: Let_def addUsage_def)
qed

text \<open>
  The monthly reset frees the SMS and AI counters but not the others. After it, no paying
  tenant is refused an SMS for its monthly count and no tenant's AI counter is above zero; yet a
  tenant that was refused WhatsApp for its monthly count, with a message that promises a reset at
  the next billing cycle, is refused again at every later instant, however often the job runs.
\<close>

theorem reset_frees_sms_not_whatsapp:
  assumes "findTenant t w = Some tn" and "tenant_subscriptionStatus tn = ACTIVE"
    and "\<not> tenant_trialActive tn"
  shows "allowed (validate later t F_SMS (resetMonthlyUsage now w)) \<and>
    usage F_AI (the (findTenant t (resetMonthlyUsage now w))) = 0 \<and>
    validate later t F_WHATSAPP ((resetMonthlyUsage now ^^ n) w) = validate later t F_WHATSAPP w"
proof (intro conjI)
  show "allowed (validate later t F_SMS (resetMonthlyUsage now w))"
    using assms smsMonthlyLimit_positive [of "tenant_planType tn"]
    by (simp add: validate_def findTenant_reset resetTenant_def checkSubscriptionAccess_def
        checkPlanAccess_def checkFeatureLimits_allowed metered_def underCap_def usageCap_def)
  show "usage F_AI (the (findTenant t (resetMonthlyUsage now w))) = 0"
    using assms by (simp add: findTenant_reset resetTenant_def)
  have whatsapp: "checkSubscriptionAccess later (resetTenant now s) F_WHATSAPP =
        checkSubscriptionAccess later s F_WHATSAPP \<and>
      checkFeatureLimits (resetMonthlyUsage now v) (resetTenant now s) F_WHATSAPP =
        checkFeatureLimits v s F_WHATSAPP" for s v
    by (simp add: resetTenant_def checkSubscriptionAccess_def trialExpired_def checkPlanAccess_def
        checkFeatureLimits_def checkTrialLimits_def)
  have once: "validate later t F_WHATSAPP (resetMonthlyUsage now v) = validate later t F_WHATSAPP v" for v
    using whatsapp by (cases "findTenant t v") (auto simp: validate_def findTenant_reset Let_def)
  show "validate later t F_WHATSAPP ((resetMonthlyUsage now ^^ n) w) = validate later t F_WHATSAPP w"
    by (induction n) (simp_all add: once)
qed

theorem reset_frees_sms_not_whatsapp_witness:
  "let w = demoWorld [demoTenant PLAN_SMS_VOICE ACTIVE False 9999\<lparr>tenant_whatsappUsageCount := 2000,
             tenant_whatsappMonthlyLimit := 2000\<rparr>]
   in \<not> allowed (validate 99 ''t1'' F_WHATSAPP ((resetMonthlyUsage 8 ^^ 12) w))"
proof -
  let ?t = "demoTenant PLAN_SMS_VOICE ACTIVE False 9999\<lparr>tenant_whatsappUsageCount := 2000,
             tenant_whatsappMonthlyLimit := 2000\<rparr>"
  let ?w = "demoWorld [?t]"
  have f: "findTenant ''t1'' ?w = Some ?t" by (simp add: findTenant_def demoWorld_def)
  have "\<not> allowed (validate 99 ''t1'' F_WHATSAPP ?w)"
    by (simp add: validate_def f checkSubscriptionAccess_def checkPlanAccess_def
        checkFeatureLimits_def monthlyCheck_def)
  then show ?thesis
    using reset_frees_sms_not_whatsapp [of "''t1''" ?w ?t 99 8 12, OF f] by (simp add: Let_def)
qed

end
