(* ===== verification/Json_Values.thy ===== *)
theory Json_Values
  imports Schema
begin

text \<open>
  Untyped JavaScript values, as webhook payloads and replies of remote services reach the code:
  truthiness, \<open>||\<close>, conversion to text and to a number, property reads that throw on \<open>undefined\<close>
  and \<open>null\<close>, \<open>toFixed(2)\<close>, and the computations inside a \<open>try\<close> block around HTTP calls.
\<close>

fun jtruthy :: "json option \<Rightarrow> bool" where
  "jtruthy None = False"
| "jtruthy (Some JNull) = False"
| "jtruthy (Some (JBool b)) = b"
| "jtruthy (Some (JNum n)) = (n \<noteq> 0)"
| "jtruthy (Some (JStr s)) = (s \<noteq> [])"
| "jtruthy (Some _) = True"

definition jor :: "json option \<Rightarrow> json option \<Rightarrow> json option" where
  "jor a b = (if jtruthy a then a else b)"

text \<open>\<open>String(v)\<close>, also what a template literal or a computed property key makes of \<open>v\<close>.\<close>

fun jText :: "json \<Rightarrow> string" where
  "jText JNull = ''null''"
| "jText (JBool b) = (if b then ''true'' else ''false'')"
| "jText (JNum n) = show_int n"
| "jText (JFrac s) = s"
| "jText (JStr s) = s"
| "jText (JDate d) = show_int d"
| "jText (JArr xs) = join '','' (map (\<lambda>x. if x = JNull then [] else jText x) xs)"
| "jText (JObj kvs) = ''[object Object]''"

definition jString :: "json option \<Rightarrow> string" where
  "jString j = (case j of None \<Rightarrow> ''undefined'' | Some v \<Rightarrow> jText v)"

text \<open>
  \<open>Number(s)\<close> for decimal notation: white space around it is ignored, the empty text is 0, and
  \<open>None\<close> is \<open>NaN\<close>. (Exponents, other bases and \<open>Infinity\<close> do not occur in amounts.)
\<close>

definition decimal :: "string \<Rightarrow> rat option" where
  "decimal u =
     (let whole = takeWhile is_digit u; rest = dropWhile is_digit u
      in case rest of
           [] \<Rightarrow> if whole = [] then None else Some (of_int (digits_value whole))
         | c # fr \<Rightarrow>
             if c = CHR ''.'' \<and> list_all is_digit fr \<and> (whole \<noteq> [] \<or> fr \<noteq> [])
             then Some (of_int (digits_value (whole @ fr)) / 10 ^ length fr)
             else None)"

definition js_number :: "string \<Rightarrow> rat option" where
  "js_number s =
     (let t = trim s
      in if t = [] then Some 0
         else (case t of
             c # u \<Rightarrow> if c = CHR ''-'' then map_option uminus (decimal u)
                      else if c = CHR ''+'' then decimal u else decimal t
           | [] \<Rightarrow> Some 0))"

definition jnumber :: "json option \<Rightarrow> rat option" where
  "jnumber j =
     (case j of
        Some JNull \<Rightarrow> Some 0
      | Some (JBool b) \<Rightarrow> Some (if b then 1 else 0)
      | Some (JNum n) \<Rightarrow> Some (of_int n)
      | Some (JFrac s) \<Rightarrow> js_number s
      | Some (JStr s) \<Rightarrow> js_number s
      | Some (JDate d) \<Rightarrow> Some (of_int d)
      | _ \<Rightarrow> None)"

text \<open>\<open>x.toFixed(2)\<close>: the nearest two-digit decimal, a tie going up.\<close>

definition toFixed2 :: "rat \<Rightarrow> string" where
  "toFixed2 x =
     (let n = \<lfloor>\<bar>x\<bar> * 100 + 1 / 2\<rfloor>;
          cents = show_int (n mod 100)
      in (if x < 0 \<and> n \<noteq> 0 then ''-'' else []) @ show_int (n div 100) @ ''.'' @
         (if n mod 100 < 10 then ''0'' @ cents else cents))"

definition jobj :: "(string \<times> json option) list \<Rightarrow> json" where
  "jobj kvs = JObj (map (\<lambda>(k, v). (k, the v)) (filter (\<lambda>(k, v). v \<noteq> None) kvs))"

section \<open>Inside a try block\<close>

text \<open>A thrown error: its message and the response body that an HTTP error carries.\<close>

type_synonym http_error = "string \<times> json option"

definition andThen :: "http_error + 'a \<Rightarrow> ('a \<Rightarrow> http_error + 'b) \<Rightarrow> http_error + 'b" where
  "andThen r k = (case r of Inl e \<Rightarrow> Inl e | Inr x \<Rightarrow> k x)"

definition catching :: "http_error + 'a \<Rightarrow> (http_error \<Rightarrow> 'a) \<Rightarrow> 'a" where
  "catching r h = (case r of Inl e \<Rightarrow> h e | Inr x \<Rightarrow> x)"

lemma andThen_simps [simp]: "andThen (Inl e) k = Inl e" "andThen (Inr x) k = k x"
  by (simp_all add: andThen_def)

lemma catching_simps [simp]: "catching (Inl e) h = h e" "catching (Inr x) h = x"
  by (simp_all add: catching_def)

definition typeError :: "string \<Rightarrow> string \<Rightarrow> string" where
  "typeError what k = ''Cannot read properties of '' @ what @ '' (reading '' @ [CHR 0x27] @ k @ [CHR 0x27] @ '')''"

text \<open>\<open>j.k\<close> without optional chaining.\<close>

definition readProp :: "json option \<Rightarrow> string \<Rightarrow> http_error + json option" where
  "readProp j k =
     (case j of
        None \<Rightarrow> Inl (typeError ''undefined'' k, None)
      | Some JNull \<Rightarrow> Inl (typeError ''null'' k, None)
      | Some v \<Rightarrow> Inr (jget (Some v) k))"

text \<open>\<open>error.response?.data?.message || error.message\<close>\<close>

definition errorText :: "http_error \<Rightarrow> json option" where
  "errorText e = jor (jget (snd e) ''message'') (Some (JStr (fst e)))"

text \<open>\<open>configService.get(key, default)\<close>\<close>

definition conf :: "env \<Rightarrow> string \<Rightarrow> string \<Rightarrow> string" where
  "conf E key d = coalesce (e_config E key) d"

end
