(* ===== verification/Billing_Providers.thy ===== *)
theory Billing_Providers
  imports Json_Values
begin

text \<open>
  The payment providers behind \<open>billing.provider.ts\<close>: \<open>paystack.provider.ts\<close>,
  \<open>paypal.provider.ts\<close> and \<open>crypto.provider.ts\<close> (Coinbase Commerce). Each call is the HTTP
  request the class builds and what it makes of the reply; the remote service is \<open>e_http\<close>.
\<close>

record CreateSubscriptionParams =
  csp_email :: string
  csp_customerCode :: "json option"
  csp_planCode :: string
  csp_amount :: "json option"

record BillingCustomerResult =
  bcr_success :: bool
  bcr_customerCode :: "json option"
  bcr_error :: "json option"

record BillingSubscriptionResult =
  bsr_success :: bool
  bsr_authorizationUrl :: "json option"
  bsr_reference :: "json option"
  bsr_error :: "json option"

record VerifyResult =
  vr_success :: bool
  vr_status :: "json option"
  vr_error :: "json option"

definition customerFailed :: "json option \<Rightarrow> BillingCustomerResult" where
  "customerFailed err = \<lparr>bcr_success = False, bcr_customerCode = None, bcr_error = err\<rparr>"

definition checkoutFailed :: "json option \<Rightarrow> BillingSubscriptionResult" where
  "checkoutFailed err =
     \<lparr>bsr_success = False, bsr_authorizationUrl = None, bsr_reference = None, bsr_error = err\<rparr>"

definition verifyFailed :: "json option \<Rightarrow> VerifyResult" where
  "verifyFailed err = \<lparr>vr_success = False, vr_status = None, vr_error = err\<rparr>"

definition frontendUrl :: "env \<Rightarrow> string" where
  "frontendUrl E = conf E ''FRONTEND_URL'' ''http://localhost:3001''"

definition jsonHeaders :: "(string \<times> string) list" where
  "jsonHeaders = [(''Content-Type'', ''application/json'')]"

section \<open>Paystack\<close>

definition PAYSTACK_BASE :: string where
  "PAYSTACK_BASE = ''https://api.paystack.co''"

definition paystackHeaders :: "env \<Rightarrow> (string \<times> string) list" where
  "paystackHeaders E =
     (''Authorization'', ''Bearer '' @ conf E ''PAYSTACK_SECRET_KEY'' []) # jsonHeaders"

definition paystackCall :: "env \<Rightarrow> string \<Rightarrow> string \<Rightarrow> json \<Rightarrow> http_error + json option" where
  "paystackCall E method path body =
     (case e_http E \<lparr>rq_method = method, rq_url = PAYSTACK_BASE @ path,
                     rq_headers = paystackHeaders E, rq_body = body\<rparr> of
        Inl e \<Rightarrow> Inl e | Inr data \<Rightarrow> Inr (Some data))"

definition paystack_createCustomer ::
  "env \<Rightarrow> string \<Rightarrow> string option \<Rightarrow> string option \<Rightarrow> uuid \<Rightarrow> BillingCustomerResult" where
  "paystack_createCustomer E email firstName lastName tenantId =
     catching
       (andThen (paystackCall E ''POST'' ''/customer''
            (jobj [(''email'', Some (JStr email)), (''first_name'', map_option JStr firstName),
                   (''last_name'', map_option JStr lastName),
                   (''metadata'', Some (JObj [(''tenantId'', JStr tenantId)]))])) (\<lambda>data.
        andThen (readProp data ''status'') (\<lambda>status.
        if jtruthy status
        then andThen (readProp (jget data ''data'') ''customer_code'') (\<lambda>code.
             Inr \<lparr>bcr_success = True, bcr_customerCode = code, bcr_error = None\<rparr>)
        else Inr (customerFailed (jget data ''message'')))))
       (\<lambda>e. customerFailed (errorText e))"

definition paystack_initializeSubscription ::
  "env \<Rightarrow> CreateSubscriptionParams \<Rightarrow> BillingSubscriptionResult" where
  "paystack_initializeSubscription E p =
     catching
       (andThen (paystackCall E ''POST'' ''/transaction/initialize''
            (jobj [(''email'', Some (JStr (csp_email p))), (''plan'', Some (JStr (csp_planCode p))),
                   (''amount'', csp_amount p),
                   (''currency'', Some (JStr (conf E ''PAYSTACK_CURRENCY'' ''USD''))),
                   (''callback_url'', Some (JStr (conf E ''PAYSTACK_CALLBACK_URL''
                       (frontendUrl E @ ''/dashboard'')))),
                   (''metadata'', Some (JObj []))])) (\<lambda>data.
        andThen (readProp data ''status'') (\<lambda>status.
        if jtruthy status
        then andThen (readProp (jget data ''data'') ''reference'') (\<lambda>ref.
             Inr \<lparr>bsr_success = True,
                  bsr_authorizationUrl = jget (jget data ''data'') ''authorization_url'',
                  bsr_reference = ref, bsr_error = None\<rparr>)
        else Inr (checkoutFailed (jget data ''message'')))))
       (\<lambda>e. checkoutFailed (errorText e))"

definition paystack_cancelSubscription :: "env \<Rightarrow> string \<Rightarrow> string \<Rightarrow> bool \<times> json option" where
  "paystack_cancelSubscription E subscriptionCode emailToken =
     catching
       (andThen (paystackCall E ''POST'' ''/subscription/disable''
            (JObj [(''code'', JStr subscriptionCode), (''token'', JStr emailToken)])) (\<lambda>data.
        andThen (readProp data ''status'') (\<lambda>status.
        Inr (if jtruthy status then (True, None) else (False, jget data ''message'')))))
       (\<lambda>e. (False, errorText e))"

definition paystack_verifyTransaction :: "env \<Rightarrow> string \<Rightarrow> VerifyResult" where
  "paystack_verifyTransaction E reference =
     catching
       (andThen (paystackCall E ''GET'' (''/transaction/verify/'' @ reference) JNull) (\<lambda>data.
        andThen (readProp data ''status'') (\<lambda>status.
        if jtruthy status
        then andThen (readProp (jget data ''data'') ''status'') (\<lambda>s.
             Inr \<lparr>vr_success = True, vr_status = s, vr_error = None\<rparr>)
        else Inr (verifyFailed (jget data ''message'')))))
       (\<lambda>e. verifyFailed (errorText e))"

text \<open>\<open>getSubscription\<close> and \<open>chargeAuthorization\<close>: success, the data or reference, the error.\<close>

definition paystack_getSubscription :: "env \<Rightarrow> string \<Rightarrow> bool \<times> json option \<times> json option" where
  "paystack_getSubscription E subscriptionCode =
     catching
       (andThen (paystackCall E ''GET'' (''/subscription/'' @ subscriptionCode) JNull) (\<lambda>data.
        andThen (readProp data ''status'') (\<lambda>status.
        Inr (if jtruthy status then (True, jget data ''data'', None)
             else (False, None, jget data ''message'')))))
       (\<lambda>e. (False, None, errorText e))"

definition paystack_chargeAuthorization ::
  "env \<Rightarrow> string \<Rightarrow> int \<Rightarrow> string \<Rightarrow> bool \<times> json option \<times> json option" where
  "paystack_chargeAuthorization E email amount authorizationCode =
     catching
       (andThen (paystackCall E ''POST'' ''/transaction/charge_authorization''
            (JObj [(''email'', JStr email), (''amount'', JNum amount),
                   (''authorization_code'', JStr authorizationCode)])) (\<lambda>data.
        andThen (readProp data ''status'') (\<lambda>status.
        andThen (if jtruthy status then readProp (jget data ''data'') ''status'' else Inr None) (\<lambda>s.
        Inr (if jtruthy status \<and> s = Some (JStr ''success'')
             then (True, jget (jget data ''data'') ''reference'', None)
             else (False, None, jor (jget (jget data ''data'') ''gateway_response'')
                                    (jget data ''message'')))))))
       (\<lambda>e. (False, None, errorText e))"

section \<open>PayPal\<close>

definition paypalBase :: "env \<Rightarrow> string" where
  "paypalBase E = (if conf E ''PAYPAL_MODE'' ''sandbox'' = ''live''
     then ''https://api-m.paypal.com'' else ''https://api-m.sandbox.paypal.com'')"

text \<open>
  The OAuth call sends the credentials as basic authentication; axios builds the header from them.
\<close>

definition paypal_tokenRequest :: "env \<Rightarrow> http_request" where
  "paypal_tokenRequest E =
     \<lparr>rq_method = ''POST'', rq_url = paypalBase E @ ''/v1/oauth2/token'',
      rq_headers = [(''auth.username'', conf E ''PAYPAL_CLIENT_ID'' []),
                    (''auth.password'', conf E ''PAYPAL_CLIENT_SECRET'' []),
                    (''Content-Type'', ''application/x-www-form-urlencoded'')],
      rq_body = JStr ''grant_type=client_credentials''\<rparr>"

definition paypal_getAccessToken :: "env \<Rightarrow> http_error + json option" where
  "paypal_getAccessToken E =
     andThen (e_http E (paypal_tokenRequest E)) (\<lambda>data. readProp (Some data) ''access_token'')"

definition paypalCall ::
  "env \<Rightarrow> string \<Rightarrow> string \<Rightarrow> (string \<times> string) list \<Rightarrow> json \<Rightarrow> http_error + json option" where
  "paypalCall E method path extra body =
     andThen (paypal_getAccessToken E) (\<lambda>token.
       case e_http E \<lparr>rq_method = method, rq_url = paypalBase E @ path,
                      rq_headers = (''Authorization'', ''Bearer '' @ jString token) # extra,
                      rq_body = body\<rparr> of
         Inl e \<Rightarrow> Inl e | Inr data \<Rightarrow> Inr (Some data))"

definition paypal_createCustomer :: "uuid \<Rightarrow> BillingCustomerResult" where
  "paypal_createCustomer tenantId =
     \<lparr>bcr_success = True, bcr_customerCode = Some (JStr (''paypal_pending_'' @ tenantId)),
      bcr_error = None\<rparr>"

text \<open>\<open>data.links?.find(l => l.rel === 'approve')?.href\<close>\<close>

definition approvalLink :: "json option \<Rightarrow> http_error + json option" where
  "approvalLink data =
     andThen (readProp data ''links'') (\<lambda>links. Inr (case links of
        Some (JArr ls) \<Rightarrow>
          jget (List.find (\<lambda>l. jget (Some l) ''rel'' = Some (JStr ''approve'')) ls) ''href''
      | _ \<Rightarrow> None))"

text \<open>
  \<open>error.response?.data?.message || error.response?.data?.details?.[0]?.description || error.message\<close>
\<close>

definition paypalErrorText :: "http_error \<Rightarrow> json option" where
  "paypalErrorText e =
     jor (jget (snd e) ''message'')
       (jor (case jget (snd e) ''details'' of
               Some (JArr (d # _)) \<Rightarrow> jget (Some d) ''description'' | _ \<Rightarrow> None)
            (Some (JStr (fst e))))"

definition paypal_initializeSubscription ::
  "env \<Rightarrow> CreateSubscriptionParams \<Rightarrow> BillingSubscriptionResult" where
  "paypal_initializeSubscription E p =
     catching
       (andThen (paypalCall E ''POST'' ''/v1/billing/subscriptions'' jsonHeaders
            (JObj [(''plan_id'', JStr (csp_planCode p)),
                   (''subscriber'', JObj [(''email_address'', JStr (csp_email p))]),
                   (''application_context'', JObj [
                      (''brand_name'', JStr ''Meetora''), (''user_action'', JStr ''SUBSCRIBE_NOW''),
                      (''return_url'', JStr (conf E ''PAYPAL_RETURN_URL'' (frontendUrl E @
                         ''/onboarding/callback?provider=paypal&status=success''))),
                      (''cancel_url'', JStr (conf E ''PAYPAL_CANCEL_URL'' (frontendUrl E @
                         ''/onboarding/checkout?provider=paypal&status=cancelled'')))])])) (\<lambda>data.
        andThen (approvalLink data) (\<lambda>link.
        Inr (if \<not> jtruthy link
             then checkoutFailed (Some (JStr ''No PayPal approval link returned''))
             else \<lparr>bsr_success = True, bsr_authorizationUrl = link,
                   bsr_reference = jget data ''id'', bsr_error = None\<rparr>))))
       (\<lambda>e. checkoutFailed (paypalErrorText e))"

definition paypal_cancelSubscription :: "env \<Rightarrow> string \<Rightarrow> bool \<times> json option" where
  "paypal_cancelSubscription E subscriptionCode =
     catching
       (andThen (paypalCall E ''POST''
            (''/v1/billing/subscriptions/'' @ subscriptionCode @ ''/cancel'') []
            (JObj [(''reason'', JStr ''Cancelled by customer'')])) (\<lambda>_. Inr (True, None)))
       (\<lambda>e. (False, errorText e))"

definition paypal_verifyTransaction :: "env \<Rightarrow> string \<Rightarrow> VerifyResult" where
  "paypal_verifyTransaction E reference =
     catching
       (andThen (paypalCall E ''GET'' (''/v1/billing/subscriptions/'' @ reference) [] JNull) (\<lambda>data.
        andThen (readProp data ''status'') (\<lambda>s.
        Inr \<lparr>vr_success = True,
             vr_status = (if s = Some (JStr ''ACTIVE'') then Some (JStr ''success'') else s),
             vr_error = None\<rparr>)))
       (\<lambda>e. verifyFailed (errorText e))"

section \<open>Coinbase Commerce\<close>

definition cryptoCall :: "env \<Rightarrow> string \<Rightarrow> string \<Rightarrow> json \<Rightarrow> http_error + json option" where
  "cryptoCall E method path body =
     (case e_http E \<lparr>rq_method = method, rq_url = ''https://api.commerce.coinbase.com'' @ path,
                     rq_headers = [(''X-CC-Api-Key'', conf E ''COINBASE_COMMERCE_API_KEY'' []),
                                   (''X-CC-Version'', ''2018-03-22'')] @ jsonHeaders,
                     rq_body = body\<rparr> of
        Inl e \<Rightarrow> Inl e | Inr data \<Rightarrow> Inr (Some data))"

definition crypto_createCustomer :: "uuid \<Rightarrow> BillingCustomerResult" where
  "crypto_createCustomer tenantId =
     \<lparr>bcr_success = True, bcr_customerCode = Some (JStr (''crypto_'' @ tenantId)), bcr_error = None\<rparr>"

text \<open>\<open>((amount ?? 0) / 100).toFixed(2)\<close>\<close>

definition amountLocal :: "json option \<Rightarrow> string" where
  "amountLocal amount =
     (case jnumber (if amount = None \<or> amount = Some JNull then Some (JNum 0) else amount) of
        None \<Rightarrow> ''NaN'' | Some x \<Rightarrow> toFixed2 (x / 100))"

text \<open>\<open>error.response?.data?.error?.message || error.message\<close>\<close>

definition cryptoErrorText :: "http_error \<Rightarrow> json option" where
  "cryptoErrorText e = jor (jget (jget (snd e) ''error'') ''message'') (Some (JStr (fst e)))"

definition crypto_initializeSubscription ::
  "env \<Rightarrow> CreateSubscriptionParams \<Rightarrow> BillingSubscriptionResult" where
  "crypto_initializeSubscription E p =
     catching
       (andThen (cryptoCall E ''POST'' ''/charges''
            (JObj [(''name'', JStr ''Meetora subscription''),
                   (''description'', JStr (''Meetora plan payment ('' @ csp_planCode p @ '')'')),
                   (''pricing_type'', JStr ''fixed_price''),
                   (''local_price'', JObj [(''amount'', JStr (amountLocal (csp_amount p))),
                      (''currency'', JStr (conf E ''PAYSTACK_CURRENCY'' ''USD''))]),
                   (''metadata'', JObj [(''planCode'', JStr (csp_planCode p)),
                      (''email'', JStr (csp_email p))]),
                   (''redirect_url'', JStr (conf E ''CRYPTO_RETURN_URL'' (frontendUrl E @
                      ''/onboarding/callback?provider=crypto&status=success''))),
                   (''cancel_url'', JStr (conf E ''CRYPTO_CANCEL_URL'' (frontendUrl E @
                      ''/onboarding/checkout?provider=crypto&status=cancelled'')))])) (\<lambda>data.
        andThen (readProp data ''data'') (\<lambda>d.
        andThen (readProp d ''code'') (\<lambda>code.
        Inr \<lparr>bsr_success = True, bsr_authorizationUrl = jget d ''hosted_url'',
             bsr_reference = code, bsr_error = None\<rparr>))))
       (\<lambda>e. checkoutFailed (cryptoErrorText e))"

definition crypto_cancelSubscription :: "bool \<times> json option" where
  "crypto_cancelSubscription = (True, None)"

text \<open>The last entry of the charge's timeline decides.\<close>

definition latestStatus :: "json option \<Rightarrow> json option" where
  "latestStatus timeline =
     (case timeline of Some (JArr ts) \<Rightarrow> if ts = [] then None else jget (Some (last ts)) ''status''
      | _ \<Rightarrow> None)"

definition crypto_verifyTransaction :: "env \<Rightarrow> string \<Rightarrow> VerifyResult" where
  "crypto_verifyTransaction E reference =
     catching
       (andThen (cryptoCall E ''GET'' (''/charges/'' @ reference) JNull) (\<lambda>data.
        andThen (readProp data ''data'') (\<lambda>d.
        andThen (readProp d ''timeline'') (\<lambda>timeline.
        (let latest = latestStatus timeline
         in Inr \<lparr>vr_success = True,
                vr_status = (if latest = Some (JStr ''COMPLETED'') \<or> latest = Some (JStr ''RESOLVED'')
                             then Some (JStr ''success'') else latest),
                vr_error = None\<rparr>)))))
       (\<lambda>e. verifyFailed (cryptoErrorText e))"

section \<open>The provider interface\<close>

text \<open>
  What the billing service relies on of any provider: a checkout that failed hands out neither a
  payment page nor a reference, and a verification that failed reports no status.
\<close>

locale billing_provider =
  fixes initializeSubscription :: "CreateSubscriptionParams \<Rightarrow> BillingSubscriptionResult"
    and verifyTransaction :: "string \<Rightarrow> VerifyResult"
  assumes failed_checkout: "\<not> bsr_success (initializeSubscription p) \<Longrightarrow>
      bsr_authorizationUrl (initializeSubscription p) = None \<and> bsr_reference (initializeSubscription p) = None"
    and failed_verify: "\<not> vr_success (verifyTransaction r) \<Longrightarrow> vr_status (verifyTransaction r) = None"
begin

lemma reference_means_success: "bsr_reference (initializeSubscription p) = Some j \<Longrightarrow>
    bsr_success (initializeSubscription p)"
  using failed_checkout [of p] by auto

lemma paid_iff: "vr_success (verifyTransaction r) \<and> vr_status (verifyTransaction r) = Some (JStr ''success'')
    \<longleftrightarrow> vr_status (verifyTransaction r) = Some (JStr ''success'')"
  using failed_verify [of r] by (cases "vr_success (verifyTransaction r)") auto

end

lemma catching_law: "(\<And>x. r = Inr x \<Longrightarrow> P x) \<Longrightarrow> (\<And>e. P (h e)) \<Longrightarrow> P (catching r h)"
  by (cases r) simp_all

lemma andThen_InrD: "andThen r k = Inr y \<Longrightarrow> \<exists>x. r = Inr x \<and> k x = Inr y"
  by (cases r) simp_all

definition checkoutLaw :: "BillingSubscriptionResult \<Rightarrow> bool" where
  "checkoutLaw r = (\<not> bsr_success r \<longrightarrow> bsr_authorizationUrl r = None \<and> bsr_reference r = None)"

definition verifyLaw :: "VerifyResult \<Rightarrow> bool" where
  "verifyLaw r = (\<not> vr_success r \<longrightarrow> vr_status r = None)"

lemma laws_failed [simp]: "checkoutLaw (checkoutFailed e)" "verifyLaw (verifyFailed e)"
  by (simp_all add: checkoutLaw_def checkoutFailed_def verifyLaw_def verifyFailed_def)

lemma laws_success [simp]: "bsr_success r \<Longrightarrow> checkoutLaw r" "vr_success v \<Longrightarrow> verifyLaw v"
  by (simp_all add: checkoutLaw_def verifyLaw_def)

lemma checkout_laws:
  "checkoutLaw (paystack_initializeSubscription E p)"
  "checkoutLaw (paypal_initializeSubscription E p)"
  "checkoutLaw (crypto_initializeSubscription E p)"
  by (unfold paystack_initializeSubscription_def paypal_initializeSubscription_def
        crypto_initializeSubscription_def)
     (rule catching_law; auto dest!: andThen_InrD split: if_splits)+

lemma verify_laws:
  "verifyLaw (paystack_verifyTransaction E r)"
  "verifyLaw (paypal_verifyTransaction E r)"
  "verifyLaw (crypto_verifyTransaction E r)"
  by (unfold paystack_verifyTransaction_def paypal_verifyTransaction_def
        crypto_verifyTransaction_def Let_def)
     (rule catching_law; auto dest!: andThen_InrD split: if_splits)+

interpretation paystack: billing_provider "paystack_initializeSubscription E"
    "paystack_verifyTransaction E" for E
  using checkout_laws(1) verify_laws(1)
  by unfold_locales (auto simp: checkoutLaw_def verifyLaw_def)

interpretation paypal: billing_provider "paypal_initializeSubscription E"
    "paypal_verifyTransaction E" for E
  using checkout_laws(2) verify_laws(2)
  by unfold_locales (auto simp: checkoutLaw_def verifyLaw_def)

interpretation crypto: billing_provider "crypto_initializeSubscription E"
    "crypto_verifyTransaction E" for E
  using checkout_laws(3) verify_laws(3)
  by unfold_locales (auto simp: checkoutLaw_def verifyLaw_def)

end
