(* ===== verification/Billing.thy ===== *)
theory Billing
  imports Billing_Providers Audit_Log Plan_Limits Usage_Validation
begin

text \<open>
  \<open>modules/billing/billing.service.ts\<close>: the subscription of a tenant, from checkout through trial,
  activation, plan change, payment failure and cancellation, and the hourly job that ends trials.
\<close>

datatype PaymentProvider = PAYSTACK | PAYPAL | CRYPTO

fun providerName :: "PaymentProvider \<Rightarrow> string" where
  "providerName PAYSTACK = ''PAYSTACK''"
| "providerName PAYPAL = ''PAYPAL''"
| "providerName CRYPTO = ''CRYPTO''"

section \<open>Plan codes and prices\<close>

record PlanCodes =
  pc_starter :: string
  pc_growth :: string
  pc_pro :: string

definition providerCodes :: "env \<Rightarrow> PaymentProvider \<Rightarrow> PlanCodes" where
  "providerCodes E p =
     (case p of
        PAYSTACK \<Rightarrow> \<lparr>pc_starter = conf E ''PAYSTACK_SMS_PLAN_CODE'' [],
           pc_growth = conf E ''PAYSTACK_SMS_VOICE_PLAN_CODE'' [],
           pc_pro = conf E ''PAYSTACK_SMS_VOICE_AI_PLAN_CODE'' []\<rparr>
      | PAYPAL \<Rightarrow> \<lparr>pc_starter = conf E ''PAYPAL_STARTER_PLAN_ID'' [],
           pc_growth = conf E ''PAYPAL_GROWTH_PLAN_ID'' [],
           pc_pro = conf E ''PAYPAL_PRO_PLAN_ID'' []\<rparr>
      | CRYPTO \<Rightarrow> \<lparr>pc_starter = ''starter'', pc_growth = ''growth'', pc_pro = ''pro''\<rparr>)"

definition planIdToCodeMaps :: "env \<Rightarrow> PaymentProvider \<Rightarrow> (string \<times> string) list" where
  "planIdToCodeMaps E p =
     (let c = providerCodes E p
      in [(''starter'', pc_starter c), (''growth'', pc_growth c), (''pro'', pc_pro c),
          (''SMS'', pc_starter c), (''SMS_VOICE'', pc_growth c), (''SMS_VOICE_AI'', pc_pro c)])"

text \<open>
  An object literal with computed keys: of equal keys the last one wins, so the entries are listed
  from the last to the first.
\<close>

definition planCodeMaps :: "env \<Rightarrow> PaymentProvider \<Rightarrow> (string \<times> PlanType) list" where
  "planCodeMaps E p =
     (let c = providerCodes E p
      in [(pc_pro c, PLAN_SMS_VOICE_AI), (pc_growth c, PLAN_SMS_VOICE), (pc_starter c, PLAN_SMS)])"

definition planCodeMap :: "env \<Rightarrow> (string \<times> PlanType) list" where
  "planCodeMap E = planCodeMaps E PAYSTACK"

text \<open>\<open>this.planCodeMap[planCode] || 'SMS'\<close>\<close>

definition planTypeOfCode :: "env \<Rightarrow> string \<Rightarrow> PlanType" where
  "planTypeOfCode E code = coalesce (map_of (planCodeMap E) code) PLAN_SMS"

text \<open>The default prices in cents, each overridden by the property of that name in the JSON setting.\<close>

definition planPrice :: "env \<Rightarrow> string \<Rightarrow> int \<Rightarrow> json" where
  "planPrice E tier d =
     (case e_parseJson E (conf E ''DEFAULT_PLAN_PRICES'' ''{}'') of
        None \<Rightarrow> JNum d
      | Some v \<Rightarrow> coalesce (jget (Some v) tier) (JNum d))"

definition planIdToPriceMap :: "env \<Rightarrow> (string \<times> json) list" where
  "planIdToPriceMap E =
     (let starter = planPrice E ''starter'' 1900;
          growth = planPrice E ''growth'' 4900;
          pro = planPrice E ''pro'' 9900
      in [(''starter'', starter), (''growth'', growth), (''pro'', pro),
          (''SMS'', starter), (''SMS_VOICE'', growth), (''SMS_VOICE_AI'', pro)])"

definition currency :: "env \<Rightarrow> string" where
  "currency E = conf E ''PAYSTACK_CURRENCY'' ''USD''"

text \<open>The naira sign, as its UTF-8 bytes.\<close>

definition naira :: string where
  "naira = [char_of (0xE2 :: nat), char_of (0x82 :: nat), char_of (0xA6 :: nat)]"

definition getCurrencySymbol :: "env \<Rightarrow> string" where
  "getCurrencySymbol E = (if currency E = ''USD'' then ''$'' else naira)"

definition priceInCentsToDisplay :: "env \<Rightarrow> int \<Rightarrow> string" where
  "priceInCentsToDisplay E cents =
     (let dollars = toFixed2 (of_int cents / 100)
      in if currency E = ''USD'' then ''$'' @ dollars else naira @ dollars)"

fun providerInitialize :: "env \<Rightarrow> PaymentProvider \<Rightarrow> CreateSubscriptionParams \<Rightarrow> BillingSubscriptionResult" where
  "providerInitialize E PAYPAL = paypal_initializeSubscription E"
| "providerInitialize E CRYPTO = crypto_initializeSubscription E"
| "providerInitialize E PAYSTACK = paystack_initializeSubscription E"

fun providerVerify :: "env \<Rightarrow> PaymentProvider \<Rightarrow> string \<Rightarrow> VerifyResult" where
  "providerVerify E PAYPAL = paypal_verifyTransaction E"
| "providerVerify E CRYPTO = crypto_verifyTransaction E"
| "providerVerify E PAYSTACK = paystack_verifyTransaction E"

section \<open>Subscription records\<close>

definition days :: "int \<Rightarrow> int" where
  "days n = n * 24 * 60 * 60 * 1000"

text \<open>A value for a nullable text column: \<open>undefined\<close> and \<open>null\<close> are NULL, other types are rejected.\<close>

fun textColumn :: "json option \<Rightarrow> string option outcome" where
  "textColumn None = Inr None"
| "textColumn (Some JNull) = Inr None"
| "textColumn (Some (JStr s)) = Inr (Some s)"
| "textColumn (Some _) = Inl (PrismaError ''validation'')"

definition createSubscriptionRecord ::
  "env \<Rightarrow> instant \<Rightarrow> uuid \<Rightarrow> PaymentProvider \<Rightarrow> PlanType \<Rightarrow> json option \<Rightarrow> unit act" where
  "createSubscriptionRecord E now tenantId provider planType reference w =
     (case textColumn reference of
        Inl e \<Rightarrow> (Inl e, w)
      | Inr ref \<Rightarrow>
          if \<not> tenantExists tenantId w then (Inl (PrismaError ''P2003''), w)
          else (Inr (), bump (w\<lparr>w_subscriptionRecords := w_subscriptionRecords w @
            [\<lparr>subscriptionRecord_id = newId w, subscriptionRecord_tenantId = tenantId,
              subscriptionRecord_provider = providerName provider,
              subscriptionRecord_providerSubscriptionId = ref,
              subscriptionRecord_planType = planType, subscriptionRecord_status = TRIALING,
              subscriptionRecord_amount = 0, subscriptionRecord_currency = currency E,
              subscriptionRecord_createdAt = now, subscriptionRecord_currentPeriodStart = now,
              subscriptionRecord_currentPeriodEnd = Some (now + days 30)\<rparr>]\<rparr>)))"

text \<open>
  \<open>updateMany({ where: { tenantId, providerSubscriptionId } })\<close>: an \<open>undefined\<close> filter value
  drops that condition, \<open>null\<close> asks for NULL, any other non-text value is rejected.
\<close>

definition recordMatches :: "uuid \<Rightarrow> json option \<Rightarrow> subscriptionRecord \<Rightarrow> bool" where
  "recordMatches tenantId code r =
     (subscriptionRecord_tenantId r = tenantId \<and>
      (case code of None \<Rightarrow> True
       | Some v \<Rightarrow> subscriptionRecord_providerSubscriptionId r = jstr (Some v)))"

definition updateSubscriptionRecords ::
  "uuid \<Rightarrow> json option \<Rightarrow> (subscriptionRecord \<Rightarrow> subscriptionRecord) \<Rightarrow> unit act" where
  "updateSubscriptionRecords tenantId code f w =
     (case textColumn code of
        Inl e \<Rightarrow> (Inl e, w)
      | Inr _ \<Rightarrow> (Inr (), w\<lparr>w_subscriptionRecords :=
          update_where (recordMatches tenantId code) f (w_subscriptionRecords w)\<rparr>))"

text \<open>An audit entry whose entity id is not a text is rejected by the database layer, silently.\<close>

definition auditWith ::
  "uuid \<Rightarrow> uuid option \<Rightarrow> string \<Rightarrow> string \<Rightarrow> json option \<Rightarrow> (string \<times> json) list \<Rightarrow> unit act" where
  "auditWith tenantId userId action entity entityId kvs w =
     (case entityId of
        Some (JStr i) \<Rightarrow> audit_log (auditEntry tenantId userId action entity i kvs) w
      | _ \<Rightarrow> (Inr (), w))"

section \<open>Checkout\<close>

record CheckoutResult =
  co_authorizationUrl :: "json option"
  co_reference :: "json option"
  co_provider :: "PaymentProvider option"

definition ownerOf :: "uuid \<Rightarrow> world \<Rightarrow> user option" where
  "ownerOf tenantId w =
     List.find (\<lambda>u. user_tenantId u = tenantId \<and> user_role u = OWNER) (w_users w)"

text \<open>A tenant update whose data contains a text value of unknown type.\<close>

definition updateTenantWith ::
  "uuid \<Rightarrow> json option \<Rightarrow> (string option \<Rightarrow> tenant \<Rightarrow> tenant) \<Rightarrow> unit act" where
  "updateTenantWith tenantId v f w =
     (case textColumn v of Inl e \<Rightarrow> (Inl e, w) | Inr c \<Rightarrow> updateTenant tenantId (f c) w)"

text \<open>\<open>tenant.update({ data: { paystackCustomerId } })\<close> with the value a provider returned.\<close>

definition storeCustomerCode :: "uuid \<Rightarrow> json option \<Rightarrow> unit act" where
  "storeCustomerCode tenantId code =
     updateTenantWith tenantId code
       (\<lambda>c t. if code = None then t else t\<lparr>tenant_paystackCustomerId := c\<rparr>)"

definition ensurePaystackCustomer :: "env \<Rightarrow> tenant \<Rightarrow> string \<Rightarrow> json option act" where
  "ensurePaystackCustomer E tenant email w =
     (if truthy (tenant_paystackCustomerId tenant)
      then (Inr (map_option JStr (tenant_paystackCustomerId tenant)), w)
      else let owner = ownerOf (tenant_id tenant) w;
               r = paystack_createCustomer E email (Option.bind owner user_firstName)
                     (Option.bind owner user_lastName) (tenant_id tenant)
           in if \<not> bcr_success r
              then (Inl (ForbiddenException (''Failed to create Paystack customer: '' @
                      jString (bcr_error r))), w)
              else thenA (storeCustomerCode (tenant_id tenant) (bcr_customerCode r))
                     (returnA (bcr_customerCode r)) w)"

definition isQABypass :: "string \<Rightarrow> bool" where
  "isQABypass planCode = (planCode = ''QA_BYPASS'' \<or> startsWith planCode ''BYPASS_'')"

definition createSubscription ::
  "env \<Rightarrow> instant \<Rightarrow> uuid \<Rightarrow> uuid \<Rightarrow> string \<Rightarrow> string \<Rightarrow> CheckoutResult act" where
  "createSubscription E now tenantId userId planCode email w =
     (case findTenant tenantId w of
        None \<Rightarrow> (Inl (ForbiddenException ''Tenant not found''), w)
      | Some tenant \<Rightarrow>
          bindA (ensurePaystackCustomer E tenant email) (\<lambda>customerCode.
            if isQABypass planCode
            then let mockRef = ''MOCK_REF_'' @ show_int now
                 in thenA (createSubscriptionRecord E now tenantId PAYSTACK
                            (planTypeOfCode E planCode) (Some (JStr mockRef)))
                      (returnA \<lparr>co_authorizationUrl = Some (JStr
                           (conf E ''FRONTEND_URL'' ''http://localhost:3000'' @
                            ''/onboarding/callback?reference='' @ mockRef @ ''&status=success&bypass=true'')),
                         co_reference = Some (JStr mockRef), co_provider = None\<rparr>)
            else let amount = (case map_of (planCodeMap E) planCode of
                                 None \<Rightarrow> None | Some p \<Rightarrow> map_of (planIdToPriceMap E) (planKey p));
                     result = paystack_initializeSubscription E
                       \<lparr>csp_email = email, csp_customerCode = customerCode,
                        csp_planCode = planCode, csp_amount = amount\<rparr>
                 in if \<not> bsr_success result
                    then throwA (ForbiddenException (''Failed to initialize subscription: '' @
                           jString (bsr_error result)))
                    else thenA (createSubscriptionRecord E now tenantId PAYSTACK
                                  (planTypeOfCode E planCode) (bsr_reference result))
                         (thenA (auditWith tenantId (Some userId) ''CREATE'' ''Subscription''
                              (jor (bsr_reference result) (Some (JStr ''unknown'')))
                              ((''planCode'', JStr planCode) #
                               (case bsr_reference result of None \<Rightarrow> []
                                | Some r \<Rightarrow> [(''reference'', r)])))
                         (returnA \<lparr>co_authorizationUrl = bsr_authorizationUrl result,
                                  co_reference = bsr_reference result, co_provider = None\<rparr>))) w)"

text \<open>
  The controller's body is typed but not validated; the provider is checked by its DTO. An empty
  plan code counts as missing.
\<close>

definition initializeTransaction ::
  "env \<Rightarrow> instant \<Rightarrow> uuid \<Rightarrow> string \<Rightarrow> string \<Rightarrow> PaymentProvider \<Rightarrow> CheckoutResult act" where
  "initializeTransaction E now tenantId planId email provider w =
     (let planCode = map_of (planIdToCodeMaps E provider) planId
      in if \<not> truthy planCode
         then (Inl (BadRequestException (''Invalid plan ID '' @ [CHR 0x22] @ planId @ [CHR 0x22] @
                 '' for provider '' @ providerName provider)), w)
         else let result = providerInitialize E provider
                    \<lparr>csp_email = email, csp_customerCode = Some (JStr email),
                     csp_planCode = the planCode, csp_amount = map_of (planIdToPriceMap E) planId\<rparr>
              in if \<not> bsr_success result
                 then (Inl (BadRequestException (jString (bsr_error result))), w)
                 else thenA (createSubscriptionRecord E now tenantId provider
                              (coalesce (map_of (planCodeMaps E provider) (the planCode)) PLAN_SMS)
                              (bsr_reference result))
                        (returnA \<lparr>co_authorizationUrl = bsr_authorizationUrl result,
                                 co_reference = bsr_reference result,
                                 co_provider = Some provider\<rparr>) w)"

text \<open>The trial both verification paths start: 14 days from now, whatever the tenant's state.\<close>

definition startVerifiedTrial :: "instant \<Rightarrow> tenant \<Rightarrow> tenant" where
  "startVerifiedTrial now t = t\<lparr>tenant_subscriptionStatus := TRIALING, tenant_trialActive := True,
     tenant_trialStartDate := now, tenant_trialEndDate := Some (now + days 14)\<rparr>"

text \<open>
  Paystack is verified by \<open>fetch\<close>, which does not throw on an HTTP error status: a reply with a
  body is read whatever its status.
\<close>

definition paystackFetchVerify :: "env \<Rightarrow> string \<Rightarrow> json outcome" where
  "paystackFetchVerify E reference =
     (case e_http E \<lparr>rq_method = ''GET'', rq_url = PAYSTACK_BASE @ ''/transaction/verify/'' @ reference,
                     rq_headers = [(''Authorization'', ''Bearer '' @
                        jString (map_option JStr (e_config E ''PAYSTACK_SECRET_KEY'')))],
                     rq_body = JNull\<rparr> of
        Inr body \<Rightarrow> Inr body
      | Inl (_, Some body) \<Rightarrow> Inr body
      | Inl (msg, None) \<Rightarrow> Inl (PlainError msg))"

definition verifyTransaction :: "env \<Rightarrow> instant \<Rightarrow> uuid \<Rightarrow> string \<Rightarrow> PaymentProvider \<Rightarrow> unit act" where
  "verifyTransaction E now tenantId reference provider w =
     (if provider \<noteq> PAYSTACK
      then let r = providerVerify E provider reference
           in if \<not> vr_success r \<or> vr_status r \<noteq> Some (JStr ''success'')
              then (Inl (BadRequestException ''Payment verification failed''), w)
              else updateTenant tenantId (startVerifiedTrial now) w
      else (case paystackFetchVerify E reference of
          Inl e \<Rightarrow> (Inl e, w)
        | Inr body \<Rightarrow>
            (case andThen (readProp (Some body) ''status'') (\<lambda>status.
                    if \<not> jtruthy status then Inr False
                    else andThen (readProp (jget (Some body) ''data'') ''status'') (\<lambda>s.
                           Inr (s = Some (JStr ''success'')))) of
               Inl (msg, _) \<Rightarrow> (Inl (PlainError msg), w)
             | Inr False \<Rightarrow> (Inl (BadRequestException ''Payment verification failed''), w)
             | Inr True \<Rightarrow> updateTenant tenantId (startVerifiedTrial now) w)))"

fun parsePlanType :: "string \<Rightarrow> PlanType option" where
  "parsePlanType s = (if s = ''SMS'' then Some PLAN_SMS else if s = ''SMS_VOICE'' then Some PLAN_SMS_VOICE
     else if s = ''SMS_VOICE_AI'' then Some PLAN_SMS_VOICE_AI else None)"

definition testCheckout :: "env \<Rightarrow> instant \<Rightarrow> uuid \<Rightarrow> string \<Rightarrow> PaymentProvider \<Rightarrow> CheckoutResult act" where
  "testCheckout E now tenantId planId provider w =
     (let code = coalesce (map_of (planIdToCodeMaps E provider) planId) [];
          planType = (case map_of (planCodeMaps E provider) code of
                        Some p \<Rightarrow> Some p | None \<Rightarrow> parsePlanType planId);
          mockRef = ''TEST_'' @ providerName provider @ ''_'' @ show_int now
      in (case planType of
            None \<Rightarrow> (Inl (PrismaError ''validation''), w)
          | Some p \<Rightarrow>
              thenA (createSubscriptionRecord E now tenantId provider p (Some (JStr mockRef)))
                (thenA (updateTenant tenantId (startVerifiedTrial now))
                   (returnA \<lparr>co_authorizationUrl = Some (JStr (frontendUrl E @
                        ''/onboarding/callback?provider='' @ providerName provider @
                        ''&status=success&test=true'')),
                      co_reference = Some (JStr mockRef), co_provider = Some provider\<rparr>)) w))"

section \<open>The subscription's life\<close>

definition applyLimits :: "PlanLimits \<Rightarrow> tenant \<Rightarrow> tenant" where
  "applyLimits l t = t\<lparr>tenant_contactLimit := contactLimit l, tenant_workflowLimit := workflowLimit l,
     tenant_eventLimit := eventLimit l, tenant_aiMonthlyLimit := aiMonthlyLimit l,
     tenant_whatsappMonthlyLimit := whatsappMonthlyLimit l\<rparr>"

definition trialDurationDays :: "env \<Rightarrow> int" where
  "trialDurationDays E = coalesce (e_configNum E ''TRIAL_DURATION_DAYS'') 14"

definition startAuthorizedTrial :: "env \<Rightarrow> instant \<Rightarrow> string option \<Rightarrow> tenant \<Rightarrow> tenant" where
  "startAuthorizedTrial E now customerCode t =
     applyLimits (getLimitsForPlan ''TRIAL'')
       (t\<lparr>tenant_trialActive := True, tenant_trialStartDate := now,
          tenant_trialEndDate := Some (now + days (trialDurationDays E)),
          tenant_subscriptionStatus := TRIALING,
          tenant_paystackCustomerId :=
            (if truthy customerCode then customerCode else tenant_paystackCustomerId t)\<rparr>)"

definition activateTrialAfterAuthorization ::
  "env \<Rightarrow> instant \<Rightarrow> uuid \<Rightarrow> json option \<Rightarrow> unit act" where
  "activateTrialAfterAuthorization E now tenantId customerCode =
     thenA (updateTenantWith tenantId (if jtruthy customerCode then customerCode else None)
              (startAuthorizedTrial E now))
       (audit_log (auditEntry tenantId None ''UPDATE'' ''Tenant'' tenantId
          [(''trialActive'', JBool True), (''trialStartDate'', JDate now),
           (''trialEndDate'', JDate (now + days (trialDurationDays E))),
           (''reason'', JStr ''card_authorized'')]))"

definition activateTenant :: "instant \<Rightarrow> PlanType \<Rightarrow> tenant \<Rightarrow> tenant" where
  "activateTenant now p t =
     applyLimits (getLimitsForPlan (planKey p))
       (t\<lparr>tenant_subscriptionStatus := ACTIVE, tenant_planType := p, tenant_trialActive := False,
          tenant_subscriptionRenewalDate := Some (now + days 30),
          tenant_smsUsageCount := 0, tenant_voiceUsageCount := 0, tenant_aiUsageCount := 0,
          tenant_whatsappUsageCount := 0, tenant_automationExecutionsThisMonth := 0\<rparr>)"

definition activateRecord :: "instant \<Rightarrow> PlanType \<Rightarrow> rat \<Rightarrow> subscriptionRecord \<Rightarrow> subscriptionRecord" where
  "activateRecord now p amount r =
     r\<lparr>subscriptionRecord_status := ACTIVE, subscriptionRecord_planType := p,
       subscriptionRecord_amount := amount, subscriptionRecord_currentPeriodStart := now,
       subscriptionRecord_currentPeriodEnd := Some (now + days 30)\<rparr>"

text \<open>The amount is \<open>None\<close> when it is \<open>NaN\<close>, which the record's update rejects.\<close>

definition activateSubscription ::
  "env \<Rightarrow> instant \<Rightarrow> uuid \<Rightarrow> string \<Rightarrow> json option \<Rightarrow> rat option \<Rightarrow> unit act" where
  "activateSubscription E now tenantId planCode subscriptionCode amount =
     (let planType = planTypeOfCode E planCode
      in thenA (updateTenant tenantId (activateTenant now planType))
           (thenA (case amount of None \<Rightarrow> throwA (PrismaError ''validation'')
                   | Some a \<Rightarrow> updateSubscriptionRecords tenantId subscriptionCode
                                (activateRecord now planType a))
              (auditWith tenantId None ''UPDATE'' ''Subscription'' subscriptionCode
                 [(''status'', JStr ''ACTIVE''), (''planType'', JStr (planKey planType)),
                  (''trialActive'', JBool False)])))"

definition deactivateSubscription :: "uuid \<Rightarrow> json option \<Rightarrow> unit act" where
  "deactivateSubscription tenantId subscriptionCode =
     thenA (updateTenant tenantId (\<lambda>t. t\<lparr>tenant_subscriptionStatus := CANCELLED\<rparr>))
       (thenA (updateSubscriptionRecords tenantId subscriptionCode
                 (\<lambda>r. r\<lparr>subscriptionRecord_status := CANCELLED\<rparr>))
          (auditWith tenantId None ''UPDATE'' ''Subscription'' subscriptionCode
             [(''status'', JStr ''CANCELLED'')]))"

definition handlePaymentFailure :: "uuid \<Rightarrow> json option \<Rightarrow> unit act" where
  "handlePaymentFailure tenantId reference =
     thenA (updateTenant tenantId (\<lambda>t. t\<lparr>tenant_subscriptionStatus := PAST_DUE\<rparr>))
       (auditWith tenantId None ''UPDATE'' ''Subscription'' reference
          [(''status'', JStr ''PAST_DUE''), (''reason'', JStr ''payment_failed'')])"

definition handlePlanChange :: "env \<Rightarrow> uuid \<Rightarrow> string \<Rightarrow> string \<Rightarrow> unit act" where
  "handlePlanChange E tenantId newPlanCode subscriptionCode =
     (let newPlanType = planTypeOfCode E newPlanCode
      in thenA (updateTenant tenantId (\<lambda>t. t\<lparr>tenant_planType := newPlanType\<rparr>))
           (audit_log (auditEntry tenantId None ''UPDATE'' ''Subscription'' subscriptionCode
              [(''planType'', JStr (planKey newPlanType))])))"

section \<open>The hourly end of trials\<close>

text \<open>
  \<open>outage t\<close> tells whether the database fails while the row of tenant \<open>t\<close> is written: the loop
  logs the error and goes on with the next tenant.
\<close>

definition expiredTrial :: "instant \<Rightarrow> tenant \<Rightarrow> bool" where
  "expiredTrial now t =
     (tenant_trialActive t \<and> (case tenant_trialEndDate t of None \<Rightarrow> False | Some e \<Rightarrow> e \<le> now) \<and>
      tenant_subscriptionStatus t = TRIALING)"

definition endTrial :: "tenant \<Rightarrow> tenant" where
  "endTrial t = (if truthy (tenant_paystackCustomerId t) then t\<lparr>tenant_trialActive := False\<rparr>
     else t\<lparr>tenant_trialActive := False, tenant_subscriptionStatus := EXPIRED\<rparr>)"

definition processExpiredTrial :: "(uuid \<Rightarrow> bool) \<Rightarrow> tenant \<Rightarrow> unit act" where
  "processExpiredTrial outage t =
     (let i = tenant_id t
      in if outage i then throwA (PrismaError ''connection'')
         else if \<not> truthy (tenant_paystackCustomerId t)
         then thenA (updateTenant i (\<lambda>r. r\<lparr>tenant_trialActive := False,
                                         tenant_subscriptionStatus := EXPIRED\<rparr>))
                (audit_log (auditEntry i None ''UPDATE'' ''Tenant'' i
                   [(''trialActive'', JBool False), (''subscriptionStatus'', JStr ''EXPIRED''),
                    (''reason'', JStr ''trial_expired_no_card'')]))
         else thenA (updateTenant i (\<lambda>r. r\<lparr>tenant_trialActive := False\<rparr>))
                (audit_log (auditEntry i None ''UPDATE'' ''Tenant'' i
                   [(''trialActive'', JBool False),
                    (''reason'', JStr ''trial_expired_awaiting_charge'')])))"

definition processExpiredTrials :: "(uuid \<Rightarrow> bool) \<Rightarrow> instant \<Rightarrow> unit act" where
  "processExpiredTrials outage now w =
     forEachA (\<lambda>t. swallowA (processExpiredTrial outage t))
       (filter (expiredTrial now) (w_tenants w)) w"

section \<open>Billing info\<close>

record BillingInfo =
  bi_plan :: PlanType
  bi_status :: SubscriptionStatus
  bi_hasPaymentMethod :: bool
  bi_trialActive :: bool
  bi_trialDaysRemaining :: int
  bi_trialEndsAt :: "instant option"
  bi_renewalDate :: "instant option"
  bi_sms :: "int \<times> int"
  bi_voice :: int
  bi_ai :: "int \<times> int"
  bi_whatsapp :: "int \<times> int"
  bi_recentSubscriptions :: "subscriptionRecord list"

definition getBillingInfo :: "instant \<Rightarrow> uuid \<Rightarrow> world \<Rightarrow> BillingInfo outcome" where
  "getBillingInfo now tenantId w =
     (case findTenant tenantId w of
        None \<Rightarrow> Inl (ForbiddenException ''Tenant not found'')
      | Some t \<Rightarrow> Inr \<lparr>
          bi_plan = tenant_planType t, bi_status = tenant_subscriptionStatus t,
          bi_hasPaymentMethod = truthy (tenant_paystackCustomerId t),
          bi_trialActive = tenant_trialActive t,
          bi_trialDaysRemaining = trialDaysRemaining now (tenant_trialEndDate t),
          bi_trialEndsAt = tenant_trialEndDate t,
          bi_renewalDate = tenant_subscriptionRenewalDate t,
          bi_sms = (tenant_smsUsageCount t, tenant_smsTrialLimit t),
          bi_voice = tenant_voiceUsageCount t,
          bi_ai = (tenant_aiUsageCount t,
                   if tenant_trialActive t then tenant_aiTrialLimit t else tenant_aiMonthlyLimit t),
          bi_whatsapp = (tenant_whatsappUsageCount t, tenant_whatsappMonthlyLimit t),
          bi_recentSubscriptions = take 5 (order_desc subscriptionRecord_createdAt
             (filter (\<lambda>r. subscriptionRecord_tenantId r = tenantId) (w_subscriptionRecords w)))\<rparr>)"

end
