(* ===== verification/Billing_Webhooks.thy ===== *)
theory Billing_Webhooks
  imports Billing
begin

text \<open>
  The three payment webhooks: \<open>paystack-webhook.controller.ts\<close>, \<open>paypal-webhook.controller.ts\<close>
  and \<open>crypto-webhook.controller.ts\<close>. Each verifies the sender, records the event id once and
  routes the event to the billing service. A delivery is the payload with its headers and the
  instant it arrives at; \<open>outage\<close> says that the queries on the table of processed events fail.
\<close>

definition throwing :: "http_error + 'a \<Rightarrow> ('a \<Rightarrow> 'b act) \<Rightarrow> 'b act" where
  "throwing r k w = (case r of Inl (msg, _) \<Rightarrow> (Inl (PlainError msg), w) | Inr x \<Rightarrow> k x w)"

definition seenWebhook :: "string \<Rightarrow> world \<Rightarrow> bool" where
  "seenWebhook eventId w = (eventId \<in> processedWebhook_eventId ` set (w_processedWebhooks w))"

definition markWebhook :: "instant \<Rightarrow> string \<Rightarrow> world \<Rightarrow> world" where
  "markWebhook now eventId w = w\<lparr>w_processedWebhooks := w_processedWebhooks w @
     [\<lparr>processedWebhook_eventId = eventId, processedWebhook_processedAt = now\<rparr>]\<rparr>"

text \<open>The idempotency step all three share: skip a known event, else record it and go on.\<close>

definition onceOnly :: "bool \<Rightarrow> instant \<Rightarrow> string \<Rightarrow> unit act \<Rightarrow> unit act" where
  "onceOnly outage now eventId k w =
     (if outage then k w
      else if seenWebhook eventId w then (Inr (), w)
      else k (markWebhook now eventId w))"

text \<open>\<open>id ? String(id) : `${event}-${Date.now()}`\<close>\<close>

definition eventIdOf :: "json option \<Rightarrow> json option \<Rightarrow> instant \<Rightarrow> string" where
  "eventIdOf ident event now =
     (if jtruthy ident then jString ident else jString event @ ''-'' @ show_int now)"

text \<open>A text used as a query condition: any other type is rejected.\<close>

definition queryText :: "json option \<Rightarrow> (string \<Rightarrow> 'a act) \<Rightarrow> 'a act" where
  "queryText v k w = (case jstr v of Some s \<Rightarrow> k s w | None \<Rightarrow> (Inl (PrismaError ''validation''), w))"

section \<open>Paystack\<close>

text \<open>\<open>user.findFirst({ where: { email } })\<close> and the tenant it belongs to.\<close>

definition findTenantByEmail :: "string \<Rightarrow> world \<Rightarrow> tenant option" where
  "findTenantByEmail email w =
     (case List.find (\<lambda>u. user_email u = email) (w_users w) of
        None \<Rightarrow> None | Some u \<Rightarrow> findTenant (user_tenantId u) w)"

definition centsToUnits :: "json option \<Rightarrow> rat option" where
  "centsToUnits amount = map_option (\<lambda>x. x / 100) (jnumber (jor amount (Some (JNum 0))))"

definition handleChargeSuccess :: "env \<Rightarrow> instant \<Rightarrow> json option \<Rightarrow> unit act" where
  "handleChargeSuccess E now data =
     throwing (readProp data ''customer'') (\<lambda>customer.
       let email = jget customer ''email'';
           planCode = jget (jget data ''plan'') ''plan_code'';
           subscriptionCode = jor (jget data ''subscription_code'') (jget data ''reference'');
           customerCode = jget customer ''customer_code''
       in if \<not> jtruthy email then returnA ()
          else queryText email (\<lambda>address w.
            (case findTenantByEmail address w of
               None \<Rightarrow> (Inr (), w)
             | Some tenant \<Rightarrow>
                 if \<not> tenant_trialActive tenant \<and> tenant_subscriptionStatus tenant = TRIALING
                 then activateTrialAfterAuthorization E now (tenant_id tenant) customerCode w
                 else if jtruthy planCode
                 then activateSubscription E now (tenant_id tenant) (jString planCode)
                        subscriptionCode (centsToUnits (jget data ''amount'')) w
                 else if jtruthy customerCode \<and> \<not> truthy (tenant_paystackCustomerId tenant)
                 then storeCustomerCode (tenant_id tenant) customerCode w
                 else (Inr (), w))))"

definition handleSubscriptionCreate :: "env \<Rightarrow> instant \<Rightarrow> json option \<Rightarrow> unit act" where
  "handleSubscriptionCreate E now data =
     throwing (readProp data ''customer'') (\<lambda>customer.
       let email = jget customer ''email''
       in if \<not> jtruthy email then returnA ()
          else queryText email (\<lambda>address w.
            (case findTenantByEmail address w of
               None \<Rightarrow> (Inr (), w)
             | Some tenant \<Rightarrow>
                 activateSubscription E now (tenant_id tenant)
                   (jString (jget (jget data ''plan'') ''plan_code''))
                   (jget data ''subscription_code'') (centsToUnits (jget data ''amount'')) w)))"

definition handleSubscriptionCancel :: "json option \<Rightarrow> unit act" where
  "handleSubscriptionCancel data =
     throwing (readProp data ''customer'') (\<lambda>customer.
       let email = jget customer ''email''
       in if \<not> jtruthy email then returnA ()
          else queryText email (\<lambda>address w.
            (case findTenantByEmail address w of
               None \<Rightarrow> (Inr (), w)
             | Some tenant \<Rightarrow>
                 deactivateSubscription (tenant_id tenant) (jget data ''subscription_code'') w)))"

definition handleInvoiceFailed :: "json option \<Rightarrow> unit act" where
  "handleInvoiceFailed data =
     throwing (readProp data ''customer'') (\<lambda>customer.
       let email = jget customer ''email''
       in if \<not> jtruthy email then returnA ()
          else queryText email (\<lambda>address w.
            (case findTenantByEmail address w of
               None \<Rightarrow> (Inr (), w)
             | Some tenant \<Rightarrow>
                 handlePaymentFailure (tenant_id tenant)
                   (jor (jget data ''reference'') (jget data ''id'')) w)))"

definition hmacMatches :: "env \<Rightarrow> string \<Rightarrow> string \<Rightarrow> string \<Rightarrow> string option \<Rightarrow> bool" where
  "hmacMatches E algorithm secret body signature =
     (secret \<noteq> [] \<and> truthy signature \<and> Some (e_hmac E algorithm secret body) = signature)"

record paystack_delivery =
  ps_now :: instant
  ps_payload :: json
  ps_signature :: "string option"

definition paystackGenuine :: "env \<Rightarrow> paystack_delivery \<Rightarrow> bool" where
  "paystackGenuine E d =
     hmacMatches E ''sha512'' (conf E ''PAYSTACK_SECRET_KEY'' []) (e_stringify E (ps_payload d))
       (ps_signature d)"

definition paystackEventId :: "paystack_delivery \<Rightarrow> string" where
  "paystackEventId d =
     eventIdOf (jget (Some (ps_payload d)) ''id'') (jget (Some (ps_payload d)) ''event'') (ps_now d)"

definition paystackRoute :: "env \<Rightarrow> instant \<Rightarrow> json option \<Rightarrow> json option \<Rightarrow> unit act" where
  "paystackRoute E now event data =
     (case jstr event of
        None \<Rightarrow> returnA ()
      | Some e \<Rightarrow>
          if e = ''charge.success'' then handleChargeSuccess E now data
          else if e = ''subscription.create'' then handleSubscriptionCreate E now data
          else if e = ''subscription.not_renew'' \<or> e = ''subscription.disable''
          then handleSubscriptionCancel data
          else if e = ''invoice.payment_failed'' then handleInvoiceFailed data
          else if e = ''invoice.update'' \<or> e = ''invoice.create''
          then throwing (readProp data ''reference'') (\<lambda>_. returnA ())
          else returnA ())"

definition paystack_handleWebhook :: "env \<Rightarrow> bool \<Rightarrow> paystack_delivery \<Rightarrow> unit act" where
  "paystack_handleWebhook E outage d =
     (if \<not> paystackGenuine E d then throwA (ForbiddenException ''Invalid signature'')
      else throwing (readProp (Some (ps_payload d)) ''event'') (\<lambda>event.
        onceOnly outage (ps_now d) (paystackEventId d)
          (paystackRoute E (ps_now d) event (jget (Some (ps_payload d)) ''data''))))"

text \<open>The QA endpoint: a charge.success made up from the body, behind a token.\<close>

definition simulateWebhook :: "env \<Rightarrow> instant \<Rightarrow> json \<Rightarrow> unit act" where
  "simulateWebhook E now body =
     (if \<not> truthy (e_config E ''X_QA_BYPASS_TOKEN'') \<or>
         jget (Some body) ''token'' \<noteq> map_option JStr (e_config E ''X_QA_BYPASS_TOKEN'')
      then throwA (ForbiddenException ''Invalid bypass token'')
      else if jget (Some body) ''event'' = Some (JStr ''charge.success'')
      then handleChargeSuccess E now (Some (jobj
        [(''customer'', Some (jobj [(''email'', jget (Some body) ''email''),
             (''customer_code'', Some (JStr (''CUS_MOCK_'' @ show_int now)))])),
         (''plan'', Some (jobj [(''plan_code'', jget (Some body) ''planCode'')])),
         (''reference'', jor (jget (Some body) ''reference'')
             (Some (JStr (''REF_MOCK_'' @ show_int now)))),
         (''amount'', jor (jget (Some body) ''amount'') (Some (JNum 1900)))]))
      else returnA ())"

section \<open>PayPal\<close>

definition recordOf :: "PaymentProvider \<Rightarrow> string \<Rightarrow> world \<Rightarrow> subscriptionRecord option" where
  "recordOf provider code w =
     List.find (\<lambda>r. subscriptionRecord_provider r = providerName provider \<and>
                    subscriptionRecord_providerSubscriptionId r = Some code) (w_subscriptionRecords w)"

definition handleSubscriptionActivated :: "env \<Rightarrow> instant \<Rightarrow> json option \<Rightarrow> unit act" where
  "handleSubscriptionActivated E now resource =
     (let subscriptionId = jget resource ''id''
      in if \<not> jtruthy subscriptionId then returnA ()
         else queryText subscriptionId (\<lambda>i w.
           (case recordOf PAYPAL i w of
              None \<Rightarrow> (Inr (), w)
            | Some r \<Rightarrow>
                activateSubscription E now (subscriptionRecord_tenantId r)
                  (jString (jor (jget resource ''plan_id'') (Some (JStr ''starter'')))) subscriptionId
                  (Some (coalesce (jnumber (jget (jget (jget (jget resource ''billing_info'')
                     ''last_payment'') ''amount'') ''value'')) 0)) w)))"

definition handleSubscriptionCancelled :: "json option \<Rightarrow> unit act" where
  "handleSubscriptionCancelled resource =
     (let subscriptionId = jget resource ''id''
      in if \<not> jtruthy subscriptionId then returnA ()
         else queryText subscriptionId (\<lambda>i w.
           (case recordOf PAYPAL i w of
              None \<Rightarrow> (Inr (), w)
            | Some r \<Rightarrow> deactivateSubscription (subscriptionRecord_tenantId r) subscriptionId w)))"

definition handlePaymentFailed :: "json option \<Rightarrow> unit act" where
  "handlePaymentFailed resource =
     (let subscriptionId = jor (jget resource ''billing_agreement_id'') (jget resource ''id'')
      in if \<not> jtruthy subscriptionId then returnA ()
         else queryText subscriptionId (\<lambda>i w.
           (case recordOf PAYPAL i w of
              None \<Rightarrow> (Inr (), w)
            | Some r \<Rightarrow> handlePaymentFailure (subscriptionRecord_tenantId r) subscriptionId w)))"

record paypal_delivery =
  pp_now :: instant
  pp_payload :: json
  pp_transmissionId :: "string option"
  pp_transmissionTime :: "string option"
  pp_transmissionSig :: "string option"
  pp_certUrl :: "string option"
  pp_authAlgo :: "string option"

definition paypalGenuine :: "env \<Rightarrow> paypal_delivery \<Rightarrow> bool" where
  "paypalGenuine E d =
     (conf E ''PAYPAL_CLIENT_ID'' [] \<noteq> [] \<and> conf E ''PAYPAL_CLIENT_SECRET'' [] \<noteq> [] \<and>
      conf E ''PAYPAL_WEBHOOK_ID'' [] \<noteq> [] \<and>
      catching
        (andThen (paypalCall E ''POST'' ''/v1/notifications/verify-webhook-signature'' []
           (jobj [(''transmission_id'', map_option JStr (pp_transmissionId d)),
                  (''transmission_time'', map_option JStr (pp_transmissionTime d)),
                  (''cert_url'', map_option JStr (pp_certUrl d)),
                  (''auth_algo'', map_option JStr (pp_authAlgo d)),
                  (''transmission_sig'', map_option JStr (pp_transmissionSig d)),
                  (''webhook_id'', Some (JStr (conf E ''PAYPAL_WEBHOOK_ID'' []))),
                  (''webhook_event'', Some (pp_payload d))])) (\<lambda>data.
         andThen (readProp data ''verification_status'') (\<lambda>s.
         Inr (s = Some (JStr ''SUCCESS'')))))
        (\<lambda>_. False))"

definition paypalEventId :: "paypal_delivery \<Rightarrow> string" where
  "paypalEventId d =
     eventIdOf (jget (Some (pp_payload d)) ''id'') (jget (Some (pp_payload d)) ''event_type'') (pp_now d)"

definition paypalRoute :: "env \<Rightarrow> instant \<Rightarrow> json option \<Rightarrow> json option \<Rightarrow> unit act" where
  "paypalRoute E now eventType resource =
     (case jstr eventType of
        None \<Rightarrow> returnA ()
      | Some e \<Rightarrow>
          if e = ''BILLING.SUBSCRIPTION.ACTIVATED'' then handleSubscriptionActivated E now resource
          else if e = ''BILLING.SUBSCRIPTION.CANCELLED'' \<or> e = ''BILLING.SUBSCRIPTION.EXPIRED''
          then handleSubscriptionCancelled resource
          else if e = ''PAYMENT.SALE.DENIED'' \<or> e = ''BILLING.SUBSCRIPTION.PAYMENT.FAILED''
          then handlePaymentFailed resource
          else returnA ())"

text \<open>An event that fails the verification is answered with success and ignored.\<close>

definition paypal_handleWebhook :: "env \<Rightarrow> bool \<Rightarrow> paypal_delivery \<Rightarrow> unit act" where
  "paypal_handleWebhook E outage d =
     (if \<not> paypalGenuine E d then returnA ()
      else throwing (readProp (Some (pp_payload d)) ''event_type'') (\<lambda>eventType.
        onceOnly outage (pp_now d) (paypalEventId d)
          (paypalRoute E (pp_now d) eventType (jget (Some (pp_payload d)) ''resource''))))"

section \<open>Coinbase Commerce\<close>

definition handleChargeConfirmed :: "env \<Rightarrow> instant \<Rightarrow> json option \<Rightarrow> unit act" where
  "handleChargeConfirmed E now data =
     (let reference = jget data ''code'';
          planCode = jget (jget data ''metadata'') ''planCode'';
          amount = jget (jget (jget data ''pricing'') ''local'') ''amount''
      in if \<not> jtruthy reference then returnA ()
         else queryText reference (\<lambda>i w.
           (case recordOf CRYPTO i w of
              None \<Rightarrow> (Inr (), w)
            | Some r \<Rightarrow>
                activateSubscription E now (subscriptionRecord_tenantId r)
                  (jString (jor planCode (Some (JStr ''starter'')))) reference
                  (Some (if jtruthy amount then coalesce (jnumber amount) 0 else 0)) w)))"

definition handleChargeFailed :: "json option \<Rightarrow> unit act" where
  "handleChargeFailed data =
     (let reference = jget data ''code''
      in if \<not> jtruthy reference then returnA ()
         else queryText reference (\<lambda>i w.
           (case recordOf CRYPTO i w of
              None \<Rightarrow> (Inr (), w)
            | Some r \<Rightarrow> handlePaymentFailure (subscriptionRecord_tenantId r) reference w)))"

record crypto_delivery =
  cc_now :: instant
  cc_payload :: json
  cc_rawBody :: "string option"
  cc_signature :: "string option"

definition cryptoGenuine :: "env \<Rightarrow> crypto_delivery \<Rightarrow> bool" where
  "cryptoGenuine E d =
     hmacMatches E ''sha256'' (conf E ''COINBASE_COMMERCE_WEBHOOK_SECRET'' [])
       (case cc_rawBody d of Some b \<Rightarrow> b | None \<Rightarrow> e_stringify E (cc_payload d)) (cc_signature d)"

definition cryptoEvent :: "crypto_delivery \<Rightarrow> json option" where
  "cryptoEvent d = jget (Some (cc_payload d)) ''event''"

definition cryptoEventId :: "crypto_delivery \<Rightarrow> string" where
  "cryptoEventId d = eventIdOf (jget (cryptoEvent d) ''id'') (jget (cryptoEvent d) ''type'') (cc_now d)"

definition cryptoRoute :: "env \<Rightarrow> instant \<Rightarrow> json option \<Rightarrow> json option \<Rightarrow> unit act" where
  "cryptoRoute E now eventType data =
     (case jstr eventType of
        None \<Rightarrow> returnA ()
      | Some e \<Rightarrow>
          if e = ''charge:confirmed'' \<or> e = ''charge:resolved'' then handleChargeConfirmed E now data
          else if e = ''charge:failed'' then handleChargeFailed data
          else returnA ())"

definition crypto_handleWebhook :: "env \<Rightarrow> bool \<Rightarrow> crypto_delivery \<Rightarrow> unit act" where
  "crypto_handleWebhook E outage d =
     (if \<not> cryptoGenuine E d then throwA (ForbiddenException ''Invalid signature'')
      else throwing (readProp (Some (cc_payload d)) ''event'') (\<lambda>event.
        onceOnly outage (cc_now d) (cryptoEventId d)
          (cryptoRoute E (cc_now d) (jget event ''type'') (jget event ''data''))))"

end
