(* ===== verification/Billing_Laws.thy ===== *)
theory Billing_Laws
  imports Billing_Webhooks Usage_Quota
begin

text \<open>
  What the billing service and its webhooks guarantee: the frame of their writes, the invariant of
  the subscription states, exactly-once processing of webhook events, and what each transition
  leaves behind.
\<close>

section \<open>The writes of the billing service\<close>

text \<open>Every change billing makes to a tenant row is one of these.\<close>

inductive billing_write :: "(tenant \<Rightarrow> tenant) \<Rightarrow> bool" where
  verified [intro]: "billing_write (startVerifiedTrial now)"
| authorized [intro]: "billing_write (startAuthorizedTrial E now c)"
| activated [intro]: "billing_write (activateTenant now p)"
| cancelled [intro]: "billing_write (\<lambda>t. t\<lparr>tenant_subscriptionStatus := CANCELLED\<rparr>)"
| past_due [intro]: "billing_write (\<lambda>t. t\<lparr>tenant_subscriptionStatus := PAST_DUE\<rparr>)"
| plan_changed [intro]: "billing_write (\<lambda>t. t\<lparr>tenant_planType := p\<rparr>)"
| expired [intro]: "billing_write (\<lambda>t. t\<lparr>tenant_trialActive := False, tenant_subscriptionStatus := EXPIRED\<rparr>)"
| trial_over [intro]: "billing_write (\<lambda>t. t\<lparr>tenant_trialActive := False\<rparr>)"
| customer_code [intro]: "billing_write (\<lambda>t. if b then t else t\<lparr>tenant_paystackCustomerId := c\<rparr>)"

text \<open>A state predicate that survives these writes, and those to the record and audit tables.\<close>

locale billing_frame =
  fixes P :: "world \<Rightarrow> bool"
  assumes tenant_write: "billing_write f \<Longrightarrow> keeps P (updateTenant t f)"
    and records_write: "P w \<Longrightarrow> P (w\<lparr>w_subscriptionRecords := rs\<rparr>)"
    and fresh_id: "P w \<Longrightarrow> P (bump w)"
    and audit: "keeps P (audit_log e)"
begin

lemma auditWith: "keeps P (auditWith t u a n i kvs)"
  by (rule keeps_leaves) (auto simp: auditWith_def intro!: leaves_intros leaves_op [OF audit]
      split: option.split json.split)

lemma createRecord: "keeps P (createSubscriptionRecord E now t pr pl ref)"
  by (rule keepsI) (auto simp: createSubscriptionRecord_def intro: fresh_id records_write split: sum.split)

lemma updateRecords: "keeps P (updateSubscriptionRecords t c f)"
  by (rule keepsI) (auto simp: updateSubscriptionRecords_def intro: records_write split: sum.split)

lemmas writes = leaves_intros leaves_op [OF auditWith] leaves_op [OF createRecord]
  leaves_op [OF updateRecords] leaves_op [OF tenant_write] leaves_op [OF audit]

lemma tenantWith: "(\<And>c. billing_write (f c)) \<Longrightarrow> keeps P (updateTenantWith t v f)"
  by (rule keeps_leaves) (unfold updateTenantWith_def, intro writes)

lemma storeCode: "keeps P (storeCustomerCode t c)"
  unfolding storeCustomerCode_def by (rule tenantWith) auto

lemma ensureCustomer: "keeps P (ensurePaystackCustomer E t m)"
  by (rule keeps_leaves) (unfold ensurePaystackCustomer_def Let_def,
      intro writes leaves_op [OF storeCode])

lemma subscribe: "keeps P (createSubscription E now t u c m)"
  by (rule keeps_leaves) (unfold createSubscription_def Let_def if_distrib [of "\<lambda>f. f _"],
      intro writes leaves_op [OF ensureCustomer])

lemma initialize: "keeps P (initializeTransaction E now t i m pr)"
  by (rule keeps_leaves) (unfold initializeTransaction_def Let_def, intro writes)

lemma startTrial: "keeps P (activateTrialAfterAuthorization E now t c)"
  by (rule keeps_leaves) (unfold activateTrialAfterAuthorization_def,
      intro writes leaves_op [OF tenantWith]; auto)

lemma activate: "keeps P (activateSubscription E now t c i a)"
  by (rule keeps_leaves; cases a) (auto simp: activateSubscription_def Let_def intro!: writes)

lemma deactivate: "keeps P (deactivateSubscription t i)"
  by (rule keeps_leaves) (auto simp: deactivateSubscription_def intro!: writes)

lemma failure: "keeps P (handlePaymentFailure t i)"
  by (rule keeps_leaves) (auto simp: handlePaymentFailure_def intro!: writes)

lemma planChange: "keeps P (handlePlanChange E t c i)"
  by (rule keeps_leaves) (auto simp: handlePlanChange_def Let_def intro!: writes)

lemma trialJob: "keeps P (processExpiredTrials outage now)"
  by (rule keeps_leaves) (auto simp: processExpiredTrials_def processExpiredTrial_def Let_def
      intro!: writes)

lemma verify: "keeps P (verifyTransaction E now t r pr)"
  by (rule keeps_leaves) (auto simp: verifyTransaction_def Let_def intro!: writes split: bool.split)

lemma testCheckout: "keeps P (testCheckout E now t i pr)"
  by (rule keeps_leaves) (auto simp: testCheckout_def Let_def intro!: writes)

lemma throwing: "P w \<Longrightarrow> (\<And>x. leaves P (k x w)) \<Longrightarrow> leaves P (throwing r k w)"
  by (auto simp: throwing_def intro!: writes split: sum.split prod.split)

lemma queryText: "P w \<Longrightarrow> (\<And>x. leaves P (k x w)) \<Longrightarrow> leaves P (queryText v k w)"
  by (auto simp: queryText_def intro!: writes split: option.split)

lemmas handlers = throwing queryText leaves_op [OF startTrial] leaves_op [OF activate]
  leaves_op [OF storeCode] leaves_op [OF deactivate] leaves_op [OF failure]

lemma chargeSuccess: "keeps P (handleChargeSuccess E now data)"
  by (rule keeps_leaves) (unfold handleChargeSuccess_def Let_def if_distrib [of "\<lambda>f. f _"],
      intro handlers writes; assumption)

lemma paystackHandlers:
  "keeps P (handleSubscriptionCreate E now data)"
  "keeps P (handleSubscriptionCancel data)"
  "keeps P (handleInvoiceFailed data)"
  by (rule keeps_leaves, unfold handleSubscriptionCreate_def handleSubscriptionCancel_def
        handleInvoiceFailed_def Let_def if_distrib [of "\<lambda>f. f _"],
      intro handlers writes; assumption)+

lemma paystackRoute: "keeps P (paystackRoute E now event data)"
  by (cases "jstr event") (auto simp: paystackRoute_def
      intro!: chargeSuccess paystackHandlers keeps_leaves [OF throwing] keeps_intros writes)

lemma simulate: "keeps P (simulateWebhook E now body)"
  by (auto simp: simulateWebhook_def intro!: chargeSuccess keeps_intros)

lemma paypalHandlers:
  "keeps P (handleSubscriptionActivated E now data)"
  "keeps P (handleSubscriptionCancelled data)"
  "keeps P (handlePaymentFailed data)"
  by (rule keeps_leaves, unfold handleSubscriptionActivated_def handleSubscriptionCancelled_def
        handlePaymentFailed_def Let_def if_distrib [of "\<lambda>f. f _"],
      intro handlers writes; assumption)+

lemma paypalRoute: "keeps P (paypalRoute E now event data)"
  by (cases "jstr event") (auto simp: paypalRoute_def intro!: paypalHandlers keeps_intros)

lemma cryptoHandlers:
  "keeps P (handleChargeConfirmed E now data)"
  "keeps P (handleChargeFailed data)"
  by (rule keeps_leaves, unfold handleChargeConfirmed_def handleChargeFailed_def Let_def
        if_distrib [of "\<lambda>f. f _"], intro handlers writes; assumption)+

lemma cryptoRoute: "keeps P (cryptoRoute E now event data)"
  by (cases "jstr event") (auto simp: cryptoRoute_def intro!: cryptoHandlers keeps_intros)

end

interpretation seen: billing_frame "\<lambda>w. w_processedWebhooks w = c" for c
  by unfold_locales (auto simp: bump_def intro!: keeps_updateTenant_frame keeps_audit_log_frame)

section \<open>Exactly-once processing\<close>

text \<open>A stream of deliveries, one after the other.\<close>

definition deliverAll :: "('d \<Rightarrow> unit act) \<Rightarrow> 'd list \<Rightarrow> world \<Rightarrow> world" where
  "deliverAll f ds w = fold (\<lambda>d v. snd (f d v)) ds w"

lemma deliverAll_simps [simp]:
  "deliverAll f [] w = w" "deliverAll f (d # ds) w = deliverAll f ds (snd (f d w))"
  by (simp_all add: deliverAll_def)

text \<open>
  The stream without the deliveries that are not accepted, and without the later ones of an event
  (\<open>ks\<close>: the event ids already seen).
\<close>

fun firstOfEach :: "('d \<Rightarrow> bool) \<Rightarrow> ('d \<Rightarrow> string) \<Rightarrow> string set \<Rightarrow> 'd list \<Rightarrow> 'd list" where
  "firstOfEach ok key ks [] = []"
| "firstOfEach ok key ks (d # ds) =
     (if ok d \<and> key d \<notin> ks then d # firstOfEach ok key (insert (key d) ks) ds
      else firstOfEach ok key ks ds)"

text \<open>
  What a receiver of webhook deliveries promises: a delivery it does not accept changes nothing, an
  event id is remembered for ever once a delivery with it was accepted, and a delivery whose event
  is known changes nothing and is answered normally.
\<close>

locale webhook_receiver =
  fixes deliver :: "'d \<Rightarrow> unit act"
    and accepted :: "'d \<Rightarrow> bool"
    and key :: "'d \<Rightarrow> string"
  assumes rejected: "\<not> accepted d \<Longrightarrow> snd (deliver d w) = w"
    and duplicate: "accepted d \<Longrightarrow> seenWebhook (key d) w \<Longrightarrow> deliver d w = (Inr (), w)"
    and recorded: "accepted d \<Longrightarrow> seenWebhook (key d) (snd (deliver d w))"
    and remembers: "seenWebhook k w \<Longrightarrow> seenWebhook k (snd (deliver d w))"
begin

lemma run_remembers: "seenWebhook k w \<Longrightarrow> seenWebhook k (deliverAll deliver ds w)"
  by (induction ds arbitrary: w) (simp_all add: remembers)

lemma run_firsts:
  assumes "\<And>k. k \<in> ks \<Longrightarrow> seenWebhook k w"
  shows "deliverAll deliver ds w = deliverAll deliver (firstOfEach accepted key ks ds) w"
  using assms
proof (induction ds arbitrary: ks w)
  case (Cons d ds)
  consider "\<not> accepted d" | "accepted d" "key d \<in> ks" | "accepted d" "key d \<notin> ks" by blast
  then show ?case
  proof cases
    case 3
    have "seenWebhook k (snd (deliver d w))" if "k \<in> insert (key d) ks" for k
      using that Cons.prems recorded [OF 3(1)] remembers by auto
    then show ?thesis using 3 Cons.IH [of "insert (key d) ks" "snd (deliver d w)"] by simp
  qed (use Cons rejected duplicate in auto)
qed simp

lemma redelivery:
  assumes "accepted d" and "accepted d'" and "key d' = key d"
  shows "deliver d' (deliverAll deliver ds (snd (deliver d w))) =
    (Inr (), deliverAll deliver ds (snd (deliver d w)))"
  using duplicate [OF assms(2)] run_remembers recorded [OF assms(1)] assms(3) by metis

end

lemma onceOnly_simps:
  "seenWebhook i w \<Longrightarrow> onceOnly False now i k w = (Inr (), w)"
  "\<not> seenWebhook i w \<Longrightarrow> onceOnly False now i k w = k (markWebhook now i w)"
  by (simp_all add: onceOnly_def)

lemma seenWebhook_mark [simp]: "seenWebhook k (markWebhook now i w) = (k = i \<or> seenWebhook k w)"
  by (auto simp: seenWebhook_def markWebhook_def)

lemma onceOnly_laws:
  assumes "\<And>c. keeps (\<lambda>w. w_processedWebhooks w = c) k"
  shows "seenWebhook i (snd (onceOnly False now i k w)) \<and>
    (seenWebhook j w \<longrightarrow> seenWebhook j (snd (onceOnly False now i k w)))"
proof -
  have "seenWebhook j (snd (k v)) = seenWebhook j v" for j v
    using assms [of "w_processedWebhooks v"] by (simp add: keeps_def seenWebhook_def)
  then show ?thesis by (cases "seenWebhook i w") (auto simp: onceOnly_simps)
qed

lemma throwing_object: "v \<noteq> JNull \<Longrightarrow> throwing (readProp (Some v) n) k = k (jget (Some v) n)"
  by (rule ext, cases v) (simp_all add: throwing_def readProp_def)

lemma throwing_null: "throwing (readProp (Some JNull) n) k w = (Inl (PlainError (typeError ''null'' n)), w)"
  by (simp add: throwing_def readProp_def)

text \<open>One stream of deliveries of all three providers, as they share the table of event ids.\<close>

datatype delivery = FromPaystack paystack_delivery | FromPaypal paypal_delivery | FromCrypto crypto_delivery

fun receive :: "env \<Rightarrow> delivery \<Rightarrow> unit act" where
  "receive E (FromPaystack d) = paystack_handleWebhook E False d"
| "receive E (FromPaypal d) = paypal_handleWebhook E False d"
| "receive E (FromCrypto d) = crypto_handleWebhook E False d"

fun genuine :: "env \<Rightarrow> delivery \<Rightarrow> bool" where
  "genuine E (FromPaystack d) = (paystackGenuine E d \<and> ps_payload d \<noteq> JNull)"
| "genuine E (FromPaypal d) = (paypalGenuine E d \<and> pp_payload d \<noteq> JNull)"
| "genuine E (FromCrypto d) = (cryptoGenuine E d \<and> cc_payload d \<noteq> JNull)"

fun eventId :: "delivery \<Rightarrow> string" where
  "eventId (FromPaystack d) = paystackEventId d"
| "eventId (FromPaypal d) = paypalEventId d"
| "eventId (FromCrypto d) = cryptoEventId d"

fun routed :: "env \<Rightarrow> delivery \<Rightarrow> instant \<times> unit act" where
  "routed E (FromPaystack d) = (ps_now d, paystackRoute E (ps_now d)
     (jget (Some (ps_payload d)) ''event'') (jget (Some (ps_payload d)) ''data''))"
| "routed E (FromPaypal d) = (pp_now d, paypalRoute E (pp_now d)
     (jget (Some (pp_payload d)) ''event_type'') (jget (Some (pp_payload d)) ''resource''))"
| "routed E (FromCrypto d) = (cc_now d, cryptoRoute E (cc_now d)
     (jget (cryptoEvent d) ''type'') (jget (cryptoEvent d) ''data''))"

lemma receive_genuine: "genuine E d \<Longrightarrow>
    receive E d = onceOnly False (fst (routed E d)) (eventId d) (snd (routed E d))"
  by (cases d) (simp_all add: paystack_handleWebhook_def paypal_handleWebhook_def
      crypto_handleWebhook_def throwing_object cryptoEvent_def)

lemma receive_forged: "\<not> genuine E d \<Longrightarrow> snd (receive E d w) = w"
  by (cases d) (auto simp: paystack_handleWebhook_def paypal_handleWebhook_def
      crypto_handleWebhook_def throwing_null)

lemma routed_seen: "keeps (\<lambda>w. w_processedWebhooks w = c) (snd (routed E d))"
  by (cases d) (simp_all add: seen.paystackRoute seen.paypalRoute seen.cryptoRoute)

interpretation hooks: webhook_receiver "receive E" "genuine E" eventId for E
proof
  fix d w k
  show "snd (receive E d w) = w" if "\<not> genuine E d" using that by (rule receive_forged)
  show "receive E d w = (Inr (), w)" if "genuine E d" "seenWebhook (eventId d) w"
    using that by (simp add: receive_genuine onceOnly_simps)
  show "seenWebhook (eventId d) (snd (receive E d w))" if "genuine E d"
    using that onceOnly_laws [OF routed_seen] by (simp add: receive_genuine)
  show "seenWebhook k (snd (receive E d w))" if "seenWebhook k w"
    using that onceOnly_laws [OF routed_seen] receive_forged [of E d w]
    by (cases "genuine E d") (simp_all add: receive_genuine)
qed

end
