(* ===== verification/Billing_Properties.thy ===== *)
theory Billing_Properties
  imports Billing_Laws Rate_Limit
begin

text \<open>
  The properties of billing: webhooks take effect exactly once, the subscription states reachable
  through every entry point, what activation grants, how trials end, and the transitions that go
  against what the code intends.
\<close>

section \<open>Webhooks\<close>

text \<open>
  C3: Payment events take effect exactly once and forged ones never. Take any stream of
  deliveries of the three providers, mixed and with redeliveries in any order: the state after it is
  the state after the stream from which every delivery that fails its signature check, and every
  later delivery of an event id, has been removed.
\<close>

theorem webhooks_exactly_once:
  "deliverAll (receive E) ds w = deliverAll (receive E) (firstOfEach (genuine E) eventId {} ds) w"
  by (rule hooks.run_firsts) simp

text \<open>An environment with the three providers configured, and the deliveries of a small example.\<close>

definition payEnv :: env where
  "payEnv = demoEnv\<lparr>e_config := [''PAYSTACK_SECRET_KEY'' \<mapsto> ''sk'',
     ''PAYSTACK_SMS_PLAN_CODE'' \<mapsto> ''PLN_1'', ''PAYSTACK_SMS_VOICE_PLAN_CODE'' \<mapsto> ''PLN_2'',
     ''PAYSTACK_SMS_VOICE_AI_PLAN_CODE'' \<mapsto> ''PLN_3'',
     ''COINBASE_COMMERCE_WEBHOOK_SECRET'' \<mapsto> ''cs'']\<rparr>"

definition paystackEvent :: "string \<Rightarrow> string \<Rightarrow> json \<Rightarrow> delivery" where
  "paystackEvent i event data = FromPaystack \<lparr>ps_now = 5000, ps_payload =
     JObj [(''id'', JStr i), (''event'', JStr event), (''data'', data)],
     ps_signature = Some ''sha512sk{}''\<rparr>"

definition cryptoCharge :: "string \<Rightarrow> string \<Rightarrow> string \<Rightarrow> delivery" where
  "cryptoCharge i reference plan = FromCrypto \<lparr>cc_now = 5000, cc_payload =
     JObj [(''event'', JObj [(''id'', JStr i), (''type'', JStr ''charge:confirmed''),
       (''data'', JObj [(''code'', JStr reference), (''metadata'', JObj [(''planCode'', JStr plan)])])])],
     cc_rawBody = Some ''raw'', cc_signature = Some ''sha256csraw''\<rparr>"

definition owner1 :: user where
  "owner1 = \<lparr>user_id = ''u1'', user_tenantId = ''t1'', user_email = ''a@b.c'',
     user_firstName = None, user_lastName = None, user_role = OWNER, user_passwordHash = ''h'', user_refreshToken = None,
     user_createdAt = 0, user_passwordResetExpiresAt = None, user_passwordResetTokenHash = None\<rparr>"

definition ownedWorld :: "tenant \<Rightarrow> world" where
  "ownedWorld t = (demoWorld [t])\<lparr>w_users := [owner1]\<rparr>"

lemma payEnv_simps [simp]:
  "e_config payEnv ''PAYSTACK_SECRET_KEY'' = Some ''sk''"
  "e_config payEnv ''PAYSTACK_SMS_PLAN_CODE'' = Some ''PLN_1''"
  "e_config payEnv ''PAYSTACK_SMS_VOICE_PLAN_CODE'' = Some ''PLN_2''"
  "e_config payEnv ''PAYSTACK_SMS_VOICE_AI_PLAN_CODE'' = Some ''PLN_3''"
  "e_config payEnv ''COINBASE_COMMERCE_WEBHOOK_SECRET'' = Some ''cs''"
  "e_hmac payEnv a k s = a @ k @ s" "e_stringify payEnv j = ''{}''"
  by (simp_all add: payEnv_def demoEnv_def)

lemma ownedWorld_simps [simp]:
  "w_tenants (ownedWorld t) = [t]" "w_users (ownedWorld t) = [owner1]"
  "w_processedWebhooks (ownedWorld t) = []" "w_subscriptionRecords (ownedWorld t) = []"
  "findTenant k (ownedWorld t) = (if tenant_id t = k then Some t else None)"
  "tenantExists k (ownedWorld t) = (tenant_id t = k)"
  by (auto simp: ownedWorld_def demoWorld_def emptyWorld_def findTenant_def tenantExists_def)

text \<open>
  An event whose processing fails is never processed again. Its id is recorded before the
  handler runs and stays recorded when the handler throws, so the provider's retry (any genuine
  delivery with the same event id, however many other deliveries lie between) is answered as a
  duplicate and changes nothing: the payment is lost, although the code means to prefer processing
  over dropping a payment.
\<close>

theorem failed_event_never_retried:
  assumes "genuine E d" and "fst (receive E d w) = Inl e"
    and "genuine E d'" and "eventId d' = eventId d"
  shows "receive E d' (deliverAll (receive E) ds (snd (receive E d w))) =
    (Inr (), deliverAll (receive E) ds (snd (receive E d w)))"
  using hooks.redelivery assms(1,3,4) .

theorem failed_event_never_retried_witness:
  "let d = paystackEvent ''ev1'' ''subscription.create'' (JObj [
         (''customer'', JObj [(''email'', JStr ''a@b.c'')]), (''subscription_code'', JNum 7)]);
       w = ownedWorld (demoTenant PLAN_SMS TRIALING True 0);
       v = snd (receive payEnv d w)
   in fst (receive payEnv d w) = Inl (PrismaError ''validation'') \<and> receive payEnv d v = (Inr (), v)"
proof -
  let ?d = "paystackEvent ''ev1'' ''subscription.create'' (JObj [
         (''customer'', JObj [(''email'', JStr ''a@b.c'')]), (''subscription_code'', JNum 7)])"
  let ?w = "ownedWorld (demoTenant PLAN_SMS TRIALING True 0)"
  have g: "genuine payEnv ?d"
    by (simp add: paystackEvent_def paystackGenuine_def hmacMatches_def conf_def)
  have e: "fst (receive payEnv ?d ?w) = Inl (PrismaError ''validation'')"
    by (simp add: receive_genuine [OF g])
       (simp add: paystackEvent_def onceOnly_def seenWebhook_def paystackRoute_def jstr_def
        handleSubscriptionCreate_def throwing_def readProp_def queryText_def findTenantByEmail_def
        owner1_def markWebhook_def findTenant_def activateSubscription_def centsToUnits_def jor_def
        jnumber_def updateSubscriptionRecords_def updateTenant_def updateRow_def Let_def thenA_def
        bindA_def)
  from failed_event_never_retried [OF g e g refl, of "[]"] e show ?thesis by (simp add: Let_def)
qed

section \<open>The subscription states\<close>

text \<open>Every way billing state changes, at any instant and with any arguments.\<close>

inductive billing_step :: "env \<Rightarrow> world \<Rightarrow> world \<Rightarrow> bool" for E where
  subscribe: "billing_step E w (snd (createSubscription E now t u code email w))"
| initialize: "billing_step E w (snd (initializeTransaction E now t planId email provider w))"
| verify: "billing_step E w (snd (verifyTransaction E now t reference provider w))"
| test_checkout: "billing_step E w (snd (testCheckout E now t planId provider w))"
| webhook: "billing_step E w (snd (receive E d w))"
| simulate: "billing_step E w (snd (simulateWebhook E now body w))"
| plan_change: "billing_step E w (snd (handlePlanChange E t code sub w))"
| trial_job: "billing_step E w (snd (processExpiredTrials outage now w))"
| metered: "billing_step E w (snd (validateAndIncrement now t f u w))"

definition soundTenant :: "tenant \<Rightarrow> bool" where
  "soundTenant t =
     ((tenant_subscriptionStatus t = ACTIVE \<or> tenant_subscriptionStatus t = EXPIRED \<longrightarrow>
         \<not> tenant_trialActive t) \<and>
      (tenant_trialActive t \<longrightarrow> tenant_trialEndDate t \<noteq> None))"

lemma soundTenant_write: "billing_write f \<Longrightarrow> soundTenant r \<Longrightarrow> soundTenant (f r)"
  by (induction rule: billing_write.induct)
     (auto simp: soundTenant_def startVerifiedTrial_def startAuthorizedTrial_def applyLimits_def
        activateTenant_def)

interpretation sound: billing_frame "tenantsAll soundTenant"
  by unfold_locales (auto simp: soundTenant_write bump_def tenantsAll_def
      intro!: keeps_updateTenant_all keeps_audit_log_all)

lemma sound_metered: "keeps (tenantsAll soundTenant) (validateAndIncrement now t f u)"
proof -
  have "soundTenant (addUsage f r) = soundTenant r" for r by (simp add: soundTenant_def)
  then show ?thesis
    by (intro keeps_leaves) (auto simp: validateAndIncrement_def Let_def incrementUsage_def
        logBlockedAttempt_def simp del: updateTenant_ok thenA_audit
        intro!: leaves_intros leaves_op [OF keeps_updateTenant_all] leaves_op [OF keeps_audit_log_all])
qed

lemma sound_receive: "keeps (tenantsAll soundTenant) (receive E d)"
proof (rule keepsI)
  fix w assume a: "tenantsAll soundTenant w"
  have mark: "tenantsAll soundTenant (markWebhook n i w)" for n i
    using a by (simp add: markWebhook_def tenantsAll_def)
  have "keeps (tenantsAll soundTenant) (snd (routed E d))"
    by (cases d) (simp_all add: sound.paystackRoute sound.paypalRoute sound.cryptoRoute)
  then show "tenantsAll soundTenant (snd (receive E d w))"
    using a mark receive_forged [of E d w]
    by (cases "genuine E d") (auto simp: receive_genuine onceOnly_def keeps_def)
qed

lemma billing_step_sound: "billing_step E w v \<Longrightarrow> tenantsAll soundTenant w \<Longrightarrow> tenantsAll soundTenant v"
  by (induction rule: billing_step.induct)
     (auto intro: keepsD [OF sound.subscribe] keepsD [OF sound.initialize] keepsD [OF sound.verify]
        keepsD [OF sound.testCheckout] keepsD [OF sound_receive] keepsD [OF sound.simulate]
        keepsD [OF sound.planChange] keepsD [OF sound.trialJob] keepsD [OF sound_metered])

lemma billing_steps_sound:
  "(billing_step E)\<^sup>*\<^sup>* w v \<Longrightarrow> tenantsAll soundTenant w \<Longrightarrow> tenantsAll soundTenant v"
  by (induction rule: rtranclp_induct) (auto intro: billing_step_sound)

text \<open>
  C40: In every state reachable through checkouts, verifications, the three webhooks (forged or
  not), plan changes, the hourly trial job and metered use, no tenant is on an active or expired
  subscription and in trial at once, and every running trial has an end date. So a tenant whose
  trial is over and still marked as running is refused every feature: the branch of
  checkSubscriptionAccess for those who subscribed during the trial is never taken.
\<close>

theorem subscription_states_sound:
  assumes "(billing_step E)\<^sup>*\<^sup>* w v" and "tenantsAll soundTenant w" and "findTenant t v = Some tn"
  shows "(tenant_subscriptionStatus tn = ACTIVE \<or> tenant_subscriptionStatus tn = EXPIRED \<longrightarrow>
      \<not> tenant_trialActive tn) \<and>
    (tenant_trialActive tn \<longrightarrow> (\<exists>e. tenant_trialEndDate tn = Some e \<and>
      (\<forall>now > e. \<forall>f. \<not> allowed (validate now t f v))))"
proof -
  have "soundTenant tn"
    using billing_steps_sound [OF assms(1,2)] findTenant_SomeD [OF assms(3)]
    by (auto simp: tenantsAll_def)
  then show ?thesis using assms(3)
    by (auto simp: soundTenant_def validate_def checkSubscriptionAccess_def trialExpired_def)
qed

theorem subscription_states_sound_witness:
  "let w = ownedWorld (demoTenant PLAN_SMS TRIALING True 0);
       v = snd (processExpiredTrials (\<lambda>_. False) 2000 w)
   in \<forall>tn. findTenant ''t1'' v = Some tn \<longrightarrow> tenant_subscriptionStatus tn = EXPIRED \<longrightarrow>
        \<not> tenant_trialActive tn"
proof -
  let ?w = "ownedWorld (demoTenant PLAN_SMS TRIALING True 0)"
  have "tenantsAll soundTenant ?w" by (simp add: tenantsAll_def soundTenant_def)
  moreover have "(billing_step payEnv)\<^sup>*\<^sup>* ?w (snd (processExpiredTrials (\<lambda>_. False) 2000 ?w))"
    by (intro r_into_rtranclp trial_job)
  ultimately show ?thesis
    using subscription_states_sound [of payEnv ?w _ "''t1''"] by (simp add: Let_def)
qed

end
