(* ===== verification/Billing_Outcomes.thy ===== *)
theory Billing_Outcomes
  imports Billing_Properties
begin

text \<open>
  What each billing transition leaves behind: activation, the end of trials, verification,
  checkout, and two routes on which a paying tenant does not get what was bought.
\<close>

section \<open>Activation\<close>

lemma findTenant_activate:
  "tenantExists t w \<Longrightarrow>
   findTenant t (snd (activateSubscription E now t code i a w)) =
     map_option (activateTenant now (planTypeOfCode E code)) (findTenant t w)"
proof -
  assume ex: "tenantExists t w"
  let ?v = "putTenants (update_where (\<lambda>r. tenant_id r = t) (activateTenant now (planTypeOfCode E code))
              (w_tenants w)) w"
  have "findTenant t (snd (updateSubscriptionRecords t j f v)) = findTenant t v" for j f v
    by (simp add: updateSubscriptionRecords_def findTenant_def split: sum.split)
  moreover have "findTenant t (snd (auditWith t n x y j kvs v)) = findTenant t v" for n x y j kvs v
    by (simp add: auditWith_def split: option.split json.split)
  ultimately have "findTenant t (snd (activateSubscription E now t code i a w)) = findTenant t ?v"
    using ex by (simp add: activateSubscription_def Let_def thenA_def bindA_def
        split: option.split sum.split prod.split) (metis snd_conv)
  then show ?thesis
    by (simp add: findTenant_update activateTenant_def applyLimits_def)
qed

lemma planLimits_nonneg [simp]: "0 < smsMonthlyLimit (getLimitsForPlan (planKey p))"
  by (rule smsMonthlyLimit_positive)

text \<open>
  Activation grants exactly the plan. After activateSubscription of an existing tenant, at
  every later instant SMS is allowed, voice and WhatsApp are allowed exactly from the voice tier
  on, AI exactly on the AI tier; the plan, the active status, the plan's stored-row and monthly
  limits are in the row, and all usage counters are zero. (The plan is the one of the Paystack plan
  code, the cheapest when the code is unknown.)
\<close>

theorem activation_grants_plan:
  assumes "findTenant t w = Some tn"
  shows "let v = snd (activateSubscription E now t code i a w); p = planTypeOfCode E code;
             l = getLimitsForPlan (planKey p)
    in allowed (validate later t F_SMS v) \<and>
       allowed (validate later t F_VOICE v) = (p \<noteq> PLAN_SMS) \<and>
       allowed (validate later t F_WHATSAPP v) = (p \<noteq> PLAN_SMS) \<and>
       allowed (validate later t F_AI v) = (p = PLAN_SMS_VOICE_AI) \<and>
       (\<exists>r. findTenant t v = Some r \<and> tenant_planType r = p \<and> tenant_subscriptionStatus r = ACTIVE \<and>
          tenant_contactLimit r = contactLimit l \<and> tenant_eventLimit r = eventLimit l \<and>
          tenant_workflowLimit r = workflowLimit l \<and> tenant_aiMonthlyLimit r = aiMonthlyLimit l \<and>
          tenant_whatsappMonthlyLimit r = whatsappMonthlyLimit l \<and>
          (\<forall>f. usage f r = 0) \<and> tenant_automationExecutionsThisMonth r = 0 \<and>
          tenant_subscriptionRenewalDate r = Some (now + days 30))"
proof -
  let ?p = "planTypeOfCode E code"
  let ?r = "activateTenant now ?p tn"
  have found: "findTenant t (snd (activateSubscription E now t code i a w)) = Some ?r"
    using findTenant_activate [OF findTenant_exists [OF assms]] assms by simp
  have use: "usage f (activateTenant now q tn) = 0" for f q by (cases f) (simp_all add: activateTenant_def applyLimits_def)
  have access: "allowed (validate later t f (snd (activateSubscription E now t code i a w))) =
      (allowed (checkPlanAccess ?r f) \<and> underCap f ?r)" if "f \<in> metered" for f
    using found that by (simp add: validate_def checkSubscriptionAccess_def Let_def
        checkFeatureLimits_allowed activateTenant_def applyLimits_def)
  show ?thesis
    by (cases ?p) (simp_all add: found access metered_def use Let_def,
      simp_all add: activateTenant_def applyLimits_def checkPlanAccess_def underCap_def usageCap_def)
qed

theorem activation_grants_plan_witness:
  "let v = snd (activateSubscription payEnv 5 ''t1'' ''PLN_3'' (Some (JStr ''S'')) (Some 99)
                 (ownedWorld (demoTenant PLAN_SMS TRIALING True 100)))
   in allowed (validate 6 ''t1'' F_AI v) \<and> allowed (validate 6 ''t1'' F_VOICE v)"
  using activation_grants_plan [where t = "''t1''" and E = payEnv and later = 6 and now = 5
      and w = "ownedWorld (demoTenant PLAN_SMS TRIALING True 100)" and code = "''PLN_3''"
      and i = "Some (JStr ''S'')" and a = "Some 99"]
  by (simp add: Let_def planTypeOfCode_def planCodeMap_def planCodeMaps_def providerCodes_def conf_def)

section \<open>The end of trials\<close>

lemma processExpiredTrial_tenants:
  "w_tenants (snd (processExpiredTrial outage x w)) =
     (if outage (tenant_id x) then w_tenants w
      else update_where (\<lambda>r. tenant_id r = tenant_id x)
        (\<lambda>r. if truthy (tenant_paystackCustomerId x) then r\<lparr>tenant_trialActive := False\<rparr>
             else r\<lparr>tenant_trialActive := False, tenant_subscriptionStatus := EXPIRED\<rparr>) (w_tenants w))"
proof (cases "tenantExists (tenant_id x) w")
  case False
  then have "update_where (\<lambda>r. tenant_id r = tenant_id x) f (w_tenants w) = w_tenants w" for f
    by (intro update_where_nothing) (metis imageI tenantExists_def)
  with False show ?thesis by (simp add: processExpiredTrial_def Let_def)
qed (simp add: processExpiredTrial_def Let_def)

text \<open>The job as one pass over the rows: each expired trial of the snapshot ends its own row.\<close>

lemma trial_job_fold:
  "w_tenants (snd (forEachA (\<lambda>t. swallowA (processExpiredTrial outage t)) xs w)) =
     map (\<lambda>r. fold (\<lambda>x r. if tenant_id r = tenant_id x \<and> \<not> outage (tenant_id x)
                  then (if truthy (tenant_paystackCustomerId x) then r\<lparr>tenant_trialActive := False\<rparr>
                        else r\<lparr>tenant_trialActive := False, tenant_subscriptionStatus := EXPIRED\<rparr>)
                  else r) xs r) (w_tenants w)"
proof (induction xs arbitrary: w)
  case (Cons x xs)
  show ?case
    unfolding forEachA_swallow Cons processExpiredTrial_tenants update_where_def map_map comp_def fold.simps
    by (cases "outage (tenant_id x)") (auto intro!: map_cong arg_cong [of _ _ "fold _ xs"])
qed (simp only: forEachA_swallow snd_conv fold.simps id_def list.map_ident)

lemma fold_one_match:
  assumes "distinct (map k xs)" and "\<And>x r. k (g x r) = k r"
  shows "fold (\<lambda>x r. if k r = k x \<and> \<not> out (k x) then g x r else r) xs r =
    (case List.find (\<lambda>x. k x = k r) xs of None \<Rightarrow> r | Some x \<Rightarrow> if out (k x) then r else g x r)"
  using assms(1)
proof (induction xs arbitrary: r)
  case (Cons x xs)
  have none: "List.find (\<lambda>y. k y = k x) xs = None"
    using Cons.prems unfolding find_None_iff by simp (metis imageI)
  show ?case using Cons none assms(2) by auto
qed simp

text \<open>
  The hourly trial job does what it says, tenant by tenant, and never throws: with distinct
  tenant ids, the row of every tenant whose trial is running, over and still in status TRIALING is
  ended (expired without a card on file, waiting for the charge with one), unless the database fails
  on that very row; every other row is untouched, so one failing tenant never affects another.
\<close>

theorem trial_job_outcome:
  assumes "distinct (map tenant_id (w_tenants w))"
  shows "fst (processExpiredTrials outage now w) = Inr () \<and>
    w_tenants (snd (processExpiredTrials outage now w)) =
      map (\<lambda>t. if expiredTrial now t \<and> \<not> outage (tenant_id t) then endTrial t else t) (w_tenants w)"
proof
  have "fst (forEachA (\<lambda>t. swallowA (f t)) xs v) = Inr ()" for f :: "tenant \<Rightarrow> unit act" and xs v
    by (induction xs arbitrary: v) simp_all
  then show "fst (processExpiredTrials outage now w) = Inr ()"
    by (simp add: processExpiredTrials_def)
  let ?xs = "filter (expiredTrial now) (w_tenants w)"
  let ?g = "\<lambda>x r. if truthy (tenant_paystackCustomerId x) then r\<lparr>tenant_trialActive := False\<rparr>
             else r\<lparr>tenant_trialActive := False, tenant_subscriptionStatus := EXPIRED\<rparr>"
  have d: "distinct (map tenant_id ?xs)" using assms by (rule distinct_map_filter)
  have own: "List.find (\<lambda>x. tenant_id x = tenant_id t) ?xs = (if expiredTrial now t then Some t else None)"
    if "t \<in> set (w_tenants w)" for t
  proof -
    have "x = t" if "x \<in> set (w_tenants w)" "tenant_id x = tenant_id t" for x
      using that \<open>t \<in> set (w_tenants w)\<close> assms by (auto simp: distinct_map dest: inj_onD)
    then show ?thesis using that
      by (cases "expiredTrial now t") (auto simp: find_None_iff intro!: find_unique)
  qed
  have row: "fold (\<lambda>x r. if tenant_id r = tenant_id x \<and> \<not> outage (tenant_id x) then ?g x r else r) ?xs t =
      (if expiredTrial now t \<and> \<not> outage (tenant_id t) then endTrial t else t)"
    if "t \<in> set (w_tenants w)" for t
    using fold_one_match [OF d, of ?g outage t] own [OF that] by (simp add: endTrial_def)
  show "w_tenants (snd (processExpiredTrials outage now w)) =
      map (\<lambda>t. if expiredTrial now t \<and> \<not> outage (tenant_id t) then endTrial t else t) (w_tenants w)"
    unfolding processExpiredTrials_def trial_job_fold by (rule map_cong [OF refl row])
qed

theorem trial_job_outcome_witness:
  "let t = demoTenant PLAN_SMS TRIALING True 3;
       u = t\<lparr>tenant_id := ''t2'', tenant_paystackCustomerId := Some ''CUS''\<rparr>;
       x = t\<lparr>tenant_id := ''t3''\<rparr>
   in map tenant_subscriptionStatus (w_tenants (snd (processExpiredTrials (\<lambda>i. i = ''t3'') 1000
        (demoWorld [t, u, x])))) = [EXPIRED, TRIALING, TRIALING]"
proof -
  let ?t = "demoTenant PLAN_SMS TRIALING True 3"
  let ?u = "?t\<lparr>tenant_id := ''t2'', tenant_paystackCustomerId := Some ''CUS''\<rparr>"
  let ?x = "?t\<lparr>tenant_id := ''t3''\<rparr>"
  have "distinct (map tenant_id (w_tenants (demoWorld [?t, ?u, ?x])))" by simp
  from trial_job_outcome [OF this, of "\<lambda>i. i = ''t3''" 1000] show ?thesis
    by (simp add: Let_def expiredTrial_def endTrial_def)
qed

section \<open>Where paying does not give what was bought\<close>

text \<open>
  A charge that follows the end of a trial restarts the trial. Take a tenant with a card on
  file whose trial is over: the hourly job stops the trial and leaves the status TRIALING to wait
  for the charge; when Paystack then reports that charge, with the plan paid for, the webhook takes
  it for a first card authorization: the tenant is put on a new trial with trial limits, and its
  subscription is not activated.
\<close>

theorem charge_after_trial_restarts_trial:
  assumes "findTenant t w = Some tn" and "distinct (map tenant_id (w_tenants w))"
    and "expiredTrial now tn" and "truthy (tenant_paystackCustomerId tn)"
    and "List.find (\<lambda>u. user_email u = email) (w_users w) = Some usr" and "user_tenantId usr = t"
    and "data = JObj [(''customer'', JObj [(''email'', JStr email)]),
           (''plan'', JObj [(''plan_code'', JStr code)]), (''reference'', JStr ref)]"
    and "email \<noteq> []" and "0 < trialDurationDays E"
  shows "\<exists>r. findTenant t (snd (handleChargeSuccess E later (Some data)
              (snd (processExpiredTrials (\<lambda>_. False) now w)))) = Some r \<and>
    tenant_trialActive r \<and> tenant_subscriptionStatus r = TRIALING \<and>
    tenant_trialEndDate r = Some (later + days (trialDurationDays E)) \<and>
    tenant_planType r = tenant_planType tn \<and> tenant_aiMonthlyLimit r = 5"
proof -
  let ?v = "snd (processExpiredTrials (\<lambda>_. False) now w)"
  have tid: "tenant_id tn = t" using findTenant_SomeD [OF assms(1)] by simp
  have "tenant_id (endTrial r) = tenant_id r" for r by (simp add: endTrial_def)
  then have comp: "((\<lambda>r. tenant_id r = t) \<circ> (\<lambda>r. if expiredTrial now r then endTrial r else r)) =
      (\<lambda>r. tenant_id r = t)" by (auto simp: comp_def)
  have "List.find (\<lambda>r. tenant_id r = t) (map (\<lambda>r. if expiredTrial now r then endTrial r else r) rs) =
      map_option (\<lambda>r. if expiredTrial now r then endTrial r else r)
        (List.find (\<lambda>r. tenant_id r = t) rs)" for rs
    by (induction rs) (auto simp: endTrial_def)
  then have found: "findTenant t ?v = Some (tn\<lparr>tenant_trialActive := False\<rparr>)"
    using trial_job_outcome [OF assms(2), of "\<lambda>_. False" now] assms(1,3,4)
    by (simp add: findTenant_def endTrial_def)
  have "w_users ?v = w_users w"
  proof -
    have "keeps (\<lambda>v. w_users v = w_users w) (processExpiredTrials (\<lambda>_. False) now)"
      by (rule billing_frame.trialJob, unfold_locales)
         (auto simp: bump_def intro!: keeps_updateTenant_frame keeps_audit_log_frame)
    then show ?thesis by (simp add: keeps_def)
  qed
  then have byEmail: "findTenantByEmail email ?v = Some (tn\<lparr>tenant_trialActive := False\<rparr>)"
    using assms(5,6) found by (simp add: findTenantByEmail_def)
  have status: "tenant_subscriptionStatus tn = TRIALING" using assms(3) by (simp add: expiredTrial_def)
  have "handleChargeSuccess E later (Some data) ?v =
      activateTrialAfterAuthorization E later t None ?v"
    using assms(7,8) byEmail status tid
    by (simp add: handleChargeSuccess_def throwing_def readProp_def queryText_def jstr_def Let_def)
  then show ?thesis
    using found findTenant_exists [OF found]
    by (simp add: activateTrialAfterAuthorization_def updateTenantWith_def findTenant_update
        startAuthorizedTrial_def applyLimits_def status)
qed

theorem charge_after_trial_restarts_trial_witness:
  "let w = ownedWorld ((demoTenant PLAN_SMS TRIALING True 3)\<lparr>tenant_paystackCustomerId := Some ''CUS''\<rparr>);
       data = JObj [(''customer'', JObj [(''email'', JStr ''a@b.c'')]),
                (''plan'', JObj [(''plan_code'', JStr ''PLN_3'')]), (''reference'', JStr ''r'')]
   in \<exists>r. findTenant ''t1'' (snd (handleChargeSuccess payEnv 3000 (Some data)
              (snd (processExpiredTrials (\<lambda>_. False) 2000 w)))) = Some r \<and> tenant_trialActive r"
proof -
  let ?t = "(demoTenant PLAN_SMS TRIALING True 3)\<lparr>tenant_paystackCustomerId := Some ''CUS''\<rparr>"
  have "trialDurationDays payEnv = 14" by (simp add: trialDurationDays_def payEnv_def demoEnv_def)
  then show ?thesis
    using charge_after_trial_restarts_trial [of "''t1''" "ownedWorld ?t" ?t 2000 "''a@b.c''" owner1
        _ "''PLN_3''" "''r''" payEnv 3000]
    by (fastforce simp: Let_def expiredTrial_def owner1_def)
qed

text \<open>
  A confirmed crypto payment for the pro plan buys the SMS plan. The checkout stores a record
  for the AI tier, but the confirmation is looked up in Paystack's plan codes: unless a Paystack
  code happens to be called so, the tenant ends on the cheapest plan, with voice, WhatsApp and AI
  refused at every later instant.
\<close>

theorem crypto_pro_buys_sms_plan:
  assumes "findTenant t w = Some tn" and "recordOf CRYPTO ref w = Some r"
    and "subscriptionRecord_tenantId r = t" and "ref \<noteq> []"
    and "map_of (planCodeMap E) ''pro'' = None"
    and "data = JObj [(''code'', JStr ref), (''metadata'', JObj [(''planCode'', JStr ''pro'')])]"
  shows "map_of (planCodeMaps E CRYPTO) ''pro'' = Some PLAN_SMS_VOICE_AI \<and>
    (let v = snd (handleChargeConfirmed E now (Some data) w)
     in map_option tenant_planType (findTenant t v) = Some PLAN_SMS \<and>
        \<not> allowed (validate later t F_AI v) \<and> \<not> allowed (validate later t F_VOICE v) \<and>
        \<not> allowed (validate later t F_WHATSAPP v))"
proof -
  have step: "handleChargeConfirmed E now (Some data) w =
      activateSubscription E now t ''pro'' (Some (JStr ref)) (Some 0) w"
    using assms(2-4,6)
    by (simp add: handleChargeConfirmed_def queryText_def jstr_def jor_def jString_def Let_def)
  have plan: "planTypeOfCode E ''pro'' = PLAN_SMS" using assms(5) by (simp add: planTypeOfCode_def)
  have v: "findTenant t (snd (activateSubscription E now t ''pro'' (Some (JStr ref)) (Some 0) w)) =
      Some (activateTenant now PLAN_SMS tn)"
    using findTenant_activate [OF findTenant_exists [OF assms(1)]] assms(1) plan by simp
  show ?thesis
    by (simp add: step v Let_def validate_def checkSubscriptionAccess_def checkPlanAccess_def
        activateTenant_def applyLimits_def planCodeMaps_def providerCodes_def)
qed

definition cryptoWorld :: world where
  "cryptoWorld = snd (createSubscriptionRecord payEnv 4000 ''t1'' CRYPTO PLAN_SMS_VOICE_AI
     (Some (JStr ''CH1'')) (ownedWorld (demoTenant PLAN_SMS TRIALING False 0)))"

theorem crypto_pro_buys_sms_plan_witness:
  "let data = JObj [(''code'', JStr ''CH1''), (''metadata'', JObj [(''planCode'', JStr ''pro'')])];
       v = snd (handleChargeConfirmed payEnv 5000 (Some data) cryptoWorld)
   in map subscriptionRecord_planType (w_subscriptionRecords cryptoWorld) = [PLAN_SMS_VOICE_AI] \<and>
      map_option tenant_planType (findTenant ''t1'' v) = Some PLAN_SMS"
proof -
  let ?r = "\<lparr>subscriptionRecord_id = newId (ownedWorld (demoTenant PLAN_SMS TRIALING False 0)), subscriptionRecord_tenantId = ''t1'',
      subscriptionRecord_provider = ''CRYPTO'',
      subscriptionRecord_providerSubscriptionId = Some ''CH1'',
      subscriptionRecord_planType = PLAN_SMS_VOICE_AI, subscriptionRecord_status = TRIALING,
      subscriptionRecord_amount = 0, subscriptionRecord_currency = ''USD'',
      subscriptionRecord_createdAt = 4000, subscriptionRecord_currentPeriodStart = 4000,
      subscriptionRecord_currentPeriodEnd = Some (4000 + days 30)\<rparr>"
  have cur: "currency payEnv = ''USD''" by (simp add: currency_def conf_def payEnv_def demoEnv_def)
  have w: "cryptoWorld = bump ((ownedWorld (demoTenant PLAN_SMS TRIALING False 0))\<lparr>
      w_subscriptionRecords := [?r]\<rparr>)"
    by (simp add: cryptoWorld_def createSubscriptionRecord_def cur)
  have "findTenant ''t1'' cryptoWorld = Some (demoTenant PLAN_SMS TRIALING False 0)"
    by (simp add: w bump_def findTenant_def)
  moreover have "recordOf CRYPTO ''CH1'' cryptoWorld = Some ?r" by (simp add: w bump_def recordOf_def)
  moreover have "map_of (planCodeMap payEnv) ''pro'' = None"
    by (simp add: planCodeMap_def planCodeMaps_def providerCodes_def conf_def)
  ultimately show ?thesis
    using crypto_pro_buys_sms_plan [of "''t1''" cryptoWorld _ "''CH1''" ?r payEnv _ 5000 6000]
    by (simp add: Let_def) (simp add: w bump_def)
qed

section \<open>Verification and checkout\<close>

text \<open>A provider's word that a reference is paid.\<close>

definition confirmedBy :: "env \<Rightarrow> PaymentProvider \<Rightarrow> string \<Rightarrow> bool" where
  "confirmedBy E provider reference =
     (vr_status (providerVerify E provider reference) = Some (JStr ''success''))"

lemma providerVerify_ok:
  "provider \<noteq> PAYSTACK \<Longrightarrow> confirmedBy E provider r \<Longrightarrow> vr_success (providerVerify E provider r)"
  using paypal.paid_iff [of E r] crypto.paid_iff [of E r]
  by (cases provider) (auto simp: confirmedBy_def)

text \<open>
  A paid reference starts a trial for anyone, any number of times. For PayPal and crypto,
  verifying succeeds exactly when the provider confirms the reference, and changes nothing
  otherwise; but nothing ties the reference to the tenant or marks it used: one confirmed reference
  gives every existing tenant, whatever its state (expired, cancelled, or paying), a fresh
  14-day trial, again at every later instant.
\<close>

theorem paid_reference_reusable:
  assumes "provider \<noteq> PAYSTACK"
  shows "(\<not> confirmedBy E provider ref \<longrightarrow> verifyTransaction E now t ref provider w =
        (Inl (BadRequestException ''Payment verification failed''), w)) \<and>
    (confirmedBy E provider ref \<longrightarrow> findTenant t w = Some tn \<longrightarrow>
      (\<forall>later. let v = snd (verifyTransaction E later t ref provider
                     (snd (verifyTransaction E now t' ref provider w)))
       in (\<exists>r. findTenant t v = Some r \<and> tenant_trialActive r \<and> tenant_subscriptionStatus r = TRIALING \<and>
            tenant_trialEndDate r = Some (later + days 14) \<and>
            tenant_planType r = tenant_planType tn)))"
proof (intro conjI impI allI)
  assume "\<not> confirmedBy E provider ref"
  then show "verifyTransaction E now t ref provider w =
      (Inl (BadRequestException ''Payment verification failed''), w)"
    using assms by (auto simp: verifyTransaction_def confirmedBy_def Let_def)
next
  fix later
  assume c: "confirmedBy E provider ref" and t: "findTenant t w = Some tn"
  have step: "verifyTransaction E n s ref provider v = updateTenant s (startVerifiedTrial n) v" for n s v
    using assms c providerVerify_ok [OF assms c]
    by (simp add: verifyTransaction_def confirmedBy_def Let_def)
  let ?v = "snd (updateTenant t' (startVerifiedTrial now) w)"
  have keep: "\<exists>q. findTenant t ?v = Some q \<and> tenant_planType q = tenant_planType tn"
    using t by (cases "tenantExists t' w") (auto simp: findTenant_update startVerifiedTrial_def)
  then obtain q where q: "findTenant t ?v = Some q" "tenant_planType q = tenant_planType tn" by blast
  show "let v = snd (verifyTransaction E later t ref provider
                     (snd (verifyTransaction E now t' ref provider w)))
       in (\<exists>r. findTenant t v = Some r \<and> tenant_trialActive r \<and> tenant_subscriptionStatus r = TRIALING \<and>
            tenant_trialEndDate r = Some (later + days 14) \<and> tenant_planType r = tenant_planType tn)"
    using q findTenant_exists [OF q(1)]
    by (simp add: step findTenant_update startVerifiedTrial_def Let_def)
qed

definition paidEnv :: env where
  "paidEnv = payEnv\<lparr>e_http := (\<lambda>r. Inr (JObj [(''data'', JObj [(''timeline'',
     JArr [JObj [(''status'', JStr ''NEW'')], JObj [(''status'', JStr ''COMPLETED'')]])])]))\<rparr>"

theorem paid_reference_reusable_witness:
  "let v = snd (verifyTransaction paidEnv 9000 ''t1'' ''CH1'' CRYPTO
             (snd (verifyTransaction paidEnv 8000 ''t2'' ''CH1'' CRYPTO
                (ownedWorld (demoTenant PLAN_SMS EXPIRED False 0)))))
   in \<exists>r. findTenant ''t1'' v = Some r \<and> tenant_trialActive r"
proof -
  have "confirmedBy paidEnv CRYPTO ''CH1''"
    by (simp add: confirmedBy_def crypto_verifyTransaction_def cryptoCall_def paidEnv_def
        readProp_def latestStatus_def Let_def)
  then show ?thesis
    using paid_reference_reusable [of CRYPTO paidEnv "''CH1''" 8000 "''t1''"
        "ownedWorld (demoTenant PLAN_SMS EXPIRED False 0)" _ "''t2''"]
    by (fastforce simp: Let_def)
qed

text \<open>
  A checkout either starts completely or not at all. When initializeTransaction throws
  (unknown plan, unconfigured plan code, provider refusal, rejected row) nothing has been written;
  when it returns, exactly one pending record was added, for this tenant, provider and plan and
  under the reference handed to the customer, and no other table was touched.
\<close>

theorem checkout_all_or_nothing:
  "case initializeTransaction E now t planId email provider w of
     (Inl e, v) \<Rightarrow> v = w
   | (Inr r, v) \<Rightarrow> co_provider r = Some provider \<and>
       (\<exists>rec code. v = bump (w\<lparr>w_subscriptionRecords := w_subscriptionRecords w @ [rec]\<rparr>) \<and>
          subscriptionRecord_tenantId rec = t \<and> subscriptionRecord_status rec = TRIALING \<and>
          subscriptionRecord_provider rec = providerName provider \<and>
          textColumn (co_reference r) = Inr (subscriptionRecord_providerSubscriptionId rec) \<and>
          map_of (planIdToCodeMaps E provider) planId = Some code \<and> code \<noteq> [] \<and>
          subscriptionRecord_planType rec =
            coalesce (map_of (planCodeMaps E provider) code) PLAN_SMS)"
  by (auto simp: initializeTransaction_def createSubscriptionRecord_def Let_def thenA_def bindA_def
      truthy_def split: option.split sum.split)

end
