(* ===== verification/Billing_Endpoints.thy ===== *)
theory Billing_Endpoints
  imports Billing
begin

text \<open>
  The endpoints of \<open>billing.controller.ts\<close> with the guard of \<open>qa-bypass.guard.ts\<close>, and the
  coupon codes of \<open>coupon.service.ts\<close>.
\<close>

section \<open>The QA bypass\<close>

text \<open>
  Whether the guard marks the request as a mock payment. \<open>nodeEnv\<close> is \<open>process.env.NODE_ENV\<close>,
  \<open>header\<close> the \<open>x-qa-bypass\<close> header; the guard itself lets every request through.
\<close>

definition qaMockPayment :: "env \<Rightarrow> string option \<Rightarrow> string option \<Rightarrow> bool" where
  "qaMockPayment E nodeEnv header =
     (let enabled = (e_config E ''ENABLE_QA_BYPASS'' = Some ''true'');
          isTestEnv = (nodeEnv = Some ''test'');
          isDevelopment = (nodeEnv = Some ''development'');
          canBypass = (enabled \<and> (isTestEnv \<or> isDevelopment))
      in canBypass \<and> header = Some (conf E ''QA_BYPASS_TOKEN'' []))"

record QaCheckout =
  qa_success :: bool
  qa_error :: "string option"
  qa_authorizationUrl :: "string option"
  qa_reference :: "string option"

text \<open>\<open>rnd\<close> is the random suffix of the mock reference.\<close>

definition initializeQa ::
  "env \<Rightarrow> instant \<Rightarrow> string option \<Rightarrow> string option \<Rightarrow> string \<Rightarrow> uuid \<Rightarrow> uuid \<Rightarrow> string \<Rightarrow> QaCheckout act" where
  "initializeQa E now nodeEnv header rnd tenantId userId plan w =
     (if \<not> qaMockPayment E nodeEnv header
      then (Inr \<lparr>qa_success = False, qa_error = Some ''QA bypass not enabled or invalid token'',
              qa_authorizationUrl = None, qa_reference = None\<rparr>, w)
      else let mockReference = ''qa_'' @ show_int now @ ''_'' @ rnd;
               callbackUrl = conf E ''PAYSTACK_CALLBACK_URL'' (frontendUrl E @ ''/onboarding/callback'')
           in thenA (audit_log (auditEntry tenantId (Some userId) ''CREATE'' ''Subscription'' mockReference
                  ([(''plan'', JStr plan), (''reference'', JStr mockReference), (''qaBypass'', JBool True)] @
                   (case nodeEnv of None \<Rightarrow> [] | Some e \<Rightarrow> [(''environment'', JStr e)]))))
                (returnA \<lparr>qa_success = True, qa_error = None,
                   qa_authorizationUrl = Some (callbackUrl @ ''?reference='' @ mockReference @
                     ''&qaBypass=true&plan='' @ plan),
                   qa_reference = Some mockReference\<rparr>) w)"

text \<open>\<open>POST /billing/verify\<close>: a reference of the QA flow is believed without asking anyone.\<close>

definition verifyEndpoint :: "env \<Rightarrow> instant \<Rightarrow> uuid \<Rightarrow> uuid \<Rightarrow> string option \<Rightarrow> bool act" where
  "verifyEndpoint E now tenantId userId reference =
     (if (case reference of None \<Rightarrow> False | Some r \<Rightarrow> startsWith r ''qa_'')
      then thenA (audit_log (auditEntry tenantId (Some userId) ''UPDATE'' ''Subscription'' (the reference)
             [(''status'', JStr ''verified''), (''qaBypass'', JBool True)]))
           (returnA True)
      else thenA (verifyTransaction E now tenantId (jString (map_option JStr reference)) PAYSTACK)
             (returnA False))"

text \<open>\<open>POST /billing/initialize\<close>: Paystack unless the body names a provider.\<close>

definition initializeEndpoint ::
  "env \<Rightarrow> instant \<Rightarrow> uuid \<Rightarrow> string \<Rightarrow> string \<Rightarrow> PaymentProvider option \<Rightarrow> CheckoutResult act" where
  "initializeEndpoint E now tenantId email plan provider =
     initializeTransaction E now tenantId plan email (coalesce provider PAYSTACK)"

section \<open>Coupons\<close>

definition couponCode :: "env \<Rightarrow> uuid \<Rightarrow> uuid \<Rightarrow> string" where
  "couponCode E eventId contactId =
     ''MEET-'' @ toUpperCase (take 8 (e_hmac E ''sha256'' (conf E ''JWT_SECRET'' ''secret'')
       (eventId @ '':'' @ contactId @ '':coupon'')))"

definition verifyCoupon :: "env \<Rightarrow> uuid \<Rightarrow> uuid \<Rightarrow> string \<Rightarrow> bool" where
  "verifyCoupon E eventId contactId code = (couponCode E eventId contactId = code)"

lemma qaMockPayment_production: "qaMockPayment E (Some ''production'') header = False"
  by (simp add: qaMockPayment_def)

lemma verifyEndpoint_qa_keeps_tenants:
  "w_tenants (snd (verifyEndpoint E now t u (Some (''qa_'' @ r)) w)) = w_tenants w"
  by (simp add: verifyEndpoint_def startsWith_def)

end
