(* ===== verification/Reminder_Scheduler.thy ===== *)
theory Reminder_Scheduler
  imports Store
begin

text \<open>
  \<open>modules/reminder/reminder-scheduler.service.ts\<close> and the reminder part of
  \<open>queue/queue.config.ts\<close>: reminder rules become PENDING reminder rows with one delayed queue job
  each, and cancelling removes both. \<open>w_jobs\<close> holds the jobs no worker has taken yet.
\<close>

definition REMINDER_QUEUE :: string where
  "REMINDER_QUEUE = ''meetora-reminders''"

definition reminderJobId :: "uuid \<Rightarrow> string" where
  "reminderJobId i = ''reminder-'' @ i"

text \<open>\<open>ReminderJobData\<close>\<close>

definition ReminderJobData :: "reminder \<Rightarrow> uuid option \<Rightarrow> json" where
  "ReminderJobData r strategyId = JObj
     ([(''reminderId'', JStr (reminder_id r)), (''tenantId'', JStr (reminder_tenantId r)),
       (''appointmentId'', (case reminder_appointmentId r of None \<Rightarrow> JNull | Some a \<Rightarrow> JStr a)),
       (''channel'', JStr (channelName (reminder_channel r))),
       (''messageContent'', (case reminder_messageContent r of None \<Rightarrow> JNull | Some m \<Rightarrow> JStr m)),
       (''scheduledFor'', JDate (reminder_scheduledSendTime r))] @
      (case strategyId of None \<Rightarrow> [] | Some s \<Rightarrow> [(''channelStrategyId'', JStr s)]))"

definition reminderJob :: "instant \<Rightarrow> reminder \<Rightarrow> uuid option \<Rightarrow> job" where
  "reminderJob now r strategyId =
     \<lparr>job_queue = REMINDER_QUEUE, job_id = reminderJobId (reminder_id r), job_name = ''send-reminder'',
      job_data = ReminderJobData r strategyId,
      job_delay = max (reminder_scheduledSendTime r - now) 0\<rparr>"

definition resolveTemplate :: "string \<Rightarrow> (string \<times> string) list \<Rightarrow> string" where
  "resolveTemplate body variables =
     replace_placeholders (\<lambda>key. coalesce (map_of variables key) (coalesce (inherited key) (''{{'' @ key @ ''}}''))) body"

definition templateBody :: "world \<Rightarrow> reminderRule \<Rightarrow> string option" where
  "templateBody w rule = (case reminderRule_templateId rule of None \<Rightarrow> None
     | Some i \<Rightarrow> map_option template_body (List.find (\<lambda>t. template_id t = i) (w_templates w)))"

text \<open>The rule's inline text, else its linked template, else the default.\<close>

definition ruleMessage :: "world \<Rightarrow> reminderRule \<Rightarrow> (string \<times> string) list \<Rightarrow> string \<Rightarrow> string" where
  "ruleMessage w rule vars deflt =
     (if truthy (reminderRule_messageTemplate rule)
      then resolveTemplate (the (reminderRule_messageTemplate rule)) vars
      else (case templateBody w rule of Some b \<Rightarrow> resolveTemplate b vars | None \<Rightarrow> deflt))"

text \<open>\<open>sendTime.setMinutes(sendTime.getMinutes() - offset)\<close>\<close>

definition sendTime :: "instant \<Rightarrow> reminderRule \<Rightarrow> instant" where
  "sendTime start rule = start - reminderRule_offsetMinutes rule * 60000"

definition activeRules :: "uuid \<Rightarrow> world \<Rightarrow> reminderRule list" where
  "activeRules tenantId w =
     filter (\<lambda>r. reminderRule_tenantId r = tenantId \<and> reminderRule_isActive r) (w_reminderRules w)"

definition createReminder :: "instant \<Rightarrow> reminder \<Rightarrow> uuid option \<Rightarrow> world \<Rightarrow> world" where
  "createReminder now r strategyId w =
     addJob (reminderJob now r strategyId) (bump (w\<lparr>w_reminders := w_reminders w @ [r]\<rparr>))"

text \<open>
  The loop over the rules, for whatever row a rule makes: rules whose send time is not in the
  future are skipped; the others add a reminder and its job, in the order of the rules.
\<close>

fun scheduleRules ::
  "instant \<Rightarrow> instant \<Rightarrow> (uuid \<Rightarrow> reminderRule \<Rightarrow> reminder) \<Rightarrow> reminderRule list \<Rightarrow> world \<Rightarrow>
   reminder list \<times> world" where
  "scheduleRules now start mk [] w = ([], w)"
| "scheduleRules now start mk (rule # rules) w =
     (if sendTime start rule \<le> now then scheduleRules now start mk rules w
      else let r = mk (newId w) rule;
               (rs, v) = scheduleRules now start mk rules
                           (createReminder now r (reminderRule_channelStrategyId rule) w)
           in (r # rs, v))"

definition quoted :: "string \<Rightarrow> string" where
  "quoted s = [CHR 0x22] @ s @ [CHR 0x22]"

definition newline :: string where
  "newline = [CHR 0x0A]"

section \<open>Appointments\<close>

definition appointmentVars :: "env \<Rightarrow> world \<Rightarrow> appointment \<Rightarrow> customer \<Rightarrow> (string \<times> string) list" where
  "appointmentVars E w a c =
     [(''customer_name'', customer_firstName c @ '' '' @ customer_lastName c),
      (''appointment_title'', appointment_title a),
      (''appointment_time'', e_formatDateTime E (appointment_scheduledAt a)),
      (''appointment_date'', e_formatDate E (appointment_scheduledAt a)),
      (''location'', coalesce (or_str (Option.bind (appointment_locationId a) (\<lambda>l.
          map_option location_name (List.find (\<lambda>x. location_id x = l) (w_locations w))))
          (Some ''Office'')) [])]"

definition appointmentReminder ::
  "env \<Rightarrow> world \<Rightarrow> uuid \<Rightarrow> appointment \<Rightarrow> customer \<Rightarrow> uuid \<Rightarrow> reminderRule \<Rightarrow> reminder" where
  "appointmentReminder E w tenantId a c i rule =
     \<lparr>reminder_id = i, reminder_tenantId = tenantId,
      reminder_appointmentId = Some (appointment_id a),
      reminder_reminderRuleId = Some (reminderRule_id rule),
      reminder_channel = reminderRule_channel rule,
      reminder_scheduledSendTime = sendTime (appointment_scheduledAt a) rule,
      reminder_status = R_PENDING,
      reminder_messageContent = Some (ruleMessage w rule (appointmentVars E w a c)
        (''Hi '' @ customer_firstName c @ '', reminder: '' @ quoted (appointment_title a) @ '' on '' @
         e_formatDate E (appointment_scheduledAt a) @ '' at '' @
         e_formatTime E (appointment_scheduledAt a) @ ''.'' @ newline @ ''Reply:'' @ newline @
         ''1 Confirm'' @ newline @ ''2 Reschedule'' @ newline @ ''3 Cancel'')),
      reminder_contactId = None, reminder_eventId = appointment_eventId a,
      reminder_sentAt = None\<rparr>"

definition findAppointment :: "uuid \<Rightarrow> world \<Rightarrow> appointment option" where
  "findAppointment i w = List.find (\<lambda>a. appointment_id a = i) (w_appointments w)"

definition customerOf :: "appointment \<Rightarrow> world \<Rightarrow> customer option" where
  "customerOf a w = Option.bind (appointment_customerId a)
     (\<lambda>i. List.find (\<lambda>c. customer_id c = i) (w_customers w))"

text \<open>An appointment without a customer fails at \<open>appointment.customer!.unsubscribed\<close>.\<close>

definition scheduleForAppointment :: "env \<Rightarrow> instant \<Rightarrow> uuid \<Rightarrow> uuid \<Rightarrow> reminder list act" where
  "scheduleForAppointment E now appointmentId tenantId w =
     (case findAppointment appointmentId w of
        None \<Rightarrow> (Inr [], w)
      | Some a \<Rightarrow>
          (case customerOf a w of
             None \<Rightarrow> (Inl (PlainError ''TypeError''), w)
           | Some c \<Rightarrow>
               if customer_unsubscribed c then (Inr [], w)
               else let (rs, v) = scheduleRules now (appointment_scheduledAt a)
                          (appointmentReminder E w tenantId a c) (activeRules tenantId w) w
                    in (Inr rs, v)))"

section \<open>Events\<close>

definition eventReminder ::
  "env \<Rightarrow> world \<Rightarrow> uuid \<Rightarrow> event \<Rightarrow> contact \<Rightarrow> uuid \<Rightarrow> reminderRule \<Rightarrow> reminder" where
  "eventReminder E w tenantId ev c i rule =
     \<lparr>reminder_id = i, reminder_tenantId = tenantId, reminder_appointmentId = None,
      reminder_reminderRuleId = Some (reminderRule_id rule),
      reminder_channel = reminderRule_channel rule,
      reminder_scheduledSendTime = sendTime (event_startTime ev) rule,
      reminder_status = R_PENDING,
      reminder_messageContent = Some (ruleMessage w rule
        [(''customer_name'', contact_name c), (''appointment_title'', event_title ev),
         (''appointment_time'', e_formatDateTime E (event_startTime ev)),
         (''appointment_date'', e_formatDate E (event_startTime ev)),
         (''location'', coalesce (or_str (event_location ev) (Some ''Office'')) [])]
        (''Hi '' @ contact_name c @ '', reminder: '' @ quoted (event_title ev) @ '' on '' @
         e_formatDate E (event_startTime ev) @ '' at '' @ e_formatTime E (event_startTime ev) @ ''.'')),
      reminder_contactId = Some (contact_id c), reminder_eventId = Some (event_id ev),
      reminder_sentAt = None\<rparr>"

definition findContact :: "uuid \<Rightarrow> world \<Rightarrow> contact option" where
  "findContact i w = List.find (\<lambda>c. contact_id c = i) (w_contacts w)"

definition findEvent :: "uuid \<Rightarrow> world \<Rightarrow> event option" where
  "findEvent i w = List.find (\<lambda>e. event_id e = i) (w_events w)"

text \<open>Whom an event's reminders go to: not the unsubscribed, not those who cancelled.\<close>

definition reachable :: "world \<Rightarrow> eventParticipant \<Rightarrow> contact option" where
  "reachable w p = (case findContact (eventParticipant_contactId p) w of
     None \<Rightarrow> None
   | Some c \<Rightarrow> if contact_unsubscribed c \<or> eventParticipant_status p = P_cancelled then None else Some c)"

fun scheduleParticipants ::
  "env \<Rightarrow> instant \<Rightarrow> uuid \<Rightarrow> event \<Rightarrow> reminderRule list \<Rightarrow> eventParticipant list \<Rightarrow> world \<Rightarrow> world" where
  "scheduleParticipants E now tenantId ev rules [] w = w"
| "scheduleParticipants E now tenantId ev rules (p # ps) w =
     (case reachable w p of
        None \<Rightarrow> scheduleParticipants E now tenantId ev rules ps w
      | Some c \<Rightarrow> scheduleParticipants E now tenantId ev rules ps
          (snd (scheduleRules now (event_startTime ev) (eventReminder E w tenantId ev c) rules w)))"

definition scheduleForEvent :: "env \<Rightarrow> instant \<Rightarrow> uuid \<Rightarrow> uuid \<Rightarrow> world \<Rightarrow> world" where
  "scheduleForEvent E now eventId tenantId w =
     (case findEvent eventId w of
        None \<Rightarrow> w
      | Some ev \<Rightarrow> scheduleParticipants E now tenantId ev (activeRules tenantId w)
          (filter (\<lambda>p. eventParticipant_eventId p = eventId) (w_eventParticipants w)) w)"

section \<open>Cancelling\<close>

definition removeJob :: "string \<Rightarrow> string \<Rightarrow> world \<Rightarrow> world" where
  "removeJob q i w = w\<lparr>w_jobs := filter (\<lambda>j. \<not> (job_queue j = q \<and> job_id j = i)) (w_jobs w)\<rparr>"

definition cancelReminder :: "reminder \<Rightarrow> unit act" where
  "cancelReminder r w =
     updateReminder (reminder_id r) (\<lambda>x. x\<lparr>reminder_status := R_CANCELLED\<rparr>)
       (removeJob REMINDER_QUEUE (reminderJobId (reminder_id r)) w)"

definition cancelMatching :: "(reminder \<Rightarrow> bool) \<Rightarrow> nat act" where
  "cancelMatching p w =
     (let rs = filter (\<lambda>r. p r \<and> reminder_status r = R_PENDING) (w_reminders w)
      in thenA (forEachA cancelReminder rs) (returnA (length rs)) w)"

definition cancelForAppointment :: "uuid \<Rightarrow> nat act" where
  "cancelForAppointment appointmentId = cancelMatching (\<lambda>r. reminder_appointmentId r = Some appointmentId)"

definition cancelForEvent :: "uuid \<Rightarrow> nat act" where
  "cancelForEvent eventId = cancelMatching (\<lambda>r. reminder_eventId r = Some eventId)"

section \<open>What scheduling adds\<close>

lemma scheduleRules_frame:
  "snd (scheduleRules now start mk rules w) =
     w\<lparr>w_reminders := w_reminders (snd (scheduleRules now start mk rules w)),
       w_jobs := w_jobs (snd (scheduleRules now start mk rules w)),
       w_next := w_next (snd (scheduleRules now start mk rules w))\<rparr>"
proof (induction rules arbitrary: w)
  case (Cons rule rules)
  show ?case
    by (simp add: Let_def case_prod_beta)
       (subst Cons, simp add: createReminder_def addJob_def bump_def)+
qed simp

text \<open>The due rules and the rows made from them, pairwise.\<close>

definition dueRules :: "instant \<Rightarrow> instant \<Rightarrow> reminderRule list \<Rightarrow> reminderRule list" where
  "dueRules now start rules = filter (\<lambda>r. now < sendTime start r) rules"

lemma scheduleRules_rows:
  "w_reminders (snd (scheduleRules now start mk rules w)) =
     w_reminders w @ fst (scheduleRules now start mk rules w)"
  by (induction rules arbitrary: w)
     (simp_all add: Let_def case_prod_beta createReminder_def addJob_def bump_def)

lemma scheduleRules_made:
  "list_all2 (\<lambda>rule r. \<exists>i. r = mk i rule) (dueRules now start rules)
     (fst (scheduleRules now start mk rules w))"
  by (induction rules arbitrary: w) (auto simp: dueRules_def Let_def case_prod_beta)

lemma scheduleRules_jobs:
  "w_jobs (snd (scheduleRules now start mk rules w)) = w_jobs w @
     map2 (\<lambda>rule r. reminderJob now r (reminderRule_channelStrategyId rule))
       (dueRules now start rules) (fst (scheduleRules now start mk rules w))"
  by (induction rules arbitrary: w)
     (simp_all add: dueRules_def Let_def case_prod_beta createReminder_def addJob_def bump_def)

lemma scheduleRules_ids:
  "map reminder_id (fst (scheduleRules now start mk rules w)) =
     map (\<lambda>k. w_uuid w (w_next w + k)) [0..<length (dueRules now start rules)]"
  if "\<And>i rule. reminder_id (mk i rule) = i"
proof (induction rules arbitrary: w)
  case (Cons rule rules)
  show ?case
    by (simp add: dueRules_def Let_def case_prod_beta Cons [unfolded dueRules_def] that newId_def
        createReminder_def addJob_def bump_def upt_conv_Cons map_Suc_upt [symmetric] comp_def
        del: upt_Suc)
qed (simp add: dueRules_def)

section \<open>What cancelling removes\<close>

lemma keeps_ids_update: "map reminder_id (update_where p (\<lambda>x. x\<lparr>reminder_status := s\<rparr>) rs) = map reminder_id rs"
  by (rule map_update_where_same) simp

lemma cancelAll:
  assumes "reminder_id ` set rs \<subseteq> reminder_id ` set (w_reminders w)"
  shows "forEachA cancelReminder rs w =
    (Inr (), w\<lparr>w_jobs := filter (\<lambda>j. \<not> (job_queue j = REMINDER_QUEUE \<and>
                                      job_id j \<in> (reminderJobId \<circ> reminder_id) ` set rs)) (w_jobs w),
             w_reminders := update_where (\<lambda>x. reminder_id x \<in> reminder_id ` set rs)
                              (\<lambda>x. x\<lparr>reminder_status := R_CANCELLED\<rparr>) (w_reminders w)\<rparr>)"
  using assms
proof (induction rs arbitrary: w)
  case Nil
  then show ?case by (simp add: update_where_nothing)
next
  case (Cons r rs)
  let ?v = "snd (cancelReminder r w)"
  have v: "cancelReminder r w = (Inr (), ?v)"
    "w_reminders ?v = update_where (\<lambda>x. reminder_id x = reminder_id r)
        (\<lambda>x. x\<lparr>reminder_status := R_CANCELLED\<rparr>) (w_reminders w)"
    "?v = w\<lparr>w_jobs := w_jobs ?v, w_reminders := w_reminders ?v\<rparr>"
    "w_jobs ?v = filter (\<lambda>j. \<not> (job_queue j = REMINDER_QUEUE \<and>
        job_id j = reminderJobId (reminder_id r))) (w_jobs w)"
    using Cons.prems by (simp_all add: cancelReminder_def removeJob_def updateReminder_def updateRow_def)
  have "reminder_id ` set (w_reminders ?v) = reminder_id ` set (w_reminders w)"
    unfolding v(2) set_map [symmetric] keeps_ids_update ..
  then have IH: "forEachA cancelReminder rs ?v = (Inr (), ?v\<lparr>w_jobs := filter (\<lambda>j. \<not> (job_queue j = REMINDER_QUEUE \<and>
                                      job_id j \<in> (reminderJobId \<circ> reminder_id) ` set rs)) (w_jobs ?v),
             w_reminders := update_where (\<lambda>x. reminder_id x \<in> reminder_id ` set rs)
                              (\<lambda>x. x\<lparr>reminder_status := R_CANCELLED\<rparr>) (w_reminders ?v)\<rparr>)"
    using Cons by simp
  have "update_where (\<lambda>x. reminder_id x \<in> reminder_id ` set rs) (\<lambda>x. x\<lparr>reminder_status := R_CANCELLED\<rparr>)
          (w_reminders ?v) =
        update_where (\<lambda>x. reminder_id x \<in> reminder_id ` set (r # rs)) (\<lambda>x. x\<lparr>reminder_status := R_CANCELLED\<rparr>)
          (w_reminders w)"
    unfolding v(2) by (simp add: update_where_def comp_def) 
  moreover have "filter (\<lambda>j. \<not> (job_queue j = REMINDER_QUEUE \<and>
        job_id j \<in> (reminderJobId \<circ> reminder_id) ` set rs)) (w_jobs ?v) =
      filter (\<lambda>j. \<not> (job_queue j = REMINDER_QUEUE \<and>
        job_id j \<in> (reminderJobId \<circ> reminder_id) ` set (r # rs))) (w_jobs w)"
    unfolding v(4) by (auto intro!: filter_cong)
  ultimately show ?case
    using IH v(1) by (simp only: forEachA.simps thenA_ok) (subst v(3), simp)
qed

end
