(* ===== verification/Reminder_Rules.thy ===== *)
theory Reminder_Rules
  imports Reminder_Scheduler Audit_Log Usage_Quota
begin

text \<open>
  \<open>modules/reminder/reminder.service.ts\<close>: the reminder rules of a tenant. The DTO's fields are
  optional; on an update an absent field leaves its column as it is.
\<close>

record ReminderRuleDto =
  rd_name :: "string option"
  rd_channel :: "ChannelType option"
  rd_templateId :: "uuid option"
  rd_messageTemplate :: "string option"
  rd_offsetMinutes :: "int option"
  rd_isActive :: "bool option"
  rd_channelStrategyId :: "uuid option"
  rd_targetType :: "string option"
  rd_targetId :: "uuid option"

definition opt :: "string \<Rightarrow> ('a \<Rightarrow> json) \<Rightarrow> 'a option \<Rightarrow> (string \<times> json) list" where
  "opt k f v = (case v of None \<Rightarrow> [] | Some x \<Rightarrow> [(k, f x)])"

definition dtoValues :: "ReminderRuleDto \<Rightarrow> (string \<times> json) list" where
  "dtoValues d =
     opt ''name'' JStr (rd_name d) @ opt ''channel'' (JStr \<circ> channelName) (rd_channel d) @
     opt ''templateId'' JStr (rd_templateId d) @ opt ''messageTemplate'' JStr (rd_messageTemplate d) @
     opt ''offsetMinutes'' JNum (rd_offsetMinutes d) @ opt ''isActive'' JBool (rd_isActive d) @
     opt ''channelStrategyId'' JStr (rd_channelStrategyId d) @
     opt ''targetType'' JStr (rd_targetType d) @ opt ''targetId'' JStr (rd_targetId d)"

text \<open>Linked rows must exist; the database does not ask whose they are.\<close>

definition linksExist :: "ReminderRuleDto \<Rightarrow> world \<Rightarrow> bool" where
  "linksExist d w =
     ((case rd_templateId d of None \<Rightarrow> True | Some i \<Rightarrow> i \<in> template_id ` set (w_templates w)) \<and>
      (case rd_channelStrategyId d of None \<Rightarrow> True
       | Some i \<Rightarrow> i \<in> channelStrategy_id ` set (w_channelStrategies w)))"

definition createRule :: "uuid \<Rightarrow> uuid \<Rightarrow> ReminderRuleDto \<Rightarrow> reminderRule act" where
  "createRule tenantId userId d w =
     (if truthy (rd_targetType d) \<and> \<not> truthy (rd_targetId d)
      then (Inl (PlainError ''targetId is required when targetType is set''), w)
      else if \<not> (tenantExists tenantId w \<and> linksExist d w) then (Inl (PrismaError ''P2003''), w)
      else let rule = \<lparr>reminderRule_id = newId w, reminderRule_tenantId = tenantId,
                 reminderRule_name = coalesce (rd_name d) [],
                 reminderRule_channel = coalesce (rd_channel d) SMS,
                 reminderRule_templateId = rd_templateId d,
                 reminderRule_offsetMinutes = coalesce (rd_offsetMinutes d) 0,
                 reminderRule_isActive = True,
                 reminderRule_messageTemplate = rd_messageTemplate d,
                 reminderRule_channelStrategyId = rd_channelStrategyId d,
                 reminderRule_targetType = rd_targetType d, reminderRule_targetId = rd_targetId d\<rparr>
           in thenA (modifyA (\<lambda>w. bump (w\<lparr>w_reminderRules := w_reminderRules w @ [rule]\<rparr>)))
                (thenA (audit_log (auditEntry tenantId (Some userId) ''CREATE'' ''ReminderRule''
                          (reminderRule_id rule) (dtoValues d)))
                   (returnA rule)) w)"

definition findAllRules :: "uuid \<Rightarrow> world \<Rightarrow> reminderRule list" where
  "findAllRules tenantId w = order_asc reminderRule_offsetMinutes
     (filter (\<lambda>r. reminderRule_tenantId r = tenantId) (w_reminderRules w))"

definition findOneRule :: "uuid \<Rightarrow> uuid \<Rightarrow> reminderRule act" where
  "findOneRule tenantId i w =
     (case List.find (\<lambda>r. reminderRule_id r = i \<and> reminderRule_tenantId r = tenantId) (w_reminderRules w) of
        None \<Rightarrow> (Inl (NotFoundException ''Reminder rule not found''), w)
      | Some r \<Rightarrow> (Inr r, w))"

definition orKeep :: "'a option \<Rightarrow> 'a option \<Rightarrow> 'a option" where
  "orKeep new old = (case new of None \<Rightarrow> old | Some x \<Rightarrow> Some x)"

definition applyRuleDto :: "ReminderRuleDto \<Rightarrow> reminderRule \<Rightarrow> reminderRule" where
  "applyRuleDto d r = r\<lparr>reminderRule_name := coalesce (rd_name d) (reminderRule_name r),
     reminderRule_channel := coalesce (rd_channel d) (reminderRule_channel r),
     reminderRule_templateId := orKeep (rd_templateId d) (reminderRule_templateId r),
     reminderRule_messageTemplate := orKeep (rd_messageTemplate d) (reminderRule_messageTemplate r),
     reminderRule_offsetMinutes := coalesce (rd_offsetMinutes d) (reminderRule_offsetMinutes r),
     reminderRule_isActive := coalesce (rd_isActive d) (reminderRule_isActive r),
     reminderRule_channelStrategyId :=
       orKeep (rd_channelStrategyId d) (reminderRule_channelStrategyId r),
     reminderRule_targetType := orKeep (rd_targetType d) (reminderRule_targetType r),
     reminderRule_targetId := orKeep (rd_targetId d) (reminderRule_targetId r)\<rparr>"

definition updateRule :: "uuid \<Rightarrow> uuid \<Rightarrow> uuid \<Rightarrow> ReminderRuleDto \<Rightarrow> reminderRule act" where
  "updateRule tenantId userId i d =
     bindA (findOneRule tenantId i) (\<lambda>existing w.
       if \<not> linksExist d w then (Inl (PrismaError ''P2003''), w)
       else thenA (modifyA (\<lambda>w. w\<lparr>w_reminderRules :=
                     update_where (\<lambda>r. reminderRule_id r = i) (applyRuleDto d) (w_reminderRules w)\<rparr>))
              (thenA (audit_log \<lparr>entry_tenantId = tenantId, entry_userId = Some userId,
                   entry_action = ''UPDATE'', entry_entity = ''ReminderRule'', entry_entityId = i,
                   entry_oldValues = Some (JObj [(''name'', JStr (reminderRule_name existing)),
                     (''channel'', JStr (channelName (reminderRule_channel existing))),
                     (''offsetMinutes'', JNum (reminderRule_offsetMinutes existing)),
                     (''isActive'', JBool (reminderRule_isActive existing))]),
                   entry_newValues = Some (JObj (dtoValues d))\<rparr>)
                 (returnA (applyRuleDto d existing))) w)"

text \<open>Deleting a rule clears the reference its reminders hold.\<close>

definition removeRule :: "uuid \<Rightarrow> uuid \<Rightarrow> uuid \<Rightarrow> unit act" where
  "removeRule tenantId userId i =
     bindA (findOneRule tenantId i) (\<lambda>_.
       thenA (modifyA (\<lambda>w. w\<lparr>w_reminderRules := delete_where (\<lambda>r. reminderRule_id r = i) (w_reminderRules w),
                  w_reminders := update_where (\<lambda>r. reminder_reminderRuleId r = Some i)
                    (\<lambda>r. r\<lparr>reminder_reminderRuleId := None\<rparr>) (w_reminders w)\<rparr>))
         (audit_log \<lparr>entry_tenantId = tenantId, entry_userId = Some userId, entry_action = ''DELETE'',
            entry_entity = ''ReminderRule'', entry_entityId = i, entry_oldValues = None,
            entry_newValues = None\<rparr>))"

definition previewRule :: "env \<Rightarrow> instant \<Rightarrow> uuid \<Rightarrow> uuid \<Rightarrow> (string \<times> ChannelType) act" where
  "previewRule E now tenantId i =
     bindA (findOneRule tenantId i) (\<lambda>rule w.
       (Inr (resolveTemplate
          (coalesce (or_str (reminderRule_messageTemplate rule)
             (or_str (templateBody w rule) (Some []))) [])
          [(''customer_name'', ''Jane Doe''), (''appointment_title'', ''Dental Checkup''),
           (''appointment_date'', ''Wed 12 Mar''), (''appointment_time'', ''10:00 AM''),
           (''scheduled_at'', e_formatDateTime E now)],
         reminderRule_channel rule), w))"

section \<open>Tenant isolation\<close>

lemma findOneRule_owner: "findOneRule t i w = (Inr r, v) \<Longrightarrow>
    reminderRule_id r = i \<and> reminderRule_tenantId r = t \<and> r \<in> set (w_reminderRules w) \<and> v = w"
  by (auto simp: findOneRule_def split: option.splits dest!: find_SomeD)

lemma findOneRule_foreign:
  assumes "distinct (map reminderRule_id (w_reminderRules w))" and "r \<in> set (w_reminderRules w)"
    and "reminderRule_tenantId r \<noteq> t"
  shows "findOneRule t (reminderRule_id r) w = (Inl (NotFoundException ''Reminder rule not found''), w)"
proof -
  have "List.find (\<lambda>x. reminderRule_id x = reminderRule_id r \<and> reminderRule_tenantId x = t)
      (w_reminderRules w) = None"
    unfolding find_None_iff using assms by (auto simp: distinct_map dest: inj_onD)
  then show ?thesis by (simp add: findOneRule_def)
qed

text \<open>
  Rules are isolated by tenant. With distinct rule ids, reading, previewing, changing or
  deleting a rule of another tenant is answered Not Found and writes nothing at all, not even an
  audit row; and whatever an update or a removal does, the rules of other tenants stay as they are.
\<close>

theorem rules_isolated:
  assumes "distinct (map reminderRule_id (w_reminderRules w))"
  shows "(r \<in> set (w_reminderRules w) \<longrightarrow> reminderRule_tenantId r \<noteq> t \<longrightarrow>
      updateRule t u (reminderRule_id r) d w = (Inl (NotFoundException ''Reminder rule not found''), w) \<and>
      removeRule t u (reminderRule_id r) w = (Inl (NotFoundException ''Reminder rule not found''), w) \<and>
      fst (previewRule E now t (reminderRule_id r) w) = Inl (NotFoundException ''Reminder rule not found'')) \<and>
    filter (\<lambda>x. reminderRule_tenantId x \<noteq> t) (w_reminderRules (snd (updateRule t u i d w))) =
      filter (\<lambda>x. reminderRule_tenantId x \<noteq> t) (w_reminderRules w) \<and>
    filter (\<lambda>x. reminderRule_tenantId x \<noteq> t) (w_reminderRules (snd (removeRule t u i w))) =
      filter (\<lambda>x. reminderRule_tenantId x \<noteq> t) (w_reminderRules w)"
proof (intro conjI impI)
  assume "r \<in> set (w_reminderRules w)" and "reminderRule_tenantId r \<noteq> t"
  then have f: "findOneRule t (reminderRule_id r) w = (Inl (NotFoundException ''Reminder rule not found''), w)"
    by (rule findOneRule_foreign [OF assms])
  show "updateRule t u (reminderRule_id r) d w = (Inl (NotFoundException ''Reminder rule not found''), w)"
    "removeRule t u (reminderRule_id r) w = (Inl (NotFoundException ''Reminder rule not found''), w)"
    "fst (previewRule E now t (reminderRule_id r) w) = Inl (NotFoundException ''Reminder rule not found'')"
    using f by (simp_all add: updateRule_def removeRule_def previewRule_def)
next
  have same: "x = y" if "x \<in> set (w_reminderRules w)" "y \<in> set (w_reminderRules w)"
    "reminderRule_id x = reminderRule_id y" for x y
    using that assms by (auto simp: distinct_map dest: inj_onD)
  have own: "reminderRule_tenantId x = t" if "findOneRule t i w = (Inr q, w)" "x \<in> set (w_reminderRules w)"
    "reminderRule_id x = i" for x q
    using findOneRule_owner [OF that(1)] same [OF that(2)] that(3) by blast
  have upd: "filter (\<lambda>x. reminderRule_tenantId x \<noteq> t)
        (update_where (\<lambda>x. reminderRule_id x = i) (applyRuleDto d) rs) =
      filter (\<lambda>x. reminderRule_tenantId x \<noteq> t) rs"
    if "\<forall>x \<in> set rs. reminderRule_id x = i \<longrightarrow> reminderRule_tenantId x = t" for rs
    using that by (induction rs) (auto simp: applyRuleDto_def)
  have del: "filter (\<lambda>x. reminderRule_tenantId x \<noteq> t) (delete_where (\<lambda>x. reminderRule_id x = i) rs) =
      filter (\<lambda>x. reminderRule_tenantId x \<noteq> t) rs"
    if "\<forall>x \<in> set rs. reminderRule_id x = i \<longrightarrow> reminderRule_tenantId x = t" for rs
    using that by (induction rs) (auto simp: delete_where_def)
  have found: "(\<exists>e. findOneRule t i w = (Inl e, w)) \<or> (\<exists>q. findOneRule t i w = (Inr q, w) \<and>
      (\<forall>x \<in> set (w_reminderRules w). reminderRule_id x = i \<longrightarrow> reminderRule_tenantId x = t))"
  proof (cases "findOneRule t i w")
    case (Pair res v)
    then have "v = w" by (auto simp: findOneRule_def split: option.splits)
    with Pair own show ?thesis by (cases res) blast+
  qed
  show "filter (\<lambda>x. reminderRule_tenantId x \<noteq> t) (w_reminderRules (snd (updateRule t u i d w))) =
      filter (\<lambda>x. reminderRule_tenantId x \<noteq> t) (w_reminderRules w)"
    using found by (elim disjE exE conjE) (simp_all add: updateRule_def upd)
  show "filter (\<lambda>x. reminderRule_tenantId x \<noteq> t) (w_reminderRules (snd (removeRule t u i w))) =
      filter (\<lambda>x. reminderRule_tenantId x \<noteq> t) (w_reminderRules w)"
    using found by (elim disjE exE conjE) (simp_all add: removeRule_def del)
qed

theorem rules_isolated_witness:
  "let r = \<lparr>reminderRule_id = ''r1'', reminderRule_tenantId = ''t1'', reminderRule_name = ''Day before'',
        reminderRule_channel = SMS, reminderRule_templateId = None, reminderRule_offsetMinutes = 1440,
        reminderRule_isActive = True, reminderRule_messageTemplate = None,
        reminderRule_channelStrategyId = None, reminderRule_targetType = None, reminderRule_targetId = None\<rparr>;
       w = (demoWorld [demoTenant PLAN_SMS ACTIVE False 0])\<lparr>w_reminderRules := [r]\<rparr>
   in removeRule ''t2'' ''u2'' ''r1'' w = (Inl (NotFoundException ''Reminder rule not found''), w)"
proof -
  let ?r = "\<lparr>reminderRule_id = ''r1'', reminderRule_tenantId = ''t1'', reminderRule_name = ''Day before'',
        reminderRule_channel = SMS, reminderRule_templateId = None, reminderRule_offsetMinutes = 1440,
        reminderRule_isActive = True, reminderRule_messageTemplate = None,
        reminderRule_channelStrategyId = None, reminderRule_targetType = None, reminderRule_targetId = None\<rparr>"
  let ?w = "(demoWorld [demoTenant PLAN_SMS ACTIVE False 0])\<lparr>w_reminderRules := [?r]\<rparr>"
  have "distinct (map reminderRule_id (w_reminderRules ?w))" by simp
  from rules_isolated [OF this, of ?r "''t2''" "''u2''"] show ?thesis by (simp add: Let_def)
qed

end
