(* ===== verification/Reminder_Properties.thy ===== *)
theory Reminder_Properties
  imports Reminder_Scheduler Usage_Quota Rate_Limit
begin

text \<open>
  What scheduling and cancelling reminders guarantee: one reminder and one job per due rule, due at
  the right instant; the exact effect of a cancellation.
\<close>

lemma cancelMatching_effect:
  assumes "distinct (map reminder_id (w_reminders w))"
  shows "cancelMatching p w =
    (Inr (length (filter (\<lambda>r. p r \<and> reminder_status r = R_PENDING) (w_reminders w))),
     w\<lparr>w_jobs := filter (\<lambda>j. \<not> (job_queue j = REMINDER_QUEUE \<and>
           (\<exists>r \<in> set (w_reminders w). p r \<and> reminder_status r = R_PENDING \<and>
              job_id j = reminderJobId (reminder_id r)))) (w_jobs w),
       w_reminders := update_where (\<lambda>r. p r \<and> reminder_status r = R_PENDING)
           (\<lambda>r. r\<lparr>reminder_status := R_CANCELLED\<rparr>) (w_reminders w)\<rparr>)"
proof -
  let ?rs = "filter (\<lambda>r. p r \<and> reminder_status r = R_PENDING) (w_reminders w)"
  have mem: "reminder_id x \<in> reminder_id ` set ?rs \<longleftrightarrow> p x \<and> reminder_status x = R_PENDING"
    if "x \<in> set (w_reminders w)" for x
    using that assms by (auto simp: distinct_map dest: inj_onD)
  have rows: "update_where (\<lambda>x. reminder_id x \<in> reminder_id ` set ?rs) f (w_reminders w) =
      update_where (\<lambda>r. p r \<and> reminder_status r = R_PENDING) f (w_reminders w)" for f
    unfolding update_where_def by (intro map_cong refl) (simp only: mem)
  have jobs: "filter (\<lambda>j. \<not> (job_queue j = REMINDER_QUEUE \<and>
        job_id j \<in> (reminderJobId \<circ> reminder_id) ` set ?rs)) (w_jobs w) =
      filter (\<lambda>j. \<not> (job_queue j = REMINDER_QUEUE \<and>
           (\<exists>r \<in> set (w_reminders w). p r \<and> reminder_status r = R_PENDING \<and>
              job_id j = reminderJobId (reminder_id r)))) (w_jobs w)"
    by (intro filter_cong refl) auto
  have "reminder_id ` set ?rs \<subseteq> reminder_id ` set (w_reminders w)" by auto
  then show ?thesis
    unfolding cancelMatching_def Let_def by (simp only: thenA_ok [OF cancelAll] rows jobs returnA_run)
qed

section \<open>Properties\<close>

text \<open>
  C7: Scheduling an appointment makes exactly one reminder and one queue job per active rule of
  the tenant whose send time is still ahead, in the order of the rules, and nothing else: each
  reminder is PENDING, on the rule's channel, for the rule's instant (the appointment's start less
  the offset), and its job carries the reminder's id in its own id and a delay that ends exactly at
  that instant. For a customer who opted out nothing is added.
\<close>

theorem schedule_appointment_exact:
  assumes "findAppointment i w = Some a" and "customerOf a w = Some c"
    and "scheduleForAppointment E now i t w = (Inr rs, v)"
  shows "let due = (if customer_unsubscribed c then []
                    else filter (\<lambda>r. now < sendTime (appointment_scheduledAt a) r) (activeRules t w))
    in list_all2 (\<lambda>rule r. reminder_reminderRuleId r = Some (reminderRule_id rule) \<and>
           reminder_appointmentId r = Some (appointment_id a) \<and> reminder_status r = R_PENDING \<and>
           reminder_channel r = reminderRule_channel rule \<and>
           reminder_scheduledSendTime r =
             appointment_scheduledAt a - reminderRule_offsetMinutes rule * 60000) due rs \<and>
       w_reminders v = w_reminders w @ rs \<and>
       (\<exists>js. w_jobs v = w_jobs w @ js \<and>
          list_all2 (\<lambda>r j. job_queue j = REMINDER_QUEUE \<and> job_id j = ''reminder-'' @ reminder_id r \<and>
            now + job_delay j = reminder_scheduledSendTime r \<and> 0 < job_delay j) rs js) \<and>
       w_messageLogs v = w_messageLogs w \<and> w_outbox v = w_outbox w"
proof (cases "customer_unsubscribed c")
  case True
  then show ?thesis using assms by (simp add: scheduleForAppointment_def)
next
  case False
  let ?mk = "appointmentReminder E w t a c"
  let ?s = "scheduleRules now (appointment_scheduledAt a) ?mk (activeRules t w) w"
  let ?due = "dueRules now (appointment_scheduledAt a) (activeRules t w)"
  have rs: "rs = fst ?s" and v: "v = snd ?s"
    using assms False by (simp_all add: scheduleForAppointment_def case_prod_beta Let_def)
  have due: "?due = filter (\<lambda>r. now < sendTime (appointment_scheduledAt a) r) (activeRules t w)"
    by (simp add: dueRules_def)
  have made: "list_all2 (\<lambda>rule r. \<exists>i. r = ?mk i rule) ?due rs"
    unfolding rs by (rule scheduleRules_made)
  then have rows: "list_all2 (\<lambda>rule r. reminder_reminderRuleId r = Some (reminderRule_id rule) \<and>
           reminder_appointmentId r = Some (appointment_id a) \<and> reminder_status r = R_PENDING \<and>
           reminder_channel r = reminderRule_channel rule \<and>
           reminder_scheduledSendTime r =
             appointment_scheduledAt a - reminderRule_offsetMinutes rule * 60000) ?due rs"
    by (rule list_all2_mono) (auto simp: appointmentReminder_def sendTime_def)
  have "list_all2 (\<lambda>rule r. now < reminder_scheduledSendTime r) ?due rs"
    using made by (rule list.rel_mono_strong) (auto simp: dueRules_def appointmentReminder_def)
  then have jobs: "list_all2 (\<lambda>r j. job_queue j = REMINDER_QUEUE \<and> job_id j = ''reminder-'' @ reminder_id r \<and>
            now + job_delay j = reminder_scheduledSendTime r \<and> 0 < job_delay j) rs
      (map2 (\<lambda>rule r. reminderJob now r (reminderRule_channelStrategyId rule)) ?due rs)"
    by (auto simp: list_all2_conv_all_nth reminderJob_def reminderJobId_def)
  have frame: "w_messageLogs v = w_messageLogs w" "w_outbox v = w_outbox w"
    using arg_cong [OF scheduleRules_frame, of w_messageLogs] arg_cong [OF scheduleRules_frame, of w_outbox]
    by (simp_all add: v)
  show ?thesis
    using rows jobs frame False scheduleRules_rows scheduleRules_jobs
    by (auto simp: Let_def v rs due [symmetric])
qed

definition demoRule :: "string \<Rightarrow> int \<Rightarrow> reminderRule" where
  "demoRule i offset = \<lparr>reminderRule_id = i, reminderRule_tenantId = ''t1'', reminderRule_name = i,
     reminderRule_channel = SMS, reminderRule_templateId = None, reminderRule_offsetMinutes = offset,
     reminderRule_isActive = True, reminderRule_messageTemplate = None,
     reminderRule_channelStrategyId = None, reminderRule_targetType = None,
     reminderRule_targetId = None\<rparr>"

definition demoCustomer :: "bool \<Rightarrow> customer" where
  "demoCustomer out = \<lparr>customer_id = ''c1'', customer_tenantId = ''t1'', customer_firstName = ''Ada'',
     customer_lastName = ''L'', customer_email = None, customer_phone = Some ''+15550001111'',
     customer_unsubscribed = out, customer_unsubscribedAt = None\<rparr>"

definition demoAppointment :: "instant \<Rightarrow> appointment" where
  "demoAppointment start = \<lparr>appointment_id = ''a1'', appointment_tenantId = ''t1'',
     appointment_customerId = Some ''c1'', appointment_title = ''Checkup'',
     appointment_scheduledAt = start, appointment_durationMinutes = 60, appointment_status = A_SCHEDULED,
     appointment_notes = None, appointment_locationId = None, appointment_campaignId = None,
     appointment_eventId = None, appointment_audienceSegmentId = None,
      appointment_isDemoData = False\<rparr>"

definition clinic :: "reminderRule list \<Rightarrow> world" where
  "clinic rules = (demoWorld [demoTenant PLAN_SMS ACTIVE False 0])\<lparr>w_customers := [demoCustomer False],
     w_appointments := [demoAppointment 10000000], w_reminderRules := rules\<rparr>"

lemma clinic_simps [simp]:
  "w_reminderRules (clinic rules) = rules" "w_reminders (clinic rules) = []"
  "w_jobs (clinic rules) = []" "w_customers (clinic rules) = [demoCustomer False]"
  "w_contacts (clinic rules) = []"
  "w_appointments (clinic rules) = [demoAppointment 10000000]"
  "tenantExists k (clinic rules) = (k = ''t1'')"
  by (auto simp: clinic_def demoWorld_def emptyWorld_def tenantExists_def)

theorem schedule_appointment_exact_witness:
  "\<exists>r v. scheduleForAppointment demoEnv 100 ''a1'' ''t1'' (clinic [demoRule ''r1'' 60, demoRule ''r2'' 999]) =
      (Inr [r], v) \<and> reminder_scheduledSendTime r = 10000000 - 60 * 60000 \<and> w_reminders v = [r]"
proof -
  let ?w = "clinic [demoRule ''r1'' 60, demoRule ''r2'' 999]"
  have a: "findAppointment ''a1'' ?w = Some (demoAppointment 10000000)"
    by (simp add: findAppointment_def demoAppointment_def)
  have c: "customerOf (demoAppointment 10000000) ?w = Some (demoCustomer False)"
    by (simp add: customerOf_def demoAppointment_def demoCustomer_def)
  obtain rs v where s: "scheduleForAppointment demoEnv 100 ''a1'' ''t1'' ?w = (Inr rs, v)"
    using a c by (auto simp: scheduleForAppointment_def demoCustomer_def case_prod_beta Let_def)
  from schedule_appointment_exact [OF a c s] s show ?thesis
    by (auto simp: Let_def demoCustomer_def activeRules_def demoRule_def sendTime_def
        demoAppointment_def list_all2_Cons1)
qed

definition demoReminder :: "string \<Rightarrow> ReminderStatus \<Rightarrow> reminder" where
  "demoReminder i st = \<lparr>reminder_id = i, reminder_tenantId = ''t1'', reminder_appointmentId = Some ''a1'',
     reminder_reminderRuleId = Some ''r1'', reminder_channel = SMS, reminder_scheduledSendTime = 5000000,
     reminder_status = st, reminder_messageContent = Some ''Hi'', reminder_contactId = None,
     reminder_eventId = None, reminder_sentAt = None\<rparr>"

definition retarget :: "(uuid \<Rightarrow> string option \<times> string option) \<Rightarrow> reminderRule \<Rightarrow> reminderRule" where
  "retarget f r = r\<lparr>reminderRule_targetType := fst (f (reminderRule_id r)),
     reminderRule_targetId := snd (f (reminderRule_id r))\<rparr>"

lemma scheduleRules_retarget:
  assumes "\<And>i r. mk' i (retarget f r) = mk i r"
  shows "scheduleRules now start mk' (map (retarget f) rules) (w\<lparr>w_reminderRules := x\<rparr>) =
    (fst (scheduleRules now start mk rules w),
     (snd (scheduleRules now start mk rules w))\<lparr>w_reminderRules := x\<rparr>)"
proof (induction rules arbitrary: w)
  case (Cons r rules)
  have "sendTime start (retarget f r) = sendTime start r" by (simp add: sendTime_def retarget_def)
  moreover have "createReminder now q (reminderRule_channelStrategyId (retarget f r)) (w\<lparr>w_reminderRules := x\<rparr>) =
      (createReminder now q (reminderRule_channelStrategyId r) w)\<lparr>w_reminderRules := x\<rparr>" for q
    by (simp add: createReminder_def addJob_def bump_def retarget_def)
  moreover have "newId (w\<lparr>w_reminderRules := x\<rparr>) = newId w" by (simp add: newId_def)
  ultimately show ?case using Cons assms by (simp add: Let_def case_prod_beta)
qed simp

lemma activeRules_retarget:
  "activeRules t (w\<lparr>w_reminderRules := map (retarget f) (w_reminderRules w)\<rparr>) =
     map (retarget f) (activeRules t w)"
  by (simp add: activeRules_def filter_map comp_def retarget_def)

text \<open>
  The target of a rule has no effect. Whatever target type and id the rules of a tenant are
  given (the rule's documentation scopes it to matching appointments), an appointment is scheduled
  with the same reminders and the same jobs: a rule aimed at one contact goes to every customer.
\<close>

theorem rule_targets_ignored:
  "scheduleForAppointment E now i t (w\<lparr>w_reminderRules := map (retarget f) (w_reminderRules w)\<rparr>) =
     (fst (scheduleForAppointment E now i t w),
      (snd (scheduleForAppointment E now i t w))\<lparr>w_reminderRules :=
         map (retarget f) (w_reminderRules w)\<rparr>)"
proof -
  let ?w = "w\<lparr>w_reminderRules := map (retarget f) (w_reminderRules w)\<rparr>"
  have body: "templateBody ?w (retarget f r) = templateBody w r" for r
    by (cases "reminderRule_templateId r") (simp_all add: templateBody_def retarget_def)
  have fields: "reminderRule_messageTemplate (retarget f r) = reminderRule_messageTemplate r"
    "reminderRule_id (retarget f r) = reminderRule_id r"
    "reminderRule_channel (retarget f r) = reminderRule_channel r"
    "sendTime s (retarget f r) = sendTime s r" for r s
    by (simp_all add: retarget_def sendTime_def)
  have "appointmentVars E ?w a c = appointmentVars E w a c" for a c
    by (simp add: appointmentVars_def)
  then have "appointmentReminder E ?w t a c j (retarget f r) = appointmentReminder E w t a c j r" for a c j r
    by (simp only: appointmentReminder_def ruleMessage_def body fields)
  note same = scheduleRules_retarget [where mk' = "appointmentReminder E ?w t a c"
      and mk = "appointmentReminder E w t a c" and f = f for a c, OF this]
  show ?thesis
    by (simp add: same scheduleForAppointment_def findAppointment_def customerOf_def activeRules_retarget
        Let_def case_prod_beta split: option.split)
qed

end
