(* ===== verification/Compliance.thy ===== *)
theory Compliance
  imports Reminder_Properties Audit_Log
begin

text \<open>
  \<open>modules/compliance/compliance.service.ts\<close>: opt-out and opt-in of a phone number.
\<close>

definition OPT_OUT_KEYWORDS :: "string list" where
  "OPT_OUT_KEYWORDS = [''STOP'', ''UNSUBSCRIBE'', ''OPTOUT'', ''OPT-OUT'', ''END'', ''QUIT'']"

definition OPT_IN_KEYWORDS :: "string list" where
  "OPT_IN_KEYWORDS = [''START'', ''UNSTOP'', ''SUBSCRIBE'']"

definition OPT_OUT_REPLY :: string where
  "OPT_OUT_REPLY = ''You have been unsubscribed and will receive no further messages. '' @
     ''Reply START to re-subscribe at any time.''"

definition OPT_IN_REPLY :: string where
  "OPT_IN_REPLY = ''You have been re-subscribed and will receive appointment reminders again. '' @
     ''Reply STOP at any time to unsubscribe.''"

definition isOptOutKeyword :: "string \<Rightarrow> bool" where
  "isOptOutKeyword body = (toUpperCase (trim body) \<in> set OPT_OUT_KEYWORDS)"

definition isOptInKeyword :: "string \<Rightarrow> bool" where
  "isOptInKeyword body = (toUpperCase (trim body) \<in> set OPT_IN_KEYWORDS)"

definition customerByPhone :: "uuid \<Rightarrow> string \<Rightarrow> world \<Rightarrow> customer option" where
  "customerByPhone tenantId phone w =
     List.find (\<lambda>c. customer_tenantId c = tenantId \<and> customer_phone c = Some phone) (w_customers w)"

definition contactByPhone :: "uuid \<Rightarrow> string \<Rightarrow> world \<Rightarrow> contact option" where
  "contactByPhone tenantId phone w =
     List.find (\<lambda>c. contact_tenantId c = tenantId \<and> contact_phone c = Some phone) (w_contacts w)"

definition setContact :: "bool \<Rightarrow> uuid \<Rightarrow> string \<Rightarrow> unit act" where
  "setContact b tenantId phone w =
     (case contactByPhone tenantId phone w of
        None \<Rightarrow> (Inr (), w)
      | Some c \<Rightarrow> if contact_unsubscribed c = b then (Inr (), w)
                  else updateContact (contact_id c) (\<lambda>c. c\<lparr>contact_unsubscribed := b\<rparr>) w)"

text \<open>The appointments whose reminders are cancelled: still open and not in the past.\<close>

definition upcoming :: "instant \<Rightarrow> uuid \<Rightarrow> appointment \<Rightarrow> bool" where
  "upcoming now customerId a =
     (appointment_customerId a = Some customerId \<and>
      appointment_status a \<in> {A_SCHEDULED, A_CONFIRMED} \<and> appointment_scheduledAt a \<ge> now)"

definition cancelQuietly :: "uuid \<Rightarrow> unit act" where
  "cancelQuietly appointmentId = bindA (cancelForAppointment appointmentId) (\<lambda>_. returnA ())"

definition cancelUpcoming :: "instant \<Rightarrow> uuid \<Rightarrow> unit act" where
  "cancelUpcoming now customerId w =
     forEachA (\<lambda>a. cancelQuietly (appointment_id a))
       (filter (upcoming now customerId) (w_appointments w)) w"

definition optOut :: "instant \<Rightarrow> string \<Rightarrow> uuid \<Rightarrow> ChannelType \<Rightarrow> unit act" where
  "optOut now phone tenantId channel w =
     (case customerByPhone tenantId phone w of
        None \<Rightarrow> setContact True tenantId phone w
      | Some c \<Rightarrow>
          if customer_unsubscribed c then setContact True tenantId phone w
          else thenA (updateCustomer (customer_id c) (\<lambda>c. c\<lparr>customer_unsubscribed := True,
                        customer_unsubscribedAt := Some now\<rparr>))
                 (thenA (cancelUpcoming now (customer_id c))
                    (thenA (audit_log (auditEntry tenantId None ''UPDATE'' ''Customer'' (customer_id c)
                              [(''unsubscribed'', JBool True), (''via'', JStr (channelName channel)),
                               (''phone'', JStr phone)]))
                       (setContact True tenantId phone))) w)"

definition optIn :: "string \<Rightarrow> uuid \<Rightarrow> ChannelType \<Rightarrow> unit act" where
  "optIn phone tenantId channel w =
     (case customerByPhone tenantId phone w of
        None \<Rightarrow> setContact False tenantId phone w
      | Some c \<Rightarrow>
          if \<not> customer_unsubscribed c then setContact False tenantId phone w
          else thenA (updateCustomer (customer_id c) (\<lambda>c. c\<lparr>customer_unsubscribed := False,
                        customer_unsubscribedAt := None\<rparr>))
                 (thenA (audit_log (auditEntry tenantId None ''UPDATE'' ''Customer'' (customer_id c)
                           [(''unsubscribed'', JBool False), (''via'', JStr (channelName channel)),
                            (''phone'', JStr phone)]))
                    (setContact False tenantId phone)) w)"

definition isOptedOut :: "string \<Rightarrow> uuid \<Rightarrow> world \<Rightarrow> bool" where
  "isOptedOut phone tenantId w =
     (case customerByPhone tenantId phone w of None \<Rightarrow> False | Some c \<Rightarrow> customer_unsubscribed c)"

section \<open>Keywords\<close>

lemma keywords_disjoint: "isOptOutKeyword b \<Longrightarrow> \<not> isOptInKeyword b"
  by (auto simp: isOptOutKeyword_def isOptInKeyword_def OPT_OUT_KEYWORDS_def OPT_IN_KEYWORDS_def)

section \<open>Cancelling for several appointments\<close>

definition pendingFor :: "uuid set \<Rightarrow> reminder \<Rightarrow> bool" where
  "pendingFor as r = ((\<exists>a \<in> as. reminder_appointmentId r = Some a) \<and> reminder_status r = R_PENDING)"

definition jobOfAny :: "reminder set \<Rightarrow> job \<Rightarrow> bool" where
  "jobOfAny rs j = (job_queue j = REMINDER_QUEUE \<and> (\<exists>r \<in> rs. job_id j = reminderJobId (reminder_id r)))"

definition cancelledFor :: "uuid set \<Rightarrow> world \<Rightarrow> world" where
  "cancelledFor as w = w\<lparr>
     w_jobs := filter (\<lambda>j. \<not> jobOfAny {r \<in> set (w_reminders w). pendingFor as r} j) (w_jobs w),
     w_reminders := update_where (pendingFor as) (\<lambda>r. r\<lparr>reminder_status := R_CANCELLED\<rparr>) (w_reminders w)\<rparr>"

lemma cancelQuietly_effect:
  assumes "distinct (map reminder_id (w_reminders w))"
  shows "cancelQuietly i w = (Inr (), cancelledFor {i} w)"
proof -
  have pf: "pendingFor {i} = (\<lambda>r. reminder_appointmentId r = Some i \<and> reminder_status r = R_PENDING)"
    by (auto simp: pendingFor_def fun_eq_iff)
  have jobs: "jobOfAny {r \<in> set rs. pendingFor {i} r} j = (job_queue j = REMINDER_QUEUE \<and>
      (\<exists>r \<in> set rs. reminder_appointmentId r = Some i \<and> reminder_status r = R_PENDING \<and>
         job_id j = reminderJobId (reminder_id r)))" for rs j
    unfolding jobOfAny_def pf by blast
  show ?thesis
    unfolding cancelQuietly_def cancelForAppointment_def cancelledFor_def jobs bindA_def
      cancelMatching_effect [OF assms] by (simp add: pf)
qed

lemma distinct_cancelledFor [simp]:
  "map reminder_id (w_reminders (cancelledFor as w)) = map reminder_id (w_reminders w)"
  unfolding cancelledFor_def by (simp add: keeps_ids_update)

lemma cancelledFor_twice: "cancelledFor bs (cancelledFor as w) = cancelledFor (as \<union> bs) w"
proof -
  let ?c = "\<lambda>r. r\<lparr>reminder_status := R_CANCELLED\<rparr>"
  have rows: "update_where (pendingFor bs) ?c (update_where (pendingFor as) ?c rs) =
      update_where (pendingFor (as \<union> bs)) ?c rs" for rs
    by (induction rs) (auto simp: pendingFor_def)
  have ids: "(\<exists>r \<in> {r \<in> set (update_where (pendingFor as) ?c rs). pendingFor bs r}. Q (reminder_id r)) \<longleftrightarrow>
      (\<exists>r \<in> {r \<in> set rs. pendingFor bs r \<and> \<not> pendingFor as r}. Q (reminder_id r))" for rs Q
    by (induction rs) (auto simp: pendingFor_def)
  have either: "pendingFor (as \<union> bs) r \<longleftrightarrow> pendingFor as r \<or> pendingFor bs r" for r
    by (auto simp: pendingFor_def)
  have "(\<not> jobOfAny {r \<in> set rs. pendingFor as r} j \<and>
       \<not> jobOfAny {r \<in> set (update_where (pendingFor as) ?c rs). pendingFor bs r} j) =
      (\<not> jobOfAny {r \<in> set rs. pendingFor (as \<union> bs) r} j)" for rs j
    unfolding jobOfAny_def ids [of rs "\<lambda>i. job_id j = reminderJobId i"]
    unfolding either by blast
  then show ?thesis by (simp add: cancelledFor_def rows)
qed

lemma cancelUpcoming_effect:
  assumes "distinct (map reminder_id (w_reminders w))"
  shows "cancelUpcoming now c w =
    (Inr (), cancelledFor (appointment_id ` set (filter (upcoming now c) (w_appointments w))) w)"
proof -
  have "forEachA (\<lambda>a. cancelQuietly (appointment_id a)) as v = (Inr (), cancelledFor (appointment_id ` set as) v)"
    if "distinct (map reminder_id (w_reminders v))" for as v
    using that
  proof (induction as arbitrary: v)
    case Nil
    show ?case by (simp add: cancelledFor_def update_where_nothing pendingFor_def jobOfAny_def)
  next
    case (Cons a as)
    then show ?case
      by (simp add: thenA_ok [OF cancelQuietly_effect] cancelledFor_twice)
  qed
  from this [OF assms] show ?thesis by (simp only: cancelUpcoming_def)
qed

lemma setContact_frame:
  "fst (setContact b t p u) = Inr ()"
  "w_reminders (snd (setContact b t p u)) = w_reminders u"
  "w_jobs (snd (setContact b t p u)) = w_jobs u"
  "w_customers (snd (setContact b t p u)) = w_customers u"
  "w_appointments (snd (setContact b t p u)) = w_appointments u"
  by (auto simp: setContact_def contactByPhone_def updateContact_def updateRow_def
      split: option.split dest!: find_SomeD)

lemma pending_gone: "r \<in> set (update_where (pendingFor as) (\<lambda>r. r\<lparr>reminder_status := R_CANCELLED\<rparr>) rs) \<Longrightarrow>
    a \<in> as \<Longrightarrow> reminder_appointmentId r = Some a \<Longrightarrow> reminder_status r \<noteq> R_PENDING"
  by (induction rs) (auto simp: pendingFor_def split: if_splits)

lemma pending_kept: "r \<in> set rs \<Longrightarrow> \<not> pendingFor as r \<Longrightarrow> r \<in> set (update_where (pendingFor as) f rs)"
  by (induction rs) auto

end
