(* ===== verification/Messaging.thy ===== *)
theory Messaging
  imports Json_Values Rate_Limit Usage_Quota
begin

text \<open>
  Sending messages: \<open>normalize-phone.util.ts\<close>, \<open>region.helper.ts\<close>, the providers
  (\<open>twilio.provider.ts\<close>, \<open>termii.provider.ts\<close>, \<open>mock-send.service.ts\<close>, \<open>email.provider.ts\<close>) and
  \<open>messaging.service.ts\<close>, which normalizes the recipient, routes to a provider and logs. What is
  handed to a provider is appended to \<open>w_outbox\<close>.
\<close>

section \<open>Phone numbers\<close>

definition DEFAULT_SEND_COUNTRY :: string where
  "DEFAULT_SEND_COUNTRY = ''NG''"

definition normalizePhoneForSend :: "env \<Rightarrow> string option \<Rightarrow> string \<Rightarrow> string option" where
  "normalizePhoneForSend E raw country =
     (if \<not> truthy raw then None
      else let trimmed = trim (the raw)
           in if trimmed = [] then None else e_parsePhone E trimmed country)"

definition AFRICAN_DIALING_PREFIXES :: "string list" where
  "AFRICAN_DIALING_PREFIXES =
     [''+234'', ''+233'', ''+254'', ''+256'', ''+255'', ''+27'', ''+251'', ''+221'', ''+225'', ''+237'',
      ''+263'', ''+260'', ''+258'', ''+250'', ''+257'', ''+249'', ''+212'', ''+213'', ''+216'', ''+20'']"

definition isAfricanNumber :: "string \<Rightarrow> bool" where
  "isAfricanNumber phone =
     (phone \<noteq> [] \<and> list_ex (\<lambda>p. startsWith phone p) AFRICAN_DIALING_PREFIXES)"

definition getRegion :: "string \<Rightarrow> string" where
  "getRegion phone =
     (if phone = [] then ''GLOBAL''
      else if startsWith phone ''+1'' then ''US''
      else if startsWith phone ''+44'' then ''GB''
      else if startsWith phone ''+234'' then ''NG''
      else if startsWith phone ''+233'' then ''GH''
      else if startsWith phone ''+254'' then ''KE''
      else if startsWith phone ''+27'' then ''ZA''
      else ''GLOBAL'')"

section \<open>Providers\<close>

definition handOver :: "outmsg \<Rightarrow> world \<Rightarrow> world" where
  "handOver m w = w\<lparr>w_outbox := w_outbox w @ [m]\<rparr>"

definition sentBefore :: "world \<Rightarrow> nat" where
  "sentBefore w = length (w_outbox w)"

text \<open>Twilio: the SDK call is \<open>e_send\<close>; an error without a message gets a default text.\<close>

definition twilioSend :: "env \<Rightarrow> outmsg \<Rightarrow> string \<Rightarrow> world \<Rightarrow> send_result \<times> world" where
  "twilioSend E m deflt w =
     (let r = e_send E (sentBefore w) m
      in (if sr_success r then \<lparr>sr_success = True, sr_id = sr_id r, sr_error = None\<rparr>
          else \<lparr>sr_success = False, sr_id = None, sr_error = or_str (sr_error r) (Some deflt)\<rparr>,
          handOver m w))"

definition twilio_sendSms :: "env \<Rightarrow> string \<Rightarrow> string \<Rightarrow> string option \<Rightarrow> world \<Rightarrow> send_result \<times> world" where
  "twilio_sendSms E to body fromOverride =
     twilioSend E \<lparr>out_provider = TWILIO, out_channel = SMS,
       out_from = coalesce (or_str fromOverride (Some (conf E ''TWILIO_PHONE_NUMBER'' []))) [],
       out_to = to, out_subject = [], out_content = body\<rparr> ''Twilio SMS failed''"

definition twilio_sendVoice :: "env \<Rightarrow> string \<Rightarrow> string \<Rightarrow> world \<Rightarrow> send_result \<times> world" where
  "twilio_sendVoice E to twiml =
     twilioSend E \<lparr>out_provider = TWILIO, out_channel = VOICE,
       out_from = conf E ''TWILIO_PHONE_NUMBER'' [], out_to = to, out_subject = [],
       out_content = twiml\<rparr> ''Twilio Voice failed''"

definition twilio_sendWhatsApp :: "env \<Rightarrow> string \<Rightarrow> string \<Rightarrow> world \<Rightarrow> send_result \<times> world" where
  "twilio_sendWhatsApp E to body =
     twilioSend E \<lparr>out_provider = TWILIO, out_channel = WHATSAPP,
       out_from = ''whatsapp:'' @ conf E ''TWILIO_WHATSAPP_NUMBER'' [],
       out_to = ''whatsapp:'' @ to, out_subject = [], out_content = body\<rparr> ''Twilio WhatsApp failed''"

definition generateReminderTwiml :: "env \<Rightarrow> string \<Rightarrow> string \<Rightarrow> string \<Rightarrow> string \<Rightarrow> string" where
  "generateReminderTwiml E appointmentTitle customerName appointmentTime url =
     e_renderTwiml E
       [Say (''Hello '' @ customerName @ ''. This is a reminder about your upcoming appointment: '' @
             appointmentTitle @ '', scheduled for '' @ appointmentTime @ ''.''),
        GatherSay url (''Press 1 to confirm your appointment. Press 2 to reschedule. '' @ ''Press 3 to cancel.''),
        Say ''We did not receive any input. Goodbye.'']"

definition generateGatherResponse :: "env \<Rightarrow> string \<Rightarrow> string" where
  "generateGatherResponse E digit = e_renderTwiml E
     [Say (if digit = ''1'' then ''Thank you. Your appointment has been confirmed. Goodbye.''
           else if digit = ''2'' then ''We will send you available time options via SMS shortly. Goodbye.''
           else if digit = ''3'' then ''Your appointment has been cancelled. Goodbye.''
           else ''Invalid selection. Goodbye.'')]"

text \<open>
  Termii: one HTTP call for all three channels. Its \<open>message_id\<close> is text, as Termii documents it; an id of another
  type, which the code would pass on and the insert of the message's log refuse, is not modelled.
\<close>

definition termii_isConfigured :: "env \<Rightarrow> bool" where
  "termii_isConfigured E = (conf E ''TERMII_API_KEY'' [] \<noteq> [])"

definition termii_sendMessage ::
  "env \<Rightarrow> string \<Rightarrow> string \<Rightarrow> ChannelType \<Rightarrow> string \<Rightarrow> world \<Rightarrow> send_result \<times> world" where
  "termii_sendMessage E to message ch channel w =
     (let senderId = conf E ''TERMII_SENDER_ID'' ''Meetora'';
          reply = e_gateway E (sentBefore w)
            \<lparr>rq_method = ''POST'',
             rq_url = conf E ''TERMII_BASE_URL'' ''https://v3.api.termii.com'' @ ''/api/sms/send'',
             rq_headers = [],
             rq_body = JObj [(''to'', JStr to), (''from'', JStr senderId), (''sms'', JStr message),
               (''type'', JStr ''plain''), (''api_key'', JStr (conf E ''TERMII_API_KEY'' [])),
               (''channel'', JStr channel)]\<rparr>
      in (catching
            (andThen reply (\<lambda>data.
             andThen (readProp (Some data) ''message_id'') (\<lambda>i.
             Inr (if jtruthy i \<or> jget (Some data) ''code'' = Some (JStr ''ok'')
                  then \<lparr>sr_success = True, sr_id = jstr i, sr_error = None\<rparr>
                  else \<lparr>sr_success = False, sr_id = None, sr_error = jstr (jget (Some data) ''message'')\<rparr>))))
            (\<lambda>e. \<lparr>sr_success = False, sr_id = None, sr_error = jstr (errorText e)\<rparr>),
          handOver \<lparr>out_provider = TERMII, out_channel = ch, out_from = senderId, out_to = to,
                    out_subject = [], out_content = message\<rparr> w))"

definition termii_send :: "env \<Rightarrow> ChannelType \<Rightarrow> string \<Rightarrow> string \<Rightarrow> world \<Rightarrow> send_result \<times> world" where
  "termii_send E ch to message =
     termii_sendMessage E to message ch
       (if ch = SMS then ''generic'' else if ch = WHATSAPP then ''whatsapp'' else ''voice'')"

text \<open>
  The mock provider: an SMS fails now and then, voice and WhatsApp never do, and the ids are made
  up. Its chance is the environment's answer.
\<close>

definition mock_send :: "env \<Rightarrow> ChannelType \<Rightarrow> string \<Rightarrow> string \<Rightarrow> world \<Rightarrow> send_result \<times> world" where
  "mock_send E ch to body w =
     (let m = \<lparr>out_provider = MOCK, out_channel = ch, out_from = [], out_to = to, out_subject = [],
               out_content = body\<rparr>;
          r = e_send E (sentBefore w) m
      in (if ch = SMS \<and> \<not> sr_success r
          then \<lparr>sr_success = False, sr_id = None, sr_error = Some ''Simulated SMS delivery failure''\<rparr>
          else \<lparr>sr_success = True, sr_id = sr_id r, sr_error = None\<rparr>,
          handOver m w))"

text \<open>E-mail: without an SMTP host nothing is sent; a failing send is logged and swallowed.\<close>

definition email_send ::
  "env \<Rightarrow> string \<Rightarrow> string \<Rightarrow> string \<Rightarrow> string option \<Rightarrow> string option \<Rightarrow> world \<Rightarrow> world" where
  "email_send E to subject text fromName fromEmail w =
     (if conf E ''SMTP_HOST'' [] = [] then w
      else let sender = (if truthy fromEmail
                 then (if truthy fromName then the fromName @ '' <'' @ the fromEmail @ ''>'' else the fromEmail)
                 else conf E ''SMTP_FROM'' ''Meetora <no-reply@meetora.co>'')
           in handOver \<lparr>out_provider = SMTP, out_channel = EMAIL, out_from = sender, out_to = to,
                out_subject = subject, out_content = text\<rparr> w)"

section \<open>The messaging service\<close>

record SendOutcome =
  so_success :: bool
  so_providerMessageId :: "string option"
  so_error :: "string option"
  so_errorCode :: "string option"

record AppointmentData =
  ad_title :: string
  ad_customerName :: string
  ad_time :: string

record SendRequest =
  sq_tenantId :: uuid
  sq_channel :: ChannelType
  sq_to :: string
  sq_content :: string
  sq_reminderId :: "uuid option"
  sq_appointmentData :: "AppointmentData option"
  sq_eventId :: "uuid option"
  sq_contactId :: "uuid option"
  sq_suppressLog :: bool

definition useTwilio :: "env \<Rightarrow> bool" where
  "useTwilio E = truthy (e_config E ''TWILIO_ACCOUNT_SID'')"

definition useTermii :: "env \<Rightarrow> ChannelType \<Rightarrow> string \<Rightarrow> bool" where
  "useTermii E ch to = (termii_isConfigured E \<and> ch \<noteq> EMAIL \<and> isAfricanNumber to)"

definition tenantSetting :: "world \<Rightarrow> uuid \<Rightarrow> string \<Rightarrow> json option" where
  "tenantSetting w tenantId key = jget (map_option tenant_settings (findTenant tenantId w)) key"

definition invalidPhoneText :: "string \<Rightarrow> string" where
  "invalidPhoneText to = ''Invalid phone number format: '' @ [CHR 0x22] @ to @ [CHR 0x22]"

text \<open>The upsert of the failed reminder; its errors are dropped.\<close>

definition recordFailedReminder :: "instant \<Rightarrow> uuid \<Rightarrow> uuid \<Rightarrow> string \<Rightarrow> string \<Rightarrow> world \<Rightarrow> world" where
  "recordFailedReminder now tenantId reminderId code message w =
     (if reminderId \<in> failedReminder_reminderId ` set (w_failedReminders w)
      then w\<lparr>w_failedReminders := update_where (\<lambda>f. failedReminder_reminderId f = reminderId)
             (\<lambda>f. f\<lparr>failedReminder_errorCode := Some code, failedReminder_errorMessage := Some message,
                    failedReminder_lastRetryAt := Some now\<rparr>) (w_failedReminders w)\<rparr>
      else if tenantExists tenantId w \<and> reminderId \<in> reminder_id ` set (w_reminders w)
      then bump (w\<lparr>w_failedReminders := w_failedReminders w @
             [\<lparr>failedReminder_id = newId w, failedReminder_tenantId = tenantId,
               failedReminder_reminderId = reminderId, failedReminder_errorCode = Some code,
               failedReminder_errorMessage = Some message, failedReminder_lastRetryAt = None,
               failedReminder_retryCount = 0\<rparr>]\<rparr>)
      else w)"

text \<open>Who carries the message.\<close>

definition dispatch ::
  "env \<Rightarrow> instant \<Rightarrow> SendRequest \<Rightarrow> string \<Rightarrow> world \<Rightarrow> send_result \<times> world" where
  "dispatch E now q to w =
     (let ch = sq_channel q; content = sq_content q; setting = (\<lambda>k. jstr (tenantSetting w (sq_tenantId q) k))
      in if useTermii E ch to then termii_send E ch to content w
         else (case ch of
             SMS \<Rightarrow> if useTwilio E
               then twilio_sendSms E to content (or_str (setting ''senderPhone'') None) w
               else mock_send E SMS to content w
           | VOICE \<Rightarrow> (case sq_appointmentData q of
                 Some d \<Rightarrow> if useTwilio E
                   then twilio_sendVoice E to (generateReminderTwiml E (ad_title d) (ad_customerName d)
                          (ad_time d) (jString (map_option JStr (e_config E ''TWILIO_WEBHOOK_URL'')) @
                          ''/voice-gather'')) w
                   else mock_send E VOICE to content w
               | None \<Rightarrow> mock_send E VOICE to content w)
           | EMAIL \<Rightarrow>
               (\<lparr>sr_success = True, sr_id = Some (''email_'' @ show_int now), sr_error = None\<rparr>,
                email_send E to
                  (case sq_appointmentData q of
                     Some d \<Rightarrow> if ad_title d \<noteq> [] then ''Reminder: '' @ ad_title d
                               else ''You have a reminder from Meetora''
                   | None \<Rightarrow> ''You have a reminder from Meetora'')
                  content (setting ''senderName'') (setting ''senderEmail'') w)
           | WHATSAPP \<Rightarrow> if useTwilio E then twilio_sendWhatsApp E to content w
               else mock_send E WHATSAPP to content w))"

text \<open>
  \<open>messageLog.create\<close>: the provider's id is unique, and the rows referred to must exist.
\<close>

definition createMessageLog :: "(uuid \<Rightarrow> messageLog) \<Rightarrow> unit act" where
  "createMessageLog mk w =
     (let l = mk (newId w)
      in if messageLog_providerMessageId l \<noteq> None \<and>
            messageLog_providerMessageId l \<in> messageLog_providerMessageId ` set (w_messageLogs w)
         then (Inl (PrismaError ''P2002''), w)
         else if \<not> (tenantExists (messageLog_tenantId l) w \<and>
            (case messageLog_reminderId l of None \<Rightarrow> True | Some i \<Rightarrow> i \<in> reminder_id ` set (w_reminders w)) \<and>
            (case messageLog_eventId l of None \<Rightarrow> True | Some i \<Rightarrow> i \<in> event_id ` set (w_events w)) \<and>
            (case messageLog_contactId l of None \<Rightarrow> True | Some i \<Rightarrow> i \<in> contact_id ` set (w_contacts w)))
         then (Inl (PrismaError ''P2003''), w)
         else (Inr (), bump (w\<lparr>w_messageLogs := w_messageLogs w @ [l]\<rparr>)))"

definition outboundLog :: "instant \<Rightarrow> SendRequest \<Rightarrow> string \<Rightarrow> string option \<Rightarrow> uuid \<Rightarrow> messageLog" where
  "outboundLog now q to providerMessageId i =
     \<lparr>messageLog_id = i, messageLog_tenantId = sq_tenantId q, messageLog_reminderId = sq_reminderId q,
      messageLog_channel = sq_channel q, messageLog_direction = OUTBOUND, messageLog_recipient = to,
      messageLog_content = Some (sq_content q), messageLog_providerMessageId = providerMessageId,
      messageLog_providerStatus = Some ''sent'', messageLog_sentAt = Some now,
      messageLog_deliveredAt = None, messageLog_createdAt = now,
      messageLog_contactId = sq_contactId q, messageLog_eventId = sq_eventId q, messageLog_isDemoData = False\<rparr>"

definition addActivity :: "instant \<Rightarrow> uuid \<Rightarrow> uuid \<Rightarrow> string \<Rightarrow> string option \<Rightarrow> json \<Rightarrow> world \<Rightarrow> world" where
  "addActivity now tenantId contactId kind ref meta w =
     bump (w\<lparr>w_contactActivities := w_contactActivities w @
       [\<lparr>contactActivity_id = newId w, contactActivity_tenantId = tenantId,
         contactActivity_contactId = contactId, contactActivity_activityType = kind,
         contactActivity_referenceId = ref, contactActivity_metadata = meta,
         contactActivity_createdAt = now\<rparr>]\<rparr>)"

text \<open>The activity of a message sent outside the reminder path, on the contact with that number.\<close>

definition logActivity :: "instant \<Rightarrow> SendRequest \<Rightarrow> string \<Rightarrow> world \<Rightarrow> world" where
  "logActivity now q to w =
     (case List.find (\<lambda>c. contact_tenantId c = sq_tenantId q \<and> contact_phone c = Some to) (w_contacts w) of
        None \<Rightarrow> w
      | Some c \<Rightarrow> addActivity now (sq_tenantId q) (contact_id c) ''message_sent'' None
          (JObj [(''channel'', JStr (channelName (sq_channel q))), (''to'', JStr to)]) w)"

definition send :: "env \<Rightarrow> instant \<Rightarrow> SendRequest \<Rightarrow> SendOutcome act" where
  "send E now q w =
     (let phone = (if sq_channel q = EMAIL then Some (sq_to q)
                   else normalizePhoneForSend E (Some (sq_to q)) DEFAULT_SEND_COUNTRY)
      in (case phone of
            None \<Rightarrow>
              (Inr \<lparr>so_success = False, so_providerMessageId = None,
                    so_error = Some (invalidPhoneText (sq_to q)),
                    so_errorCode = Some ''INVALID_PHONE_FORMAT''\<rparr>,
               (case sq_reminderId q of
                  None \<Rightarrow> w
                | Some i \<Rightarrow> if i = [] then w
                    else recordFailedReminder now (sq_tenantId q) i ''INVALID_PHONE_FORMAT''
                      (invalidPhoneText (sq_to q) @ '' '' @ [char_of (0xE2 :: nat), char_of (0x80 :: nat),
                       char_of (0x94 :: nat)] @ '' could not normalize to E.164'') w))
          | Some to \<Rightarrow>
              (let (r, w1) = dispatch E now q to w;
                   outcome = \<lparr>so_success = sr_success r, so_providerMessageId = sr_id r,
                              so_error = sr_error r, so_errorCode = None\<rparr>
               in if \<not> sr_success r then (Inr outcome, w1)
                  else thenA (whenA (\<not> sq_suppressLog q)
                                (createMessageLog (outboundLog now q to (sr_id r))))
                         (thenA (whenA (\<not> truthy (sq_reminderId q)) (modifyA (logActivity now q to)))
                            (returnA outcome)) w1)))"

definition request :: "uuid \<Rightarrow> ChannelType \<Rightarrow> string \<Rightarrow> string \<Rightarrow> SendRequest" where
  "request tenantId ch to content =
     \<lparr>sq_tenantId = tenantId, sq_channel = ch, sq_to = to, sq_content = content, sq_reminderId = None,
      sq_appointmentData = None, sq_eventId = None, sq_contactId = None, sq_suppressLog = False\<rparr>"

section \<open>What a send does\<close>

text \<open>Every provider call appends exactly one message to the outbox and touches nothing else.\<close>

lemma handOver_frame [simp]: "w_outbox (handOver m w) = w_outbox w @ [m]"
  "w_tenants (handOver m w) = w_tenants w" "w_messageLogs (handOver m w) = w_messageLogs w"
  by (simp_all add: handOver_def)

lemma dispatch_outbox:
  "(\<exists>m. snd (dispatch E now q to w) = handOver m w \<and> out_channel m = sq_channel q \<and>
        out_content m \<in> {sq_content q} \<union> range (e_renderTwiml E) \<and>
        out_to m \<in> {to, ''whatsapp:'' @ to}) \<or>
   (sq_channel q = EMAIL \<and> conf E ''SMTP_HOST'' [] = [] \<and> snd (dispatch E now q to w) = w)"
  by (cases "sq_channel q")
     (auto simp: dispatch_def Let_def termii_send_def termii_sendMessage_def twilio_sendSms_def
        twilio_sendVoice_def twilio_sendWhatsApp_def twilioSend_def mock_send_def email_send_def
        generateReminderTwiml_def useTermii_def split: option.split)

lemma createMessageLog_cases:
  "(\<exists>i. createMessageLog mk w = (Inr (), bump (w\<lparr>w_messageLogs := w_messageLogs w @ [mk i]\<rparr>))) \<or>
   (\<exists>e. createMessageLog mk w = (Inl e, w))"
  by (auto simp: createMessageLog_def Let_def)

lemma bump_frame [simp]: "w_outbox (bump w) = w_outbox w" "w_messageLogs (bump w) = w_messageLogs w"
  "w_tenants (bump w) = w_tenants w" "w_contactActivities (bump w) = w_contactActivities w"
  "w_contacts (bump w) = w_contacts w" "w_reminders (bump w) = w_reminders w"
  "w_jobs (bump w) = w_jobs w" "w_redis (bump w) = w_redis w"
  by (simp_all add: bump_def)

lemma logActivity_frame [simp]: "w_outbox (logActivity now q to w) = w_outbox w"
  "w_messageLogs (logActivity now q to w) = w_messageLogs w"
  by (simp_all add: logActivity_def addActivity_def split: option.split)

lemma recordFailedReminder_frame [simp]:
  "w_outbox (recordFailedReminder now t i c m w) = w_outbox w"
  "w_messageLogs (recordFailedReminder now t i c m w) = w_messageLogs w"
  "w_contactActivities (recordFailedReminder now t i c m w) = w_contactActivities w"
  by (simp_all add: recordFailedReminder_def)

lemma dispatch_messages:
  "w_messageLogs (snd (dispatch E now q to w)) = w_messageLogs w"
  "\<exists>ms. w_outbox (snd (dispatch E now q to w)) = w_outbox w @ ms \<and> length ms \<le> 1 \<and>
     (\<forall>m \<in> set ms. out_channel m = sq_channel q \<and> out_to m \<in> {to, ''whatsapp:'' @ to})"
  using dispatch_outbox [of E now q to w] by auto

text \<open>The number a send goes to: the normalized one, or the e-mail address as given.\<close>

definition sendTarget :: "env \<Rightarrow> SendRequest \<Rightarrow> string option" where
  "sendTarget E q = (if sq_channel q = EMAIL then Some (sq_to q)
     else normalizePhoneForSend E (Some (sq_to q)) DEFAULT_SEND_COUNTRY)"

lemma send_invalid:
  assumes "sendTarget E q = None"
  shows "\<exists>o'. fst (send E now q w) = Inr o' \<and> \<not> so_success o' \<and>
      so_errorCode o' = Some ''INVALID_PHONE_FORMAT''"
    and "w_outbox (snd (send E now q w)) = w_outbox w"
    and "w_messageLogs (snd (send E now q w)) = w_messageLogs w"
  using assms by (auto simp: send_def sendTarget_def Let_def split: option.split if_splits)

lemma send_valid:
  assumes "sendTarget E q = Some to"
  shows "send E now q w = (let (r, w1) = dispatch E now q to w;
      outcome = \<lparr>so_success = sr_success r, so_providerMessageId = sr_id r, so_error = sr_error r,
                 so_errorCode = None\<rparr>
    in if \<not> sr_success r then (Inr outcome, w1)
       else thenA (whenA (\<not> sq_suppressLog q) (createMessageLog (outboundLog now q to (sr_id r))))
              (thenA (whenA (\<not> truthy (sq_reminderId q)) (modifyA (logActivity now q to)))
                 (returnA outcome)) w1)"
  using assms by (simp add: send_def sendTarget_def Let_def split del: if_split)

lemma send_after_log:
  fixes o' :: SendOutcome
  shows "thenA (whenA b (modifyA f)) (returnA o') w = (Inr o', if b then f w else w)"
  by (cases b) (simp_all add: thenA_def bindA_def)

lemma send_success_shape:
  assumes "sendTarget E q = Some to" and "send E now q w = (Inr o', w')" and "so_success o'"
  shows "\<exists>i. w_messageLogs w' = w_messageLogs w @
            (if sq_suppressLog q then [] else [outboundLog now q to (so_providerMessageId o') i])"
    and "w_outbox w' = w_outbox (snd (dispatch E now q to w))"
proof -
  obtain r w1 where d: "dispatch E now q to w = (r, w1)" by (cases "dispatch E now q to w") auto
  let ?mk = "outboundLog now q to (sr_id r)"
  have logs: "w_messageLogs w1 = w_messageLogs w"
    using dispatch_messages(1) [of E now q to w] d by simp
  note run = assms(2) [unfolded send_valid [OF assms(1)] d Let_def, simplified]
  have "(\<exists>i. w_messageLogs w' = w_messageLogs w @
            (if sq_suppressLog q then [] else [outboundLog now q to (so_providerMessageId o') i])) \<and>
        w_outbox w' = w_outbox w1"
  proof (cases "sq_suppressLog q")
    case True
    then show ?thesis
      using run assms(3) logs
      by (auto simp: thenA_def bindA_def whenA_def split: if_splits)
  next
    case False
    with run assms(3) have ok: "sr_success r" by (auto split: if_splits)
    consider i where "createMessageLog ?mk w1 = (Inr (), bump (w1\<lparr>w_messageLogs := w_messageLogs w1 @ [?mk i]\<rparr>))"
      | e where "createMessageLog ?mk w1 = (Inl e, w1)"
      using createMessageLog_cases [of ?mk w1] by blast
    then show ?thesis
    proof cases
      case (1 i)
      with run ok False have "o' = \<lparr>so_success = True, so_providerMessageId = sr_id r,
            so_error = sr_error r, so_errorCode = None\<rparr>"
        and "w_messageLogs w' = w_messageLogs w @ [?mk i]" and "w_outbox w' = w_outbox w1"
        using logs by (auto simp: send_after_log split: if_splits)
      then show ?thesis using False by auto
    next
      case 2
      with run ok False show ?thesis by simp
    qed
  qed
  then show "\<exists>i. w_messageLogs w' = w_messageLogs w @
            (if sq_suppressLog q then [] else [outboundLog now q to (so_providerMessageId o') i])"
    and "w_outbox w' = w_outbox (snd (dispatch E now q to w))"
    by (simp_all add: d)
qed

text \<open>What \<open>send\<close> may touch: the outbox, by at most one message of the requested channel, and its logs.\<close>

lemma dispatch_frame: "g (snd (dispatch E now q to w)) = g w"
  if "\<And>m v. g (handOver m v) = g v"
  using dispatch_outbox [of E now q to w] that by auto

abbreviation messagingParts :: "world \<Rightarrow> world" where
  "messagingParts w \<equiv> w\<lparr>w_outbox := [], w_messageLogs := [], w_contactActivities := [],
     w_failedReminders := [], w_next := 0\<rparr>"

lemma send_cases:
  obtains to r w1 b c mk out where "sendTarget E q = Some to" "dispatch E now q to w = (r, w1)"
      "snd (send E now q w) = snd (thenA (whenA b (createMessageLog mk))
         (thenA (whenA c (modifyA (logActivity now q to))) (returnA (out :: SendOutcome))) w1)"
  | to r w1 where "sendTarget E q = Some to" "dispatch E now q to w = (r, w1)" "snd (send E now q w) = w1"
  | i m v where "snd (send E now q w) = v" "sendTarget E q = None"
      "v = w \<or> v = recordFailedReminder now (sq_tenantId q) i ''INVALID_PHONE_FORMAT'' m w"
proof (cases "sendTarget E q")
  case None
  have "snd (send E now q w) = w \<or> (\<exists>i m. snd (send E now q w) =
      recordFailedReminder now (sq_tenantId q) i ''INVALID_PHONE_FORMAT'' m w)"
    using None by (auto simp: send_def sendTarget_def Let_def split: option.splits if_splits)
  then show thesis using that(3) None by blast
next
  case (Some to)
  obtain r w1 where d: "dispatch E now q to w = (r, w1)" by (cases "dispatch E now q to w") auto
  show thesis
  proof (cases "sr_success r")
    case True
    then show thesis using that(1) [OF Some d] unfolding send_valid [OF Some] d by (simp add: Let_def)
  next
    case False
    then show thesis using that(2) [OF Some d] unfolding send_valid [OF Some] d by (simp add: Let_def)
  qed
qed

lemma send_parts: "messagingParts (snd (send E now q w)) = messagingParts w"
proof -
  have log: "messagingParts (snd (createMessageLog mk v)) = messagingParts v" for mk v
    using createMessageLog_cases [of mk v] by (auto simp: bump_def)
  have act: "messagingParts (logActivity now q to v) = messagingParts v" for to v
    by (simp add: logActivity_def addActivity_def bump_def split: option.split)
  have failed: "messagingParts (recordFailedReminder now t i c m v) = messagingParts v" for t i c m v
    by (simp add: recordFailedReminder_def bump_def)
  have d: "messagingParts w1 = messagingParts w" if "dispatch E now q to w = (r, w1)" for to r w1
    using dispatch_frame [of messagingParts E now q to w] that by (simp add: handOver_def)
  have late: "messagingParts (snd (thenA (whenA b (createMessageLog mk)) (thenA (whenA c (modifyA (logActivity now q to)))
        (returnA x)) v)) = messagingParts v" for b c mk v to and x :: SendOutcome
    using log [of mk v] act by (auto simp: thenA_def bindA_def whenA_def split: prod.splits sum.splits)
  show ?thesis by (rule send_cases [of E q now w]) (use d failed late in auto)
qed

lemma send_outbox:
  "\<exists>ms. w_outbox (snd (send E now q w)) = w_outbox w @ ms \<and> length ms \<le> 1 \<and>
     (\<forall>m \<in> set ms. out_channel m = sq_channel q)"
proof -
  have log: "w_outbox (snd (createMessageLog mk v)) = w_outbox v" for mk v
    using createMessageLog_cases [of mk v] by (auto simp: bump_def)
  have late: "w_outbox (snd (thenA (whenA b (createMessageLog mk)) (thenA (whenA c (modifyA (logActivity now q to)))
        (returnA x)) v)) = w_outbox v" for b c mk v to and x :: SendOutcome
    using log [of mk v] by (auto simp: thenA_def bindA_def whenA_def split: prod.splits sum.splits)
  have d: "\<exists>ms. w_outbox w1 = w_outbox w @ ms \<and> length ms \<le> 1 \<and> (\<forall>m \<in> set ms. out_channel m = sq_channel q)"
    if "dispatch E now q to w = (r, w1)" for to r w1
    using dispatch_messages(2) [of E now q to w] that by auto
  show ?thesis
  proof (rule send_cases [of E q now w])
    fix i m v assume "snd (send E now q w) = v"
      "v = w \<or> v = recordFailedReminder now (sq_tenantId q) i ''INVALID_PHONE_FORMAT'' m w"
    then have "w_outbox (snd (send E now q w)) = w_outbox w" by auto
    then show ?thesis by (intro exI [of _ "[]"]) simp
  qed (use d late in auto)
qed

text \<open>Where the message goes, and that there is one whenever the recipient is valid.\<close>

lemma send_addressed:
  "\<exists>ms. w_outbox (snd (send E now q w)) = w_outbox w @ ms \<and> length ms \<le> 1 \<and>
     (\<forall>m \<in> set ms. out_channel m = sq_channel q \<and>
        (\<exists>to. sendTarget E q = Some to \<and> out_to m \<in> {to, ''whatsapp:'' @ to})) \<and>
     (sendTarget E q \<noteq> None \<and> (sq_channel q = EMAIL \<longrightarrow> conf E ''SMTP_HOST'' [] \<noteq> []) \<longrightarrow> length ms = 1)"
proof -
  have log: "w_outbox (snd (createMessageLog mk v)) = w_outbox v" for mk v
    using createMessageLog_cases [of mk v] by (auto simp: bump_def)
  have late: "w_outbox (snd (thenA (whenA b (createMessageLog mk)) (thenA (whenA c (modifyA (logActivity now q to)))
        (returnA x)) v)) = w_outbox v" for b c mk v to and x :: SendOutcome
    using log [of mk v] by (auto simp: thenA_def bindA_def whenA_def split: prod.splits sum.splits)
  have d: "\<exists>ms. w_outbox w1 = w_outbox w @ ms \<and> length ms \<le> 1 \<and>
      (\<forall>m \<in> set ms. out_channel m = sq_channel q \<and> out_to m \<in> {to, ''whatsapp:'' @ to}) \<and>
      ((sq_channel q = EMAIL \<longrightarrow> conf E ''SMTP_HOST'' [] \<noteq> []) \<longrightarrow> length ms = 1)"
    if "dispatch E now q to w = (r, w1)" for to r w1
    using dispatch_outbox [of E now q to w] that by auto
  show ?thesis
  proof (rule send_cases [of E q now w])
    fix i m v assume "snd (send E now q w) = v" and none: "sendTarget E q = None"
      and "v = w \<or> v = recordFailedReminder now (sq_tenantId q) i ''INVALID_PHONE_FORMAT'' m w"
    then have "w_outbox (snd (send E now q w)) = w_outbox w" by auto
    then show ?thesis using none by (intro exI [of _ "[]"]) simp
  qed (use d late in fastforce)+
qed

lemma send_other [simp]:
  "w_failoverLogs (snd (send E now q w)) = w_failoverLogs w"
  "w_feedbackRequests (snd (send E now q w)) = w_feedbackRequests w"
  "w_feedbackResponses (snd (send E now q w)) = w_feedbackResponses w"
  "w_appointments (snd (send E now q w)) = w_appointments w"
  "w_customers (snd (send E now q w)) = w_customers w"
  "w_contacts (snd (send E now q w)) = w_contacts w"
  "w_reminders (snd (send E now q w)) = w_reminders w"
  "w_jobs (snd (send E now q w)) = w_jobs w"
  "w_tenants (snd (send E now q w)) = w_tenants w"
  "w_eventParticipants (snd (send E now q w)) = w_eventParticipants w"
  using arg_cong [OF send_parts [of E now q w], of w_failoverLogs] arg_cong [OF send_parts [of E now q w], of w_feedbackRequests]
    arg_cong [OF send_parts [of E now q w], of w_feedbackResponses] arg_cong [OF send_parts [of E now q w], of w_appointments]
    arg_cong [OF send_parts [of E now q w], of w_customers] arg_cong [OF send_parts [of E now q w], of w_contacts]
    arg_cong [OF send_parts [of E now q w], of w_reminders] arg_cong [OF send_parts [of E now q w], of w_jobs]
    arg_cong [OF send_parts [of E now q w], of w_tenants] arg_cong [OF send_parts [of E now q w], of w_eventParticipants]
  by simp_all

text \<open>
  C15: A message that \<open>MessagingService.send\<close> reports as sent has exactly one OUTBOUND row in the
  message log (none when the caller suppresses it), addressed to the number in E.164 form and
  carrying the provider's id; at most one message was handed to a provider, on the requested channel
  and to that number.
\<close>

theorem send_reported_is_logged:
  assumes "send E now q w = (Inr o', w')" and "so_success o'"
  shows "\<exists>to. sendTarget E q = Some to \<and>
    (\<exists>i. w_messageLogs w' = w_messageLogs w @
       (if sq_suppressLog q then [] else [outboundLog now q to (so_providerMessageId o') i])) \<and>
    (\<exists>ms. w_outbox w' = w_outbox w @ ms \<and> length ms \<le> 1 \<and>
       (\<forall>m \<in> set ms. out_channel m = sq_channel q \<and> out_to m \<in> {to, ''whatsapp:'' @ to}))"
proof (cases "sendTarget E q")
  case None
  then show ?thesis using send_invalid(1) [of E q now w] assms by auto
next
  case (Some to)
  then show ?thesis
    using send_success_shape [OF Some assms] dispatch_messages(2) [of E now q to w] by simp
qed

text \<open>
  A number that cannot be brought into E.164 form is never handed to a provider: the send
  reports INVALID_PHONE_FORMAT, and neither the outbox nor the message log changes.
\<close>

theorem invalid_number_not_sent:
  assumes "sq_channel q \<noteq> EMAIL" and "normalizePhoneForSend E (Some (sq_to q)) DEFAULT_SEND_COUNTRY = None"
  shows "(\<exists>o'. fst (send E now q w) = Inr o' \<and> \<not> so_success o' \<and>
      so_errorCode o' = Some ''INVALID_PHONE_FORMAT'') \<and>
    w_outbox (snd (send E now q w)) = w_outbox w \<and>
    w_messageLogs (snd (send E now q w)) = w_messageLogs w"
  using send_invalid [of E q now w] assms by (simp add: sendTarget_def)

theorem invalid_number_not_sent_witness:
  "\<not> (\<exists>o'. fst (send demoEnv 7 (request ''t1'' SMS ''0803'' ''hi'') (emptyWorld show_nat)) = Inr o' \<and>
     so_success o')"
  using invalid_number_not_sent [of "request ''t1'' SMS ''0803'' ''hi''" demoEnv 7 "emptyWorld show_nat"]
  by (auto simp: request_def normalizePhoneForSend_def demoEnv_def trim_def is_space_def
      char_code_def startsWith_def)

text \<open>
  An e-mail is always reported as sent. Whatever happens at the SMTP server, \<open>send\<close> on the
  EMAIL channel reports success whenever it returns, and logs a row with status sent; when no SMTP
  host is configured nothing at all has been sent.
\<close>

theorem email_always_reported_sent:
  assumes "sq_channel q = EMAIL" and "send E now q w = (Inr o', w')"
  shows "so_success o' \<and>
    (\<not> sq_suppressLog q \<longrightarrow> (\<exists>l. w_messageLogs w' = w_messageLogs w @ [l] \<and>
       messageLog_providerStatus l = Some ''sent'' \<and> messageLog_recipient l = sq_to q)) \<and>
    (conf E ''SMTP_HOST'' [] = [] \<longrightarrow> w_outbox w' = w_outbox w)"
proof -
  have target: "sendTarget E q = Some (sq_to q)" using assms(1) by (simp add: sendTarget_def)
  have d: "sr_success (fst (dispatch E now q (sq_to q) w))"
      "conf E ''SMTP_HOST'' [] = [] \<Longrightarrow> snd (dispatch E now q (sq_to q) w) = w"
    using assms(1) by (auto simp: dispatch_def useTermii_def Let_def email_send_def)
  have ok: "so_success o'"
    using assms(2) d(1) unfolding send_valid [OF target]
    by (auto simp: Let_def thenA_def bindA_def whenA_def split: prod.splits sum.splits if_splits)
  note shape = send_success_shape [OF target assms(2) ok]
  have "\<exists>l. w_messageLogs w' = w_messageLogs w @ [l] \<and>
       messageLog_providerStatus l = Some ''sent'' \<and> messageLog_recipient l = sq_to q"
    if "\<not> sq_suppressLog q" using shape(1) that by (auto simp: outboundLog_def)
  then show ?thesis using ok shape(2) d(2) by simp
qed

text \<open>
  Two e-mails in the same millisecond collide. The id given to an e-mail is made of the current
  time alone, and it is unique in the log: after one logged e-mail, a second \<open>send\<close> at the same
  instant hands its e-mail to the server and then throws the unique-constraint error, so its caller
  takes a message that went out for a failed one.
\<close>

theorem email_ids_collide:
  assumes "sq_channel p = EMAIL" and "\<not> sq_suppressLog p" and "send E now p w = (Inr o', w')"
    and "sq_channel q = EMAIL" and "\<not> sq_suppressLog q" and "conf E ''SMTP_HOST'' [] \<noteq> []"
  shows "fst (send E now q w') = Inl (PrismaError ''P2002'') \<and>
    (\<exists>m. w_outbox (snd (send E now q w')) = w_outbox w' @ [m] \<and> out_to m = sq_to q)"
proof -
  have target: "sendTarget E x = Some (sq_to x)" if "sq_channel x = EMAIL" for x
    using that by (simp add: sendTarget_def)
  have d: "\<exists>m. dispatch E now x (sq_to x) v = (\<lparr>sr_success = True, sr_id = Some (''email_'' @ show_int now),
      sr_error = None\<rparr>, handOver m v) \<and> out_to m = sq_to x" if "sq_channel x = EMAIL" for x v
    using that assms(6) by (auto simp: dispatch_def useTermii_def Let_def email_send_def)
  have "so_success o' \<and> so_providerMessageId o' = Some (''email_'' @ show_int now)"
    using assms(3) d [OF assms(1), of w] unfolding send_valid [OF target [OF assms(1)]]
    by (auto simp: Let_def thenA_def bindA_def whenA_def split: prod.splits sum.splits if_splits)
  then have used: "Some (''email_'' @ show_int now) \<in> messageLog_providerMessageId ` set (w_messageLogs w')"
    using send_success_shape(1) [OF target [OF assms(1)] assms(3)] assms(2) by (auto simp: outboundLog_def)
  obtain m where m: "dispatch E now q (sq_to q) w' = (\<lparr>sr_success = True,
      sr_id = Some (''email_'' @ show_int now), sr_error = None\<rparr>, handOver m w')" "out_to m = sq_to q"
    using d [OF assms(4)] by blast
  have "createMessageLog (outboundLog now q (sq_to q) (Some (''email_'' @ show_int now))) (handOver m w') =
      (Inl (PrismaError ''P2002''), handOver m w')"
    using used by (simp add: createMessageLog_def outboundLog_def del: append_Cons append_Nil)
  with m assms(5) show ?thesis
    unfolding send_valid [OF target [OF assms(4)]] by (simp del: append_Cons append_Nil)
qed

text \<open>A send that returns, for the witnesses.\<close>

definition demoMail :: SendRequest where
  "demoMail = request ''t1'' EMAIL ''ada@example.com'' ''Hello''"

lemma demoMail_returns:
  "\<exists>o' w'. send demoEnv 7 demoMail (demoWorld [demoTenant PLAN_SMS ACTIVE False 0]) = (Inr o', w') \<and>
     so_success o'"
proof -
  let ?w = "demoWorld [demoTenant PLAN_SMS ACTIVE False 0]"
  have d: "dispatch demoEnv 7 demoMail ''ada@example.com'' ?w =
      (\<lparr>sr_success = True, sr_id = Some (''email_'' @ show_int 7), sr_error = None\<rparr>, ?w)"
    by (simp add: dispatch_def useTermii_def demoMail_def request_def email_send_def conf_def demoEnv_def)
  have "\<exists>v. createMessageLog (outboundLog 7 demoMail ''ada@example.com'' (Some (''email_'' @ show_int 7))) ?w =
      (Inr (), v)"
    by (simp add: createMessageLog_def outboundLog_def demoMail_def request_def demoWorld_def
        emptyWorld_def tenantExists_def)
  then obtain v where c: "createMessageLog (outboundLog 7 demoMail ''ada@example.com''
      (Some (''email_'' @ show_int 7))) ?w = (Inr (), v)" ..
  have t: "sendTarget demoEnv demoMail = Some ''ada@example.com''"
    by (simp add: sendTarget_def demoMail_def request_def)
  have "\<not> sq_suppressLog demoMail" by (simp add: demoMail_def request_def)
  then show ?thesis
    unfolding send_valid [OF t] d by (simp add: c [simplified] send_after_log)
qed

theorem send_reported_is_logged_witness:
  "\<exists>o' w'. send demoEnv 7 demoMail (demoWorld [demoTenant PLAN_SMS ACTIVE False 0]) = (Inr o', w') \<and>
     length (w_messageLogs w') = 1"
proof -
  obtain o' w' where r: "send demoEnv 7 demoMail (demoWorld [demoTenant PLAN_SMS ACTIVE False 0]) = (Inr o', w')"
      "so_success o'" using demoMail_returns by blast
  from send_reported_is_logged [OF this] r show ?thesis
    by (auto simp: demoMail_def request_def demoWorld_def emptyWorld_def)
qed

theorem email_always_reported_sent_witness:
  "\<exists>o' w'. send demoEnv 7 demoMail (demoWorld [demoTenant PLAN_SMS ACTIVE False 0]) = (Inr o', w') \<and>
     so_success o' \<and> w_outbox w' = []"
proof -
  obtain o' w' where r: "send demoEnv 7 demoMail (demoWorld [demoTenant PLAN_SMS ACTIVE False 0]) = (Inr o', w')"
    using demoMail_returns by blast
  moreover have "sq_channel demoMail = EMAIL" by (simp add: demoMail_def request_def)
  ultimately show ?thesis using email_always_reported_sent [OF _ r]
    by (simp add: conf_def demoEnv_def demoWorld_def emptyWorld_def)
qed

definition mailEnv :: env where
  "mailEnv = demoEnv\<lparr>e_config := [''SMTP_HOST'' \<mapsto> ''smtp.example.com'']\<rparr>"

theorem email_ids_collide_witness:
  "\<exists>w'. fst (send mailEnv 7 demoMail w') = Inl (PrismaError ''P2002'')"
proof -
  let ?w = "demoWorld [demoTenant PLAN_SMS ACTIVE False 0]"
  have q: "sq_channel demoMail = EMAIL" "\<not> sq_suppressLog demoMail" "sq_tenantId demoMail = ''t1''"
      "sq_reminderId demoMail = None" "sq_eventId demoMail = None" "sq_contactId demoMail = None"
    by (simp_all add: demoMail_def request_def)
  obtain m where d: "dispatch mailEnv 7 demoMail (sq_to demoMail) ?w =
      (\<lparr>sr_success = True, sr_id = Some (''email_'' @ show_int 7), sr_error = None\<rparr>, handOver m ?w)"
    using q by (auto simp: dispatch_def useTermii_def Let_def email_send_def conf_def mailEnv_def)
  have "\<exists>v. createMessageLog (outboundLog 7 demoMail (sq_to demoMail) (Some (''email_'' @ show_int 7)))
      (handOver m ?w) = (Inr (), v)"
    using q by (simp add: createMessageLog_def outboundLog_def handOver_def demoWorld_def emptyWorld_def
        tenantExists_def)
  then obtain v where c: "createMessageLog (outboundLog 7 demoMail (sq_to demoMail)
      (Some (''email_'' @ show_int 7))) (handOver m ?w) = (Inr (), v)" ..
  have t: "sendTarget mailEnv demoMail = Some (sq_to demoMail)" using q by (simp add: sendTarget_def)
  have "\<exists>o' w'. send mailEnv 7 demoMail ?w = (Inr o', w')"
    unfolding send_valid [OF t] d using q by (simp add: c [simplified] send_after_log)
  then obtain o' w' where r: "send mailEnv 7 demoMail ?w = (Inr o', w')" by blast
  have "conf mailEnv ''SMTP_HOST'' [] \<noteq> []" by (simp add: conf_def mailEnv_def)
  then have "fst (send mailEnv 7 demoMail w') = Inl (PrismaError ''P2002'')"
    using email_ids_collide [OF q(1,2) r q(1,2)] by blast
  then show ?thesis by blast
qed

end
