(* ===== verification/Channel_Strategy.thy ===== *)
theory Channel_Strategy
  imports Usage_Quota Rate_Limit
begin

text \<open>
  \<open>modules/channel-strategy/channel-strategy.service.ts\<close>: a tenant's ordered fallback chains of
  channels. One of them may be the default; creating or updating a strategy as the default takes the
  mark from the others first.
\<close>

record CreateChannelStrategyDto =
  cs_name :: string
  cs_chain :: "ChannelType list"
  cs_fallbackOnFailed :: "bool option"
  cs_fallbackOnUndelivered :: "bool option"
  cs_fallbackOnUnread :: "bool option"
  cs_unreadWindowMinutes :: "int option"
  cs_isDefault :: "bool option"

record UpdateChannelStrategyDto =
  us_name :: "string option"
  us_chain :: "ChannelType list option"
  us_fallbackOnFailed :: "bool option"
  us_fallbackOnUndelivered :: "bool option"
  us_fallbackOnUnread :: "bool option"
  us_unreadWindowMinutes :: "int option"
  us_isDefault :: "bool option"
  us_isActive :: "bool option"

definition clearDefaults :: "(channelStrategy \<Rightarrow> bool) \<Rightarrow> world \<Rightarrow> world" where
  "clearDefaults p w = w\<lparr>w_channelStrategies :=
     update_where p (\<lambda>s. s\<lparr>channelStrategy_isDefault := False\<rparr>) (w_channelStrategies w)\<rparr>"

definition newStrategy ::
  "env \<Rightarrow> instant \<Rightarrow> uuid \<Rightarrow> CreateChannelStrategyDto \<Rightarrow> uuid \<Rightarrow> channelStrategy" where
  "newStrategy E now tenantId dto i =
     \<lparr>channelStrategy_id = i, channelStrategy_tenantId = tenantId,
      channelStrategy_name = cs_name dto, channelStrategy_chain = cs_chain dto,
      channelStrategy_fallbackOnFailed = coalesce (cs_fallbackOnFailed dto) True,
      channelStrategy_fallbackOnUndelivered = coalesce (cs_fallbackOnUndelivered dto) True,
      channelStrategy_fallbackOnUnread = coalesce (cs_fallbackOnUnread dto) False,
      channelStrategy_unreadWindowMinutes =
        coalesce (cs_unreadWindowMinutes dto) (coalesce (e_configNum E ''UNREAD_WINDOW_MINUTES'') 30),
      channelStrategy_isDefault = coalesce (cs_isDefault dto) False,
      channelStrategy_isActive = True, channelStrategy_createdAt = now\<rparr>"

definition createStrategy ::
  "env \<Rightarrow> instant \<Rightarrow> uuid \<Rightarrow> CreateChannelStrategyDto \<Rightarrow> channelStrategy act" where
  "createStrategy E now tenantId dto w =
     (let w1 = (if cs_isDefault dto = Some True
                then clearDefaults (\<lambda>s. channelStrategy_tenantId s = tenantId \<and> channelStrategy_isDefault s) w
                else w);
          s = newStrategy E now tenantId dto (newId w1)
      in if tenantExists tenantId w
         then (Inr s, bump (w1\<lparr>w_channelStrategies := w_channelStrategies w1 @ [s]\<rparr>))
         else (Inl (PrismaError ''P2003''), w1))"

text \<open>Active ones, the default first, then by age, newest first.\<close>

definition findAllStrategies :: "uuid \<Rightarrow> world \<Rightarrow> channelStrategy list" where
  "findAllStrategies tenantId w =
     (let rows = order_desc channelStrategy_createdAt
            (filter (\<lambda>s. channelStrategy_tenantId s = tenantId \<and> channelStrategy_isActive s)
               (w_channelStrategies w))
      in filter channelStrategy_isDefault rows @ filter (\<lambda>s. \<not> channelStrategy_isDefault s) rows)"

definition findOneStrategy :: "uuid \<Rightarrow> uuid \<Rightarrow> channelStrategy act" where
  "findOneStrategy tenantId i w =
     (case List.find (\<lambda>s. channelStrategy_id s = i \<and> channelStrategy_tenantId s = tenantId)
             (w_channelStrategies w) of
        None \<Rightarrow> (Inl (NotFoundException ''Channel strategy not found''), w)
      | Some s \<Rightarrow> (Inr s, w))"

definition applyStrategyDto :: "UpdateChannelStrategyDto \<Rightarrow> channelStrategy \<Rightarrow> channelStrategy" where
  "applyStrategyDto d s = s\<lparr>
     channelStrategy_name := coalesce (us_name d) (channelStrategy_name s),
     channelStrategy_chain := coalesce (us_chain d) (channelStrategy_chain s),
     channelStrategy_fallbackOnFailed := coalesce (us_fallbackOnFailed d) (channelStrategy_fallbackOnFailed s),
     channelStrategy_fallbackOnUndelivered :=
       coalesce (us_fallbackOnUndelivered d) (channelStrategy_fallbackOnUndelivered s),
     channelStrategy_fallbackOnUnread := coalesce (us_fallbackOnUnread d) (channelStrategy_fallbackOnUnread s),
     channelStrategy_unreadWindowMinutes :=
       coalesce (us_unreadWindowMinutes d) (channelStrategy_unreadWindowMinutes s),
     channelStrategy_isDefault := coalesce (us_isDefault d) (channelStrategy_isDefault s),
     channelStrategy_isActive := coalesce (us_isActive d) (channelStrategy_isActive s)\<rparr>"

abbreviation putStrategies :: "channelStrategy list \<Rightarrow> world \<Rightarrow> world" where
  "putStrategies rs w \<equiv> w\<lparr>w_channelStrategies := rs\<rparr>"

interpretation strategies: keyed_table w_channelStrategies putStrategies channelStrategy_id
  by unfold_locales simp_all

definition updateStrategy :: "uuid \<Rightarrow> uuid \<Rightarrow> UpdateChannelStrategyDto \<Rightarrow> unit act" where
  "updateStrategy tenantId i dto =
     bindA (findOneStrategy tenantId i) (\<lambda>_.
       thenA (whenA (us_isDefault dto = Some True)
                (modifyA (clearDefaults (\<lambda>s. channelStrategy_tenantId s = tenantId \<and>
                   channelStrategy_isDefault s \<and> channelStrategy_id s \<noteq> i))))
             (updateRow w_channelStrategies putStrategies channelStrategy_id i (applyStrategyDto dto)))"

definition removeStrategy :: "uuid \<Rightarrow> uuid \<Rightarrow> unit act" where
  "removeStrategy tenantId i =
     bindA (findOneStrategy tenantId i) (\<lambda>_.
       updateRow w_channelStrategies putStrategies channelStrategy_id i
         (\<lambda>s. s\<lparr>channelStrategy_isActive := False\<rparr>))"

section \<open>At most one default\<close>

text \<open>
  The default marks of all tenants, as pairs of a tenant and a strategy id: what the operations do to
  them is set algebra, and the contract is that they form a partial function.
\<close>

definition defaultMarks :: "channelStrategy list \<Rightarrow> (uuid \<times> uuid) set" where
  "defaultMarks rs = (\<lambda>s. (channelStrategy_tenantId s, channelStrategy_id s)) `
     {s \<in> set rs. channelStrategy_isDefault s}"

abbreviation marks :: "world \<Rightarrow> (uuid \<times> uuid) set" where
  "marks w \<equiv> defaultMarks (w_channelStrategies w)"

definition giveMark :: "uuid \<Rightarrow> uuid \<Rightarrow> (uuid \<times> uuid) set \<Rightarrow> (uuid \<times> uuid) set" where
  "giveMark t i M = insert (t, i) {p \<in> M. fst p \<noteq> t}"

definition functional :: "(uuid \<times> uuid) set \<Rightarrow> bool" where
  "functional M = (\<forall>t i j. (t, i) \<in> M \<longrightarrow> (t, j) \<in> M \<longrightarrow> i = j)"

lemma functionalI: "(\<And>t i j. (t, i) \<in> M \<Longrightarrow> (t, j) \<in> M \<Longrightarrow> i = j) \<Longrightarrow> functional M"
  unfolding functional_def by blast

lemma functional_subset: "functional N \<Longrightarrow> M \<subseteq> N \<Longrightarrow> functional M"
  unfolding functional_def by blast

lemma functional_giveMark: "functional M \<Longrightarrow> functional (giveMark t i M)"
  unfolding functional_def giveMark_def by auto

lemma functional_after: "functional M \<Longrightarrow> N \<subseteq> M \<or> N \<subseteq> giveMark t i M \<Longrightarrow> functional N"
  using functional_subset functional_giveMark by blast

lemma in_defaultMarks: "(t, i) \<in> defaultMarks rs \<longleftrightarrow>
    (\<exists>s \<in> set rs. channelStrategy_isDefault s \<and> channelStrategy_tenantId s = t \<and> channelStrategy_id s = i)"
  unfolding defaultMarks_def by force

lemma defaultMarks_append: "defaultMarks (rs @ qs) = defaultMarks rs \<union> defaultMarks qs"
  unfolding defaultMarks_def by (auto simp: image_Un)

lemma defaultMarks_single: "defaultMarks [s] =
    (if channelStrategy_isDefault s then {(channelStrategy_tenantId s, channelStrategy_id s)} else {})"
proof -
  have "{r \<in> set [s]. channelStrategy_isDefault r} = (if channelStrategy_isDefault s then {s} else {})"
    by auto
  then show ?thesis by (simp add: defaultMarks_def)
qed

lemma defaultMarks_clear:
  "marks (clearDefaults (\<lambda>s. channelStrategy_tenantId s = t \<and> channelStrategy_isDefault s \<and> keep s) w) \<subseteq>
     {p \<in> marks w. fst p \<noteq> t} \<union> {p \<in> marks w. \<exists>s \<in> set (w_channelStrategies w).
        \<not> keep s \<and> p = (channelStrategy_tenantId s, channelStrategy_id s)}"
proof
  fix p let ?P = "\<lambda>s. channelStrategy_tenantId s = t \<and> channelStrategy_isDefault s \<and> keep s"
  assume "p \<in> marks (clearDefaults ?P w)"
  then obtain r where r: "r \<in> set (w_channelStrategies (clearDefaults ?P w))" "channelStrategy_isDefault r"
      "p = (channelStrategy_tenantId r, channelStrategy_id r)"
    unfolding defaultMarks_def by blast
  then obtain s where s: "s \<in> set (w_channelStrategies w)"
      "r = (if ?P s then s\<lparr>channelStrategy_isDefault := False\<rparr> else s)"
    unfolding clearDefaults_def by (auto simp: set_update_where)
  have not: "\<not> ?P s"
  proof
    assume "?P s"
    then have "r = s\<lparr>channelStrategy_isDefault := False\<rparr>" using s(2) by simp
    then show False using r(2) by simp
  qed
  then have "r = s" using s(2) by argo
  with s(1) r not show "p \<in> {p \<in> marks w. fst p \<noteq> t} \<union> {p \<in> marks w. \<exists>s \<in> set (w_channelStrategies w).
        \<not> keep s \<and> p = (channelStrategy_tenantId s, channelStrategy_id s)}"
    unfolding defaultMarks_def by force
qed

lemma defaultMarks_update_row:
  assumes "\<And>s. channelStrategy_id (f s) = channelStrategy_id s"
    and "\<And>s. channelStrategy_tenantId (f s) = channelStrategy_tenantId s"
  shows "defaultMarks (update_where (\<lambda>s. channelStrategy_id s = i) f rs) \<subseteq>
    {p \<in> defaultMarks rs. snd p \<noteq> i} \<union>
    (\<lambda>s. (channelStrategy_tenantId s, i)) ` {s \<in> set rs. channelStrategy_id s = i \<and> channelStrategy_isDefault (f s)}"
proof
  fix p assume "p \<in> defaultMarks (update_where (\<lambda>s. channelStrategy_id s = i) f rs)"
  then obtain r where r: "r \<in> set (update_where (\<lambda>s. channelStrategy_id s = i) f rs)"
      "channelStrategy_isDefault r" "p = (channelStrategy_tenantId r, channelStrategy_id r)"
    unfolding defaultMarks_def by blast
  then obtain s where s: "s \<in> set rs" "r = (if channelStrategy_id s = i then f s else s)"
    by (auto simp: set_update_where)
  show "p \<in> {p \<in> defaultMarks rs. snd p \<noteq> i} \<union>
    (\<lambda>s. (channelStrategy_tenantId s, i)) ` {s \<in> set rs. channelStrategy_id s = i \<and> channelStrategy_isDefault (f s)}"
  proof (cases "channelStrategy_id s = i")
    case True
    then have "r = f s" using s(2) by simp
    then show ?thesis using True s(1) r(2,3) assms by auto
  next
    case False
    then have "r = s" using s(2) by simp
    then show ?thesis using False s(1) r(2,3) unfolding defaultMarks_def by force
  qed
qed

text \<open>What each operation does to the marks.\<close>

lemma newStrategy_simps [simp]:
  "channelStrategy_id (newStrategy E now t dto i) = i"
  "channelStrategy_tenantId (newStrategy E now t dto i) = t"
  "channelStrategy_isDefault (newStrategy E now t dto i) = (cs_isDefault dto = Some True)"
  by (auto simp: newStrategy_def coalesce_def split: option.split)

lemma applyStrategyDto_simps [simp]:
  "channelStrategy_id (applyStrategyDto d s) = channelStrategy_id s"
  "channelStrategy_tenantId (applyStrategyDto d s) = channelStrategy_tenantId s"
  "channelStrategy_isDefault (applyStrategyDto d s) = coalesce (us_isDefault d) (channelStrategy_isDefault s)"
  by (simp_all add: applyStrategyDto_def)

lemma clearDefaults_frame [simp]: "w_uuid (clearDefaults p w) = w_uuid w" "w_next (clearDefaults p w) = w_next w"
  by (simp_all add: clearDefaults_def)

lemma create_marks:
  "marks (snd (createStrategy E now t dto w)) \<subseteq>
     (if cs_isDefault dto = Some True then giveMark t (newId w) (marks w) else marks w)"
proof (cases "cs_isDefault dto = Some True")
  case True
  have "marks (clearDefaults (\<lambda>s. channelStrategy_tenantId s = t \<and> channelStrategy_isDefault s) w) \<subseteq>
      {p \<in> marks w. fst p \<noteq> t}"
    using defaultMarks_clear [of t "\<lambda>_. True" w] by simp
  moreover have "defaultMarks [newStrategy E now t dto (newId w)] = {(t, newId w)}"
    using True by (simp add: defaultMarks_single)
  ultimately show ?thesis
    using True by (auto simp: createStrategy_def Let_def bump_def newId_def defaultMarks_append giveMark_def)
next
  case False
  then have "defaultMarks [newStrategy E now t dto (newId w)] = {}" by (simp add: defaultMarks_single)
  then show ?thesis
    using False by (simp add: createStrategy_def Let_def bump_def newId_def defaultMarks_append)
qed

lemma findOneStrategy_cases:
  "(\<exists>s. findOneStrategy t i w = (Inr s, w) \<and> s \<in> set (w_channelStrategies w) \<and>
      channelStrategy_id s = i \<and> channelStrategy_tenantId s = t) \<or>
   findOneStrategy t i w = (Inl (NotFoundException ''Channel strategy not found''), w)"
  by (auto simp: findOneStrategy_def find_Some_iff split: option.split)

lemma updateRow_strategies:
  "w_channelStrategies (snd (updateRow w_channelStrategies putStrategies channelStrategy_id i f w)) =
     update_where (\<lambda>s. channelStrategy_id s = i) f (w_channelStrategies w)"
  by (auto simp: updateRow_def intro!: update_where_nothing [symmetric])

lemma updateStrategy_rows:
  assumes "findOneStrategy t i w = (Inr s, w)"
  shows "w_channelStrategies (snd (updateStrategy t i dto w)) =
    update_where (\<lambda>s. channelStrategy_id s = i) (applyStrategyDto dto) (w_channelStrategies
      (if us_isDefault dto = Some True
       then clearDefaults (\<lambda>s. channelStrategy_tenantId s = t \<and> channelStrategy_isDefault s \<and> channelStrategy_id s \<noteq> i) w
       else w))"
  by (simp add: updateStrategy_def assms whenA_modifyA updateRow_strategies)

lemma clearDefaults_row:
  assumes "q \<in> set (w_channelStrategies (clearDefaults p w))"
  obtains s where "s \<in> set (w_channelStrategies w)" "channelStrategy_id q = channelStrategy_id s"
    "channelStrategy_tenantId q = channelStrategy_tenantId s"
proof -
  from assms obtain s where s: "s \<in> set (w_channelStrategies w)"
      "q = (if p s then s\<lparr>channelStrategy_isDefault := False\<rparr> else s)"
    unfolding clearDefaults_def by (auto simp: set_update_where)
  then show thesis by (cases "p s") (auto intro: that)
qed

lemma update_marks:
  assumes "distinct (map channelStrategy_id (w_channelStrategies w))"
  shows "marks (snd (updateStrategy t i dto w)) \<subseteq> marks w \<or>
    marks (snd (updateStrategy t i dto w)) \<subseteq> giveMark t i (marks w)"
  using findOneStrategy_cases [of t i w]
proof (elim disjE exE conjE)
  fix s assume s: "findOneStrategy t i w = (Inr s, w)" "s \<in> set (w_channelStrategies w)"
    "channelStrategy_id s = i" "channelStrategy_tenantId s = t"
  have own: "channelStrategy_tenantId q = t" if "q \<in> set (w_channelStrategies w)" "channelStrategy_id q = i" for q
    using assms s(2-4) that by (auto simp: distinct_map dest: inj_onD)
  let ?c = "clearDefaults (\<lambda>s. channelStrategy_tenantId s = t \<and> channelStrategy_isDefault s \<and> channelStrategy_id s \<noteq> i) w"
  note upd = defaultMarks_update_row [of "applyStrategyDto dto" i, simplified]
  show ?thesis
  proof (cases "us_isDefault dto = Some True")
    case True
    have "(channelStrategy_tenantId q, i) \<in> {(t, i)}"
      if "q \<in> set (w_channelStrategies ?c)" "channelStrategy_id q = i" for q
    proof -
      from that(1) obtain s where "s \<in> set (w_channelStrategies w)" "channelStrategy_id q = channelStrategy_id s"
        "channelStrategy_tenantId q = channelStrategy_tenantId s" by (rule clearDefaults_row)
      then show ?thesis using own [of s] that(2) by simp
    qed
    then have "marks (snd (updateStrategy t i dto w)) \<subseteq> {p \<in> marks ?c. snd p \<noteq> i} \<union> {(t, i)}"
      unfolding updateStrategy_rows [OF s(1)] using True upd [of "w_channelStrategies ?c"] by auto
    moreover have "{p \<in> marks ?c. snd p \<noteq> i} \<subseteq> {p \<in> marks w. fst p \<noteq> t}"
      using defaultMarks_clear [of t "\<lambda>s. channelStrategy_id s \<noteq> i" w] by auto
    ultimately show ?thesis using True by (auto simp: giveMark_def)
  next
    case False
    have "(channelStrategy_tenantId q, i) \<in> marks w"
      if "q \<in> set (w_channelStrategies w)" "channelStrategy_id q = i"
        "coalesce (us_isDefault dto) (channelStrategy_isDefault q)" for q
      using that False by (cases "us_isDefault dto") (auto simp: in_defaultMarks)
    then show ?thesis
      unfolding updateStrategy_rows [OF s(1)] using False upd [of "w_channelStrategies w"] by auto
  qed
next
  assume "findOneStrategy t i w = (Inl (NotFoundException ''Channel strategy not found''), w)"
  then have "snd (updateStrategy t i dto w) = w" by (simp add: updateStrategy_def)
  then show ?thesis by simp
qed

lemma remove_marks: "marks (snd (removeStrategy t i w)) \<subseteq> marks w"
proof -
  have "marks (snd (updateRow w_channelStrategies putStrategies channelStrategy_id i
      (\<lambda>s. s\<lparr>channelStrategy_isActive := False\<rparr>) w)) \<subseteq> marks w"
  proof -
    have "(\<lambda>s. (channelStrategy_tenantId s, i)) ` {s \<in> set (w_channelStrategies w).
        channelStrategy_id s = i \<and> channelStrategy_isDefault s} \<subseteq> marks w"
      by (auto simp: in_defaultMarks)
    then show ?thesis
      unfolding updateRow_strategies
      using defaultMarks_update_row [of "\<lambda>s. s\<lparr>channelStrategy_isActive := False\<rparr>" i "w_channelStrategies w"]
      by simp blast
  qed
  then show ?thesis
    using findOneStrategy_cases [of t i w] by (auto simp: removeStrategy_def)
qed

text \<open>The ids of the rows never change, except that a creation adds one.\<close>

lemma clear_ids: "map channelStrategy_id (w_channelStrategies (clearDefaults p w)) =
    map channelStrategy_id (w_channelStrategies w)"
  by (simp add: clearDefaults_def map_update_where_same)

lemma strategy_ids:
  "map channelStrategy_id (w_channelStrategies (snd (updateStrategy t i dto w))) =
     map channelStrategy_id (w_channelStrategies w)"
  "map channelStrategy_id (w_channelStrategies (snd (removeStrategy t i w))) =
     map channelStrategy_id (w_channelStrategies w)"
  "map channelStrategy_id (w_channelStrategies (snd (createStrategy E now t d w))) =
     map channelStrategy_id (w_channelStrategies w) @ (if tenantExists t w then [newId w] else [])"
  using findOneStrategy_cases [of t i w]
  by (auto simp: updateStrategy_def removeStrategy_def createStrategy_def Let_def whenA_modifyA
      updateRow_strategies map_update_where_same clear_ids bump_def newId_def)

inductive strategy_states :: "env \<Rightarrow> world \<Rightarrow> bool" for E where
  start: "w_channelStrategies w = [] \<Longrightarrow> strategy_states E w"
| create: "strategy_states E w \<Longrightarrow> newId w \<notin> channelStrategy_id ` set (w_channelStrategies w) \<Longrightarrow>
    strategy_states E (snd (createStrategy E now t dto w))"
| update: "strategy_states E w \<Longrightarrow> strategy_states E (snd (updateStrategy t i udto w))"
| remove: "strategy_states E w \<Longrightarrow> strategy_states E (snd (removeStrategy t i w))"

lemma strategy_states_inv: "strategy_states E w \<Longrightarrow>
    distinct (map channelStrategy_id (w_channelStrategies w)) \<and> functional (marks w)"
proof (induction rule: strategy_states.induct)
  case (start w)
  then show ?case by (simp add: functional_def defaultMarks_def)
next
  case (create w now t dto)
  then show ?case
    using functional_after [of "marks w" "marks (snd (createStrategy E now t dto w))" t "newId w"]
      create_marks [of E now t dto w] by (simp add: strategy_ids split: if_splits)
next
  case (update w t i udto)
  then show ?case
    using functional_after [of "marks w" "marks (snd (updateStrategy t i udto w))" t i]
      update_marks [of w t i udto] by (simp add: strategy_ids)
next
  case (remove w t i)
  then show ?case using remove_marks functional_subset by (simp add: strategy_ids) blast
qed

text \<open>
  A tenant never has two default strategies. In every state reached by creating, updating and
  removing channel strategies of any tenants, in any order and with any arguments, at most one
  strategy of each tenant carries the default mark. (Ids come from the database, which never draws
  one twice.)
\<close>

theorem at_most_one_default:
  assumes "strategy_states E w"
  shows "length (filter (\<lambda>s. channelStrategy_tenantId s = t \<and> channelStrategy_isDefault s)
           (w_channelStrategies w)) \<le> 1"
proof -
  have d: "distinct (map channelStrategy_id (w_channelStrategies w))" and f: "functional (marks w)"
    using strategy_states_inv [OF assms] by auto
  let ?xs = "filter (\<lambda>s. channelStrategy_tenantId s = t \<and> channelStrategy_isDefault s) (w_channelStrategies w)"
  have dx: "distinct (map channelStrategy_id ?xs)" by (rule distinct_map_filter [OF d])
  have eq: "channelStrategy_id r = channelStrategy_id s" if "r \<in> set ?xs" "s \<in> set ?xs" for r s
  proof -
    from that have "(t, channelStrategy_id r) \<in> marks w" "(t, channelStrategy_id s) \<in> marks w"
      by (auto simp: in_defaultMarks)
    then show ?thesis using f by (simp add: functional_def)
  qed
  show ?thesis
  proof (rule ccontr)
    assume "\<not> length ?xs \<le> 1"
    then obtain a b cs where xs: "?xs = a # b # cs"
      by (cases ?xs rule: remdups_adj.cases) auto
    have "channelStrategy_id a = channelStrategy_id b" by (rule eq) (simp_all add: xs)
    moreover have "channelStrategy_id a \<noteq> channelStrategy_id b" using dx unfolding xs by simp
    ultimately show False by simp
  qed
qed

definition demoStrategyDto :: CreateChannelStrategyDto where
  "demoStrategyDto = \<lparr>cs_name = ''main'', cs_chain = [SMS, WHATSAPP, VOICE], cs_fallbackOnFailed = None,
     cs_fallbackOnUndelivered = None, cs_fallbackOnUnread = None, cs_unreadWindowMinutes = None,
     cs_isDefault = Some True\<rparr>"

theorem at_most_one_default_witness:
  "let w = snd (createStrategy demoEnv 5 ''t1'' demoStrategyDto (demoWorld [demoTenant PLAN_SMS ACTIVE False 0]))
   in length (filter (\<lambda>s. channelStrategy_tenantId s = ''t1'' \<and> channelStrategy_isDefault s)
        (w_channelStrategies w)) \<le> 1 \<and> w_channelStrategies w \<noteq> []"
proof -
  let ?v = "demoWorld [demoTenant PLAN_SMS ACTIVE False 0]"
  have e: "w_channelStrategies ?v = []" by (simp add: demoWorld_def emptyWorld_def)
  have "strategy_states demoEnv (snd (createStrategy demoEnv 5 ''t1'' demoStrategyDto ?v))"
    by (intro strategy_states.create strategy_states.start) (simp_all add: e)
  from at_most_one_default [OF this, of "''t1''"] show ?thesis
    by (simp add: Let_def createStrategy_def bump_def)
qed

end
