(* ===== verification/Failover.thy ===== *)
theory Failover
  imports Messaging Channel_Strategy Reminder_Properties
begin

text \<open>
  \<open>modules/messaging/message-failover.service.ts\<close>: when a message failed, was not delivered or not
  read, the same content is sent over the next channel of the tenant's fallback chain, once, and the
  attempt is logged.
\<close>

datatype FallbackTrigger = T_failed | T_undelivered | T_unread

fun triggerName :: "FallbackTrigger \<Rightarrow> string" where
  "triggerName T_failed = ''failed''"
| "triggerName T_undelivered = ''undelivered''"
| "triggerName T_unread = ''unread''"

definition DEFAULT_CHAIN :: "ChannelType list" where
  "DEFAULT_CHAIN = [SMS, WHATSAPP, VOICE]"

section \<open>Chains\<close>

text \<open>
  A chain is the column of a strategy or an untyped value of the tenant's settings: its elements are
  compared with the failed channel by \<open>indexOf\<close>, and only used as a channel afterwards.
\<close>

fun indexOf :: "'a \<Rightarrow> 'a list \<Rightarrow> nat option" where
  "indexOf x [] = None"
| "indexOf x (y # ys) = (if x = y then Some 0 else map_option Suc (indexOf x ys))"

lemma indexOf_Some: "indexOf x xs = Some i \<Longrightarrow> i < length xs \<and> xs ! i = x \<and> x \<notin> set (take i xs)"
  by (induction xs arbitrary: i) (auto split: if_splits)

lemma indexOf_None: "indexOf x xs = None \<longleftrightarrow> x \<notin> set xs"
  by (induction xs) auto

definition channelOf :: "json \<Rightarrow> ChannelType option" where
  "channelOf j = List.find (\<lambda>c. j = JStr (channelName c)) [SMS, VOICE, EMAIL, WHATSAPP]"

lemma channelOf_name [simp]: "channelOf (JStr (channelName c)) = Some c"
  by (cases c) (simp_all add: channelOf_def)

lemma channelName_inj [simp]: "channelName c = channelName d \<longleftrightarrow> c = d"
  by (cases c; cases d) simp_all

text \<open>
  \<open>chain.indexOf(c)\<close> and the elements of \<open>chain\<close>: of an array, or of a string, where it looks for
  a substring and the elements are characters. Any other value has no \<open>indexOf\<close>.
\<close>

fun chainEntries :: "json \<Rightarrow> json list option" where
  "chainEntries (JArr js) = Some js"
| "chainEntries (JStr s) = Some (map (\<lambda>c. JStr [c]) s)"
| "chainEntries _ = None"

fun substringAt :: "string \<Rightarrow> string \<Rightarrow> nat option" where
  "substringAt p [] = (if p = [] then Some 0 else None)"
| "substringAt p (c # s) = (if startsWith (c # s) p then Some 0 else map_option Suc (substringAt p s))"

fun chainIndexOf :: "json \<Rightarrow> string \<Rightarrow> nat option" where
  "chainIndexOf (JArr js) c = indexOf (JStr c) js"
| "chainIndexOf (JStr s) c = substringAt c s"
| "chainIndexOf _ c = None"

definition chainOf :: "ChannelType list \<Rightarrow> json" where
  "chainOf cs = JArr (map (\<lambda>c. JStr (channelName c)) cs)"

text \<open>The element after the failed channel, if there is one.\<close>

definition nextChannel :: "json \<Rightarrow> ChannelType \<Rightarrow> exn + json option" where
  "nextChannel chain failed =
     (case chainEntries chain of
        None \<Rightarrow> Inl (PlainError ''chain.indexOf is not a function'')
      | Some es \<Rightarrow> (case chainIndexOf chain (channelName failed) of
          None \<Rightarrow> Inr None
        | Some i \<Rightarrow> Inr (if int i \<ge> int (length es) - 1 then None else Some (es ! (i + 1)))))"

definition triggerAllowed :: "channelStrategy \<Rightarrow> FallbackTrigger \<Rightarrow> bool" where
  "triggerAllowed s trigger = (case trigger of
     T_failed \<Rightarrow> channelStrategy_fallbackOnFailed s
   | T_undelivered \<Rightarrow> channelStrategy_fallbackOnUndelivered s
   | T_unread \<Rightarrow> channelStrategy_fallbackOnUnread s)"

definition findReminder :: "uuid \<Rightarrow> world \<Rightarrow> reminder option" where
  "findReminder i w = List.find (\<lambda>r. reminder_id r = i) (w_reminders w)"

text \<open>The strategy of the reminder's rule.\<close>

definition ruleStrategy :: "uuid \<Rightarrow> world \<Rightarrow> channelStrategy option" where
  "ruleStrategy reminderId w =
     (case findReminder reminderId w of
        None \<Rightarrow> None
      | Some r \<Rightarrow> (case reminder_reminderRuleId r of
          None \<Rightarrow> None
        | Some ri \<Rightarrow> (case List.find (\<lambda>q. reminderRule_id q = ri) (w_reminderRules w) of
            None \<Rightarrow> None
          | Some q \<Rightarrow> (case reminderRule_channelStrategyId q of
              None \<Rightarrow> None
            | Some si \<Rightarrow> List.find (\<lambda>s. channelStrategy_id s = si) (w_channelStrategies w)))))"

definition defaultStrategy :: "uuid \<Rightarrow> world \<Rightarrow> channelStrategy option" where
  "defaultStrategy tenantId w = List.find (\<lambda>s. channelStrategy_tenantId s = tenantId \<and>
     channelStrategy_isDefault s \<and> channelStrategy_isActive s) (w_channelStrategies w)"

text \<open>Chain and whether the trigger is blocked; \<open>None\<close> when failover is switched off.\<close>

definition resolveTenantChain ::
  "uuid \<Rightarrow> FallbackTrigger \<Rightarrow> json \<Rightarrow> world \<Rightarrow> (json \<times> bool) option" where
  "resolveTenantChain tenantId trigger settings w =
     (case defaultStrategy tenantId w of
        Some s \<Rightarrow> Some (chainOf (channelStrategy_chain s), \<not> triggerAllowed s trigger)
      | None \<Rightarrow>
          if jget (Some settings) ''failoverEnabled'' = Some (JBool False) then None
          else Some (case jget (Some settings) ''failoverChain'' of
                 None \<Rightarrow> chainOf DEFAULT_CHAIN
               | Some JNull \<Rightarrow> chainOf DEFAULT_CHAIN
               | Some j \<Rightarrow> j, False))"

definition resolveChain ::
  "uuid \<Rightarrow> uuid \<Rightarrow> FallbackTrigger \<Rightarrow> json \<Rightarrow> world \<Rightarrow> (json \<times> bool) option" where
  "resolveChain tenantId reminderId trigger settings w =
     (case ruleStrategy reminderId w of
        Some s \<Rightarrow> if channelStrategy_isActive s
          then Some (chainOf (channelStrategy_chain s), \<not> triggerAllowed s trigger)
          else resolveTenantChain tenantId trigger settings w
      | None \<Rightarrow> resolveTenantChain tenantId trigger settings w)"

section \<open>Operations\<close>

record DeliveryFailure =
  df_failed :: bool
  df_messageLog :: "messageLog option"

definition detectDeliveryFailure :: "string \<Rightarrow> world \<Rightarrow> DeliveryFailure" where
  "detectDeliveryFailure messageSid w =
     (case List.find (\<lambda>l. messageLog_providerMessageId l = Some messageSid) (w_messageLogs w) of
        None \<Rightarrow> \<lparr>df_failed = False, df_messageLog = None\<rparr>
      | Some l \<Rightarrow> \<lparr>df_failed = (coalesce (messageLog_providerStatus l) [] \<in> {''undelivered'', ''failed''}),
                   df_messageLog = Some l\<rparr>)"

definition logFallbackEvent ::
  "uuid \<Rightarrow> uuid option \<Rightarrow> ChannelType \<Rightarrow> ChannelType \<Rightarrow> string \<Rightarrow> bool \<Rightarrow> unit act" where
  "logFallbackEvent tenantId reminderId fromChannel toChannel why success w =
     (if tenantExists tenantId w \<and>
         (case reminderId of None \<Rightarrow> True | Some i \<Rightarrow> i \<in> reminder_id ` set (w_reminders w))
      then (Inr (), bump (w\<lparr>w_failoverLogs := w_failoverLogs w @
             [\<lparr>failoverLog_id = newId w, failoverLog_tenantId = tenantId, failoverLog_reminderId = reminderId,
               failoverLog_fromChannel = fromChannel, failoverLog_toChannel = toChannel,
               failoverLog_reason = why, failoverLog_success = success\<rparr>]\<rparr>))
      else (Inl (PrismaError ''P2003''), w))"

definition reminderCustomer :: "reminder \<Rightarrow> world \<Rightarrow> customer option" where
  "reminderCustomer r w =
     (case reminder_appointmentId r of
        None \<Rightarrow> None
      | Some ai \<Rightarrow> (case List.find (\<lambda>a. appointment_id a = ai) (w_appointments w) of
          None \<Rightarrow> None
        | Some a \<Rightarrow> (case appointment_customerId a of
            None \<Rightarrow> None
          | Some ci \<Rightarrow> List.find (\<lambda>c. customer_id c = ci) (w_customers w))))"

definition failoverRecipient :: "reminder \<Rightarrow> world \<Rightarrow> string" where
  "failoverRecipient r w =
     (let c = reminderCustomer r w
      in coalesce (or_str (or_str (Option.bind c customer_phone) (Option.bind c customer_email))
           (Some ''unknown'')) ''unknown'')"

definition escalationReason :: "ChannelType \<Rightarrow> FallbackTrigger \<Rightarrow> ChannelType \<Rightarrow> string" where
  "escalationReason failed trigger next =
     channelName failed @ '' '' @ triggerName trigger @ '' '' @
     [char_of (0xE2 :: nat), char_of (0x80 :: nat), char_of (0x94 :: nat)] @
     '' escalating to '' @ channelName next"

text \<open>
  An element that is no channel matches no branch of \<open>send\<close>, which then reports a failure, and the
  insert of the failover log rejects it.
\<close>

definition sendFallback ::
  "env \<Rightarrow> instant \<Rightarrow> reminder \<Rightarrow> uuid \<Rightarrow> ChannelType \<Rightarrow> FallbackTrigger \<Rightarrow> ChannelType option \<Rightarrow>
   ChannelType option act" where
  "sendFallback E now r tenantId failed trigger next w =
     (case next of
        None \<Rightarrow> (Inl (PrismaError ''PrismaClientValidationError''), w)
      | Some c \<Rightarrow> bindA
          (send E now ((request tenantId c (failoverRecipient r w) (coalesce (reminder_messageContent r) []))
             \<lparr>sq_reminderId := Some (reminder_id r)\<rparr>))
          (\<lambda>out. thenA (logFallbackEvent tenantId (Some (reminder_id r)) failed c
                     (escalationReason failed trigger c) (so_success out))
                   (returnA (Some c))) w)"

definition triggerFallbackChannel ::
  "env \<Rightarrow> instant \<Rightarrow> uuid \<Rightarrow> uuid \<Rightarrow> ChannelType \<Rightarrow> FallbackTrigger \<Rightarrow> ChannelType option act" where
  "triggerFallbackChannel E now reminderId tenantId failed trigger w =
     (case findTenant tenantId w of
        None \<Rightarrow> (Inr None, w)
      | Some tenant \<Rightarrow>
          (case resolveChain tenantId reminderId trigger (tenant_settings tenant) w of
             None \<Rightarrow> (Inr None, w)
           | Some (chain, blocked) \<Rightarrow>
               if blocked then (Inr None, w)
               else (case nextChannel chain failed of
                   Inl e \<Rightarrow> (Inl e, w)
                 | Inr None \<Rightarrow> (Inr None, w)
                 | Inr (Some next) \<Rightarrow>
                     (case findReminder reminderId w of
                        None \<Rightarrow> (Inr None, w)
                      | Some r \<Rightarrow>
                          if channelOf next = Some VOICE \<and> tenant_planType tenant = PLAN_SMS
                          then thenA (logFallbackEvent tenantId (Some reminderId) failed VOICE
                                 ''Plan does not include VOICE'' False) (returnA None) w
                          else sendFallback E now r tenantId failed trigger (channelOf next) w))))"

section \<open>What a failover does\<close>

lemma nextChannel_chainOf:
  "nextChannel (chainOf cs) failed =
     Inr (case indexOf failed cs of
            None \<Rightarrow> None
          | Some i \<Rightarrow> if Suc i < length cs then Some (JStr (channelName (cs ! Suc i))) else None)"
proof -
  have "indexOf (JStr (channelName failed)) (map (\<lambda>c. JStr (channelName c)) cs) = indexOf failed cs"
    by (induction cs) auto
  then show ?thesis
    by (auto simp: nextChannel_def chainOf_def nth_map dest: indexOf_Some split: option.split)
qed

lemma logFallbackEvent_cases:
  "(\<exists>l. logFallbackEvent t ri f c why ok w = (Inr (), bump (w\<lparr>w_failoverLogs := w_failoverLogs w @ [l]\<rparr>)) \<and>
      failoverLog_tenantId l = t \<and> failoverLog_reminderId l = ri \<and> failoverLog_fromChannel l = f \<and>
      failoverLog_toChannel l = c \<and> failoverLog_success l = ok) \<or>
   (\<exists>e. logFallbackEvent t ri f c why ok w = (Inl e, w))"
  by (auto simp: logFallbackEvent_def)

lemma trigger_Some:
  assumes "triggerFallbackChannel E now rid t failed trigger w = (Inr (Some c), w')"
  obtains tenant chain nx r where "findTenant t w = Some tenant"
    "resolveChain t rid trigger (tenant_settings tenant) w = Some (chain, False)"
    "nextChannel chain failed = Inr (Some nx)" "channelOf nx = Some c"
    "findReminder rid w = Some r" "\<not> (c = VOICE \<and> tenant_planType tenant = PLAN_SMS)"
    "sendFallback E now r t failed trigger (Some c) w = (Inr (Some c), w')"
proof -
  from assms obtain tenant chain nx r where a: "findTenant t w = Some tenant"
    "resolveChain t rid trigger (tenant_settings tenant) w = Some (chain, False)"
    "nextChannel chain failed = Inr (Some nx)" "findReminder rid w = Some r"
    by (auto simp: triggerFallbackChannel_def split: option.splits sum.splits if_splits prod.splits)
  have nv: "\<not> (channelOf nx = Some VOICE \<and> tenant_planType tenant = PLAN_SMS)"
    using assms a logFallbackEvent_cases [of t "Some rid" failed VOICE "''Plan does not include VOICE''" False w]
    by (auto simp: triggerFallbackChannel_def)
  then have s: "sendFallback E now r t failed trigger (channelOf nx) w = (Inr (Some c), w')"
    using assms a by (auto simp: triggerFallbackChannel_def)
  then have "channelOf nx = Some c"
    by (auto simp: sendFallback_def bindA_def thenA_def split: option.splits sum.splits prod.splits)
  then show ?thesis using that a nv s by auto
qed

text \<open>
  The specification of the chain in force, over the rows and settings alone: that of the active strategy of
  the reminder's rule, or else of the tenant's active default strategy, each only when its flag for the
  trigger is set, or else, unless the tenant switched failover off, the one in the tenant's settings.
\<close>

definition allowsTrigger :: "FallbackTrigger \<Rightarrow> channelStrategy \<Rightarrow> bool" where
  "allowsTrigger trigger s \<longleftrightarrow>
     (trigger = T_failed \<longrightarrow> channelStrategy_fallbackOnFailed s) \<and>
     (trigger = T_undelivered \<longrightarrow> channelStrategy_fallbackOnUndelivered s) \<and>
     (trigger = T_unread \<longrightarrow> channelStrategy_fallbackOnUnread s)"

definition activeForRule :: "reminder \<Rightarrow> world \<Rightarrow> channelStrategy \<Rightarrow> bool" where
  "activeForRule r w s \<longleftrightarrow> (\<exists>i q si. reminder_reminderRuleId r = Some i \<and>
     List.find (\<lambda>q. reminderRule_id q = i) (w_reminderRules w) = Some q \<and>
     reminderRule_channelStrategyId q = Some si \<and>
     List.find (\<lambda>s. channelStrategy_id s = si) (w_channelStrategies w) = Some s \<and> channelStrategy_isActive s)"

definition activeDefault :: "uuid \<Rightarrow> channelStrategy \<Rightarrow> bool" where
  "activeDefault t s \<longleftrightarrow> channelStrategy_tenantId s = t \<and> channelStrategy_isDefault s \<and> channelStrategy_isActive s"

inductive chainInForce :: "tenant \<Rightarrow> reminder \<Rightarrow> FallbackTrigger \<Rightarrow> world \<Rightarrow> json list \<Rightarrow> bool" where
  of_rule: "activeForRule r w s \<Longrightarrow> allowsTrigger trigger s \<Longrightarrow>
    chainInForce tn r trigger w (map (\<lambda>c. JStr (channelName c)) (channelStrategy_chain s))"
| of_default: "\<forall>s. \<not> activeForRule r w s \<Longrightarrow>
    List.find (activeDefault (tenant_id tn)) (w_channelStrategies w) = Some s \<Longrightarrow> allowsTrigger trigger s \<Longrightarrow>
    chainInForce tn r trigger w (map (\<lambda>c. JStr (channelName c)) (channelStrategy_chain s))"
| of_settings: "\<forall>s. \<not> activeForRule r w s \<Longrightarrow> \<forall>s \<in> set (w_channelStrategies w). \<not> activeDefault (tenant_id tn) s \<Longrightarrow>
    jget (Some (tenant_settings tn)) ''failoverEnabled'' \<noteq> Some (JBool False) \<Longrightarrow>
    jget (Some (tenant_settings tn)) ''failoverChain'' = Some (JArr es) \<Longrightarrow>
    chainInForce tn r trigger w es"
| built_in: "\<forall>s. \<not> activeForRule r w s \<Longrightarrow> \<forall>s \<in> set (w_channelStrategies w). \<not> activeDefault (tenant_id tn) s \<Longrightarrow>
    jget (Some (tenant_settings tn)) ''failoverEnabled'' \<noteq> Some (JBool False) \<Longrightarrow>
    jget (Some (tenant_settings tn)) ''failoverChain'' \<in> {None, Some JNull} \<Longrightarrow>
    chainInForce tn r trigger w [JStr ''SMS'', JStr ''WHATSAPP'', JStr ''VOICE'']"

lemma ruleStrategy_spec:
  assumes "findReminder rid w = Some r"
  shows "(\<exists>s. ruleStrategy rid w = Some s \<and> channelStrategy_isActive s \<and> x = s) \<longleftrightarrow> activeForRule r w x"
  using assms by (auto simp: ruleStrategy_def activeForRule_def split: option.split)

lemma triggerAllowed_spec: "triggerAllowed s trigger = allowsTrigger trigger s"
  by (cases trigger) (simp_all add: triggerAllowed_def allowsTrigger_def)

lemma chainEntries_chainOf [simp]: "chainEntries (chainOf cs) = Some (map (\<lambda>c. JStr (channelName c)) cs)"
  by (simp add: chainOf_def)

text \<open>Only an array has a channel among its elements; the chain that was resolved is the one in force.\<close>

lemma resolveChain_spec:
  assumes "findTenant t w = Some tn" and "findReminder rid w = Some r"
    and "resolveChain t rid trigger (tenant_settings tn) w = Some (JArr es, False)"
  shows "chainInForce tn r trigger w es"
proof -
  note rule = ruleStrategy_spec [OF assms(2)]
  have t: "tenant_id tn = t" using assms(1) findTenant_SomeD by blast
  have dflt: "defaultStrategy t w = List.find (activeDefault (tenant_id tn)) (w_channelStrategies w)"
    by (simp add: defaultStrategy_def activeDefault_def [abs_def] t)
  show ?thesis
  proof (cases "\<exists>s. activeForRule r w s")
    case True
    then obtain s where s: "activeForRule r w s" by blast
    then have "ruleStrategy rid w = Some s" "channelStrategy_isActive s" using rule by blast+
    then have "es = map (\<lambda>c. JStr (channelName c)) (channelStrategy_chain s)" and "allowsTrigger trigger s"
      using assms(3) by (auto simp: resolveChain_def chainOf_def triggerAllowed_spec)
    then show ?thesis using chainInForce.of_rule [OF s] by simp
  next
    case False
    then have none: "\<forall>s. \<not> activeForRule r w s" by blast
    then have res: "resolveTenantChain t trigger (tenant_settings tn) w = Some (JArr es, False)"
      using assms(3) rule by (auto simp: resolveChain_def split: option.splits if_splits)
    show ?thesis
    proof (cases "defaultStrategy t w")
      case (Some s)
      then have "es = map (\<lambda>c. JStr (channelName c)) (channelStrategy_chain s)" and "allowsTrigger trigger s"
        using res by (auto simp: resolveTenantChain_def chainOf_def triggerAllowed_spec)
      then show ?thesis using chainInForce.of_default [OF none] Some dflt by simp
    next
      case None
      then have "\<forall>s \<in> set (w_channelStrategies w). \<not> activeDefault (tenant_id tn) s"
        by (simp add: dflt find_None_iff)
      note settings = chainInForce.of_settings [OF none this] chainInForce.built_in [OF none this]
      show ?thesis
        using res None settings
        by (auto simp: resolveTenantChain_def chainOf_def DEFAULT_CHAIN_def split: if_splits option.splits json.splits)
    qed
  qed
qed

lemma nextChannel_array:
  assumes "nextChannel chain failed = Inr (Some nx)" and "channelOf nx = Some c"
  obtains xs ys where "chain = JArr (xs @ JStr (channelName failed) # JStr (channelName c) # ys)"
    "JStr (channelName failed) \<notin> set xs"
proof -
  have nx: "nx = JStr (channelName c)" using assms(2) by (auto simp: channelOf_def split: if_splits)
  have one: "[x] \<noteq> channelName c" for x by (cases c) simp_all
  from assms(1) nx one obtain es where chain: "chain = JArr es"
    by (cases chain) (auto simp: nextChannel_def split: option.splits if_splits)
  with assms(1) obtain i where i: "indexOf (JStr (channelName failed)) es = Some i" "Suc i < length es" "nx = es ! Suc i"
    by (auto simp: nextChannel_def split: option.splits if_splits)
  from indexOf_Some [OF i(1)] have "es = take i es @ JStr (channelName failed) # es ! Suc i # drop (Suc (Suc i)) es"
    and "JStr (channelName failed) \<notin> set (take i es)"
    using i(2) by (metis Cons_nth_drop_Suc id_take_nth_drop, simp)
  then show thesis using that chain i(3) nx by metis
qed

text \<open>
  C10: A failover goes to the next channel of the chain in force, and is recorded: if it reports channel c,
  the tenant and the reminder exist, and the chain that applies to the reminder, its rule's active
  strategy's, or else that of the tenant's active default strategy, with the flag for this trigger set, or
  else that of the tenant's settings (SMS, WHATSAPP, VOICE when they name none), unless switched off there,
  has c directly behind the first occurrence of the failed channel; an SMS-only plan was not escalated to
  VOICE; at most one message was handed over, on channel c; and the failover log ends with a row for this
  step.
\<close>

theorem failover_takes_next:
  assumes "triggerFallbackChannel E now rid t failed trigger w = (Inr (Some c), w')"
  shows "\<exists>tenant r xs ys l. findTenant t w = Some tenant \<and> findReminder rid w = Some r \<and>
    chainInForce tenant r trigger w (xs @ JStr (channelName failed) # JStr (channelName c) # ys) \<and>
    JStr (channelName failed) \<notin> set xs \<and>
    \<not> (c = VOICE \<and> tenant_planType tenant = PLAN_SMS) \<and>
    w_failoverLogs w' = w_failoverLogs w @ [l] \<and> failoverLog_fromChannel l = failed \<and>
    failoverLog_toChannel l = c \<and> failoverLog_reminderId l = Some rid \<and>
    (\<exists>ms. w_outbox w' = w_outbox w @ ms \<and> length ms \<le> 1 \<and> (\<forall>m \<in> set ms. out_channel m = c))"
proof -
  obtain tenant chain nx r where a: "findTenant t w = Some tenant"
    "resolveChain t rid trigger (tenant_settings tenant) w = Some (chain, False)"
    "nextChannel chain failed = Inr (Some nx)" "channelOf nx = Some c"
    "findReminder rid w = Some r" "\<not> (c = VOICE \<and> tenant_planType tenant = PLAN_SMS)"
    and s: "sendFallback E now r t failed trigger (Some c) w = (Inr (Some c), w')"
    using trigger_Some [OF assms] by blast
  have rid: "reminder_id r = rid" using a(5) by (auto simp: findReminder_def dest: find_SomeD)
  let ?q = "(request t c (failoverRecipient r w) (coalesce (reminder_messageContent r) []))
      \<lparr>sq_reminderId := Some (reminder_id r)\<rparr>"
  obtain out v where out: "send E now ?q w = (Inr out, v)"
      "thenA (logFallbackEvent t (Some (reminder_id r)) failed c (escalationReason failed trigger c) (so_success out))
         (returnA (Some c)) v = (Inr (Some c), w')"
    using s by (auto simp: sendFallback_def bindA_def split: prod.splits sum.splits)
  then obtain l where l: "w' = bump (v\<lparr>w_failoverLogs := w_failoverLogs v @ [l]\<rparr>)"
      "failoverLog_fromChannel l = failed" "failoverLog_toChannel l = c" "failoverLog_reminderId l = Some rid"
    using logFallbackEvent_cases [of t "Some (reminder_id r)" failed c "escalationReason failed trigger c"
        "so_success out" v] rid by auto
  obtain xs ys where behind: "chain = JArr (xs @ JStr (channelName failed) # JStr (channelName c) # ys)"
    "JStr (channelName failed) \<notin> set xs"
    using nextChannel_array [OF a(3,4)] .
  have force: "chainInForce tenant r trigger w (xs @ JStr (channelName failed) # JStr (channelName c) # ys)"
    using resolveChain_spec [OF a(1,5)] a(2) behind(1) by simp
  have "sq_channel ?q = c" by (simp add: request_def)
  then show ?thesis using a(1,5,6) force behind(2) l send_outbox [of E now ?q w] send_other(1) [of E now ?q w] out(1) by (auto simp: bump_def)
qed

section \<open>How far a failover can go\<close>

text \<open>
  An escalation: every channel was reported by a failover of the one before it, under one chain.
  \<open>hops\<close> is the reference: the distance of a channel to the end of a chain.
\<close>

definition fallsBackTo ::
  "env \<Rightarrow> uuid \<Rightarrow> uuid \<Rightarrow> ChannelType list \<Rightarrow> ChannelType \<Rightarrow> ChannelType \<Rightarrow> bool" where
  "fallsBackTo E rid t cs c d = (\<exists>now trigger w w' tenant.
     findTenant t w = Some tenant \<and>
     resolveChain t rid trigger (tenant_settings tenant) w = Some (chainOf cs, False) \<and>
     triggerFallbackChannel E now rid t c trigger w = (Inr (Some d), w'))"

fun escalation :: "env \<Rightarrow> uuid \<Rightarrow> uuid \<Rightarrow> ChannelType list \<Rightarrow> ChannelType list \<Rightarrow> bool" where
  "escalation E rid t cs (c # d # ds) = (fallsBackTo E rid t cs c d \<and> escalation E rid t cs (d # ds))"
| "escalation E rid t cs _ = True"

lemma fallsBackTo_index:
  assumes "fallsBackTo E rid t cs c d"
  obtains i where "indexOf c cs = Some i" "Suc i < length cs" "d = cs ! Suc i"
proof -
  from assms obtain now trigger w w' tenant where a: "findTenant t w = Some tenant"
    "resolveChain t rid trigger (tenant_settings tenant) w = Some (chainOf cs, False)"
    "triggerFallbackChannel E now rid t c trigger w = (Inr (Some d), w')"
    by (auto simp: fallsBackTo_def)
  from a(3) obtain tenant' chain nx where "findTenant t w = Some tenant'"
    "resolveChain t rid trigger (tenant_settings tenant') w = Some (chain, False)"
    "nextChannel chain c = Inr (Some nx)" "channelOf nx = Some d"
    by (rule trigger_Some)
  then have n: "nextChannel (chainOf cs) c = Inr (Some nx)" "channelOf nx = Some d" using a by auto
  then obtain i where "indexOf c cs = Some i" "Suc i < length cs" "nx = JStr (channelName (cs ! Suc i))"
    by (auto simp: nextChannel_chainOf split: option.splits if_splits)
  then show thesis using that n(2) by simp
qed

lemma indexOf_nth: "distinct cs \<Longrightarrow> i < length cs \<Longrightarrow> indexOf (cs ! i) cs = Some i"
proof (induction cs arbitrary: i)
  case (Cons c cs)
  then show ?case by (cases i) auto
qed simp

text \<open>
  C11: A failover ends when the chain names no channel twice: whatever the states, triggers and
  providers in between, an escalation visits each channel of the chain at most once, so after at most
  as many attempts as the chain has channels nothing more is sent.
\<close>

theorem failover_terminates:
  assumes "distinct cs" and "escalation E rid t cs ds" and "1 < length ds"
  shows "length ds \<le> length cs"
proof -
  have "escalation E rid t cs ds \<Longrightarrow> ds = c # es \<Longrightarrow> es \<noteq> [] \<Longrightarrow>
      \<exists>i. indexOf c cs = Some i \<and> i + length ds \<le> length cs" for c es
  proof (induction ds arbitrary: c es)
    case (Cons c' es')
    then obtain d ds' where es: "es = d # ds'" by (cases es) auto
    with Cons.prems have step: "fallsBackTo E rid t cs c d" and rest: "escalation E rid t cs (d # ds')"
      by auto
    obtain i where i: "indexOf c cs = Some i" "Suc i < length cs" "d = cs ! Suc i"
      using fallsBackTo_index [OF step] .
    show ?case
    proof (cases "ds' = []")
      case True
      then show ?thesis using i es Cons.prems(2) by auto
    next
      case False
      obtain j where "indexOf d cs = Some j" "j + length es' \<le> length cs"
        using Cons.IH [of d ds'] rest False es Cons.prems(2) by auto
      moreover have "indexOf d cs = Some (Suc i)" using i indexOf_nth [OF assms(1)] by simp
      ultimately show ?thesis using i(1) by auto
    qed
  qed simp
  moreover obtain c es where "ds = c # es" "es \<noteq> []" using assms(3) by (cases ds) auto
  ultimately show ?thesis using assms(2) by fastforce
qed

section \<open>Concrete failovers\<close>

text \<open>A clinic on Twilio with one reminder sent to +15550001111, and a default strategy.\<close>

definition failEnv :: env where
  "failEnv = demoEnv\<lparr>e_config := [''TWILIO_ACCOUNT_SID'' \<mapsto> ''AC1'']\<rparr>"

definition loopStrategy :: "ChannelType list \<Rightarrow> channelStrategy" where
  "loopStrategy cs = \<lparr>channelStrategy_id = ''s1'', channelStrategy_tenantId = ''t1'', channelStrategy_name = ''main'',
     channelStrategy_chain = cs, channelStrategy_fallbackOnFailed = True,
     channelStrategy_fallbackOnUndelivered = True, channelStrategy_fallbackOnUnread = False,
     channelStrategy_unreadWindowMinutes = 30, channelStrategy_isDefault = True,
     channelStrategy_isActive = True, channelStrategy_createdAt = 0\<rparr>"

definition failWorld :: "ChannelType list \<Rightarrow> world" where
  "failWorld cs = (demoWorld [demoTenant PLAN_SMS_VOICE ACTIVE False 0])
     \<lparr>w_channelStrategies := [loopStrategy cs], w_customers := [demoCustomer False],
      w_appointments := [demoAppointment 100], w_reminders := [demoReminder ''r1'' R_SENT]\<rparr>"

theorem failover_takes_next_witness:
  "\<exists>w'. triggerFallbackChannel failEnv 7 ''r1'' ''t1'' SMS T_failed (failWorld [SMS, WHATSAPP, VOICE]) =
       (Inr (Some WHATSAPP), w') \<and> length (w_failoverLogs w') = 1"
proof -
  let ?w = "failWorld [SMS, WHATSAPP, VOICE]"
  let ?r = "triggerFallbackChannel failEnv 7 ''r1'' ''t1'' SMS T_failed ?w"
  have "fst ?r = Inr (Some WHATSAPP)" by code_simp
  then have e: "?r = (Inr (Some WHATSAPP), snd ?r)" by (metis prod.collapse)
  have "w_failoverLogs ?w = []" by (simp add: failWorld_def demoWorld_def emptyWorld_def)
  with failover_takes_next [OF e] have "length (w_failoverLogs (snd ?r)) = 1" by auto
  with e show ?thesis by blast
qed

lemma fallsBackToI:
  assumes "fst (triggerFallbackChannel E now rid t c trigger w) = Inr (Some d)"
    and "findTenant t w = Some tenant"
    and "resolveChain t rid trigger (tenant_settings tenant) w = Some (chainOf cs, False)"
  shows "fallsBackTo E rid t cs c d"
  unfolding fallsBackTo_def using assms by (metis prod.collapse)

lemma failWorld_chain:
  "findTenant ''t1'' (failWorld cs) = Some (demoTenant PLAN_SMS_VOICE ACTIVE False 0)"
  "resolveChain ''t1'' ''r1'' T_failed s (failWorld cs) = Some (chainOf cs, False)"
  by (simp_all add: failWorld_def findTenant_def demoWorld_def emptyWorld_def resolveChain_def ruleStrategy_def
      findReminder_def demoReminder_def resolveTenantChain_def defaultStrategy_def loopStrategy_def
      triggerAllowed_def)

lemma failWorld_falls:
  assumes "fst (triggerFallbackChannel failEnv 7 ''r1'' ''t1'' c T_failed (failWorld cs)) = Inr (Some d)"
  shows "fallsBackTo failEnv ''r1'' ''t1'' cs c d"
  by (rule fallsBackToI [OF assms failWorld_chain])

theorem failover_terminates_witness:
  "escalation failEnv ''r1'' ''t1'' [SMS, WHATSAPP, VOICE] [SMS, WHATSAPP, VOICE] \<and>
   length [SMS, WHATSAPP, VOICE] \<le> length [SMS, WHATSAPP, VOICE]"
proof -
  have "fst (triggerFallbackChannel failEnv 7 ''r1'' ''t1'' SMS T_failed (failWorld [SMS, WHATSAPP, VOICE])) =
      Inr (Some WHATSAPP)"
    "fst (triggerFallbackChannel failEnv 7 ''r1'' ''t1'' WHATSAPP T_failed (failWorld [SMS, WHATSAPP, VOICE])) =
      Inr (Some VOICE)" by code_simp+
  from this [THEN failWorld_falls]
  have "escalation failEnv ''r1'' ''t1'' [SMS, WHATSAPP, VOICE] [SMS, WHATSAPP, VOICE]" by simp
  with failover_terminates [OF _ this] show ?thesis by simp
qed

text \<open>
  With a channel named twice a failover need not end. The strategy's DTO accepts the chain SMS,
  WHATSAPP, SMS; the code looks up the failed channel's first occurrence, so a failed SMS goes to
  WHATSAPP and a failed WHATSAPP message to SMS again: escalations of every length exist.
\<close>

theorem repeated_channel_loops:
  "\<forall>n. \<exists>ds. length ds = n \<and> escalation failEnv ''r1'' ''t1'' [SMS, WHATSAPP, SMS] ds"
proof -
  let ?c = "[SMS, WHATSAPP, SMS]"
  have "fst (triggerFallbackChannel failEnv 7 ''r1'' ''t1'' SMS T_failed (failWorld ?c)) = Inr (Some WHATSAPP)"
    "fst (triggerFallbackChannel failEnv 7 ''r1'' ''t1'' WHATSAPP T_failed (failWorld ?c)) = Inr (Some SMS)"
    by code_simp+
  from this [THEN failWorld_falls]
  have falls: "fallsBackTo failEnv ''r1'' ''t1'' ?c SMS WHATSAPP"
    "fallsBackTo failEnv ''r1'' ''t1'' ?c WHATSAPP SMS" .
  have "\<exists>ds. length ds = n \<and> escalation failEnv ''r1'' ''t1'' ?c ds \<and>
      (ds \<noteq> [] \<longrightarrow> hd ds = (if even n then SMS else WHATSAPP))" for n
  proof (induction n)
    case 0
    then show ?case by (intro exI [of _ "[]"]) simp
  next
    case (Suc n)
    then obtain ds where ds: "length ds = n" "escalation failEnv ''r1'' ''t1'' ?c ds"
        "ds \<noteq> [] \<longrightarrow> hd ds = (if even n then SMS else WHATSAPP)" by blast
    then show ?case using falls
      by (intro exI [of _ "(if even n then WHATSAPP else SMS) # ds"]) (cases ds; simp)
  qed
  then show ?thesis by blast
qed

text \<open>
  Where a failover goes: an e-mail is addressed to the phone number when there is one, and a call
  outside Termii's routes is given to the mock provider, as no appointment data are passed on.
\<close>

theorem email_failover_to_phone:
  "map out_to (w_outbox (snd (triggerFallbackChannel (failEnv\<lparr>e_config := [''SMTP_HOST'' \<mapsto> ''smtp'']\<rparr>) 7 ''r1''
     ''t1'' SMS T_failed (failWorld [SMS, EMAIL])))) = [''+15550001111'']"
  by code_simp

theorem voice_failover_is_mocked:
  "map out_provider (w_outbox (snd (triggerFallbackChannel failEnv 7 ''r1'' ''t1'' SMS T_failed
     (failWorld [SMS, VOICE])))) = [MOCK] \<and>
   map failoverLog_success (w_failoverLogs (snd (triggerFallbackChannel failEnv 7 ''r1'' ''t1'' SMS T_failed
     (failWorld [SMS, VOICE])))) = [True]"
  by code_simp

end
