(* ===== verification/Workflow_Engine.thy ===== *)
theory Workflow_Engine
  imports Rate_Limit "HOL-Library.Sublist"
begin

text \<open>
  \<open>modules/automation/workflow-engine.service.ts\<close> and \<open>automation-execution-tracker.service.ts\<close>: a
  trigger starts every active workflow of the tenant with that trigger type, as one delayed job per
  action, unless the loop guard in Redis has counted too many runs of that workflow for that entity.
\<close>

section \<open>The loop guard\<close>

definition MAX_EXECUTIONS :: int where
  "MAX_EXECUTIONS = 5"

definition WINDOW_SECONDS :: int where
  "WINDOW_SECONDS = 60 * 60"

definition loopKey :: "uuid \<Rightarrow> string \<Rightarrow> string" where
  "loopKey automationId contactId = ''loop:'' @ automationId @ '':'' @ contactId"

definition trackExecution :: "instant \<Rightarrow> uuid \<Rightarrow> string \<Rightarrow> world \<Rightarrow> bool \<times> world" where
  "trackExecution now automationId contactId w =
     (let (count, w1) = countInWindow now (loopKey automationId contactId) WINDOW_SECONDS w
      in (\<not> count > MAX_EXECUTIONS, w1))"

definition getCount :: "instant \<Rightarrow> uuid \<Rightarrow> string \<Rightarrow> world \<Rightarrow> int" where
  "getCount now automationId contactId w = coalesce (redisGet now (loopKey automationId contactId) w) 0"

definition resetCount :: "uuid \<Rightarrow> string \<Rightarrow> world \<Rightarrow> world" where
  "resetCount automationId contactId w = redisDel (loopKey automationId contactId) w"

section \<open>Firing a trigger\<close>

definition WORKFLOW_QUEUE :: string where
  "WORKFLOW_QUEUE = ''meetora-workflows''"

text \<open>\<open>WorkflowJobData\<close>\<close>

definition WorkflowJobData ::
  "uuid \<Rightarrow> uuid \<Rightarrow> uuid \<Rightarrow> uuid \<Rightarrow> string \<Rightarrow> json \<Rightarrow> bool \<Rightarrow> json" where
  "WorkflowJobData executionId workflowId actionId tenantId entityId entityData isLast = JObj
     [(''executionId'', JStr executionId), (''workflowId'', JStr workflowId), (''actionId'', JStr actionId),
      (''tenantId'', JStr tenantId), (''triggerEntityId'', JStr entityId), (''entityData'', entityData),
      (''isLastAction'', JBool isLast)]"

definition stepJob ::
  "workflow \<Rightarrow> uuid \<Rightarrow> uuid \<Rightarrow> string \<Rightarrow> json \<Rightarrow> nat \<Rightarrow> workflowAction \<Rightarrow> int \<Rightarrow> bool \<Rightarrow> job" where
  "stepJob flow executionId tenantId entityId entityData i action delay isLast =
     \<lparr>job_queue = WORKFLOW_QUEUE, job_id = ''wf_'' @ executionId @ ''_step_'' @ show_nat i,
      job_name = ''execute-action'',
      job_data = WorkflowJobData executionId (workflow_id flow) (workflowAction_id action) tenantId entityId
        entityData isLast,
      job_delay = delay\<rparr>"

text \<open>The loop over the actions, with the delay accumulated so far.\<close>

fun queueActions ::
  "workflow \<Rightarrow> uuid \<Rightarrow> uuid \<Rightarrow> string \<Rightarrow> json \<Rightarrow> nat \<Rightarrow> int \<Rightarrow> workflowAction list \<Rightarrow> world \<Rightarrow> world" where
  "queueActions flow ex tenantId entityId entityData i cumulative [] w = w"
| "queueActions flow ex tenantId entityId entityData i cumulative (action # rest) w =
     (let d = cumulative + workflowAction_delayMinutes action * 60 * 1000
      in queueActions flow ex tenantId entityId entityData (Suc i) d rest
           (addJob (stepJob flow ex tenantId entityId entityData i action d (rest = [])) w))"

definition orderedActions :: "workflow \<Rightarrow> workflowAction list" where
  "orderedActions flow = order_asc workflowAction_stepOrder (workflow_actions flow)"

definition startExecution ::
  "instant \<Rightarrow> uuid \<Rightarrow> string \<Rightarrow> string \<Rightarrow> json \<Rightarrow> workflow \<Rightarrow> world \<Rightarrow> world" where
  "startExecution now tenantId triggerType entityId entityData flow w =
     (let x = \<lparr>workflowExecution_id = newId w, workflowExecution_workflowId = workflow_id flow,
               workflowExecution_tenantId = tenantId, workflowExecution_triggerType = triggerType,
               workflowExecution_triggerEntityId = entityId, workflowExecution_status = ''RUNNING'',
               workflowExecution_actionsRun = 0, workflowExecution_actionsSkipped = 0,
               workflowExecution_error = None, workflowExecution_startedAt = now,
               workflowExecution_completedAt = None\<rparr>
      in queueActions flow (newId w) tenantId entityId entityData 0 0 (orderedActions flow)
           (bump (w\<lparr>w_workflowExecutions := w_workflowExecutions w @ [x]\<rparr>)))"

definition runWorkflow ::
  "instant \<Rightarrow> uuid \<Rightarrow> string \<Rightarrow> string \<Rightarrow> json \<Rightarrow> workflow \<Rightarrow> world \<Rightarrow> world" where
  "runWorkflow now tenantId triggerType entityId entityData flow w =
     (if workflow_actions flow = [] then w
      else let (ok, w1) = trackExecution now (workflow_id flow) entityId w
           in if ok then startExecution now tenantId triggerType entityId entityData flow w1 else w1)"

definition matchingWorkflows :: "uuid \<Rightarrow> string \<Rightarrow> world \<Rightarrow> workflow list" where
  "matchingWorkflows tenantId triggerType w =
     filter (\<lambda>flow. workflow_tenantId flow = tenantId \<and> workflow_isActive flow \<and>
                  workflow_triggerType flow = Some triggerType) (w_workflows w)"

definition fireTrigger :: "instant \<Rightarrow> uuid \<Rightarrow> string \<Rightarrow> string \<Rightarrow> json \<Rightarrow> world \<Rightarrow> world" where
  "fireTrigger now tenantId triggerType entityId entityData w =
     fold (runWorkflow now tenantId triggerType entityId entityData)
       (matchingWorkflows tenantId triggerType w) w"

section \<open>What a trigger starts\<close>

text \<open>The reference: the jobs of one execution, each delayed by all delays up to its own.\<close>

definition plannedJobs :: "workflow \<Rightarrow> uuid \<Rightarrow> uuid \<Rightarrow> string \<Rightarrow> json \<Rightarrow> job list" where
  "plannedJobs flow ex t ent entityData =
     (let acts = orderedActions flow
      in map (\<lambda>i. stepJob flow ex t ent entityData i (acts ! i)
               (60000 * sum_list (map workflowAction_delayMinutes (take (Suc i) acts)))
               (Suc i = length acts)) [0..<length acts])"

lemma queueActions_frame:
  "(queueActions flow ex t ent d i c acts w)\<lparr>w_jobs := js\<rparr> = w\<lparr>w_jobs := js\<rparr>"
  by (induction acts arbitrary: i c w) (simp_all add: Let_def addJob_def)

lemma queueActions_other [simp]:
  "w_workflowExecutions (queueActions flow ex t ent d i c acts w) = w_workflowExecutions w"
  "w_redis (queueActions flow ex t ent d i c acts w) = w_redis w"
  "w_workflows (queueActions flow ex t ent d i c acts w) = w_workflows w"
  using arg_cong [OF queueActions_frame, of w_workflowExecutions] arg_cong [OF queueActions_frame, of w_redis]
    arg_cong [OF queueActions_frame, of w_workflows] by simp_all

lemma queueActions_jobs:
  "w_jobs (queueActions flow ex t ent d i c acts w) = w_jobs w @
     map (\<lambda>k. stepJob flow ex t ent d (i + k) (acts ! k)
            (c + 60000 * sum_list (map workflowAction_delayMinutes (take (Suc k) acts)))
            (Suc k = length acts)) [0..<length acts]"
proof (induction acts arbitrary: i c w)
  case (Cons a acts)
  have "[0..<Suc (length acts)] = 0 # map Suc [0..<length acts]"
    by (simp add: map_Suc_upt upt_conv_Cons del: upt_Suc)
  then show ?case
    by (simp add: Cons.IH Let_def addJob_def algebra_simps o_def del: upt_Suc)
qed simp

lemma startExecution_jobs:
  "w_jobs (startExecution now t trig ent d flow w) = w_jobs w @ plannedJobs flow (newId w) t ent d"
  by (simp add: startExecution_def queueActions_jobs plannedJobs_def Let_def bump_def)

lemma startExecution_rows:
  "\<exists>x. w_workflowExecutions (startExecution now t trig ent d flow w) = w_workflowExecutions w @ [x] \<and>
     workflowExecution_id x = newId w \<and> workflowExecution_workflowId x = workflow_id flow \<and>
     workflowExecution_tenantId x = t \<and> workflowExecution_triggerType x = trig \<and>
     workflowExecution_triggerEntityId x = ent"
  by (simp add: startExecution_def Let_def bump_def)

lemma trackExecution_frame: "(snd (trackExecution now a c w))\<lparr>w_redis := r\<rparr> = w\<lparr>w_redis := r\<rparr>"
  by (simp add: trackExecution_def countInWindow_def redisIncr_def redisExpire_def case_prod_beta Let_def
      split: option.split)

lemma trackExecution_other [simp]:
  "w_jobs (snd (trackExecution now a c w)) = w_jobs w"
  "w_workflowExecutions (snd (trackExecution now a c w)) = w_workflowExecutions w"
  "w_workflows (snd (trackExecution now a c w)) = w_workflows w"
  using arg_cong [OF trackExecution_frame [where r = "w_redis w"], of w_jobs]
    arg_cong [OF trackExecution_frame [where r = "w_redis w"], of w_workflowExecutions]
    arg_cong [OF trackExecution_frame [where r = "w_redis w"], of w_workflows] by simp_all

text \<open>Executions started, each with the workflow it runs.\<close>

definition started :: "uuid \<Rightarrow> string \<Rightarrow> string \<Rightarrow> (workflow \<times> workflowExecution) list \<Rightarrow> bool" where
  "started t trig ent ps = (\<forall>(f, x) \<in> set ps. workflowExecution_workflowId x = workflow_id f \<and>
     workflowExecution_tenantId x = t \<and> workflowExecution_triggerType x = trig \<and>
     workflowExecution_triggerEntityId x = ent)"

definition jobsOf :: "uuid \<Rightarrow> string \<Rightarrow> json \<Rightarrow> (workflow \<times> workflowExecution) list \<Rightarrow> job list" where
  "jobsOf t ent d ps = concat (map (\<lambda>(f, x). plannedJobs f (workflowExecution_id x) t ent d) ps)"

lemma runWorkflow_starts:
  "\<exists>ps. started t trig ent ps \<and> subseq (map fst ps) [flow] \<and>
     w_workflowExecutions (runWorkflow now t trig ent d flow w) = w_workflowExecutions w @ map snd ps \<and>
     w_jobs (runWorkflow now t trig ent d flow w) = w_jobs w @ jobsOf t ent d ps"
proof (cases "workflow_actions flow \<noteq> [] \<and> fst (trackExecution now (workflow_id flow) ent w)")
  case False
  then show ?thesis
    by (intro exI [of _ "[]"])
       (auto simp: runWorkflow_def started_def jobsOf_def case_prod_beta Let_def)
next
  case True
  let ?v = "snd (trackExecution now (workflow_id flow) ent w)"
  have run: "runWorkflow now t trig ent d flow w = startExecution now t trig ent d flow ?v"
    using True by (simp add: runWorkflow_def case_prod_beta Let_def)
  obtain x where "w_workflowExecutions (startExecution now t trig ent d flow ?v) = w_workflowExecutions ?v @ [x]"
    "workflowExecution_id x = newId ?v" "workflowExecution_workflowId x = workflow_id flow"
    "workflowExecution_tenantId x = t" "workflowExecution_triggerType x = trig"
    "workflowExecution_triggerEntityId x = ent"
    using startExecution_rows [of now t trig ent d flow ?v] by blast
  then show ?thesis
    unfolding run by (intro exI [of _ "[(flow, x)]"]) (simp add: started_def jobsOf_def startExecution_jobs)
qed

text \<open>
  A trigger starts exactly the planned steps. The new executions belong to active workflows of
  this tenant with this trigger type, in their order and at most one each; each execution has one job
  per action, in step order, where the delay of a step is the sum of all delays up to it and only the
  last is marked as last; nothing else is queued.
\<close>

theorem fire_trigger_exact:
  "\<exists>ps. started t trig ent ps \<and> subseq (map fst ps) (matchingWorkflows t trig w) \<and>
     w_workflowExecutions (fireTrigger now t trig ent d w) = w_workflowExecutions w @ map snd ps \<and>
     w_jobs (fireTrigger now t trig ent d w) = w_jobs w @ jobsOf t ent d ps"
proof -
  have "\<exists>ps. started t trig ent ps \<and> subseq (map fst ps) flows \<and>
     w_workflowExecutions (fold (runWorkflow now t trig ent d) flows v) = w_workflowExecutions v @ map snd ps \<and>
     w_jobs (fold (runWorkflow now t trig ent d) flows v) = w_jobs v @ jobsOf t ent d ps" for flows v
  proof (induction flows arbitrary: v)
    case Nil
    show ?case by (intro exI [of _ "[]"]) (simp add: started_def jobsOf_def)
  next
    case (Cons f flows)
    let ?u = "runWorkflow now t trig ent d f v"
    obtain ps where ps: "started t trig ent ps" "subseq (map fst ps) [f]"
      "w_workflowExecutions ?u = w_workflowExecutions v @ map snd ps" "w_jobs ?u = w_jobs v @ jobsOf t ent d ps"
      using runWorkflow_starts [of t trig ent f now d v] by blast
    obtain qs where qs: "started t trig ent qs" "subseq (map fst qs) flows"
      "w_workflowExecutions (fold (runWorkflow now t trig ent d) flows ?u) = w_workflowExecutions ?u @ map snd qs"
      "w_jobs (fold (runWorkflow now t trig ent d) flows ?u) = w_jobs ?u @ jobsOf t ent d qs"
      using Cons.IH by blast
    have "subseq (map fst ps @ map fst qs) ([f] @ flows)" using ps(2) qs(2) by (rule list_emb_append_mono)
    then show ?case
      using ps qs by (intro exI [of _ "ps @ qs"]) (auto simp: started_def jobsOf_def)
  qed
  then show ?thesis by (simp add: fireTrigger_def)
qed

text \<open>What a trigger leaves alone: everything but the queue, the counters and the executions.\<close>

abbreviation workflowParts :: "world \<Rightarrow> world" where
  "workflowParts w \<equiv> w\<lparr>w_redis := (\<lambda>_. None), w_jobs := [], w_workflowExecutions := [], w_next := 0\<rparr>"

lemma startExecution_frame: "workflowParts (startExecution now t trig c d f w) = workflowParts w"
proof -
  have "workflowParts (queueActions f ex t c d i k acts v) = workflowParts v" for ex i k acts v
    by (induction acts arbitrary: i k v) (simp_all add: Let_def addJob_def)
  then show ?thesis by (simp add: startExecution_def Let_def bump_def)
qed

lemma runWorkflow_frame: "workflowParts (runWorkflow now t trig c d f w) = workflowParts w"
proof -
  have "workflowParts (snd (trackExecution now a b w)) = workflowParts w" for a b
    by (simp add: trackExecution_def countInWindow_def redisIncr_def redisExpire_def case_prod_beta Let_def
        split: option.split)
  then show ?thesis by (simp add: runWorkflow_def case_prod_beta Let_def startExecution_frame)
qed

lemma fireTrigger_frame: "workflowParts (fireTrigger now t trig c d w) = workflowParts w"
proof -
  have "workflowParts (fold (runWorkflow now t trig c d) flows v) = workflowParts v" for flows v
    by (induction flows arbitrary: v) (simp_all add: runWorkflow_frame)
  then show ?thesis by (simp add: fireTrigger_def)
qed

lemma fireTrigger_other [frame_simps]:
  "w_eventParticipants (fireTrigger now t trig c d w) = w_eventParticipants w"
  "w_rsvpEvents (fireTrigger now t trig c d w) = w_rsvpEvents w"
  "w_eventResponses (fireTrigger now t trig c d w) = w_eventResponses w"
  "w_reminders (fireTrigger now t trig c d w) = w_reminders w"
  "w_contacts (fireTrigger now t trig c d w) = w_contacts w"
  "w_events (fireTrigger now t trig c d w) = w_events w"
  "w_outbox (fireTrigger now t trig c d w) = w_outbox w"
  "w_appointments (fireTrigger now t trig c d w) = w_appointments w"
  "w_customers (fireTrigger now t trig c d w) = w_customers w"
  "w_messageLogs (fireTrigger now t trig c d w) = w_messageLogs w"
  "w_tenants (fireTrigger now t trig c d w) = w_tenants w"
  "w_rescheduleSessions (fireTrigger now t trig c d w) = w_rescheduleSessions w"
  "w_feedbackRequests (fireTrigger now t trig c d w) = w_feedbackRequests w"
  using arg_cong [OF fireTrigger_frame, of w_eventParticipants] arg_cong [OF fireTrigger_frame, of w_rsvpEvents]
    arg_cong [OF fireTrigger_frame, of w_eventResponses] arg_cong [OF fireTrigger_frame, of w_reminders]
    arg_cong [OF fireTrigger_frame, of w_contacts] arg_cong [OF fireTrigger_frame, of w_events]
    arg_cong [OF fireTrigger_frame, of w_outbox] arg_cong [OF fireTrigger_frame, of w_appointments]
    arg_cong [OF fireTrigger_frame, of w_customers] arg_cong [OF fireTrigger_frame, of w_messageLogs]
    arg_cong [OF fireTrigger_frame, of w_tenants] arg_cong [OF fireTrigger_frame, of w_rescheduleSessions]
    arg_cong [OF fireTrigger_frame, of w_feedbackRequests]
  by simp_all

section \<open>The loop guard\<close>

definition executionsOf :: "uuid \<Rightarrow> string \<Rightarrow> world \<Rightarrow> int" where
  "executionsOf a ent w = int (count_where (\<lambda>x. workflowExecution_workflowId x = a \<and>
     workflowExecution_triggerEntityId x = ent) (w_workflowExecutions w))"

text \<open>
  The invariant of a window that closes at \<open>e\<close> at the earliest: no execution of the pair yet and no
  live counter, or a counter that bounds the executions made.
\<close>

definition guarded :: "uuid \<Rightarrow> string \<Rightarrow> instant \<Rightarrow> int \<Rightarrow> world \<Rightarrow> bool" where
  "guarded a ent t0 base w =
     ((redisLive t0 (loopKey a ent) w = None \<and> executionsOf a ent w \<le> base) \<or>
      (\<exists>e \<ge> t0 + WINDOW_SECONDS * 1000. windowOpen (loopKey a ent) e w \<and>
         executionsOf a ent w \<le> base + min MAX_EXECUTIONS (windowCount (loopKey a ent) w)))"

lemma redisLive_later: "redisLive t0 k w = None \<Longrightarrow> t0 \<le> now \<Longrightarrow> redisLive now k w = None"
  by (auto simp: redisLive_def split: option.splits if_splits prod.splits)

lemma trackExecution_other_key:
  assumes "loopKey b c \<noteq> k"
  shows "w_redis (snd (trackExecution now b c w)) k = w_redis w k"
  using assms
  by (auto simp: trackExecution_def countInWindow_def redisIncr_def redisExpire_def case_prod_beta Let_def
      split: option.split)

lemma executionsOf_start:
  "executionsOf a ent (startExecution now t trig c d f w) =
     executionsOf a ent w + (if workflow_id f = a \<and> c = ent then 1 else 0)"
  using startExecution_rows [of now t trig c d f w] by (auto simp: executionsOf_def count_where_def)

lemma startExecution_redis [simp]: "w_redis (startExecution now t trig c d f w) = w_redis w"
  by (simp add: startExecution_def Let_def bump_def)

lemma executionsOf_track [simp]: "executionsOf a ent (snd (trackExecution now b c w)) = executionsOf a ent w"
  by (simp add: executionsOf_def)

lemma guarded_redis:
  "w_redis v (loopKey a ent) = w_redis w (loopKey a ent) \<Longrightarrow> executionsOf a ent v = executionsOf a ent w \<Longrightarrow>
   guarded a ent t0 base v = guarded a ent t0 base w"
  by (simp add: guarded_def redisLive_def windowOpen_def windowCount_def)

text \<open>Counting a call on the pair's key: the count goes up, and is granted only up to the limit.\<close>

lemma guarded_track:
  assumes "guarded a ent t0 base w" and "t0 \<le> now" and "now < t0 + WINDOW_SECONDS * 1000"
    and "loopKey b c = loopKey a ent"
  shows "guarded a ent t0 base (snd (trackExecution now b c w)) \<and>
    (fst (trackExecution now b c w) \<longrightarrow> (\<exists>e \<ge> t0 + WINDOW_SECONDS * 1000.
       windowOpen (loopKey a ent) e (snd (trackExecution now b c w)) \<and>
       executionsOf a ent w + 1 \<le> base + min MAX_EXECUTIONS
         (windowCount (loopKey a ent) (snd (trackExecution now b c w)))))"
  using assms(1) unfolding guarded_def [of a ent t0 base w]
proof (elim disjE exE conjE)
  assume none: "redisLive t0 (loopKey a ent) w = None" and le: "executionsOf a ent w \<le> base"
  have "countInWindow now (loopKey b c) WINDOW_SECONDS w =
      (1, w\<lparr>w_redis := (w_redis w)(loopKey a ent := Some (1, Some (now + WINDOW_SECONDS * 1000)))\<rparr>)"
    using countInWindow_fresh [OF redisLive_later [OF none assms(2)]] assms(4) by (simp add: WINDOW_SECONDS_def)
  moreover have "\<exists>e \<ge> t0 + WINDOW_SECONDS * 1000. windowOpen (loopKey a ent) e
      (w\<lparr>w_redis := (w_redis w)(loopKey a ent := Some (1, Some (now + WINDOW_SECONDS * 1000)))\<rparr>)"
    by (rule exI [of _ "now + WINDOW_SECONDS * 1000"]) (simp add: assms(2))
  ultimately show ?thesis
    using le by (simp add: trackExecution_def guarded_def MAX_EXECUTIONS_def executionsOf_def)
next
  fix e assume e: "t0 + WINDOW_SECONDS * 1000 \<le> e" and op: "windowOpen (loopKey a ent) e w"
    and le: "executionsOf a ent w \<le> base + min MAX_EXECUTIONS (windowCount (loopKey a ent) w)"
  let ?n = "windowCount (loopKey a ent) w"
  let ?v = "w\<lparr>w_redis := (w_redis w)(loopKey a ent := Some (?n + 1, Some e))\<rparr>"
  have "countInWindow now (loopKey b c) WINDOW_SECONDS w = (?n + 1, ?v)"
    using countInWindow_open [OF op] assms(3,4) e by simp
  then have tr: "trackExecution now b c w = (?n + 1 \<le> MAX_EXECUTIONS, ?v)"
    by (auto simp: trackExecution_def)
  have v: "windowOpen (loopKey a ent) e ?v" "windowCount (loopKey a ent) ?v = ?n + 1"
    "executionsOf a ent ?v = executionsOf a ent w"
    using windowOpen_count [OF op] by (simp_all add: executionsOf_def)
  have "guarded a ent t0 base ?v"
    unfolding guarded_def using v e le by (intro disjI2 exI [of _ e]) simp
  moreover have "executionsOf a ent w + 1 \<le> base + min MAX_EXECUTIONS (windowCount (loopKey a ent) ?v)"
    if "?n + 1 \<le> MAX_EXECUTIONS" using that le v(2) by simp
  ultimately show ?thesis unfolding tr fst_conv snd_conv using v(1) e by blast
qed

lemma guarded_run:
  assumes "guarded a ent t0 base w" and "t0 \<le> now" and "now < t0 + WINDOW_SECONDS * 1000"
  shows "guarded a ent t0 base (runWorkflow now t trig c d f w)"
proof (cases "workflow_actions f = []")
  case True
  then show ?thesis using assms(1) by (simp add: runWorkflow_def)
next
  case False
  let ?v = "snd (trackExecution now (workflow_id f) c w)"
  show ?thesis
  proof (cases "loopKey (workflow_id f) c = loopKey a ent")
    case True
    note g = guarded_track [OF assms True]
    show ?thesis
    proof (cases "fst (trackExecution now (workflow_id f) c w)")
      case granted: True
      then obtain e where "t0 + WINDOW_SECONDS * 1000 \<le> e" "windowOpen (loopKey a ent) e ?v"
        "executionsOf a ent w + 1 \<le> base + min MAX_EXECUTIONS (windowCount (loopKey a ent) ?v)"
        using g by blast
      then have "guarded a ent t0 base (startExecution now t trig c d f ?v)"
        by (auto simp: guarded_def executionsOf_start windowOpen_def windowCount_def)
      then show ?thesis using False granted by (simp add: runWorkflow_def case_prod_beta Let_def)
    qed (use False g in \<open>simp add: runWorkflow_def case_prod_beta Let_def\<close>)
  next
    case other: False
    then have "\<not> (workflow_id f = a \<and> c = ent)" by auto
    then have "executionsOf a ent (runWorkflow now t trig c d f w) = executionsOf a ent w"
      using False by (auto simp: runWorkflow_def case_prod_beta Let_def executionsOf_start)
    moreover have "w_redis (runWorkflow now t trig c d f w) (loopKey a ent) = w_redis w (loopKey a ent)"
      using False trackExecution_other_key [OF other, of now w]
      by (simp add: runWorkflow_def case_prod_beta Let_def)
    ultimately show ?thesis using guarded_redis assms(1) by blast
  qed
qed

lemma guarded_fire:
  assumes "guarded a ent t0 base w" and "t0 \<le> now" and "now < t0 + WINDOW_SECONDS * 1000"
  shows "guarded a ent t0 base (fireTrigger now t trig c d w)"
proof -
  have "guarded a ent t0 base (fold (runWorkflow now t trig c d) flows v)" if "guarded a ent t0 base v" for flows v
    using that by (induction flows arbitrary: v) (simp_all add: guarded_run assms(2,3))
  then show ?thesis using assms(1) by (simp add: fireTrigger_def)
qed

text \<open>A run of triggers: when, which tenant, which trigger, which entity, with which data.\<close>

fun fireAll :: "(instant \<times> uuid \<times> string \<times> string \<times> json) list \<Rightarrow> world \<Rightarrow> world" where
  "fireAll [] w = w"
| "fireAll ((now, t, trig, c, d) # calls) w = fireAll calls (fireTrigger now t trig c d w)"

text \<open>
  A looping automation is cut. Whatever triggers are fired in an hour, by any tenants, of any types
  and for any entities, in any order, one workflow is started for one entity at most MAX_EXECUTIONS
  (five) times, when no counter of the pair was live at the start of the hour.
\<close>

theorem automation_loops_are_cut:
  assumes "redisLive t0 (loopKey a ent) w = None"
    and "\<forall>(now, _) \<in> set calls. t0 \<le> now \<and> now < t0 + WINDOW_SECONDS * 1000"
  shows "executionsOf a ent (fireAll calls w) \<le> executionsOf a ent w + MAX_EXECUTIONS"
proof -
  have "guarded a ent t0 base v \<Longrightarrow> guarded a ent t0 base (fireAll calls v)" for base v
    using assms(2)
  proof (induction calls arbitrary: v)
    case (Cons call calls)
    obtain now t trig c d where "call = (now, t, trig, c, d)" by (cases call) auto
    then show ?case using Cons by (simp add: guarded_fire)
  qed simp
  moreover have "guarded a ent t0 (executionsOf a ent w) w" using assms(1) by (simp add: guarded_def)
  ultimately have "guarded a ent t0 (executionsOf a ent w) (fireAll calls w)" by blast
  then show ?thesis by (auto simp: guarded_def MAX_EXECUTIONS_def)
qed

definition demoFlow :: workflow where
  "demoFlow = \<lparr>workflow_id = ''f1'', workflow_tenantId = ''t1'', workflow_name = ''thanks'',
     workflow_isActive = True, workflow_triggerType = Some ''rsvp_yes'',
     workflow_actions = [\<lparr>workflowAction_id = ''x1'', workflowAction_stepOrder = 1, workflowAction_type = ''send_sms'',
       workflowAction_config = JObj [(''message'', JStr ''Thanks {{customer_name}}'')],
       workflowAction_delayMinutes = 0, workflowAction_conditions = []\<rparr>],
     workflow_isDemoData = False, workflow_description = None, workflow_triggerConfig = JObj [],
     workflow_createdAt = 0\<rparr>"

definition flowWorld :: world where
  "flowWorld = (emptyWorld show_nat)\<lparr>w_workflows := [demoFlow]\<rparr>"

theorem automation_loops_are_cut_witness:
  "executionsOf ''f1'' ''e1'' (fireAll (replicate 7 (10, ''t1'', ''rsvp_yes'', ''e1'', JNull)) flowWorld) \<le> 5"
proof -
  have "redisLive 10 (loopKey ''f1'' ''e1'') flowWorld = None"
    by (simp add: redisLive_def flowWorld_def emptyWorld_def)
  moreover have "executionsOf ''f1'' ''e1'' flowWorld = 0"
    by (simp add: executionsOf_def flowWorld_def emptyWorld_def count_where_def)
  ultimately show ?thesis
    using automation_loops_are_cut [of 10 "''f1''" "''e1''" flowWorld
      "replicate 7 (10, ''t1'', ''rsvp_yes'', ''e1'', JNull)"]
    by (simp add: MAX_EXECUTIONS_def WINDOW_SECONDS_def)
qed

text \<open>
  The window is fixed, not rolling: one call opens it, and its last four calls and the first five of
  the next window, within two seconds, all start the workflow.
\<close>

theorem loop_window_not_rolling:
  "executionsOf ''f1'' ''e1'' (fireAll (map (\<lambda>t. (t, ''t1'', ''rsvp_yes'', ''e1'', JNull))
     ([0] @ replicate 4 3599000 @ replicate 5 3600000)) flowWorld) = 10"
  by code_simp

end
