(* ===== verification/Rsvp.thy ===== *)
theory Rsvp
  imports Workflow_Engine Messaging
begin

text \<open>
  Replies to event invitations: \<open>modules/rsvp/utils/response-parser.util.ts\<close>, \<open>rsvp-processor.service.ts\<close>,
  the queue service and its consumer, and the standalone \<open>workers/rsvp.worker.ts\<close>.
\<close>

section \<open>Parsing a reply\<close>

datatype RsvpIntent = RI_confirmed | RI_declined | RI_maybe

definition is_letter :: "char \<Rightarrow> bool" where
  "is_letter c = is_lower c"

definition normalize :: "string \<Rightarrow> string" where
  "normalize input =
     (let trimmed = trim input
      in if (case trimmed of [c] \<Rightarrow> is_digit c | _ \<Rightarrow> False) then trimmed
         else filter is_letter (toLowerCase trimmed))"

definition YES_KEYWORDS :: "string list" where
  "YES_KEYWORDS = [''yes'', ''y'', ''yeah'', ''yep'', ''yup'', ''sure'',
     ''confirm'', ''confirmed'', ''accept'', ''accepted'', ''ok'', ''okay'', ''1'']"

definition NO_KEYWORDS :: "string list" where
  "NO_KEYWORDS = [''no'', ''n'', ''nope'', ''nah'', ''never'', ''decline'', ''declined'', ''reject'',
     ''rejected'', ''cancel'', ''cancelled'', ''canceled'', ''2'']"

definition MAYBE_KEYWORDS :: "string list" where
  "MAYBE_KEYWORDS = [''maybe'', ''m'', ''perhaps'', ''tentative'', ''unsure'', ''pending'', ''3'']"

definition parseRSVP :: "string \<Rightarrow> RsvpIntent option" where
  "parseRSVP input =
     (let normalized = normalize input
      in if normalized \<in> set YES_KEYWORDS then Some RI_confirmed
         else if normalized \<in> set NO_KEYWORDS then Some RI_declined
         else if normalized \<in> set MAYBE_KEYWORDS then Some RI_maybe
         else None)"

definition isRsvpKeyword :: "string \<Rightarrow> bool" where
  "isRsvpKeyword body = (parseRSVP body \<noteq> None)"

section \<open>The processor\<close>

text \<open>\<open>contact.findFirst({ tenantId, phone, unsubscribed: false })\<close>\<close>

definition activeContact :: "uuid \<Rightarrow> string \<Rightarrow> world \<Rightarrow> contact option" where
  "activeContact tenantId phone w = List.find (\<lambda>c. contact_tenantId c = tenantId \<and>
     contact_phone c = Some phone \<and> \<not> contact_unsubscribed c) (w_contacts w)"

definition findEvent :: "uuid \<Rightarrow> world \<Rightarrow> event option" where
  "findEvent i w = List.find (\<lambda>e. event_id e = i) (w_events w)"

definition openEvent :: "instant \<Rightarrow> uuid \<Rightarrow> event \<Rightarrow> bool" where
  "openEvent now tenantId e = (event_tenantId e = tenantId \<and> now \<le> event_startTime e \<and>
     event_status e \<in> {E_DRAFT, E_PUBLISHED, E_ACTIVE})"

text \<open>The open invitations of a contact, each with its event.\<close>

definition invitationOf ::
  "instant \<Rightarrow> uuid \<Rightarrow> uuid \<Rightarrow> world \<Rightarrow> eventParticipant \<Rightarrow> (eventParticipant \<times> event) option" where
  "invitationOf now tenantId contactId w p =
     (if eventParticipant_contactId p = contactId \<and> eventParticipant_status p \<in> {P_invited, P_pending}
      then (case findEvent (eventParticipant_eventId p) w of
              None \<Rightarrow> None
            | Some e \<Rightarrow> if openEvent now tenantId e then Some (p, e) else None)
      else None)"

definition invitations :: "instant \<Rightarrow> uuid \<Rightarrow> uuid \<Rightarrow> world \<Rightarrow> (eventParticipant \<times> event) list" where
  "invitations now tenantId contactId w =
     List.map_filter (invitationOf now tenantId contactId w) (w_eventParticipants w)"

definition hasActiveInvitation :: "instant \<Rightarrow> string \<Rightarrow> uuid \<Rightarrow> world \<Rightarrow> bool" where
  "hasActiveInvitation now phone tenantId w =
     (case activeContact tenantId phone w of
        None \<Rightarrow> False
      | Some c \<Rightarrow> length (invitations now tenantId (contact_id c) w) > 0)"

definition apostrophe :: string where
  "apostrophe = [CHR 0x27]"

definition getResponseMessage :: "string \<Rightarrow> string \<Rightarrow> RsvpIntent \<Rightarrow> string" where
  "getResponseMessage contactName eventTitle response =
     (let shortName = takeWhile (\<lambda>c. c \<noteq> CHR '' '') contactName;
          title = [CHR 0x22] @ eventTitle @ [CHR 0x22]
      in (case response of
            RI_confirmed \<Rightarrow> ''Thanks '' @ shortName @ ''! We'' @ apostrophe @
              ''ve confirmed your attendance at '' @ title @ ''. See you there! '' @
              [char_of (0xE2 :: nat), char_of (0x9C :: nat), char_of (0x93 :: nat)]
          | RI_declined \<Rightarrow> ''Got it, '' @ shortName @ ''. We'' @ apostrophe @ ''ve noted that you won'' @
              apostrophe @ ''t be attending '' @ title @ ''. Thanks for letting us know!''
          | RI_maybe \<Rightarrow> ''Thanks '' @ shortName @ ''! We'' @ apostrophe @ ''ve marked you as maybe for '' @
              title @ ''. Please confirm when you'' @ apostrophe @ ''re sure.''))"

fun newStatus :: "RsvpIntent \<Rightarrow> EventParticipantStatus" where
  "newStatus RI_confirmed = P_confirmed"
| "newStatus RI_declined = P_cancelled"
| "newStatus RI_maybe = P_pending"

fun statusName :: "EventParticipantStatus \<Rightarrow> string" where
  "statusName P_invited = ''invited''"
| "statusName P_confirmed = ''confirmed''"
| "statusName P_cancelled = ''cancelled''"
| "statusName P_pending = ''pending''"

definition recordRsvpEvent ::
  "instant \<Rightarrow> uuid \<Rightarrow> uuid \<Rightarrow> uuid \<Rightarrow> string \<Rightarrow> string \<Rightarrow> world \<Rightarrow> world" where
  "recordRsvpEvent now tenantId eventId contactId body channel w =
     bump (w\<lparr>w_rsvpEvents := w_rsvpEvents w @
       [\<lparr>rsvpEvent_id = newId w, rsvpEvent_eventId = eventId, rsvpEvent_contactId = contactId,
         rsvpEvent_tenantId = tenantId, rsvpEvent_response = body, rsvpEvent_channel = channel,
         rsvpEvent_createdAt = now\<rparr>]\<rparr>)"

definition setParticipant :: "uuid \<Rightarrow> (eventParticipant \<Rightarrow> eventParticipant) \<Rightarrow> world \<Rightarrow> world" where
  "setParticipant i f w = w\<lparr>w_eventParticipants :=
     update_where (\<lambda>p. eventParticipant_id p = i) f (w_eventParticipants w)\<rparr>"

definition upsertResponse ::
  "instant \<Rightarrow> uuid \<Rightarrow> uuid \<Rightarrow> uuid \<Rightarrow> string \<Rightarrow> EventParticipantStatus \<Rightarrow> world \<Rightarrow> world" where
  "upsertResponse now tenantId eventId contactId body st w =
     (let mine = (\<lambda>r. eventResponse_eventId r = eventId \<and> eventResponse_contactId r = contactId)
      in if list_ex mine (w_eventResponses w)
         then w\<lparr>w_eventResponses := update_where mine
                (\<lambda>r. r\<lparr>eventResponse_response := body, eventResponse_responseStatus := st,
                       eventResponse_timestamp := now\<rparr>) (w_eventResponses w)\<rparr>
         else bump (w\<lparr>w_eventResponses := w_eventResponses w @
                [\<lparr>eventResponse_id = newId w, eventResponse_eventId = eventId,
                  eventResponse_contactId = contactId, eventResponse_tenantId = tenantId,
                  eventResponse_response = body, eventResponse_responseStatus = st,
                  eventResponse_timestamp = now\<rparr>]\<rparr>))"

definition cancelRsvpReminders :: "uuid \<Rightarrow> uuid \<Rightarrow> world \<Rightarrow> world" where
  "cancelRsvpReminders eventId contactId w = w\<lparr>w_reminders :=
     update_where (\<lambda>r. reminder_eventId r = Some eventId \<and> reminder_contactId r = Some contactId \<and>
                       reminder_status r = R_PENDING)
       (\<lambda>r. r\<lparr>reminder_status := R_CANCELLED\<rparr>) (w_reminders w)\<rparr>"

text \<open>
  The automation triggers of a reply, in the order they are fired; the code does not wait for them,
  the model runs them one after the other.
\<close>

definition rsvpData :: "uuid \<Rightarrow> contact \<Rightarrow> event \<Rightarrow> (string \<times> json) list \<Rightarrow> json" where
  "rsvpData tenantId c e extra = JObj
     ([(''eventId'', JStr (event_id e)), (''contactId'', JStr (contact_id c)),
       (''tenantId'', JStr tenantId)] @ extra)"

definition named :: "contact \<Rightarrow> event \<Rightarrow> string \<Rightarrow> (string \<times> json) list" where
  "named c e response = [(''eventTitle'', JStr (event_title e)), (''customerName'', JStr (contact_name c)),
     (''response'', JStr response)]"

fun rsvpTriggers ::
  "contact \<Rightarrow> event \<Rightarrow> string \<Rightarrow> RsvpIntent \<Rightarrow> (string \<times> (string \<times> json) list) list" where
  "rsvpTriggers c e body RI_confirmed =
     [(''rsvp_yes'', named c e ''YES''), (''rsvp_confirmed'', named c e ''YES''),
      (''attendance_confirmed'', [])]"
| "rsvpTriggers c e body RI_declined =
     [(''rsvp_no'', named c e ''NO''), (''rsvp_cancelled'', named c e ''NO''),
      (''attendance_cancelled'', [])]"
| "rsvpTriggers c e body RI_maybe = [(''rsvp_pending'', named c e body)]"

definition fireRsvpTriggers ::
  "instant \<Rightarrow> uuid \<Rightarrow> contact \<Rightarrow> event \<Rightarrow> string \<Rightarrow> RsvpIntent \<Rightarrow> world \<Rightarrow> world" where
  "fireRsvpTriggers now tenantId c e body intent w =
     fold (\<lambda>(trig, extra). fireTrigger now tenantId trig (event_id e) (rsvpData tenantId c e extra))
       (rsvpTriggers c e body intent @
        [(''rsvp_received'', [(''response'', JStr body),
                              (''responseStatus'', JStr (statusName (newStatus intent)))])]) w"

text \<open>A reply for an open invitation: log, participant, response, reminders, workflows.\<close>

definition applyRsvp ::
  "instant \<Rightarrow> uuid \<Rightarrow> contact \<Rightarrow> eventParticipant \<Rightarrow> event \<Rightarrow> string \<Rightarrow> string \<Rightarrow> RsvpIntent \<Rightarrow> world \<Rightarrow> world" where
  "applyRsvp now tenantId c p e body channel intent w =
     (let w1 = recordRsvpEvent now tenantId (event_id e) (contact_id c) body channel w;
          st = newStatus intent
      in if eventParticipant_status p = st
         then setParticipant (eventParticipant_id p) (\<lambda>r. r\<lparr>eventParticipant_lastResponseAt := Some now\<rparr>) w1
         else let w2 = setParticipant (eventParticipant_id p)
                    (\<lambda>r. r\<lparr>eventParticipant_status := st, eventParticipant_lastResponseAt := Some now\<rparr>) w1;
                  w3 = upsertResponse now tenantId (event_id e) (contact_id c) body st w2;
                  w4 = (if intent \<noteq> RI_maybe then cancelRsvpReminders (event_id e) (contact_id c) w3 else w3)
              in fireRsvpTriggers now tenantId c e body intent w4)"

definition processInboundMessage ::
  "instant \<Rightarrow> string \<Rightarrow> string \<Rightarrow> uuid \<Rightarrow> string \<Rightarrow> world \<Rightarrow> string option \<times> world" where
  "processInboundMessage now phone body tenantId channel w =
     (case activeContact tenantId phone w of
        None \<Rightarrow> (None, w)
      | Some c \<Rightarrow>
          (case order_asc (\<lambda>(p, e). event_startTime e) (invitations now tenantId (contact_id c) w) of
             [] \<Rightarrow> (None, w)
           | (p, e) # _ \<Rightarrow>
               (case parseRSVP body of
                  None \<Rightarrow> (None, w)
                | Some intent \<Rightarrow>
                    (Some (getResponseMessage (contact_name c) (event_title e) intent),
                     applyRsvp now tenantId c p e body channel intent w))))"

record RsvpStats =
  st_total :: int
  st_invited :: int
  st_confirmed :: int
  st_pending :: int
  st_cancelled :: int
  st_confirmationRate :: int

text \<open>\<open>Math.round\<close> of the percentage, in exact arithmetic.\<close>

definition getEventRsvpStats :: "uuid \<Rightarrow> uuid \<Rightarrow> world \<Rightarrow> RsvpStats outcome" where
  "getEventRsvpStats tenantId eventId w =
     (case List.find (\<lambda>e. event_id e = eventId \<and> event_tenantId e = tenantId) (w_events w) of
        None \<Rightarrow> Inl (PlainError (''Event '' @ eventId @ '' not found''))
      | Some _ \<Rightarrow>
          let n = (\<lambda>st. int (count_where (\<lambda>p. eventParticipant_eventId p = eventId \<and>
                     eventParticipant_status p = st) (w_eventParticipants w)));
              total = n P_invited + n P_confirmed + n P_pending + n P_cancelled
          in Inr \<lparr>st_total = total, st_invited = n P_invited, st_confirmed = n P_confirmed,
                  st_pending = n P_pending, st_cancelled = n P_cancelled,
                  st_confirmationRate = (if total > 0 then (200 * n P_confirmed + total) div (2 * total) else 0)\<rparr>)"

definition bulkUpdateRsvp ::
  "uuid \<Rightarrow> uuid \<Rightarrow> uuid list \<Rightarrow> EventParticipantStatus \<Rightarrow> world \<Rightarrow> nat \<times> world" where
  "bulkUpdateRsvp tenantId eventId contactIds st w =
     (let sel = (\<lambda>p. eventParticipant_eventId p = eventId \<and> eventParticipant_contactId p \<in> set contactIds \<and>
            (case findEvent (eventParticipant_eventId p) w of None \<Rightarrow> False
             | Some e \<Rightarrow> event_tenantId e = tenantId))
      in (count_where sel (w_eventParticipants w),
          w\<lparr>w_eventParticipants := update_where sel (\<lambda>p. p\<lparr>eventParticipant_status := st\<rparr>)
              (w_eventParticipants w)\<rparr>))"

section \<open>The queue and its consumers\<close>

definition RSVP_QUEUE :: string where
  "RSVP_QUEUE = ''meetora-rsvp''"

definition RSVP_DLQ :: string where
  "RSVP_DLQ = ''meetora-rsvp-dlq''"

definition EVENT_WORKFLOW_QUEUE :: string where
  "EVENT_WORKFLOW_QUEUE = ''meetora-event-workflows''"

record RsvpJobData =
  rj_tenantId :: uuid
  rj_phone :: string
  rj_body :: string
  rj_channel :: ChannelType
  rj_receivedAt :: instant

definition rsvpJobJson :: "RsvpJobData \<Rightarrow> json" where
  "rsvpJobJson d = JObj [(''tenantId'', JStr (rj_tenantId d)), (''phone'', JStr (rj_phone d)),
     (''body'', JStr (rj_body d)), (''channel'', JStr (channelName (rj_channel d))),
     (''receivedAt'', JDate (rj_receivedAt d))]"

text \<open>A second job with an id that is still in the queue is dropped by BullMQ.\<close>

definition enqueueRsvp :: "instant \<Rightarrow> RsvpJobData \<Rightarrow> world \<Rightarrow> world" where
  "enqueueRsvp now d w =
     (let i = ''rsvp_'' @ rj_tenantId d @ ''_'' @ rj_phone d @ ''_'' @ show_int now
      in if list_ex (\<lambda>j. job_queue j = RSVP_QUEUE \<and> job_id j = i) (w_jobs w) then w
         else addJob \<lparr>job_queue = RSVP_QUEUE, job_id = i, job_name = ''process-rsvp'',
                      job_data = rsvpJobJson d, job_delay = 0\<rparr> w)"

text \<open>
  The follow-up of a confirmed reply: the contact's confirmed participation with the latest reply. A
  descending order puts the rows without a reply time first. The job's id is drawn by BullMQ and left
  empty here.
\<close>

definition fireConfirmedWorkflow :: "uuid \<Rightarrow> string \<Rightarrow> world \<Rightarrow> world" where
  "fireConfirmedWorkflow tenantId phone w =
     (case List.find (\<lambda>c. contact_tenantId c = tenantId \<and> contact_phone c = Some phone) (w_contacts w) of
        None \<Rightarrow> w
      | Some c \<Rightarrow>
          (case first_of (order_desc_null eventParticipant_lastResponseAt
                  (filter (\<lambda>p. eventParticipant_contactId p = contact_id c \<and>
                               eventParticipant_status p = P_confirmed) (w_eventParticipants w))) of
             None \<Rightarrow> w
           | Some p \<Rightarrow> addJob \<lparr>job_queue = EVENT_WORKFLOW_QUEUE, job_id = [], job_name = ''event-workflow'',
               job_data = JObj [(''tenantId'', JStr tenantId), (''triggerType'', JStr ''rsvp_confirmed''),
                 (''contactId'', JStr (contact_id c)), (''eventId'', JStr (eventParticipant_eventId p))],
               job_delay = 0\<rparr> w))"

text \<open>\<open>RsvpQueueConsumer.processJob\<close>: a failing acknowledgement is logged and dropped.\<close>

definition processRsvpJob :: "env \<Rightarrow> instant \<Rightarrow> RsvpJobData \<Rightarrow> world \<Rightarrow> string option \<times> world" where
  "processRsvpJob E now d w =
     (case processInboundMessage now (rj_phone d) (rj_body d) (rj_tenantId d) (channelName (rj_channel d)) w of
        (None, w1) \<Rightarrow> (None, w1)
      | (Some response, w1) \<Rightarrow>
          let w2 = (if response \<noteq> [] \<and> rj_phone d \<noteq> []
                    then snd (send E now (request (rj_tenantId d) (rj_channel d) (rj_phone d) response) w1)
                    else w1);
              w3 = (if parseRSVP (rj_body d) = Some RI_confirmed
                    then fireConfirmedWorkflow (rj_tenantId d) (rj_phone d) w2 else w2)
          in (Some response, w3))"

text \<open>\<open>workers/rsvp.worker.ts\<close>: the same without channel and acknowledgement.\<close>

definition rsvpWorkerJob :: "instant \<Rightarrow> RsvpJobData \<Rightarrow> world \<Rightarrow> string option \<times> world" where
  "rsvpWorkerJob now d w =
     (case processInboundMessage now (rj_phone d) (rj_body d) (rj_tenantId d) ''API'' w of
        (None, w1) \<Rightarrow> (None, w1)
      | (Some response, w1) \<Rightarrow>
          (Some response,
           if parseRSVP (rj_body d) = Some RI_confirmed
           then fireConfirmedWorkflow (rj_tenantId d) (rj_phone d) w1 else w1))"

text \<open>The \<open>failed\<close> event of a job: parked once its attempts are used up.\<close>

definition rsvpJobFailed :: "nat \<Rightarrow> nat option \<Rightarrow> RsvpJobData \<Rightarrow> world \<Rightarrow> world" where
  "rsvpJobFailed attemptsMade limit d w =
     (if attemptsMade \<ge> coalesce limit 1
      then addJob \<lparr>job_queue = RSVP_DLQ, job_id = [], job_name = ''failed-rsvp'',
                   job_data = rsvpJobJson d, job_delay = 0\<rparr> w
      else w)"

section \<open>Parsing is insensitive to case\<close>

lemma char_code_upper: "char_code (upper_char c) = (if is_lower c then char_code c - 32 else char_code c)"
proof -
  have "char_code c - 32 < 256"
    unfolding char_code_def by (rule le_less_trans [OF diff_le_self nat_of_char_less_256])
  then show ?thesis by (simp add: upper_char_def char_code_def)
qed

lemma upper_char_classes:
  "is_space (upper_char c) = is_space c" "is_digit (upper_char c) = is_digit c"
  by (auto simp: is_space_def is_digit_def char_code_upper is_lower_def)

lemma lower_upper [simp]: "lower_char (upper_char c) = lower_char c"
proof (cases "is_lower c")
  case True
  then have "is_upper (upper_char c)" and "\<not> is_upper c"
    by (auto simp: is_upper_def is_lower_def char_code_upper)
  moreover have "char_of (char_code c - 32 + 32) = c"
    using True by (simp add: is_lower_def char_code_def)
  ultimately show ?thesis using True by (simp add: lower_char_def char_code_upper)
qed (simp add: upper_char_def)

lemma digit_upper [simp]: "is_digit c \<Longrightarrow> upper_char c = c"
  by (simp add: upper_char_def is_digit_def is_lower_def)

lemma trim_upper: "trim (toUpperCase s) = toUpperCase (trim s)"
  by (simp add: trim_def toUpperCase_def dropWhile_map rev_map o_def upper_char_classes(1))

lemma normalize_upper: "normalize (toUpperCase s) = normalize s"
proof -
  have "normalize (toUpperCase s) = (let t = trim s in
      if (case toUpperCase t of [c] \<Rightarrow> is_digit c | _ \<Rightarrow> False) then toUpperCase t
      else filter is_letter (toLowerCase (toUpperCase t)))"
    by (simp add: normalize_def trim_upper Let_def)
  moreover have "toLowerCase (toUpperCase t) = toLowerCase t" for t
    by (simp add: toLowerCase_def toUpperCase_def o_def)
  moreover have "(case toUpperCase t of [c] \<Rightarrow> is_digit c | _ \<Rightarrow> False) =
      (case t of [c] \<Rightarrow> is_digit c | _ \<Rightarrow> False)" for t
    by (auto simp: toUpperCase_def upper_char_classes split: list.split)
  moreover have "toUpperCase t = t" if "(case t of [c] \<Rightarrow> is_digit c | _ \<Rightarrow> False)" for t
    using that by (auto simp: toUpperCase_def split: list.splits)
  ultimately show ?thesis by (simp add: normalize_def Let_def)
qed

lemma parse_case_insensitive: "parseRSVP (toUpperCase s) = parseRSVP s"
  by (simp add: parseRSVP_def normalize_upper)

lemma parse_trimmed: "parseRSVP (trim s) = parseRSVP s"
proof -
  have "trim (trim s) = trim s"
  proof -
    have "dropWhile is_space (rev (dropWhile is_space (rev (dropWhile is_space s)))) =
        rev (dropWhile is_space (rev (dropWhile is_space s)))"
    proof (cases "rev (dropWhile is_space (rev (dropWhile is_space s)))")
      case (Cons c t)
      then have "dropWhile is_space s \<noteq> []" by (metis dropWhile.simps(1) list.distinct(1) rev.simps(1))
      then have "\<not> is_space (hd (dropWhile is_space s))" by (rule hd_dropWhile) 
      moreover have "prefix (rev (dropWhile is_space (rev (dropWhile is_space s)))) (dropWhile is_space s)"
        using suffix_dropWhile [of is_space "rev (dropWhile is_space s)"] by (simp add: suffix_to_prefix)
      ultimately have "\<not> is_space c" using Cons by (auto simp: prefix_def)
      then show ?thesis unfolding Cons by simp
    next
      case Nil
      show ?thesis unfolding Nil by simp
    qed
    then show ?thesis unfolding trim_def by (simp add: dropWhile_idem)
  qed
  then show ?thesis by (simp add: parseRSVP_def normalize_def)
qed

section \<open>The gate and the processor agree\<close>

text \<open>
  The gate that routes a reply and the processor that handles it agree. A reply gets an answer from
  the processor exactly when its sender has an open invitation and its text is an RSVP keyword;
  otherwise nothing at all changes.
\<close>

theorem rsvp_gate_agrees:
  "(fst (processInboundMessage now phone body t ch w) \<noteq> None \<longleftrightarrow>
      hasActiveInvitation now phone t w \<and> isRsvpKeyword body) \<and>
   (hasActiveInvitation now phone t w \<and> isRsvpKeyword body \<or>
      snd (processInboundMessage now phone body t ch w) = w)"
proof (cases "activeContact t phone w")
  case (Some c)
  let ?inv = "invitations now t (contact_id c) w"
  show ?thesis
    using Some by (auto simp: processInboundMessage_def hasActiveInvitation_def isRsvpKeyword_def
        split: list.split option.split)
qed (simp add: processInboundMessage_def hasActiveInvitation_def)

section \<open>What a reply changes\<close>

lemma fireRsvpTriggers_frame: "workflowParts (fireRsvpTriggers now t c e body intent w) = workflowParts w"
proof -
  have "workflowParts (fold (\<lambda>(trig, extra). fireTrigger now t trig (event_id e) (rsvpData t c e extra)) ts v) =
      workflowParts v" for ts v
    by (induction ts arbitrary: v) (auto simp: fireTrigger_frame)
  then show ?thesis unfolding fireRsvpTriggers_def by blast
qed

lemma fireRsvpTriggers_other [simp]:
  "w_eventParticipants (fireRsvpTriggers now t c e body intent w) = w_eventParticipants w"
  "w_rsvpEvents (fireRsvpTriggers now t c e body intent w) = w_rsvpEvents w"
  "w_reminders (fireRsvpTriggers now t c e body intent w) = w_reminders w"
  "w_contacts (fireRsvpTriggers now t c e body intent w) = w_contacts w"
  "w_outbox (fireRsvpTriggers now t c e body intent w) = w_outbox w"
  using arg_cong [OF fireRsvpTriggers_frame, of w_eventParticipants]
    arg_cong [OF fireRsvpTriggers_frame, of w_rsvpEvents] arg_cong [OF fireRsvpTriggers_frame, of w_reminders]
    arg_cong [OF fireRsvpTriggers_frame, of w_contacts] arg_cong [OF fireRsvpTriggers_frame, of w_outbox]
  by simp_all

lemma upsertResponse_other [simp]:
  "w_eventParticipants (upsertResponse now t e c b st w) = w_eventParticipants w"
  "w_rsvpEvents (upsertResponse now t e c b st w) = w_rsvpEvents w"
  "w_reminders (upsertResponse now t e c b st w) = w_reminders w"
  "w_contacts (upsertResponse now t e c b st w) = w_contacts w"
  "w_outbox (upsertResponse now t e c b st w) = w_outbox w"
  by (simp_all add: upsertResponse_def Let_def bump_def)

lemma recordRsvpEvent_other [simp]:
  "w_eventParticipants (recordRsvpEvent now t e c b ch w) = w_eventParticipants w"
  "w_reminders (recordRsvpEvent now t e c b ch w) = w_reminders w"
  "w_outbox (recordRsvpEvent now t e c b ch w) = w_outbox w"
  by (simp_all add: recordRsvpEvent_def bump_def)

lemma invitationsD:
  assumes "(p, e) \<in> set (invitations now t ci w)"
  shows "p \<in> set (w_eventParticipants w)" "eventParticipant_contactId p = ci"
    "eventParticipant_status p \<in> {P_invited, P_pending}" "eventParticipant_eventId p = event_id e"
    "e \<in> set (w_events w)" "openEvent now t e"
proof -
  from assms obtain q where "q \<in> set (w_eventParticipants w)" "invitationOf now t ci w q = Some (p, e)"
    unfolding invitations_def map_filter_def by auto
  then have q: "q = p" "p \<in> set (w_eventParticipants w)" "eventParticipant_contactId p = ci"
    "eventParticipant_status p \<in> {P_invited, P_pending}" "openEvent now t e"
    "findEvent (eventParticipant_eventId p) w = Some e"
    unfolding invitationOf_def by (simp_all split: if_splits option.splits)
  then show "p \<in> set (w_eventParticipants w)" "eventParticipant_contactId p = ci"
    "eventParticipant_status p \<in> {P_invited, P_pending}" "openEvent now t e" by blast+
  from q(6) show "eventParticipant_eventId p = event_id e" "e \<in> set (w_events w)"
    unfolding findEvent_def by (auto dest: find_SomeD)
qed

text \<open>The rows of a reply to the invitation \<open>p\<close>.\<close>

lemma applyRsvp_rows:
  assumes "eventParticipant_status p \<in> {P_invited, P_pending}" and "p \<in> set (w_eventParticipants w)"
    and "distinct (map eventParticipant_id (w_eventParticipants w))"
  shows "w_eventParticipants (applyRsvp now t c p e body ch intent w) =
      update_where (\<lambda>r. eventParticipant_id r = eventParticipant_id p)
        (\<lambda>r. r\<lparr>eventParticipant_status := newStatus intent, eventParticipant_lastResponseAt := Some now\<rparr>)
        (w_eventParticipants w)"
    and "w_rsvpEvents (applyRsvp now t c p e body ch intent w) = w_rsvpEvents w @
      [\<lparr>rsvpEvent_id = newId w, rsvpEvent_eventId = event_id e, rsvpEvent_contactId = contact_id c,
        rsvpEvent_tenantId = t, rsvpEvent_response = body, rsvpEvent_channel = ch, rsvpEvent_createdAt = now\<rparr>]"
    and "w_reminders (applyRsvp now t c p e body ch intent w) =
      (if intent = RI_maybe then w_reminders w
       else w_reminders (cancelRsvpReminders (event_id e) (contact_id c) w))"
    and "w_outbox (applyRsvp now t c p e body ch intent w) = w_outbox w"
proof -
  have same: "intent = RI_maybe" if "eventParticipant_status p = newStatus intent"
    using that assms(1) by (cases intent) auto
  have only: "r = p" if "r \<in> set (w_eventParticipants w)" "eventParticipant_id r = eventParticipant_id p" for r
    using assms(2,3) that by (auto simp: distinct_map dest: inj_onD)
  have touch: "update_where (\<lambda>r. eventParticipant_id r = eventParticipant_id p)
        (\<lambda>r. r\<lparr>eventParticipant_lastResponseAt := Some now\<rparr>) (w_eventParticipants w) =
      update_where (\<lambda>r. eventParticipant_id r = eventParticipant_id p)
        (\<lambda>r. r\<lparr>eventParticipant_status := eventParticipant_status p, eventParticipant_lastResponseAt := Some now\<rparr>)
        (w_eventParticipants w)"
    unfolding update_where_def
  proof (intro map_cong refl)
    fix r assume r: "r \<in> set (w_eventParticipants w)"
    show "(if eventParticipant_id r = eventParticipant_id p
          then r\<lparr>eventParticipant_lastResponseAt := Some now\<rparr> else r) =
        (if eventParticipant_id r = eventParticipant_id p
          then r\<lparr>eventParticipant_status := eventParticipant_status p, eventParticipant_lastResponseAt := Some now\<rparr>
          else r)"
    proof (cases "eventParticipant_id r = eventParticipant_id p")
      case True
      then have "r = p" using only r by blast
      then show ?thesis by simp
    qed simp
  qed
  show "w_eventParticipants (applyRsvp now t c p e body ch intent w) =
      update_where (\<lambda>r. eventParticipant_id r = eventParticipant_id p)
        (\<lambda>r. r\<lparr>eventParticipant_status := newStatus intent, eventParticipant_lastResponseAt := Some now\<rparr>)
        (w_eventParticipants w)"
    using touch by (auto simp: applyRsvp_def Let_def setParticipant_def cancelRsvpReminders_def)
  show "w_rsvpEvents (applyRsvp now t c p e body ch intent w) = w_rsvpEvents w @
      [\<lparr>rsvpEvent_id = newId w, rsvpEvent_eventId = event_id e, rsvpEvent_contactId = contact_id c,
        rsvpEvent_tenantId = t, rsvpEvent_response = body, rsvpEvent_channel = ch, rsvpEvent_createdAt = now\<rparr>]"
    by (simp add: applyRsvp_def Let_def setParticipant_def cancelRsvpReminders_def recordRsvpEvent_def bump_def)
  show "w_reminders (applyRsvp now t c p e body ch intent w) =
      (if intent = RI_maybe then w_reminders w
       else w_reminders (cancelRsvpReminders (event_id e) (contact_id c) w))"
    using same by (auto simp: applyRsvp_def Let_def setParticipant_def cancelRsvpReminders_def)
  show "w_outbox (applyRsvp now t c p e body ch intent w) = w_outbox w"
    by (simp add: applyRsvp_def Let_def setParticipant_def cancelRsvpReminders_def)
qed

text \<open>
  C9: A reply is recorded for exactly one invitation, the sender's open one whose event comes first. Its
  participant row gets the status the keyword means and the time of the reply, and no other row of the
  table changes; the reply is appended to the RSVP log; a definite answer (yes or no) cancels every
  pending reminder of that event and contact and no other; nothing is sent.
\<close>

theorem rsvp_applies_to_closest:
  assumes "processInboundMessage now phone body t ch w = (Some reply, w')"
    and "distinct (map eventParticipant_id (w_eventParticipants w))"
  shows "\<exists>c p e intent. activeContact t phone w = Some c \<and> parseRSVP body = Some intent \<and>
    (p, e) \<in> set (invitations now t (contact_id c) w) \<and>
    (\<forall>(q, f) \<in> set (invitations now t (contact_id c) w). event_startTime e \<le> event_startTime f) \<and>
    w_eventParticipants w' = update_where (\<lambda>r. eventParticipant_id r = eventParticipant_id p)
      (\<lambda>r. r\<lparr>eventParticipant_status := newStatus intent, eventParticipant_lastResponseAt := Some now\<rparr>)
      (w_eventParticipants w) \<and>
    (\<exists>x. w_rsvpEvents w' = w_rsvpEvents w @ [x] \<and> rsvpEvent_eventId x = event_id e \<and>
       rsvpEvent_contactId x = contact_id c \<and> rsvpEvent_response x = body) \<and>
    w_reminders w' = update_where (\<lambda>r. intent \<noteq> RI_maybe \<and> reminder_eventId r = Some (event_id e) \<and>
        reminder_contactId r = Some (contact_id c) \<and> reminder_status r = R_PENDING)
      (\<lambda>r. r\<lparr>reminder_status := R_CANCELLED\<rparr>) (w_reminders w) \<and>
    w_outbox w' = w_outbox w"
proof -
  obtain c p e rest intent where a: "activeContact t phone w = Some c" "parseRSVP body = Some intent"
    "order_asc (\<lambda>(p, e). event_startTime e) (invitations now t (contact_id c) w) = (p, e) # rest"
    "w' = applyRsvp now t c p e body ch intent w"
    using assms(1) by (auto simp: processInboundMessage_def split: option.splits list.splits)
  let ?inv = "invitations now t (contact_id c) w"
  have mem: "(p, e) \<in> set ?inv"
    using a(3) set_order_asc [of "\<lambda>(p, e). event_startTime e" ?inv] by auto
  have least: "event_startTime e \<le> event_startTime f" if "(q, f) \<in> set ?inv" for q f
    using first_of_order_asc_least [of "\<lambda>(p, e). event_startTime e" ?inv "(p, e)" "(q, f)"] a(3) that by simp
  note rows = applyRsvp_rows [OF invitationsD(3,1) [OF mem] assms(2), where c = c and e = e]
  have "w_reminders w' = update_where (\<lambda>r. intent \<noteq> RI_maybe \<and> reminder_eventId r = Some (event_id e) \<and>
        reminder_contactId r = Some (contact_id c) \<and> reminder_status r = R_PENDING)
      (\<lambda>r. r\<lparr>reminder_status := R_CANCELLED\<rparr>) (w_reminders w)"
    unfolding a(4) rows(3) by (auto simp: cancelRsvpReminders_def update_where_nothing)
  then show ?thesis
    using a mem least rows(1,2,4) by (intro exI [of _ c] exI [of _ p] exI [of _ e] exI [of _ intent]) auto
qed

section \<open>A concrete party\<close>

definition demoContact :: contact where
  "demoContact = \<lparr>contact_id = ''k1'', contact_tenantId = ''t1'', contact_name = ''Ada L'',
     contact_phone = Some ''+15550001111'', contact_email = None, contact_unsubscribed = False,
     contact_isDemoData = False, contact_lastAppointment = None,
     contact_tags = [], contact_notes = None, contact_createdAt = 0\<rparr>"

definition demoEvent :: "uuid \<Rightarrow> instant \<Rightarrow> event" where
  "demoEvent i start = \<lparr>event_id = i, event_tenantId = ''t1'', event_title = i, event_location = None,
     event_startTime = start, event_status = E_PUBLISHED, event_isDemoData = False,
     event_description = None, event_endTime = None, event_eventType = ET_MEETING, event_createdBy = None,
     event_incentiveType = None, event_incentiveValue = None, event_incentiveMessage = None\<rparr>"

definition invited :: "uuid \<Rightarrow> uuid \<Rightarrow> EventParticipantStatus \<Rightarrow> eventParticipant" where
  "invited i e st = \<lparr>eventParticipant_id = i, eventParticipant_eventId = e, eventParticipant_contactId = ''k1'',
     eventParticipant_tenantId = ''t1'', eventParticipant_status = st, eventParticipant_lastResponseAt = None,
     eventParticipant_qrToken = None, eventParticipant_arrivedAt = None, eventParticipant_qrScannedBy = None,
     eventParticipant_couponCode = None, eventParticipant_couponSentAt = None,
     eventParticipant_isDemoData = False\<rparr>"

definition party :: "eventParticipant list \<Rightarrow> world" where
  "party ps = (demoWorld [demoTenant PLAN_SMS ACTIVE False 0])\<lparr>w_contacts := [demoContact],
     w_events := [demoEvent ''e1'' 900, demoEvent ''e2'' 500], w_eventParticipants := ps\<rparr>"

theorem rsvp_applies_to_closest_witness:
  "\<exists>reply w'. processInboundMessage 100 ''+15550001111'' '' Yes!'' ''t1'' ''SMS''
       (party [invited ''p1'' ''e1'' P_invited, invited ''p2'' ''e2'' P_invited]) = (Some reply, w') \<and>
     length (w_rsvpEvents w') = 1"
proof -
  let ?w = "party [invited ''p1'' ''e1'' P_invited, invited ''p2'' ''e2'' P_invited]"
  let ?r = "processInboundMessage 100 ''+15550001111'' '' Yes!'' ''t1'' ''SMS'' ?w"
  have "fst ?r \<noteq> None" by code_simp
  then obtain reply where e: "?r = (Some reply, snd ?r)" by (metis option.exhaust prod.collapse)
  have d: "distinct (map eventParticipant_id (w_eventParticipants ?w))" by (simp add: party_def invited_def)
  have "w_rsvpEvents ?w = []" by (simp add: party_def demoWorld_def emptyWorld_def)
  with rsvp_applies_to_closest [OF e d] have "length (w_rsvpEvents (snd ?r)) = 1" by auto
  with e show ?thesis by blast
qed

text \<open>
  The follow-up of a confirmed reply can go to the wrong event. A contact whose participation in
  another event was confirmed by hand (no reply time) answers YES to an invitation: the event workflow
  is queued for the event confirmed by hand, as rows without a reply time come first in the descending
  order.
\<close>

theorem confirmed_followup_wrong_event:
  "let d = \<lparr>rj_tenantId = ''t1'', rj_phone = ''+15550001111'', rj_body = ''YES'', rj_channel = SMS,
            rj_receivedAt = 100\<rparr>;
       w = snd (bulkUpdateRsvp ''t1'' ''e1'' [''k1''] P_confirmed
             (party [invited ''p1'' ''e1'' P_invited, invited ''p2'' ''e2'' P_invited]));
       w' = snd (processRsvpJob demoEnv 100 d w)
   in map eventParticipant_status (w_eventParticipants w') = [P_confirmed, P_confirmed] \<and>
      map eventParticipant_lastResponseAt (w_eventParticipants w') = [None, Some 100] \<and>
      map (\<lambda>j. jget (Some (job_data j)) ''eventId'') (w_jobs w') = [Some (JStr ''e1'')]"
  by code_simp

end
