(* ===== verification/Reputation.thy ===== *)
theory Reputation
  imports Messaging Reminder_Properties
begin

text \<open>
  \<open>modules/reputation/reputation.service.ts\<close>: after a completed appointment the customer is asked to
  rate it; a reply is recorded with its sentiment and answered, with a review link when it is good.
\<close>

definition FEEDBACK_EXPIRY_HOURS :: int where
  "FEEDBACK_EXPIRY_HOURS = 24"

definition feedbackText :: "string \<Rightarrow> string" where
  "feedbackText customerName =
     ''Hi '' @ customerName @ ''! How was your appointment? Reply:'' @ newline @ ''1 Great'' @ newline @
     ''2 Okay'' @ newline @ ''3 Not Great'' @ newline @ newline @ ''Your feedback helps us improve!''"

text \<open>The contact with the customer's number, for the activity log.\<close>

definition contactByNumber :: "uuid \<Rightarrow> string \<Rightarrow> world \<Rightarrow> contact option" where
  "contactByNumber tenantId phone w =
     List.find (\<lambda>c. contact_tenantId c = tenantId \<and> contact_phone c = Some phone) (w_contacts w)"

definition createFeedbackRequest :: "instant \<Rightarrow> uuid \<Rightarrow> uuid \<Rightarrow> uuid \<Rightarrow> string \<Rightarrow> world \<Rightarrow> world" where
  "createFeedbackRequest now tenantId appointmentId customerId phone w =
     bump (w\<lparr>w_feedbackRequests := w_feedbackRequests w @
       [\<lparr>feedbackRequest_id = newId w, feedbackRequest_tenantId = tenantId,
         feedbackRequest_appointmentId = Some appointmentId, feedbackRequest_customerId = customerId,
         feedbackRequest_phone = phone, feedbackRequest_channel = SMS,
         feedbackRequest_status = ''PENDING'', feedbackRequest_sentAt = now,
         feedbackRequest_expiresAt = now + FEEDBACK_EXPIRY_HOURS * 3600000,
         feedbackRequest_eventId = None\<rparr>]\<rparr>)"

definition sendFeedbackRequest :: "env \<Rightarrow> instant \<Rightarrow> uuid \<Rightarrow> uuid \<Rightarrow> unit act" where
  "sendFeedbackRequest E now appointmentId tenantId w =
     (case List.find (\<lambda>a. appointment_id a = appointmentId \<and> appointment_tenantId a = tenantId)
             (w_appointments w) of
        None \<Rightarrow> (Inr (), w)
      | Some a \<Rightarrow>
          (case customerOf a w of
             None \<Rightarrow> (Inr (), w)
           | Some c \<Rightarrow>
               if \<not> truthy (customer_phone c) then (Inr (), w)
               else if list_ex (\<lambda>f. feedbackRequest_appointmentId f = Some appointmentId \<and>
                      feedbackRequest_tenantId f = tenantId) (w_feedbackRequests w)
               then (Inr (), w)
               else let phone = the (customer_phone c);
                        w1 = createFeedbackRequest now tenantId appointmentId (customer_id c) phone w
                    in bindA (send E now (request tenantId SMS phone (feedbackText (customer_firstName c))))
                         (\<lambda>_. modifyA (\<lambda>v. case contactByNumber tenantId phone v of
                            None \<Rightarrow> v
                          | Some k \<Rightarrow> addActivity now tenantId (contact_id k) ''review_requested''
                              (Some appointmentId) (JObj [(''phone'', JStr phone)]) v)) w1))"

text \<open>The latest pending request that has not expired.\<close>

definition hasPendingFeedbackRequest :: "instant \<Rightarrow> string \<Rightarrow> uuid \<Rightarrow> world \<Rightarrow> feedbackRequest option" where
  "hasPendingFeedbackRequest now phone tenantId w =
     first_of (order_desc feedbackRequest_sentAt
       (filter (\<lambda>f. feedbackRequest_phone f = phone \<and> feedbackRequest_tenantId f = tenantId \<and>
                    feedbackRequest_status f = ''PENDING'' \<and> feedbackRequest_expiresAt f > now)
          (w_feedbackRequests w)))"

definition sentimentOf :: "int \<Rightarrow> string" where
  "sentimentOf rating = (if rating = 1 then ''POSITIVE'' else if rating = 2 then ''NEUTRAL'' else ''NEGATIVE'')"

definition createFeedbackResponse ::
  "instant \<Rightarrow> uuid \<Rightarrow> uuid \<Rightarrow> uuid \<Rightarrow> int \<Rightarrow> unit act" where
  "createFeedbackResponse now tenantId requestId customerId rating w =
     (if tenantExists tenantId w
      then (Inr (), bump (w\<lparr>w_feedbackResponses := w_feedbackResponses w @
             [\<lparr>feedbackResponse_id = newId w, feedbackResponse_tenantId = tenantId,
               feedbackResponse_requestId = requestId, feedbackResponse_customerId = customerId,
               feedbackResponse_rating = rating, feedbackResponse_sentiment = sentimentOf rating,
               feedbackResponse_reviewLinkSent = False, feedbackResponse_privateFormSent = False,
               feedbackResponse_receivedAt = now\<rparr>]\<rparr>))
      else (Inl (PrismaError ''P2003''), w))"

definition markResponses ::
  "uuid \<Rightarrow> (feedbackResponse \<Rightarrow> feedbackResponse) \<Rightarrow> world \<Rightarrow> world" where
  "markResponses requestId f w = w\<lparr>w_feedbackResponses :=
     update_where (\<lambda>r. feedbackResponse_requestId r = requestId) f (w_feedbackResponses w)\<rparr>"

definition tick :: string where
  "tick = [CHR 0x27]"

definition reviewText :: "googleConnection option \<Rightarrow> string" where
  "reviewText connection = (case connection of
     None \<Rightarrow> ''We'' @ tick @ ''re so glad you had a great experience! Thank you for your kind words.''
   | Some g \<Rightarrow> ''We'' @ tick @ ''re so glad you had a great experience! Would you mind leaving us a Google '' @
       ''review? It means the world to us:'' @ newline @
       ''https://search.google.com/local/writereview?placeid='' @ googleConnection_locationId g)"

definition privateText :: string where
  "privateText = ''We'' @ tick @ ''re sorry to hear that. We'' @ tick @ ''d love to make it right '' @
     [char_of (0xE2 :: nat), char_of (0x80 :: nat), char_of (0x94 :: nat)] @
     '' a team member will reach out to you shortly. Thank you for letting us know.''"

definition neutralText :: string where
  "neutralText = ''Thank you for your feedback! We'' @ tick @ ''re always working to improve your experience.''"

text \<open>
  The answer is returned to the webhook and also sent as an SMS of its own, whose errors are dropped.
  Telling the owner of a negative rating only writes to the log.
\<close>

definition processFeedbackReply ::
  "env \<Rightarrow> instant \<Rightarrow> string \<Rightarrow> int \<Rightarrow> uuid \<Rightarrow> uuid \<Rightarrow> string act" where
  "processFeedbackReply E now phone rating tenantId requestId w =
     (case List.find (\<lambda>f. feedbackRequest_id f = requestId) (w_feedbackRequests w) of
        None \<Rightarrow> (Inr ''Thank you for your feedback!'', w)
      | Some req \<Rightarrow>
          thenA (createFeedbackResponse now tenantId requestId (feedbackRequest_customerId req) rating)
          (thenA (updateRow w_feedbackRequests putFeedbackRequests feedbackRequest_id requestId
                    (\<lambda>f. f\<lparr>feedbackRequest_status := ''RESPONDED''\<rparr>))
          (\<lambda>v.
             let connection = List.find (\<lambda>g. googleConnection_tenantId g = tenantId) (w_googleConnections v);
                 answer = (if rating = 1 then reviewText connection
                           else if rating = 3 then privateText else neutralText);
                 v1 = (if rating = 1 \<and> connection \<noteq> None
                       then markResponses requestId (\<lambda>r. r\<lparr>feedbackResponse_reviewLinkSent := True\<rparr>) v
                       else if rating = 3
                       then markResponses requestId (\<lambda>r. r\<lparr>feedbackResponse_privateFormSent := True\<rparr>) v
                       else v)
             in (Inr answer, snd (send E now (request tenantId SMS phone answer) v1)))) w)"

record FeedbackStats =
  fs_total :: int
  fs_positive :: int
  fs_neutral :: int
  fs_negative :: int
  fs_avgRatingTenths :: int
  fs_satisfactionRate :: int
  fs_recent :: "feedbackResponse list"

text \<open>\<open>Math.round\<close> in exact arithmetic; the average is kept in tenths.\<close>

definition roundDiv :: "int \<Rightarrow> int \<Rightarrow> int" where
  "roundDiv a b = (2 * a + b) div (2 * b)"

definition getStats :: "uuid \<Rightarrow> world \<Rightarrow> FeedbackStats" where
  "getStats tenantId w =
     (let mine = filter (\<lambda>r. feedbackResponse_tenantId r = tenantId) (w_feedbackResponses w);
          n = (\<lambda>s. int (count_where (\<lambda>r. feedbackResponse_sentiment r = s) mine));
          total = int (length mine)
      in \<lparr>fs_total = total, fs_positive = n ''POSITIVE'', fs_neutral = n ''NEUTRAL'',
          fs_negative = n ''NEGATIVE'',
          fs_avgRatingTenths = (if total > 0
            then roundDiv (10 * (n ''POSITIVE'' * 1 + n ''NEUTRAL'' * 2 + n ''NEGATIVE'' * 3)) total else 0),
          fs_satisfactionRate = (if total > 0 then roundDiv (100 * n ''POSITIVE'') total else 0),
          fs_recent = take 10 (order_desc feedbackResponse_receivedAt mine)\<rparr>)"

text \<open>A page of responses, newest first; Prisma refuses a negative \<open>skip\<close>.\<close>

definition getResponses :: "uuid \<Rightarrow> int \<Rightarrow> nat \<Rightarrow> world \<Rightarrow> (feedbackResponse list \<times> nat) outcome" where
  "getResponses tenantId page limit w =
     (let mine = filter (\<lambda>r. feedbackResponse_tenantId r = tenantId) (w_feedbackResponses w);
          skip = (page - 1) * int limit
      in if skip < 0 then Inl (PrismaError ''PrismaClientValidationError'')
         else Inr (take limit (drop (nat skip) (order_desc feedbackResponse_receivedAt mine)), length mine))"

section \<open>One request per appointment\<close>

definition requestsFor :: "uuid \<Rightarrow> uuid \<Rightarrow> world \<Rightarrow> feedbackRequest list" where
  "requestsFor appointmentId tenantId w = filter (\<lambda>f. feedbackRequest_appointmentId f = Some appointmentId \<and>
     feedbackRequest_tenantId f = tenantId) (w_feedbackRequests w)"

lemma list_ex_filter: "list_ex p xs \<longleftrightarrow> filter p xs \<noteq> []"
  by (induction xs) auto

lemma addActivity_frame [simp]:
  "w_feedbackRequests (addActivity now t c k ref meta w) = w_feedbackRequests w"
  "w_outbox (addActivity now t c k ref meta w) = w_outbox w"
  by (simp_all add: addActivity_def bump_def)

text \<open>
  The conditions under which the code gets as far as asking: the appointment, its customer, a number.
\<close>

definition mayAsk :: "uuid \<Rightarrow> uuid \<Rightarrow> world \<Rightarrow> (customer \<times> string) option" where
  "mayAsk appointmentId tenantId w =
     Option.bind (List.find (\<lambda>a. appointment_id a = appointmentId \<and> appointment_tenantId a = tenantId)
         (w_appointments w))
       (\<lambda>a. Option.bind (customerOf a w)
         (\<lambda>c. if truthy (customer_phone c) then Some (c, the (customer_phone c)) else None))"

lemma sendFeedbackRequest_off:
  "mayAsk appointmentId tenantId w = None \<or> requestsFor appointmentId tenantId w \<noteq> [] \<Longrightarrow>
   sendFeedbackRequest E now appointmentId tenantId w = (Inr (), w)"
  by (auto simp: mayAsk_def sendFeedbackRequest_def requestsFor_def list_ex_filter Option.bind_eq_None_conv
      split: option.split)

lemma sendFeedbackRequest_on:
  assumes "mayAsk appointmentId tenantId w = Some (c, phone)" and "requestsFor appointmentId tenantId w = []"
  shows "w_feedbackRequests (snd (sendFeedbackRequest E now appointmentId tenantId w)) =
    w_feedbackRequests (createFeedbackRequest now tenantId appointmentId (customer_id c) phone w)"
proof -
  let ?w1 = "createFeedbackRequest now tenantId appointmentId (customer_id c) phone w"
  have "w_feedbackRequests (snd (bindA (send E now q)
      (\<lambda>_. modifyA (\<lambda>v. case contactByNumber tenantId phone v of None \<Rightarrow> v
         | Some k \<Rightarrow> addActivity now tenantId (contact_id k) kind ref meta v)) ?w1)) =
      w_feedbackRequests ?w1" for q kind ref meta
    by (rule snd_bindA [where P = "\<lambda>v. w_feedbackRequests v = w_feedbackRequests ?w1"])
       (simp_all split: option.split)
  then show ?thesis
    using assms by (auto simp: mayAsk_def sendFeedbackRequest_def requestsFor_def list_ex_filter Let_def
        bind_eq_Some_conv split: option.splits if_splits)
qed

text \<open>
  Feedback is asked for once. However often and whenever the request for an appointment is triggered
  again, the second call does nothing at all: no second message, no second request, the same state.
\<close>

theorem feedback_asked_once:
  "sendFeedbackRequest E later appointmentId tenantId
      (snd (sendFeedbackRequest E now appointmentId tenantId w)) =
   (Inr (), snd (sendFeedbackRequest E now appointmentId tenantId w))"
proof (cases "mayAsk appointmentId tenantId w = None \<or> requestsFor appointmentId tenantId w \<noteq> []")
  case True
  then show ?thesis by (simp add: sendFeedbackRequest_off)
next
  case False
  then obtain c phone where "mayAsk appointmentId tenantId w = Some (c, phone)"
    and "requestsFor appointmentId tenantId w = []"
    by (metis not_None_eq prod.exhaust)
  note on = sendFeedbackRequest_on [OF this, of E now]
  have "requestsFor appointmentId tenantId (snd (sendFeedbackRequest E now appointmentId tenantId w)) \<noteq> []"
    unfolding requestsFor_def on by (simp add: createFeedbackRequest_def bump_def)
  then show ?thesis by (simp add: sendFeedbackRequest_off)
qed

end
