(* ===== verification/Event_Lifecycle.thy ===== *)
theory Event_Lifecycle
  imports Reputation Workflow_Engine
begin

text \<open>
  \<open>modules/appointment/event-lifecycle.service.ts\<close>: what follows a change of an appointment: automation
  triggers, the activity log, the feedback request, and the read model of the whole pipeline. Calls
  the code does not wait for run here one after the other.
\<close>

fun appointmentStatusName :: "AppointmentStatus \<Rightarrow> string" where
  "appointmentStatusName A_SCHEDULED = ''SCHEDULED''"
| "appointmentStatusName A_CONFIRMED = ''CONFIRMED''"
| "appointmentStatusName A_COMPLETED = ''COMPLETED''"
| "appointmentStatusName A_CANCELLED = ''CANCELLED''"
| "appointmentStatusName A_NO_SHOW = ''NO_SHOW''"

definition onEventScheduled :: "instant \<Rightarrow> uuid \<Rightarrow> uuid \<Rightarrow> json \<Rightarrow> world \<Rightarrow> world" where
  "onEventScheduled now tenantId appointmentId entityData =
     fireTrigger now tenantId ''appointment_created'' appointmentId entityData"

text \<open>A failing step is logged; the campaign created before it stays.\<close>

definition setupBulkRsvpCampaign :: "instant \<Rightarrow> uuid \<Rightarrow> uuid \<Rightarrow> string \<Rightarrow> world \<Rightarrow> world" where
  "setupBulkRsvpCampaign now tenantId firstAppointmentId title w =
     (if tenantExists tenantId w
      then let i = newId w;
               w1 = bump (w\<lparr>w_campaigns := w_campaigns w @
                 [\<lparr>campaign_id = i, campaign_tenantId = tenantId, campaign_name = ''RSVP: '' @ title,
                   campaign_description = None, campaign_body = None, campaign_channel = None,
                   campaign_scheduledAt = None, campaign_status = ''draft'', campaign_createdAt = now,
      campaign_isDemoData = False\<rparr>]\<rparr>)
           in snd (updateAppointment firstAppointmentId (\<lambda>a. a\<lparr>appointment_campaignId := Some i\<rparr>) w1)
      else w)"

fun triggerMap :: "AppointmentStatus \<Rightarrow> string option" where
  "triggerMap A_CONFIRMED = Some ''appointment_confirmed''"
| "triggerMap A_CANCELLED = Some ''appointment_cancelled''"
| "triggerMap A_COMPLETED = Some ''appointment_completed''"
| "triggerMap A_NO_SHOW = Some ''appointment_no_show''"
| "triggerMap A_SCHEDULED = None"

text \<open>The activity of the appointment's first participant, if it has one.\<close>

definition participantActivity ::
  "instant \<Rightarrow> uuid \<Rightarrow> uuid \<Rightarrow> string \<Rightarrow> json \<Rightarrow> world \<Rightarrow> world" where
  "participantActivity now tenantId appointmentId kind meta w =
     (case List.find (\<lambda>p. participant_appointmentId p = appointmentId) (w_participants w) of
        None \<Rightarrow> w
      | Some p \<Rightarrow> addActivity now tenantId (participant_contactId p) kind (Some appointmentId) meta w)"

definition onStatusChanged ::
  "env \<Rightarrow> instant \<Rightarrow> uuid \<Rightarrow> uuid \<Rightarrow> AppointmentStatus \<Rightarrow> AppointmentStatus option \<Rightarrow> json \<Rightarrow> world \<Rightarrow> world" where
  "onStatusChanged E now tenantId appointmentId oldStatus newStatus entityData w =
     (case newStatus of
        None \<Rightarrow> w
      | Some st \<Rightarrow>
          if oldStatus = st then w
          else let w1 = (case triggerMap st of None \<Rightarrow> w
                   | Some trig \<Rightarrow> fireTrigger now tenantId trig appointmentId entityData w);
                   w2 = (if st = A_CONFIRMED
                     then participantActivity now tenantId appointmentId ''appointment_confirmed''
                            (JObj [(''status'', JStr (appointmentStatusName st))]) w1
                     else w1)
               in if st = A_COMPLETED then snd (sendFeedbackRequest E now appointmentId tenantId w2) else w2)"

definition onRescheduled ::
  "instant \<Rightarrow> uuid \<Rightarrow> uuid \<Rightarrow> instant \<Rightarrow> instant \<Rightarrow> json \<Rightarrow> world \<Rightarrow> world" where
  "onRescheduled now tenantId appointmentId oldTime newTime entityData w =
     participantActivity now tenantId appointmentId ''appointment_rescheduled''
       (JObj [(''oldTime'', JDate oldTime), (''newTime'', JDate newTime)])
       (fireTrigger now tenantId ''appointment_rescheduled'' appointmentId entityData w)"

section \<open>The pipeline view\<close>

record ParticipantView =
  pv_contactId :: uuid
  pv_name :: "string option"
  pv_phone :: "string option"
  pv_status :: string

record CampaignView =
  cv_id :: uuid
  cv_name :: string
  cv_confirmed :: nat
  cv_cancelled :: nat
  cv_pending :: nat
  cv_total :: nat

record FeedbackView =
  fv_status :: string
  fv_rating :: "int option"
  fv_sentiment :: "string option"

record Pipeline =
  pl_appointment :: appointment
  pl_location :: "location option"
  pl_customer :: "customer option"
  pl_participants :: "ParticipantView list"
  pl_reminders :: "reminder list"
  pl_rsvpCampaign :: "CampaignView option"
  pl_feedback :: "FeedbackView option"
  pl_timeline :: "contactActivity list"

definition campaignView :: "uuid \<Rightarrow> appointment \<Rightarrow> world \<Rightarrow> CampaignView option" where
  "campaignView tenantId a w = Option.bind (appointment_campaignId a) (\<lambda>ci.
     map_option (\<lambda>c.
       let n = (\<lambda>st. count_where (\<lambda>m. messageResponse_broadcastId m = campaign_id c \<and>
              messageResponse_tenantId m = tenantId \<and> messageResponse_responseStatus m = st)
              (w_messageResponses w))
       in \<lparr>cv_id = campaign_id c, cv_name = campaign_name c, cv_confirmed = n P_confirmed,
           cv_cancelled = n P_cancelled, cv_pending = n P_pending,
           cv_total = count_where (\<lambda>r. campaignRecipient_campaignId r = campaign_id c)
             (w_campaignRecipients w)\<rparr>)
       (List.find (\<lambda>c. campaign_id c = ci \<and> campaign_tenantId c = tenantId) (w_campaigns w)))"

definition feedbackView :: "uuid \<Rightarrow> uuid \<Rightarrow> world \<Rightarrow> FeedbackView option" where
  "feedbackView tenantId appointmentId w = map_option (\<lambda>f.
     let r = first_of (order_desc feedbackResponse_receivedAt
           (filter (\<lambda>r. feedbackResponse_requestId r = feedbackRequest_id f) (w_feedbackResponses w)))
     in \<lparr>fv_status = feedbackRequest_status f, fv_rating = map_option feedbackResponse_rating r,
         fv_sentiment = map_option feedbackResponse_sentiment r\<rparr>)
     (List.find (\<lambda>f. feedbackRequest_appointmentId f = Some appointmentId \<and>
        feedbackRequest_tenantId f = tenantId) (w_feedbackRequests w))"

definition getPipeline :: "uuid \<Rightarrow> uuid \<Rightarrow> world \<Rightarrow> Pipeline option" where
  "getPipeline tenantId appointmentId w =
     map_option (\<lambda>a.
       \<lparr>pl_appointment = a,
        pl_location = Option.bind (appointment_locationId a)
          (\<lambda>i. List.find (\<lambda>l. location_id l = i) (w_locations w)),
        pl_customer = customerOf a w,
        pl_participants = map (\<lambda>p.
          let k = List.find (\<lambda>c. contact_id c = participant_contactId p) (w_contacts w)
          in \<lparr>pv_contactId = participant_contactId p, pv_name = map_option contact_name k,
              pv_phone = Option.bind k contact_phone, pv_status = participant_status p\<rparr>)
          (filter (\<lambda>p. participant_appointmentId p = appointmentId) (w_participants w)),
        pl_reminders = order_asc reminder_scheduledSendTime
          (filter (\<lambda>r. reminder_appointmentId r = Some appointmentId) (w_reminders w)),
        pl_rsvpCampaign = campaignView tenantId a w,
        pl_feedback = feedbackView tenantId appointmentId w,
        pl_timeline = order_asc contactActivity_createdAt
          (filter (\<lambda>x. contactActivity_referenceId x = Some appointmentId \<and>
                       contactActivity_tenantId x = tenantId) (w_contactActivities w))\<rparr>)
     (List.find (\<lambda>a. appointment_id a = appointmentId \<and> appointment_tenantId a = tenantId)
        (w_appointments w))"

end
