(* ===== verification/Rescheduling.thy ===== *)
theory Rescheduling
  imports Event_Lifecycle Reminder_Properties
begin

text \<open>
  \<open>modules/rescheduling/rescheduling.service.ts\<close>: a customer who wants another time is offered the next
  open slots by message, the offer is kept as a session for half an hour, and the number replied moves
  the appointment and its reminders. Local time is UTC plus the constant \<open>e_tz\<close>.
\<close>

section \<open>Slots\<close>

definition SESSION_TTL_MS :: int where
  "SESSION_TTL_MS = 30 * 60 * 1000"

definition SLOTS_TO_OFFER :: nat where
  "SLOTS_TO_OFFER = 5"

definition BUSINESS_START_HOUR :: int where
  "BUSINESS_START_HOUR = 9"

definition BUSINESS_END_HOUR :: int where
  "BUSINESS_END_HOUR = 17"

definition SLOT_DURATION_MINUTES :: int where
  "SLOT_DURATION_MINUTES = 60"

definition SEARCH_WINDOW_DAYS :: int where
  "SEARCH_WINDOW_DAYS = 14"

definition slotMs :: int where
  "slotMs = SLOT_DURATION_MINUTES * 60000"

text \<open>\<open>getDay\<close> and \<open>getHours\<close>: day 0 of the epoch was a Thursday (4).\<close>

definition getDay :: "env \<Rightarrow> instant \<Rightarrow> int" where
  "getDay E d = ((d + e_tz E) div 86400000 + 4) mod 7"

definition getHours :: "env \<Rightarrow> instant \<Rightarrow> int" where
  "getHours E d = ((d + e_tz E) div 3600000) mod 24"

definition isWeekday :: "env \<Rightarrow> instant \<Rightarrow> bool" where
  "isWeekday E d = (getDay E d \<noteq> 0 \<and> getDay E d \<noteq> 6)"

definition snapToHour :: "instant \<Rightarrow> instant" where
  "snapToHour ms = (ms div slotMs) * slotMs"

lemma slotMs_value [simp]: "slotMs = 3600000"
  by (simp add: slotMs_def SLOT_DURATION_MINUTES_def)

text \<open>The loop that marks the slots of one busy block.\<close>

function blocks :: "instant \<Rightarrow> instant \<Rightarrow> instant list" where
  "blocks ms stop = (if ms < stop then snapToHour ms # blocks (ms + slotMs) stop else [])"
  by pat_completeness auto
termination
  by (relation "measure (\<lambda>(ms, stop). nat (stop - ms))") auto

declare blocks.simps [simp del]

definition windowEndOf :: "instant \<Rightarrow> instant" where
  "windowEndOf now = now + SEARCH_WINDOW_DAYS * 24 * 60 * 60 * 1000"

definition existingAppointments :: "instant \<Rightarrow> uuid \<Rightarrow> uuid \<Rightarrow> world \<Rightarrow> appointment list" where
  "existingAppointments now tenantId appointmentId w =
     filter (\<lambda>a. appointment_tenantId a = tenantId \<and> appointment_id a \<noteq> appointmentId \<and>
                 appointment_status a \<in> {A_SCHEDULED, A_CONFIRMED} \<and>
                 now \<le> appointment_scheduledAt a \<and> appointment_scheduledAt a < windowEndOf now)
       (w_appointments w)"

definition calendarEvents :: "instant \<Rightarrow> uuid \<Rightarrow> world \<Rightarrow> calendarSyncedEvent list" where
  "calendarEvents now tenantId w =
     filter (\<lambda>e. calendarSyncedEvent_tenantId e = tenantId \<and> now \<le> calendarSyncedEvent_startAt e \<and>
                 calendarSyncedEvent_startAt e < windowEndOf now) (w_calendarSyncedEvents w)"

definition blockedMs :: "instant \<Rightarrow> uuid \<Rightarrow> uuid \<Rightarrow> world \<Rightarrow> instant list" where
  "blockedMs now tenantId appointmentId w =
     concat (map (\<lambda>a. blocks (appointment_scheduledAt a)
                        (appointment_scheduledAt a + appointment_durationMinutes a * 60000))
               (existingAppointments now tenantId appointmentId w)) @
     concat (map (\<lambda>e. blocks (calendarSyncedEvent_startAt e) (calendarSyncedEvent_endAt e))
               (calendarEvents now tenantId w))"

definition openSlot :: "env \<Rightarrow> instant list \<Rightarrow> instant \<Rightarrow> bool" where
  "openSlot E blocked cursor =
     (isWeekday E cursor \<and> BUSINESS_START_HOUR \<le> getHours E cursor \<and>
      getHours E cursor < BUSINESS_END_HOUR \<and> cursor \<notin> set blocked)"

text \<open>The search loop, with the number of slots found so far.\<close>

function searchSlots :: "(instant \<Rightarrow> bool) \<Rightarrow> instant \<Rightarrow> instant \<Rightarrow> nat \<Rightarrow> instant list" where
  "searchSlots ok windowEnd cursor n =
     (if cursor < windowEnd \<and> n < SLOTS_TO_OFFER
      then if ok cursor then cursor # searchSlots ok windowEnd (cursor + slotMs) (Suc n)
           else searchSlots ok windowEnd (cursor + slotMs) n
      else [])"
  by pat_completeness auto
termination
  by (relation "measure (\<lambda>(ok, windowEnd, cursor, n). nat (windowEnd - cursor))") auto

declare searchSlots.simps [simp del]

text \<open>The next whole hour of local time.\<close>

definition searchStart :: "env \<Rightarrow> instant \<Rightarrow> instant" where
  "searchStart E now = now - (now + e_tz E) mod 3600000 + 3600000"

record AvailableSlot =
  sl_index :: nat
  sl_dateTime :: instant
  sl_label :: string

definition slotTimes :: "env \<Rightarrow> instant \<Rightarrow> uuid \<Rightarrow> uuid \<Rightarrow> world \<Rightarrow> instant list" where
  "slotTimes E now tenantId appointmentId w =
     searchSlots (openSlot E (blockedMs now tenantId appointmentId w)) (windowEndOf now) (searchStart E now) 0"

definition generateAvailableSlots :: "env \<Rightarrow> instant \<Rightarrow> uuid \<Rightarrow> uuid \<Rightarrow> world \<Rightarrow> AvailableSlot list" where
  "generateAvailableSlots E now tenantId appointmentId w =
     map (\<lambda>(i, t). \<lparr>sl_index = Suc i, sl_dateTime = t, sl_label = e_formatSlot E t\<rparr>)
       (List.enumerate 0 (slotTimes E now tenantId appointmentId w))"

section \<open>Operations\<close>

text \<open>The service's own send helper: no log, and everything that is not WhatsApp is an SMS.\<close>

definition sendMessage :: "env \<Rightarrow> string \<Rightarrow> string \<Rightarrow> ChannelType \<Rightarrow> world \<Rightarrow> world" where
  "sendMessage E phone message channel w =
     (if channel = WHATSAPP
      then if useTwilio E then snd (twilio_sendWhatsApp E phone message w)
           else snd (mock_send E WHATSAPP phone message w)
      else if useTwilio E then snd (twilio_sendSms E phone message None w)
           else snd (mock_send E SMS phone message w))"

definition offerText :: "AvailableSlot list \<Rightarrow> string" where
  "offerText slots = join newline
     ([''Choose a new time:''] @
      map (\<lambda>s. show_nat (sl_index s) @ '') '' @ sl_label s) slots @
      [''Reply with the number (1-'' @ show_nat (length slots) @ '') to confirm.''])"

definition sendRescheduleOptions ::
  "env \<Rightarrow> instant \<Rightarrow> string \<Rightarrow> uuid \<Rightarrow> uuid \<Rightarrow> ChannelType \<Rightarrow> unit act" where
  "sendRescheduleOptions E now phone tenantId appointmentId channel w =
     (let slots = generateAvailableSlots E now tenantId appointmentId w
      in if slots = []
         then (Inr (), sendMessage E phone (''Sorry, no available slots were found in the next 2 weeks. '' @
                ''Please call us to reschedule.'') channel w)
         else let w1 = w\<lparr>w_rescheduleSessions := delete_where (\<lambda>s. rescheduleSession_phone s = phone \<and>
                         rescheduleSession_tenantId s = tenantId) (w_rescheduleSessions w)\<rparr>
              in if appointmentId \<notin> appointment_id ` set (w_appointments w)
                 then (Inl (PrismaError ''P2003''), w1)
                 else (Inr (), sendMessage E phone (offerText slots) channel
                   (bump (w1\<lparr>w_rescheduleSessions := w_rescheduleSessions w1 @
                     [\<lparr>rescheduleSession_id = newId w1, rescheduleSession_tenantId = tenantId,
                       rescheduleSession_appointmentId = appointmentId, rescheduleSession_phone = phone,
                       rescheduleSession_channel = channel,
                       rescheduleSession_offeredSlots = map sl_dateTime slots,
                       rescheduleSession_expiresAt = now + SESSION_TTL_MS,
                       rescheduleSession_createdAt = now\<rparr>]\<rparr>))))"

definition rescheduleData :: "uuid \<Rightarrow> uuid \<Rightarrow> appointment \<Rightarrow> instant \<Rightarrow> customer option \<Rightarrow> json" where
  "rescheduleData tenantId appointmentId a newTime c = jobj
     [(''appointmentId'', Some (JStr appointmentId)), (''appointmentTitle'', Some (JStr (appointment_title a))),
      (''scheduledAt'', Some (JDate newTime)), (''customerId'', map_option JStr (appointment_customerId a)),
      (''customerName'', map_option (\<lambda>x. JStr (join '' ''
         (filter (\<lambda>s. s \<noteq> []) [customer_firstName x, customer_lastName x]))) c),
      (''customerPhone'', map_option JStr (Option.bind c customer_phone)),
      (''customerEmail'', map_option JStr (Option.bind c customer_email)),
      (''tenantId'', Some (JStr tenantId))]"

definition updateAppointmentTime :: "instant \<Rightarrow> uuid \<Rightarrow> instant \<Rightarrow> uuid \<Rightarrow> unit act" where
  "updateAppointmentTime now appointmentId newTime tenantId w =
     (let existing = findAppointment appointmentId w
      in thenA (updateAppointment appointmentId
                  (\<lambda>a. a\<lparr>appointment_scheduledAt := newTime, appointment_status := A_SCHEDULED\<rparr>))
           (modifyA (\<lambda>v. case existing of
              None \<Rightarrow> v
            | Some a \<Rightarrow> onRescheduled now tenantId appointmentId (appointment_scheduledAt a) newTime
                (rescheduleData tenantId appointmentId a newTime (customerOf a w)) v)) w)"

definition rescheduleReminderJobs :: "env \<Rightarrow> instant \<Rightarrow> uuid \<Rightarrow> uuid \<Rightarrow> unit act" where
  "rescheduleReminderJobs E now appointmentId tenantId =
     bindA (cancelForAppointment appointmentId) (\<lambda>_.
       bindA (scheduleForAppointment E now appointmentId tenantId) (\<lambda>_. returnA ()))"

definition liveSession :: "instant \<Rightarrow> string \<Rightarrow> rescheduleSession \<Rightarrow> bool" where
  "liveSession now phone s = (rescheduleSession_phone s = phone \<and> rescheduleSession_expiresAt s > now)"

definition hasActiveSession :: "instant \<Rightarrow> string \<Rightarrow> world \<Rightarrow> bool" where
  "hasActiveSession now phone w = list_ex (liveSession now phone) (w_rescheduleSessions w)"

definition currentSession :: "instant \<Rightarrow> string \<Rightarrow> world \<Rightarrow> rescheduleSession option" where
  "currentSession now phone w = first_of (order_desc rescheduleSession_createdAt
     (filter (liveSession now phone) (w_rescheduleSessions w)))"

definition deleteSession :: "uuid \<Rightarrow> unit act" where
  "deleteSession i w =
     (if i \<in> rescheduleSession_id ` set (w_rescheduleSessions w)
      then (Inr (), w\<lparr>w_rescheduleSessions :=
              delete_where (\<lambda>s. rescheduleSession_id s = i) (w_rescheduleSessions w)\<rparr>)
      else (Inl (PrismaError ''P2025''), w))"

definition processSlotSelection ::
  "env \<Rightarrow> instant \<Rightarrow> string \<Rightarrow> string \<Rightarrow> string option act" where
  "processSlotSelection E now phone digit w =
     (case currentSession now phone w of
        None \<Rightarrow> (Inr None, w)
      | Some s \<Rightarrow>
          let slots = rescheduleSession_offeredSlots s;
              invalid = Some (''Invalid selection. Please reply with a number between 1 and '' @
                          show_nat (length slots) @ ''.'')
          in (case parseInt digit of
                None \<Rightarrow> (Inr invalid, w)
              | Some i \<Rightarrow>
                  if i < 1 \<or> i > int (length slots) then (Inr invalid, w)
                  else let newTime = slots ! nat (i - 1)
                       in thenA (updateAppointmentTime now (rescheduleSession_appointmentId s) newTime
                                   (rescheduleSession_tenantId s))
                          (thenA (rescheduleReminderJobs E now (rescheduleSession_appointmentId s)
                                   (rescheduleSession_tenantId s))
                          (thenA (deleteSession (rescheduleSession_id s))
                            (returnA (Some (''Your appointment has been rescheduled to '' @
                               e_formatSlot E newTime @ ''. New reminders will be sent.''))))) w))"

section \<open>The slots offered\<close>

text \<open>The reference: the first five open hours among all whole hours of the window.\<close>

definition hoursUntil :: "instant \<Rightarrow> instant \<Rightarrow> instant list" where
  "hoursUntil start stop = map (\<lambda>k. start + int k * 3600000) [0..<nat ((stop - start + 3599999) div 3600000)]"

lemma hoursUntil_step:
  "hoursUntil c stop = (if c < stop then c # hoursUntil (c + 3600000) stop else [])"
proof (cases "c < stop")
  case True
  let ?n = "nat ((stop - (c + 3600000) + 3599999) div 3600000)"
  have "(stop - c + 3599999) div 3600000 = (stop - (c + 3600000) + 3599999) div 3600000 + 1"
    using div_add_self1 [of 3600000 "stop - (c + 3600000) + 3599999"] by (simp add: algebra_simps)
  moreover have "0 \<le> (stop - (c + 3600000) + 3599999) div 3600000"
    using True by (intro div_int_pos_iff [THEN iffD2]) simp
  ultimately have "nat ((stop - c + 3599999) div 3600000) = Suc ?n"
    by (simp add: nat_add_distrib)
  then have "hoursUntil c stop = map (\<lambda>k. c + int k * 3600000) (0 # map Suc [0..<?n])"
    by (simp add: hoursUntil_def map_Suc_upt upt_conv_Cons del: upt_Suc)
  also have "\<dots> = c # hoursUntil (c + 3600000) stop"
    by (simp add: hoursUntil_def o_def algebra_simps)
  finally show ?thesis using True by simp
next
  case False
  then have "(stop - c + 3599999) div 3600000 \<le> 0"
    using zdiv_mono1 [of "stop - c + 3599999" 3599999 3600000] by simp
  then show ?thesis using False by (simp add: hoursUntil_def)
qed

lemma searchSlots_reference:
  "searchSlots ok stop c n = take (SLOTS_TO_OFFER - n) (filter ok (hoursUntil c stop))"
proof (induction ok stop c n rule: searchSlots.induct)
  case (1 ok stop c n)
  show ?case
  proof (cases "c < stop \<and> n < SLOTS_TO_OFFER")
    case True
    then obtain m where m: "SLOTS_TO_OFFER - n = Suc m" "SLOTS_TO_OFFER - Suc n = m"
      by (cases "SLOTS_TO_OFFER - n") auto
    show ?thesis
    proof (cases "ok c")
      case ok: True
      then show ?thesis using True 1(1) m
        by (subst searchSlots.simps, subst hoursUntil_step) simp
    next
      case notok: False
      then show ?thesis using True 1(2) m
        by (subst searchSlots.simps, subst hoursUntil_step) simp
    qed
  next
    case False
    then show ?thesis by (subst searchSlots.simps, subst hoursUntil_step) auto
  qed
qed

lemma hoursUntil_mem: "t \<in> set (hoursUntil c stop) \<Longrightarrow> c \<le> t \<and> t < stop \<and> (t - c) mod 3600000 = 0"
proof -
  assume "t \<in> set (hoursUntil c stop)"
  then obtain k where k: "k < nat ((stop - c + 3599999) div 3600000)" "t = c + int k * 3600000"
    by (auto simp: hoursUntil_def)
  then have "int k + 1 \<le> (stop - c + 3599999) div 3600000" by linarith
  then have "(int k + 1) * 3600000 \<le> (stop - c + 3599999) div 3600000 * 3600000"
    by (rule mult_right_mono) simp
  also have "(stop - c + 3599999) div 3600000 * 3600000 \<le> stop - c + 3599999"
    using minus_mod_eq_div_mult [of "stop - c + 3599999" 3600000]
      pos_mod_sign [of 3600000 "stop - c + 3599999"] by linarith
  finally have "(int k + 1) * 3600000 \<le> stop - c + 3599999" .
  then show ?thesis using k(2) by simp
qed

lemma slots_reference:
  "map sl_dateTime (generateAvailableSlots E now t i w) =
     take 5 (filter (openSlot E (blockedMs now t i w)) (hoursUntil (searchStart E now) (windowEndOf now))) \<and>
   map sl_index (generateAvailableSlots E now t i w) =
     [1..<Suc (length (generateAvailableSlots E now t i w))]"
proof -
  have "map sl_dateTime (generateAvailableSlots E now t i w) = slotTimes E now t i w"
    by (simp add: generateAvailableSlots_def o_def case_prod_unfold)
  moreover have "map sl_index (generateAvailableSlots E now t i w) =
      map Suc (map fst (List.enumerate 0 (slotTimes E now t i w)))"
    by (simp add: generateAvailableSlots_def o_def case_prod_unfold del: map_fst_enumerate)
  ultimately show ?thesis
    by (simp add: slotTimes_def searchSlots_reference SLOTS_TO_OFFER_def map_Suc_upt generateAvailableSlots_def
        del: upt_Suc)
qed

lemma offered_slot:
  assumes "s \<in> set (generateAvailableSlots E now t i w)"
  shows "now < sl_dateTime s" "sl_dateTime s < windowEndOf now"
    "openSlot E (blockedMs now t i w) (sl_dateTime s)" "(sl_dateTime s + e_tz E) mod 3600000 = 0"
proof -
  let ?x = "sl_dateTime s"
  have "?x \<in> set (map sl_dateTime (generateAvailableSlots E now t i w))" using assms by simp
  then have "?x \<in> set (filter (openSlot E (blockedMs now t i w)) (hoursUntil (searchStart E now) (windowEndOf now)))"
    unfolding conjunct1 [OF slots_reference] by (rule in_set_takeD)
  then have h: "searchStart E now \<le> ?x" "?x < windowEndOf now" "(?x - searchStart E now) mod 3600000 = 0"
    and o: "openSlot E (blockedMs now t i w) ?x"
    using hoursUntil_mem by auto
  have "now < searchStart E now"
    using pos_mod_bound [of 3600000 "now + e_tz E"] by (simp add: searchStart_def)
  then show "now < ?x" "?x < windowEndOf now" "openSlot E (blockedMs now t i w) ?x" using h o by simp_all
  have "searchStart E now + e_tz E = ((now + e_tz E) div 3600000 + 1) * 3600000"
    using minus_mod_eq_div_mult [of "now + e_tz E" 3600000] by (simp add: searchStart_def algebra_simps)
  then have "(searchStart E now + e_tz E) mod 3600000 = 0" by simp
  then have "((?x - searchStart E now) + (searchStart E now + e_tz E)) mod 3600000 = 0"
    using h(3) by (metis add.right_neutral mod_add_eq mod_0)
  then show "(?x + e_tz E) mod 3600000 = 0" by (simp add: algebra_simps)
qed

lemma blocks_aligned:
  assumes "a mod 3600000 = 0" and "x mod 3600000 = 0" and "a \<le> x" and "x < stop"
  shows "x \<in> set (blocks a stop)"
  using assms
proof (induction a stop rule: blocks.induct)
  case (1 a stop)
  show ?case
  proof (cases "x = a")
    case True
    have "snapToHour a = a" using 1(2) by (simp add: snapToHour_def mult.commute) (metis mult_div_mod_eq add.right_neutral)
    then show ?thesis using True 1(5) by (subst blocks.simps) simp
  next
    case False
    have "a + 3600000 \<le> x"
    proof -
      obtain m n where "a = 3600000 * m" "x = 3600000 * n" using 1(2,3) by (auto simp: mod_eq_0_iff_dvd dvd_def)
      then show ?thesis using False 1(4) by simp
    qed
    then have "x \<in> set (blocks (a + slotMs) stop)" using 1 False by simp
    then show ?thesis using 1(4,5) False by (subst blocks.simps) simp
  qed
qed

text \<open>
  C17: The offer is exactly the first five open hours. The times offered are, in order, the first
  SLOTS_TO_OFFER whole local hours after now within fourteen days that fall on a weekday between nine
  and five and are not marked busy; they are numbered from one.
\<close>

theorem slots_are_first_open_hours:
  "map sl_dateTime (generateAvailableSlots E now t i w) =
     take 5 (filter (openSlot E (blockedMs now t i w)) (hoursUntil (searchStart E now) (windowEndOf now))) \<and>
   map sl_index (generateAvailableSlots E now t i w) =
     [1..<Suc (length (generateAvailableSlots E now t i w))]"
  by (rule slots_reference)

text \<open>
  No double booking on whole hours. Where the process's local time differs from UTC by whole hours,
  no offered slot overlaps another scheduled or confirmed appointment of the tenant that starts in the
  window at a whole hour, whatever its duration.
\<close>

theorem aligned_appointments_respected:
  assumes "e_tz E mod 3600000 = 0" and "s \<in> set (generateAvailableSlots E now t i w)"
    and "a \<in> set (existingAppointments now t i w)" and "appointment_scheduledAt a mod 3600000 = 0"
  shows "sl_dateTime s + slotMs \<le> appointment_scheduledAt a \<or>
    appointment_scheduledAt a + appointment_durationMinutes a * 60000 \<le> sl_dateTime s"
proof (rule ccontr)
  let ?x = "sl_dateTime s" and ?a = "appointment_scheduledAt a"
  let ?stop = "?a + appointment_durationMinutes a * 60000"
  assume "\<not> (?x + slotMs \<le> ?a \<or> ?stop \<le> ?x)"
  then have lt: "?a < ?x + 3600000" "?x < ?stop" by auto
  have "(?x + e_tz E) mod 3600000 = 0" by (rule offered_slot(4) [OF assms(2)])
  then have x: "?x mod 3600000 = 0" using assms(1) by (metis add.right_neutral mod_add_right_eq)
  have "?a \<le> ?x"
  proof -
    obtain m n where "?a = 3600000 * m" "?x = 3600000 * n"
      using assms(4) x by (auto simp: mod_eq_0_iff_dvd dvd_def)
    then show ?thesis using lt(1) by simp
  qed
  then have "?x \<in> set (blocks ?a ?stop)" by (rule blocks_aligned [OF assms(4) x _ lt(2)])
  then have "?x \<in> set (blockedMs now t i w)" using assms(3) by (auto simp: blockedMs_def)
  then show False using offered_slot(3) [OF assms(2)] by (simp add: openSlot_def)
qed

text \<open>
  Bookings are ignored in half-hour time zones. Where local time differs from UTC by a fraction of
  an hour (India, Iran, parts of Australia), the marked times are whole hours of UTC and the candidates
  whole hours of local time: what is offered does not depend on the appointments and calendar events
  of the window at all.
\<close>

theorem half_hour_zone_ignores_bookings:
  assumes "e_tz E mod 3600000 \<noteq> 0"
  shows "map sl_dateTime (generateAvailableSlots E now t i w) =
    map sl_dateTime (generateAvailableSlots E now t i (w\<lparr>w_appointments := as, w_calendarSyncedEvents := es\<rparr>))"
proof -
  have whole: "x mod 3600000 = 0" if "x \<in> set (blocks a stop)" for a stop x
    using that
  proof (induction a stop rule: blocks.induct)
    case (1 a stop)
    then show ?case by (subst (asm) blocks.simps) (auto simp: snapToHour_def split: if_splits)
  qed
  then have block: "x mod 3600000 = 0" if "x \<in> set (blockedMs now t i v)" for x v
    using that by (auto simp: blockedMs_def)
  have cand: "x mod 3600000 \<noteq> 0" if "x \<in> set (hoursUntil (searchStart E now) (windowEndOf now))" for x
  proof
    assume x: "x mod 3600000 = 0"
    have h: "(x - searchStart E now) mod 3600000 = 0" using hoursUntil_mem [OF that] by simp
    have "searchStart E now + e_tz E = ((now + e_tz E) div 3600000 + 1) * 3600000"
      using minus_mod_eq_div_mult [of "now + e_tz E" 3600000] by (simp add: searchStart_def algebra_simps)
    then have "(searchStart E now + e_tz E) mod 3600000 = 0" by simp
    with h have "((x - searchStart E now) + (searchStart E now + e_tz E)) mod 3600000 = 0"
      by (metis add.right_neutral mod_add_eq mod_0)
    then have "(x + e_tz E) mod 3600000 = 0" by (simp add: algebra_simps)
    then have "e_tz E mod 3600000 = 0" using x by (metis add_0 mod_add_left_eq)
    with assms show False by simp
  qed
  have same: "filter (openSlot E (blockedMs now t i u)) (hoursUntil (searchStart E now) (windowEndOf now)) =
      filter (openSlot E (blockedMs now t i v)) (hoursUntil (searchStart E now) (windowEndOf now))" for u v
    using cand block by (intro filter_cong refl) (auto simp: openSlot_def)
  show ?thesis
    unfolding slots_reference [THEN conjunct1]
    by (simp only: same [of w "w\<lparr>w_appointments := as, w_calendarSyncedEvents := es\<rparr>"])
qed

definition clinicAt :: "instant \<Rightarrow> world" where
  "clinicAt start = (clinic [])\<lparr>w_appointments := [demoAppointment start]\<rparr>"

definition offered :: world where
  "offered = (clinicAt 7200000)\<lparr>w_rescheduleSessions := [\<lparr>rescheduleSession_id = ''s1'', rescheduleSession_tenantId = ''t1'',
     rescheduleSession_appointmentId = ''a1'', rescheduleSession_phone = ''+15550001111'',
     rescheduleSession_channel = SMS, rescheduleSession_offeredSlots = [3600000, 10800000],
     rescheduleSession_expiresAt = 1000, rescheduleSession_createdAt = 10\<rparr>]\<rparr>"

theorem half_hour_zone_ignores_bookings_witness:
  "map sl_dateTime (generateAvailableSlots (demoEnv\<lparr>e_tz := 19800000\<rparr>) 0 ''t1'' ''a9'' (clinic [])) =
   map sl_dateTime (generateAvailableSlots (demoEnv\<lparr>e_tz := 19800000\<rparr>) 0 ''t1'' ''a9''
     ((clinic [])\<lparr>w_appointments := [], w_calendarSyncedEvents := []\<rparr>))"
  by (rule half_hour_zone_ignores_bookings) simp

theorem aligned_appointments_respected_witness:
  "\<exists>s a. s \<in> set (generateAvailableSlots demoEnv 0 ''t1'' ''a9'' (clinicAt 36000000)) \<and>
     a \<in> set (existingAppointments 0 ''t1'' ''a9'' (clinicAt 36000000)) \<and>
     (sl_dateTime s + slotMs \<le> appointment_scheduledAt a \<or>
      appointment_scheduledAt a + appointment_durationMinutes a * 60000 \<le> sl_dateTime s)"
proof -
  let ?w = "clinicAt 36000000"
  have e: "e_tz demoEnv mod 3600000 = 0" by (simp add: demoEnv_def)
  let ?hours = "hoursUntil (searchStart demoEnv 0) (windowEndOf 0)"
  have "32400000 = 3600000 + int 8 * 3600000" by simp
  then have "32400000 \<in> set ?hours"
    unfolding hoursUntil_def by (auto simp: searchStart_def windowEndOf_def SEARCH_WINDOW_DAYS_def demoEnv_def)
  moreover have "openSlot demoEnv (blockedMs 0 ''t1'' ''a9'' ?w) 32400000" by code_simp
  ultimately have "filter (openSlot demoEnv (blockedMs 0 ''t1'' ''a9'' ?w)) ?hours \<noteq> []"
    by (auto simp: filter_empty_conv)
  then have "map sl_dateTime (generateAvailableSlots demoEnv 0 ''t1'' ''a9'' ?w) \<noteq> []"
    unfolding slots_reference [THEN conjunct1] by simp
  then obtain s where s: "s \<in> set (generateAvailableSlots demoEnv 0 ''t1'' ''a9'' ?w)"
    by (cases "generateAvailableSlots demoEnv 0 ''t1'' ''a9'' ?w") auto
  have a: "demoAppointment 36000000 \<in> set (existingAppointments 0 ''t1'' ''a9'' ?w)"
    by (simp add: existingAppointments_def clinicAt_def demoAppointment_def windowEndOf_def
        SEARCH_WINDOW_DAYS_def)
  have "appointment_scheduledAt (demoAppointment 36000000) mod 3600000 = 0"
    by (simp add: demoAppointment_def)
  from aligned_appointments_respected [OF e s a this] s a show ?thesis by blast
qed

section \<open>Choosing a slot\<close>

lemma cancel_keeps_appointments [keeps_intros]: "keeps (\<lambda>w. w_appointments w = A) (cancelForAppointment i)"
  unfolding cancelForAppointment_def
proof (rule keepsI)
  fix w :: world
  assume A: "w_appointments w = A"
  show "w_appointments (snd (cancelMatching p w)) = A" for p
    unfolding cancelMatching_def Let_def
  proof (rule snd_thenA)
    show "w_appointments (snd (forEachA cancelReminder rs w)) = A" for rs
      by (rule snd_forEachA) (simp_all add: A cancelReminder_def removeJob_def updateReminder_def updateRow_def)
  qed simp
qed

lemma schedule_keeps [simp]:
  "w_appointments (snd (scheduleForAppointment E now i t w)) = w_appointments w"
  "w_rescheduleSessions (snd (scheduleForAppointment E now i t w)) = w_rescheduleSessions w"
  by (simp_all add: scheduleForAppointment_def case_prod_beta Let_def split: option.split)
     (subst scheduleRules_frame, simp)+

lemma onRescheduled_appointments [simp]:
  "w_appointments (onRescheduled now t i old new d w) = w_appointments w"
  by (simp add: onRescheduled_def participantActivity_def addActivity_def bump_def frame_simps split: option.split)

lemma deleteSession_appointments [keeps_intros]: "keeps (\<lambda>w. w_appointments w = A) (deleteSession i)"
  by (rule keepsI) (simp add: deleteSession_def)

lemma reminderJobs_appointments [keeps_intros]:
  "keeps (\<lambda>w. w_appointments w = A) (rescheduleReminderJobs E now i t)"
  unfolding rescheduleReminderJobs_def by (intro keeps_intros) (simp add: keeps_def)

lemma updateAppointmentTime_appointments:
  "w_appointments (snd (updateAppointmentTime now i new t w)) =
     update_where (\<lambda>a. appointment_id a = i)
       (\<lambda>a. a\<lparr>appointment_scheduledAt := new, appointment_status := A_SCHEDULED\<rparr>) (w_appointments w)"
proof (cases "i \<in> appointment_id ` set (w_appointments w)")
  case True
  then show ?thesis
    by (simp add: updateAppointmentTime_def Let_def updateAppointment_def updateRow_ok split: option.split)
next
  case False
  then have "update_where (\<lambda>a. appointment_id a = i) f (w_appointments w) = w_appointments w" for f
    by (intro update_where_nothing) auto
  then show ?thesis
    using False by (simp add: updateAppointmentTime_def Let_def updateAppointment_def updateRow_def)
qed

text \<open>
  Choosing an offered slot moves exactly the appointment of the session to the time offered under
  that number and makes it SCHEDULED again; no other appointment changes. Neither the other
  appointments nor the calendar are looked at: the time is taken as it was offered, even if it was
  booked in the meantime.
\<close>

theorem slot_selection_moves_appointment:
  assumes "currentSession now phone w = Some s" and "parseInt digit = Some i"
    and "1 \<le> i" and "i \<le> int (length (rescheduleSession_offeredSlots s))"
  shows "w_appointments (snd (processSlotSelection E now phone digit w)) =
    update_where (\<lambda>a. appointment_id a = rescheduleSession_appointmentId s)
      (\<lambda>a. a\<lparr>appointment_scheduledAt := rescheduleSession_offeredSlots s ! nat (i - 1),
             appointment_status := A_SCHEDULED\<rparr>) (w_appointments w)"
proof -
  let ?id = "rescheduleSession_appointmentId s" and ?t = "rescheduleSession_tenantId s"
    and ?new = "rescheduleSession_offeredSlots s ! nat (i - 1)"
  let ?A = "update_where (\<lambda>a. appointment_id a = ?id)
      (\<lambda>a. a\<lparr>appointment_scheduledAt := ?new, appointment_status := A_SCHEDULED\<rparr>) (w_appointments w)"
  have rest: "keeps (\<lambda>v. w_appointments v = ?A)
      (thenA (rescheduleReminderJobs E now ?id ?t) (thenA (deleteSession (rescheduleSession_id s)) (returnA x)))"
    for x :: "string option"
    by (intro keeps_intros)
  have "w_appointments (snd (thenA (updateAppointmentTime now ?id ?new ?t)
      (thenA (rescheduleReminderJobs E now ?id ?t)
        (thenA (deleteSession (rescheduleSession_id s)) (returnA x))) w)) = ?A" for x :: "string option"
  proof (rule snd_thenA [where P = "\<lambda>v. w_appointments v = ?A"])
    show "w_appointments (snd (updateAppointmentTime now ?id ?new ?t w)) = ?A"
      by (rule updateAppointmentTime_appointments)
  qed (rule keepsD [OF rest])
  then show ?thesis using assms by (simp add: processSlotSelection_def Let_def)
qed

theorem slot_selection_moves_appointment_witness:
  "map appointment_scheduledAt (w_appointments
     (snd (processSlotSelection demoEnv 100 ''+15550001111'' ''2'' offered))) = [10800000]"
proof -
  obtain s where s: "currentSession 100 ''+15550001111'' offered = Some s"
    and v: "rescheduleSession_offeredSlots s = [3600000, 10800000]" "rescheduleSession_appointmentId s = ''a1''"
    by (auto simp: currentSession_def offered_def liveSession_def order_desc_def)
  have "parseInt ''2'' = Some 2" by code_simp
  from slot_selection_moves_appointment [OF s this] show ?thesis
    by (simp add: v offered_def clinicAt_def demoAppointment_def)
qed

end
