(* ===== verification/Twilio_Webhook.thy ===== *)
theory Twilio_Webhook
  imports Rsvp Rescheduling Compliance Failover
begin

text \<open>
  \<open>modules/messaging/twilio-webhook.controller.ts\<close>: delivery reports, and the router of what customers
  reply by SMS, WhatsApp or the telephone keypad.
\<close>

section \<open>Requests\<close>

text \<open>
  The signature check is Twilio's \<open>validateRequest\<close>, an argument of the handlers: \<open>None\<close> when it throws.
  Twilio sends \<open>From\<close> with every message and call; the other fields may be missing.
\<close>

record webhook_request =
  wr_signature :: "string option"
  wr_url :: string
  wr_From :: string
  wr_Body :: "string option"
  wr_MessageSid :: "string option"
  wr_MessageStatus :: "string option"
  wr_Digits :: "string option"

type_synonym validator = "string \<Rightarrow> webhook_request \<Rightarrow> bool option"

definition validateWebhook :: "validator \<Rightarrow> webhook_request \<Rightarrow> bool" where
  "validateWebhook V r = coalesce (V (coalesce (wr_signature r) []) r) False"

datatype webhook_reply = Received | Twiml string

definition emptyResponse :: webhook_reply where
  "emptyResponse = Twiml ''<Response></Response>''"

section \<open>Delivery reports\<close>

definition updateLogs :: "instant \<Rightarrow> string \<Rightarrow> string option \<Rightarrow> world \<Rightarrow> world" where
  "updateLogs now sid status w = w\<lparr>w_messageLogs :=
     update_where (\<lambda>l. messageLog_providerMessageId l = Some sid)
       (\<lambda>l. l\<lparr>messageLog_providerStatus := (if status = None then messageLog_providerStatus l else status),
              messageLog_deliveredAt := (if status = Some ''delivered'' then Some now
                else messageLog_deliveredAt l)\<rparr>) (w_messageLogs w)\<rparr>"

definition logBySid :: "string \<Rightarrow> world \<Rightarrow> messageLog option" where
  "logBySid sid w = List.find (\<lambda>l. messageLog_providerMessageId l = Some sid) (w_messageLogs w)"

text \<open>The activity is written without waiting for it, and its errors are dropped.\<close>

definition deliveredActivity :: "instant \<Rightarrow> messageLog \<Rightarrow> uuid \<Rightarrow> string \<Rightarrow> world \<Rightarrow> world" where
  "deliveredActivity now l reminderId sid w =
     (let c = Option.bind (findReminder reminderId w) (\<lambda>r. reminderCustomer r w);
          phone = Option.bind c customer_phone;
          email = Option.bind c customer_email
      in if truthy phone \<or> truthy email
         then (case List.find (\<lambda>k. contact_tenantId k = messageLog_tenantId l \<and>
                       (if truthy phone then contact_phone k = phone else contact_email k = email))
                     (w_contacts w) of
                 None \<Rightarrow> w
               | Some k \<Rightarrow> addActivity now (messageLog_tenantId l) (contact_id k) ''message_delivered''
                   (Some reminderId)
                   (JObj [(''channel'', JStr (channelName (messageLog_channel l))), (''messageSid'', JStr sid)]) w)
         else w)"

definition markDelivered :: "instant \<Rightarrow> string \<Rightarrow> unit act" where
  "markDelivered now sid w =
     (case logBySid sid w of
        None \<Rightarrow> (Inr (), w)
      | Some l \<Rightarrow>
          (case messageLog_reminderId l of
             None \<Rightarrow> (Inr (), w)
           | Some i \<Rightarrow> if i = [] then (Inr (), w)
               else thenA (updateReminder i (\<lambda>r. r\<lparr>reminder_status := R_DELIVERED\<rparr>))
                      (modifyA (deliveredActivity now l i sid)) w))"

definition failoverOnFailure :: "env \<Rightarrow> instant \<Rightarrow> string \<Rightarrow> unit act" where
  "failoverOnFailure E now sid w =
     (let d = detectDeliveryFailure sid w
      in case Option.bind (df_messageLog d) messageLog_reminderId of
           None \<Rightarrow> (Inr (), w)
         | Some i \<Rightarrow> if df_failed d \<and> i \<noteq> []
             then bindA (triggerFallbackChannel E now i (messageLog_tenantId (the (df_messageLog d)))
                    (messageLog_channel (the (df_messageLog d))) T_failed) (\<lambda>_. returnA ()) w
             else (Inr (), w))"

definition handleSmsStatus :: "env \<Rightarrow> validator \<Rightarrow> instant \<Rightarrow> webhook_request \<Rightarrow> webhook_reply act" where
  "handleSmsStatus E V now r w =
     (if \<not> validateWebhook V r then (Inl (ForbiddenException ''Invalid signature''), w)
      else if \<not> truthy (wr_MessageSid r) then (Inr emptyResponse, w)
      else let sid = the (wr_MessageSid r); status = wr_MessageStatus r
           in thenA (modifyA (updateLogs now sid status))
              (thenA (whenA (status = Some ''delivered'') (markDelivered now sid))
              (thenA (whenA (status = Some ''undelivered'' \<or> status = Some ''failed'')
                       (failoverOnFailure E now sid))
              (returnA emptyResponse))) w)"

section \<open>Log helpers\<close>

definition resolveTenantFromPhone :: "string \<Rightarrow> world \<Rightarrow> uuid" where
  "resolveTenantFromPhone phone w =
     coalesce (or_str (map_option messageLog_tenantId (first_of (order_desc messageLog_createdAt
       (filter (\<lambda>l. messageLog_recipient l = phone \<and> messageLog_direction l = OUTBOUND) (w_messageLogs w)))))
       (Some ''unknown'')) ''unknown''"

definition logInbound ::
  "instant \<Rightarrow> uuid \<Rightarrow> string \<Rightarrow> string \<Rightarrow> string option \<Rightarrow> ChannelType \<Rightarrow> unit act" where
  "logInbound now tenantId from body sid channel = createMessageLog (\<lambda>i.
     \<lparr>messageLog_id = i, messageLog_tenantId = tenantId, messageLog_reminderId = None,
      messageLog_channel = channel, messageLog_direction = INBOUND, messageLog_recipient = from,
      messageLog_content = Some body, messageLog_providerMessageId = sid,
      messageLog_providerStatus = Some ''received'', messageLog_sentAt = Some now,
      messageLog_deliveredAt = None, messageLog_createdAt = now,
      messageLog_contactId = None, messageLog_eventId = None,
      messageLog_isDemoData = False\<rparr>)"

definition parseResponseStatus :: "string \<Rightarrow> EventParticipantStatus" where
  "parseResponseStatus body =
     (let upper = toUpperCase (trim body)
      in if upper \<in> {''YES'', ''Y'', ''CONFIRM'', ''CONFIRMED'', ''1''} then P_confirmed
         else if upper \<in> {''NO'', ''N'', ''CANCEL'', ''CANCELLED'', ''DECLINE'', ''3''} then P_cancelled
         else P_pending)"

definition recentRecipient :: "string \<Rightarrow> world \<Rightarrow> campaignRecipient option" where
  "recentRecipient phone w = first_of (order_desc_null campaignRecipient_sentAt
     (filter (\<lambda>r. campaignRecipient_recipient r = phone \<and>
                  campaignRecipient_status r \<in> {''sent'', ''delivered''} \<and>
                  campaignRecipient_respondedAt r = None) (w_campaignRecipients w)))"

definition createMessageResponse ::
  "instant \<Rightarrow> uuid \<Rightarrow> uuid option \<Rightarrow> campaignRecipient \<Rightarrow> string \<Rightarrow> EventParticipantStatus \<Rightarrow> unit act" where
  "createMessageResponse now tenantId contactId recent body st w =
     (if Some (campaignRecipient_id recent) \<in> messageResponse_campaignRecipientId ` set (w_messageResponses w)
      then (Inl (PrismaError ''P2002''), w)
      else if \<not> tenantExists tenantId w then (Inl (PrismaError ''P2003''), w)
      else (Inr (), bump (w\<lparr>w_messageResponses := w_messageResponses w @
        [\<lparr>messageResponse_id = newId w, messageResponse_tenantId = tenantId,
          messageResponse_contactId = contactId,
          messageResponse_broadcastId = campaignRecipient_campaignId recent,
          messageResponse_campaignRecipientId = Some (campaignRecipient_id recent),
          messageResponse_responseText = body, messageResponse_responseStatus = st,
          messageResponse_timestamp = now\<rparr>]\<rparr>)))"

fun responseStatusName :: "EventParticipantStatus \<Rightarrow> string" where
  "responseStatusName P_invited = ''invited''"
| "responseStatusName P_confirmed = ''confirmed''"
| "responseStatusName P_cancelled = ''cancelled''"
| "responseStatusName P_pending = ''pending''"

text \<open>The whole body runs in a \<open>try\<close> whose handler only logs.\<close>

definition linkResponseToCampaign :: "instant \<Rightarrow> string \<Rightarrow> string \<Rightarrow> unit act" where
  "linkResponseToCampaign now phone body = swallowA (\<lambda>w.
     case recentRecipient phone w of
       None \<Rightarrow> (Inr (), w)
     | Some recent \<Rightarrow>
         thenA (updateRow w_campaignRecipients putCampaignRecipients campaignRecipient_id
                  (campaignRecipient_id recent) (\<lambda>r. r\<lparr>campaignRecipient_responseText := Some body,
                    campaignRecipient_respondedAt := Some now, campaignRecipient_status := ''responded''\<rparr>))
           (\<lambda>v. let t = map_option campaign_tenantId
                     (List.find (\<lambda>c. campaign_id c = campaignRecipient_campaignId recent) (w_campaigns v));
                    c = List.find (\<lambda>c. contact_phone c = Some phone \<and>
                          (case t of None \<Rightarrow> True | Some i \<Rightarrow> contact_tenantId c = i)) (w_contacts v);
                    tenantId = (case c of None \<Rightarrow> resolveTenantFromPhone phone v | Some k \<Rightarrow> contact_tenantId k);
                    st = parseResponseStatus body
                in thenA (createMessageResponse now tenantId (map_option contact_id c) recent body st)
                     (modifyA (\<lambda>u. case c of None \<Rightarrow> u
                        | Some k \<Rightarrow> addActivity now tenantId (contact_id k) ''campaign_response_received''
                            (Some (campaignRecipient_campaignId recent))
                            (JObj [(''responseText'', JStr body), (''responseStatus'', JStr (responseStatusName st)),
                                   (''campaignRecipientId'', JStr (campaignRecipient_id recent))]) u)) v) w)"

section \<open>Confirming, cancelling, rescheduling\<close>

text \<open>The customer is looked up by number alone, in every tenant.\<close>

definition customerByNumber :: "string \<Rightarrow> world \<Rightarrow> customer option" where
  "customerByNumber phone w = List.find (\<lambda>c. customer_phone c = Some phone) (w_customers w)"

definition nextAppointment ::
  "instant \<Rightarrow> uuid \<Rightarrow> AppointmentStatus set \<Rightarrow> world \<Rightarrow> appointment option" where
  "nextAppointment now customerId states w = first_of (order_asc appointment_scheduledAt
     (filter (\<lambda>a. appointment_customerId a = Some customerId \<and> appointment_status a \<in> states \<and>
                  now \<le> appointment_scheduledAt a) (w_appointments w)))"

definition statusData :: "customer \<Rightarrow> appointment \<Rightarrow> AppointmentStatus \<Rightarrow> json" where
  "statusData c a st = jobj
     [(''appointmentId'', Some (JStr (appointment_id a))),
      (''appointmentTitle'', Some (JStr (appointment_title a))),
      (''appointmentStatus'', Some (JStr (appointmentStatusName st))),
      (''scheduledAt'', Some (JDate (appointment_scheduledAt a))),
      (''customerId'', Some (JStr (customer_id c))),
      (''customerName'', let n = join '' '' (filter (\<lambda>s. s \<noteq> []) [customer_firstName c, customer_lastName c])
        in if n = [] then None else Some (JStr n)),
      (''customerPhone'', map_option JStr (customer_phone c)),
      (''customerEmail'', map_option JStr (customer_email c)),
      (''tenantId'', Some (JStr (customer_tenantId c)))]"

definition fireStatusLifecycle ::
  "env \<Rightarrow> instant \<Rightarrow> customer \<Rightarrow> appointment \<Rightarrow> AppointmentStatus \<Rightarrow> AppointmentStatus \<Rightarrow> world \<Rightarrow> world" where
  "fireStatusLifecycle E now c a old st =
     onStatusChanged E now (customer_tenantId c) (appointment_id a) old (Some st) (statusData c a st)"

definition setStatus :: "uuid \<Rightarrow> AppointmentStatus \<Rightarrow> unit act" where
  "setStatus i st = updateAppointment i (\<lambda>a. a\<lparr>appointment_status := st\<rparr>)"

definition statusAudit :: "uuid \<Rightarrow> uuid \<Rightarrow> AppointmentStatus \<Rightarrow> unit act" where
  "statusAudit tenantId appointmentId st = audit_log (auditEntry tenantId None ''UPDATE'' ''Appointment''
     appointmentId [(''status'', JStr (appointmentStatusName st)), (''via'', JStr ''reply'')])"

definition processConfirmation :: "env \<Rightarrow> instant \<Rightarrow> string \<Rightarrow> unit act" where
  "processConfirmation E now phone w =
     (case customerByNumber phone w of
        None \<Rightarrow> (Inr (), w)
      | Some c \<Rightarrow>
          (case nextAppointment now (customer_id c) {A_SCHEDULED} w of
             None \<Rightarrow> (Inr (), w)
           | Some a \<Rightarrow>
               thenA (setStatus (appointment_id a) A_CONFIRMED)
                 (thenA (statusAudit (customer_tenantId c) (appointment_id a) A_CONFIRMED)
                    (modifyA (fireStatusLifecycle E now c a (appointment_status a) A_CONFIRMED))) w))"

definition processCancellation :: "env \<Rightarrow> instant \<Rightarrow> string \<Rightarrow> unit act" where
  "processCancellation E now phone w =
     (case customerByNumber phone w of
        None \<Rightarrow> (Inr (), w)
      | Some c \<Rightarrow>
          (case nextAppointment now (customer_id c) {A_SCHEDULED, A_CONFIRMED} w of
             None \<Rightarrow> (Inr (), w)
           | Some a \<Rightarrow>
               thenA (setStatus (appointment_id a) A_CANCELLED)
                 (thenA (cancelQuietly (appointment_id a))
                 (thenA (statusAudit (customer_tenantId c) (appointment_id a) A_CANCELLED)
                    (modifyA (fireStatusLifecycle E now c a (appointment_status a) A_CANCELLED)))) w))"

definition initiateReschedule ::
  "env \<Rightarrow> instant \<Rightarrow> string \<Rightarrow> uuid \<Rightarrow> ChannelType \<Rightarrow> string act" where
  "initiateReschedule E now phone tenantId channel w =
     (case customerByNumber phone w of
        None \<Rightarrow> (Inr ''We could not find your appointment. Please call us to reschedule.'', w)
      | Some c \<Rightarrow>
          (case nextAppointment now (customer_id c) {A_SCHEDULED, A_CONFIRMED} w of
             None \<Rightarrow> (Inr ''No upcoming appointment found to reschedule.'', w)
           | Some a \<Rightarrow>
               thenA (sendRescheduleOptions E now phone tenantId (appointment_id a) channel)
                 (thenA (audit_log (auditEntry tenantId None ''UPDATE'' ''Appointment'' (appointment_id a)
                           [(''rescheduleRequested'', JBool True),
                            (''via'', JStr (toLowerCase (channelName channel) @ ''_reply''))]))
                    (returnA (''Great! We'' @ tick @ ''ll send you available time options in a moment.''))) w))"

section \<open>The router\<close>

definition QUEUED_REPLY :: string where
  "QUEUED_REPLY = ''Thanks! Your RSVP response has been received and is being processed.''"

definition CONFIRMED_REPLY :: string where
  "CONFIRMED_REPLY = ''Thank you! Your appointment has been confirmed.''"

definition CANCELLED_REPLY :: string where
  "CANCELLED_REPLY = ''Your appointment has been cancelled. Contact us to book a new time.''"

definition UNKNOWN_REPLY :: string where
  "UNKNOWN_REPLY = ''Reply 1 to Confirm, 2 to Reschedule, or 3 to Cancel your appointment.''"

definition MAYBE_REPLY :: string where
  "MAYBE_REPLY = ''Thanks for letting us know '' @ [char_of (0xE2 :: nat), char_of (0x80 :: nat),
     char_of (0x94 :: nat)] @ '' we'' @ tick @ ''ve noted you'' @ tick @ ''re unsure. Reply 1 to confirm or 3 '' @
     ''to cancel whenever you'' @ tick @ ''re ready, or call us if you'' @ tick @ ''d like to talk it through.''"

definition noteMaybe :: "string \<Rightarrow> unit act" where
  "noteMaybe phone w =
     (case customerByNumber phone w of
        None \<Rightarrow> (Inr (), w)
      | Some c \<Rightarrow> audit_log (auditEntry (customer_tenantId c) None ''UPDATE'' ''Customer'' (customer_id c)
          [(''rsvpReply'', JStr ''MAYBE''), (''via'', JStr ''reply'')]) w)"

text \<open>Steps 2 to 5: the commands.\<close>

definition processCommand ::
  "env \<Rightarrow> instant \<Rightarrow> string \<Rightarrow> string \<Rightarrow> ChannelType \<Rightarrow> uuid \<Rightarrow> string act" where
  "processCommand E now phone body channel tenantId =
     (if body \<in> {''1'', ''YES'', ''CONFIRM'', ''Y''}
      then thenA (processConfirmation E now phone) (returnA CONFIRMED_REPLY)
      else if body \<in> {''2'', ''RESCHEDULE'', ''R''} then initiateReschedule E now phone tenantId channel
      else if body \<in> {''3'', ''NO'', ''CANCEL'', ''N''}
      then thenA (processCancellation E now phone) (returnA CANCELLED_REPLY)
      else if body \<in> {''MAYBE'', ''M'', ''MAYBE?''}
      then thenA (noteMaybe phone) (returnA MAYBE_REPLY)
      else returnA UNKNOWN_REPLY)"

definition ratingOf :: "string \<Rightarrow> int" where
  "ratingOf body = coalesce (parseInt body) 0"

definition pendingFeedback :: "instant \<Rightarrow> string \<Rightarrow> uuid \<Rightarrow> string \<Rightarrow> world \<Rightarrow> feedbackRequest option" where
  "pendingFeedback now phone tenantId body w =
     (if body \<in> {''1'', ''2'', ''3''} then hasPendingFeedbackRequest now phone tenantId w else None)"

definition processInboundReply ::
  "env \<Rightarrow> instant \<Rightarrow> string \<Rightarrow> string \<Rightarrow> ChannelType \<Rightarrow> uuid \<Rightarrow> string act" where
  "processInboundReply E now phone body channel tenantId w =
     (if isOptOutKeyword body then thenA (optOut now phone tenantId channel) (returnA OPT_OUT_REPLY) w
      else if isOptInKeyword body then thenA (optIn phone tenantId channel) (returnA OPT_IN_REPLY) w
      else (case pendingFeedback now phone tenantId body w of
         Some f \<Rightarrow> processFeedbackReply E now phone (ratingOf body) tenantId (feedbackRequest_id f) w
       | None \<Rightarrow>
           if isRsvpKeyword body \<and> hasActiveInvitation now phone tenantId w
           then (Inr QUEUED_REPLY, enqueueRsvp now \<lparr>rj_tenantId = tenantId, rj_phone = phone, rj_body = body,
                   rj_channel = channel, rj_receivedAt = now\<rparr> w)
           else if hasActiveSession now phone w
           then bindA (processSlotSelection E now phone body)
                  (\<lambda>answer. if truthy answer then returnA (the answer)
                            else processCommand E now phone body channel tenantId) w
           else processCommand E now phone body channel tenantId w))"

section \<open>The inbound handlers\<close>

text \<open>
  The log and the campaign link are started together: when the log fails, the link still runs, and
  then the handler throws.
\<close>

definition inboundReply ::
  "env \<Rightarrow> instant \<Rightarrow> string \<Rightarrow> ChannelType \<Rightarrow> webhook_request \<Rightarrow> webhook_reply act" where
  "inboundReply E now from channel r w =
     (let body = toUpperCase (trim (coalesce (wr_Body r) []));
          sid = wr_MessageSid r
      in if truthy sid \<and> logBySid (the sid) w \<noteq> None then (Inr Received, w)
         else let tenantId = resolveTenantFromPhone from w;
                  (logged, w1) = logInbound now tenantId from body sid channel w;
                  w2 = snd (linkResponseToCampaign now from body w1)
              in case logged of
                   Inl e \<Rightarrow> (Inl e, w2)
                 | Inr _ \<Rightarrow> bindA (processInboundReply E now from body channel tenantId)
                     (\<lambda>text. returnA (Twiml (''<Response><Message>'' @ text @ ''</Message></Response>''))) w2)"

definition handleInboundSms :: "env \<Rightarrow> validator \<Rightarrow> instant \<Rightarrow> webhook_request \<Rightarrow> webhook_reply act" where
  "handleInboundSms E V now r w =
     (if \<not> validateWebhook V r then (Inl (ForbiddenException ''Invalid signature''), w)
      else inboundReply E now (wr_From r) SMS r w)"

definition stripWhatsapp :: "string \<Rightarrow> string" where
  "stripWhatsapp s = (if prefix ''whatsapp:'' s then drop 9 s else s)"

definition handleInboundWhatsApp :: "env \<Rightarrow> validator \<Rightarrow> instant \<Rightarrow> webhook_request \<Rightarrow> webhook_reply act" where
  "handleInboundWhatsApp E V now r w =
     (if \<not> validateWebhook V r then (Inl (ForbiddenException ''Invalid signature''), w)
      else inboundReply E now (stripWhatsapp (wr_From r)) WHATSAPP r w)"

definition triggerVoiceReschedule :: "env \<Rightarrow> instant \<Rightarrow> string \<Rightarrow> unit act" where
  "triggerVoiceReschedule E now phone w =
     bindA (initiateReschedule E now phone (resolveTenantFromPhone phone w) SMS) (\<lambda>_. returnA ()) w"

definition handleVoiceGather :: "env \<Rightarrow> validator \<Rightarrow> instant \<Rightarrow> webhook_request \<Rightarrow> webhook_reply act" where
  "handleVoiceGather E V now r w =
     (if \<not> validateWebhook V r then (Inl (ForbiddenException ''Invalid signature''), w)
      else let digit = coalesce (wr_Digits r) []
           in thenA (if digit = ''1'' then processConfirmation E now (wr_From r)
                     else if digit = ''2'' then triggerVoiceReschedule E now (wr_From r)
                     else if digit = ''3'' then processCancellation E now (wr_From r)
                     else returnA ())
                (returnA (Twiml (generateGatherResponse E digit))) w)"

definition handleVoiceStatus :: "webhook_request \<Rightarrow> webhook_reply act" where
  "handleVoiceStatus r = returnA emptyResponse"

end
