(* ===== verification/Twilio_Properties.thy ===== *)
theory Twilio_Properties
  imports Twilio_Webhook
begin

text \<open>
  What holds of the reply router: a message is handled once, what each step takes, and where its replies
  do not say what happened.
\<close>

section \<open>A handled message stays known\<close>

definition seen :: "string \<Rightarrow> world \<Rightarrow> bool" where
  "seen sid w = (\<exists>l \<in> set (w_messageLogs w). messageLog_providerMessageId l = Some sid)"

lemma logBySid_seen: "logBySid sid w = None \<longleftrightarrow> \<not> seen sid w"
  by (auto simp: logBySid_def seen_def find_None_iff)

lemma seen_same: "w_messageLogs v = w_messageLogs w \<Longrightarrow> seen sid v = seen sid w"
  by (simp add: seen_def)

lemma seen_more: "w_messageLogs v = w_messageLogs w @ ls \<Longrightarrow> seen sid w \<Longrightarrow> seen sid v"
  by (auto simp: seen_def)

lemma keeps_seen: "(\<And>w. w_messageLogs (snd (m w)) = w_messageLogs w) \<Longrightarrow> keeps (seen sid) m"
  by (auto simp: keeps_def seen_def)

lemma send_logs: "\<exists>ls. w_messageLogs (snd (send E now q w)) = w_messageLogs w @ ls"
proof -
  have log: "\<exists>ls. w_messageLogs (snd (createMessageLog mk v)) = w_messageLogs v @ ls" for mk v
    using createMessageLog_cases [of mk v] by auto
  have act: "w_messageLogs (logActivity now q to v) = w_messageLogs v" for to v
    by (simp add: logActivity_def addActivity_def split: option.split)
  have failed: "w_messageLogs (recordFailedReminder now t i c m v) = w_messageLogs v" for t i c m v
    by (simp add: recordFailedReminder_def)
  have d: "w_messageLogs w1 = w_messageLogs w" if "dispatch E now q to w = (r, w1)" for to r w1
    using dispatch_frame [of w_messageLogs E now q to w] that by simp
  have late: "\<exists>ls. w_messageLogs (snd (thenA (whenA b (createMessageLog mk)) (thenA (whenA c (modifyA (logActivity now q to)))
        (returnA x)) v)) = w_messageLogs v @ ls" for b c mk v to and x :: SendOutcome
    using log [of mk v] act by (auto simp: thenA_def bindA_def whenA_def split: prod.splits sum.splits)
  show ?thesis
  proof (rule send_cases [of E q now w])
    fix to r w1 b c mk out
    assume "dispatch E now q to w = (r, w1)" "snd (send E now q w) = snd (thenA (whenA b (createMessageLog mk))
         (thenA (whenA c (modifyA (logActivity now q to))) (returnA (out :: SendOutcome))) w1)"
    then show ?thesis using late [of b mk c to out w1] d by auto
  next
    fix to r w1 assume "dispatch E now q to w = (r, w1)" "snd (send E now q w) = w1"
    then show ?thesis using d by (intro exI [of _ "[]"]) simp
  next
    fix i m v assume "snd (send E now q w) = v"
      "v = w \<or> v = recordFailedReminder now (sq_tenantId q) i ''INVALID_PHONE_FORMAT'' m w"
    then show ?thesis by (intro exI [of _ "[]"]) (auto simp: failed)
  qed
qed

lemma send_seen [keeps_intros]: "keeps (seen sid) (send E now q)"
  unfolding keeps_def using send_logs seen_more by blast

lemma addActivity_logs [simp]: "w_messageLogs (addActivity now t c k ref meta w) = w_messageLogs w"
  by (simp add: addActivity_def)

lemma audit_logs [simp]: "w_messageLogs (snd (audit_log e w)) = w_messageLogs w"
  by (simp add: audit_log_def)

lemma row_logs [simp]:
  "w_messageLogs (snd (updateCustomer i f w)) = w_messageLogs w"
  "w_messageLogs (snd (updateContact i g w)) = w_messageLogs w"
  "w_messageLogs (snd (updateAppointment i h w)) = w_messageLogs w"
  "w_messageLogs (snd (updateReminder i k w)) = w_messageLogs w"
  by (simp_all add: updateCustomer_def updateContact_def updateAppointment_def updateReminder_def updateRow_def)

lemma setContact_logs [simp]: "w_messageLogs (snd (setContact b t p w)) = w_messageLogs w"
  by (simp add: setContact_def split: option.split)

lemma cancelMatching_logs [simp]: "w_messageLogs (snd (cancelMatching p w)) = w_messageLogs w"
  unfolding cancelMatching_def Let_def
proof (rule snd_thenA [where P = "\<lambda>v. w_messageLogs v = w_messageLogs w"])
  show "w_messageLogs (snd (forEachA cancelReminder rs w)) = w_messageLogs w" for rs
    by (rule snd_forEachA [where P = "\<lambda>v. w_messageLogs v = w_messageLogs w"])
       (simp_all add: cancelReminder_def removeJob_def)
qed simp

lemma cancelFor_seen [keeps_intros]: "keeps (seen sid) (cancelForAppointment i)"
  by (rule keeps_seen) (simp add: cancelForAppointment_def)

lemma cancelQuietly_seen [keeps_intros]: "keeps (seen sid) (cancelQuietly i)"
  unfolding cancelQuietly_def by (intro keeps_intros)

lemma optOut_seen [keeps_intros]: "keeps (seen sid) (optOut now phone t ch)"
proof (rule keepsI)
  fix w assume w: "seen sid w"
  have up: "keeps (seen sid) (cancelUpcoming now c)" for c
    unfolding cancelUpcoming_def by (rule keepsI, rule keepsD, intro keeps_intros) 
  have steps: "keeps (seen sid) (thenA (updateCustomer i f) (thenA (cancelUpcoming now c) (thenA (audit_log e) (setContact b t phone))))"
    for i f c e b
    by (intro keeps_thenA up) (rule keeps_seen, simp)+
  show "seen sid (snd (optOut now phone t ch w))"
    using w keepsD [OF steps w] by (auto simp: optOut_def seen_def split: option.split)
qed

lemma optIn_seen [keeps_intros]: "keeps (seen sid) (optIn phone t ch)"
proof (rule keepsI)
  fix w assume w: "seen sid w"
  have steps: "keeps (seen sid) (thenA (updateCustomer i f) (thenA (audit_log e) (setContact b t phone)))" for i f e b
    by (intro keeps_thenA) (rule keeps_seen, simp)+
  show "seen sid (snd (optIn phone t ch w))"
    using w keepsD [OF steps w] by (auto simp: optIn_def seen_def split: option.split)
qed

lemma feedback_seen [keeps_intros]: "keeps (seen sid) (processFeedbackReply E now phone rating t i)"
proof (rule keepsI)
  fix w assume w: "seen sid w"
  have answered: "keeps (seen sid) (\<lambda>v. (Inr (a v :: string), snd (send E now (q v) (f v))))"
    if "\<And>v. w_messageLogs (f v) = w_messageLogs v" for a q f
  proof (rule keepsI)
    fix v assume "seen sid v"
    then have "seen sid (f v)" using that by (simp add: seen_def)
    then show "seen sid (snd (Inr (a v), snd (send E now (q v) (f v))))"
      using keepsD [OF send_seen] by simp
  qed
  have "keeps (seen sid) (thenA (createFeedbackResponse now t i c rating)
      (thenA (updateRow w_feedbackRequests putFeedbackRequests feedbackRequest_id i g)
        (\<lambda>v. (Inr (a v :: string), snd (send E now (q v) (f v))))))"
    if "\<And>v. w_messageLogs (f v) = w_messageLogs v" for c g a q f
    by (intro keeps_thenA answered that) (rule keeps_seen, simp add: createFeedbackResponse_def updateRow_def)+
  note steps = this
  show "seen sid (snd (processFeedbackReply E now phone rating t i w))"
  proof (cases "List.find (\<lambda>f. feedbackRequest_id f = i) (w_feedbackRequests w)")
    case None
    then show ?thesis by (simp add: processFeedbackReply_def w)
  next
    case (Some a)
    show ?thesis
      unfolding processFeedbackReply_def Let_def Some option.case
      by (rule keepsD [OF steps w]) (simp add: markResponses_def)
  qed
qed

lemma participantActivity_logs [simp]:
  "w_messageLogs (participantActivity now t i kind meta w) = w_messageLogs w"
  by (simp add: participantActivity_def split: option.split)

lemma slot_seen [keeps_intros]: "keeps (seen sid) (processSlotSelection E now phone body)"
proof (rule keepsI)
  fix w assume w: "seen sid w"
  have time: "keeps (seen sid) (updateAppointmentTime now i new t)" for i new t
  proof (rule keepsI)
    fix v assume v: "seen sid v"
    have "keeps (seen sid) (thenA (updateAppointment i f) (modifyA g))"
      if "\<And>u. w_messageLogs (g u) = w_messageLogs u" for f g
      by (intro keeps_thenA) (rule keeps_seen, simp add: that)+
    from keepsD [OF this v] show "seen sid (snd (updateAppointmentTime now i new t v))"
      unfolding updateAppointmentTime_def Let_def
      by (simp add: onRescheduled_def frame_simps split: option.split)
  qed
  have "w_messageLogs (snd (scheduleForAppointment E now i t v)) = w_messageLogs v" for i t v
    by (simp add: scheduleForAppointment_def case_prod_beta Let_def split: option.split)
       (subst scheduleRules_frame, simp)
  then have "keeps (seen sid) (scheduleForAppointment E now i t)" for i t
    by (rule keeps_seen)
  then have jobs: "keeps (seen sid) (rescheduleReminderJobs E now i t)" for i t
    unfolding rescheduleReminderJobs_def by (intro keeps_intros)
  have del: "keeps (seen sid) (deleteSession i)" for i
    by (rule keeps_seen) (simp add: deleteSession_def)
  have all: "keeps (seen sid) (thenA (updateAppointmentTime now i new t) (thenA (rescheduleReminderJobs E now i t)
      (thenA (deleteSession j) (returnA x))))" for i new t j and x :: "string option"
    by (intro keeps_intros time jobs del)
  show "seen sid (snd (processSlotSelection E now phone body w))"
    by (auto simp: processSlotSelection_def Let_def w split: option.split intro!: keepsD [OF all w])
qed

lemma sendMessage_logs [simp]: "w_messageLogs (sendMessage E phone m ch w) = w_messageLogs w"
  by (simp add: sendMessage_def twilio_sendWhatsApp_def twilio_sendSms_def twilioSend_def mock_send_def Let_def
      split: option.split)

lemma offer_logs [simp]: "w_messageLogs (snd (sendRescheduleOptions E now phone t i ch w)) = w_messageLogs w"
  by (simp add: sendRescheduleOptions_def Let_def)

lemma sendFeedbackRequest_seen: "seen sid w \<Longrightarrow> seen sid (snd (sendFeedbackRequest E now i t w))"
proof -
  assume w: "seen sid w"
  have k: "keeps (seen sid) (bindA (send E now q) (\<lambda>_. modifyA f))"
    if "\<And>v. w_messageLogs (f v) = w_messageLogs v" for q f
    by (intro keeps_bindA send_seen) (rule keeps_seen, simp add: that)
  have "seen sid (createFeedbackRequest now t i c phone w)" for c phone
    using w by (simp add: createFeedbackRequest_def seen_def)
  from keepsD [OF k this] show ?thesis
    using w by (auto simp: sendFeedbackRequest_def Let_def split: option.split)
qed

lemma lifecycle_seen: "seen sid w \<Longrightarrow> seen sid (fireStatusLifecycle E now c a old st w)"
  by (auto simp: fireStatusLifecycle_def onStatusChanged_def Let_def seen_same [of "fireTrigger _ _ _ _ _ _"]
      frame_simps seen_def [of sid "participantActivity _ _ _ _ _ _"] seen_def [of sid "fireTrigger _ _ _ _ _ _"]
      seen_def [of sid w] split: option.split intro!: sendFeedbackRequest_seen)

lemma confirmation_seen [keeps_intros]: "keeps (seen sid) (processConfirmation E now phone)"
proof (rule keepsI)
  fix w assume w: "seen sid w"
  have "keeps (seen sid) (thenA (setStatus i st) (thenA (statusAudit t i st)
      (modifyA (fireStatusLifecycle E now c a old st))))" for i st t c a old
    by (intro keeps_thenA keepsI) (simp_all add: setStatus_def statusAudit_def seen_def lifecycle_seen [unfolded seen_def])
  from keepsD [OF this w] show "seen sid (snd (processConfirmation E now phone w))"
    by (simp add: processConfirmation_def w split: option.split)
qed

lemma cancellation_seen [keeps_intros]: "keeps (seen sid) (processCancellation E now phone)"
proof (rule keepsI)
  fix w assume w: "seen sid w"
  have "keeps (seen sid) (setStatus i st)" "keeps (seen sid) (statusAudit t i st)"
    "keeps (seen sid) (modifyA (fireStatusLifecycle E now c a old st))" for i st t c a old
    by (rule keepsI, simp add: setStatus_def statusAudit_def seen_def lifecycle_seen [unfolded seen_def])+
  then have "keeps (seen sid) (thenA (setStatus i st) (thenA (cancelQuietly i) (thenA (statusAudit t i st)
      (modifyA (fireStatusLifecycle E now c a old st)))))" for i st t c a old
    by (intro keeps_thenA cancelQuietly_seen) blast+
  from keepsD [OF this w] show "seen sid (snd (processCancellation E now phone w))"
    by (simp add: processCancellation_def w split: option.split)
qed

lemma reschedule_seen [keeps_intros]: "keeps (seen sid) (initiateReschedule E now phone t ch)"
proof (rule keepsI)
  fix w assume w: "seen sid w"
  have "keeps (seen sid) (sendRescheduleOptions E now phone t i ch)" "keeps (seen sid) (audit_log e)" for i e
    by (rule keeps_seen, simp)+
  then have "keeps (seen sid) (thenA (sendRescheduleOptions E now phone t i ch) (thenA (audit_log e) (returnA x)))"
    for i e and x :: string
    by (intro keeps_intros)
  from keepsD [OF this w] show "seen sid (snd (initiateReschedule E now phone t ch w))"
    by (simp add: initiateReschedule_def w split: option.split)
qed

lemma command_seen [keeps_intros]: "keeps (seen sid) (processCommand E now phone body ch t)"
proof -
  have "keeps (seen sid) (noteMaybe phone)"
    by (rule keepsI) (simp add: noteMaybe_def seen_def split: option.split)
  then show ?thesis unfolding processCommand_def by (intro keeps_intros)
qed

lemma reply_seen [keeps_intros]: "keeps (seen sid) (processInboundReply E now phone body ch t)"
proof (rule keepsI)
  fix w assume w: "seen sid w"
  have out: "keeps (seen sid) (thenA (optOut now phone t ch) (returnA a))"
    and into: "keeps (seen sid) (thenA (optIn phone t ch) (returnA a))"
    and slot: "keeps (seen sid) (bindA (processSlotSelection E now phone body)
       (\<lambda>x. if truthy x then returnA (the x) else processCommand E now phone body ch t))" for a :: string
    by (intro keeps_intros)+
  have queue: "seen sid (enqueueRsvp now d w)" for d
    using w by (simp add: enqueueRsvp_def addJob_def Let_def seen_def)
  show "seen sid (snd (processInboundReply E now phone body ch t w))"
    using keepsD [OF out w] keepsD [OF into w] keepsD [OF slot w] keepsD [OF command_seen w]
      keepsD [OF feedback_seen w] queue
    by (simp add: processInboundReply_def split: option.split)
qed

lemma link_logs [simp]: "w_messageLogs (snd (linkResponseToCampaign now phone body w)) = w_messageLogs w"
proof -
  have first: "w_messageLogs (snd (thenA (updateRow w_campaignRecipients putCampaignRecipients campaignRecipient_id i f) k w)) =
      w_messageLogs w" if "\<And>v. w_messageLogs (snd (k v)) = w_messageLogs v" for i f k
    by (rule snd_thenA [where P = "\<lambda>v. w_messageLogs v = w_messageLogs w"]) (simp_all add: updateRow_def that)
  have second: "w_messageLogs (snd (thenA (createMessageResponse now t c r b st) (modifyA g) v)) = w_messageLogs v"
    if "\<And>u. w_messageLogs (g u) = w_messageLogs u" for t c r b st g v
    by (rule snd_thenA [where P = "\<lambda>u. w_messageLogs u = w_messageLogs v"])
       (simp_all add: createMessageResponse_def that)
  show ?thesis
  proof (cases "recentRecipient phone w")
    case None
    then show ?thesis by (simp add: linkResponseToCampaign_def)
  next
    case (Some recent)
    show ?thesis
      unfolding linkResponseToCampaign_def swallowA_run snd_conv Some option.case Let_def
      by (rule first, rule second) (simp split: option.split)
  qed
qed

lemma logInbound_ok:
  assumes "tenantExists t w" and "case sid of None \<Rightarrow> True | Some s \<Rightarrow> \<not> seen s w"
  shows "\<exists>l. logInbound now t from body sid ch w = (Inr (), bump (w\<lparr>w_messageLogs := w_messageLogs w @ [l]\<rparr>)) \<and>
    messageLog_providerMessageId l = sid \<and> messageLog_direction l = INBOUND"
  using assms by (auto simp: logInbound_def createMessageLog_def Let_def seen_def split: option.splits)

lemma order_desc_Nil [simp]: "order_desc k [] = []"
  by (simp add: order_desc_def)

lemma link_frame:
  "w_customers (snd (linkResponseToCampaign now phone body w)) = w_customers w"
  "w_contacts (snd (linkResponseToCampaign now phone body w)) = w_contacts w"
  "w_appointments (snd (linkResponseToCampaign now phone body w)) = w_appointments w"
  "w_outbox (snd (linkResponseToCampaign now phone body w)) = w_outbox w"
  by (simp_all add: linkResponseToCampaign_def Let_def thenA_def bindA_def updateRow_def createMessageResponse_def
      addActivity_def bump_def split: option.split)

lemma nextAppointment_mem: "nextAppointment now c states w = Some a \<Longrightarrow> a \<in> set (w_appointments w)"
proof -
  let ?as = "filter (\<lambda>a. appointment_customerId a = Some c \<and> appointment_status a \<in> states \<and>
                  now \<le> appointment_scheduledAt a) (w_appointments w)"
  assume "nextAppointment now c states w = Some a"
  then obtain r where "order_asc appointment_scheduledAt ?as = a # r"
    by (auto simp: nextAppointment_def first_of_def split: list.splits)
  then have "a \<in> set (order_asc appointment_scheduledAt ?as)" by simp
  then show ?thesis by (simp add: order_asc_def)
qed

lemma lifecycle_appointments: "st \<noteq> A_COMPLETED \<Longrightarrow>
    w_appointments (fireStatusLifecycle E now c a old st w) = w_appointments w"
  by (simp add: fireStatusLifecycle_def onStatusChanged_def Let_def participantActivity_def addActivity_def bump_def
      frame_simps split: option.split)

section \<open>Properties\<close>

text \<open>
  C16: An inbound message is handled once. When a signed message carries an id and its sender belongs to a
  tenant, every later delivery with the same id, whatever else it contains, is answered as received and
  changes nothing at all, even if handling the first one failed half-way.
\<close>

theorem inbound_handled_once:
  assumes "validateWebhook V r" and "wr_MessageSid r = Some sid" and "sid \<noteq> []"
    and "tenantExists (resolveTenantFromPhone (wr_From r) w) w"
    and "validateWebhook V again" and "wr_MessageSid again = Some sid"
  shows "handleInboundSms E V later again (snd (handleInboundSms E V now r w)) =
    (Inr Received, snd (handleInboundSms E V now r w))"
proof -
  let ?t = "resolveTenantFromPhone (wr_From r) w" and ?body = "toUpperCase (trim (coalesce (wr_Body r) []))"
  have "seen sid (snd (handleInboundSms E V now r w))"
  proof (cases "seen sid w")
    case True
    then show ?thesis using assms by (simp add: handleInboundSms_def inboundReply_def Let_def logBySid_seen)
  next
    case False
    then obtain l where l: "logInbound now ?t (wr_From r) ?body (Some sid) SMS w =
        (Inr (), bump (w\<lparr>w_messageLogs := w_messageLogs w @ [l]\<rparr>))" "messageLog_providerMessageId l = Some sid"
      using logInbound_ok [OF assms(4), of "Some sid" now "wr_From r" ?body SMS] by auto
    let ?w1 = "bump (w\<lparr>w_messageLogs := w_messageLogs w @ [l]\<rparr>)"
    let ?w2 = "snd (linkResponseToCampaign now (wr_From r) ?body ?w1)"
    have two: "seen sid ?w2" using l(2) by (simp add: seen_def)
    have "keeps (seen sid) (bindA (processInboundReply E now (wr_From r) ?body SMS ?t) (\<lambda>x. returnA (f x)))"
      for f :: "string \<Rightarrow> webhook_reply"
      by (intro keeps_intros)
    from keepsD [OF this two] show ?thesis
      using assms False l(1)
      by (simp add: handleInboundSms_def inboundReply_def Let_def logBySid_seen)
  qed
  then show ?thesis
    using assms(3,5,6) by (simp add: handleInboundSms_def inboundReply_def Let_def logBySid_seen)
qed

text \<open>
  A number that was never sent anything cannot reply, not even STOP. With no outbound message to the
  number and no tenant of the id \<open>unknown\<close>, the handler of a new message fails at the log; nobody is opted
  out, no appointment changes, and the sender gets no answer.
\<close>

theorem unknown_sender_not_heard:
  assumes "validateWebhook V r"
    and "\<forall>l \<in> set (w_messageLogs w). messageLog_recipient l = wr_From r \<longrightarrow> messageLog_direction l \<noteq> OUTBOUND"
    and "\<not> tenantExists ''unknown'' w" and "wr_MessageSid r = Some sid" and "sid \<noteq> []" and "\<not> seen sid w"
  shows "fst (handleInboundSms E V now r w) = Inl (PrismaError ''P2003'') \<and>
    w_customers (snd (handleInboundSms E V now r w)) = w_customers w \<and>
    w_contacts (snd (handleInboundSms E V now r w)) = w_contacts w \<and>
    w_appointments (snd (handleInboundSms E V now r w)) = w_appointments w \<and>
    w_outbox (snd (handleInboundSms E V now r w)) = w_outbox w"
proof -
  let ?body = "toUpperCase (trim (coalesce (wr_Body r) []))"
  have "filter (\<lambda>l. messageLog_recipient l = wr_From r \<and> messageLog_direction l = OUTBOUND) (w_messageLogs w) = []"
    using assms(2) by (auto simp: filter_empty_conv)
  then have t: "resolveTenantFromPhone (wr_From r) w = ''unknown''"
    by (simp add: resolveTenantFromPhone_def or_str_def coalesce_def)
  have log: "logInbound now ''unknown'' (wr_From r) ?body (Some sid) SMS w = (Inl (PrismaError ''P2003''), w)"
    using assms(3,6) by (auto simp: logInbound_def createMessageLog_def Let_def seen_def)
  have run: "handleInboundSms E V now r w =
      (Inl (PrismaError ''P2003''), snd (linkResponseToCampaign now (wr_From r) ?body w))"
    using assms(1,4,5,6) by (simp add: handleInboundSms_def inboundReply_def Let_def t log logBySid_seen)
  show ?thesis unfolding run by (simp add: link_frame)
qed

text \<open>
  What a confirming reply does. The first customer with the number, of whatever tenant, has their
  earliest upcoming SCHEDULED appointment confirmed, and no other appointment changes; without such a
  customer or appointment nothing changes. The answer is in every case that the appointment has been
  confirmed.
\<close>

theorem confirm_reply_exact:
  assumes "body \<in> {''1'', ''YES'', ''CONFIRM'', ''Y''}"
  shows "fst (processCommand E now phone body ch t w) = Inr CONFIRMED_REPLY \<and>
    (case Option.bind (customerByNumber phone w) (\<lambda>c. nextAppointment now (customer_id c) {A_SCHEDULED} w) of
       None \<Rightarrow> snd (processCommand E now phone body ch t w) = w
     | Some a \<Rightarrow> w_appointments (snd (processCommand E now phone body ch t w)) =
         update_where (\<lambda>x. appointment_id x = appointment_id a)
           (\<lambda>x. x\<lparr>appointment_status := A_CONFIRMED\<rparr>) (w_appointments w))"
proof (cases "customerByNumber phone w")
  case None
  then show ?thesis using assms by (auto simp: processCommand_def processConfirmation_def thenA_def bindA_def)
next
  case c: (Some c)
  show ?thesis
  proof (cases "nextAppointment now (customer_id c) {A_SCHEDULED} w")
    case None
    then show ?thesis using assms c by (auto simp: processCommand_def processConfirmation_def thenA_def bindA_def)
  next
    case (Some a)
    let ?v = "putAppointments (update_where (\<lambda>x. appointment_id x = appointment_id a)
        (\<lambda>x. x\<lparr>appointment_status := A_CONFIRMED\<rparr>) (w_appointments w)) w"
    have "setStatus (appointment_id a) A_CONFIRMED w = (Inr (), ?v)"
      using nextAppointment_mem [OF Some] by (simp add: setStatus_def updateAppointment_def updateRow_def)
    then have "processConfirmation E now phone w = (Inr (), fireStatusLifecycle E now c a (appointment_status a)
        A_CONFIRMED (snd (statusAudit (customer_tenantId c) (appointment_id a) A_CONFIRMED ?v)))"
      using c Some by (simp add: processConfirmation_def statusAudit_def thenA_ok [OF audit_log_pair])
    then have "processCommand E now phone body ch t w = (Inr CONFIRMED_REPLY,
        fireStatusLifecycle E now c a (appointment_status a) A_CONFIRMED
          (snd (statusAudit (customer_tenantId c) (appointment_id a) A_CONFIRMED ?v)))"
      using assms by (auto simp: processCommand_def)
    then show ?thesis using c Some by (simp add: lifecycle_appointments statusAudit_def)
  qed
qed

text \<open>
  During an open offer of slots no command is understood. Any reply that is not a number of a slot,
  CANCEL and STOP ME included, is answered as an invalid selection, and nothing changes. (Keywords of
  opting out and in and replies to an open invitation are taken before; 1, 2 and 3 may be a rating.)
\<close>

theorem open_offer_takes_commands:
  assumes "currentSession now phone w = Some s"
    and "case parseInt body of None \<Rightarrow> True | Some i \<Rightarrow> i < 1 \<or> int (length (rescheduleSession_offeredSlots s)) < i"
    and "\<not> isOptOutKeyword body" and "\<not> isOptInKeyword body" and "body \<notin> {''1'', ''2'', ''3''}"
    and "\<not> (isRsvpKeyword body \<and> hasActiveInvitation now phone t w)"
  shows "processInboundReply E now phone body ch t w =
    (Inr (''Invalid selection. Please reply with a number between 1 and '' @
       show_nat (length (rescheduleSession_offeredSlots s)) @ ''.''), w)"
proof -
  have "hasActiveSession now phone w"
    using assms(1) by (auto simp: hasActiveSession_def currentSession_def list_ex_filter)
  moreover have "processSlotSelection E now phone body w =
      (Inr (Some (''Invalid selection. Please reply with a number between 1 and '' @
         show_nat (length (rescheduleSession_offeredSlots s)) @ ''.'')), w)"
    using assms(1,2) by (auto simp: processSlotSelection_def Let_def split: option.splits)
  ultimately show ?thesis
    using assms(3-6) by (auto simp: processInboundReply_def pendingFeedback_def)
qed

text \<open>
  While an invitation is open, the digits of the reminder text mean something else. For a sender with an
  open invitation and no rating to give, 2 (offered as Reschedule) and 3 (offered as Cancel) are both queued
  as replies to the event, where 2 declines it and 3 is read as maybe; no appointment is touched.
\<close>

theorem event_takes_appointment_digits:
  assumes "hasActiveInvitation now phone t w" and "hasPendingFeedbackRequest now phone t w = None"
    and "digit \<in> {''2'', ''3''}"
  shows "processInboundReply E now phone digit ch t w = (Inr QUEUED_REPLY,
      enqueueRsvp now \<lparr>rj_tenantId = t, rj_phone = phone, rj_body = digit, rj_channel = ch,
        rj_receivedAt = now\<rparr> w) \<and>
    parseRSVP digit = Some (if digit = ''2'' then RI_declined else RI_maybe) \<and>
    w_appointments (snd (processInboundReply E now phone digit ch t w)) = w_appointments w"
proof -
  have two: "parseRSVP ''2'' = Some RI_declined" and three: "parseRSVP ''3'' = Some RI_maybe"
    and out: "\<not> isOptOutKeyword ''2'' \<and> \<not> isOptInKeyword ''2'' \<and> \<not> isOptOutKeyword ''3'' \<and> \<not> isOptInKeyword ''3''"
    by code_simp+
  have queue: "w_appointments (enqueueRsvp now d w) = w_appointments w" for d
    by (simp add: enqueueRsvp_def addJob_def Let_def)
  show ?thesis
    using assms out two three queue
    by (auto simp: processInboundReply_def pendingFeedback_def isRsvpKeyword_def)
qed

section \<open>Concrete worlds\<close>

definition replyRequest :: "string \<Rightarrow> string \<Rightarrow> webhook_request" where
  "replyRequest sid body = \<lparr>wr_signature = Some ''sig'', wr_url = ''https://api.meetora.co'',
     wr_From = ''+15550001111'', wr_Body = Some body, wr_MessageSid = Some sid, wr_MessageStatus = None,
     wr_Digits = None\<rparr>"

definition sentTo :: "uuid \<Rightarrow> string \<Rightarrow> messageLog" where
  "sentTo t sid = \<lparr>messageLog_id = sid, messageLog_tenantId = t, messageLog_reminderId = None,
     messageLog_channel = SMS, messageLog_direction = OUTBOUND, messageLog_recipient = ''+15550001111'',
     messageLog_content = Some [], messageLog_providerMessageId = Some sid, messageLog_providerStatus = Some ''sent'',
     messageLog_sentAt = Some 1, messageLog_deliveredAt = None, messageLog_createdAt = 1,
     messageLog_contactId = None, messageLog_eventId = None,
      messageLog_isDemoData = False\<rparr>"

definition signed :: validator where
  "signed s r = Some True"

text \<open>Two tenants with the same customer's number, each with one appointment.\<close>

definition sharedNumber :: world where
  "sharedNumber = (demoWorld [demoTenant PLAN_SMS ACTIVE False 0,
       (demoTenant PLAN_SMS ACTIVE False 0)\<lparr>tenant_id := ''t2''\<rparr>])\<lparr>
     w_customers := [demoCustomer False, (demoCustomer False)\<lparr>customer_id := ''c2'', customer_tenantId := ''t2''\<rparr>],
     w_appointments := [demoAppointment 5000, (demoAppointment 6000)\<lparr>appointment_id := ''a2'',
       appointment_tenantId := ''t2'', appointment_customerId := Some ''c2''\<rparr>],
     w_messageLogs := [sentTo ''t2'' ''m1'']\<rparr>"

text \<open>
  A reply can confirm another tenant's appointment. Two tenants know the same number; the second one
  sends a reminder and the customer answers YES. The reply belongs to the second tenant (that is where it
  is logged), yet the appointment confirmed is the first tenant's, and the second tenant's stays SCHEDULED.
\<close>

theorem reply_confirms_other_tenant:
  "let (r, w') = handleInboundSms demoEnv signed 100 (replyRequest ''in1'' '' yes '') sharedNumber
   in r = Inr (Twiml (''<Response><Message>'' @ CONFIRMED_REPLY @ ''</Message></Response>'')) \<and>
      map (\<lambda>a. (appointment_tenantId a, appointment_status a)) (w_appointments w') =
        [(''t1'', A_CONFIRMED), (''t2'', A_SCHEDULED)] \<and>
      map messageLog_tenantId (w_messageLogs w') = [''t2'', ''t2'']"
  by code_simp

theorem inbound_handled_once_witness:
  "handleInboundSms demoEnv signed 200 (replyRequest ''in1'' ''STOP'')
     (snd (handleInboundSms demoEnv signed 100 (replyRequest ''in1'' ''YES'') sharedNumber)) =
   (Inr Received, snd (handleInboundSms demoEnv signed 100 (replyRequest ''in1'' ''YES'') sharedNumber))"
  by (rule inbound_handled_once [where sid = "''in1''"]) code_simp+

theorem unknown_sender_not_heard_witness:
  "fst (handleInboundSms demoEnv signed 100 (replyRequest ''in1'' ''STOP'') (clinic [])) = Inl (PrismaError ''P2003'') \<and>
   w_customers (snd (handleInboundSms demoEnv signed 100 (replyRequest ''in1'' ''STOP'') (clinic []))) =
     w_customers (clinic [])"
proof -
  have "validateWebhook signed (replyRequest ''in1'' ''STOP'')" by code_simp
  moreover have "\<forall>l \<in> set (w_messageLogs (clinic [])). messageLog_recipient l = wr_From (replyRequest ''in1'' ''STOP'') \<longrightarrow>
      messageLog_direction l \<noteq> OUTBOUND" and "\<not> tenantExists ''unknown'' (clinic [])"
    and "wr_MessageSid (replyRequest ''in1'' ''STOP'') = Some ''in1''" and "\<not> seen ''in1'' (clinic [])"
    by code_simp+
  ultimately show ?thesis
    using unknown_sender_not_heard [of signed "replyRequest ''in1'' ''STOP''" "clinic []" "''in1''" demoEnv 100] by simp
qed

theorem confirm_reply_exact_witness:
  "w_appointments (snd (processCommand demoEnv 100 ''+15550001111'' ''YES'' SMS ''t2'' sharedNumber)) =
   update_where (\<lambda>x. appointment_id x = ''a1'') (\<lambda>x. x\<lparr>appointment_status := A_CONFIRMED\<rparr>)
     (w_appointments sharedNumber)"
proof -
  have a: "Option.bind (customerByNumber ''+15550001111'' sharedNumber)
      (\<lambda>c. nextAppointment 100 (customer_id c) {A_SCHEDULED} sharedNumber) = Some (demoAppointment 5000)"
    by code_simp
  have "''YES'' \<in> {''1'', ''YES'', ''CONFIRM'', ''Y''}" by simp
  from confirm_reply_exact [OF this, of demoEnv 100 "''+15550001111''" SMS "''t2''" sharedNumber] a
  show ?thesis by (simp add: demoAppointment_def)
qed

definition offering :: world where
  "offering = sharedNumber\<lparr>w_rescheduleSessions := [\<lparr>rescheduleSession_id = ''s1'', rescheduleSession_tenantId = ''t1'',
     rescheduleSession_appointmentId = ''a1'', rescheduleSession_phone = ''+15550001111'',
     rescheduleSession_channel = SMS, rescheduleSession_offeredSlots = [7200000, 10800000],
     rescheduleSession_expiresAt = 1000, rescheduleSession_createdAt = 10\<rparr>]\<rparr>"

theorem open_offer_takes_commands_witness:
  "processInboundReply demoEnv 100 ''+15550001111'' ''CANCEL'' SMS ''t1'' offering =
   (Inr ''Invalid selection. Please reply with a number between 1 and 2.'', offering)"
proof -
  obtain s where s: "currentSession 100 ''+15550001111'' offering = Some s"
    and len: "length (rescheduleSession_offeredSlots s) = 2"
    by (auto simp: currentSession_def offering_def liveSession_def order_desc_def)
  have "processInboundReply demoEnv 100 ''+15550001111'' ''CANCEL'' SMS ''t1'' offering =
    (Inr (''Invalid selection. Please reply with a number between 1 and '' @
       show_nat (length (rescheduleSession_offeredSlots s)) @ ''.''), offering)"
    by (rule open_offer_takes_commands [OF s]) code_simp+
  moreover have "show_nat 2 = ''2''" by code_simp
  ultimately show ?thesis by (simp add: len)
qed

theorem event_takes_appointment_digits_witness:
  "let w = (party [invited ''p1'' ''e1'' P_invited])\<lparr>w_appointments := [demoAppointment 5000]\<rparr>
   in fst (processInboundReply demoEnv 100 ''+15550001111'' ''2'' SMS ''t1'' w) = Inr QUEUED_REPLY \<and>
      parseRSVP ''2'' = Some RI_declined"
proof -
  let ?w = "(party [invited ''p1'' ''e1'' P_invited])\<lparr>w_appointments := [demoAppointment 5000]\<rparr>"
  have "hasActiveInvitation 100 ''+15550001111'' ''t1'' ?w"
    and "hasPendingFeedbackRequest 100 ''+15550001111'' ''t1'' ?w = None"
    by code_simp+
  from event_takes_appointment_digits [OF this, of "''2''" demoEnv SMS] show ?thesis by simp
qed

end
