(* ===== verification/Termii_Webhook.thy ===== *)
theory Termii_Webhook
  imports Twilio_Properties
begin

text \<open>
  \<open>modules/messaging/termii-webhook.controller.ts\<close>: replies through Termii, which may only opt out, opt in
  or answer an event. A payload is a form of text fields, as Termii sends it; request headers likewise.
\<close>

type_synonym form = "string \<Rightarrow> string option"

record inbound_message =
  im_from :: string
  im_body :: string
  im_messageId :: string

definition parseInbound :: "instant \<Rightarrow> form \<Rightarrow> inbound_message" where
  "parseInbound now p =
     \<lparr>im_from = coalesce (or_str (p ''from'') (or_str (p ''sender'') (p ''msisdn''))) [],
      im_body = toUpperCase (trim (coalesce (or_str (p ''text'') (or_str (p ''sms'') (p ''data''))) [])),
      im_messageId = coalesce (or_str (p ''id'') (or_str (p ''message_id'') (Some (''termii-'' @ show_int now)))) []\<rparr>"

text \<open>The constant-time comparison is equality of the two texts.\<close>

definition verifySecret :: "env \<Rightarrow> form \<Rightarrow> form \<Rightarrow> bool" where
  "verifySecret E payload headers =
     (let secret = e_config E ''TERMII_WEBHOOK_SECRET''
      in \<not> truthy secret \<or>
         coalesce (or_str (headers ''x-meetora-secret'') (payload ''secret'')) [] = the secret)"

definition contactWithNumber :: "string \<Rightarrow> world \<Rightarrow> contact option" where
  "contactWithNumber phone w = List.find (\<lambda>c. contact_phone c = Some phone) (w_contacts w)"

text \<open>The handler's result: whether the message counts as received.\<close>

definition handleInbound :: "env \<Rightarrow> instant \<Rightarrow> form \<Rightarrow> form \<Rightarrow> bool act" where
  "handleInbound E now payload headers w =
     (let m = parseInbound now payload;
          phone = coalesce (normalizePhoneForSend E (Some (im_from m)) DEFAULT_SEND_COUNTRY) (im_from m)
      in if \<not> verifySecret E payload headers then (Inr False, w)
         else if im_from m = [] \<or> im_body m = [] then (Inr True, w)
         else if logBySid (im_messageId m) w \<noteq> None then (Inr True, w)
         else (case contactWithNumber phone w of
            None \<Rightarrow> (Inr True, w)
          | Some c \<Rightarrow>
              thenA (swallowA (logInbound now (contact_tenantId c) phone (im_body m) (Some (im_messageId m)) SMS))
                (if isOptOutKeyword (im_body m)
                 then thenA (optOut now phone (contact_tenantId c) SMS) (returnA True)
                 else if isOptInKeyword (im_body m)
                 then thenA (optIn phone (contact_tenantId c) SMS) (returnA True)
                 else (\<lambda>v. if isRsvpKeyword (im_body m) \<and> hasActiveInvitation now phone (contact_tenantId c) v
                           then (Inr True, enqueueRsvp now \<lparr>rj_tenantId = contact_tenantId c, rj_phone = phone,
                                  rj_body = im_body m, rj_channel = SMS, rj_receivedAt = now\<rparr> v)
                           else (Inr True, v))) w))"

section \<open>Properties\<close>

lemma enqueueRsvp_logs [simp]: "w_messageLogs (enqueueRsvp now d w) = w_messageLogs w"
  by (simp add: enqueueRsvp_def addJob_def Let_def)

text \<open>
  A Termii reply is handled once. When the payload carries an id and every contact's tenant exists, a
  retry of the same request, at any later time, changes nothing.
\<close>

theorem termii_handled_once:
  assumes "truthy (payload ''id'')" and "\<forall>c \<in> set (w_contacts w). tenantExists (contact_tenantId c) w"
  shows "snd (handleInbound E later payload headers (snd (handleInbound E now payload headers w))) =
    snd (handleInbound E now payload headers w)"
proof -
  let ?h = "\<lambda>t. handleInbound E t payload headers"
  define m where "m = parseInbound now payload"
  define phone where "phone = coalesce (normalizePhoneForSend E (Some (im_from m)) DEFAULT_SEND_COUNTRY) (im_from m)"
  have same: "parseInbound t payload = m" for t
    using assms(1) by (simp add: parseInbound_def m_def or_str_def)
  have off: "snd (?h t v) = v" if "\<not> verifySecret E payload headers \<or> im_from m = [] \<or> im_body m = [] \<or>
      seen (im_messageId m) v \<or> contactWithNumber phone v = None" for t v
    using that unfolding handleInbound_def Let_def same phone_def [symmetric]
    by (auto simp: logBySid_seen)
  show ?thesis
  proof (cases "\<not> verifySecret E payload headers \<or> im_from m = [] \<or> im_body m = [] \<or>
      seen (im_messageId m) w \<or> contactWithNumber phone w = None")
    case True
    then have "snd (?h now w) = w" by (rule off)
    then show ?thesis using off [OF True] by simp
  next
    case False
    then obtain c where c: "contactWithNumber phone w = Some c" by auto
    then have "c \<in> set (w_contacts w)" by (auto simp: contactWithNumber_def dest: find_SomeD)
    then have t: "tenantExists (contact_tenantId c) w" using assms(2) by blast
    let ?sid = "im_messageId m"
    obtain l where l: "logInbound now (contact_tenantId c) phone (im_body m) (Some ?sid) SMS w =
        (Inr (), bump (w\<lparr>w_messageLogs := w_messageLogs w @ [l]\<rparr>))" "messageLog_providerMessageId l = Some ?sid"
      using logInbound_ok [OF t, of "Some ?sid" now phone "im_body m" SMS] False by auto
    let ?w1 = "bump (w\<lparr>w_messageLogs := w_messageLogs w @ [l]\<rparr>)"
    have one: "seen ?sid ?w1" using l(2) by (simp add: seen_def)
    have "keeps (seen ?sid) (thenA (optOut now phone t SMS) (returnA True))"
      and "keeps (seen ?sid) (thenA (optIn phone t SMS) (returnA True))" for t
      by (intro keeps_intros)+
    from this [THEN keepsD, OF one] have "seen ?sid (snd (?h now w))"
      using False c l(1) one unfolding handleInbound_def Let_def same phone_def [symmetric]
      by (simp add: logBySid_seen seen_same [OF enqueueRsvp_logs])
    then show ?thesis by (simp add: off)
  qed
qed

text \<open>
  STOP by Termii is heard only from contacts. When no contact carries the number, nothing changes,
  although a customer with that number is one of those the reminders go to.
\<close>

theorem termii_stop_needs_contact:
  assumes "contactWithNumber (coalesce (normalizePhoneForSend E (Some (im_from (parseInbound now payload)))
      DEFAULT_SEND_COUNTRY) (im_from (parseInbound now payload))) w = None"
  shows "snd (handleInbound E now payload headers w) = w"
  using assms by (simp add: handleInbound_def Let_def)

definition stopForm :: form where
  "stopForm = [''from'' \<mapsto> ''+15550001111'', ''sms'' \<mapsto> ''stop'', ''id'' \<mapsto> ''x1'']"

theorem termii_handled_once_witness:
  "let w = sharedNumber\<lparr>w_contacts := [demoContact]\<rparr>; v = snd (handleInbound demoEnv 5 stopForm Map.empty w)
   in snd (handleInbound demoEnv 9 stopForm Map.empty v) = v \<and>
      map contact_unsubscribed (w_contacts v) = [True] \<and>
      map customer_unsubscribed (w_customers v) = [True, False]"
proof -
  let ?w = "sharedNumber\<lparr>w_contacts := [demoContact]\<rparr>"
  let ?v = "snd (handleInbound demoEnv 5 stopForm Map.empty ?w)"
  have "truthy (stopForm ''id'')" by (simp add: stopForm_def)
  moreover have "\<forall>c \<in> set (w_contacts ?w). tenantExists (contact_tenantId c) ?w" by code_simp
  ultimately have "snd (handleInbound demoEnv 9 stopForm Map.empty ?v) = ?v"
    by (rule termii_handled_once)
  moreover have "map contact_unsubscribed (w_contacts ?v) = [True] \<and>
      map customer_unsubscribed (w_customers ?v) = [True, False]"
    by code_simp
  ultimately show ?thesis by (simp add: Let_def)
qed

theorem termii_stop_needs_contact_witness:
  "snd (handleInbound demoEnv 5 stopForm Map.empty sharedNumber) = sharedNumber"
  by (rule termii_stop_needs_contact) code_simp

end
