(* ===== verification/Template_Renderer.thy ===== *)
theory Template_Renderer
  imports Schema
begin

text \<open>
  \<open>modules/messaging/template-renderer.service.ts\<close> and \<open>common/utils/rsvp-footer.util.ts\<close>. The two
  locale formats of the renderer are arguments of its definitions.
\<close>

record TemplateContact =
  tc_name :: string
  tc_phone :: "string option"
  tc_email :: "string option"

record TemplateAppointment =
  ta_title :: string
  ta_scheduledAt :: instant
  ta_locationName :: "string option"

text \<open>\<open>split\<close> on white space of a trimmed text, which has none at its ends.\<close>

definition splitWords :: "string \<Rightarrow> string list" where
  "splitWords s = (if s = [] then [[]] else filter (\<lambda>x. x \<noteq> []) (split_on is_space s))"

definition contactVars :: "TemplateContact \<Rightarrow> (string \<times> string) list" where
  "contactVars c = (let nameParts = splitWords (trim (tc_name c)) in
     [(''first_name'', hd nameParts), (''last_name'', join '' '' (tl nameParts)),
      (''phone'', coalesce (tc_phone c) []), (''email'', coalesce (tc_email c) [])])"

definition appointmentTemplateVars ::
  "(instant \<Rightarrow> string) \<Rightarrow> (instant \<Rightarrow> string) \<Rightarrow> TemplateAppointment \<Rightarrow> (string \<times> string) list" where
  "appointmentTemplateVars dateText timeText a =
     [(''appointment_date'', dateText (ta_scheduledAt a)), (''appointment_time'', timeText (ta_scheduledAt a)),
      (''location'', coalesce (ta_locationName a) []), (''event_name'', ta_title a)]"

definition buildVars ::
  "(instant \<Rightarrow> string) \<Rightarrow> (instant \<Rightarrow> string) \<Rightarrow> TemplateContact option \<Rightarrow> TemplateAppointment option \<Rightarrow>
   string option \<Rightarrow> (string \<times> string) list" where
  "buildVars dateText timeText contact appointment business =
     (case contact of None \<Rightarrow> [] | Some c \<Rightarrow> contactVars c) @
     (case appointment of None \<Rightarrow> [] | Some a \<Rightarrow> appointmentTemplateVars dateText timeText a) @
     (case business of None \<Rightarrow> [] | Some b \<Rightarrow> [(''business_name'', b), (''company'', b)])"

text \<open>
  \<open>key in vars\<close> also finds what every object inherits: the value is then a function, whose text is
  inserted, or the prototype itself.
\<close>

definition lookupVar :: "(string \<times> string) list \<Rightarrow> string \<Rightarrow> string" where
  "lookupVar vars key =
     (case map_of vars key of
        Some v \<Rightarrow> v
      | None \<Rightarrow> coalesce (inherited key) (''{{'' @ key @ ''}}''))"

definition renderTemplate ::
  "(instant \<Rightarrow> string) \<Rightarrow> (instant \<Rightarrow> string) \<Rightarrow> string \<Rightarrow> TemplateContact option \<Rightarrow>
   TemplateAppointment option \<Rightarrow> string option \<Rightarrow> string" where
  "renderTemplate dateText timeText tmpl contact appointment business =
     replace_placeholders (lookupVar (buildVars dateText timeText contact appointment business)) tmpl"

definition RSVP_FOOTER :: string where
  "RSVP_FOOTER = [CHR 0x0A, CHR 0x0A] @ ''Reply YES to confirm, NO to decline, or MAYBE if unsure.''"

definition appendRsvpFooter :: "string \<Rightarrow> string \<Rightarrow> string" where
  "appendRsvpFooter message channel =
     (if toUpperCase channel \<notin> {''SMS'', ''WHATSAPP''} then message
      else if str_includes message ''Reply YES'' then message
      else message @ RSVP_FOOTER)"

lemma str_includes_append: "str_includes s p \<Longrightarrow> str_includes (t @ s) p"
proof (induction t)
  case (Cons c t)
  then show ?case by simp
qed simp

text \<open>The footer is put on once.\<close>

lemma footer_once: "appendRsvpFooter (appendRsvpFooter m ch) ch = appendRsvpFooter m ch"
proof -
  have "str_includes RSVP_FOOTER ''Reply YES''" by code_simp
  then have "str_includes (m @ RSVP_FOOTER) ''Reply YES''" by (rule str_includes_append)
  then show ?thesis by (simp add: appendRsvpFooter_def)
qed

lemma inherited_names_rendered:
  "renderTemplate d t ''Hi {{constructor}}'' None None None = ''Hi function Object() { [native code] }''"
  by code_simp

end
