(* ===== verification/Reminder_Worker.thy ===== *)
theory Reminder_Worker
  imports Failover Template_Renderer Rsvp
begin

text \<open>
  \<open>workers/reminder.worker.ts\<close>: the process that takes reminder jobs from the queue and sends them, the
  check for unread WhatsApp messages, and what happens when a job fails.
\<close>

section \<open>Dates as text\<close>

text \<open>\<open>toISOString\<close> for the years 0 to 9999, by the proleptic Gregorian calendar.\<close>

definition pad :: "nat \<Rightarrow> int \<Rightarrow> string" where
  "pad k n = (let s = show_int n in replicate (k - length s) (CHR ''0'') @ s)"

definition civil :: "int \<Rightarrow> int \<times> int \<times> int" where
  "civil days =
     (let z = days + 719468; era = z div 146097; doe = z - era * 146097;
          yoe = (doe - doe div 1460 + doe div 36524 - doe div 146096) div 365;
          doy = doe - (365 * yoe + yoe div 4 - yoe div 100);
          mp = (5 * doy + 2) div 153;
          m = (if mp < 10 then mp + 3 else mp - 9)
      in (yoe + era * 400 + (if m \<le> 2 then 1 else 0), m, doy - (153 * mp + 2) div 5 + 1))"

definition toISOString :: "instant \<Rightarrow> string" where
  "toISOString t =
     (let (y, m, d) = civil (t div 86400000); r = t mod 86400000
      in pad 4 y @ ''-'' @ pad 2 m @ ''-'' @ pad 2 d @ ''T'' @ pad 2 (r div 3600000) @ '':'' @
         pad 2 (r div 60000 mod 60) @ '':'' @ pad 2 (r div 1000 mod 60) @ ''.'' @ pad 3 (r mod 1000) @ ''Z'')"

lemma toISOString_sample: "toISOString 1709210096789 = ''2024-02-29T12:34:56.789Z''"
  by code_simp

section \<open>Jobs\<close>

record WorkerJob =
  wj_reminderId :: uuid
  wj_tenantId :: uuid
  wj_appointmentId :: "uuid option"
  wj_channel :: ChannelType
  wj_messageContent :: "string option"
  wj_channelStrategyId :: "uuid option"

text \<open>
  The appointment of a job as \<open>performSend\<close> finds it: an id, \<open>null\<close>, which Prisma rejects for a
  required column, or a missing field, which puts no condition on the id at all.
\<close>

datatype appointment_ref = AppointmentId uuid | NullId | MissingId

fun findTenantAppointment :: "appointment_ref \<Rightarrow> uuid \<Rightarrow> world \<Rightarrow> appointment option outcome" where
  "findTenantAppointment (AppointmentId i) tenantId w =
     (if i = [] then Inl (PrismaError ''P2023'')
      else Inr (List.find (\<lambda>a. appointment_id a = i \<and> appointment_tenantId a = tenantId) (w_appointments w)))"
| "findTenantAppointment NullId tenantId w = Inl (PrismaError ''PrismaClientValidationError'')"
| "findTenantAppointment MissingId tenantId w =
     Inr (List.find (\<lambda>a. appointment_tenantId a = tenantId) (w_appointments w))"

section \<open>Send logic\<close>

definition notSent :: "string \<Rightarrow> string option \<Rightarrow> SendOutcome" where
  "notSent message code = \<lparr>so_success = False, so_providerMessageId = None, so_error = Some message,
     so_errorCode = code\<rparr>"

definition reminderAppointmentData :: "appointment \<Rightarrow> world \<Rightarrow> AppointmentData" where
  "reminderAppointmentData a w = \<lparr>ad_title = appointment_title a,
     ad_customerName = (case customerOf a w of None \<Rightarrow> ''there'' | Some c \<Rightarrow> customer_firstName c),
     ad_time = toISOString (appointment_scheduledAt a)\<rparr>"

text \<open>Channels outside the enum are reported as not sent by the callers.\<close>

definition performSend ::
  "env \<Rightarrow> instant \<Rightarrow> ChannelType \<Rightarrow> string \<Rightarrow> string \<Rightarrow> uuid \<Rightarrow> uuid \<Rightarrow> appointment_ref \<Rightarrow> SendOutcome act" where
  "performSend E now ch to content tenantId reminderId ref w =
     (case (if ch = EMAIL then Some to else normalizePhoneForSend E (Some to) DEFAULT_SEND_COUNTRY) of
        None \<Rightarrow> (Inr (notSent (invalidPhoneText to @ '' '' @ [char_of (0xE2 :: nat), char_of (0x80 :: nat),
            char_of (0x94 :: nat)] @ '' could not normalize to E.164'') (Some ''INVALID_PHONE_FORMAT'')), w)
      | Some phone \<Rightarrow>
          (case (if ch = VOICE \<or> ch = EMAIL then findTenantAppointment ref tenantId w else Inr None) of
             Inl e \<Rightarrow> (Inl e, w)
           | Inr appt \<Rightarrow>
               let email = Option.bind (Option.bind appt (\<lambda>a. customerOf a w)) customer_email;
                   dest = (if ch = EMAIL then coalesce email to else phone)
               in if ch = EMAIL \<and> dest = [] then (Inr (notSent ''No email address available'' None), w)
                  else if ch = VOICE \<and> appt = None
                  then (Inr (notSent ''No appointment found for voice reminder'' None), w)
                  else send E now \<lparr>sq_tenantId = tenantId, sq_channel = ch, sq_to = dest, sq_content = content,
                         sq_reminderId = Some reminderId,
                         sq_appointmentData = map_option (\<lambda>a. reminderAppointmentData a w) appt,
                         sq_eventId = None, sq_contactId = Option.bind appt appointment_customerId,
                         sq_suppressLog = True\<rparr> w))"

section \<open>Plan and usage\<close>

text \<open>The reason for a refusal, or \<open>None\<close>.\<close>

definition smsCap :: "PlanType \<Rightarrow> int" where
  "smsCap p = (case map_of PLAN_LIMITS (planKey p) of None \<Rightarrow> 0 | Some l \<Rightarrow> smsMonthlyLimit l)"

definition trialRefusal :: "instant \<Rightarrow> ChannelType \<Rightarrow> tenant \<Rightarrow> string option" where
  "trialRefusal now ch t =
     (if (case tenant_trialEndDate t of None \<Rightarrow> False | Some d \<Rightarrow> now > d) \<and>
         tenant_subscriptionStatus t \<noteq> ACTIVE
      then Some ''Trial expired with no active subscription''
      else if ch = VOICE then Some ''Voice disabled during trial''
      else if ch = SMS \<and> tenant_smsUsageCount t \<ge> tenant_smsTrialLimit t
      then Some (''Trial SMS limit reached ('' @ show_int (tenant_smsTrialLimit t) @ '')'')
      else None)"

definition paidRefusal :: "ChannelType \<Rightarrow> tenant \<Rightarrow> string option" where
  "paidRefusal ch t =
     (if tenant_subscriptionStatus t \<noteq> ACTIVE then Some ''No active subscription''
      else if ch = VOICE \<and> tenant_planType t = PLAN_SMS
      then Some ''Voice requires SMS_VOICE or SMS_VOICE_AI plan''
      else if ch = SMS \<and> smsCap (tenant_planType t) > 0 \<and>
              tenant_smsUsageCount t \<ge> smsCap (tenant_planType t)
      then Some (''Monthly SMS limit reached ('' @ show_int (smsCap (tenant_planType t)) @ '')'')
      else None)"

definition validatePlanEligibility :: "instant \<Rightarrow> uuid \<Rightarrow> ChannelType \<Rightarrow> world \<Rightarrow> string option" where
  "validatePlanEligibility now tenantId ch w =
     (case findTenant tenantId w of
        None \<Rightarrow> Some ''Tenant not found''
      | Some t \<Rightarrow> if tenant_trialActive t then trialRefusal now ch t else paidRefusal ch t)"

definition countUsage :: "ChannelType \<Rightarrow> tenant \<Rightarrow> tenant" where
  "countUsage ch t = (case ch of
     SMS \<Rightarrow> t\<lparr>tenant_smsUsageCount := tenant_smsUsageCount t + 1\<rparr>
   | VOICE \<Rightarrow> t\<lparr>tenant_voiceUsageCount := tenant_voiceUsageCount t + 1\<rparr>
   | WHATSAPP \<Rightarrow> t\<lparr>tenant_whatsappUsageCount := tenant_whatsappUsageCount t + 1\<rparr>
   | EMAIL \<Rightarrow> t\<lparr>tenant_aiUsageCount := tenant_aiUsageCount t + 1\<rparr>)"

definition incrementUsage :: "uuid \<Rightarrow> ChannelType \<Rightarrow> unit act" where
  "incrementUsage tenantId ch = updateTenant tenantId (countUsage ch)"

definition logFailedReminder :: "instant \<Rightarrow> uuid \<Rightarrow> uuid \<Rightarrow> string \<Rightarrow> string \<Rightarrow> int \<Rightarrow> unit act" where
  "logFailedReminder now tenantId reminderId code message retryCount w =
     (if reminderId \<in> failedReminder_reminderId ` set (w_failedReminders w)
      then (Inr (), w\<lparr>w_failedReminders := update_where (\<lambda>f. failedReminder_reminderId f = reminderId)
             (\<lambda>f. f\<lparr>failedReminder_errorCode := Some code, failedReminder_errorMessage := Some message,
                    failedReminder_retryCount := retryCount, failedReminder_lastRetryAt := Some now\<rparr>)
             (w_failedReminders w)\<rparr>)
      else if tenantExists tenantId w \<and> reminderId \<in> reminder_id ` set (w_reminders w)
      then (Inr (), bump (w\<lparr>w_failedReminders := w_failedReminders w @
             [\<lparr>failedReminder_id = newId w, failedReminder_tenantId = tenantId,
               failedReminder_reminderId = reminderId, failedReminder_errorCode = Some code,
               failedReminder_errorMessage = Some message, failedReminder_lastRetryAt = None,
               failedReminder_retryCount = retryCount\<rparr>]\<rparr>))
      else (Inl (PrismaError ''P2003''), w))"

section \<open>Strategies\<close>

definition resolveStrategy :: "uuid \<Rightarrow> uuid option \<Rightarrow> world \<Rightarrow> channelStrategy option" where
  "resolveStrategy tenantId strategyId w =
     (case (if truthy strategyId then List.find (\<lambda>s. Some (channelStrategy_id s) = strategyId)
              (w_channelStrategies w) else None) of
        Some s \<Rightarrow> Some s
      | None \<Rightarrow> defaultStrategy tenantId w)"

definition UNREAD_CHECK_QUEUE :: string where
  "UNREAD_CHECK_QUEUE = ''meetora-unread-checks''"

definition REMINDER_DLQ :: string where
  "REMINDER_DLQ = ''meetora-reminders-dlq''"

record UnreadCheckJob =
  uc_reminderId :: uuid
  uc_tenantId :: uuid
  uc_strategyId :: uuid
  uc_strategyChain :: "ChannelType list"
  uc_currentChannelIndex :: nat
  uc_recipient :: string
  uc_messageContent :: string

definition unreadJobJson :: "UnreadCheckJob \<Rightarrow> json" where
  "unreadJobJson d = JObj [(''reminderId'', JStr (uc_reminderId d)), (''tenantId'', JStr (uc_tenantId d)),
     (''strategyId'', JStr (uc_strategyId d)), (''strategyChain'', chainOf (uc_strategyChain d)),
     (''currentChannelIndex'', JNum (int (uc_currentChannelIndex d))),
     (''recipient'', JStr (uc_recipient d)), (''messageContent'', JStr (uc_messageContent d))]"

definition scheduleUnreadCheck :: "WorkerJob \<Rightarrow> channelStrategy \<Rightarrow> string \<Rightarrow> world \<Rightarrow> world" where
  "scheduleUnreadCheck j s recipient w =
     (case indexOf (wj_channel j) (channelStrategy_chain s) of
        None \<Rightarrow> w
      | Some i \<Rightarrow>
          let jobId = ''unread-check-'' @ wj_reminderId j
          in if int i \<ge> int (length (channelStrategy_chain s)) - 1 then w
             else if list_ex (\<lambda>x. job_queue x = UNREAD_CHECK_QUEUE \<and> job_id x = jobId) (w_jobs w) then w
             else addJob \<lparr>job_queue = UNREAD_CHECK_QUEUE, job_id = jobId, job_name = ''check-unread'',
                    job_data = unreadJobJson \<lparr>uc_reminderId = wj_reminderId j, uc_tenantId = wj_tenantId j,
                      uc_strategyId = channelStrategy_id s, uc_strategyChain = channelStrategy_chain s,
                      uc_currentChannelIndex = i, uc_recipient = recipient,
                      uc_messageContent = coalesce (wj_messageContent j) []\<rparr>,
                    job_delay = channelStrategy_unreadWindowMinutes s * 60 * 1000\<rparr> w)"

section \<open>The processor\<close>

record Recipient =
  rc_id :: uuid
  rc_phone :: "string option"
  rc_email :: "string option"

definition ofCustomer :: "customer \<Rightarrow> Recipient list" where
  "ofCustomer c = (if customer_unsubscribed c then []
     else [\<lparr>rc_id = customer_id c, rc_phone = customer_phone c, rc_email = customer_email c\<rparr>])"

definition ofParticipant :: "world \<Rightarrow> eventParticipant \<Rightarrow> Recipient option" where
  "ofParticipant w p =
     (if eventParticipant_status p = P_cancelled then None
      else Option.bind (findContact (eventParticipant_contactId p) w) (\<lambda>c.
        if contact_unsubscribed c then None
        else Some \<lparr>rc_id = contact_id c, rc_phone = contact_phone c, rc_email = contact_email c\<rparr>))"

definition eventTargets :: "reminder \<Rightarrow> uuid \<Rightarrow> world \<Rightarrow> eventParticipant list" where
  "eventTargets r eventId w = filter (\<lambda>p. eventParticipant_eventId p = eventId \<and>
     (truthy (reminder_contactId r) \<longrightarrow> Some (eventParticipant_contactId p) = reminder_contactId r))
     (w_eventParticipants w)"

definition chasingNonResponders :: "eventParticipant list \<Rightarrow> bool" where
  "chasingNonResponders ps =
     list_ex (\<lambda>p. eventParticipant_status p \<noteq> P_confirmed \<and> eventParticipant_status p \<noteq> P_cancelled) ps"

definition remindersSwitchedOff :: "uuid \<Rightarrow> world \<Rightarrow> bool" where
  "remindersSwitchedOff eventId w =
     (case List.find (\<lambda>a. eventAutomation_eventId a = eventId) (w_eventAutomations w) of
        None \<Rightarrow> False
      | Some a \<Rightarrow> \<not> eventAutomation_remindNonResponders a)"

text \<open>Whom the reminder goes to; empty when chasing people without an answer is switched off.\<close>

definition recipientsOf :: "reminder \<Rightarrow> world \<Rightarrow> Recipient list" where
  "recipientsOf r w =
     (case reminderCustomer r w of
        Some c \<Rightarrow> ofCustomer c
      | None \<Rightarrow>
          (case Option.bind (reminder_eventId r) (\<lambda>i. List.find (\<lambda>e. event_id e = i) (w_events w)) of
             None \<Rightarrow> []
           | Some e \<Rightarrow>
               let targets = eventTargets r (event_id e) w
               in if remindersSwitchedOff (event_id e) w \<and> chasingNonResponders targets then []
                  else List.map_filter (ofParticipant w) targets))"

definition addressOf :: "Recipient \<Rightarrow> string option" where
  "addressOf c = or_str (rc_phone c) (rc_email c)"

definition reminderLog :: "instant \<Rightarrow> uuid \<Rightarrow> uuid \<Rightarrow> ChannelType \<Rightarrow> string \<Rightarrow> string option \<Rightarrow> string option \<Rightarrow>
    uuid \<Rightarrow> messageLog" where
  "reminderLog now tenantId reminderId ch to content sid i =
     \<lparr>messageLog_id = i, messageLog_tenantId = tenantId, messageLog_reminderId = Some reminderId,
      messageLog_channel = ch, messageLog_direction = OUTBOUND, messageLog_recipient = to,
      messageLog_content = content, messageLog_providerMessageId = sid,
      messageLog_providerStatus = Some ''sent'', messageLog_sentAt = Some now, messageLog_deliveredAt = None,
      messageLog_createdAt = now, messageLog_contactId = None, messageLog_eventId = None,
      messageLog_isDemoData = False\<rparr>"

definition reminderSentActivity :: "instant \<Rightarrow> WorkerJob \<Rightarrow> Recipient \<Rightarrow> string \<Rightarrow> world \<Rightarrow> world" where
  "reminderSentActivity now j c to w =
     (case List.find (\<lambda>k. contact_tenantId k = wj_tenantId j \<and>
             (if truthy (rc_phone c) then contact_phone k = rc_phone c else contact_email k = rc_email c))
           (w_contacts w) of
        None \<Rightarrow> w
      | Some k \<Rightarrow> addActivity now (wj_tenantId j) (contact_id k) ''reminder_sent'' (Some (wj_reminderId j))
          (JObj [(''channel'', JStr (channelName (wj_channel j))), (''recipient'', JStr to)]) w)"

definition unreadCheckAfterSend :: "WorkerJob \<Rightarrow> string \<Rightarrow> world \<Rightarrow> world" where
  "unreadCheckAfterSend j to w =
     (if wj_channel j = WHATSAPP
      then (case resolveStrategy (wj_tenantId j) (wj_channelStrategyId j) w of
          None \<Rightarrow> w
        | Some s \<Rightarrow> if channelStrategy_fallbackOnUnread s then scheduleUnreadCheck j s to w else w)
      else w)"

text \<open>What follows a successful send: usage, log, activity, unread check.\<close>

definition afterSend :: "instant \<Rightarrow> WorkerJob \<Rightarrow> Recipient \<Rightarrow> string \<Rightarrow> string option \<Rightarrow> unit act" where
  "afterSend now j c to sid =
     thenA (incrementUsage (wj_tenantId j) (wj_channel j))
       (thenA (createMessageLog (reminderLog now (wj_tenantId j) (wj_reminderId j) (wj_channel j) to
                 (wj_messageContent j) sid))
         (modifyA (\<lambda>w. unreadCheckAfterSend j to (reminderSentActivity now j c to w))))"

record Progress =
  pg_someSuccess :: bool
  pg_lastError :: string
  pg_lastErrorCode :: string

definition finalContent :: "reminder \<Rightarrow> WorkerJob \<Rightarrow> string" where
  "finalContent r j =
     (if truthy (reminder_eventId r)
      then appendRsvpFooter (coalesce (wj_messageContent j) []) (channelName (wj_channel j))
      else coalesce (wj_messageContent j) [])"

definition jobRef :: "WorkerJob \<Rightarrow> appointment_ref" where
  "jobRef j = (case wj_appointmentId j of None \<Rightarrow> NullId | Some i \<Rightarrow> AppointmentId i)"

text \<open>The loop over the recipients: the first exception ends it.\<close>

fun sendAll :: "env \<Rightarrow> instant \<Rightarrow> reminder \<Rightarrow> WorkerJob \<Rightarrow> Recipient list \<Rightarrow> Progress \<Rightarrow> Progress act" where
  "sendAll E now r j [] p w = (Inr p, w)"
| "sendAll E now r j (c # cs) p w =
     (if \<not> truthy (addressOf c) then sendAll E now r j cs p w
      else let to = the (addressOf c)
           in bindA (performSend E now (wj_channel j) to (finalContent r j) (wj_tenantId j) (wj_reminderId j)
                       (jobRef j))
                (\<lambda>out. if so_success out
                   then thenA (afterSend now j c to (so_providerMessageId out))
                          (sendAll E now r j cs (p\<lparr>pg_someSuccess := True\<rparr>))
                   else sendAll E now r j cs
                          (p\<lparr>pg_lastError := coalesce (or_str (so_error out) (Some ''Unknown error'')) [],
                             pg_lastErrorCode := coalesce (or_str (so_errorCode out) (Some ''SEND_FAILED'')) []\<rparr>)) w)"

definition setReminderStatus :: "uuid \<Rightarrow> ReminderStatus \<Rightarrow> unit act" where
  "setReminderStatus i st = updateReminder i (\<lambda>r. r\<lparr>reminder_status := st\<rparr>)"

definition markSent :: "instant \<Rightarrow> uuid \<Rightarrow> unit act" where
  "markSent now i = updateReminder i (\<lambda>r. r\<lparr>reminder_status := R_SENT, reminder_sentAt := Some now\<rparr>)"

definition orText :: "string \<Rightarrow> string \<Rightarrow> string" where
  "orText a b = (if a = [] then b else a)"

definition finish :: "instant \<Rightarrow> int \<Rightarrow> WorkerJob \<Rightarrow> Progress \<Rightarrow> unit act" where
  "finish now attemptNum j p =
     (if pg_someSuccess p then markSent now (wj_reminderId j)
      else thenA (setReminderStatus (wj_reminderId j) R_FAILED)
             (thenA (logFailedReminder now (wj_tenantId j) (wj_reminderId j) (pg_lastErrorCode p)
                       (orText (pg_lastError p) ''All attempts failed'') attemptNum)
               (throwA (PlainError (orText (pg_lastError p) ''All bulk send attempts failed'')))))"

definition processReminderJob :: "env \<Rightarrow> instant \<Rightarrow> nat \<Rightarrow> WorkerJob \<Rightarrow> unit act" where
  "processReminderJob E now attemptsMade j w =
     (case findReminder (wj_reminderId j) w of
        None \<Rightarrow> (Inr (), w)
      | Some r \<Rightarrow>
          if reminder_status r \<noteq> R_PENDING then (Inr (), w)
          else (case validatePlanEligibility now (wj_tenantId j) (wj_channel j) w of
             Some refusal \<Rightarrow>
               thenA (setReminderStatus (wj_reminderId j) R_CANCELLED)
                 (swallowA (logFailedReminder now (wj_tenantId j) (wj_reminderId j) ''PLAN_NOT_ELIGIBLE'' refusal
                    (int attemptsMade + 1))) w
           | None \<Rightarrow>
               if recipientsOf r w = [] then setReminderStatus (wj_reminderId j) R_CANCELLED w
               else bindA (sendAll E now r j (recipientsOf r w)
                        \<lparr>pg_someSuccess = False, pg_lastError = [], pg_lastErrorCode = ''SEND_FAILED''\<rparr>)
                      (finish now (int attemptsMade + 1) j) w))"

section \<open>Failed jobs\<close>

text \<open>The chain of a failover: a strategy's, or the tenant's settings; \<open>None\<close> when it is off.\<close>

definition failoverChain :: "tenant \<Rightarrow> channelStrategy option \<Rightarrow> json option" where
  "failoverChain t s =
     (case s of
        Some x \<Rightarrow> if channelStrategy_fallbackOnFailed x then Some (chainOf (channelStrategy_chain x)) else None
      | None \<Rightarrow>
          if jget (Some (tenant_settings t)) ''failoverEnabled'' = Some (JBool False) then None
          else Some (case jget (Some (tenant_settings t)) ''failoverChain'' of
                 None \<Rightarrow> chainOf DEFAULT_CHAIN
               | Some JNull \<Rightarrow> chainOf DEFAULT_CHAIN
               | Some j \<Rightarrow> j))"

definition logDelivered :: "instant \<Rightarrow> uuid \<Rightarrow> uuid \<Rightarrow> ChannelType \<Rightarrow> string \<Rightarrow> string option \<Rightarrow> SendOutcome \<Rightarrow> unit act" where
  "logDelivered now tenantId reminderId ch to content out =
     whenA (so_success out)
       (createMessageLog (reminderLog now tenantId reminderId ch to content (so_providerMessageId out)))"

definition failoverSend :: "env \<Rightarrow> instant \<Rightarrow> reminder \<Rightarrow> uuid \<Rightarrow> ChannelType \<Rightarrow> ChannelType \<Rightarrow> unit act" where
  "failoverSend E now r tenantId failed ch w =
     (let to = failoverRecipient r w; content = coalesce (reminder_messageContent r) []
      in bindA (performSend E now ch to content (reminder_tenantId r) (reminder_id r)
             (AppointmentId (coalesce (reminder_appointmentId r) [])))
           (\<lambda>out. thenA (logFallbackEvent tenantId (Some (reminder_id r)) failed ch
                       (''Primary channel '' @ channelName failed @ '' exhausted all retries'') (so_success out))
                     (logDelivered now tenantId (reminder_id r) ch to (reminder_messageContent r) out)) w)"

text \<open>An element of the chain that is no channel is not sent, and its log is rejected.\<close>

definition triggerFailover :: "env \<Rightarrow> instant \<Rightarrow> WorkerJob \<Rightarrow> unit act" where
  "triggerFailover E now j w =
     (case findTenant (wj_tenantId j) w of
        None \<Rightarrow> (Inr (), w)
      | Some t \<Rightarrow>
          (case failoverChain t (resolveStrategy (wj_tenantId j) (wj_channelStrategyId j) w) of
             None \<Rightarrow> (Inr (), w)
           | Some chain \<Rightarrow>
               (case nextChannel chain (wj_channel j) of
                  Inl e \<Rightarrow> (Inl e, w)
                | Inr None \<Rightarrow> (Inr (), w)
                | Inr (Some next) \<Rightarrow>
                    if channelOf next = Some VOICE \<and> tenant_planType t = PLAN_SMS
                    then logFallbackEvent (wj_tenantId j) (Some (wj_reminderId j)) (wj_channel j) VOICE
                           ''Plan does not include VOICE'' False w
                    else (case findReminder (wj_reminderId j) w of
                        None \<Rightarrow> (Inr (), w)
                      | Some r \<Rightarrow>
                          (case channelOf next of
                             None \<Rightarrow> (Inl (PrismaError ''PrismaClientValidationError''), w)
                           | Some ch \<Rightarrow> failoverSend E now r (wj_tenantId j) (wj_channel j) ch w)))))"

definition workerJobJson :: "WorkerJob \<Rightarrow> instant \<Rightarrow> json" where
  "workerJobJson j scheduledFor = JObj
     ([(''reminderId'', JStr (wj_reminderId j)), (''tenantId'', JStr (wj_tenantId j)),
       (''appointmentId'', (case wj_appointmentId j of None \<Rightarrow> JNull | Some a \<Rightarrow> JStr a)),
       (''channel'', JStr (channelName (wj_channel j))),
       (''messageContent'', (case wj_messageContent j of None \<Rightarrow> JNull | Some m \<Rightarrow> JStr m)),
       (''scheduledFor'', JDate scheduledFor)] @
      (case wj_channelStrategyId j of None \<Rightarrow> [] | Some s \<Rightarrow> [(''channelStrategyId'', JStr s)]))"

text \<open>The handler of a failed attempt; \<open>attemptsMade\<close> counts it. The dead letter's id is BullMQ's.\<close>

definition onFailed :: "env \<Rightarrow> instant \<Rightarrow> instant \<Rightarrow> nat \<Rightarrow> nat \<Rightarrow> WorkerJob \<Rightarrow> string \<Rightarrow> unit act" where
  "onFailed E now scheduledFor attemptsMade maxAttempts j message =
     (if attemptsMade < maxAttempts then returnA ()
      else thenA (setReminderStatus (wj_reminderId j) R_FAILED)
             (thenA (modifyA (addJob \<lparr>job_queue = REMINDER_DLQ, job_id = [], job_name = ''dead-reminder'',
                       job_data = workerJobJson j scheduledFor, job_delay = 0\<rparr>))
             (thenA (logFailedReminder now (wj_tenantId j) (wj_reminderId j) ''MAX_RETRIES_EXHAUSTED''
                       (''Failed after '' @ show_nat maxAttempts @ '' attempts: '' @ message) (int attemptsMade))
                    (triggerFailover E now j))))"

section \<open>Unread checks\<close>

definition lastOutbound :: "uuid \<Rightarrow> ChannelType \<Rightarrow> world \<Rightarrow> messageLog option" where
  "lastOutbound reminderId ch w = first_of (order_desc messageLog_createdAt
     (filter (\<lambda>l. messageLog_reminderId l = Some reminderId \<and> messageLog_channel l = ch \<and>
                  messageLog_direction l = OUTBOUND) (w_messageLogs w)))"

definition escalateUnread :: "env \<Rightarrow> instant \<Rightarrow> UnreadCheckJob \<Rightarrow> ChannelType \<Rightarrow> ChannelType \<Rightarrow> unit act" where
  "escalateUnread E now d from ch =
     bindA (performSend E now ch (uc_recipient d) (uc_messageContent d) (uc_tenantId d) (uc_reminderId d) MissingId)
       (\<lambda>out. thenA (logFallbackEvent (uc_tenantId d) (Some (uc_reminderId d)) from ch
                   (channelName from @ '' message unread after '' @
                    show_nat (length (uc_strategyChain d)) @ ''m window'') (so_success out))
                 (logDelivered now (uc_tenantId d) (uc_reminderId d) ch (uc_recipient d) (Some (uc_messageContent d)) out))"

text \<open>The index of a job is within its chain: \<open>scheduleUnreadCheck\<close> took it from there.\<close>

definition processUnreadCheck :: "env \<Rightarrow> instant \<Rightarrow> UnreadCheckJob \<Rightarrow> unit act" where
  "processUnreadCheck E now d w =
     (let chain = uc_strategyChain d; i = uc_currentChannelIndex d; from = chain ! i
      in case lastOutbound (uc_reminderId d) from w of
           None \<Rightarrow> (Inr (), w)
         | Some l \<Rightarrow>
             if messageLog_providerStatus l = Some ''read'' then (Inr (), w)
             else if i + 1 \<ge> length chain then (Inr (), w)
             else let next = chain ! (i + 1)
                  in if next = VOICE \<and>
                        map_option tenant_planType (findTenant (uc_tenantId d) w) = Some PLAN_SMS
                     then logFallbackEvent (uc_tenantId d) (Some (uc_reminderId d)) from VOICE
                            ''Plan does not include VOICE'' False w
                     else escalateUnread E now d from next w)"

section \<open>The life of a job\<close>

definition REMINDER_ATTEMPTS :: nat where
  "REMINDER_ATTEMPTS = 5"

text \<open>
  \<open>attempts: 5\<close>: a job that throws is tried again, after the back-off, until its attempts are used up; one
  that returns is done. The list holds the instants of the attempts.
\<close>

fun jobLife :: "env \<Rightarrow> instant \<Rightarrow> (exn \<Rightarrow> string) \<Rightarrow> nat \<Rightarrow> instant list \<Rightarrow> WorkerJob \<Rightarrow> world \<Rightarrow> world" where
  "jobLife E due message made [] j w = w"
| "jobLife E due message made (t # ts) j w =
     (case processReminderJob E t made j w of
        (Inr _, v) \<Rightarrow> v
      | (Inl e, v) \<Rightarrow>
          let v' = snd (onFailed E t due (Suc made) REMINDER_ATTEMPTS j (message e) v)
          in if Suc made < REMINDER_ATTEMPTS then jobLife E due message (Suc made) ts j v' else v')"

end
