(* ===== verification/Worker_Properties.thy ===== *)
theory Worker_Properties
  imports Reminder_Worker Compliance
begin

text \<open>
  What the reminder worker guarantees, and where sending goes wrong: jobs take effect once unless the
  database fails, nothing is sent after a cancellation or an opt-out, refusals of the plan, retries that
  never happen, mails that are never or twice sent.
\<close>

section \<open>Which errors can occur\<close>

definition prismaOnly :: "'a outcome \<Rightarrow> bool" where
  "prismaOnly r = (case r of Inl e \<Rightarrow> (\<exists>c. e = PrismaError c) | Inr _ \<Rightarrow> True)"

lemma prismaOnly_simps [simp]:
  "prismaOnly (Inr x)" "prismaOnly (Inl (PrismaError c))" "\<not> prismaOnly (Inl (PlainError s))"
  by (simp_all add: prismaOnly_def)

lemma prismaOnly_bindA:
  assumes "prismaOnly (fst (m w))" and "\<And>x v. prismaOnly (fst (k x v))"
  shows "prismaOnly (fst (bindA m k w))"
proof -
  obtain r v where r: "m w = (r, v)" by (cases "m w")
  show ?thesis using assms r by (cases r) (simp_all add: prismaOnly_def)
qed

lemma prismaOnly_thenA: "prismaOnly (fst (m w)) \<Longrightarrow> (\<And>v. prismaOnly (fst (k v))) \<Longrightarrow> prismaOnly (fst (thenA m k w))"
  unfolding thenA_def by (rule prismaOnly_bindA) simp_all

lemma createMessageLog_prisma: "prismaOnly (fst (createMessageLog mk w))"
  by (simp add: createMessageLog_def Let_def)

lemma send_prisma: "prismaOnly (fst (send E now q w))"
proof (cases "sendTarget E q")
  case None
  then show ?thesis by (auto simp: send_def sendTarget_def Let_def split: option.splits if_splits)
next
  case (Some to)
  obtain r w1 where d: "dispatch E now q to w = (r, w1)" by (cases "dispatch E now q to w") auto
  have "prismaOnly (fst (thenA (whenA b (createMessageLog mk)) (thenA (whenA c (modifyA f)) (returnA x)) w1))"
    for b mk c f and x :: SendOutcome
    by (intro prismaOnly_thenA; cases b; cases c) (simp_all add: createMessageLog_prisma)
  then show ?thesis unfolding send_valid [OF Some] d by (simp add: Let_def)
qed

lemma performSend_prisma: "prismaOnly (fst (performSend E now ch to content t i ref w))"
proof -
  have "prismaOnly (findTenantAppointment ref t w)"
    by (cases "(ref, t, w)" rule: findTenantAppointment.cases) simp_all
  then show ?thesis
    by (auto simp: performSend_def Let_def send_prisma prismaOnly_def [of "Inl _"] split: option.splits sum.splits)
qed

lemma afterSend_prisma: "prismaOnly (fst (afterSend now j c to sid w))"
  unfolding afterSend_def
  by (intro prismaOnly_thenA createMessageLog_prisma) (simp_all add: incrementUsage_def updateTenant_def updateRow_def)

lemma sendAll_prisma: "prismaOnly (fst (sendAll E now r j cs p w))"
proof (induction cs arbitrary: p w)
  case (Cons c cs)
  then show ?case
    by (auto simp: Let_def intro!: prismaOnly_bindA performSend_prisma prismaOnly_thenA afterSend_prisma)
qed simp

section \<open>The reminder rows during a send\<close>

lemma performSend_frame:
  "w_reminders (snd (performSend E now ch to content t i ref w)) = w_reminders w"
  by (simp add: performSend_def Let_def split: option.split sum.split)

lemma afterSend_reminders: "keeps (\<lambda>v. w_reminders v = R) (afterSend now j c to sid)"
proof -
  have log: "keeps (\<lambda>v. w_reminders v = R) (createMessageLog mk)" for mk
  proof (rule keepsI)
    fix v :: world assume "w_reminders v = R"
    then show "w_reminders (snd (createMessageLog mk v)) = R" using createMessageLog_cases [of mk v] by auto
  qed
  have rest: "w_reminders (unreadCheckAfterSend j to (reminderSentActivity now j c to v)) = w_reminders v" for v
    by (simp add: unreadCheckAfterSend_def scheduleUnreadCheck_def reminderSentActivity_def addActivity_def
        addJob_def Let_def split: option.split)
  have use: "keeps (\<lambda>v. w_reminders v = R) (incrementUsage t ch)" for t ch
    by (rule keepsI) (simp add: incrementUsage_def updateTenant_def updateRow_def)
  show ?thesis
    unfolding afterSend_def by (intro keeps_thenA use log) (simp add: keeps_def rest)
qed

lemma sendAll_reminders: "w_reminders (snd (sendAll E now r j cs p w)) = w_reminders w"
proof (induction cs arbitrary: p w)
  case (Cons c cs)
  have go: "keeps (\<lambda>v. w_reminders v = R) (sendAll E now r j cs p)" for p R
    using Cons by (simp add: keeps_def)
  have "keeps (\<lambda>v. w_reminders v = R) (bindA (performSend E now ch to content t i ref)
      (\<lambda>out. if so_success out then thenA (afterSend now j c to (so_providerMessageId out)) (sendAll E now r j cs p)
             else sendAll E now r j cs (q out)))" for ch to content t i ref R p q
    by (intro keeps_bindA keeps_if keeps_thenA afterSend_reminders go) (simp add: keeps_def performSend_frame)
  from keepsD [OF this] show ?case by (simp add: Cons Let_def)
qed simp

lemma logFailed_frame: "w_reminders (snd (logFailedReminder now t i c m n w)) = w_reminders w"
  by (simp add: logFailedReminder_def)

section \<open>Jobs run once\<close>

lemma findReminder_after:
  assumes "findReminder i w = Some r" and "\<And>x. reminder_id (f x) = reminder_id x"
    and "w_reminders v = update_where (\<lambda>x. reminder_id x = i) f (w_reminders w)"
  shows "findReminder i v = Some (f r)"
proof -
  have "reminder_id r = i" using assms(1) by (auto simp: findReminder_def dest: find_SomeD)
  then show ?thesis using assms by (simp add: findReminder_def find_update_where_other)
qed

lemma updateReminder_found:
  assumes "findReminder i w = Some r"
  shows "updateReminder i f w = (Inr (), putReminders (update_where (\<lambda>x. reminder_id x = i) f (w_reminders w)) w)"
  using assms by (auto simp: findReminder_def updateReminder_def updateRow_def dest!: find_SomeD)

text \<open>What is left of a pending reminder after one attempt that met no database error.\<close>

lemma attempt_settles:
  assumes "findReminder (wj_reminderId j) w = Some r" and "reminder_status r = R_PENDING"
    and "\<forall>c. fst (processReminderJob E now m j w) \<noteq> Inl (PrismaError c)"
  shows "\<exists>r'. findReminder (wj_reminderId j) (snd (processReminderJob E now m j w)) = Some r' \<and>
    reminder_status r' \<noteq> R_PENDING"
proof -
  let ?i = "wj_reminderId j" and ?run = "processReminderJob E now m j w"
  have set: "\<exists>r'. findReminder ?i u = Some r' \<and> reminder_status r' \<noteq> R_PENDING"
    if "w_reminders u = update_where (\<lambda>x. reminder_id x = ?i) f (w_reminders v)" "w_reminders v = w_reminders w"
      "\<And>x. reminder_id (f x) = reminder_id x" "\<And>x. reminder_status (f x) \<noteq> R_PENDING" for u v f
    using findReminder_after [of ?i w r f u] that assms(1) by auto
  show ?thesis
  proof (cases "validatePlanEligibility now (wj_tenantId j) (wj_channel j) w")
    case (Some why)
    then show ?thesis
      using assms(1,2)
      by (intro set [where v = w and f = "\<lambda>x. x\<lparr>reminder_status := R_CANCELLED\<rparr>"])
         (simp_all add: processReminderJob_def setReminderStatus_def updateReminder_found logFailed_frame)
  next
    case ok: None
    show ?thesis
    proof (cases "recipientsOf r w = []")
      case True
      then show ?thesis
        using assms(1,2) ok
        by (intro set [where v = w and f = "\<lambda>x. x\<lparr>reminder_status := R_CANCELLED\<rparr>"])
           (simp_all add: processReminderJob_def setReminderStatus_def updateReminder_found)
    next
      case False
      let ?p = "\<lparr>pg_someSuccess = False, pg_lastError = [], pg_lastErrorCode = ''SEND_FAILED''\<rparr>"
      obtain x v where s: "sendAll E now r j (recipientsOf r w) ?p w = (x, v)" by fastforce
      have v: "w_reminders v = w_reminders w" using sendAll_reminders [of E now r j "recipientsOf r w" ?p w] s by simp
      then have fv: "findReminder ?i v = Some r" using assms(1) by (simp add: findReminder_def)
      have run: "?run = bindA (sendAll E now r j (recipientsOf r w) ?p) (finish now (int m + 1) j) w"
        using assms(1,2) ok False by (simp add: processReminderJob_def)
      have "prismaOnly x" using sendAll_prisma [of E now r j "recipientsOf r w" ?p w] s by simp
      then obtain p where x: "x = Inr p"
        using assms(3) run s by (cases x) (auto simp: prismaOnly_def)
      then have fin: "?run = finish now (int m + 1) j p v" using run s by simp
      show ?thesis
      proof (cases "pg_someSuccess p")
        case True
        then have "snd ?run = putReminders (update_where (\<lambda>y. reminder_id y = ?i)
            (\<lambda>y. y\<lparr>reminder_status := R_SENT, reminder_sentAt := Some now\<rparr>) (w_reminders v)) v"
          unfolding fin by (simp add: finish_def markSent_def updateReminder_found [OF fv])
        then show ?thesis
          by (intro set [where v = v and f = "\<lambda>y. y\<lparr>reminder_status := R_SENT, reminder_sentAt := Some now\<rparr>"])
             (simp_all add: v)
      next
        case False
        then have "w_reminders (snd ?run) = update_where (\<lambda>y. reminder_id y = ?i)
            (\<lambda>y. y\<lparr>reminder_status := R_FAILED\<rparr>) (w_reminders v)"
          unfolding fin by (simp add: finish_def setReminderStatus_def updateReminder_found [OF fv])
            (simp add: thenA_def bindA_def logFailedReminder_def)
        then show ?thesis
          by (intro set [where v = v and f = "\<lambda>y. y\<lparr>reminder_status := R_FAILED\<rparr>"]) (simp_all add: v)
      qed
    qed
  qed
qed

text \<open>The tenants stay, so that a failure can always be recorded.\<close>

lemma updateTenant_tenantExists: "keeps (tenantExists t) (incrementUsage u ch)"
proof (rule keepsI)
  fix v assume t: "tenantExists t v"
  have "map tenant_id (update_where (\<lambda>x. tenant_id x = u) (countUsage ch) (w_tenants v)) = map tenant_id (w_tenants v)"
    by (rule map_update_where_same) (simp add: countUsage_def split: ChannelType.split)
  then show "tenantExists t (snd (incrementUsage u ch v))"
    using t unfolding incrementUsage_def updateTenant_def updateRow_def tenantExists_def
    by (auto simp flip: set_map)
qed

lemma afterSend_tenantExists: "keeps (tenantExists t) (afterSend now j c to sid)"
proof -
  have log: "keeps (tenantExists t) (createMessageLog mk)" for mk
  proof (rule keepsI)
    fix v assume "tenantExists t v"
    then show "tenantExists t (snd (createMessageLog mk v))"
      using createMessageLog_cases [of mk v] by (auto simp: tenantExists_def)
  qed
  have "w_tenants (unreadCheckAfterSend j to (reminderSentActivity now j c to v)) = w_tenants v" for v
    by (simp add: unreadCheckAfterSend_def scheduleUnreadCheck_def reminderSentActivity_def addActivity_def
        addJob_def Let_def split: option.split)
  then have "keeps (tenantExists t) (modifyA (\<lambda>v. unreadCheckAfterSend j to (reminderSentActivity now j c to v)))"
    by (simp add: keeps_def tenantExists_def)
  then show ?thesis
    unfolding afterSend_def by (intro keeps_thenA updateTenant_tenantExists log)
qed

lemma sendAll_tenantExists: "keeps (tenantExists t) (sendAll E now r j cs p)"
proof (induction cs arbitrary: p)
  case Nil
  then show ?case by (simp add: keeps_def)
next
  case (Cons c cs)
  have send: "keeps (tenantExists t) (performSend E now ch to content u i ref)" for ch to content u i ref
    by (simp add: keeps_def performSend_def Let_def tenantExists_def split: option.split sum.split)
  have "keeps (tenantExists t) (bindA (performSend E now ch to content u i ref)
      (\<lambda>out. if so_success out then thenA (afterSend now j c to (so_providerMessageId out)) (sendAll E now r j cs p)
             else sendAll E now r j cs (q out)))" for ch to content u i ref p q
    by (intro keeps_bindA keeps_if keeps_thenA afterSend_tenantExists send Cons)
  then show ?case using Cons by (auto simp: keeps_def Let_def)
qed

lemma logFailed_ok:
  "tenantExists t w \<Longrightarrow> findReminder i w = Some r \<Longrightarrow> \<exists>v. logFailedReminder now t i c m n w = (Inr (), v)"
  by (auto simp: logFailedReminder_def findReminder_def intro: rev_image_eqI dest!: find_SomeD)

lemma finish_fails:
  assumes "\<not> pg_someSuccess p" and "findReminder (wj_reminderId j) v = Some r" and "tenantExists (wj_tenantId j) v"
  shows "fst (finish now n j p v) = Inl (PlainError (orText (pg_lastError p) ''All bulk send attempts failed''))"
proof -
  let ?f = "\<lambda>x. x\<lparr>reminder_status := R_FAILED\<rparr>"
  let ?u = "putReminders (update_where (\<lambda>x. reminder_id x = wj_reminderId j) ?f (w_reminders v)) v"
  have "findReminder (wj_reminderId j) ?u = Some (?f r)" by (rule findReminder_after [OF assms(2)]) simp_all
  moreover have "tenantExists (wj_tenantId j) ?u" using assms(3) by (simp add: tenantExists_def)
  ultimately obtain x where "logFailedReminder now (wj_tenantId j) (wj_reminderId j) (pg_lastErrorCode p)
      (orText (pg_lastError p) ''All attempts failed'') n ?u = (Inr (), x)"
    using logFailed_ok by blast
  then show ?thesis
    using assms(1) by (simp add: finish_def setReminderStatus_def updateReminder_found [OF assms(2)])
qed

text \<open>An attempt that a database error cut short has left the reminder rows alone.\<close>

lemma interrupted_attempt:
  assumes "findReminder (wj_reminderId j) w = Some r" and "reminder_status r = R_PENDING"
    and "fst (processReminderJob E now m j w) = Inl (PrismaError c)"
  shows "w_reminders (snd (processReminderJob E now m j w)) = w_reminders w"
proof -
  let ?run = "processReminderJob E now m j w"
  let ?p = "\<lparr>pg_someSuccess = False, pg_lastError = [], pg_lastErrorCode = ''SEND_FAILED''\<rparr>"
  have ok: "validatePlanEligibility now (wj_tenantId j) (wj_channel j) w = None" and "recipientsOf r w \<noteq> []"
    using assms by (auto simp: processReminderJob_def setReminderStatus_def updateReminder_found split: option.splits)
  then have run: "?run = bindA (sendAll E now r j (recipientsOf r w) ?p) (finish now (int m + 1) j) w"
    using assms(1,2) by (simp add: processReminderJob_def)
  obtain x v where s: "sendAll E now r j (recipientsOf r w) ?p w = (x, v)" by fastforce
  have v: "w_reminders v = w_reminders w" using sendAll_reminders [of E now r j "recipientsOf r w" ?p w] s by simp
  show ?thesis
  proof (cases x)
    case (Inl e)
    then show ?thesis using run s v by simp
  next
    case (Inr p)
    have "tenantExists (wj_tenantId j) w"
      using ok by (cases "findTenant (wj_tenantId j) w")
        (simp_all add: validatePlanEligibility_def, metis findTenant_None_iff option.distinct(1))
    then have "tenantExists (wj_tenantId j) v"
      using keepsD [OF sendAll_tenantExists [of "wj_tenantId j" E now r j "recipientsOf r w" ?p]] s by fastforce
    have found: "findReminder (wj_reminderId j) v = Some r" using assms(1) v by (simp add: findReminder_def)
    have "fst ?run = Inl (PlainError e)" if "\<not> pg_someSuccess p" "e = orText (pg_lastError p) ''All bulk send attempts failed''" for e
      using finish_fails [OF that(1) found \<open>tenantExists (wj_tenantId j) v\<close>] run s Inr that(2) by simp
    then have "pg_someSuccess p" using assms(3) by fastforce
    then have "fst ?run = Inr ()"
      using assms(3) run s Inr by (simp add: finish_def markSent_def updateReminder_found [OF found])
    then show ?thesis using assms(3) by simp
  qed
qed

text \<open>
  C1: A reminder job takes effect once, unless a database error cuts it short. After an attempt that
  returned or threw an ordinary error, whether it sent, cancelled, skipped or failed, running the job
  again, at any later time, in any environment, does nothing at all. The one other outcome is an error of
  the database, which only a pending reminder can meet: it leaves the reminders as they were, this one
  still PENDING, so that the retry starts over (and may send again what had already gone out).
\<close>

theorem reminder_job_runs_once:
  "case fst (processReminderJob E now m j w) of
     Inl (PrismaError c) \<Rightarrow>
       w_reminders (snd (processReminderJob E now m j w)) = w_reminders w \<and>
       (\<exists>r. findReminder (wj_reminderId j) w = Some r \<and> reminder_status r = R_PENDING)
   | _ \<Rightarrow> \<forall>E' later n. processReminderJob E' later n j (snd (processReminderJob E now m j w)) =
       (Inr (), snd (processReminderJob E now m j w))"
proof (cases "\<exists>r. findReminder (wj_reminderId j) w = Some r \<and> reminder_status r = R_PENDING")
  case False
  then show ?thesis by (auto simp: processReminderJob_def split: option.split)
next
  case True
  then obtain r where r: "findReminder (wj_reminderId j) w = Some r" "reminder_status r = R_PENDING" by blast
  show ?thesis
  proof (cases "\<exists>c. fst (processReminderJob E now m j w) = Inl (PrismaError c)")
    case True
    then show ?thesis using interrupted_attempt [OF r] r by auto
  next
    case False
    with attempt_settles [OF r, of E now m] show ?thesis
      by (auto simp: processReminderJob_def [of E' for E'] split: sum.split exn.split)
  qed
qed

text \<open>
  C5: A reminder that could not be sent is never tried again. When the first attempt fails because no
  recipient could be reached, the remaining attempts of the job do nothing: the whole life of the job ends
  where the first attempt ended, with no dead letter and no failover to another channel.
\<close>

theorem failed_send_never_retried:
  assumes "fst (processReminderJob E t 0 j w) = Inl (PlainError err)"
  shows "jobLife E due message 0 (t # ts) j w = snd (processReminderJob E t 0 j w)"
proof -
  let ?v = "snd (processReminderJob E t 0 j w)"
  have first: "processReminderJob E t 0 j w = (Inl (PlainError err), ?v)"
    using assms by (metis prod.collapse)
  have again: "processReminderJob E later n j ?v = (Inr (), ?v)" for later n
  proof (cases "findReminder (wj_reminderId j) w")
    case None
    then show ?thesis using assms by (simp add: processReminderJob_def)
  next
    case (Some r)
    then have "reminder_status r = R_PENDING" using assms by (auto simp: processReminderJob_def split: if_splits)
    from attempt_settles [OF Some this, of E t 0] assms show ?thesis
      by (auto simp: processReminderJob_def [of E later])
  qed
  have "jobLife E due message 0 (t # ts) j w = jobLife E due message 1 ts j ?v"
    by (subst jobLife.simps, subst first) (simp add: REMINDER_ATTEMPTS_def onFailed_def)
  also have "\<dots> = ?v" by (cases ts) (simp_all add: again)
  finally show ?thesis .
qed


text \<open>A reminder that reaches nobody is settled without a message and without an error.\<close>

lemma nobody_to_remind:
  assumes "findReminder (wj_reminderId j) u = Some r" and "recipientsOf r u = []"
  shows "fst (processReminderJob E now m j u) = Inr ()"
    and "w_outbox (snd (processReminderJob E now m j u)) = w_outbox u"
    and "\<exists>x. findReminder (wj_reminderId j) (snd (processReminderJob E now m j u)) = Some x \<and>
      reminder_status x \<noteq> R_PENDING"
proof -
  let ?run = "processReminderJob E now m j u"
  show ok: "fst ?run = Inr ()"
    using assms by (auto simp: processReminderJob_def setReminderStatus_def updateReminder_found split: option.split)
  show "w_outbox (snd ?run) = w_outbox u"
    using assms by (auto simp: processReminderJob_def setReminderStatus_def updateReminder_found
        logFailedReminder_def split: option.split)
  show "\<exists>x. findReminder (wj_reminderId j) (snd ?run) = Some x \<and> reminder_status x \<noteq> R_PENDING"
  proof (cases "reminder_status r = R_PENDING")
    case True
    then show ?thesis using attempt_settles [OF assms(1) True, of E now m] ok by simp
  next
    case False
    then show ?thesis using assms(1) by (simp add: processReminderJob_def)
  qed
qed

text \<open>
  C14: After an opt-out the customer is sent no reminders of appointments. When the customer with that
  number is still subscribed, the opt-out succeeds and marks them unsubscribed; no reminder of any of
  their upcoming open appointments is pending any more and no job of the name reminder-<id> of one that
  was pending is left in the queue; scheduling any of their appointments adds nothing from then on. The
  reminders of their other appointments, past or no longer open, are untouched, and jobs under another
  name (rem_<id>) stay in the queue; but as long as the customers are as the opt-out left them, whatever
  reminder of whatever appointment of the customer the worker takes up, under any job, at any time, in any
  attempt, nothing is handed over, the run ends without an error (so that there is no retry and no
  failover), and the reminder is not pending afterwards. The claim is about the worker's run: a message sent
  before the opt-out can still fail over to another channel when its delivery fails afterwards.
\<close>

theorem opt_out_silences:
  assumes "customerByPhone t phone w = Some c" and "\<not> customer_unsubscribed c"
    and "distinct (map reminder_id (w_reminders w))"
  shows "\<exists>v. optOut now phone t ch w = (Inr (), v) \<and> isOptedOut phone t v \<and>
    (\<forall>a \<in> set (w_appointments w). upcoming now (customer_id c) a \<longrightarrow>
       (\<forall>r \<in> set (w_reminders v). reminder_appointmentId r = Some (appointment_id a) \<longrightarrow>
          reminder_status r \<noteq> R_PENDING) \<and>
       (\<forall>r \<in> set (w_reminders w). pendingFor {appointment_id a} r \<longrightarrow>
          \<not> (\<exists>j \<in> set (w_jobs v). jobOfAny {r} j))) \<and>
    (\<forall>i a. findAppointment i v = Some a \<longrightarrow> appointment_customerId a = Some (customer_id c) \<longrightarrow>
       scheduleForAppointment E later i s v = (Inr [], v)) \<and>
    (\<forall>r \<in> set (w_reminders w). (\<forall>a \<in> set (w_appointments w). upcoming now (customer_id c) a \<longrightarrow>
       reminder_appointmentId r \<noteq> Some (appointment_id a)) \<longrightarrow> r \<in> set (w_reminders v)) \<and>
    (\<forall>u r d E' later' m j. w_customers u = w_customers v \<and> findReminder (wj_reminderId j) u = Some r \<and>
       reminderCustomer r u = Some d \<and> customer_id d = customer_id c \<longrightarrow>
       (let run = processReminderJob E' later' m j u
        in fst run = Inr () \<and> w_outbox (snd run) = w_outbox u \<and>
           (\<exists>x. findReminder (wj_reminderId j) (snd run) = Some x \<and> reminder_status x \<noteq> R_PENDING)))"
proof -
  let ?f = "\<lambda>c. c\<lparr>customer_unsubscribed := True, customer_unsubscribedAt := Some now\<rparr>"
  let ?w1 = "putCustomers (update_where (\<lambda>r. customer_id r = customer_id c) ?f (w_customers w)) w"
  let ?as = "appointment_id ` set (filter (upcoming now (customer_id c)) (w_appointments w))"
  let ?w2 = "cancelledFor ?as ?w1"
  let ?e = "auditEntry t None ''UPDATE'' ''Customer'' (customer_id c)
     [(''unsubscribed'', JBool True), (''via'', JStr (channelName ch)), (''phone'', JStr phone)]"
  let ?w3 = "snd (audit_log ?e ?w2)"
  have c: "c \<in> set (w_customers w)" "customer_tenantId c = t" "customer_phone c = Some phone"
    using assms(1) by (auto simp: customerByPhone_def dest!: find_SomeD)
  have step1: "updateCustomer (customer_id c) ?f w = (Inr (), ?w1)"
    using c(1) by (simp add: updateCustomer_def updateRow_def)
  have step2: "cancelUpcoming now (customer_id c) ?w1 = (Inr (), ?w2)"
    using cancelUpcoming_effect [of ?w1] assms(3) by simp
  define v where "v = snd (setContact True t phone ?w3)"
  have out: "optOut now phone t ch w = (Inr (), v)"
    using assms(1,2) by (simp add: optOut_def step1 step2 v_def prod_eq_iff setContact_frame)
  have reminders: "w_reminders v = update_where (pendingFor ?as) (\<lambda>r. r\<lparr>reminder_status := R_CANCELLED\<rparr>) (w_reminders w)"
    and jobs: "w_jobs v = filter (\<lambda>j. \<not> jobOfAny {r \<in> set (w_reminders w). pendingFor ?as r} j) (w_jobs w)"
    and customers: "w_customers v = update_where (\<lambda>r. customer_id r = customer_id c) ?f (w_customers w)"
    by (simp_all add: v_def setContact_frame cancelledFor_def)
  have opted: "isOptedOut phone t v"
    using assms(1) by (simp add: isOptedOut_def customerByPhone_def customers find_update_where_other)
  have silent: "reminder_status r \<noteq> R_PENDING"
    if "a \<in> set (w_appointments w)" "upcoming now (customer_id c) a" "r \<in> set (w_reminders v)"
      "reminder_appointmentId r = Some (appointment_id a)" for a r
    using that pending_gone [of r ?as] by (auto simp: reminders)
  have dequeued: "\<not> jobOfAny {r} j"
    if "a \<in> set (w_appointments w)" "upcoming now (customer_id c) a" "r \<in> set (w_reminders w)"
      "pendingFor {appointment_id a} r" "j \<in> set (w_jobs v)" for a r j
  proof -
    have "pendingFor ?as r" using that(1,2,4) by (auto simp: pendingFor_def)
    then show ?thesis using that(3,5) by (auto simp: jobs jobOfAny_def)
  qed
  have unscheduled: "scheduleForAppointment E later i s v = (Inr [], v)"
    if "findAppointment i v = Some a" "appointment_customerId a = Some (customer_id c)" for i a
  proof -
    obtain q where q: "List.find (\<lambda>x. customer_id x = customer_id c) (w_customers w) = Some q"
      using c(1) by (cases "List.find (\<lambda>x. customer_id x = customer_id c) (w_customers w)")
        (auto simp: find_None_iff)
    then have "customer_id q = customer_id c" by (auto dest: find_SomeD)
    then have "customerOf a v = Some (?f q)"
      using q that(2) by (simp add: customerOf_def customers find_update_where_other)
    then show ?thesis using that(1) by (simp add: scheduleForAppointment_def)
  qed
  have kept: "r \<in> set (w_reminders v)" if "r \<in> set (w_reminders w)"
    "\<forall>a \<in> set (w_appointments w). upcoming now (customer_id c) a \<longrightarrow>
       reminder_appointmentId r \<noteq> Some (appointment_id a)" for r
    unfolding reminders using that by (intro pending_kept) (auto simp: pendingFor_def)
  have idle: "recipientsOf r u = []"
    if "w_customers u = w_customers v" "reminderCustomer r u = Some d" "customer_id d = customer_id c" for u r d
  proof -
    have "d \<in> set (w_customers v)"
      using that(1,2) by (auto simp: reminderCustomer_def dest!: find_SomeD split: option.splits)
    then obtain q where "d = (if customer_id q = customer_id c then ?f q else q)"
      unfolding customers set_update_where by blast
    then have "customer_unsubscribed d"
      using that(3) by (cases "customer_id q = customer_id c") simp_all
    then show ?thesis using that(2) by (simp add: recipientsOf_def ofCustomer_def)
  qed
  have settled: "let run = processReminderJob E' later' m j u
      in fst run = Inr () \<and> w_outbox (snd run) = w_outbox u \<and>
         (\<exists>x. findReminder (wj_reminderId j) (snd run) = Some x \<and> reminder_status x \<noteq> R_PENDING)"
    if "w_customers u = w_customers v \<and> findReminder (wj_reminderId j) u = Some r \<and>
      reminderCustomer r u = Some d \<and> customer_id d = customer_id c" for u r d E' later' m j
  proof -
    have "findReminder (wj_reminderId j) u = Some r" and "recipientsOf r u = []" using that idle by blast+
    from nobody_to_remind [OF this] show ?thesis by (simp add: Let_def)
  qed
  show ?thesis
    by (intro exI [of _ v] conjI ballI allI impI notI settled)
       (use out opted silent dequeued unscheduled kept in blast)+
qed


text \<open>
  The plan is enforced when a reminder is sent. A job that the plan refuses at its own instant (trial
  over, no subscription, a cap reached, no such tenant) sends nothing and counts nothing, completes without
  an error, so that it is not retried, and leaves a pending reminder CANCELLED.
\<close>

theorem refused_reminder_not_sent:
  assumes "validatePlanEligibility now (wj_tenantId j) (wj_channel j) w = Some why"
  shows "fst (processReminderJob E now m j w) = Inr () \<and>
    w_outbox (snd (processReminderJob E now m j w)) = w_outbox w \<and>
    w_tenants (snd (processReminderJob E now m j w)) = w_tenants w \<and>
    (\<forall>r. findReminder (wj_reminderId j) w = Some r \<longrightarrow> reminder_status r = R_PENDING \<longrightarrow>
       findReminder (wj_reminderId j) (snd (processReminderJob E now m j w)) =
         Some (r\<lparr>reminder_status := R_CANCELLED\<rparr>))"
proof (cases "findReminder (wj_reminderId j) w")
  case None
  then show ?thesis by (simp add: processReminderJob_def)
next
  case (Some r)
  show ?thesis
  proof (cases "reminder_status r = R_PENDING")
    case True
    let ?f = "\<lambda>x. x\<lparr>reminder_status := R_CANCELLED\<rparr>"
    let ?v = "putReminders (update_where (\<lambda>x. reminder_id x = wj_reminderId j) ?f (w_reminders w)) w"
    let ?u = "snd (logFailedReminder now (wj_tenantId j) (wj_reminderId j) ''PLAN_NOT_ELIGIBLE'' why (int m + 1) ?v)"
    have run: "processReminderJob E now m j w = (Inr (), ?u)"
      using Some True assms by (simp add: processReminderJob_def setReminderStatus_def updateReminder_found)
    have "w_outbox ?u = w_outbox w \<and> w_tenants ?u = w_tenants w"
      by (simp add: logFailedReminder_def)
    moreover have "findReminder (wj_reminderId j) ?u = Some (?f r)"
      by (rule findReminder_after [OF Some]) (simp_all add: logFailed_frame)
    ultimately show ?thesis using Some by (simp add: run)
  next
    case False
    then show ?thesis using Some by (simp add: processReminderJob_def)
  qed
qed

lemma performSend_null:
  "performSend E now EMAIL to content t i NullId w = (Inl (PrismaError ''PrismaClientValidationError''), w)"
  by (simp add: performSend_def)

lemma sendAll_null:
  assumes "wj_channel j = EMAIL" and "wj_appointmentId j = None" and "\<exists>c \<in> set cs. truthy (addressOf c)"
  shows "sendAll E now r j cs p w = (Inl (PrismaError ''PrismaClientValidationError''), w)"
  using assms(3)
proof (induction cs arbitrary: p)
  case (Cons c cs)
  then show ?case using assms(1,2) by (auto simp: jobRef_def bindA_error [OF performSend_null] Let_def)
qed simp

text \<open>
  E-mail reminders of an event are never sent. The jobs of an event carry no appointment, and for an
  e-mail the worker looks the appointment up by that missing id, which the database client rejects: an
  allowed, pending reminder with a reachable recipient ends every attempt with that error and an
  unchanged state.
\<close>

theorem event_email_never_sent:
  assumes "wj_channel j = EMAIL" and "wj_appointmentId j = None"
    and "findReminder (wj_reminderId j) w = Some r" and "reminder_status r = R_PENDING"
    and "validatePlanEligibility now (wj_tenantId j) (wj_channel j) w = None"
    and "\<exists>c \<in> set (recipientsOf r w). truthy (addressOf c)"
  shows "processReminderJob E now m j w = (Inl (PrismaError ''PrismaClientValidationError''), w)"
proof -
  have "recipientsOf r w \<noteq> []" using assms(6) by auto
  then show ?thesis
    using assms by (simp add: processReminderJob_def bindA_error [OF sendAll_null])
qed

section \<open>Concrete worlds\<close>

definition demoJob :: "uuid \<Rightarrow> ChannelType \<Rightarrow> WorkerJob" where
  "demoJob i ch = \<lparr>wj_reminderId = i, wj_tenantId = ''t1'', wj_appointmentId = Some ''a1'', wj_channel = ch,
     wj_messageContent = Some ''Hi'', wj_channelStrategyId = None\<rparr>"

text \<open>A customer with an e-mail address, one appointment and the given reminders.\<close>

definition office :: "reminder list \<Rightarrow> world" where
  "office rs = (clinic [])\<lparr>w_customers := [(demoCustomer False)\<lparr>customer_email := Some ''ada@x.io''\<rparr>],
     w_reminders := rs\<rparr>"


theorem opt_out_silences_witness:
  "let w = (clinic [demoRule ''r1'' 60])\<lparr>w_reminders := [demoReminder ''x'' R_PENDING],
             w_jobs := [reminderJob 0 (demoReminder ''x'' R_PENDING) None]\<rparr>
   in \<exists>v. optOut 5 ''+15550001111'' ''t1'' SMS w = (Inr (), v) \<and> isOptedOut ''+15550001111'' ''t1'' v \<and>
        (\<forall>r \<in> set (w_reminders v). reminder_appointmentId r = Some ''a1'' \<longrightarrow> reminder_status r \<noteq> R_PENDING)"
proof -
  let ?w = "(clinic [demoRule ''r1'' 60])\<lparr>w_reminders := [demoReminder ''x'' R_PENDING],
             w_jobs := [reminderJob 0 (demoReminder ''x'' R_PENDING) None]\<rparr>"
  have c: "customerByPhone ''t1'' ''+15550001111'' ?w = Some (demoCustomer False)"
    by (simp add: customerByPhone_def demoCustomer_def)
  have "upcoming 5 (customer_id (demoCustomer False)) (demoAppointment 10000000)"
    by (simp add: upcoming_def demoCustomer_def demoAppointment_def)
  moreover have "appointment_id (demoAppointment 10000000) = ''a1''" by (simp add: demoAppointment_def)
  moreover have "\<not> customer_unsubscribed (demoCustomer False)" by (simp add: demoCustomer_def)
  moreover have "distinct (map reminder_id (w_reminders ?w))" and "demoAppointment 10000000 \<in> set (w_appointments ?w)"
    by simp_all
  ultimately show ?thesis
    using opt_out_silences [OF c, of 5 SMS] unfolding Let_def by metis
qed

definition deafEnv :: env where
  "deafEnv = demoEnv\<lparr>e_send := (\<lambda>n m. \<lparr>sr_success = False, sr_id = None, sr_error = Some ''busy''\<rparr>)\<rparr>"

theorem failed_send_never_retried_witness:
  "let w = jobLife deafEnv 9 (\<lambda>_. ''busy'') 0 [100, 200, 300, 400, 500] (demoJob ''x'' SMS)
             (office [demoReminder ''x'' R_PENDING])
   in length (w_outbox w) = 1 \<and> map reminder_status (w_reminders w) = [R_FAILED] \<and> w_jobs w = []"
proof -
  let ?run = "processReminderJob deafEnv 100 0 (demoJob ''x'' SMS) (office [demoReminder ''x'' R_PENDING])"
  have "fst ?run = Inl (PlainError ''Simulated SMS delivery failure'')" by code_simp
  then have "jobLife deafEnv 9 (\<lambda>_. ''busy'') 0 [100, 200, 300, 400, 500] (demoJob ''x'' SMS)
      (office [demoReminder ''x'' R_PENDING]) = snd ?run"
    by (rule failed_send_never_retried)
  moreover have "length (w_outbox (snd ?run)) = 1" and "map reminder_status (w_reminders (snd ?run)) = [R_FAILED]"
    and "w_jobs (snd ?run) = []"
    by code_simp+
  ultimately show ?thesis by (simp add: Let_def)
qed

theorem refused_reminder_not_sent_witness:
  "let w = (office [demoReminder ''x'' R_PENDING])\<lparr>w_tenants := [demoTenant PLAN_SMS PAST_DUE False 0]\<rparr>
   in fst (processReminderJob demoEnv 100 0 (demoJob ''x'' SMS) w) = Inr () \<and>
      w_outbox (snd (processReminderJob demoEnv 100 0 (demoJob ''x'' SMS) w)) = w_outbox w"
proof -
  let ?w = "(office [demoReminder ''x'' R_PENDING])\<lparr>w_tenants := [demoTenant PLAN_SMS PAST_DUE False 0]\<rparr>"
  have "validatePlanEligibility 100 (wj_tenantId (demoJob ''x'' SMS)) (wj_channel (demoJob ''x'' SMS)) ?w =
      Some ''No active subscription''"
    by code_simp
  from refused_reminder_not_sent [OF this, of demoEnv 0] show ?thesis by simp
qed

definition eventMail :: WorkerJob where
  "eventMail = (demoJob ''x'' EMAIL)\<lparr>wj_appointmentId := None\<rparr>"

definition mailParty :: world where
  "mailParty = (party [invited ''p1'' ''e1'' P_confirmed])\<lparr>w_reminders := [(demoReminder ''x'' R_PENDING)\<lparr>
     reminder_appointmentId := None, reminder_eventId := Some ''e1'', reminder_contactId := Some ''k1''\<rparr>]\<rparr>"

theorem event_email_never_sent_witness:
  "processReminderJob mailEnv 100 0 eventMail mailParty = (Inl (PrismaError ''PrismaClientValidationError''), mailParty)"
proof -
  obtain r where r: "findReminder (wj_reminderId eventMail) mailParty = Some r" "reminder_status r = R_PENDING"
      "r = (demoReminder ''x'' R_PENDING)\<lparr>reminder_appointmentId := None, reminder_eventId := Some ''e1'',
         reminder_contactId := Some ''k1''\<rparr>"
    by (simp add: findReminder_def mailParty_def eventMail_def demoJob_def demoReminder_def)
  have "validatePlanEligibility 100 (wj_tenantId eventMail) (wj_channel eventMail) mailParty = None" by code_simp
  moreover have "\<exists>c \<in> set (recipientsOf ((demoReminder ''x'' R_PENDING)\<lparr>reminder_appointmentId := None,
      reminder_eventId := Some ''e1'', reminder_contactId := Some ''k1''\<rparr>) mailParty). truthy (addressOf c)"
    by code_simp
  moreover have "wj_channel eventMail = EMAIL" "wj_appointmentId eventMail = None"
    by (simp_all add: eventMail_def demoJob_def)
  ultimately show ?thesis using event_email_never_sent [OF _ _ r(1,2)] r(3) by simp
qed

text \<open>
  Two e-mail reminders in the same millisecond cost a third mail. The provider id of a mail is made
  from the clock and must be unique in the log: the second job's mail goes out, its log is rejected, the
  job throws with the reminder still pending, and the retry sends the mail again.
\<close>

theorem same_instant_mail_sent_twice:
  "let w0 = office [demoReminder ''x'' R_PENDING, demoReminder ''y'' R_PENDING];
       w1 = snd (processReminderJob mailEnv 100 0 (demoJob ''x'' EMAIL) w0);
       (r2, w2) = processReminderJob mailEnv 100 0 (demoJob ''y'' EMAIL) w1;
       (r3, w3) = processReminderJob mailEnv 200 1 (demoJob ''y'' EMAIL) w2
   in r2 = Inl (PrismaError ''P2002'') \<and> r3 = Inr () \<and>
      map reminder_status (w_reminders w2) = [R_SENT, R_PENDING] \<and> length (w_outbox w3) = 3 \<and>
      map (tenant_aiUsageCount) (w_tenants w3) = [3]"
  by code_simp

text \<open>
  An unread message can escalate to a stranger. The check of a WhatsApp message that was not read asks
  for the appointment without an id and gets the tenant's first one: the e-mail for Bob's reminder goes
  to Ada, the customer of that first appointment.
\<close>

theorem unread_check_mails_stranger:
  "let bob = (demoCustomer False)\<lparr>customer_id := ''c2'', customer_firstName := ''Bob'', customer_email := Some ''bob@x.io''\<rparr>;
       w = (office [(demoReminder ''x'' R_SENT)\<lparr>reminder_appointmentId := Some ''a2'', reminder_channel := WHATSAPP\<rparr>])\<lparr>
             w_customers := [(demoCustomer False)\<lparr>customer_email := Some ''ada@x.io''\<rparr>, bob],
             w_appointments := [demoAppointment 5000, (demoAppointment 6000)\<lparr>appointment_id := ''a2'',
               appointment_customerId := Some ''c2''\<rparr>],
             w_messageLogs := [reminderLog 50 ''t1'' ''x'' WHATSAPP ''+15550002222'' (Some ''Hi Bob'') (Some ''wa1'') ''l1'']\<rparr>;
       d = \<lparr>uc_reminderId = ''x'', uc_tenantId = ''t1'', uc_strategyId = ''s1'', uc_strategyChain = [WHATSAPP, EMAIL],
            uc_currentChannelIndex = 0, uc_recipient = ''+15550002222'', uc_messageContent = ''Hi Bob''\<rparr>
   in map (\<lambda>m. (out_to m, out_content m)) (w_outbox (snd (processUnreadCheck mailEnv 100 d w))) =
      [(''ada@x.io'', ''Hi Bob'')]"
  by code_simp

end
