(* ===== verification/Cascades.thy ===== *)
theory Cascades
  imports Store
begin

text \<open>
  What deleting a row does to the rows that refer to it, by the \<open>onDelete\<close> actions of
  \<open>prisma/schema.prisma\<close> and its migrations: children are deleted with it or lose the reference.
\<close>

definition deleteUserRow :: "uuid \<Rightarrow> world \<Rightarrow> world" where
  "deleteUserRow i w =
     w\<lparr>w_users := delete_where (\<lambda>u. user_id u = i) (w_users w),
       w_auditLogs := update_where (\<lambda>l. auditLog_userId l = Some i) (\<lambda>l. l\<lparr>auditLog_userId := None\<rparr>) (w_auditLogs w),
       w_events := update_where (\<lambda>e. event_createdBy e = Some i) (\<lambda>e. e\<lparr>event_createdBy := None\<rparr>) (w_events w)\<rparr>"

definition deleteReminders :: "(reminder \<Rightarrow> bool) \<Rightarrow> world \<Rightarrow> world" where
  "deleteReminders p w =
     (let gone = map reminder_id (filter p (w_reminders w))
      in w\<lparr>w_reminders := delete_where p (w_reminders w),
           w_failedReminders := delete_where (\<lambda>f. failedReminder_reminderId f \<in> set gone) (w_failedReminders w),
           w_failoverLogs := update_where (\<lambda>l. failoverLog_reminderId l \<in> Some ` set gone)
             (\<lambda>l. l\<lparr>failoverLog_reminderId := None\<rparr>) (w_failoverLogs w),
           w_messageLogs := update_where (\<lambda>l. messageLog_reminderId l \<in> Some ` set gone)
             (\<lambda>l. l\<lparr>messageLog_reminderId := None\<rparr>) (w_messageLogs w)\<rparr>)"

definition deleteFeedbackRequests :: "(feedbackRequest \<Rightarrow> bool) \<Rightarrow> world \<Rightarrow> world" where
  "deleteFeedbackRequests p w =
     (let gone = map feedbackRequest_id (filter p (w_feedbackRequests w))
      in w\<lparr>w_feedbackRequests := delete_where p (w_feedbackRequests w),
           w_feedbackResponses := delete_where (\<lambda>r. feedbackResponse_requestId r \<in> set gone)
             (w_feedbackResponses w)\<rparr>)"

text \<open>An appointment: reminders, participants, sessions, calendar entries and feedback go with it.\<close>

definition deleteAppointmentRow :: "uuid \<Rightarrow> world \<Rightarrow> world" where
  "deleteAppointmentRow i w =
     (let w1 = deleteFeedbackRequests (\<lambda>f. feedbackRequest_appointmentId f = Some i)
            (deleteReminders (\<lambda>r. reminder_appointmentId r = Some i) w)
      in w1\<lparr>w_appointments := delete_where (\<lambda>a. appointment_id a = i) (w_appointments w1),
            w_participants := delete_where (\<lambda>p. participant_appointmentId p = i) (w_participants w1),
            w_rescheduleSessions := delete_where (\<lambda>s. rescheduleSession_appointmentId s = i)
              (w_rescheduleSessions w1),
            w_calendarSyncedEvents := delete_where (\<lambda>e. calendarSyncedEvent_appointmentId e = Some i)
              (w_calendarSyncedEvents w1)\<rparr>)"

text \<open>
  An event: its participants, replies, automation settings, reminders, feedback and calendar entries go
  with it; appointments and message logs only lose the reference (\<open>ON DELETE SET NULL\<close>).
\<close>

definition deleteEventRow :: "uuid \<Rightarrow> world \<Rightarrow> world" where
  "deleteEventRow i w =
     (let w1 = deleteFeedbackRequests (\<lambda>f. feedbackRequest_eventId f = Some i)
            (deleteReminders (\<lambda>r. reminder_eventId r = Some i) w)
      in w1\<lparr>w_events := delete_where (\<lambda>e. event_id e = i) (w_events w1),
            w_eventParticipants := delete_where (\<lambda>p. eventParticipant_eventId p = i) (w_eventParticipants w1),
            w_rsvpEvents := delete_where (\<lambda>r. rsvpEvent_eventId r = i) (w_rsvpEvents w1),
            w_eventResponses := delete_where (\<lambda>r. eventResponse_eventId r = i) (w_eventResponses w1),
            w_eventAutomations := delete_where (\<lambda>a. eventAutomation_eventId a = i) (w_eventAutomations w1),
            w_calendarSyncedEvents := delete_where (\<lambda>e. calendarSyncedEvent_eventId e = Some i)
              (w_calendarSyncedEvents w1),
            w_appointments := update_where (\<lambda>a. appointment_eventId a = Some i)
              (\<lambda>a. a\<lparr>appointment_eventId := None\<rparr>) (w_appointments w1),
            w_messageLogs := update_where (\<lambda>l. messageLog_eventId l = Some i)
              (\<lambda>l. l\<lparr>messageLog_eventId := None\<rparr>) (w_messageLogs w1)\<rparr>)"

text \<open>
  A contact: its tags, groups, activities, appointments' participations and everything of it at events go
  with it; reminders, message logs, campaign recipients and responses lose the reference.
\<close>

definition deleteContacts :: "(contact \<Rightarrow> bool) \<Rightarrow> world \<Rightarrow> world" where
  "deleteContacts p w =
     (let gone = set (map contact_id (filter p (w_contacts w)))
      in w\<lparr>w_contacts := delete_where p (w_contacts w),
           w_contactTags := delete_where (\<lambda>l. contactTag_contactId l \<in> gone) (w_contactTags w),
           w_contactGroupMembers := delete_where (\<lambda>m. contactGroupMember_contactId m \<in> gone)
             (w_contactGroupMembers w),
           w_contactActivities := delete_where (\<lambda>a. contactActivity_contactId a \<in> gone) (w_contactActivities w),
           w_participants := delete_where (\<lambda>q. participant_contactId q \<in> gone) (w_participants w),
           w_eventParticipants := delete_where (\<lambda>q. eventParticipant_contactId q \<in> gone) (w_eventParticipants w),
           w_eventResponses := delete_where (\<lambda>r. eventResponse_contactId r \<in> gone) (w_eventResponses w),
           w_rsvpEvents := delete_where (\<lambda>r. rsvpEvent_contactId r \<in> gone) (w_rsvpEvents w),
           w_reminders := update_where (\<lambda>r. reminder_contactId r \<in> Some ` gone)
             (\<lambda>r. r\<lparr>reminder_contactId := None\<rparr>) (w_reminders w),
           w_messageLogs := update_where (\<lambda>l. messageLog_contactId l \<in> Some ` gone)
             (\<lambda>l. l\<lparr>messageLog_contactId := None\<rparr>) (w_messageLogs w),
           w_campaignRecipients := update_where (\<lambda>r. campaignRecipient_contactId r \<in> Some ` gone)
             (\<lambda>r. r\<lparr>campaignRecipient_contactId := None\<rparr>) (w_campaignRecipients w),
           w_messageResponses := update_where (\<lambda>r. messageResponse_contactId r \<in> Some ` gone)
             (\<lambda>r. r\<lparr>messageResponse_contactId := None\<rparr>) (w_messageResponses w)\<rparr>)"

text \<open>A tag: its links go with it; a segment made of it loses the reference.\<close>

definition deleteTagRow :: "uuid \<Rightarrow> world \<Rightarrow> world" where
  "deleteTagRow i w = w\<lparr>w_tags := delete_where (\<lambda>t. tag_id t = i) (w_tags w),
     w_contactTags := delete_where (\<lambda>l. contactTag_tagId l = i) (w_contactTags w),
     w_audienceSegments := update_where (\<lambda>s. audienceSegment_tagId s = Some i)
       (\<lambda>s. s\<lparr>audienceSegment_tagId := None\<rparr>) (w_audienceSegments w)\<rparr>"

text \<open>Segments and campaigns: appointments made for them lose the reference.\<close>

definition deleteSegments :: "(audienceSegment \<Rightarrow> bool) \<Rightarrow> world \<Rightarrow> world" where
  "deleteSegments p w =
     (let gone = set (map audienceSegment_id (filter p (w_audienceSegments w)))
      in w\<lparr>w_audienceSegments := delete_where p (w_audienceSegments w),
           w_appointments := update_where (\<lambda>a. appointment_audienceSegmentId a \<in> Some ` gone)
             (\<lambda>a. a\<lparr>appointment_audienceSegmentId := None\<rparr>) (w_appointments w)\<rparr>)"

definition deleteCampaignRow :: "uuid \<Rightarrow> world \<Rightarrow> world" where
  "deleteCampaignRow i w =
     (let w1 = deleteSegments (\<lambda>s. audienceSegment_campaignId s = i) w
      in w1\<lparr>w_campaigns := delete_where (\<lambda>c. campaign_id c = i) (w_campaigns w1),
            w_campaignRecipients := delete_where (\<lambda>r. campaignRecipient_campaignId r = i) (w_campaignRecipients w1),
            w_messageResponses := delete_where (\<lambda>r. messageResponse_broadcastId r = i) (w_messageResponses w1),
            w_appointments := update_where (\<lambda>a. appointment_campaignId a = Some i)
              (\<lambda>a. a\<lparr>appointment_campaignId := None\<rparr>) (w_appointments w1)\<rparr>)"

lemma deleteReminders_frame [simp]:
  "w_appointments (deleteReminders p w) = w_appointments w"
  "w_events (deleteReminders p w) = w_events w"
  "w_reminders (deleteReminders p w) = delete_where p (w_reminders w)"
  "w_jobs (deleteReminders p w) = w_jobs w"
  "w_tenants (deleteReminders p w) = w_tenants w"
  by (simp_all add: deleteReminders_def Let_def)

lemma deleteFeedbackRequests_frame [simp]:
  "w_appointments (deleteFeedbackRequests q w) = w_appointments w"
  "w_events (deleteFeedbackRequests q w) = w_events w"
  "w_reminders (deleteFeedbackRequests q w) = w_reminders w"
  "w_jobs (deleteFeedbackRequests q w) = w_jobs w"
  "w_tenants (deleteFeedbackRequests q w) = w_tenants w"
  by (simp_all add: deleteFeedbackRequests_def Let_def)

lemma deleteEventRow_frame [simp]:
  "w_appointments (deleteEventRow i w) = update_where (\<lambda>a. appointment_eventId a = Some i)
     (\<lambda>a. a\<lparr>appointment_eventId := None\<rparr>) (w_appointments w)"
  "w_events (deleteEventRow i w) = delete_where (\<lambda>e. event_id e = i) (w_events w)"
  "w_jobs (deleteEventRow i w) = w_jobs w"
  "w_tenants (deleteEventRow i w) = w_tenants w"
  by (simp_all add: deleteEventRow_def Let_def)

lemma deleteAppointmentRow_frame [simp]:
  "w_appointments (deleteAppointmentRow i w) = delete_where (\<lambda>a. appointment_id a = i) (w_appointments w)"
  "w_jobs (deleteAppointmentRow i w) = w_jobs w"
  "w_tenants (deleteAppointmentRow i w) = w_tenants w"
  by (simp_all add: deleteAppointmentRow_def Let_def)

end
