(* ===== verification/Appointments.thy ===== *)
theory Appointments
  imports Event_Lifecycle Template_Renderer Cascades
begin

text \<open>
  \<open>modules/appointment/appointment.service.ts\<close>: booking for a contact, a tag, a group or a segment, and the
  dashboard's list, change and removal of appointments. The two date formats of the template renderer are
  arguments; \<open>findToday\<close>, whose day boundaries come from a time-zone library, is left out.
\<close>

section \<open>Whom a booking is for\<close>

datatype TargetType = T_contact | T_tag | T_group | T_segment

record ReminderConfigDto =
  rcf_channel :: ChannelType
  rcf_template :: string

record CreateAppointmentDto =
  ca_customerId :: "uuid option"
  ca_locationId :: "uuid option"
  ca_campaignId :: "uuid option"
  ca_audienceSegmentId :: "uuid option"
  ca_title :: string
  ca_scheduledAt :: instant
  ca_durationMinutes :: "int option"
  ca_notes :: "string option"
  ca_targetType :: "TargetType option"
  ca_targetId :: "uuid option"
  ca_reminderConfig :: "ReminderConfigDto option"

record Target =
  tg_id :: uuid
  tg_name :: string
  tg_phone :: "string option"
  tg_email :: "string option"

definition targetOf :: "contact \<Rightarrow> Target" where
  "targetOf c = \<lparr>tg_id = contact_id c, tg_name = contact_name c, tg_phone = contact_phone c,
     tg_email = contact_email c\<rparr>"

definition tenantContact :: "uuid \<Rightarrow> uuid \<Rightarrow> world \<Rightarrow> contact option" where
  "tenantContact tenantId i w =
     List.find (\<lambda>c. contact_id c = i \<and> contact_tenantId c = tenantId) (w_contacts w)"

definition taggedContacts :: "uuid \<Rightarrow> uuid \<Rightarrow> world \<Rightarrow> contact list" where
  "taggedContacts tenantId tagId w = List.map_filter
     (\<lambda>ct. if contactTag_tagId ct = tagId then tenantContact tenantId (contactTag_contactId ct) w else None)
     (w_contactTags w)"

definition groupContacts :: "uuid \<Rightarrow> uuid \<Rightarrow> world \<Rightarrow> contact list" where
  "groupContacts tenantId groupId w = List.map_filter
     (\<lambda>m. if contactGroupMember_groupId m = groupId then tenantContact tenantId (contactGroupMember_contactId m) w
          else None) (w_contactGroupMembers w)"

definition findSegment :: "uuid \<Rightarrow> uuid \<Rightarrow> world \<Rightarrow> audienceSegment option" where
  "findSegment tenantId i w = List.find (\<lambda>s. audienceSegment_id s = i \<and>
     list_ex (\<lambda>c. campaign_id c = audienceSegment_campaignId s \<and> campaign_tenantId c = tenantId)
       (w_campaigns w)) (w_audienceSegments w)"

definition segmentContacts :: "uuid \<Rightarrow> uuid \<Rightarrow> world \<Rightarrow> contact list" where
  "segmentContacts tenantId i w =
     (case findSegment tenantId i w of
        None \<Rightarrow> []
      | Some s \<Rightarrow> if truthy (audienceSegment_tagId s)
                  then taggedContacts tenantId (the (audienceSegment_tagId s)) w
                  else filter (\<lambda>c. contact_tenantId c = tenantId \<and> \<not> contact_unsubscribed c) (w_contacts w))"

text \<open>Without a target, a customer id is tried as a contact's id, then as a customer's.\<close>

definition directTarget :: "uuid \<Rightarrow> uuid \<Rightarrow> world \<Rightarrow> Target list" where
  "directTarget tenantId i w =
     (case tenantContact tenantId i w of
        Some c \<Rightarrow> [targetOf c]
      | None \<Rightarrow>
          (case List.find (\<lambda>c. customer_id c = i \<and> customer_tenantId c = tenantId) (w_customers w) of
             None \<Rightarrow> []
           | Some c \<Rightarrow> [\<lparr>tg_id = customer_id c, tg_name = customer_firstName c @ '' '' @ customer_lastName c,
                          tg_phone = customer_phone c, tg_email = customer_email c\<rparr>]))"

definition targetContacts :: "uuid \<Rightarrow> TargetType \<Rightarrow> uuid \<Rightarrow> world \<Rightarrow> contact list" where
  "targetContacts tenantId tt i w = (case tt of
     T_contact \<Rightarrow> (case tenantContact tenantId i w of None \<Rightarrow> [] | Some c \<Rightarrow> [c])
   | T_tag \<Rightarrow> taggedContacts tenantId i w
   | T_group \<Rightarrow> groupContacts tenantId i w
   | T_segment \<Rightarrow> segmentContacts tenantId i w)"

definition resolveTargets :: "uuid \<Rightarrow> CreateAppointmentDto \<Rightarrow> world \<Rightarrow> Target list" where
  "resolveTargets tenantId dto w =
     (case ca_targetType dto of
        Some tt \<Rightarrow> if truthy (ca_targetId dto)
          then map targetOf (targetContacts tenantId tt (the (ca_targetId dto)) w)
          else if truthy (ca_customerId dto) then directTarget tenantId (the (ca_customerId dto)) w else []
      | None \<Rightarrow> if truthy (ca_customerId dto) then directTarget tenantId (the (ca_customerId dto)) w else [])"

section \<open>Customers\<close>

definition matchesContact :: "Target \<Rightarrow> customer \<Rightarrow> bool" where
  "matchesContact t c = ((truthy (tg_phone t) \<and> customer_phone c = tg_phone t) \<or>
     (truthy (tg_email t) \<and> customer_email c = tg_email t))"

definition splitSpaces :: "string \<Rightarrow> string list" where
  "splitSpaces = split_on (\<lambda>c. c = CHR '' '')"

definition newCustomer :: "uuid \<Rightarrow> Target \<Rightarrow> uuid \<Rightarrow> customer" where
  "newCustomer tenantId t i = (let names = splitSpaces (tg_name t) in
     \<lparr>customer_id = i, customer_tenantId = tenantId,
      customer_firstName = (if hd names = [] then ''Unknown'' else hd names),
      customer_lastName = (let l = join '' '' (tl names) in if l = [] then ''Contact'' else l),
      customer_email = tg_email t, customer_phone = tg_phone t,
      customer_unsubscribed = False, customer_unsubscribedAt = None\<rparr>)"

definition ensureCustomer :: "uuid \<Rightarrow> Target \<Rightarrow> customer act" where
  "ensureCustomer tenantId t w =
     (case List.find (\<lambda>c. customer_tenantId c = tenantId \<and> matchesContact t c) (w_customers w) of
        Some c \<Rightarrow> (Inr c, w)
      | None \<Rightarrow>
          if tenantExists tenantId w
          then let c = newCustomer tenantId t (newId w)
               in (Inr c, bump (w\<lparr>w_customers := w_customers w @ [c]\<rparr>))
          else (Inl (PrismaError ''P2003''), w))"

section \<open>Booking\<close>

definition refOk :: "uuid option \<Rightarrow> uuid list \<Rightarrow> bool" where
  "refOk r ids = (case r of None \<Rightarrow> True | Some i \<Rightarrow> i \<in> set ids)"

definition bookingRefsOk :: "uuid \<Rightarrow> CreateAppointmentDto \<Rightarrow> Target \<Rightarrow> world \<Rightarrow> bool" where
  "bookingRefsOk tenantId dto t w =
     (tenantExists tenantId w \<and> refOk (ca_locationId dto) (map location_id (w_locations w)) \<and>
      refOk (ca_campaignId dto) (map campaign_id (w_campaigns w)) \<and>
      refOk (ca_audienceSegmentId dto) (map audienceSegment_id (w_audienceSegments w)) \<and>
      refOk (Some (tg_id t)) (map contact_id (w_contacts w)))"

definition bookedEvent :: "uuid \<Rightarrow> CreateAppointmentDto \<Rightarrow> uuid \<Rightarrow> event" where
  "bookedEvent tenantId dto i =
     \<lparr>event_id = i, event_tenantId = tenantId, event_title = ca_title dto, event_location = None,
      event_startTime = ca_scheduledAt dto, event_status = E_ACTIVE, event_isDemoData = False,
      event_description = ca_notes dto,
      event_endTime = Some (ca_scheduledAt dto + coalesce (ca_durationMinutes dto) 30 * 60000),
      event_eventType = ET_APPOINTMENT, event_createdBy = None, event_incentiveType = Some ''none'',
      event_incentiveValue = None, event_incentiveMessage = None\<rparr>"

definition bookedAppointment ::
  "uuid \<Rightarrow> CreateAppointmentDto \<Rightarrow> uuid \<Rightarrow> uuid \<Rightarrow> uuid \<Rightarrow> appointment" where
  "bookedAppointment tenantId dto customerId eventId i =
     \<lparr>appointment_id = i, appointment_tenantId = tenantId, appointment_customerId = Some customerId,
      appointment_title = ca_title dto, appointment_scheduledAt = ca_scheduledAt dto,
      appointment_durationMinutes = coalesce (ca_durationMinutes dto) 30, appointment_status = A_SCHEDULED,
      appointment_notes = ca_notes dto, appointment_locationId = ca_locationId dto,
      appointment_campaignId = ca_campaignId dto, appointment_eventId = Some eventId,
      appointment_audienceSegmentId = ca_audienceSegmentId dto, appointment_isDemoData = False\<rparr>"

definition bookedParticipant :: "uuid \<Rightarrow> uuid \<Rightarrow> uuid \<Rightarrow> uuid \<Rightarrow> eventParticipant" where
  "bookedParticipant tenantId eventId contactId i =
     \<lparr>eventParticipant_id = i, eventParticipant_eventId = eventId, eventParticipant_contactId = contactId,
      eventParticipant_tenantId = tenantId, eventParticipant_status = P_confirmed,
      eventParticipant_lastResponseAt = None, eventParticipant_qrToken = None,
      eventParticipant_arrivedAt = None, eventParticipant_qrScannedBy = None,
     eventParticipant_couponCode = None, eventParticipant_couponSentAt = None,
     eventParticipant_isDemoData = False\<rparr>"

text \<open>The nested create is one transaction: event, appointment and event participant, or nothing.\<close>

definition createBooking :: "uuid \<Rightarrow> CreateAppointmentDto \<Rightarrow> Target \<Rightarrow> uuid \<Rightarrow> appointment act" where
  "createBooking tenantId dto t customerId w =
     (if \<not> bookingRefsOk tenantId dto t w then (Inl (PrismaError ''P2003''), w)
      else let e = newId w; w1 = bump (w\<lparr>w_events := w_events w @ [bookedEvent tenantId dto e]\<rparr>);
               a = bookedAppointment tenantId dto customerId e (newId w1);
               w2 = bump (w1\<lparr>w_appointments := w_appointments w1 @ [a]\<rparr>);
               w3 = bump (w2\<lparr>w_eventParticipants := w_eventParticipants w2 @
                      [bookedParticipant tenantId e (tg_id t) (newId w2)]\<rparr>)
           in (Inr a, w3))"

definition addParticipant :: "uuid \<Rightarrow> uuid \<Rightarrow> world \<Rightarrow> world" where
  "addParticipant appointmentId contactId w = bump (w\<lparr>w_participants := w_participants w @
     [\<lparr>participant_id = newId w, participant_appointmentId = appointmentId,
       participant_contactId = contactId, participant_status = ''scheduled''\<rparr>]\<rparr>)"

type_synonym formats = "(instant \<Rightarrow> string) \<times> (instant \<Rightarrow> string)"

definition configuredReminder ::
  "formats \<Rightarrow> uuid \<Rightarrow> ReminderConfigDto \<Rightarrow> Target \<Rightarrow> appointment \<Rightarrow> world \<Rightarrow> uuid \<Rightarrow> reminder" where
  "configuredReminder F tenantId cfg t a w i =
     \<lparr>reminder_id = i, reminder_tenantId = tenantId, reminder_appointmentId = Some (appointment_id a),
      reminder_reminderRuleId = None, reminder_channel = rcf_channel cfg,
      reminder_scheduledSendTime = appointment_scheduledAt a - 1440 * 60000, reminder_status = R_PENDING,
      reminder_messageContent = Some (renderTemplate (fst F) (snd F) (rcf_template cfg)
        (Some \<lparr>tc_name = tg_name t, tc_phone = tg_phone t, tc_email = tg_email t\<rparr>)
        (Some \<lparr>ta_title = appointment_title a, ta_scheduledAt = appointment_scheduledAt a,
               ta_locationName = Option.bind (appointment_locationId a) (\<lambda>l.
                 map_option location_name (List.find (\<lambda>x. location_id x = l) (w_locations w)))\<rparr>) None),
      reminder_contactId = Some (tg_id t), reminder_eventId = appointment_eventId a, reminder_sentAt = None\<rparr>"

text \<open>The job of a configured reminder has an id of its own form.\<close>

definition bookReminders ::
  "env \<Rightarrow> formats \<Rightarrow> instant \<Rightarrow> uuid \<Rightarrow> CreateAppointmentDto \<Rightarrow> Target \<Rightarrow> appointment \<Rightarrow> nat act" where
  "bookReminders E F now tenantId dto t a w =
     (case ca_reminderConfig dto of
        Some cfg \<Rightarrow>
          if appointment_scheduledAt a - 1440 * 60000 \<le> now then (Inr 0, w)
          else let r = configuredReminder F tenantId cfg t a w (newId w)
               in (Inr 1, addJob \<lparr>job_queue = REMINDER_QUEUE, job_id = ''rem_'' @ reminder_id r,
                     job_name = ''send-reminder'', job_data = ReminderJobData r None,
                     job_delay = reminder_scheduledSendTime r - now\<rparr>
                   (bump (w\<lparr>w_reminders := w_reminders w @ [r]\<rparr>)))
      | None \<Rightarrow>
          bindA (scheduleForAppointment E now (appointment_id a) tenantId)
            (\<lambda>rs. thenA (modifyA (\<lambda>v. v\<lparr>w_reminders := update_where
                          (\<lambda>x. reminder_id x \<in> reminder_id ` set rs)
                          (\<lambda>x. x\<lparr>reminder_contactId := Some (tg_id t), reminder_eventId := appointment_eventId a\<rparr>)
                          (w_reminders v)\<rparr>))
                    (returnA (length rs))) w)"

text \<open>A failure of the reminders is logged; the booking stands without them.\<close>

definition orZero :: "nat act \<Rightarrow> nat act" where
  "orZero m w = (case m w of (Inl _, v) \<Rightarrow> (Inr 0, v) | (Inr n, v) \<Rightarrow> (Inr n, v))"

definition scheduledData :: "uuid \<Rightarrow> appointment \<Rightarrow> customer \<Rightarrow> Target \<Rightarrow> json" where
  "scheduledData tenantId a c t = jobj
     [(''appointmentId'', Some (JStr (appointment_id a))), (''appointmentTitle'', Some (JStr (appointment_title a))),
      (''customerId'', Some (JStr (customer_id c))), (''contactId'', Some (JStr (tg_id t))),
      (''customerName'', Some (JStr (customer_firstName c @ '' '' @ customer_lastName c))),
      (''customerPhone'', map_option JStr (customer_phone c)),
      (''customerEmail'', map_option JStr (customer_email c)), (''tenantId'', Some (JStr tenantId))]"

definition bookFor ::
  "env \<Rightarrow> formats \<Rightarrow> instant \<Rightarrow> uuid \<Rightarrow> CreateAppointmentDto \<Rightarrow> Target \<Rightarrow> (appointment \<times> nat) act" where
  "bookFor E F now tenantId dto t =
     bindA (ensureCustomer tenantId t) (\<lambda>c.
     bindA (createBooking tenantId dto t (customer_id c)) (\<lambda>a.
     thenA (modifyA (addParticipant (appointment_id a) (tg_id t)))
     (thenA (modifyA (addActivity now tenantId (tg_id t) ''appointment_created'' (Some (appointment_id a))
               (JObj [(''title'', JStr (appointment_title a)), (''scheduledAt'', JDate (appointment_scheduledAt a))])))
     (bindA (orZero (bookReminders E F now tenantId dto t a)) (\<lambda>n.
      thenA (modifyA (onEventScheduled now tenantId (appointment_id a) (scheduledData tenantId a c t)))
        (returnA (a, n)))))))"

record BookingFailure =
  bf_contactId :: uuid
  bf_contactName :: string
  bf_error :: exn

text \<open>The loop: a contact that fails is recorded, and the others go on.\<close>

fun bookAll :: "env \<Rightarrow> formats \<Rightarrow> instant \<Rightarrow> uuid \<Rightarrow> CreateAppointmentDto \<Rightarrow> Target list \<Rightarrow> world \<Rightarrow>
    ((appointment \<times> nat) list \<times> BookingFailure list) \<times> world" where
  "bookAll E F now tenantId dto [] w = (([], []), w)"
| "bookAll E F now tenantId dto (t # ts) w =
     (case bookFor E F now tenantId dto t w of
        (Inr b, v) \<Rightarrow> (let ((bs, fs), u) = bookAll E F now tenantId dto ts v in ((b # bs, fs), u))
      | (Inl e, v) \<Rightarrow> (let ((bs, fs), u) = bookAll E F now tenantId dto ts v
                      in ((bs, \<lparr>bf_contactId = tg_id t, bf_contactName = tg_name t, bf_error = e\<rparr> # fs), u)))"

datatype Created = Booked appointment nat | BookedAll "(appointment \<times> nat) list" "BookingFailure list"

definition allFailed :: "BookingFailure list \<Rightarrow> string" where
  "allFailed fs = ''Appointment creation failed for all '' @ show_nat (length fs) @ '' contact(s): '' @
     join ''; '' (map (\<lambda>f. bf_contactName f @ '': '' @ exnText (bf_error f)) fs)"

fun targetTypeName :: "TargetType \<Rightarrow> string" where
  "targetTypeName T_contact = ''contact''"
| "targetTypeName T_tag = ''tag''"
| "targetTypeName T_group = ''group''"
| "targetTypeName T_segment = ''segment''"

definition createDtoJson :: "CreateAppointmentDto \<Rightarrow> json" where
  "createDtoJson d = jobj
     [(''customerId'', map_option JStr (ca_customerId d)), (''locationId'', map_option JStr (ca_locationId d)),
      (''campaignId'', map_option JStr (ca_campaignId d)),
      (''audienceSegmentId'', map_option JStr (ca_audienceSegmentId d)), (''title'', Some (JStr (ca_title d))),
      (''scheduledAt'', Some (JDate (ca_scheduledAt d))),
      (''durationMinutes'', map_option JNum (ca_durationMinutes d)), (''notes'', map_option JStr (ca_notes d)),
      (''targetType'', map_option (\<lambda>t. JStr (targetTypeName t)) (ca_targetType d)),
      (''targetId'', map_option JStr (ca_targetId d)),
      (''reminderConfig'', map_option (\<lambda>r. JObj [(''channel'', JStr (channelName (rcf_channel r))),
         (''template'', JStr (rcf_template r))]) (ca_reminderConfig d))]"

definition createAppointment ::
  "env \<Rightarrow> formats \<Rightarrow> instant \<Rightarrow> uuid \<Rightarrow> uuid \<Rightarrow> CreateAppointmentDto \<Rightarrow> Created act" where
  "createAppointment E F now tenantId userId dto w =
     (let ts = resolveTargets tenantId dto w
      in if ts = [] then (Inl (NotFoundException ''No target contacts found for this appointment''), w)
         else let ((bs, fs), v) = bookAll E F now tenantId dto ts w
              in case bs of
                   [] \<Rightarrow> (Inl (BadRequestException (allFailed fs)), v)
                 | (a, n) # _ \<Rightarrow>
                     thenA (whenA (length ts > 1)
                              (modifyA (setupBulkRsvpCampaign now tenantId (appointment_id a) (ca_title dto))))
                       (thenA (audit_log (auditEntry tenantId (Some userId) ''CREATE'' ''Appointment''
                                 (appointment_id a)
                                 [(''count'', JNum (int (length bs))), (''dto'', createDtoJson dto)]))
                         (returnA (if length ts = 1 then Booked a n else BookedAll bs fs))) v)"

section \<open>The dashboard\<close>

definition appointmentOf :: "uuid \<Rightarrow> uuid \<Rightarrow> world \<Rightarrow> appointment option" where
  "appointmentOf tenantId i w =
     List.find (\<lambda>a. appointment_id a = i \<and> appointment_tenantId a = tenantId) (w_appointments w)"

definition findOneAppointment :: "uuid \<Rightarrow> uuid \<Rightarrow> world \<Rightarrow> appointment outcome" where
  "findOneAppointment tenantId i w =
     (case appointmentOf tenantId i w of
        None \<Rightarrow> Inl (NotFoundException ''Appointment not found'')
      | Some a \<Rightarrow> Inr a)"

definition findAllAppointments :: "uuid \<Rightarrow> int \<Rightarrow> nat \<Rightarrow> world \<Rightarrow> (appointment list \<times> nat) outcome" where
  "findAllAppointments tenantId page limit w =
     (let mine = filter (\<lambda>a. appointment_tenantId a = tenantId) (w_appointments w);
          skip = (page - 1) * int limit
      in if skip < 0 then Inl (PrismaError ''PrismaClientValidationError'')
         else Inr (take limit (drop (nat skip) (order_asc appointment_scheduledAt mine)), length mine))"

text \<open>The next 48 hours, neither confirmed nor over nor cancelled: at most twenty.\<close>

definition findNeedsAttention :: "instant \<Rightarrow> uuid \<Rightarrow> world \<Rightarrow> appointment list" where
  "findNeedsAttention now tenantId w = take 20 (order_asc appointment_scheduledAt
     (filter (\<lambda>a. appointment_tenantId a = tenantId \<and> now \<le> appointment_scheduledAt a \<and>
                  appointment_scheduledAt a \<le> now + 48 * 60 * 60 * 1000 \<and>
                  appointment_status a \<notin> {A_CONFIRMED, A_COMPLETED, A_CANCELLED}) (w_appointments w)))"

record UpdateAppointmentDto =
  ua_locationId :: "uuid option"
  ua_title :: "string option"
  ua_scheduledAt :: "instant option"
  ua_durationMinutes :: "int option"
  ua_status :: "AppointmentStatus option"
  ua_notes :: "string option"

definition applyAppointmentDto :: "UpdateAppointmentDto \<Rightarrow> appointment \<Rightarrow> appointment" where
  "applyAppointmentDto d a = a\<lparr>
     appointment_title := coalesce (ua_title d) (appointment_title a),
     appointment_scheduledAt := coalesce (ua_scheduledAt d) (appointment_scheduledAt a),
     appointment_durationMinutes := coalesce (ua_durationMinutes d) (appointment_durationMinutes a),
     appointment_locationId := (case ua_locationId d of None \<Rightarrow> appointment_locationId a | Some l \<Rightarrow> Some l),
     appointment_status := coalesce (ua_status d) (appointment_status a),
     appointment_notes := (case ua_notes d of None \<Rightarrow> appointment_notes a | Some n \<Rightarrow> Some n)\<rparr>"

fun eventStatusOf :: "AppointmentStatus \<Rightarrow> EventStatus" where
  "eventStatusOf A_COMPLETED = E_COMPLETED"
| "eventStatusOf A_NO_SHOW = E_COMPLETED"
| "eventStatusOf A_CANCELLED = E_CANCELLED"
| "eventStatusOf A_SCHEDULED = E_ACTIVE"
| "eventStatusOf A_CONFIRMED = E_ACTIVE"

text \<open>The event behind the appointment follows it; durations are at least five minutes.\<close>

definition syncEvent :: "UpdateAppointmentDto \<Rightarrow> appointment \<Rightarrow> event \<Rightarrow> event" where
  "syncEvent d old e =
     (let e1 = (if truthy (ua_title d) then e\<lparr>event_title := the (ua_title d)\<rparr> else e);
          e2 = (if truthy (ua_notes d) then e1\<lparr>event_description := ua_notes d\<rparr> else e1);
          start = coalesce (ua_scheduledAt d) (appointment_scheduledAt old);
          e3 = (if ua_scheduledAt d \<noteq> None \<or> ua_durationMinutes d \<noteq> None
                then e2\<lparr>event_startTime := start,
                        event_endTime := Some (start + coalesce (ua_durationMinutes d)
                          (appointment_durationMinutes old) * 60000)\<rparr>
                else e2)
      in (case ua_status d of None \<Rightarrow> e3 | Some st \<Rightarrow> e3\<lparr>event_status := eventStatusOf st\<rparr>))"

definition noEventChange :: "UpdateAppointmentDto \<Rightarrow> bool" where
  "noEventChange d = (\<not> truthy (ua_title d) \<and> \<not> truthy (ua_notes d) \<and> ua_scheduledAt d = None \<and>
     ua_durationMinutes d = None \<and> ua_status d = None)"

definition syncEventOf :: "UpdateAppointmentDto \<Rightarrow> appointment \<Rightarrow> unit act" where
  "syncEventOf d old w =
     (case appointment_eventId old of
        None \<Rightarrow> (Inr (), w)
      | Some i \<Rightarrow>
          if i = [] \<or> noEventChange d then (Inr (), w)
          else if i \<in> event_id ` set (w_events w)
          then (Inr (), w\<lparr>w_events := update_where (\<lambda>e. event_id e = i) (syncEvent d old) (w_events w)\<rparr>)
          else (Inl (PrismaError ''P2025''), w))"

definition updateDtoJson :: "UpdateAppointmentDto \<Rightarrow> json" where
  "updateDtoJson d = jobj
     [(''locationId'', map_option JStr (ua_locationId d)), (''title'', map_option JStr (ua_title d)),
      (''scheduledAt'', map_option JDate (ua_scheduledAt d)),
      (''durationMinutes'', map_option JNum (ua_durationMinutes d)),
      (''status'', map_option (\<lambda>s. JStr (appointmentStatusName s)) (ua_status d)),
      (''notes'', map_option JStr (ua_notes d))]"

definition oldValuesJson :: "appointment \<Rightarrow> json" where
  "oldValuesJson a = JObj
     [(''title'', JStr (appointment_title a)), (''scheduledAt'', JDate (appointment_scheduledAt a)),
      (''durationMinutes'', JNum (appointment_durationMinutes a)),
      (''status'', JStr (appointmentStatusName (appointment_status a))),
      (''notes'', (case appointment_notes a of None \<Rightarrow> JNull | Some n \<Rightarrow> JStr n))]"

definition statusEntity :: "uuid \<Rightarrow> uuid \<Rightarrow> appointment \<Rightarrow> customer option \<Rightarrow> json" where
  "statusEntity tenantId i a c = jobj
     [(''appointmentId'', Some (JStr i)), (''appointmentTitle'', Some (JStr (appointment_title a))),
      (''appointmentStatus'', Some (JStr (appointmentStatusName (appointment_status a)))),
      (''scheduledAt'', Some (JDate (appointment_scheduledAt a))),
      (''customerId'', map_option JStr (appointment_customerId a)),
      (''customerName'', map_option (\<lambda>x. JStr (customer_firstName x @ '' '' @ customer_lastName x)) c),
      (''customerPhone'', map_option JStr (Option.bind c customer_phone)),
      (''customerEmail'', map_option JStr (Option.bind c customer_email)), (''tenantId'', Some (JStr tenantId))]"

definition rescheduleEntity :: "uuid \<Rightarrow> uuid \<Rightarrow> appointment \<Rightarrow> json" where
  "rescheduleEntity tenantId i a = JObj
     [(''appointmentId'', JStr i), (''appointmentTitle'', JStr (appointment_title a)),
      (''scheduledAt'', JDate (appointment_scheduledAt a)), (''tenantId'', JStr tenantId)]"

definition syncLastAppointment :: "uuid \<Rightarrow> appointment \<Rightarrow> customer option \<Rightarrow> world \<Rightarrow> world" where
  "syncLastAppointment tenantId a c w =
     (let phone = Option.bind c customer_phone; email = Option.bind c customer_email
      in w\<lparr>w_contacts := update_where (\<lambda>k. contact_tenantId k = tenantId \<and>
             ((truthy phone \<and> contact_phone k = phone) \<or> (truthy email \<and> contact_email k = email)))
           (\<lambda>k. k\<lparr>contact_lastAppointment := Some (appointment_scheduledAt a)\<rparr>) (w_contacts w)\<rparr>)"

text \<open>What follows the change: automations and activities of a new status or a new time.\<close>

definition afterUpdate ::
  "env \<Rightarrow> instant \<Rightarrow> uuid \<Rightarrow> uuid \<Rightarrow> UpdateAppointmentDto \<Rightarrow> appointment \<Rightarrow> appointment \<Rightarrow> world \<Rightarrow> world" where
  "afterUpdate E now tenantId i d old new w =
     (let c = customerOf new w;
          w1 = (if ua_status d \<noteq> None \<and> ua_status d \<noteq> Some (appointment_status old)
                then onStatusChanged E now tenantId i (appointment_status old) (ua_status d)
                       (statusEntity tenantId i new c) w
                else w);
          w2 = (case ua_scheduledAt d of
                  None \<Rightarrow> w1
                | Some t \<Rightarrow> if t = appointment_scheduledAt old then w1
                    else onRescheduled now tenantId i (appointment_scheduledAt old) (appointment_scheduledAt new)
                           (rescheduleEntity tenantId i new) w1)
      in syncLastAppointment tenantId new c w2)"

definition updateAppointmentOp ::
  "env \<Rightarrow> instant \<Rightarrow> uuid \<Rightarrow> uuid \<Rightarrow> uuid \<Rightarrow> UpdateAppointmentDto \<Rightarrow> appointment act" where
  "updateAppointmentOp E now tenantId userId i d w =
     (case appointmentOf tenantId i w of
        None \<Rightarrow> (Inl (NotFoundException ''Appointment not found''), w)
      | Some old \<Rightarrow>
          if \<not> refOk (ua_locationId d) (map location_id (w_locations w)) then (Inl (PrismaError ''P2003''), w)
          else thenA (updateAppointment i (applyAppointmentDto d))
                 (thenA (syncEventOf d old)
                 (thenA (audit_log \<lparr>entry_tenantId = tenantId, entry_userId = Some userId, entry_action = ''UPDATE'',
                           entry_entity = ''Appointment'', entry_entityId = i,
                           entry_oldValues = Some (oldValuesJson old), entry_newValues = Some (updateDtoJson d)\<rparr>)
                 (thenA (modifyA (afterUpdate E now tenantId i d old (applyAppointmentDto d old)))
                    (returnA (applyAppointmentDto d old))))) w)"

text \<open>
  The deletions of the removal: reminders, participants, activities, and then the event behind the
  appointment, or the appointment when it has none. Cancelling runs outside their transaction.
\<close>

definition deleteAppointmentRows :: "uuid \<Rightarrow> appointment \<Rightarrow> unit act" where
  "deleteAppointmentRows i a w =
     (let w1 = deleteReminders (\<lambda>r. reminder_appointmentId r = Some i) w;
          w2 = w1\<lparr>w_participants := delete_where (\<lambda>p. participant_appointmentId p = i) (w_participants w1),
                  w_contactActivities := delete_where (\<lambda>x. contactActivity_referenceId x = Some i)
                    (w_contactActivities w1)\<rparr>
      in if truthy (appointment_eventId a)
         then if the (appointment_eventId a) \<in> event_id ` set (w_events w2)
              then (Inr (), deleteEventRow (the (appointment_eventId a)) w2)
              else (Inl (PrismaError ''P2025''), w)
         else (Inr (), deleteAppointmentRow i w2))"

definition deletedActivity :: "instant \<Rightarrow> uuid \<Rightarrow> appointment \<Rightarrow> participant option \<Rightarrow> world \<Rightarrow> world" where
  "deletedActivity now tenantId a p w =
     (case p of
        None \<Rightarrow> w
      | Some x \<Rightarrow> addActivity now tenantId (participant_contactId x) ''appointment_deleted'' None
          (JObj [(''title'', JStr (appointment_title a)), (''scheduledAt'', JDate (appointment_scheduledAt a))]) w)"

text \<open>The number of reminders cancelled.\<close>

definition removeAppointment :: "instant \<Rightarrow> uuid \<Rightarrow> uuid \<Rightarrow> uuid \<Rightarrow> nat act" where
  "removeAppointment now tenantId userId i w =
     (case appointmentOf tenantId i w of
        None \<Rightarrow> (Inl (NotFoundException ''Appointment not found''), w)
      | Some a \<Rightarrow>
          let p = List.find (\<lambda>x. participant_appointmentId x = i) (w_participants w)
          in bindA (cancelForAppointment i) (\<lambda>n.
               thenA (deleteAppointmentRows i a)
                 (thenA (modifyA (deletedActivity now tenantId a p))
                 (thenA (audit_log \<lparr>entry_tenantId = tenantId, entry_userId = Some userId,
                           entry_action = ''DELETE'', entry_entity = ''Appointment'', entry_entityId = i,
                           entry_oldValues = None, entry_newValues = None\<rparr>)
                    (returnA n)))) w)"

end
