(* ===== verification/Appointment_Properties.thy ===== *)
theory Appointment_Properties
  imports Appointments Worker_Properties
begin

text \<open>
  What booking, changing and deleting an appointment do, and what they leave behind for the worker.
\<close>

section \<open>Booking\<close>

text \<open>\<open>adds as w v\<close>: the appointments \<open>as\<close> were added, with one event each.\<close>

definition adds :: "appointment list \<Rightarrow> world \<Rightarrow> world \<Rightarrow> bool" where
  "adds as w v = (w_appointments v = w_appointments w @ as \<and>
     (\<exists>es. w_events v = w_events w @ es \<and> map event_id es = map (\<lambda>a. the (appointment_eventId a)) as))"

lemma adds_refl: "adds [] w w"
  by (simp add: adds_def)

lemma adds_trans: "adds as w v \<Longrightarrow> adds bs v u \<Longrightarrow> adds (as @ bs) w u"
  unfolding adds_def by (metis append.assoc map_append)

lemma adds_same: "w_appointments v = w_appointments w \<Longrightarrow> w_events v = w_events w \<Longrightarrow> adds [] w v"
  by (simp add: adds_def)

lemma schedule_events:
  "w_events (snd (scheduleForAppointment E now i t w)) = w_events w"
  "w_appointments (snd (scheduleForAppointment E now i t w)) = w_appointments w"
  by (simp_all add: scheduleForAppointment_def case_prod_beta Let_def split: option.split)
     (subst scheduleRules_frame, simp)+

lemma bookReminders_adds: "adds [] w (snd (bookReminders E F now t d tg a w))"
proof -
  have keep: "keeps (\<lambda>v. adds [] w v) (bindA (scheduleForAppointment E now i t)
      (\<lambda>rs. thenA (modifyA (f rs)) (returnA (length rs))))"
    if "\<And>rs v. w_appointments (f rs v) = w_appointments v \<and> w_events (f rs v) = w_events v" for i f
    by (intro keeps_bindA keeps_thenA keeps_basic)
       (simp_all add: keeps_def adds_def that schedule_events)
  show ?thesis
  proof (cases "ca_reminderConfig d")
    case None
    show ?thesis
      unfolding bookReminders_def None option.case
      by (rule keepsD [OF keep]) (simp_all add: adds_refl)
  next
    case (Some cfg)
    then show ?thesis by (simp add: bookReminders_def adds_def addJob_def bump_def Let_def)
  qed
qed

lemma orZero_run: "orZero m w = (Inr (case fst (m w) of Inl _ \<Rightarrow> 0 | Inr n \<Rightarrow> n), snd (m w))"
  by (auto simp: orZero_def split: prod.split sum.split)

lemma onEventScheduled_adds: "adds [] w (onEventScheduled now t i d w)"
  by (simp add: onEventScheduled_def adds_same frame_simps)

lemma ensureCustomer_adds: "adds [] w (snd (ensureCustomer t tg w))"
  by (simp add: ensureCustomer_def adds_def bump_def Let_def split: option.split)

lemma createBooking_cases:
  obtains (fails) e where "createBooking t d tg c w = (Inl e, w)"
  | (works) a v where "createBooking t d tg c w = (Inr a, v)" "adds [a] w v" "appointment_customerId a = Some c"
      "appointment_scheduledAt a = ca_scheduledAt d" "appointment_tenantId a = t" "appointment_status a = A_SCHEDULED"
proof (cases "bookingRefsOk t d tg w")
  case True
  let ?e = "newId w"
  let ?w1 = "bump (w\<lparr>w_events := w_events w @ [bookedEvent t d ?e]\<rparr>)"
  let ?a = "bookedAppointment t d c ?e (newId ?w1)"
  let ?w2 = "bump (?w1\<lparr>w_appointments := w_appointments ?w1 @ [?a]\<rparr>)"
  let ?v = "bump (?w2\<lparr>w_eventParticipants := w_eventParticipants ?w2 @
      [bookedParticipant t ?e (tg_id tg) (newId ?w2)]\<rparr>)"
  have "createBooking t d tg c w = (Inr ?a, ?v)" using True by (simp add: createBooking_def Let_def)
  moreover have "adds [?a] w ?v" by (simp add: adds_def bump_def bookedAppointment_def bookedEvent_def)
  ultimately show ?thesis by (rule works) (simp_all add: bookedAppointment_def)
next
  case False
  then show ?thesis by (intro fails) (simp add: createBooking_def)
qed

lemma bookFor_adds:
  "(\<exists>e v. bookFor E F now t d tg w = (Inl e, v) \<and> adds [] w v) \<or>
   (\<exists>a n v. bookFor E F now t d tg w = (Inr (a, n), v) \<and> adds [a] w v \<and>
      appointment_scheduledAt a = ca_scheduledAt d \<and> appointment_tenantId a = t)"
proof -
  obtain rc w1 where c: "ensureCustomer t tg w = (rc, w1)" by fastforce
  then have one: "adds [] w w1" using ensureCustomer_adds [of w t tg] by simp
  show ?thesis
  proof (cases rc)
    case (Inl e)
    then show ?thesis using c one by (simp add: bookFor_def)
  next
    case (Inr cust)
    show ?thesis
    proof (cases rule: createBooking_cases [of t d tg "customer_id cust" w1])
      case (fails e)
      then show ?thesis using c Inr one by (simp add: bookFor_def)
    next
      case (works a v)
      let ?v2 = "addActivity now t (tg_id tg) ''appointment_created'' (Some (appointment_id a))
               (JObj [(''title'', JStr (appointment_title a)), (''scheduledAt'', JDate (appointment_scheduledAt a))])
               (addParticipant (appointment_id a) (tg_id tg) v)"
      let ?v3 = "snd (bookReminders E F now t d tg a ?v2)"
      have two: "adds [] v ?v2" by (simp add: adds_def addActivity_def addParticipant_def bump_def)
      have three: "adds [] ?v2 ?v3" by (rule bookReminders_adds)
      have four: "adds [] ?v3 (onEventScheduled now t (appointment_id a) (scheduledData t a cust tg) ?v3)"
        by (rule onEventScheduled_adds)
      have "adds [a] w (onEventScheduled now t (appointment_id a) (scheduledData t a cust tg) ?v3)"
        using adds_trans [OF one adds_trans [OF works(2) adds_trans [OF two adds_trans [OF three four]]]] by simp
      moreover have "\<exists>n. bookFor E F now t d tg w =
          (Inr (a, n), onEventScheduled now t (appointment_id a) (scheduledData t a cust tg) ?v3)"
        using c Inr works(1) by (simp add: bookFor_def orZero_run bindA_def thenA_def)
      ultimately show ?thesis using works(4,5) by auto
    qed
  qed
qed

text \<open>
  A bulk booking books each contact on its own. Whatever fails for one contact, every target of the
  booking is either booked or reported as failed; exactly the booked appointments are added, in order,
  each with its own event, for the requested time and tenant; a failed contact leaves no appointment and
  no event behind.
\<close>

theorem bulk_booking_isolated:
  "case bookAll E F now t d targets w of ((bs, fs), v) \<Rightarrow>
     length bs + length fs = length targets \<and> adds (map fst bs) w v \<and>
     (\<forall>(a, n) \<in> set bs. appointment_scheduledAt a = ca_scheduledAt d \<and> appointment_tenantId a = t) \<and>
     set (map bf_contactId fs) \<subseteq> set (map tg_id targets)"
proof (induction targets arbitrary: w)
  case Nil
  then show ?case by (simp add: adds_refl)
next
  case (Cons tg ts)
  from bookFor_adds [of E F now t d tg w] show ?case
  proof (elim disjE exE conjE)
    fix e v assume b: "bookFor E F now t d tg w = (Inl e, v)" "adds [] w v"
    obtain bs fs u where r: "bookAll E F now t d ts v = ((bs, fs), u)" by (metis prod.exhaust)
    then show ?thesis using Cons.IH [of v] b adds_trans [OF b(2), of "map fst bs" u] by auto
  next
    fix a n v assume b: "bookFor E F now t d tg w = (Inr (a, n), v)" "adds [a] w v"
      "appointment_scheduledAt a = ca_scheduledAt d" "appointment_tenantId a = t"
    obtain bs fs u where r: "bookAll E F now t d ts v = ((bs, fs), u)" by (metis prod.exhaust)
    then show ?thesis using Cons.IH [of v] b adds_trans [OF b(2), of "map fst bs" u] by auto
  qed
qed

text \<open>
  Booking by a customer's id always fails. The id is accepted when it is a customer's, but the event
  participant it is then written to must be a contact: the request is refused and no appointment or
  event is added.
\<close>

theorem customer_id_booking_fails:
  assumes "ca_targetType d = None" and "ca_customerId d = Some i" and "i \<noteq> []"
    and "\<forall>k \<in> set (w_contacts w). contact_id k \<noteq> i"
  shows "\<exists>e. fst (createAppointment E F now t userId d w) = Inl e \<and>
    adds [] w (snd (createAppointment E F now t userId d w))"
proof -
  have none: "tenantContact t i w = None" using assms(4) by (auto simp: tenantContact_def find_None_iff)
  show ?thesis
  proof (cases "List.find (\<lambda>c. customer_id c = i \<and> customer_tenantId c = t) (w_customers w)")
    case None
    then show ?thesis
      using assms(1-3) none by (simp add: createAppointment_def resolveTargets_def directTarget_def adds_refl)
  next
    case (Some c)
    then have "customer_id c = i" by (auto dest: find_SomeD)
    let ?tg = "\<lparr>tg_id = i, tg_name = customer_firstName c @ '' '' @ customer_lastName c,
                 tg_phone = customer_phone c, tg_email = customer_email c\<rparr>"
    have ts: "resolveTargets t d w = [?tg]"
      using assms(1-3) none Some \<open>customer_id c = i\<close> by (simp add: resolveTargets_def directTarget_def)
    obtain rc w1 where rc: "ensureCustomer t ?tg w = (rc, w1)" by fastforce
    have w1: "w_contacts w1 = w_contacts w" "adds [] w w1"
      using rc ensureCustomer_adds [of w t ?tg]
      by (auto simp: ensureCustomer_def bump_def Let_def split: option.splits if_splits)
    have "\<not> bookingRefsOk t d ?tg w1" using assms(4) w1(1) by (auto simp: bookingRefsOk_def refOk_def)
    then have "\<exists>e. bookFor E F now t d ?tg w = (Inl e, w1)"
      using rc by (cases rc) (simp_all add: bookFor_def createBooking_def bindA_def)
    then show ?thesis using w1(2) by (auto simp: createAppointment_def ts)
  qed
qed

section \<open>Changes from the dashboard\<close>

definition reminderSide :: "world \<Rightarrow> reminder list \<times> job list" where
  "reminderSide w = (w_reminders w, filter (\<lambda>j. job_queue j = REMINDER_QUEUE) (w_jobs w))"

lemma fireTrigger_reminderSide [simp]: "reminderSide (fireTrigger now t trig c d w) = reminderSide w"
proof -
  have planned: "filter (\<lambda>j. job_queue j = REMINDER_QUEUE) (plannedJobs f ex t ent d) = []" for f ex ent
    by (auto simp: plannedJobs_def Let_def filter_empty_conv stepJob_def WORKFLOW_QUEUE_def REMINDER_QUEUE_def)
  have run: "filter (\<lambda>j. job_queue j = REMINDER_QUEUE) (w_jobs (runWorkflow now t trig c d f v)) =
      filter (\<lambda>j. job_queue j = REMINDER_QUEUE) (w_jobs v)" for f v
    by (simp add: runWorkflow_def case_prod_beta Let_def startExecution_jobs planned)
  have "filter (\<lambda>j. job_queue j = REMINDER_QUEUE) (w_jobs (fold (runWorkflow now t trig c d) fs v)) =
      filter (\<lambda>j. job_queue j = REMINDER_QUEUE) (w_jobs v)" for fs v
    by (induction fs arbitrary: v) (simp_all add: run)
  then have "filter (\<lambda>j. job_queue j = REMINDER_QUEUE) (w_jobs (fireTrigger now t trig c d w)) =
      filter (\<lambda>j. job_queue j = REMINDER_QUEUE) (w_jobs w)"
    by (simp add: fireTrigger_def)
  then show ?thesis by (simp add: reminderSide_def frame_simps)
qed

lemma participantActivity_reminderSide [simp]:
  "reminderSide (participantActivity now t i kind meta w) = reminderSide w"
  by (simp add: participantActivity_def addActivity_def bump_def reminderSide_def split: option.split)

lemma sendFeedback_reminderSide [simp]: "reminderSide (snd (sendFeedbackRequest E now i t w)) = reminderSide w"
proof -
  let ?f = "\<lambda>phone k x d v. case contactByNumber t phone v of None \<Rightarrow> v
      | Some c \<Rightarrow> addActivity now t (contact_id c) k x d v"
  have f: "w_reminders (?f phone k x d v) = w_reminders v \<and> w_jobs (?f phone k x d v) = w_jobs v" for phone k x d v
    by (simp add: addActivity_def bump_def split: option.split)
  have "w_reminders (snd (bindA (send E now q) (\<lambda>_. modifyA (?f phone k x d)) v)) = w_reminders v \<and>
      w_jobs (snd (bindA (send E now q) (\<lambda>_. modifyA (?f phone k x d)) v)) = w_jobs v" for q phone k x d v
    by (rule snd_bindA [where P = "\<lambda>u. w_reminders u = w_reminders v \<and> w_jobs u = w_jobs v"]) (simp_all add: f)
  then show ?thesis
    by (simp add: sendFeedbackRequest_def Let_def createFeedbackRequest_def bump_def reminderSide_def
        split: option.split)
qed

lemma afterUpdate_reminderSide: "reminderSide (afterUpdate E now t i d old new w) = reminderSide w"
proof -
  have status: "reminderSide (onStatusChanged E now t i old' new' x v) = reminderSide v" for old' new' x v
    by (simp add: onStatusChanged_def Let_def split: option.split)
  have time: "reminderSide (onRescheduled now t i a b x v) = reminderSide v" for a b x v
    by (simp add: onRescheduled_def)
  have last: "reminderSide (syncLastAppointment t a c v) = reminderSide v" for a c v
    by (simp add: syncLastAppointment_def Let_def reminderSide_def)
  show ?thesis
    by (simp add: afterUpdate_def Let_def status time last split: option.split)
qed

text \<open>
  The reminders do not follow the dashboard. Whatever is changed through the update of an appointment
  (a new time, CANCELLED, COMPLETED), no reminder row and no queued reminder job changes.
\<close>

theorem dashboard_change_keeps_reminders:
  "reminderSide (snd (updateAppointmentOp E now t u i d w)) = reminderSide w"
proof -
  have row: "keeps (\<lambda>v. reminderSide v = R) (updateAppointment i f)"
    and sync: "keeps (\<lambda>v. reminderSide v = R) (syncEventOf d old)"
    and log: "keeps (\<lambda>v. reminderSide v = R) (audit_log e)"
    and after: "keeps (\<lambda>v. reminderSide v = R) (modifyA (afterUpdate E now t i d old new))" for R f old e new
    by (simp_all add: keeps_def updateAppointment_def updateRow_def syncEventOf_def audit_log_def bump_def
        afterUpdate_reminderSide reminderSide_def split: option.split)
       (simp add: reminderSide_def [symmetric] afterUpdate_reminderSide)
  have all: "keeps (\<lambda>v. reminderSide v = R) (thenA (updateAppointment i f) (thenA (syncEventOf d old)
      (thenA (audit_log e) (thenA (modifyA (afterUpdate E now t i d old new)) (returnA x)))))"
    for R f old e new and x :: appointment
    by (intro keeps_thenA row sync log after keeps_basic)
  from keepsD [OF all] show ?thesis by (simp add: updateAppointmentOp_def split: option.split)
qed

section \<open>Deleting\<close>

lemma cancelFor_ok:
  "\<exists>n. cancelForAppointment i w = (Inr n, snd (cancelForAppointment i w))"
  "w_appointments (snd (cancelForAppointment i w)) = w_appointments w"
  "w_events (snd (cancelForAppointment i w)) = w_events w"
proof -
  let ?rs = "filter (\<lambda>r. reminder_appointmentId r = Some i \<and> reminder_status r = R_PENDING) (w_reminders w)"
  have "reminder_id ` set ?rs \<subseteq> reminder_id ` set (w_reminders w)" by auto
  from cancelAll [OF this] obtain v where all: "forEachA cancelReminder ?rs w = (Inr (), v)"
    "w_appointments v = w_appointments w" "w_events v = w_events w" by auto
  show "\<exists>n. cancelForAppointment i w = (Inr n, snd (cancelForAppointment i w))"
    "w_appointments (snd (cancelForAppointment i w)) = w_appointments w"
    "w_events (snd (cancelForAppointment i w)) = w_events w"
    by (simp_all add: cancelForAppointment_def cancelMatching_def Let_def all)
qed

text \<open>
  A deleted appointment is still there. An appointment that has an event (every booked one does) is
  deleted by deleting the event, but the database only clears the reference: the call reports success,
  the event is gone, and the appointment is still in the table, unchanged but for its link.
\<close>

theorem deleted_appointment_survives:
  assumes "appointmentOf t i w = Some a" and "appointment_eventId a = Some e" and "e \<noteq> []"
    and "e \<in> event_id ` set (w_events w)"
  shows "\<exists>n. fst (removeAppointment now t u i w) = Inr n \<and>
    appointmentOf t i (snd (removeAppointment now t u i w)) = Some (a\<lparr>appointment_eventId := None\<rparr>) \<and>
    e \<notin> event_id ` set (w_events (snd (removeAppointment now t u i w)))"
proof -
  obtain n where c: "cancelForAppointment i w = (Inr n, snd (cancelForAppointment i w))"
    using cancelFor_ok(1) by blast
  let ?w1 = "snd (cancelForAppointment i w)"
  let ?w2 = "deleteReminders (\<lambda>r. reminder_appointmentId r = Some i) ?w1"
  let ?w3 = "?w2\<lparr>w_participants := delete_where (\<lambda>p. participant_appointmentId p = i) (w_participants ?w2),
                 w_contactActivities := delete_where (\<lambda>x. contactActivity_referenceId x = Some i)
                   (w_contactActivities ?w2)\<rparr>"
  let ?w4 = "deleteEventRow e ?w3"
  let ?p = "List.find (\<lambda>x. participant_appointmentId x = i) (w_participants w)"
  let ?w5 = "deletedActivity now t a ?p ?w4"
  let ?e = "\<lparr>entry_tenantId = t, entry_userId = Some u, entry_action = ''DELETE'', entry_entity = ''Appointment'',
      entry_entityId = i, entry_oldValues = None, entry_newValues = None\<rparr>"
  have rows: "deleteAppointmentRows i a ?w1 = (Inr (), ?w4)"
    using assms(2-4) by (simp add: deleteAppointmentRows_def Let_def cancelFor_ok(3))
  have run: "removeAppointment now t u i w = (Inr n, snd (audit_log ?e ?w5))"
    using rows by (simp add: removeAppointment_def assms(1) Let_def bindA_def c [THEN arg_cong [where f = fst], simplified] case_prod_beta thenA_def)
  have five: "w_appointments ?w5 = w_appointments ?w4" "w_events ?w5 = w_events ?w4"
    by (simp_all add: deletedActivity_def addActivity_def bump_def split: option.split)
  have log: "w_appointments (snd (audit_log ?e v)) = w_appointments v" "w_events (snd (audit_log ?e v)) = w_events v" for v
    by (simp_all add: audit_log_def bump_def)
  have "w_appointments (snd (audit_log ?e ?w5)) = update_where (\<lambda>a. appointment_eventId a = Some e)
      (\<lambda>a. a\<lparr>appointment_eventId := None\<rparr>) (w_appointments w)"
    unfolding log(1) five(1) by (simp add: cancelFor_ok(2))
  then have "appointmentOf t i (snd (audit_log ?e ?w5)) = Some (a\<lparr>appointment_eventId := None\<rparr>)"
    using assms(1,2) by (simp add: appointmentOf_def find_update_where_other)
  moreover have "e \<notin> event_id ` set (w_events (snd (audit_log ?e ?w5)))"
    unfolding log(2) five(2) by (auto simp: delete_where_def)
  ultimately show ?thesis by (simp add: run)
qed

section \<open>Concrete worlds\<close>

definition staff :: user where
  "staff = \<lparr>user_id = ''u1'', user_tenantId = ''t1'', user_email = ''s@x.io'', user_firstName = None,
     user_lastName = None, user_role = STAFF, user_passwordHash = ''h'', user_refreshToken = None,
     user_createdAt = 0, user_passwordResetExpiresAt = None, user_passwordResetTokenHash = None\<rparr>"

definition demoBooking :: CreateAppointmentDto where
  "demoBooking = \<lparr>ca_customerId = None, ca_locationId = None, ca_campaignId = None, ca_audienceSegmentId = None,
     ca_title = ''Checkup'', ca_scheduledAt = 200000000, ca_durationMinutes = None, ca_notes = None,
     ca_targetType = Some T_contact, ca_targetId = Some ''k1'', ca_reminderConfig = None\<rparr>"

definition frontDesk :: world where
  "frontDesk = (office [])\<lparr>w_users := [staff], w_contacts := [demoContact], w_appointments := [],
     w_reminderRules := [demoRule ''r1'' 60]\<rparr>"

definition plainFormats :: formats where
  "plainFormats = (show_int, show_int)"

theorem customer_id_booking_fails_witness:
  "\<exists>e. fst (createAppointment demoEnv plainFormats 5 ''t1'' ''u1''
      (demoBooking\<lparr>ca_targetType := None, ca_customerId := Some ''c1''\<rparr>) frontDesk) = Inl e"
proof -
  let ?d = "demoBooking\<lparr>ca_targetType := None, ca_customerId := Some ''c1''\<rparr>"
  have "ca_targetType ?d = None" "ca_customerId ?d = Some ''c1''" by simp_all
  moreover have "\<forall>k \<in> set (w_contacts frontDesk). contact_id k \<noteq> ''c1''"
    by (simp add: frontDesk_def demoContact_def)
  ultimately show ?thesis using customer_id_booking_fails [of ?d "''c1''" frontDesk] by blast
qed

definition updateStatus :: "AppointmentStatus \<Rightarrow> UpdateAppointmentDto" where
  "updateStatus st = \<lparr>ua_locationId = None, ua_title = None, ua_scheduledAt = None, ua_durationMinutes = None,
     ua_status = Some st, ua_notes = None\<rparr>"

definition firstJob :: "world \<Rightarrow> WorkerJob" where
  "firstJob w = (let r = hd (w_reminders w) in
     \<lparr>wj_reminderId = reminder_id r, wj_tenantId = reminder_tenantId r, wj_appointmentId = reminder_appointmentId r,
      wj_channel = reminder_channel r, wj_messageContent = reminder_messageContent r,
      wj_channelStrategyId = None\<rparr>)"


definition deskEnv :: env where
  "deskEnv = demoEnv\<lparr>e_formatDateTime := (\<lambda>_. ''then''), e_formatDate := (\<lambda>_. ''that day''),
     e_formatTime := (\<lambda>_. ''that time'')\<rparr>"

text \<open>
  A cancelled appointment is still reminded of. A contact is booked, which schedules a reminder; the
  staff set the appointment to CANCELLED; when the reminder's job comes up, the message goes out to the
  customer all the same, for the appointment that no longer takes place.
\<close>

theorem cancelled_appointment_still_reminded:
  "let w1 = snd (createAppointment deskEnv plainFormats 5 ''t1'' ''u1'' demoBooking frontDesk);
       a = hd (w_appointments w1);
       w2 = snd (updateAppointmentOp deskEnv 6 ''t1'' ''u1'' (appointment_id a) (updateStatus A_CANCELLED) w1);
       w3 = snd (processReminderJob deskEnv (200000000 - 3600000) 0 (firstJob w2) w2)
   in map appointment_status (w_appointments w2) = [A_CANCELLED] \<and> length (w_jobs w2) = 1 \<and>
      map out_to (w_outbox w3) = [''+15550001111''] \<and> map reminder_status (w_reminders w3) = [R_SENT]"
  by code_simp

theorem deleted_appointment_survives_witness:
  "let w1 = snd (createAppointment deskEnv plainFormats 5 ''t1'' ''u1'' demoBooking frontDesk);
       i = appointment_id (hd (w_appointments w1));
       w2 = snd (removeAppointment 6 ''t1'' ''u1'' i w1)
   in appointmentOf ''t1'' i w2 \<noteq> None \<and> w_events w2 = []"
proof -
  let ?w1 = "snd (createAppointment deskEnv plainFormats 5 ''t1'' ''u1'' demoBooking frontDesk)"
  let ?i = "appointment_id (hd (w_appointments ?w1))"
  have e: "map_option appointment_eventId (appointmentOf ''t1'' ?i ?w1) = Some (Some ''id0'')" and "''id0'' \<noteq> ([] :: string)"
    and m: "map event_id (w_events ?w1) = [''id0'']"
    by code_simp+
  then obtain a where a: "appointmentOf ''t1'' ?i ?w1 = Some a" "appointment_eventId a = Some ''id0''" by auto
  have "''id0'' \<in> event_id ` set (w_events ?w1)" using m by (metis list.set_intros(1) set_map)
  from deleted_appointment_survives [OF a _ this, of 6 "''u1''"]
  have s: "appointmentOf ''t1'' ?i (snd (removeAppointment 6 ''t1'' ''u1'' ?i ?w1)) \<noteq> None" by auto
  have "w_events (snd (removeAppointment 6 ''t1'' ''u1'' ?i ?w1)) = []" by code_simp
  then show ?thesis using s by (simp add: Let_def)
qed

definition clinicTargets :: "Target list" where
  "clinicTargets = [targetOf demoContact,
     \<lparr>tg_id = ''c1'', tg_name = ''Old Customer'', tg_phone = Some ''+15550002222'', tg_email = None\<rparr>]"

theorem bulk_booking_isolated_witness:
  "case bookAll deskEnv plainFormats 5 ''t1'' demoBooking clinicTargets frontDesk of
     ((bs, fs), v) \<Rightarrow> length bs + length fs = 2 \<and> map bf_contactId fs = [''c1''] \<and> w_appointments v \<noteq> []"
proof -
  obtain bs fs v where r: "bookAll deskEnv plainFormats 5 ''t1'' demoBooking clinicTargets frontDesk = ((bs, fs), v)"
    by (metis prod.exhaust)
  have f: "map bf_contactId (snd (fst (bookAll deskEnv plainFormats 5 ''t1'' demoBooking clinicTargets frontDesk))) =
      [''c1''] \<and>
    w_appointments (snd (bookAll deskEnv plainFormats 5 ''t1'' demoBooking clinicTargets frontDesk)) \<noteq> []"
    by code_simp
  note n = bulk_booking_isolated [where E = deskEnv and F = plainFormats and now = 5 and t = "''t1''"
      and d = demoBooking and targets = clinicTargets and w = frontDesk]
  have "length clinicTargets = 2" by (simp add: clinicTargets_def)
  with n f show ?thesis by (simp add: r)
qed

end
