(* ===== verification/Events.thy ===== *)
theory Events
  imports Appointments Rsvp
begin

text \<open>
  \<open>modules/event/event.service.ts\<close> and \<open>event-invite.service.ts\<close>: events, invitations, answers, broadcasts
  and the check-in by QR code. The QR image, the locale's time formats and the month the calendar shows by
  default come from libraries and are arguments. \<open>suggestReplacements\<close>, a list ordered by a column that
  is not modelled, is left out.
\<close>

section \<open>Input\<close>

record AutomationSettings =
  as_remindNonResponders :: "bool option"
  as_sendLocationOnConfirm :: "bool option"
  as_sendFollowupAfter :: "bool option"

record CreateEventDto =
  ce_title :: string
  ce_description :: "string option"
  ce_location :: "string option"
  ce_startTime :: instant
  ce_endTime :: "instant option"
  ce_eventType :: "EventType option"
  ce_contactIds :: "uuid list"
  ce_automationSettings :: "AutomationSettings option"
  ce_incentiveType :: "string option"
  ce_incentiveValue :: "string option"
  ce_incentiveMessage :: "string option"

text \<open>The status of an update is any text; \<open>contactIds\<close> and \<open>automationSettings\<close> are accepted too.\<close>

record UpdateEventDto =
  ue_title :: "string option"
  ue_description :: "string option"
  ue_location :: "string option"
  ue_startTime :: "instant option"
  ue_endTime :: "instant option"
  ue_eventType :: "EventType option"
  ue_contactIds :: "uuid list"
  ue_automationSettings :: "AutomationSettings option"
  ue_status :: "string option"
  ue_incentiveType :: "string option"
  ue_incentiveValue :: "string option"
  ue_incentiveMessage :: "string option"

section \<open>Rows\<close>

definition eventOf :: "uuid \<Rightarrow> uuid \<Rightarrow> world \<Rightarrow> event option" where
  "eventOf tenantId i w = List.find (\<lambda>e. event_id e = i \<and> event_tenantId e = tenantId) (w_events w)"

definition isParticipant :: "uuid \<Rightarrow> uuid \<Rightarrow> eventParticipant \<Rightarrow> bool" where
  "isParticipant eventId contactId p =
     (eventParticipant_eventId p = eventId \<and> eventParticipant_contactId p = contactId)"

text \<open>\<open>common/utils/qr-token.util.ts\<close>\<close>

definition generateQrToken :: "env \<Rightarrow> instant \<Rightarrow> uuid \<Rightarrow> uuid \<Rightarrow> string" where
  "generateQrToken E now eventId contactId =
     e_hmac E ''sha256'' (coalesce (or_str (e_config E ''JWT_SECRET'') (Some ''secret'')) [])
       (eventId @ '':'' @ contactId @ '':'' @ show_int now)"

definition tokenTaken :: "string \<Rightarrow> world \<Rightarrow> bool" where
  "tokenTaken token w = list_ex (\<lambda>p. eventParticipant_qrToken p = Some token) (w_eventParticipants w)"

definition invitedRow :: "uuid \<Rightarrow> uuid \<Rightarrow> uuid \<Rightarrow> string \<Rightarrow> uuid \<Rightarrow> eventParticipant" where
  "invitedRow tenantId eventId contactId token i =
     \<lparr>eventParticipant_id = i, eventParticipant_eventId = eventId, eventParticipant_contactId = contactId,
      eventParticipant_tenantId = tenantId, eventParticipant_status = P_invited,
      eventParticipant_lastResponseAt = None, eventParticipant_qrToken = Some token,
      eventParticipant_arrivedAt = None, eventParticipant_qrScannedBy = None,
     eventParticipant_couponCode = None, eventParticipant_couponSentAt = None,
     eventParticipant_isDemoData = False\<rparr>"

definition addInvited :: "env \<Rightarrow> instant \<Rightarrow> uuid \<Rightarrow> uuid \<Rightarrow> uuid \<Rightarrow> world \<Rightarrow> world" where
  "addInvited E now tenantId eventId contactId w =
     bump (w\<lparr>w_eventParticipants := w_eventParticipants w @
       [invitedRow tenantId eventId contactId (generateQrToken E now eventId contactId) (newId w)]\<rparr>)"

section \<open>Inviting contacts\<close>

text \<open>\<open>ensureCustomerTx\<close>: a contact without phone and e-mail always gets a new customer.\<close>

definition ensureCustomerTx :: "uuid \<Rightarrow> Target \<Rightarrow> customer act" where
  "ensureCustomerTx tenantId t w =
     (case (if truthy (tg_phone t) \<or> truthy (tg_email t)
            then List.find (\<lambda>c. customer_tenantId c = tenantId \<and> matchesContact t c) (w_customers w)
            else None) of
        Some c \<Rightarrow> (Inr c, w)
      | None \<Rightarrow>
          if tenantExists tenantId w
          then let c = newCustomer tenantId t (newId w)
               in (Inr c, bump (w\<lparr>w_customers := w_customers w @ [c]\<rparr>))
          else (Inl (PrismaError ''P2003''), w))"

definition invitationOf :: "uuid \<Rightarrow> uuid \<Rightarrow> uuid \<Rightarrow> appointment \<Rightarrow> bool" where
  "invitationOf tenantId eventId customerId a =
     (appointment_eventId a = Some eventId \<and> appointment_customerId a = Some customerId \<and>
      appointment_tenantId a = tenantId)"

definition invitationRow :: "uuid \<Rightarrow> event \<Rightarrow> uuid \<Rightarrow> uuid \<Rightarrow> appointment" where
  "invitationRow tenantId ev customerId i =
     \<lparr>appointment_id = i, appointment_tenantId = tenantId, appointment_customerId = Some customerId,
      appointment_title = ''Invitation: '' @ event_title ev, appointment_scheduledAt = event_startTime ev,
      appointment_durationMinutes = 30, appointment_status = A_SCHEDULED, appointment_notes = None,
      appointment_locationId = None, appointment_campaignId = None,
      appointment_eventId = Some (event_id ev), appointment_audienceSegmentId = None,
      appointment_isDemoData = False\<rparr>"

text \<open>The upsert goes by the id found just before, or by the id of zeros, which no row has.\<close>

definition upsertInvitation :: "uuid \<Rightarrow> event \<Rightarrow> uuid \<Rightarrow> world \<Rightarrow> world" where
  "upsertInvitation tenantId ev customerId w =
     (case List.find (invitationOf tenantId (event_id ev) customerId) (w_appointments w) of
        Some a \<Rightarrow> w\<lparr>w_appointments := update_where (\<lambda>x. appointment_id x = appointment_id a)
            (\<lambda>x. x\<lparr>appointment_status := A_SCHEDULED\<rparr>) (w_appointments w)\<rparr>
      | None \<Rightarrow> bump (w\<lparr>w_appointments := w_appointments w @
            [invitationRow tenantId ev customerId (newId w)]\<rparr>))"

definition upsertParticipant :: "env \<Rightarrow> instant \<Rightarrow> uuid \<Rightarrow> uuid \<Rightarrow> uuid \<Rightarrow> unit act" where
  "upsertParticipant E now tenantId eventId contactId w =
     (if list_ex (isParticipant eventId contactId) (w_eventParticipants w) then (Inr (), w)
      else if tokenTaken (generateQrToken E now eventId contactId) w then (Inl (PrismaError ''P2002''), w)
      else (Inr (), addInvited E now tenantId eventId contactId w))"

record InviteResult =
  ir_invited :: nat
  ir_skipped :: nat

fun inviteAll :: "env \<Rightarrow> instant \<Rightarrow> uuid \<Rightarrow> event \<Rightarrow> uuid list \<Rightarrow> InviteResult \<Rightarrow> InviteResult act" where
  "inviteAll E now tenantId ev [] r w = (Inr r, w)"
| "inviteAll E now tenantId ev (i # ids) r w =
     (case tenantContact tenantId i w of
        None \<Rightarrow> inviteAll E now tenantId ev ids (r\<lparr>ir_skipped := ir_skipped r + 1\<rparr>) w
      | Some c \<Rightarrow>
          bindA (ensureCustomerTx tenantId (targetOf c)) (\<lambda>cu.
            thenA (modifyA (upsertInvitation tenantId ev (customer_id cu)))
              (thenA (upsertParticipant E now tenantId (event_id ev) i)
                (inviteAll E now tenantId ev ids (r\<lparr>ir_invited := ir_invited r + 1\<rparr>)))) w)"

definition eventNotFound :: exn where
  "eventNotFound = NotFoundException ''Event not found''"

definition invite :: "env \<Rightarrow> instant \<Rightarrow> uuid \<Rightarrow> uuid \<Rightarrow> uuid list \<Rightarrow> InviteResult act" where
  "invite E now eventId tenantId contactIds w =
     (case eventOf tenantId eventId w of
        None \<Rightarrow> (Inl eventNotFound, w)
      | Some ev \<Rightarrow> transactionA (inviteAll E now tenantId ev contactIds \<lparr>ir_invited = 0, ir_skipped = 0\<rparr>) w)"

text \<open>The participant to be replaced is not looked at.\<close>

definition replaceParticipant :: "env \<Rightarrow> instant \<Rightarrow> uuid \<Rightarrow> uuid \<Rightarrow> uuid \<Rightarrow> uuid \<Rightarrow> InviteResult act" where
  "replaceParticipant E now tenantId eventId oldParticipantId newContactId =
     invite E now eventId tenantId [newContactId]"

section \<open>Events\<close>

definition newEvent :: "uuid \<Rightarrow> uuid \<Rightarrow> CreateEventDto \<Rightarrow> uuid \<Rightarrow> event" where
  "newEvent tenantId userId dto i =
     \<lparr>event_id = i, event_tenantId = tenantId, event_title = ce_title dto, event_location = ce_location dto,
      event_startTime = ce_startTime dto, event_status = E_DRAFT, event_isDemoData = False,
      event_description = ce_description dto, event_endTime = ce_endTime dto,
      event_eventType = coalesce (ce_eventType dto) ET_APPOINTMENT, event_createdBy = Some userId,
      event_incentiveType = Some (coalesce (ce_incentiveType dto) ''none''),
      event_incentiveValue = ce_incentiveValue dto, event_incentiveMessage = ce_incentiveMessage dto\<rparr>"

definition setting :: "(AutomationSettings \<Rightarrow> bool option) \<Rightarrow> CreateEventDto \<Rightarrow> bool" where
  "setting f dto = coalesce (Option.bind (ce_automationSettings dto) f) True"

definition newAutomation :: "uuid \<Rightarrow> CreateEventDto \<Rightarrow> uuid \<Rightarrow> uuid \<Rightarrow> eventAutomation" where
  "newAutomation tenantId dto eventId i =
     \<lparr>eventAutomation_id = i, eventAutomation_tenantId = tenantId, eventAutomation_eventId = eventId,
      eventAutomation_remindNonResponders = setting as_remindNonResponders dto,
      eventAutomation_sendLocationOnConfirm = setting as_sendLocationOnConfirm dto,
      eventAutomation_sendFollowupAfter = setting as_sendFollowupAfter dto\<rparr>"

text \<open>Event and automation are written in one transaction.\<close>

definition createEventRows :: "uuid \<Rightarrow> uuid \<Rightarrow> CreateEventDto \<Rightarrow> event act" where
  "createEventRows tenantId userId dto w =
     (if tenantExists tenantId w \<and> userId \<in> user_id ` set (w_users w)
      then let e = newEvent tenantId userId dto (newId w);
               w1 = bump (w\<lparr>w_events := w_events w @ [e]\<rparr>)
           in (Inr e, bump (w1\<lparr>w_eventAutomations := w_eventAutomations w1 @
                  [newAutomation tenantId dto (event_id e) (newId w1)]\<rparr>))
      else (Inl (PrismaError ''P2003''), w))"

definition createEvent :: "env \<Rightarrow> instant \<Rightarrow> uuid \<Rightarrow> uuid \<Rightarrow> CreateEventDto \<Rightarrow> event act" where
  "createEvent E now tenantId userId dto =
     bindA (createEventRows tenantId userId dto) (\<lambda>e.
       thenA (whenA (ce_contactIds dto \<noteq> [])
                (bindA (invite E now (event_id e) tenantId (ce_contactIds dto)) (\<lambda>_. returnA ())))
       (thenA (modifyA (fireTrigger now tenantId ''event_created'' (event_id e)
                (JObj [(''eventId'', JStr (event_id e)), (''eventTitle'', JStr (event_title e)),
                       (''tenantId'', JStr tenantId)])))
       (thenA (modifyA (scheduleForEvent E now (event_id e) tenantId))
              (returnA e))))"

definition eventStatusNamed :: "string \<Rightarrow> EventStatus option" where
  "eventStatusNamed s = map_of [(''DRAFT'', E_DRAFT), (''PUBLISHED'', E_PUBLISHED), (''ACTIVE'', E_ACTIVE),
     (''COMPLETED'', E_COMPLETED), (''CANCELLED'', E_CANCELLED)] s"

definition keepOr :: "'a option \<Rightarrow> 'a option \<Rightarrow> 'a option" where
  "keepOr given old = (case given of None \<Rightarrow> old | Some x \<Rightarrow> Some x)"

text \<open>What is not given stays, except for the location (\<open>dto.location ?? null\<close>).\<close>

definition applyEventDto :: "UpdateEventDto \<Rightarrow> EventStatus option \<Rightarrow> event \<Rightarrow> event" where
  "applyEventDto dto st e = e\<lparr>
     event_title := coalesce (ue_title dto) (event_title e),
     event_description := keepOr (ue_description dto) (event_description e),
     event_location := ue_location dto,
     event_startTime := coalesce (ue_startTime dto) (event_startTime e),
     event_endTime := keepOr (ue_endTime dto) (event_endTime e),
     event_eventType := coalesce (ue_eventType dto) (event_eventType e),
     event_status := coalesce st (event_status e),
     event_incentiveType := keepOr (ue_incentiveType dto) (event_incentiveType e),
     event_incentiveValue := keepOr (ue_incentiveValue dto) (event_incentiveValue e),
     event_incentiveMessage := keepOr (ue_incentiveMessage dto) (event_incentiveMessage e)\<rparr>"

definition completeEvent :: "instant \<Rightarrow> uuid \<Rightarrow> event \<Rightarrow> world \<Rightarrow> world" where
  "completeEvent now tenantId existing w =
     snd (cancelForEvent (event_id existing)
       (fireTrigger now tenantId ''event_completed'' (event_id existing)
         (JObj [(''tenantId'', JStr tenantId), (''eventId'', JStr (event_id existing)),
                (''title'', JStr (event_title existing)), (''startTime'', JDate (event_startTime existing))]) w))"

definition updateEvent :: "instant \<Rightarrow> uuid \<Rightarrow> uuid \<Rightarrow> UpdateEventDto \<Rightarrow> event act" where
  "updateEvent now tenantId i dto w =
     (case eventOf tenantId i w of
        None \<Rightarrow> (Inl eventNotFound, w)
      | Some e \<Rightarrow>
          let st = Option.bind (ue_status dto) eventStatusNamed; e' = applyEventDto dto st e;
              w1 = w\<lparr>w_events := update_where (\<lambda>x. event_id x = i) (applyEventDto dto st) (w_events w)\<rparr>
          in if ue_status dto \<noteq> None \<and> st = None then (Inl (PrismaError ''PrismaClientValidationError''), w)
             else if event_status e' = E_COMPLETED \<and> event_status e \<noteq> E_COMPLETED
             then (Inr e', completeEvent now tenantId e w1)
             else (Inr e', w1))"

definition removeEvent :: "uuid \<Rightarrow> uuid \<Rightarrow> unit act" where
  "removeEvent tenantId i w =
     (case eventOf tenantId i w of
        None \<Rightarrow> (Inl eventNotFound, w)
      | Some e \<Rightarrow> bindA (cancelForEvent i) (\<lambda>_. modifyA (deleteEventRow i)) w)"

section \<open>Answers\<close>

definition responseStatuses :: "string \<Rightarrow> AppointmentStatus \<times> EventParticipantStatus \<times> string" where
  "responseStatuses normalized =
     (if normalized = ''YES'' then (A_CONFIRMED, P_confirmed, ''rsvp_confirmed'')
      else if normalized = ''NO'' then (A_CANCELLED, P_cancelled, ''rsvp_declined'')
      else (A_SCHEDULED, P_pending, ''rsvp_maybe''))"

text \<open>The customer with the contact's phone or e-mail, if the contact is the tenant's.\<close>

definition respondentCustomer :: "uuid \<Rightarrow> uuid \<Rightarrow> world \<Rightarrow> customer option" where
  "respondentCustomer tenantId contactId w =
     Option.bind (tenantContact tenantId contactId w) (\<lambda>c.
       List.find (\<lambda>k. customer_tenantId k = tenantId \<and> matchesContact (targetOf c) k) (w_customers w))"

definition answerAppointments :: "uuid \<Rightarrow> uuid \<Rightarrow> uuid \<Rightarrow> AppointmentStatus \<Rightarrow> world \<Rightarrow> world" where
  "answerAppointments eventId tenantId contactId st w =
     (case respondentCustomer tenantId contactId w of
        None \<Rightarrow> w
      | Some k \<Rightarrow> w\<lparr>w_appointments := update_where (invitationOf tenantId eventId (customer_id k))
          (\<lambda>a. a\<lparr>appointment_status := st\<rparr>) (w_appointments w)\<rparr>)"

definition answerParticipant ::
  "instant \<Rightarrow> uuid \<Rightarrow> uuid \<Rightarrow> uuid \<Rightarrow> EventParticipantStatus \<Rightarrow> world \<Rightarrow> world" where
  "answerParticipant now eventId tenantId contactId st w = w\<lparr>w_eventParticipants := update_where
     (\<lambda>p. isParticipant eventId contactId p \<and> eventParticipant_tenantId p = tenantId)
     (\<lambda>p. p\<lparr>eventParticipant_status := st, eventParticipant_lastResponseAt := Some now\<rparr>)
     (w_eventParticipants w)\<rparr>"

definition createRsvpEvent :: "instant \<Rightarrow> uuid \<Rightarrow> uuid \<Rightarrow> uuid \<Rightarrow> string \<Rightarrow> unit act" where
  "createRsvpEvent now tenantId eventId contactId response w =
     (if findContact contactId w \<noteq> None \<and> tenantExists tenantId w
      then (Inr (), recordRsvpEvent now tenantId eventId contactId response ''API'' w)
      else (Inl (PrismaError ''P2003''), w))"

definition rsvpWorkflowJob :: "uuid \<Rightarrow> uuid \<Rightarrow> uuid \<Rightarrow> string \<Rightarrow> job" where
  "rsvpWorkflowJob tenantId eventId contactId triggerType =
     \<lparr>job_queue = EVENT_WORKFLOW_QUEUE, job_id = [], job_name = ''event-workflow'',
      job_data = JObj [(''tenantId'', JStr tenantId), (''triggerType'', JStr triggerType),
        (''contactId'', JStr contactId), (''eventId'', JStr eventId)], job_delay = 0\<rparr>"

definition respond :: "instant \<Rightarrow> uuid \<Rightarrow> uuid \<Rightarrow> uuid \<Rightarrow> string \<Rightarrow> string act" where
  "respond now eventId tenantId contactId response w =
     (case eventOf tenantId eventId w of
        None \<Rightarrow> (Inl eventNotFound, w)
      | Some ev \<Rightarrow>
          let (ast, pst, trigger) = responseStatuses (toUpperCase (trim response))
          in thenA (modifyA (answerAppointments eventId tenantId contactId ast))
             (thenA (modifyA (answerParticipant now eventId tenantId contactId pst))
             (thenA (createRsvpEvent now tenantId eventId contactId response)
             (thenA (modifyA (addJob (rsvpWorkflowJob tenantId eventId contactId trigger)))
                    (returnA trigger)))) w)"

section \<open>Broadcasts\<close>

definition CAMPAIGN_QUEUE :: string where
  "CAMPAIGN_QUEUE = ''meetora-campaigns''"

record CampaignJobData =
  cj_tenantId :: uuid
  cj_campaignId :: uuid
  cj_segmentId :: string
  cj_contactId :: uuid
  cj_recipient :: string
  cj_channel :: string
  cj_messageTemplate :: string
  cj_scheduledFor :: instant
  cj_contactName :: string
  cj_locationName :: string

definition campaignJobJson :: "CampaignJobData \<Rightarrow> json" where
  "campaignJobJson d = JObj [(''tenantId'', JStr (cj_tenantId d)), (''campaignId'', JStr (cj_campaignId d)),
     (''segmentId'', JStr (cj_segmentId d)), (''contactId'', JStr (cj_contactId d)),
     (''recipient'', JStr (cj_recipient d)), (''channel'', JStr (cj_channel d)),
     (''messageTemplate'', JStr (cj_messageTemplate d)), (''scheduledFor'', JDate (cj_scheduledFor d)),
     (''contactName'', JStr (cj_contactName d)), (''locationName'', JStr (cj_locationName d))]"

definition broadcastRecipient :: "string \<Rightarrow> contact \<Rightarrow> string option" where
  "broadcastRecipient channel c =
     (if channel = ''EMAIL'' \<or> channel = ''WHATSAPP'' then or_str (contact_email c) (contact_phone c)
      else contact_phone c)"

definition broadcastJob ::
  "instant \<Rightarrow> uuid \<Rightarrow> event \<Rightarrow> string \<Rightarrow> string \<Rightarrow> world \<Rightarrow> eventParticipant \<Rightarrow> job option" where
  "broadcastJob now tenantId ev channel message w p =
     (case findContact (eventParticipant_contactId p) w of
        None \<Rightarrow> None
      | Some c \<Rightarrow>
          if \<not> truthy (broadcastRecipient channel c) then None
          else Some \<lparr>job_queue = CAMPAIGN_QUEUE, job_id = [], job_name = ''broadcast-send'',
            job_data = campaignJobJson \<lparr>cj_tenantId = tenantId, cj_campaignId = event_id ev,
              cj_segmentId = ''event-broadcast'', cj_contactId = eventParticipant_contactId p,
              cj_recipient = the (broadcastRecipient channel c), cj_channel = channel,
              cj_messageTemplate = message, cj_scheduledFor = now, cj_contactName = contact_name c,
              cj_locationName = coalesce (or_str (event_location ev) (Some [])) []\<rparr>,
            job_delay = 0\<rparr>)"

definition broadcastAction :: "instant \<Rightarrow> uuid \<Rightarrow> uuid \<Rightarrow> string option \<Rightarrow> string option \<Rightarrow> nat act" where
  "broadcastAction now eventId tenantId dtoChannel dtoMessage w =
     (case eventOf tenantId eventId w of
        None \<Rightarrow> (Inl eventNotFound, w)
      | Some ev \<Rightarrow>
          let channel = coalesce (or_str dtoChannel (Some ''SMS'')) [];
              message = appendRsvpFooter
                (coalesce (or_str dtoMessage (Some (''Reminder for '' @ event_title ev))) []) channel;
              js = List.map_filter (broadcastJob now tenantId ev channel message w)
                     (filter (\<lambda>p. eventParticipant_eventId p = eventId) (w_eventParticipants w))
          in (Inr (length js), fold addJob js w))"

section \<open>Check-in\<close>

record QrCode =
  qr_code :: string
  qr_contactName :: string
  qr_token :: string

text \<open>A participant always has its contact: the reference is a foreign key.\<close>

definition generateQrCode :: "env \<Rightarrow> (string \<Rightarrow> string) \<Rightarrow> instant \<Rightarrow> uuid \<Rightarrow> uuid \<Rightarrow> uuid \<Rightarrow> QrCode act" where
  "generateQrCode E toDataURL now eventId contactId tenantId w =
     (case List.find (\<lambda>p. isParticipant eventId contactId p \<and> eventParticipant_tenantId p = tenantId)
             (w_eventParticipants w) of
        None \<Rightarrow> (Inl (NotFoundException ''Participant not found''), w)
      | Some p \<Rightarrow>
          let token = (if truthy (eventParticipant_qrToken p) then the (eventParticipant_qrToken p)
                       else generateQrToken E now eventId contactId);
              payload = e_stringify E (JObj [(''eventId'', JStr eventId), (''contactId'', JStr contactId),
                  (''token'', JStr token)]);
              mint = (if truthy (eventParticipant_qrToken p) then returnA ()
                      else if tokenTaken token w then throwA (PrismaError ''P2002'')
                      else modifyA (setParticipant (eventParticipant_id p)
                             (\<lambda>x. x\<lparr>eventParticipant_qrToken := Some token\<rparr>)))
          in (case findContact (eventParticipant_contactId p) w of
                None \<Rightarrow> thenA mint (throwA (PlainError ''TypeError'')) w
              | Some c \<Rightarrow> thenA mint
                  (returnA \<lparr>qr_code = toDataURL payload, qr_contactName = contact_name c, qr_token = token\<rparr>) w))"

text \<open>
  A scan reads the participant and then claims the arrival with a conditional update. The two steps are
  definitions of their own, since the steps of two scans can come in any order.
\<close>

record Scan =
  sc_participantId :: uuid
  sc_contactId :: uuid
  sc_contact :: contact
  sc_eventTitle :: string

definition scanRead :: "(instant \<Rightarrow> string) \<Rightarrow> uuid \<Rightarrow> string \<Rightarrow> uuid \<Rightarrow> world \<Rightarrow> Scan outcome" where
  "scanRead localeTime eventId qrToken tenantId w =
     (if trim qrToken = [] then Inl (BadRequestException ''No QR token supplied'')
      else case List.find (\<lambda>p. eventParticipant_eventId p = eventId \<and> eventParticipant_tenantId p = tenantId \<and>
               eventParticipant_qrToken p = Some (trim qrToken)) (w_eventParticipants w) of
             None \<Rightarrow> Inl (NotFoundException (''Invalid QR code '' @
               [char_of (0xE2 :: nat), char_of (0x80 :: nat), char_of (0x94 :: nat)] @
               '' not found for this event''))
           | Some p \<Rightarrow>
               (case findContact (eventParticipant_contactId p) w of
                  None \<Rightarrow> Inl (PlainError ''TypeError'')
                | Some c \<Rightarrow>
                    (case eventParticipant_arrivedAt p of
                       Some t \<Rightarrow> Inl (BadRequestException (contact_name c @ '' already checked in at '' @ localeTime t))
                     | None \<Rightarrow> Inr \<lparr>sc_participantId = eventParticipant_id p,
                          sc_contactId = eventParticipant_contactId p, sc_contact = c,
                          sc_eventTitle = coalesce (map_option event_title
                            (List.find (\<lambda>e. event_id e = eventParticipant_eventId p) (w_events w))) ''undefined''\<rparr>)))"

definition claimable :: "uuid \<Rightarrow> eventParticipant \<Rightarrow> bool" where
  "claimable i p = (eventParticipant_id p = i \<and> eventParticipant_arrivedAt p = None)"

definition claimArrival :: "instant \<Rightarrow> uuid \<Rightarrow> uuid \<Rightarrow> world \<Rightarrow> world" where
  "claimArrival now userId i w = w\<lparr>w_eventParticipants := update_where (claimable i)
     (\<lambda>p. p\<lparr>eventParticipant_arrivedAt := Some now, eventParticipant_status := P_confirmed,
            eventParticipant_qrScannedBy := Some userId\<rparr>) (w_eventParticipants w)\<rparr>"

definition welcomeText :: "Scan \<Rightarrow> string" where
  "welcomeText s = ''Welcome, '' @ contact_name (sc_contact s) @ ''! '' @
     ''Thank you for attending '' @ sc_eventTitle s @ ''. '' @ ''We are delighted to have you here!''"

definition sendWelcome :: "env \<Rightarrow> instant \<Rightarrow> uuid \<Rightarrow> uuid \<Rightarrow> Scan \<Rightarrow> world \<Rightarrow> world" where
  "sendWelcome E now eventId tenantId s w =
     (if truthy (contact_phone (sc_contact s))
      then snd (send E now ((request tenantId SMS (the (contact_phone (sc_contact s))) (welcomeText s))
             \<lparr>sq_eventId := Some eventId, sq_contactId := Some (sc_contactId s)\<rparr>) w)
      else w)"

record Arrival =
  ar_contactName :: string
  ar_arrivedAt :: instant

definition scanClaim :: "env \<Rightarrow> instant \<Rightarrow> uuid \<Rightarrow> uuid \<Rightarrow> uuid \<Rightarrow> Scan \<Rightarrow> Arrival act" where
  "scanClaim E now eventId tenantId userId s w =
     (if \<not> list_ex (claimable (sc_participantId s)) (w_eventParticipants w)
      then (Inl (BadRequestException (contact_name (sc_contact s) @ '' already checked in'')), w)
      else (Inr \<lparr>ar_contactName = contact_name (sc_contact s), ar_arrivedAt = now\<rparr>,
            sendWelcome E now eventId tenantId s (claimArrival now userId (sc_participantId s) w)))"

definition processArrival ::
  "env \<Rightarrow> (instant \<Rightarrow> string) \<Rightarrow> instant \<Rightarrow> uuid \<Rightarrow> string \<Rightarrow> uuid \<Rightarrow> uuid \<Rightarrow> Arrival act" where
  "processArrival E localeTime now eventId qrToken tenantId userId w =
     (case scanRead localeTime eventId qrToken tenantId w of
        Inl e \<Rightarrow> (Inl e, w)
      | Inr s \<Rightarrow> scanClaim E now eventId tenantId userId s w)"

section \<open>Reading\<close>

definition participantCount :: "uuid \<Rightarrow> world \<Rightarrow> nat" where
  "participantCount eventId w = count_where (\<lambda>p. eventParticipant_eventId p = eventId) (w_eventParticipants w)"

definition findAllEvents :: "uuid \<Rightarrow> int \<Rightarrow> nat \<Rightarrow> world \<Rightarrow> (event \<times> nat) list outcome" where
  "findAllEvents tenantId page limit w =
     (let skip = (page - 1) * int limit
      in if skip < 0 then Inl (PrismaError ''PrismaClientValidationError'')
         else Inr (map (\<lambda>e. (e, participantCount (event_id e) w)) (take limit (drop (nat skip)
           (order_asc event_startTime (filter (\<lambda>e. event_tenantId e = tenantId) (w_events w)))))))"

definition startOfToday :: "env \<Rightarrow> instant \<Rightarrow> instant" where
  "startOfToday E now = now - (now + e_tz E) mod 86400000"

definition findActive :: "env \<Rightarrow> instant \<Rightarrow> uuid \<Rightarrow> world \<Rightarrow> (event \<times> nat) list" where
  "findActive E now tenantId w = map (\<lambda>e. (e, participantCount (event_id e) w)) (take 10
     (order_asc event_startTime (filter (\<lambda>e. event_tenantId e = tenantId \<and> startOfToday E now \<le> event_startTime e \<and>
        event_status e \<noteq> E_CANCELLED) (w_events w))))"

record EventDetails =
  ed_event :: event
  ed_appointments :: "appointment list"
  ed_automation :: "eventAutomation option"
  ed_participants :: "(eventParticipant \<times> contact option) list"

definition findOneEvent :: "uuid \<Rightarrow> uuid \<Rightarrow> world \<Rightarrow> EventDetails outcome" where
  "findOneEvent i tenantId w =
     (case eventOf tenantId i w of
        None \<Rightarrow> Inl eventNotFound
      | Some e \<Rightarrow> Inr \<lparr>ed_event = e,
          ed_appointments = filter (\<lambda>a. appointment_eventId a = Some i) (w_appointments w),
          ed_automation = List.find (\<lambda>a. eventAutomation_eventId a = i) (w_eventAutomations w),
          ed_participants = map (\<lambda>p. (p, findContact (eventParticipant_contactId p) w))
            (filter (\<lambda>p. eventParticipant_eventId p = i) (w_eventParticipants w))\<rparr>)"

record EventStats =
  es_confirmed :: nat
  es_pending :: nat
  es_cancelled :: nat
  es_invited :: nat
  es_arrived :: nat
  es_total :: nat

definition eventStats :: "uuid \<Rightarrow> uuid \<Rightarrow> world \<Rightarrow> EventStats" where
  "eventStats tenantId eventId w =
     (let mine = filter (\<lambda>p. eventParticipant_eventId p = eventId \<and> eventParticipant_tenantId p = tenantId)
            (w_eventParticipants w);
          n = (\<lambda>s. count_where (\<lambda>p. eventParticipant_status p = s) mine)
      in \<lparr>es_confirmed = n P_confirmed, es_pending = n P_pending, es_cancelled = n P_cancelled,
          es_invited = n P_invited,
          es_arrived = count_where (\<lambda>p. eventParticipant_arrivedAt p \<noteq> None) mine,
          es_total = length mine\<rparr>)"

record SmartReminder =
  sr_id :: uuid
  sr_contactId :: "uuid option"
  sr_contactName :: string
  sr_contactPhone :: "string option"
  sr_contactEmail :: "string option"
  sr_status :: ReminderStatus
  sr_channel :: ChannelType
  sr_scheduledSendTime :: instant
  sr_sentAt :: "instant option"
  sr_messageContent :: "string option"
  sr_reminderRuleName :: "string option"

definition mapReminder :: "world \<Rightarrow> reminder \<Rightarrow> SmartReminder" where
  "mapReminder w r =
     (let c = Option.bind (reminder_contactId r) (\<lambda>i. findContact i w);
          rule = Option.bind (reminder_reminderRuleId r)
            (\<lambda>i. List.find (\<lambda>x. reminderRule_id x = i) (w_reminderRules w))
      in \<lparr>sr_id = reminder_id r, sr_contactId = reminder_contactId r,
          sr_contactName = coalesce (or_str (map_option contact_name c) (Some ''Unknown'')) [],
          sr_contactPhone = Option.bind c contact_phone, sr_contactEmail = Option.bind c contact_email,
          sr_status = reminder_status r, sr_channel = reminder_channel r,
          sr_scheduledSendTime = reminder_scheduledSendTime r, sr_sentAt = reminder_sentAt r,
          sr_messageContent = reminder_messageContent r, sr_reminderRuleName = map_option reminderRule_name rule\<rparr>)"

record SmartReminders =
  sm_eventId :: uuid
  sm_eventTitle :: string
  sm_eventStartTime :: instant
  sm_totalReminders :: nat
  sm_pending :: "SmartReminder list"
  sm_sent :: "SmartReminder list"
  sm_failed :: "SmartReminder list"
  sm_recommendations :: "string list"

definition getSmartReminders :: "uuid \<Rightarrow> uuid \<Rightarrow> world \<Rightarrow> SmartReminders outcome" where
  "getSmartReminders tenantId eventId w =
     (case eventOf tenantId eventId w of
        None \<Rightarrow> Inl eventNotFound
      | Some e \<Rightarrow>
          let rs = order_asc reminder_scheduledSendTime (filter (\<lambda>r. reminder_eventId r = Some eventId \<and>
                reminder_tenantId r = tenantId) (w_reminders w));
              pick = (\<lambda>S. map (mapReminder w) (filter (\<lambda>r. reminder_status r \<in> S) rs));
              pending = pick {R_PENDING}; failed = pick {R_FAILED}
          in Inr \<lparr>sm_eventId = eventId, sm_eventTitle = event_title e, sm_eventStartTime = event_startTime e,
               sm_totalReminders = length rs, sm_pending = pending, sm_sent = pick {R_SENT, R_DELIVERED},
               sm_failed = failed,
               sm_recommendations =
                 (if failed \<noteq> [] then [show_nat (length failed) @ '' reminder(s) failed.''] else []) @
                 (if pending \<noteq> [] then [show_nat (length pending) @ '' reminder(s) pending.''] else [])\<rparr>)"

definition getCalendarFeed ::
  "instant \<times> instant \<Rightarrow> uuid \<Rightarrow> instant option \<Rightarrow> instant option \<Rightarrow> world \<Rightarrow> event list \<times> event list" where
  "getCalendarFeed monthRange tenantId fromTime toTime w =
     (let f = coalesce fromTime (fst monthRange); t = coalesce toTime (snd monthRange);
          rows = order_asc event_startTime (filter (\<lambda>e. event_tenantId e = tenantId \<and>
            f \<le> event_startTime e \<and> event_startTime e \<le> t) (w_events w))
      in (filter (\<lambda>e. event_eventType e \<noteq> ET_APPOINTMENT) rows,
          filter (\<lambda>e. event_eventType e = ET_APPOINTMENT) rows))"

section \<open>Inviting an audience\<close>

record Audience =
  au_type :: string
  au_ids :: "uuid list"

text \<open>The members of a group are taken whatever tenant the group belongs to.\<close>

definition audienceContacts :: "uuid \<Rightarrow> Audience \<Rightarrow> world \<Rightarrow> contact list" where
  "audienceContacts tenantId a w =
     (if au_type a = ''all'' then filter (\<lambda>c. contact_tenantId c = tenantId) (w_contacts w)
      else if au_type a = ''tag'' then filter (\<lambda>c. contact_tenantId c = tenantId \<and>
          list_ex (\<lambda>t. contactTag_contactId t = contact_id c \<and> contactTag_tagId t \<in> set (au_ids a))
            (w_contactTags w)) (w_contacts w)
      else if au_type a = ''group'' then List.map_filter (\<lambda>m. findContact (contactGroupMember_contactId m) w)
          (filter (\<lambda>m. contactGroupMember_groupId m \<in> set (au_ids a)) (w_contactGroupMembers w))
      else [])"

text \<open>\<open>createMany\<close> with \<open>skipDuplicates\<close>: a row that meets a unique key is left out.\<close>

definition inviteNew :: "env \<Rightarrow> instant \<Rightarrow> uuid \<Rightarrow> uuid \<Rightarrow> contact \<Rightarrow> world \<Rightarrow> world" where
  "inviteNew E now tenantId eventId c w =
     (if list_ex (isParticipant eventId (contact_id c)) (w_eventParticipants w) \<or>
         tokenTaken (generateQrToken E now eventId (contact_id c)) w
      then w else addInvited E now tenantId eventId (contact_id c) w)"

definition bytes :: "nat list \<Rightarrow> string" where
  "bytes = map (\<lambda>n. char_of n)"

definition buildInviteMessage :: "env \<Rightarrow> (instant \<Rightarrow> string) \<Rightarrow> event \<Rightarrow> contact \<Rightarrow> string" where
  "buildInviteMessage E localeDateTime ev c =
     (let link = coalesce (or_str (e_config E ''FRONTEND_URL'') (Some ''http://localhost:3001'')) [] @
            ''/rsvp/'' @ event_id ev @ ''?contact='' @ contact_id c
      in appendRsvpFooter (bytes [0xF0, 0x9F, 0x8E, 0x89] @ '' You'' @ tick @ ''re invited to: '' @ event_title ev @
           newline @ newline @ bytes [0xF0, 0x9F, 0x93, 0x85] @ '' When: '' @ localeDateTime (event_startTime ev) @
           newline @ bytes [0xF0, 0x9F, 0x93, 0x8D] @ '' Where: '' @
           coalesce (or_str (event_location ev) (Some ''Virtual event'')) [] @
           newline @ newline @ ''Or RSVP here: '' @ link) ''SMS'')"

definition sendInvitation ::
  "env \<Rightarrow> (instant \<Rightarrow> string) \<Rightarrow> instant \<Rightarrow> uuid \<Rightarrow> event \<Rightarrow> contact \<Rightarrow> world \<Rightarrow> world" where
  "sendInvitation E localeDateTime now tenantId ev c w =
     (if truthy (contact_phone c)
      then snd (send E now ((request tenantId SMS (the (contact_phone c)) (buildInviteMessage E localeDateTime ev c))
             \<lparr>sq_eventId := Some (event_id ev), sq_contactId := Some (contact_id c)\<rparr>) w)
      else w)"

definition inviteByAudience ::
  "env \<Rightarrow> (instant \<Rightarrow> string) \<Rightarrow> instant \<Rightarrow> uuid \<Rightarrow> uuid \<Rightarrow> Audience \<Rightarrow> nat act" where
  "inviteByAudience E localeDateTime now tenantId eventId audience w =
     (let cs = audienceContacts tenantId audience w
      in if cs = [] then (Inr 0, w)
         else case eventOf tenantId eventId w of
                None \<Rightarrow> (Inl (PlainError ''Event not found''), w)
              | Some ev \<Rightarrow>
                  (Inr (length cs), fold (sendInvitation E localeDateTime now tenantId ev) cs
                     (fold (inviteNew E now tenantId eventId) cs w)))"

end
