(* ===== verification/Event_Properties.thy ===== *)
theory Event_Properties
  imports Events
begin

text \<open>
  Events: attendance as a map that invitations, answers and arrivals refine, the check-in under every
  interleaving of scans, the round trip of a QR code, and what inviting leaves undone.
\<close>

section \<open>Frames\<close>

lemma ensureCustomerTx_ensureCustomer: "ensureCustomerTx t tg w = ensureCustomer t tg w"
proof (cases "truthy (tg_phone tg) \<or> truthy (tg_email tg)")
  case True
  then show ?thesis by (simp add: ensureCustomerTx_def ensureCustomer_def)
next
  case False
  then have "List.find (\<lambda>c. customer_tenantId c = t \<and> matchesContact tg c) (w_customers w) = None"
    by (simp add: find_None_iff matchesContact_def)
  with False show ?thesis by (simp add: ensureCustomerTx_def ensureCustomer_def)
qed

text \<open>What an invitation may touch.\<close>

abbreviation inviteParts :: "world \<Rightarrow> world" where
  "inviteParts w \<equiv> w\<lparr>w_customers := [], w_appointments := [], w_eventParticipants := [], w_next := 0\<rparr>"

lemma ensureCustomerTx_frame:
  "inviteParts (snd (ensureCustomerTx t tg w)) = inviteParts w"
  "w_eventParticipants (snd (ensureCustomerTx t tg w)) = w_eventParticipants w"
  by (simp_all add: ensureCustomerTx_def Let_def bump_def split: option.split)

lemma upsertInvitation_frame:
  "inviteParts (upsertInvitation t ev c w) = inviteParts w"
  "w_eventParticipants (upsertInvitation t ev c w) = w_eventParticipants w"
  by (simp_all add: upsertInvitation_def bump_def split: option.split)

lemma upsertParticipant_frame: "inviteParts (snd (upsertParticipant E now t e c w)) = inviteParts w"
  by (simp add: upsertParticipant_def addInvited_def bump_def)

lemma inviteAll_frame: "inviteParts (snd (inviteAll E now t ev ids r w)) = inviteParts w"
proof (induction ids arbitrary: r w)
  case (Cons i ids)
  let ?P = "\<lambda>v. inviteParts v = inviteParts w"
  have "?P (snd (bindA (ensureCustomerTx t tg) (\<lambda>cu. thenA (modifyA (upsertInvitation t ev (customer_id cu)))
      (thenA (upsertParticipant E now t (event_id ev) i) (inviteAll E now t ev ids r'))) w))" for tg r'
    by (rule snd_bindA [where P = ?P]) (auto simp: ensureCustomerTx_frame Cons upsertInvitation_frame
        upsertParticipant_frame intro!: snd_thenA [where P = ?P])
  then show ?case by (simp add: Cons split: option.split)
qed simp

lemma invite_frame: "inviteParts (snd (invite E now e t ids w)) = inviteParts w"
  using inviteAll_frame by (auto simp: invite_def transactionA_def split: option.split sum.split prod.split)
    (metis snd_conv)

text \<open>
  Whoever is invited after an event was created gets no reminder. An invitation writes customers,
  appointments and participants; reminders, jobs, messages and everything else stay as they were. The
  reminders of an event are made once, when it is created.
\<close>

theorem invite_schedules_nothing:
  "w_reminders (snd (invite E now e t ids w)) = w_reminders w \<and> w_jobs (snd (invite E now e t ids w)) = w_jobs w \<and>
   w_outbox (snd (invite E now e t ids w)) = w_outbox w \<and>
   w_eventAutomations (snd (invite E now e t ids w)) = w_eventAutomations w"
proof -
  have "g (snd (invite E now e t ids w)) = g w" if "\<And>v. g (inviteParts v) = g v" for g :: "world \<Rightarrow> 'x"
    using invite_frame [of E now e t ids w] that by metis
  note part = this
  show ?thesis by (intro conjI part) simp_all
qed

section \<open>Check-in under every interleaving\<close>

text \<open>
  Several organisers scan at once, each a request of its own: the state is the database, what each
  request has read, and the participants whose arrival was confirmed to an organiser. Between the two
  steps of a scan the others, and answers of participants, may take theirs.
\<close>

type_synonym desk = "world \<times> (nat \<Rightarrow> Scan option) \<times> uuid list"

inductive scan_step :: "desk \<Rightarrow> desk \<Rightarrow> bool" where
  read: "scanRead lt ev tok t w = Inr s \<Longrightarrow> scan_step (w, P, A) (w, P(k := Some s), A)"
| claimed: "P k = Some s \<Longrightarrow> scanClaim E now ev t u s w = (Inr a, w') \<Longrightarrow>
    scan_step (w, P, A) (w', P(k := None), sc_participantId s # A)"
| refused: "P k = Some s \<Longrightarrow> scanClaim E now ev t u s w = (Inl e, w') \<Longrightarrow>
    scan_step (w, P, A) (w', P(k := None), A)"
| answer: "scan_step (w, P, A) (snd (respond now ev t c r w), P, A)"

inductive_cases scan_stepE: "scan_step d d'"

definition hasArrived :: "uuid \<Rightarrow> world \<Rightarrow> bool" where
  "hasArrived i w = (\<forall>p \<in> set (w_eventParticipants w). eventParticipant_id p = i \<longrightarrow>
     eventParticipant_arrivedAt p \<noteq> None)"

lemma sendWelcome_participants [simp]:
  "w_eventParticipants (sendWelcome E now ev t s w) = w_eventParticipants w"
  by (simp add: sendWelcome_def)

lemma claimable_iff: "list_ex (claimable i) (w_eventParticipants w) \<longleftrightarrow> \<not> hasArrived i w"
  by (auto simp: list_ex_iff claimable_def hasArrived_def)

lemma claimArrival_arrived:
  "hasArrived j (claimArrival now u i w) \<longleftrightarrow> hasArrived j w \<or> j = i"
  by (auto simp: hasArrived_def claimArrival_def update_where_def claimable_def)

lemma hasArrived_same:
  assumes "\<And>p. eventParticipant_id (f p) = eventParticipant_id p"
    and "\<And>p. eventParticipant_arrivedAt (f p) = eventParticipant_arrivedAt p"
  shows "hasArrived j (v\<lparr>w_eventParticipants := update_where q f (w_eventParticipants v)\<rparr>) = hasArrived j v"
  using assms by (auto simp: hasArrived_def update_where_def ball_Un)

lemma respond_arrived: "hasArrived j (snd (respond now ev t c r w)) = hasArrived j w"
proof -
  have ap: "hasArrived j (answerAppointments ev t c a v) = hasArrived j v" for a v
    by (simp add: hasArrived_def answerAppointments_def split: option.split)
  have pa: "hasArrived j (answerParticipant now ev t c st v) = hasArrived j v" for st v
    unfolding answerParticipant_def by (rule hasArrived_same) simp_all
  have rs: "hasArrived j (snd (createRsvpEvent now t ev c r v)) = hasArrived j v" for v
    by (simp add: hasArrived_def createRsvpEvent_def recordRsvpEvent_def bump_def)
  have jb: "hasArrived j (addJob x v) = hasArrived j v" for x v
    by (simp add: hasArrived_def addJob_def)
  have "keeps (\<lambda>v. hasArrived j v = b) (thenA (modifyA (answerAppointments ev t c a))
      (thenA (modifyA (answerParticipant now ev t c st)) (thenA (createRsvpEvent now t ev c r)
        (thenA (modifyA (addJob x)) (returnA y)))))" for b a st x and y :: string
    by (intro keeps_thenA keeps_basic) (simp_all add: keeps_def ap pa rs jb)
  from keepsD [OF this] show ?thesis
    by (simp add: respond_def case_prod_beta split: option.split)
qed

lemma scanClaim_ok:
  assumes "scanClaim E now ev t u s w = (Inr a, w')"
  shows "\<not> hasArrived (sc_participantId s) w"
    and "hasArrived j w' \<longleftrightarrow> hasArrived j w \<or> j = sc_participantId s"
proof -
  have same: "hasArrived i (sendWelcome E now ev t s v) = hasArrived i v" for i v by (simp add: hasArrived_def)
  show "\<not> hasArrived (sc_participantId s) w"
    and "hasArrived j w' \<longleftrightarrow> hasArrived j w \<or> j = sc_participantId s"
    using assms by (auto simp: scanClaim_def claimable_iff same claimArrival_arrived split: if_splits)
qed

lemma scanClaim_refused: "scanClaim E now ev t u s w = (Inl e, w') \<Longrightarrow> w' = w"
  by (auto simp: scanClaim_def split: if_splits)

definition countedOnce :: "world \<Rightarrow> desk \<Rightarrow> bool" where
  "countedOnce w0 = (\<lambda>(w, P, A). distinct A \<and> (\<forall>i \<in> set A. \<not> hasArrived i w0) \<and>
     (\<forall>i. hasArrived i w \<longleftrightarrow> hasArrived i w0 \<or> i \<in> set A))"

lemma scan_step_counted: "scan_step d d' \<Longrightarrow> countedOnce w0 d \<Longrightarrow> countedOnce w0 d'"
proof (induction rule: scan_step.induct)
  case (claimed P k s E now ev t u w a w' A)
  note c = scanClaim_ok [OF claimed(2)]
  from c(1) claimed(3) have "sc_participantId s \<notin> set A" and "\<not> hasArrived (sc_participantId s) w0"
    by (auto simp: countedOnce_def)
  then show ?case using claimed(3) c(2) by (auto simp: countedOnce_def)
next
  case (refused P k s E now ev t u w e w' A)
  from scanClaim_refused [OF refused(2)] refused(3) show ?case by (simp add: countedOnce_def)
qed (simp_all add: countedOnce_def respond_arrived)

text \<open>
  C26: An arrival is recorded once. However many organisers scan at the same time, in whatever order the
  reads and the claims of their requests and the answers of participants fall: no participant's arrival
  is confirmed twice, none that had arrived before is confirmed at all, and afterwards those have arrived
  who had before or were confirmed, nobody else.
\<close>

theorem arrival_recorded_once:
  assumes "scan_step\<^sup>*\<^sup>* (w0, \<lambda>_. None, []) (w, P, A)"
  shows "distinct A \<and> (\<forall>i \<in> set A. \<not> hasArrived i w0) \<and>
    (\<forall>i. hasArrived i w \<longleftrightarrow> hasArrived i w0 \<or> i \<in> set A)"
proof -
  have "countedOnce w0 (w0, \<lambda>_. None, [])" by (simp add: countedOnce_def)
  with assms have "countedOnce w0 (w, P, A)"
    by (induction rule: rtranclp_induct) (auto intro: scan_step_counted)
  then show ?thesis by (simp add: countedOnce_def)
qed

section \<open>Attendance\<close>

text \<open>
  The abstract state of an event: who takes part, and with which status. Its three operations: a
  contact is invited, a participant answers, a participant arrives.
\<close>

definition attendance :: "uuid \<Rightarrow> world \<Rightarrow> uuid \<rightharpoonup> EventParticipantStatus" where
  "attendance e w c = map_option eventParticipant_status (List.find (isParticipant e c) (w_eventParticipants w))"

definition addInvitees :: "uuid list \<Rightarrow> (uuid \<rightharpoonup> EventParticipantStatus) \<Rightarrow> (uuid \<rightharpoonup> EventParticipantStatus)" where
  "addInvitees cs m c = (if m c = None \<and> c \<in> set cs then Some P_invited else m c)"

definition recordAnswer ::
  "uuid \<Rightarrow> EventParticipantStatus \<Rightarrow> (uuid \<rightharpoonup> EventParticipantStatus) \<Rightarrow> (uuid \<rightharpoonup> EventParticipantStatus)" where
  "recordAnswer c st m = (if m c = None then m else m(c \<mapsto> st))"

text \<open>The unique keys of the participants' table, and that a participant belongs to the event's tenant.\<close>

definition uniqueParticipants :: "world \<Rightarrow> bool" where
  "uniqueParticipants w = (\<forall>p \<in> set (w_eventParticipants w). \<forall>q \<in> set (w_eventParticipants w).
     eventParticipant_id p = eventParticipant_id q \<or>
     (eventParticipant_eventId p = eventParticipant_eventId q \<and>
      eventParticipant_contactId p = eventParticipant_contactId q) \<or>
     (eventParticipant_qrToken p = eventParticipant_qrToken q \<and> eventParticipant_qrToken p \<noteq> None) \<longrightarrow> p = q)"

definition ownParticipants :: "uuid \<Rightarrow> uuid \<Rightarrow> world \<Rightarrow> bool" where
  "ownParticipants t e w = (\<forall>p \<in> set (w_eventParticipants w).
     eventParticipant_eventId p = e \<longrightarrow> eventParticipant_tenantId p = t)"

lemma uniqueParticipantsD:
  assumes "uniqueParticipants w" and "p \<in> set (w_eventParticipants w)" and "q \<in> set (w_eventParticipants w)"
  shows "eventParticipant_id p = eventParticipant_id q \<Longrightarrow> p = q"
    and "isParticipant e c p \<Longrightarrow> isParticipant e c q \<Longrightarrow> p = q"
    and "eventParticipant_qrToken p = Some tok \<Longrightarrow> eventParticipant_qrToken q = Some tok \<Longrightarrow> p = q"
proof -
  note u = assms(1) [unfolded uniqueParticipants_def, rule_format, OF assms(2,3)]
  show "eventParticipant_id p = eventParticipant_id q \<Longrightarrow> p = q" using u by blast
  show "isParticipant e c p \<Longrightarrow> isParticipant e c q \<Longrightarrow> p = q" using u by (simp add: isParticipant_def)
  show "eventParticipant_qrToken p = Some tok \<Longrightarrow> eventParticipant_qrToken q = Some tok \<Longrightarrow> p = q"
    using u by simp
qed

lemma attendance_cong: "w_eventParticipants v = w_eventParticipants w \<Longrightarrow> attendance e v = attendance e w"
  by (rule ext) (simp add: attendance_def)

lemma upsertParticipant_attendance:
  assumes "upsertParticipant E now t e i w = (Inr (), v)"
  shows "attendance e v = addInvitees [i] (attendance e w)"
proof (cases "list_ex (isParticipant e i) (w_eventParticipants w)")
  case True
  then have "List.find (isParticipant e i) (w_eventParticipants w) \<noteq> None"
    by (auto simp: find_None_iff list_ex_iff)
  with True assms show ?thesis
    by (auto simp: upsertParticipant_def addInvitees_def attendance_def fun_eq_iff)
next
  case False
  then have none: "List.find (isParticipant e i) (w_eventParticipants w) = None"
    by (auto simp: find_None_iff list_ex_iff)
  from False assms have v: "v = addInvited E now t e i w" by (auto simp: upsertParticipant_def split: if_splits)
  have row: "isParticipant e c (invitedRow t e i tok j) \<longleftrightarrow> c = i" for c tok j
    by (auto simp: isParticipant_def invitedRow_def)
  have st: "eventParticipant_status (invitedRow t e i tok j) = P_invited" for tok j
    by (simp add: invitedRow_def)
  show ?thesis
  proof
    fix c
    show "attendance e v c = addInvitees [i] (attendance e w) c"
      using none by (cases "List.find (isParticipant e c) (w_eventParticipants w)")
        (auto simp: v attendance_def addInvitees_def addInvited_def bump_def find_append row st)
  qed
qed

lemma inviteAll_attendance:
  assumes "inviteAll E now t ev ids r w = (Inr res, v)"
  shows "attendance (event_id ev) v =
    addInvitees (filter (\<lambda>i. tenantContact t i w \<noteq> None) ids) (attendance (event_id ev) w)"
  using assms
proof (induction ids arbitrary: r w)
  case Nil
  then show ?case by (auto simp: addInvitees_def)
next
  case (Cons i ids)
  show ?case
  proof (cases "tenantContact t i w")
    case None
    then show ?thesis using Cons by simp
  next
    case (Some c)
    obtain cu w1 where cu: "ensureCustomerTx t (targetOf c) w = (Inr cu, w1)"
      using Cons.prems Some by (auto simp: bindA_def split: prod.splits sum.splits)
    let ?w2 = "upsertInvitation t ev (customer_id cu) w1"
    obtain w3 where up: "upsertParticipant E now t (event_id ev) i ?w2 = (Inr (), w3)"
      using Cons.prems Some cu by (auto simp: thenA_def bindA_def split: prod.splits sum.splits)
    have rest: "inviteAll E now t ev ids (r\<lparr>ir_invited := ir_invited r + 1\<rparr>) w3 = (Inr res, v)"
      using Cons.prems Some cu up by simp
    have frame: "inviteParts w3 = inviteParts w"
      using upsertParticipant_frame [of E now t "event_id ev" i ?w2] up upsertInvitation_frame(1) [of t ev _ w1]
        ensureCustomerTx_frame(1) [of t _ w] cu by (metis snd_conv)
    have "g w3 = g w" if "\<And>v. g (inviteParts v) = g v" for g :: "world \<Rightarrow> contact list"
      using frame that by metis
    then have "w_contacts w3 = w_contacts w" by simp
    then have known: "tenantContact t k w3 = tenantContact t k w" for k by (simp add: tenantContact_def)
    have "attendance (event_id ev) ?w2 = attendance (event_id ev) w"
      by (rule attendance_cong) (use ensureCustomerTx_frame(2) [of t "targetOf c" w] cu in
        \<open>simp add: upsertInvitation_frame(2)\<close>)
    with upsertParticipant_attendance [OF up]
    have "attendance (event_id ev) w3 = addInvitees [i] (attendance (event_id ev) w)" by simp
    with Cons.IH [OF rest] Some show ?thesis by (auto simp: known addInvitees_def fun_eq_iff)
  qed
qed

lemma answerParticipant_attendance:
  assumes "ownParticipants t e w"
  shows "attendance e (answerParticipant now e t c st w) = recordAnswer c st (attendance e w)"
proof
  fix k
  let ?q = "\<lambda>p. isParticipant e c p \<and> eventParticipant_tenantId p = t"
  let ?f = "\<lambda>p :: eventParticipant. p\<lparr>eventParticipant_status := st, eventParticipant_lastResponseAt := Some now\<rparr>"
  have "List.find (isParticipant e k) (update_where ?q ?f (w_eventParticipants w)) =
      map_option (\<lambda>p. if ?q p then ?f p else p) (List.find (isParticipant e k) (w_eventParticipants w))"
    by (rule find_update_where_other) (simp add: isParticipant_def)
  moreover have "?q p \<longleftrightarrow> k = c" if "List.find (isParticipant e k) (w_eventParticipants w) = Some p" for p
    using find_SomeD [OF that] assms by (auto simp: isParticipant_def ownParticipants_def)
  ultimately show "attendance e (answerParticipant now e t c st w) k = recordAnswer c st (attendance e w) k"
    by (cases "List.find (isParticipant e k) (w_eventParticipants w)")
      (auto simp: answerParticipant_def attendance_def recordAnswer_def)
qed

lemma respond_attendance:
  assumes "ownParticipants t e w" and "fst (respond now e t c r w) = Inr trigger"
  shows "attendance e (snd (respond now e t c r w)) =
    recordAnswer c (fst (snd (responseStatuses (toUpperCase (trim r))))) (attendance e w)"
proof -
  obtain a st tr where rs: "responseStatuses (toUpperCase (trim r)) = (a, st, tr)" by (metis prod.exhaust)
  let ?w1 = "answerAppointments e t c a w"
  have own: "ownParticipants t e ?w1" and same: "attendance e ?w1 = attendance e w"
    using assms(1) by (simp_all add: answerAppointments_def ownParticipants_def attendance_def fun_eq_iff split: option.split)
  from assms(2) rs have run: "snd (respond now e t c r w) = addJob (rsvpWorkflowJob t e c tr)
      (recordRsvpEvent now t e c r ''API'' (answerParticipant now e t c st ?w1))"
    by (auto simp: respond_def createRsvpEvent_def thenA_def bindA_def split: option.splits if_splits)
  have "attendance e (snd (respond now e t c r w)) = attendance e (answerParticipant now e t c st ?w1)"
    unfolding run by (rule attendance_cong) (simp add: addJob_def recordRsvpEvent_def bump_def)
  then show ?thesis by (simp add: answerParticipant_attendance [OF own] same rs)
qed

lemma claim_attendance:
  assumes "uniqueParticipants w" and p: "p \<in> set (w_eventParticipants w)" "isParticipant e c p"
    and new: "eventParticipant_arrivedAt p = None"
  shows "attendance e (claimArrival now u (eventParticipant_id p) w) = (attendance e w)(c \<mapsto> P_confirmed)"
proof
  fix k
  let ?q = "claimable (eventParticipant_id p)"
  let ?f = "\<lambda>p :: eventParticipant. p\<lparr>eventParticipant_arrivedAt := Some now, eventParticipant_status := P_confirmed,
      eventParticipant_qrScannedBy := Some u\<rparr>"
  have "List.find (isParticipant e k) (update_where ?q ?f (w_eventParticipants w)) =
      map_option (\<lambda>p. if ?q p then ?f p else p) (List.find (isParticipant e k) (w_eventParticipants w))"
    by (rule find_update_where_other) (simp add: isParticipant_def)
  moreover have "?q x \<longleftrightarrow> k = c" if "List.find (isParticipant e k) (w_eventParticipants w) = Some x" for x
  proof -
    from find_SomeD [OF that] have x: "x \<in> set (w_eventParticipants w)" "isParticipant e k x" by auto
    show ?thesis
    proof
      assume "?q x"
      then have "eventParticipant_id x = eventParticipant_id p" by (simp add: claimable_def)
      then have "x = p" by (rule uniqueParticipantsD(1) [OF assms(1) x(1) p(1)])
      then show "k = c" using x(2) p(2) by (simp add: isParticipant_def)
    next
      assume "k = c"
      then have "x = p" using uniqueParticipantsD(2) [OF assms(1) x(1) p(1)] x(2) p(2) by blast
      then show "?q x" using new by (simp add: claimable_def)
    qed
  qed
  moreover have "List.find (isParticipant e c) (w_eventParticipants w) \<noteq> None"
    using p by (auto simp: find_None_iff)
  ultimately show "attendance e (claimArrival now u (eventParticipant_id p) w) k =
      ((attendance e w)(c \<mapsto> P_confirmed)) k"
    by (cases "List.find (isParticipant e k) (w_eventParticipants w)")
      (auto simp: claimArrival_def attendance_def)
qed

lemma scanRead_ok:
  assumes "scanRead lt e tok t w = Inr s"
  obtains p where "p \<in> set (w_eventParticipants w)" "eventParticipant_eventId p = e"
    "eventParticipant_qrToken p = Some (trim tok)" "eventParticipant_arrivedAt p = None"
    "sc_participantId s = eventParticipant_id p" "sc_contactId s = eventParticipant_contactId p"
proof -
  let ?P = "\<lambda>p. eventParticipant_eventId p = e \<and> eventParticipant_tenantId p = t \<and>
      eventParticipant_qrToken p = Some (trim tok)"
  from assms obtain p where p: "List.find ?P (w_eventParticipants w) = Some p"
    by (auto simp: scanRead_def split: if_splits option.splits)
  from assms p have "eventParticipant_arrivedAt p = None" "sc_participantId s = eventParticipant_id p"
      "sc_contactId s = eventParticipant_contactId p"
    by (auto simp: scanRead_def split: if_splits option.splits)
  with find_SomeD [OF p] show thesis by (intro that) auto
qed

text \<open>
  C27: The service implements attendance. On a table that keeps its unique keys, invite adds exactly the
  contacts of the tenant that were not yet there, as invited, and leaves every status given before;
  respond records the answer of a participant and no other change; a check-in confirms exactly the
  participant the token belongs to.
\<close>

theorem attendance_refined:
  assumes "uniqueParticipants w" and "ownParticipants t e w"
  shows "(fst (invite E now e t ids w) = Inr res \<longrightarrow>
      attendance e (snd (invite E now e t ids w)) =
        addInvitees (filter (\<lambda>i. tenantContact t i w \<noteq> None) ids) (attendance e w)) \<and>
    (fst (respond now e t c r w) = Inr trigger \<longrightarrow>
      attendance e (snd (respond now e t c r w)) =
        recordAnswer c (fst (snd (responseStatuses (toUpperCase (trim r))))) (attendance e w)) \<and>
    (fst (processArrival E lt now e tok t u w) = Inr arr \<longrightarrow>
      (\<exists>p \<in> set (w_eventParticipants w). eventParticipant_qrToken p = Some (trim tok) \<and>
        attendance e (snd (processArrival E lt now e tok t u w)) =
          (attendance e w)(eventParticipant_contactId p \<mapsto> P_confirmed)))"
proof (intro conjI impI)
  assume ok: "fst (invite E now e t ids w) = Inr res"
  then obtain ev where ev: "eventOf t e w = Some ev" by (auto simp: invite_def split: option.splits)
  then have "event_id ev = e" by (auto simp: eventOf_def dest: find_SomeD)
  obtain x v where run: "inviteAll E now t ev ids \<lparr>ir_invited = 0, ir_skipped = 0\<rparr> w = (Inr x, v)"
    using ok ev by (auto simp: invite_def transactionA_def split: prod.splits sum.splits)
  from inviteAll_attendance [OF run] show "attendance e (snd (invite E now e t ids w)) =
      addInvitees (filter (\<lambda>i. tenantContact t i w \<noteq> None) ids) (attendance e w)"
    using run ev by (simp add: invite_def transactionA_def \<open>event_id ev = e\<close>)
next
  assume "fst (respond now e t c r w) = Inr trigger"
  then show "attendance e (snd (respond now e t c r w)) =
      recordAnswer c (fst (snd (responseStatuses (toUpperCase (trim r))))) (attendance e w)"
    by (rule respond_attendance [OF assms(2)])
next
  assume ok: "fst (processArrival E lt now e tok t u w) = Inr arr"
  then obtain s where s: "scanRead lt e tok t w = Inr s" by (auto simp: processArrival_def split: sum.splits)
  from s obtain p where p: "p \<in> set (w_eventParticipants w)" "eventParticipant_eventId p = e"
    "eventParticipant_qrToken p = Some (trim tok)" "eventParticipant_arrivedAt p = None"
    "sc_participantId s = eventParticipant_id p" by (rule scanRead_ok)
  from ok s have "snd (processArrival E lt now e tok t u w) =
      sendWelcome E now e t s (claimArrival now u (eventParticipant_id p) w)"
    by (auto simp: processArrival_def scanClaim_def p(5) split: if_splits)
  then have "attendance e (snd (processArrival E lt now e tok t u w)) =
      attendance e (claimArrival now u (eventParticipant_id p) w)"
    by (metis attendance_cong sendWelcome_participants)
  also have "\<dots> = (attendance e w)(eventParticipant_contactId p \<mapsto> P_confirmed)"
    by (rule claim_attendance [OF assms(1) p(1)]) (simp_all add: isParticipant_def p)
  finally have "attendance e (snd (processArrival E lt now e tok t u w)) =
      (attendance e w)(eventParticipant_contactId p \<mapsto> P_confirmed)" .
  with p(1,3) show "\<exists>p \<in> set (w_eventParticipants w). eventParticipant_qrToken p = Some (trim tok) \<and>
        attendance e (snd (processArrival E lt now e tok t u w)) =
          (attendance e w)(eventParticipant_contactId p \<mapsto> P_confirmed)"
    by (intro bexI [of _ p] conjI)
qed

section \<open>QR codes\<close>

text \<open>What generating a code leaves: the participant holds the token, and nobody else does.\<close>

lemma generateQrCode_ok:
  assumes u: "uniqueParticipants w" and run: "generateQrCode E url now e c t w = (Inr q, w1)"
  obtains p k where "p \<in> set (w_eventParticipants w1)" "isParticipant e c p" "eventParticipant_tenantId p = t"
    "eventParticipant_qrToken p = Some (qr_token q)" "findContact c w1 = Some k" "qr_contactName q = contact_name k"
    "uniqueParticipants w1" "w_events w1 = w_events w"
    "\<exists>p0 \<in> set (w_eventParticipants w). isParticipant e c p0 \<and>
       eventParticipant_arrivedAt p = eventParticipant_arrivedAt p0"
proof -
  let ?P = "\<lambda>p. isParticipant e c p \<and> eventParticipant_tenantId p = t"
  from run obtain p0 where f: "List.find ?P (w_eventParticipants w) = Some p0"
    by (auto simp: generateQrCode_def split: option.splits)
  note p0 = find_SomeD [OF f]
  then have c: "eventParticipant_contactId p0 = c" by (simp add: isParticipant_def)
  show thesis
  proof (cases "truthy (eventParticipant_qrToken p0)")
    case True
    with run f obtain k where "findContact c w = Some k" "qr_contactName q = contact_name k" "w1 = w"
      "Some (qr_token q) = eventParticipant_qrToken p0"
      by (auto simp: generateQrCode_def Let_def c truthy_def split: option.splits)
    then show thesis using that [of p0 k] p0 u by auto
  next
    case False
    let ?tok = "generateQrToken E now e c"
    let ?g = "\<lambda>x :: eventParticipant. x\<lparr>eventParticipant_qrToken := Some ?tok\<rparr>"
    let ?ps = "update_where (\<lambda>p. eventParticipant_id p = eventParticipant_id p0) ?g (w_eventParticipants w)"
    from run f False obtain k where k: "findContact c w = Some k" "qr_contactName q = contact_name k"
      and tok: "\<not> tokenTaken ?tok w" "qr_token q = ?tok"
      and w1: "w1 = w\<lparr>w_eventParticipants := ?ps\<rparr>"
      by (auto simp: generateQrCode_def Let_def c setParticipant_def split: option.splits if_splits)
    have free: "eventParticipant_qrToken x \<noteq> Some ?tok" if "x \<in> set (w_eventParticipants w)" for x
      using tok(1) that by (auto simp: tokenTaken_def list_ex_iff)
    have rows: "x = ?g p0 \<or> (x \<in> set (w_eventParticipants w) \<and> x \<noteq> p0)" if "x \<in> set ?ps" for x
    proof -
      from that obtain y where y: "y \<in> set (w_eventParticipants w)"
        "x = (if eventParticipant_id y = eventParticipant_id p0 then ?g y else y)"
        by (auto simp: set_update_where)
      then show ?thesis using uniqueParticipantsD(1) [OF u y(1), of p0] p0 by (auto split: if_splits)
    qed
    have "uniqueParticipants w1"
      unfolding uniqueParticipants_def
    proof (intro ballI impI)
      fix x y assume xy: "x \<in> set (w_eventParticipants w1)" "y \<in> set (w_eventParticipants w1)"
        and same: "eventParticipant_id x = eventParticipant_id y \<or>
          eventParticipant_eventId x = eventParticipant_eventId y \<and>
            eventParticipant_contactId x = eventParticipant_contactId y \<or>
          eventParticipant_qrToken x = eventParticipant_qrToken y \<and> eventParticipant_qrToken x \<noteq> None"
      have old: "\<lbrakk>a \<in> set (w_eventParticipants w); b \<in> set (w_eventParticipants w)\<rbrakk> \<Longrightarrow>
          eventParticipant_id a = eventParticipant_id b \<or>
          eventParticipant_eventId a = eventParticipant_eventId b \<and>
            eventParticipant_contactId a = eventParticipant_contactId b \<or>
          eventParticipant_qrToken a = eventParticipant_qrToken b \<and> eventParticipant_qrToken a \<noteq> None \<Longrightarrow> a = b" for a b
        using u unfolding uniqueParticipants_def by blast
      from rows [of x] rows [of y] xy w1 consider "x = ?g p0" "y = ?g p0"
        | "x = ?g p0" "y \<in> set (w_eventParticipants w)" "y \<noteq> p0"
        | "y = ?g p0" "x \<in> set (w_eventParticipants w)" "x \<noteq> p0"
        | "x \<in> set (w_eventParticipants w)" "y \<in> set (w_eventParticipants w)" by fastforce
      then show "x = y"
      proof cases
        case 2
        with same old [of p0 y] p0 free [of y] show ?thesis by auto
      next
        case 3
        with same old [of x p0] p0 free [of x] show ?thesis by auto
      next
        case 4
        with same old [of x y] show ?thesis by simp
      qed simp
    qed
    moreover have "?g p0 \<in> set (w_eventParticipants w1)" using p0 by (auto simp: w1 set_update_where)
    moreover have "isParticipant e c (?g p0)" "eventParticipant_tenantId (?g p0) = t" "isParticipant e c p0"
      using p0 by (simp_all add: isParticipant_def)
    ultimately show thesis using that [of "?g p0" k] k tok p0 w1 by (auto simp: findContact_def)
  qed
qed

text \<open>
  A participant's code checks in that participant. On a table with its unique keys, the token given out
  for a participant who has not arrived, presented at the event, is accepted for the contact of that
  name, and the participant is confirmed; the code may be old or minted by the request.
\<close>

theorem qr_code_round_trip:
  assumes "uniqueParticipants w"
    and "generateQrCode E url now e c t w = (Inr q, w1)"
    and "trim (qr_token q) = qr_token q" and "qr_token q \<noteq> []"
    and "\<forall>p \<in> set (w_eventParticipants w). isParticipant e c p \<longrightarrow> eventParticipant_arrivedAt p = None"
  shows "\<exists>a w2. processArrival E lt now' e (qr_token q) t u w1 = (Inr a, w2) \<and>
    ar_contactName a = qr_contactName q \<and> attendance e w2 = (attendance e w1)(c \<mapsto> P_confirmed)"
proof -
  obtain p k where p: "p \<in> set (w_eventParticipants w1)" "isParticipant e c p" "eventParticipant_tenantId p = t"
    "eventParticipant_qrToken p = Some (qr_token q)" and k: "findContact c w1 = Some k" "qr_contactName q = contact_name k"
    and u1: "uniqueParticipants w1" and "w_events w1 = w_events w"
    and new: "\<exists>p0 \<in> set (w_eventParticipants w). isParticipant e c p0 \<and>
       eventParticipant_arrivedAt p = eventParticipant_arrivedAt p0"
    by (rule generateQrCode_ok [OF assms(1,2)])
  from new assms(5) have notYet: "eventParticipant_arrivedAt p = None" by auto
  from p(2) have ids: "eventParticipant_eventId p = e" "eventParticipant_contactId p = c"
    by (simp_all add: isParticipant_def)
  have "List.find (\<lambda>p. eventParticipant_eventId p = e \<and> eventParticipant_tenantId p = t \<and>
      eventParticipant_qrToken p = Some (qr_token q)) (w_eventParticipants w1) = Some p"
  proof (rule find_unique [OF p(1)])
    show "eventParticipant_eventId p = e \<and> eventParticipant_tenantId p = t \<and>
        eventParticipant_qrToken p = Some (qr_token q)" using p(3,4) ids(1) by simp
    fix r assume r: "r \<in> set (w_eventParticipants w1)" "eventParticipant_eventId r = e \<and>
        eventParticipant_tenantId r = t \<and> eventParticipant_qrToken r = Some (qr_token q)"
    from r(2) show "r = p" by (intro uniqueParticipantsD(3) [OF u1 r(1) p(1) _ p(4)]) simp
  qed
  then have read: "scanRead lt e (qr_token q) t w1 = Inr \<lparr>sc_participantId = eventParticipant_id p,
      sc_contactId = c, sc_contact = k, sc_eventTitle = coalesce (map_option event_title
        (List.find (\<lambda>x. event_id x = e) (w_events w1))) ''undefined''\<rparr>" (is "_ = Inr ?s")
    using assms(3,4) k notYet ids by (simp add: scanRead_def)
  have open_: "list_ex (claimable (eventParticipant_id p)) (w_eventParticipants w1)"
    using p(1) notYet by (auto simp: list_ex_iff claimable_def)
  let ?w2 = "sendWelcome E now' e t ?s (claimArrival now' u (eventParticipant_id p) w1)"
  have "processArrival E lt now' e (qr_token q) t u w1 =
      (Inr \<lparr>ar_contactName = contact_name k, ar_arrivedAt = now'\<rparr>, ?w2)"
    using open_ by (simp add: processArrival_def read scanClaim_def)
  moreover have "attendance e ?w2 = attendance e (claimArrival now' u (eventParticipant_id p) w1)"
    by (rule attendance_cong) simp
  ultimately show ?thesis
    using claim_attendance [OF u1 p(1,2) notYet] k(2) by simp
qed

section \<open>Updates and broadcasts\<close>

text \<open>An update that does not complete the event leaves its reminders and their jobs at the old time.\<close>

lemma update_keeps_reminders:
  assumes "ue_status d \<noteq> Some ''COMPLETED''"
  shows "w_reminders (snd (updateEvent now t i d w)) = w_reminders w"
    and "w_jobs (snd (updateEvent now t i d w)) = w_jobs w"
proof -
  have st: "s = ''COMPLETED''" if "eventStatusNamed s = Some E_COMPLETED" for s
    using that by (auto simp: eventStatusNamed_def split: if_splits)
  then show "w_reminders (snd (updateEvent now t i d w)) = w_reminders w"
    and "w_jobs (snd (updateEvent now t i d w)) = w_jobs w"
    using assms by (auto simp: updateEvent_def Let_def applyEventDto_def coalesce_def bind_eq_Some_conv
        split: option.split)
qed

text \<open>An update that names no location erases it.\<close>

lemma update_erases_location:
  "ue_location d = None \<Longrightarrow> fst (updateEvent now t i d w) = Inr e \<Longrightarrow> event_location e = None"
  by (auto simp: updateEvent_def Let_def applyEventDto_def split: option.splits if_splits)

text \<open>On WhatsApp a broadcast prefers the e-mail address.\<close>

lemma whatsapp_broadcast_to_email:
  "contact_email c = Some m \<Longrightarrow> m \<noteq> [] \<Longrightarrow> broadcastRecipient ''WHATSAPP'' c = Some m"
  by (simp add: broadcastRecipient_def or_str_def)

section \<open>Concrete worlds\<close>

definition badge :: eventParticipant where
  "badge = (invited ''p1'' ''e1'' P_invited)\<lparr>eventParticipant_qrToken := Some ''tok''\<rparr>"

definition theTime :: "instant \<Rightarrow> string" where
  "theTime = (\<lambda>_. ''then'')"

lemma party_unique: "uniqueParticipants (party [p])"
  by (simp add: uniqueParticipants_def party_def)

theorem arrival_recorded_once_witness:
  "\<exists>w P. scan_step\<^sup>*\<^sup>* (party [badge], \<lambda>_. None, []) (w, P, [''p1'']) \<and> hasArrived ''p1'' w \<and>
     \<not> hasArrived ''p1'' (party [badge])"
proof -
  let ?w = "party [badge]"
  have "is_ok (scanRead theTime ''e1'' ''tok'' ''t1'' ?w)" by code_simp
  then obtain s where s: "scanRead theTime ''e1'' ''tok'' ''t1'' ?w = Inr s"
    by (cases "scanRead theTime ''e1'' ''tok'' ''t1'' ?w") auto
  have "map_sum id sc_participantId (scanRead theTime ''e1'' ''tok'' ''t1'' ?w) = Inr ''p1''" by code_simp
  then have p: "sc_participantId s = ''p1''" using s by simp
  have "list_ex (claimable ''p1'') (w_eventParticipants ?w)" by code_simp
  then obtain a w1 where c: "scanClaim demoEnv 100 ''e1'' ''t1'' ''u1'' s ?w = (Inr a, w1)"
    by (simp add: scanClaim_def p)
  define P where "P = (\<lambda>_ :: nat. None :: Scan option)(1 := Some s, 2 := Some s)"
  have gone: "\<not> list_ex (claimable ''p1'') (w_eventParticipants w1)"
    using scanClaim_ok(2) [OF c, of "''p1''"] by (simp add: claimable_iff p)
  have "scan_step (?w, \<lambda>_. None, []) (?w, (\<lambda>_. None)(1 := Some s), [])" by (rule read [OF s])
  moreover have "scan_step (?w, (\<lambda>_. None)(1 := Some s), []) (?w, P, [])"
    unfolding P_def by (rule read [OF s])
  moreover have "scan_step (?w, P, []) (w1, P(1 := None), [''p1''])"
    using claimed [OF _ c, of P 1 "[]"] by (simp add: P_def p)
  moreover have "scan_step (w1, P(1 := None), [''p1'']) (w1, (P(1 := None))(2 := None), [''p1''])"
    by (rule refused [where s = s and E = demoEnv and now = 100 and ev = "''e1''" and t = "''t1''" and u = "''u2''"
          and e = "BadRequestException (contact_name (sc_contact s) @ '' already checked in'')"])
      (simp_all add: P_def scanClaim_def p gone)
  ultimately have "scan_step\<^sup>*\<^sup>* (?w, \<lambda>_. None, []) (w1, (P(1 := None))(2 := None), [''p1''])"
    by (meson rtranclp.rtrancl_into_rtrancl rtranclp.rtrancl_refl)
  with arrival_recorded_once [OF this] show ?thesis by auto
qed

theorem attendance_refined_witness:
  "attendance ''e1'' (snd (processArrival demoEnv theTime 100 ''e1'' '' tok '' ''t1'' ''u1'' (party [badge]))) ''k1'' =
     Some P_confirmed"
proof -
  let ?w = "party [badge]"
  have own: "ownParticipants ''t1'' ''e1'' ?w" by (simp add: ownParticipants_def party_def badge_def invited_def)
  have "is_ok (fst (processArrival demoEnv theTime 100 ''e1'' '' tok '' ''t1'' ''u1'' ?w))" by code_simp
  then obtain arr where ok: "fst (processArrival demoEnv theTime 100 ''e1'' '' tok '' ''t1'' ''u1'' ?w) = Inr arr"
    by (cases "fst (processArrival demoEnv theTime 100 ''e1'' '' tok '' ''t1'' ''u1'' ?w)") auto
  have "eventParticipant_contactId p = ''k1''" if "p \<in> set (w_eventParticipants ?w)" for p
    using that by (simp add: party_def badge_def invited_def)
  with attendance_refined [where E = demoEnv and now = 100 and lt = theTime and tok = "'' tok ''"
      and u = "''u1''" and arr = arr, OF party_unique own] ok
  show ?thesis by auto
qed

theorem qr_code_round_trip_witness:
  "let (q, w1) = generateQrCode demoEnv id 5 ''e1'' ''k1'' ''t1'' (party [invited ''p1'' ''e1'' P_pending]);
       tok = (case q of Inr c \<Rightarrow> qr_token c)
   in is_ok (fst (processArrival demoEnv theTime 100 ''e1'' tok ''t1'' ''u1'' w1))"
proof -
  let ?w = "party [invited ''p1'' ''e1'' P_pending]"
  let ?r = "generateQrCode demoEnv id 5 ''e1'' ''k1'' ''t1'' ?w"
  have "is_ok (fst ?r)" by code_simp
  then obtain q w1 where r: "?r = (Inr q, w1)" by (cases ?r; cases "fst ?r") auto
  have "(case fst ?r of Inr c \<Rightarrow> trim (qr_token c) = qr_token c \<and> qr_token c \<noteq> [] | Inl _ \<Rightarrow> False)" by code_simp
  then have t: "trim (qr_token q) = qr_token q" "qr_token q \<noteq> []" by (simp_all add: r)
  have "\<forall>p \<in> set (w_eventParticipants ?w). isParticipant ''e1'' ''k1'' p \<longrightarrow> eventParticipant_arrivedAt p = None"
    by (simp add: party_def invited_def)
  from qr_code_round_trip [where lt = theTime and now' = 100 and u = "''u1''", OF party_unique r t this]
  show ?thesis by (auto simp: r)
qed

text \<open>Two businesses; the second has a group with one contact, who has unsubscribed.\<close>

definition stranger :: contact where
  "stranger = demoContact\<lparr>contact_id := ''k9'', contact_tenantId := ''t2'', contact_phone := Some ''+15550009999'',
     contact_unsubscribed := True\<rparr>"

definition twoBusinesses :: world where
  "twoBusinesses = (demoWorld [demoTenant PLAN_SMS ACTIVE False 0,
       (demoTenant PLAN_SMS ACTIVE False 0)\<lparr>tenant_id := ''t2''\<rparr>])\<lparr>w_contacts := [stranger],
     w_contactGroupMembers := [\<lparr>contactGroupMember_groupId = ''g2'', contactGroupMember_contactId = ''k9''\<rparr>],
     w_events := [demoEvent ''e1'' 900]\<rparr>"

text \<open>
  A group invitation reaches another business's contacts. The members of a group are read without
  asking whose group it is: by naming a group of the second tenant, the first one makes its contact a
  participant of its own event and sends it an SMS, although the contact has unsubscribed.
\<close>

theorem group_invite_reaches_other_tenant:
  "let w' = snd (inviteByAudience demoEnv theTime 5 ''t1'' ''e1'' \<lparr>au_type = ''group'', au_ids = [''g2'']\<rparr> twoBusinesses)
   in map contact_tenantId (w_contacts w') = [''t2''] \<and> map contact_unsubscribed (w_contacts w') = [True] \<and>
      map (\<lambda>p. (eventParticipant_contactId p, eventParticipant_tenantId p)) (w_eventParticipants w') = [(''k9'', ''t1'')] \<and>
      map out_to (w_outbox w') = [''+15550009999'']"
  by code_simp

end
