(* ===== verification/Workflow_Actions.thy ===== *)
theory Workflow_Actions
  imports Reminder_Worker Event_Lifecycle
begin

text \<open>
  \<open>modules/automation/workflow-processor.service.ts\<close>: the worker that takes the jobs a trigger has
  queued, checks the conditions of the action and carries it out for every recipient. The entity data
  of a trigger is untyped JSON, read here property by property as the code reads it.
\<close>

section \<open>Entity data\<close>

abbreviation field :: "json \<Rightarrow> string \<Rightarrow> json option" where
  "field d k \<equiv> jget (Some d) k"

text \<open>A date has gone through the queue as JSON, so its text is the ISO form.\<close>

definition wireText :: "json \<Rightarrow> string" where
  "wireText v = (case v of JDate t \<Rightarrow> toISOString t | _ \<Rightarrow> jText v)"

text \<open>\<open>v ?? d\<close> and \<open>String(v ?? d)\<close>\<close>

definition present :: "json option \<Rightarrow> json option" where
  "present v = (if v = Some JNull then None else v)"

definition textOr :: "string \<Rightarrow> json option \<Rightarrow> string" where
  "textOr d v = (case present v of None \<Rightarrow> d | Some x \<Rightarrow> wireText x)"

definition resolveVars :: "string \<Rightarrow> (string \<times> string) list \<Rightarrow> string" where
  "resolveVars tmpl vars = replace_placeholders (lookupVar vars) tmpl"

section \<open>Recipients of an action\<close>

record ActionRecipient =
  rc_phone :: "json option"
  rc_email :: "json option"
  rc_name :: "json option"

definition orNull :: "string option \<Rightarrow> json option" where
  "orNull s = Some (case s of None \<Rightarrow> JNull | Some x \<Rightarrow> JStr x)"

definition contactRecipient :: "contact \<Rightarrow> ActionRecipient" where
  "contactRecipient c = \<lparr>rc_phone = orNull (contact_phone c), rc_email = orNull (contact_email c),
     rc_name = Some (JStr (contact_name c))\<rparr>"

definition participantRecipients :: "uuid \<Rightarrow> world \<Rightarrow> ActionRecipient list" where
  "participantRecipients eventId w =
     concat (map (\<lambda>p. case List.find (\<lambda>c. contact_id c = eventParticipant_contactId p) (w_contacts w) of
           None \<Rightarrow> []
         | Some c \<Rightarrow> if eventParticipant_status p \<noteq> P_cancelled \<and> \<not> contact_unsubscribed c
                   then [contactRecipient c] else [])
       (filter (\<lambda>p. eventParticipant_eventId p = eventId) (w_eventParticipants w)))"

definition recipientsOf :: "json \<Rightarrow> world \<Rightarrow> ActionRecipient list" where
  "recipientsOf d w =
     (if jtruthy (field d ''contactId'') \<or> jtruthy (field d ''customerId'')
      then let cid = jString (jor (field d ''contactId'') (field d ''customerId''))
           in (case List.find (\<lambda>c. contact_id c = cid) (w_contacts w) of
                 None \<Rightarrow> []
               | Some c \<Rightarrow> if contact_unsubscribed c then [] else [contactRecipient c])
      else if jtruthy (field d ''customerPhone'') \<or> jtruthy (field d ''customerEmail'')
      then [\<lparr>rc_phone = field d ''customerPhone'', rc_email = field d ''customerEmail'',
             rc_name = field d ''customerName''\<rparr>]
      else if jtruthy (field d ''eventId'')
      then (let i = jString (field d ''eventId'')
            in if i \<in> event_id ` set (w_events w) then participantRecipients i w else [])
      else [])"

section \<open>Actions\<close>

definition actionVars :: "uuid \<Rightarrow> json \<Rightarrow> ActionRecipient \<Rightarrow> (string \<times> string) list" where
  "actionVars tenantId d r =
     [(''customer_name'', textOr [] (rc_name r)), (''customer_phone'', textOr [] (rc_phone r)),
      (''customer_email'', textOr [] (rc_email r)),
      (''appointment_title'', textOr [] (jor (field d ''appointmentTitle'') (field d ''eventTitle''))),
      (''appointment_status'', textOr [] (field d ''appointmentStatus'')),
      (''scheduled_at'', textOr [] (field d ''scheduledAt'')), (''tenant_id'', tenantId)]"

text \<open>What a send reports is not looked at; only its exceptions stop the action.\<close>

definition sendTo :: "env \<Rightarrow> instant \<Rightarrow> SendRequest \<Rightarrow> unit act" where
  "sendTo E now q = bindA (send E now q) (\<lambda>_. returnA ())"

lemma sendTo_world [simp]: "snd (sendTo E now q w) = snd (send E now q w)"
  by (simp add: sendTo_def bindA_def split: prod.split sum.split)

definition callData :: "json \<Rightarrow> ActionRecipient \<Rightarrow> AppointmentData option" where
  "callData d r =
     (if jtruthy (field d ''appointmentTitle'') \<or> jtruthy (field d ''appointmentId'')
      then Some \<lparr>ad_title = textOr ''your appointment'' (field d ''appointmentTitle''),
                 ad_customerName = textOr [] (rc_name r), ad_time = textOr [] (field d ''scheduledAt'')\<rparr>
      else None)"

definition addTag :: "uuid \<Rightarrow> string \<Rightarrow> string \<Rightarrow> unit act" where
  "addTag tenantId phone tag w =
     (case List.find (\<lambda>c. contact_tenantId c = tenantId \<and> contact_phone c = Some phone) (w_contacts w) of
        None \<Rightarrow> (Inr (), w)
      | Some c \<Rightarrow> whenA (tag \<notin> set (contact_tags c))
          (updateContact (contact_id c) (\<lambda>k. k\<lparr>contact_tags := contact_tags k @ [tag]\<rparr>)) w)"

fun channelNamed :: "string \<Rightarrow> ChannelType option" where
  "channelNamed s =
     (if s = ''SMS'' then Some SMS else if s = ''VOICE'' then Some VOICE
      else if s = ''EMAIL'' then Some EMAIL else if s = ''WHATSAPP'' then Some WHATSAPP else None)"

text \<open>For a channel outside the enum \<open>send\<close> reports a failure and does nothing.\<close>

definition actFor :: "env \<Rightarrow> instant \<Rightarrow> workflowAction \<Rightarrow> uuid \<Rightarrow> json \<Rightarrow> ActionRecipient \<Rightarrow> unit act" where
  "actFor E now action tenantId d r =
     (let config = workflowAction_config action; kind = workflowAction_type action;
          vars = actionVars tenantId d r;
          phone = textOr [] (rc_phone r); email = textOr [] (rc_email r);
          message = (if jtruthy (field config ''message'')
                     then resolveVars (jString (field config ''message'')) vars else [])
      in if kind = ''send_sms''
         then whenA (phone \<noteq> []) (sendTo E now (request tenantId SMS phone message))
         else if kind = ''send_whatsapp''
         then whenA (phone \<noteq> []) (sendTo E now (request tenantId WHATSAPP phone message))
         else if kind = ''send_voice''
         then whenA (phone \<noteq> [])
                (sendTo E now ((request tenantId VOICE phone message)\<lparr>sq_appointmentData := callData d r\<rparr>))
         else if kind = ''send_email''
         then whenA (email \<noteq> [])
                (sendTo E now (request tenantId EMAIL email
                   ((if jtruthy (field config ''subject'')
                     then resolveVars (jString (field config ''subject'')) vars
                     else ''Message from Meetora'') @ [CHR 0x0A, CHR 0x0A] @ message)))
         else if kind = ''request_review''
         then whenA (phone \<noteq> [])
                (sendTo E now (request tenantId SMS phone
                   (if message \<noteq> [] then message
                    else ''Hi '' @ textOr [] (rc_name r) @ '', thank you for your visit! We'' @ [CHR 0x27] @
                         ''d love your '' @ textOr ''google'' (field config ''platform'') @ '' review.'')))
         else if kind = ''add_tag''
         then (let tag = trim (textOr [] (field config ''tag''))
               in whenA (tag \<noteq> [] \<and> phone \<noteq> []) (addTag tenantId phone tag))
         else if kind = ''generate_ai_message''
         then (let channel = toUpperCase (textOr ''SMS'' (field config ''channel''));
                   prompt = (if jtruthy (field config ''prompt'')
                             then resolveVars (jString (field config ''prompt'')) vars else message);
                   to = (if channel = ''EMAIL'' then email else phone)
               in case channelNamed channel of
                    None \<Rightarrow> returnA ()
                  | Some ch \<Rightarrow> whenA (to \<noteq> []) (sendTo E now (request tenantId ch to prompt)))
         else returnA ())"

definition executeAction :: "env \<Rightarrow> instant \<Rightarrow> workflowAction \<Rightarrow> uuid \<Rightarrow> json \<Rightarrow> unit act" where
  "executeAction E now action tenantId d w =
     forEachA (actFor E now action tenantId d) (recipientsOf d w) w"

section \<open>Conditions\<close>

fun eventStatusName :: "EventStatus \<Rightarrow> string" where
  "eventStatusName E_DRAFT = ''DRAFT''"
| "eventStatusName E_PUBLISHED = ''PUBLISHED''"
| "eventStatusName E_ACTIVE = ''ACTIVE''"
| "eventStatusName E_COMPLETED = ''COMPLETED''"
| "eventStatusName E_CANCELLED = ''CANCELLED''"

definition compareStatus :: "string \<Rightarrow> string \<Rightarrow> string \<Rightarrow> bool" where
  "compareStatus operator value status = (if operator = ''not_equals'' then status \<noteq> value else status = value)"

text \<open>\<open>"HH:mm".split(':').map(Number)\<close> in minutes; \<open>None\<close> is \<open>NaN\<close>, and missing minutes are 0.\<close>

definition clockMinutes :: "string \<Rightarrow> rat option" where
  "clockMinutes s =
     (let parts = split_on (\<lambda>c. c = CHR '':'') s;
          h = js_number (hd parts);
          m = (case tl parts of [] \<Rightarrow> None | x # _ \<Rightarrow> js_number x)
      in map_option (\<lambda>x. x * 60 + coalesce m 0) h)"

definition localMinutes :: "env \<Rightarrow> instant \<Rightarrow> int" where
  "localMinutes E now = (now + e_tz E) div 60000 mod 1440"

definition before :: "rat option \<Rightarrow> rat option \<Rightarrow> bool" where
  "before a b = (case (a, b) of (Some x, Some y) \<Rightarrow> x < y | _ \<Rightarrow> False)"

definition upTo :: "rat option \<Rightarrow> rat option \<Rightarrow> bool" where
  "upTo a b = (case (a, b) of (Some x, Some y) \<Rightarrow> x \<le> y | _ \<Rightarrow> False)"

definition timeOfDay :: "env \<Rightarrow> instant \<Rightarrow> string \<Rightarrow> string \<Rightarrow> bool" where
  "timeOfDay E now operator value =
     (case split_on (\<lambda>c. c = CHR ''-'') value of
        opening # closing # _ \<Rightarrow>
          if opening = [] \<or> closing = [] then True
          else let t = Some (of_int (localMinutes E now)); s = clockMinutes opening; e = clockMinutes closing
               in if operator = ''outside'' then before t s \<or> before e t else upTo s t \<and> upTo t e
      | _ \<Rightarrow> True)"

definition latestResponse :: "uuid \<Rightarrow> uuid \<Rightarrow> world \<Rightarrow> eventResponse option" where
  "latestResponse eventId contactId w = first_of (order_desc eventResponse_timestamp
     (filter (\<lambda>r. eventResponse_eventId r = eventId \<and> eventResponse_contactId r = contactId)
        (w_eventResponses w)))"

fun participantStatusName :: "EventParticipantStatus \<Rightarrow> string" where
  "participantStatusName P_invited = ''invited''"
| "participantStatusName P_confirmed = ''confirmed''"
| "participantStatusName P_cancelled = ''cancelled''"
| "participantStatusName P_pending = ''pending''"

definition taggedContact :: "json \<Rightarrow> world \<Rightarrow> contact option" where
  "taggedContact d w =
     (let phone = textOr [] (field d ''customerPhone''); email = textOr [] (field d ''customerEmail'')
      in List.find (\<lambda>c. contact_tenantId c = jString (field d ''tenantId'') \<and>
            ((phone \<noteq> [] \<and> contact_phone c = Some phone) \<or> (email \<noteq> [] \<and> contact_email c = Some email)))
           (w_contacts w))"

definition evaluateCondition ::
  "env \<Rightarrow> instant \<Rightarrow> workflowCondition \<Rightarrow> string \<Rightarrow> json \<Rightarrow> world \<Rightarrow> bool" where
  "evaluateCondition E now cond entityId d w =
     (let kind = workflowCondition_conditionType cond; operator = workflowCondition_operator cond;
          value = workflowCondition_value cond; eventId = textOr entityId (field d ''eventId'');
          contactId = textOr [] (field d ''contactId'')
      in if kind = ''appointment_status_is''
         then (case List.find (\<lambda>a. appointment_id a = textOr entityId (field d ''appointmentId''))
                      (w_appointments w) of
                 None \<Rightarrow> False
               | Some a \<Rightarrow> compareStatus operator value (appointmentStatusName (appointment_status a)))
         else if kind = ''event_status_is''
         then (case List.find (\<lambda>e. event_id e = eventId) (w_events w) of
                 None \<Rightarrow> False
               | Some e \<Rightarrow> compareStatus operator value (eventStatusName (event_status e)))
         else if kind = ''participant_status_is''
         then (if contactId = [] \<or> eventId = [] then False
               else case List.find (\<lambda>p. eventParticipant_eventId p = eventId \<and>
                           eventParticipant_contactId p = contactId) (w_eventParticipants w) of
                 None \<Rightarrow> False
               | Some p \<Rightarrow> compareStatus operator value (participantStatusName (eventParticipant_status p)))
         else if kind = ''rsvp_status_is''
         then (if contactId = [] \<or> eventId = [] then False
               else case latestResponse eventId contactId w of
                 None \<Rightarrow> value = ''pending'' \<and> operator \<noteq> ''not_equals''
               | Some r \<Rightarrow> compareStatus operator value (participantStatusName (eventResponse_responseStatus r)))
         else if kind = ''customer_tag_has''
         then (case taggedContact d w of
                 None \<Rightarrow> False
               | Some c \<Rightarrow> (if operator = ''not_has'' then value \<notin> set (contact_tags c)
                          else value \<in> set (contact_tags c)))
         else if kind = ''customer_unsubscribed''
         then (let customerId = textOr [] (field d ''customerId'')
               in if customerId = [] then False
                  else case List.find (\<lambda>c. customer_id c = customerId) (w_customers w) of
                      None \<Rightarrow> False
                    | Some c \<Rightarrow> customer_unsubscribed c = (value = ''true''))
         else if kind = ''time_of_day_between'' then timeOfDay E now operator value
         else True)"

definition evaluateConditions ::
  "env \<Rightarrow> instant \<Rightarrow> workflowCondition list \<Rightarrow> string \<Rightarrow> json \<Rightarrow> world \<Rightarrow> bool" where
  "evaluateConditions E now conditions entityId d w =
     list_all (\<lambda>cond. evaluateCondition E now cond entityId d w) conditions"

section \<open>One job\<close>

definition putExecutions :: "workflowExecution list \<Rightarrow> world \<Rightarrow> world" where
  "putExecutions rs w = w\<lparr>w_workflowExecutions := rs\<rparr>"

interpretation executions: keyed_table w_workflowExecutions putExecutions workflowExecution_id
  by unfold_locales (simp_all add: putExecutions_def)

definition updateExecution :: "uuid \<Rightarrow> (workflowExecution \<Rightarrow> workflowExecution) \<Rightarrow> unit act" where
  "updateExecution = updateRow w_workflowExecutions putExecutions workflowExecution_id"

definition findAction :: "uuid \<Rightarrow> world \<Rightarrow> workflowAction option" where
  "findAction i w = List.find (\<lambda>a. workflowAction_id a = i) (concat (map workflow_actions (w_workflows w)))"

abbreviation ranOne :: "workflowExecution \<Rightarrow> workflowExecution" where
  "ranOne x \<equiv> x\<lparr>workflowExecution_actionsRun := workflowExecution_actionsRun x + 1\<rparr>"

abbreviation skippedOne :: "workflowExecution \<Rightarrow> workflowExecution" where
  "skippedOne x \<equiv> x\<lparr>workflowExecution_actionsSkipped := workflowExecution_actionsSkipped x + 1\<rparr>"

abbreviation failedAt :: "instant \<Rightarrow> string \<Rightarrow> workflowExecution \<Rightarrow> workflowExecution" where
  "failedAt now e x \<equiv> x\<lparr>workflowExecution_status := ''FAILED'', workflowExecution_error := Some e,
     workflowExecution_completedAt := Some now\<rparr>"

definition markExecutionComplete :: "instant \<Rightarrow> uuid \<Rightarrow> unit act" where
  "markExecutionComplete now i = updateExecution i (\<lambda>x. x\<lparr>workflowExecution_status := ''COMPLETED'',
     workflowExecution_completedAt := Some now\<rparr>)"

record WorkflowJob =
  fj_executionId :: uuid
  fj_actionId :: uuid
  fj_tenantId :: uuid
  fj_triggerEntityId :: string
  fj_entityData :: json
  fj_isLastAction :: bool

definition readWorkflowJob :: "job \<Rightarrow> WorkflowJob" where
  "readWorkflowJob j =
     (let d = job_data j
      in \<lparr>fj_executionId = jString (field d ''executionId''), fj_actionId = jString (field d ''actionId''),
          fj_tenantId = jString (field d ''tenantId''),
          fj_triggerEntityId = jString (field d ''triggerEntityId''),
          fj_entityData = coalesce (field d ''entityData'') JNull,
          fj_isLastAction = jtruthy (field d ''isLastAction'')\<rparr>)"

definition finishIfLast :: "instant \<Rightarrow> WorkflowJob \<Rightarrow> unit act" where
  "finishIfLast now j = whenA (fj_isLastAction j) (markExecutionComplete now (fj_executionId j))"

definition skipAction :: "instant \<Rightarrow> WorkflowJob \<Rightarrow> unit act" where
  "skipAction now j = thenA (updateExecution (fj_executionId j) skippedOne) (finishIfLast now j)"

definition runAction :: "env \<Rightarrow> instant \<Rightarrow> WorkflowJob \<Rightarrow> workflowAction \<Rightarrow> unit act" where
  "runAction E now j action w =
     (case thenA (executeAction E now action (fj_tenantId j) (fj_entityData j))
             (updateExecution (fj_executionId j) ranOne) w of
        (Inr _, v) \<Rightarrow> finishIfLast now j v
      | (Inl e, v) \<Rightarrow> thenA (updateExecution (fj_executionId j) (failedAt now (exnText e))) (throwA e) v)"

definition processJob :: "env \<Rightarrow> instant \<Rightarrow> WorkflowJob \<Rightarrow> unit act" where
  "processJob E now j w =
     (case findAction (fj_actionId j) w of
        None \<Rightarrow> skipAction now j w
      | Some action \<Rightarrow>
          if evaluateConditions E now (workflowAction_conditions action) (fj_triggerEntityId j) (fj_entityData j) w
          then runAction E now j action w else skipAction now j w)"

end
