(* ===== verification/Workflow_Editing.thy ===== *)
theory Workflow_Editing
  imports Workflow_Actions
begin

text \<open>
  \<open>modules/automation/automation.service.ts\<close> and its DTOs: creating, changing, switching and deleting
  workflows. The validated request bodies are records, with the rules of their decorators as predicates;
  \<open>None\<close> is a property the request does not have.
\<close>

section \<open>Request bodies\<close>

definition TRIGGER_TYPES :: "string list" where
  "TRIGGER_TYPES =
     [''appointment_created'', ''appointment_confirmed'', ''appointment_cancelled'', ''appointment_completed'',
      ''event_created'', ''event_published'', ''event_completed'', ''event_cancelled'',
      ''attendance_confirmed'', ''attendance_cancelled'', ''rsvp_received'', ''rsvp_yes'', ''rsvp_no'',
      ''review_received'', ''client_inactive'']"

definition ACTION_TYPES :: "string list" where
  "ACTION_TYPES =
     [''send_sms'', ''send_whatsapp'', ''send_voice'', ''send_email'', ''generate_ai_message'',
      ''request_review'', ''add_tag'']"

definition CONDITION_TYPES :: "string list" where
  "CONDITION_TYPES =
     [''appointment_status_is'', ''event_status_is'', ''participant_status_is'', ''customer_tag_has'',
      ''customer_unsubscribed'', ''time_of_day_between'', ''rsvp_status_is'']"

record WorkflowTriggerDto =
  td_type :: string
  td_config :: "json option"

record WorkflowConditionDto =
  cd_conditionType :: string
  cd_operator :: "string option"
  cd_value :: string

record WorkflowActionDto =
  wa_stepOrder :: int
  wa_type :: string
  wa_config :: "json option"
  wa_delayMinutes :: "int option"
  wa_conditions :: "WorkflowConditionDto list option"

record CreateWorkflowDto =
  cw_name :: string
  cw_description :: "string option"
  cw_isActive :: "bool option"
  cw_trigger :: WorkflowTriggerDto
  cw_actions :: "WorkflowActionDto list"

record UpdateWorkflowDto =
  uw_name :: "string option"
  uw_description :: "string option"
  uw_isActive :: "bool option"
  uw_trigger :: "WorkflowTriggerDto option"
  uw_actions :: "WorkflowActionDto list option"

definition validTrigger :: "WorkflowTriggerDto \<Rightarrow> bool" where
  "validTrigger t = (td_type t \<in> set TRIGGER_TYPES \<and>
     (case td_config t of None \<Rightarrow> True | Some (JObj _) \<Rightarrow> True | _ \<Rightarrow> False))"

definition validCondition :: "WorkflowConditionDto \<Rightarrow> bool" where
  "validCondition c = (cd_conditionType c \<in> set CONDITION_TYPES)"

definition validAction :: "WorkflowActionDto \<Rightarrow> bool" where
  "validAction a = (0 \<le> wa_stepOrder a \<and> wa_type a \<in> set ACTION_TYPES \<and>
     (case wa_config a of None \<Rightarrow> True | Some (JObj _) \<Rightarrow> True | _ \<Rightarrow> False) \<and>
     0 \<le> coalesce (wa_delayMinutes a) 0 \<and> list_all validCondition (coalesce (wa_conditions a) []))"

definition validCreate :: "CreateWorkflowDto \<Rightarrow> bool" where
  "validCreate d = (validTrigger (cw_trigger d) \<and> list_all validAction (cw_actions d))"

definition validUpdate :: "UpdateWorkflowDto \<Rightarrow> bool" where
  "validUpdate d = ((case uw_trigger d of None \<Rightarrow> True | Some t \<Rightarrow> validTrigger t) \<and>
     list_all validAction (coalesce (uw_actions d) []))"

section \<open>Rows\<close>

definition conditionRow :: "WorkflowConditionDto \<Rightarrow> workflowCondition" where
  "conditionRow c = \<lparr>workflowCondition_conditionType = cd_conditionType c,
     workflowCondition_operator = coalesce (cd_operator c) ''equals'', workflowCondition_value = cd_value c\<rparr>"

definition actionRow :: "WorkflowActionDto \<Rightarrow> uuid \<Rightarrow> workflowAction" where
  "actionRow a i = \<lparr>workflowAction_id = i, workflowAction_stepOrder = wa_stepOrder a,
     workflowAction_type = wa_type a, workflowAction_config = coalesce (wa_config a) (JObj []),
     workflowAction_delayMinutes = coalesce (wa_delayMinutes a) 0,
     workflowAction_conditions = map conditionRow (coalesce (wa_conditions a) [])\<rparr>"

text \<open>The loop that creates the actions, each with a fresh id.\<close>

fun createActions :: "WorkflowActionDto list \<Rightarrow> world \<Rightarrow> workflowAction list \<times> world" where
  "createActions [] w = ([], w)"
| "createActions (a # as) w =
     (let (rows, v) = createActions as (bump w) in (actionRow a (newId w) # rows, v))"

definition putWorkflows :: "workflow list \<Rightarrow> world \<Rightarrow> world" where
  "putWorkflows rs w = w\<lparr>w_workflows := rs\<rparr>"

interpretation workflows: keyed_table w_workflows putWorkflows workflow_id
  by unfold_locales (simp_all add: putWorkflows_def)

section \<open>Reading\<close>

record WorkflowView =
  wv_workflow :: workflow
  wv_executions :: "workflowExecution list"

definition sortedWorkflow :: "workflow \<Rightarrow> workflow" where
  "sortedWorkflow f = f\<lparr>workflow_actions := orderedActions f\<rparr>"

definition executionsOfWorkflow :: "uuid \<Rightarrow> world \<Rightarrow> workflowExecution list" where
  "executionsOfWorkflow i w = order_desc workflowExecution_startedAt
     (filter (\<lambda>x. workflowExecution_workflowId x = i) (w_workflowExecutions w))"

definition findOneWorkflow :: "uuid \<Rightarrow> uuid \<Rightarrow> world \<Rightarrow> WorkflowView outcome" where
  "findOneWorkflow tenantId i w =
     (case List.find (\<lambda>f. workflow_id f = i \<and> workflow_tenantId f = tenantId) (w_workflows w) of
        None \<Rightarrow> Inl (NotFoundException ''Workflow not found'')
      | Some f \<Rightarrow> Inr \<lparr>wv_workflow = sortedWorkflow f, wv_executions = take 20 (executionsOfWorkflow i w)\<rparr>)"

definition findAllWorkflows :: "uuid \<Rightarrow> world \<Rightarrow> (workflow \<times> nat) list" where
  "findAllWorkflows tenantId w =
     map (\<lambda>f. (sortedWorkflow f, length (executionsOfWorkflow (workflow_id f) w)))
       (order_desc workflow_createdAt (filter (\<lambda>f. workflow_tenantId f = tenantId) (w_workflows w)))"

text \<open>A negative \<open>take\<close> counts from the end.\<close>

definition takeRows :: "int \<Rightarrow> 'r list \<Rightarrow> 'r list" where
  "takeRows n rs = (if 0 \<le> n then take (nat n) rs else drop (length rs - nat (- n)) rs)"

definition getExecutions :: "uuid \<Rightarrow> uuid \<Rightarrow> int \<Rightarrow> world \<Rightarrow> workflowExecution list outcome" where
  "getExecutions tenantId i limit w =
     (case findOneWorkflow tenantId i w of
        Inl e \<Rightarrow> Inl e
      | Inr _ \<Rightarrow> Inr (takeRows limit
          (filter (\<lambda>x. workflowExecution_tenantId x = tenantId) (executionsOfWorkflow i w))))"

section \<open>Writing\<close>

definition readA :: "(world \<Rightarrow> 'a outcome) \<Rightarrow> 'a act" where
  "readA f w = (f w, w)"

text \<open>
  Step numbers and delays are columns of 32 bits. The insert of a row with a number outside is rejected by
  the query engine (numbers beyond 64 bits under another name), and the transaction is rolled back.
\<close>

definition fitsInt :: "int \<Rightarrow> bool" where
  "fitsInt n = (-(2 ^ 31) \<le> n \<and> n < 2 ^ 31)"

definition storableAction :: "WorkflowActionDto \<Rightarrow> bool" where
  "storableAction a = (fitsInt (wa_stepOrder a) \<and> fitsInt (coalesce (wa_delayMinutes a) 0))"

definition INT_OVERFLOW :: exn where
  "INT_OVERFLOW = PrismaError ''PrismaClientUnknownRequestError''"

definition createWorkflow :: "instant \<Rightarrow> uuid \<Rightarrow> CreateWorkflowDto \<Rightarrow> WorkflowView act" where
  "createWorkflow now tenantId dto w =
     (if \<not> tenantExists tenantId w then (Inl (PrismaError ''P2003''), w)
      else if \<not> list_all storableAction (cw_actions dto) then (Inl INT_OVERFLOW, w)
      else let i = newId w; (rows, v) = createActions (cw_actions dto) (bump w);
               f = \<lparr>workflow_id = i, workflow_tenantId = tenantId, workflow_name = cw_name dto,
                    workflow_isActive = coalesce (cw_isActive dto) True,
                    workflow_triggerType = Some (td_type (cw_trigger dto)), workflow_actions = rows,
                    workflow_isDemoData = False, workflow_description = cw_description dto,
                    workflow_triggerConfig = coalesce (td_config (cw_trigger dto)) (JObj []),
                    workflow_createdAt = now\<rparr>
           in readA (findOneWorkflow tenantId i) (v\<lparr>w_workflows := w_workflows v @ [f]\<rparr>))"

definition updateFields :: "UpdateWorkflowDto \<Rightarrow> workflow \<Rightarrow> workflow" where
  "updateFields dto f =
     (let f1 = f\<lparr>workflow_name := coalesce (uw_name dto) (workflow_name f),
                 workflow_description := (case uw_description dto of None \<Rightarrow> workflow_description f
                                          | Some d \<Rightarrow> Some d),
                 workflow_isActive := coalesce (uw_isActive dto) (workflow_isActive f)\<rparr>
      in case uw_trigger dto of
           None \<Rightarrow> f1
         | Some t \<Rightarrow> f1\<lparr>workflow_triggerType := Some (td_type t),
                        workflow_triggerConfig := coalesce (td_config t) (JObj [])\<rparr>)"

definition updateWorkflow :: "uuid \<Rightarrow> uuid \<Rightarrow> UpdateWorkflowDto \<Rightarrow> WorkflowView act" where
  "updateWorkflow tenantId i dto w =
     (case findOneWorkflow tenantId i w of
        Inl e \<Rightarrow> (Inl e, w)
      | Inr _ \<Rightarrow>
          if \<not> list_all storableAction (coalesce (uw_actions dto) []) then (Inl INT_OVERFLOW, w)
          else let (rows, v) = (case uw_actions dto of None \<Rightarrow> ([], w) | Some as \<Rightarrow> createActions as w);
              f = (\<lambda>x. let y = updateFields dto x
                       in if uw_actions dto = None then y else y\<lparr>workflow_actions := rows\<rparr>)
          in readA (findOneWorkflow tenantId i)
               (putWorkflows (update_where (\<lambda>x. workflow_id x = i) f (w_workflows v)) v))"

text \<open>The executions go with their workflow (\<open>onDelete: Cascade\<close>); queued jobs stay.\<close>

definition removeWorkflow :: "uuid \<Rightarrow> uuid \<Rightarrow> unit act" where
  "removeWorkflow tenantId i w =
     (case findOneWorkflow tenantId i w of
        Inl e \<Rightarrow> (Inl e, w)
      | Inr _ \<Rightarrow> (Inr (), w\<lparr>w_workflows := delete_where (\<lambda>f. workflow_id f = i) (w_workflows w),
          w_workflowExecutions := delete_where (\<lambda>x. workflowExecution_workflowId x = i) (w_workflowExecutions w)\<rparr>))"

definition toggleActive :: "uuid \<Rightarrow> uuid \<Rightarrow> bool act" where
  "toggleActive tenantId i w =
     (case findOneWorkflow tenantId i w of
        Inl e \<Rightarrow> (Inl e, w)
      | Inr v \<Rightarrow>
          let b = \<not> workflow_isActive (wv_workflow v)
          in (Inr b, putWorkflows (update_where (\<lambda>x. workflow_id x = i)
                (\<lambda>x. x\<lparr>workflow_isActive := b\<rparr>) (w_workflows w)) w))"

section \<open>What the dashboard is told\<close>

definition getSupportedTriggers :: "(string \<times> string list) list" where
  "getSupportedTriggers =
     [(''event_triggers'', [''event_created'', ''event_updated'', ''event_published'', ''event_activated'',
        ''event_completed'']),
      (''rsvp_triggers'', [''rsvp_received'', ''rsvp_yes'', ''attendance_confirmed'', ''rsvp_no'',
        ''attendance_cancelled'']),
      (''appointment_triggers'', [''appointment_created'', ''appointment_scheduled''])]"

definition getSupportedActions :: "(string \<times> string list) list" where
  "getSupportedActions =
     [(''messaging_actions'', [''send_sms'', ''send_email'', ''send_voice'', ''send_whatsapp'']),
      (''contact_actions'', [''add_tag'', ''remove_tag'', ''add_to_group'', ''remove_from_group'']),
      (''system_actions'', [''log_activity'', ''webhook''])]"

definition supported_variables :: "string list" where
  "supported_variables =
     [''customer_name'', ''customer_phone'', ''customer_email'', ''appointment_title'', ''appointment_date'',
      ''appointment_time'', ''location'', ''tenant_id'', ''event_id'', ''contact_id'']"

end
