(* ===== verification/Workflow_Properties.thy ===== *)
theory Workflow_Properties
  imports Workflow_Editing Appointments Twilio_Webhook
begin

text \<open>
  What holds of automations: every started execution accounts for its steps and ends, messages respect
  the opt-out, the automations of a status change reach nobody, and the request validation keeps the
  stored workflows within what the executor knows and carries out, each action by the branch of its type.
\<close>

section \<open>What an action touches\<close>

abbreviation actionParts :: "world \<Rightarrow> world" where
  "actionParts w \<equiv> (messagingParts w)\<lparr>w_contacts := []\<rparr>"

lemma keeps_sendTo: "keeps (\<lambda>w. actionParts w = c) (sendTo E now q)"
proof (rule keepsI)
  fix w :: world assume "actionParts w = c"
  moreover have "(messagingParts (snd (send E now q w)))\<lparr>w_contacts := []\<rparr> = (messagingParts w)\<lparr>w_contacts := []\<rparr>"
    using send_parts [of E now q w] by (rule arg_cong)
  ultimately show "actionParts (snd (sendTo E now q w)) = c" by simp
qed

lemma keeps_addTag: "keeps (\<lambda>w. actionParts w = c) (addTag t p tag)"
  by (rule keepsI) (simp add: addTag_def whenA_def updateContact_def updateRow_def split: option.split)

lemma keeps_actFor: "keeps (\<lambda>w. actionParts w = c) (actFor E now a t d r)"
  unfolding actFor_def Let_def by (intro keeps_intros keeps_sendTo keeps_addTag)

lemma actFor_parts: "actionParts (snd (actFor E now a t d r w)) = actionParts w"
  using keepsD [OF keeps_actFor refl] by blast

lemma executeAction_parts: "actionParts (snd (executeAction E now a t d w)) = actionParts w"
proof -
  have "actionParts (snd (forEachA (actFor E now a t d) rs v)) = actionParts w"
    if "actionParts v = actionParts w" for rs v
    using that by (rule snd_forEachA) (simp add: actFor_parts)
  then show ?thesis by (simp add: executeAction_def)
qed

lemma executeAction_other [simp]:
  "w_workflowExecutions (snd (executeAction E now a t d w)) = w_workflowExecutions w"
  "w_workflows (snd (executeAction E now a t d w)) = w_workflows w"
  "w_contactTags (snd (executeAction E now a t d w)) = w_contactTags w"
  using arg_cong [OF executeAction_parts [of E now a t d w], of w_workflowExecutions]
    arg_cong [OF executeAction_parts [of E now a t d w], of w_workflows]
    arg_cong [OF executeAction_parts [of E now a t d w], of w_contactTags] by simp_all

section \<open>Accounting of an execution\<close>

definition theExecution :: "uuid \<Rightarrow> world \<Rightarrow> workflowExecution option" where
  "theExecution x w = List.find (\<lambda>r. workflowExecution_id r = x) (w_workflowExecutions w)"

lemma theExecution_some: "theExecution x w = Some r \<Longrightarrow> x \<in> workflowExecution_id ` set (w_workflowExecutions w)"
  by (auto simp: theExecution_def dest: find_SomeD)

lemma updateExecution_run:
  assumes "\<And>r. workflowExecution_id (f r) = workflowExecution_id r" and "theExecution i w \<noteq> None"
  shows "fst (updateExecution i f w) = Inr ()"
    and "theExecution x (snd (updateExecution i f w)) =
      (if x = i then map_option f (theExecution x w) else theExecution x w)"
    and "w_workflows (snd (updateExecution i f w)) = w_workflows w"
    and "w_outbox (snd (updateExecution i f w)) = w_outbox w"
proof -
  have mem: "i \<in> workflowExecution_id ` set (w_workflowExecutions w)"
    using assms(2) theExecution_some by blast
  note ok = updateRow_ok [of i workflowExecution_id w_workflowExecutions w putExecutions f, OF mem]
  show "fst (updateExecution i f w) = Inr ()" "w_workflows (snd (updateExecution i f w)) = w_workflows w"
    "w_outbox (snd (updateExecution i f w)) = w_outbox w"
    by (simp_all add: updateExecution_def ok putExecutions_def)
  show "theExecution x (snd (updateExecution i f w)) =
      (if x = i then map_option f (theExecution x w) else theExecution x w)"
    using executions.find_updated [of f i w] executions.find_other [of f x i w] assms(1)
    by (simp add: updateExecution_def ok theExecution_def)
qed

definition stepsOf :: "workflowExecution \<Rightarrow> int" where
  "stepsOf r = workflowExecution_actionsRun r + workflowExecution_actionsSkipped r"

text \<open>
  One job of an execution: it counts one step when it returns, and completes the execution when it is
  the last; when it throws, the execution is marked as failed and counts nothing.
\<close>

definition afterJob :: "instant \<Rightarrow> WorkflowJob \<Rightarrow> bool \<Rightarrow> workflowExecution \<Rightarrow> workflowExecution \<Rightarrow> bool" where
  "afterJob now j returned r r' =
     (workflowExecution_id r' = workflowExecution_id r \<and>
      (if returned
       then stepsOf r' = stepsOf r + 1 \<and> workflowExecution_error r' = workflowExecution_error r \<and>
            workflowExecution_status r' = (if fj_isLastAction j then ''COMPLETED'' else workflowExecution_status r)
       else stepsOf r' = stepsOf r \<and> workflowExecution_status r' = ''FAILED''))"

lemma finishIfLast_run:
  assumes "theExecution (fj_executionId j) w = Some r"
  shows "fst (finishIfLast now j w) = Inr ()"
    and "\<exists>r'. theExecution (fj_executionId j) (snd (finishIfLast now j w)) = Some r' \<and>
      workflowExecution_id r' = workflowExecution_id r \<and> stepsOf r' = stepsOf r \<and>
      workflowExecution_error r' = workflowExecution_error r \<and>
      workflowExecution_status r' = (if fj_isLastAction j then ''COMPLETED'' else workflowExecution_status r)"
  using updateExecution_run [where f = "\<lambda>x. x\<lparr>workflowExecution_status := ''COMPLETED'',
     workflowExecution_completedAt := Some now\<rparr>" and i = "fj_executionId j" and w = w] assms
  by (auto simp: finishIfLast_def markExecutionComplete_def whenA_def stepsOf_def)

lemma updateThenFinish:
  assumes "theExecution (fj_executionId j) w = Some r"
    and "f = ranOne \<or> f = skippedOne"
  shows "fst (thenA (updateExecution (fj_executionId j) f) (finishIfLast now j) w) = Inr ()"
    and "\<exists>r'. theExecution (fj_executionId j) (snd (thenA (updateExecution (fj_executionId j) f)
        (finishIfLast now j) w)) = Some r' \<and> afterJob now j True r r'"
proof -
  have id: "workflowExecution_id (f r) = workflowExecution_id r" for r using assms(2) by auto
  note u = updateExecution_run [OF id, where i = "fj_executionId j" and w = w]
  let ?v = "snd (updateExecution (fj_executionId j) f w)"
  have run: "thenA (updateExecution (fj_executionId j) f) (finishIfLast now j) w = finishIfLast now j ?v"
    using u(1) assms(1) by (metis thenA_ok option.distinct(1) prod.collapse)
  have v: "theExecution (fj_executionId j) ?v = Some (f r)" using u(2) assms(1) by simp
  note fin = finishIfLast_run [OF v, where now = now]
  show "fst (thenA (updateExecution (fj_executionId j) f) (finishIfLast now j) w) = Inr ()"
    using fin(1) by (simp add: run)
  have "stepsOf (f r) = stepsOf r + 1" "workflowExecution_status (f r) = workflowExecution_status r"
    "workflowExecution_error (f r) = workflowExecution_error r"
    using assms(2) by (auto simp: stepsOf_def)
  then show "\<exists>r'. theExecution (fj_executionId j) (snd (thenA (updateExecution (fj_executionId j) f)
        (finishIfLast now j) w)) = Some r' \<and> afterJob now j True r r'"
    using fin(2) id unfolding run by (auto simp: afterJob_def)
qed

lemma runAction_step:
  assumes "theExecution (fj_executionId j) w = Some r"
  shows "\<exists>r'. theExecution (fj_executionId j) (snd (runAction E now j a w)) = Some r' \<and>
      afterJob now j (is_ok (fst (runAction E now j a w))) r r'"
proof -
  let ?act = "executeAction E now a (fj_tenantId j) (fj_entityData j)"
  obtain o' v where act: "?act w = (o', v)" by (cases "?act w")
  have r: "theExecution (fj_executionId j) v = Some r"
    using executeAction_other(1) [of E now a "fj_tenantId j" "fj_entityData j" w] act assms
    by (simp add: theExecution_def)
  show ?thesis
  proof (cases o')
    case (Inr u)
    have "fst (updateExecution (fj_executionId j) ranOne v) = Inr ()"
      using updateExecution_run(1) [where f = ranOne and i = "fj_executionId j" and w = v] r by simp
    then obtain v' where v': "updateExecution (fj_executionId j) ranOne v = (Inr (), v')"
      by (metis prod.collapse)
    have "runAction E now j a w = thenA (updateExecution (fj_executionId j) ranOne) (finishIfLast now j) v"
      using act Inr v' by (simp add: runAction_def)
    then show ?thesis
      using updateThenFinish [OF r, where f = ranOne and now = now] by simp
  next
    case (Inl e)
    let ?u = "updateExecution (fj_executionId j) (failedAt now (exnText e)) v"
    have u: "fst ?u = Inr ()" "theExecution (fj_executionId j) (snd ?u) = Some (failedAt now (exnText e) r)"
      using updateExecution_run [where f = "failedAt now (exnText e)" and i = "fj_executionId j" and w = v] r
      by simp_all
    have "runAction E now j a w = (Inl e, snd ?u)"
      using act Inl u(1) by (auto simp: runAction_def thenA_def bindA_def split: prod.split)
    then show ?thesis using u(2) by (simp add: afterJob_def stepsOf_def)
  qed
qed

lemma processJob_step:
  assumes "theExecution (fj_executionId j) w = Some r"
  shows "\<exists>r'. theExecution (fj_executionId j) (snd (processJob E now j w)) = Some r' \<and>
      afterJob now j (is_ok (fst (processJob E now j w))) r r'"
  using runAction_step [OF assms, where E = E and now = now]
    updateThenFinish [OF assms, where f = skippedOne and now = now]
  by (auto simp: processJob_def skipAction_def split: option.split)

text \<open>The other executions are left alone.\<close>

lemma keeps_updateExecution:
  assumes "\<And>r. workflowExecution_id (f r) = workflowExecution_id r" and "x \<noteq> i"
  shows "keeps (\<lambda>w. theExecution x w = c) (updateExecution i f)"
  unfolding updateExecution_def
  by (rule keeps_updateRow) (use assms executions.find_other [of f x i] in \<open>simp add: theExecution_def\<close>)

lemma keeps_executeAction: "keeps (\<lambda>w. theExecution x w = c) (executeAction E now a t d)"
  by (rule keepsI) (simp add: theExecution_def)

lemma keeps_processJob:
  assumes "x \<noteq> fj_executionId j"
  shows "keeps (\<lambda>w. theExecution x w = c) (processJob E now j)"
proof -
  have upd: "keeps (\<lambda>w. theExecution x w = c) (updateExecution (fj_executionId j) ranOne)"
    "keeps (\<lambda>w. theExecution x w = c) (updateExecution (fj_executionId j) skippedOne)"
    "keeps (\<lambda>w. theExecution x w = c) (updateExecution (fj_executionId j) (failedAt now e))" for e
    by (rule keeps_updateExecution; use assms in simp)+
  have fin: "keeps (\<lambda>w. theExecution x w = c) (finishIfLast now j)"
    unfolding finishIfLast_def markExecutionComplete_def
    by (intro keeps_intros keeps_updateExecution) (use assms in simp_all)
  note parts = upd fin keeps_executeAction keeps_thenA
  have run: "keeps (\<lambda>w. theExecution x w = c) (runAction E now j a)" for a
  proof (rule keepsI)
    fix w assume w: "theExecution x w = c"
    let ?m = "thenA (executeAction E now a (fj_tenantId j) (fj_entityData j)) (updateExecution (fj_executionId j) ranOne)"
    have v: "theExecution x (snd (?m w)) = c" using w by (rule keepsD [rotated]) (intro parts)
    have "theExecution x (snd (finishIfLast now j (snd (?m w)))) = c"
      using v by (rule keepsD [OF fin])
    moreover have "theExecution x (snd (thenA (updateExecution (fj_executionId j) (failedAt now e)) (throwA e')
        (snd (?m w)))) = c" for e and e' :: exn
      using v by (rule keepsD [rotated]) (intro parts keeps_intros)
    ultimately show "theExecution x (snd (runAction E now j a w)) = c"
      by (auto simp: runAction_def split: prod.split sum.split)
  qed
  have skip: "keeps (\<lambda>w. theExecution x w = c) (skipAction now j)"
    unfolding skipAction_def by (intro parts)
  show ?thesis
    by (rule keepsI) (auto simp: processJob_def keepsD [OF run] keepsD [OF skip] split: option.split)
qed

section \<open>Runs of jobs\<close>

text \<open>A run: which job the worker takes when, retries included; the result says which of them returned.\<close>

fun runJobs :: "env \<Rightarrow> (instant \<times> WorkflowJob) list \<Rightarrow> world \<Rightarrow> bool list \<times> world" where
  "runJobs E [] w = ([], w)"
| "runJobs E ((now, j) # js) w =
     (let (r, v) = processJob E now j w; (oks, u) = runJobs E js v in (is_ok r # oks, u))"

lemma runJobs_length: "length (fst (runJobs E js w)) = length js"
  by (induction E js w rule: runJobs.induct) (auto split: prod.splits)

lemma runJobs_snoc:
  "runJobs E (js @ [(now, j)]) w =
     (fst (runJobs E js w) @ [is_ok (fst (processJob E now j (snd (runJobs E js w))))],
      snd (processJob E now j (snd (runJobs E js w))))"
  by (induction E js w rule: runJobs.induct) (auto split: prod.splits)

definition returnedSteps :: "uuid \<Rightarrow> (instant \<times> WorkflowJob) list \<Rightarrow> bool list \<Rightarrow> nat" where
  "returnedSteps x js oks = length (filter (\<lambda>((now, j), ok). fj_executionId j = x \<and> ok) (zip js oks))"

lemma execution_accounts_for_steps_aux:
  assumes "theExecution x w = Some r"
  shows "\<exists>r'. theExecution x (snd (runJobs E js w)) = Some r' \<and>
    stepsOf r' = stepsOf r + int (returnedSteps x js (fst (runJobs E js w)))"
  using assms
proof (induction js rule: rev_induct)
  case Nil
  then show ?case by (simp add: returnedSteps_def)
next
  case (snoc nj js)
  obtain now j where nj: "nj = (now, j)" by (cases nj)
  let ?v = "snd (runJobs E js w)"
  obtain q where q: "theExecution x ?v = Some q"
      "stepsOf q = stepsOf r + int (returnedSteps x js (fst (runJobs E js w)))"
    using snoc by blast
  have z: "zip (js @ [(now, j)]) (fst (runJobs E js w) @ [b]) = zip js (fst (runJobs E js w)) @ [((now, j), b)]" for b
    by (simp add: runJobs_length)
  show ?case
  proof (cases "fj_executionId j = x")
    case True
    with q(1) obtain q' where "theExecution x (snd (processJob E now j ?v)) = Some q'"
        "afterJob now j (is_ok (fst (processJob E now j ?v))) q q'"
      using processJob_step [of j ?v q E now] by blast
    then show ?thesis
      using q(2) True nj by (auto simp: runJobs_snoc returnedSteps_def z afterJob_def split: if_splits)
  next
    case False
    then have "theExecution x (snd (processJob E now j ?v)) = Some q"
      using keepsD [OF keeps_processJob q(1)] by auto
    then show ?thesis
      using q(2) False nj by (simp add: runJobs_snoc returnedSteps_def z)
  qed
qed

text \<open>
  An execution accounts for its steps. Whatever jobs the worker takes, of any executions, in any
  order, with any failures and retries in between, the actions that an execution counts as run or skipped
  grow by exactly the number of its jobs that returned: none is lost and none is counted by another
  execution's job.
\<close>

theorem execution_accounts_for_steps:
  assumes "theExecution x w = Some r"
  shows "\<exists>r'. theExecution x (snd (runJobs E js w)) = Some r' \<and>
    stepsOf r' = stepsOf r + int (returnedSteps x js (fst (runJobs E js w)))"
  using execution_accounts_for_steps_aux [OF assms] .

lemma returnedSteps_all:
  assumes "length js = length oks" and "\<And>n j. (n, j) \<in> set js \<Longrightarrow> fj_executionId j = x"
  shows "returnedSteps x js oks = length (filter id oks)"
  using assms by (induction js oks rule: list_induct2) (auto simp: returnedSteps_def)

lemma started_row:
  assumes "newId w \<notin> workflowExecution_id ` set (w_workflowExecutions w)"
  shows "\<exists>r. theExecution (newId w) (startExecution now t trig ent d flow w) = Some r \<and> stepsOf r = 0"
proof -
  note none = find_absent(1) [OF assms]
  show ?thesis
    by (simp add: startExecution_def Let_def bump_def theExecution_def stepsOf_def find_append none)
qed

lemma planned_job_reads:
  assumes "j \<in> set (plannedJobs flow x t ent d)"
  shows "fj_executionId (readWorkflowJob j) = x" and "fj_tenantId (readWorkflowJob j) = t"
    and "fj_entityData (readWorkflowJob j) = d"
  using assms
  by (auto simp: plannedJobs_def Let_def stepJob_def WorkflowJobData_def readWorkflowJob_def jString_def)

lemma last_planned_job:
  assumes "workflow_actions flow \<noteq> []"
  shows "fj_isLastAction (readWorkflowJob (last (plannedJobs flow x t ent d)))"
    and "last (plannedJobs flow x t ent d) \<in> set (plannedJobs flow x t ent d)"
proof -
  have ne: "orderedActions flow \<noteq> []" using assms by (simp add: orderedActions_def)
  then have "plannedJobs flow x t ent d \<noteq> []" by (simp add: plannedJobs_def Let_def)
  then show "last (plannedJobs flow x t ent d) \<in> set (plannedJobs flow x t ent d)" by simp
  have "Suc (length (orderedActions flow) - 1) = length (orderedActions flow)" using ne by simp
  moreover have "last [0..<length (orderedActions flow)] = length (orderedActions flow) - 1"
    using ne by (simp add: last_upt)
  ultimately show "fj_isLastAction (readWorkflowJob (last (plannedJobs flow x t ent d)))"
    using ne by (simp add: plannedJobs_def Let_def last_map stepJob_def WorkflowJobData_def readWorkflowJob_def)
qed

text \<open>
  C30: A started automation ends. However the jobs of an execution are taken, delayed, failed and
  retried: as soon as the job of its last step returns, the execution is marked COMPLETED, and it counts
  exactly the runs that returned. Steps that never succeeded do not keep it from being completed.
\<close>

theorem started_automation_completes:
  assumes "newId w \<notin> workflowExecution_id ` set (w_workflowExecutions w)" and "workflow_actions flow \<noteq> []"
    and "set (map snd runs) \<subseteq> set (plannedJobs flow (newId w) t ent d)"
    and "runs \<noteq> []" and "snd (last runs) = last (plannedJobs flow (newId w) t ent d)"
    and "runJobs E (map (\<lambda>(now, j). (now, readWorkflowJob j)) runs)
           (startExecution now t trig ent d flow w) = (oks, w')" and "last oks"
  shows "\<exists>r. theExecution (newId w) w' = Some r \<and> workflowExecution_status r = ''COMPLETED'' \<and>
    stepsOf r = int (length (filter id oks))"
proof -
  let ?x = "newId w" and ?w = "startExecution now t trig ent d flow w"
  let ?js = "map (\<lambda>(now, j). (now, readWorkflowJob j)) runs"
  obtain r where r: "theExecution ?x ?w = Some r" "stepsOf r = 0" using started_row [OF assms(1)] by blast
  obtain pre z where runs: "runs = pre @ [z]" using assms(4) by (metis rev_exhaust)
  obtain at' jb where z: "z = (at', jb)" by (cases z)
  let ?j = "readWorkflowJob jb" and ?pre = "map (\<lambda>(now, j). (now, readWorkflowJob j)) pre"
  have jb: "jb = last (plannedJobs flow ?x t ent d)" using assms(5) runs z by simp
  have last: "fj_executionId ?j = ?x" "fj_isLastAction ?j"
    using last_planned_job [OF assms(2), where x = ?x and t = t and ent = ent and d = d] planned_job_reads(1)
    by (simp_all add: jb)
  let ?v = "snd (runJobs E ?pre ?w)"
  have run: "oks = fst (runJobs E ?pre ?w) @ [is_ok (fst (processJob E at' ?j ?v))]"
    "w' = snd (processJob E at' ?j ?v)"
    using assms(6) by (simp_all add: runs z runJobs_snoc)
  have all: "fj_executionId j = ?x" if "(n, j) \<in> set ?js" for n j
    using that assms(3) planned_job_reads(1) by fastforce
  have "length ?js = length oks" using runJobs_length [of E ?js ?w] assms(6) by simp
  then have "returnedSteps ?x ?js oks = length (filter id oks)" using all by (intro returnedSteps_all) blast+
  then obtain q where q: "theExecution ?x w' = Some q" "stepsOf q = int (length (filter id oks))"
    using execution_accounts_for_steps_aux [OF r(1), of E ?js] assms(6) r(2) by auto
  obtain p where "theExecution ?x ?v = Some p"
    using execution_accounts_for_steps_aux [OF r(1), of E ?pre] by blast
  then have "workflowExecution_status q = ''COMPLETED''"
    using processJob_step [of ?j ?v p E at'] last q(1) run assms(7) by (auto simp: afterJob_def)
  then show ?thesis using q by blast
qed

section \<open>Who is written to\<close>

text \<open>The message goes to the recipient's number in E.164 form or to its e-mail address.\<close>

definition addressedTo :: "env \<Rightarrow> ActionRecipient \<Rightarrow> outmsg \<Rightarrow> bool" where
  "addressedTo E r m = (\<exists>to. (normalizePhoneForSend E (Some (textOr [] (rc_phone r))) DEFAULT_SEND_COUNTRY = Some to \<or>
     to = textOr [] (rc_email r)) \<and> out_to m \<in> {to, ''whatsapp:'' @ to})"

lemma sendTo_addressed:
  assumes "sq_to q = textOr [] (rc_phone r) \<and> sq_channel q \<noteq> EMAIL \<or> sq_to q = textOr [] (rc_email r) \<and> sq_channel q = EMAIL"
  shows "\<exists>ms. w_outbox (snd (sendTo E now q w)) = w_outbox w @ ms \<and> (\<forall>m \<in> set ms. addressedTo E r m)"
proof -
  obtain ms where ms: "w_outbox (snd (send E now q w)) = w_outbox w @ ms"
    "\<forall>m \<in> set ms. \<exists>to. sendTarget E q = Some to \<and> out_to m \<in> {to, ''whatsapp:'' @ to}"
    using send_addressed [of E now q w] by blast
  have "\<forall>m \<in> set ms. addressedTo E r m"
    using ms(2) assms by (fastforce simp: addressedTo_def sendTarget_def)
  then show ?thesis using ms(1) by auto
qed

lemma channelNamed_EMAIL: "channelNamed s = Some ch \<Longrightarrow> (ch = EMAIL) = (s = ''EMAIL'')"
  by (auto split: if_splits)

lemma addTag_outbox [simp]: "w_outbox (snd (addTag t p tag w)) = w_outbox w"
  by (simp add: addTag_def whenA_def updateContact_def updateRow_def split: option.split)

definition writesTo :: "env \<Rightarrow> ActionRecipient \<Rightarrow> unit act \<Rightarrow> bool" where
  "writesTo E r k = (\<forall>w. \<exists>ms. w_outbox (snd (k w)) = w_outbox w @ ms \<and> (\<forall>m \<in> set ms. addressedTo E r m))"

lemma writesTo_rules:
  "writesTo E r (returnA ())"
  "writesTo E r (addTag t p tag)"
  "writesTo E r k \<Longrightarrow> writesTo E r (whenA b k)"
  "ch \<noteq> EMAIL \<Longrightarrow> p = textOr [] (rc_phone r) \<Longrightarrow> writesTo E r (sendTo E now (request t ch p m))"
  "ch \<noteq> EMAIL \<Longrightarrow> p = textOr [] (rc_phone r) \<Longrightarrow>
     writesTo E r (sendTo E now ((request t ch p m)\<lparr>sq_appointmentData := x\<rparr>))"
  "p = textOr [] (rc_email r) \<Longrightarrow> writesTo E r (sendTo E now (request t EMAIL p m))"
  using sendTo_addressed [of _ r E now]
  by (auto simp: writesTo_def whenA_def request_def simp del: sendTo_world)

lemma actFor_addressed: "writesTo E r (actFor E now a t d r)"
  unfolding actFor_def Let_def
  by (auto split: option.split intro!: writesTo_rules(1,2) writesTo_rules(3) [OF writesTo_rules(2)]
        writesTo_rules(3) [OF writesTo_rules(4)] writesTo_rules(3) [OF writesTo_rules(5)]
        writesTo_rules(3) [OF writesTo_rules(6)] dest: channelNamed_EMAIL)

lemma subscribed_recipients:
  assumes "jtruthy (field d ''contactId'') \<or> jtruthy (field d ''customerId'') \<or>
     \<not> (jtruthy (field d ''customerPhone'') \<or> jtruthy (field d ''customerEmail''))"
    and "r \<in> set (recipientsOf d w)"
  shows "\<exists>c \<in> set (w_contacts w). \<not> contact_unsubscribed c \<and> r = contactRecipient c"
  using assms
  by (auto simp: recipientsOf_def participantRecipients_def Let_def dest!: find_SomeD find_SomeD [OF sym]
      split: if_splits option.splits)

text \<open>
  C29: Automations respect the opt-out. For every action of every type, unless the trigger's data name
  neither a contact nor a customer but carry a phone number or an e-mail address of their own, every
  message handed over goes to the number or address of a contact that has not unsubscribed.
\<close>

theorem automation_respects_opt_out:
  assumes "jtruthy (field d ''contactId'') \<or> jtruthy (field d ''customerId'') \<or>
     \<not> (jtruthy (field d ''customerPhone'') \<or> jtruthy (field d ''customerEmail''))"
  shows "\<exists>ms. w_outbox (snd (executeAction E now a t d w)) = w_outbox w @ ms \<and>
    (\<forall>m \<in> set ms. \<exists>c \<in> set (w_contacts w). \<not> contact_unsubscribed c \<and> addressedTo E (contactRecipient c) m)"
proof -
  let ?good = "\<lambda>m. \<exists>c \<in> set (w_contacts w). \<not> contact_unsubscribed c \<and> addressedTo E (contactRecipient c) m"
  let ?P = "\<lambda>v. \<exists>ms. w_outbox v = w_outbox w @ ms \<and> (\<forall>m \<in> set ms. ?good m)"
  have "?P (snd (forEachA (actFor E now a t d) (recipientsOf d w) w))"
  proof (rule snd_forEachA)
    fix r and v :: world assume r: "r \<in> set (recipientsOf d w)" and "?P v"
    then obtain ms where ms: "w_outbox v = w_outbox w @ ms" "\<forall>m \<in> set ms. ?good m" by blast
    obtain c where c: "c \<in> set (w_contacts w)" "\<not> contact_unsubscribed c" "r = contactRecipient c"
      using subscribed_recipients [OF assms r] by blast
    obtain ns where ns: "w_outbox (snd (actFor E now a t d r v)) = w_outbox v @ ns" "\<forall>m \<in> set ns. addressedTo E r m"
      using actFor_addressed [of E r now a t d] unfolding writesTo_def by blast
    have "\<forall>m \<in> set ns. ?good m" using ns(2) c by blast
    then show "?P (snd (actFor E now a t d r v))"
      using ms ns(1) by (intro exI [of _ "ms @ ns"]) auto
  qed simp
  then show ?thesis by (simp add: executeAction_def)
qed

text \<open>The data of the triggers that follow a change of an appointment.\<close>

definition statusChangeData :: "appointment \<Rightarrow> json \<Rightarrow> bool" where
  "statusChangeData a d =
     ((\<exists>t i c. d = statusEntity t i a c) \<or> (\<exists>t i time c. d = rescheduleData t i a time c) \<or>
      (\<exists>c st. d = statusData c a st \<and> appointment_customerId a = Some (customer_id c)))"

lemma statusChangeData_fields:
  assumes "statusChangeData a d" and "appointment_customerId a = Some i"
  shows "field d ''contactId'' = None" and "field d ''customerId'' = Some (JStr i)"
  using assms
  by (auto simp: statusChangeData_def statusEntity_def rescheduleData_def statusData_def jobj_def Let_def)

lemma executeAction_nobody:
  assumes "recipientsOf d w = []"
  shows "executeAction E now a t d w = (Inr (), w)"
  using assms by (simp add: executeAction_def)

text \<open>
  The automations of a status change reach nobody. When an appointment is confirmed, cancelled,
  completed, missed or moved, the trigger's data name its customer, and the executor looks that id up
  among the contacts, another table: unless a contact happens to have the same id, the action does
  nothing for anyone, is counted as run, and the execution is not marked as failed.
\<close>

theorem status_automations_reach_nobody:
  assumes "statusChangeData a (fj_entityData j)" and "appointment_customerId a = Some i" and "i \<noteq> []"
    and "i \<notin> contact_id ` set (w_contacts w)"
    and "theExecution (fj_executionId j) w = Some r" and "findAction (fj_actionId j) w = Some action"
    and "evaluateConditions E now (workflowAction_conditions action) (fj_triggerEntityId j) (fj_entityData j) w"
  shows "fst (processJob E now j w) = Inr () \<and>
    (\<exists>x. processJob E now j w = (Inr (), putExecutions x w)) \<and>
    (\<exists>r'. theExecution (fj_executionId j) (snd (processJob E now j w)) = Some r' \<and> stepsOf r' = stepsOf r + 1 \<and>
       workflowExecution_error r' = workflowExecution_error r)"
proof -
  note f = statusChangeData_fields [OF assms(1,2)]
  have "List.find (\<lambda>c. contact_id c = i) (w_contacts w) = None"
    using assms(4) by (cases "List.find (\<lambda>c. contact_id c = i) (w_contacts w)") (auto dest: find_SomeD)
  then have "recipientsOf (fj_entityData j) w = []"
    using f assms(3) by (simp add: recipientsOf_def jor_def jString_def)
  then have "processJob E now j w = (case thenA (\<lambda>v. (Inr (), v)) (updateExecution (fj_executionId j) ranOne) w of
        (Inr _, v) \<Rightarrow> finishIfLast now j v
      | (Inl e, v) \<Rightarrow> thenA (updateExecution (fj_executionId j) (failedAt now (exnText e))) (throwA e) v)"
    using assms(6,7) by (simp add: processJob_def runAction_def executeAction_nobody thenA_def bindA_def)
  also have "\<dots> = thenA (updateExecution (fj_executionId j) ranOne) (finishIfLast now j) w"
    using updateExecution_run(1) [where f = ranOne and i = "fj_executionId j" and w = w] assms(5)
    by (auto simp: thenA_def bindA_def split: prod.split sum.split)
  finally have run: "processJob E now j w = thenA (updateExecution (fj_executionId j) ranOne) (finishIfLast now j) w" .
  note step = updateThenFinish [OF assms(5), where f = ranOne and now = now]
  have "\<exists>x. snd (thenA (updateExecution (fj_executionId j) ranOne) (finishIfLast now j) w) = putExecutions x w"
  proof (rule snd_thenA)
    show "\<exists>x. snd (updateExecution (fj_executionId j) ranOne w) = putExecutions x w"
      by (auto simp: updateExecution_def updateRow_def putExecutions_def intro: exI [of _ "w_workflowExecutions w"])
  next
    fix v assume "\<exists>x. v = putExecutions x w"
    then show "\<exists>x. snd (finishIfLast now j v) = putExecutions x w"
      by (auto simp: finishIfLast_def markExecutionComplete_def whenA_def updateExecution_def updateRow_def putExecutions_def)
  qed
  then show ?thesis using step unfolding run by (auto simp: afterJob_def prod_eq_iff)
qed

section \<open>What is stored\<close>

lemma createActions_rows:
  "length (fst (createActions as w)) = length as"
  "\<forall>a \<in> set (fst (createActions as w)). \<exists>d \<in> set as. \<exists>i. a = actionRow d i \<and> (\<exists>n \<ge> w_next w. i = w_uuid w n)"
  "snd (createActions as w) = w\<lparr>w_next := w_next w + length as\<rparr>"
proof (induction as w rule: createActions.induct)
  case (2 a as w)
  obtain rows v where v: "createActions as (bump w) = (rows, v)" by (cases "createActions as (bump w)") auto
  {
    case 1
    then show ?case using 2(1) v by simp
  next
    case 2
    have "\<forall>b \<in> set rows. \<exists>d \<in> set as. \<exists>i. b = actionRow d i \<and> (\<exists>n \<ge> w_next w. i = w_uuid w n)"
    proof
      fix b assume "b \<in> set rows"
      then obtain d i n where "d \<in> set as" "b = actionRow d i" "w_next (bump w) \<le> n" "i = w_uuid (bump w) n"
        using "2.IH"(2) v by auto
      then show "\<exists>d \<in> set as. \<exists>i. b = actionRow d i \<and> (\<exists>n \<ge> w_next w. i = w_uuid w n)"
        by (intro bexI [of _ d] exI [of _ i] conjI exI [of _ n]) (auto simp: bump_def)
    qed
    then show ?case using v by (auto simp: newId_def)
  next
    case 3
    then show ?case using "2.IH"(3) v by (auto simp: bump_def)
  }
qed simp_all

definition knownAction :: "workflowAction \<Rightarrow> bool" where
  "knownAction a = (workflowAction_type a \<in> set ACTION_TYPES \<and> 0 \<le> workflowAction_delayMinutes a \<and>
     (\<forall>c \<in> set (workflowAction_conditions a). workflowCondition_conditionType c \<in> set CONDITION_TYPES))"

definition knownFlow :: "workflow \<Rightarrow> bool" where
  "knownFlow f = ((\<forall>t. workflow_triggerType f = Some t \<longrightarrow> t \<in> set TRIGGER_TYPES) \<and>
     (\<forall>a \<in> set (workflow_actions f). knownAction a))"

definition wellTyped :: "world \<Rightarrow> bool" where
  "wellTyped w = (\<forall>f \<in> set (w_workflows w). knownFlow f)"

lemma wellTyped_changed:
  assumes "wellTyped w" and "w_workflows v = update_where p f (w_workflows w)"
    and "\<And>x. knownFlow x \<Longrightarrow> knownFlow (f x)"
  shows "wellTyped v"
  using assms by (auto simp: wellTyped_def set_update_where)

lemma createActions_known:
  assumes "list_all validAction as" and "a \<in> set (fst (createActions as w))"
  shows "knownAction a"
proof -
  obtain d i where d: "d \<in> set as" "a = actionRow d i" using createActions_rows(2) assms(2) by blast
  then have "validAction d" using assms(1) by (simp add: list_all_iff)
  then show ?thesis
    by (auto simp: d(2) actionRow_def knownAction_def validAction_def validCondition_def conditionRow_def list_all_iff)
qed

text \<open>Any request of the automation endpoints, with a body that has passed validation.\<close>

inductive editing :: "world \<Rightarrow> world \<Rightarrow> bool" where
  "validCreate dto \<Longrightarrow> editing w (snd (createWorkflow now t dto w))"
| "validUpdate dto' \<Longrightarrow> editing w (snd (updateWorkflow t i dto' w))"
| "editing w (snd (removeWorkflow t i w))"
| "editing w (snd (toggleActive t i w))"

lemma createWorkflow_typed:
  assumes "validCreate dto" and "wellTyped w"
  shows "wellTyped (snd (createWorkflow now t dto w))"
proof -
  have "\<forall>a \<in> set (fst (createActions (cw_actions dto) (bump w))). knownAction a"
    using createActions_known assms(1) by (auto simp: validCreate_def)
  moreover have "td_type (cw_trigger dto) \<in> set TRIGGER_TYPES"
    using assms(1) by (simp add: validCreate_def validTrigger_def)
  ultimately show ?thesis
    using assms(2)
    by (auto simp: createWorkflow_def case_prod_beta Let_def readA_def wellTyped_def knownFlow_def
        createActions_rows(3) bump_def)
qed

lemma updateWorkflow_typed:
  assumes "validUpdate dto" and "wellTyped w"
  shows "wellTyped (snd (updateWorkflow t i dto w))"
proof (cases "(\<exists>view. findOneWorkflow t i w = Inr view) \<and> list_all storableAction (coalesce (uw_actions dto) [])")
  case True
  then obtain view where Inr: "findOneWorkflow t i w = Inr view"
    and fits: "list_all storableAction (coalesce (uw_actions dto) [])" by blast
  let ?as = "case uw_actions dto of None \<Rightarrow> ([], w) | Some as \<Rightarrow> createActions as w"
  let ?f = "\<lambda>x. let y = updateFields dto x in if uw_actions dto = None then y else y\<lparr>workflow_actions := fst ?as\<rparr>"
  have rows: "w_workflows (snd ?as) = w_workflows w"
    by (simp add: createActions_rows(3) split: option.split)
  have known: "\<forall>a \<in> set (fst ?as). knownAction a"
    using createActions_known assms(1) by (auto simp: validUpdate_def split: option.split)
  show ?thesis
  proof (rule wellTyped_changed [OF assms(2)])
    show "w_workflows (snd (updateWorkflow t i dto w)) = update_where (\<lambda>x. workflow_id x = i) ?f (w_workflows w)"
      using rows Inr fits by (simp add: updateWorkflow_def case_prod_beta Let_def readA_def putWorkflows_def)
    show "knownFlow (?f x)" if "knownFlow x" for x
      using that assms(1) known
      by (auto simp: updateFields_def Let_def validUpdate_def validTrigger_def knownFlow_def split: option.splits)
  qed
next
  case False
  then show ?thesis using assms(2) by (auto simp: updateWorkflow_def split: sum.split)
qed

lemma toggleActive_typed:
  assumes "wellTyped w"
  shows "wellTyped (snd (toggleActive t i w))"
proof (cases "findOneWorkflow t i w")
  case (Inr view)
  show ?thesis
    by (rule wellTyped_changed [OF assms, where p = "\<lambda>x. workflow_id x = i" and
          f = "\<lambda>x. x\<lparr>workflow_isActive := \<not> workflow_isActive (wv_workflow view)\<rparr>"])
       (simp_all add: toggleActive_def Inr Let_def putWorkflows_def knownFlow_def)
next
  case (Inl e)
  then show ?thesis using assms by (simp add: toggleActive_def)
qed

lemma removeWorkflow_typed: "wellTyped w \<Longrightarrow> wellTyped (snd (removeWorkflow t i w))"
  by (auto simp: removeWorkflow_def wellTyped_def delete_where_def split: sum.split)

lemma editing_typed: "editing w w' \<Longrightarrow> wellTyped w \<Longrightarrow> wellTyped w'"
  by (induction rule: editing.induct)
     (simp_all add: createWorkflow_typed updateWorkflow_typed removeWorkflow_typed toggleActive_typed)

text \<open>What a send hands over, exactly: one message on its channel, with the text it was given.\<close>

definition handsOver :: "world \<Rightarrow> world \<Rightarrow> ChannelType \<Rightarrow> string \<Rightarrow> (string \<Rightarrow> bool) \<Rightarrow> bool" where
  "handsOver v u ch to good \<longleftrightarrow> (\<exists>m. w_outbox u = w_outbox v @ [m] \<and> out_channel m = ch \<and>
     (out_to m = to \<or> ch = WHATSAPP \<and> out_to m = ''whatsapp:'' @ to) \<and> good (out_content m))"

lemma dispatch_handsOver:
  assumes "sq_channel q = EMAIL \<Longrightarrow> conf E ''SMTP_HOST'' [] \<noteq> []"
  shows "handsOver v (snd (dispatch E now q to v)) (sq_channel q) to
    (\<lambda>c. (sq_channel q = VOICE \<longrightarrow> sq_appointmentData q = None) \<longrightarrow> c = sq_content q)"
  using assms
  by (cases "sq_channel q")
     (auto simp: handsOver_def dispatch_def Let_def handOver_def twilio_sendSms_def twilio_sendVoice_def
       twilio_sendWhatsApp_def twilioSend_def termii_send_def termii_sendMessage_def mock_send_def email_send_def
       split: option.split)

lemma send_dispatched:
  assumes "sendTarget E q = Some to"
  shows "w_outbox (snd (send E now q w)) = w_outbox (snd (dispatch E now q to w))"
proof -
  have log: "w_outbox (snd (createMessageLog mk v)) = w_outbox v" for mk v
    using createMessageLog_cases [of mk v] by (auto simp: bump_def)
  have late: "w_outbox (snd (thenA (whenA b (createMessageLog mk)) (thenA (whenA c (modifyA (logActivity now q to)))
        (returnA x)) v)) = w_outbox v" for b c mk v and x :: SendOutcome
    using log [of mk v] by (auto simp: thenA_def bindA_def whenA_def split: prod.splits sum.splits)
  then show ?thesis unfolding send_valid [OF assms] by (auto simp: Let_def split: prod.split)
qed

lemma send_handsOver:
  assumes "sendTarget E q = Some to" and "sq_channel q = EMAIL \<Longrightarrow> conf E ''SMTP_HOST'' [] \<noteq> []"
    and "sq_channel q = ch" and "\<And>c. (ch = VOICE \<longrightarrow> sq_appointmentData q = None) \<longrightarrow> c = sq_content q \<Longrightarrow> good c"
  shows "handsOver v (snd (send E now q v)) ch to good"
  using dispatch_handsOver [of q E v now to, OF assms(2)] assms(3,4)
  by (auto simp: handsOver_def send_dispatched [OF assms(1)])

lemma addTag_contact:
  assumes "List.find (\<lambda>c. contact_tenantId c = t \<and> contact_phone c = Some p) (w_contacts w) = Some c"
  shows "\<exists>c'. List.find (\<lambda>c. contact_tenantId c = t \<and> contact_phone c = Some p) (w_contacts (snd (addTag t p tag w))) = Some c' \<and>
    contact_id c' = contact_id c \<and>
    contact_tags c' = (if tag \<in> set (contact_tags c) then contact_tags c else contact_tags c @ [tag])"
  using assms
  by (auto simp: addTag_def whenA_def updateContact_def updateRow_def find_update_where_other dest: find_SomeD)

lemma channelNamed_iff: "channelNamed s = Some c \<longleftrightarrow> channelName c = s"
  by (cases c) auto

lemma channelNamed_None: "channelNamed s = None \<longleftrightarrow> s \<notin> {''SMS'', ''VOICE'', ''EMAIL'', ''WHATSAPP''}"
  by simp

lemma actFor_generated:
  assumes "workflowAction_type a = ''generate_ai_message''"
  shows "actFor E now a t d r =
    (let config = workflowAction_config a;
         filled = (\<lambda>k. if jtruthy (field config k) then resolveVars (jString (field config k)) (actionVars t d r) else []);
         ch = toUpperCase (textOr ''SMS'' (field config ''channel''));
         to = (if ch = ''EMAIL'' then textOr [] (rc_email r) else textOr [] (rc_phone r))
     in case channelNamed ch of
          None \<Rightarrow> returnA ()
        | Some c \<Rightarrow> whenA (to \<noteq> []) (sendTo E now (request t c to
            (if jtruthy (field config ''prompt'') then filled ''prompt'' else filled ''message''))))"
  using assms by (simp add: actFor_def Let_def del: channelNamed.simps)

lemma actFor_tag:
  assumes "workflowAction_type a = ''add_tag''" and "textOr [] (rc_phone r) \<noteq> []"
  shows "actFor E now a t d r = (let tag = trim (textOr [] (field (workflowAction_config a) ''tag''))
    in whenA (tag \<noteq> []) (addTag t (textOr [] (rc_phone r)) tag))"
  using assms by (simp add: actFor_def Let_def)

text \<open>
  C28: Stored workflows are well typed, and each of their actions is carried out by the branch of its type.
  Whatever validated requests create, change, switch or delete workflows, every stored action has a type
  and conditions the executor knows, with a delay that is not negative. For a recipient with a valid number
  and an address, whatever the action's configuration, an SMS, a WhatsApp message or a call hands exactly
  one message over, on that channel, to that number, with the configured text, its placeholders filled in
  (a call about an appointment may be spoken from the appointment's data instead); an e-mail one to the
  address, the subject before the text; a request for a review one SMS, with the configured text when there
  is one. A generated message is one on the channel the configuration names, SMS by default, and none when
  that is no channel. A tag, without the blanks around it, is added to the tags of the first contact of the
  tenant with that number, unless it is there or empty, and nothing is sent.
\<close>

theorem stored_actions_carried_out:
  assumes "wellTyped w" and "editing\<^sup>*\<^sup>* w w'" and "f \<in> set (w_workflows w')" and "a \<in> set (workflow_actions f)"
    and "normalizePhoneForSend E (Some (textOr [] (rc_phone r))) DEFAULT_SEND_COUNTRY = Some number"
    and "textOr [] (rc_email r) \<noteq> []" and "conf E ''SMTP_HOST'' [] \<noteq> []"
  shows "knownAction a \<and>
    (let u = snd (actFor E now a t d r v); config = workflowAction_config a; email = textOr [] (rc_email r);
         filled = (\<lambda>k. if jtruthy (field config k) then resolveVars (jString (field config k)) (actionVars t d r) else []);
         mine = List.find (\<lambda>c. contact_tenantId c = t \<and> contact_phone c = Some (textOr [] (rc_phone r)));
         tag = trim (textOr [] (field config ''tag''));
         ch = toUpperCase (textOr ''SMS'' (field config ''channel''))
     in (workflowAction_type a = ''send_sms'' \<longrightarrow> handsOver v u SMS number (\<lambda>c. c = filled ''message'')) \<and>
        (workflowAction_type a = ''send_whatsapp'' \<longrightarrow> handsOver v u WHATSAPP number (\<lambda>c. c = filled ''message'')) \<and>
        (workflowAction_type a = ''send_voice'' \<longrightarrow> handsOver v u VOICE number
           (\<lambda>c. jtruthy (field d ''appointmentTitle'') \<or> jtruthy (field d ''appointmentId'') \<or> c = filled ''message'')) \<and>
        (workflowAction_type a = ''send_email'' \<longrightarrow> handsOver v u EMAIL email
           (\<lambda>c. \<exists>subject. c = subject @ [CHR 0x0A, CHR 0x0A] @ filled ''message'' \<and>
              (jtruthy (field config ''subject'') \<longrightarrow> subject = filled ''subject''))) \<and>
        (workflowAction_type a = ''request_review'' \<longrightarrow> handsOver v u SMS number
           (\<lambda>c. filled ''message'' \<noteq> [] \<longrightarrow> c = filled ''message'')) \<and>
        (workflowAction_type a = ''generate_ai_message'' \<longrightarrow>
           (if ch \<in> {''SMS'', ''VOICE'', ''EMAIL'', ''WHATSAPP''}
            then \<exists>c. channelName c = ch \<and> handsOver v u c (if c = EMAIL then email else number)
               (\<lambda>x. x = (if jtruthy (field config ''prompt'') then filled ''prompt'' else filled ''message''))
            else u = v)) \<and>
        (workflowAction_type a = ''add_tag'' \<longrightarrow> w_outbox u = w_outbox v \<and>
           (\<forall>c. mine (w_contacts v) = Some c \<and> tag \<noteq> [] \<longrightarrow> (\<exists>c'. mine (w_contacts u) = Some c' \<and>
              contact_id c' = contact_id c \<and>
              contact_tags c' = (if tag \<in> set (contact_tags c) then contact_tags c else contact_tags c @ [tag])))))"
proof -
  have "wellTyped w'" using assms(2,1) by (induction rule: rtranclp_induct) (auto intro: editing_typed)
  then have known: "knownAction a" using assms(3,4) by (auto simp: wellTyped_def knownFlow_def)
  have phone: "textOr [] (rc_phone r) \<noteq> []"
    using assms(5) by (auto simp: normalizePhoneForSend_def)
  have number: "sendTarget E q = Some number" if "sq_channel q \<noteq> EMAIL" "sq_to q = textOr [] (rc_phone r)" for q
    using that assms(5) by (simp add: sendTarget_def)
  have mail: "sendTarget E q = Some (textOr [] (rc_email r))"
    if "sq_channel q = EMAIL" "sq_to q = textOr [] (rc_email r)" for q
    using that by (simp add: sendTarget_def)
  note to = send_handsOver [OF number] send_handsOver [OF mail]
  have ai: "if ch \<in> {''SMS'', ''VOICE'', ''EMAIL'', ''WHATSAPP''}
      then \<exists>c. channelName c = ch \<and> handsOver v (snd (actFor E now a t d r v)) c
        (if c = EMAIL then textOr [] (rc_email r) else number) (\<lambda>x. x = body)
      else snd (actFor E now a t d r v) = v"
    if kind: "workflowAction_type a = ''generate_ai_message''"
      and ch: "ch = toUpperCase (textOr ''SMS'' (field (workflowAction_config a) ''channel''))"
      and body: "body = (let filled = (\<lambda>k. if jtruthy (field (workflowAction_config a) k)
          then resolveVars (jString (field (workflowAction_config a) k)) (actionVars t d r) else [])
        in if jtruthy (field (workflowAction_config a) ''prompt'') then filled ''prompt'' else filled ''message'')"
    for ch body
  proof (cases "channelNamed ch")
    case None
    then have "snd (actFor E now a t d r v) = v" unfolding actFor_generated [OF kind] Let_def ch by simp
    then show ?thesis using None unfolding channelNamed_None by simp
  next
    case (Some c)
    let ?to = "if c = EMAIL then textOr [] (rc_email r) else textOr [] (rc_phone r)"
    have c: "channelName c = ch" using Some channelNamed_iff by blast
    then have "(ch = ''EMAIL'') = (c = EMAIL)" by (cases c) auto
    then have "snd (actFor E now a t d r v) = snd (send E now (request t c ?to body) v)"
      using Some phone assms(6) unfolding actFor_generated [OF kind] Let_def ch body by auto
    then have "handsOver v (snd (actFor E now a t d r v)) c (if c = EMAIL then textOr [] (rc_email r) else number)
        (\<lambda>x. x = body)"
      by (auto simp: request_def assms(7) intro!: to)
    then show ?thesis using c channelNamed_None Some by (metis option.distinct(1))
  qed
  have tag: "w_outbox (snd (actFor E now a t d r v)) = w_outbox v \<and>
      (\<forall>c. List.find (\<lambda>c. contact_tenantId c = t \<and> contact_phone c = Some (textOr [] (rc_phone r))) (w_contacts v) = Some c \<and>
         tag \<noteq> [] \<longrightarrow> (\<exists>c'. List.find (\<lambda>c. contact_tenantId c = t \<and> contact_phone c = Some (textOr [] (rc_phone r)))
           (w_contacts (snd (actFor E now a t d r v))) = Some c' \<and> contact_id c' = contact_id c \<and>
         contact_tags c' = (if tag \<in> set (contact_tags c) then contact_tags c else contact_tags c @ [tag])))"
    if "workflowAction_type a = ''add_tag''" "tag = trim (textOr [] (field (workflowAction_config a) ''tag''))" for tag
    unfolding actFor_tag [OF that(1) phone] Let_def
    by (cases "tag = []") (simp_all add: that(2) [symmetric] addTag_contact)
  show ?thesis
    unfolding Let_def
    by (intro conjI impI known ai tag; (simp only: actFor_def Let_def)?)
       (auto simp: phone assms(6,7) request_def callData_def intro!: to split del: if_split)
qed

section \<open>Creating and editing\<close>

text \<open>What a request says of an action, and what a row says.\<close>

definition asked :: "WorkflowActionDto \<Rightarrow> int \<times> string \<times> json \<times> int \<times> workflowCondition list" where
  "asked d = (wa_stepOrder d, wa_type d, coalesce (wa_config d) (JObj []), coalesce (wa_delayMinutes d) 0,
     map conditionRow (coalesce (wa_conditions d) []))"

definition stored :: "workflowAction \<Rightarrow> int \<times> string \<times> json \<times> int \<times> workflowCondition list" where
  "stored a = (workflowAction_stepOrder a, workflowAction_type a, workflowAction_config a,
     workflowAction_delayMinutes a, workflowAction_conditions a)"

lemma createActions_stored: "map stored (fst (createActions as w)) = map asked as"
  by (induction as w rule: createActions.induct)
     (auto simp: stored_def asked_def actionRow_def split: prod.splits)

text \<open>
  C31: A created workflow reads back as it was asked for: name, description, state and trigger, and the
  actions with their configuration, delay and conditions, in the order of their step numbers, actions with
  the same number in the order of the request. That is for step numbers and delays of 32 bits, the size of
  their columns; with any other one in the request it is refused and nothing is stored.
\<close>

theorem created_workflow_reads_back:
  assumes "tenantExists t w" and "newId w \<notin> workflow_id ` set (w_workflows w)"
  shows "if \<exists>a \<in> set (cw_actions dto). wa_stepOrder a \<notin> {-(2 ^ 31)..<2 ^ 31} \<or>
       coalesce (wa_delayMinutes a) 0 \<notin> {-(2 ^ 31)..<2 ^ 31}
    then createWorkflow now t dto w = (Inl INT_OVERFLOW, w)
    else \<exists>v w'. createWorkflow now t dto w = (Inr v, w') \<and>
    findOneWorkflow t (workflow_id (wv_workflow v)) w' = Inr v \<and>
    workflow_name (wv_workflow v) = cw_name dto \<and> workflow_description (wv_workflow v) = cw_description dto \<and>
    workflow_isActive (wv_workflow v) = coalesce (cw_isActive dto) True \<and>
    workflow_triggerType (wv_workflow v) = Some (td_type (cw_trigger dto)) \<and>
    map stored (workflow_actions (wv_workflow v)) = order_asc fst (map asked (cw_actions dto))"
proof -
  let ?rows = "fst (createActions (cw_actions dto) (bump w))"
  have ordered: "map stored (order_asc workflowAction_stepOrder ?rows) = order_asc fst (map asked (cw_actions dto))"
  proof -
    have "workflowAction_stepOrder = (\<lambda>a. fst (stored a))" by (simp add: fun_eq_iff stored_def)
    then show ?thesis using map_order_asc [of stored fst ?rows] by (simp add: createActions_stored)
  qed
  note none = find_absent(2) [OF assms(2), where q = "\<lambda>f. workflow_tenantId f = t"]
  have fits: "(\<exists>a \<in> set (cw_actions dto). wa_stepOrder a \<notin> {-(2 ^ 31)..<2 ^ 31} \<or>
      coalesce (wa_delayMinutes a) 0 \<notin> {-(2 ^ 31)..<2 ^ 31}) \<longleftrightarrow> \<not> list_all storableAction (cw_actions dto)"
    by (auto simp: list_all_iff storableAction_def fitsInt_def)
  show ?thesis
    unfolding fits using assms(1) ordered
    by (simp add: createWorkflow_def case_prod_beta Let_def readA_def findOneWorkflow_def createActions_rows(3)
        bump_def find_append none sortedWorkflow_def orderedActions_def)
qed

text \<open>The steps of running executions when a workflow's actions are replaced.\<close>

text \<open>
  Editing a workflow drops the steps that are still waiting. Once its actions have been replaced, a
  queued step of an execution already running finds its action gone: it sends nothing and counts as
  skipped, and when it was the last one the execution is still reported as COMPLETED.
\<close>

theorem edited_actions_are_skipped:
  assumes "updateWorkflow t i dto w = (Inr v, w')" and "uw_actions dto = Some as"
    and "\<forall>f \<in> set (w_workflows w). workflow_id f \<noteq> i \<longrightarrow> fj_actionId j \<notin> workflowAction_id ` set (workflow_actions f)"
    and "\<forall>n \<ge> w_next w. w_uuid w n \<noteq> fj_actionId j"
    and "theExecution (fj_executionId j) w' = Some r"
  shows "w_outbox (snd (processJob E now j w')) = w_outbox w' \<and>
    (\<exists>r'. theExecution (fj_executionId j) (snd (processJob E now j w')) = Some r' \<and> stepsOf r' = stepsOf r + 1 \<and>
       workflowExecution_status r' = (if fj_isLastAction j then ''COMPLETED'' else workflowExecution_status r))"
proof -
  obtain view where "findOneWorkflow t i w = Inr view" and "list_all storableAction as"
    using assms(1,2) by (auto simp: updateWorkflow_def split: sum.splits if_splits)
  then have w': "w_workflows w' = update_where (\<lambda>x. workflow_id x = i)
      (\<lambda>x. (updateFields dto x)\<lparr>workflow_actions := fst (createActions as w)\<rparr>) (w_workflows w)"
    using assms(1,2)
    by (auto simp: updateWorkflow_def readA_def case_prod_beta Let_def putWorkflows_def createActions_rows(3))
  have fresh: "fj_actionId j \<notin> workflowAction_id ` set (fst (createActions as w))"
    using createActions_rows(2) [of as w] assms(4) by (fastforce simp: actionRow_def)
  have "fj_actionId j \<notin> workflowAction_id ` set (workflow_actions f)" if f: "f \<in> set (w_workflows w')" for f
  proof -
    obtain q where "q \<in> set (w_workflows w)" "f = (if workflow_id q = i
        then (updateFields dto q)\<lparr>workflow_actions := fst (createActions as w)\<rparr> else q)"
      using f unfolding w' set_update_where by blast
    then show ?thesis using fresh assms(3) by (cases "workflow_id q = i") simp_all
  qed
  then have "findAction (fj_actionId j) w' = None"
    unfolding findAction_def find_concat_None by (auto, metis image_eqI)
  then have run: "processJob E now j w' = skipAction now j w'" by (simp add: processJob_def)
  have "w_outbox (snd (skipAction now j w')) = w_outbox w'"
    unfolding skipAction_def
    by (rule snd_thenA)
       (auto simp: finishIfLast_def markExecutionComplete_def whenA_def updateExecution_def updateRow_def putExecutions_def)
  then show ?thesis
    using updateThenFinish [OF assms(5), where f = skippedOne and now = now]
    unfolding run skipAction_def by (auto simp: afterJob_def)
qed

section \<open>Details\<close>

text \<open>A window over midnight never opens.\<close>

lemma overnight_window_never_opens:
  assumes "split_on (\<lambda>c. c = CHR ''-'') value = [a, b]" and "a \<noteq> []" and "b \<noteq> []"
    and "clockMinutes a = Some x" and "clockMinutes b = Some y" and "y < x" and "operator \<noteq> ''outside''"
  shows "\<not> timeOfDay E now operator value"
  using assms by (auto simp: timeOfDay_def upTo_def)

lemma overnight_sample: "\<not> timeOfDay E now ''between'' ''22:00-06:00''"
  by (rule overnight_window_never_opens [where a = "''22:00''" and b = "''06:00''" and x = 1320 and y = 360])
     (code_simp | simp)+

text \<open>What the dashboard offers and the validation refuses, and the other way round.\<close>

lemma offered_but_refused:
  "filter (\<lambda>t. t \<notin> set TRIGGER_TYPES) (concat (map snd getSupportedTriggers)) =
     [''event_updated'', ''event_activated'', ''appointment_scheduled'']"
  "filter (\<lambda>t. t \<notin> set ACTION_TYPES) (concat (map snd getSupportedActions)) =
     [''remove_tag'', ''add_to_group'', ''remove_from_group'', ''log_activity'', ''webhook'']"
  "filter (\<lambda>v. v \<notin> fst ` set (actionVars t d r)) supported_variables =
     [''appointment_date'', ''appointment_time'', ''location'', ''event_id'', ''contact_id'']"
  by (simp_all add: TRIGGER_TYPES_def ACTION_TYPES_def getSupportedTriggers_def getSupportedActions_def
      supported_variables_def actionVars_def)

lemma rescheduled_never_accepted: "''appointment_rescheduled'' \<notin> set TRIGGER_TYPES"
  "''appointment_no_show'' \<notin> set TRIGGER_TYPES" "''rsvp_confirmed'' \<notin> set TRIGGER_TYPES"
  by (simp_all add: TRIGGER_TYPES_def)

text \<open>A tag added by an automation is on the contact's own list only, not in the tag links.\<close>

lemma automation_tag_not_linked: "w_contactTags (snd (executeAction E now a t d w)) = w_contactTags w"
  by simp

section \<open>A concrete automation\<close>

lemma show_nat_digits: "list_all is_digit (show_nat n)"
proof (induction n rule: less_induct)
  case (less n)
  have "list_all is_digit (show_nat (n div 10))" if "\<not> n < 10" using less that by simp
  moreover have "is_digit (digit_char k)" if "k < 10" for k
    using that by (simp add: digit_char_def is_digit_def char_code_def)
  ultimately show ?case by (subst show_nat.simps) simp
qed

definition demoReply :: json where
  "demoReply = JObj [(''contactId'', JStr ''k1'')]"

definition runningWorld :: world where
  "runningWorld = startExecution 0 ''t1'' ''rsvp_yes'' ''e1'' demoReply demoFlow flowWorld"

definition demoStep :: job where
  "demoStep = last (plannedJobs demoFlow ''0'' ''t1'' ''e1'' demoReply)"

lemma flowWorld_id [simp]: "newId flowWorld = ''0''"
  by code_simp

lemma demoFlow_actions: "workflow_actions demoFlow \<noteq> []"
  by code_simp

lemma running_row: "\<exists>r. theExecution ''0'' runningWorld = Some r \<and> stepsOf r = 0"
  using started_row [of flowWorld 0 "''t1''" "''rsvp_yes''" "''e1''" demoReply demoFlow]
  by (simp add: runningWorld_def) (simp add: flowWorld_def emptyWorld_def)

lemma running_returns: "fst (runJobs demoEnv [(5, readWorkflowJob demoStep)] runningWorld) = [True]"
  by code_simp

theorem execution_accounts_for_steps_witness:
  "\<exists>r. theExecution ''0'' (snd (runJobs demoEnv [(5, readWorkflowJob demoStep)] runningWorld)) = Some r \<and>
     stepsOf r = 1"
proof -
  obtain r where r: "theExecution ''0'' runningWorld = Some r" "stepsOf r = 0" using running_row by blast
  have "returnedSteps ''0'' [(5, readWorkflowJob demoStep)] [True] = 1" by code_simp
  then show ?thesis
    using execution_accounts_for_steps [OF r(1), of demoEnv "[(5, readWorkflowJob demoStep)]"] r(2)
    by (simp add: running_returns del: runJobs.simps)
qed

theorem started_automation_completes_witness:
  "\<exists>r. theExecution ''0'' (snd (runJobs demoEnv [(5, readWorkflowJob demoStep)] runningWorld)) = Some r \<and>
     workflowExecution_status r = ''COMPLETED''"
proof -
  have "newId flowWorld \<notin> workflowExecution_id ` set (w_workflowExecutions flowWorld)"
    by (simp add: flowWorld_def emptyWorld_def)
  moreover have "demoStep \<in> set (plannedJobs demoFlow (newId flowWorld) ''t1'' ''e1'' demoReply)"
    using last_planned_job(2) [OF demoFlow_actions] by (simp add: demoStep_def)
  moreover have "runJobs demoEnv (map (\<lambda>(now, j). (now, readWorkflowJob j)) [(5, demoStep)])
      (startExecution 0 ''t1'' ''rsvp_yes'' ''e1'' demoReply demoFlow flowWorld) =
      ([True], snd (runJobs demoEnv [(5, readWorkflowJob demoStep)] runningWorld))"
    using running_returns by (simp add: runningWorld_def prod_eq_iff del: runJobs.simps)
  ultimately show ?thesis
    using started_automation_completes [of flowWorld demoFlow "[(5, demoStep)]" "''t1''" "''e1''" demoReply demoEnv 0
      "''rsvp_yes''" "[True]" "snd (runJobs demoEnv [(5, readWorkflowJob demoStep)] runningWorld)"] demoFlow_actions
    by (auto simp: demoStep_def)
qed

theorem automation_respects_opt_out_witness:
  "\<exists>ms. w_outbox (snd (executeAction demoEnv 5 (hd (workflow_actions demoFlow)) ''t1'' demoReply (party []))) =
      w_outbox (party []) @ ms \<and>
    (\<forall>m \<in> set ms. \<exists>c \<in> set (w_contacts (party [])). \<not> contact_unsubscribed c \<and>
       addressedTo demoEnv (contactRecipient c) m)"
  by (rule automation_respects_opt_out) (simp add: demoReply_def)

definition confirmedData :: json where
  "confirmedData = statusEntity ''t1'' ''a1'' (demoAppointment 90) None"

definition confirmedJob :: WorkflowJob where
  "confirmedJob = (readWorkflowJob demoStep)\<lparr>fj_entityData := confirmedData\<rparr>"

theorem status_automations_reach_nobody_witness:
  "fst (processJob demoEnv 5 confirmedJob runningWorld) = Inr () \<and>
   w_outbox (snd (processJob demoEnv 5 confirmedJob runningWorld)) = []"
proof -
  obtain r where r: "theExecution ''0'' runningWorld = Some r" using running_row by blast
  have j: "fj_executionId confirmedJob = ''0''" "fj_entityData confirmedJob = confirmedData"
    "findAction (fj_actionId confirmedJob) runningWorld = Some (hd (workflow_actions demoFlow))"
    "workflowAction_conditions (hd (workflow_actions demoFlow)) = []" "w_outbox runningWorld = []"
    "w_contacts runningWorld = []"
    by code_simp+
  have "statusChangeData (demoAppointment 90) confirmedData"
    unfolding statusChangeData_def confirmedData_def by blast
  moreover have "appointment_customerId (demoAppointment 90) = Some ''c1''" by (simp add: demoAppointment_def)
  ultimately show ?thesis
    using status_automations_reach_nobody [of "demoAppointment 90" confirmedJob "''c1''" runningWorld r
      "hd (workflow_actions demoFlow)" demoEnv 5] r j
    by (auto simp: evaluateConditions_def putExecutions_def)
qed

definition demoCreate :: CreateWorkflowDto where
  "demoCreate = \<lparr>cw_name = ''thanks'', cw_description = None, cw_isActive = None,
     cw_trigger = \<lparr>td_type = ''rsvp_yes'', td_config = None\<rparr>,
     cw_actions = [\<lparr>wa_stepOrder = 2, wa_type = ''send_sms'', wa_config = Some (JObj [(''message'', JStr ''Bye'')]),
         wa_delayMinutes = Some 60, wa_conditions = None\<rparr>,
       \<lparr>wa_stepOrder = 1, wa_type = ''send_email'', wa_config = None, wa_delayMinutes = None,
         wa_conditions = Some [\<lparr>cd_conditionType = ''event_status_is'', cd_operator = None, cd_value = ''ACTIVE''\<rparr>]\<rparr>]\<rparr>"

definition demoOffice :: world where
  "demoOffice = demoWorld [demoTenant PLAN_SMS ACTIVE False 0]"

theorem stored_actions_carried_out_witness:
  "\<exists>f a. f \<in> set (w_workflows (snd (createWorkflow 3 ''t1'' demoCreate demoOffice))) \<and> a \<in> set (workflow_actions f) \<and>
     length (w_outbox (snd (actFor mailEnv 5 a ''t1'' demoReply
       \<lparr>rc_phone = Some (JStr ''+15550001111''), rc_email = Some (JStr ''ada@example.com''), rc_name = None\<rparr> demoOffice))) = 1"
proof -
  let ?w' = "snd (createWorkflow 3 ''t1'' demoCreate demoOffice)"
  let ?f = "hd (w_workflows ?w')"
  let ?a = "hd (workflow_actions ?f)"
  let ?r = "\<lparr>rc_phone = Some (JStr ''+15550001111''), rc_email = Some (JStr ''ada@example.com''), rc_name = None\<rparr>"
  have v: "validCreate demoCreate" by code_simp
  have t: "wellTyped demoOffice" by (simp add: wellTyped_def demoOffice_def demoWorld_def emptyWorld_def)
  have e: "editing\<^sup>*\<^sup>* demoOffice ?w'" using v by (intro r_into_rtranclp editing.intros)
  have "w_workflows ?w' \<noteq> []" "workflow_actions ?f \<noteq> []" "workflowAction_type ?a = ''send_sms''"
    by code_simp+
  then have mem: "?f \<in> set (w_workflows ?w')" "?a \<in> set (workflow_actions ?f)" by simp_all
  have p: "normalizePhoneForSend mailEnv (Some (textOr [] (rc_phone ?r))) DEFAULT_SEND_COUNTRY = Some ''+15550001111''"
    "textOr [] (rc_email ?r) \<noteq> []" "conf mailEnv ''SMTP_HOST'' [] \<noteq> []" "w_outbox demoOffice = []"
    by code_simp+
  have "length (w_outbox (snd (actFor mailEnv 5 ?a ''t1'' demoReply ?r demoOffice))) = 1"
    using stored_actions_carried_out [OF t e mem p(1-3), of 5 "''t1''" demoReply demoOffice]
      \<open>workflowAction_type ?a = ''send_sms''\<close> p(4) by (auto simp: Let_def handsOver_def)
  then show ?thesis using mem by blast
qed

theorem created_workflow_reads_back_witness:
  "\<exists>v w'. createWorkflow 3 ''t1'' demoCreate demoOffice = (Inr v, w') \<and>
     map (\<lambda>a. workflowAction_type a) (workflow_actions (wv_workflow v)) = [''send_email'', ''send_sms'']"
proof -
  have p: "tenantExists ''t1'' demoOffice" "newId demoOffice \<notin> workflow_id ` set (w_workflows demoOffice)"
    by (simp_all add: demoOffice_def) (simp add: demoWorld_def emptyWorld_def)
  have o: "map (\<lambda>x. fst (snd x)) (order_asc fst (map asked (cw_actions demoCreate))) = [''send_email'', ''send_sms'']"
    by code_simp
  obtain v w' where v: "createWorkflow 3 ''t1'' demoCreate demoOffice = (Inr v, w')"
    "map stored (workflow_actions (wv_workflow v)) = order_asc fst (map asked (cw_actions demoCreate))"
    using created_workflow_reads_back [OF p, of demoCreate 3] by (auto simp: demoCreate_def)
  have "map (\<lambda>x. fst (snd x)) (map stored (workflow_actions (wv_workflow v))) =
      map (\<lambda>a. workflowAction_type a) (workflow_actions (wv_workflow v))"
    by (simp add: stored_def)
  then show ?thesis using v o by metis
qed

definition noActions :: UpdateWorkflowDto where
  "noActions = \<lparr>uw_name = None, uw_description = None, uw_isActive = None, uw_trigger = None, uw_actions = Some []\<rparr>"

theorem edited_actions_are_skipped_witness:
  "w_outbox (snd (processJob demoEnv 5 (readWorkflowJob demoStep)
     (snd (updateWorkflow ''t1'' ''f1'' noActions runningWorld)))) = []"
proof -
  let ?w' = "snd (updateWorkflow ''t1'' ''f1'' noActions runningWorld)"
  obtain v where v: "updateWorkflow ''t1'' ''f1'' noActions runningWorld = (Inr v, ?w')"
  proof -
    have "is_ok (fst (updateWorkflow ''t1'' ''f1'' noActions runningWorld))" by code_simp
    then show thesis using that by (metis is_okE)
  qed
  have w: "w_workflows runningWorld = [demoFlow]" "w_next runningWorld = 1"
    "fj_actionId (readWorkflowJob demoStep) = ''x1''" "fj_executionId (readWorkflowJob demoStep) = ''0''"
    "workflow_id demoFlow = ''f1''" "w_outbox ?w' = []"
    by code_simp+
  have "theExecution ''0'' ?w' \<noteq> None" by code_simp
  then obtain r where r: "theExecution ''0'' ?w' = Some r" by blast
  have "w_uuid runningWorld = show_nat"
    using arg_cong [OF startExecution_frame, of w_uuid] by (simp add: runningWorld_def flowWorld_def emptyWorld_def)
  moreover have "show_nat n \<noteq> ''x1''" for n
    using show_nat_digits [of n] by (auto simp: is_digit_def char_code_def)
  ultimately have fresh: "\<forall>n \<ge> w_next runningWorld. w_uuid runningWorld n \<noteq> ''x1''" by simp
  then show ?thesis
    using edited_actions_are_skipped [OF v, of "[]" "readWorkflowJob demoStep" r demoEnv 5] w r fresh
    by (simp add: noActions_def)
qed

end
