(* ===== verification/Event_Automations.thy ===== *)
theory Event_Automations
  imports Workflow_Actions Events Billing_Endpoints
begin

text \<open>
  \<open>workers/workflow.worker.ts\<close>: what an event's automation settings do after a reply: the location of
  the event as a reminder job, and the incentive with its coupon code. BullMQ keeps a finished job's id
  as this queue is configured; \<open>kept\<close> are the ids of the reminder queue's jobs that are no longer waiting.
\<close>

section \<open>First occurrences\<close>

text \<open>
  \<open>s.replace(pattern, r)\<close> with a string pattern: the first occurrence only, and \<open>$\<close> patterns in the
  replacement stand for the dollar sign, the match and what is around it.
\<close>

fun expandDollar :: "string \<Rightarrow> string \<Rightarrow> string \<Rightarrow> string \<Rightarrow> string" where
  "expandDollar pre m post (c # k # r) =
     (if c = CHR ''$''
      then if k = CHR ''$'' then CHR ''$'' # expandDollar pre m post r
           else if k = CHR ''&'' then m @ expandDollar pre m post r
           else if char_code k = 96 then pre @ expandDollar pre m post r
           else if char_code k = 39 then post @ expandDollar pre m post r
           else c # expandDollar pre m post (k # r)
      else c # expandDollar pre m post (k # r))"
| "expandDollar pre m post r = r"

fun replaceFirst :: "string \<Rightarrow> string \<Rightarrow> string \<Rightarrow> string \<Rightarrow> string" where
  "replaceFirst pat r pre [] = (if pat = [] then expandDollar (rev pre) [] [] r else [])"
| "replaceFirst pat r pre (c # s) =
     (if prefix pat (c # s)
      then (let post = drop (length pat) (c # s) in expandDollar (rev pre) pat post r @ post)
      else c # replaceFirst pat r (c # pre) s)"

definition replaceOnce :: "string \<Rightarrow> string \<Rightarrow> string \<Rightarrow> string" where
  "replaceOnce s pat r = replaceFirst pat r [] s"

section \<open>Reminders after a reply\<close>

datatype FollowUp = send_location | send_reminder | send_followup

fun followUpName :: "FollowUp \<Rightarrow> string" where
  "followUpName send_location = ''send_location''"
| "followUpName send_reminder = ''send_reminder''"
| "followUpName send_followup = ''send_followup''"

definition quoted :: "string \<Rightarrow> string" where
  "quoted s = [CHR 0x22] @ s @ [CHR 0x22]"

definition buildReminderContent :: "(instant \<Rightarrow> string) \<Rightarrow> FollowUp \<Rightarrow> event \<Rightarrow> contact \<Rightarrow> string" where
  "buildReminderContent localeText kind ev c =
     (case kind of
        send_location \<Rightarrow> ''Hi '' @ contact_name c @ ''! Your attendance at '' @ quoted (event_title ev) @ '' is '' @
          ''confirmed. Location: '' @ coalesce (event_location ev) ''null''
      | send_reminder \<Rightarrow> ''Hi '' @ contact_name c @ '', we haven'' @ [CHR 0x27] @ ''t heard from you about '' @
          quoted (event_title ev) @ '' on '' @ localeText (event_startTime ev) @ ''.''
      | send_followup \<Rightarrow> ''Hi '' @ contact_name c @ '', thank you for attending '' @ quoted (event_title ev) @ ''. '' @
          ''We'' @ [CHR 0x27] @ ''d love to hear how it went.'')"

definition followUpJobId :: "uuid \<Rightarrow> uuid \<Rightarrow> FollowUp \<Rightarrow> string" where
  "followUpJobId eventId contactId kind =
     ''wf-rem-'' @ eventId @ ''-'' @ contactId @ ''-'' @ followUpName kind"

definition followUpKnown :: "string list \<Rightarrow> string \<Rightarrow> world \<Rightarrow> bool" where
  "followUpKnown kept i w = (i \<in> set kept \<or> list_ex (\<lambda>j. job_queue j = REMINDER_QUEUE \<and> job_id j = i) (w_jobs w))"

definition theEvent :: "uuid \<Rightarrow> world \<Rightarrow> event option" where
  "theEvent i w = List.find (\<lambda>e. event_id e = i) (w_events w)"

definition theContact :: "uuid \<Rightarrow> world \<Rightarrow> contact option" where
  "theContact i w = List.find (\<lambda>c. contact_id c = i) (w_contacts w)"

definition followUpReminder ::
  "instant \<Rightarrow> uuid \<Rightarrow> uuid \<Rightarrow> uuid \<Rightarrow> string \<Rightarrow> uuid \<Rightarrow> reminder" where
  "followUpReminder now tenantId eventId contactId content i =
     \<lparr>reminder_id = i, reminder_tenantId = tenantId, reminder_appointmentId = None,
      reminder_reminderRuleId = None, reminder_channel = SMS, reminder_scheduledSendTime = now,
      reminder_status = R_PENDING, reminder_messageContent = Some content, reminder_contactId = Some contactId,
      reminder_eventId = Some eventId, reminder_sentAt = None\<rparr>"

definition enqueueReminderJob ::
  "(instant \<Rightarrow> string) \<Rightarrow> string list \<Rightarrow> instant \<Rightarrow> uuid \<Rightarrow> uuid \<Rightarrow> uuid \<Rightarrow> FollowUp \<Rightarrow> unit act" where
  "enqueueReminderJob localeText kept now tenantId eventId contactId kind w =
     (let i = followUpJobId eventId contactId kind
      in if followUpKnown kept i w then (Inr (), w)
         else case (theEvent eventId w, theContact contactId w) of
           (Some ev, Some c) \<Rightarrow>
             if \<not> truthy (contact_phone c) then (Inr (), w)
             else if kind = send_location \<and> \<not> truthy (event_location ev) then (Inr (), w)
             else if \<not> tenantExists tenantId w then (Inl (PrismaError ''P2003''), w)
             else let r = followUpReminder now tenantId eventId contactId
                        (buildReminderContent localeText kind ev c) (newId w)
                  in (Inr (), addJob \<lparr>job_queue = REMINDER_QUEUE, job_id = i, job_name = followUpName kind,
                                     job_data = ReminderJobData r None, job_delay = 0\<rparr>
                       (bump (w\<lparr>w_reminders := w_reminders w @ [r]\<rparr>)))
         | _ \<Rightarrow> (Inr (), w))"

section \<open>The incentive\<close>

definition pairRow :: "uuid \<Rightarrow> uuid \<Rightarrow> eventParticipant \<Rightarrow> bool" where
  "pairRow eventId contactId p =
     (eventParticipant_eventId p = eventId \<and> eventParticipant_contactId p = contactId)"

definition couponSent :: "uuid \<Rightarrow> uuid \<Rightarrow> world \<Rightarrow> bool" where
  "couponSent eventId contactId w =
     (case List.find (pairRow eventId contactId) (w_eventParticipants w) of
        None \<Rightarrow> False
      | Some p \<Rightarrow> eventParticipant_couponSentAt p \<noteq> None)"

definition orNullText :: "string option \<Rightarrow> string" where
  "orNullText s = coalesce s ''null''"

definition incentiveText :: "event \<Rightarrow> contact \<Rightarrow> string \<Rightarrow> string" where
  "incentiveText ev c code =
     (if truthy (event_incentiveMessage ev)
      then replaceOnce (replaceOnce (replaceOnce (the (event_incentiveMessage ev)) ''{{name}}'' (contact_name c))
             ''{{code}}'' code) ''{{value}}'' (coalesce (event_incentiveValue ev) [])
      else if event_incentiveType ev = Some ''cashback''
      then ''Hi '' @ contact_name c @ ''! You have earned a '' @ orNullText (event_incentiveValue ev) @
           '' cashback reward for '' @ ''confirming attendance at '' @ event_title ev @ ''. '' @ ''Reference: '' @ code
      else if event_incentiveType ev = Some ''discount''
      then ''Hi '' @ contact_name c @ ''! You have earned a '' @ orNullText (event_incentiveValue ev) @
           '' discount for confirming '' @ ''your attendance at '' @ event_title ev @ ''. '' @ ''Show this code: '' @ code
      else [])"

definition markCouponSent :: "instant \<Rightarrow> uuid \<Rightarrow> uuid \<Rightarrow> string \<Rightarrow> world \<Rightarrow> world" where
  "markCouponSent now eventId contactId code w =
     putEventParticipants (update_where (pairRow eventId contactId)
       (\<lambda>p. p\<lparr>eventParticipant_couponCode := Some code, eventParticipant_couponSentAt := Some now\<rparr>)
       (w_eventParticipants w)) w"

definition sendIncentive :: "env \<Rightarrow> instant \<Rightarrow> uuid \<Rightarrow> uuid \<Rightarrow> unit act" where
  "sendIncentive E now eventId contactId w =
     (case theEvent eventId w of
        None \<Rightarrow> (Inr (), w)
      | Some ev \<Rightarrow>
          if \<not> truthy (event_incentiveType ev) \<or> event_incentiveType ev = Some ''none'' then (Inr (), w)
          else if couponSent eventId contactId w then (Inr (), w)
          else (case theContact contactId w of
              None \<Rightarrow> (Inr (), w)
            | Some c \<Rightarrow>
                if \<not> truthy (contact_phone c) then (Inr (), w)
                else let code = couponCode E eventId contactId
                     in thenA (sendTo E now (request (contact_tenantId c) SMS (the (contact_phone c))
                                  (incentiveText ev c code)))
                          (modifyA (markCouponSent now eventId contactId code)) w))"

section \<open>One job\<close>

record EventWorkflowJob =
  ew_tenantId :: uuid
  ew_triggerType :: string
  ew_contactId :: uuid
  ew_eventId :: uuid

definition readEventWorkflowJob :: "job \<Rightarrow> EventWorkflowJob" where
  "readEventWorkflowJob j =
     (let d = job_data j
      in \<lparr>ew_tenantId = jString (field d ''tenantId''), ew_triggerType = jString (field d ''triggerType''),
          ew_contactId = jString (field d ''contactId''), ew_eventId = jString (field d ''eventId'')\<rparr>)"

definition processEventWorkflow ::
  "env \<Rightarrow> (instant \<Rightarrow> string) \<Rightarrow> string list \<Rightarrow> instant \<Rightarrow> EventWorkflowJob \<Rightarrow> unit act" where
  "processEventWorkflow E localeText kept now j w =
     (let e = ew_eventId j; c = ew_contactId j; t = ew_tenantId j; trig = ew_triggerType j;
          enqueue = enqueueReminderJob localeText kept now t e c
      in case List.find (\<lambda>a. eventAutomation_eventId a = e) (w_eventAutomations w) of
           None \<Rightarrow> (Inr (), w)
         | Some a \<Rightarrow>
             if trig = ''rsvp_confirmed''
             then thenA (whenA (eventAutomation_sendLocationOnConfirm a) (enqueue send_location))
                    (sendIncentive E now e c) w
             else if trig = ''rsvp_no_response''
             then whenA (eventAutomation_remindNonResponders a) (enqueue send_reminder) w
             else if trig = ''event_completed''
             then whenA (eventAutomation_sendFollowupAfter a) (enqueue send_followup) w
             else (Inr (), w))"

section \<open>A repeated reply\<close>

lemma find_marked:
  "List.find (pairRow e c) (update_where (pairRow e c) f ps) =
     map_option f (List.find (pairRow e c) ps)"
  if "\<And>p. pairRow e c (f p) = pairRow e c p"
  using that by (induction ps) auto

lemma couponSent_marked:
  assumes "\<exists>p \<in> set (w_eventParticipants w). pairRow e c p"
  shows "couponSent e c (markCouponSent now e c code w)"
proof -
  obtain p where "List.find (pairRow e c) (w_eventParticipants w) = Some p"
    using assms by (cases "List.find (pairRow e c) (w_eventParticipants w)") (auto simp: find_None_iff)
  then show ?thesis
    by (simp add: couponSent_def markCouponSent_def find_marked pairRow_def)
qed

text \<open>What the incentive may touch: the messages and their logs, and the participants.\<close>

abbreviation incentiveParts :: "world \<Rightarrow> world" where
  "incentiveParts w \<equiv> (messagingParts w)\<lparr>w_eventParticipants := []\<rparr>"

lemma keeps_sendTo_parts:
  "keeps (\<lambda>w. incentiveParts w = v) (sendTo E now q)"
proof (rule keepsI)
  fix w :: world assume "incentiveParts w = v"
  moreover have "(messagingParts (snd (send E now q w)))\<lparr>w_eventParticipants := []\<rparr> =
      (messagingParts w)\<lparr>w_eventParticipants := []\<rparr>"
    using send_parts [of E now q w] by (rule arg_cong)
  ultimately show "incentiveParts (snd (sendTo E now q w)) = v" by simp
qed

lemma sendIncentive_parts: "incentiveParts (snd (sendIncentive E now e c w)) = incentiveParts w"
proof -
  have "keeps (\<lambda>w. incentiveParts w = v) (thenA (sendTo E now q) (modifyA (markCouponSent now e c code)))"
    for q code v
    by (intro keeps_thenA keeps_sendTo_parts keepsI) (simp add: markCouponSent_def)
  from keepsD [OF this] show ?thesis
    by (simp add: sendIncentive_def Let_def split: option.split)
qed

lemma sendIncentive_frame:
  "w_jobs (snd (sendIncentive E now e c w)) = w_jobs w"
  "w_events (snd (sendIncentive E now e c w)) = w_events w"
  "w_contacts (snd (sendIncentive E now e c w)) = w_contacts w"
  "w_reminders (snd (sendIncentive E now e c w)) = w_reminders w"
  "w_eventAutomations (snd (sendIncentive E now e c w)) = w_eventAutomations w"
  using arg_cong [OF sendIncentive_parts [of E now e c w], of w_jobs]
    arg_cong [OF sendIncentive_parts [of E now e c w], of w_events]
    arg_cong [OF sendIncentive_parts [of E now e c w], of w_contacts]
    arg_cong [OF sendIncentive_parts [of E now e c w], of w_reminders]
    arg_cong [OF sendIncentive_parts [of E now e c w], of w_eventAutomations] by simp_all

text \<open>When the two operations have something to do; done, they have nothing left to do.\<close>

definition incentiveDue :: "uuid \<Rightarrow> uuid \<Rightarrow> world \<Rightarrow> bool" where
  "incentiveDue e c w = (\<not> couponSent e c w \<and>
     (\<exists>ev. theEvent e w = Some ev \<and> truthy (event_incentiveType ev) \<and> event_incentiveType ev \<noteq> Some ''none'') \<and>
     (\<exists>k. theContact c w = Some k \<and> truthy (contact_phone k)))"

lemma incentive_not_due: "\<not> incentiveDue e c w \<Longrightarrow> sendIncentive E now e c w = (Inr (), w)"
  by (auto simp: sendIncentive_def incentiveDue_def split: option.split)

lemma incentive_done:
  assumes "fst (sendIncentive E now e c w) = Inr ()" and "\<exists>p \<in> set (w_eventParticipants w). pairRow e c p"
  shows "\<not> incentiveDue e c (snd (sendIncentive E now e c w))"
proof (cases "incentiveDue e c w")
  case True
  then obtain q code where run: "sendIncentive E now e c w =
      thenA (sendTo E now q) (modifyA (markCouponSent now e c code)) w"
    by (auto simp: sendIncentive_def incentiveDue_def Let_def)
  obtain u where u: "sendTo E now q w = (Inr (), u)"
    using assms(1) run by (cases "sendTo E now q w"; cases "fst (sendTo E now q w)") auto
  have "w_eventParticipants u = w_eventParticipants w"
    using sendTo_world [of E now q w] u by (metis send_other(10) snd_conv)
  then have "couponSent e c (snd (sendIncentive E now e c w))"
    using couponSent_marked [of u] assms(2) u run by simp
  then show ?thesis by (simp add: incentiveDue_def)
qed (simp add: incentive_not_due)

definition followUpDue :: "string list \<Rightarrow> uuid \<Rightarrow> uuid \<Rightarrow> FollowUp \<Rightarrow> world \<Rightarrow> bool" where
  "followUpDue kept e c kind w = (\<not> followUpKnown kept (followUpJobId e c kind) w \<and>
     (\<exists>ev. theEvent e w = Some ev \<and> (kind = send_location \<longrightarrow> truthy (event_location ev))) \<and>
     (\<exists>k. theContact c w = Some k \<and> truthy (contact_phone k)))"

lemma followUp_not_due:
  "\<not> followUpDue kept e c kind w \<Longrightarrow> enqueueReminderJob loc kept now t e c kind w = (Inr (), w)"
  by (auto simp: enqueueReminderJob_def followUpDue_def Let_def split: option.split)

lemma followUp_done:
  assumes "fst (enqueueReminderJob loc kept now t e c kind w) = Inr ()"
  shows "\<not> followUpDue kept e c kind (snd (enqueueReminderJob loc kept now t e c kind w))"
proof (cases "followUpDue kept e c kind w")
  case True
  then show ?thesis
    using assms by (auto simp: enqueueReminderJob_def followUpDue_def Let_def addJob_def followUpKnown_def
        split: option.splits if_splits)
qed (simp add: followUp_not_due)

lemma enqueue_frame:
  "w_eventParticipants (snd (enqueueReminderJob loc kept now t e c kind w)) = w_eventParticipants w"
  "w_eventAutomations (snd (enqueueReminderJob loc kept now t e c kind w)) = w_eventAutomations w"
  "w_events (snd (enqueueReminderJob loc kept now t e c kind w)) = w_events w"
  "w_contacts (snd (enqueueReminderJob loc kept now t e c kind w)) = w_contacts w"
  "w_outbox (snd (enqueueReminderJob loc kept now t e c kind w)) = w_outbox w"
  by (auto simp: enqueueReminderJob_def Let_def addJob_def bump_def split: option.split)

text \<open>A reminder job the queue still knows, waiting or finished.\<close>

definition jobsKnown :: "string list \<Rightarrow> world \<Rightarrow> string list \<Rightarrow> job list \<Rightarrow> bool" where
  "jobsKnown kept w kept' js = (\<forall>i. followUpKnown kept i w \<longrightarrow>
     i \<in> set kept' \<or> (\<exists>j \<in> set js. job_queue j = REMINDER_QUEUE \<and> job_id j = i))"

lemma followUpDue_later:
  "jobsKnown kept w kept' js \<Longrightarrow> \<not> followUpDue kept e c kind w \<Longrightarrow> \<not> followUpDue kept' e c kind (w\<lparr>w_jobs := js\<rparr>)"
  by (auto simp: followUpDue_def jobsKnown_def followUpKnown_def list_ex_iff theEvent_def theContact_def)

lemma incentiveDue_later: "incentiveDue e c (w\<lparr>w_jobs := js\<rparr>) = incentiveDue e c w"
  by (simp add: incentiveDue_def couponSent_def theEvent_def theContact_def)

lemma followUpDue_incentive:
  "followUpDue kept e' c' kind (snd (sendIncentive E now e c w)) = followUpDue kept e' c' kind w"
  by (simp add: followUpDue_def followUpKnown_def theEvent_def theContact_def sendIncentive_frame)

text \<open>
  A repeated reply changes nothing. Once a participant's event job has been processed without an
  error, processing it again at any later time leaves the whole state as it is: no second reminder row,
  no second job and no second coupon, as long as the queue still knows the jobs of the first time, be
  they waiting or finished.
\<close>

theorem repeated_reply_changes_nothing:
  assumes "processEventWorkflow E loc kept now j w = (Inr (), w1)"
    and "\<exists>p \<in> set (w_eventParticipants w). pairRow (ew_eventId j) (ew_contactId j) p"
    and "jobsKnown kept w1 kept' js"
  shows "processEventWorkflow E loc kept' now' j (w1\<lparr>w_jobs := js\<rparr>) = (Inr (), w1\<lparr>w_jobs := js\<rparr>)"
proof -
  let ?e = "ew_eventId j" and ?c = "ew_contactId j" and ?t = "ew_tenantId j"
  let ?enq = "enqueueReminderJob loc kept now ?t ?e ?c"
  let ?find = "\<lambda>v. List.find (\<lambda>a. eventAutomation_eventId a = ?e) (w_eventAutomations v)"
  have once: "\<not> followUpDue kept ?e ?c kind w1" if "whenA b (?enq kind) w = (Inr (), w1)" b for b kind
    using followUp_done [of loc kept now ?t ?e ?c kind w] that by simp
  show ?thesis
  proof (cases "?find w")
    case None
    then show ?thesis using assms(1) by (simp add: processEventWorkflow_def Let_def)
  next
    case (Some a)
    consider (yes) "ew_triggerType j = ''rsvp_confirmed''" | (none) "ew_triggerType j = ''rsvp_no_response''"
      | (over) "ew_triggerType j = ''event_completed''"
      | (other) "ew_triggerType j \<notin> {''rsvp_confirmed'', ''rsvp_no_response'', ''event_completed''}"
      by auto
    then show ?thesis
    proof cases
      case yes
      let ?b = "eventAutomation_sendLocationOnConfirm a"
      have run: "thenA (whenA ?b (?enq send_location)) (sendIncentive E now ?e ?c) w = (Inr (), w1)"
        using assms(1) Some yes by (simp add: processEventWorkflow_def Let_def)
      obtain u where u: "whenA ?b (?enq send_location) w = (Inr (), u)"
        using run by (cases "whenA ?b (?enq send_location) w"; cases "fst (whenA ?b (?enq send_location) w)") auto
      have s: "sendIncentive E now ?e ?c u = (Inr (), w1)" using run u by simp
      have frame: "w_eventParticipants u = w_eventParticipants w" "w_eventAutomations u = w_eventAutomations w"
        using u enqueue_frame [of loc kept now ?t ?e ?c send_location w] by (cases ?b; simp)+
      have coupon: "\<not> incentiveDue ?e ?c w1"
        using incentive_done [of E now ?e ?c u] s frame(1) assms(2) by simp
      have loc: "\<not> followUpDue kept ?e ?c send_location w1" if ?b
        using followUp_done [of loc kept now ?t ?e ?c send_location w] u that s
          followUpDue_incentive [of kept ?e ?c send_location E now ?e ?c u] by simp
      have "?find (w1\<lparr>w_jobs := js\<rparr>) = Some a"
        using Some frame(2) sendIncentive_frame(5) [of E now ?e ?c u] s by simp
      moreover have "whenA ?b (enqueueReminderJob loc kept' now' ?t ?e ?c send_location) (w1\<lparr>w_jobs := js\<rparr>) =
          (Inr (), w1\<lparr>w_jobs := js\<rparr>)"
        using followUp_not_due [OF followUpDue_later [OF assms(3) loc]] by (cases ?b) simp_all
      ultimately show ?thesis
        using yes coupon incentive_not_due [of ?e ?c "w1\<lparr>w_jobs := js\<rparr>" E now']
        by (simp add: processEventWorkflow_def Let_def incentiveDue_later)
    next
      case none
      let ?b = "eventAutomation_remindNonResponders a"
      have run: "whenA ?b (?enq send_reminder) w = (Inr (), w1)"
        using assms(1) Some none by (simp add: processEventWorkflow_def Let_def)
      have "?find (w1\<lparr>w_jobs := js\<rparr>) = Some a"
        using Some run enqueue_frame(2) [of loc kept now ?t ?e ?c send_reminder w] by (cases ?b) simp_all
      then show ?thesis
        using none followUp_not_due [OF followUpDue_later [OF assms(3) once [OF run]]]
        by (cases ?b) (simp_all add: processEventWorkflow_def Let_def)
    next
      case over
      let ?b = "eventAutomation_sendFollowupAfter a"
      have run: "whenA ?b (?enq send_followup) w = (Inr (), w1)"
        using assms(1) Some over by (simp add: processEventWorkflow_def Let_def)
      have "?find (w1\<lparr>w_jobs := js\<rparr>) = Some a"
        using Some run enqueue_frame(2) [of loc kept now ?t ?e ?c send_followup w] by (cases ?b) simp_all
      then show ?thesis
        using over followUp_not_due [OF followUpDue_later [OF assms(3) once [OF run]]]
        by (cases ?b) (simp_all add: processEventWorkflow_def Let_def)
    next
      case other
      then show ?thesis using assms(1) Some by (simp add: processEventWorkflow_def Let_def)
    qed
  qed
qed

text \<open>
  A coupon that was never delivered counts as sent. When the contact's number cannot be brought into
  E.164 form nothing is handed to a provider, yet the participant is marked with code and time of the
  coupon, so no later reply sends it again.
\<close>

theorem undelivered_coupon_counts_as_sent:
  assumes "incentiveDue e c w" and "theContact c w = Some k"
    and "normalizePhoneForSend E (contact_phone k) DEFAULT_SEND_COUNTRY = None"
    and "\<exists>p \<in> set (w_eventParticipants w). pairRow e c p"
  shows "fst (sendIncentive E now e c w) = Inr () \<and> w_outbox (snd (sendIncentive E now e c w)) = w_outbox w \<and>
    couponSent e c (snd (sendIncentive E now e c w)) \<and>
    sendIncentive E now' e c (snd (sendIncentive E now e c w)) = (Inr (), snd (sendIncentive E now e c w))"
proof -
  obtain q code where q: "sq_to q = the (contact_phone k)" "sq_channel q = SMS"
    and run: "sendIncentive E now e c w = thenA (sendTo E now q) (modifyA (markCouponSent now e c code)) w"
  proof -
    obtain ev where "sendIncentive E now e c w = thenA (sendTo E now (request (contact_tenantId k) SMS
        (the (contact_phone k)) (incentiveText ev k (couponCode E e c)))) (modifyA (markCouponSent now e c (couponCode E e c))) w"
      using assms(1,2) by (auto simp: sendIncentive_def incentiveDue_def Let_def)
    then show thesis
      by (rule that [of "request (contact_tenantId k) SMS (the (contact_phone k)) (incentiveText ev k (couponCode E e c))",
            rotated 2]) (simp_all add: request_def)
  qed
  have "truthy (contact_phone k)" using assms(1,2) by (auto simp: incentiveDue_def)
  then have "sendTarget E q = None"
    using q assms(3) by (cases "contact_phone k") (auto simp: sendTarget_def)
  then obtain o' u where u: "send E now q w = (Inr o', u)" "w_outbox u = w_outbox w"
    using send_invalid [of E q now w] by (metis prod.collapse)
  have s: "sendTo E now q w = (Inr (), u)" using u by (simp add: sendTo_def)
  have p: "w_eventParticipants u = w_eventParticipants w" using send_other(10) [of E now q w] u by simp
  have finished: "sendIncentive E now e c w = (Inr (), markCouponSent now e c code u)"
    using run s by simp
  have sent: "couponSent e c (markCouponSent now e c code u)"
    using couponSent_marked [of u] p assms(4) by simp
  then have "\<not> incentiveDue e c (markCouponSent now e c code u)" by (simp add: incentiveDue_def)
  then show ?thesis
    using finished sent u(2) incentive_not_due by (simp add: markCouponSent_def)
qed

section \<open>A concrete incentive\<close>

definition gala :: "string \<Rightarrow> world" where
  "gala phone = (party [invited ''p1'' ''e1'' P_confirmed])\<lparr>
     w_contacts := [demoContact\<lparr>contact_phone := Some phone\<rparr>],
     w_events := [(demoEvent ''e1'' 9000)\<lparr>event_location := Some ''Hall 2'', event_incentiveType := Some ''discount'',
        event_incentiveValue := Some ''10%''\<rparr>],
     w_eventAutomations := [\<lparr>eventAutomation_id = ''u1'', eventAutomation_tenantId = ''t1'',
        eventAutomation_eventId = ''e1'', eventAutomation_remindNonResponders = True,
        eventAutomation_sendLocationOnConfirm = True, eventAutomation_sendFollowupAfter = True\<rparr>]\<rparr>"

definition confirmJob :: EventWorkflowJob where
  "confirmJob = \<lparr>ew_tenantId = ''t1'', ew_triggerType = ''rsvp_confirmed'', ew_contactId = ''k1'', ew_eventId = ''e1''\<rparr>"

lemma gala_participant: "\<exists>p \<in> set (w_eventParticipants (gala phone)). pairRow ''e1'' ''k1'' p"
  by (simp add: gala_def party_def invited_def pairRow_def)

theorem repeated_reply_changes_nothing_witness:
  "processEventWorkflow demoEnv show_int [] 6 confirmJob
     (snd (processEventWorkflow demoEnv show_int [] 5 confirmJob (gala ''+15550001111''))) =
   (Inr (), snd (processEventWorkflow demoEnv show_int [] 5 confirmJob (gala ''+15550001111''))) \<and>
   length (w_outbox (snd (processEventWorkflow demoEnv show_int [] 5 confirmJob (gala ''+15550001111'')))) = 1 \<and>
   length (w_jobs (snd (processEventWorkflow demoEnv show_int [] 5 confirmJob (gala ''+15550001111'')))) = 1"
proof -
  let ?w = "gala ''+15550001111''"
  let ?w1 = "snd (processEventWorkflow demoEnv show_int [] 5 confirmJob ?w)"
  have "is_ok (fst (processEventWorkflow demoEnv show_int [] 5 confirmJob ?w))"
    "length (w_outbox ?w1) = 1" "length (w_jobs ?w1) = 1"
    by code_simp+
  moreover have "processEventWorkflow demoEnv show_int [] 6 confirmJob (?w1\<lparr>w_jobs := w_jobs ?w1\<rparr>) =
      (Inr (), ?w1\<lparr>w_jobs := w_jobs ?w1\<rparr>)"
    if "processEventWorkflow demoEnv show_int [] 5 confirmJob ?w = (Inr (), ?w1)"
    by (rule repeated_reply_changes_nothing [OF that])
       (use gala_participant in \<open>simp_all add: confirmJob_def jobsKnown_def followUpKnown_def list_ex_iff\<close>)
  ultimately show ?thesis by (auto elim: is_okE)
qed

theorem undelivered_coupon_counts_as_sent_witness:
  "couponSent ''e1'' ''k1'' (snd (sendIncentive demoEnv 5 ''e1'' ''k1'' (gala ''0803''))) \<and>
   w_outbox (snd (sendIncentive demoEnv 5 ''e1'' ''k1'' (gala ''0803''))) = []"
proof -
  let ?k = "demoContact\<lparr>contact_phone := Some ''0803''\<rparr>"
  have due: "incentiveDue ''e1'' ''k1'' (gala ''0803'')"
    by (simp add: incentiveDue_def couponSent_def theEvent_def theContact_def gala_def party_def invited_def
        pairRow_def demoEvent_def demoContact_def)
  have k: "theContact ''k1'' (gala ''0803'') = Some ?k" by (simp add: theContact_def gala_def demoContact_def)
  have n: "normalizePhoneForSend demoEnv (contact_phone ?k) DEFAULT_SEND_COUNTRY = None"
    "w_outbox (gala ''0803'') = []"
    by code_simp+
  show ?thesis
    using undelivered_coupon_counts_as_sent [OF due k n(1) gala_participant, of 5] n(2) by simp
qed

text \<open>Only the first placeholder of a kind is filled in.\<close>

lemma incentive_placeholder_once:
  "replaceOnce ''{{code}} is your code: {{code}}'' ''{{code}}'' ''MEET-1'' = ''MEET-1 is your code: {{code}}''"
  by code_simp

end
