(* ===== verification/Contacts.thy ===== *)
theory Contacts
  imports Appointments
begin

text \<open>
  \<open>modules/contacts/contacts.service.ts\<close>: contacts with their tags and groups. A tag is stored twice, as a
  name in the contact's array and as a link between the contact and a row of \<open>Tag\<close>; \<open>syncTags\<close> carries
  the array over to the links. The database's text order is an argument, \<open>collate\<close>.
\<close>

section \<open>Request bodies\<close>

definition normalizeTag :: "string \<Rightarrow> string" where
  "normalizeTag t = toLowerCase (trim t)"

definition normalizeTags :: "string list \<Rightarrow> string list" where
  "normalizeTags ts = filter (\<lambda>t. t \<noteq> []) (map normalizeTag ts)"

record CreateContactDto =
  cc_name :: string
  cc_phone :: "string option"
  cc_email :: "string option"
  cc_tags :: "string list option"
  cc_notes :: "string option"

record UpdateContactDto =
  uc_name :: "string option"
  uc_phone :: "string option"
  uc_email :: "string option"
  uc_tags :: "string list option"
  uc_notes :: "string option"
  uc_unsubscribed :: "bool option"

text \<open>What \<open>@Transform\<close> makes of the tags of a request.\<close>

definition transformCreate :: "CreateContactDto \<Rightarrow> CreateContactDto" where
  "transformCreate d = d\<lparr>cc_tags := map_option normalizeTags (cc_tags d)\<rparr>"

definition transformUpdate :: "UpdateContactDto \<Rightarrow> UpdateContactDto" where
  "transformUpdate d = d\<lparr>uc_tags := map_option normalizeTags (uc_tags d)\<rparr>"

section \<open>Rows\<close>

text \<open>The unique indexes on tenant and phone, and on tenant and e-mail; NULL is never a duplicate.\<close>

definition sharesKey :: "contact \<Rightarrow> contact \<Rightarrow> bool" where
  "sharesKey a b = (contact_tenantId a = contact_tenantId b \<and>
     ((contact_phone a \<noteq> None \<and> contact_phone a = contact_phone b) \<or>
      (contact_email a \<noteq> None \<and> contact_email a = contact_email b)))"

definition insertContact :: "contact \<Rightarrow> unit act" where
  "insertContact c w =
     (if list_ex (sharesKey c) (w_contacts w) then (Inl (PrismaError ''P2002''), w)
      else if \<not> tenantExists (contact_tenantId c) w then (Inl (PrismaError ''P2003''), w)
      else (Inr (), bump (w\<lparr>w_contacts := w_contacts w @ [c]\<rparr>)))"

definition changeContact :: "uuid \<Rightarrow> (contact \<Rightarrow> contact) \<Rightarrow> unit act" where
  "changeContact i f w =
     (case List.find (\<lambda>c. contact_id c = i) (w_contacts w) of
        None \<Rightarrow> (Inl (PrismaError ''P2025''), w)
      | Some c \<Rightarrow>
          if list_ex (\<lambda>x. contact_id x \<noteq> i \<and> sharesKey (f c) x) (w_contacts w)
          then (Inl (PrismaError ''P2002''), w)
          else updateContact i f w)"

definition newContact ::
  "instant \<Rightarrow> uuid \<Rightarrow> string \<Rightarrow> string option \<Rightarrow> string option \<Rightarrow> string list \<Rightarrow> string option \<Rightarrow> uuid \<Rightarrow> contact" where
  "newContact now tenantId name phone email tags notes i =
     \<lparr>contact_id = i, contact_tenantId = tenantId, contact_name = name, contact_phone = phone,
      contact_email = email, contact_unsubscribed = False, contact_isDemoData = False,
      contact_lastAppointment = None, contact_tags = tags, contact_notes = notes, contact_createdAt = now\<rparr>"

definition contactNotFound :: exn where
  "contactNotFound = NotFoundException ''Contact not found''"

text \<open>The row an operation starts from, or its exception.\<close>

definition withContact :: "uuid \<Rightarrow> uuid \<Rightarrow> (contact \<Rightarrow> 'a act) \<Rightarrow> 'a act" where
  "withContact tenantId i k w =
     (case tenantContact tenantId i w of None \<Rightarrow> (Inl contactNotFound, w) | Some c \<Rightarrow> k c w)"

section \<open>Tags and their links\<close>

definition tagNamed :: "uuid \<Rightarrow> string \<Rightarrow> world \<Rightarrow> tag option" where
  "tagNamed tenantId name w = List.find (\<lambda>t. tag_tenantId t = tenantId \<and> tag_name t = name) (w_tags w)"

definition insertTag :: "uuid \<Rightarrow> string \<Rightarrow> uuid act" where
  "insertTag tenantId name w =
     (if tagNamed tenantId name w \<noteq> None then (Inl (PrismaError ''P2002''), w)
      else if \<not> tenantExists tenantId w then (Inl (PrismaError ''P2003''), w)
      else (Inr (newId w), bump (w\<lparr>w_tags := w_tags w @
              [\<lparr>tag_id = newId w, tag_tenantId = tenantId, tag_name = name\<rparr>]\<rparr>)))"

definition upsertTag :: "uuid \<Rightarrow> string \<Rightarrow> uuid act" where
  "upsertTag tenantId name w =
     (case tagNamed tenantId name w of
        Some t \<Rightarrow> (Inr (tag_id t), w)
      | None \<Rightarrow> insertTag tenantId name w)"

definition isLink :: "uuid \<Rightarrow> uuid \<Rightarrow> contactTag \<Rightarrow> bool" where
  "isLink contactId tagId l = (contactTag_contactId l = contactId \<and> contactTag_tagId l = tagId)"

definition insertLink :: "uuid \<Rightarrow> uuid \<Rightarrow> contactTag act" where
  "insertLink contactId tagId w =
     (if list_ex (isLink contactId tagId) (w_contactTags w) then (Inl (PrismaError ''P2002''), w)
      else if contactId \<notin> contact_id ` set (w_contacts w) \<or> tagId \<notin> tag_id ` set (w_tags w)
      then (Inl (PrismaError ''P2003''), w)
      else let l = \<lparr>contactTag_id = newId w, contactTag_contactId = contactId, contactTag_tagId = tagId\<rparr>
           in (Inr l, bump (w\<lparr>w_contactTags := w_contactTags w @ [l]\<rparr>)))"

definition upsertLink :: "uuid \<Rightarrow> uuid \<Rightarrow> unit act" where
  "upsertLink contactId tagId w =
     (if list_ex (isLink contactId tagId) (w_contactTags w) then (Inr (), w)
      else bindA (insertLink contactId tagId) (\<lambda>_. returnA ()) w)"

definition ensureTag :: "uuid \<Rightarrow> uuid \<Rightarrow> string \<Rightarrow> unit act" where
  "ensureTag tenantId contactId name = bindA (upsertTag tenantId name) (\<lambda>i. upsertLink contactId i)"

text \<open>The links of a contact with the names of their tags.\<close>

definition existingLinks :: "uuid \<Rightarrow> world \<Rightarrow> (contactTag \<times> string) list" where
  "existingLinks contactId w = List.map_filter
     (\<lambda>l. if contactTag_contactId l = contactId
          then map_option (\<lambda>t. (l, tag_name t)) (List.find (\<lambda>t. tag_id t = contactTag_tagId l) (w_tags w))
          else None) (w_contactTags w)"

text \<open>One activity per tag, added or removed; nothing waits for them.\<close>

definition logTag :: "instant \<Rightarrow> uuid \<Rightarrow> uuid \<Rightarrow> string \<Rightarrow> string \<Rightarrow> world \<Rightarrow> world" where
  "logTag now tenantId contactId kind name =
     addActivity now tenantId contactId kind None (JObj [(''tag'', JStr name)])"

definition logTags :: "instant \<Rightarrow> uuid \<Rightarrow> uuid \<Rightarrow> string \<Rightarrow> string list \<Rightarrow> world \<Rightarrow> world" where
  "logTags now tenantId contactId kind names = fold (logTag now tenantId contactId kind) names"

definition syncTags :: "instant \<Rightarrow> uuid \<Rightarrow> uuid \<Rightarrow> string list \<Rightarrow> unit act" where
  "syncTags now tenantId contactId tags w =
     (let names = normalizeTags tags; old = existingLinks contactId w;
          gone = filter (\<lambda>(l, n). n \<notin> set names) old;
          added = filter (\<lambda>n. n \<notin> snd ` set old) names
      in swallowA
           (if names = []
            then modifyA (\<lambda>v. logTags now tenantId contactId ''tag_removed'' (map snd old)
                   (v\<lparr>w_contactTags := delete_where (\<lambda>l. contactTag_contactId l = contactId) (w_contactTags v)\<rparr>))
            else thenA (forEachA (ensureTag tenantId contactId) names)
                   (modifyA (\<lambda>v. logTags now tenantId contactId ''tag_removed'' (map snd gone)
                      (logTags now tenantId contactId ''tag_added'' added
                        (v\<lparr>w_contactTags := delete_where
                             (\<lambda>l. contactTag_id l \<in> contactTag_id ` fst ` set gone) (w_contactTags v)\<rparr>))))) w)"

section \<open>Creating, changing and deleting\<close>

definition duplicateContact :: "uuid \<Rightarrow> CreateContactDto \<Rightarrow> contact \<Rightarrow> bool" where
  "duplicateContact tenantId dto c = (contact_tenantId c = tenantId \<and>
     ((truthy (cc_phone dto) \<and> contact_phone c = cc_phone dto) \<or>
      (truthy (cc_email dto) \<and> contact_email c = cc_email dto)))"

definition createContact :: "instant \<Rightarrow> uuid \<Rightarrow> CreateContactDto \<Rightarrow> contact act" where
  "createContact now tenantId dto w =
     (if list_ex (duplicateContact tenantId dto) (w_contacts w)
      then (Inl (ConflictException ''A contact with this phone or email already exists for this tenant''), w)
      else let c = newContact now tenantId (cc_name dto) (cc_phone dto) (cc_email dto)
                     (coalesce (cc_tags dto) []) (cc_notes dto) (newId w)
           in thenA (insertContact c)
                (thenA (whenA (contact_tags c \<noteq> []) (syncTags now tenantId (contact_id c) (contact_tags c)))
                  (thenA (modifyA (addActivity now tenantId (contact_id c) ''contact_created'' None
                            (JObj [(''name'', JStr (contact_name c))])))
                    (returnA c))) w)"

definition applyContactDto :: "UpdateContactDto \<Rightarrow> contact \<Rightarrow> contact" where
  "applyContactDto d c = c\<lparr>
     contact_name := coalesce (uc_name d) (contact_name c),
     contact_phone := (case uc_phone d of None \<Rightarrow> contact_phone c | Some p \<Rightarrow> Some p),
     contact_email := (case uc_email d of None \<Rightarrow> contact_email c | Some e \<Rightarrow> Some e),
     contact_tags := coalesce (uc_tags d) (contact_tags c),
     contact_notes := (case uc_notes d of None \<Rightarrow> contact_notes c | Some n \<Rightarrow> Some n),
     contact_unsubscribed := coalesce (uc_unsubscribed d) (contact_unsubscribed c)\<rparr>"

definition updateContactOp :: "instant \<Rightarrow> uuid \<Rightarrow> uuid \<Rightarrow> UpdateContactDto \<Rightarrow> contact act" where
  "updateContactOp now tenantId i dto = withContact tenantId i (\<lambda>c.
     thenA (changeContact i (applyContactDto dto))
       (thenA (case uc_tags dto of None \<Rightarrow> returnA () | Some ts \<Rightarrow> syncTags now tenantId i ts)
         (returnA (applyContactDto dto c))))"

definition removeContact :: "uuid \<Rightarrow> uuid \<Rightarrow> unit act" where
  "removeContact tenantId i = withContact tenantId i (\<lambda>c. modifyA (deleteContacts (\<lambda>x. contact_id x = i)))"

definition chosenContacts :: "uuid \<Rightarrow> uuid list \<Rightarrow> world \<Rightarrow> contact list" where
  "chosenContacts tenantId ids w =
     filter (\<lambda>c. contact_id c \<in> set ids \<and> contact_tenantId c = tenantId) (w_contacts w)"

text \<open>\<open>Array.from(new Set(xs))\<close>: the first occurrences in order.\<close>

fun distinctFirst :: "'a list \<Rightarrow> 'a list" where
  "distinctFirst [] = []"
| "distinctFirst (x # xs) = x # filter (\<lambda>y. y \<noteq> x) (distinctFirst xs)"

definition mergedTags :: "contact \<Rightarrow> string list \<Rightarrow> string list" where
  "mergedTags c newTags = distinctFirst (contact_tags c @ newTags)"

definition tagOne :: "instant \<Rightarrow> uuid \<Rightarrow> string list \<Rightarrow> contact \<Rightarrow> unit act" where
  "tagOne now tenantId newTags c =
     thenA (updateContact (contact_id c) (\<lambda>x. x\<lparr>contact_tags := mergedTags c newTags\<rparr>))
       (syncTags now tenantId (contact_id c) (mergedTags c newTags))"

definition bulkTag :: "instant \<Rightarrow> uuid \<Rightarrow> uuid list \<Rightarrow> string list \<Rightarrow> nat act" where
  "bulkTag now tenantId contactIds tags w =
     thenA (forEachA (tagOne now tenantId (normalizeTags tags)) (chosenContacts tenantId contactIds w))
       (returnA (length (chosenContacts tenantId contactIds w))) w"

definition bulkDelete :: "uuid \<Rightarrow> uuid list \<Rightarrow> nat act" where
  "bulkDelete tenantId contactIds w =
     (Inr (length (chosenContacts tenantId contactIds w)),
      deleteContacts (\<lambda>c. contact_id c \<in> set contactIds \<and> contact_tenantId c = tenantId) w)"

section \<open>Tags and groups of a tenant\<close>

definition getAllTags :: "(string \<Rightarrow> int) \<Rightarrow> uuid \<Rightarrow> world \<Rightarrow> tag list" where
  "getAllTags collate tenantId w =
     order_asc (\<lambda>t. collate (tag_name t)) (filter (\<lambda>t. tag_tenantId t = tenantId) (w_tags w))"

definition getAllGroups :: "(string \<Rightarrow> int) \<Rightarrow> uuid \<Rightarrow> world \<Rightarrow> (contactGroup \<times> nat) list" where
  "getAllGroups collate tenantId w =
     map (\<lambda>g. (g, count_where (\<lambda>m. contactGroupMember_groupId m = contactGroup_id g) (w_contactGroupMembers w)))
       (order_asc (\<lambda>g. collate (contactGroup_name g))
         (filter (\<lambda>g. contactGroup_tenantId g = tenantId) (w_contactGroups w)))"

definition groupNamed :: "uuid \<Rightarrow> string \<Rightarrow> world \<Rightarrow> contactGroup option" where
  "groupNamed tenantId name w =
     List.find (\<lambda>g. contactGroup_tenantId g = tenantId \<and> contactGroup_name g = name) (w_contactGroups w)"

definition insertGroup :: "uuid \<Rightarrow> string \<Rightarrow> contactGroup act" where
  "insertGroup tenantId name w =
     (if \<not> tenantExists tenantId w then (Inl (PrismaError ''P2003''), w)
      else let g = \<lparr>contactGroup_id = newId w, contactGroup_tenantId = tenantId, contactGroup_name = name\<rparr>
           in (Inr g, bump (w\<lparr>w_contactGroups := w_contactGroups w @ [g]\<rparr>)))"

definition createGroup :: "uuid \<Rightarrow> string \<Rightarrow> contactGroup act" where
  "createGroup tenantId name w =
     (if groupNamed tenantId (trim name) w \<noteq> None then (Inl (ConflictException ''Group name already exists''), w)
      else insertGroup tenantId (trim name) w)"

definition findGroup :: "uuid \<Rightarrow> uuid \<Rightarrow> world \<Rightarrow> contactGroup option" where
  "findGroup tenantId i w =
     List.find (\<lambda>g. contactGroup_id g = i \<and> contactGroup_tenantId g = tenantId) (w_contactGroups w)"

definition groupNotFound :: exn where
  "groupNotFound = NotFoundException ''Group not found''"

definition isMember :: "uuid \<Rightarrow> uuid \<Rightarrow> contactGroupMember \<Rightarrow> bool" where
  "isMember groupId contactId m =
     (contactGroupMember_groupId m = groupId \<and> contactGroupMember_contactId m = contactId)"

definition insertMember :: "uuid \<Rightarrow> uuid \<Rightarrow> unit act" where
  "insertMember groupId contactId w =
     (if list_ex (isMember groupId contactId) (w_contactGroupMembers w) then (Inl (PrismaError ''P2002''), w)
      else if contactId \<notin> contact_id ` set (w_contacts w) then (Inl (PrismaError ''P2003''), w)
      else (Inr (), w\<lparr>w_contactGroupMembers := w_contactGroupMembers w @
              [\<lparr>contactGroupMember_groupId = groupId, contactGroupMember_contactId = contactId\<rparr>]\<rparr>))"

definition upsertMember :: "uuid \<Rightarrow> uuid \<Rightarrow> unit act" where
  "upsertMember groupId contactId w =
     (if list_ex (isMember groupId contactId) (w_contactGroupMembers w) then (Inr (), w)
      else insertMember groupId contactId w)"

text \<open>The contacts are not required to belong to the tenant.\<close>

definition addMembersToGroup :: "uuid \<Rightarrow> uuid \<Rightarrow> uuid list \<Rightarrow> unit act" where
  "addMembersToGroup tenantId groupId contactIds w =
     (case findGroup tenantId groupId w of
        None \<Rightarrow> (Inl groupNotFound, w)
      | Some g \<Rightarrow> transactionA (forEachA (upsertMember groupId) contactIds) w)"

definition dropMember :: "uuid \<Rightarrow> uuid \<Rightarrow> world \<Rightarrow> world" where
  "dropMember groupId contactId w =
     w\<lparr>w_contactGroupMembers := delete_where (isMember groupId contactId) (w_contactGroupMembers w)\<rparr>"

definition removeMemberFromGroup :: "uuid \<Rightarrow> uuid \<Rightarrow> uuid \<Rightarrow> nat act" where
  "removeMemberFromGroup tenantId groupId contactId w =
     (case findGroup tenantId groupId w of
        None \<Rightarrow> (Inl groupNotFound, w)
      | Some g \<Rightarrow> (Inr (count_where (isMember groupId contactId) (w_contactGroupMembers w)),
                   dropMember groupId contactId w))"

definition createTag :: "uuid \<Rightarrow> string \<Rightarrow> uuid act" where
  "createTag tenantId name w =
     (if tagNamed tenantId (normalizeTag name) w \<noteq> None then (Inl (ConflictException ''Tag already exists''), w)
      else insertTag tenantId (normalizeTag name) w)"

definition alreadyAssigned :: "exn \<Rightarrow> exn" where
  "alreadyAssigned e =
     (if e = PrismaError ''P2002'' then ConflictException ''Tag is already assigned to this contact'' else e)"

definition findTag :: "uuid \<Rightarrow> uuid \<Rightarrow> world \<Rightarrow> tag option" where
  "findTag tenantId i w = List.find (\<lambda>t. tag_id t = i \<and> tag_tenantId t = tenantId) (w_tags w)"

definition assignTagToContact :: "instant \<Rightarrow> uuid \<Rightarrow> uuid \<Rightarrow> uuid \<Rightarrow> contactTag act" where
  "assignTagToContact now tenantId contactId tagId = withContact tenantId contactId (\<lambda>c w.
     case findTag tenantId tagId w of
       None \<Rightarrow> (Inl (NotFoundException ''Tag not found''), w)
     | Some t \<Rightarrow>
         (case bindA (insertLink contactId tagId) (\<lambda>l.
             thenA (whenA (tag_name t \<notin> set (contact_tags c))
                     (updateContact contactId (\<lambda>x. x\<lparr>contact_tags := contact_tags c @ [tag_name t]\<rparr>)))
               (thenA (modifyA (logTag now tenantId contactId ''tag_added'' (tag_name t)))
                 (returnA l))) w of
            (Inl e, v) \<Rightarrow> (Inl (alreadyAssigned e), v)
          | (Inr l, v) \<Rightarrow> (Inr l, v)))"

definition getContactGroups :: "(string \<Rightarrow> int) \<Rightarrow> uuid \<Rightarrow> uuid \<Rightarrow> world \<Rightarrow> contactGroup list outcome" where
  "getContactGroups collate tenantId contactId w =
     (case tenantContact tenantId contactId w of
        None \<Rightarrow> Inl contactNotFound
      | Some c \<Rightarrow> Inr (order_asc (\<lambda>g. collate (contactGroup_name g)) (List.map_filter
          (\<lambda>m. if contactGroupMember_contactId m = contactId
               then List.find (\<lambda>g. contactGroup_id g = contactGroupMember_groupId m) (w_contactGroups w)
               else None) (w_contactGroupMembers w))))"

definition upsertGroup :: "uuid \<Rightarrow> string \<Rightarrow> uuid act" where
  "upsertGroup tenantId name w =
     (case groupNamed tenantId name w of
        Some g \<Rightarrow> (Inr (contactGroup_id g), w)
      | None \<Rightarrow> bindA (insertGroup tenantId name) (\<lambda>g. returnA (contactGroup_id g)) w)"

definition resolveGroup :: "uuid \<Rightarrow> uuid option \<Rightarrow> string option \<Rightarrow> uuid option act" where
  "resolveGroup tenantId groupId groupName =
     (if \<not> truthy groupId \<and> truthy groupName
      then bindA (upsertGroup tenantId (trim (the groupName))) (\<lambda>i. returnA (Some i))
      else returnA groupId)"

definition addContactToGroup :: "uuid \<Rightarrow> uuid \<Rightarrow> uuid option \<Rightarrow> string option \<Rightarrow> contactGroup act" where
  "addContactToGroup tenantId contactId groupId groupName = withContact tenantId contactId (\<lambda>c.
     bindA (resolveGroup tenantId groupId groupName) (\<lambda>resolved w.
       if \<not> truthy resolved then (Inl groupNotFound, w)
       else case findGroup tenantId (the resolved) w of
           None \<Rightarrow> (Inl groupNotFound, w)
         | Some g \<Rightarrow>
             (case insertMember (the resolved) contactId w of
                (Inl e, v) \<Rightarrow> (Inl (if e = PrismaError ''P2002''
                                  then ConflictException ''Contact is already in this group'' else e), v)
              | (Inr _, v) \<Rightarrow> (Inr g, v))))"

definition removeContactFromGroup :: "uuid \<Rightarrow> uuid \<Rightarrow> uuid \<Rightarrow> unit act" where
  "removeContactFromGroup tenantId contactId groupId =
     withContact tenantId contactId (\<lambda>c. modifyA (dropMember groupId contactId))"

section \<open>Reading\<close>

text \<open>\<open>skip\<close> and \<open>take\<close>: a negative \<open>take\<close> counts from the end, a negative \<open>skip\<close> is refused.\<close>

definition pageRows :: "int \<Rightarrow> int \<Rightarrow> 'r list \<Rightarrow> 'r list outcome" where
  "pageRows skip count rs =
     (if skip < 0 then Inl (PlainError ''Invalid value for skip argument: Value can only be positive'')
      else if 0 \<le> count then Inr (take (nat count) (drop (nat skip) rs))
      else let kept = take (length rs - nat skip) rs in Inr (drop (length kept - nat (- count)) kept))"

record ContactQuery =
  cq_search :: "string option"
  cq_tag :: "string option"
  cq_unsubscribed :: "string option"
  cq_page :: "string option"
  cq_limit :: "string option"

text \<open>\<open>parseInt(value, 10) || d\<close>\<close>

definition intOr :: "string \<Rightarrow> int \<Rightarrow> int" where
  "intOr s d = (case parseInt s of None \<Rightarrow> d | Some n \<Rightarrow> if n = 0 then d else n)"

definition pageOf :: "ContactQuery \<Rightarrow> int" where
  "pageOf q = (case cq_page q of None \<Rightarrow> 1 | Some s \<Rightarrow> intOr s 1)"

definition limitOf :: "ContactQuery \<Rightarrow> int" where
  "limitOf q = (case cq_limit q of None \<Rightarrow> 20 | Some s \<Rightarrow> min (intOr s 20) 100)"

definition includesIgnoringCase :: "string option \<Rightarrow> string \<Rightarrow> bool" where
  "includesIgnoringCase s p =
     (case s of None \<Rightarrow> False | Some x \<Rightarrow> str_includes (toLowerCase x) (toLowerCase p))"

definition matchesQuery :: "uuid \<Rightarrow> ContactQuery \<Rightarrow> contact \<Rightarrow> bool" where
  "matchesQuery tenantId q c = (contact_tenantId c = tenantId \<and>
     (truthy (cq_search q) \<longrightarrow>
        (let s = the (cq_search q)
         in includesIgnoringCase (Some (contact_name c)) s \<or> includesIgnoringCase (contact_email c) s \<or>
            (case contact_phone c of None \<Rightarrow> False | Some p \<Rightarrow> str_includes p s))) \<and>
     (truthy (cq_tag q) \<longrightarrow> toLowerCase (the (cq_tag q)) \<in> set (contact_tags c)) \<and>
     (case cq_unsubscribed q of None \<Rightarrow> True | Some s \<Rightarrow> contact_unsubscribed c = (s = ''true'')))"

record ContactPage =
  cp_data :: "contact list"
  cp_total :: nat
  cp_page :: int
  cp_limit :: int
  cp_totalPages :: int

definition findAllContacts :: "uuid \<Rightarrow> ContactQuery \<Rightarrow> world \<Rightarrow> ContactPage outcome" where
  "findAllContacts tenantId q w =
     (let rows = filter (matchesQuery tenantId q) (w_contacts w)
      in case pageRows ((pageOf q - 1) * limitOf q) (limitOf q) (order_desc contact_createdAt rows) of
           Inl e \<Rightarrow> Inl e
         | Inr ps \<Rightarrow> Inr \<lparr>cp_data = ps, cp_total = length rows, cp_page = pageOf q, cp_limit = limitOf q,
             cp_totalPages = \<lceil>(of_nat (length rows) :: rat) / of_int (limitOf q)\<rceil>\<rparr>)"

text \<open>
  \<open>{ customer: { email: undefined } }\<close> has no condition left but that there is a customer: a contact
  without an e-mail address (or without a phone) matches every customer's appointments.
\<close>

definition customerMatches :: "contact \<Rightarrow> customer \<Rightarrow> bool" where
  "customerMatches c cu =
     ((contact_email c = None \<or> customer_email cu = contact_email c) \<or>
      (contact_phone c = None \<or> customer_phone cu = contact_phone c))"

definition contactAppointments :: "uuid \<Rightarrow> contact \<Rightarrow> world \<Rightarrow> appointment list" where
  "contactAppointments tenantId c w = take 10 (order_desc appointment_scheduledAt
     (filter (\<lambda>a. appointment_tenantId a = tenantId \<and>
        list_ex (\<lambda>cu. appointment_customerId a = Some (customer_id cu) \<and> customerMatches c cu) (w_customers w))
       (w_appointments w)))"

definition findOneContact :: "uuid \<Rightarrow> uuid \<Rightarrow> world \<Rightarrow> (contact \<times> appointment list) outcome" where
  "findOneContact tenantId i w =
     (case tenantContact tenantId i w of
        None \<Rightarrow> Inl contactNotFound
      | Some c \<Rightarrow> Inr (c, contactAppointments tenantId c w))"

definition getActivity :: "uuid \<Rightarrow> uuid \<Rightarrow> world \<Rightarrow> contactActivity list outcome" where
  "getActivity tenantId i w =
     (case tenantContact tenantId i w of
        None \<Rightarrow> Inl contactNotFound
      | Some c \<Rightarrow> Inr (take 50 (order_desc contactActivity_createdAt
          (filter (\<lambda>a. contactActivity_contactId a = i \<and> contactActivity_tenantId a = tenantId)
            (w_contactActivities w)))))"

definition bookedWith :: "uuid \<Rightarrow> uuid option \<Rightarrow> world \<Rightarrow> bool" where
  "bookedWith contactId appointmentId w =
     list_ex (\<lambda>p. Some (participant_appointmentId p) = appointmentId \<and> participant_contactId p = contactId)
       (w_participants w)"

definition getReminders :: "uuid \<Rightarrow> uuid \<Rightarrow> world \<Rightarrow> (reminder \<times> failedReminder option) list outcome" where
  "getReminders tenantId i w =
     (case tenantContact tenantId i w of
        None \<Rightarrow> Inl contactNotFound
      | Some c \<Rightarrow> Inr (map (\<lambda>r. (r, List.find (\<lambda>f. failedReminder_reminderId f = reminder_id r)
                                      (w_failedReminders w)))
          (take 100 (order_desc reminder_scheduledSendTime
            (filter (\<lambda>r. reminder_tenantId r = tenantId \<and>
               (reminder_contactId r = Some i \<or> bookedWith i (reminder_appointmentId r) w)) (w_reminders w))))))"

definition getMessages :: "uuid \<Rightarrow> uuid \<Rightarrow> world \<Rightarrow> messageLog list outcome" where
  "getMessages tenantId i w =
     (case tenantContact tenantId i w of
        None \<Rightarrow> Inl contactNotFound
      | Some c \<Rightarrow> Inr (take 100 (order_desc messageLog_createdAt
          (filter (\<lambda>l. messageLog_tenantId l = tenantId \<and>
             (messageLog_contactId l = Some i \<or>
              list_ex (\<lambda>r. messageLog_reminderId l = Some (reminder_id r) \<and> reminder_contactId r = Some i)
                (w_reminders w))) (w_messageLogs w)))))"

record ContactStats =
  ct_total :: nat
  ct_unsubscribed :: nat
  ct_withPhone :: nat
  ct_withEmail :: nat
  ct_active :: int

definition getContactStats :: "uuid \<Rightarrow> world \<Rightarrow> ContactStats" where
  "getContactStats tenantId w =
     (let rows = filter (\<lambda>c. contact_tenantId c = tenantId) (w_contacts w);
          total = length rows; gone = count_where contact_unsubscribed rows
      in \<lparr>ct_total = total, ct_unsubscribed = gone,
          ct_withPhone = count_where (\<lambda>c. contact_phone c \<noteq> None) rows,
          ct_withEmail = count_where (\<lambda>c. contact_email c \<noteq> None) rows,
          ct_active = int total - int gone\<rparr>)"

end
