(* ===== verification/Contact_Properties.thy ===== *)
theory Contact_Properties
  imports Contacts Usage_Quota
begin

text \<open>
  What the contact service keeps true: a contact's array of tag names and its links to rows of \<open>Tag\<close>
  name the same tags. The contacts of a set may be outside (those from a file, see \<open>Contact_Import\<close>): the
  array then has at least the tags of the links.
\<close>

section \<open>Normal tags\<close>

lemma is_upper_lower [simp]: "\<not> is_upper (lower_char c)"
  by (auto simp: is_upper_def lower_char_def char_code_def)

lemma lower_lower [simp]: "lower_char (lower_char c) = lower_char c"
  by (simp add: lower_char_def [of "lower_char c"])

lemma is_space_lower [simp]: "is_space (lower_char c) = is_space c"
  by (auto simp: is_space_def is_upper_def lower_char_def char_code_def)

lemma trim_lower: "trim (toLowerCase s) = toLowerCase (trim s)"
  by (simp add: trim_def toLowerCase_def dropWhile_map o_def rev_map)

lemma trim_trim [simp]: "trim (trim s) = trim s"
proof -
  let ?r = "rev (dropWhile is_space s)"
  have "dropWhile is_space (rev (dropWhile is_space ?r)) = rev (dropWhile is_space ?r)"
  proof (cases "dropWhile is_space s")
    case (Cons c t)
    then have "\<not> is_space c" using hd_dropWhile [of is_space s] by simp
    then have "dropWhile is_space (rev t @ [c]) = dropWhile is_space (rev t) @ [c]"
      by (simp add: dropWhile_append3)
    then show ?thesis using Cons \<open>\<not> is_space c\<close> by simp
  next
    case Nil
    show ?thesis unfolding Nil by simp
  qed
  then show ?thesis by (simp add: trim_def)
qed

lemma normalizeTag_twice [simp]: "normalizeTag (normalizeTag t) = normalizeTag t"
  by (simp add: normalizeTag_def trim_lower) (simp add: toLowerCase_def)

definition normal :: "string \<Rightarrow> bool" where
  "normal t = (t \<noteq> [] \<and> normalizeTag t = t)"

lemma normalizeTags_normal: "t \<in> set (normalizeTags ts) \<Longrightarrow> normal t"
  by (auto simp: normalizeTags_def normal_def)

lemma normalizeTags_id: "(\<And>t. t \<in> set ts \<Longrightarrow> normal t) \<Longrightarrow> normalizeTags ts = ts"
  by (induction ts) (auto simp: normalizeTags_def normal_def)

lemma normalizeTags_Nil [simp]: "normalizeTags [] = []"
  by (simp add: normalizeTags_def)

lemma normalizeTags_twice [simp]: "normalizeTags (normalizeTags ts) = normalizeTags ts"
  by (rule normalizeTags_id) (rule normalizeTags_normal)

section \<open>The book of tags\<close>

definition linkedNames :: "uuid \<Rightarrow> world \<Rightarrow> string set" where
  "linkedNames i w = {tag_name t | t l. t \<in> set (w_tags w) \<and> l \<in> set (w_contactTags w) \<and>
     contactTag_contactId l = i \<and> contactTag_tagId l = tag_id t}"

lemma linkedNamesI:
  "t \<in> set (w_tags w) \<Longrightarrow> l \<in> set (w_contactTags w) \<Longrightarrow> contactTag_contactId l = i \<Longrightarrow>
   contactTag_tagId l = tag_id t \<Longrightarrow> tag_name t \<in> linkedNames i w"
  by (auto simp: linkedNames_def)

text \<open>Keys are unique, references lead to rows, tag names are normal, and drawn ids are new.\<close>

definition unusedIds :: "world \<Rightarrow> bool" where
  "unusedIds w = (inj (w_uuid w) \<and> (\<forall>n \<ge> w_next w. w_uuid w n \<notin> contact_id ` set (w_contacts w) \<and>
     w_uuid w n \<notin> tag_id ` set (w_tags w) \<and> w_uuid w n \<notin> contactTag_id ` set (w_contactTags w)))"

definition linkBook :: "world \<Rightarrow> bool" where
  "linkBook w = (distinct (map contact_id (w_contacts w)) \<and> distinct (map tag_id (w_tags w)) \<and>
     distinct (map contactTag_id (w_contactTags w)) \<and>
     (\<forall>c \<in> set (w_contacts w). tenantExists (contact_tenantId c) w) \<and>
     (\<forall>t \<in> set (w_tags w). normal (tag_name t)) \<and>
     (\<forall>l \<in> set (w_contactTags w). contactTag_contactId l \<in> contact_id ` set (w_contacts w) \<and>
        contactTag_tagId l \<in> tag_id ` set (w_tags w)) \<and> unusedIds w)"

lemma link_has_tag:
  assumes "linkBook w" and "l \<in> set (w_contactTags w)"
  shows "\<exists>t \<in> set (w_tags w). tag_id t = contactTag_tagId l"
proof -
  from assms have "contactTag_tagId l \<in> tag_id ` set (w_tags w)" by (simp add: linkBook_def)
  then show ?thesis by auto
qed

text \<open>
  The array of a contact and the names its links lead to: the links are among the array, and, unless the array was
  taken from a file (\<open>U\<close> has the contacts of whom this holds), nothing else is.
\<close>

definition agree :: "bool \<Rightarrow> string list \<Rightarrow> string set \<Rightarrow> bool" where
  "agree full ts names = ((\<forall>t \<in> set ts. normal t) \<and> names \<subseteq> set ts \<and> (full \<longrightarrow> set ts \<subseteq> names))"

lemma agree_same: "normalizeTags ts = ts \<Longrightarrow> set xs = set ts \<Longrightarrow> agree full xs (set ts)"
  by (metis agree_def normalizeTags_normal order_refl)

lemma agree_mono: "agree b ts names \<Longrightarrow> (c \<Longrightarrow> b) \<Longrightarrow> agree c ts names"
  by (auto simp: agree_def)

definition tagsAgree :: "uuid set \<Rightarrow> world \<Rightarrow> bool" where
  "tagsAgree U w = (\<forall>c \<in> set (w_contacts w).
     agree (contact_id c \<notin> U) (contact_tags c) (linkedNames (contact_id c) w))"

definition tagBook :: "uuid set \<Rightarrow> world \<Rightarrow> bool" where
  "tagBook U w = (linkBook w \<and> tagsAgree U w)"

lemma tagBookI:
  "linkBook u \<Longrightarrow>
   (\<And>x. x \<in> set (w_contacts u) \<Longrightarrow> agree (contact_id x \<notin> U) (contact_tags x) (linkedNames (contact_id x) v)) \<Longrightarrow>
   (\<And>k. linkedNames k u = linkedNames k v) \<Longrightarrow> tagBook U u"
  by (simp add: tagBook_def tagsAgree_def)

lemma tagBook_mono: "tagBook U w \<Longrightarrow> U \<subseteq> V \<Longrightarrow> tagBook V w"
  by (auto simp: tagBook_def tagsAgree_def intro: agree_mono)

lemma unusedIds_bump:
  "unusedIds w \<Longrightarrow> w_uuid v = w_uuid w \<Longrightarrow> w_next v = Suc (w_next w) \<Longrightarrow>
   contact_id ` set (w_contacts v) \<subseteq> insert (newId w) (contact_id ` set (w_contacts w)) \<Longrightarrow>
   tag_id ` set (w_tags v) \<subseteq> insert (newId w) (tag_id ` set (w_tags w)) \<Longrightarrow>
   contactTag_id ` set (w_contactTags v) \<subseteq> insert (newId w) (contactTag_id ` set (w_contactTags w)) \<Longrightarrow>
   unusedIds v"
proof -
  assume u: "unusedIds w" and eq: "w_uuid v = w_uuid w" "w_next v = Suc (w_next w)"
    and sub: "contact_id ` set (w_contacts v) \<subseteq> insert (newId w) (contact_id ` set (w_contacts w))"
      "tag_id ` set (w_tags v) \<subseteq> insert (newId w) (tag_id ` set (w_tags w))"
      "contactTag_id ` set (w_contactTags v) \<subseteq> insert (newId w) (contactTag_id ` set (w_contactTags w))"
  have "w_uuid w n \<noteq> newId w" if "n \<ge> Suc (w_next w)" for n
    using u that by (metis Suc_n_not_le_n inj_eq newId_def unusedIds_def)
  then show "unusedIds v"
    using u eq sub by (simp add: unusedIds_def) (meson Suc_leD insertE subsetD)
qed

lemma newId_unused: "unusedIds w \<Longrightarrow> newId w \<notin> contact_id ` set (w_contacts w) \<and>
    newId w \<notin> tag_id ` set (w_tags w) \<and> newId w \<notin> contactTag_id ` set (w_contactTags w)"
  by (simp add: unusedIds_def newId_def)

text \<open>A state that differs elsewhere only is as good.\<close>

abbreviation bookParts :: "world \<Rightarrow> contact list \<times> tag list \<times> contactTag list \<times> tenant list \<times> (nat \<Rightarrow> uuid)" where
  "bookParts w \<equiv> (w_contacts w, w_tags w, w_contactTags w, w_tenants w, w_uuid w)"

lemma unusedIds_later:
  "bookParts v = bookParts w \<Longrightarrow> w_next w \<le> w_next v \<Longrightarrow> unusedIds w \<Longrightarrow> unusedIds v"
  by (auto simp: unusedIds_def)

lemma linkedNames_cong: "bookParts v = bookParts w \<Longrightarrow> linkedNames i v = linkedNames i w"
  by (simp add: linkedNames_def)

lemma linkBook_later: "bookParts v = bookParts w \<Longrightarrow> w_next w \<le> w_next v \<Longrightarrow> linkBook w \<Longrightarrow> linkBook v"
  using unusedIds_later [of v w] by (simp add: linkBook_def tenantExists_def)

lemma tagBook_later: "bookParts v = bookParts w \<Longrightarrow> w_next w \<le> w_next v \<Longrightarrow> tagBook U w \<Longrightarrow> tagBook U v"
  using linkBook_later [of v w] linkedNames_cong [of v w] by (simp add: tagBook_def tagsAgree_def)

lemma logTags_parts: "bookParts (logTags now t i k ns w) = bookParts w"
  by (induction ns arbitrary: w) (simp_all add: logTags_def logTag_def addActivity_def bump_def)

lemma logTags_next: "w_next w \<le> w_next (logTags now t i k ns w)"
proof (induction ns arbitrary: w)
  case (Cons n ns)
  have "w_next w \<le> w_next (logTag now t i k n w)" by (simp add: logTag_def addActivity_def bump_def)
  also have "\<dots> \<le> w_next (logTags now t i k ns (logTag now t i k n w))" by (rule Cons)
  finally show ?case by (simp add: logTags_def)
qed (simp add: logTags_def)

section \<open>Linking\<close>

definition grown :: "uuid \<Rightarrow> string set \<Rightarrow> world \<Rightarrow> world \<Rightarrow> bool" where
  "grown i N v v' = (linkBook v' \<and> w_contacts v' = w_contacts v \<and> w_tenants v' = w_tenants v \<and>
     set (w_tags v) \<subseteq> set (w_tags v') \<and> set (w_contactTags v) \<subseteq> set (w_contactTags v') \<and>
     (\<forall>l \<in> set (w_contactTags v') - set (w_contactTags v). contactTag_contactId l = i \<and>
        (\<exists>t \<in> set (w_tags v'). tag_id t = contactTag_tagId l \<and> tag_name t \<in> N)) \<and>
     N \<subseteq> linkedNames i v')"

lemma grown_refl: "linkBook v \<Longrightarrow> grown i {} v v"
  by (simp add: grown_def)

lemma linkedNames_mono:
  "set (w_tags v) \<subseteq> set (w_tags v') \<Longrightarrow> set (w_contactTags v) \<subseteq> set (w_contactTags v') \<Longrightarrow>
   linkedNames i v \<subseteq> linkedNames i v'"
  by (auto simp: linkedNames_def)

lemma grown_trans:
  assumes 1: "grown i M v u" and 2: "grown i N u v'"
  shows "grown i (M \<union> N) v v'"
proof -
  have tags: "set (w_tags u) \<subseteq> set (w_tags v')" and links: "set (w_contactTags u) \<subseteq> set (w_contactTags v')"
    using 2 by (simp_all add: grown_def)
  have "linkedNames i u \<subseteq> linkedNames i v'" using tags links by (rule linkedNames_mono)
  then have names: "M \<union> N \<subseteq> linkedNames i v'" using 1 2 by (auto simp: grown_def)
  have "contactTag_contactId l = i \<and>
      (\<exists>t \<in> set (w_tags v'). tag_id t = contactTag_tagId l \<and> tag_name t \<in> M \<union> N)"
    if l: "l \<in> set (w_contactTags v') - set (w_contactTags v)" for l
  proof (cases "l \<in> set (w_contactTags u)")
    case True
    with l 1 have "contactTag_contactId l = i \<and>
        (\<exists>t \<in> set (w_tags u). tag_id t = contactTag_tagId l \<and> tag_name t \<in> M)"
      by (simp add: grown_def)
    with tags show ?thesis by blast
  next
    case False
    with l 2 have "contactTag_contactId l = i \<and>
        (\<exists>t \<in> set (w_tags v'). tag_id t = contactTag_tagId l \<and> tag_name t \<in> N)"
      by (simp add: grown_def)
    then show ?thesis by blast
  qed
  moreover have "set (w_tags v) \<subseteq> set (w_tags v')" "set (w_contactTags v) \<subseteq> set (w_contactTags v')"
    using 1 tags links by (auto simp: grown_def)
  ultimately show ?thesis using names 1 2 by (simp add: grown_def)
qed

lemma bump_book [simp]:
  "w_contacts (bump w) = w_contacts w" "w_tags (bump w) = w_tags w"
  "w_contactTags (bump w) = w_contactTags w" "w_uuid (bump w) = w_uuid w" "w_next (bump w) = Suc (w_next w)"
  "tenantExists s (bump w) = tenantExists s w"
  by (simp_all add: bump_def tenantExists_def)

lemma linkBook_addTag:
  assumes "linkBook v" and "normal name"
  shows "linkBook (bump (v\<lparr>w_tags := w_tags v @ [\<lparr>tag_id = newId v, tag_tenantId = t, tag_name = name\<rparr>]\<rparr>))"
    (is "linkBook ?u")
proof -
  have "unusedIds v" using assms(1) by (simp add: linkBook_def)
  then have "unusedIds ?u" by (rule unusedIds_bump) auto
  moreover have "newId v \<notin> tag_id ` set (w_tags v)" using newId_unused [OF \<open>unusedIds v\<close>] by simp
  ultimately show ?thesis
    using assms unfolding linkBook_def by (simp add: tenantExists_def)
qed

lemma linkBook_addLink:
  assumes "linkBook u" and "i \<in> contact_id ` set (w_contacts u)" and "j \<in> tag_id ` set (w_tags u)"
  shows "linkBook (bump (u\<lparr>w_contactTags := w_contactTags u @
    [\<lparr>contactTag_id = newId u, contactTag_contactId = i, contactTag_tagId = j\<rparr>]\<rparr>))" (is "linkBook ?v")
proof -
  have "unusedIds u" using assms(1) by (simp add: linkBook_def)
  then have "unusedIds ?v" by (rule unusedIds_bump) auto
  moreover have "newId u \<notin> contactTag_id ` set (w_contactTags u)" using newId_unused [OF \<open>unusedIds u\<close>] by simp
  ultimately show ?thesis
    using assms unfolding linkBook_def by (simp add: tenantExists_def)
qed

lemma ensureTag_grows:
  assumes book: "linkBook v" and t: "tenantExists tenantId v"
    and c: "i \<in> contact_id ` set (w_contacts v)" and n: "normal name"
  shows "\<exists>v'. ensureTag tenantId i name v = (Inr (), v') \<and> grown i {name} v v'"
proof -
  obtain j u where u: "upsertTag tenantId name v = (Inr j, u)" and bu: "linkBook u"
    and same: "w_contacts u = w_contacts v" "w_tenants u = w_tenants v" "w_contactTags u = w_contactTags v"
      "set (w_tags v) \<subseteq> set (w_tags u)"
    and tj: "\<exists>t \<in> set (w_tags u). tag_id t = j \<and> tag_name t = name"
  proof (cases "tagNamed tenantId name v")
    case (Some r)
    then have "r \<in> set (w_tags v) \<and> tag_name r = name" by (auto simp: tagNamed_def dest: find_SomeD)
    with Some book that [of "tag_id r" v] show thesis by (auto simp: upsertTag_def)
  next
    case None
    let ?u = "bump (v\<lparr>w_tags := w_tags v @ [\<lparr>tag_id = newId v, tag_tenantId = tenantId, tag_name = name\<rparr>]\<rparr>)"
    have "linkBook ?u" using book n by (rule linkBook_addTag)
    moreover have "upsertTag tenantId name v = (Inr (newId v), ?u)"
      using None t by (simp add: upsertTag_def insertTag_def)
    ultimately show thesis using that [of "newId v" ?u] by (auto simp: bump_def)
  qed
  have j: "j \<in> tag_id ` set (w_tags u)" using tj by auto
  show ?thesis
  proof (cases "list_ex (isLink i j) (w_contactTags u)")
    case True
    have "name \<in> linkedNames i u"
      using True tj linkedNamesI [of _ u] unfolding list_ex_iff isLink_def by metis
    moreover have "ensureTag tenantId i name v = (Inr (), u)"
      using u True by (simp add: ensureTag_def upsertLink_def)
    ultimately show ?thesis using bu same by (auto simp: grown_def)
  next
    case False
    let ?l = "\<lparr>contactTag_id = newId u, contactTag_contactId = i, contactTag_tagId = j\<rparr>"
    let ?v = "bump (u\<lparr>w_contactTags := w_contactTags u @ [?l]\<rparr>)"
    have "linkBook ?v" using linkBook_addLink [OF bu _ j, of i] c same by simp
    moreover have "name \<in> linkedNames i ?v"
      using tj linkedNamesI [of _ ?v ?l i] by auto
    moreover have "ensureTag tenantId i name v = (Inr (), ?v)"
      using u False c j same by (simp add: ensureTag_def upsertLink_def insertLink_def bindA_def Let_def)
    ultimately show ?thesis using same tj by (auto simp: grown_def)
  qed
qed

lemma ensureTags_grow:
  assumes "linkBook v" and "tenantExists tenantId v" and "i \<in> contact_id ` set (w_contacts v)"
    and "\<And>n. n \<in> set ns \<Longrightarrow> normal n"
  shows "\<exists>v'. forEachA (ensureTag tenantId i) ns v = (Inr (), v') \<and> grown i (set ns) v v'"
  using assms
proof (induction ns arbitrary: v)
  case Nil
  then show ?case using grown_refl by auto
next
  case (Cons n ns)
  obtain u where u: "ensureTag tenantId i n v = (Inr (), u)" "grown i {n} v u"
    using ensureTag_grows [of v tenantId i n] Cons.prems by auto
  obtain v' where v': "forEachA (ensureTag tenantId i) ns u = (Inr (), v')" "grown i (set ns) u v'"
    using Cons.IH [of u] Cons.prems u(2) by (auto simp: grown_def tenantExists_def)
  have "forEachA (ensureTag tenantId i) (n # ns) v = (Inr (), v')" using u(1) v'(1) by simp
  moreover have "grown i (set (n # ns)) v v'" using grown_trans [OF u(2) v'(2)] by simp
  ultimately show ?case by blast
qed

text \<open>Dropping links keeps everything that does not speak of them.\<close>

lemma linkBook_drop: "linkBook w \<Longrightarrow> linkBook (w\<lparr>w_contactTags := delete_where p (w_contactTags w)\<rparr>)"
  by (auto simp: linkBook_def unusedIds_def tenantExists_def delete_where_def distinct_map
      intro: inj_on_subset)

lemma tag_of_unique:
  "linkBook w \<Longrightarrow> s \<in> set (w_tags w) \<Longrightarrow> t \<in> set (w_tags w) \<Longrightarrow> tag_id s = tag_id t \<Longrightarrow> s = t"
  by (auto simp: linkBook_def distinct_map dest: inj_onD)

lemma link_of_unique:
  "linkBook w \<Longrightarrow> k \<in> set (w_contactTags w) \<Longrightarrow> l \<in> set (w_contactTags w) \<Longrightarrow>
   contactTag_id k = contactTag_id l \<Longrightarrow> k = l"
  by (auto simp: linkBook_def distinct_map dest: inj_onD)

lemma existingLinks_iff:
  assumes "linkBook w"
  shows "(l, n) \<in> set (existingLinks i w) \<longleftrightarrow> l \<in> set (w_contactTags w) \<and> contactTag_contactId l = i \<and>
    (\<exists>t \<in> set (w_tags w). tag_id t = contactTag_tagId l \<and> tag_name t = n)"
proof -
  have "List.find (\<lambda>t. tag_id t = contactTag_tagId k) (w_tags w) = Some t \<longleftrightarrow>
      t \<in> set (w_tags w) \<and> tag_id t = contactTag_tagId k" for k t
    using tag_of_unique [OF assms] by (metis (mono_tags, lifting) find_SomeD find_unique)
  note found = this
  have "(l, n) \<in> set (existingLinks i w) \<longleftrightarrow> l \<in> set (w_contactTags w) \<and> contactTag_contactId l = i \<and>
      (\<exists>t. List.find (\<lambda>t. tag_id t = contactTag_tagId l) (w_tags w) = Some t \<and> tag_name t = n)"
    by (auto simp: existingLinks_def List.map_filter_def image_iff split: if_splits)
  then show ?thesis by (auto simp: found)
qed

text \<open>The links after \<open>syncTags\<close> are exactly the tags it was given.\<close>

lemma linkedNames_drop:
  "linkedNames k (w\<lparr>w_contactTags := delete_where p (w_contactTags w)\<rparr>) = {tag_name t | t l.
     t \<in> set (w_tags w) \<and> l \<in> set (w_contactTags w) \<and> \<not> p l \<and> contactTag_contactId l = k \<and>
     contactTag_tagId l = tag_id t}"
  by (auto simp: linkedNames_def delete_where_def)

text \<open>The links of \<open>i\<close> to tags outside \<open>N\<close>, which the synchronisation drops.\<close>

definition staleLink :: "uuid \<Rightarrow> string set \<Rightarrow> world \<Rightarrow> contactTag \<Rightarrow> bool" where
  "staleLink i N v l = (l \<in> set (w_contactTags v) \<and> contactTag_contactId l = i \<and>
     (\<forall>t \<in> set (w_tags v). tag_id t = contactTag_tagId l \<longrightarrow> tag_name t \<notin> N))"

lemma dropped_links:
  assumes book: "linkBook v" and u: "grown i (set names) v u" and l: "l \<in> set (w_contactTags u)"
  shows "contactTag_id l \<in> contactTag_id ` fst ` set (filter (\<lambda>(l, n). n \<notin> set names) (existingLinks i v)) \<longleftrightarrow>
    staleLink i (set names) v l" (is "?id \<in> ?gone \<longleftrightarrow> _")
proof -
  let ?old = "existingLinks i v"
  have "?id \<in> ?gone \<longleftrightarrow> (\<exists>n. (l, n) \<in> set ?old \<and> n \<notin> set names)"
  proof
    assume "?id \<in> ?gone"
    then obtain k n where k: "(k, n) \<in> set ?old" "n \<notin> set names" "contactTag_id k = contactTag_id l"
      by auto
    then have "k \<in> set (w_contactTags u)" using u existingLinks_iff [OF book] by (auto simp: grown_def)
    with l k(3) have "k = l" using u link_of_unique [of u] by (auto simp: grown_def)
    with k show "\<exists>n. (l, n) \<in> set ?old \<and> n \<notin> set names" by blast
  qed force
  then show ?thesis
    unfolding staleLink_def using existingLinks_iff [OF book] tag_of_unique [OF book] link_has_tag [OF book] by metis
qed

lemma syncTags_shape:
  assumes book: "linkBook v" and t: "tenantExists tenantId v" and c: "i \<in> contact_id ` set (w_contacts v)"
  obtains u p where "grown i (set (normalizeTags tags)) v u"
    and "bookParts (snd (syncTags now tenantId i tags v)) =
      bookParts (u\<lparr>w_contactTags := delete_where p (w_contactTags u)\<rparr>)"
    and "w_next u \<le> w_next (snd (syncTags now tenantId i tags v))"
    and "\<And>l. l \<in> set (w_contactTags u) \<Longrightarrow> p l \<longleftrightarrow> staleLink i (set (normalizeTags tags)) v l"
proof (cases "normalizeTags tags = []")
  case True
  then show thesis
    using logTags_parts [of now tenantId i "''tag_removed''"]
      logTags_next [of "v\<lparr>w_contactTags := delete_where (\<lambda>l. contactTag_contactId l = i) (w_contactTags v)\<rparr>"]
    by (intro that [of v "\<lambda>l. contactTag_contactId l = i"])
      (simp_all add: grown_refl book syncTags_def staleLink_def)
next
  case False
  let ?names = "normalizeTags tags" and ?old = "existingLinks i v" and ?r = "snd (syncTags now tenantId i tags v)"
  let ?p = "\<lambda>l. contactTag_id l \<in> contactTag_id ` fst ` set (filter (\<lambda>(l, n). n \<notin> set ?names) ?old)"
  obtain u where u: "forEachA (ensureTag tenantId i) ?names v = (Inr (), u)" "grown i (set ?names) v u"
    using ensureTags_grow [OF book t c, of ?names] normalizeTags_normal by blast
  let ?w = "u\<lparr>w_contactTags := delete_where ?p (w_contactTags u)\<rparr>"
  let ?a = "filter (\<lambda>n. n \<notin> snd ` set ?old) ?names" and ?g = "map snd (filter (\<lambda>(l, n). n \<notin> set ?names) ?old)"
  let ?x = "logTags now tenantId i ''tag_added'' ?a ?w"
  have res: "?r = logTags now tenantId i ''tag_removed'' ?g ?x"
    using False u(1) by (simp add: syncTags_def Let_def)
  have "bookParts ?r = bookParts ?w" unfolding res using logTags_parts by metis
  moreover have "w_next ?w \<le> w_next ?x" "w_next ?x \<le> w_next ?r" unfolding res by (rule logTags_next)+
  then have "w_next u \<le> w_next ?r" by simp
  ultimately show thesis using that [OF u(2)] dropped_links [OF book u(2)] by blast
qed

lemma linkedNames_synced:
  assumes book: "linkBook v" and u: "grown i N v u"
    and p: "\<And>l. l \<in> set (w_contactTags u) \<Longrightarrow> p l \<longleftrightarrow> staleLink i N v l"
  shows "linkedNames k (u\<lparr>w_contactTags := delete_where p (w_contactTags u)\<rparr>) =
    (if k = i then N else linkedNames k v)" (is "linkedNames k ?w = _")
proof -
  have bu: "linkBook u" and tags: "set (w_tags v) \<subseteq> set (w_tags u)"
    and links: "set (w_contactTags v) \<subseteq> set (w_contactTags u)" and named: "N \<subseteq> linkedNames i u"
    using u by (simp_all add: grown_def)
  have fresh: "contactTag_contactId l = i \<and> tag_name t \<in> N"
    if "l \<in> set (w_contactTags u)" "l \<notin> set (w_contactTags v)" "t \<in> set (w_tags u)" "contactTag_tagId l = tag_id t" for l t
    using u that tag_of_unique [OF bu] unfolding grown_def by (metis DiffI)
  have old: "t \<in> set (w_tags v)"
    if "l \<in> set (w_contactTags v)" "t \<in> set (w_tags u)" "contactTag_tagId l = tag_id t" for l t
    using link_has_tag [OF book that(1)] tag_of_unique [OF bu] tags that(2,3) by (metis subsetD)
  have stale: "tag_name t \<notin> N" if "staleLink i N v l" "t \<in> set (w_tags u)" "contactTag_tagId l = tag_id t" for l t
    using that old unfolding staleLink_def by metis
  show ?thesis
  proof (cases "k = i")
    case True
    have "n \<in> linkedNames i ?w" if n: "n \<in> N" for n
    proof -
      from n named obtain t l where tl: "t \<in> set (w_tags u)" "l \<in> set (w_contactTags u)"
        "contactTag_contactId l = i" "contactTag_tagId l = tag_id t" "tag_name t = n"
        by (auto simp: linkedNames_def)
      have "\<not> p l" using p [OF tl(2)] stale [of l t] tl n by auto
      with tl show ?thesis unfolding linkedNames_drop by blast
    qed
    moreover have "linkedNames i ?w \<subseteq> N"
    proof
      fix n assume "n \<in> linkedNames i ?w"
      then obtain t l where tl: "t \<in> set (w_tags u)" "l \<in> set (w_contactTags u)" "\<not> p l"
        "contactTag_contactId l = i" "contactTag_tagId l = tag_id t" "tag_name t = n"
        unfolding linkedNames_drop by auto
      show "n \<in> N"
      proof (cases "l \<in> set (w_contactTags v)")
        case True
        then obtain s where s: "s \<in> set (w_tags v)" "tag_id s = contactTag_tagId l" "tag_name s \<in> N"
          using p [OF tl(2)] tl(3,4) by (auto simp: staleLink_def)
        with tags tl(1,5) have "s = t" using tag_of_unique [OF bu] by (metis subsetD)
        with s tl show ?thesis by simp
      qed (use fresh [OF tl(2) _ tl(1,5)] tl(6) in auto)
    qed
    ultimately show ?thesis using True by auto
  next
    case False
    have "linkedNames k ?w \<subseteq> linkedNames k v"
      unfolding linkedNames_drop using fresh old False by (auto intro!: linkedNamesI)
    moreover have "linkedNames k v \<subseteq> linkedNames k ?w"
    proof
      fix n assume "n \<in> linkedNames k v"
      then obtain t l where tl: "t \<in> set (w_tags v)" "l \<in> set (w_contactTags v)"
        "contactTag_contactId l = k" "contactTag_tagId l = tag_id t" "tag_name t = n"
        by (auto simp: linkedNames_def)
      have "\<not> p l" using p links tl False by (auto simp: staleLink_def)
      with tl tags links show "n \<in> linkedNames k ?w" unfolding linkedNames_drop by blast
    qed
    ultimately show ?thesis using False by auto
  qed
qed

lemma syncTags_links:
  assumes book: "linkBook v" and t: "tenantExists tenantId v" and c: "i \<in> contact_id ` set (w_contacts v)"
  shows "fst (syncTags now tenantId i tags v) = Inr ()"
    and "linkBook (snd (syncTags now tenantId i tags v))"
    and "w_contacts (snd (syncTags now tenantId i tags v)) = w_contacts v"
    and "w_tenants (snd (syncTags now tenantId i tags v)) = w_tenants v"
    and "linkedNames k (snd (syncTags now tenantId i tags v)) =
      (if k = i then set (normalizeTags tags) else linkedNames k v)"
proof -
  let ?r = "snd (syncTags now tenantId i tags v)"
  obtain u p where u: "grown i (set (normalizeTags tags)) v u"
    and r: "bookParts ?r = bookParts (u\<lparr>w_contactTags := delete_where p (w_contactTags u)\<rparr>)"
      "w_next u \<le> w_next ?r"
    and p: "\<And>l. l \<in> set (w_contactTags u) \<Longrightarrow> p l \<longleftrightarrow> staleLink i (set (normalizeTags tags)) v l"
    by (rule syncTags_shape [OF assms, of tags now]) blast
  show "linkBook ?r"
    using linkBook_later [OF r(1)] linkBook_drop [of u p] u r(2) by (simp add: grown_def)
  show "w_contacts ?r = w_contacts v" "w_tenants ?r = w_tenants v"
    using r(1) u by (simp_all add: grown_def)
  show "fst (syncTags now tenantId i tags v) = Inr ()" by (simp add: syncTags_def Let_def)
  show "linkedNames k ?r = (if k = i then set (normalizeTags tags) else linkedNames k v)"
    using linkedNames_synced [OF book u p, of k] linkedNames_cong [OF r(1), of k] by simp
qed

section \<open>The service keeps the book\<close>

lemma tagBook_normal: "tagBook U w \<Longrightarrow> c \<in> set (w_contacts w) \<Longrightarrow> t \<in> set (contact_tags c) \<Longrightarrow> normal t"
  by (auto simp: tagBook_def tagsAgree_def agree_def)

lemma contact_of_unique:
  "linkBook w \<Longrightarrow> b \<in> set (w_contacts w) \<Longrightarrow> c \<in> set (w_contacts w) \<Longrightarrow> contact_id b = contact_id c \<Longrightarrow> b = c"
  by (auto simp: linkBook_def distinct_map dest: inj_onD)

lemma linkBook_update:
  assumes lb: "linkBook w" and f: "\<And>x. contact_id (f x) = contact_id x" "\<And>x. contact_tenantId (f x) = contact_tenantId x"
    and v: "v = putContacts (update_where p f (w_contacts w)) w"
  shows "contact_id ` set (w_contacts v) = contact_id ` set (w_contacts w)" and "linkBook v"
proof -
  have ids: "map contact_id (update_where p f (w_contacts w)) = map contact_id (w_contacts w)"
    by (rule map_update_where_same) (simp add: f)
  then have idset: "contact_id ` set (update_where p f (w_contacts w)) = contact_id ` set (w_contacts w)"
    by (metis set_map)
  then show "contact_id ` set (w_contacts v) = contact_id ` set (w_contacts w)" by (simp add: v)
  show "linkBook v"
    using lb unfolding linkBook_def v
    by (auto simp: ids idset unusedIds_def tenantExists_def set_update_where f)
qed

text \<open>A contact whose array has changed, followed by the synchronisation with that array.\<close>

lemma tagBook_resynced:
  assumes book: "tagBook U w" and c: "c \<in> set (w_contacts w)"
    and f: "\<And>x. contact_id (f x) = contact_id x" "\<And>x. contact_tenantId (f x) = contact_tenantId x"
    and tags: "normalizeTags ts = ts" "set (contact_tags (f c)) = set ts"
    and v: "v = putContacts (update_where (\<lambda>x. contact_id x = contact_id c) f (w_contacts w)) w"
  shows "tagBook (U - {contact_id c}) (snd (syncTags now (contact_tenantId c) (contact_id c) ts v))" (is "tagBook _ ?r")
proof -
  let ?i = "contact_id c" and ?cs = "update_where (\<lambda>x. contact_id x = contact_id c) f (w_contacts w)"
  have lb: "linkBook w" and agree: "tagsAgree U w" using book by (simp_all add: tagBook_def)
  note lv = linkBook_update(2) [OF lb f v] and idset = linkBook_update(1) [OF lb f v]
  have te: "tenantExists (contact_tenantId c) v" and mem: "?i \<in> contact_id ` set (w_contacts v)"
    using lb c idset by (simp_all add: linkBook_def tenantExists_def v)
  note sync = syncTags_links [OF lv te mem, where now = now and tags = ts]
  have "agree (contact_id x \<notin> U - {?i}) (contact_tags x) (linkedNames (contact_id x) ?r)"
    if x: "x \<in> set (w_contacts ?r)" for x
  proof -
    have "x \<in> set ?cs" using x sync(3) v by simp
    then obtain y where y: "y \<in> set (w_contacts w)" "x = (if contact_id y = ?i then f y else y)"
      by (auto simp: set_update_where)
    show ?thesis
    proof (cases "contact_id y = ?i")
      case True
      with y contact_of_unique [OF lb y(1) c] have "x = f c" by simp
      with sync(5) [where k = ?i] tags f show ?thesis by (simp add: agree_same)
    next
      case False
      with y have "x = y" by simp
      moreover have "linkedNames (contact_id y) v = linkedNames (contact_id y) w"
        by (simp add: v linkedNames_def)
      ultimately show ?thesis using sync(5) [where k = "contact_id y"] False agree y by (simp add: tagsAgree_def)
    qed
  qed
  with sync(2) show ?thesis by (simp add: tagBook_def tagsAgree_def)
qed

text \<open>A contact whose array stays.\<close>

lemma tagBook_kept:
  assumes book: "tagBook U w" and f: "\<And>x. contact_id (f x) = contact_id x"
    "\<And>x. contact_tenantId (f x) = contact_tenantId x" "\<And>x. contact_tags (f x) = contact_tags x"
  shows "tagBook U (putContacts (update_where p f (w_contacts w)) w)" (is "tagBook U ?v")
proof -
  have "linkBook ?v"
    using book by (intro linkBook_update(2) [OF _ f(1,2) refl]) (simp add: tagBook_def)
  moreover have "linkedNames i ?v = linkedNames i w" for i by (simp add: linkedNames_def)
  then have "tagsAgree U ?v"
    using book by (auto simp: tagBook_def tagsAgree_def set_update_where f split: if_splits)
  ultimately show ?thesis by (simp add: tagBook_def)
qed

lemma tagBook_deleteContacts: "tagBook U w \<Longrightarrow> tagBook U (deleteContacts p w)"
proof -
  assume book: "tagBook U w"
  let ?v = "deleteContacts p w"
  let ?gone = "contact_id ` set (filter p (w_contacts w))"
  have parts: "w_contacts ?v = filter (\<lambda>c. \<not> p c) (w_contacts w)" "w_tags ?v = w_tags w"
    "w_contactTags ?v = filter (\<lambda>l. contactTag_contactId l \<notin> ?gone) (w_contactTags w)"
    "w_tenants ?v = w_tenants w" "w_uuid ?v = w_uuid w" "w_next ?v = w_next w"
    by (simp_all add: deleteContacts_def Let_def delete_where_def)
  have lb: "linkBook w" using book by (simp add: tagBook_def)
  have kept: "contact_id c \<notin> ?gone" if "c \<in> set (w_contacts w)" "\<not> p c" for c
    using that contact_of_unique [OF lb] by auto
  have "contactTag_contactId l \<in> contact_id ` set (filter (\<lambda>c. \<not> p c) (w_contacts w))"
    if "l \<in> set (w_contactTags w)" "contactTag_contactId l \<notin> ?gone" for l
  proof -
    have "contactTag_contactId l \<in> contact_id ` set (w_contacts w)" using lb that(1) by (simp add: linkBook_def)
    then obtain c where c: "c \<in> set (w_contacts w)" "contactTag_contactId l = contact_id c" by blast
    with that(2) have "\<not> p c" by auto
    with c show ?thesis by simp
  qed
  then have "linkBook ?v"
    using lb unfolding linkBook_def
    by (auto simp: parts unusedIds_def tenantExists_def distinct_map intro: inj_on_subset)
  moreover have "linkedNames (contact_id c) ?v = linkedNames (contact_id c) w"
    if "c \<in> set (w_contacts w)" "\<not> p c" for c
    unfolding linkedNames_def parts set_filter mem_Collect_eq
    by (rule Collect_cong) (use kept [OF that] in \<open>simp, metis\<close>)
  ultimately show "tagBook U ?v"
    using book by (auto simp: tagBook_def tagsAgree_def parts)
qed

text \<open>The operations.\<close>

lemma insertContact_run:
  "(\<exists>e. insertContact c w = (Inl e, w)) \<or>
   tenantExists (contact_tenantId c) w \<and> insertContact c w = (Inr (), bump (w\<lparr>w_contacts := w_contacts w @ [c]\<rparr>))"
  by (auto simp: insertContact_def)

lemma syncTags_ok: "syncTags now t i ts v = (Inr (), snd (syncTags now t i ts v))"
  by (simp add: syncTags_def Let_def)

lemma linkBook_addContact:
  assumes "linkBook w" and "tenantExists (contact_tenantId c) w" and "contact_id c = newId w"
  shows "linkBook (bump (w\<lparr>w_contacts := w_contacts w @ [c]\<rparr>))" (is "linkBook ?v")
    and "linkedNames (contact_id c) w = {}"
proof -
  have un: "unusedIds w" using assms(1) by (simp add: linkBook_def)
  then have "unusedIds ?v" by (rule unusedIds_bump) (auto simp: assms(3))
  then show "linkBook ?v"
    using assms newId_unused [OF un] unfolding linkBook_def by (auto simp: tenantExists_def)
  have "contactTag_contactId l \<noteq> contact_id c" if "l \<in> set (w_contactTags w)" for l
    using assms(1,3) newId_unused [OF un] that by (metis linkBook_def)
  then show "linkedNames (contact_id c) w = {}" by (auto simp: linkedNames_def)
qed

lemma tagBook_inserted:
  assumes book: "tagBook U w" and t: "tenantExists (contact_tenantId c) w" and i: "contact_id c = newId w"
    and tags: "normalizeTags (contact_tags c) = contact_tags c"
    and v: "v = bump (w\<lparr>w_contacts := w_contacts w @ [c]\<rparr>)"
  shows "tagBook U (snd (whenA (contact_tags c \<noteq> [])
    (syncTags now (contact_tenantId c) (contact_id c) (contact_tags c)) v))" (is "tagBook U ?s")
proof -
  have lb: "linkBook w" and un: "unusedIds w" using book by (simp_all add: tagBook_def linkBook_def)
  have contacts: "w_contacts v = w_contacts w @ [c]" and same: "linkedNames k v = linkedNames k w" for k
    by (simp_all add: v linkedNames_def)
  note lv = linkBook_addContact(1) [OF lb t i, folded v] and unlinked = linkBook_addContact(2) [OF lb t i]
  have te: "tenantExists (contact_tenantId c) v" and mem: "contact_id c \<in> contact_id ` set (w_contacts v)"
    using t by (simp_all add: v tenantExists_def)
  note sync = syncTags_links [OF lv te mem, where now = now and tags = "contact_tags c"]
  have s: "linkBook ?s" "w_contacts ?s = w_contacts w @ [c]"
    "linkedNames k ?s = (if k = contact_id c then set (contact_tags c) else linkedNames k w)" for k
    using lv sync tags unlinked by (cases "contact_tags c = []"; simp add: same contacts)+
  moreover have "contact_id x \<noteq> contact_id c" if "x \<in> set (w_contacts w)" for x
    using newId_unused [OF un] that i by (metis image_eqI)
  ultimately show ?thesis using book agree_same [OF tags refl] by (auto simp: tagBook_def tagsAgree_def)
qed

lemma createContact_keeps:
  assumes book: "tagBook U w"
  shows "tagBook U (snd (createContact now t (transformCreate dto) w))"
proof -
  define c where "c = newContact now t (cc_name (transformCreate dto)) (cc_phone (transformCreate dto))
    (cc_email (transformCreate dto)) (coalesce (cc_tags (transformCreate dto)) []) (cc_notes (transformCreate dto)) (newId w)"
  have i: "contact_id c = newId w" and ct: "contact_tenantId c = t"
    by (simp_all add: c_def newContact_def)
  have tags: "normalizeTags (contact_tags c) = contact_tags c"
    by (cases "cc_tags dto") (simp_all add: c_def newContact_def transformCreate_def)
  let ?v = "bump (w\<lparr>w_contacts := w_contacts w @ [c]\<rparr>)"
  let ?m = "whenA (contact_tags c \<noteq> []) (syncTags now t (contact_id c) (contact_tags c))"
  have "tagBook U (snd (thenA (insertContact c)
      (thenA ?m (thenA (modifyA (addActivity now t (contact_id c) ''contact_created'' None m)) (returnA c))) w))" for m
    using insertContact_run [of c w]
  proof (elim disjE exE conjE)
    assume te: "tenantExists (contact_tenantId c) w" and ins: "insertContact c w = (Inr (), ?v)"
    have "tagBook U (snd (?m ?v))"
      using tagBook_inserted [OF book te i tags refl] ct by simp
    then have "tagBook U (addActivity now t (contact_id c) ''contact_created'' None m (snd (?m ?v)))"
      by (rule tagBook_later [rotated 2]) (simp_all add: addActivity_def bump_def)
    moreover have "?m ?v = (Inr (), snd (?m ?v))" 
      by (cases "contact_tags c = []") (simp, simp, rule syncTags_ok)
    ultimately show ?thesis using ins by simp
  qed (use book in simp)
  then show ?thesis
    using book unfolding createContact_def Let_def c_def [symmetric] by (simp split: if_split)
qed

lemma withContact_keeps:
  "tagBook U w \<Longrightarrow> (\<And>c. tenantContact t i w = Some c \<Longrightarrow> tagBook U (snd (k c w))) \<Longrightarrow> tagBook U (snd (withContact t i k w))"
  by (simp add: withContact_def split: option.split)

lemma tenantContactD:
  "tenantContact t i w = Some c \<Longrightarrow> c \<in> set (w_contacts w) \<and> contact_id c = i \<and> contact_tenantId c = t"
  by (auto simp: tenantContact_def dest: find_SomeD)

lemma changeContact_run:
  assumes "c \<in> set (w_contacts w)" and "contact_id c = i"
  shows "(\<exists>e. changeContact i f w = (Inl e, w)) \<or>
    changeContact i f w = (Inr (), putContacts (update_where (\<lambda>x. contact_id x = i) f (w_contacts w)) w)"
  using assms by (auto simp: changeContact_def updateContact_def updateRow_def split: option.split)

text \<open>A change that writes the tags links them.\<close>

lemma updateContact_keeps:
  fixes now t i w dto
  defines "run \<equiv> updateContactOp now t i (transformUpdate dto) w"
  assumes book: "tagBook U w"
  shows "tagBook (U - (if uc_tags dto \<noteq> None \<and> is_ok (fst run) then {i} else {})) (snd run)"
proof (cases "tenantContact t i w")
  case None
  then show ?thesis using book by (simp add: run_def updateContactOp_def withContact_def)
next
  case (Some c)
  let ?d = "transformUpdate dto"
  let ?v = "putContacts (update_where (\<lambda>x. contact_id x = i) (applyContactDto ?d) (w_contacts w)) w"
  have cd: "c \<in> set (w_contacts w)" "contact_id c = i" "contact_tenantId c = t" using tenantContactD [OF Some] by auto
  have go: "run = thenA (changeContact i (applyContactDto ?d))
      (thenA (case uc_tags ?d of None \<Rightarrow> returnA () | Some ts \<Rightarrow> syncTags now t i ts)
        (returnA (applyContactDto ?d c))) w"
    using Some by (simp add: run_def updateContactOp_def withContact_def)
  consider e where "changeContact i (applyContactDto ?d) w = (Inl e, w)"
    | "changeContact i (applyContactDto ?d) w = (Inr (), ?v)"
    using changeContact_run [OF cd(1,2)] by blast
  then show ?thesis
  proof cases
    case 1
    then show ?thesis using book go by simp
  next
    case 2
    show ?thesis
    proof (cases "uc_tags dto")
      case None
      have "tagBook U ?v"
        using book by (rule tagBook_kept) (simp_all add: applyContactDto_def transformUpdate_def None)
      then show ?thesis using 2 None go by (simp add: transformUpdate_def)
    next
      case (Some ts)
      have "tagBook (U - {i}) (snd (syncTags now t i (normalizeTags ts) ?v))"
        using tagBook_resynced [OF book cd(1), of "applyContactDto ?d" "normalizeTags ts"] cd(2,3) Some
        by (simp add: applyContactDto_def transformUpdate_def)
      moreover have "syncTags now t i (normalizeTags ts) ?v = (Inr (), snd (syncTags now t i (normalizeTags ts) ?v))"
        by (rule syncTags_ok)
      ultimately show ?thesis using 2 Some go by (simp add: transformUpdate_def)
    qed
  qed
qed

lemma set_distinctFirst [simp]: "set (distinctFirst xs) = set xs"
  by (induction xs) auto

lemma tagOne_keeps:
  assumes book: "tagBook U v" and c: "c \<in> set (w_contacts v)" and ts: "\<And>t. t \<in> set ts \<Longrightarrow> normal t"
  shows "\<exists>v'. tagOne now (contact_tenantId c) ts c v = (Inr (), v') \<and> tagBook (U - {contact_id c}) v' \<and>
    (\<forall>x \<in> set (w_contacts v). contact_id x \<noteq> contact_id c \<longrightarrow> x \<in> set (w_contacts v'))"
proof -
  let ?f = "\<lambda>x. x\<lparr>contact_tags := mergedTags c ts\<rparr>" and ?i = "contact_id c" and ?t = "contact_tenantId c"
  let ?u = "putContacts (update_where (\<lambda>x. contact_id x = ?i) ?f (w_contacts v)) v"
  let ?r = "snd (syncTags now ?t ?i (mergedTags c ts) ?u)"
  have "normal t" if "t \<in> set (mergedTags c ts)" for t
    using that ts tagBook_normal [OF book c] by (auto simp: mergedTags_def)
  then have merged: "normalizeTags (mergedTags c ts) = mergedTags c ts" by (rule normalizeTags_id)
  have "tagBook (U - {?i}) ?r" by (rule tagBook_resynced [OF book c _ _ merged]) simp_all
  moreover have "tagOne now ?t ts c v = (Inr (), ?r)"
  proof -
    have "updateContact ?i ?f v = (Inr (), ?u)" using c by (simp add: updateContact_def updateRow_ok)
    then show ?thesis unfolding tagOne_def using syncTags_ok by simp
  qed
  moreover have "x \<in> set (w_contacts ?r)" if x: "x \<in> set (w_contacts v)" "contact_id x \<noteq> ?i" for x
  proof -
    have lb: "linkBook v" using book by (simp add: tagBook_def)
    have lu: "linkBook ?u" by (rule linkBook_update(2) [OF lb _ _ refl]) simp_all
    have te: "tenantExists ?t ?u" using lb c by (simp add: linkBook_def tenantExists_def)
    have "contact_id ` set (w_contacts ?u) = contact_id ` set (w_contacts v)"
      by (rule linkBook_update(1) [OF lb _ _ refl]) simp_all
    then have "?i \<in> contact_id ` set (w_contacts ?u)" using c by simp
    then have "w_contacts ?r = w_contacts ?u" by (rule syncTags_links(3) [OF lu te])
    then show ?thesis using x by (auto simp: set_update_where)
  qed
  ultimately show ?thesis by blast
qed

lemma tagAll_keeps:
  assumes "tagBook U v" and "\<And>c. c \<in> set cs \<Longrightarrow> c \<in> set (w_contacts v) \<and> contact_tenantId c = t"
    and "distinct (map contact_id cs)" and "\<And>n. n \<in> set ts \<Longrightarrow> normal n"
  shows "\<exists>v'. forEachA (tagOne now t ts) cs v = (Inr (), v') \<and> tagBook (U - contact_id ` set cs) v'"
  using assms
proof (induction cs arbitrary: v U)
  case (Cons c cs)
  then have c: "c \<in> set (w_contacts v)" "contact_tenantId c = t" by auto
  obtain u where u: "tagOne now t ts c v = (Inr (), u)" "tagBook (U - {contact_id c}) u"
    and kept: "\<forall>x \<in> set (w_contacts v). contact_id x \<noteq> contact_id c \<longrightarrow> x \<in> set (w_contacts u)"
    using tagOne_keeps [OF Cons.prems(1) c(1) Cons.prems(4), where now = now] c(2) by auto
  have "x \<in> set (w_contacts u) \<and> contact_tenantId x = t" if "x \<in> set cs" for x
  proof -
    have "contact_id x \<noteq> contact_id c" using Cons.prems(3) that by (metis distinct.simps(2) image_eqI list.simps(9) set_map)
    then show ?thesis using kept Cons.prems(2) that by auto
  qed
  then obtain v' where "forEachA (tagOne now t ts) cs u = (Inr (), v')"
      "tagBook (U - {contact_id c} - contact_id ` set cs) v'"
    using Cons.IH [of "U - {contact_id c}" u] u(2) Cons.prems(3,4) by auto
  then show ?case using u(1) by (simp add: Diff_insert2 [symmetric] insert_commute)
qed simp

lemma bulkTag_keeps:
  "tagBook U w \<Longrightarrow> tagBook (U - contact_id ` set (chosenContacts t ids w)) (snd (bulkTag now t ids tags w))"
proof -
  assume book: "tagBook U w"
  have "distinct (map contact_id (chosenContacts t ids w))"
    using book by (simp add: tagBook_def linkBook_def chosenContacts_def distinct_map inj_on_def)
  then obtain v where "forEachA (tagOne now t (normalizeTags tags)) (chosenContacts t ids w) w = (Inr (), v)" "tagBook (U - contact_id ` set (chosenContacts t ids w)) v"
    using tagAll_keeps [OF book, where cs = "chosenContacts t ids w" and t = t and ts = "normalizeTags tags" and now = now]
      normalizeTags_normal by (auto simp: chosenContacts_def)
  then show ?thesis by (simp add: bulkTag_def)
qed

lemma createTag_keeps:
  assumes book: "tagBook U w" and name: "normalizeTag name \<noteq> []"
  shows "tagBook U (snd (createTag t name w))"
proof -
  let ?v = "bump (w\<lparr>w_tags := w_tags w @ [\<lparr>tag_id = newId w, tag_tenantId = t, tag_name = normalizeTag name\<rparr>]\<rparr>)"
  have lb: "linkBook w" using book by (simp add: tagBook_def)
  have "normal (normalizeTag name)" using name by (simp add: normal_def)
  with lb have "linkBook ?v" by (rule linkBook_addTag)
  moreover have "linkedNames i ?v = linkedNames i w" for i
  proof -
    have "contactTag_tagId l \<noteq> newId w" if "l \<in> set (w_contactTags w)" for l
      using link_has_tag [OF lb that] newId_unused [of w] lb by (metis image_eqI linkBook_def)
    then show ?thesis by (auto simp: linkedNames_def)
  qed
  ultimately have "tagBook U ?v" using book by (simp add: tagBook_def tagsAgree_def)
  then show ?thesis using book by (simp add: createTag_def insertTag_def)
qed

lemma linkedNames_addLink:
  assumes "linkBook w" and "g \<in> set (w_tags w)" and "tag_id g = contactTag_tagId l"
  shows "linkedNames k (bump (w\<lparr>w_contactTags := w_contactTags w @ [l]\<rparr>)) =
    (if k = contactTag_contactId l then insert (tag_name g) (linkedNames k w) else linkedNames k w)"
proof -
  have "linkedNames k (bump (w\<lparr>w_contactTags := w_contactTags w @ [l]\<rparr>)) = linkedNames k w \<union>
      {tag_name t | t. t \<in> set (w_tags w) \<and> contactTag_contactId l = k \<and> contactTag_tagId l = tag_id t}"
    by (auto simp: linkedNames_def)
  also have "{tag_name t | t. t \<in> set (w_tags w) \<and> contactTag_contactId l = k \<and> contactTag_tagId l = tag_id t} =
      (if k = contactTag_contactId l then {tag_name g} else {})"
    using assms(2,3) by (auto dest: tag_of_unique [OF assms(1,2)])
  finally show ?thesis by auto
qed

lemma assignTag_keeps:
  assumes book: "tagBook U w"
  shows "tagBook U (snd (assignTagToContact now t i tagId w))"
  unfolding assignTagToContact_def
proof (rule withContact_keeps [OF book])
  fix c assume "tenantContact t i w = Some c"
  then have c: "c \<in> set (w_contacts w)" "contact_id c = i" "contact_tenantId c = t"
    using tenantContactD by auto
  have lb: "linkBook w" using book by (simp add: tagBook_def)
  let ?l = "\<lparr>contactTag_id = newId w, contactTag_contactId = i, contactTag_tagId = tagId\<rparr>"
  let ?v = "bump (w\<lparr>w_contactTags := w_contactTags w @ [?l]\<rparr>)"
  have linked: "tagBook U (snd (thenA (whenA (tag_name g \<notin> set (contact_tags c))
        (updateContact i (\<lambda>x. x\<lparr>contact_tags := contact_tags c @ [tag_name g]\<rparr>)))
      (thenA (modifyA (logTag now t i ''tag_added'' (tag_name g))) (returnA ?l)) ?v))"
    if g: "g \<in> set (w_tags w)" "tag_id g = tagId" for g
  proof -
    let ?f = "\<lambda>x. x\<lparr>contact_tags := contact_tags c @ [tag_name g]\<rparr>"
    let ?u = "if tag_name g \<notin> set (contact_tags c)
      then putContacts (update_where (\<lambda>x. contact_id x = i) ?f (w_contacts w)) ?v else ?v"
    have lv: "linkBook ?v" using linkBook_addLink [OF lb, of i tagId] c g by auto
    have names: "linkedNames k ?v = (if k = i then insert (tag_name g) (linkedNames k w) else linkedNames k w)" for k
      using linkedNames_addLink [OF lb g(1), of ?l] g(2) by simp
    have "linkBook (putContacts (update_where (\<lambda>x. contact_id x = i) ?f (w_contacts w)) ?v)"
      by (rule linkBook_update(2) [OF lv]) simp_all
    with lv have "linkBook ?u" by simp
    moreover have "agree (contact_id x \<notin> U) (contact_tags x) (linkedNames (contact_id x) ?v)"
      if x: "x \<in> set (w_contacts ?u)" for x
    proof -
      obtain y where y: "y \<in> set (w_contacts w)"
        "x = (if contact_id y = i \<and> tag_name g \<notin> set (contact_tags c) then ?f y else y)"
        using x by (auto simp: set_update_where split: if_splits)
      have old: "agree (contact_id y \<notin> U) (contact_tags y) (linkedNames (contact_id y) w)"
        using book y(1) by (simp add: tagBook_def tagsAgree_def)
      show ?thesis
      proof (cases "contact_id y = i")
        case True
        with contact_of_unique [OF lb y(1) c(1)] c(2) have "y = c" by simp
        moreover have "normal (tag_name g)" using lb g(1) by (simp add: linkBook_def)
        ultimately show ?thesis
          using old True y(2) unfolding names by (cases "tag_name g \<in> set (contact_tags c)") (auto simp: agree_def)
      next
        case False
        with old y(2) show ?thesis unfolding names by simp
      qed
    qed
    moreover have "linkedNames k ?u = linkedNames k ?v" for k by (simp add: linkedNames_def)
    ultimately have "tagBook U ?u" by (rule tagBookI)
    then have "tagBook U (logTag now t i ''tag_added'' (tag_name g) ?u)"
      by (rule tagBook_later [rotated 2]) (simp_all add: logTag_def addActivity_def bump_def)
    moreover have "whenA (tag_name g \<notin> set (contact_tags c)) (updateContact i ?f) ?v = (Inr (), ?u)"
      using c by (auto simp: whenA_def updateContact_def updateRow_def)
    ultimately show ?thesis by simp
  qed
  show "tagBook U (snd ((\<lambda>w. case findTag t tagId w of None \<Rightarrow> (Inl (NotFoundException ''Tag not found''), w)
     | Some g \<Rightarrow> (case bindA (insertLink i tagId) (\<lambda>l.
             thenA (whenA (tag_name g \<notin> set (contact_tags c))
                     (updateContact i (\<lambda>x. x\<lparr>contact_tags := contact_tags c @ [tag_name g]\<rparr>)))
               (thenA (modifyA (logTag now t i ''tag_added'' (tag_name g))) (returnA l))) w of
            (Inl e, v) \<Rightarrow> (Inl (alreadyAssigned e), v) | (Inr l, v) \<Rightarrow> (Inr l, v))) w))"
  proof (cases "findTag t tagId w")
    case (Some g)
    then have g: "g \<in> set (w_tags w)" "tag_id g = tagId" by (auto simp: findTag_def dest: find_SomeD)
    have "insertLink i tagId w = (Inr ?l, ?v) \<or> (\<exists>e. insertLink i tagId w = (Inl e, w))"
      by (auto simp: insertLink_def Let_def)
    then show ?thesis using Some book linked [OF g] by (auto split: prod.split sum.split)
  qed (use book in simp)
qed

text \<open>The operations on groups, and those that refuse, leave tags and contacts alone.\<close>

lemma group_keeps:
  "tagBook U w \<Longrightarrow> tagBook U (snd (createGroup t name w))"
  "tagBook U w \<Longrightarrow> tagBook U (snd (addMembersToGroup t g ids w))"
  "tagBook U w \<Longrightarrow> tagBook U (snd (removeMemberFromGroup t g i w))"
  "tagBook U w \<Longrightarrow> tagBook U (snd (addContactToGroup t i gid gname w))"
  "tagBook U w \<Longrightarrow> tagBook U (snd (removeContactFromGroup t i g w))"
proof -
  assume book: "tagBook U w"
  have group: "tagBook U (snd (insertGroup t n v))" if "tagBook U v" for n v
    using that by (auto simp: insertGroup_def Let_def bump_def intro: tagBook_later [rotated 2])
  have member: "tagBook U (snd (insertMember g' i' v))" if "tagBook U v" for g' i' v
    using that by (auto simp: insertMember_def intro: tagBook_later [rotated 2])
  show "tagBook U (snd (createGroup t name w))" using book group by (simp add: createGroup_def)
  show "tagBook U (snd (addMembersToGroup t g ids w))"
  proof -
    have "tagBook U (snd (forEachA (upsertMember g) ids w))"
      using book by (rule snd_forEachA) (simp add: upsertMember_def member)
    then show ?thesis using book
      by (auto simp: addMembersToGroup_def transactionA_def split: option.split prod.split sum.split)
  qed
  have dropped: "tagBook U (dropMember g' i' v)" if "tagBook U v" for g' i' v
    using that by (auto simp: dropMember_def intro: tagBook_later [rotated 2])
  show "tagBook U (snd (removeMemberFromGroup t g i w))"
    using book dropped by (simp add: removeMemberFromGroup_def split: option.split)
  show "tagBook U (snd (removeContactFromGroup t i g w))"
    unfolding removeContactFromGroup_def by (rule withContact_keeps [OF book]) (simp add: book dropped)
  show "tagBook U (snd (addContactToGroup t i gid gname w))"
    unfolding addContactToGroup_def
  proof (rule withContact_keeps [OF book])
    have "tagBook U (snd (upsertGroup t n w))" for n
    proof -
      have "tagBook U (snd (bindA (insertGroup t n) (\<lambda>g. returnA (contactGroup_id g)) w))"
        by (rule snd_bindA [where P = "tagBook U"]) (simp_all add: group book)
      with book show ?thesis by (simp add: upsertGroup_def split: option.split)
    qed
    then have "tagBook U (snd (bindA (upsertGroup t n) (\<lambda>i. returnA (Some i)) w))" for n
      by (intro snd_bindA [where P = "tagBook U"]) simp_all
    then have "tagBook U (snd (resolveGroup t gid gname w))"
      using book by (simp add: resolveGroup_def)
    then show "tagBook U (snd (bindA (resolveGroup t gid gname) (\<lambda>resolved w.
       if \<not> truthy resolved then (Inl groupNotFound, w)
       else case findGroup t (the resolved) w of
           None \<Rightarrow> (Inl groupNotFound, w)
         | Some g \<Rightarrow>
             (case insertMember (the resolved) i w of
                (Inl e, v) \<Rightarrow> (Inl (if e = PrismaError ''P2002''
                                  then ConflictException ''Contact is already in this group'' else e), v)
              | (Inr _, v) \<Rightarrow> (Inr g, v))) w))"
    proof (rule snd_bindA [where P = "tagBook U"], goal_cases)
      case (1 r v)
      have "tagBook U (snd (insertMember (the r) i v))" using 1 by (rule member)
      moreover obtain x u where "insertMember (the r) i v = (x, u)" by (cases "insertMember (the r) i v")
      ultimately show ?case using 1 by (cases x) (auto split: option.split)
    qed
  qed
qed

section \<open>A concrete address book\<close>

definition someTenant :: tenant where
  "someTenant = demoTenant PLAN_SMS ACTIVE False 0"

definition ada :: contact where
  "ada = newContact 0 ''t1'' ''Ada'' (Some ''+15550001'') None [''vip''] None ''k1''"

definition bookWorld :: world where
  "bookWorld = (emptyWorld (\<lambda>n. replicate n CHR ''x''))\<lparr>w_tenants := [someTenant], w_contacts := [ada],
     w_tags := [\<lparr>tag_id = ''g1'', tag_tenantId = ''t1'', tag_name = ''vip''\<rparr>],
     w_contactTags := [\<lparr>contactTag_id = ''l1'', contactTag_contactId = ''k1'', contactTag_tagId = ''g1''\<rparr>]\<rparr>"

definition newcomer :: CreateContactDto where
  "newcomer = \<lparr>cc_name = ''Bob'', cc_phone = Some ''+15550002'', cc_email = None,
     cc_tags = Some ['' VIP '', ''Lead''], cc_notes = None\<rparr>"

lemma bookWorld_tagBook: "tagBook {} bookWorld"
proof -
  have "inj (\<lambda>n. replicate n CHR ''x'')" by (rule injI) (metis length_replicate)
  moreover have "replicate n CHR ''x'' \<notin> {''k1'', ''g1'', ''l1''}" for n by (cases n) auto
  moreover have "normal ''vip''" by code_simp
  ultimately show ?thesis
    by (auto simp: tagBook_def linkBook_def tagsAgree_def agree_def unusedIds_def linkedNames_def bookWorld_def emptyWorld_def
        tenantExists_def ada_def newContact_def someTenant_def demoTenant_def)
qed

section \<open>What the two stores do not survive\<close>

text \<open>A blank tag name is accepted, and stored as the empty text.\<close>

lemma blank_tag_accepted:
  assumes "tagNamed t [] w = None" and "tenantExists t w"
  shows "\<exists>i. fst (createTag t ''  '' w) = Inr i \<and> tagNamed t [] (snd (createTag t ''  '' w)) \<noteq> None"
proof -
  have "normalizeTag ''  '' = []" by code_simp
  with assms show ?thesis
    by (simp add: createTag_def insertTag_def tagNamed_def find_append)
qed

text \<open>
  A contact without an e-mail address is shown the appointments of every customer of the tenant.
\<close>

theorem contact_page_shows_all_appointments:
  assumes "tenantContact t i w = Some c" and "contact_email c = None"
    and "a \<in> set (w_appointments w)" and "appointment_tenantId a = t"
    and "appointment_customerId a = Some (customer_id cu)" and "cu \<in> set (w_customers w)"
    and "length (filter (\<lambda>a. appointment_tenantId a = t) (w_appointments w)) \<le> 10"
  shows "\<exists>as. findOneContact t i w = Inr (c, as) \<and> a \<in> set as"
proof -
  let ?p = "\<lambda>a. appointment_tenantId a = t \<and>
    list_ex (\<lambda>cu. appointment_customerId a = Some (customer_id cu) \<and> customerMatches c cu) (w_customers w)"
  have "list_ex (\<lambda>cu. appointment_customerId a = Some (customer_id cu) \<and> customerMatches c cu) (w_customers w)"
    using assms(2,5,6) by (auto simp: list_ex_iff customerMatches_def)
  then have "a \<in> set (order_desc appointment_scheduledAt (filter ?p (w_appointments w)))"
    using assms(3,4) by simp
  moreover have "length (order_desc appointment_scheduledAt (filter ?p (w_appointments w))) \<le> 10"
  proof -
    let ?own = "filter (\<lambda>a. appointment_tenantId a = t) (w_appointments w)"
    have "filter ?p (w_appointments w) = filter ?p ?own" by (simp cong: conj_cong)
    also have "length \<dots> \<le> length ?own" by (rule length_filter_le)
    finally show ?thesis using assms(7) by (simp add: order_desc_def)
  qed
  ultimately show ?thesis
    using assms(1) by (simp add: findOneContact_def contactAppointments_def)
qed

end
