(* ===== verification/Contact_Forms.thy ===== *)
theory Contact_Forms
  imports Contacts Events Rate_Limit Usage_Quota
begin

text \<open>
  \<open>modules/contacts/form.service.ts\<close>: the public forms by which people add themselves to a tenant's
  contacts, and to an event when the form belongs to one. The random suffix of a slug is an argument. The
  column \<open>event_id\<close> of a form has no foreign key, so a form outlives its event.
\<close>

section \<open>Forms\<close>

definition FIELD_TYPES :: "string list" where
  "FIELD_TYPES = [''text'', ''email'', ''tel'', ''textarea'', ''select'']"

record CreateFormDto =
  cf_title :: string
  cf_description :: "string option"
  cf_fields :: "formField list option"
  cf_eventId :: "uuid option"

definition validForm :: "CreateFormDto \<Rightarrow> bool" where
  "validForm d = (length (cf_title d) \<le> 120 \<and> length (coalesce (cf_description d) []) \<le> 500 \<and>
     list_all (\<lambda>f. ff_type f \<in> set FIELD_TYPES) (coalesce (cf_fields d) []))"

definition DEFAULT_FIELDS :: "formField list" where
  "DEFAULT_FIELDS =
     [\<lparr>ff_name = ''name'', ff_label = ''Full Name'', ff_type = ''text'', ff_required = True,
       ff_options = None, ff_placeholder = Some ''Enter your full name''\<rparr>,
      \<lparr>ff_name = ''phone'', ff_label = ''Phone Number'', ff_type = ''tel'', ff_required = True,
       ff_options = None, ff_placeholder = Some ''+234 800 000 0000''\<rparr>,
      \<lparr>ff_name = ''email'', ff_label = ''Email Address'', ff_type = ''email'', ff_required = False,
       ff_options = None, ff_placeholder = Some ''your@email.com''\<rparr>]"

definition isSlugChar :: "char \<Rightarrow> bool" where
  "isSlugChar c = (is_lower c \<or> is_digit c)"

text \<open>\<open>replace(/^-|-$/g, '')\<close>: one dash at each end.\<close>

definition stripDash :: "string \<Rightarrow> string" where
  "stripDash s =
     (let t = (case s of c # r \<Rightarrow> if c = CHR ''-'' then r else s | [] \<Rightarrow> [])
      in if t \<noteq> [] \<and> last t = CHR ''-'' then butlast t else t)"

definition generateSlug :: "string \<Rightarrow> string \<Rightarrow> string" where
  "generateSlug hex title =
     (let base = take 30 (stripDash (replaceRuns (\<lambda>c. \<not> isSlugChar c) ''-'' (toLowerCase title)))
      in (if base = [] then ''form'' else base) @ ''-'' @ hex)"

definition formNotFound :: exn where
  "formNotFound = NotFoundException ''Form not found''"

definition newForm :: "instant \<Rightarrow> string \<Rightarrow> uuid \<Rightarrow> CreateFormDto \<Rightarrow> uuid \<Rightarrow> contactForm" where
  "newForm now hex tenantId dto i =
     \<lparr>contactForm_id = i, contactForm_tenantId = tenantId, contactForm_title = cf_title dto,
      contactForm_description = cf_description dto,
      contactForm_fields = (if coalesce (cf_fields dto) [] \<noteq> [] then coalesce (cf_fields dto) [] else DEFAULT_FIELDS),
      contactForm_isActive = True, contactForm_slug = generateSlug hex (cf_title dto),
      contactForm_eventId = cf_eventId dto, contactForm_submissions = 0, contactForm_createdAt = now\<rparr>"

definition createForm :: "instant \<Rightarrow> string \<Rightarrow> uuid \<Rightarrow> CreateFormDto \<Rightarrow> contactForm act" where
  "createForm now hex tenantId dto w =
     (if truthy (cf_eventId dto) \<and> eventOf tenantId (the (cf_eventId dto)) w = None
      then (Inl (BadRequestException ''Linked event not found''), w)
      else let f = newForm now hex tenantId dto (newId w)
           in if contactForm_slug f \<in> contactForm_slug ` set (w_contactForms w)
              then (Inl (PrismaError ''P2002''), w)
              else if \<not> tenantExists tenantId w then (Inl (PrismaError ''P2003''), w)
              else (Inr f, bump (w\<lparr>w_contactForms := w_contactForms w @ [f]\<rparr>)))"

definition formBySlug :: "string \<Rightarrow> world \<Rightarrow> contactForm option" where
  "formBySlug slug w = List.find (\<lambda>f. contactForm_slug f = slug) (w_contactForms w)"

definition openForm :: "string \<Rightarrow> world \<Rightarrow> contactForm outcome" where
  "openForm slug w =
     (case formBySlug slug w of
        None \<Rightarrow> Inl formNotFound
      | Some f \<Rightarrow> if contactForm_isActive f then Inr f else Inl formNotFound)"

record PublicForm =
  pf_form :: contactForm
  pf_tenantName :: string

definition getFormBySlug :: "string \<Rightarrow> world \<Rightarrow> PublicForm outcome" where
  "getFormBySlug slug w =
     (case openForm slug w of
        Inl e \<Rightarrow> Inl e
      | Inr f \<Rightarrow> Inr \<lparr>pf_form = f,
          pf_tenantName = (case findTenant (contactForm_tenantId f) w of None \<Rightarrow> [] | Some t \<Rightarrow> tenant_name t)\<rparr>)"

definition listForms :: "uuid \<Rightarrow> world \<Rightarrow> contactForm list" where
  "listForms tenantId w =
     order_desc contactForm_createdAt (filter (\<lambda>f. contactForm_tenantId f = tenantId) (w_contactForms w))"

definition ownForm :: "uuid \<Rightarrow> uuid \<Rightarrow> contactForm \<Rightarrow> bool" where
  "ownForm tenantId i f = (contactForm_id f = i \<and> contactForm_tenantId f = tenantId)"

definition getForm :: "uuid \<Rightarrow> uuid \<Rightarrow> world \<Rightarrow> contactForm outcome" where
  "getForm tenantId i w =
     (case List.find (ownForm tenantId i) (w_contactForms w) of None \<Rightarrow> Inl formNotFound | Some f \<Rightarrow> Inr f)"

definition deactivateForm :: "uuid \<Rightarrow> uuid \<Rightarrow> unit act" where
  "deactivateForm tenantId i w =
     (if count_where (ownForm tenantId i) (w_contactForms w) = 0 then (Inl formNotFound, w)
      else (Inr (), w\<lparr>w_contactForms := update_where (ownForm tenantId i)
              (\<lambda>f. f\<lparr>contactForm_isActive := False\<rparr>) (w_contactForms w)\<rparr>))"

section \<open>A submission\<close>

text \<open>\<open>(v || '').trim()\<close>, which a truthy value that is no text does not have.\<close>

definition trimmed :: "json option \<Rightarrow> string outcome" where
  "trimmed v =
     (if \<not> jtruthy v then Inr []
      else case v of Some (JStr s) \<Rightarrow> Inr (trim s) | _ \<Rightarrow> Inl (PlainError ''trim is not a function''))"

text \<open>\<open>String(data[k] ?? '')\<close>, with what every object inherits.\<close>

definition formValue :: "json \<Rightarrow> string \<Rightarrow> string" where
  "formValue d k =
     (case jget (Some d) k of
        None \<Rightarrow> coalesce (inherited k) []
      | Some v \<Rightarrow> if v = JNull then [] else jText v)"

record FormIdentity =
  fi_name :: string
  fi_phone :: string
  fi_email :: string

definition identityOf :: "json \<Rightarrow> FormIdentity outcome" where
  "identityOf d =
     (let field = (\<lambda>k. jget (Some d) k)
      in case trimmed (jor (field ''name'') (field ''full_name'')) of
           Inl e \<Rightarrow> Inl e
         | Inr name \<Rightarrow> (case trimmed (jor (field ''phone'') (field ''mobile'')) of
               Inl e \<Rightarrow> Inl e
             | Inr phone \<Rightarrow> (case trimmed (field ''email'') of
                   Inl e \<Rightarrow> Inl e
                 | Inr email \<Rightarrow> Inr \<lparr>fi_name = name, fi_phone = phone, fi_email = toLowerCase email\<rparr>)))"

definition missingFields :: "formField list \<Rightarrow> json \<Rightarrow> string list" where
  "missingFields ffs d =
     map (\<lambda>f. if ff_label f \<noteq> [] then ff_label f else ff_name f)
       (filter (\<lambda>f. ff_required f \<and> trim (formValue d (ff_name f)) = []) ffs)"

definition sameIdentity :: "uuid \<Rightarrow> FormIdentity \<Rightarrow> contact \<Rightarrow> bool" where
  "sameIdentity tenantId x c = (contact_tenantId c = tenantId \<and>
     ((fi_email x \<noteq> [] \<and> contact_email c = Some (fi_email x)) \<or>
      (fi_phone x \<noteq> [] \<and> contact_phone c = Some (fi_phone x))))"

definition FORM_TAG :: string where
  "FORM_TAG = ''form-submission''"

definition orNone :: "string \<Rightarrow> string option" where
  "orNone s = (if s = [] then None else Some s)"

definition patchOf :: "FormIdentity \<Rightarrow> contact \<Rightarrow> contact" where
  "patchOf x c = c\<lparr>
     contact_name := (if contact_name c = [] \<and> fi_name x \<noteq> [] then fi_name x else contact_name c),
     contact_phone := (if \<not> truthy (contact_phone c) \<and> fi_phone x \<noteq> [] then Some (fi_phone x) else contact_phone c),
     contact_email := (if \<not> truthy (contact_email c) \<and> fi_email x \<noteq> [] then Some (fi_email x) else contact_email c),
     contact_tags := (if FORM_TAG \<in> set (contact_tags c) then contact_tags c else contact_tags c @ [FORM_TAG])\<rparr>"

definition nothingToPatch :: "FormIdentity \<Rightarrow> contact \<Rightarrow> bool" where
  "nothingToPatch x c =
     (\<not> (contact_name c = [] \<and> fi_name x \<noteq> []) \<and> \<not> (\<not> truthy (contact_phone c) \<and> fi_phone x \<noteq> []) \<and>
      \<not> (\<not> truthy (contact_email c) \<and> fi_email x \<noteq> []) \<and> FORM_TAG \<in> set (contact_tags c))"

definition submittedContact :: "instant \<Rightarrow> uuid \<Rightarrow> FormIdentity \<Rightarrow> uuid \<Rightarrow> contact" where
  "submittedContact now tenantId x i =
     newContact now tenantId
       (if fi_name x \<noteq> [] then fi_name x else if fi_phone x \<noteq> [] then fi_phone x else fi_email x)
       (orNone (fi_phone x)) (orNone (fi_email x)) [FORM_TAG] None i"

text \<open>The contact the submission belongs to; an update that fails is given up.\<close>

definition upsertFormContact :: "instant \<Rightarrow> uuid \<Rightarrow> FormIdentity \<Rightarrow> uuid act" where
  "upsertFormContact now tenantId x w =
     (case List.find (sameIdentity tenantId x) (w_contacts w) of
        None \<Rightarrow> thenA (insertContact (submittedContact now tenantId x (newId w))) (returnA (newId w)) w
      | Some c \<Rightarrow>
          if nothingToPatch x c then (Inr (contact_id c), w)
          else thenA (swallowA (changeContact (contact_id c) (patchOf x))) (returnA (contact_id c)) w)"

definition joinEvent :: "env \<Rightarrow> instant \<Rightarrow> uuid \<Rightarrow> uuid \<Rightarrow> uuid \<Rightarrow> unit act" where
  "joinEvent E now tenantId eventId contactId w =
     (if \<not> list_ex (isParticipant eventId contactId) (w_eventParticipants w) \<and>
         \<not> tokenTaken (generateQrToken E now eventId contactId) w \<and> eventId \<notin> event_id ` set (w_events w)
      then (Inl (PrismaError ''P2003''), w)
      else upsertParticipant E now tenantId eventId contactId w)"

definition countSubmission :: "uuid \<Rightarrow> world \<Rightarrow> world" where
  "countSubmission i w = w\<lparr>w_contactForms := update_where (\<lambda>f. contactForm_id f = i)
     (\<lambda>f. f\<lparr>contactForm_submissions := contactForm_submissions f + 1\<rparr>) (w_contactForms w)\<rparr>"

definition submitForm :: "env \<Rightarrow> instant \<Rightarrow> string \<Rightarrow> json \<Rightarrow> unit act" where
  "submitForm E now slug d w =
     (case openForm slug w of
        Inl e \<Rightarrow> (Inl e, w)
      | Inr form \<Rightarrow>
          (case identityOf d of
             Inl e \<Rightarrow> (Inl e, w)
           | Inr x \<Rightarrow>
               if fi_name x = [] \<and> fi_phone x = [] \<and> fi_email x = []
               then (Inl (BadRequestException ''At least name, phone, or email is required''), w)
               else if missingFields (contactForm_fields form) d \<noteq> []
               then (Inl (BadRequestException (''Please fill in: '' @
                           join '', '' (missingFields (contactForm_fields form) d))), w)
               else bindA (upsertFormContact now (contactForm_tenantId form) x) (\<lambda>i.
                      thenA (whenA (truthy (contactForm_eventId form))
                               (joinEvent E now (contactForm_tenantId form) (the (contactForm_eventId form)) i))
                        (modifyA (countSubmission (contactForm_id form)))) w))"

section \<open>A repeated submission\<close>

text \<open>What a form asks of a submission, and the identity it gives.\<close>

definition accepts :: "contactForm \<Rightarrow> json \<Rightarrow> FormIdentity \<Rightarrow> bool" where
  "accepts form d x = (identityOf d = Inr x \<and> \<not> (fi_name x = [] \<and> fi_phone x = [] \<and> fi_email x = []) \<and>
     missingFields (contactForm_fields form) d = [])"

lemma submitForm_accepted:
  "openForm slug w = Inr form \<Longrightarrow> accepts form d x \<Longrightarrow> submitForm E now slug d w =
   bindA (upsertFormContact now (contactForm_tenantId form) x) (\<lambda>i.
     thenA (whenA (truthy (contactForm_eventId form))
              (joinEvent E now (contactForm_tenantId form) (the (contactForm_eventId form)) i))
       (modifyA (countSubmission (contactForm_id form)))) w"
  by (auto simp: submitForm_def accepts_def)

lemma submitForm_ok:
  assumes "submitForm E now slug d w = (Inr (), w')"
  obtains form x where "openForm slug w = Inr form" "accepts form d x"
  using assms that by (auto simp: submitForm_def accepts_def split: sum.splits if_splits)

lemma patched_done: "nothingToPatch x (patchOf x c)"
  by (auto simp: nothingToPatch_def patchOf_def)

lemma patched_same: "sameIdentity t x c \<Longrightarrow> sameIdentity t x (patchOf x c)"
  by (auto simp: sameIdentity_def patchOf_def)

text \<open>After the first submission the same identity leads to the same contact, with nothing left to do.\<close>

lemma upsertFormContact_again:
  assumes run: "upsertFormContact now t x w = (Inr i, w1)" and known: "fi_phone x \<noteq> [] \<or> fi_email x \<noteq> []"
    and ids: "distinct (map contact_id (w_contacts w))" and v: "w_contacts v = w_contacts w1"
  shows "upsertFormContact now' t x v = (Inr i, v)"
proof (cases "List.find (sameIdentity t x) (w_contacts w)")
  case None
  let ?c = "submittedContact now t x (newId w)"
  have w1: "w_contacts w1 = w_contacts w @ [?c]" and i: "i = newId w"
    using run None by (auto simp: upsertFormContact_def insertContact_def thenA_def bindA_def bump_def split: if_splits)
  have "sameIdentity t x ?c" "nothingToPatch x ?c"
    using known by (auto simp: sameIdentity_def nothingToPatch_def submittedContact_def newContact_def orNone_def)
  then show ?thesis
    using None i by (simp add: upsertFormContact_def v w1 find_append submittedContact_def newContact_def)
next
  case (Some c)
  have c: "c \<in> set (w_contacts w)" "sameIdentity t x c" using find_SomeD [OF Some] by auto
  show ?thesis
  proof (cases "nothingToPatch x c")
    case True
    with Some run have "i = contact_id c" "w1 = w" by (auto simp: upsertFormContact_def)
    with Some True v show ?thesis by (simp add: upsertFormContact_def)
  next
    case False
    let ?w = "putContacts (update_where (\<lambda>y. contact_id y = contact_id c) (patchOf x) (w_contacts w)) w"
    have i: "i = contact_id c" and w1: "w1 = snd (changeContact i (patchOf x) w)"
      using Some run False by (auto simp: upsertFormContact_def)
    have only: "y = c" if "y \<in> set (w_contacts w)" "contact_id y = contact_id c" for y
      using ids c(1) that by (auto simp: distinct_map dest: inj_onD)
    have self: "List.find (\<lambda>y. contact_id y = contact_id c) (w_contacts w) = Some c"
      by (rule find_unique) (use c only in auto)
    have change: "changeContact (contact_id c) (patchOf x) u =
        (if list_ex (\<lambda>y. contact_id y \<noteq> contact_id c \<and> sharesKey (patchOf x c) y) (w_contacts w)
         then (Inl (PrismaError ''P2002''), u)
         else (Inr (), putContacts (update_where (\<lambda>y. contact_id y = contact_id c) (patchOf x) (w_contacts w)) u))"
      if u: "w_contacts u = w_contacts w" for u
      using self c(1) by (simp add: changeContact_def updateContact_def updateRow_def u)
    show ?thesis
    proof (cases "list_ex (\<lambda>y. contact_id y \<noteq> contact_id c \<and> sharesKey (patchOf x c) y) (w_contacts w)")
      case True
      then have "w_contacts v = w_contacts w" using v w1 i change [of w] by simp
      then show ?thesis using Some False True i change [of v] by (simp add: upsertFormContact_def)
    next
      case taken: False
      then have v: "w_contacts v = update_where (\<lambda>y. contact_id y = contact_id c) (patchOf x) (w_contacts w)"
        using v w1 i change [of w] by simp
      have "List.find (sameIdentity t x) (update_where (\<lambda>y. contact_id y = contact_id c) (patchOf x) rs) =
          map_option (\<lambda>y. if contact_id y = contact_id c then patchOf x y else y) (List.find (sameIdentity t x) rs)"
        if "set rs \<subseteq> set (w_contacts w)" for rs
        using that
      proof (induction rs)
        case (Cons r rs)
        then show ?case using only [of r] c(2) patched_same [OF c(2)] by auto
      qed simp
      from this [OF order_refl] have "List.find (sameIdentity t x) (w_contacts v) = Some (patchOf x c)"
        using Some by (simp add: v)
      then show ?thesis using patched_done [of x c] i by (simp add: upsertFormContact_def) (simp add: patchOf_def)
    qed
  qed
qed

lemma joinEvent_done:
  "joinEvent E now t e i w = (Inr (), w1) \<Longrightarrow>
   list_ex (isParticipant e i) (w_eventParticipants w1) \<and> w_contacts w1 = w_contacts w \<and> w_contactForms w1 = w_contactForms w"
  by (auto simp: joinEvent_def upsertParticipant_def addInvited_def invitedRow_def isParticipant_def bump_def
      split: if_splits)

lemma joinEvent_again:
  "list_ex (isParticipant e i) (w_eventParticipants v) \<Longrightarrow> joinEvent E now t e i v = (Inr (), v)"
  by (simp add: joinEvent_def upsertParticipant_def)

lemma upsertFormContact_forms:
  "w_contactForms (snd (upsertFormContact now t x w)) = w_contactForms w"
  by (auto simp: upsertFormContact_def insertContact_def changeContact_def updateContact_def updateRow_def
      thenA_def bindA_def bump_def split: option.split)

lemma formBySlug_counted: "formBySlug slug (countSubmission i w) =
    map_option (\<lambda>f. if contactForm_id f = i then f\<lparr>contactForm_submissions := contactForm_submissions f + 1\<rparr> else f)
      (formBySlug slug w)"
  unfolding formBySlug_def countSubmission_def by (simp add: find_update_where_other)

text \<open>
  Submitting a form again adds nobody. Once a submission with a phone number or an e-mail address has
  been accepted, the same submission at any later time is accepted again, creates no second contact and
  no second participant, changes no contact, and only the form's counter goes up by one.
\<close>

theorem resubmission_adds_nobody:
  assumes "submitForm E now slug d w = (Inr (), w1)" and "openForm slug w = Inr form"
    and "identityOf d = Inr x" and "fi_phone x \<noteq> [] \<or> fi_email x \<noteq> []"
    and "distinct (map contact_id (w_contacts w))"
  shows "submitForm E now' slug d w1 = (Inr (), countSubmission (contactForm_id form) w1)"
proof -
  let ?t = "contactForm_tenantId form" and ?e = "the (contactForm_eventId form)"
  let ?join = "\<lambda>n i. whenA (truthy (contactForm_eventId form)) (joinEvent E n ?t ?e i)"
  have ok: "accepts form d x"
    using assms(1,2,3) by (auto elim: submitForm_ok simp: accepts_def)
  obtain i u v where u: "upsertFormContact now ?t x w = (Inr i, u)" and v: "?join now i u = (Inr (), v)"
    and w1: "w1 = countSubmission (contactForm_id form) v"
    using assms(1) unfolding submitForm_accepted [OF assms(2) ok]
    by (auto simp: bindA_def thenA_def split: prod.splits sum.splits)
  have parts: "w_contacts v = w_contacts u" "w_contactForms v = w_contactForms u"
    "truthy (contactForm_eventId form) \<Longrightarrow> list_ex (isParticipant ?e i) (w_eventParticipants v)"
    using v joinEvent_done by (auto simp: whenA_def split: if_splits)
  have forms: "w_contactForms v = w_contactForms w"
    using parts(2) upsertFormContact_forms [of now ?t x w] u by simp
  let ?form = "form\<lparr>contactForm_submissions := contactForm_submissions form + 1\<rparr>"
  have "formBySlug slug v = Some form" and active: "contactForm_isActive form"
    using assms(2) forms by (auto simp: openForm_def formBySlug_def split: option.splits if_splits)
  then have open1: "openForm slug w1 = Inr ?form"
    by (simp add: w1 openForm_def formBySlug_counted)
  have ok1: "accepts ?form d x" using ok by (simp add: accepts_def)
  have "upsertFormContact now' ?t x w1 = (Inr i, w1)"
    using upsertFormContact_again [OF u assms(4,5), of w1] parts(1) by (simp add: w1 countSubmission_def)
  moreover have "?join now' i w1 = (Inr (), w1)"
    using parts(3) by (simp add: whenA_def w1 joinEvent_again countSubmission_def)
  ultimately show ?thesis
    unfolding submitForm_accepted [OF open1 ok1] by simp
qed

lemma upsertFormContact_returns:
  assumes "tenantExists t w"
  shows "\<exists>i w'. upsertFormContact now t x w = (Inr i, w')"
proof (cases "List.find (sameIdentity t x) (w_contacts w)")
  case None
  then have "\<not> list_ex (sharesKey (submittedContact now t x (newId w))) (w_contacts w)"
    by (auto simp: find_None_iff list_ex_iff sharesKey_def sameIdentity_def submittedContact_def newContact_def
        orNone_def split: if_splits)
  with None assms show ?thesis
    by (simp add: upsertFormContact_def insertContact_def submittedContact_def newContact_def)
qed (simp add: upsertFormContact_def)

text \<open>With a name alone nothing is recognised: every submission is a new contact.\<close>

lemma nameless_never_recognised:
  assumes "fi_phone x = []" and "fi_email x = []" and "tenantExists t w"
  shows "length (w_contacts (snd (upsertFormContact now t x w))) = Suc (length (w_contacts w))"
proof -
  have "List.find (sameIdentity t x) (w_contacts w) = None"
    using assms by (auto simp: find_None_iff sameIdentity_def)
  then show ?thesis
    using assms by (simp add: upsertFormContact_def insertContact_def sharesKey_def submittedContact_def
        newContact_def orNone_def list_ex_iff)
qed

text \<open>
  The form of a deleted event breaks. A form keeps the id of its event when the event is deleted, and
  from then on every accepted submission ends in a foreign-key error: whoever fills it in is added to the
  contacts but gets an error page, the counter stands still, and nobody is told.
\<close>

theorem form_of_deleted_event_fails:
  assumes "openForm slug w = Inr form" and "contactForm_eventId form = Some e" and "e \<noteq> []"
    and "w1 = deleteEventRow e w" and "accepts form d x" and "tenantExists (contactForm_tenantId form) w"
    and "\<And>i. \<not> tokenTaken (generateQrToken E now e i) w"
  shows "submitForm E now slug d w1 =
      (Inl (PrismaError ''P2003''), snd (upsertFormContact now (contactForm_tenantId form) x w1)) \<and>
    w_contactForms (snd (submitForm E now slug d w1)) = w_contactForms w"
proof -
  have "tenantExists (contactForm_tenantId form) w1"
    using assms(6) by (simp add: assms(4) tenantExists_def)
  then obtain i w2 where up: "upsertFormContact now (contactForm_tenantId form) x w1 = (Inr i, w2)"
    using upsertFormContact_returns by blast
  have forms: "w_contactForms w1 = w_contactForms w"
    by (simp add: assms(4) deleteEventRow_def deleteFeedbackRequests_def deleteReminders_def Let_def)
  then have open1: "openForm slug w1 = Inr form" using assms(1) by (simp add: openForm_def formBySlug_def)
  have frame: "w_eventParticipants w2 = w_eventParticipants w1" "w_events w2 = w_events w1"
    using up by (auto simp: upsertFormContact_def insertContact_def changeContact_def updateContact_def
        updateRow_def thenA_def bindA_def bump_def split: option.splits if_splits prod.splits sum.splits)
  have parts: "w_eventParticipants w1 = delete_where (\<lambda>p. eventParticipant_eventId p = e) (w_eventParticipants w)"
    "w_events w1 = delete_where (\<lambda>x. event_id x = e) (w_events w)"
    by (simp_all add: assms(4) deleteEventRow_def deleteFeedbackRequests_def deleteReminders_def Let_def)
  have "\<not> list_ex (isParticipant e i) (w_eventParticipants w2)" "e \<notin> event_id ` set (w_events w2)"
    "\<not> tokenTaken (generateQrToken E now e i) w2"
    using assms(7) unfolding frame parts tokenTaken_def
    by (auto simp: list_ex_iff delete_where_def isParticipant_def)
  then have "joinEvent E now (contactForm_tenantId form) e i w2 = (Inl (PrismaError ''P2003''), w2)"
    by (simp add: joinEvent_def)
  then show ?thesis
    using assms(2,3) up upsertFormContact_forms [of now "contactForm_tenantId form" x w1] forms
    unfolding submitForm_accepted [OF open1 assms(5)] by simp
qed

section \<open>A concrete form\<close>

definition openDay :: event where
  "openDay = \<lparr>event_id = ''e1'', event_tenantId = ''t1'', event_title = ''Open day'', event_location = None,
     event_startTime = 9000, event_status = E_PUBLISHED, event_isDemoData = False, event_description = None,
     event_endTime = None, event_eventType = ET_OTHER, event_createdBy = None, event_incentiveType = None,
     event_incentiveValue = None, event_incentiveMessage = None\<rparr>"

definition openDayForm :: contactForm where
  "openDayForm = newForm 0 ''ab12'' ''t1'' \<lparr>cf_title = ''Open day!'', cf_description = None, cf_fields = None,
     cf_eventId = Some ''e1''\<rparr> ''f1''"

definition receptionWorld :: world where
  "receptionWorld = (emptyWorld show_nat)\<lparr>w_tenants := [demoTenant PLAN_SMS ACTIVE False 0],
     w_events := [openDay], w_contactForms := [openDayForm]\<rparr>"

definition filledIn :: json where
  "filledIn = JObj [(''full_name'', JStr '' Ada ''), (''name'', JStr ''Ada''), (''phone'', JStr ''+15550001'')]"

lemma openDay_slug: "contactForm_slug openDayForm = ''open-day-ab12''"
  by code_simp

theorem resubmission_adds_nobody_witness:
  "let w1 = snd (submitForm demoEnv 5 ''open-day-ab12'' filledIn receptionWorld);
       w2 = snd (submitForm demoEnv 6 ''open-day-ab12'' filledIn w1)
   in w_contacts w2 = w_contacts w1 \<and> length (w_contacts w1) = 1 \<and> length (w_eventParticipants w2) = 1"
proof -
  let ?r = "submitForm demoEnv 5 ''open-day-ab12'' filledIn receptionWorld"
  have fst: "fst ?r = Inr ()" by code_simp
  have parts: "length (w_contacts (snd ?r)) = 1" "length (w_eventParticipants (snd ?r)) = 1" by code_simp+
  have opened: "openForm ''open-day-ab12'' receptionWorld = Inr openDayForm"
    by (simp add: openForm_def formBySlug_def receptionWorld_def openDay_slug) (simp add: openDayForm_def newForm_def)
  have who: "identityOf filledIn = Inr \<lparr>fi_name = ''Ada'', fi_phone = ''+15550001'', fi_email = []\<rparr>" by code_simp
  have run: "submitForm demoEnv 5 ''open-day-ab12'' filledIn receptionWorld = (Inr (), snd ?r)"
    using fst by (simp add: prod_eq_iff)
  have "submitForm demoEnv 6 ''open-day-ab12'' filledIn (snd ?r) =
      (Inr (), countSubmission (contactForm_id openDayForm) (snd ?r))"
    by (rule resubmission_adds_nobody [OF run opened who]) (simp_all add: receptionWorld_def emptyWorld_def)
  with parts show ?thesis by (simp add: Let_def countSubmission_def)
qed

theorem form_of_deleted_event_fails_witness:
  "fst (submitForm demoEnv 5 ''open-day-ab12'' filledIn (deleteEventRow ''e1'' receptionWorld)) =
     Inl (PrismaError ''P2003'')"
proof -
  let ?x = "\<lparr>fi_name = ''Ada'', fi_phone = ''+15550001'', fi_email = []\<rparr>"
  have opened: "openForm ''open-day-ab12'' receptionWorld = Inr openDayForm"
    by (simp add: openForm_def formBySlug_def receptionWorld_def openDay_slug) (simp add: openDayForm_def newForm_def)
  have "identityOf filledIn = Inr ?x" "missingFields (contactForm_fields openDayForm) filledIn = []" by code_simp+
  then have ok: "accepts openDayForm filledIn ?x" by (simp add: accepts_def)
  show ?thesis
    using form_of_deleted_event_fails [OF opened _ _ refl ok, of "''e1''" demoEnv 5]
    by (simp add: openDayForm_def newForm_def receptionWorld_def emptyWorld_def tokenTaken_def tenantExists_def demoTenant_def)
qed

end
