(* ===== verification/Contact_Import.thy ===== *)
theory Contact_Import
  imports Contact_Properties Rsvp
begin

text \<open>
  \<open>modules/contacts/contact-import.service.ts\<close>: contacts from a CSV or Excel file. The reading of the file
  is the library ExcelJS: what it makes of a buffer (no workbook, or its worksheets) is an argument. A
  worksheet is its rows, a row its cells by column. At the end: imports among the other requests about
  contacts, and the agreement of the two stores of tags under any sequence of them.
\<close>

section \<open>Cells and columns\<close>

text \<open>
  The values ExcelJS gives a cell: rich text in runs, a formula with its result, what is no object or a
  date (its \<open>String\<close>), and the other objects, such as the text and address of a hyperlink.
\<close>

datatype CellValue = CNull | CRich "string list" | CFormula "string option" | CScalar string | CObject

type_synonym worksheet = "CellValue list list"

fun cellValue :: "CellValue \<Rightarrow> string" where
  "cellValue CNull = []"
| "cellValue (CRich runs) = concat runs"
| "cellValue (CFormula r) = coalesce r []"
| "cellValue (CScalar s) = s"
| "cellValue CObject = ''[object Object]''"

definition NAME_ALIASES :: "string list" where
  "NAME_ALIASES = [''name'', ''full name'', ''fullname'', ''contact name'', ''client name'']"

definition PHONE_ALIASES :: "string list" where
  "PHONE_ALIASES = [''phone'', ''phone number'', ''mobile'', ''mobile number'', ''cell'', ''cell number'',
     ''telephone'', ''tel'', ''contact number'']"

definition EMAIL_ALIASES :: "string list" where
  "EMAIL_ALIASES = [''email'', ''email address'', ''e-mail'']"

definition TAGS_ALIASES :: "string list" where
  "TAGS_ALIASES = [''tags'', ''tag'', ''labels'', ''groups'']"

definition NOTES_ALIASES :: "string list" where
  "NOTES_ALIASES = [''notes'', ''note'', ''comment'', ''comments'']"

definition normaliseHeader :: "string \<Rightarrow> string" where
  "normaliseHeader h =
     replaceRuns is_space '' '' (replaceRuns (\<lambda>c. c = CHR ''_'' \<or> c = CHR ''-'') '' '' (trim (toLowerCase h)))"

definition findColumn :: "string list \<Rightarrow> string list \<Rightarrow> string option" where
  "findColumn headers aliases =
     List.find (\<lambda>h. normaliseHeader h \<in> set (map normaliseHeader aliases)) headers"

fun indexOf :: "'a \<Rightarrow> 'a list \<Rightarrow> nat option" where
  "indexOf x [] = None"
| "indexOf x (y # ys) = (if x = y then Some 0 else map_option Suc (indexOf x ys))"

definition cellAt :: "CellValue list \<Rightarrow> nat \<Rightarrow> CellValue" where
  "cellAt row i = (if i < length row then row ! i else CNull)"

definition getField :: "string list \<Rightarrow> CellValue list \<Rightarrow> string option \<Rightarrow> string" where
  "getField headers row col =
     (if \<not> truthy col then []
      else case indexOf (the col) headers of
          None \<Rightarrow> []
        | Some i \<Rightarrow> trim (cellValue (cellAt row i)))"

section \<open>Rows\<close>

record ParsedContact =
  pc_name :: string
  pc_phone :: "string option"
  pc_email :: "string option"
  pc_tags :: "string list"
  pc_notes :: "string option"

definition normalizePhone :: "string \<Rightarrow> string option" where
  "normalizePhone raw =
     (let digits = filter is_digit raw
      in if raw = [] \<or> length digits < 7 \<or> 15 < length digits then None else Some digits)"

definition orUndefined :: "string \<Rightarrow> string option" where
  "orUndefined s = (if s = [] then None else Some s)"

definition parseRow :: "string list \<Rightarrow> CellValue list \<Rightarrow> ParsedContact option" where
  "parseRow headers row =
     (let value = (\<lambda>aliases. getField headers row (findColumn headers aliases)); name = value NAME_ALIASES
      in if name = [] then None
         else Some \<lparr>pc_name = name, pc_phone = normalizePhone (value PHONE_ALIASES),
                pc_email = orUndefined (toLowerCase (value EMAIL_ALIASES)),
                pc_tags = normalizeTags (split_on (\<lambda>c. c \<in> set '',;|'') (value TAGS_ALIASES)),
                pc_notes = orUndefined (value NOTES_ALIASES)\<rparr>)"

definition headersOf :: "worksheet \<Rightarrow> string list" where
  "headersOf sheet = (case sheet of [] \<Rightarrow> [] | row # _ \<Rightarrow> map cellValue (filter (\<lambda>c. c \<noteq> CNull) row))"

definition noData :: exn where
  "noData = BadRequestException ''File is empty or has no data rows.''"

definition parseContacts :: "worksheet list option \<Rightarrow> ParsedContact list outcome" where
  "parseContacts workbook =
     (case workbook of
        None \<Rightarrow> Inl (BadRequestException ''Could not parse file. Ensure it is a valid CSV or Excel file.'')
      | Some [] \<Rightarrow> Inl (BadRequestException ''File contains no sheets.'')
      | Some (sheet # _) \<Rightarrow>
          let headers = headersOf sheet; rows = List.map_filter (parseRow headers) (tl sheet)
          in if headers = [] then Inl noData
             else if \<not> truthy (findColumn headers NAME_ALIASES)
             then Inl (BadRequestException (''Could not find a '' @ [CHR 0x22] @ ''name'' @ [CHR 0x22] @
                    '' column. Headers found: '' @ join '', '' headers @ ''. Expected one of: '' @
                    join '', '' NAME_ALIASES @ ''.''))
             else if rows = [] then Inl noData
             else if 5000 < length rows then Inl (BadRequestException ''Import limited to 5,000 rows per file.'')
             else Inr rows)"

definition shortPhone :: "ParsedContact \<Rightarrow> bool" where
  "shortPhone c = (truthy (pc_phone c) \<and> length (filter is_digit (the (pc_phone c))) < 7)"

definition shortPhoneText :: "ParsedContact \<Rightarrow> string" where
  "shortPhoneText c = [CHR 0x22] @ pc_name c @ [CHR 0x22] @ '' '' @
     [char_of (0xE2 :: nat), char_of (0x80 :: nat), char_of (0x94 :: nat)] @ '' phone '' @ [CHR 0x22] @
     the (pc_phone c) @ [CHR 0x22] @ '' is too short''"

definition validatePhoneNumbers :: "ParsedContact list \<Rightarrow> ParsedContact list \<times> string list" where
  "validatePhoneNumbers cs =
     (map (\<lambda>c. if shortPhone c then c\<lparr>pc_phone := None\<rparr> else c) cs, map shortPhoneText (filter shortPhone cs))"

section \<open>Inserting\<close>

record ImportResult =
  im_inserted :: nat
  im_skipped :: nat
  im_errors :: "string list"

definition importKey :: "ParsedContact \<Rightarrow> string" where
  "importKey c = pc_name c @ ''|'' @ coalesce (pc_phone c) [] @ ''|'' @ coalesce (pc_email c) []"

text \<open>The first row with each key.\<close>

fun firstWithKey :: "string list \<Rightarrow> ParsedContact list \<Rightarrow> ParsedContact list" where
  "firstWithKey seen [] = []"
| "firstWithKey seen (c # cs) =
     (if importKey c \<in> set seen then firstWithKey seen cs else c # firstWithKey (importKey c # seen) cs)"

function chunksOf :: "nat \<Rightarrow> 'a list \<Rightarrow> 'a list list" where
  "chunksOf n xs = (if xs = [] \<or> n = 0 then [] else take n xs # chunksOf n (drop n xs))"
  by pat_completeness auto
termination by (relation "measure (\<lambda>(n, xs). length xs)") auto

declare chunksOf.simps [simp del]

definition importedContact :: "instant \<Rightarrow> uuid \<Rightarrow> ParsedContact \<Rightarrow> uuid \<Rightarrow> contact" where
  "importedContact now tenantId c =
     newContact now tenantId (pc_name c) (pc_phone c) (pc_email c) (pc_tags c) (pc_notes c)"

text \<open>\<open>createMany\<close> with \<open>skipDuplicates\<close>: a row whose key is taken is passed over.\<close>

fun insertFresh :: "instant \<Rightarrow> uuid \<Rightarrow> ParsedContact list \<Rightarrow> world \<Rightarrow> nat \<times> world" where
  "insertFresh now tenantId [] w = (0, w)"
| "insertFresh now tenantId (p # ps) w =
     (let c = importedContact now tenantId p (newId w)
      in if list_ex (sharesKey c) (w_contacts w) then insertFresh now tenantId ps (bump w)
         else let (n, v) = insertFresh now tenantId ps (bump (w\<lparr>w_contacts := w_contacts w @ [c]\<rparr>))
              in (Suc n, v))"

definition createManyContacts :: "instant \<Rightarrow> uuid \<Rightarrow> ParsedContact list \<Rightarrow> nat act" where
  "createManyContacts now tenantId ps w =
     (if tenantExists tenantId w
      then (Inr (fst (insertFresh now tenantId ps w)), snd (insertFresh now tenantId ps w))
      else (Inl (PrismaError ''P2003''), w))"

fun insertChunks ::
  "instant \<Rightarrow> uuid \<Rightarrow> nat \<Rightarrow> ParsedContact list list \<Rightarrow> ImportResult \<Rightarrow> world \<Rightarrow> ImportResult \<times> world" where
  "insertChunks now tenantId k [] r w = (r, w)"
| "insertChunks now tenantId k (chunk # chunks) r w =
     (case createManyContacts now tenantId chunk w of
        (Inl e, v) \<Rightarrow> insertChunks now tenantId (Suc k) chunks
          (r\<lparr>im_errors := im_errors r @ [''Chunk '' @ show_nat (Suc k) @ '': '' @ exnText e]\<rparr>) v
      | (Inr n, v) \<Rightarrow> insertChunks now tenantId (Suc k) chunks
          (r\<lparr>im_inserted := im_inserted r + n, im_skipped := im_skipped r + (length chunk - n)\<rparr>) v)"

definition bulkInsertContacts :: "instant \<Rightarrow> uuid \<Rightarrow> ParsedContact list \<Rightarrow> world \<Rightarrow> ImportResult \<times> world" where
  "bulkInsertContacts now tenantId cs w =
     (let deduped = firstWithKey [] cs
      in insertChunks now tenantId 0 (chunksOf 500 deduped)
           \<lparr>im_inserted = 0, im_skipped = length cs - length deduped, im_errors = []\<rparr> w)"

definition isCsv :: "string \<Rightarrow> bool" where
  "isCsv mimeType = (mimeType \<in> {''text/csv'', ''application/csv'', ''text/plain''})"

definition uploadCSV ::
  "(string \<Rightarrow> worksheet list option) \<Rightarrow> (string \<Rightarrow> worksheet list option) \<Rightarrow> instant \<Rightarrow> uuid \<Rightarrow> string \<Rightarrow>
   string \<Rightarrow> ImportResult act" where
  "uploadCSV readCsv readXlsx now tenantId buffer mimeType w =
     (case parseContacts (if isCsv mimeType then readCsv buffer else readXlsx buffer) of
        Inl e \<Rightarrow> (Inl e, w)
      | Inr parsed \<Rightarrow>
          let (valid, invalid) = validatePhoneNumbers parsed;
              (r, v) = bulkInsertContacts now tenantId valid w
          in (Inr (r\<lparr>im_errors := im_errors r @ map (\<lambda>m. ''Phone warning: '' @ m) invalid\<rparr>), v))"

section \<open>What an import adds\<close>

lemma firstWithKey_length: "length (firstWithKey seen cs) \<le> length cs"
  by (induction cs arbitrary: seen) (auto simp: le_SucI)

lemma firstWithKey_subset: "set (firstWithKey seen cs) \<subseteq> set cs"
  by (induction cs arbitrary: seen) auto

lemma concat_chunksOf: "0 < n \<Longrightarrow> concat (chunksOf n xs) = xs"
proof (induction n xs rule: chunksOf.induct)
  case (1 n xs)
  then show ?case unfolding chunksOf.simps [of n xs] by simp
qed

text \<open>Whether a row's phone or e-mail address is taken.\<close>

definition known :: "uuid \<Rightarrow> ParsedContact \<Rightarrow> world \<Rightarrow> bool" where
  "known t p w = list_ex (\<lambda>c. contact_tenantId c = t \<and>
     ((pc_phone p \<noteq> None \<and> contact_phone c = pc_phone p) \<or> (pc_email p \<noteq> None \<and> contact_email c = pc_email p)))
     (w_contacts w)"

lemma known_shares: "list_ex (sharesKey (importedContact now t p i)) (w_contacts w) = known t p w"
  unfolding known_def importedContact_def newContact_def sharesKey_def list_ex_iff by fastforce

abbreviation withImported :: "instant \<Rightarrow> uuid \<Rightarrow> ParsedContact \<Rightarrow> world \<Rightarrow> world" where
  "withImported now t p w \<equiv> bump (w\<lparr>w_contacts := w_contacts w @ [importedContact now t p (newId w)]\<rparr>)"

lemma insertFresh_Cons:
  "insertFresh now t (p # ps) w =
     (if known t p w then insertFresh now t ps (bump w)
      else (Suc (fst (insertFresh now t ps (withImported now t p w))), snd (insertFresh now t ps (withImported now t p w))))"
  by (simp add: known_shares Let_def split: prod.split)

declare insertFresh.simps(2) [simp del] insertFresh_Cons [simp]

lemma insertFresh_tenants [simp]: "w_tenants (snd (insertFresh now t ps w)) = w_tenants w"
  "w_contactTags (snd (insertFresh now t ps w)) = w_contactTags w"
  "w_tags (snd (insertFresh now t ps w)) = w_tags w"
  by (induction ps arbitrary: w) (simp_all add: bump_def)

lemma insertFresh_count:
  "length (w_contacts (snd (insertFresh now t ps w))) = length (w_contacts w) + fst (insertFresh now t ps w)"
  "fst (insertFresh now t ps w) \<le> length ps"
  by (induction ps arbitrary: w) (auto simp: le_SucI)

lemma insertFresh_append:
  "insertFresh now t (ps @ qs) w =
     (fst (insertFresh now t ps w) + fst (insertFresh now t qs (snd (insertFresh now t ps w))),
      snd (insertFresh now t qs (snd (insertFresh now t ps w))))"
  by (induction ps arbitrary: w) auto

lemma insertChunks_all:
  assumes "tenantExists t w"
  shows "insertChunks now t k chunks r w =
     (r\<lparr>im_inserted := im_inserted r + fst (insertFresh now t (concat chunks) w),
        im_skipped := im_skipped r + (length (concat chunks) - fst (insertFresh now t (concat chunks) w))\<rparr>,
      snd (insertFresh now t (concat chunks) w))"
  using assms
proof (induction chunks arbitrary: w r k)
  case (Cons ps chunks)
  let ?v = "snd (insertFresh now t ps w)"
  have "tenantExists t ?v" using Cons.prems by (simp add: tenantExists_def)
  note IH = Cons.IH [OF this]
  have "length ps - fst (insertFresh now t ps w) + (length (concat chunks) - fst (insertFresh now t (concat chunks) ?v)) =
      length ps + length (concat chunks) - (fst (insertFresh now t ps w) + fst (insertFresh now t (concat chunks) ?v))"
    using insertFresh_count(2) [of now t ps w] insertFresh_count(2) [of now t "concat chunks" ?v] by simp
  then show ?case
    using Cons.prems by (simp add: createManyContacts_def insertFresh_append IH del: length_concat)
qed simp

lemma bulkInsert_all:
  "tenantExists t w \<Longrightarrow> bulkInsertContacts now t cs w =
     (\<lparr>im_inserted = fst (insertFresh now t (firstWithKey [] cs) w),
       im_skipped = length cs - fst (insertFresh now t (firstWithKey [] cs) w), im_errors = []\<rparr>,
      snd (insertFresh now t (firstWithKey [] cs) w))"
  using insertFresh_count(2) [of now t "firstWithKey [] cs" w] firstWithKey_length [of "[]" cs]
  by (simp add: bulkInsertContacts_def Let_def insertChunks_all concat_chunksOf)

lemma bulkInsert_none:
  assumes "\<not> tenantExists t w"
  shows "snd (bulkInsertContacts now t cs w) = w"
proof -
  have "snd (insertChunks now t k chunks r w) = w" for k chunks r
    using assms by (induction chunks arbitrary: k r) (simp_all add: createManyContacts_def)
  then show ?thesis by (simp add: bulkInsertContacts_def Let_def)
qed

text \<open>
  An import accounts for its rows. For a tenant that exists no chunk fails, every row is counted as
  inserted or as skipped, and the tenant's table grows by exactly the number reported as inserted.
\<close>

theorem import_accounts_for_rows:
  assumes "tenantExists t w" and "bulkInsertContacts now t cs w = (r, w')"
  shows "im_errors r = [] \<and> im_inserted r + im_skipped r = length cs \<and>
    length (w_contacts w') = length (w_contacts w) + im_inserted r"
proof -
  have "fst (insertFresh now t (firstWithKey [] cs) w) \<le> length cs"
    using insertFresh_count(2) firstWithKey_length by (rule order_trans)
  then show ?thesis using assms by (auto simp: bulkInsert_all insertFresh_count(1))
qed

text \<open>After an import every row with a phone or an e-mail address is known, and stays so.\<close>

lemma known_mono: "set (w_contacts w) \<subseteq> set (w_contacts v) \<Longrightarrow> known t p w \<Longrightarrow> known t p v"
  by (auto simp: known_def list_ex_iff)

lemma insertFresh_mono: "set (w_contacts w) \<subseteq> set (w_contacts (snd (insertFresh now t ps w)))"
proof (induction ps arbitrary: w)
  case (Cons p ps)
  have "set (w_contacts w) \<subseteq> set (w_contacts (withImported now t p w))" by auto
  then show ?case using Cons [of "bump w"] Cons [of "withImported now t p w"] by auto
qed simp

lemma insertFresh_known:
  assumes "p \<in> set ps" and "pc_phone p \<noteq> None \<or> pc_email p \<noteq> None"
  shows "known t p (snd (insertFresh now t ps w))"
  using assms(1)
proof (induction ps arbitrary: w)
  case (Cons q ps)
  have "known t p (snd (insertFresh now t ps v))" if "known t p v" for v
    using that by (rule known_mono [OF insertFresh_mono])
  moreover have "known t p (withImported now t p w)"
    using assms(2) by (auto simp: known_def importedContact_def newContact_def)
  moreover have "known t p (bump w) = known t p w" by (simp add: known_def)
  ultimately show ?case using Cons by auto
qed simp

lemma insertFresh_nothing:
  "(\<And>p. p \<in> set ps \<Longrightarrow> known t p w) \<Longrightarrow>
   fst (insertFresh now t ps w) = 0 \<and> w_contacts (snd (insertFresh now t ps w)) = w_contacts w"
proof (induction ps arbitrary: w)
  case (Cons p ps)
  have "known t q (bump w)" if "q \<in> set ps" for q using Cons.prems [of q] that by (simp add: known_def)
  then show ?case using Cons.IH [of "bump w"] Cons.prems [of p] by simp
qed simp

text \<open>
  Importing a list twice adds nobody. When every row has a phone number or an e-mail address, a
  second import of the same rows inserts none of them and leaves the contacts as they are.
\<close>

theorem reimport_adds_nobody:
  assumes "tenantExists t w" and "bulkInsertContacts now t cs w = (r, w1)"
    and "bulkInsertContacts now' t cs w1 = (r2, w2)"
    and "\<And>p. p \<in> set cs \<Longrightarrow> pc_phone p \<noteq> None \<or> pc_email p \<noteq> None"
  shows "im_inserted r2 = 0 \<and> im_skipped r2 = length cs \<and> w_contacts w2 = w_contacts w1"
proof -
  have w1: "w1 = snd (insertFresh now t (firstWithKey [] cs) w)"
    using assms(1,2) by (simp add: bulkInsert_all)
  have t1: "tenantExists t w1" using assms(1) by (simp add: w1 tenantExists_def)
  have "known t p w1" if "p \<in> set (firstWithKey [] cs)" for p
    using insertFresh_known [OF that] assms(4) firstWithKey_subset [of "[]" cs] that w1 by blast
  then show ?thesis using assms(3) t1 insertFresh_nothing by (auto simp: bulkInsert_all)
qed

section \<open>What the parser does to the rows\<close>

text \<open>The numbers kept are bare digits, at least seven of them.\<close>

definition digitsOnly :: "ParsedContact \<Rightarrow> bool" where
  "digitsOnly p = (case pc_phone p of None \<Rightarrow> True | Some n \<Rightarrow> list_all is_digit n \<and> 7 \<le> length n)"

lemma parseRow_digits: "parseRow headers row = Some p \<Longrightarrow> digitsOnly p"
  by (auto simp: parseRow_def digitsOnly_def normalizePhone_def Let_def list_all_iff split: if_splits)

lemma parseContacts_digits: "parseContacts wb = Inr ps \<Longrightarrow> p \<in> set ps \<Longrightarrow> digitsOnly p"
  by (auto simp: parseContacts_def Let_def List.map_filter_def parseRow_digits
      split: option.splits list.splits if_splits)

lemma digitsOnly_long: "digitsOnly p \<Longrightarrow> \<not> shortPhone p"
  by (auto simp: digitsOnly_def shortPhone_def list_all_iff split: option.splits)

text \<open>The warnings about short numbers never appear: the parser has dropped those numbers before.\<close>

lemma phone_warnings_never_occur:
  assumes "parseContacts wb = Inr ps"
  shows "validatePhoneNumbers ps = (ps, [])"
proof -
  have "\<not> shortPhone p" if "p \<in> set ps" for p
    using parseContacts_digits [OF assms that] by (rule digitsOnly_long)
  then show ?thesis by (simp add: validatePhoneNumbers_def map_idI filter_empty_conv)
qed

lemma uploadCSV_parsed:
  assumes "parseContacts (if isCsv mime then readCsv buffer else readXlsx buffer) = Inr ps"
  shows "snd (uploadCSV readCsv readXlsx now t buffer mime w) = snd (bulkInsertContacts now t ps w)"
  using phone_warnings_never_occur [OF assms] by (simp add: uploadCSV_def assms split: prod.split)

text \<open>A header cell without text shifts the columns after it, as only the others are counted.\<close>

lemma blank_header_shifts_columns:
  "parseContacts (Some [[[CScalar ''name'', CNull, CScalar ''email''],
     [CScalar ''Ada'', CScalar ''x'', CScalar ''ada@site.org'']]]) =
   Inr [\<lparr>pc_name = ''Ada'', pc_phone = None, pc_email = Some ''x'', pc_tags = [], pc_notes = None\<rparr>]"
  by code_simp

text \<open>Hyperlinked addresses all become the same text, so that only the first such row is inserted.\<close>

lemma linked_addresses_collide:
  assumes "parseContacts (Some [[CScalar ''name'', CScalar ''email''] # map (\<lambda>n. [CScalar n, CObject]) names]) = Inr ps"
    and "p \<in> set ps"
  shows "pc_email p = Some ''[object object]''"
proof -
  let ?h = "[''name'', ''email'']"
  have cols: "findColumn ?h NAME_ALIASES = Some ''name''" "findColumn ?h EMAIL_ALIASES = Some ''email''"
    "toLowerCase ''[object Object]'' = ''[object object]''" "trim ''[object Object]'' = ''[object Object]''"
    by code_simp+
  from assms obtain n where "parseRow ?h [CScalar n, CObject] = Some p"
    by (auto simp: parseContacts_def headersOf_def Let_def List.map_filter_def split: if_splits)
  then show ?thesis
    by (auto simp: parseRow_def Let_def getField_def cols cellAt_def orUndefined_def split: if_splits)
qed

text \<open>
  Imported contacts cannot reply. The import keeps only the digits of a number, while messages come in
  from numbers that begin with a plus sign: whatever is imported, the contact a reply is attributed to, if
  any, is the one it was attributed to before, and so are the invitations the reply can answer.
\<close>

theorem imported_contacts_cannot_reply:
  "activeContact t (CHR ''+'' # n) (snd (uploadCSV readCsv readXlsx now t buffer mime w)) =
   activeContact t (CHR ''+'' # n) w"
proof -
  have found: "activeContact t (CHR ''+'' # n) (snd (insertFresh now t ps v)) = activeContact t (CHR ''+'' # n) v"
    if "\<And>p. p \<in> set ps \<Longrightarrow> digitsOnly p" for ps v
    using that
  proof (induction ps arbitrary: v)
    case (Cons p ps)
    have "\<not> is_digit CHR ''+''" by code_simp
    then have "pc_phone p \<noteq> Some (CHR ''+'' # n)" using Cons.prems [of p] by (auto simp: digitsOnly_def)
    then have "activeContact t (CHR ''+'' # n) (withImported now t p v) = activeContact t (CHR ''+'' # n) v"
      by (simp add: activeContact_def find_append importedContact_def newContact_def split: option.split)
    moreover have "activeContact t (CHR ''+'' # n) (bump v) = activeContact t (CHR ''+'' # n) v"
      by (simp add: activeContact_def)
    ultimately show ?case using Cons.IH [of "bump v"] Cons.IH [of "withImported now t p v"] Cons.prems by auto
  qed simp
  show ?thesis
  proof (cases "parseContacts (if isCsv mime then readCsv buffer else readXlsx buffer)")
    case (Inr ps)
    have digits: "digitsOnly p" if "p \<in> set (firstWithKey [] ps)" for p
      using parseContacts_digits [OF Inr] firstWithKey_subset that by blast
    have "activeContact t (CHR ''+'' # n) (snd (bulkInsertContacts now t ps w)) = activeContact t (CHR ''+'' # n) w"
      using found digits by (cases "tenantExists t w") (simp_all add: bulkInsert_all bulkInsert_none)
    then show ?thesis by (simp add: uploadCSV_parsed [of mime readCsv buffer readXlsx ps, OF Inr])
  qed (simp add: uploadCSV_def)
qed

text \<open>Nor are the tags of imported contacts linked: segments and broadcasts by tag do not see them.\<close>

lemma import_links_nothing:
  "tenantExists t w \<Longrightarrow> w_contactTags (snd (bulkInsertContacts now t cs w)) = w_contactTags w"
  by (simp add: bulkInsert_all)

section \<open>The two stores of a contact's tags\<close>














section \<open>A concrete file\<close>




definition clientList :: "ParsedContact list" where
  "clientList = [\<lparr>pc_name = ''Ada'', pc_phone = Some ''15550001'', pc_email = None, pc_tags = [''vip''], pc_notes = None\<rparr>,
     \<lparr>pc_name = ''Ada L.'', pc_phone = Some ''15550001'', pc_email = None, pc_tags = [], pc_notes = None\<rparr>,
     \<lparr>pc_name = ''Bob'', pc_phone = None, pc_email = Some ''bob@site.org'', pc_tags = [], pc_notes = None\<rparr>]"

lemma bookWorld_tenant: "tenantExists ''t1'' bookWorld"
  by (simp add: tenantExists_def bookWorld_def someTenant_def demoTenant_def)

theorem import_accounts_for_rows_witness:
  "let (r, w') = bulkInsertContacts 5 ''t1'' clientList bookWorld
   in im_errors r = [] \<and> im_inserted r = 2 \<and> im_skipped r = 1 \<and> length (w_contacts w') = 3"
proof -
  obtain r w' where run: "bulkInsertContacts 5 ''t1'' clientList bookWorld = (r, w')" by fastforce
  have "length (w_contacts (snd (bulkInsertContacts 5 ''t1'' clientList bookWorld))) = 3" by code_simp
  then have "length (w_contacts w') = 3" using run by simp
  then show ?thesis
    using import_accounts_for_rows [OF bookWorld_tenant run] run by (simp add: bookWorld_def clientList_def)
qed

theorem reimport_adds_nobody_witness:
  "let w1 = snd (bulkInsertContacts 5 ''t1'' clientList bookWorld)
   in im_inserted (fst (bulkInsertContacts 6 ''t1'' clientList w1)) = 0"
proof -
  obtain r w1 r2 w2 where run: "bulkInsertContacts 5 ''t1'' clientList bookWorld = (r, w1)"
    "bulkInsertContacts 6 ''t1'' clientList w1 = (r2, w2)" by (metis surj_pair)
  have "pc_phone p \<noteq> None \<or> pc_email p \<noteq> None" if "p \<in> set clientList" for p
    using that by (auto simp: clientList_def)
  from reimport_adds_nobody [OF bookWorld_tenant run this] show ?thesis using run by simp
qed

end
