(* ===== verification/Campaigns.thy ===== *)
theory Campaigns
  imports Contacts Workflow_Actions Plan_Limits Events "HOL-Library.List_Lexorder" "HOL-Library.Char_ord"
begin

text \<open>
  \<open>modules/campaign/campaign.service.ts\<close> with its request bodies: campaigns, audience segments, tags, the
  audience of a segment, the dispatch of a campaign to the queue, and the statistics of its responses.
  \<open>new Date\<close> of a text is the argument \<open>parseDate\<close> (\<open>None\<close>: an invalid date); row ids are UUIDs, which the
  database orders as their texts.
\<close>

section \<open>Request bodies\<close>

record CreateCampaignDto =
  cm_name :: string
  cm_description :: "string option"
  cm_body :: "string option"
  cm_channel :: "string option"
  cm_scheduledAt :: "string option"
  cm_status :: "string option"

record UpdateCampaignDto =
  um_name :: "string option"
  um_description :: "string option"
  um_body :: "string option"
  um_channel :: "string option"
  um_scheduledAt :: "string option"
  um_status :: "string option"

record CreateSegmentDto =
  sg_name :: string
  sg_tagId :: "uuid option"

record UpdateSegmentDto =
  ug_name :: "string option"
  ug_tagId :: "uuid option"

record DispatchCampaignDto =
  di_segmentId :: uuid
  di_messageTemplate :: string
  di_channel :: string
  di_scheduledAt :: string

section \<open>Campaigns\<close>

definition campaignNotFound :: exn where
  "campaignNotFound = NotFoundException ''Campaign not found''"

definition findCampaign :: "uuid \<Rightarrow> uuid \<Rightarrow> world \<Rightarrow> campaign option" where
  "findCampaign tenantId i w =
     List.find (\<lambda>c. campaign_id c = i \<and> campaign_tenantId c = tenantId) (w_campaigns w)"

definition withCampaign :: "uuid \<Rightarrow> uuid \<Rightarrow> 'a act \<Rightarrow> 'a act" where
  "withCampaign tenantId i k w =
     (case findCampaign tenantId i w of None \<Rightarrow> (Inl campaignNotFound, w) | Some _ \<Rightarrow> k w)"

text \<open>A date column: absent and empty texts are NULL; an invalid date is refused by Prisma.\<close>

definition dateColumn :: "(string \<Rightarrow> instant option) \<Rightarrow> string option \<Rightarrow> instant option outcome" where
  "dateColumn parseDate s =
     (if \<not> truthy s then Inr None
      else case parseDate (the s) of
          None \<Rightarrow> Inl (PrismaError ''PrismaClientValidationError'')
        | Some d \<Rightarrow> Inr (Some d))"

definition insertCampaign :: "campaign \<Rightarrow> campaign act" where
  "insertCampaign c w =
     (if tenantExists (campaign_tenantId c) w
      then (Inr c, bump (w\<lparr>w_campaigns := w_campaigns w @ [c]\<rparr>))
      else (Inl (PrismaError ''P2003''), w))"

definition createCampaign ::
  "(string \<Rightarrow> instant option) \<Rightarrow> instant \<Rightarrow> uuid \<Rightarrow> CreateCampaignDto \<Rightarrow> campaign act" where
  "createCampaign parseDate now tenantId dto w =
     (case dateColumn parseDate (cm_scheduledAt dto) of
        Inl e \<Rightarrow> (Inl e, w)
      | Inr d \<Rightarrow> insertCampaign
          \<lparr>campaign_id = newId w, campaign_tenantId = tenantId, campaign_name = cm_name dto,
           campaign_description = cm_description dto, campaign_body = cm_body dto,
           campaign_channel = cm_channel dto, campaign_scheduledAt = d,
           campaign_status = coalesce (cm_status dto) ''draft'', campaign_createdAt = now,
      campaign_isDemoData = False\<rparr> w)"

definition tagOfSegment :: "world \<Rightarrow> audienceSegment \<Rightarrow> tag option" where
  "tagOfSegment w s = (case audienceSegment_tagId s of
     None \<Rightarrow> None | Some i \<Rightarrow> List.find (\<lambda>t. tag_id t = i) (w_tags w))"

text \<open>A campaign with its segments and their tags.\<close>

type_synonym CampaignView = "campaign \<times> (audienceSegment \<times> tag option) list"

definition segmentsOf :: "uuid \<Rightarrow> world \<Rightarrow> (audienceSegment \<times> tag option) list" where
  "segmentsOf campaignId w = map (\<lambda>s. (s, tagOfSegment w s))
     (filter (\<lambda>s. audienceSegment_campaignId s = campaignId) (w_audienceSegments w))"

definition campaignView :: "world \<Rightarrow> campaign \<Rightarrow> CampaignView" where
  "campaignView w c = (c, segmentsOf (campaign_id c) w)"

definition findAllCampaigns :: "uuid \<Rightarrow> world \<Rightarrow> CampaignView list" where
  "findAllCampaigns tenantId w = map (campaignView w)
     (order_desc campaign_createdAt (filter (\<lambda>c. campaign_tenantId c = tenantId) (w_campaigns w)))"

definition findOneCampaign :: "uuid \<Rightarrow> uuid \<Rightarrow> world \<Rightarrow> CampaignView outcome" where
  "findOneCampaign tenantId i w =
     (case findCampaign tenantId i w of None \<Rightarrow> Inl campaignNotFound | Some c \<Rightarrow> Inr (campaignView w c))"

definition applyCampaignDto :: "instant option outcome \<Rightarrow> UpdateCampaignDto \<Rightarrow> campaign \<Rightarrow> campaign" where
  "applyCampaignDto d dto c = c\<lparr>
     campaign_name := coalesce (um_name dto) (campaign_name c),
     campaign_description := (case um_description dto of None \<Rightarrow> campaign_description c | x \<Rightarrow> x),
     campaign_body := (case um_body dto of None \<Rightarrow> campaign_body c | x \<Rightarrow> x),
     campaign_channel := (case um_channel dto of None \<Rightarrow> campaign_channel c | x \<Rightarrow> x),
     campaign_scheduledAt := (case (um_scheduledAt dto, d) of (Some _, Inr x) \<Rightarrow> x | _ \<Rightarrow> campaign_scheduledAt c),
     campaign_status := coalesce (um_status dto) (campaign_status c)\<rparr>"

definition updateCampaign ::
  "(string \<Rightarrow> instant option) \<Rightarrow> uuid \<Rightarrow> uuid \<Rightarrow> UpdateCampaignDto \<Rightarrow> unit act" where
  "updateCampaign parseDate tenantId i dto = withCampaign tenantId i (\<lambda>w.
     (case dateColumn parseDate (um_scheduledAt dto) of
        Inl e \<Rightarrow> (Inl e, w)
      | d \<Rightarrow> (Inr (), w\<lparr>w_campaigns :=
          update_where (\<lambda>c. campaign_id c = i) (applyCampaignDto d dto) (w_campaigns w)\<rparr>)))"

definition removeCampaign :: "uuid \<Rightarrow> uuid \<Rightarrow> unit act" where
  "removeCampaign tenantId i = withCampaign tenantId i (modifyA (deleteCampaignRow i))"

definition ownedBy :: "uuid \<Rightarrow> uuid \<Rightarrow> world \<Rightarrow> 'a \<Rightarrow> 'a outcome" where
  "ownedBy tenantId campaignId w x =
     (if findCampaign tenantId campaignId w = None then Inl campaignNotFound else Inr x)"

definition contactOf :: "world \<Rightarrow> uuid option \<Rightarrow> contact option" where
  "contactOf w i = (case i of None \<Rightarrow> None | Some k \<Rightarrow> List.find (\<lambda>c. contact_id c = k) (w_contacts w))"

definition getRecipients ::
  "uuid \<Rightarrow> uuid \<Rightarrow> world \<Rightarrow> (campaignRecipient \<times> contact option \<times> messageResponse option) list outcome" where
  "getRecipients tenantId campaignId w = ownedBy tenantId campaignId w
     (map (\<lambda>r. (r, contactOf w (campaignRecipient_contactId r),
            List.find (\<lambda>m. messageResponse_campaignRecipientId m = Some (campaignRecipient_id r))
              (w_messageResponses w)))
        (order_asc campaignRecipient_createdAt
           (filter (\<lambda>r. campaignRecipient_campaignId r = campaignId) (w_campaignRecipients w))))"

definition responsesTo :: "uuid \<Rightarrow> uuid \<Rightarrow> world \<Rightarrow> messageResponse list" where
  "responsesTo tenantId campaignId w = filter (\<lambda>r. messageResponse_broadcastId r = campaignId \<and>
     messageResponse_tenantId r = tenantId) (w_messageResponses w)"

definition getResponses :: "uuid \<Rightarrow> uuid \<Rightarrow> world \<Rightarrow> (messageResponse \<times> contact option) list outcome" where
  "getResponses tenantId campaignId w = ownedBy tenantId campaignId w
     (map (\<lambda>r. (r, contactOf w (messageResponse_contactId r)))
        (order_desc messageResponse_timestamp (responsesTo tenantId campaignId w)))"

section \<open>Segments\<close>

definition tagNotFound :: exn where
  "tagNotFound = NotFoundException ''Tag not found''"

definition segmentNotFound :: exn where
  "segmentNotFound = NotFoundException ''Audience segment not found''"

definition tagAllowed :: "uuid \<Rightarrow> uuid option \<Rightarrow> world \<Rightarrow> bool" where
  "tagAllowed tenantId i w = (truthy i \<longrightarrow> findTag tenantId (the i) w \<noteq> None)"

definition createSegment :: "instant \<Rightarrow> uuid \<Rightarrow> uuid \<Rightarrow> CreateSegmentDto \<Rightarrow> audienceSegment act" where
  "createSegment now tenantId campaignId dto = withCampaign tenantId campaignId (\<lambda>w.
     if \<not> tagAllowed tenantId (sg_tagId dto) w then (Inl tagNotFound, w)
     else let s = \<lparr>audienceSegment_id = newId w, audienceSegment_campaignId = campaignId,
                   audienceSegment_name = sg_name dto, audienceSegment_tagId = sg_tagId dto,
                   audienceSegment_createdAt = now\<rparr>
          in (Inr s, bump (w\<lparr>w_audienceSegments := w_audienceSegments w @ [s]\<rparr>)))"

definition findSegments :: "uuid \<Rightarrow> uuid \<Rightarrow> world \<Rightarrow> (audienceSegment \<times> tag option) list outcome" where
  "findSegments tenantId campaignId w = ownedBy tenantId campaignId w
     (order_asc (\<lambda>(s, _). audienceSegment_createdAt s) (segmentsOf campaignId w))"

definition campaignSegment :: "uuid \<Rightarrow> uuid \<Rightarrow> world \<Rightarrow> audienceSegment option" where
  "campaignSegment campaignId i w = List.find (\<lambda>s. audienceSegment_id s = i \<and>
     audienceSegment_campaignId s = campaignId) (w_audienceSegments w)"

definition withSegment :: "uuid \<Rightarrow> uuid \<Rightarrow> uuid \<Rightarrow> 'a act \<Rightarrow> 'a act" where
  "withSegment tenantId campaignId i k = withCampaign tenantId campaignId (\<lambda>w.
     (case campaignSegment campaignId i w of None \<Rightarrow> (Inl segmentNotFound, w) | Some _ \<Rightarrow> k w))"

definition updateSegment :: "uuid \<Rightarrow> uuid \<Rightarrow> uuid \<Rightarrow> UpdateSegmentDto \<Rightarrow> unit act" where
  "updateSegment tenantId campaignId i dto = withSegment tenantId campaignId i (\<lambda>w.
     if \<not> tagAllowed tenantId (ug_tagId dto) w then (Inl tagNotFound, w)
     else (Inr (), w\<lparr>w_audienceSegments := update_where (\<lambda>s. audienceSegment_id s = i)
       (\<lambda>s. s\<lparr>audienceSegment_name := coalesce (ug_name dto) (audienceSegment_name s),
              audienceSegment_tagId := (case ug_tagId dto of None \<Rightarrow> audienceSegment_tagId s | x \<Rightarrow> x)\<rparr>)
       (w_audienceSegments w)\<rparr>))"

definition removeSegment :: "uuid \<Rightarrow> uuid \<Rightarrow> uuid \<Rightarrow> unit act" where
  "removeSegment tenantId campaignId i = withSegment tenantId campaignId i
     (modifyA (deleteSegments (\<lambda>s. audienceSegment_id s = i)))"

section \<open>Tags\<close>

text \<open>Unlike the service of the contacts, this one gives back a tag that exists.\<close>

definition createCampaignTag :: "uuid \<Rightarrow> string \<Rightarrow> uuid act" where
  "createCampaignTag tenantId name = upsertTag tenantId (normalizeTag name)"

definition findAllTags :: "(string \<Rightarrow> int) \<Rightarrow> uuid \<Rightarrow> world \<Rightarrow> (tag \<times> nat) list" where
  "findAllTags collate tenantId w =
     map (\<lambda>t. (t, count_where (\<lambda>l. contactTag_tagId l = tag_id t) (w_contactTags w))) (getAllTags collate tenantId w)"

definition removeTag :: "uuid \<Rightarrow> uuid \<Rightarrow> unit act" where
  "removeTag tenantId i w =
     (case findTag tenantId i w of None \<Rightarrow> (Inl tagNotFound, w) | Some _ \<Rightarrow> (Inr (), deleteTagRow i w))"

definition assignTags :: "uuid \<Rightarrow> uuid list \<Rightarrow> uuid list \<Rightarrow> nat act" where
  "assignTags tenantId contactIds tagIds w =
     (if length (filter (\<lambda>t. tag_id t \<in> set tagIds \<and> tag_tenantId t = tenantId) (w_tags w)) \<noteq> length tagIds
      then (Inl (BadRequestException ''One or more tags not found''), w)
      else if length (chosenContacts tenantId contactIds w) \<noteq> length contactIds
      then (Inl (BadRequestException ''One or more contacts not found''), w)
      else thenA (forEachA (\<lambda>c. forEachA (upsertLink c) tagIds) contactIds)
             (returnA (length contactIds * length tagIds)) w)"

definition removeTagFromContact :: "uuid \<Rightarrow> uuid \<Rightarrow> uuid \<Rightarrow> unit act" where
  "removeTagFromContact tenantId contactId tagId = withContact tenantId contactId (\<lambda>_.
     modifyA (\<lambda>w. w\<lparr>w_contactTags := delete_where (isLink contactId tagId) (w_contactTags w)\<rparr>))"

section \<open>Audiences\<close>

definition AUDIENCE_BATCH_SIZE :: nat where
  "AUDIENCE_BATCH_SIZE = 1000"

definition mayBeSent :: "uuid \<Rightarrow> contact \<Rightarrow> bool" where
  "mayBeSent tenantId c = (contact_tenantId c = tenantId \<and> \<not> contact_unsubscribed c)"

text \<open>The contact of a link, when it is the tenant's and has not unsubscribed.\<close>

definition linkedContact :: "uuid \<Rightarrow> uuid \<Rightarrow> world \<Rightarrow> contactTag \<Rightarrow> contact option" where
  "linkedContact tenantId tagId w l =
     (if contactTag_tagId l = tagId
      then List.find (\<lambda>c. contact_id c = contactTag_contactId l \<and> mayBeSent tenantId c) (w_contacts w) else None)"

definition countAudience :: "uuid \<Rightarrow> uuid \<Rightarrow> world \<Rightarrow> nat outcome" where
  "countAudience tenantId segmentId w =
     (case findSegment tenantId segmentId w of
        None \<Rightarrow> Inl segmentNotFound
      | Some s \<Rightarrow> Inr (if \<not> truthy (audienceSegment_tagId s) then count_where (mayBeSent tenantId) (w_contacts w)
          else count_where (\<lambda>l. linkedContact tenantId (the (audienceSegment_tagId s)) w l \<noteq> None)
                 (w_contactTags w)))"

text \<open>A page: the rows in the order of their ids after the cursor, at most a batch.\<close>

definition pageAfter :: "contact list \<Rightarrow> uuid option \<Rightarrow> contact list" where
  "pageAfter rows cursor = take AUDIENCE_BATCH_SIZE
     (filter (\<lambda>c. case cursor of None \<Rightarrow> True | Some i \<Rightarrow> i < contact_id c) rows)"

lemma pageAfter_in: "c \<in> set (pageAfter rows cursor) \<Longrightarrow>
    c \<in> set rows \<and> (case cursor of None \<Rightarrow> True | Some i \<Rightarrow> i < contact_id c)"
  by (auto simp: pageAfter_def dest!: in_set_takeD)

lemma pageAfter_full: "\<not> length (pageAfter rows cursor) < AUDIENCE_BATCH_SIZE \<Longrightarrow> pageAfter rows cursor \<noteq> []"
  by (auto simp: AUDIENCE_BATCH_SIZE_def)

text \<open>
  The loop over the pages. It ends: after a full page the rows behind the cursor are fewer, as the last
  row of the page is no longer among them.
\<close>

function audiencePages :: "contact list \<Rightarrow> uuid option \<Rightarrow> contact list" where
  "audiencePages rows cursor =
     (let batch = pageAfter rows cursor
      in batch @ (if length batch < AUDIENCE_BATCH_SIZE then []
                  else audiencePages rows (Some (contact_id (last batch)))))"
  by pat_completeness auto
termination
proof (relation "measure (\<lambda>(rows, cursor). length (filter (\<lambda>c. case cursor of None \<Rightarrow> True
      | Some i \<Rightarrow> i < contact_id c) rows))")
  fix rows cursor batch
  assume b: "batch = pageAfter rows cursor" and f: "\<not> length batch < AUDIENCE_BATCH_SIZE"
  let ?l = "last batch"
  let ?beyond = "\<lambda>cur c. case cur of None \<Rightarrow> True | Some i \<Rightarrow> i < contact_id c"
  have l: "?l \<in> set rows" "?beyond cursor ?l"
    using pageAfter_in [of ?l rows cursor] pageAfter_full f b by auto
  have "length (filter (\<lambda>c. contact_id ?l < contact_id c) rows) < length (filter (?beyond cursor) rows)"
  proof -
    have "filter (\<lambda>c. contact_id ?l < contact_id c) rows =
        filter (\<lambda>c. contact_id ?l < contact_id c) (filter (?beyond cursor) rows)"
      using l(2) by (auto intro!: filter_cong simp: split: option.splits)
    also have "length \<dots> < length (filter (?beyond cursor) rows)"
      using l by (intro length_filter_less [where x = ?l]) auto
    finally show ?thesis .
  qed
  then show "((rows, Some (contact_id (last batch))), (rows, cursor)) \<in> measure (\<lambda>(rows, cursor).
      length (filter (?beyond cursor) rows))" by simp
qed simp

declare audiencePages.simps [simp del]

definition subscribedContacts :: "uuid \<Rightarrow> world \<Rightarrow> contact list" where
  "subscribedContacts tenantId w = sort_key contact_id (filter (mayBeSent tenantId) (w_contacts w))"

definition resolveAudience :: "uuid \<Rightarrow> uuid \<Rightarrow> world \<Rightarrow> contact list outcome" where
  "resolveAudience tenantId segmentId w =
     (case findSegment tenantId segmentId w of
        None \<Rightarrow> Inl segmentNotFound
      | Some s \<Rightarrow> Inr (if \<not> truthy (audienceSegment_tagId s) then audiencePages (subscribedContacts tenantId w) None
          else List.map_filter (linkedContact tenantId (the (audienceSegment_tagId s)) w) (w_contactTags w)))"

definition getSegmentContactCount :: "uuid \<Rightarrow> uuid \<Rightarrow> world \<Rightarrow> nat outcome" where
  "getSegmentContactCount tenantId segmentId w =
     (case resolveAudience tenantId segmentId w of Inl e \<Rightarrow> Inl e | Inr cs \<Rightarrow> Inr (length cs))"

section \<open>Dispatch\<close>

record Dispatched =
  dp_queued :: nat
  dp_message :: string

definition recipientOf :: "contact \<Rightarrow> string" where
  "recipientOf c = coalesce (or_str (contact_phone c) (or_str (contact_email c) (Some []))) []"

definition campaignLocation :: "uuid \<Rightarrow> uuid \<Rightarrow> world \<Rightarrow> string option" where
  "campaignLocation tenantId campaignId w =
     (case List.find (\<lambda>a. appointment_campaignId a = Some campaignId \<and> appointment_tenantId a = tenantId)
             (w_appointments w) of
        None \<Rightarrow> None
      | Some a \<Rightarrow> (case appointment_locationId a of
            None \<Rightarrow> None
          | Some i \<Rightarrow> map_option location_name (List.find (\<lambda>l. location_id l = i) (w_locations w))))"

definition dispatchJobId :: "uuid \<Rightarrow> uuid \<Rightarrow> string" where
  "dispatchJobId campaignId contactId = ''campaign-send:'' @ campaignId @ '':'' @ contactId"

definition dispatchJob ::
  "instant \<Rightarrow> uuid \<Rightarrow> uuid \<Rightarrow> DispatchCampaignDto \<Rightarrow> instant \<Rightarrow> string option \<Rightarrow> contact \<Rightarrow> job" where
  "dispatchJob now tenantId campaignId dto scheduledAt locationName c =
     \<lparr>job_queue = CAMPAIGN_QUEUE, job_id = dispatchJobId campaignId (contact_id c),
      job_name = ''campaign:'' @ campaignId @ '':'' @ contact_id c,
      job_data = JObj ([(''tenantId'', JStr tenantId), (''campaignId'', JStr campaignId),
        (''segmentId'', JStr (di_segmentId dto)), (''contactId'', JStr (contact_id c)),
        (''recipient'', JStr (recipientOf c)), (''channel'', JStr (di_channel dto)),
        (''messageTemplate'', JStr (di_messageTemplate dto)),
        (''scheduledFor'', JStr (toISOString scheduledAt)), (''contactName'', JStr (contact_name c))] @
        (case locationName of None \<Rightarrow> [] | Some l \<Rightarrow> [(''locationName'', JStr l)])),
      job_delay = max 0 (scheduledAt - now)\<rparr>"

text \<open>
  BullMQ ignores a job whose id it still has: one that waits, or a finished one it keeps (\<open>kept\<close>, the
  options \<open>removeOnComplete\<close> and \<open>removeOnFail\<close>).
\<close>

definition addJobOnce :: "(string \<Rightarrow> bool) \<Rightarrow> job \<Rightarrow> world \<Rightarrow> world" where
  "addJobOnce kept j w = (if kept (job_id j) \<or> job_id j \<in> job_id ` set (w_jobs w) then w else addJob j w)"

definition effectivePlan :: "tenant \<Rightarrow> string" where
  "effectivePlan t = (if tenant_trialActive t then ''TRIAL'' else planKey (tenant_planType t))"

definition audienceTooLarge :: "int \<Rightarrow> nat \<Rightarrow> exn" where
  "audienceTooLarge limit n = ForbiddenException (''Your plan allows campaigns to at most '' @ show_int limit @
     '' contacts. '' @ ''This segment has '' @ show_nat n @
     ''. Please upgrade your plan or narrow the audience.'')"

definition queueCampaign ::
  "(string \<Rightarrow> instant option) \<Rightarrow> instant \<Rightarrow> (string \<Rightarrow> bool) \<Rightarrow> uuid \<Rightarrow> uuid \<Rightarrow> DispatchCampaignDto \<Rightarrow>
   contact list \<Rightarrow> Dispatched act" where
  "queueCampaign parseDate now kept tenantId campaignId dto audience w =
     (case parseDate (di_scheduledAt dto) of
        None \<Rightarrow> (if audience = [] then (Inr \<lparr>dp_queued = 0, dp_message = ''0 messages queued for delivery''\<rparr>, w)
                 else (Inl (PlainError ''Invalid time value''), w))
      | Some d \<Rightarrow>
          let jobs = map (dispatchJob now tenantId campaignId dto d (campaignLocation tenantId campaignId w)) audience
          in (Inr \<lparr>dp_queued = length jobs, dp_message = show_nat (length jobs) @ '' messages queued for delivery''\<rparr>,
              fold (addJobOnce kept) jobs w))"

definition dispatchCampaign ::
  "(string \<Rightarrow> instant option) \<Rightarrow> instant \<Rightarrow> (string \<Rightarrow> bool) \<Rightarrow> uuid \<Rightarrow> uuid \<Rightarrow> DispatchCampaignDto \<Rightarrow>
   Dispatched act" where
  "dispatchCampaign parseDate now kept tenantId campaignId dto = withCampaign tenantId campaignId (\<lambda>w.
     (case findTenant tenantId w of
        None \<Rightarrow> (Inl (PrismaError ''P2025''), w)
      | Some t \<Rightarrow>
          let limit = campaignAudienceLimit (getLimitsForPlan (effectivePlan t))
          in (case countAudience tenantId (di_segmentId dto) w of
                Inl e \<Rightarrow> (Inl e, w)
              | Inr n \<Rightarrow>
                  if n = 0 then (Inr \<lparr>dp_queued = 0, dp_message = ''No eligible contacts in segment''\<rparr>, w)
                  else if limit < int n then (Inl (audienceTooLarge limit n), w)
                  else (case resolveAudience tenantId (di_segmentId dto) w of
                      Inl e \<Rightarrow> (Inl e, w)
                    | Inr audience \<Rightarrow> queueCampaign parseDate now kept tenantId campaignId dto audience w))))"

section \<open>Responses\<close>

definition contactsWithTag :: "uuid \<Rightarrow> world \<Rightarrow> uuid list" where
  "contactsWithTag tagId w =
     map contactTag_contactId (filter (\<lambda>l. contactTag_tagId l = tagId) (w_contactTags w))"

definition contactsInGroup :: "uuid \<Rightarrow> world \<Rightarrow> uuid list" where
  "contactsInGroup groupId w = map contactGroupMember_contactId
     (filter (\<lambda>m. contactGroupMember_groupId m = groupId) (w_contactGroupMembers w))"

record DashboardFilters =
  df_status :: "string option"
  df_tagId :: "uuid option"
  df_groupId :: "uuid option"
  df_segmentId :: "uuid option"

text \<open>The contacts the filters leave, \<open>None\<close> for all: a segment before a group before a tag.\<close>

definition filterSubset :: "uuid \<Rightarrow> DashboardFilters \<Rightarrow> world \<Rightarrow> uuid list option outcome" where
  "filterSubset tenantId f w =
     (if truthy (df_segmentId f)
      then (case resolveAudience tenantId (the (df_segmentId f)) w of
              Inl e \<Rightarrow> Inl e
            | Inr cs \<Rightarrow> Inr (Some (map contact_id cs)))
      else if truthy (df_groupId f) then Inr (Some (contactsInGroup (the (df_groupId f)) w))
      else if truthy (df_tagId f) then Inr (Some (contactsWithTag (the (df_tagId f)) w))
      else Inr None)"

definition fromSubset :: "uuid list option \<Rightarrow> messageResponse \<Rightarrow> bool" where
  "fromSubset s r = (case s of
     None \<Rightarrow> True
   | Some ids \<Rightarrow> (case messageResponse_contactId r of None \<Rightarrow> False | Some i \<Rightarrow> i \<in> set ids))"

record ResponseContact =
  rc_contact :: contact
  rc_tags :: "tag list"
  rc_groups :: "contactGroup list"

definition responseContact :: "world \<Rightarrow> contact \<Rightarrow> ResponseContact" where
  "responseContact w c = \<lparr>rc_contact = c,
     rc_tags = List.map_filter (\<lambda>l. if contactTag_contactId l = contact_id c
       then List.find (\<lambda>t. tag_id t = contactTag_tagId l) (w_tags w) else None) (w_contactTags w),
     rc_groups = List.map_filter (\<lambda>m. if contactGroupMember_contactId m = contact_id c
       then List.find (\<lambda>g. contactGroup_id g = contactGroupMember_groupId m) (w_contactGroups w) else None)
       (w_contactGroupMembers w)\<rparr>"

definition getResponseDashboard ::
  "uuid \<Rightarrow> uuid \<Rightarrow> DashboardFilters \<Rightarrow> world \<Rightarrow> (messageResponse \<times> ResponseContact option) list outcome" where
  "getResponseDashboard tenantId campaignId f w =
     (if findCampaign tenantId campaignId w = None then Inl campaignNotFound
      else case filterSubset tenantId f w of
          Inl e \<Rightarrow> Inl e
        | Inr s \<Rightarrow>
            if truthy (df_status f) \<and> the (df_status f) \<notin> {''confirmed'', ''cancelled'', ''pending''}
            then Inl (PrismaError ''PrismaClientValidationError'')
            else Inr (map (\<lambda>r. (r, map_option (responseContact w) (contactOf w (messageResponse_contactId r))))
              (order_desc messageResponse_timestamp
                 (filter (\<lambda>r. fromSubset s r \<and> (truthy (df_status f) \<longrightarrow>
                      participantStatusName (messageResponse_responseStatus r) = the (df_status f)))
                    (responsesTo tenantId campaignId w)))))"

section \<open>Statistics\<close>

record StatsSummary =
  st_scopeName :: string
  st_scopeId :: uuid
  st_total :: nat
  st_confirmed :: nat
  st_cancelled :: nat
  st_pending :: nat
  st_noResponse :: int

text \<open>\<open>groupBy\<close>: each status that occurs, with its count.\<close>

definition groupCounts :: "EventParticipantStatus list \<Rightarrow> (EventParticipantStatus \<times> nat) list" where
  "groupCounts ss = map (\<lambda>s. (s, count_where (\<lambda>x. x = s) ss)) (remdups ss)"

definition buildStatsSummary ::
  "string \<Rightarrow> uuid \<Rightarrow> nat \<Rightarrow> (EventParticipantStatus \<times> nat) list \<Rightarrow> StatsSummary" where
  "buildStatsSummary scopeName scopeId sentTo rows =
     (let countOf = (\<lambda>s. coalesce (map_of rows s) 0);
          responded = countOf P_confirmed + countOf P_cancelled + countOf P_pending
      in \<lparr>st_scopeName = scopeName, st_scopeId = scopeId, st_total = sentTo, st_confirmed = countOf P_confirmed,
          st_cancelled = countOf P_cancelled, st_pending = countOf P_pending,
          st_noResponse = max 0 (int sentTo - int responded)\<rparr>)"

definition statsOf :: "uuid \<Rightarrow> uuid \<Rightarrow> string \<Rightarrow> uuid \<Rightarrow> uuid list option \<Rightarrow> world \<Rightarrow> StatsSummary" where
  "statsOf tenantId campaignId scopeName scopeId ids w = buildStatsSummary scopeName scopeId
     (count_where (\<lambda>r. campaignRecipient_campaignId r = campaignId \<and> (case ids of
          None \<Rightarrow> True
        | Some is \<Rightarrow> (case campaignRecipient_contactId r of None \<Rightarrow> False | Some i \<Rightarrow> i \<in> set is)))
        (w_campaignRecipients w))
     (groupCounts (map messageResponse_responseStatus (filter (fromSubset ids) (responsesTo tenantId campaignId w))))"

definition getResponseStats :: "uuid \<Rightarrow> uuid \<Rightarrow> world \<Rightarrow> StatsSummary outcome" where
  "getResponseStats tenantId campaignId w =
     (case findCampaign tenantId campaignId w of
        None \<Rightarrow> Inl campaignNotFound
      | Some c \<Rightarrow> Inr (statsOf tenantId campaignId (campaign_name c) campaignId None w))"

definition getResponseStatsBySegment :: "uuid \<Rightarrow> uuid \<Rightarrow> uuid \<Rightarrow> world \<Rightarrow> StatsSummary outcome" where
  "getResponseStatsBySegment tenantId campaignId segmentId w =
     (if findCampaign tenantId campaignId w = None then Inl campaignNotFound
      else case campaignSegment campaignId segmentId w of
          None \<Rightarrow> Inl (NotFoundException ''Segment not found'')
        | Some s \<Rightarrow> (case resolveAudience tenantId segmentId w of
              Inl e \<Rightarrow> Inl e
            | Inr cs \<Rightarrow> Inr (statsOf tenantId campaignId (audienceSegment_name s) segmentId
                (Some (map contact_id cs)) w)))"

definition getResponseStatsByTag :: "uuid \<Rightarrow> uuid \<Rightarrow> uuid \<Rightarrow> world \<Rightarrow> StatsSummary outcome" where
  "getResponseStatsByTag tenantId campaignId tagId w =
     (if findCampaign tenantId campaignId w = None then Inl campaignNotFound
      else case findTag tenantId tagId w of
          None \<Rightarrow> Inl tagNotFound
        | Some t \<Rightarrow> Inr (statsOf tenantId campaignId (tag_name t) tagId (Some (contactsWithTag tagId w)) w))"

definition getResponseStatsByGroup :: "uuid \<Rightarrow> uuid \<Rightarrow> uuid \<Rightarrow> world \<Rightarrow> StatsSummary outcome" where
  "getResponseStatsByGroup tenantId campaignId groupId w =
     (if findCampaign tenantId campaignId w = None then Inl campaignNotFound
      else case findGroup tenantId groupId w of
          None \<Rightarrow> Inl groupNotFound
        | Some g \<Rightarrow> Inr (statsOf tenantId campaignId (contactGroup_name g) groupId
            (Some (contactsInGroup groupId w)) w))"

definition getResponseStatsByAppointment :: "uuid \<Rightarrow> uuid \<Rightarrow> uuid \<Rightarrow> world \<Rightarrow> StatsSummary outcome" where
  "getResponseStatsByAppointment tenantId campaignId appointmentId w =
     (if findCampaign tenantId campaignId w = None then Inl campaignNotFound
      else case List.find (\<lambda>a. appointment_id a = appointmentId \<and> appointment_tenantId a = tenantId)
                  (w_appointments w) of
          None \<Rightarrow> Inl (NotFoundException ''Appointment not found'')
        | Some a \<Rightarrow> Inr (statsOf tenantId campaignId (appointment_title a) appointmentId
            (Some (map participant_contactId
               (filter (\<lambda>p. participant_appointmentId p = appointmentId) (w_participants w)))) w))"

text \<open>\<open>Promise.all\<close> of reads: all their values, or the first exception.\<close>

fun allOf :: "'a outcome list \<Rightarrow> 'a list outcome" where
  "allOf [] = Inr []"
| "allOf (Inl e # xs) = Inl e"
| "allOf (Inr x # xs) = (case allOf xs of Inl e \<Rightarrow> Inl e | Inr ys \<Rightarrow> Inr (x # ys))"

record AllStats =
  as_campaign :: StatsSummary
  as_segments :: "StatsSummary list"
  as_tags :: "StatsSummary list"

definition getResponseStatsAll :: "uuid \<Rightarrow> uuid \<Rightarrow> world \<Rightarrow> AllStats outcome" where
  "getResponseStatsAll tenantId campaignId w =
     (case getResponseStats tenantId campaignId w of
        Inl e \<Rightarrow> Inl e
      | Inr c \<Rightarrow>
          (case allOf (map (\<lambda>(s, _). getResponseStatsBySegment tenantId campaignId (audienceSegment_id s) w)
                  (segmentsOf campaignId w)) of
             Inl e \<Rightarrow> Inl e
           | Inr ss \<Rightarrow>
               (case allOf (map (\<lambda>t. getResponseStatsByTag tenantId campaignId (tag_id t) w)
                       (List.map_filter snd (segmentsOf campaignId w))) of
                  Inl e \<Rightarrow> Inl e
                | Inr ts \<Rightarrow> Inr \<lparr>as_campaign = c, as_segments = ss, as_tags = ts\<rparr>)))"

end
