(* ===== verification/Campaign_Worker.thy ===== *)
theory Campaign_Worker
  imports Campaigns
begin

text \<open>
  \<open>workers/campaign.worker.ts\<close>: the process that takes the jobs of campaigns and broadcasts from the queue,
  checks the contact and the plan, sends, counts and logs; with the attempts of a job and its failure
  handler.
\<close>

definition CAMPAIGN_DLQ :: string where
  "CAMPAIGN_DLQ = ''meetora-campaigns-dlq''"

text \<open>The payload as the worker reads it; what it lacks is \<open>None\<close>.\<close>

record CampaignJob =
  kj_tenantId :: uuid
  kj_contactId :: "uuid option"
  kj_recipient :: "string option"
  kj_channel :: string
  kj_messageTemplate :: "string option"
  kj_scheduledFor :: string
  kj_contactName :: "string option"
  kj_locationName :: "string option"
  kj_campaignRecipientId :: "uuid option"

definition textAt :: "json \<Rightarrow> string \<Rightarrow> string option" where
  "textAt d k = map_option wireText (present (field d k))"

definition readCampaignJob :: "json \<Rightarrow> CampaignJob" where
  "readCampaignJob d = \<lparr>kj_tenantId = coalesce (textAt d ''tenantId'') [], kj_contactId = textAt d ''contactId'',
     kj_recipient = textAt d ''recipient'', kj_channel = coalesce (textAt d ''channel'') [],
     kj_messageTemplate = textAt d ''messageTemplate'', kj_scheduledFor = coalesce (textAt d ''scheduledFor'') [],
     kj_contactName = textAt d ''contactName'', kj_locationName = textAt d ''locationName'',
     kj_campaignRecipientId = textAt d ''campaignRecipientId''\<rparr>"

section \<open>Template, plan and usage\<close>

definition buildTemplateVars :: "CampaignJob \<Rightarrow> (string \<times> string) list" where
  "buildTemplateVars j =
     (let name = coalesce (kj_contactName j) []; nameParts = splitWords (trim name)
      in [(''first_name'', hd nameParts), (''last_name'', join '' '' (tl nameParts)),
          (''phone'', coalesce (kj_recipient j) []), (''email'', []), (''appointment_date'', []),
          (''appointment_time'', []), (''business_name'', []), (''location'', coalesce (kj_locationName j) []),
          (''customer_name'', name), (''contact_name'', name)])"

definition renderCampaign :: "string \<Rightarrow> CampaignJob \<Rightarrow> string" where
  "renderCampaign tmpl j = replace_placeholders (lookupVar (buildTemplateVars j)) tmpl"

text \<open>The reason a send is refused for, \<open>None\<close> when it is allowed.\<close>

definition checkCampaignEligibility :: "uuid \<Rightarrow> string \<Rightarrow> world \<Rightarrow> string option" where
  "checkCampaignEligibility tenantId channel w =
     (case findTenant tenantId w of
        None \<Rightarrow> Some ''Tenant not found''
      | Some t \<Rightarrow>
          if \<not> tenant_trialActive t \<and> tenant_subscriptionStatus t \<noteq> ACTIVE then Some ''No active subscription''
          else if channel = ''VOICE'' \<and> tenant_planType t = PLAN_SMS
          then Some ''Voice requires SMS_VOICE or SMS_VOICE_AI plan''
          else if tenant_trialActive t \<and> channel = ''SMS'' \<and> tenant_smsTrialLimit t \<le> tenant_smsUsageCount t
          then Some (''Trial SMS limit reached ('' @ show_int (tenant_smsTrialLimit t) @ '')'')
          else None)"

definition countCampaignUsage :: "string \<Rightarrow> tenant \<Rightarrow> tenant" where
  "countCampaignUsage channel t =
     (if channel = ''SMS'' then t\<lparr>tenant_smsUsageCount := tenant_smsUsageCount t + 1\<rparr>
      else if channel = ''VOICE'' then t\<lparr>tenant_voiceUsageCount := tenant_voiceUsageCount t + 1\<rparr>
      else if channel = ''WHATSAPP'' then t\<lparr>tenant_whatsappUsageCount := tenant_whatsappUsageCount t + 1\<rparr>
      else t\<lparr>tenant_aiUsageCount := tenant_aiUsageCount t + 1\<rparr>)"

section \<open>One attempt\<close>

text \<open>The row of a broadcast's recipient, which must belong to the tenant.\<close>

definition markRecipient :: "uuid \<Rightarrow> uuid option \<Rightarrow> (campaignRecipient \<Rightarrow> campaignRecipient) \<Rightarrow> unit act" where
  "markRecipient tenantId i f w =
     (if \<not> truthy i then (Inr (), w)
      else if list_ex (\<lambda>r. campaignRecipient_id r = the i \<and>
          findCampaign tenantId (campaignRecipient_campaignId r) w \<noteq> None) (w_campaignRecipients w)
      then (Inr (), w\<lparr>w_campaignRecipients :=
             update_where (\<lambda>r. campaignRecipient_id r = the i) f (w_campaignRecipients w)\<rparr>)
      else (Inl (PrismaError ''P2025''), w))"

definition recipientFailed :: "string option \<Rightarrow> campaignRecipient \<Rightarrow> campaignRecipient" where
  "recipientFailed err r = r\<lparr>campaignRecipient_status := ''failed'',
     campaignRecipient_errorMessage := (case err of None \<Rightarrow> campaignRecipient_errorMessage r | x \<Rightarrow> x)\<rparr>"

definition recipientSent :: "instant \<Rightarrow> campaignRecipient \<Rightarrow> campaignRecipient" where
  "recipientSent now r = r\<lparr>campaignRecipient_status := ''sent'', campaignRecipient_sentAt := Some now\<rparr>"

definition campaignRequest :: "CampaignJob \<Rightarrow> string \<Rightarrow> ChannelType \<Rightarrow> SendRequest" where
  "campaignRequest j tmpl ch =
     (request (kj_tenantId j) ch (coalesce (kj_recipient j) []) tmpl)
       \<lparr>sq_contactId := kj_contactId j,
        sq_appointmentData := (if ch = VOICE
          then Some \<lparr>ad_title = tmpl, ad_customerName = coalesce (kj_contactName j) ''there'',
                     ad_time = kj_scheduledFor j\<rparr> else None)\<rparr>"

text \<open>For a channel outside the enum \<open>send\<close> reports a failure without a reason and does nothing.\<close>

definition sendCampaign :: "env \<Rightarrow> instant \<Rightarrow> CampaignJob \<Rightarrow> string \<Rightarrow> SendOutcome act" where
  "sendCampaign E now j tmpl w =
     (case channelNamed (kj_channel j) of
        None \<Rightarrow> (Inr \<lparr>so_success = False, so_providerMessageId = None, so_error = None, so_errorCode = None\<rparr>, w)
      | Some ch \<Rightarrow> send E now (campaignRequest j tmpl ch) w)"

definition rateLimited :: "string option \<Rightarrow> bool" where
  "rateLimited err = (case err of None \<Rightarrow> False
     | Some e \<Rightarrow> str_includes (toLowerCase e) ''rate limit'' \<or> str_includes (toLowerCase e) ''too many requests'')"

definition campaignLog :: "instant \<Rightarrow> CampaignJob \<Rightarrow> ChannelType \<Rightarrow> string \<Rightarrow> string option \<Rightarrow> uuid \<Rightarrow> messageLog" where
  "campaignLog now j ch content providerMessageId i =
     outboundLog now (request (kj_tenantId j) ch [] content) (coalesce (kj_recipient j) []) providerMessageId i"

definition mayReceive :: "CampaignJob \<Rightarrow> world \<Rightarrow> bool" where
  "mayReceive j w = (truthy (kj_contactId j) \<longrightarrow>
     (case List.find (\<lambda>c. contact_id c = the (kj_contactId j)) (w_contacts w) of
        None \<Rightarrow> False
      | Some c \<Rightarrow> contact_tenantId c = kj_tenantId j \<and> \<not> contact_unsubscribed c))"

definition afterCampaignSend :: "instant \<Rightarrow> CampaignJob \<Rightarrow> string \<Rightarrow> SendOutcome \<Rightarrow> unit act" where
  "afterCampaignSend now j content r =
     (if \<not> so_success r
      then thenA (whenA (\<not> rateLimited (so_error r))
               (markRecipient (kj_tenantId j) (kj_campaignRecipientId j) (recipientFailed (so_error r))))
             (throwA (PlainError (coalesce (or_str (so_error r) (Some ''Send failed'')) [])))
      else thenA (updateTenant (kj_tenantId j) (countCampaignUsage (kj_channel j)))
             (thenA (createMessageLog (campaignLog now j (the (channelNamed (kj_channel j))) content
                       (so_providerMessageId r)))
                (markRecipient (kj_tenantId j) (kj_campaignRecipientId j) (recipientSent now))))"

definition processCampaign :: "env \<Rightarrow> instant \<Rightarrow> CampaignJob \<Rightarrow> unit act" where
  "processCampaign E now j w =
     (if \<not> truthy (kj_recipient j) then (Inr (), w)
      else if \<not> mayReceive j w then (Inr (), w)
      else case checkCampaignEligibility (kj_tenantId j) (kj_channel j) w of
          Some why \<Rightarrow>
            markRecipient (kj_tenantId j) (kj_campaignRecipientId j) (recipientFailed (Some why)) w
        | None \<Rightarrow>
            (case kj_messageTemplate j of
               None \<Rightarrow> (Inl (PlainError (typeError ''undefined'' ''replace'')), w)
             | Some tmpl \<Rightarrow>
                 bindA (sendCampaign E now j tmpl) (afterCampaignSend now j (renderCampaign tmpl j)) w))"

section \<open>The attempts of a job\<close>

text \<open>
  BullMQ runs a job again until an attempt returns; \<open>ts\<close> are the instants of the attempts it is allowed.
  The result says whether one returned.
\<close>

fun runAttempts :: "(instant \<Rightarrow> unit act) \<Rightarrow> instant list \<Rightarrow> world \<Rightarrow> bool \<times> world" where
  "runAttempts f [] w = (False, w)"
| "runAttempts f (t # ts) w =
     (case f t w of (Inr _, v) \<Rightarrow> (True, v) | (Inl _, v) \<Rightarrow> runAttempts f ts v)"

definition deadCampaignJob :: "json \<Rightarrow> job" where
  "deadCampaignJob d = \<lparr>job_queue = CAMPAIGN_DLQ, job_id = [], job_name = ''dead-campaign-send'', job_data = d,
     job_delay = 0\<rparr>"

text \<open>A job with its attempts: after the last failed one it is moved to the dead letters.\<close>

definition takeCampaignJob :: "env \<Rightarrow> instant list \<Rightarrow> json \<Rightarrow> world \<Rightarrow> world" where
  "takeCampaignJob E ts d w =
     (case runAttempts (\<lambda>now. processCampaign E now (readCampaignJob d)) ts w of
        (True, v) \<Rightarrow> v
      | (False, v) \<Rightarrow> if ts = [] then v else addJob (deadCampaignJob d) v)"

end
