(* ===== verification/Broadcasts.thy ===== *)
theory Broadcasts
  imports Campaign_Worker Usage_Validation
begin

text \<open>
  \<open>modules/messaging/broadcast.service.ts\<close> with \<open>queues/messageQueue.ts\<close> and the endpoints of
  \<open>messaging.controller.ts\<close> and \<open>messages.controller.ts\<close>: a template sent to an audience, at once up to a
  hundred contacts and through the campaign queue beyond. The two date formats of the template renderer are
  arguments.
\<close>

section \<open>Audiences\<close>

datatype AudienceType = AT_contact | AT_contacts | AT_tag | AT_group | AT_appointment_participants
  | AT_campaign | AT_campaign_response

record BroadcastDto =
  bd_channel :: ChannelType
  bd_template :: string
  bd_audienceType :: AudienceType
  bd_audienceId :: "uuid option"
  bd_audienceIds :: "uuid list option"
  bd_campaignName :: "string option"
  bd_responseStatus :: "EventParticipantStatus option"
  bd_responseFilter :: "string option"

definition required :: "string \<Rightarrow> string \<Rightarrow> exn" where
  "required what kind = BadRequestException (what @ '' required for audienceType '' @ [CHR 0x22] @ kind @ [CHR 0x22])"

text \<open>The contacts of link rows, in the order of the links.\<close>

definition contactsById :: "uuid list \<Rightarrow> world \<Rightarrow> contact list" where
  "contactsById is w = List.map_filter (\<lambda>i. contactOf w (Some i)) is"

definition resolveContact :: "uuid \<Rightarrow> uuid option \<Rightarrow> world \<Rightarrow> contact list outcome" where
  "resolveContact tenantId i w =
     (if \<not> truthy i then Inl (required ''audienceId'' ''contact'')
      else case List.find (\<lambda>c. contact_id c = the i \<and> mayBeSent tenantId c) (w_contacts w) of
          None \<Rightarrow> Inl contactNotFound
        | Some c \<Rightarrow> Inr [c])"

definition resolveContacts :: "uuid \<Rightarrow> uuid list option \<Rightarrow> world \<Rightarrow> contact list outcome" where
  "resolveContacts tenantId is w =
     (if coalesce is [] = [] then Inl (required ''audienceIds'' ''contacts'')
      else Inr (filter (\<lambda>c. contact_id c \<in> set (the is) \<and> mayBeSent tenantId c) (w_contacts w)))"

definition resolveByTag :: "uuid \<Rightarrow> uuid option \<Rightarrow> world \<Rightarrow> contact list outcome" where
  "resolveByTag tenantId i w =
     (if \<not> truthy i then Inl (required ''audienceId (tagId)'' ''tag'')
      else if findTag tenantId (the i) w = None then Inl tagNotFound
      else Inr (filter (mayBeSent tenantId) (contactsById (contactsWithTag (the i) w) w)))"

definition resolveByGroup :: "uuid \<Rightarrow> uuid option \<Rightarrow> world \<Rightarrow> contact list outcome" where
  "resolveByGroup tenantId i w =
     (if \<not> truthy i then Inl (required ''audienceId (groupId)'' ''group'')
      else if findGroup tenantId (the i) w = None then Inl (NotFoundException ''Contact group not found'')
      else Inr (filter (mayBeSent tenantId) (contactsById (contactsInGroup (the i) w) w)))"

definition resolveByAppointmentParticipants :: "uuid \<Rightarrow> uuid option \<Rightarrow> world \<Rightarrow> contact list outcome" where
  "resolveByAppointmentParticipants tenantId i w =
     (if \<not> truthy i then Inl (required ''audienceId (appointmentId)'' ''appointment_participants'')
      else Inr (filter (\<lambda>c. \<not> contact_unsubscribed c) (contactsById (map participant_contactId
        (filter (\<lambda>p. participant_appointmentId p = the i \<and>
             list_ex (\<lambda>a. appointment_id a = the i \<and> appointment_tenantId a = tenantId) (w_appointments w))
           (w_participants w))) w)))"

text \<open>
  Those who answered a campaign: by the status of their responses, or, without a status, by the text they
  sent (equality without regard to case).
\<close>

definition responders :: "uuid \<Rightarrow> uuid \<Rightarrow> EventParticipantStatus option \<Rightarrow> world \<Rightarrow> uuid list" where
  "responders tenantId campaignId st w = filter (\<lambda>i. i \<noteq> []) (List.map_filter messageResponse_contactId
     (filter (\<lambda>r. case st of None \<Rightarrow> True | Some s \<Rightarrow> messageResponse_responseStatus r = s)
        (responsesTo tenantId campaignId w)))"

definition textResponders :: "uuid \<Rightarrow> string \<Rightarrow> world \<Rightarrow> uuid list" where
  "textResponders campaignId answer w = List.map_filter campaignRecipient_contactId
     (filter (\<lambda>r. campaignRecipient_campaignId r = campaignId \<and> campaignRecipient_status r = ''responded'' \<and>
          campaignRecipient_respondedAt r \<noteq> None \<and>
          map_option toLowerCase (campaignRecipient_responseText r) = Some (toLowerCase answer))
        (w_campaignRecipients w))"

definition resolveByCampaignResponse ::
  "uuid \<Rightarrow> uuid option \<Rightarrow> EventParticipantStatus option \<Rightarrow> string option \<Rightarrow> world \<Rightarrow> contact list outcome" where
  "resolveByCampaignResponse tenantId i st answer w =
     (if \<not> truthy i then Inl (required ''audienceId (campaignId)'' ''campaign_response'')
      else if findCampaign tenantId (the i) w = None then Inl campaignNotFound
      else if st \<noteq> None \<or> \<not> truthy answer
      then Inr (filter (\<lambda>c. contact_id c \<in> set (responders tenantId (the i) st w) \<and> mayBeSent tenantId c)
             (w_contacts w))
      else Inr (filter (\<lambda>c. \<not> contact_unsubscribed c) (contactsById (textResponders (the i) (the answer) w) w)))"

definition resolveByCampaignSegment :: "uuid \<Rightarrow> uuid option \<Rightarrow> world \<Rightarrow> contact list outcome" where
  "resolveByCampaignSegment tenantId i w =
     (if \<not> truthy i then Inl (required ''audienceId (segmentId)'' ''campaign'')
      else case findSegment tenantId (the i) w of
          None \<Rightarrow> Inl segmentNotFound
        | Some s \<Rightarrow> if \<not> truthy (audienceSegment_tagId s) then Inr (filter (mayBeSent tenantId) (w_contacts w))
                    else resolveByTag tenantId (audienceSegment_tagId s) w)"

definition broadcastAudience :: "uuid \<Rightarrow> BroadcastDto \<Rightarrow> world \<Rightarrow> contact list outcome" where
  "broadcastAudience tenantId dto w =
     (case bd_audienceType dto of
        AT_contact \<Rightarrow> resolveContact tenantId (bd_audienceId dto) w
      | AT_contacts \<Rightarrow> resolveContacts tenantId (bd_audienceIds dto) w
      | AT_tag \<Rightarrow> resolveByTag tenantId (bd_audienceId dto) w
      | AT_group \<Rightarrow> resolveByGroup tenantId (bd_audienceId dto) w
      | AT_appointment_participants \<Rightarrow> resolveByAppointmentParticipants tenantId (bd_audienceId dto) w
      | AT_campaign \<Rightarrow> resolveByCampaignSegment tenantId (bd_audienceId dto) w
      | AT_campaign_response \<Rightarrow> resolveByCampaignResponse tenantId (bd_audienceId dto) (bd_responseStatus dto)
          (bd_responseFilter dto) w)"

section \<open>The rows of a broadcast\<close>

definition broadcastName :: "instant \<Rightarrow> BroadcastDto \<Rightarrow> string" where
  "broadcastName now dto = coalesce (bd_campaignName dto) (''Broadcast '' @ toISOString now)"

definition broadcastCampaign :: "instant \<Rightarrow> uuid \<Rightarrow> BroadcastDto \<Rightarrow> uuid \<Rightarrow> campaign" where
  "broadcastCampaign now tenantId dto i =
     \<lparr>campaign_id = i, campaign_tenantId = tenantId, campaign_name = broadcastName now dto,
      campaign_description = Some (''Channel: '' @ channelName (bd_channel dto)), campaign_body = None,
      campaign_channel = None, campaign_scheduledAt = None, campaign_status = ''draft'', campaign_createdAt = now,
      campaign_isDemoData = False\<rparr>"

definition broadcastAppointment :: "BroadcastDto \<Rightarrow> world \<Rightarrow> TemplateAppointment option" where
  "broadcastAppointment dto w =
     (if bd_audienceType dto \<noteq> AT_appointment_participants then None
      else map_option (\<lambda>a. \<lparr>ta_title = appointment_title a, ta_scheduledAt = appointment_scheduledAt a,
             ta_locationName = (case appointment_locationId a of
                None \<Rightarrow> None
              | Some l \<Rightarrow> map_option location_name (List.find (\<lambda>x. location_id x = l) (w_locations w)))\<rparr>)
           (List.find (\<lambda>a. Some (appointment_id a) = bd_audienceId dto) (w_appointments w)))"

definition broadcastTo :: "BroadcastDto \<Rightarrow> contact \<Rightarrow> string" where
  "broadcastTo dto c =
     (if bd_channel dto = EMAIL then coalesce (contact_email c) []
      else coalesce (contact_phone c) (coalesce (contact_email c) []))"

definition broadcastRow ::
  "(instant \<Rightarrow> string) \<Rightarrow> (instant \<Rightarrow> string) \<Rightarrow> instant \<Rightarrow> uuid \<Rightarrow> BroadcastDto \<Rightarrow> uuid \<Rightarrow> world \<Rightarrow> contact \<Rightarrow>
   uuid \<Rightarrow> campaignRecipient" where
  "broadcastRow dateText timeText now tenantId dto campaignId w c i =
     \<lparr>campaignRecipient_id = i, campaignRecipient_campaignId = campaignId,
      campaignRecipient_contactId = Some (contact_id c), campaignRecipient_recipient = broadcastTo dto c,
      campaignRecipient_channel = bd_channel dto, campaignRecipient_status = ''pending'',
      campaignRecipient_sentAt = None, campaignRecipient_responseText = None,
      campaignRecipient_respondedAt = None,
      campaignRecipient_messageBody = renderTemplate dateText timeText (bd_template dto)
        (Some \<lparr>tc_name = contact_name c, tc_phone = contact_phone c, tc_email = contact_email c\<rparr>)
        (broadcastAppointment dto w) (map_option tenant_name (findTenant tenantId w)),
      campaignRecipient_errorMessage = None, campaignRecipient_createdAt = now\<rparr>"

fun addRecipients :: "(contact \<Rightarrow> uuid \<Rightarrow> campaignRecipient) \<Rightarrow> contact list \<Rightarrow> world \<Rightarrow>
    campaignRecipient list \<times> world" where
  "addRecipients mk [] w = ([], w)"
| "addRecipients mk (c # cs) w =
     (let r = mk c (newId w);
          (rs, v) = addRecipients mk cs (bump (w\<lparr>w_campaignRecipients := w_campaignRecipients w @ [r]\<rparr>))
      in (r # rs, v))"

section \<open>Large audiences: through the queue\<close>

definition MESSAGE_BATCH_SIZE :: nat where
  "MESSAGE_BATCH_SIZE = 100"

definition messageJobType :: "ChannelType \<Rightarrow> string" where
  "messageJobType ch = (case ch of SMS \<Rightarrow> ''sendSMS'' | WHATSAPP \<Rightarrow> ''sendWhatsApp'' | _ \<Rightarrow> ''sendVoice'')"

definition broadcastQueueJob :: "uuid \<Rightarrow> ChannelType \<Rightarrow> uuid \<Rightarrow> campaignRecipient \<Rightarrow> job" where
  "broadcastQueueJob tenantId ch campaignId r =
     \<lparr>job_queue = CAMPAIGN_QUEUE,
      job_id = ''broadcast-send:'' @ campaignId @ '':'' @ campaignRecipient_id r,
      job_name = ''broadcast:'' @ campaignId @ '':'' @ campaignRecipient_id r,
      job_data = JObj ([(''jobType'', JStr (messageJobType ch)), (''tenantId'', JStr tenantId),
        (''to'', JStr (campaignRecipient_recipient r)), (''body'', JStr (campaignRecipient_messageBody r)),
        (''campaignRecipientId'', JStr (campaignRecipient_id r)), (''campaignId'', JStr campaignId)] @
        (case campaignRecipient_contactId r of None \<Rightarrow> [] | Some i \<Rightarrow> [(''contactId'', JStr i)])),
      job_delay = 0\<rparr>"

section \<open>Small audiences: at once\<close>

definition changeRecipient :: "uuid \<Rightarrow> (campaignRecipient \<Rightarrow> campaignRecipient) \<Rightarrow> world \<Rightarrow> world" where
  "changeRecipient i f w =
     w\<lparr>w_campaignRecipients := update_where (\<lambda>r. campaignRecipient_id r = i) f (w_campaignRecipients w)\<rparr>"

definition recipientOutcome :: "instant \<Rightarrow> SendOutcome \<Rightarrow> campaignRecipient \<Rightarrow> campaignRecipient" where
  "recipientOutcome now o' r = r\<lparr>campaignRecipient_status := (if so_success o' then ''sent'' else ''failed''),
     campaignRecipient_sentAt := Some now,
     campaignRecipient_errorMessage := (case so_error o' of None \<Rightarrow> campaignRecipient_errorMessage r | x \<Rightarrow> x)\<rparr>"

definition broadcastActivity :: "instant \<Rightarrow> uuid \<Rightarrow> BroadcastDto \<Rightarrow> uuid \<Rightarrow> campaignRecipient \<Rightarrow> world \<Rightarrow> world" where
  "broadcastActivity now tenantId dto campaignId r w =
     (if truthy (campaignRecipient_contactId r)
      then addActivity now tenantId (the (campaignRecipient_contactId r)) ''campaign_sent'' (Some campaignId)
             (JObj [(''channel'', JStr (channelName (bd_channel dto))),
                    (''campaignName'', JStr (broadcastName now dto))]) w
      else w)"

text \<open>One recipient: whether it was sent, and the state after.\<close>

definition sendToRecipient ::
  "env \<Rightarrow> instant \<Rightarrow> uuid \<Rightarrow> BroadcastDto \<Rightarrow> uuid \<Rightarrow> campaignRecipient \<Rightarrow> world \<Rightarrow> bool \<times> world" where
  "sendToRecipient E now tenantId dto campaignId r w =
     (case send E now (request tenantId (bd_channel dto) (campaignRecipient_recipient r)
              (campaignRecipient_messageBody r)) w of
        (Inl e, v) \<Rightarrow> (False, changeRecipient (campaignRecipient_id r) (recipientFailed (Some (exnText e))) v)
      | (Inr o', v) \<Rightarrow>
          let v1 = changeRecipient (campaignRecipient_id r) (recipientOutcome now o') v
          in if so_success o' then (True, broadcastActivity now tenantId dto campaignId r v1) else (False, v1))"

fun sendInline ::
  "env \<Rightarrow> instant \<Rightarrow> uuid \<Rightarrow> BroadcastDto \<Rightarrow> uuid \<Rightarrow> campaignRecipient list \<Rightarrow> world \<Rightarrow> (nat \<times> nat) \<times> world" where
  "sendInline E now tenantId dto campaignId [] w = ((0, 0), w)"
| "sendInline E now tenantId dto campaignId (r # rs) w =
     (let (ok, v) = sendToRecipient E now tenantId dto campaignId r w;
          ((sent, failed), u) = sendInline E now tenantId dto campaignId rs v
      in ((if ok then Suc sent else sent, if ok then failed else Suc failed), u))"

section \<open>The broadcast\<close>

record BroadcastResult =
  br_campaignId :: "uuid option"
  br_dispatched :: nat
  br_sent :: "nat option"
  br_failed :: "nat option"
  br_mode :: "string option"
  br_message :: "string option"

definition emptyBroadcast :: BroadcastResult where
  "emptyBroadcast = \<lparr>br_campaignId = None, br_dispatched = 0, br_sent = None, br_failed = None, br_mode = None,
     br_message = Some ''No eligible contacts for this audience''\<rparr>"

definition queuedBroadcast :: "uuid \<Rightarrow> nat \<Rightarrow> BroadcastResult" where
  "queuedBroadcast campaignId n = \<lparr>br_campaignId = Some campaignId, br_dispatched = n, br_sent = None,
     br_failed = None, br_mode = Some ''queued'', br_message = Some (show_nat n @ '' messages queued for delivery'')\<rparr>"

definition inlineBroadcast :: "uuid \<Rightarrow> nat \<Rightarrow> nat \<times> nat \<Rightarrow> BroadcastResult" where
  "inlineBroadcast campaignId n counts = \<lparr>br_campaignId = Some campaignId, br_dispatched = n,
     br_sent = Some (fst counts), br_failed = Some (snd counts), br_mode = Some ''inline'', br_message = None\<rparr>"

definition sendBroadcast ::
  "env \<Rightarrow> (instant \<Rightarrow> string) \<Rightarrow> (instant \<Rightarrow> string) \<Rightarrow> instant \<Rightarrow> uuid \<Rightarrow> BroadcastDto \<Rightarrow> BroadcastResult act" where
  "sendBroadcast E dateText timeText now tenantId dto w =
     (case broadcastAudience tenantId dto w of
        Inl e \<Rightarrow> (Inl e, w)
      | Inr [] \<Rightarrow> (Inr emptyBroadcast, w)
      | Inr contacts \<Rightarrow> bindA (insertCampaign (broadcastCampaign now tenantId dto (newId w)))
          (\<lambda>c v. let (rs, u) = addRecipients (broadcastRow dateText timeText now tenantId dto (campaign_id c) v) contacts v
             in if MESSAGE_BATCH_SIZE < length contacts
                then (Inr (queuedBroadcast (campaign_id c) (length rs)),
                      fold addJob (map (broadcastQueueJob tenantId (bd_channel dto) (campaign_id c)) rs) u)
                else (let (counts, x) = sendInline E now tenantId dto (campaign_id c) rs u
                      in (Inr (inlineBroadcast (campaign_id c) (length contacts) counts), x))) w)"

section \<open>Single messages\<close>

record CreateMessageDto =
  md_contactId :: "uuid option"
  md_eventId :: "uuid option"
  md_channel :: "string option"
  md_to :: "string option"
  md_message :: "string option"

definition sendMessage :: "env \<Rightarrow> instant \<Rightarrow> uuid \<Rightarrow> CreateMessageDto \<Rightarrow> string option act" where
  "sendMessage E now tenantId dto w =
     (if \<not> truthy (md_channel dto) \<or> \<not> truthy (md_to dto) \<or> \<not> truthy (md_message dto)
      then (Inl (BadRequestException ''channel, to, and message are required''), w)
      else case channelNamed (the (md_channel dto)) of
          None \<Rightarrow> (Inl (BadRequestException ''Failed to send message''), w)
        | Some ch \<Rightarrow>
            bindA (send E now (request tenantId ch (the (md_to dto)) (the (md_message dto))))
              (\<lambda>r. if so_success r then returnA (so_providerMessageId r)
                   else throwA (BadRequestException (coalesce (or_str (so_error r) (Some ''Failed to send message'')) []))) w)"

definition sendSms :: "env \<Rightarrow> instant \<Rightarrow> uuid \<Rightarrow> string \<Rightarrow> string \<Rightarrow> uuid option \<Rightarrow> SendOutcome act" where
  "sendSms E now tenantId to message reminderId =
     send E now ((request tenantId SMS to message)\<lparr>sq_reminderId := reminderId\<rparr>)"

definition sendVoice :: "env \<Rightarrow> instant \<Rightarrow> uuid \<Rightarrow> string \<Rightarrow> AppointmentData \<Rightarrow> uuid option \<Rightarrow> SendOutcome act" where
  "sendVoice E now tenantId to d reminderId =
     send E now ((request tenantId VOICE to [])\<lparr>sq_reminderId := reminderId, sq_appointmentData := Some d\<rparr>)"

definition checkUsage :: "instant \<Rightarrow> uuid \<Rightarrow> world \<Rightarrow> UsageCheckResult \<times> UsageCheckResult \<times> UsageCheckResult" where
  "checkUsage now tenantId w = (validate now tenantId F_SMS w, validate now tenantId F_VOICE w,
     validate now tenantId F_AI w)"

end
