(* ===== verification/Campaign_Properties.thy ===== *)
theory Campaign_Properties
  imports Broadcasts Contact_Properties
begin

text \<open>
  What is proved of campaigns and broadcasts: the pages of an audience are the audience, a dispatch stays
  within the plan, what deleting a tag does to a segment, what becomes of a message in the worker, and whom
  a broadcast reaches.
\<close>

section \<open>The audience of a segment\<close>

lemma count_map_filter: "length (List.map_filter f xs) = count_where (\<lambda>x. f x \<noteq> None) xs"
  by (induction xs) (auto simp: List.map_filter_def count_where_def)

text \<open>Pages of rows in the strict order of their ids: what is left behind the cursor.\<close>

abbreviation beyond :: "uuid option \<Rightarrow> contact \<Rightarrow> bool" where
  "beyond cursor c \<equiv> (case cursor of None \<Rightarrow> True | Some i \<Rightarrow> i < contact_id c)"

abbreviation byId :: "contact list \<Rightarrow> bool" where
  "byId rows \<equiv> sorted_wrt (\<lambda>a b. contact_id a < contact_id b) rows"

lemma behind_page:
  assumes "byId rows" and "pageAfter rows cursor \<noteq> []"
  shows "filter (\<lambda>c. contact_id (last (pageAfter rows cursor)) < contact_id c) rows =
    drop AUDIENCE_BATCH_SIZE (filter (beyond cursor) rows)"
proof -
  let ?f = "filter (beyond cursor) rows" and ?n = AUDIENCE_BATCH_SIZE
  let ?l = "last (pageAfter rows cursor)"
  have page: "pageAfter rows cursor = take ?n ?f" by (simp add: pageAfter_def)
  have l: "beyond cursor ?l" using pageAfter_in [of ?l rows cursor] assms(2) by simp
  have sorted: "byId (take ?n ?f @ drop ?n ?f)" using assms(1) by (simp add: sorted_wrt_filter)
  then have st: "byId (take ?n ?f)" and cross: "\<And>a b. a \<in> set (take ?n ?f) \<Longrightarrow> b \<in> set (drop ?n ?f) \<Longrightarrow>
      contact_id a < contact_id b" by (simp_all add: sorted_wrt_append del: append_take_drop_id)
  have upto: "\<not> contact_id ?l < contact_id a" if "a \<in> set (take ?n ?f)" for a
  proof -
    define p where "p = take ?n ?f"
    have split: "p = butlast p @ [?l]" using assms(2) page by (simp add: p_def)
    have "byId (butlast p @ [?l])" using st split by (simp add: p_def)
    moreover have "a \<in> set (butlast p @ [?l])" using that split by (simp add: p_def)
    ultimately have "a = ?l \<or> contact_id a < contact_id ?l" by (auto simp: sorted_wrt_append)
    then show ?thesis by auto
  qed
  have "filter (\<lambda>c. contact_id ?l < contact_id c) rows = filter (\<lambda>c. contact_id ?l < contact_id c) ?f"
    using l by (auto intro!: filter_cong simp: split: option.splits)
  also have "\<dots> = filter (\<lambda>c. contact_id ?l < contact_id c) (take ?n ?f @ drop ?n ?f)" by simp
  also have "\<dots> = drop ?n ?f"
  proof -
    have "filter (\<lambda>c. contact_id ?l < contact_id c) (take ?n ?f) = []"
      unfolding filter_empty_conv using upto by blast
    moreover have "filter (\<lambda>c. contact_id ?l < contact_id c) (drop ?n ?f) = drop ?n ?f"
      unfolding filter_id_conv using cross assms(2) page by (metis last_in_set)
    ultimately show ?thesis by (simp only: filter_append append_Nil)
  qed
  finally show ?thesis .
qed

lemma pages_exact: "byId rows \<Longrightarrow> audiencePages rows cursor = filter (beyond cursor) rows"
proof (induction rows cursor rule: audiencePages.induct)
  case (1 rows cursor)
  let ?batch = "pageAfter rows cursor"
  show ?case
  proof (cases "length ?batch < AUDIENCE_BATCH_SIZE")
    case True
    then have "?batch = filter (beyond cursor) rows" by (simp add: pageAfter_def)
    then show ?thesis using True by (simp add: audiencePages.simps [of rows cursor])
  next
    case False
    then have "audiencePages rows (Some (contact_id (last ?batch))) =
        drop AUDIENCE_BATCH_SIZE (filter (beyond cursor) rows)"
      using 1 behind_page [OF 1(2) pageAfter_full] by simp
    then show ?thesis using False by (simp add: audiencePages.simps [of rows cursor] Let_def) (simp add: pageAfter_def)
  qed
qed

lemma subscribed_byId:
  assumes "distinct (map contact_id (w_contacts w))"
  shows "byId (subscribedContacts t w)"
proof -
  let ?xs = "filter (mayBeSent t) (w_contacts w)"
  have "distinct (map contact_id ?xs)" by (rule distinct_map_filter [OF assms])
  then have "distinct (map contact_id (sort_key contact_id ?xs))"
    by (metis distinct_map distinct_sort set_sort)
  moreover have "sorted (map contact_id (sort_key contact_id ?xs))" by simp
  ultimately have "sorted_wrt (<) (map contact_id (sort_key contact_id ?xs))" using strict_sorted_iff by blast
  then show ?thesis by (simp add: subscribedContacts_def sorted_wrt_map)
qed

lemma pages_subscribed:
  "distinct (map contact_id (w_contacts w)) \<Longrightarrow> audiencePages (subscribedContacts t w) None = subscribedContacts t w"
  using pages_exact [OF subscribed_byId, of w t None] by simp

text \<open>
  The audience a dispatch loads is the audience it has counted. When contact ids are unique, reading a
  segment page by page of a thousand gives every subscribed contact of the tenant once, in the order of the
  ids, and for every segment the number counted beforehand for the plan's limit is the number loaded.
\<close>

theorem audience_pages_exact:
  assumes "distinct (map contact_id (w_contacts w))"
  shows "audiencePages (subscribedContacts t w) None = subscribedContacts t w \<and>
    countAudience t i w = (case resolveAudience t i w of Inl e \<Rightarrow> Inl e | Inr cs \<Rightarrow> Inr (length cs))"
  using pages_subscribed [OF assms, of t]
  by (auto simp: countAudience_def resolveAudience_def count_map_filter count_where_def subscribedContacts_def
      split: option.splits)

text \<open>Everybody in an audience may be sent to.\<close>

lemma linkedContact_ok: "linkedContact t g w l = Some c \<Longrightarrow> c \<in> set (w_contacts w) \<and> mayBeSent t c"
  by (auto simp: linkedContact_def find_Some_iff split: if_splits)

lemma set_map_filter: "c \<in> set (List.map_filter f xs) \<longleftrightarrow> (\<exists>x \<in> set xs. f x = Some c)"
  by (induction xs) (auto simp: List.map_filter_def)

lemma audience_subscribed:
  assumes "distinct (map contact_id (w_contacts w))" and "resolveAudience t i w = Inr cs" and "c \<in> set cs"
  shows "c \<in> set (w_contacts w) \<and> mayBeSent t c"
proof -
  from assms(2) obtain s where "findSegment t i w = Some s" by (auto simp: resolveAudience_def split: option.splits)
  with assms(2,3) consider "c \<in> set (audiencePages (subscribedContacts t w) None)"
    | l where "linkedContact t (the (audienceSegment_tagId s)) w l = Some c"
    by (auto simp: resolveAudience_def set_map_filter split: if_splits)
  then show ?thesis
  proof cases
    case 1
    then show ?thesis by (simp add: pages_subscribed [OF assms(1)]) (simp add: subscribedContacts_def)
  next
    case 2
    then show ?thesis by (rule linkedContact_ok)
  qed
qed

section \<open>Dispatch\<close>

lemma addJobsOnce:
  "\<exists>added. fold (addJobOnce kept) js w = w\<lparr>w_jobs := w_jobs w @ added\<rparr> \<and> set added \<subseteq> set js \<and>
     length added \<le> length js"
proof (induction js arbitrary: w)
  case (Cons j js)
  obtain added where a: "fold (addJobOnce kept) js (addJobOnce kept j w) =
      (addJobOnce kept j w)\<lparr>w_jobs := w_jobs (addJobOnce kept j w) @ added\<rparr>"
    "set added \<subseteq> set js" "length added \<le> length js" using Cons by blast
  show ?case
  proof (cases "kept (job_id j) \<or> job_id j \<in> job_id ` set (w_jobs w)")
    case True
    then have "addJobOnce kept j w = w" by (simp add: addJobOnce_def)
    then show ?thesis using a by (intro exI [of _ added]) auto
  next
    case False
    then have "fold (addJobOnce kept) (j # js) w = w\<lparr>w_jobs := w_jobs w @ (j # added)\<rparr>"
      using a(1) by (simp add: addJobOnce_def addJob_def)
    then show ?thesis using a(2,3) by (intro exI [of _ "j # added"]) auto
  qed
qed (auto intro: exI [of _ "[]"])

text \<open>
  C37: A dispatch stays within the plan. If it returns, the number it reports is at most the audience limit
  of the tenant's plan (of the trial while that is active); it has done nothing but queue jobs, not more
  than it reports; and every one of them is for a contact of the tenant who has not unsubscribed.
\<close>

theorem dispatch_within_plan:
  assumes "distinct (map contact_id (w_contacts w))" and "findTenant t w = Some x"
    and "dispatchCampaign parse now kept t k dto w = (Inr r, w')"
  shows "int (dp_queued r) \<le> campaignAudienceLimit (getLimitsForPlan (effectivePlan x)) \<and>
    (\<exists>js. w' = w\<lparr>w_jobs := w_jobs w @ js\<rparr> \<and> length js \<le> dp_queued r \<and>
      (\<forall>j \<in> set js. \<exists>c \<in> set (w_contacts w). mayBeSent t c \<and> job_id j = dispatchJobId k (contact_id c)))"
proof -
  have pos: "0 \<le> campaignAudienceLimit (getLimitsForPlan p)" for p
    by (auto simp: getLimitsForPlan_def PLAN_LIMITS_def)
  have nothing: "\<exists>js. w = w\<lparr>w_jobs := w_jobs w @ js\<rparr> \<and> length js \<le> n \<and> (\<forall>j \<in> set js. Q j)" for n and Q :: "job \<Rightarrow> bool"
    by (rule exI [of _ "[]"]) simp
  from assms(2,3) obtain n where n: "countAudience t (di_segmentId dto) w = Inr n"
    by (auto simp: dispatchCampaign_def withCampaign_def Let_def split: option.splits sum.splits)
  show ?thesis
  proof (cases "n = 0")
    case True
    then show ?thesis using assms(2,3) n pos nothing
      by (auto simp: dispatchCampaign_def withCampaign_def Let_def split: option.splits)
  next
    case False
    obtain cs where cs: "resolveAudience t (di_segmentId dto) w = Inr cs" "length cs = n"
      using n audience_pages_exact [OF assms(1), of t "di_segmentId dto"] by (auto split: sum.splits)
    have limit: "int n \<le> campaignAudienceLimit (getLimitsForPlan (effectivePlan x))"
      and run: "queueCampaign parse now kept t k dto cs w = (Inr r, w')"
      using assms(2,3) n cs(1) False
      by (auto simp: dispatchCampaign_def withCampaign_def Let_def split: option.splits if_splits)
    have "cs \<noteq> []" using cs(2) False by auto
    with run obtain d where d: "parse (di_scheduledAt dto) = Some d"
      by (auto simp: queueCampaign_def split: option.splits)
    let ?jobs = "map (dispatchJob now t k dto d (campaignLocation t k w)) cs"
    obtain added where a: "fold (addJobOnce kept) ?jobs w = w\<lparr>w_jobs := w_jobs w @ added\<rparr>"
      "set added \<subseteq> set ?jobs" "length added \<le> length ?jobs" using addJobsOnce by blast
    have "r = \<lparr>dp_queued = n, dp_message = show_nat n @ '' messages queued for delivery''\<rparr>"
      "w' = w\<lparr>w_jobs := w_jobs w @ added\<rparr>" using run d cs(2) a(1) by (auto simp: queueCampaign_def Let_def)
    moreover have "\<exists>c \<in> set (w_contacts w). mayBeSent t c \<and> job_id j = dispatchJobId k (contact_id c)"
      if "j \<in> set added" for j
    proof -
      have "j \<in> dispatchJob now t k dto d (campaignLocation t k w) ` set cs" using that a(2) by auto
      then obtain c where "c \<in> set cs" "j = dispatchJob now t k dto d (campaignLocation t k w) c" by (rule imageE)
      then show ?thesis using audience_subscribed [OF assms(1) cs(1)] by (auto simp: dispatchJob_def)
    qed
    ultimately show ?thesis using limit a(3) cs(2) by auto
  qed
qed

section \<open>Deleting a tag\<close>

lemma find_update_where_same:
  assumes "\<And>x. P (f x) = P x"
  shows "List.find P (update_where q f xs) = map_option (\<lambda>x. if q x then f x else x) (List.find P xs)"
  using assms by (induction xs) (auto simp: update_where_def)

text \<open>
  Deleting a tag widens its segments to everybody. The database clears the tag of a segment made of it,
  and a segment without a tag stands for all contacts: after the deletion the audience of the segment is
  every subscribed contact of the tenant, whatever their tags, and a campaign sent to it goes to them all.
\<close>

theorem deleted_tag_widens_segment:
  assumes "findTag t g w = Some x" and "findSegment t i w = Some s" and "audienceSegment_tagId s = Some g"
    and "distinct (map contact_id (w_contacts w))"
  shows "fst (removeTag t g w) = Inr () \<and>
    resolveAudience t i (snd (removeTag t g w)) = Inr (subscribedContacts t w)"
proof -
  have run: "removeTag t g w = (Inr (), deleteTagRow g w)" using assms(1) by (simp add: removeTag_def)
  have "findSegment t i (deleteTagRow g w) = Some (s\<lparr>audienceSegment_tagId := None\<rparr>)"
    using assms(2,3) unfolding findSegment_def deleteTagRow_def by (simp add: find_update_where_same)
  moreover have "subscribedContacts t (deleteTagRow g w) = subscribedContacts t w"
    by (simp add: subscribedContacts_def deleteTagRow_def)
  ultimately show ?thesis using pages_subscribed [OF assms(4), of t] by (simp add: run resolveAudience_def)
qed

section \<open>Messages in the worker\<close>







lemma countCampaignUsage_same [simp]:
  "tenant_id (countCampaignUsage c t) = tenant_id t"
  "tenant_subscriptionStatus (countCampaignUsage c t) = tenant_subscriptionStatus t"
  "tenant_trialActive (countCampaignUsage c t) = tenant_trialActive t"
  "tenant_planType (countCampaignUsage c t) = tenant_planType t"
  by (simp_all add: countCampaignUsage_def)






abbreviation addressed :: "ChannelType \<Rightarrow> string \<Rightarrow> outmsg \<Rightarrow> bool" where
  "addressed ch to m \<equiv> out_channel m = ch \<and> out_to m \<in> {to, ''whatsapp:'' @ to}"






section \<open>Broadcasts\<close>

lemma contactsById_subset: "c \<in> set (contactsById is w) \<Longrightarrow> c \<in> set (w_contacts w)"
  by (auto simp: contactsById_def set_map_filter contactOf_def find_Some_iff)

text \<open>Whatever the audience is made of, it has no contact who has unsubscribed.\<close>

lemma broadcastAudience_subscribed:
  assumes "broadcastAudience t dto w = Inr cs" and "c \<in> set cs"
  shows "c \<in> set (w_contacts w) \<and> \<not> contact_unsubscribed c"
proof (cases "bd_audienceType dto")
  case AT_contact
  then show ?thesis using assms
    by (auto simp: broadcastAudience_def resolveContact_def mayBeSent_def find_Some_iff split: if_splits option.splits)
next
  case AT_contacts
  then show ?thesis using assms
    by (auto simp: broadcastAudience_def resolveContacts_def mayBeSent_def split: if_splits)
next
  case AT_tag
  then show ?thesis using assms contactsById_subset
    by (auto simp: broadcastAudience_def resolveByTag_def mayBeSent_def split: if_splits)
next
  case AT_group
  then show ?thesis using assms contactsById_subset
    by (auto simp: broadcastAudience_def resolveByGroup_def mayBeSent_def split: if_splits)
next
  case AT_appointment_participants
  then show ?thesis using assms contactsById_subset
    by (auto simp: broadcastAudience_def resolveByAppointmentParticipants_def split: if_splits)
next
  case AT_campaign
  then show ?thesis using assms contactsById_subset
    by (auto simp: broadcastAudience_def resolveByCampaignSegment_def resolveByTag_def mayBeSent_def
        split: if_splits option.splits)
next
  case AT_campaign_response
  then show ?thesis using assms contactsById_subset
    by (auto simp: broadcastAudience_def resolveByCampaignResponse_def mayBeSent_def split: if_splits)
qed

lemma addRecipients_frame [simp]:
  "w_outbox (snd (addRecipients mk cs w)) = w_outbox w" "w_jobs (snd (addRecipients mk cs w)) = w_jobs w"
  "w_contacts (snd (addRecipients mk cs w)) = w_contacts w" "w_tenants (snd (addRecipients mk cs w)) = w_tenants w"
  by (induction cs arbitrary: w) (simp_all add: Let_def split_beta)

lemma addRecipients_length [simp]: "length (fst (addRecipients mk cs w)) = length cs"
  by (induction cs arbitrary: w) (simp_all add: Let_def split_beta)

lemma addRecipients_from: "r \<in> set (fst (addRecipients mk cs w)) \<Longrightarrow> \<exists>c \<in> set cs. \<exists>i. r = mk c i"
proof (induction cs arbitrary: w)
  case (Cons c cs)
  then show ?case by (auto simp: Let_def split_beta)
qed simp

lemma insertCampaign_frame:
  "insertCampaign c w = (Inr x, v) \<Longrightarrow> x = c \<and> w_outbox v = w_outbox w \<and> w_jobs v = w_jobs w \<and>
     w_tenants v = w_tenants w \<and> w_contacts v = w_contacts w"
  by (auto simp: insertCampaign_def split: if_splits)

text \<open>A broadcast that returns: nobody, the queue, or one send after the other.\<close>

lemma sendBroadcast_cases:
  assumes "sendBroadcast E dt tt now t dto w = (Inr r, w')"
  obtains "broadcastAudience t dto w = Inr []" "w' = w"
  | cs k u rs where "broadcastAudience t dto w = Inr cs" "cs \<noteq> []" "length rs = length cs"
      "w_outbox u = w_outbox w" "w_jobs u = w_jobs w" "w_tenants u = w_tenants w" "MESSAGE_BATCH_SIZE < length cs"
      "\<And>x. x \<in> set rs \<Longrightarrow> \<exists>c \<in> set cs. campaignRecipient_recipient x = broadcastTo dto c"
      "r = queuedBroadcast k (length rs)" "w' = fold addJob (map (broadcastQueueJob t (bd_channel dto) k) rs) u"
  | cs k u rs n where "broadcastAudience t dto w = Inr cs" "cs \<noteq> []" "length rs = length cs"
      "w_outbox u = w_outbox w" "w_jobs u = w_jobs w" "w_tenants u = w_tenants w" "length cs \<le> MESSAGE_BATCH_SIZE"
      "\<And>x. x \<in> set rs \<Longrightarrow> \<exists>c \<in> set cs. campaignRecipient_recipient x = broadcastTo dto c"
      "r = inlineBroadcast k (length cs) n" "sendInline E now t dto k rs u = (n, w')"
proof -
  from assms obtain cs where cs: "broadcastAudience t dto w = Inr cs"
    by (auto simp: sendBroadcast_def split: sum.splits)
  show thesis
  proof (cases "cs = []")
    case True
    then show thesis using that(1) assms cs by (auto simp: sendBroadcast_def)
  next
    case False
    let ?new = "broadcastCampaign now t dto (newId w)"
    from assms cs False obtain x v where ins: "insertCampaign ?new w = (Inr x, v)"
      by (cases "insertCampaign ?new w"; cases "fst (insertCampaign ?new w)")
         (auto simp: sendBroadcast_def split: list.splits)
    define k where "k = campaign_id x"
    define mk where "mk = broadcastRow dt tt now t dto k v"
    obtain rs u where ru: "addRecipients mk cs v = (rs, u)" by (cases "addRecipients mk cs v")
    have from_cs: "\<exists>c \<in> set cs. campaignRecipient_recipient y = broadcastTo dto c" if y: "y \<in> set rs" for y
    proof -
      have "y \<in> set (fst (addRecipients mk cs v))" using y ru by simp
      then obtain c i where "c \<in> set cs" "y = mk c i" using addRecipients_from [of y mk cs v] by blast
      then show ?thesis by (auto simp: mk_def broadcastRow_def)
    qed
    have frame: "w_outbox u = w_outbox w" "w_jobs u = w_jobs w" "w_tenants u = w_tenants w"
      using addRecipients_frame [of mk cs v] ru insertCampaign_frame [OF ins] by simp_all
    have len: "length rs = length cs" using addRecipients_length [of mk cs v] ru by simp
    have run: "sendBroadcast E dt tt now t dto w =
        (if MESSAGE_BATCH_SIZE < length cs
         then (Inr (queuedBroadcast k (length rs)), fold addJob (map (broadcastQueueJob t (bd_channel dto) k) rs) u)
         else (let (counts, x) = sendInline E now t dto k rs u in (Inr (inlineBroadcast k (length cs) counts), x)))"
      using cs False ins ru by (cases cs) (simp_all add: sendBroadcast_def k_def mk_def)
    show thesis
    proof (cases "MESSAGE_BATCH_SIZE < length cs")
      case True
      then show thesis using that(2) [OF cs False len frame True from_cs] run assms by simp
    next
      case small: False
      obtain n z where "sendInline E now t dto k rs u = (n, z)" by (cases "sendInline E now t dto k rs u")
      then show thesis using that(3) [OF cs False len frame _ from_cs] run assms small by simp
    qed
  qed
qed

lemma fold_addJob: "fold addJob js w = w\<lparr>w_jobs := w_jobs w @ js\<rparr>"
  by (induction js arbitrary: w) (simp_all add: addJob_def)

text \<open>The worker looks for a recipient, which the jobs of a broadcast do not name.\<close>

lemma broadcast_job_skipped: "processCampaign E now (readCampaignJob (job_data (broadcastQueueJob t ch k r))) v = (Inr (), v)"
  by (simp add: processCampaign_def readCampaignJob_def textAt_def present_def broadcastQueueJob_def
      split: option.split)

text \<open>
  A broadcast to more than a hundred contacts reaches nobody. It reports every message as queued and
  hands none over; and each job it queues names its recipient and its text in fields that the worker does
  not read, so that the worker, whenever it takes the job, returns without having done anything.
\<close>

theorem large_broadcast_reaches_nobody:
  assumes "sendBroadcast E dt tt now t dto w = (Inr r, w')"
    and "broadcastAudience t dto w = Inr cs" and "100 < length cs"
  shows "br_dispatched r = length cs \<and> w_outbox w' = w_outbox w \<and>
    (\<exists>js. w_jobs w' = w_jobs w @ js \<and> length js = length cs \<and>
      (\<forall>j \<in> set js. \<forall>F ts v. ts \<noteq> [] \<longrightarrow> takeCampaignJob F ts (job_data j) v = v))"
proof -
  have take: "takeCampaignJob F ts (job_data (broadcastQueueJob t ch k x)) v = v" if ts: "ts \<noteq> []" for F ts ch k x v
    using ts by (cases ts) (simp_all add: takeCampaignJob_def broadcast_job_skipped)
  from assms(1) show ?thesis
  proof (cases rule: sendBroadcast_cases)
    case 1
    then show ?thesis using assms(2,3) by simp
  next
    case (2 cs' k u rs)
    then show ?thesis using assms(2) take
      by (intro conjI exI [of _ "map (broadcastQueueJob t (bd_channel dto) k) rs"])
         (auto simp: fold_addJob queuedBroadcast_def)
  next
    case (3 cs' k u rs n)
    then show ?thesis using assms(2,3) by (simp add: MESSAGE_BATCH_SIZE_def)
  qed
qed

lemma changeRecipient_frame [simp]: "w_outbox (changeRecipient i f w) = w_outbox w"
  "w_tenants (changeRecipient i f w) = w_tenants w"
  by (simp_all add: changeRecipient_def)

lemma broadcastActivity_frame [simp]: "w_outbox (broadcastActivity now t dto k r w) = w_outbox w"
  "w_tenants (broadcastActivity now t dto k r w) = w_tenants w"
  by (simp_all add: broadcastActivity_def addActivity_def bump_def)

text \<open>A message goes to the number or address of the recipient.\<close>

definition reaches :: "env \<Rightarrow> ChannelType \<Rightarrow> string \<Rightarrow> outmsg \<Rightarrow> bool" where
  "reaches E ch address m =
     (case (if ch = EMAIL then Some address else normalizePhoneForSend E (Some address) DEFAULT_SEND_COUNTRY) of
        None \<Rightarrow> False | Some to \<Rightarrow> addressed ch to m)"

lemma sendToRecipient_out:
  "\<exists>ms. w_outbox (snd (sendToRecipient E now t dto k r w)) = w_outbox w @ ms \<and> length ms \<le> 1 \<and>
     (\<forall>m \<in> set ms. reaches E (bd_channel dto) (campaignRecipient_recipient r) m)"
proof -
  let ?q = "request t (bd_channel dto) (campaignRecipient_recipient r) (campaignRecipient_messageBody r)"
  obtain ms where ms: "w_outbox (snd (send E now ?q w)) = w_outbox w @ ms" "length ms \<le> 1"
    "\<forall>m \<in> set ms. out_channel m = sq_channel ?q \<and>
       (\<exists>to. sendTarget E ?q = Some to \<and> out_to m \<in> {to, ''whatsapp:'' @ to})"
    using send_addressed [of E now ?q w] by blast
  have "w_outbox (snd (sendToRecipient E now t dto k r w)) = w_outbox (snd (send E now ?q w))"
    by (auto simp: sendToRecipient_def Let_def split: prod.split sum.split)
  then show ?thesis using ms by (intro exI [of _ ms]) (auto simp: reaches_def sendTarget_def request_def)
qed

lemma sendToRecipient_tenants [simp]: "w_tenants (snd (sendToRecipient E now t dto k r w)) = w_tenants w"
proof -
  let ?q = "request t (bd_channel dto) (campaignRecipient_recipient r) (campaignRecipient_messageBody r)"
  obtain x v where s: "send E now ?q w = (x, v)" by (cases "send E now ?q w")
  have "w_tenants v = w_tenants w" using send_other(9) [of E now ?q w] s by simp
  then show ?thesis using s by (cases x) (simp_all add: sendToRecipient_def Let_def)
qed

lemma sendInline_out:
  "w_tenants (snd (sendInline E now t dto k rs w)) = w_tenants w \<and>
   fst (fst (sendInline E now t dto k rs w)) + snd (fst (sendInline E now t dto k rs w)) = length rs \<and>
   (\<exists>ms. w_outbox (snd (sendInline E now t dto k rs w)) = w_outbox w @ ms \<and> length ms \<le> length rs \<and>
     (\<forall>m \<in> set ms. \<exists>r \<in> set rs. reaches E (bd_channel dto) (campaignRecipient_recipient r) m))"
proof (induction rs arbitrary: w)
  case (Cons r rs)
  define v where "v = snd (sendToRecipient E now t dto k r w)"
  obtain ms where a: "w_outbox v = w_outbox w @ ms" "length ms \<le> 1"
    "\<forall>m \<in> set ms. reaches E (bd_channel dto) (campaignRecipient_recipient r) m"
    using sendToRecipient_out unfolding v_def by blast
  obtain ms' where b: "w_outbox (snd (sendInline E now t dto k rs v)) = w_outbox v @ ms'" "length ms' \<le> length rs"
    "\<forall>m \<in> set ms'. \<exists>r \<in> set rs. reaches E (bd_channel dto) (campaignRecipient_recipient r) m"
    using Cons [of v] by blast
  have step: "snd (sendInline E now t dto k (r # rs) w) = snd (sendInline E now t dto k rs v)"
    "fst (fst (sendInline E now t dto k (r # rs) w)) + snd (fst (sendInline E now t dto k (r # rs) w)) =
     Suc (fst (fst (sendInline E now t dto k rs v)) + snd (fst (sendInline E now t dto k rs v)))"
    by (simp_all add: Let_def v_def split: prod.split)
  show ?case unfolding step
  proof (intro conjI)
    show "\<exists>ms. w_outbox (snd (sendInline E now t dto k rs v)) = w_outbox w @ ms \<and> length ms \<le> length (r # rs) \<and>
        (\<forall>m \<in> set ms. \<exists>r \<in> set (r # rs). reaches E (bd_channel dto) (campaignRecipient_recipient r) m)"
    proof (intro exI [of _ "ms @ ms'"] conjI ballI)
      fix m assume "m \<in> set (ms @ ms')"
      then consider "m \<in> set ms" | "m \<in> set ms'" by auto
      then show "\<exists>r \<in> set (r # rs). reaches E (bd_channel dto) (campaignRecipient_recipient r) m"
        by cases (use a(3) b(3) in \<open>auto simp del: if_split_asm\<close>)
    qed (use a(1,2) b(1,2) in simp_all)
  qed (use Cons [of v] in \<open>simp_all add: v_def\<close>)
qed simp

text \<open>
  A broadcast reaches no one who has unsubscribed. Whatever its audience is made of, each message it
  hands to a provider goes to the number (or address) of a contact who has not unsubscribed, and there are
  at most as many as contacts it reports. It counts none of them: the usage counters of the tenant stay as
  they are.
\<close>

theorem broadcast_respects_opt_out:
  assumes "sendBroadcast E dt tt now t dto w = (Inr r, w')"
  shows "w_tenants w' = w_tenants w \<and>
    (\<exists>ms. w_outbox w' = w_outbox w @ ms \<and> length ms \<le> br_dispatched r \<and>
      (\<forall>m \<in> set ms. \<exists>c \<in> set (w_contacts w). \<not> contact_unsubscribed c \<and>
         reaches E (bd_channel dto) (broadcastTo dto c) m))"
  using assms
proof (cases rule: sendBroadcast_cases)
  case 1
  then show ?thesis by simp
next
  case (2 cs k u rs)
  then show ?thesis by (simp add: fold_addJob)
next
  case (3 cs k u rs n)
  obtain ms where ms: "w_outbox w' = w_outbox u @ ms" "length ms \<le> length rs"
    "\<forall>m \<in> set ms. \<exists>r \<in> set rs. reaches E (bd_channel dto) (campaignRecipient_recipient r) m"
    and same: "w_tenants w' = w_tenants u" using sendInline_out [of E now t dto k rs u] 3(10) by auto
  have "\<exists>c \<in> set (w_contacts w). \<not> contact_unsubscribed c \<and> reaches E (bd_channel dto) (broadcastTo dto c) m"
    if "m \<in> set ms" for m
  proof -
    from bspec [OF ms(3) that] obtain x where x: "x \<in> set rs"
      and m: "reaches E (bd_channel dto) (campaignRecipient_recipient x) m" by (rule bexE)
    from 3(8) [OF x] obtain c where c: "c \<in> set cs" and to: "campaignRecipient_recipient x = broadcastTo dto c"
      by (rule bexE)
    show ?thesis using m broadcastAudience_subscribed [OF 3(1) c] unfolding to by (intro bexI [of _ c]) simp_all
  qed
  moreover have "w_tenants w' = w_tenants w" "w_outbox w' = w_outbox w @ ms" "length ms \<le> br_dispatched r"
    using ms(1,2) same 3(3-6) 3(9) by (simp_all add: inlineBroadcast_def)
  ultimately show ?thesis by (intro conjI exI [of _ ms] ballI) blast+
qed

text \<open>The counts a small broadcast reports add up to its contacts.\<close>

lemma inline_broadcast_adds_up:
  assumes "sendBroadcast E dt tt now t dto w = (Inr r, w')" and "br_sent r = Some a" and "br_failed r = Some b"
  shows "a + b = br_dispatched r"
  using assms(1)
proof (cases rule: sendBroadcast_cases)
  case 1
  then show ?thesis using assms by (auto simp: sendBroadcast_def emptyBroadcast_def)
next
  case (2 cs k u rs)
  then show ?thesis using assms by (simp add: queuedBroadcast_def)
next
  case (3 cs k u rs n)
  then show ?thesis using assms sendInline_out [of E now t dto k rs u] by (auto simp: inlineBroadcast_def)
qed

section \<open>A concrete campaign\<close>

definition bob :: contact where
  "bob = newContact 0 ''t1'' ''Bob Moss'' (Some ''+15550003'') None [] None ''k0''"

definition cara :: contact where
  "cara = (newContact 0 ''t1'' ''Cara'' (Some ''+15550004'') None [] None ''k2'')\<lparr>contact_unsubscribed := True\<rparr>"

definition fair :: campaign where
  "fair = \<lparr>campaign_id = ''cm'', campaign_tenantId = ''t1'', campaign_name = ''Fair'', campaign_description = None,
     campaign_body = None, campaign_channel = None, campaign_scheduledAt = None, campaign_status = ''draft'',
     campaign_createdAt = 0, campaign_isDemoData = False\<rparr>"

definition fairWorld :: world where
  "fairWorld = bookWorld\<lparr>w_contacts := [ada, bob, cara], w_campaigns := [fair], w_audienceSegments :=
     [\<lparr>audienceSegment_id = ''s1'', audienceSegment_campaignId = ''cm'', audienceSegment_name = ''VIP'',
       audienceSegment_tagId = Some ''g1'', audienceSegment_createdAt = 0\<rparr>]\<rparr>"

definition fairDispatch :: DispatchCampaignDto where
  "fairDispatch = \<lparr>di_segmentId = ''s1'', di_messageTemplate = ''Hi {{first_name}}'', di_channel = ''SMS'',
     di_scheduledAt = ''soon''\<rparr>"

lemma fairWorld_ids: "distinct (map contact_id (w_contacts fairWorld))"
  by code_simp

theorem audience_pages_exact_witness:
  "audiencePages (subscribedContacts ''t1'' fairWorld) None = [bob, ada] \<and> countAudience ''t1'' ''s1'' fairWorld = Inr 1"
proof -
  have "subscribedContacts ''t1'' fairWorld = [bob, ada]" by code_simp
  moreover have "resolveAudience ''t1'' ''s1'' fairWorld = Inr [ada]" by code_simp
  ultimately show ?thesis using audience_pages_exact [OF fairWorld_ids, of "''t1''" "''s1''"] by simp
qed

theorem dispatch_within_plan_witness:
  "\<exists>w'. dispatchCampaign (\<lambda>_. Some 9) 5 (\<lambda>_. False) ''t1'' ''cm'' fairDispatch fairWorld =
     (Inr \<lparr>dp_queued = 1, dp_message = ''1 messages queued for delivery''\<rparr>, w') \<and> length (w_jobs w') \<le> 1"
proof -
  let ?run = "dispatchCampaign (\<lambda>_. Some 9) 5 (\<lambda>_. False) ''t1'' ''cm'' fairDispatch fairWorld"
  have "fst ?run = Inr \<lparr>dp_queued = 1, dp_message = ''1 messages queued for delivery''\<rparr>" by code_simp
  then have run: "?run = (Inr \<lparr>dp_queued = 1, dp_message = ''1 messages queued for delivery''\<rparr>, snd ?run)"
    by (cases ?run) simp
  have "findTenant ''t1'' fairWorld = Some someTenant" "w_jobs fairWorld = []" by code_simp+
  then have "length (w_jobs (snd ?run)) \<le> 1"
    using dispatch_within_plan [OF fairWorld_ids _ run] by auto
  with run show ?thesis by blast
qed

theorem deleted_tag_widens_segment_witness:
  "resolveAudience ''t1'' ''s1'' fairWorld = Inr [ada] \<and>
   resolveAudience ''t1'' ''s1'' (snd (removeTag ''t1'' ''g1'' fairWorld)) = Inr [bob, ada]"
proof -
  obtain x where x: "findTag ''t1'' ''g1'' fairWorld = Some x" by (rule that) code_simp
  obtain s where s: "findSegment ''t1'' ''s1'' fairWorld = Some s" "audienceSegment_tagId s = Some ''g1''"
    by (rule that) code_simp+
  have "resolveAudience ''t1'' ''s1'' fairWorld = Inr [ada]" "subscribedContacts ''t1'' fairWorld = [bob, ada]"
    by code_simp+
  then show ?thesis using deleted_tag_widens_segment [OF x s fairWorld_ids] by simp
qed



definition crowd :: "contact list" where
  "crowd = map (\<lambda>n. newContact 0 ''t1'' ''Guest'' (Some ''+15550009'') None [] None (show_nat n)) [0..<101]"

definition crowdWorld :: world where
  "crowdWorld = bookWorld\<lparr>w_contacts := crowd\<rparr>"

definition newsTo :: "uuid list \<Rightarrow> BroadcastDto" where
  "newsTo is = \<lparr>bd_channel = SMS, bd_template = ''News'', bd_audienceType = AT_contacts, bd_audienceId = None,
     bd_audienceIds = Some is, bd_campaignName = Some ''News'', bd_responseStatus = None, bd_responseFilter = None\<rparr>"

lemma sendBroadcast_returns:
  assumes "broadcastAudience t dto w = Inr cs" and "tenantExists t w"
  shows "\<exists>r w'. sendBroadcast E dt tt now t dto w = (Inr r, w')"
  using assms by (cases cs)
    (auto simp: sendBroadcast_def insertCampaign_def broadcastCampaign_def Let_def split: prod.split)

theorem large_broadcast_reaches_nobody_witness:
  "\<exists>r w'. sendBroadcast demoEnv show_int show_int 5 ''t1'' (newsTo (map contact_id crowd)) crowdWorld = (Inr r, w') \<and>
     br_dispatched r = 101 \<and> w_outbox w' = []"
proof -
  have "mayBeSent ''t1'' c" if "c \<in> set crowd" for c
    using that by (auto simp: crowd_def mayBeSent_def newContact_def)
  moreover have n: "length crowd = 101" by (simp add: crowd_def)
  ultimately have a: "broadcastAudience ''t1'' (newsTo (map contact_id crowd)) crowdWorld = Inr crowd"
    by (auto simp: broadcastAudience_def newsTo_def resolveContacts_def crowdWorld_def filter_id_conv)
  have t: "tenantExists ''t1'' crowdWorld" and out: "w_outbox crowdWorld = []"
    by (simp_all add: crowdWorld_def bookWorld_def tenantExists_def someTenant_def demoTenant_def emptyWorld_def)
  obtain r w' where r: "sendBroadcast demoEnv show_int show_int 5 ''t1'' (newsTo (map contact_id crowd)) crowdWorld = (Inr r, w')"
    using sendBroadcast_returns [OF a t] by blast
  then show ?thesis using large_broadcast_reaches_nobody [OF r a] n out by auto
qed

theorem broadcast_respects_opt_out_witness:
  "\<exists>r w'. sendBroadcast demoEnv show_int show_int 5 ''t1'' (newsTo [''k0'', ''k1'', ''k2'']) fairWorld = (Inr r, w') \<and>
     w_tenants w' = w_tenants fairWorld \<and> map out_to (w_outbox w') = [''+15550001'', ''+15550003'']"
proof -
  let ?run = "sendBroadcast demoEnv show_int show_int 5 ''t1'' (newsTo [''k0'', ''k1'', ''k2'']) fairWorld"
  have a: "broadcastAudience ''t1'' (newsTo [''k0'', ''k1'', ''k2'']) fairWorld = Inr [ada, bob]" by code_simp
  have t: "tenantExists ''t1'' fairWorld"
    by (simp add: fairWorld_def bookWorld_def tenantExists_def someTenant_def demoTenant_def)
  obtain r w' where r: "?run = (Inr r, w')" using sendBroadcast_returns [OF a t] by blast
  have "map out_to (w_outbox (snd ?run)) = [''+15550001'', ''+15550003'']" by code_simp
  then show ?thesis using broadcast_respects_opt_out [OF r] r by auto
qed
end
