(* ===== verification/Booking_Widget.thy ===== *)
theory Booking_Widget
  imports Appointments Contacts Rescheduling Workflow_Actions
begin

text \<open>
  \<open>modules/booking-widget/booking-widget.service.ts\<close>: the settings of a tenant's public booking page, the
  free times it offers for a day, and the booking a visitor makes there. \<open>new Date\<close> of a text is the argument
  \<open>parseDate\<close>.
\<close>

section \<open>Settings\<close>

record SaveWidgetConfigDto =
  sw_businessName :: string
  sw_welcomeMessage :: "string option"
  sw_services :: "serviceItem list"
  sw_accentColor :: "string option"
  sw_workingDays :: "int list"
  sw_workingHoursStart :: string
  sw_workingHoursEnd :: string
  sw_slotDuration :: int
  sw_isActive :: "bool option"

definition validService :: "serviceItem \<Rightarrow> bool" where
  "validService s = (length (service_name s) \<le> 80 \<and> 15 \<le> service_duration s \<and> service_duration s \<le> 480 \<and>
     (case service_price s of None \<Rightarrow> True | Some p \<Rightarrow> 0 \<le> p))"

text \<open>Without the check of the colour, which \<open>class-validator\<close> makes.\<close>

definition validWidgetConfig :: "SaveWidgetConfigDto \<Rightarrow> bool" where
  "validWidgetConfig d = (length (sw_businessName d) \<le> 120 \<and>
     (case sw_welcomeMessage d of None \<Rightarrow> True | Some m \<Rightarrow> length m \<le> 300) \<and> list_all validService (sw_services d) \<and>
     sw_workingDays d \<noteq> [] \<and> list_all (\<lambda>n. 1 \<le> n \<and> n \<le> 7) (sw_workingDays d) \<and>
     15 \<le> sw_slotDuration d \<and> sw_slotDuration d \<le> 240)"

definition DEFAULT_ACCENT :: string where
  "DEFAULT_ACCENT = ''#6366f1''"

definition widgetRow :: "uuid \<Rightarrow> SaveWidgetConfigDto \<Rightarrow> widgetConfig" where
  "widgetRow tenantId d =
     \<lparr>widgetConfig_tenantId = tenantId, widgetConfig_businessName = sw_businessName d,
      widgetConfig_welcomeMessage = sw_welcomeMessage d, widgetConfig_services = sw_services d,
      widgetConfig_accentColor = coalesce (sw_accentColor d) DEFAULT_ACCENT,
      widgetConfig_workingDays = sw_workingDays d, widgetConfig_workingHoursStart = sw_workingHoursStart d,
      widgetConfig_workingHoursEnd = sw_workingHoursEnd d, widgetConfig_slotDuration = sw_slotDuration d,
      widgetConfig_isActive = coalesce (sw_isActive d) True\<rparr>"

definition getWidgetConfig :: "uuid \<Rightarrow> world \<Rightarrow> widgetConfig option" where
  "getWidgetConfig tenantId w = List.find (\<lambda>c. widgetConfig_tenantId c = tenantId) (w_widgetConfigs w)"

text \<open>An update that names no welcome message leaves the old one.\<close>

definition updatedWidget :: "SaveWidgetConfigDto \<Rightarrow> widgetConfig \<Rightarrow> widgetConfig" where
  "updatedWidget d c = (widgetRow (widgetConfig_tenantId c) d)\<lparr>widgetConfig_welcomeMessage :=
     (case sw_welcomeMessage d of None \<Rightarrow> widgetConfig_welcomeMessage c | m \<Rightarrow> m)\<rparr>"

definition saveWidgetConfig :: "uuid \<Rightarrow> SaveWidgetConfigDto \<Rightarrow> unit act" where
  "saveWidgetConfig tenantId d w =
     (if getWidgetConfig tenantId w \<noteq> None
      then (Inr (), w\<lparr>w_widgetConfigs :=
             update_where (\<lambda>c. widgetConfig_tenantId c = tenantId) (updatedWidget d) (w_widgetConfigs w)\<rparr>)
      else if tenantExists tenantId w
      then (Inr (), w\<lparr>w_widgetConfigs := w_widgetConfigs w @ [widgetRow tenantId d]\<rparr>)
      else (Inl (PrismaError ''P2003''), w))"

section \<open>Embedding\<close>

definition lines_of :: "string list \<Rightarrow> string" where
  "lines_of = join [CHR 0x0A]"

definition dq :: "string \<Rightarrow> string" where
  "dq s = [CHR 0x22] @ s @ [CHR 0x22]"

definition sq :: "string \<Rightarrow> string" where
  "sq s = [CHR 0x27] @ s @ [CHR 0x27]"

definition widgetUrl :: "env \<Rightarrow> uuid \<Rightarrow> string" where
  "widgetUrl E tenantId = conf E ''APP_URL'' ''https://app.meetora.co'' @ ''/widget/'' @ tenantId"

definition embedIframe :: "string \<Rightarrow> string" where
  "embedIframe url = lines_of [''<iframe'', ''  src='' @ dq url, ''  width='' @ dq ''100%'', ''  height='' @ dq ''700'',
     ''  frameborder='' @ dq ''0'', ''  style='' @ dq ''border-radius:12px;box-shadow:0 4px 24px rgba(0,0,0,0.12);'',
     ''  title='' @ dq ''Book an Appointment'', ''></iframe>'']"

definition embedScript :: "string \<Rightarrow> string" where
  "embedScript url = lines_of [''<div id='' @ dq ''meetora-widget'' @ ''></div>'', ''<script>'', ''  (function(){'',
     ''    var f=document.createElement('' @ sq ''iframe'' @ '');'', ''    f.src='' @ sq url @ '';'',
     ''    f.width='' @ sq ''100%'' @ '';f.height='' @ sq ''700'' @ '';f.frameBorder='' @ sq ''0'' @ '';'',
     ''    f.style='' @ sq ''border-radius:12px;box-shadow:0 4px 24px rgba(0,0,0,.12)'' @ '';'',
     ''    document.getElementById('' @ sq ''meetora-widget'' @ '').appendChild(f);'', ''  })();'', ''</script>'']"

definition generateEmbedCode :: "env \<Rightarrow> uuid \<Rightarrow> string \<times> string" where
  "generateEmbedCode E tenantId = (embedIframe (widgetUrl E tenantId), embedScript (widgetUrl E tenantId))"

section \<open>The public page\<close>

definition activeWidget :: "uuid \<Rightarrow> world \<Rightarrow> widgetConfig option" where
  "activeWidget tenantId w = (case getWidgetConfig tenantId w of
     None \<Rightarrow> None | Some c \<Rightarrow> if widgetConfig_isActive c then Some c else None)"

definition getPublicWidgetData :: "uuid \<Rightarrow> world \<Rightarrow> widgetConfig outcome" where
  "getPublicWidgetData tenantId w = (case activeWidget tenantId w of
     None \<Rightarrow> Inl (NotFoundException ''Booking widget not found or inactive'') | Some c \<Rightarrow> Inr c)"

section \<open>Days and times\<close>

text \<open>The days from the epoch to a date; a month outside the year runs over, as in the \<open>Date\<close> constructor.\<close>

definition daysFromCivil :: "int \<Rightarrow> int \<Rightarrow> int \<Rightarrow> int" where
  "daysFromCivil year monthIndex day =
     (let y = year + monthIndex div 12; m = monthIndex mod 12 + 1;
          y' = (if m \<le> 2 then y - 1 else y); era = y' div 400; yoe = y' mod 400;
          doy = (153 * (if 2 < m then m - 3 else m + 9) + 2) div 5 + day - 1
      in era * 146097 + yoe * 365 + yoe div 4 - yoe div 100 + doy - 719468)"

text \<open>\<open>Number\<close> of a text, towards zero; \<open>None\<close> is \<open>NaN\<close>.\<close>

definition wholeNumber :: "string \<Rightarrow> int option" where
  "wholeNumber s = map_option (\<lambda>r. if 0 \<le> r then floor r else ceiling r) (js_number s)"

text \<open>
  The start of the local day \<open>new Date(year, month - 1, day)\<close> of a text year-month-day; \<open>None\<close> for an
  invalid date. The constructor takes the years 0 to 99 for those of the twentieth century.
\<close>

definition localDate :: "env \<Rightarrow> string \<Rightarrow> instant option" where
  "localDate E s = (case map wholeNumber (split_on (\<lambda>c. c = CHR ''-'') s) of
     Some y # Some m # Some d # _ \<Rightarrow>
       Some (daysFromCivil (if 0 \<le> y \<and> y \<le> 99 then 1900 + y else y) (m - 1) d * 86400000 - e_tz E)
   | _ \<Rightarrow> None)"

definition isoDay :: "env \<Rightarrow> instant \<Rightarrow> int" where
  "isoDay E t = (if getDay E t = 0 then 7 else getDay E t)"

text \<open>The minute of the day of a text HH:mm; \<open>None\<close> is \<open>NaN\<close>. A fraction of a minute is dropped.\<close>

definition minuteOfDay :: "string \<Rightarrow> int option" where
  "minuteOfDay s = (case map js_number (split_on (\<lambda>c. c = CHR '':'') s) of
     Some h # Some m # _ \<Rightarrow> Some (floor (h * 60 + m)) | _ \<Rightarrow> None)"

section \<open>Free times\<close>

record Busy =
  bz_start :: int
  bz_end :: int

definition dayAppointments :: "uuid \<Rightarrow> instant \<Rightarrow> world \<Rightarrow> appointment list" where
  "dayAppointments tenantId day w = filter (\<lambda>a. appointment_tenantId a = tenantId \<and>
     day \<le> appointment_scheduledAt a \<and> appointment_scheduledAt a \<le> day + 86399000 \<and>
     appointment_status a \<in> {A_SCHEDULED, A_CONFIRMED}) (w_appointments w)"

definition busyOf :: "env \<Rightarrow> appointment \<Rightarrow> Busy" where
  "busyOf E a = (let s = localMinutes E (appointment_scheduledAt a)
     in \<lparr>bz_start = s, bz_end = s + appointment_durationMinutes a\<rparr>)"

definition overlapsBusy :: "int \<Rightarrow> int \<Rightarrow> Busy \<Rightarrow> bool" where
  "overlapsBusy duration t b = (t < bz_end b \<and> bz_start b < t + duration)"

text \<open>The loop over the starts of the slots; with a step that is not positive it may not end.\<close>

partial_function (option) slotLoop :: "int \<Rightarrow> int \<Rightarrow> int \<Rightarrow> int \<Rightarrow> int list option" where
  "slotLoop duration windowEnd step t =
     (if t + duration \<le> windowEnd
      then Option.bind (slotLoop duration windowEnd step (t + step)) (\<lambda>ts. Some (t # ts))
      else Some [])"

text \<open>\<open>t % 60\<close> takes the sign of \<open>t\<close>.\<close>

definition slotText :: "int \<Rightarrow> string" where
  "slotText t = pad 2 (t div 60) @ '':'' @ pad 2 (if 0 \<le> t then t mod 60 else - ((- t) mod 60))"

definition freeSlots :: "env \<Rightarrow> uuid \<Rightarrow> instant \<Rightarrow> int \<Rightarrow> world \<Rightarrow> int list \<Rightarrow> int list" where
  "freeSlots E tenantId day duration w ts =
     filter (\<lambda>t. \<not> list_ex (overlapsBusy duration t) (map (busyOf E) (dayAppointments tenantId day w))) ts"

text \<open>The result is \<open>None\<close> when the loop does not end.\<close>

definition getAvailableSlots :: "env \<Rightarrow> uuid \<Rightarrow> string \<Rightarrow> int \<Rightarrow> world \<Rightarrow> string list outcome option" where
  "getAvailableSlots E tenantId dateStr duration w =
     (case activeWidget tenantId w of
        None \<Rightarrow> Some (Inl (NotFoundException ''Widget not found''))
      | Some c \<Rightarrow>
          (case localDate E dateStr of
             None \<Rightarrow> Some (Inr [])
           | Some day \<Rightarrow>
               if isoDay E day \<notin> set (widgetConfig_workingDays c) then Some (Inr [])
               else (case (minuteOfDay (widgetConfig_workingHoursStart c), minuteOfDay (widgetConfig_workingHoursEnd c)) of
                   (Some opening, Some closing) \<Rightarrow>
                     map_option (\<lambda>ts. Inr (map slotText (freeSlots E tenantId day duration w ts)))
                       (slotLoop duration closing (widgetConfig_slotDuration c) opening)
                 | _ \<Rightarrow> Some (Inr []))))"

section \<open>Bookings\<close>

record CreateBookingDto =
  bk_name :: string
  bk_phone :: "string option"
  bk_email :: "string option"
  bk_serviceIndex :: int
  bk_scheduledAt :: string

text \<open>\<open>rest.join(' ') || '\<dash>'\<close> with an em dash.\<close>

definition visitorNames :: "string \<Rightarrow> string \<times> string" where
  "visitorNames name = (let ns = splitSpaces (trim name); l = join '' '' (tl ns)
     in (hd ns, if l = [] then [char_of (0xE2 :: nat), char_of (0x80 :: nat), char_of (0x94 :: nat)] else l))"

definition visitorTarget :: "CreateBookingDto \<Rightarrow> Target" where
  "visitorTarget d = \<lparr>tg_id = [], tg_name = bk_name d, tg_phone = bk_phone d, tg_email = bk_email d\<rparr>"

definition widgetCustomer :: "uuid \<Rightarrow> CreateBookingDto \<Rightarrow> uuid \<Rightarrow> customer" where
  "widgetCustomer tenantId d i =
     \<lparr>customer_id = i, customer_tenantId = tenantId, customer_firstName = fst (visitorNames (bk_name d)),
      customer_lastName = snd (visitorNames (bk_name d)), customer_email = bk_email d,
      customer_phone = bk_phone d, customer_unsubscribed = False, customer_unsubscribedAt = None\<rparr>"

definition ensureWidgetCustomer :: "uuid \<Rightarrow> CreateBookingDto \<Rightarrow> customer act" where
  "ensureWidgetCustomer tenantId d w =
     (case List.find (\<lambda>c. customer_tenantId c = tenantId \<and> matchesContact (visitorTarget d) c) (w_customers w) of
        Some c \<Rightarrow> (Inr c, w)
      | None \<Rightarrow>
          if tenantExists tenantId w
          then let c = widgetCustomer tenantId d (newId w)
               in (Inr c, bump (w\<lparr>w_customers := w_customers w @ [c]\<rparr>))
          else (Inl (PrismaError ''P2003''), w))"

definition widgetAppointment :: "uuid \<Rightarrow> serviceItem \<Rightarrow> instant \<Rightarrow> uuid \<Rightarrow> uuid \<Rightarrow> appointment" where
  "widgetAppointment tenantId s scheduledAt customerId i =
     \<lparr>appointment_id = i, appointment_tenantId = tenantId, appointment_customerId = Some customerId,
      appointment_title = service_name s, appointment_scheduledAt = scheduledAt,
      appointment_durationMinutes = service_duration s, appointment_status = A_SCHEDULED,
      appointment_notes = None, appointment_locationId = None, appointment_campaignId = None,
      appointment_eventId = None, appointment_audienceSegmentId = None,
      appointment_isDemoData = False\<rparr>"

definition insertAppointment :: "(uuid \<Rightarrow> appointment) \<Rightarrow> appointment act" where
  "insertAppointment mk w = (Inr (mk (newId w)), bump (w\<lparr>w_appointments := w_appointments w @ [mk (newId w)]\<rparr>))"

definition isVisitor :: "uuid \<Rightarrow> CreateBookingDto \<Rightarrow> contact \<Rightarrow> bool" where
  "isVisitor tenantId d c = (contact_tenantId c = tenantId \<and>
     ((truthy (bk_phone d) \<and> contact_phone c = bk_phone d) \<or> (truthy (bk_email d) \<and> contact_email c = bk_email d)))"

definition nonEmpty :: "string option \<Rightarrow> string option" where
  "nonEmpty s = (if truthy s then s else None)"

definition ensureWidgetContact :: "instant \<Rightarrow> uuid \<Rightarrow> CreateBookingDto \<Rightarrow> contact act" where
  "ensureWidgetContact now tenantId d w =
     (case List.find (isVisitor tenantId d) (w_contacts w) of
        Some c \<Rightarrow> (Inr c, w)
      | None \<Rightarrow>
          let c = newContact now tenantId (trim (bk_name d)) (nonEmpty (bk_phone d)) (nonEmpty (bk_email d)) [] None
                    (newId w)
          in thenA (insertContact c) (returnA c) w)"

definition linkVisitor :: "uuid \<Rightarrow> uuid \<Rightarrow> world \<Rightarrow> world" where
  "linkVisitor appointmentId contactId w =
     (if list_ex (\<lambda>p. participant_appointmentId p = appointmentId \<and> participant_contactId p = contactId)
           (w_participants w) then w
      else addParticipant appointmentId contactId w)"

definition remindVisitor :: "env \<Rightarrow> instant \<Rightarrow> uuid \<Rightarrow> uuid \<Rightarrow> uuid \<Rightarrow> nat act" where
  "remindVisitor E now tenantId appointmentId contactId =
     bindA (scheduleForAppointment E now appointmentId tenantId)
       (\<lambda>rs. thenA (modifyA (\<lambda>v. v\<lparr>w_reminders := update_where (\<lambda>x. reminder_id x \<in> reminder_id ` set rs)
                  (\<lambda>x. x\<lparr>reminder_contactId := Some contactId\<rparr>) (w_reminders v)\<rparr>))
               (returnA (length rs)))"

definition widgetData :: "uuid \<Rightarrow> appointment \<Rightarrow> customer \<Rightarrow> uuid \<Rightarrow> json" where
  "widgetData tenantId a c contactId = scheduledData tenantId a c
     \<lparr>tg_id = contactId, tg_name = [], tg_phone = None, tg_email = None\<rparr>"

record Booking =
  bo_appointmentId :: uuid
  bo_service :: string
  bo_scheduledAt :: instant
  bo_remindersScheduled :: nat

definition bookVisitor ::
  "env \<Rightarrow> instant \<Rightarrow> uuid \<Rightarrow> CreateBookingDto \<Rightarrow> serviceItem \<Rightarrow> instant \<Rightarrow> Booking act" where
  "bookVisitor E now tenantId d s scheduledAt =
     bindA (ensureWidgetCustomer tenantId d) (\<lambda>cust.
     bindA (insertAppointment (widgetAppointment tenantId s scheduledAt (customer_id cust))) (\<lambda>a.
     bindA (ensureWidgetContact now tenantId d) (\<lambda>c.
     thenA (modifyA (linkVisitor (appointment_id a) (contact_id c)))
     (bindA (remindVisitor E now tenantId (appointment_id a) (contact_id c)) (\<lambda>n.
      thenA (modifyA (onEventScheduled now tenantId (appointment_id a) (widgetData tenantId a cust (contact_id c))))
        (returnA \<lparr>bo_appointmentId = appointment_id a, bo_service = service_name s,
                  bo_scheduledAt = scheduledAt, bo_remindersScheduled = n\<rparr>))))))"

definition createAppointmentFromWidget ::
  "env \<Rightarrow> (string \<Rightarrow> instant option) \<Rightarrow> instant \<Rightarrow> uuid \<Rightarrow> CreateBookingDto \<Rightarrow> Booking act" where
  "createAppointmentFromWidget E parseDate now tenantId d w =
     (case activeWidget tenantId w of
        None \<Rightarrow> (Inl (NotFoundException ''Widget not found''), w)
      | Some c \<Rightarrow>
          let services = widgetConfig_services c
          in if bk_serviceIndex d < 0 \<or> int (length services) \<le> bk_serviceIndex d
             then (Inl (BadRequestException ''Invalid service selection''), w)
             else case parseDate (bk_scheduledAt d) of
                 None \<Rightarrow> (Inl (BadRequestException ''Invalid or past appointment time''), w)
               | Some scheduledAt \<Rightarrow>
                   if scheduledAt < now then (Inl (BadRequestException ''Invalid or past appointment time''), w)
                   else if \<not> truthy (bk_phone d) \<and> \<not> truthy (bk_email d)
                   then (Inl (BadRequestException ''Phone or email is required''), w)
                   else bookVisitor E now tenantId d (services ! nat (bk_serviceIndex d)) scheduledAt w)"

end
