(* ===== verification/Booking_Properties.thy ===== *)
theory Booking_Properties
  imports Booking_Widget Contact_Properties Appointment_Properties
begin

text \<open>
  The free times of the public page are the grid of the working hours less the busy times, and what a
  booking writes.
\<close>

section \<open>Free times\<close>

abbreviation grid :: "int \<Rightarrow> int \<Rightarrow> int \<Rightarrow> int \<Rightarrow> int list" where
  "grid duration closing step t \<equiv> map (\<lambda>k. t + int k * step) [0..<nat ((closing - duration - t) div step + 1)]"

lemma slotLoop_grid: "0 < step \<Longrightarrow> slotLoop duration closing step t = Some (grid duration closing step t)"
proof (induction "nat (closing - duration - t + 1)" arbitrary: t rule: less_induct)
  case less
  let ?d = "closing - duration - t"
  show ?case
  proof (cases "t + duration \<le> closing")
    case True
    have "nat (closing - duration - (t + step) + 1) < nat (?d + 1)" using True less.prems by simp
    from less.hyps [OF this less.prems]
    have rest: "slotLoop duration closing step (t + step) = Some (grid duration closing step (t + step))" .
    have "(?d - step) div step = ?d div step - 1" using div_mult_self1 [of step ?d "- 1"] less.prems by simp
    then have shift: "(closing - duration - (t + step)) div step + 1 = ?d div step" by (simp add: algebra_simps)
    have "0 \<le> ?d div step" using True less.prems by (simp add: pos_imp_zdiv_nonneg_iff)
    then have "nat (?d div step + 1) = Suc (nat (?d div step))" by simp
    then have "grid duration closing step t = t # map (\<lambda>k. t + int (Suc k) * step) [0..<nat (?d div step)]"
      by (simp add: upt_conv_Cons map_Suc_upt [symmetric] del: upt_Suc map_Suc_upt)
    also have "\<dots> = t # grid duration closing step (t + step)"
      unfolding shift by (simp add: algebra_simps)
    finally show ?thesis using True rest by (simp add: slotLoop.simps [of duration closing step t])
  next
    case False
    then have "?d div step < 0" using less.prems by (simp add: pos_imp_zdiv_neg_iff)
    then show ?thesis using False by (simp add: slotLoop.simps [of duration closing step t])
  qed
qed

lemma le_div_iff:
  fixes a k s :: int
  assumes "0 < s"
  shows "k \<le> a div s \<longleftrightarrow> k * s \<le> a"
proof -
  have a: "a = a div s * s + a mod s" "0 \<le> a mod s" "a mod s < s" using assms by simp_all
  show ?thesis
  proof
    assume "k \<le> a div s"
    then have "k * s \<le> a div s * s" using assms by (intro mult_right_mono) simp_all
    then show "k * s \<le> a" using a by linarith
  next
    assume k: "k * s \<le> a"
    show "k \<le> a div s"
    proof (rule ccontr)
      assume "\<not> k \<le> a div s"
      then have "(a div s + 1) * s \<le> k * s" using assms by (intro mult_right_mono) simp_all
      then show False using a k by (simp add: distrib_right)
    qed
  qed
qed

lemma grid_iff:
  assumes "0 < step"
  shows "x \<in> set (grid duration closing step t) \<longleftrightarrow> (\<exists>k. x = t + int k * step) \<and> x + duration \<le> closing"
proof -
  have "(k < nat ((closing - duration - t) div step + 1)) = (t + int k * step + duration \<le> closing)" for k
  proof -
    have "(k < nat ((closing - duration - t) div step + 1)) = (int k \<le> (closing - duration - t) div step)" by linarith
    also have "\<dots> = (int k * step \<le> closing - duration - t)" by (rule le_div_iff [OF assms])
    finally show ?thesis by auto
  qed
  note bound = this
  define n where "n = nat ((closing - duration - t) div step + 1)"
  have "x \<in> set (map (\<lambda>k. t + int k * step) [0..<n]) \<longleftrightarrow> (\<exists>k. k < n \<and> x = t + int k * step)" by auto
  also have "\<dots> \<longleftrightarrow> (\<exists>k. t + int k * step + duration \<le> closing \<and> x = t + int k * step)"
    unfolding n_def bound by (rule refl)
  finally show ?thesis unfolding n_def by blast
qed

text \<open>A time is free when none of the day's appointments overlaps it.\<close>

definition isFree :: "env \<Rightarrow> uuid \<Rightarrow> instant \<Rightarrow> int \<Rightarrow> int \<Rightarrow> world \<Rightarrow> bool" where
  "isFree E t day duration x w = (\<forall>a \<in> set (dayAppointments t day w).
     x + duration \<le> localMinutes E (appointment_scheduledAt a) \<or>
     localMinutes E (appointment_scheduledAt a) + appointment_durationMinutes a \<le> x)"

lemma freeSlots_iff: "x \<in> set (freeSlots E t day duration w ts) \<longleftrightarrow> x \<in> set ts \<and> isFree E t day duration x w"
  by (auto simp: freeSlots_def isFree_def busyOf_def overlapsBusy_def list_ex_iff Let_def not_less)

lemma grid_sorted: "0 < step \<Longrightarrow> sorted_wrt (<) (grid duration closing step t)"
  by (auto simp: sorted_wrt_map intro!: sorted_wrt_mono_rel [OF _ sorted_wrt_upt])

text \<open>
  C38: The public page offers exactly the free times. On a working day, with a step that is positive (the
  form of the settings asks for fifteen minutes at least), the search for times ends, and it offers, in
  order and each once, precisely the times of the grid from the opening hour by the step that end by the
  closing hour and overlap none of the day's scheduled or confirmed appointments.
\<close>

theorem widget_offers_free_times:
  assumes "activeWidget t w = Some c" and "localDate E s = Some day" and "isoDay E day \<in> set (widgetConfig_workingDays c)"
    and "minuteOfDay (widgetConfig_workingHoursStart c) = Some opening"
    and "minuteOfDay (widgetConfig_workingHoursEnd c) = Some closing" and "0 < widgetConfig_slotDuration c"
  shows "\<exists>ts. getAvailableSlots E t s duration w = Some (Inr (map slotText ts)) \<and> sorted_wrt (<) ts \<and>
    (\<forall>x. x \<in> set ts \<longleftrightarrow> (\<exists>k. x = opening + int k * widgetConfig_slotDuration c) \<and> x + duration \<le> closing \<and>
       isFree E t day duration x w)"
proof -
  let ?g = "grid duration closing (widgetConfig_slotDuration c) opening"
  have "getAvailableSlots E t s duration w = Some (Inr (map slotText (freeSlots E t day duration w ?g)))"
    using assms by (simp add: getAvailableSlots_def slotLoop_grid)
  moreover have "sorted_wrt (<) (freeSlots E t day duration w ?g)"
    unfolding freeSlots_def by (rule sorted_wrt_filter [OF grid_sorted [OF assms(6)]])
  moreover have "x \<in> set (freeSlots E t day duration w ?g) \<longleftrightarrow> (\<exists>k. x = opening + int k * widgetConfig_slotDuration c) \<and>
      x + duration \<le> closing \<and> isFree E t day duration x w" for x
    unfolding freeSlots_iff grid_iff [OF assms(6)] by blast
  ultimately show ?thesis by blast
qed

text \<open>
  The length of a visit comes from the query and is not checked: a negative one is taken for a slot that
  ends before it begins, and the page of a free day grows without bound.
\<close>

lemma widget_page_unbounded:
  assumes "activeWidget t w = Some c" and "localDate E s = Some day" and "isoDay E day \<in> set (widgetConfig_workingDays c)"
    and "minuteOfDay (widgetConfig_workingHoursStart c) = Some opening"
    and "minuteOfDay (widgetConfig_workingHoursEnd c) = Some closing" and "0 < widgetConfig_slotDuration c"
    and "dayAppointments t day w = []" and "opening \<le> closing"
  shows "\<exists>ts. getAvailableSlots E t s (- (int n * widgetConfig_slotDuration c)) w = Some (Inr ts) \<and> n \<le> length ts"
proof -
  let ?step = "widgetConfig_slotDuration c"
  have "getAvailableSlots E t s (- (int n * ?step)) w =
      Some (Inr (map slotText (grid (- (int n * ?step)) closing ?step opening)))"
    using assms by (simp add: getAvailableSlots_def slotLoop_grid freeSlots_def)
  moreover have "int n \<le> (closing - - (int n * ?step) - opening) div ?step"
    using assms(8) by (simp add: le_div_iff [OF assms(6)])
  then have "n \<le> nat ((closing - - (int n * ?step) - opening) div ?step + 1)" by linarith
  ultimately show ?thesis by simp
qed

section \<open>Bookings\<close>

lemma remindVisitor_frame:
  "w_appointments (snd (remindVisitor E now t i k w)) = w_appointments w"
  "w_contacts (snd (remindVisitor E now t i k w)) = w_contacts w"
  "w_participants (snd (remindVisitor E now t i k w)) = w_participants w"
proof -
  obtain x v where s: "scheduleForAppointment E now i t w = (x, v)" by (cases "scheduleForAppointment E now i t w")
  have "w_contacts (snd (scheduleForAppointment E now i t w)) = w_contacts w"
    "w_participants (snd (scheduleForAppointment E now i t w)) = w_participants w"
    by (simp_all add: scheduleForAppointment_def case_prod_beta Let_def split: option.split)
       (subst scheduleRules_frame, simp)+
  moreover have "w_appointments (snd (scheduleForAppointment E now i t w)) = w_appointments w"
    by (rule schedule_events(2))
  ultimately have "w_contacts v = w_contacts w" "w_participants v = w_participants w" "w_appointments v = w_appointments w"
    unfolding s by simp_all
  then show "w_appointments (snd (remindVisitor E now t i k w)) = w_appointments w"
    "w_contacts (snd (remindVisitor E now t i k w)) = w_contacts w"
    "w_participants (snd (remindVisitor E now t i k w)) = w_participants w"
    by (cases x; simp add: remindVisitor_def bindA_def thenA_def s)+
qed

lemma ensureWidgetCustomer_frame:
  "ensureWidgetCustomer t d w = (Inr c, v) \<Longrightarrow> w_appointments v = w_appointments w \<and> w_contacts v = w_contacts w"
  by (auto simp: ensureWidgetCustomer_def Let_def bump_def split: option.splits if_splits)

lemma ensureWidgetContact_ok:
  assumes "ensureWidgetContact now t d w = (Inr c, v)" and "truthy (bk_phone d) \<or> truthy (bk_email d)"
  shows "w_appointments v = w_appointments w \<and> c \<in> set (w_contacts v) \<and> isVisitor t d c"
proof (cases "List.find (isVisitor t d) (w_contacts w)")
  case None
  let ?c = "newContact now t (trim (bk_name d)) (nonEmpty (bk_phone d)) (nonEmpty (bk_email d)) [] None (newId w)"
  have "isVisitor t d ?c" using assms(2) by (auto simp: isVisitor_def newContact_def nonEmpty_def)
  moreover have "w_appointments v = w_appointments w \<and> c = ?c \<and> c \<in> set (w_contacts v)"
    using assms(1) None by (auto simp: ensureWidgetContact_def insertContact_def Let_def thenA_def bindA_def bump_def split: if_splits)
  ultimately show ?thesis by blast
next
  case (Some x)
  then show ?thesis using assms(1) find_SomeD [OF Some] by (simp add: ensureWidgetContact_def)
qed

lemma linkVisitor_frame:
  "w_appointments (linkVisitor i k w) = w_appointments w" "w_contacts (linkVisitor i k w) = w_contacts w"
  "\<exists>p \<in> set (w_participants (linkVisitor i k w)). participant_appointmentId p = i \<and> participant_contactId p = k"
  by (auto simp: linkVisitor_def addParticipant_def bump_def list_ex_iff)

text \<open>A computation that returns has returned in its parts.\<close>

lemma bindA_returned: "bindA m k w = (Inr y, v) \<Longrightarrow> \<exists>x u. m w = (Inr x, u) \<and> k x u = (Inr y, v)"
  by (auto simp: bindA_def split: prod.splits sum.splits)

lemma modify_then: "thenA (modifyA f) k w = k (f w)"
  by (simp add: thenA_def bindA_def)

lemma scheduled_frame:
  "w_appointments (onEventScheduled now t i j v) = w_appointments v"
  "w_contacts (onEventScheduled now t i j v) = w_contacts v"
  "w_participants (onEventScheduled now t i j v) = w_participants v"
  using arg_cong [OF fireTrigger_frame [of now t "''appointment_created''" i j v], of w_participants]
  by (simp_all add: onEventScheduled_def frame_simps)

lemma bookVisitor_writes:
  assumes "bookVisitor E now t d s time w = (Inr b, w')" and "truthy (bk_phone d) \<or> truthy (bk_email d)"
  obtains a k where "w_appointments w' = w_appointments w @ [a]" "appointment_id a = bo_appointmentId b"
    "\<exists>i j. a = widgetAppointment t s time i j" "k \<in> set (w_contacts w')" "isVisitor t d k"
    "\<exists>p \<in> set (w_participants w'). participant_appointmentId p = appointment_id a \<and> participant_contactId p = contact_id k"
proof -
  obtain cust w1 where w1: "ensureWidgetCustomer t d w = (Inr cust, w1)"
    and r1: "bindA (insertAppointment (widgetAppointment t s time (customer_id cust))) (\<lambda>a.
      bindA (ensureWidgetContact now t d) (\<lambda>k. thenA (modifyA (linkVisitor (appointment_id a) (contact_id k)))
      (bindA (remindVisitor E now t (appointment_id a) (contact_id k)) (\<lambda>n.
       thenA (modifyA (onEventScheduled now t (appointment_id a) (widgetData t a cust (contact_id k))))
        (returnA \<lparr>bo_appointmentId = appointment_id a, bo_service = service_name s, bo_scheduledAt = time,
           bo_remindersScheduled = n\<rparr>))))) w1 = (Inr b, w')"
    using bindA_returned [OF assms(1) [unfolded bookVisitor_def]] by blast
  define a where "a = widgetAppointment t s time (customer_id cust) (newId w1)"
  define w2 where "w2 = bump (w1\<lparr>w_appointments := w_appointments w1 @ [a]\<rparr>)"
  have ins: "insertAppointment (widgetAppointment t s time (customer_id cust)) w1 = (Inr a, w2)"
    by (simp add: insertAppointment_def a_def w2_def)
  obtain k w3 where k: "ensureWidgetContact now t d w2 = (Inr k, w3)"
    and r3: "thenA (modifyA (linkVisitor (appointment_id a) (contact_id k)))
      (bindA (remindVisitor E now t (appointment_id a) (contact_id k)) (\<lambda>n.
       thenA (modifyA (onEventScheduled now t (appointment_id a) (widgetData t a cust (contact_id k))))
        (returnA \<lparr>bo_appointmentId = appointment_id a, bo_service = service_name s, bo_scheduledAt = time,
           bo_remindersScheduled = n\<rparr>))) w3 = (Inr b, w')"
    using bindA_returned [OF r1 [unfolded bindA_ok [where m = "insertAppointment (widgetAppointment t s time (customer_id cust))", OF ins]]] by blast
  let ?w4 = "linkVisitor (appointment_id a) (contact_id k) w3"
  obtain n w5 where w5: "remindVisitor E now t (appointment_id a) (contact_id k) ?w4 = (Inr n, w5)"
    and r5: "returnA \<lparr>bo_appointmentId = appointment_id a, bo_service = service_name s, bo_scheduledAt = time,
           bo_remindersScheduled = n\<rparr> (onEventScheduled now t (appointment_id a) (widgetData t a cust (contact_id k)) w5) =
        (Inr b, w')"
    using bindA_returned [OF r3 [unfolded modify_then]] by blast
  have last: "b = \<lparr>bo_appointmentId = appointment_id a, bo_service = service_name s, bo_scheduledAt = time,
      bo_remindersScheduled = n\<rparr>"
    "w' = onEventScheduled now t (appointment_id a) (widgetData t a cust (contact_id k)) w5"
    using r5 by simp_all
  have k_ok: "w_appointments w3 = w_appointments w2" "k \<in> set (w_contacts w3)" "isVisitor t d k"
    using ensureWidgetContact_ok [OF k assms(2)] by simp_all
  have five: "w_appointments w5 = w_appointments w3" "w_contacts w5 = w_contacts w3" "w_participants w5 = w_participants ?w4"
    using remindVisitor_frame [of E now t "appointment_id a" "contact_id k" ?w4] w5 by (simp_all add: linkVisitor_frame)
  have "w_appointments w' = w_appointments w @ [a]"
    using last(2) five(1) k_ok(1) ensureWidgetCustomer_frame [OF w1] by (simp add: scheduled_frame w2_def bump_def)
  moreover have "k \<in> set (w_contacts w')" using k_ok(2) five(2) by (simp add: last(2) scheduled_frame)
  moreover have "\<exists>p \<in> set (w_participants w'). participant_appointmentId p = appointment_id a \<and>
      participant_contactId p = contact_id k"
    using linkVisitor_frame(3) [of "appointment_id a" "contact_id k" w3] by (simp add: last(2) scheduled_frame five(3))
  ultimately show thesis using that [of a k] k_ok(3) by (auto simp: a_def last(1))
qed

text \<open>
  C39: What a booking of the public page writes. When it returns, the page is active, the time is not past,
  and exactly one appointment was added: scheduled, for the chosen service with its length, at the time
  asked for; and a contact of the tenant with the visitor's phone number or e-mail address takes part in it.
\<close>

theorem widget_booking_exact:
  assumes "createAppointmentFromWidget E parseDate now t d w = (Inr b, w')"
  shows "\<exists>c s time a. activeWidget t w = Some c \<and> parseDate (bk_scheduledAt d) = Some time \<and> now \<le> time \<and>
    0 \<le> bk_serviceIndex d \<and> bk_serviceIndex d < int (length (widgetConfig_services c)) \<and>
    s = widgetConfig_services c ! nat (bk_serviceIndex d) \<and> w_appointments w' = w_appointments w @ [a] \<and>
    appointment_id a = bo_appointmentId b \<and> appointment_tenantId a = t \<and> appointment_title a = service_name s \<and>
    appointment_scheduledAt a = time \<and> appointment_durationMinutes a = service_duration s \<and>
    appointment_status a = A_SCHEDULED \<and>
    (\<exists>k \<in> set (w_contacts w'). isVisitor t d k \<and> (\<exists>p \<in> set (w_participants w').
       participant_appointmentId p = appointment_id a \<and> participant_contactId p = contact_id k))"
proof -
  from assms obtain c time where c: "activeWidget t w = Some c" "0 \<le> bk_serviceIndex d"
    "bk_serviceIndex d < int (length (widgetConfig_services c))" "parseDate (bk_scheduledAt d) = Some time" "now \<le> time"
    and reach: "truthy (bk_phone d) \<or> truthy (bk_email d)"
    and run: "bookVisitor E now t d (widgetConfig_services c ! nat (bk_serviceIndex d)) time w = (Inr b, w')"
    by (auto simp: createAppointmentFromWidget_def Let_def not_less not_le split: option.splits if_splits)
  obtain a k where a: "w_appointments w' = w_appointments w @ [a]" "appointment_id a = bo_appointmentId b"
    "\<exists>i j. a = widgetAppointment t (widgetConfig_services c ! nat (bk_serviceIndex d)) time i j"
    and k: "k \<in> set (w_contacts w')" "isVisitor t d k" "\<exists>p \<in> set (w_participants w').
      participant_appointmentId p = appointment_id a \<and> participant_contactId p = contact_id k"
    using bookVisitor_writes [OF run reach] by blast
  have "\<exists>k \<in> set (w_contacts w'). isVisitor t d k \<and> (\<exists>p \<in> set (w_participants w').
       participant_appointmentId p = appointment_id a \<and> participant_contactId p = contact_id k)" using k by blast
  then show ?thesis using c a by (intro exI [of _ c] exI [of _ time] exI [of _ a] exI) (auto simp: widgetAppointment_def)
qed

section \<open>A concrete page\<close>

text \<open>Thursday, 29 February 2024, with an hour taken at ten.\<close>

definition leapDay :: instant where
  "leapDay = 1709164800000"

definition salon :: widgetConfig where
  "salon = \<lparr>widgetConfig_tenantId = ''t1'', widgetConfig_businessName = ''Salon'', widgetConfig_welcomeMessage = None,
     widgetConfig_services = [\<lparr>service_name = ''Cut'', service_duration = 60, service_price = None\<rparr>],
     widgetConfig_accentColor = DEFAULT_ACCENT, widgetConfig_workingDays = [1, 2, 3, 4, 5],
     widgetConfig_workingHoursStart = ''09:00'', widgetConfig_workingHoursEnd = ''12:00'',
     widgetConfig_slotDuration = 60, widgetConfig_isActive = True\<rparr>"

definition takenHour :: appointment where
  "takenHour = widgetAppointment ''t1'' \<lparr>service_name = ''Cut'', service_duration = 60, service_price = None\<rparr>
     (leapDay + 36000000) ''u1'' ''a1''"

definition salonWorld :: world where
  "salonWorld = bookWorld\<lparr>w_widgetConfigs := [salon], w_appointments := [takenHour]\<rparr>"

definition visit :: CreateBookingDto where
  "visit = \<lparr>bk_name = ''Zoe Day'', bk_phone = Some ''+15550007'', bk_email = None, bk_serviceIndex = 0,
     bk_scheduledAt = ''2024-02-29T10:00:00Z''\<rparr>"

theorem widget_offers_free_times_witness:
  "\<exists>ts. getAvailableSlots demoEnv ''t1'' ''2024-02-29'' 60 salonWorld = Some (Inr (map slotText ts)) \<and>
     540 \<in> set ts \<and> 600 \<notin> set ts"
proof -
  have a: "activeWidget ''t1'' salonWorld = Some salon" "localDate demoEnv ''2024-02-29'' = Some leapDay"
    "isoDay demoEnv leapDay \<in> set (widgetConfig_workingDays salon)"
    "minuteOfDay (widgetConfig_workingHoursStart salon) = Some 540"
    "minuteOfDay (widgetConfig_workingHoursEnd salon) = Some 720" "0 < widgetConfig_slotDuration salon" by code_simp+
  have busy: "dayAppointments ''t1'' leapDay salonWorld = [takenHour]"
    "localMinutes demoEnv (appointment_scheduledAt takenHour) = 600" "appointment_durationMinutes takenHour = 60"
    by code_simp+
  have step: "widgetConfig_slotDuration salon = 60" by code_simp
  obtain ts where ts: "getAvailableSlots demoEnv ''t1'' ''2024-02-29'' 60 salonWorld = Some (Inr (map slotText ts))"
    "\<And>x. x \<in> set ts \<longleftrightarrow> (\<exists>k. x = 540 + int k * widgetConfig_slotDuration salon) \<and> x + 60 \<le> 720 \<and>
       isFree demoEnv ''t1'' leapDay 60 x salonWorld"
    using widget_offers_free_times [OF a, of 60] by blast
  have "540 \<in> set ts" unfolding ts(2) isFree_def busy(1) using busy(2,3) step by (auto intro: exI [of _ 0])
  moreover have "600 \<notin> set ts" unfolding ts(2) isFree_def busy(1) using busy(2,3) by auto
  ultimately show ?thesis using ts(1) by blast
qed

abbreviation salonBooking :: "Booking outcome \<times> world" where
  "salonBooking \<equiv> createAppointmentFromWidget demoEnv (\<lambda>_. Some (leapDay + 36000000)) 0 ''t1'' visit salonWorld"

lemma salonBooking_returns: "\<exists>b. salonBooking = (Inr b, snd salonBooking)"
proof -
  have "is_ok (fst salonBooking)" by code_simp
  then show ?thesis by (cases salonBooking) (auto simp: is_ok_def split: sum.splits)
qed

theorem widget_booking_exact_witness:
  "\<exists>a. w_appointments (snd salonBooking) = [takenHour, a] \<and> appointment_scheduledAt a = leapDay + 36000000 \<and>
     appointment_title a = ''Cut''"
proof -
  obtain b where b: "salonBooking = (Inr b, snd salonBooking)" using salonBooking_returns by blast
  have "activeWidget ''t1'' salonWorld = Some salon" "w_appointments salonWorld = [takenHour]"
    "service_name (widgetConfig_services salon ! nat (bk_serviceIndex visit)) = ''Cut''" by code_simp+
  then show ?thesis using widget_booking_exact [OF b] by auto
qed

text \<open>
  The time was taken: a booking does not look at the appointments (nor at the working hours), and both stand
  at the same hour.
\<close>

lemma widget_books_taken_hour:
  "\<not> isFree demoEnv ''t1'' leapDay 60 600 salonWorld \<and> is_ok (fst salonBooking) \<and>
   map appointment_scheduledAt (w_appointments (snd salonBooking)) = [leapDay + 36000000, leapDay + 36000000]"
  by code_simp
end
