(* ===== verification/Accounts.thy ===== *)
theory Accounts
  imports Messaging Cascades "HOL-Library.AList"
begin

text \<open>
  Accounts: \<open>modules/auth/auth.service.ts\<close> (registration, login, sessions, password reset, Google sign-in),
  \<open>modules/user/user.service.ts\<close> (own profile and team members), \<open>modules/tenant/tenant.service.ts\<close>
  (settings), with the guards in front of them. What bcrypt, SHA-256, the JWT library and the e-mail check
  of class-validator answer is the record \<open>auth_env\<close>; salts and random tokens are arguments.
\<close>

section \<open>What the libraries provide\<close>

text \<open>
  The two kinds of token have their own secret and lifetime: \<open>JWT_SECRET\<close> with 15 minutes and
  \<open>JWT_REFRESH_SECRET\<close> with 7 days. \<open>au_hash rounds salt s\<close> is \<open>bcrypt.hash\<close>, \<open>au_matches s h\<close>
  \<open>bcrypt.compare\<close>; \<open>au_sign\<close> signs at an instant and \<open>au_verify\<close> is what passport makes of a token.
\<close>

datatype token_kind = ACCESS | REFRESH

record JwtPayload =
  jp_sub :: uuid
  jp_email :: string
  jp_role :: UserRole
  jp_tenantId :: uuid

record auth_env =
  au_hash :: "nat \<Rightarrow> string \<Rightarrow> string \<Rightarrow> string"
  au_matches :: "string \<Rightarrow> string \<Rightarrow> bool"
  au_sha256 :: "string \<Rightarrow> string"
  au_sign :: "token_kind \<Rightarrow> JwtPayload \<Rightarrow> instant \<Rightarrow> string"
  au_verify :: "token_kind \<Rightarrow> string \<Rightarrow> instant \<Rightarrow> JwtPayload option"
  au_isEmail :: "string \<Rightarrow> bool"

section \<open>Requests\<close>

text \<open>\<open>PASSWORD_REGEX\<close>: one letter of each case, one digit and one special character, and nothing else.\<close>

definition isSpecial :: "char \<Rightarrow> bool" where
  "isSpecial c = (c \<in> set ''@$!%*?&._-#'')"

definition strongPassword :: "string \<Rightarrow> bool" where
  "strongPassword s =
     (8 \<le> length s \<and> list_ex is_lower s \<and> list_ex is_upper s \<and> list_ex is_digit s \<and> list_ex isSpecial s \<and>
      list_all (\<lambda>c. is_lower c \<or> is_upper c \<or> is_digit c \<or> isSpecial c) s)"

record RegisterDto =
  rg_email :: string
  rg_password :: string
  rg_tenantName :: string
  rg_firstName :: "string option"
  rg_lastName :: "string option"
  rg_timezone :: "string option"

definition validRegistration :: "auth_env \<Rightarrow> RegisterDto \<Rightarrow> bool" where
  "validRegistration A dto = (au_isEmail A (rg_email dto) \<and> strongPassword (rg_password dto))"

definition validLogin :: "auth_env \<Rightarrow> string \<Rightarrow> string \<Rightarrow> bool" where
  "validLogin A email password = (au_isEmail A email \<and> 8 \<le> length password)"

section \<open>Rows\<close>

definition userByEmail :: "string \<Rightarrow> world \<Rightarrow> user option" where
  "userByEmail e w = List.find (\<lambda>u. user_email u = e) (w_users w)"

definition userById :: "uuid \<Rightarrow> world \<Rightarrow> user option" where
  "userById i w = List.find (\<lambda>u. user_id u = i) (w_users w)"

abbreviation putUsers :: "user list \<Rightarrow> world \<Rightarrow> world" where
  "putUsers rs w \<equiv> w\<lparr>w_users := rs\<rparr>"

interpretation users: keyed_table w_users putUsers user_id
  by unfold_locales simp_all

definition updateUser :: "uuid \<Rightarrow> (user \<Rightarrow> user) \<Rightarrow> unit act" where
  "updateUser = updateRow w_users putUsers user_id"

text \<open>
  \<open>tenant.create\<close>: the slug is unique. What registration and Google sign-in do not set has the default of
  the schema; the limits come from the configuration.
\<close>

definition newTenant :: "env \<Rightarrow> instant \<Rightarrow> string \<Rightarrow> string \<Rightarrow> json \<Rightarrow> uuid \<Rightarrow> tenant" where
  "newTenant E now title slug settings i =
     \<lparr>tenant_id = i, tenant_name = title, tenant_slug = slug, tenant_settings = settings,
      tenant_aiMonthlyLimit = coalesce (e_configNum E ''AI_MONTHLY_LIMIT'') 50,
      tenant_aiTrialLimit = coalesce (e_configNum E ''TRIAL_AI_LIMIT'') 5, tenant_aiUsageCount = 0,
      tenant_planType = PLAN_SMS, tenant_smsTrialLimit = coalesce (e_configNum E ''TRIAL_SMS_LIMIT'') 100,
      tenant_smsUsageCount = 0, tenant_subscriptionRenewalDate = None, tenant_subscriptionStatus = TRIALING,
      tenant_trialActive = False, tenant_trialEndDate = None, tenant_trialStartDate = now,
      tenant_voiceUsageCount = 0, tenant_paystackCustomerId = None, tenant_whatsappMonthlyLimit = 500,
      tenant_whatsappUsageCount = 0, tenant_contactLimit = 1000, tenant_eventLimit = 50,
      tenant_workflowLimit = 10, tenant_automationExecutionsThisMonth = 0, tenant_lastResetDate = now\<rparr>"

definition insertTenant :: "(uuid \<Rightarrow> tenant) \<Rightarrow> uuid act" where
  "insertTenant mk w =
     (if tenant_slug (mk (newId w)) \<in> tenant_slug ` set (w_tenants w) then (Inl (PrismaError ''P2002''), w)
      else (Inr (newId w), bump (w\<lparr>w_tenants := w_tenants w @ [mk (newId w)]\<rparr>)))"

text \<open>
  \<open>user.create\<close>: the column of the password hash is not optional, so that Prisma refuses \<open>null\<close> before it
  asks the database; a tenant has each address once.
\<close>

definition sameAddress :: "user \<Rightarrow> user \<Rightarrow> bool" where
  "sameAddress u v = (user_tenantId u = user_tenantId v \<and> user_email u = user_email v)"

definition insertUser :: "string option \<Rightarrow> (string \<Rightarrow> uuid \<Rightarrow> user) \<Rightarrow> user act" where
  "insertUser hash mk w =
     (case hash of
        None \<Rightarrow> (Inl (PrismaError ''PrismaClientValidationError''), w)
      | Some h \<Rightarrow>
          (let u = mk h (newId w)
           in if \<not> tenantExists (user_tenantId u) w then (Inl (PrismaError ''P2003''), w)
              else if list_ex (sameAddress u) (w_users w) then (Inl (PrismaError ''P2002''), w)
              else (Inr u, bump (w\<lparr>w_users := w_users w @ [u]\<rparr>))))"

definition ownerRow ::
  "instant \<Rightarrow> string \<Rightarrow> string option \<Rightarrow> string option \<Rightarrow> uuid \<Rightarrow> string \<Rightarrow> uuid \<Rightarrow> user" where
  "ownerRow now email firstName lastName tenantId hash i =
     \<lparr>user_id = i, user_tenantId = tenantId, user_email = email, user_firstName = firstName,
      user_lastName = lastName, user_role = OWNER, user_passwordHash = hash, user_refreshToken = None,
      user_createdAt = now, user_passwordResetExpiresAt = None, user_passwordResetTokenHash = None\<rparr>"

section \<open>Sessions\<close>

record AuthResult =
  ar_userId :: uuid
  ar_email :: string
  ar_role :: UserRole
  ar_tenantId :: uuid
  ar_accessToken :: string
  ar_refreshToken :: string

definition payloadOf :: "user \<Rightarrow> JwtPayload" where
  "payloadOf u = \<lparr>jp_sub = user_id u, jp_email = user_email u, jp_role = user_role u, jp_tenantId = user_tenantId u\<rparr>"

definition generateTokens :: "auth_env \<Rightarrow> instant \<Rightarrow> user \<Rightarrow> string \<times> string" where
  "generateTokens A now u = (au_sign A ACCESS (payloadOf u) now, au_sign A REFRESH (payloadOf u) now)"

definition updateRefreshToken :: "auth_env \<Rightarrow> string \<Rightarrow> uuid \<Rightarrow> string \<Rightarrow> unit act" where
  "updateRefreshToken A salt userId token =
     updateUser userId (\<lambda>u. u\<lparr>user_refreshToken := Some (au_hash A 12 salt token)\<rparr>)"

definition openSession :: "auth_env \<Rightarrow> instant \<Rightarrow> string \<Rightarrow> user \<Rightarrow> AuthResult act" where
  "openSession A now salt u =
     (let (access, refresh) = generateTokens A now u
      in thenA (updateRefreshToken A salt (user_id u) refresh)
           (returnA \<lparr>ar_userId = user_id u, ar_email = user_email u, ar_role = user_role u,
              ar_tenantId = user_tenantId u, ar_accessToken = access, ar_refreshToken = refresh\<rparr>))"

section \<open>Registration\<close>

text \<open>\<open>replace(/[^a-z0-9]+/g, '-').replace(/^-|-$/g, '')\<close> on the lower-cased name.\<close>

definition isPlain :: "char \<Rightarrow> bool" where
  "isPlain c = (is_lower c \<or> is_digit c)"

definition trimDash :: "string \<Rightarrow> string" where
  "trimDash s =
     (let t = (case s of c # r \<Rightarrow> if c = CHR ''-'' then r else s | [] \<Rightarrow> [])
      in if t \<noteq> [] \<and> last t = CHR ''-'' then butlast t else t)"

definition tenantSlug :: "instant \<Rightarrow> string \<Rightarrow> string" where
  "tenantSlug now title =
     trimDash (replaceRuns (\<lambda>c. \<not> isPlain c) ''-'' (toLowerCase title)) @ ''-'' @ show_int now"

definition signupTimezone :: "string option \<Rightarrow> string" where
  "signupTimezone tz = (case tz of Some z \<Rightarrow> if trim z \<noteq> [] then trim z else ''UTC'' | None \<Rightarrow> ''UTC'')"

definition welcomeMail :: "env \<Rightarrow> string \<Rightarrow> string \<Rightarrow> world \<Rightarrow> world" where
  "welcomeMail E email firstName =
     email_send E email (''Welcome to Meetora '' @ [CHR 0xF0, CHR 0x9F, CHR 0x9A, CHR 0x80])
       (''Hi '' @ firstName @ ''! Welcome to Meetora. Get started by selecting your plan and entering your '' @
        ''card details to activate your 14-day free trial.'') None None"

definition createOwner :: "(uuid \<Rightarrow> tenant) \<Rightarrow> string option \<Rightarrow> (uuid \<Rightarrow> string \<Rightarrow> uuid \<Rightarrow> user) \<Rightarrow> user act" where
  "createOwner mkTenant hash mkUser =
     transactionA (bindA (insertTenant mkTenant) (\<lambda>t. insertUser hash (mkUser t)))"

definition register ::
  "env \<Rightarrow> auth_env \<Rightarrow> instant \<Rightarrow> string \<Rightarrow> string \<Rightarrow> RegisterDto \<Rightarrow> AuthResult act" where
  "register E A now salt salt' dto w =
     (if userByEmail (rg_email dto) w \<noteq> None then (Inl (ConflictException ''Email already registered''), w)
      else bindA
        (createOwner
           (newTenant E now (rg_tenantName dto) (tenantSlug now (rg_tenantName dto))
              (JObj [(''timezone'', JStr (signupTimezone (rg_timezone dto)))]))
           (Some (au_hash A 12 salt (rg_password dto)))
           (ownerRow now (rg_email dto) (rg_firstName dto) (rg_lastName dto)))
        (\<lambda>u. bindA (openSession A now salt' u) (\<lambda>r.
           thenA (modifyA (welcomeMail E (user_email u) (the (or_str (user_firstName u) (Some ''there'')))))
             (returnA r))) w)"

section \<open>Login, refresh, logout\<close>

definition invalidCredentials :: exn where
  "invalidCredentials = UnauthorizedException ''Invalid credentials''"

definition login :: "auth_env \<Rightarrow> instant \<Rightarrow> string \<Rightarrow> string \<Rightarrow> string \<Rightarrow> AuthResult act" where
  "login A now salt email password w =
     (case userByEmail email w of
        None \<Rightarrow> (Inl invalidCredentials, w)
      | Some u \<Rightarrow>
          if user_passwordHash u = [] \<or> \<not> au_matches A password (user_passwordHash u)
          then (Inl invalidCredentials, w)
          else openSession A now salt u w)"

definition accessDenied :: exn where
  "accessDenied = UnauthorizedException ''Access denied''"

definition refreshTokens :: "auth_env \<Rightarrow> instant \<Rightarrow> string \<Rightarrow> uuid \<Rightarrow> string \<Rightarrow> AuthResult act" where
  "refreshTokens A now salt userId token w =
     (case userById userId w of
        None \<Rightarrow> (Inl accessDenied, w)
      | Some u \<Rightarrow>
          (case user_refreshToken u of
             None \<Rightarrow> (Inl accessDenied, w)
           | Some h \<Rightarrow>
               if h = [] \<or> \<not> au_matches A token h then (Inl accessDenied, w)
               else openSession A now salt u w))"

definition logout :: "uuid \<Rightarrow> unit act" where
  "logout userId = updateUser userId (\<lambda>u. u\<lparr>user_refreshToken := None\<rparr>)"

text \<open>
  The route of a refresh. Passport takes the token from the cookie or else from the body and verifies it; then
  the body is validated as \<open>RefreshTokenDto\<close>, whose only field is a text that has to be present; then the
  service runs with the token of the cookie, if there is one.
\<close>

definition refreshRoute ::
  "auth_env \<Rightarrow> instant \<Rightarrow> string \<Rightarrow> string option \<Rightarrow> json option \<Rightarrow> AuthResult act" where
  "refreshRoute A now salt cookie field w =
     (case Option.bind (or_str cookie (jstr field)) (\<lambda>t. au_verify A REFRESH t now) of
        None \<Rightarrow> (Inl (UnauthorizedException ''Unauthorized''), w)
      | Some p \<Rightarrow>
          if jstr field = None then (Inl (BadRequestException ''refreshToken must be a string''), w)
          else refreshTokens A now salt (jp_sub p) (case cookie of Some c \<Rightarrow> c | None \<Rightarrow> the (jstr field)) w)"

section \<open>Password reset\<close>

definition setPasswordUrl :: "env \<Rightarrow> string \<Rightarrow> string \<Rightarrow> string" where
  "setPasswordUrl E base raw = conf E ''FRONTEND_URL'' base @ ''/reset-password?token='' @ raw"

definition resetMail :: "env \<Rightarrow> string \<Rightarrow> string \<Rightarrow> world \<Rightarrow> world" where
  "resetMail E email url =
     email_send E email ''Reset your Meetora password''
       (''Reset your password here: '' @ url @ [CHR 0x0A, CHR 0x0A] @ ''This link expires in 1 hour.'' @
        [CHR 0x0A, CHR 0x0A] @ ''If you didn'' @ [CHR 0x27] @ ''t request this, ignore this email.'') None None"

text \<open>The answer is the same whether or not the address is known.\<close>

definition forgotPassword :: "env \<Rightarrow> auth_env \<Rightarrow> instant \<Rightarrow> string \<Rightarrow> string \<Rightarrow> string act" where
  "forgotPassword E A now raw email w =
     (let answer = ''If that email is registered, a reset link has been sent.''
      in case userByEmail email w of
           None \<Rightarrow> (Inr answer, w)
         | Some u \<Rightarrow>
             thenA (updateUser (user_id u) (\<lambda>v. v\<lparr>user_passwordResetTokenHash := Some (au_sha256 A raw),
                      user_passwordResetExpiresAt := Some (now + 60 * 60 * 1000)\<rparr>))
               (thenA (modifyA (resetMail E (user_email u) (setPasswordUrl E ''http://localhost:3000'' raw)))
                 (thenA (audit_log (auditEntry (user_tenantId u) (Some (user_id u)) ''CREATE'' ''PasswordReset''
                      (user_id u) [(''requested'', JBool True), (''expiresAt'', JDate (now + 60 * 60 * 1000))]))
                   (returnA answer))) w)"

definition holdsLink :: "auth_env \<Rightarrow> instant \<Rightarrow> string \<Rightarrow> user \<Rightarrow> bool" where
  "holdsLink A now token u =
     (user_passwordResetTokenHash u = Some (au_sha256 A token) \<and>
      (case user_passwordResetExpiresAt u of None \<Rightarrow> False | Some e \<Rightarrow> now \<le> e))"

definition resetPassword :: "auth_env \<Rightarrow> instant \<Rightarrow> string \<Rightarrow> string \<Rightarrow> string \<Rightarrow> string act" where
  "resetPassword A now salt token newPassword w =
     (case List.find (holdsLink A now token) (w_users w) of
        None \<Rightarrow> (Inl (BadRequestException ''Reset link is invalid or has expired. Please request a new one.''), w)
      | Some u \<Rightarrow>
          thenA (updateUser (user_id u) (\<lambda>v. v\<lparr>user_passwordHash := au_hash A 12 salt newPassword,
                   user_passwordResetTokenHash := None, user_passwordResetExpiresAt := None,
                   user_refreshToken := None\<rparr>))
            (thenA (audit_log (auditEntry (user_tenantId u) (Some (user_id u)) ''UPDATE'' ''PasswordReset''
                 (user_id u) [(''completed'', JBool True), (''sessionsInvalidated'', JBool True)]))
              (returnA ''Password updated successfully. Please log in with your new password.'')) w)"

section \<open>Google sign-in\<close>

definition oauthSlug :: "instant \<Rightarrow> string \<Rightarrow> string" where
  "oauthSlug now firstName =
     (if firstName = [] then ''tenant'' else filter isPlain (toLowerCase firstName)) @ ''-'' @ show_int now"

definition validateOAuthLogin ::
  "env \<Rightarrow> auth_env \<Rightarrow> instant \<Rightarrow> string \<Rightarrow> string \<Rightarrow> string \<Rightarrow> string \<Rightarrow> AuthResult act" where
  "validateOAuthLogin E A now salt email firstName lastName w =
     (case userByEmail email w of
        Some u \<Rightarrow> openSession A now salt u w
      | None \<Rightarrow>
          bindA (createOwner
                   (newTenant E now (firstName @ [CHR 0x27] @ ''s Workspace'') (oauthSlug now firstName) (JObj []))
                   None (ownerRow now email (Some firstName) (Some lastName)))
            (openSession A now salt) w)"

section \<open>The own profile\<close>

record Member =
  mb_id :: uuid
  mb_email :: string
  mb_firstName :: "string option"
  mb_lastName :: "string option"
  mb_role :: UserRole
  mb_createdAt :: instant

definition memberOf :: "user \<Rightarrow> Member" where
  "memberOf u = \<lparr>mb_id = user_id u, mb_email = user_email u, mb_firstName = user_firstName u,
     mb_lastName = user_lastName u, mb_role = user_role u, mb_createdAt = user_createdAt u\<rparr>"

text \<open>\<open>tenant.settings\<close>: an object; where a row has none, \<open>{}\<close>.\<close>

definition settingsOf :: "uuid \<Rightarrow> world \<Rightarrow> (string \<times> json) list" where
  "settingsOf tenantId w =
     (case findTenant tenantId w of
        None \<Rightarrow> []
      | Some x \<Rightarrow> (case tenant_settings x of JObj kvs \<Rightarrow> kvs | _ \<Rightarrow> []))"

definition timezoneIn :: "(string \<times> json) list \<Rightarrow> string" where
  "timezoneIn kvs =
     (case map_of kvs ''timezone'' of Some (JStr z) \<Rightarrow> if trim z \<noteq> [] then z else ''UTC'' | _ \<Rightarrow> ''UTC'')"

record Profile =
  pf_member :: Member
  pf_tenantId :: uuid
  pf_timezone :: string

definition userNotFound :: exn where
  "userNotFound = NotFoundException ''User not found''"

definition getMe :: "uuid \<Rightarrow> Profile act" where
  "getMe userId w =
     (case userById userId w of
        None \<Rightarrow> (Inl userNotFound, w)
      | Some u \<Rightarrow> (Inr \<lparr>pf_member = memberOf u, pf_tenantId = user_tenantId u,
                    pf_timezone = timezoneIn (settingsOf (user_tenantId u) w)\<rparr>, w))"

text \<open>A field the request does not have is \<open>undefined\<close>, which Prisma leaves as it is.\<close>

definition updateMe :: "uuid \<Rightarrow> string option \<Rightarrow> string option \<Rightarrow> Member act" where
  "updateMe userId firstName lastName w =
     thenA (updateUser userId (\<lambda>u. u\<lparr>
              user_firstName := (if firstName = None then user_firstName u else firstName),
              user_lastName := (if lastName = None then user_lastName u else lastName)\<rparr>))
       (\<lambda>v. (Inr (memberOf (the (userById userId v))), v)) w"

section \<open>Members\<close>

text \<open>Enumerations are ordered as they are declared.\<close>

definition roleRank :: "UserRole \<Rightarrow> int" where
  "roleRank r = (case r of OWNER \<Rightarrow> 0 | ADMIN \<Rightarrow> 1 | STAFF \<Rightarrow> 2)"

definition listMembers :: "uuid \<Rightarrow> world \<Rightarrow> Member list" where
  "listMembers tenantId w =
     map memberOf (order_asc (\<lambda>u. roleRank (user_role u)) (order_asc user_createdAt
       (filter (\<lambda>u. user_tenantId u = tenantId) (w_users w))))"

record InviteUserDto =
  iu_email :: string
  iu_firstName :: "string option"
  iu_lastName :: "string option"
  iu_role :: UserRole

text \<open>\<open>@IsEnum(['ADMIN', 'STAFF'])\<close>: nobody is made an owner.\<close>

definition grantable :: "UserRole \<Rightarrow> bool" where
  "grantable r = (r \<noteq> OWNER)"

definition inviteMail :: "env \<Rightarrow> string \<Rightarrow> string option \<Rightarrow> string \<Rightarrow> world \<Rightarrow> world" where
  "inviteMail E to firstName url =
     email_send E to (''You'' @ [CHR 0x27] @ ''ve been invited to Meetora'')
       (''Hi '' @ the (or_str firstName (Some ''there'')) @ '','' @ [CHR 0x0A, CHR 0x0A] @ ''You'' @ [CHR 0x27] @
        ''ve been invited to join a team on Meetora.'' @ [CHR 0x0A, CHR 0x0A] @ ''Set your password here: '' @
        url @ [CHR 0x0A, CHR 0x0A] @ ''This link expires in 7 days.'') None None"

definition invitedRow ::
  "auth_env \<Rightarrow> instant \<Rightarrow> string \<Rightarrow> uuid \<Rightarrow> InviteUserDto \<Rightarrow> string \<Rightarrow> uuid \<Rightarrow> user" where
  "invitedRow A now raw tenantId dto hash i =
     \<lparr>user_id = i, user_tenantId = tenantId, user_email = toLowerCase (iu_email dto),
      user_firstName = iu_firstName dto, user_lastName = iu_lastName dto, user_role = iu_role dto,
      user_passwordHash = hash, user_refreshToken = None, user_createdAt = now,
      user_passwordResetExpiresAt = Some (now + 7 * 24 * 60 * 60 * 1000),
      user_passwordResetTokenHash = Some (au_sha256 A raw)\<rparr>"

definition inviteMember ::
  "env \<Rightarrow> auth_env \<Rightarrow> instant \<Rightarrow> string \<Rightarrow> string \<Rightarrow> string \<Rightarrow> uuid \<Rightarrow> UserRole \<Rightarrow> InviteUserDto \<Rightarrow> Member act" where
  "inviteMember E A now raw temp salt tenantId inviterRole dto w =
     (if inviterRole = ADMIN \<and> iu_role dto = ADMIN
      then (Inl (ForbiddenException ''Admins can only invite Staff members''), w)
      else if list_ex (\<lambda>u. user_tenantId u = tenantId \<and> user_email u = toLowerCase (iu_email dto)) (w_users w)
      then (Inl (ConflictException ''A team member with that email already exists''), w)
      else bindA (insertUser (Some (au_hash A 10 salt temp)) (invitedRow A now raw tenantId dto)) (\<lambda>u.
             thenA (modifyA (inviteMail E (iu_email dto) (iu_firstName dto)
                      (setPasswordUrl E ''http://localhost:3001'' raw @ ''&invite=1'')))
               (returnA (memberOf u))) w)"

definition memberNotFound :: exn where
  "memberNotFound = NotFoundException ''Team member not found''"

definition theMember :: "uuid \<Rightarrow> uuid \<Rightarrow> world \<Rightarrow> user option" where
  "theMember tenantId i w = List.find (\<lambda>u. user_id u = i \<and> user_tenantId u = tenantId) (w_users w)"

definition updateMemberRole :: "uuid \<Rightarrow> UserRole \<Rightarrow> uuid \<Rightarrow> UserRole \<Rightarrow> Member act" where
  "updateMemberRole tenantId updaterRole i role w =
     (case theMember tenantId i w of
        None \<Rightarrow> (Inl memberNotFound, w)
      | Some m \<Rightarrow>
          if user_role m = OWNER
          then (Inl (ForbiddenException ''Cannot change the role of the account owner''), w)
          else if updaterRole = ADMIN \<and> role = ADMIN
          then (Inl (ForbiddenException ''Admins cannot promote others to Admin''), w)
          else thenA (updateUser i (\<lambda>u. u\<lparr>user_role := role\<rparr>))
                 (\<lambda>v. (Inr (memberOf (the (userById i v))), v)) w)"

definition removeMember :: "uuid \<Rightarrow> uuid \<Rightarrow> UserRole \<Rightarrow> uuid \<Rightarrow> unit act" where
  "removeMember tenantId removerId removerRole i w =
     (if removerId = i then (Inl (ForbiddenException ''You cannot remove yourself''), w)
      else case theMember tenantId i w of
        None \<Rightarrow> (Inl memberNotFound, w)
      | Some m \<Rightarrow>
          if user_role m = OWNER then (Inl (ForbiddenException ''Cannot remove the account owner''), w)
          else if removerRole = ADMIN \<and> user_role m \<noteq> STAFF
          then (Inl (ForbiddenException ''Admins can only remove Staff members''), w)
          else (Inr (), deleteUserRow i w))"

section \<open>Guards\<close>

text \<open>
  \<open>JwtAuthGuard\<close>: whoever has a valid access token is the user the token says, with the role it says;
  \<open>RolesGuard\<close> looks at that role.
\<close>

definition authenticated :: "auth_env \<Rightarrow> instant \<Rightarrow> string option \<Rightarrow> (JwtPayload \<Rightarrow> 'a act) \<Rightarrow> 'a act" where
  "authenticated A now token k w =
     (case Option.bind token (\<lambda>t. au_verify A ACCESS t now) of
        None \<Rightarrow> (Inl (UnauthorizedException ''Unauthorized''), w)
      | Some p \<Rightarrow> k p w)"

definition rolesGuard :: "UserRole list \<Rightarrow> (JwtPayload \<Rightarrow> 'a act) \<Rightarrow> JwtPayload \<Rightarrow> 'a act" where
  "rolesGuard required k p w =
     (if required = [] \<or> jp_role p \<in> set required then k p w
      else (Inl (ForbiddenException ''Insufficient permissions''), w))"

definition inviteRoute ::
  "env \<Rightarrow> auth_env \<Rightarrow> instant \<Rightarrow> string \<Rightarrow> string \<Rightarrow> string \<Rightarrow> string option \<Rightarrow> InviteUserDto \<Rightarrow> Member act" where
  "inviteRoute E A now raw temp salt token dto =
     authenticated A now token (rolesGuard [OWNER, ADMIN] (\<lambda>p.
       if \<not> au_isEmail A (iu_email dto) \<or> \<not> grantable (iu_role dto) then throwA (BadRequestException ''Bad Request'')
       else inviteMember E A now raw temp salt (jp_tenantId p) (jp_role p) dto))"

definition roleRoute :: "auth_env \<Rightarrow> instant \<Rightarrow> string option \<Rightarrow> uuid \<Rightarrow> UserRole \<Rightarrow> Member act" where
  "roleRoute A now token i role =
     authenticated A now token (rolesGuard [OWNER, ADMIN] (\<lambda>p.
       if \<not> grantable role then throwA (BadRequestException ''Bad Request'')
       else updateMemberRole (jp_tenantId p) (jp_role p) i role))"

definition removeRoute :: "auth_env \<Rightarrow> instant \<Rightarrow> string option \<Rightarrow> uuid \<Rightarrow> unit act" where
  "removeRoute A now token i =
     authenticated A now token (rolesGuard [OWNER, ADMIN] (\<lambda>p.
       removeMember (jp_tenantId p) (jp_sub p) (jp_role p) i))"

section \<open>Settings of a tenant\<close>

text \<open>\<open>{ ...current, ...patch }\<close>: a key that is there keeps its place, a new one goes to the end.\<close>

definition spread :: "(string \<times> json) list \<Rightarrow> (string \<times> json) list \<Rightarrow> (string \<times> json) list" where
  "spread current patch = fold (\<lambda>(k, v). AList.update k v) patch current"

definition updateSettings :: "uuid \<Rightarrow> (string \<times> json) list \<Rightarrow> json act" where
  "updateSettings tenantId patch w =
     (let merged = JObj (spread (settingsOf tenantId w) patch)
      in thenA (updateTenant tenantId (\<lambda>x. x\<lparr>tenant_settings := merged\<rparr>)) (returnA merged) w)"

record SenderIdentity =
  sid_name :: "json option"
  sid_email :: "json option"
  sid_phone :: "json option"

text \<open>\<open>settings.k ?? null\<close>\<close>

definition presentIn :: "(string \<times> json) list \<Rightarrow> string \<Rightarrow> json option" where
  "presentIn kvs k = (case map_of kvs k of Some v \<Rightarrow> if v = JNull then None else Some v | None \<Rightarrow> None)"

definition getSenderIdentity :: "uuid \<Rightarrow> world \<Rightarrow> SenderIdentity" where
  "getSenderIdentity tenantId w =
     (let s = settingsOf tenantId w
      in \<lparr>sid_name = presentIn s ''senderName'', sid_email = presentIn s ''senderEmail'',
          sid_phone = presentIn s ''senderPhone''\<rparr>)"

text \<open>The body is not validated: \<open>trim\<close> of what is not a text is a \<open>TypeError\<close>.\<close>

definition trimField :: "string \<Rightarrow> json option \<Rightarrow> exn + (string \<times> json) list" where
  "trimField k v =
     (case v of
        None \<Rightarrow> Inr []
      | Some (JStr s) \<Rightarrow> Inr [(k, JStr (trim s))]
      | Some JNull \<Rightarrow> Inl (PlainError (typeError ''null'' ''trim''))
      | Some _ \<Rightarrow> Inl (PlainError (''dto.'' @ k @ ''.trim is not a function'')))"

definition identityPatch :: "SenderIdentity \<Rightarrow> exn + (string \<times> json) list" where
  "identityPatch dto =
     (case trimField ''senderName'' (sid_name dto) of
        Inl e \<Rightarrow> Inl e
      | Inr a \<Rightarrow>
          (case trimField ''senderEmail'' (sid_email dto) of
             Inl e \<Rightarrow> Inl e
           | Inr b \<Rightarrow>
               (case trimField ''senderPhone'' (sid_phone dto) of
                  Inl e \<Rightarrow> Inl e
                | Inr c \<Rightarrow> Inr (a @ b @ c))))"

definition updateSenderIdentity :: "uuid \<Rightarrow> SenderIdentity \<Rightarrow> SenderIdentity act" where
  "updateSenderIdentity tenantId dto w =
     (case identityPatch dto of
        Inl e \<Rightarrow> (Inl e, w)
      | Inr patch \<Rightarrow> bindA (updateSettings tenantId patch) (\<lambda>_ v. (Inr (getSenderIdentity tenantId v), v)) w)"

definition getTimezone :: "uuid \<Rightarrow> world \<Rightarrow> string" where
  "getTimezone tenantId w = timezoneIn (settingsOf tenantId w)"

definition updateTimezone :: "uuid \<Rightarrow> json option \<Rightarrow> string act" where
  "updateTimezone tenantId timezone w =
     (case timezone of
        Some (JStr z) \<Rightarrow>
          bindA (updateSettings tenantId [(''timezone'', JStr (trim z))]) (\<lambda>_ v. (Inr (getTimezone tenantId v), v)) w
      | None \<Rightarrow> (Inl (PlainError (typeError ''undefined'' ''trim'')), w)
      | Some JNull \<Rightarrow> (Inl (PlainError (typeError ''null'' ''trim'')), w)
      | Some _ \<Rightarrow> (Inl (PlainError ''timezone.trim is not a function''), w))"

end
