(* ===== verification/Account_Properties.thy ===== *)
theory Account_Properties
  imports Accounts Rate_Limit Usage_Quota
begin

text \<open>
  What the accounts guarantee: an abstract table of owners that no request of anybody changes, the life of a
  reset link, sessions and what ends them, and the merge of settings.
\<close>

section \<open>Frames\<close>

lemma email_send_frame [simp]:
  "w_users (email_send E to s b n f w) = w_users w" "w_tenants (email_send E to s b n f w) = w_tenants w"
  "w_uuid (email_send E to s b n f w) = w_uuid w" "w_next (email_send E to s b n f w) = w_next w"
  by (simp_all add: email_send_def handOver_def Let_def)

lemma mails_frame [simp]:
  "w_users (welcomeMail E a b w) = w_users w" "w_users (resetMail E a b w) = w_users w"
  "w_users (inviteMail E a c b w) = w_users w"
  "w_tenants (welcomeMail E a b w) = w_tenants w" "w_tenants (resetMail E a b w) = w_tenants w"
  "w_tenants (inviteMail E a c b w) = w_tenants w"
  "w_uuid (welcomeMail E a b w) = w_uuid w" "w_uuid (resetMail E a b w) = w_uuid w"
  "w_uuid (inviteMail E a c b w) = w_uuid w"
  "w_next (welcomeMail E a b w) = w_next w" "w_next (resetMail E a b w) = w_next w"
  "w_next (inviteMail E a c b w) = w_next w"
  by (simp_all add: welcomeMail_def resetMail_def inviteMail_def)

lemma audit_log_next: "w_next w \<le> w_next (snd (audit_log e w))"
  by (simp add: audit_log_def bump_def)

lemma updateUser_run: "updateUser i f w =
    (if i \<in> user_id ` set (w_users w)
     then (Inr (), w\<lparr>w_users := update_where (\<lambda>u. user_id u = i) f (w_users w)\<rparr>)
     else (Inl (PrismaError ''P2025''), w))"
  by (simp add: updateUser_def updateRow_def)

section \<open>Owners\<close>

text \<open>
  The abstract state: for each tenant the users who own it. \<open>accountRows\<close> is what the database guarantees:
  the ids of users are distinct and ids still to be drawn are not in use.
\<close>

definition ownersOf :: "uuid \<Rightarrow> world \<Rightarrow> (uuid \<times> string) list" where
  "ownersOf t w = map (\<lambda>u. (user_id u, user_email u)) (filter (\<lambda>u. user_tenantId u = t \<and> user_role u = OWNER) (w_users w))"

definition accountRows :: "world \<Rightarrow> bool" where
  "accountRows w =
     (distinct (map user_id (w_users w)) \<and> inj (w_uuid w) \<and>
      (\<forall>n \<ge> w_next w. w_uuid w n \<notin> user_id ` set (w_users w) \<and> w_uuid w n \<notin> user_tenantId ` set (w_users w) \<and>
         w_uuid w n \<notin> tenant_id ` set (w_tenants w)))"

text \<open>What a step may do: owners of tenants that were there stay; a tenant that is new has one.\<close>

definition ownersKept :: "world \<Rightarrow> world \<Rightarrow> bool" where
  "ownersKept w v =
     (accountRows v \<and> (\<forall>t. tenantExists t w \<longrightarrow> tenantExists t v \<and> ownersOf t v = ownersOf t w) \<and>
      (\<forall>t. tenantExists t v \<longrightarrow> \<not> tenantExists t w \<longrightarrow> length (ownersOf t v) = 1))"

lemma ownersKept_refl: "accountRows w \<Longrightarrow> ownersKept w w"
  by (simp add: ownersKept_def)

lemma ownersKept_trans: "ownersKept u v \<Longrightarrow> ownersKept v w \<Longrightarrow> ownersKept u w"
  by (auto simp: ownersKept_def)

lemma accountRows_cong:
  "w_users v = w_users w \<Longrightarrow> w_tenants v = w_tenants w \<Longrightarrow> w_uuid v = w_uuid w \<Longrightarrow> w_next w \<le> w_next v \<Longrightarrow>
   accountRows w \<Longrightarrow> accountRows v"
  by (auto simp: accountRows_def)

lemma ownersKept_cong:
  assumes "ownersKept u w" and "w_users v = w_users w" and "w_tenants v = w_tenants w"
    and "w_uuid v = w_uuid w" and "w_next w \<le> w_next v"
  shows "ownersKept u v"
proof -
  have "tenantExists t v = tenantExists t w" "ownersOf t v = ownersOf t w" for t
    using assms(2,3) by (simp_all add: tenantExists_def ownersOf_def)
  then show ?thesis
    using assms accountRows_cong [OF assms(2-5)] by (simp add: ownersKept_def)
qed

text \<open>Changing a row without touching who it is.\<close>

definition sameIdentity :: "(user \<Rightarrow> user) \<Rightarrow> bool" where
  "sameIdentity f = (\<forall>u. user_id (f u) = user_id u \<and> user_tenantId (f u) = user_tenantId u \<and>
     user_email (f u) = user_email u \<and> user_role (f u) = user_role u)"

lemma accountRows_update:
  assumes "accountRows w" and "\<And>u. user_id (f u) = user_id u \<and> user_tenantId (f u) = user_tenantId u"
  shows "accountRows (w\<lparr>w_users := update_where p f (w_users w)\<rparr>)"
proof -
  have "map user_id (update_where p f us) = map user_id us" for us
    using assms(2) by (simp add: map_update_where_same)
  moreover have "map user_tenantId (update_where p f us) = map user_tenantId us" for us
    using assms(2) by (simp add: map_update_where_same)
  ultimately show ?thesis
    using assms(1) by (simp add: accountRows_def flip: set_map)
qed

lemma ownersOf_update:
  assumes "\<And>u. p u \<Longrightarrow> u \<in> set (w_users w) \<Longrightarrow> user_id (f u) = user_id u \<and> user_tenantId (f u) = user_tenantId u \<and>
      user_email (f u) = user_email u \<and> (user_role (f u) = OWNER) = (user_role u = OWNER)"
  shows "ownersOf t (w\<lparr>w_users := update_where p f (w_users w)\<rparr>) = ownersOf t w"
proof -
  have "map (\<lambda>u. (user_id u, user_email u)) (filter (\<lambda>u. user_tenantId u = t \<and> user_role u = OWNER) (update_where p f us)) =
      map (\<lambda>u. (user_id u, user_email u)) (filter (\<lambda>u. user_tenantId u = t \<and> user_role u = OWNER) us)"
    if "set us \<subseteq> set (w_users w)" for us
    using that by (induction us) (auto simp: assms)
  then show ?thesis by (simp add: ownersOf_def)
qed

lemma updateUser_owners:
  assumes "accountRows w" and "sameIdentity f"
  shows "ownersKept w (snd (updateUser i f w))"
  using assms accountRows_update [OF assms(1), of f] ownersOf_update [of _ w f]
  by (auto simp: updateUser_run ownersKept_def tenantExists_def sameIdentity_def)

lemma then_owners:
  assumes "accountRows w" and "sameIdentity f"
    and "\<And>v. w_users (snd (k v)) = w_users v" and "\<And>v. w_tenants (snd (k v)) = w_tenants v"
    and "\<And>v. w_uuid (snd (k v)) = w_uuid v" and "\<And>v. w_next v \<le> w_next (snd (k v))"
  shows "ownersKept w (snd (thenA (updateUser i f) k w))"
proof (cases "updateUser i f w")
  case (Pair r v)
  have "ownersKept w v" using updateUser_owners [OF assms(1,2), of i] by (simp add: Pair)
  then have "ownersKept w (snd (k v))" by (rule ownersKept_cong) (simp_all add: assms)
  then show ?thesis
    using \<open>ownersKept w v\<close> by (auto simp: thenA_def bindA_def Pair split: sum.splits)
qed

lemma openSession_owners:
  assumes "accountRows w"
  shows "ownersKept w (snd (openSession A now salt u w))"
proof -
  have "ownersKept w (snd (updateRefreshToken A salt i t w))" for i t
    unfolding updateRefreshToken_def by (rule updateUser_owners [OF assms]) (simp add: sameIdentity_def)
  then show ?thesis
    by (auto simp: openSession_def generateTokens_def thenA_def bindA_def split: prod.splits sum.splits) (metis snd_conv)+
qed

lemma insertTenant_cases:
  "insertTenant mk w = (Inl (PrismaError ''P2002''), w) \<or>
   insertTenant mk w = (Inr (newId w), bump (w\<lparr>w_tenants := w_tenants w @ [mk (newId w)]\<rparr>))"
  by (simp add: insertTenant_def)

lemma newId_free:
  assumes "accountRows w"
  shows "newId w \<notin> user_id ` set (w_users w)" and "newId w \<notin> user_tenantId ` set (w_users w)"
    and "\<not> tenantExists (newId w) w"
  using assms by (auto simp: accountRows_def newId_def tenantExists_def)

lemma accountRows_drawn:
  assumes "accountRows w" and "w_uuid v = w_uuid w" and "w_next v = Suc (w_next w)"
    and "distinct (map user_id (w_users v))"
    and "user_id ` set (w_users v) \<union> user_tenantId ` set (w_users v) \<union> tenant_id ` set (w_tenants v) \<subseteq>
      insert (newId w) (user_id ` set (w_users w) \<union> user_tenantId ` set (w_users w) \<union> tenant_id ` set (w_tenants w))"
  shows "accountRows v"
proof -
  let ?new = "user_id ` set (w_users v) \<union> user_tenantId ` set (w_users v) \<union> tenant_id ` set (w_tenants v)"
  have i: "inj (w_uuid w)" using assms(1) by (simp add: accountRows_def)
  have "w_uuid w n \<notin> insert (newId w) (user_id ` set (w_users w) \<union> user_tenantId ` set (w_users w) \<union> tenant_id ` set (w_tenants w))"
    if "Suc (w_next w) \<le> n" for n
  proof -
    have "w_uuid w n \<noteq> newId w" using i that by (auto simp: newId_def dest: injD)
    moreover have "w_next w \<le> n" using that by simp
    ultimately show ?thesis using assms(1) by (simp add: accountRows_def)
  qed
  then have "w_uuid w n \<notin> ?new" if "Suc (w_next w) \<le> n" for n
    using assms(5) that by (meson subsetD)
  then show ?thesis using assms(2-4) i by (simp add: accountRows_def)
qed

text \<open>A user is inserted into a tenant that exists, under an id that nobody has.\<close>

lemma insertUser_rows:
  assumes "accountRows w" and "insertUser hash mk w = (Inr u, v)" and "\<And>h i. user_id (mk h i) = i"
  shows "accountRows v" and "v = bump (w\<lparr>w_users := w_users w @ [u]\<rparr>)" and "tenantExists (user_tenantId u) w"
    and "\<exists>h. u = mk h (newId w)"
proof -
  show v: "v = bump (w\<lparr>w_users := w_users w @ [u]\<rparr>)" and t: "tenantExists (user_tenantId u) w"
    and u: "\<exists>h. u = mk h (newId w)"
    using assms(2) by (auto simp: insertUser_def Let_def split: option.splits if_splits)
  have "user_id u = newId w" using u assms(3) by auto
  then show "accountRows v"
    by (intro accountRows_drawn [OF assms(1)])
      (use newId_free [OF assms(1)] t assms(1) in \<open>auto simp: v bump_def tenantExists_def accountRows_def\<close>)
qed

lemma insertUser_failed: "insertUser hash mk w = (Inl e, v) \<Longrightarrow> v = w"
  by (auto simp: insertUser_def Let_def split: option.splits if_splits)

lemma insertMember_owners:
  assumes "accountRows w" and "insertUser hash mk w = (Inr u, v)" and "\<And>h i. user_id (mk h i) = i"
    and "\<And>h i. user_role (mk h i) \<noteq> OWNER"
  shows "ownersKept w v"
proof -
  note r = insertUser_rows [OF assms(1-3)]
  have "user_role u \<noteq> OWNER" using r(4) assms(4) by auto
  then have "ownersOf t v = ownersOf t w" for t by (simp add: r(2) ownersOf_def bump_def)
  then show ?thesis using r(1) by (auto simp: ownersKept_def tenantExists_def r(2) bump_def)
qed

lemma createOwner_owners:
  assumes "accountRows w" and "\<And>t h i. user_id (mk t h i) = i \<and> user_role (mk t h i) = OWNER \<and> user_tenantId (mk t h i) = t"
    and "\<And>i. tenant_id (mt i) = i"
  shows "ownersKept w (snd (createOwner mt hash mk w))"
proof (cases "fst (createOwner mt hash mk w)")
  case (Inl e)
  then have "snd (createOwner mt hash mk w) = w"
    by (auto simp: createOwner_def transactionA_def split: prod.splits sum.splits)
  then show ?thesis using assms(1) by (simp add: ownersKept_refl)
next
  case (Inr u)
  let ?t = "newId w" and ?w1 = "bump (w\<lparr>w_tenants := w_tenants w @ [mt (newId w)]\<rparr>)"
  from Inr obtain v where v: "insertUser hash (mk ?t) ?w1 = (Inr u, v)" and s: "snd (createOwner mt hash mk w) = v"
    using insertTenant_cases [of mt w]
    by (auto simp: createOwner_def transactionA_def bindA_def split: prod.splits sum.splits)
  have a1: "accountRows ?w1"
    by (intro accountRows_drawn [OF assms(1)]) (use assms(1,3) in \<open>auto simp: bump_def accountRows_def\<close>)
  note r = insertUser_rows [OF a1 v]
  have u: "user_role u = OWNER" "user_tenantId u = ?t" using r(4) assms(2) by auto
  have none: "filter (\<lambda>q. user_tenantId q = ?t \<and> user_role q = OWNER) (w_users w) = []"
    using newId_free(2) [OF assms(1)] by (simp add: filter_empty_conv image_iff) metis
  have "tenantExists t v \<longleftrightarrow> tenantExists t w \<or> t = ?t" for t
    using assms(2,3) by (auto simp: r(2) tenantExists_def bump_def)
  moreover have "ownersOf t v = ownersOf t w" if "t \<noteq> ?t" for t
    using that u assms(2) by (simp add: r(2) ownersOf_def bump_def)
  moreover have "length (ownersOf ?t v) = 1"
    using u none assms(2) by (simp add: r(2) ownersOf_def bump_def)
  moreover have "accountRows v" using r(1) assms(2) by blast
  ultimately show ?thesis
    unfolding s using newId_free(3) [OF assms(1)] by (simp add: ownersKept_def) metis
qed

text \<open>Every request that reaches an account, with any arguments and in any order.\<close>

inductive account_step :: "env \<Rightarrow> auth_env \<Rightarrow> world \<Rightarrow> world \<Rightarrow> bool" for E A where
  registering: "account_step E A w (snd (register E A now s s' dto w))"
| logging_in: "account_step E A w (snd (login A now s email password w))"
| refreshing: "account_step E A w (snd (refreshRoute A now s cookie field w))"
| logging_out: "account_step E A w (snd (logout i w))"
| forgetting: "account_step E A w (snd (forgotPassword E A now raw email w))"
| resetting: "account_step E A w (snd (resetPassword A now s token password w))"
| by_google: "account_step E A w (snd (validateOAuthLogin E A now s email first_name last_name w))"
| renaming: "account_step E A w (snd (updateMe i first_name last_name w))"
| inviting: "account_step E A w (snd (inviteRoute E A now raw temp s token idto w))"
| promoting: "account_step E A w (snd (roleRoute A now token i role w))"
| removing: "account_step E A w (snd (removeRoute A now token i w))"

lemma row_of_id:
  assumes "accountRows w" and "u \<in> set (w_users w)" and "v \<in> set (w_users w)" and "user_id u = user_id v"
  shows "u = v"
  using assms by (auto simp: accountRows_def distinct_map dest: inj_onD)

lemma theMemberD: "theMember t i w = Some m \<Longrightarrow> m \<in> set (w_users w) \<and> user_id m = i"
  by (auto simp: theMember_def dest: find_SomeD)

lemma updateMemberRole_owners:
  assumes "accountRows w" and "grantable role"
  shows "ownersKept w (snd (updateMemberRole t r i role w))"
proof (cases "theMember t i w")
  case (Some m)
  let ?f = "\<lambda>u. u\<lparr>user_role := role\<rparr>"
  note m = theMemberD [OF Some]
  have "ownersKept w (w\<lparr>w_users := update_where (\<lambda>u. user_id u = i) ?f (w_users w)\<rparr>)" if "user_role m \<noteq> OWNER"
  proof -
    have "ownersOf x (w\<lparr>w_users := update_where (\<lambda>u. user_id u = i) ?f (w_users w)\<rparr>) = ownersOf x w" for x
      by (rule ownersOf_update) (use that m row_of_id [OF assms(1)] assms(2) in \<open>auto simp: grantable_def\<close>)
    then show ?thesis
      using accountRows_update [OF assms(1), of ?f] by (simp add: ownersKept_def tenantExists_def)
  qed
  then show ?thesis
    using Some m assms(1) by (auto simp: updateMemberRole_def updateUser_run thenA_def bindA_def ownersKept_refl)
qed (simp add: updateMemberRole_def assms(1) ownersKept_refl)

lemma removeMember_owners:
  assumes "accountRows w"
  shows "ownersKept w (snd (removeMember t j r i w))"
proof (cases "theMember t i w")
  case (Some m)
  note m = theMemberD [OF Some]
  have "ownersKept w (deleteUserRow i w)" if "user_role m \<noteq> OWNER"
  proof -
    have "filter (\<lambda>u. user_tenantId u = x \<and> user_role u = OWNER) (delete_where (\<lambda>u. user_id u = i) (w_users w)) =
        filter (\<lambda>u. user_tenantId u = x \<and> user_role u = OWNER) (w_users w)" for x
      unfolding delete_where_def filter_filter
      by (rule filter_cong) (use that m row_of_id [OF assms] in auto)
    moreover have "accountRows (deleteUserRow i w)"
      using assms by (auto simp: accountRows_def deleteUserRow_def delete_where_def distinct_map_filter)
    ultimately show ?thesis by (simp add: ownersKept_def tenantExists_def ownersOf_def deleteUserRow_def)
  qed
  then show ?thesis
    using Some assms by (auto simp: removeMember_def ownersKept_refl)
qed (simp add: removeMember_def assms ownersKept_refl)

lemma inviteMember_owners:
  assumes "accountRows w" and "grantable (iu_role dto)"
  shows "ownersKept w (snd (inviteMember E A now raw temp s t r dto w))"
proof -
  let ?mk = "invitedRow A now raw t dto" and ?h = "Some (au_hash A 10 s temp)"
  have "ownersKept w v" if "insertUser ?h ?mk w = (Inr u, v)" for u v
    by (rule insertMember_owners [OF assms(1) that]) (use assms(2) in \<open>simp_all add: invitedRow_def grantable_def\<close>)
  moreover have "v = w" if "insertUser ?h ?mk w = (Inl e, v)" for e v
    using that by (rule insertUser_failed)
  ultimately show ?thesis
    using assms(1)
    by (auto simp: inviteMember_def bindA_def thenA_def ownersKept_refl split: prod.splits sum.splits
        intro: ownersKept_cong)
qed

lemma guards_owners:
  assumes "\<And>p. ownersKept w (snd (k p w))" and "accountRows w"
  shows "ownersKept w (snd (authenticated A now token (rolesGuard rs k) w))"
  using assms by (auto simp: authenticated_def rolesGuard_def ownersKept_refl split: option.splits)

lemma account_step_owners:
  assumes "account_step E A w v" and "accountRows w"
  shows "ownersKept w v"
  using assms(1)
proof cases
  case (registering now s s' dto)
  let ?c = "createOwner (newTenant E now (rg_tenantName dto) (tenantSlug now (rg_tenantName dto))
      (JObj [(''timezone'', JStr (signupTimezone (rg_timezone dto)))])) (Some (au_hash A 12 s (rg_password dto)))
      (ownerRow now (rg_email dto) (rg_firstName dto) (rg_lastName dto))"
  have c: "ownersKept w (snd (?c w))"
    by (rule createOwner_owners [OF assms(2)]) (simp_all add: ownerRow_def newTenant_def)
  then have "accountRows (snd (?c w))" by (simp add: ownersKept_def)
  then have o: "ownersKept w (snd (openSession A now s' u (snd (?c w))))" for u
    using ownersKept_trans [OF c] openSession_owners by blast
  show ?thesis
    using c o assms(2) unfolding registering
    by (auto simp: register_def bindA_def thenA_def ownersKept_refl split: prod.splits sum.splits
        intro: ownersKept_cong) (metis snd_conv ownersKept_cong mails_frame order_refl)+
next
  case (by_google now s email first_name last_name)
  let ?c = "createOwner (newTenant E now (first_name @ [CHR 0x27] @ ''s Workspace'') (oauthSlug now first_name) (JObj []))
      None (ownerRow now email (Some first_name) (Some last_name))"
  have c: "ownersKept w (snd (?c w))"
    by (rule createOwner_owners [OF assms(2)]) (simp_all add: ownerRow_def newTenant_def)
  then have "accountRows (snd (?c w))" by (simp add: ownersKept_def)
  then have o: "ownersKept w (snd (openSession A now s u (snd (?c w))))" for u
    using ownersKept_trans [OF c] openSession_owners by blast
  show ?thesis
    using c o openSession_owners [OF assms(2)] unfolding by_google
    by (auto simp: validateOAuthLogin_def bindA_def split: prod.splits sum.splits option.splits)
next
  case (forgetting now raw email)
  show ?thesis
    unfolding forgetting by (auto simp: forgotPassword_def Let_def ownersKept_refl assms(2) sameIdentity_def
      split: option.splits intro!: then_owners [OF assms(2)] order_trans [OF _ audit_log_next])
next
  case (resetting now s token password)
  show ?thesis
    unfolding resetting by (auto simp: resetPassword_def ownersKept_refl assms(2) sameIdentity_def
      split: option.splits intro!: then_owners [OF assms(2)] audit_log_next)
next
  case (renaming i first_name last_name)
  show ?thesis
    unfolding renaming updateMe_def by (rule then_owners [OF assms(2)]) (simp_all add: sameIdentity_def)
qed (use openSession_owners [OF assms(2)] updateUser_owners [OF assms(2)] guards_owners inviteMember_owners
    updateMemberRole_owners removeMember_owners assms(2) in
    \<open>auto simp: login_def refreshRoute_def refreshTokens_def logout_def inviteRoute_def roleRoute_def
       removeRoute_def ownersKept_refl sameIdentity_def thenA_def bindA_def split: option.splits prod.splits sum.splits
       intro!: guards_owners\<close>)

inductive_simps account_step_simps: "account_step E A w v"

text \<open>
  C12: A tenant has one owner, and it stays the same one. Whatever requests anybody makes - registrations, logins,
  invitations, promotions, removals, with forged arguments or not - every tenant that was there keeps exactly
  the owners it had, with their addresses, and every tenant that has come to be has exactly one owner.
\<close>

theorem owner_is_permanent:
  assumes "(account_step E A)\<^sup>*\<^sup>* w v" and "accountRows w"
  shows "(\<forall>t. tenantExists t w \<longrightarrow> tenantExists t v \<and> ownersOf t v = ownersOf t w) \<and>
    (\<forall>t. tenantExists t v \<longrightarrow> \<not> tenantExists t w \<longrightarrow> length (ownersOf t v) = 1)"
proof -
  from assms(1) have "ownersKept w v"
  proof (induction rule: rtranclp_induct)
    case base
    show ?case using assms(2) by (rule ownersKept_refl)
  next
    case (step u v)
    then have "accountRows u" by (simp add: ownersKept_def)
    with step show ?case by (blast intro: ownersKept_trans account_step_owners)
  qed
  then show ?thesis by (simp add: ownersKept_def)
qed

section \<open>The life of a reset link\<close>

text \<open>
  What bcrypt documents: a hash is not empty, and it matches the texts that agree with the hashed one in the
  first 72 bytes.
\<close>

definition bcrypt :: "auth_env \<Rightarrow> bool" where
  "bcrypt A = ((\<forall>n s p. au_hash A n s p \<noteq> []) \<and>
     (\<forall>n s p q. au_matches A p (au_hash A n s q) = (take 72 p = take 72 q)))"

lemma openSession_returns: "user_id u \<in> user_id ` set (w_users w) \<Longrightarrow>
    \<exists>r v. openSession A now salt u w = (Inr r, v) \<and> ar_userId r = user_id u \<and>
      w_users v = update_where (\<lambda>x. user_id x = user_id u)
        (\<lambda>x. x\<lparr>user_refreshToken := Some (au_hash A 12 salt (au_sign A REFRESH (payloadOf u) now))\<rparr>) (w_users w)"
  by (simp add: openSession_def generateTokens_def updateRefreshToken_def updateUser_run)

lemma find_first_changed:
  assumes "List.find p rs = Some r" and "\<And>x. p (f x) = p x"
  shows "List.find p (update_where (\<lambda>x. key x = key r) f rs) = Some (f r)"
  using assms by (induction rs) (auto split: if_splits)

lemma holds_one:
  assumes "u \<in> set us" and "holdsLink A now raw u" and "distinct (map user_id us)"
    and "\<And>v. v \<in> set us \<Longrightarrow> user_passwordResetTokenHash v = Some (au_sha256 A raw) \<Longrightarrow> user_id v = user_id u"
  shows "List.find (holdsLink A now raw) us = Some u"
proof (rule find_unique [where p = "holdsLink A now raw", OF assms(1,2)])
  fix r assume "r \<in> set us" "holdsLink A now raw r"
  then have "user_id r = user_id u" by (intro assms(4)) (simp_all add: holdsLink_def)
  then show "r = u" using \<open>r \<in> set us\<close> assms(1,3) by (auto simp: distinct_map dest: inj_onD)
qed

text \<open>
  C18: A reset link works, once, for an hour. After a request for a known address, the link that was mailed sets
  a new password until the hour is over: the login with it then succeeds as that user, every session of the
  user has ended, and the same link is refused. When the hour is over the link is refused and nothing changes.
\<close>

theorem reset_link_works_once:
  assumes "userByEmail email w = Some u" and "distinct (map user_id (w_users w))" and "bcrypt A"
    and "\<And>v. v \<in> set (w_users w) \<Longrightarrow> user_passwordResetTokenHash v \<noteq> Some (au_sha256 A raw)"
    and "w' = snd (forgotPassword E A now raw email w)" and "w'' = snd (resetPassword A later s raw pw w')"
  shows "if later \<le> now + 3600000
    then (\<exists>r. fst (login A t s' email pw w'') = Inr r \<and> ar_userId r = user_id u) \<and>
      (\<forall>token. fst (refreshTokens A t s' (user_id u) token w'') = Inl accessDenied) \<and>
      (\<forall>q. \<exists>e. resetPassword A t s' raw q w'' = (Inl e, w''))
    else w'' = w'"
proof -
  let ?mine = "\<lambda>x. user_id x = user_id u"
  let ?f = "\<lambda>v. v\<lparr>user_passwordResetTokenHash := Some (au_sha256 A raw), user_passwordResetExpiresAt := Some (now + 3600000)\<rparr>"
  let ?g = "\<lambda>v. v\<lparr>user_passwordHash := au_hash A 12 s pw, user_passwordResetTokenHash := None,
    user_passwordResetExpiresAt := None, user_refreshToken := None\<rparr>"
  have u: "u \<in> set (w_users w)" "user_email u = email" using assms(1) by (auto simp: userByEmail_def dest: find_SomeD)
  have w': "w_users w' = update_where ?mine ?f (w_users w)"
    using u by (simp add: assms(5) forgotPassword_def assms(1) Let_def updateUser_run)
  have d: "distinct (map user_id (w_users w'))" using assms(2) by (simp add: w' map_update_where_same)
  have only: "user_id v = user_id u" if "v \<in> set (w_users w')" "user_passwordResetTokenHash v = Some (au_sha256 A raw)" for v
    using that assms(4) by (auto simp: w' set_update_where split: if_splits)
  have fu: "?f u \<in> set (w_users w')" using u by (auto simp: w' set_update_where)
  have in': "user_id u \<in> user_id ` set (w_users w')"
    using imageI [OF fu, of user_id] by simp
  show ?thesis
  proof (cases "later \<le> now + 3600000")
    case True
    have found: "List.find (holdsLink A later raw) (w_users w') = Some (?f u)"
      by (rule holds_one [OF fu _ d]) (use True only in \<open>simp_all add: holdsLink_def\<close>)
    have w'': "w_users w'' = update_where ?mine ?g (w_users w')"
      using in' by (simp add: assms(6) resetPassword_def found updateUser_run)
    have byMail: "userByEmail email w'' = Some (?g (?f u))"
      using find_first_changed [OF find_first_changed [OF assms(1) [unfolded userByEmail_def], where f = ?f and key = user_id], where f = ?g and key = user_id]
      by (simp add: userByEmail_def w'' w')
    have in'': "user_id u \<in> user_id ` set (w_users w'')"
      using in' by (simp add: w'' map_update_where_same flip: set_map)
    have "\<exists>r. fst (login A t s' email pw w'') = Inr r \<and> ar_userId r = user_id u"
      using openSession_returns [of "?g (?f u)" w'' A t s'] in'' assms(3)
      by (auto simp: login_def byMail bcrypt_def)
    moreover have "fst (refreshTokens A t s' (user_id u) token w'') = Inl accessDenied" for token
    proof (cases "userById (user_id u) w''")
      case (Some v)
      then have "v \<in> set (w_users w'')" "user_id v = user_id u" by (auto simp: userById_def dest: find_SomeD)
      moreover from this(1) obtain q where "v = (if ?mine q then ?g q else q)" unfolding w'' set_update_where by blast
      ultimately have "user_refreshToken v = None" by (cases "?mine q") simp_all
      then show ?thesis using Some by (simp add: refreshTokens_def)
    qed (simp add: refreshTokens_def)
    moreover have "\<exists>e. resetPassword A t s' raw q w'' = (Inl e, w'')" for q
    proof -
      have "\<not> holdsLink A t raw v" if "v \<in> set (w_users w'')" for v
      proof -
        from that obtain q where q: "q \<in> set (w_users w')" "v = (if ?mine q then ?g q else q)"
          unfolding w'' set_update_where by blast
        then show ?thesis using only [of q] by (cases "?mine q") (auto simp: holdsLink_def)
      qed
      then have "List.find (holdsLink A t raw) (w_users w'') = None" by (simp add: find_None_iff)
      then show ?thesis by (simp add: resetPassword_def)
    qed
    ultimately show ?thesis using True by simp
  next
    case False
    have "\<not> holdsLink A later raw v" if "v \<in> set (w_users w')" for v
      using that assms(4) False by (auto simp: w' set_update_where holdsLink_def split: if_splits)
    then have "List.find (holdsLink A later raw) (w_users w') = None" by (simp add: find_None_iff)
    then show ?thesis using False by (simp add: assms(6) resetPassword_def)
  qed
qed

section \<open>Sessions\<close>

text \<open>
  A JSON web token begins with its header and the text of its payload, whose first claim is the user's id: as
  the payload is encoded, the first 72 characters of a refresh token are the same in all tokens of a user.
\<close>

definition tokensBeginWithUser :: "auth_env \<Rightarrow> bool" where
  "tokensBeginWithUser A =
     (\<forall>p q t t'. jp_sub p = jp_sub q \<longrightarrow> take 72 (au_sign A REFRESH p t) = take 72 (au_sign A REFRESH q t'))"

lemma found_after: "List.find (\<lambda>x. user_id x = i) us = Some u \<Longrightarrow> (\<And>x. user_id (f x) = user_id x) \<Longrightarrow>
    List.find (\<lambda>x. user_id x = i) (update_where (\<lambda>x. user_id x = i) f us) = Some (f u)"
  by (induction us) auto

text \<open>
  C19: Old refresh tokens come back to life. A login stores the hash of the token it issues, which is meant to
  replace the ones before; but the hash sees the first 72 bytes only, and they are the same in every token of
  the user. So after any login each refresh token that was ever signed for the user is accepted - one that was
  rotated away, one from before a logout, one from before a password reset that ended "all sessions".
\<close>

theorem old_refresh_tokens_revive:
  assumes "bcrypt A" and "tokensBeginWithUser A"
    and "login A now s email pw w = (Inr r, w')" and "jp_sub p = ar_userId r"
  shows "\<exists>r' v. refreshTokens A later s' (ar_userId r) (au_sign A REFRESH p t) w' = (Inr r', v) \<and> ar_userId r' = ar_userId r"
proof -
  from assms(3) obtain u where u: "userByEmail email w = Some u" and o: "openSession A now s u w = (Inr r, w')"
    by (auto simp: login_def split: option.splits if_splits)
  have in_u: "user_id u \<in> user_id ` set (w_users w)" using u by (auto simp: userByEmail_def dest: find_SomeD)
  let ?h = "au_hash A 12 s (au_sign A REFRESH (payloadOf u) now)"
  have r: "ar_userId r = user_id u"
    and w': "w_users w' = update_where (\<lambda>x. user_id x = user_id u) (\<lambda>x. x\<lparr>user_refreshToken := Some ?h\<rparr>) (w_users w)"
    using openSession_returns [OF in_u, of A now s] o by auto
  obtain v where v: "List.find (\<lambda>x. user_id x = user_id u) (w_users w) = Some v"
    using in_u by (cases "List.find (\<lambda>x. user_id x = user_id u) (w_users w)") (auto simp: find_None_iff)
  have f: "userById (user_id u) w' = Some (v\<lparr>user_refreshToken := Some ?h\<rparr>)"
    using found_after [OF v, of "\<lambda>x. x\<lparr>user_refreshToken := Some ?h\<rparr>"] by (simp add: userById_def w')
  have i: "user_id v = user_id u" using find_SomeD [OF v] by simp
  have m: "au_matches A (au_sign A REFRESH p t) ?h" "?h \<noteq> []"
    using assms(1,2,4) r by (auto simp: bcrypt_def tokensBeginWithUser_def payloadOf_def)
  have "user_id v \<in> user_id ` set (w_users w')"
    using in_u by (simp add: w' i map_update_where_same flip: set_map)
  then show ?thesis
    using openSession_returns [of "v\<lparr>user_refreshToken := Some ?h\<rparr>" w' A later s'] m i
    by (auto simp: refreshTokens_def r f)
qed

text \<open>
  Nobody signs up with Google. For an address that is not known the callback creates a tenant and then a
  user without password hash, which the client of the database refuses: the transaction is undone and the
  sign-in ends in an error, every time.
\<close>

lemma google_signup_fails:
  assumes "userByEmail email w = None"
  shows "\<exists>e. validateOAuthLogin E A now s email firstName lastName w = (Inl e, w)"
  using assms by (simp add: validateOAuthLogin_def createOwner_def transactionA_def bindA_def insertTenant_def
      insertUser_def)

text \<open>
  The cookie alone does not refresh a session. The token travels in a cookie that scripts cannot read, but
  the body of the request is validated too, and has to hold the token as well: a request with the cookie and
  an empty body, as the web client sends it, is refused and changes nothing.
\<close>

lemma cookie_alone_is_refused:
  shows "\<exists>e. refreshRoute A now s cookie None w = (Inl e, w)"
  by (auto simp: refreshRoute_def jstr_def split: option.split)

text \<open>
  An invitation to a second team cannot be used. When the address already belongs to a user of another
  tenant, the invitation succeeds; but every login with that address is a login as the first user, whatever
  password the invited one has set.
\<close>

lemma invited_elsewhere_cannot_log_in:
  assumes "inviteMember E A now raw temp s t role dto w = (Inr m, w')"
    and "userByEmail (toLowerCase (iu_email dto)) w = Some u"
    and "login A later s' (mb_email m) pw v = (Inr r, v')"
    and "w_users v = update_where (\<lambda>x. user_id x = mb_id m) f (w_users w')" and "sameIdentity f"
  shows "ar_userId r = user_id u"
proof -
  define n where "n = invitedRow A now raw t dto (au_hash A 10 s temp) (newId w)"
  have n: "m = memberOf n" and w': "w_users w' = w_users w @ [n]"
    using assms(1) by (auto simp: inviteMember_def bindA_def thenA_def insertUser_def Let_def bump_def n_def
        split: if_splits)
  have e: "mb_email m = toLowerCase (iu_email dto)" by (simp add: n memberOf_def n_def invitedRow_def)
  have "userByEmail (mb_email m) v =
      map_option (\<lambda>x. if user_id x = mb_id m then f x else x) (List.find (\<lambda>x. user_email x = mb_email m) (w_users w'))"
    unfolding userByEmail_def assms(4) by (rule find_update_where_other) (use assms(5) in \<open>simp add: sameIdentity_def\<close>)
  also have "List.find (\<lambda>x. user_email x = mb_email m) (w_users w') = Some u"
    using assms(2) by (simp add: w' find_append e userByEmail_def)
  finally show ?thesis
    using assms(3,5) by (auto simp: login_def openSession_def generateTokens_def updateRefreshToken_def updateUser_run
        thenA_def bindA_def sameIdentity_def split: if_splits prod.splits sum.splits)
qed

section \<open>Settings\<close>

lemma map_of_spread: "map_of (spread current patch) k = (case map_of (rev patch) k of Some v \<Rightarrow> Some v | None \<Rightarrow> map_of current k)"
  unfolding spread_def
  by (induction patch arbitrary: current) (auto simp: AList.update_conv' split: option.splits)

definition senderKeys :: "string set" where
  "senderKeys = {''senderName'', ''senderEmail'', ''senderPhone''}"

definition trimmedText :: "json option \<Rightarrow> json option \<Rightarrow> json option" where
  "trimmedText given stored = (case given of Some (JStr x) \<Rightarrow> Some (JStr (trim x)) | _ \<Rightarrow> stored)"

text \<open>
  Settings are merged, not replaced. Changing the sender of messages stores the given fields trimmed,
  leaves the fields that are not given and every other setting as they were, answers with the new sender,
  and touches no other tenant.
\<close>

theorem sender_identity_merged:
  assumes "updateSenderIdentity t dto w = (Inr s, w')"
  shows "s = getSenderIdentity t w' \<and>
    sid_name s = trimmedText (sid_name dto) (sid_name (getSenderIdentity t w)) \<and>
    sid_email s = trimmedText (sid_email dto) (sid_email (getSenderIdentity t w)) \<and>
    sid_phone s = trimmedText (sid_phone dto) (sid_phone (getSenderIdentity t w)) \<and>
    (\<forall>k. k \<notin> senderKeys \<longrightarrow> map_of (settingsOf t w') k = map_of (settingsOf t w) k) \<and>
    (\<forall>t'. t' \<noteq> t \<longrightarrow> settingsOf t' w' = settingsOf t' w)"
proof -
  from assms obtain patch where patch: "identityPatch dto = Inr patch"
    by (cases "identityPatch dto") (auto simp: updateSenderIdentity_def)
  have run: "tenantExists t w" "w' = putTenants (update_where (\<lambda>r. tenant_id r = t)
      (\<lambda>x. x\<lparr>tenant_settings := JObj (spread (settingsOf t w) patch)\<rparr>) (w_tenants w)) w" "s = getSenderIdentity t w'"
    using assms patch
    by (auto simp: updateSenderIdentity_def updateSettings_def bindA_def thenA_def Let_def updateTenant_def updateRow_def
        tenantExists_def split: if_splits prod.splits sum.splits)
  have s': "settingsOf x w' = (if x = t then spread (settingsOf t w) patch else settingsOf x w)" for x
    using run(1) by (simp add: run(2) settingsOf_def findTenant_update findTenant_None_iff split: option.splits)
  obtain a b c where abc: "trimField ''senderName'' (sid_name dto) = Inr a" "trimField ''senderEmail'' (sid_email dto) = Inr b"
      "trimField ''senderPhone'' (sid_phone dto) = Inr c" "patch = a @ b @ c"
    using patch by (auto simp: identityPatch_def split: sum.splits)
  define g where "g v = (case v of Some (JStr x) \<Rightarrow> Some (JStr (trim x)) | _ \<Rightarrow> None)" for v :: "json option"
  have field: "map_of (rev p) k = (if k = f then g v else None)" if "trimField f v = Inr p" for f v p k
    using that by (auto simp: trimField_def g_def split: option.splits json.splits)
  have given: "map_of (rev patch) k = (if k = ''senderPhone'' then g (sid_phone dto) else
      if k = ''senderEmail'' then g (sid_email dto) else if k = ''senderName'' then g (sid_name dto) else None)" for k
    by (simp add: abc(4) map_add_def field [OF abc(1)] field [OF abc(2)] field [OF abc(3)] split: option.split)
  have stored: "presentIn (settingsOf t w') k = trimmedText v (presentIn (settingsOf t w) k)"
    if "map_of (rev patch) k = g v" for k v
    using that by (auto simp: presentIn_def s' map_of_spread g_def trimmedText_def split: option.splits json.splits)
  show ?thesis
    unfolding run(3)
    by (simp add: getSenderIdentity_def Let_def stored [OF given [of "''senderName''", simplified]]
        stored [OF given [of "''senderEmail''", simplified]] stored [OF given [of "''senderPhone''", simplified]])
      (simp add: s' map_of_spread given senderKeys_def)
qed

section \<open>Concrete worlds\<close>

text \<open>Libraries that behave as documented: a hash keeps 72 bytes, a token begins with the user's id.\<close>

definition demoAuth :: auth_env where
  "demoAuth = \<lparr>au_hash = (\<lambda>n salt p. CHR ''$'' # take 72 p), au_matches = (\<lambda>p h. h = CHR ''$'' # take 72 p),
     au_sha256 = (\<lambda>t. ''sha:'' @ t),
     au_sign = (\<lambda>k p t. take 72 (jp_sub p @ replicate 72 CHR ''.'') @ show_int t @ jp_email p),
     au_verify = (\<lambda>k t now. None), au_isEmail = (\<lambda>e. True)\<rparr>"

lemma demoAuth_laws: "bcrypt demoAuth" "tokensBeginWithUser demoAuth"
  by (auto simp: bcrypt_def tokensBeginWithUser_def demoAuth_def)

definition owner :: user where
  "owner = ownerRow 0 ''a@b.c'' (Some ''Ada'') None ''t1'' ''$Passw0rd!'' ''u1''"

definition teamWorld :: world where
  "teamWorld = (emptyWorld (\<lambda>n. replicate n CHR ''x''))\<lparr>w_tenants := [demoTenant PLAN_SMS ACTIVE False 0],
     w_users := [owner]\<rparr>"

lemma teamWorld_rows: "accountRows teamWorld"
proof -
  have "inj (\<lambda>n. replicate n CHR ''x'')" by (rule injI) (metis length_replicate)
  moreover have "replicate n CHR ''x'' \<noteq> c # cs" if "c \<noteq> CHR ''x''" for n c cs
    using that by (cases n) auto
  ultimately show ?thesis
    by (simp add: accountRows_def teamWorld_def emptyWorld_def owner_def ownerRow_def demoTenant_def)
qed

definition signup :: RegisterDto where
  "signup = \<lparr>rg_email = ''b@b.c'', rg_password = ''Passw0rd!'', rg_tenantName = ''Bob & Co'', rg_firstName = None,
     rg_lastName = None, rg_timezone = None\<rparr>"

theorem owner_is_permanent_witness:
  "ownersOf ''t1'' (snd (logout ''u1'' (snd (register demoEnv demoAuth 5 [] [] signup teamWorld)))) = [(''u1'', ''a@b.c'')]"
proof -
  have "(account_step demoEnv demoAuth)\<^sup>*\<^sup>* teamWorld
      (snd (logout ''u1'' (snd (register demoEnv demoAuth 5 [] [] signup teamWorld))))"
    by (rule rtranclp_trans [OF r_into_rtranclp r_into_rtranclp]) (rule account_step.intros)+
  from owner_is_permanent [OF this teamWorld_rows]
  have "tenantExists ''t1'' teamWorld \<longrightarrow> ownersOf ''t1'' (snd (logout ''u1'' (snd (register demoEnv demoAuth 5 [] [] signup teamWorld)))) =
      ownersOf ''t1'' teamWorld" by blast
  moreover have "tenantExists ''t1'' teamWorld" "ownersOf ''t1'' teamWorld = [(''u1'', ''a@b.c'')]"
    by code_simp+
  ultimately show ?thesis by simp
qed

lemma signup_returns: "is_ok (fst (register demoEnv demoAuth 5 [] [] signup teamWorld))"
  by code_simp

theorem reset_link_works_once_witness:
  "\<exists>r. fst (login demoAuth 40 [] ''a@b.c'' ''N3w-pass'' (snd (resetPassword demoAuth 30 [] ''r4w'' ''N3w-pass''
     (snd (forgotPassword demoEnv demoAuth 20 ''r4w'' ''a@b.c'' teamWorld))))) = Inr r \<and> ar_userId r = ''u1''"
proof -
  have u: "userByEmail ''a@b.c'' teamWorld = Some owner" "distinct (map user_id (w_users teamWorld))" "user_id owner = ''u1''"
    by code_simp+
  have "user_passwordResetTokenHash v \<noteq> Some (au_sha256 demoAuth ''r4w'')" if "v \<in> set (w_users teamWorld)" for v
    using that by (simp add: teamWorld_def owner_def ownerRow_def)
  from reset_link_works_once [OF u(1,2) demoAuth_laws(1) this refl refl, where E = demoEnv and now = 20 and later = 30 and s = "[]" and pw = "''N3w-pass''" and t = 40 and s' = "[]"]
  show ?thesis using u(3) by simp
qed

theorem old_refresh_tokens_revive_witness:
  "\<exists>r v. refreshTokens demoAuth 900 [] ''u1'' (au_sign demoAuth REFRESH (payloadOf owner) 3)
     (snd (login demoAuth 40 [] ''a@b.c'' ''Passw0rd!'' teamWorld)) = (Inr r, v) \<and> ar_userId r = ''u1''"
proof -
  have e: "fst (login demoAuth 40 [] ''a@b.c'' ''Passw0rd!'' teamWorld) =
      Inr \<lparr>ar_userId = ''u1'', ar_email = ''a@b.c'', ar_role = OWNER, ar_tenantId = ''t1'',
        ar_accessToken = au_sign demoAuth ACCESS (payloadOf owner) 40, ar_refreshToken = au_sign demoAuth REFRESH (payloadOf owner) 40\<rparr>"
    (is "_ = Inr ?r") by code_simp
  then have l: "login demoAuth 40 [] ''a@b.c'' ''Passw0rd!'' teamWorld =
      (Inr ?r, snd (login demoAuth 40 [] ''a@b.c'' ''Passw0rd!'' teamWorld))"
    by (metis prod.collapse)
  have "jp_sub (payloadOf owner) = ar_userId ?r" by code_simp
  from old_refresh_tokens_revive [OF demoAuth_laws l this, where later = 900 and s' = "[]" and t = 3]
  show ?thesis by simp
qed

theorem sender_identity_merged_witness:
  "sid_name (fst (case updateSenderIdentity ''t1'' \<lparr>sid_name = Some (JStr '' Clinic ''), sid_email = None, sid_phone = None\<rparr>
     teamWorld of (Inr s, v) \<Rightarrow> (s, v))) = Some (JStr ''Clinic'')"
proof -
  let ?d = "\<lparr>sid_name = Some (JStr '' Clinic ''), sid_email = None, sid_phone = None\<rparr> :: SenderIdentity"
  have ok: "is_ok (fst (updateSenderIdentity ''t1'' ?d teamWorld))" by code_simp
  then obtain s where s: "updateSenderIdentity ''t1'' ?d teamWorld = (Inr s, snd (updateSenderIdentity ''t1'' ?d teamWorld))"
    by (rule is_okE)
  have "trim '' Clinic '' = ''Clinic''" by code_simp
  then have "sid_name s = Some (JStr ''Clinic'')"
    using sender_identity_merged [OF s, THEN conjunct2, THEN conjunct1] by (simp add: trimmedText_def)
  then show ?thesis by (subst s) simp
qed

end
