(* ===== verification/Client_Session.thy ===== *)
theory Client_Session
  imports Accounts "HOL-Library.Multiset"
begin

text \<open>
  The web client's HTTP layer, \<open>frontend/src/lib/api.ts\<close>: an answer 401 starts one refresh of the session;
  requests that fail while it runs wait in a queue; when it is over they are sent again or rejected, and on a
  page that needs a session the browser goes to the login page. Requests, answers and the refresh interleave
  in any order: the client is a state machine over their events.
\<close>

section \<open>State and operations\<close>

definition PROTECTED_PREFIXES :: "string list" where
  "PROTECTED_PREFIXES = [''/dashboard'', ''/onboarding'']"

text \<open>A request with the mark \<open>_retry\<close>; an answer is the data or an error with its status, if any.\<close>

record ClientRequest =
  cr_id :: nat
  cr_url :: string
  cr_retry :: bool

datatype answer = Answered | Refused "int option"

text \<open>
  \<open>cs_refreshing\<close> is \<open>isRefreshing\<close>, \<open>cs_queue\<close> is \<open>failedQueue\<close>, \<open>cs_original\<close> the request whose failure
  started the refresh that runs; \<open>cs_flight\<close> are the requests on their way, \<open>cs_settled\<close> the promises that
  were resolved (\<open>True\<close>) or rejected, and \<open>cs_posts\<close> counts the refreshes posted.
\<close>

record client =
  cs_path :: string
  cs_refreshing :: bool
  cs_queue :: "ClientRequest list"
  cs_original :: "ClientRequest option"
  cs_flight :: "ClientRequest list"
  cs_settled :: "(nat \<times> bool) list"
  cs_posts :: nat

definition freshClient :: "string \<Rightarrow> client" where
  "freshClient path = \<lparr>cs_path = path, cs_refreshing = False, cs_queue = [], cs_original = None, cs_flight = [],
     cs_settled = [], cs_posts = 0\<rparr>"

definition settle :: "bool \<Rightarrow> ClientRequest list \<Rightarrow> client \<Rightarrow> client" where
  "settle b qs c = c\<lparr>cs_settled := cs_settled c @ map (\<lambda>q. (cr_id q, b)) qs\<rparr>"

definition dispatch :: "ClientRequest list \<Rightarrow> client \<Rightarrow> client" where
  "dispatch qs c = c\<lparr>cs_flight := cs_flight c @ qs\<rparr>"

text \<open>The response interceptor, for a request that has left the wire.\<close>

definition onAnswer :: "answer \<Rightarrow> ClientRequest \<Rightarrow> client \<Rightarrow> client" where
  "onAnswer a q c =
     (case a of
        Answered \<Rightarrow> settle True [q] c
      | Refused status \<Rightarrow>
          if str_includes (cr_url q) ''/auth/'' then settle False [q] c
          else if status = Some 401 \<and> \<not> cr_retry q
          then if cs_refreshing c then c\<lparr>cs_queue := cs_queue c @ [q]\<rparr>
               else c\<lparr>cs_refreshing := True, cs_original := Some (q\<lparr>cr_retry := True\<rparr>), cs_posts := Suc (cs_posts c)\<rparr>
          else settle False [q] c)"

definition processQueue :: "bool \<Rightarrow> client \<Rightarrow> client" where
  "processQueue ok c = (if ok then dispatch (cs_queue c) c else settle False (cs_queue c) c)\<lparr>cs_queue := []\<rparr>"

definition protectedPage :: "string \<Rightarrow> bool" where
  "protectedPage path = list_ex (\<lambda>p. startsWith path p) PROTECTED_PREFIXES"

text \<open>The answer of the refresh.\<close>

definition onRefreshed :: "bool \<Rightarrow> ClientRequest \<Rightarrow> client \<Rightarrow> client" where
  "onRefreshed ok q c =
     (let d = processQueue ok c;
          e = (if ok then dispatch [q] d
               else settle False [q] (if protectedPage (cs_path d) then d\<lparr>cs_path := ''/login''\<rparr> else d))
      in e\<lparr>cs_refreshing := False, cs_original := None\<rparr>)"

definition requestsOf :: "client \<Rightarrow> nat list" where
  "requestsOf c = map cr_id (cs_queue c @ cs_flight c @ (case cs_original c of None \<Rightarrow> [] | Some q \<Rightarrow> [q])) @ map fst (cs_settled c)"

text \<open>
  The events: the page sends a request, an answer to a request on its way comes in, the refresh is answered.
  \<open>server\<close> says which answers of the refresh are possible.
\<close>

inductive client_step :: "(bool \<Rightarrow> bool) \<Rightarrow> client \<Rightarrow> client \<Rightarrow> bool" for server where
  sending: "i \<notin> set (requestsOf c) \<Longrightarrow>
    client_step server c (dispatch [\<lparr>cr_id = i, cr_url = url, cr_retry = False\<rparr>] c)"
| answering: "q \<in> set (cs_flight c) \<Longrightarrow>
    client_step server c (onAnswer a q (c\<lparr>cs_flight := remove1 q (cs_flight c)\<rparr>))"
| refreshing: "cs_refreshing c \<Longrightarrow> cs_original c = Some q \<Longrightarrow> server ok \<Longrightarrow>
    client_step server c (onRefreshed ok q c)"

inductive_cases client_stepE: "client_step server c d"

section \<open>No request is lost\<close>

text \<open>
  The invariant: a refresh runs exactly while it has an original request, which is marked; only then requests
  wait, and they are not marked; every request is at exactly one place.
\<close>

definition clientShape :: "client \<Rightarrow> bool" where
  "clientShape c =
     (cs_refreshing c = (cs_original c \<noteq> None) \<and> (\<forall>q. cs_original c = Some q \<longrightarrow> cr_retry q) \<and>
      (cs_queue c \<noteq> [] \<longrightarrow> cs_refreshing c) \<and> (\<forall>q \<in> set (cs_queue c). \<not> cr_retry q))"

definition clientOk :: "client \<Rightarrow> bool" where
  "clientOk c = (clientShape c \<and> distinct (requestsOf c))"

lemma shape_other [simp]:
  "clientShape (c\<lparr>cs_flight := qs\<rparr>) = clientShape c" "clientShape (settle b qs c) = clientShape c"
  "clientShape (dispatch qs c) = clientShape c"
  by (simp_all add: clientShape_def settle_def dispatch_def)

lemma onAnswer_shape: "clientShape c \<Longrightarrow> clientShape (onAnswer a q c)"
  by (simp add: onAnswer_def split: answer.split) (auto simp: clientShape_def)

lemma onRefreshed_shape: "clientShape (onRefreshed ok q c)"
  by (simp add: clientShape_def onRefreshed_def processQueue_def settle_def dispatch_def Let_def)

lemma fresh_ok: "clientOk (freshClient path)"
  by (simp add: clientOk_def clientShape_def freshClient_def requestsOf_def)

lemma perm_distinct: "mset xs = mset ys \<Longrightarrow> distinct xs = distinct ys"
  by (metis mset_eq_imp_distinct_iff)

text \<open>An event moves requests between places; only sending adds one.\<close>

lemma answer_moves:
  assumes "q \<in> set (cs_flight c)"
  shows "mset (requestsOf (onAnswer a q (c\<lparr>cs_flight := remove1 q (cs_flight c)\<rparr>))) = mset (requestsOf c) \<or>
    (cs_original c \<noteq> None \<and> \<not> cs_refreshing c)"
proof -
  have f: "mset (map cr_id (cs_flight c)) = {#cr_id q#} + mset (map cr_id (remove1 q (cs_flight c)))"
    using assms by (metis (no_types, lifting) add_mset_add_single image_mset_add_mset insert_DiffM mset_map mset_remove1
        set_mset_mset union_commute)
  then show ?thesis
    by (auto simp: onAnswer_def requestsOf_def settle_def split: answer.split option.split)
qed

lemma refreshed_moves:
  assumes "cs_original c = Some q"
  shows "mset (requestsOf (onRefreshed ok q c)) = mset (requestsOf c)"
  using assms by (auto simp: onRefreshed_def processQueue_def requestsOf_def settle_def dispatch_def Let_def comp_def
      simp del: mset_map)

lemma client_step_ok:
  assumes "client_step server c d" and "clientOk c"
  shows "clientOk d"
  using assms(1)
proof cases
  case (sending i url)
  then show ?thesis
    using assms(2) by (auto simp: clientOk_def dispatch_def requestsOf_def split: option.splits)
next
  case (answering q a)
  have "\<not> (cs_original c \<noteq> None \<and> \<not> cs_refreshing c)" using assms(2) by (auto simp: clientOk_def clientShape_def)
  then have "mset (requestsOf d) = mset (requestsOf c)"
    using answer_moves [OF answering(2), of a] answering(1) by blast
  then have "distinct (requestsOf d)" using perm_distinct assms(2) unfolding clientOk_def by blast
  moreover have "clientShape d"
    unfolding answering(1) by (rule onAnswer_shape) (use assms(2) in \<open>simp add: clientOk_def\<close>)
  ultimately show ?thesis by (simp add: clientOk_def)
next
  case (refreshing q ok)
  have "mset (requestsOf d) = mset (requestsOf c)" using refreshed_moves [OF refreshing(3), of ok] refreshing(1) by simp
  then have "distinct (requestsOf d)" using perm_distinct assms(2) unfolding clientOk_def by blast
  then show ?thesis using onRefreshed_shape by (simp add: clientOk_def refreshing(1))
qed

lemma client_step_keeps:
  assumes "client_step server c d" and "clientOk c"
  shows "set (requestsOf c) \<subseteq> set (requestsOf d)"
  using assms(1)
proof cases
  case (sending i url)
  then show ?thesis by (auto simp: dispatch_def requestsOf_def)
next
  case (answering q a)
  have "\<not> (cs_original c \<noteq> None \<and> \<not> cs_refreshing c)" using assms(2) by (auto simp: clientOk_def clientShape_def)
  then have "mset (requestsOf d) = mset (requestsOf c)"
    using answer_moves [OF answering(2), of a] answering(1) by blast
  then show ?thesis by (metis set_mset_mset order_refl)
next
  case (refreshing q ok)
  then have "mset (requestsOf d) = mset (requestsOf c)" using refreshed_moves [OF refreshing(3), of ok] by simp
  then show ?thesis by (metis set_mset_mset order_refl)
qed

lemma client_reach_ok: "(client_step server)\<^sup>*\<^sup>* (freshClient path) c \<Longrightarrow> clientOk c"
  by (induction rule: rtranclp_induct) (auto intro: fresh_ok client_step_ok)

text \<open>
  How often the client may post a refresh: every post but the one that runs is paid for by a request that
  carries the mark or is settled, and no request pays twice. \<open>marked\<close> are these requests.
\<close>

definition marked :: "client \<Rightarrow> nat" where
  "marked c = length (filter cr_retry (cs_flight c)) + (if cs_original c = None then 0 else 1) + length (cs_settled c)"

lemma filter_remove1: "q \<in> set qs \<Longrightarrow>
    length (filter p qs) = length (filter p (remove1 q qs)) + (if p q then 1 else 0)"
  by (induction qs) auto

lemma client_step_posts:
  assumes "client_step server c d" and "clientOk c" and "cs_posts c \<le> marked c"
  shows "cs_posts d \<le> marked d"
  using assms(1)
proof cases
  case (sending i url)
  then show ?thesis using assms(3) by (simp add: marked_def dispatch_def)
next
  case (answering q a)
  have "cs_refreshing c = (cs_original c \<noteq> None)" using assms(2) by (simp add: clientOk_def clientShape_def)
  then show ?thesis
    using answering assms(3) filter_remove1 [OF answering(2), of cr_retry]
    by (auto simp: marked_def onAnswer_def settle_def split: answer.splits if_splits)
next
  case (refreshing q ok)
  have "cr_retry q" using refreshing assms(2) by (simp add: clientOk_def clientShape_def)
  then show ?thesis
    using refreshing assms(3)
    by (auto simp: marked_def onRefreshed_def processQueue_def settle_def dispatch_def Let_def)
qed

text \<open>
  C13: No request of the web client is lost, none is answered twice, and refreshes are bounded. In every state
  the client can reach, whatever the order of requests and answers: each request sent is and remains at exactly
  one place - on its way, waiting, the original of the refresh, or settled; requests wait only while a refresh runs, and
  the end of a refresh leaves none waiting; and no more refreshes were posted than requests sent.
\<close>

theorem client_requests_accounted:
  assumes "(client_step server)\<^sup>*\<^sup>* (freshClient path) c"
  shows "distinct (requestsOf c) \<and> (\<forall>d. client_step server c d \<longrightarrow> set (requestsOf c) \<subseteq> set (requestsOf d)) \<and>
    (cs_queue c \<noteq> [] \<longrightarrow> cs_refreshing c \<and> cs_original c \<noteq> None) \<and>
    (\<forall>ok q. cs_queue (onRefreshed ok q c) = [] \<and> (\<not> ok \<longrightarrow> cs_flight (onRefreshed ok q c) = cs_flight c)) \<and>
    cs_posts c \<le> length (requestsOf c)"
proof -
  have ok: "clientOk c" using client_reach_ok [OF assms] .
  have "cs_posts c \<le> marked c"
    using assms
  proof (induction rule: rtranclp_induct)
    case base
    show ?case by (simp add: freshClient_def marked_def)
  next
    case (step d e)
    then show ?case using client_step_posts client_reach_ok by blast
  qed
  moreover have "marked c \<le> length (requestsOf c)"
    using le_trans [OF length_filter_le [of cr_retry "cs_flight c"] le_add2 [of _ "length (cs_queue c)"]]
    by (simp add: marked_def requestsOf_def split: option.split)
  ultimately have "cs_posts c \<le> length (requestsOf c)" by simp
  moreover have "cs_queue (onRefreshed b q c) = []" for b q
    by (simp add: onRefreshed_def processQueue_def settle_def dispatch_def Let_def)
  moreover have "cs_flight (onRefreshed False q c) = cs_flight c" for q
    by (simp add: onRefreshed_def processQueue_def settle_def dispatch_def Let_def)
  ultimately show ?thesis using ok client_step_keeps [OF _ ok] by (auto simp: clientOk_def clientShape_def)
qed

section \<open>With this server\<close>

text \<open>
  The answers the server's route can give to the refresh the client posts: a cookie or none, and an empty body.
\<close>

definition webRefresh :: "bool \<Rightarrow> bool" where
  "webRefresh ok = (\<exists>A now s cookie w. is_ok (fst (refreshRoute A now s cookie None w)) = ok)"

lemma webRefresh_refused: "webRefresh ok = (\<not> ok)"
proof -
  have "\<not> is_ok (fst (refreshRoute A now s cookie None w))" for A now s cookie w
    by (auto simp: refreshRoute_def jstr_def split: option.split)
  then show ?thesis by (auto simp: webRefresh_def)
qed

text \<open>Nothing the client has sent is marked, and what was refused once is never resolved.\<close>

definition sentOnce :: "client \<Rightarrow> bool" where
  "sentOnce c = (clientOk c \<and> (\<forall>q \<in> set (cs_flight c). \<not> cr_retry q))"

lemma sentOnce_step: "client_step webRefresh c d \<Longrightarrow> sentOnce c \<Longrightarrow> sentOnce d"
  using client_step_ok [of webRefresh c d]
  by (auto simp: sentOnce_def onAnswer_def onRefreshed_def processQueue_def settle_def dispatch_def webRefresh_refused
      Let_def elim!: client_stepE split: answer.splits if_splits dest: in_set_remove1 notin_set_remove1)

text \<open>
  C20: The web client cannot refresh its session. With the answers that the server gives to the refresh it posts,
  a request that once was answered 401 is never sent again: when the refresh that runs is over, it and every
  request waiting for it are rejected, and on a page of the dashboard the browser is at the login page. So a
  session lasts as long as its first access token.
\<close>

theorem web_session_cannot_refresh:
  assumes "(client_step webRefresh)\<^sup>*\<^sup>* (freshClient path) c" and "cs_original c = Some q"
    and "client_step webRefresh c d" and "cs_original d = None"
  shows "cs_flight d = cs_flight c \<and> (\<forall>r \<in> set (q # cs_queue c). (cr_id r, False) \<in> set (cs_settled d)) \<and>
    (protectedPage (cs_path c) \<longrightarrow> cs_path d = ''/login'') \<and> (\<forall>r \<in> set (cs_flight d). \<not> cr_retry r)"
proof -
  have "sentOnce c"
    using assms(1)
  proof (induction rule: rtranclp_induct)
    case base
    show ?case using fresh_ok [of path] by (simp add: sentOnce_def) (simp add: freshClient_def)
  qed (rule sentOnce_step)
  then have once: "\<forall>r \<in> set (cs_flight c). \<not> cr_retry r" and shape: "cs_refreshing c"
    using assms(2) by (simp_all add: sentOnce_def clientOk_def clientShape_def)
  from assms(3) have d: "d = onRefreshed False q c"
  proof cases
    case (sending i url)
    then show ?thesis using assms(2,4) by (simp add: dispatch_def)
  next
    case (answering p a)
    then show ?thesis using assms(2,4) shape by (auto simp: onAnswer_def settle_def split: answer.splits if_splits)
  next
    case (refreshing p ok)
    then show ?thesis using assms(2) by (auto simp: webRefresh_refused)
  qed
  show ?thesis
    using once by (auto simp: d onRefreshed_def processQueue_def settle_def Let_def)
qed

section \<open>Concrete runs\<close>

definition profileRequest :: ClientRequest where
  "profileRequest = \<lparr>cr_id = 1, cr_url = ''/users/me'', cr_retry = False\<rparr>"

definition expiredClient :: client where
  "expiredClient = onAnswer (Refused (Some 401)) profileRequest
     ((dispatch [profileRequest] (freshClient ''/dashboard''))\<lparr>cs_flight := remove1 profileRequest [profileRequest]\<rparr>)"

lemma expiredClient_reached: "(client_step server)\<^sup>*\<^sup>* (freshClient ''/dashboard'') expiredClient"
proof (rule rtranclp_trans [OF r_into_rtranclp r_into_rtranclp])
  show "client_step server (freshClient ''/dashboard'') (dispatch [profileRequest] (freshClient ''/dashboard''))"
    unfolding profileRequest_def by (rule client_step.sending) (simp add: freshClient_def requestsOf_def)
  have "client_step server (dispatch [profileRequest] (freshClient ''/dashboard''))
      (onAnswer (Refused (Some 401)) profileRequest ((dispatch [profileRequest] (freshClient ''/dashboard''))
        \<lparr>cs_flight := remove1 profileRequest (cs_flight (dispatch [profileRequest] (freshClient ''/dashboard'')))\<rparr>))"
    by (rule client_step.answering) (simp add: dispatch_def)
  then show "client_step server (dispatch [profileRequest] (freshClient ''/dashboard'')) expiredClient"
    by (simp add: expiredClient_def dispatch_def freshClient_def)
qed

theorem client_requests_accounted_witness: "distinct (requestsOf expiredClient) \<and> cs_posts expiredClient \<le> 1"
  using client_requests_accounted [OF expiredClient_reached [of "\<lambda>_. True"]]
  by (simp add: expiredClient_def onAnswer_def profileRequest_def freshClient_def dispatch_def requestsOf_def settle_def)

theorem web_session_cannot_refresh_witness: "cs_path (onRefreshed False (profileRequest\<lparr>cr_retry := True\<rparr>) expiredClient) = ''/login''"
proof -
  let ?q = "profileRequest\<lparr>cr_retry := True\<rparr>"
  have o: "cs_original expiredClient = Some ?q" and p: "protectedPage (cs_path expiredClient)" by code_simp+
  have s: "client_step webRefresh expiredClient (onRefreshed False ?q expiredClient)"
    by (rule client_step.refreshing) (use o in \<open>code_simp\<close>, simp_all add: o webRefresh_refused)
  have "cs_original (onRefreshed False ?q expiredClient) = None" by code_simp
  from web_session_cannot_refresh [OF expiredClient_reached o s this] p show ?thesis by simp
qed

end
