(* ===== verification/Calendars.thy ===== *)
theory Calendars
  imports Reminder_Worker Workflow_Engine Cascades
begin

text \<open>
  Calendars: \<open>modules/calendar-integration\<close> with its two providers, Google and Outlook. The remote services are
  \<open>e_http\<close> (the parameters of a GET stand in its body); \<open>encodeState\<close> and \<open>decodeState\<close> are JSON in base64url
  (\<open>None\<close> when the decoder throws), \<open>parse\<close> is \<open>new Date\<close> on a text (\<open>None\<close>: an invalid date). Pages of
  events are read until the service names no next page, which it need not: \<open>None\<close> is a sync that does not end.
\<close>

section \<open>URLs\<close>

definition hexDigit :: "nat \<Rightarrow> char" where
  "hexDigit n = (if n < 10 then char_of (48 + n) else char_of (55 + n))"

definition percentByte :: "char \<Rightarrow> string" where
  "percentByte c = [CHR ''%'', hexDigit (char_code c div 16), hexDigit (char_code c mod 16)]"

definition isAlnum :: "char \<Rightarrow> bool" where
  "isAlnum c = (is_digit c \<or> is_lower c \<or> is_upper c)"

text \<open>\<open>URLSearchParams.toString\<close> and \<open>encodeURIComponent\<close>\<close>

definition formByte :: "char \<Rightarrow> string" where
  "formByte c = (if isAlnum c \<or> c \<in> set ''*-._'' then [c] else if c = CHR '' '' then ''+'' else percentByte c)"

definition searchParams :: "(string \<times> string) list \<Rightarrow> string" where
  "searchParams kvs = join ''&'' (map (\<lambda>(k, v). concat (map formByte k) @ ''='' @ concat (map formByte v)) kvs)"

definition encodeURIComponent :: "string \<Rightarrow> string" where
  "encodeURIComponent s =
     concat (map (\<lambda>c. if isAlnum c \<or> c \<in> set ''-_.!~*()'' \<or> c = CHR 0x27 then [c] else percentByte c) s)"

section \<open>The providers\<close>

record CalendarTokens =
  ct_accessToken :: "json option"
  ct_refreshToken :: "json option"
  ct_expiresAt :: "instant option"
  ct_email :: "json option"

definition providerPrefix :: "CalendarProvider \<Rightarrow> string" where
  "providerPrefix p = (case p of GOOGLE \<Rightarrow> ''GOOGLE_CALENDAR'' | OUTLOOK \<Rightarrow> ''OUTLOOK'')"

definition clientId :: "env \<Rightarrow> CalendarProvider \<Rightarrow> string" where
  "clientId E p = conf E (providerPrefix p @ ''_CLIENT_ID'') []"

definition clientSecret :: "env \<Rightarrow> CalendarProvider \<Rightarrow> string" where
  "clientSecret E p = conf E (providerPrefix p @ ''_CLIENT_SECRET'') []"

definition redirectUri :: "env \<Rightarrow> CalendarProvider \<Rightarrow> string" where
  "redirectUri E p = conf E (providerPrefix p @ ''_REDIRECT_URI'') []"

definition outlookTenant :: "env \<Rightarrow> string" where
  "outlookTenant E = conf E ''OUTLOOK_TENANT_ID'' ''common''"

definition outlookBase :: "env \<Rightarrow> string" where
  "outlookBase E = ''https://login.microsoftonline.com/'' @ outlookTenant E @ ''/oauth2/v2.0/''"

definition google_buildAuthUrl :: "env \<Rightarrow> string \<Rightarrow> string" where
  "google_buildAuthUrl E state =
     ''https://accounts.google.com/o/oauth2/v2/auth?'' @ searchParams
       [(''client_id'', clientId E GOOGLE), (''redirect_uri'', redirectUri E GOOGLE), (''response_type'', ''code''),
        (''scope'', ''https://www.googleapis.com/auth/calendar.readonly https://www.googleapis.com/auth/userinfo.email''),
        (''access_type'', ''offline''), (''prompt'', ''consent''), (''state'', state)]"

definition outlook_buildAuthUrl :: "env \<Rightarrow> string \<Rightarrow> string" where
  "outlook_buildAuthUrl E state =
     outlookBase E @ ''authorize?'' @ searchParams
       [(''client_id'', clientId E OUTLOOK), (''redirect_uri'', redirectUri E OUTLOOK), (''response_type'', ''code''),
        (''scope'', ''https://graph.microsoft.com/Calendars.Read offline_access User.Read''), (''state'', state)]"

definition buildAuthUrl :: "env \<Rightarrow> CalendarProvider \<Rightarrow> string \<Rightarrow> string" where
  "buildAuthUrl E p = (case p of GOOGLE \<Rightarrow> google_buildAuthUrl E | OUTLOOK \<Rightarrow> outlook_buildAuthUrl E)"

text \<open>The token endpoints: Google's takes JSON, Microsoft's a form.\<close>

definition tokenRequest :: "env \<Rightarrow> CalendarProvider \<Rightarrow> (string \<times> string) list \<Rightarrow> http_error + json option" where
  "tokenRequest E p args =
     map_sum id Some (e_http E (case p of
       GOOGLE \<Rightarrow> \<lparr>rq_method = ''POST'', rq_url = ''https://oauth2.googleapis.com/token'', rq_headers = [],
                   rq_body = JObj (map (\<lambda>(k, v). (k, JStr v)) args)\<rparr>
     | OUTLOOK \<Rightarrow> \<lparr>rq_method = ''POST'', rq_url = outlookBase E @ ''token'',
                    rq_headers = [(''Content-Type'', ''application/x-www-form-urlencoded'')],
                    rq_body = JStr (searchParams args)\<rparr>))"

definition bearer :: "json option \<Rightarrow> (string \<times> string) list" where
  "bearer token = [(''Authorization'', ''Bearer '' @ jString token)]"

definition getRequest :: "env \<Rightarrow> string \<Rightarrow> json option \<Rightarrow> (string \<times> json) list \<Rightarrow> http_error + json option" where
  "getRequest E url token params =
     map_sum id Some (e_http E \<lparr>rq_method = ''GET'', rq_url = url, rq_headers = bearer token, rq_body = JObj params\<rparr>)"

definition profileEmail :: "env \<Rightarrow> CalendarProvider \<Rightarrow> json option \<Rightarrow> http_error + json option" where
  "profileEmail E p token =
     (case p of
        GOOGLE \<Rightarrow> andThen (getRequest E ''https://www.googleapis.com/oauth2/v2/userinfo'' token []) (\<lambda>d.
                   andThen (readProp d ''email'') (\<lambda>e. Inr (jor e (Some (JStr [])))))
      | OUTLOOK \<Rightarrow> andThen (getRequest E ''https://graph.microsoft.com/v1.0/me'' token []) (\<lambda>d.
                   andThen (readProp d ''mail'') (\<lambda>m.
                   Inr (jor (jor m (jget d ''userPrincipalName'')) (Some (JStr []))))))"

text \<open>\<open>new Date(Date.now() + data.expires_in * 1000)\<close>\<close>

definition expiryOf :: "instant \<Rightarrow> json option \<Rightarrow> instant option" where
  "expiryOf now d =
     (case jget d ''expires_in'' of
        Some v \<Rightarrow> map_option (\<lambda>s. now + \<lfloor>s * 1000\<rfloor>) (jnumber (Some v))
      | None \<Rightarrow> None)"

definition exchangeCode :: "env \<Rightarrow> instant \<Rightarrow> CalendarProvider \<Rightarrow> string \<Rightarrow> http_error + CalendarTokens" where
  "exchangeCode E now p code =
     andThen (tokenRequest E p
        ([(''code'', code), (''client_id'', clientId E p), (''client_secret'', clientSecret E p),
          (''redirect_uri'', redirectUri E p), (''grant_type'', ''authorization_code'')] @
         (case p of GOOGLE \<Rightarrow> []
          | OUTLOOK \<Rightarrow> [(''scope'', ''https://graph.microsoft.com/Calendars.Read offline_access User.Read'')]))) (\<lambda>d.
     andThen (readProp d ''access_token'') (\<lambda>access.
     andThen (profileEmail E p access) (\<lambda>email.
     Inr \<lparr>ct_accessToken = access, ct_refreshToken = jget d ''refresh_token'', ct_expiresAt = expiryOf now d,
          ct_email = email\<rparr>)))"

definition refreshAccessToken ::
  "env \<Rightarrow> instant \<Rightarrow> CalendarProvider \<Rightarrow> string \<Rightarrow> http_error + (json option \<times> instant option)" where
  "refreshAccessToken E now p token =
     andThen (tokenRequest E p
        ([(''refresh_token'', token), (''client_id'', clientId E p), (''client_secret'', clientSecret E p),
          (''grant_type'', ''refresh_token'')] @
         (case p of GOOGLE \<Rightarrow> [] | OUTLOOK \<Rightarrow> [(''scope'', ''https://graph.microsoft.com/Calendars.Read offline_access'')]))) (\<lambda>d.
     andThen (readProp d ''access_token'') (\<lambda>access. Inr (access, expiryOf now d)))"

text \<open>
  One page of events and the token of the next page. Outlook's token is cut out of the link to the next page;
  \<open>skipOf\<close> is that match with \<open>decodeURIComponent\<close>.
\<close>

definition listEvents ::
  "env \<Rightarrow> (string \<Rightarrow> string option) \<Rightarrow> CalendarProvider \<Rightarrow> json option \<Rightarrow> instant \<Rightarrow> instant \<Rightarrow>
   json option \<Rightarrow> http_error + (json \<times> json option)" where
  "listEvents E skipOf p token fromTime toTime page =
     (case p of
        GOOGLE \<Rightarrow>
          andThen (getRequest E ''https://www.googleapis.com/calendar/v3/calendars/primary/events'' token
            ([(''calendarId'', JStr ''primary''), (''timeMin'', JStr (toISOString fromTime)), (''timeMax'', JStr (toISOString toTime)),
              (''singleEvents'', JStr ''true''), (''orderBy'', JStr ''startTime''), (''maxResults'', JStr ''100'')] @
             (if jtruthy page then [(''pageToken'', the page)] else []))) (\<lambda>d.
          andThen (readProp d ''items'') (\<lambda>items.
          Inr (the (jor items (Some (JArr []))), jget d ''nextPageToken'')))
      | OUTLOOK \<Rightarrow>
          andThen (getRequest E ''https://graph.microsoft.com/v1.0/me/calendarView'' token
            ([(''startDateTime'', JStr (toISOString fromTime)), (''endDateTime'', JStr (toISOString toTime)), (''$top'', JStr ''100''),
              (''$select'', JStr ''id,subject,start,end,attendees''), (''$orderby'', JStr ''start/dateTime asc'')] @
             (if jtruthy page then [(''$skiptoken'', the page)] else []))) (\<lambda>d.
          andThen (readProp d ''@odata.nextLink'') (\<lambda>link.
          Inr (the (jor (jget d ''value'') (Some (JArr []))),
               map_option JStr (Option.bind (jstr link) (\<lambda>l. if l = [] then None else skipOf l))))))"

section \<open>Connections\<close>

definition isConnection :: "uuid \<Rightarrow> CalendarProvider \<Rightarrow> calendarConnection \<Rightarrow> bool" where
  "isConnection tenantId p c = (calendarConnection_tenantId c = tenantId \<and> calendarConnection_provider c = p)"

definition findConnection :: "uuid \<Rightarrow> CalendarProvider \<Rightarrow> world \<Rightarrow> calendarConnection option" where
  "findConnection tenantId p w = List.find (isConnection tenantId p) (w_calendarConnections w)"

definition connectionNotFound :: exn where
  "connectionNotFound = NotFoundException ''Calendar connection not found''"

definition changeConnection :: "uuid \<Rightarrow> (calendarConnection \<Rightarrow> calendarConnection) \<Rightarrow> world \<Rightarrow> world" where
  "changeConnection i f w = w\<lparr>w_calendarConnections :=
     update_where (\<lambda>c. calendarConnection_id c = i) f (w_calendarConnections w)\<rparr>"

definition providerName :: "CalendarProvider \<Rightarrow> string" where
  "providerName p = (case p of GOOGLE \<Rightarrow> ''GOOGLE'' | OUTLOOK \<Rightarrow> ''OUTLOOK'')"

definition providerOf :: "string \<Rightarrow> CalendarProvider option" where
  "providerOf s = (if s = ''GOOGLE'' then Some GOOGLE else if s = ''OUTLOOK'' then Some OUTLOOK else None)"

definition getConnectUrl :: "env \<Rightarrow> (json \<Rightarrow> string) \<Rightarrow> instant \<Rightarrow> uuid \<Rightarrow> CalendarProvider \<Rightarrow> string" where
  "getConnectUrl E encodeState now tenantId p =
     buildAuthUrl E p (encodeState (JObj [(''tenantId'', JStr tenantId), (''provider'', JStr (providerName p)), (''ts'', JNum now)]))"

definition CALENDAR_SYNC_QUEUE :: string where
  "CALENDAR_SYNC_QUEUE = ''meetora-calendar-sync''"

definition syncJob :: "uuid \<Rightarrow> CalendarProvider \<Rightarrow> job" where
  "syncJob tenantId p =
     \<lparr>job_queue = CALENDAR_SYNC_QUEUE, job_id = [], job_name = ''sync-calendar'',
      job_data = JObj [(''tenantId'', JStr tenantId), (''provider'', JStr (providerName p))], job_delay = 0\<rparr>"

text \<open>
  The upsert. Prisma checks all arguments before it looks at the table: a token that is not a text, or a date
  that is none, is refused.
\<close>

definition invalidArgument :: exn where
  "invalidArgument = PrismaError ''PrismaClientValidationError''"

definition newConnection ::
  "instant \<Rightarrow> uuid \<Rightarrow> CalendarProvider \<Rightarrow> string \<Rightarrow> string \<Rightarrow> instant \<Rightarrow> string \<Rightarrow> uuid \<Rightarrow> calendarConnection" where
  "newConnection now tenantId p access refresh expiry email i =
     \<lparr>calendarConnection_id = i, calendarConnection_tenantId = tenantId, calendarConnection_provider = p,
      calendarConnection_accessToken = access, calendarConnection_refreshToken = refresh,
      calendarConnection_expiresAt = expiry, calendarConnection_email = Some email,
      calendarConnection_syncStatus = CS_IDLE, calendarConnection_lastSyncAt = None,
      calendarConnection_syncError = None, calendarConnection_connectedAt = now\<rparr>"

definition reconnected :: "string \<Rightarrow> string \<Rightarrow> instant \<Rightarrow> string \<Rightarrow> calendarConnection \<Rightarrow> calendarConnection" where
  "reconnected access refresh expiry email c = c\<lparr>calendarConnection_accessToken := access,
     calendarConnection_refreshToken := refresh, calendarConnection_expiresAt := expiry,
     calendarConnection_email := Some email, calendarConnection_syncStatus := CS_IDLE,
     calendarConnection_syncError := None\<rparr>"

definition upsertConnection :: "instant \<Rightarrow> uuid \<Rightarrow> CalendarProvider \<Rightarrow> CalendarTokens \<Rightarrow> unit act" where
  "upsertConnection now tenantId p t w =
     (case (jstr (ct_accessToken t), jstr (ct_refreshToken t), ct_expiresAt t, jstr (ct_email t)) of
        (Some access, Some refresh, Some expiry, Some email) \<Rightarrow>
          if findConnection tenantId p w \<noteq> None
          then (Inr (), w\<lparr>w_calendarConnections := update_where (isConnection tenantId p)
                 (reconnected access refresh expiry email) (w_calendarConnections w)\<rparr>)
          else if tenantExists tenantId w
          then (Inr (), bump (w\<lparr>w_calendarConnections := w_calendarConnections w @
                 [newConnection now tenantId p access refresh expiry email (newId w)]\<rparr>))
          else (Inl (PrismaError ''P2003''), w)
      | _ \<Rightarrow> (Inl invalidArgument, w))"

definition liftHttp :: "http_error + 'a \<Rightarrow> 'a act" where
  "liftHttp r w = (case r of Inl e \<Rightarrow> (Inl (PlainError (fst e)), w) | Inr x \<Rightarrow> (Inr x, w))"

text \<open>
  The callback. The state names the tenant and the provider; nothing ties it to who asks. A provider that is not
  Google's name is taken for Outlook; the upsert then wants the name to be one of the two.
\<close>

definition handleOAuthCallback ::
  "env \<Rightarrow> (string \<Rightarrow> json option) \<Rightarrow> instant \<Rightarrow> string \<Rightarrow> string \<Rightarrow> (CalendarProvider \<times> json option) act" where
  "handleOAuthCallback E decodeState now code state w =
     (case decodeState state of
        None \<Rightarrow> (Inl (BadRequestException ''Invalid OAuth state''), w)
      | Some JNull \<Rightarrow> (Inl (PlainError (typeError ''null'' ''tenantId'')), w)
      | Some parsed \<Rightarrow>
          (let named_provider = Option.bind (jstr (jget (Some parsed) ''provider'')) providerOf
           in bindA (liftHttp (exchangeCode E now (if named_provider = Some GOOGLE then GOOGLE else OUTLOOK) code)) (\<lambda>t.
              (case (jstr (jget (Some parsed) ''tenantId''), named_provider) of
                 (Some tenantId, Some p) \<Rightarrow>
                   thenA (upsertConnection now tenantId p t)
                     (thenA (modifyA (addJob (syncJob tenantId p))) (returnA (p, ct_email t)))
               | _ \<Rightarrow> throwA invalidArgument)) w))"

record ConnectionView =
  cv_id :: uuid
  cv_provider :: CalendarProvider
  cv_email :: "string option"
  cv_syncStatus :: CalendarSyncStatus
  cv_lastSyncAt :: "instant option"
  cv_syncError :: "string option"
  cv_connectedAt :: instant
  cv_eventCount :: nat

definition getConnections :: "uuid \<Rightarrow> world \<Rightarrow> ConnectionView list" where
  "getConnections tenantId w =
     map (\<lambda>c. \<lparr>cv_id = calendarConnection_id c, cv_provider = calendarConnection_provider c,
               cv_email = calendarConnection_email c, cv_syncStatus = calendarConnection_syncStatus c,
               cv_lastSyncAt = calendarConnection_lastSyncAt c, cv_syncError = calendarConnection_syncError c,
               cv_connectedAt = calendarConnection_connectedAt c,
               cv_eventCount = count_where (\<lambda>e. calendarSyncedEvent_connectionId e = calendarConnection_id c)
                 (w_calendarSyncedEvents w)\<rparr>)
       (filter (\<lambda>c. calendarConnection_tenantId c = tenantId) (w_calendarConnections w))"

text \<open>Deleting a connection deletes the entries synced through it, not the appointments made of them.\<close>

definition deleteConnection :: "uuid \<Rightarrow> world \<Rightarrow> world" where
  "deleteConnection i w =
     w\<lparr>w_calendarConnections := delete_where (\<lambda>c. calendarConnection_id c = i) (w_calendarConnections w),
       w_calendarSyncedEvents := delete_where (\<lambda>e. calendarSyncedEvent_connectionId e = i) (w_calendarSyncedEvents w)\<rparr>"

definition disconnectCalendar :: "uuid \<Rightarrow> CalendarProvider \<Rightarrow> unit act" where
  "disconnectCalendar tenantId p w =
     (case findConnection tenantId p w of
        None \<Rightarrow> (Inl connectionNotFound, w)
      | Some c \<Rightarrow> (Inr (), deleteConnection (calendarConnection_id c) w))"

definition enqueueSyncNow :: "uuid \<Rightarrow> CalendarProvider \<Rightarrow> unit act" where
  "enqueueSyncNow tenantId p w =
     (case findConnection tenantId p w of
        None \<Rightarrow> (Inl connectionNotFound, w)
      | Some c \<Rightarrow> (Inr (), addJob (syncJob tenantId p) w))"

section \<open>One event\<close>

record ExternalEvent =
  xe_externalEventId :: string
  xe_title :: string
  xe_startAt :: instant
  xe_endAt :: "instant option"
  xe_attendeeEmail :: "string option"

definition isSynced :: "uuid \<Rightarrow> string \<Rightarrow> calendarSyncedEvent \<Rightarrow> bool" where
  "isSynced connectionId external e =
     (calendarSyncedEvent_connectionId e = connectionId \<and> calendarSyncedEvent_externalEventId e = external)"

definition attendeeCustomer :: "uuid \<Rightarrow> ExternalEvent \<Rightarrow> world \<Rightarrow> customer option" where
  "attendeeCustomer tenantId x w =
     (if truthy (xe_attendeeEmail x)
      then List.find (\<lambda>c. customer_tenantId c = tenantId \<and> customer_email c = xe_attendeeEmail x) (w_customers w)
      else None)"

text \<open>\<open>Math.round(ms / 60000) || 30\<close>\<close>

definition minutesOf :: "int \<Rightarrow> int" where
  "minutesOf ms = (let m = (2 * ms + 60000) div 120000 in if m = 0 then 30 else m)"

definition syncedEventRow :: "uuid \<Rightarrow> ExternalEvent \<Rightarrow> uuid \<Rightarrow> event" where
  "syncedEventRow tenantId x i =
     \<lparr>event_id = i, event_tenantId = tenantId, event_title = xe_title x, event_location = None,
      event_startTime = xe_startAt x, event_status = E_ACTIVE, event_isDemoData = False, event_description = None,
      event_endTime = xe_endAt x, event_eventType = ET_APPOINTMENT, event_createdBy = None,
      event_incentiveType = Some ''none'', event_incentiveValue = None, event_incentiveMessage = None\<rparr>"

definition syncedAppointment :: "uuid \<Rightarrow> ExternalEvent \<Rightarrow> uuid \<Rightarrow> uuid \<Rightarrow> uuid \<Rightarrow> appointment" where
  "syncedAppointment tenantId x customerId eventId i =
     \<lparr>appointment_id = i, appointment_tenantId = tenantId, appointment_customerId = Some customerId,
      appointment_title = xe_title x, appointment_scheduledAt = xe_startAt x,
      appointment_durationMinutes = minutesOf (the (xe_endAt x) - xe_startAt x), appointment_status = A_SCHEDULED,
      appointment_notes = None, appointment_locationId = None, appointment_campaignId = None,
      appointment_eventId = Some eventId, appointment_audienceSegmentId = None, appointment_isDemoData = False\<rparr>"

definition syncedParticipant :: "uuid \<Rightarrow> uuid \<Rightarrow> uuid \<Rightarrow> uuid \<Rightarrow> eventParticipant" where
  "syncedParticipant tenantId eventId contactId i =
     \<lparr>eventParticipant_id = i, eventParticipant_eventId = eventId, eventParticipant_contactId = contactId,
      eventParticipant_tenantId = tenantId, eventParticipant_status = P_confirmed,
      eventParticipant_lastResponseAt = None, eventParticipant_qrToken = None,
      eventParticipant_arrivedAt = None, eventParticipant_qrScannedBy = None,
      eventParticipant_couponCode = None, eventParticipant_couponSentAt = None,
      eventParticipant_isDemoData = False\<rparr>"

text \<open>The event with its appointment and, when a contact has the address, a participant: one nested create.\<close>

definition insertSyncedAppointment :: "uuid \<Rightarrow> ExternalEvent \<Rightarrow> uuid \<Rightarrow> world \<Rightarrow> (event \<times> appointment) \<times> world" where
  "insertSyncedAppointment tenantId x customerId w =
     (let ev = syncedEventRow tenantId x (newId w);
          w1 = bump (w\<lparr>w_events := w_events w @ [ev]\<rparr>);
          a = syncedAppointment tenantId x customerId (event_id ev) (newId w1);
          w2 = bump (w1\<lparr>w_appointments := w_appointments w1 @ [a]\<rparr>);
          contact = List.find (\<lambda>c. contact_tenantId c = tenantId \<and> contact_email c = xe_attendeeEmail x) (w_contacts w);
          w3 = (case contact of
                  None \<Rightarrow> w2
                | Some c \<Rightarrow> bump (w2\<lparr>w_eventParticipants := w_eventParticipants w2 @
                    [syncedParticipant tenantId (event_id ev) (contact_id c) (newId w2)]\<rparr>))
      in ((ev, a), w3))"

definition syncedTriggerData :: "uuid \<Rightarrow> uuid \<Rightarrow> event \<Rightarrow> json" where
  "syncedTriggerData tenantId customerId ev =
     JObj [(''eventId'', JStr (event_id ev)), (''eventTitle'', JStr (event_title ev)), (''customerId'', JStr customerId),
           (''tenantId'', JStr tenantId)]"

definition bookAttendee :: "env \<Rightarrow> instant \<Rightarrow> uuid \<Rightarrow> ExternalEvent \<Rightarrow> world \<Rightarrow> (uuid option \<times> uuid option) \<times> world" where
  "bookAttendee E now tenantId x w =
     (case attendeeCustomer tenantId x w of
        None \<Rightarrow> ((None, None), w)
      | Some c \<Rightarrow>
          (let ((ev, a), w1) = insertSyncedAppointment tenantId x (customer_id c) w;
               w2 = snd (scheduleForAppointment E now (appointment_id a) tenantId w1);
               w3 = fireTrigger now tenantId ''event_created'' (event_id ev)
                      (syncedTriggerData tenantId (customer_id c) ev) w2
           in ((Some (appointment_id a), Some (event_id ev)), w3)))"

definition syncedRow :: "uuid \<Rightarrow> uuid \<Rightarrow> ExternalEvent \<Rightarrow> uuid option \<times> uuid option \<Rightarrow> uuid \<Rightarrow> calendarSyncedEvent" where
  "syncedRow connectionId tenantId x made i =
     \<lparr>calendarSyncedEvent_id = i, calendarSyncedEvent_tenantId = tenantId,
      calendarSyncedEvent_startAt = xe_startAt x, calendarSyncedEvent_endAt = the (xe_endAt x),
      calendarSyncedEvent_appointmentId = fst made, calendarSyncedEvent_eventId = snd made,
      calendarSyncedEvent_connectionId = connectionId, calendarSyncedEvent_externalEventId = xe_externalEventId x,
      calendarSyncedEvent_title = xe_title x, calendarSyncedEvent_attendeeEmail = xe_attendeeEmail x\<rparr>"

text \<open>
  \<open>upsertSyncedEvent\<close>: an entry that is there is left alone, whatever has become of it in the calendar; a new
  one whose attendee is a customer becomes an appointment. A date that is none is refused.
\<close>

definition upsertSyncedEvent :: "env \<Rightarrow> instant \<Rightarrow> uuid \<Rightarrow> uuid \<Rightarrow> ExternalEvent \<Rightarrow> bool act" where
  "upsertSyncedEvent E now connectionId tenantId x w =
     (if list_ex (isSynced connectionId (xe_externalEventId x)) (w_calendarSyncedEvents w) then (Inr False, w)
      else if xe_endAt x = None then (Inl invalidArgument, w)
      else let (made, v) = bookAttendee E now tenantId x w
           in (Inr True, bump (v\<lparr>w_calendarSyncedEvents := w_calendarSyncedEvents v @
                 [syncedRow connectionId tenantId x made (newId v)]\<rparr>)))"

section \<open>A sync\<close>

text \<open>
  What the loop makes of an entry of the reply: \<open>Inr None\<close> is \<open>continue\<close>. Google's title is \<open>summary\<close>, its
  times are dates when they last all day; Outlook's attendees hold their address one level deeper.
\<close>

definition dateOf :: "(string \<Rightarrow> instant option) \<Rightarrow> json option \<Rightarrow> instant option" where
  "dateOf parse v = (case v of Some (JStr s) \<Rightarrow> parse s | Some (JNum n) \<Rightarrow> Some n | Some JNull \<Rightarrow> Some 0 | _ \<Rightarrow> None)"

definition attendeeOf :: "CalendarProvider \<Rightarrow> json \<Rightarrow> string option" where
  "attendeeOf p ev =
     (case jget (Some ev) ''attendees'' of
        Some (JArr (x # _)) \<Rightarrow>
          (case p of GOOGLE \<Rightarrow> jstr (jget (Some x) ''email'')
           | OUTLOOK \<Rightarrow> jstr (jget (jget (Some x) ''emailAddress'') ''address''))
      | _ \<Rightarrow> None)"

definition timeOf :: "CalendarProvider \<Rightarrow> (string \<Rightarrow> instant option) \<Rightarrow> json option \<Rightarrow> http_error + instant option" where
  "timeOf p parse t =
     andThen (readProp t ''dateTime'') (\<lambda>d.
       Inr (dateOf parse (case p of GOOGLE \<Rightarrow> jor (jor d (jget t ''date'')) (Some (JStr [])) | OUTLOOK \<Rightarrow> d)))"

definition readEvent ::
  "CalendarProvider \<Rightarrow> (string \<Rightarrow> instant option) \<Rightarrow> json \<Rightarrow> exn + ExternalEvent option" where
  "readEvent p parse ev =
     (case andThen (readProp (Some ev) (case p of GOOGLE \<Rightarrow> ''summary'' | OUTLOOK \<Rightarrow> ''subject'')) (\<lambda>title.
           if \<not> jtruthy title then Inr None
           else andThen (timeOf p parse (jget (Some ev) ''start'')) (\<lambda>startAt.
                andThen (timeOf p parse (jget (Some ev) ''end'')) (\<lambda>endAt.
                Inr (map_option (\<lambda>t. (title, t, endAt)) startAt)))) of
        Inl e \<Rightarrow> Inl (PlainError (fst e))
      | Inr None \<Rightarrow> Inr None
      | Inr (Some (title, startAt, endAt)) \<Rightarrow>
          (case (jstr (jget (Some ev) ''id''), jstr title) of
             (Some i, Some t) \<Rightarrow> Inr (Some \<lparr>xe_externalEventId = i, xe_title = t, xe_startAt = startAt, xe_endAt = endAt,
                                   xe_attendeeEmail = attendeeOf p ev\<rparr>)
           | _ \<Rightarrow> Inl invalidArgument))"

type_synonym counts = "nat \<times> nat"

fun syncEvents ::
  "(json \<Rightarrow> exn + ExternalEvent option) \<Rightarrow> (ExternalEvent \<Rightarrow> bool act) \<Rightarrow> json list \<Rightarrow> counts \<Rightarrow> counts act" where
  "syncEvents read upsert [] n w = (Inr n, w)"
| "syncEvents read upsert (ev # evs) n w =
     (case read ev of
        Inl e \<Rightarrow> (Inl e, w)
      | Inr None \<Rightarrow> syncEvents read upsert evs n w
      | Inr (Some x) \<Rightarrow>
          (case upsert x w of
             (Inl e, v) \<Rightarrow> (Inl e, v)
           | (Inr isNew, v) \<Rightarrow> syncEvents read upsert evs (Suc (fst n), if isNew then Suc (snd n) else snd n) v))"

text \<open>\<open>for (const event of events)\<close>: what is not a list cannot be iterated.\<close>

definition syncPage ::
  "(json \<Rightarrow> exn + ExternalEvent option) \<Rightarrow> (ExternalEvent \<Rightarrow> bool act) \<Rightarrow> json \<Rightarrow> counts \<Rightarrow> counts act" where
  "syncPage read upsert events n =
     (case events of JArr evs \<Rightarrow> syncEvents read upsert evs n | _ \<Rightarrow> throwA (PlainError ''events is not iterable''))"

partial_function (option) syncPages ::
  "(json option \<Rightarrow> http_error + ('p \<times> json option)) \<Rightarrow> ('p \<Rightarrow> counts \<Rightarrow> counts act) \<Rightarrow> json option \<Rightarrow> counts \<Rightarrow>
   world \<Rightarrow> (counts outcome \<times> world) option" where
  "syncPages fetch onPage page n w =
     (case fetch page of
        Inl e \<Rightarrow> Some (Inl (PlainError (fst e)), w)
      | Inr (events, following) \<Rightarrow>
          (case onPage events n w of
             (Inl e, v) \<Rightarrow> Some (Inl e, v)
           | (Inr m, v) \<Rightarrow> if jtruthy following then syncPages fetch onPage following m v else Some (Inr m, v)))"

text \<open>\<open>getFreshToken\<close>: a token that expires within the minute is renewed first.\<close>

definition getFreshToken :: "env \<Rightarrow> instant \<Rightarrow> uuid \<Rightarrow> json option act" where
  "getFreshToken E now connectionId w =
     (case List.find (\<lambda>c. calendarConnection_id c = connectionId) (w_calendarConnections w) of
        None \<Rightarrow> (Inl (PrismaError ''P2025''), w)
      | Some c \<Rightarrow>
          if now + 60000 < calendarConnection_expiresAt c then (Inr (Some (JStr (calendarConnection_accessToken c))), w)
          else bindA (liftHttp (refreshAccessToken E now (calendarConnection_provider c) (calendarConnection_refreshToken c)))
            (\<lambda>(access, expiry).
               if expiry = None \<or> (access \<noteq> None \<and> jstr access = None) then throwA invalidArgument
               else thenA (modifyA (changeConnection connectionId (\<lambda>d. d\<lparr>
                        calendarConnection_accessToken := coalesce (jstr access) (calendarConnection_accessToken d),
                        calendarConnection_expiresAt := the expiry\<rparr>)))
                      (returnA access)) w)"

definition performSync ::
  "env \<Rightarrow> (string \<Rightarrow> string option) \<Rightarrow> (string \<Rightarrow> instant option) \<Rightarrow> instant \<Rightarrow> uuid \<Rightarrow> uuid \<Rightarrow>
   CalendarProvider \<Rightarrow> world \<Rightarrow> (counts outcome \<times> world) option" where
  "performSync E skipOf parse now connectionId tenantId p w =
     (case getFreshToken E now connectionId w of
        (Inl e, v) \<Rightarrow> Some (Inl e, v)
      | (Inr token, v) \<Rightarrow>
          syncPages (listEvents E skipOf p token now (now + 30 * 24 * 60 * 60 * 1000))
            (syncPage (readEvent p parse) (upsertSyncedEvent E now connectionId tenantId)) None (0, 0) v)"

definition syncConnection ::
  "env \<Rightarrow> (string \<Rightarrow> string option) \<Rightarrow> (string \<Rightarrow> instant option) \<Rightarrow> instant \<Rightarrow> uuid \<Rightarrow>
   CalendarProvider \<Rightarrow> world \<Rightarrow> (counts outcome \<times> world) option" where
  "syncConnection E skipOf parse now tenantId p w =
     (case findConnection tenantId p w of
        None \<Rightarrow> Some (Inl connectionNotFound, w)
      | Some c \<Rightarrow>
          (let i = calendarConnection_id c
           in map_option (\<lambda>(r, v). case r of
                  Inr n \<Rightarrow> (Inr n, changeConnection i (\<lambda>d. d\<lparr>calendarConnection_syncStatus := CS_IDLE,
                      calendarConnection_lastSyncAt := Some now, calendarConnection_syncError := None\<rparr>) v)
                | Inl e \<Rightarrow> (Inl e, changeConnection i (\<lambda>d. d\<lparr>calendarConnection_syncStatus := CS_ERROR,
                      calendarConnection_syncError := Some (exnText e)\<rparr>) v))
                (performSync E skipOf parse now i tenantId p
                   (changeConnection i (\<lambda>d. d\<lparr>calendarConnection_syncStatus := CS_SYNCING\<rparr>) w))))"

section \<open>The routes\<close>

definition settingsPage :: "env \<Rightarrow> string" where
  "settingsPage E = conf E ''FRONTEND_URL'' ''http://localhost:3000'' @ ''/dashboard/settings''"

text \<open>
  The public callback: \<open>service\<close> is \<open>google\<close> or \<open>outlook\<close>, the last part of the route; the answer is where the
  browser is sent.
\<close>

definition calendarCallback ::
  "env \<Rightarrow> (string \<Rightarrow> json option) \<Rightarrow> instant \<Rightarrow> string \<Rightarrow> string option \<Rightarrow> string \<Rightarrow> string option \<Rightarrow> world \<Rightarrow> string \<times> world" where
  "calendarCallback E decodeState now service code state error w =
     (if truthy error \<or> \<not> truthy code
      then (settingsPage E @ ''?calendar_error='' @ encodeURIComponent (the (or_str error (Some ''no_code''))), w)
      else case handleOAuthCallback E decodeState now (the code) state w of
             (Inr (p, email), v) \<Rightarrow>
               (settingsPage E @ ''?calendar_connected='' @ service @ ''&email='' @ encodeURIComponent (jString email), v)
           | (Inl e, v) \<Rightarrow>
               (settingsPage E @ ''?calendar_error='' @
                  encodeURIComponent (if exnText e = [] then ''oauth_failed'' else exnText e), v))"

definition connectRoute :: "env \<Rightarrow> (json \<Rightarrow> string) \<Rightarrow> instant \<Rightarrow> uuid \<Rightarrow> string option \<Rightarrow> string + string" where
  "connectRoute E encodeState now tenantId provider =
     (case Option.bind provider (\<lambda>s. providerOf (toUpperCase s)) of
        None \<Rightarrow> Inl ''Invalid provider. Use GOOGLE or OUTLOOK.''
      | Some p \<Rightarrow> Inr (getConnectUrl E encodeState now tenantId p))"

definition providerRoute :: "(CalendarProvider \<Rightarrow> 'a act) \<Rightarrow> string \<Rightarrow> 'a act" where
  "providerRoute k provider =
     (case providerOf (toUpperCase provider) of None \<Rightarrow> throwA invalidArgument | Some p \<Rightarrow> k p)"

end
