(* ===== verification/Calendar_Properties.thy ===== *)
theory Calendar_Properties
  imports Calendars
begin

text \<open>
  What a calendar sync guarantees: it ends when the pages do, it books each event of the calendar once, and
  syncing again adds nothing; and to whom a calendar gets connected.
\<close>

section \<open>Frames\<close>

lemma scheduled_synced: "w_calendarSyncedEvents (snd (scheduleForAppointment E now i t w)) = w_calendarSyncedEvents w"
  by (simp add: scheduleForAppointment_def case_prod_beta Let_def split: option.split)
     (subst scheduleRules_frame, simp)

lemma triggered_synced: "w_calendarSyncedEvents (fireTrigger now t trig c d w) = w_calendarSyncedEvents w"
  using arg_cong [OF fireTrigger_frame [of now t trig c d w], of w_calendarSyncedEvents] by simp

lemma bookAttendee_synced: "w_calendarSyncedEvents (snd (bookAttendee E now t x w)) = w_calendarSyncedEvents w"
proof -
  have "w_calendarSyncedEvents (snd (insertSyncedAppointment t x c w)) = w_calendarSyncedEvents w" for c
    by (simp add: insertSyncedAppointment_def Let_def bump_def split: option.split)
  then show ?thesis
    by (simp add: bookAttendee_def case_prod_beta Let_def triggered_synced scheduled_synced split: option.split)
qed

section \<open>The entries known\<close>

definition syncedKeys :: "world \<Rightarrow> (uuid \<times> string) set" where
  "syncedKeys w = (\<lambda>e. (calendarSyncedEvent_connectionId e, calendarSyncedEvent_externalEventId e)) ` set (w_calendarSyncedEvents w)"

lemma isSynced_iff: "list_ex (isSynced i x) (w_calendarSyncedEvents w) = ((i, x) \<in> syncedKeys w)"
  by (auto simp: syncedKeys_def isSynced_def list_ex_iff image_iff)

lemma upsert_known: "(i, xe_externalEventId x) \<in> syncedKeys w \<Longrightarrow> upsertSyncedEvent E now i t x w = (Inr False, w)"
  by (simp add: upsertSyncedEvent_def isSynced_iff)

lemma upsert_keys:
  assumes "upsertSyncedEvent E now i t x w = (Inr b, v)"
  shows "syncedKeys v = insert (i, xe_externalEventId x) (syncedKeys w)"
    and "length (w_calendarSyncedEvents v) = length (w_calendarSyncedEvents w) + (if b then 1 else 0)"
    and "b = ((i, xe_externalEventId x) \<notin> syncedKeys w)"
proof -
  have "syncedKeys v = insert (i, xe_externalEventId x) (syncedKeys w) \<and>
    length (w_calendarSyncedEvents v) = length (w_calendarSyncedEvents w) + (if b then 1 else 0) \<and>
    b = ((i, xe_externalEventId x) \<notin> syncedKeys w)"
  proof (cases "(i, xe_externalEventId x) \<in> syncedKeys w")
    case True
    then have "b = False" "v = w" using assms by (simp_all add: upsert_known)
    then show ?thesis using True by auto
  next
    case False
    have r: "b \<and> w_calendarSyncedEvents v =
        w_calendarSyncedEvents w @ [syncedRow i t x (fst (bookAttendee E now t x w)) (newId (snd (bookAttendee E now t x w)))]"
      using assms False bookAttendee_synced [of E now t x w]
      by (auto simp: upsertSyncedEvent_def isSynced_iff case_prod_beta bump_def split: if_splits)
    then have "syncedKeys v = insert (i, xe_externalEventId x) (syncedKeys w)"
      by (simp add: syncedKeys_def) (simp add: syncedRow_def)
    then show ?thesis using r False by simp
  qed
  then show "syncedKeys v = insert (i, xe_externalEventId x) (syncedKeys w)"
    "length (w_calendarSyncedEvents v) = length (w_calendarSyncedEvents w) + (if b then 1 else 0)"
    "b = ((i, xe_externalEventId x) \<notin> syncedKeys w)"
    by blast+
qed

text \<open>
  One list of events: each is counted, the rows that are new are counted again, and in a state that knows what
  this run has come to know the list is counted without being written.
\<close>

lemma syncEvents_again:
  assumes "syncEvents read (upsertSyncedEvent E now i t) evs n w = (Inr m, w')"
  shows "syncedKeys w \<subseteq> syncedKeys w'"
    and "length (w_calendarSyncedEvents w') + snd n = length (w_calendarSyncedEvents w) + snd m"
    and "\<And>v k. syncedKeys w' \<subseteq> syncedKeys v \<Longrightarrow>
      syncEvents read (upsertSyncedEvent E later i t) evs (k + fst n, 0) v = (Inr (k + fst m, 0), v)"
proof -
  have "syncedKeys w \<subseteq> syncedKeys w' \<and>
      length (w_calendarSyncedEvents w') + snd n = length (w_calendarSyncedEvents w) + snd m \<and>
      (\<forall>v k. syncedKeys w' \<subseteq> syncedKeys v \<longrightarrow>
        syncEvents read (upsertSyncedEvent E later i t) evs (k + fst n, 0) v = (Inr (k + fst m, 0), v))"
    using assms
  proof (induction evs arbitrary: n w)
    case (Cons ev evs)
    show ?case
    proof (cases "read ev")
      case (Inr x)
      show ?thesis
      proof (cases x)
        case (Some y)
        obtain b u where u: "upsertSyncedEvent E now i t y w = (Inr b, u)"
          and r: "syncEvents read (upsertSyncedEvent E now i t) evs (Suc (fst n), if b then Suc (snd n) else snd n) u = (Inr m, w')"
          using Cons.prems Inr Some by (auto split: prod.splits sum.splits)
        note k = upsert_keys [OF u] and ih = Cons.IH [OF r]
        have "upsertSyncedEvent E later i t y v = (Inr False, v)" if "syncedKeys w' \<subseteq> syncedKeys v" for v
          by (rule upsert_known) (use k(1) ih that in auto)
        then show ?thesis using k ih Inr Some by (auto simp: add.commute)
      qed (use Cons Inr in auto)
    qed (use Cons in auto)
  qed simp
  then show "syncedKeys w \<subseteq> syncedKeys w'"
    "length (w_calendarSyncedEvents w') + snd n = length (w_calendarSyncedEvents w) + snd m"
    "\<And>v k. syncedKeys w' \<subseteq> syncedKeys v \<Longrightarrow>
      syncEvents read (upsertSyncedEvent E later i t) evs (k + fst n, 0) v = (Inr (k + fst m, 0), v)"
    by blast+
qed

definition pagesAgain ::
  "(json option \<Rightarrow> http_error + (json \<times> json option)) \<Rightarrow> (json \<Rightarrow> counts \<Rightarrow> counts act) \<Rightarrow> json option \<Rightarrow> counts \<Rightarrow> world \<Rightarrow>
   counts \<Rightarrow> world \<Rightarrow> bool" where
  "pagesAgain fetch again page n w m w' =
     (syncedKeys w \<subseteq> syncedKeys w' \<and>
      length (w_calendarSyncedEvents w') + snd n = length (w_calendarSyncedEvents w) + snd m \<and>
      (\<forall>v k. syncedKeys w' \<subseteq> syncedKeys v \<longrightarrow> syncPages fetch again page (k + fst n, 0) v = Some (Inr (k + fst m, 0), v)))"

lemma syncPages_again:
  assumes "syncPages fetch onPage page n w = Some y"
  shows "onPage = syncPage read (upsertSyncedEvent E now i t) \<longrightarrow>
     (\<forall>m w'. y = (Inr m, w') \<longrightarrow> pagesAgain fetch (syncPage read (upsertSyncedEvent E later i t)) page n w m w')"
proof (rule syncPages.raw_induct [OF _ assms])
  fix run fetch onPage page n w y
  assume IH: "\<And>fetch onPage page n w y. run fetch onPage page n w = Some y \<Longrightarrow>
      onPage = syncPage read (upsertSyncedEvent E now i t) \<longrightarrow>
      (\<forall>m w'. y = (Inr m, w') \<longrightarrow> pagesAgain fetch (syncPage read (upsertSyncedEvent E later i t)) page n w m w')"
    and body: "(case fetch page of
        Inl e \<Rightarrow> Some (Inl (PlainError (fst e)), w)
      | Inr (events, following) \<Rightarrow>
          (case onPage events n w of
             (Inl e, v) \<Rightarrow> Some (Inl e, v)
           | (Inr m, v) \<Rightarrow> if jtruthy following then run fetch onPage following m v else Some (Inr m, v))) = Some y"
  show "onPage = syncPage read (upsertSyncedEvent E now i t) \<longrightarrow>
     (\<forall>m w'. y = (Inr m, w') \<longrightarrow> pagesAgain fetch (syncPage read (upsertSyncedEvent E later i t)) page n w m w')"
  proof (intro impI allI)
    fix m w'
    assume op: "onPage = syncPage read (upsertSyncedEvent E now i t)" and y: "y = (Inr m, w')"
    obtain events following where f: "fetch page = Inr (events, following)"
      using body y by (auto split: sum.splits prod.splits)
    obtain k u where p: "onPage events n w = (Inr k, u)"
      and r: "if jtruthy following then run fetch onPage following k u = Some (Inr m, w') else (k, u) = (m, w')"
      using body y f by (auto split: sum.splits prod.splits if_splits)
    obtain evs where e: "events = JArr evs" using p by (cases events) (simp_all add: op syncPage_def)
    have s: "syncEvents read (upsertSyncedEvent E now i t) evs n w = (Inr k, u)" using p by (simp add: op syncPage_def e)
    note a = syncEvents_again [OF s]
    show "pagesAgain fetch (syncPage read (upsertSyncedEvent E later i t)) page n w m w'"
    proof (cases "jtruthy following")
      case True
      then have ih: "pagesAgain fetch (syncPage read (upsertSyncedEvent E later i t)) following k u m w'"
        using IH [of fetch onPage following k u] r op by (cases m) simp
      have "syncPages fetch (syncPage read (upsertSyncedEvent E later i t)) page (j + fst n, 0) v = Some (Inr (j + fst m, 0), v)"
        if "syncedKeys w' \<subseteq> syncedKeys v" for v j
        using ih a(3) [where v = v and k = j and later = later] that True
        by (subst syncPages.simps) (auto simp: f syncPage_def e pagesAgain_def)
      then show ?thesis using ih a by (auto simp: pagesAgain_def)
    next
      case False
      have "syncPages fetch (syncPage read (upsertSyncedEvent E later i t)) page (j + fst n, 0) v = Some (Inr (j + fst m, 0), v)"
        if "syncedKeys w' \<subseteq> syncedKeys v" for v j
        using a(3) [where v = v and k = j and later = later] that False r
        by (subst syncPages.simps) (auto simp: f syncPage_def e)
      then show ?thesis using a r False by (auto simp: pagesAgain_def)
    qed
  qed
qed

text \<open>
  C21: A calendar is synced once. When a sync returns, the entries of the calendar it counted as created are the
  rows that were added; and a second sync at any later time, of pages that say the same, counts the same number
  of entries, creates none and changes nothing at all - not even when entries were moved: it looks at their ids.
\<close>

theorem resync_adds_nothing:
  assumes "syncPages fetch (syncPage read (upsertSyncedEvent E now i t)) None (0, 0) w = Some (Inr (n, k), w')"
  shows "length (w_calendarSyncedEvents w') = length (w_calendarSyncedEvents w) + k \<and>
    syncPages fetch (syncPage read (upsertSyncedEvent E later i t)) None (0, 0) w' = Some (Inr (n, 0), w')"
proof -
  have p: "pagesAgain fetch (syncPage read (upsertSyncedEvent E later i t)) None (0, 0) w (n, k) w'"
    using syncPages_again [OF assms, of read E now i t later] by simp
  have "syncPages fetch (syncPage read (upsertSyncedEvent E later i t)) None (0 + fst (0, 0), 0) w' =
      Some (Inr (0 + fst (n, k), 0), w')"
    using p [unfolded pagesAgain_def, THEN conjunct2, THEN conjunct2, THEN spec [where x = w'], THEN spec [where x = 0]]
    by simp
  then show ?thesis using p by (simp add: pagesAgain_def)
qed

section \<open>The end of a sync\<close>

text \<open>
  A sync ends when the pages do: if every page that names a next one is farther from the end than that one, the
  loop returns, whatever is on the pages. A service that goes on naming next pages keeps it running.
\<close>

lemma sync_ends:
  assumes "\<And>page events following. fetch page = Inr (events, following) \<Longrightarrow> jtruthy following \<Longrightarrow>
      left following < (left page :: nat)"
  shows "\<exists>y. syncPages fetch onPage page n w = Some y"
proof (induction "left page" arbitrary: page n w rule: less_induct)
  case less
  show ?case
  proof (cases "fetch page")
    case (Inl e)
    then show ?thesis by (subst syncPages.simps) (simp del: split_paired_Ex)
  next
    case (Inr q)
    obtain events following where q: "q = (events, following)" by (cases q)
    obtain r v where r: "onPage events n w = (r, v)" by (cases "onPage events n w")
    show ?thesis
    proof (cases "r")
      case (Inr m)
      show ?thesis
      proof (cases "jtruthy following")
        case True
        then have "\<exists>y. syncPages fetch onPage following m v = Some y"
          using less assms \<open>fetch page = Inr q\<close> q by blast
        then show ?thesis using \<open>fetch page = Inr q\<close> q r Inr True
          by (subst syncPages.simps) (simp del: split_paired_Ex)
      qed (subst syncPages.simps, use \<open>fetch page = Inr q\<close> q r Inr in \<open>simp del: split_paired_Ex\<close>)
    qed (subst syncPages.simps, use Inr q r in \<open>simp del: split_paired_Ex\<close>)
  qed
qed

lemma endless_pages:
  assumes "\<And>page. \<exists>following. fetch page = Inr (JArr [], following) \<and> jtruthy following"
  shows "syncPages fetch (syncPage read upsert) page n w = None"
proof (rule ccontr)
  assume "syncPages fetch (syncPage read upsert) page n w \<noteq> None"
  then obtain y where y: "syncPages fetch (syncPage read upsert) page n w = Some y" by blast
  have "\<not> ((\<forall>page. \<exists>following. fetch page = Inr (JArr [], following) \<and> jtruthy following) \<and> syncPage read upsert = syncPage read upsert)"
  proof (rule syncPages.raw_induct [OF _ y, where P = "\<lambda>fetch onPage page n w y.
      \<not> ((\<forall>page. \<exists>following. fetch page = Inr (JArr [], following) \<and> jtruthy following) \<and> onPage = syncPage read upsert)"])
    fix run fetch onPage page n w y
    assume IH: "\<And>fetch onPage page n w y. run fetch onPage page n w = Some y \<Longrightarrow>
        \<not> ((\<forall>page. \<exists>following. fetch page = Inr (JArr [], following) \<and> jtruthy following) \<and> onPage = syncPage read upsert)"
      and body: "(case fetch page of
        Inl e \<Rightarrow> Some (Inl (PlainError (fst e)), w)
      | Inr (events, following) \<Rightarrow>
          (case onPage events n w of
             (Inl e, v) \<Rightarrow> Some (Inl e, v)
           | (Inr m, v) \<Rightarrow> if jtruthy following then run fetch onPage following m v else Some (Inr m, v))) = Some y"
    show "\<not> ((\<forall>page. \<exists>following. fetch page = Inr (JArr [], following) \<and> jtruthy following) \<and> onPage = syncPage read upsert)"
    proof
      assume h: "(\<forall>page. \<exists>following. fetch page = Inr (JArr [], following) \<and> jtruthy following) \<and> onPage = syncPage read upsert"
      then obtain following where f: "fetch page = Inr (JArr [], following)" "jtruthy following" by blast
      then have "run fetch onPage following n w = Some y" using body h by (simp add: syncPage_def)
      from IH [OF this] h show False by contradiction
    qed
  qed
  then show False using assms by simp
qed

section \<open>Connecting\<close>

text \<open>
  Whoever answers the callback with a state that names a tenant gives that tenant their own calendar: the
  connection of the tenant then holds the tokens of the account the code is for, in place of those before.
\<close>

lemma callback_connects_whoever_asks:
  assumes "decodeState state = Some (JObj [(''tenantId'', JStr t), (''provider'', JStr (providerName p))])"
    and "exchangeCode E now p code = Inr \<lparr>ct_accessToken = Some (JStr access), ct_refreshToken = Some (JStr refresh),
      ct_expiresAt = Some expiry, ct_email = Some (JStr email)\<rparr>"
    and "tenantExists t w"
  shows "\<exists>w' c. handleOAuthCallback E decodeState now code state w = (Inr (p, Some (JStr email)), w') \<and>
    findConnection t p w' = Some c \<and> calendarConnection_accessToken c = access \<and>
    calendarConnection_refreshToken c = refresh \<and> calendarConnection_email c = Some email"
proof -
  have found: "List.find (isConnection t p) (update_where (isConnection t p) (reconnected access refresh expiry email) cs) =
      map_option (reconnected access refresh expiry email) (List.find (isConnection t p) cs)" for cs
    by (induction cs) (auto simp: isConnection_def reconnected_def)
  have p: "providerOf (providerName p) = Some p" "(if Some p = Some GOOGLE then GOOGLE else OUTLOOK) = p"
    by (cases p; simp add: providerOf_def providerName_def)+
  show ?thesis
    using assms(3) p
    by (cases "findConnection t p w")
      (simp_all add: handleOAuthCallback_def assms(1,2) jstr_def liftHttp_def upsertConnection_def addJob_def findConnection_def
        found reconnected_def find_append newConnection_def isConnection_def bump_def)
qed

section \<open>A concrete sync\<close>

definition lunch :: json where
  "lunch = JObj [(''id'', JStr ''g1''), (''summary'', JStr ''Lunch''), (''start'', JObj [(''dateTime'', JStr ''t'')]),
     (''end'', JObj [(''dateTime'', JStr ''t'')])]"

definition onePage :: "json option \<Rightarrow> http_error + (json \<times> json option)" where
  "onePage page = Inr (JArr [lunch], None)"

theorem resync_adds_nothing_witness:
  "syncPages onePage (syncPage (readEvent GOOGLE (\<lambda>_. Some 5)) (upsertSyncedEvent undefined 9 ''c1'' ''t1'')) None (0, 0)
     (bump (emptyWorld (\<lambda>n. ''x''))\<lparr>w_calendarSyncedEvents := [syncedRow ''c1'' ''t1''
        \<lparr>xe_externalEventId = ''g1'', xe_title = ''Lunch'', xe_startAt = 5, xe_endAt = Some 5, xe_attendeeEmail = None\<rparr>
        (None, None) ''x'']\<rparr>) = Some (Inr (1, 0), bump (emptyWorld (\<lambda>n. ''x''))\<lparr>w_calendarSyncedEvents := [syncedRow ''c1'' ''t1''
        \<lparr>xe_externalEventId = ''g1'', xe_title = ''Lunch'', xe_startAt = 5, xe_endAt = Some 5, xe_attendeeEmail = None\<rparr>
        (None, None) ''x'']\<rparr>)"
proof -
  have "syncPages onePage (syncPage (readEvent GOOGLE (\<lambda>_. Some 5)) (upsertSyncedEvent undefined 3 ''c1'' ''t1'')) None (0, 0)
     (emptyWorld (\<lambda>n. ''x'')) = Some (Inr (1, 1), bump (emptyWorld (\<lambda>n. ''x''))\<lparr>w_calendarSyncedEvents := [syncedRow ''c1'' ''t1''
        \<lparr>xe_externalEventId = ''g1'', xe_title = ''Lunch'', xe_startAt = 5, xe_endAt = Some 5, xe_attendeeEmail = None\<rparr>
        (None, None) ''x'']\<rparr>)"
    by (subst syncPages.simps)
      (simp add: onePage_def syncPage_def lunch_def readEvent_def readProp_def timeOf_def jstr_def dateOf_def attendeeOf_def jor_def
        upsertSyncedEvent_def emptyWorld_def bookAttendee_def attendeeCustomer_def bump_def newId_def)
  from resync_adds_nothing [OF this] show ?thesis by simp
qed

end
