(* ===== verification/AI_Texts.thy ===== *)
theory AI_Texts
  imports Plan_Guard Json_Values
begin

text \<open>
  AI texts: \<open>modules/ai\<close>. The completion API of the openai library is the parameter \<open>chat\<close>: the message of the
  error it throws, or its reply. The bodies of the requests are not validated, so that their fields are untyped
  values. The routes stand behind the plan guard for the feature AI.
\<close>

section \<open>The provider\<close>

record ChatRequest =
  cq_model :: string
  cq_system :: string
  cq_user :: string
  cq_maxTokens :: nat
  cq_temperature :: rat

record TokenUsage =
  tu_total :: int
  tu_prompt :: int
  tu_completion :: int

text \<open>The content of each choice's message, if it has one.\<close>

record ChatReply =
  cy_choices :: "string option list"
  cy_usage :: "TokenUsage option"
  cy_model :: string

type_synonym chat = "ChatRequest \<Rightarrow> string + ChatReply"

record AICompletion =
  ac_text :: string
  ac_tokensUsed :: int
  ac_promptTokens :: int
  ac_completionTokens :: int
  ac_model :: string

definition usageField :: "(TokenUsage \<Rightarrow> int) \<Rightarrow> ChatReply \<Rightarrow> int" where
  "usageField f r = (case cy_usage r of None \<Rightarrow> 0 | Some u \<Rightarrow> f u)"

definition complete :: "env \<Rightarrow> chat \<Rightarrow> string \<Rightarrow> string \<Rightarrow> nat \<Rightarrow> rat \<Rightarrow> string + AICompletion" where
  "complete E chat systemPrompt userPrompt maxTokens temperature =
     (case chat \<lparr>cq_model = conf E ''OPENAI_MODEL'' ''gpt-4o-mini'', cq_system = systemPrompt, cq_user = userPrompt,
                 cq_maxTokens = maxTokens, cq_temperature = temperature\<rparr> of
        Inl message \<Rightarrow> Inl (if message = [] then ''OpenAI request failed'' else message)
      | Inr r \<Rightarrow> Inr \<lparr>ac_text = (case cy_choices r of Some content # _ \<Rightarrow> trim content | _ \<Rightarrow> []),
                     ac_tokensUsed = usageField tu_total r, ac_promptTokens = usageField tu_prompt r,
                     ac_completionTokens = usageField tu_completion r, ac_model = cy_model r\<rparr>)"

section \<open>Access and usage\<close>

definition aiLimit :: "tenant \<Rightarrow> int" where
  "aiLimit t = (if tenant_trialActive t then tenant_aiTrialLimit t else tenant_aiMonthlyLimit t)"

definition enforceAccess :: "uuid \<Rightarrow> tenant act" where
  "enforceAccess tenantId w =
     (case findTenant tenantId w of
        None \<Rightarrow> (Inl (ForbiddenException ''Tenant not found''), w)
      | Some t \<Rightarrow>
          if tenant_planType t \<noteq> PLAN_SMS_VOICE_AI
          then (Inl (ForbiddenException
                 ''AI features require the SMS + Voice + AI plan (Tier 3). Upgrade your plan to access AI.''), w)
          else if \<not> tenant_trialActive t \<and> tenant_subscriptionStatus t \<noteq> ACTIVE
          then (Inl (ForbiddenException ''AI features require an active subscription.''), w)
          else if aiLimit t \<le> tenant_aiUsageCount t
          then (Inl (ForbiddenException (if tenant_trialActive t
                  then ''AI trial limit reached ('' @ show_int (aiLimit t) @ ''). Upgrade to continue using AI.''
                  else ''Monthly AI limit reached ('' @ show_int (aiLimit t) @ ''). Resets on next billing cycle.'')), w)
          else (Inr t, w))"

definition estimateCost :: "int \<Rightarrow> string \<Rightarrow> rat" where
  "estimateCost tokens model =
     (case map_of [(''gpt-4o-mini'', 15 / 100000), (''gpt-4o'', 5 / 1000), (''gpt-4'', 3 / 100),
                   (''gpt-3.5-turbo'', 5 / 10000)] model of
        Some r \<Rightarrow> r | None \<Rightarrow> 1 / 1000) * of_int tokens / 1000"

definition usageRow ::
  "instant \<Rightarrow> uuid \<Rightarrow> string \<Rightarrow> string \<Rightarrow> AICompletion \<Rightarrow> rat \<Rightarrow> uuid \<Rightarrow> aIUsageLog" where
  "usageRow now tenantId feature inputText c cost i =
     \<lparr>aIUsageLog_id = i, aIUsageLog_tenantId = tenantId, aIUsageLog_feature = feature,
      aIUsageLog_promptTokens = 0, aIUsageLog_completionTokens = 0, aIUsageLog_tokensUsed = ac_tokensUsed c,
      aIUsageLog_model = Some (if ac_model c = [] then ''unknown'' else ac_model c),
      aIUsageLog_inputText = Some inputText, aIUsageLog_outputText = Some (ac_text c),
      aIUsageLog_costUsd = Some cost, aIUsageLog_createdAt = now\<rparr>"

text \<open>The counter of the tenant, then the row; the token counts of prompt and answer are not passed on.\<close>

definition countCompletion :: "uuid \<Rightarrow> (uuid \<Rightarrow> aIUsageLog) \<Rightarrow> unit act" where
  "countCompletion tenantId row =
     thenA (updateTenant tenantId (\<lambda>t. t\<lparr>tenant_aiUsageCount := tenant_aiUsageCount t + 1\<rparr>))
       (modifyA (\<lambda>w. bump (w\<lparr>w_aIUsageLogs := w_aIUsageLogs w @ [row (newId w)]\<rparr>)))"

definition logUsage :: "instant \<Rightarrow> uuid \<Rightarrow> string \<Rightarrow> string \<Rightarrow> AICompletion \<Rightarrow> unit act" where
  "logUsage now tenantId feature inputText c =
     countCompletion tenantId (usageRow now tenantId feature inputText c
       (estimateCost (ac_tokensUsed c) (if ac_model c = [] then ''unknown'' else ac_model c)))"

section \<open>The four texts\<close>

definition linesOf :: "string list \<Rightarrow> string" where
  "linesOf = join [CHR 0x0A]"

definition quoted :: "json option \<Rightarrow> string" where
  "quoted v = [CHR 0x22] @ jString v @ [CHR 0x22]"

text \<open>What they share: the check, the completion, the count, the audit entry.\<close>

definition writeText ::
  "env \<Rightarrow> chat \<Rightarrow> instant \<Rightarrow> uuid \<Rightarrow> uuid \<Rightarrow> string \<Rightarrow> string \<Rightarrow> string \<Rightarrow> string \<Rightarrow> nat \<Rightarrow> rat \<Rightarrow>
   (string \<times> json option) list \<Rightarrow> AICompletion act" where
  "writeText E chat now tenantId userId feature failure systemPrompt userPrompt maxTokens temperature extra =
     bindA (enforceAccess tenantId) (\<lambda>_.
       case complete E chat systemPrompt userPrompt maxTokens temperature of
         Inl e \<Rightarrow> throwA (ForbiddenException (failure @ '': '' @ e))
       | Inr c \<Rightarrow>
           thenA (logUsage now tenantId feature userPrompt c)
             (thenA (audit_log ((auditEntry tenantId (Some userId) ''CREATE'' ''AIGeneration'' feature [])
                  \<lparr>entry_newValues := Some (jobj ([(''feature'', Some (JStr feature))] @ extra @
                     [(''tokens'', Some (JNum (ac_tokensUsed c)))]))\<rparr>))
               (returnA c)))"

definition generateTemplate ::
  "env \<Rightarrow> chat \<Rightarrow> instant \<Rightarrow> uuid \<Rightarrow> uuid \<Rightarrow> json \<Rightarrow> AICompletion act" where
  "generateTemplate E chat now tenantId userId params =
     writeText E chat now tenantId userId ''generate_template'' ''AI generation failed''
       (linesOf [''You are an expert at writing appointment reminder messages for businesses. '',
          ''You write concise, professional, and effective messages that maximize confirmation rates.'',
          ''You ONLY return the message text. No explanations, no formatting, no markdown.'',
          ''Keep messages under 160 characters for SMS, under 300 for email.''])
       (linesOf [''Generate a '' @ jString (jget (Some params) ''channel'') @ '' appointment reminder template for a '' @
            jString (jget (Some params) ''businessType'') @ ''.'',
          ''Purpose: '' @ jString (jget (Some params) ''purpose''),
          ''Tone: '' @ jString (jor (jget (Some params) ''tone'') (Some (JStr ''professional and friendly''))),
          ''Include template variables: {{customer_name}}, {{appointment_title}}, {{appointment_date}}, {{appointment_time}}.'',
          ''Return ONLY the message text.''])
       200 (8 / 10) []"

definition improveTemplate ::
  "env \<Rightarrow> chat \<Rightarrow> instant \<Rightarrow> uuid \<Rightarrow> uuid \<Rightarrow> json \<Rightarrow> AICompletion act" where
  "improveTemplate E chat now tenantId userId params =
     writeText E chat now tenantId userId ''improve_template'' ''AI improvement failed''
       (linesOf [''You are an expert at optimizing appointment reminder messages.'',
          ''You improve messages to be clearer, more engaging, and more effective.'',
          ''You ONLY return the improved message text. No explanations.'',
          ''Preserve any {{template_variables}} exactly as they are.''])
       (linesOf [''Improve this appointment reminder template:'', quoted (jget (Some params) ''currentTemplate''),
          (if jtruthy (jget (Some params) ''improvementGoal'') then ''Goal: '' @ jString (jget (Some params) ''improvementGoal'')
           else ''Make it more engaging.''),
          ''Return ONLY the improved message text.''])
       200 (7 / 10) []"

definition changeTone ::
  "env \<Rightarrow> chat \<Rightarrow> instant \<Rightarrow> uuid \<Rightarrow> uuid \<Rightarrow> json \<Rightarrow> AICompletion act" where
  "changeTone E chat now tenantId userId params =
     writeText E chat now tenantId userId ''change_tone'' ''AI tone change failed''
       (linesOf [''You are an expert at adapting message tone while preserving meaning.'',
          ''You ONLY return the rewritten message. No explanations.'',
          ''Preserve any {{template_variables}} exactly as they are.''])
       (linesOf [''Rewrite this reminder in a '' @ jString (jget (Some params) ''targetTone'') @ '' tone:'',
          quoted (jget (Some params) ''currentTemplate''), ''Return ONLY the rewritten message.''])
       200 (7 / 10) [(''tone'', jget (Some params) ''targetTone'')]"

definition optimizeConfirmationRate ::
  "env \<Rightarrow> chat \<Rightarrow> instant \<Rightarrow> uuid \<Rightarrow> uuid \<Rightarrow> json \<Rightarrow> AICompletion act" where
  "optimizeConfirmationRate E chat now tenantId userId params =
     writeText E chat now tenantId userId ''optimize_confirmation'' ''AI optimization failed''
       (linesOf [''You are a behavioral science expert specializing in appointment attendance optimization.'',
          ''You rewrite messages using proven techniques: social proof, commitment consistency, loss aversion, personalization.'',
          ''You ONLY return the optimized message. No explanations.'',
          ''Preserve any {{template_variables}} exactly as they are.'',
          ''For SMS, keep under 160 characters.''])
       (linesOf [''Optimize this '' @ jString (jget (Some params) ''channel'') @ '' reminder for maximum confirmation rate:'',
          quoted (jget (Some params) ''currentTemplate''),
          (if jtruthy (jget (Some params) ''businessType'') then ''Business type: '' @ jString (jget (Some params) ''businessType'') else []),
          (if jtruthy (jget (Some params) ''currentConfirmationRate'')
           then ''Current rate: '' @ jString (jget (Some params) ''currentConfirmationRate'') @ ''%'' else []),
          ''Return ONLY the optimized message.''])
       250 (6 / 10) []"

text \<open>The routes: who is signed in, then the guard, then the text.\<close>

datatype ai_text = GenerateTemplate | ImproveTemplate | ChangeTone | OptimizeConfirmation

definition aiText :: "ai_text \<Rightarrow> env \<Rightarrow> chat \<Rightarrow> instant \<Rightarrow> uuid \<Rightarrow> uuid \<Rightarrow> json \<Rightarrow> AICompletion act" where
  "aiText k = (case k of GenerateTemplate \<Rightarrow> generateTemplate | ImproveTemplate \<Rightarrow> improveTemplate
     | ChangeTone \<Rightarrow> changeTone | OptimizeConfirmation \<Rightarrow> optimizeConfirmationRate)"

definition aiRoute ::
  "env \<Rightarrow> chat \<Rightarrow> instant \<Rightarrow> uuid \<Rightarrow> uuid \<Rightarrow> ai_text \<Rightarrow> json \<Rightarrow> AICompletion act" where
  "aiRoute E chat now tenantId userId k params =
     bindA (canActivate E now (Some F_AI) None (Some \<lparr>ru_tenantId = Some tenantId, ru_userId = Some userId\<rparr>))
       (\<lambda>_. aiText k E chat now tenantId userId params)"

section \<open>Usage\<close>

record AIUsageStats =
  as_eligible :: bool
  as_plan :: PlanType
  as_used :: int
  as_limit :: int
  as_remaining :: int
  as_recentActivity :: "aIUsageLog list"

definition getAIUsage :: "uuid \<Rightarrow> world \<Rightarrow> AIUsageStats outcome" where
  "getAIUsage tenantId w =
     (case findTenant tenantId w of
        None \<Rightarrow> Inl (ForbiddenException ''Tenant not found'')
      | Some t \<Rightarrow> Inr \<lparr>as_eligible = (tenant_planType t = PLAN_SMS_VOICE_AI), as_plan = tenant_planType t,
          as_used = tenant_aiUsageCount t, as_limit = aiLimit t,
          as_remaining = max 0 (aiLimit t - tenant_aiUsageCount t),
          as_recentActivity = take 10 (order_desc aIUsageLog_createdAt
            (filter (\<lambda>l. aIUsageLog_tenantId l = tenantId) (w_aIUsageLogs w)))\<rparr>)"

end
