(* ===== verification/Google_Reviews.thy ===== *)
theory Google_Reviews
  imports Calendars AI_Texts Contacts
begin

text \<open>
  Google reviews: \<open>modules/google-review\<close> with its provider. Reviews are fetched, an AI text is suggested, edited,
  and posted as the reply or the review is skipped. Google is \<open>e_http\<close>, the completion API \<open>chat\<close>; every error of
  a call of Google is caught in the provider.
\<close>

section \<open>The provider\<close>

record GoogleTokens =
  gt_accessToken :: "json option"
  gt_refreshToken :: "json option"
  gt_expiresAt :: "instant option"

definition TOKEN_URL :: string where
  "TOKEN_URL = ''https://oauth2.googleapis.com/token''"

definition AUTH_URL :: string where
  "AUTH_URL = ''https://accounts.google.com/o/oauth2/v2/auth''"

definition REVIEWS_BASE :: string where
  "REVIEWS_BASE = ''https://mybusiness.googleapis.com/v4''"

definition ACCOUNTS_BASE :: string where
  "ACCOUNTS_BASE = ''https://mybusinessaccountmanagement.googleapis.com/v1''"

definition STAR_RATING_MAP :: "(string \<times> int) list" where
  "STAR_RATING_MAP = [(''ONE'', 1), (''TWO'', 2), (''THREE'', 3), (''FOUR'', 4), (''FIVE'', 5)]"

definition reviewsClientId :: "env \<Rightarrow> string" where
  "reviewsClientId E = conf E ''GOOGLE_REVIEWS_CLIENT_ID'' []"

definition reviewsClientSecret :: "env \<Rightarrow> string" where
  "reviewsClientSecret E = conf E ''GOOGLE_REVIEWS_CLIENT_SECRET'' []"

definition reviewsRedirectUri :: "env \<Rightarrow> string" where
  "reviewsRedirectUri E = conf E ''GOOGLE_REVIEWS_REDIRECT_URI'' ''http://localhost:3001/api/google-reviews/oauth/callback''"

definition reviewsAuthUrl :: "env \<Rightarrow> string \<Rightarrow> string" where
  "reviewsAuthUrl E state =
     AUTH_URL @ ''?'' @ searchParams
       [(''client_id'', reviewsClientId E), (''redirect_uri'', reviewsRedirectUri E), (''response_type'', ''code''),
        (''scope'', ''https://www.googleapis.com/auth/business.manage''), (''access_type'', ''offline''),
        (''prompt'', ''consent''), (''state'', state)]"

definition postForm :: "env \<Rightarrow> (string \<times> string) list \<Rightarrow> http_error + json option" where
  "postForm E args =
     map_sum id Some (e_http E \<lparr>rq_method = ''POST'', rq_url = TOKEN_URL,
       rq_headers = [(''Content-Type'', ''application/x-www-form-urlencoded'')], rq_body = JStr (searchParams args)\<rparr>)"

text \<open>A token is taken to expire a minute early.\<close>

definition tokensOf :: "instant \<Rightarrow> json option \<Rightarrow> json option \<Rightarrow> GoogleTokens" where
  "tokensOf now d refresh =
     \<lparr>gt_accessToken = jget d ''access_token'', gt_refreshToken = refresh,
      gt_expiresAt = map_option (\<lambda>t. t - 60000) (expiryOf now d)\<rparr>"

definition exchangeReviewCode :: "env \<Rightarrow> instant \<Rightarrow> string \<Rightarrow> GoogleTokens option" where
  "exchangeReviewCode E now code =
     catching
       (andThen (postForm E [(''code'', code), (''client_id'', reviewsClientId E),
            (''client_secret'', reviewsClientSecret E), (''redirect_uri'', reviewsRedirectUri E),
            (''grant_type'', ''authorization_code'')]) (\<lambda>d.
        andThen (readProp d ''expires_in'') (\<lambda>_.
        Inr (Some (tokensOf now d (jget d ''refresh_token''))))))
       (\<lambda>_. None)"

definition refreshReviewToken :: "env \<Rightarrow> instant \<Rightarrow> string \<Rightarrow> GoogleTokens option" where
  "refreshReviewToken E now token =
     catching
       (andThen (postForm E [(''refresh_token'', token), (''client_id'', reviewsClientId E),
            (''client_secret'', reviewsClientSecret E), (''grant_type'', ''refresh_token'')]) (\<lambda>d.
        andThen (readProp d ''expires_in'') (\<lambda>_.
        Inr (Some (tokensOf now d (jor (jget d ''refresh_token'') (Some (JStr token))))))))
       (\<lambda>_. None)"

text \<open>\<open>name.split('/').pop()\<close>, a \<open>TypeError\<close> when the name is not a text\<close>

definition lastSegment :: "json \<Rightarrow> string option" where
  "lastSegment x = map_option (\<lambda>s. last (split_on (\<lambda>c. c = CHR ''/'') s)) (jstr (jget (Some x) ''name''))"

definition getAccount :: "env \<Rightarrow> json option \<Rightarrow> string option" where
  "getAccount E token =
     (case getRequest E (ACCOUNTS_BASE @ ''/accounts'') token [] of
        Inr d \<Rightarrow> (case jget d ''accounts'' of Some (JArr (a # _)) \<Rightarrow> lastSegment a | _ \<Rightarrow> None)
      | Inl _ \<Rightarrow> None)"

record GoogleLocation =
  gl_locationId :: string
  gl_locationName :: json

definition locationOf :: "json \<Rightarrow> GoogleLocation option" where
  "locationOf x =
     map_option (\<lambda>i. \<lparr>gl_locationId = i,
         gl_locationName = the (jor (jor (jget (Some x) ''title'') (jget (Some x) ''locationName'')) (Some (JStr ''Unknown Location'')))\<rparr>)
       (lastSegment x)"

text \<open>A location without a name makes the whole list empty.\<close>

definition listLocations :: "env \<Rightarrow> json option \<Rightarrow> string \<Rightarrow> GoogleLocation list" where
  "listLocations E token accountId =
     (case getRequest E (ACCOUNTS_BASE @ ''/accounts/'' @ accountId @ ''/locations'') token [] of
        Inr d \<Rightarrow> (case jget d ''locations'' of
                     Some (JArr xs) \<Rightarrow> if list_all (\<lambda>x. locationOf x \<noteq> None) xs then map (the \<circ> locationOf) xs else []
                   | _ \<Rightarrow> [])
      | Inl _ \<Rightarrow> [])"

text \<open>\<open>rd_reply\<close>: no reply, or a reply with its comment.\<close>

record GoogleReviewData =
  rd_reviewId :: "json option"
  rd_reviewerName :: json
  rd_reviewerPhotoUrl :: "json option"
  rd_starRating :: int
  rd_comment :: "json option"
  rd_createTime :: "json option"
  rd_reply :: "json option option"

definition reviewDataOf :: "json \<Rightarrow> GoogleReviewData" where
  "reviewDataOf r =
     (let f = jget (Some r)
      in \<lparr>rd_reviewId = f ''reviewId'',
          rd_reviewerName = the (jor (jget (f ''reviewer'') ''displayName'') (Some (JStr ''Anonymous''))),
          rd_reviewerPhotoUrl = jget (f ''reviewer'') ''profilePhotoUrl'',
          rd_starRating = (case map_of STAR_RATING_MAP (jString (f ''starRating'')) of Some n \<Rightarrow> n | None \<Rightarrow> 3),
          rd_comment = (if jtruthy (f ''comment'') then f ''comment'' else None),
          rd_createTime = f ''createTime'',
          rd_reply = (if jtruthy (f ''reviewReply'') then Some (jget (f ''reviewReply'') ''comment'') else None)\<rparr>)"

definition locationUrl :: "string \<Rightarrow> string \<Rightarrow> string" where
  "locationUrl accountId locationId = REVIEWS_BASE @ ''/accounts/'' @ accountId @ ''/locations/'' @ locationId @ ''/reviews''"

definition listGoogleReviews ::
  "env \<Rightarrow> json option \<Rightarrow> string \<Rightarrow> string \<Rightarrow> json option \<Rightarrow> GoogleReviewData list \<times> json option" where
  "listGoogleReviews E token accountId locationId page =
     (case getRequest E (locationUrl accountId locationId) token
            ([(''pageSize'', JStr ''50'')] @ (if jtruthy page then [(''pageToken'', the page)] else [])) of
        Inr d \<Rightarrow>
          (case jor (jget d ''reviews'') (Some (JArr [])) of
             Some (JArr raw) \<Rightarrow> if JNull \<in> set raw then ([], None)
                                else (map reviewDataOf raw, jget d ''nextPageToken'')
           | _ \<Rightarrow> ([], None))
      | Inl _ \<Rightarrow> ([], None))"

definition replyToReview :: "env \<Rightarrow> json option \<Rightarrow> string \<Rightarrow> string \<Rightarrow> string \<Rightarrow> string \<Rightarrow> bool" where
  "replyToReview E token accountId locationId reviewId reply =
     (case e_http E \<lparr>rq_method = ''PUT'', rq_url = locationUrl accountId locationId @ ''/'' @ reviewId @ ''/reply'',
             rq_headers = bearer token @ [(''Content-Type'', ''application/json'')],
             rq_body = JObj [(''comment'', JStr reply)]\<rparr> of
        Inr _ \<Rightarrow> True | Inl _ \<Rightarrow> False)"

section \<open>Access and tokens\<close>

definition enforceTier3 :: "uuid \<Rightarrow> tenant act" where
  "enforceTier3 tenantId w =
     (case findTenant tenantId w of
        None \<Rightarrow> (Inl (ForbiddenException ''Tenant not found''), w)
      | Some t \<Rightarrow>
          if tenant_planType t \<noteq> PLAN_SMS_VOICE_AI
          then (Inl (ForbiddenException
                 ''Google Review Responder requires the SMS + Voice + AI plan (Tier 3). Please upgrade.''), w)
          else if \<not> tenant_trialActive t \<and> tenant_subscriptionStatus t \<noteq> ACTIVE
          then (Inl (ForbiddenException ''An active subscription is required to use this feature.''), w)
          else (Inr t, w))"

definition businessConnection :: "uuid \<Rightarrow> world \<Rightarrow> googleConnection option" where
  "businessConnection tenantId w = List.find (\<lambda>g. googleConnection_tenantId g = tenantId) (w_googleConnections w)"

definition changeBusiness :: "uuid \<Rightarrow> (googleConnection \<Rightarrow> googleConnection) \<Rightarrow> world \<Rightarrow> world" where
  "changeBusiness i f w = w\<lparr>w_googleConnections :=
     update_where (\<lambda>g. googleConnection_id g = i) f (w_googleConnections w)\<rparr>"

definition getFreshReviewToken :: "env \<Rightarrow> instant \<Rightarrow> googleConnection \<Rightarrow> json option act" where
  "getFreshReviewToken E now g =
     (if now < googleConnection_tokenExpiresAt g then returnA (Some (JStr (googleConnection_accessToken g)))
      else case refreshReviewToken E now (googleConnection_refreshToken g) of
        None \<Rightarrow> throwA (BadRequestException
                 ''Failed to refresh Google access token. Please reconnect your Google Business account.'')
      | Some t \<Rightarrow>
          if (gt_accessToken t \<noteq> None \<and> jstr (gt_accessToken t) = None) \<or> jstr (gt_refreshToken t) = None \<or> gt_expiresAt t = None
          then throwA invalidArgument
          else thenA (modifyA (changeBusiness (googleConnection_id g) (\<lambda>h. h\<lparr>
                   googleConnection_accessToken := coalesce (jstr (gt_accessToken t)) (googleConnection_accessToken h),
                   googleConnection_refreshToken := the (jstr (gt_refreshToken t)),
                   googleConnection_tokenExpiresAt := the (gt_expiresAt t)\<rparr>)))
                 (returnA (gt_accessToken t)))"

section \<open>Connecting\<close>

definition reviewConnectUrl :: "env \<Rightarrow> (json \<Rightarrow> string) \<Rightarrow> instant \<Rightarrow> uuid \<Rightarrow> string" where
  "reviewConnectUrl E encodeState now tenantId =
     reviewsAuthUrl E (encodeState (JObj [(''tenantId'', JStr tenantId), (''ts'', JNum now)]))"

definition connectedRow ::
  "instant \<Rightarrow> uuid \<Rightarrow> string \<Rightarrow> string \<Rightarrow> string \<Rightarrow> string \<Rightarrow> string \<Rightarrow> instant \<Rightarrow> uuid \<Rightarrow> googleConnection" where
  "connectedRow now tenantId accountId locationId locationName access refresh expiry i =
     \<lparr>googleConnection_tenantId = tenantId, googleConnection_locationId = locationId, googleConnection_id = i,
      googleConnection_googleAccountId = accountId, googleConnection_locationName = Some locationName,
      googleConnection_accessToken = access, googleConnection_refreshToken = refresh,
      googleConnection_tokenExpiresAt = expiry, googleConnection_connectedAt = now\<rparr>"

definition upsertBusiness ::
  "instant \<Rightarrow> uuid \<Rightarrow> string \<Rightarrow> GoogleLocation option \<Rightarrow> GoogleTokens \<Rightarrow> unit act" where
  "upsertBusiness now tenantId accountId loc t w =
     (let place = (case loc of None \<Rightarrow> [] | Some l \<Rightarrow> gl_locationId l);
          label = (case loc of None \<Rightarrow> Some [] | Some l \<Rightarrow> jstr (Some (gl_locationName l)))
      in case (label, jstr (gt_accessToken t), jstr (gt_refreshToken t), gt_expiresAt t) of
           (Some n, Some access, Some refresh, Some expiry) \<Rightarrow>
             if businessConnection tenantId w \<noteq> None
             then (Inr (), w\<lparr>w_googleConnections := update_where (\<lambda>g. googleConnection_tenantId g = tenantId)
                    (\<lambda>g. connectedRow (googleConnection_connectedAt g) tenantId accountId place n access refresh expiry (googleConnection_id g))
                    (w_googleConnections w)\<rparr>)
             else (Inr (), bump (w\<lparr>w_googleConnections := w_googleConnections w @
                    [connectedRow now tenantId accountId place n access refresh expiry (newId w)]\<rparr>))
         | _ \<Rightarrow> (Inl invalidArgument, w))"

definition badRequest :: "string \<Rightarrow> 'a act" where
  "badRequest message = throwA (BadRequestException message)"

text \<open>The state names the tenant; it is not signed.\<close>

definition handleReviewCallback ::
  "env \<Rightarrow> (string \<Rightarrow> json option) \<Rightarrow> instant \<Rightarrow> string \<Rightarrow> string \<Rightarrow> (uuid \<times> GoogleLocation list) act" where
  "handleReviewCallback E decodeState now code state =
     (case decodeState state of
        None \<Rightarrow> badRequest ''Invalid OAuth state parameter''
      | Some JNull \<Rightarrow> badRequest ''Invalid OAuth state parameter''
      | Some decoded \<Rightarrow>
          (case jstr (jget (Some decoded) ''tenantId'') of
             None \<Rightarrow> throwA invalidArgument
           | Some tenantId \<Rightarrow>
               bindA (enforceTier3 tenantId) (\<lambda>_.
               case exchangeReviewCode E now code of
                 None \<Rightarrow> badRequest ''Failed to exchange authorization code with Google''
               | Some tokens \<Rightarrow>
                   (case getAccount E (gt_accessToken tokens) of
                      None \<Rightarrow> badRequest ''No Google Business account found for this Google account''
                    | Some accountId \<Rightarrow>
                        (let locations = listLocations E (gt_accessToken tokens) accountId
                         in thenA (upsertBusiness now tenantId accountId (first_of locations) tokens)
                              (thenA (audit_log (auditEntry tenantId None ''CREATE'' ''GoogleBusinessConnection'' tenantId
                                   [(''accountId'', JStr accountId), (''locationCount'', JNum (int (length locations)))]))
                                (returnA (tenantId, locations))))))))"

definition selectLocation ::
  "env \<Rightarrow> instant \<Rightarrow> uuid \<Rightarrow> string \<Rightarrow> string option \<Rightarrow> (string \<times> string) act" where
  "selectLocation E now tenantId locationId locationName =
     bindA (enforceTier3 tenantId) (\<lambda>_ w.
       case businessConnection tenantId w of
         None \<Rightarrow> (Inl (NotFoundException ''No Google Business connection found. Please connect first.''), w)
       | Some g \<Rightarrow>
           bindA (getFreshReviewToken E now g) (\<lambda>token.
             case List.find (\<lambda>l. gl_locationId l = locationId) (listLocations E token (googleConnection_googleAccountId g)) of
               None \<Rightarrow> badRequest ''Location not found in your Google Business account''
             | Some l \<Rightarrow>
                 (case (if truthy locationName then locationName else jstr (Some (gl_locationName l))) of
                    None \<Rightarrow> throwA invalidArgument
                  | Some n \<Rightarrow>
                      thenA (modifyA (changeBusiness (googleConnection_id g) (\<lambda>h. h\<lparr>googleConnection_locationId := locationId,
                          googleConnection_locationName := Some n\<rparr>)))
                        (returnA (locationId, n)))) w)"

record ReviewConnectionStatus =
  rs_connection :: "(string \<times> string \<times> string option \<times> instant) option"
  rs_counts :: "ReviewReplyStatus \<Rightarrow> nat"

definition getConnectionStatus :: "uuid \<Rightarrow> ReviewConnectionStatus act" where
  "getConnectionStatus tenantId =
     bindA (enforceTier3 tenantId) (\<lambda>_ w.
       (Inr \<lparr>rs_connection = map_option (\<lambda>g. (googleConnection_googleAccountId g, googleConnection_locationId g,
                googleConnection_locationName g, googleConnection_connectedAt g)) (businessConnection tenantId w),
             rs_counts = (\<lambda>s. if businessConnection tenantId w = None then 0
                else count_where (\<lambda>r. googleReview_tenantId r = tenantId \<and> googleReview_status r = s) (w_googleReviews w))\<rparr>, w))"

text \<open>Deleting the connection deletes its reviews.\<close>

definition deleteBusiness :: "uuid \<Rightarrow> world \<Rightarrow> world" where
  "deleteBusiness tenantId w =
     (let gone = map googleConnection_id (filter (\<lambda>g. googleConnection_tenantId g = tenantId) (w_googleConnections w))
      in w\<lparr>w_googleConnections := delete_where (\<lambda>g. googleConnection_tenantId g = tenantId) (w_googleConnections w),
           w_googleReviews := delete_where (\<lambda>r. googleReview_connectionId r \<in> set gone) (w_googleReviews w)\<rparr>)"

definition disconnectReviews :: "uuid \<Rightarrow> uuid \<Rightarrow> bool act" where
  "disconnectReviews tenantId userId w =
     (case businessConnection tenantId w of
        None \<Rightarrow> (Inr False, w)
      | Some g \<Rightarrow>
          thenA (modifyA (deleteBusiness tenantId))
            (thenA (audit_log ((auditEntry tenantId (Some userId) ''DELETE'' ''GoogleBusinessConnection'' (googleConnection_id g) [])
                 \<lparr>entry_newValues := None\<rparr>))
              (returnA True)) w)"

section \<open>Suggestions\<close>

definition changeReview :: "uuid \<Rightarrow> (googleReview \<Rightarrow> googleReview) \<Rightarrow> world \<Rightarrow> world" where
  "changeReview i f w = w\<lparr>w_googleReviews := update_where (\<lambda>r. googleReview_id r = i) f (w_googleReviews w)\<rparr>"

definition reviewOf :: "uuid \<Rightarrow> uuid \<Rightarrow> world \<Rightarrow> googleReview option" where
  "reviewOf tenantId i w =
     List.find (\<lambda>r. googleReview_id r = i \<and> googleReview_tenantId r = tenantId) (w_googleReviews w)"

text \<open>The review of the request, refused when there is none and, with \<open>refusal\<close>, when it was replied to.\<close>

definition openReview :: "string \<Rightarrow> uuid \<Rightarrow> uuid \<Rightarrow> googleReview act" where
  "openReview refusal tenantId i w =
     (case reviewOf tenantId i w of
        None \<Rightarrow> (Inl (NotFoundException ''Review not found''), w)
      | Some r \<Rightarrow> if googleReview_status r = RR_APPROVED then (Inl (BadRequestException refusal), w) else (Inr r, w))"

definition aiRoom :: "tenant \<Rightarrow> unit act" where
  "aiRoom t =
     (if tenant_aiUsageCount t < aiLimit t then returnA ()
      else throwA (ForbiddenException (if tenant_trialActive t
             then ''AI trial limit reached ('' @ show_int (aiLimit t) @ ''). Please upgrade.''
             else ''Monthly AI limit reached ('' @ show_int (aiLimit t) @ ''). Resets next billing cycle.'')))"

definition ratingLabel :: "int \<Rightarrow> string" where
  "ratingLabel n =
     (if 0 \<le> n \<and> n \<le> 5
      then [[], ''very negative'', ''negative'', ''neutral'', ''positive'', ''very positive''] ! nat n else ''undefined'')"

definition emDash :: string where
  "emDash = [CHR 0xE2, CHR 0x80, CHR 0x94]"

definition inQuotes :: "string \<Rightarrow> string" where
  "inQuotes s = [CHR 0x22] @ s @ [CHR 0x22]"

definition replySystemPrompt :: "string \<Rightarrow> string" where
  "replySystemPrompt tone =
     linesOf [''You are an expert business reputation manager. You write concise, genuine Google review replies that:'',
       ''- Thank the reviewer by name'',
       ''- Address the specific feedback'',
       ''- Are '' @ tone @ '' in tone'',
       ''- Are 2-4 sentences maximum'',
       ''- Never sound templated or robotic'',
       ''- Do NOT use phrases like '' @ inQuotes ''We appreciate your feedback'' @ '' or '' @
         inQuotes ''Thank you for your review'' @ '' as openers '' @ emDash @ '' be more creative'',
       ''You return ONLY the reply text. No formatting, no quotes, no preamble.'']"

definition replyUserPrompt :: "string \<Rightarrow> googleReview \<Rightarrow> string" where
  "replyUserPrompt tone r =
     linesOf [''Write a reply to this Google Business review:'',
       ''Reviewer: '' @ googleReview_reviewerName r,
       ''Rating: '' @ show_int (googleReview_rating r) @ ''/5 stars ('' @ ratingLabel (googleReview_rating r) @ '')'',
       ''Review: '' @ inQuotes (the (or_str (googleReview_comment r) (Some (''(No comment '' @ emDash @ '' just a star rating)'')))),
       ''Tone: '' @ tone,
       ''Return ONLY the reply text.'']"

definition estimateReviewCost :: "int \<Rightarrow> string \<Rightarrow> rat" where
  "estimateReviewCost tokens model =
     (case map_of [(''gpt-4o-mini'', 15 / 100000), (''gpt-4o'', 5 / 1000), (''gpt-4'', 3 / 100)] model of
        Some r \<Rightarrow> r | None \<Rightarrow> 1 / 1000) * of_int tokens / 1000"

definition suggested :: "string \<Rightarrow> googleReview \<Rightarrow> googleReview" where
  "suggested text r = r\<lparr>googleReview_aiSuggestion := Some text, googleReview_draftReply := Some text,
     googleReview_status := RR_SUGGESTED\<rparr>"

definition generateSuggestion ::
  "env \<Rightarrow> chat \<Rightarrow> instant \<Rightarrow> uuid \<Rightarrow> uuid \<Rightarrow> uuid \<Rightarrow> string option \<Rightarrow> AICompletion act" where
  "generateSuggestion E chat now tenantId userId reviewId tone =
     bindA (enforceTier3 tenantId) (\<lambda>t.
     thenA (aiRoom t)
     (bindA (openReview ''Cannot regenerate a reply for an already-approved review'' tenantId reviewId) (\<lambda>r.
      let requestedTone = the (or_str tone (Some ''professional and warm''));
          prompt = replyUserPrompt requestedTone r
      in case complete E chat (replySystemPrompt requestedTone) prompt 200 (75 / 100) of
           Inl e \<Rightarrow> badRequest (''AI generation failed: '' @ e)
         | Inr c \<Rightarrow>
             thenA (countCompletion tenantId (usageRow now tenantId ''review_reply_generation'' prompt c
                  (estimateReviewCost (ac_tokensUsed c) (ac_model c))))
             (thenA (modifyA (changeReview reviewId (suggested (ac_text c))))
             (thenA (audit_log ((auditEntry tenantId (Some userId) ''CREATE'' ''GoogleReviewSuggestion'' reviewId [])
                 \<lparr>entry_newValues := Some (jobj [(''tokens'', Some (JNum (ac_tokensUsed c))), (''tone'', map_option JStr tone)])\<rparr>))
             (returnA c))))))"

section \<open>The sync\<close>

definition optionalText :: "json option \<Rightarrow> string option option" where
  "optionalText v = (case v of None \<Rightarrow> Some None | Some JNull \<Rightarrow> Some None | Some (JStr s) \<Rightarrow> Some (Some s) | _ \<Rightarrow> None)"

text \<open>The row of a fetched review; \<open>None\<close> when Prisma refuses a value.\<close>

definition fetchedRow ::
  "(string \<Rightarrow> instant option) \<Rightarrow> instant \<Rightarrow> uuid \<Rightarrow> uuid \<Rightarrow> string \<Rightarrow> GoogleReviewData \<Rightarrow> uuid \<Rightarrow> googleReview option" where
  "fetchedRow parse now tenantId connectionId gid d i =
     (let replied = rd_reply d \<noteq> None;
          draft = (case rd_reply d of Some c \<Rightarrow> if jtruthy c then c else None | None \<Rightarrow> None)
      in case (jstr (Some (rd_reviewerName d)), optionalText (rd_reviewerPhotoUrl d), optionalText (rd_comment d),
               dateOf parse (rd_createTime d), optionalText draft) of
           (Some n, Some photo, Some comment, Some created, Some text) \<Rightarrow>
             Some \<lparr>googleReview_id = i, googleReview_tenantId = tenantId, googleReview_connectionId = connectionId,
               googleReview_googleReviewId = gid, googleReview_reviewerName = n, googleReview_reviewerPhotoUrl = photo,
               googleReview_rating = rd_starRating d, googleReview_comment = comment, googleReview_reviewedAt = created,
               googleReview_aiSuggestion = None, googleReview_draftReply = text,
               googleReview_status = (if replied then RR_APPROVED else RR_PENDING),
               googleReview_repliedAt = (if replied then Some now else None), googleReview_createdAt = now\<rparr>
         | _ \<Rightarrow> None)"

text \<open>One review: what is known, to any tenant, is skipped. The counts are those of new and of known ones.\<close>

definition storeReview ::
  "(string \<Rightarrow> instant option) \<Rightarrow> instant \<Rightarrow> uuid \<Rightarrow> uuid \<Rightarrow> GoogleReviewData \<Rightarrow> counts \<Rightarrow> counts act" where
  "storeReview parse now tenantId connectionId d n w =
     (case jstr (rd_reviewId d) of
        None \<Rightarrow> (Inl invalidArgument, w)
      | Some gid \<Rightarrow>
          if list_ex (\<lambda>r. googleReview_googleReviewId r = gid) (w_googleReviews w) then (Inr (fst n, Suc (snd n)), w)
          else case fetchedRow parse now tenantId connectionId gid d (newId w) of
                 None \<Rightarrow> (Inl invalidArgument, w)
               | Some row \<Rightarrow> (Inr (Suc (fst n), snd n), bump (w\<lparr>w_googleReviews := w_googleReviews w @ [row]\<rparr>)))"

fun storeReviews ::
  "(GoogleReviewData \<Rightarrow> counts \<Rightarrow> counts act) \<Rightarrow> GoogleReviewData list \<Rightarrow> counts \<Rightarrow> counts act" where
  "storeReviews store [] n w = (Inr n, w)"
| "storeReviews store (d # ds) n w = bindA (store d n) (storeReviews store ds) w"

definition wantsSuggestion :: "uuid \<Rightarrow> googleReview \<Rightarrow> bool" where
  "wantsSuggestion tenantId r =
     (googleReview_tenantId r = tenantId \<and> googleReview_status r = RR_PENDING \<and> googleReview_comment r \<noteq> None \<and>
      googleReview_aiSuggestion r = None)"

definition suggestQuietly :: "env \<Rightarrow> chat \<Rightarrow> instant \<Rightarrow> uuid \<Rightarrow> uuid \<Rightarrow> googleReview \<Rightarrow> unit act" where
  "suggestQuietly E chat now tenantId userId r =
     swallowA (bindA (generateSuggestion E chat now tenantId userId (googleReview_id r) (Some ''professional'')) (\<lambda>_. returnA ()))"

definition suggestForPending :: "env \<Rightarrow> chat \<Rightarrow> instant \<Rightarrow> uuid \<Rightarrow> uuid \<Rightarrow> world \<Rightarrow> world" where
  "suggestForPending E chat now tenantId userId w =
     snd (forEachA (suggestQuietly E chat now tenantId userId) (filter (wantsSuggestion tenantId) (w_googleReviews w)) w)"

text \<open>Pages are read until Google names no next one; \<open>None\<close> is a sync that does not end.\<close>

definition syncReviewPages ::
  "env \<Rightarrow> (string \<Rightarrow> instant option) \<Rightarrow> instant \<Rightarrow> uuid \<Rightarrow> googleConnection \<Rightarrow> json option \<Rightarrow> world \<Rightarrow>
   (counts outcome \<times> world) option" where
  "syncReviewPages E parse now tenantId g token =
     syncPages (\<lambda>page. Inr (listGoogleReviews E token (googleConnection_googleAccountId g) (googleConnection_locationId g) page))
       (storeReviews (storeReview parse now tenantId (googleConnection_id g))) None (0, 0)"

definition syncReviews ::
  "env \<Rightarrow> chat \<Rightarrow> (string \<Rightarrow> instant option) \<Rightarrow> instant \<Rightarrow> uuid \<Rightarrow> uuid \<Rightarrow> world \<Rightarrow> (counts outcome \<times> world) option" where
  "syncReviews E chat parse now tenantId userId w =
     (case enforceTier3 tenantId w of
        (Inl e, v) \<Rightarrow> Some (Inl e, v)
      | (Inr _, _) \<Rightarrow>
          (case businessConnection tenantId w of
             None \<Rightarrow> Some (Inl (NotFoundException ''No Google Business connection found. Connect your account first.''), w)
           | Some g \<Rightarrow>
               if googleConnection_locationId g = []
               then Some (Inl (BadRequestException ''No location selected. Please select a location first.''), w)
               else (case getFreshReviewToken E now g w of
                       (Inl e, v) \<Rightarrow> Some (Inl e, v)
                     | (Inr token, v) \<Rightarrow>
                         map_option (\<lambda>(r, u). (r, if is_ok r then suggestForPending E chat now tenantId userId u else u))
                           (syncReviewPages E parse now tenantId g token v))))"

section \<open>Lists\<close>

definition statusNamed :: "string \<Rightarrow> ReviewReplyStatus option" where
  "statusNamed s =
     (if s = ''PENDING'' then Some RR_PENDING else if s = ''SUGGESTED'' then Some RR_SUGGESTED
      else if s = ''APPROVED'' then Some RR_APPROVED else if s = ''SKIPPED'' then Some RR_SKIPPED else None)"

record ReviewPage =
  rp_data :: "googleReview list"
  rp_total :: nat
  rp_totalPages :: "int option"

text \<open>
  \<open>page\<close> and \<open>limit\<close> are \<open>parseInt\<close> of the query, \<open>None\<close> when it is \<open>NaN\<close>, which Prisma refuses as it refuses
  a status that is none; a limit of 0 has no number of pages.
\<close>

definition listReviews ::
  "uuid \<Rightarrow> string option \<Rightarrow> int option \<Rightarrow> int option \<Rightarrow> ReviewPage act" where
  "listReviews tenantId status page limit =
     bindA (enforceTier3 tenantId) (\<lambda>_ w.
       case (page, limit) of
         (Some p, Some l) \<Rightarrow>
           if truthy status \<and> statusNamed (toUpperCase (the status)) = None then (Inl invalidArgument, w)
           else (let rows = filter (\<lambda>r. googleReview_tenantId r = tenantId \<and>
                       (truthy status \<longrightarrow> statusNamed (toUpperCase (the status)) = Some (googleReview_status r))) (w_googleReviews w)
                 in case pageRows ((p - 1) * l) l (order_desc googleReview_reviewedAt rows) of
                      Inl e \<Rightarrow> (Inl e, w)
                    | Inr rs \<Rightarrow> (Inr \<lparr>rp_data = rs, rp_total = length rows,
                        rp_totalPages = (if l = 0 then None else Some (- ((- int (length rows)) div l)))\<rparr>, w))
       | _ \<Rightarrow> (Inl invalidArgument, w))"

definition getReview :: "uuid \<Rightarrow> uuid \<Rightarrow> googleReview act" where
  "getReview tenantId i =
     bindA (enforceTier3 tenantId) (\<lambda>_ w.
       case reviewOf tenantId i w of
         None \<Rightarrow> (Inl (NotFoundException ''Review not found''), w) | Some r \<Rightarrow> (Inr r, w))"

section \<open>Draft, reply, skip\<close>

definition drafted :: "string \<Rightarrow> bool \<Rightarrow> googleReview \<Rightarrow> googleReview" where
  "drafted text suggestion r = r\<lparr>googleReview_draftReply := Some text,
     googleReview_status := (if suggestion then RR_SUGGESTED else RR_PENDING)\<rparr>"

definition updateDraft :: "uuid \<Rightarrow> uuid \<Rightarrow> string \<Rightarrow> googleReview act" where
  "updateDraft tenantId i draftReply =
     bindA (enforceTier3 tenantId) (\<lambda>_.
     bindA (openReview ''Cannot edit a reply that has already been posted'' tenantId i) (\<lambda>r.
     thenA (modifyA (changeReview i (drafted draftReply (truthy (googleReview_aiSuggestion r)))))
       (returnA (drafted draftReply (truthy (googleReview_aiSuggestion r)) r))))"

definition approved :: "instant \<Rightarrow> googleReview \<Rightarrow> googleReview" where
  "approved now r = r\<lparr>googleReview_status := RR_APPROVED, googleReview_repliedAt := Some now\<rparr>"

definition approveAndPost :: "env \<Rightarrow> instant \<Rightarrow> uuid \<Rightarrow> uuid \<Rightarrow> uuid \<Rightarrow> googleReview act" where
  "approveAndPost E now tenantId userId i =
     bindA (enforceTier3 tenantId) (\<lambda>_.
     bindA (openReview ''This review has already been replied to'' tenantId i) (\<lambda>r w.
     if trim (coalesce (googleReview_draftReply r) []) = []
     then (Inl (BadRequestException ''No reply draft found. Generate or write a reply first.''), w)
     else case businessConnection tenantId w of
            None \<Rightarrow> (Inl (NotFoundException ''Google Business connection not found''), w)
          | Some g \<Rightarrow>
              bindA (getFreshReviewToken E now g) (\<lambda>token.
                if \<not> replyToReview E token (googleConnection_googleAccountId g) (googleConnection_locationId g)
                       (googleReview_googleReviewId r) (the (googleReview_draftReply r))
                then badRequest ''Failed to post reply to Google. Please try again.''
                else thenA (modifyA (changeReview i (approved now)))
                       (thenA (audit_log (auditEntry tenantId (Some userId) ''UPDATE'' ''GoogleReview'' i
                            [(''status'', JStr ''APPROVED''), (''repliedAt'', JDate now)]))
                         (returnA (approved now r)))) w))"

definition skipReview :: "uuid \<Rightarrow> uuid \<Rightarrow> uuid \<Rightarrow> googleReview act" where
  "skipReview tenantId userId i =
     bindA (enforceTier3 tenantId) (\<lambda>_.
     bindA (openReview ''Cannot skip a review that has already been replied to'' tenantId i) (\<lambda>r.
     thenA (modifyA (changeReview i (\<lambda>x. x\<lparr>googleReview_status := RR_SKIPPED\<rparr>)))
       (thenA (audit_log (auditEntry tenantId (Some userId) ''UPDATE'' ''GoogleReview'' i [(''status'', JStr ''SKIPPED'')]))
         (returnA (r\<lparr>googleReview_status := RR_SKIPPED\<rparr>)))))"

section \<open>The public route\<close>

definition reviewCallback ::
  "env \<Rightarrow> (string \<Rightarrow> json option) \<Rightarrow> instant \<Rightarrow> string \<Rightarrow> string \<Rightarrow> string option \<Rightarrow> world \<Rightarrow> string \<times> world" where
  "reviewCallback E decodeState now code state error w =
     (let base = settingsPage E
      in if truthy error then (base @ ''?google_error='' @ encodeURIComponent (the error), w)
         else case handleReviewCallback E decodeState now code state w of
                (Inr (_, locations), v) \<Rightarrow>
                  (base @ ''?google_connected=true&locations='' @ encodeURIComponent (e_stringify E (JArr
                     (map (\<lambda>l. JObj [(''locationId'', JStr (gl_locationId l)), (''locationName'', gl_locationName l)]) locations))), v)
              | (Inl e, v) \<Rightarrow> (base @ ''?google_error='' @ encodeURIComponent (exnText e), v))"

end
