(* ===== verification/AI_Properties.thy ===== *)
theory AI_Properties
  imports AI_Texts
begin

text \<open>
  What an AI text costs its tenant: a text is written only below the limit, a refused request writes nothing, and
  a request through the route is counted twice, by the guard and by the service.
\<close>

section \<open>One request\<close>

lemma countCompletion_run:
  "countCompletion t row w =
     (if tenantExists t w
      then (Inr (), let v = putTenants (update_where (\<lambda>r. tenant_id r = t)
               (\<lambda>r. r\<lparr>tenant_aiUsageCount := tenant_aiUsageCount r + 1\<rparr>) (w_tenants w)) w
             in bump (v\<lparr>w_aIUsageLogs := w_aIUsageLogs v @ [row (newId v)]\<rparr>))
      else (Inl (PrismaError ''P2025''), w))"
  by (simp add: countCompletion_def updateTenant_def updateRow_def tenantExists_def Let_def)

lemma findTenant_counted:
  assumes "findTenant t w = Some tn"
  shows "findTenant t (snd (countCompletion t row w)) =
    Some (tn\<lparr>tenant_aiUsageCount := tenant_aiUsageCount tn + 1\<rparr>)"
proof -
  have "findTenant t (putTenants (update_where (\<lambda>r. tenant_id r = t)
      (\<lambda>r. r\<lparr>tenant_aiUsageCount := tenant_aiUsageCount r + 1\<rparr>) (w_tenants w)) w) =
      Some (tn\<lparr>tenant_aiUsageCount := tenant_aiUsageCount tn + 1\<rparr>)"
    by (simp add: findTenant_update assms)
  then show ?thesis
    using findTenant_exists [OF assms] by (simp add: countCompletion_run Let_def findTenant_def bump_def)
qed

text \<open>A text is written below the limit, counts one, and nothing is counted for a text that is not.\<close>

lemma writeText_counts:
  assumes "findTenant t w = Some tn"
  shows "case writeText E chat now t u f failure sp up n temp extra w of
      (Inl e, v) \<Rightarrow> v = w
    | (Inr c, v) \<Rightarrow> tenant_aiUsageCount tn < aiLimit tn \<and> findTenant t v =
        Some (tn\<lparr>tenant_aiUsageCount := tenant_aiUsageCount tn + 1\<rparr>)"
proof (cases "fst (enforceAccess t w)")
  case (Inl e)
  then have "enforceAccess t w = (Inl e, w)" by (auto simp: enforceAccess_def assms split: if_splits)
  then show ?thesis by (simp add: writeText_def)
next
  case (Inr r)
  then have r: "enforceAccess t w = (Inr tn, w)" "tenant_aiUsageCount tn < aiLimit tn"
    by (auto simp: enforceAccess_def assms split: if_splits)
  show ?thesis
  proof (cases "complete E chat sp up n temp")
    case (Inl e)
    then show ?thesis by (simp add: writeText_def r(1))
  next
    case (Inr c)
    have "fst (logUsage now t f up c w) = Inr ()"
      by (simp add: logUsage_def countCompletion_run findTenant_exists [OF assms])
    then have "logUsage now t f up c w = (Inr (), snd (logUsage now t f up c w))"
      by (metis prod.collapse)
    moreover have "findTenant t (snd (logUsage now t f up c w)) =
        Some (tn\<lparr>tenant_aiUsageCount := tenant_aiUsageCount tn + 1\<rparr>)"
      by (simp add: logUsage_def findTenant_counted [OF assms])
    ultimately show ?thesis using r(2) by (simp add: writeText_def r(1) Inr thenA_audit)
  qed
qed

lemma aiText_counts:
  assumes "findTenant t w = Some tn"
  shows "case aiText k E chat now t u params w of
      (Inl e, v) \<Rightarrow> v = w
    | (Inr c, v) \<Rightarrow> tenant_aiUsageCount tn < aiLimit tn \<and> findTenant t v =
        Some (tn\<lparr>tenant_aiUsageCount := tenant_aiUsageCount tn + 1\<rparr>)"
  using writeText_counts [OF assms]
  by (cases k) (simp_all add: aiText_def generateTemplate_def improveTemplate_def changeTone_def optimizeConfirmationRate_def)

lemma guard_charges:
  assumes "findTenant t w = Some tn" and "canActivate E now (Some F_AI) None (Some \<lparr>ru_tenantId = Some t, ru_userId = u\<rparr>) w = (r, v)"
  shows "findTenant t v = Some (if is_ok r then addUsage F_AI tn else tn)"
proof (cases "t = []")
  case True
  then show ?thesis using assms by (auto simp: canActivate_def featureOf_def Let_def)
next
  case False
  define w1 where "w1 = snd (checkRateLimit E now t F_AI (tenant_trialActive tn) w)"
  have f1: "findTenant t w1 = Some tn" using assms(1) by (simp add: w1_def findTenant_def)
  have run: "canActivate E now (Some F_AI) None (Some \<lparr>ru_tenantId = Some t, ru_userId = u\<rparr>) w =
      thenA (checkRateLimit E now t F_AI (tenant_trialActive tn)) (bindA (validateAndIncrement now t F_AI u) (\<lambda>_. returnA True)) w"
    using False assms(1) by (simp add: canActivate_def featureOf_def Let_def)
  show ?thesis
  proof (cases "fst (checkRateLimit E now t F_AI (tenant_trialActive tn) w)")
    case (Inl e)
    then have "checkRateLimit E now t F_AI (tenant_trialActive tn) w = (Inl e, w1)" unfolding w1_def by (metis prod.collapse)
    then show ?thesis using assms(2) f1 by (auto simp: run)
  next
    case (Inr x)
    then have c: "checkRateLimit E now t F_AI (tenant_trialActive tn) w = (Inr (), w1)" unfolding w1_def by (metis (full_types) old.unit.exhaust prod.collapse)
    show ?thesis
    proof (cases "validateAndIncrement now t F_AI u w1")
      case (Pair q z)
      show ?thesis
      proof (cases q)
        case (Inl e)
        then show ?thesis
          using assms(2) f1 validateAndIncrement_blockedD [of now t F_AI u w1 e z] Pair
          by (auto simp: run c logBlockedAttempt_def)
      next
        case (Inr y)
        then have "validateAndIncrement now t F_AI u w1 = (Inr y, z)" using Pair by simp
        then have "z = putTenants (update_where (\<lambda>r. tenant_id r = t) (addUsage F_AI) (w_tenants w1)) w1"
          by (rule validateAndIncrement_okD)
        then show ?thesis using assms(2) f1 Pair Inr by (auto simp: run c findTenant_update)
      qed
    qed
  qed
qed

section \<open>A run of requests\<close>

definition aiServe :: "env \<Rightarrow> chat \<Rightarrow> uuid \<Rightarrow> uuid \<Rightarrow> instant \<times> ai_text \<times> json \<Rightarrow> world \<Rightarrow> bool \<times> world" where
  "aiServe E chat t u e w = (case e of (now, k, params) \<Rightarrow> (let (r, v) = aiRoute E chat now t u k params w in (is_ok r, v)))"

lemma aiServe_counts:
  assumes "findTenant t w = Some tn" and "aiServe E chat t u e w = (b, v)"
  shows "\<exists>k. findTenant t v = Some (tn\<lparr>tenant_aiUsageCount := tenant_aiUsageCount tn + int k\<rparr>) \<and>
    (b \<longrightarrow> k = 2 \<and> tenant_aiUsageCount tn + 2 \<le> aiLimit tn)"
proof -
  obtain now kind params where e: "e = (now, kind, params)" by (cases e)
  obtain r z where g: "canActivate E now (Some F_AI) None (Some \<lparr>ru_tenantId = Some t, ru_userId = Some u\<rparr>) w = (r, z)"
    by (cases "canActivate E now (Some F_AI) None (Some \<lparr>ru_tenantId = Some t, ru_userId = Some u\<rparr>) w")
  note z = guard_charges [OF assms(1) g]
  have same: "tn\<lparr>tenant_aiUsageCount := tenant_aiUsageCount tn + int 0\<rparr> = tn" by simp
  show ?thesis
  proof (cases r)
    case (Inl x)
    then have "findTenant t v = Some tn" "\<not> b"
      using z assms(2) g by (auto simp: e aiServe_def aiRoute_def)
    then show ?thesis using same by (intro exI [where x = 0]) simp
  next
    case (Inr x)
    define t1 where "t1 = tn\<lparr>tenant_aiUsageCount := tenant_aiUsageCount tn + int 1\<rparr>"
    have f: "findTenant t z = Some t1" using z Inr by (simp add: addUsage_def t1_def)
    have l: "aiLimit t1 = aiLimit tn" by (simp add: aiLimit_def t1_def)
    obtain q y where q: "aiText kind E chat now t u params z = (q, y)" by (cases "aiText kind E chat now t u params z")
    then have v: "v = y" "b = is_ok q" using assms(2) g Inr by (auto simp: e aiServe_def aiRoute_def)
    show ?thesis
    proof (cases q)
      case (Inl a)
      then have "y = z" using aiText_counts [OF f, of kind E chat now u params] q by simp
      then show ?thesis using f v Inl by (intro exI [where x = 1]) (simp add: t1_def)
    next
      case (Inr c)
      then have "tenant_aiUsageCount t1 < aiLimit tn"
        "findTenant t y = Some (t1\<lparr>tenant_aiUsageCount := tenant_aiUsageCount t1 + 1\<rparr>)"
        using aiText_counts [OF f, of kind E chat now u params] q l by simp_all
      then show ?thesis using v by (intro exI [where x = 2]) (simp add: t1_def)
    qed
  qed
qed

text \<open>
  C22: The AI limit of a tenant buys half as many texts. Whatever requests for AI texts come in, at whatever
  times, the texts written number at most half of what the limit leaves at the start: each request is counted
  by the guard in front of the route and again by the service.
\<close>

theorem ai_limit_halved:
  assumes "findTenant t w = Some tn"
  shows "2 * count_list (fst (attempts (aiServe E chat t u) es w)) True \<le> nat (aiLimit tn - tenant_aiUsageCount tn)"
  using assms
proof (induction es arbitrary: w tn)
  case (Cons e es)
  obtain b v where s: "aiServe E chat t u e w = (b, v)" by (cases "aiServe E chat t u e w")
  obtain k where k: "findTenant t v = Some (tn\<lparr>tenant_aiUsageCount := tenant_aiUsageCount tn + int k\<rparr>)"
    "b \<longrightarrow> k = 2 \<and> tenant_aiUsageCount tn + 2 \<le> aiLimit tn"
    using aiServe_counts [OF Cons.prems s] by blast
  have "2 * count_list (fst (attempts (aiServe E chat t u) es v)) True \<le> nat (aiLimit tn - (tenant_aiUsageCount tn + int k))"
    using Cons.IH [OF k(1)] by (simp add: aiLimit_def split: if_splits)
  then show ?case using k(2) by (cases b) (auto simp: s case_prod_beta Let_def)
qed simp

text \<open>Five texts that are left are two: the third request is charged by the guard and refused by the service.\<close>

definition politeChat :: chat where
  "politeChat q = Inr \<lparr>cy_choices = [Some ''See you soon''], cy_usage = None, cy_model = ''gpt-4o-mini''\<rparr>"

definition aiWorld :: world where
  "aiWorld = demoWorld [demoTenant PLAN_SMS_VOICE_AI ACTIVE False 45]"

lemma five_left_write_two:
  "fst (attempts (aiServe demoEnv politeChat ''t1'' ''u1'')
     [(1, ChangeTone, JObj []), (2, GenerateTemplate, JObj []), (3, ImproveTemplate, JObj [])] aiWorld) = [True, True, False]"
  "tenant_aiUsageCount (hd (w_tenants (snd (attempts (aiServe demoEnv politeChat ''t1'' ''u1'')
     [(1, ChangeTone, JObj []), (2, GenerateTemplate, JObj []), (3, ImproveTemplate, JObj [])] aiWorld)))) = 50"
  by code_simp+

theorem ai_limit_halved_witness:
  "2 * count_list (fst (attempts (aiServe demoEnv politeChat ''t1'' ''u1'')
     [(1, ChangeTone, JObj []), (2, GenerateTemplate, JObj []), (3, ImproveTemplate, JObj [])] aiWorld)) True \<le> 5"
proof -
  have "findTenant ''t1'' aiWorld = Some (demoTenant PLAN_SMS_VOICE_AI ACTIVE False 45)"
    by (simp add: aiWorld_def demoTenant_def)
  from ai_limit_halved [OF this, of demoEnv politeChat "''u1''" "[(1, ChangeTone, JObj []), (2, GenerateTemplate, JObj []), (3, ImproveTemplate, JObj [])]"]
  show ?thesis by (simp add: aiLimit_def demoTenant_def del: attempts.simps)
qed

end
