(* ===== verification/Google_Review_Properties.thy ===== *)
theory Google_Review_Properties
  imports Google_Reviews AI_Properties
begin

text \<open>
  A reply that was posted is final: no request changes the review again. And suggestions are bounded by the AI
  limit of the plan: the same contract of a counted resource as the other counters.
\<close>

section \<open>Reviews that were replied to\<close>

text \<open>What the database guarantees of the ids of reviews, and what a step may do to replied ones.\<close>

definition reviewBook :: "world \<Rightarrow> bool" where
  "reviewBook w =
     (distinct (map googleReview_id (w_googleReviews w)) \<and> inj (w_uuid w) \<and>
      (\<forall>n \<ge> w_next w. w_uuid w n \<notin> googleReview_id ` set (w_googleReviews w)))"

definition repliesKept :: "world \<Rightarrow> world \<Rightarrow> bool" where
  "repliesKept w v =
     (reviewBook v \<and> (\<forall>r \<in> set (w_googleReviews w). googleReview_status r = RR_APPROVED \<longrightarrow> r \<in> set (w_googleReviews v)))"

definition sameReviews :: "world \<Rightarrow> world \<Rightarrow> bool" where
  "sameReviews w v = (w_googleReviews v = w_googleReviews w \<and> w_uuid v = w_uuid w \<and> w_next w \<le> w_next v)"

definition unreplied :: "uuid \<Rightarrow> world \<Rightarrow> bool" where
  "unreplied i w = (\<forall>r \<in> set (w_googleReviews w). googleReview_id r = i \<longrightarrow> googleReview_status r \<noteq> RR_APPROVED)"

lemma repliesKept_refl: "reviewBook w \<Longrightarrow> repliesKept w w"
  by (simp add: repliesKept_def)

lemma repliesKept_trans: "repliesKept u v \<Longrightarrow> repliesKept v w \<Longrightarrow> repliesKept u w"
  by (auto simp: repliesKept_def)

lemma repliesKept_same: "repliesKept u w \<Longrightarrow> sameReviews w v \<Longrightarrow> repliesKept u v"
  by (auto simp: repliesKept_def sameReviews_def reviewBook_def)

lemma unreplied_same: "unreplied i w \<Longrightarrow> sameReviews w v \<Longrightarrow> unreplied i v"
  by (simp add: unreplied_def sameReviews_def)

lemma same_audit: "sameReviews w (snd (audit_log e w))"
  by (simp add: sameReviews_def audit_log_def bump_def)

lemma same_counted: "sameReviews w (snd (countCompletion t row w))"
  by (simp add: sameReviews_def countCompletion_run bump_def Let_def)

lemma same_token: "sameReviews w (snd (getFreshReviewToken E now g w))"
  by (simp add: sameReviews_def getFreshReviewToken_def changeBusiness_def split: option.split)

lemma repliesKept_change:
  assumes "repliesKept u w" and "unreplied i w" and "\<And>r. googleReview_id (f r) = googleReview_id r"
  shows "repliesKept u (changeReview i f w)"
proof -
  have ids: "map googleReview_id (update_where p f rs) = map googleReview_id rs" for p rs
    using assms(3) by (simp add: map_update_where_same)
  have "googleReview_id ` set (update_where p f rs) = googleReview_id ` set rs" for p rs
    using arg_cong [OF ids [of p rs], of set] by simp
  then have "reviewBook (changeReview i f w)"
    using assms(1) ids by (simp add: repliesKept_def reviewBook_def changeReview_def)
  moreover have "r \<in> set (w_googleReviews (changeReview i f w))"
    if "r \<in> set (w_googleReviews u)" "googleReview_status r = RR_APPROVED" for r
  proof -
    have r: "r \<in> set (w_googleReviews w)" using assms(1) that by (simp add: repliesKept_def)
    then have "googleReview_id r \<noteq> i" using assms(2) that(2) by (auto simp: unreplied_def)
    then show ?thesis using r by (auto simp: changeReview_def set_update_where image_iff)
  qed
  ultimately show ?thesis by (simp add: repliesKept_def)
qed

text \<open>The guards of an operation: they change nothing, and the review of the request is not replied to.\<close>

lemma tier_kept:
  assumes "reviewBook w" and "\<And>t. repliesKept w (snd (k t w))"
  shows "repliesKept w (snd (bindA (enforceTier3 tid) k w))"
  using assms repliesKept_refl by (auto simp: bindA_def enforceTier3_def split: option.split)

lemma room_kept: "reviewBook w \<Longrightarrow> repliesKept w (snd (k w)) \<Longrightarrow> repliesKept w (snd (thenA (aiRoom t) k w))"
  using repliesKept_refl by (simp add: thenA_def bindA_def aiRoom_def)

lemma open_kept:
  assumes "reviewBook w" and "\<And>r. unreplied i w \<Longrightarrow> repliesKept w (snd (k r w))"
  shows "repliesKept w (snd (bindA (openReview refusal t i) k w))"
proof (cases "reviewOf t i w")
  case (Some r)
  show ?thesis
  proof (cases "googleReview_status r = RR_APPROVED")
    case False
    have r: "r \<in> set (w_googleReviews w)" "googleReview_id r = i"
      using Some by (auto simp: reviewOf_def dest: find_SomeD)
    have "s = r" if "s \<in> set (w_googleReviews w)" "googleReview_id s = i" for s
      using assms(1) r that by (auto simp: reviewBook_def distinct_map dest: inj_onD)
    then have "unreplied i w" using False by (auto simp: unreplied_def)
    then show ?thesis using assms(2) Some False by (simp add: bindA_def openReview_def)
  qed (use repliesKept_refl [OF assms(1)] Some in \<open>simp add: bindA_def openReview_def\<close>)
qed (use repliesKept_refl [OF assms(1)] in \<open>simp add: bindA_def openReview_def\<close>)

lemma then_same:
  assumes "sameReviews w (snd (m w))" and "repliesKept u w"
    and "\<And>v. sameReviews w v \<Longrightarrow> repliesKept u (snd (k v))"
  shows "repliesKept u (snd (thenA m k w))"
  using assms repliesKept_same [OF assms(2,1)]
  by (cases "m w") (auto simp: thenA_def bindA_def split: sum.split)

lemma audited_kept: "repliesKept u w \<Longrightarrow> repliesKept u (snd (thenA (audit_log e) (returnA x) w))"
  by (rule then_same [OF same_audit]) (auto intro: repliesKept_same)

lemma change_then_kept:
  assumes "repliesKept u w" and "unreplied i w" and "\<And>r. googleReview_id (f r) = googleReview_id r"
  shows "repliesKept u (snd (thenA (modifyA (changeReview i f)) (thenA (audit_log e) (returnA x)) w))"
  using audited_kept [OF repliesKept_change [OF assms]] by simp

section \<open>The operations\<close>

lemma generate_kept:
  assumes "reviewBook w"
  shows "repliesKept w (snd (generateSuggestion E chat now t u i tone w))"
  unfolding generateSuggestion_def Let_def
proof (rule tier_kept [OF assms], rule room_kept [OF assms], rule open_kept [OF assms])
  fix tn r
  assume open_i: "unreplied i w"
  define tn' where "tn' = the (or_str tone (Some ''professional and warm''))"
  show "repliesKept w (snd ((case complete E chat (replySystemPrompt (the (or_str tone (Some ''professional and warm''))))
       (replyUserPrompt (the (or_str tone (Some ''professional and warm''))) r) 200 (75 / 100) of
      Inl e \<Rightarrow> badRequest (''AI generation failed: '' @ e)
    | Inr c \<Rightarrow> thenA (countCompletion t (usageRow now t ''review_reply_generation''
          (replyUserPrompt (the (or_str tone (Some ''professional and warm''))) r) c
          (estimateReviewCost (ac_tokensUsed c) (ac_model c))))
        (thenA (modifyA (changeReview i (suggested (ac_text c))))
        (thenA (audit_log ((auditEntry t (Some u) ''CREATE'' ''GoogleReviewSuggestion'' i [])
            \<lparr>entry_newValues := Some (jobj [(''tokens'', Some (JNum (ac_tokensUsed c))), (''tone'', map_option JStr tone)])\<rparr>))
        (returnA c)))) w))"
  proof (cases "complete E chat (replySystemPrompt tn') (replyUserPrompt tn' r) 200 (75 / 100)")
    case (Inl e)
    then show ?thesis using repliesKept_refl [OF assms] by (simp add: tn'_def badRequest_def)
  next
    case (Inr c)
    have changed: "repliesKept w (snd (thenA (modifyA (changeReview i (suggested (ac_text c)))) (thenA (audit_log e) (returnA c)) v))"
      if "sameReviews w v" for e v
      by (rule change_then_kept [OF repliesKept_same [OF repliesKept_refl [OF assms] that] unreplied_same [OF open_i that]])
        (simp add: suggested_def)
    show ?thesis
      unfolding tn'_def [symmetric] Inr sum.case
      by (rule then_same, rule same_counted, rule repliesKept_refl [OF assms], rule changed)
  qed
qed

lemma draft_kept:
  assumes "reviewBook w"
  shows "repliesKept w (snd (updateDraft t i text w))"
  unfolding updateDraft_def
  by (rule tier_kept [OF assms], rule open_kept [OF assms])
    (use repliesKept_change [OF repliesKept_refl [OF assms]] in \<open>simp add: drafted_def\<close>)

lemma skip_kept:
  assumes "reviewBook w"
  shows "repliesKept w (snd (skipReview t u i w))"
  unfolding skipReview_def
  by (rule tier_kept [OF assms], rule open_kept [OF assms],
      rule change_then_kept [OF repliesKept_refl [OF assms]]) simp_all

lemma approve_kept:
  assumes "reviewBook w"
  shows "repliesKept w (snd (approveAndPost E now t u i w))"
  unfolding approveAndPost_def
proof (rule tier_kept [OF assms], rule open_kept [OF assms])
  fix tn r
  assume open_i: "unreplied i w"
  have "repliesKept w (snd (bindA (getFreshReviewToken E now g) (\<lambda>token.
      if \<not> replyToReview E token (googleConnection_googleAccountId g) (googleConnection_locationId g)
             (googleReview_googleReviewId r) (the (googleReview_draftReply r))
      then badRequest ''Failed to post reply to Google. Please try again.''
      else thenA (modifyA (changeReview i (approved now)))
             (thenA (audit_log (auditEntry t (Some u) ''UPDATE'' ''GoogleReview'' i
                  [(''status'', JStr ''APPROVED''), (''repliedAt'', JDate now)]))
               (returnA (approved now r)))) w))" for g
  proof -
    obtain q v where q: "getFreshReviewToken E now g w = (q, v)" by (cases "getFreshReviewToken E now g w")
    have v: "sameReviews w v" using same_token [of w E now g] q by simp
    note kv = repliesKept_same [OF repliesKept_refl [OF assms] v]
    have "repliesKept w (snd (thenA (modifyA (changeReview i (approved now))) (thenA (audit_log e) (returnA x)) v))" for e x
      by (rule change_then_kept [OF kv unreplied_same [OF open_i v]]) (simp add: approved_def)
    then show ?thesis using kv by (cases q) (simp_all add: bindA_def q badRequest_def)
  qed
  then show "repliesKept w (snd ((if trim (coalesce (googleReview_draftReply r) []) = []
     then (Inl (BadRequestException ''No reply draft found. Generate or write a reply first.''), w)
     else case businessConnection t w of
            None \<Rightarrow> (Inl (NotFoundException ''Google Business connection not found''), w)
          | Some g \<Rightarrow>
              bindA (getFreshReviewToken E now g) (\<lambda>token.
                if \<not> replyToReview E token (googleConnection_googleAccountId g) (googleConnection_locationId g)
                       (googleReview_googleReviewId r) (the (googleReview_draftReply r))
                then badRequest ''Failed to post reply to Google. Please try again.''
                else thenA (modifyA (changeReview i (approved now)))
                       (thenA (audit_log (auditEntry t (Some u) ''UPDATE'' ''GoogleReview'' i
                            [(''status'', JStr ''APPROVED''), (''repliedAt'', JDate now)]))
                         (returnA (approved now r)))) w)))"
    using repliesKept_refl [OF assms] by (simp split: option.split)
qed

lemma sync_pages_keep:
  assumes "syncPages fetch onPage page n w = Some y"
  shows "(\<forall>p n. keeps P (onPage p n)) \<longrightarrow> P w \<longrightarrow> P (snd y)"
proof (rule syncPages.raw_induct [OF _ assms])
  fix run fetch onPage page n w y
  assume IH: "\<And>fetch onPage page n w y. run fetch onPage page n w = Some y \<Longrightarrow>
      (\<forall>p n. keeps P (onPage p n)) \<longrightarrow> P w \<longrightarrow> P (snd y)"
    and body: "(case fetch page of
        Inl e \<Rightarrow> Some (Inl (PlainError (fst e)), w)
      | Inr (events, following) \<Rightarrow>
          (case onPage events n w of
             (Inl e, v) \<Rightarrow> Some (Inl e, v)
           | (Inr m, v) \<Rightarrow> if jtruthy following then run fetch onPage following m v else Some (Inr m, v))) = Some y"
  show "(\<forall>p n. keeps P (onPage p n)) \<longrightarrow> P w \<longrightarrow> P (snd y)"
  proof (intro impI)
    assume k: "\<forall>p n. keeps P (onPage p n)" and w: "P w"
    show "P (snd y)"
    proof (cases "fetch page")
      case (Inr q)
      obtain events following where q: "q = (events, following)" by (cases q)
      obtain r v where r: "onPage events n w = (r, v)" by (cases "onPage events n w")
      then have "P v" using keepsD [OF k [rule_format, of events n] w] by simp
      then show ?thesis
        using body IH [of fetch onPage following _ v y] k by (cases r) (auto simp: Inr q r split: if_splits)
    qed (use body w in auto)
  qed
qed

lemma store_keeps: "keeps (repliesKept u) (storeReview parse now t c d n)"
proof (rule keepsI)
  fix w
  assume k: "repliesKept u w"
  have "repliesKept u (bump (w\<lparr>w_googleReviews := w_googleReviews w @ [row]\<rparr>))"
    if "googleReview_id row = newId w" for row
    using k that by (auto simp: repliesKept_def reviewBook_def bump_def newId_def dest: injD)
  moreover have "googleReview_id row = newId w" if "fetchedRow parse now t c gid d (newId w) = Some row" for row gid
    using that by (auto simp: fetchedRow_def Let_def split: option.splits)
  ultimately show "repliesKept u (snd (storeReview parse now t c d n w))"
    using k by (auto simp: storeReview_def split: option.split)
qed

lemma storeReviews_keeps: "keeps (repliesKept u) (storeReviews (storeReview parse now t c) ds n)"
proof (induction ds arbitrary: n)
  case (Cons d ds)
  have "storeReviews (storeReview parse now t c) (d # ds) n =
      bindA (storeReview parse now t c d n) (storeReviews (storeReview parse now t c) ds)"
    by (rule ext) simp
  then show ?case using keeps_bindA [OF store_keeps Cons] by simp
qed (simp add: keeps_def)

lemma suggest_kept:
  assumes "reviewBook w"
  shows "repliesKept w (suggestForPending E chat now t u w)"
  unfolding suggestForPending_def
proof (rule snd_forEachA [where P = "repliesKept w"])
  fix r :: googleReview and v
  assume v: "repliesKept w v"
  then have "repliesKept v (snd (generateSuggestion E chat now t u (googleReview_id r) (Some ''professional'') v))"
    by (intro generate_kept) (simp add: repliesKept_def)
  then have "repliesKept v (snd (suggestQuietly E chat now t u r v))"
    by (auto simp: suggestQuietly_def bindA_def split: prod.splits sum.splits)
  with v show "repliesKept w (snd (suggestQuietly E chat now t u r v))" by (rule repliesKept_trans)
qed (rule repliesKept_refl [OF assms])

lemma sync_kept:
  assumes "reviewBook w" and "syncReviews E chat parse now t u w = Some y"
  shows "repliesKept w (snd y)"
proof (cases "enforceTier3 t w")
  case (Pair q w1)
  have w1: "w1 = w" using Pair by (auto simp: enforceTier3_def split: option.splits if_splits)
  show ?thesis
  proof (cases q)
    case (Inl e)
    then show ?thesis using assms repliesKept_refl Pair w1 by (auto simp: syncReviews_def)
  next
    case (Inr tn)
    show ?thesis
    proof (cases "businessConnection t w")
      case None
      then show ?thesis using assms repliesKept_refl Pair w1 Inr by (auto simp: syncReviews_def)
    next
      case (Some g)
      obtain p v where p: "getFreshReviewToken E now g w = (p, v)" by (cases "getFreshReviewToken E now g w")
      have v: "repliesKept w v"
        using repliesKept_same [OF repliesKept_refl [OF assms(1)]] same_token [of w E now g] p by simp
      show ?thesis
      proof (cases "googleConnection_locationId g = [] \<or> (\<exists>e. p = Inl e)")
        case True
        then show ?thesis
          using assms(2) repliesKept_refl [OF assms(1)] Pair w1 Inr Some p v
          by (cases "googleConnection_locationId g = []") (auto simp: syncReviews_def)
      next
        case False
        then obtain token where token: "p = Inr token" by (cases p) auto
        then obtain r z where z: "syncReviewPages E parse now t g token v = Some (r, z)"
          "y = (r, if is_ok r then suggestForPending E chat now t u z else z)"
          using assms(2) False Pair w1 Inr Some p by (auto simp: syncReviews_def)
        have "repliesKept w z"
          using sync_pages_keep [OF z(1) [unfolded syncReviewPages_def], of "repliesKept w"] v storeReviews_keeps by simp
        then show ?thesis
          using z(2) repliesKept_trans [OF _ suggest_kept, of w z] by (auto simp: repliesKept_def)
      qed
    qed
  qed
qed

lemma upsert_same: "sameReviews v (snd (upsertBusiness now t a l tk v))"
  by (simp add: upsertBusiness_def sameReviews_def bump_def Let_def split: option.split)

lemma same_then:
  assumes "sameReviews u (snd (m w))" and "\<And>v. sameReviews u v \<Longrightarrow> sameReviews u (snd (k v))"
  shows "sameReviews u (snd (thenA m k w))"
  using snd_thenA [where P = "sameReviews u"] assms by blast

lemma connected_same:
  "sameReviews w (snd (thenA (upsertBusiness now t a l tk) (thenA (audit_log e) (returnA x)) w))"
proof (rule same_then [OF upsert_same], rule same_then)
  fix v
  assume "sameReviews w v"
  then show "sameReviews w (snd (audit_log e v))" using same_audit [of v e] by (simp add: sameReviews_def)
qed simp

lemma callback_same: "sameReviews w (snd (handleReviewCallback E decode now code state w))"
proof -
  have refl: "sameReviews w w" by (simp add: sameReviews_def)
  have tier: "sameReviews w (snd (bindA (enforceTier3 t) k w))" if "\<And>x. sameReviews w (snd (k x w))" for t and k :: "tenant \<Rightarrow> (uuid \<times> GoogleLocation list) act"
    using that refl by (auto simp: bindA_def enforceTier3_def split: option.split)
  show ?thesis
    unfolding handleReviewCallback_def
    by (auto simp: badRequest_def Let_def connected_same refl intro!: tier split: option.splits json.splits)
qed

lemma select_same: "sameReviews w (snd (selectLocation E now t i n w))"
proof -
  have ch: "sameReviews u v \<Longrightarrow> sameReviews u (changeBusiness j f v)" for u v j f
    by (simp add: changeBusiness_def sameReviews_def)
  have refl: "sameReviews v v" for v by (simp add: sameReviews_def)
  show ?thesis
    unfolding selectLocation_def
  proof (rule snd_bindA [where P = "sameReviews w"])
    show "sameReviews w (snd (enforceTier3 t w))" using refl by (auto simp: enforceTier3_def split: option.split)
  next
    fix tn v
    assume v: "sameReviews w v"
    have "sameReviews w (snd (getFreshReviewToken E now g v))" for g
      using v same_token [of v E now g] by (simp add: sameReviews_def)
    then show "sameReviews w (snd (case businessConnection t v of
         None \<Rightarrow> (Inl (NotFoundException ''No Google Business connection found. Please connect first.''), v)
       | Some g \<Rightarrow>
           bindA (getFreshReviewToken E now g) (\<lambda>token.
             case List.find (\<lambda>l. gl_locationId l = i) (listLocations E token (googleConnection_googleAccountId g)) of
               None \<Rightarrow> badRequest ''Location not found in your Google Business account''
             | Some l \<Rightarrow>
                 (case (if truthy n then n else jstr (Some (gl_locationName l))) of
                    None \<Rightarrow> throwA invalidArgument
                  | Some n \<Rightarrow>
                      thenA (modifyA (changeBusiness (googleConnection_id g) (\<lambda>h. h\<lparr>googleConnection_locationId := i,
                          googleConnection_locationName := Some n\<rparr>)))
                        (returnA (i, n)))) v))"
      using v ch by (auto simp: badRequest_def intro!: snd_bindA [where P = "sameReviews w"] split: option.split)
  qed
qed


section \<open>Runs of requests\<close>

text \<open>
  Every request of any tenant that can change a review, other than disconnecting an account, which deletes its
  reviews; \<open>parse\<close> and \<open>decode\<close> are the readers of dates and states.
\<close>

inductive review_step ::
  "env \<Rightarrow> chat \<Rightarrow> (string \<Rightarrow> instant option) \<Rightarrow> (string \<Rightarrow> json option) \<Rightarrow> world \<Rightarrow> world \<Rightarrow> bool" for E chat parse decode where
  syncing: "syncReviews E chat parse now t u w = Some y \<Longrightarrow> review_step E chat parse decode w (snd y)"
| generating: "review_step E chat parse decode w (snd (generateSuggestion E chat now t u i tone w))"
| drafting: "review_step E chat parse decode w (snd (updateDraft t i text w))"
| approving: "review_step E chat parse decode w (snd (approveAndPost E now t u i w))"
| skipping: "review_step E chat parse decode w (snd (skipReview t u i w))"
| connecting: "review_step E chat parse decode w (snd (handleReviewCallback E decode now code state w))"
| placing: "review_step E chat parse decode w (snd (selectLocation E now t l n w))"

inductive_cases review_stepE: "review_step E chat parse decode w v"

lemma review_step_kept: "review_step E chat parse decode w v \<Longrightarrow> reviewBook w \<Longrightarrow> repliesKept w v"
  by (elim review_stepE)
    (auto intro: sync_kept generate_kept draft_kept approve_kept skip_kept
      repliesKept_same [OF repliesKept_refl callback_same] repliesKept_same [OF repliesKept_refl select_same])

lemma review_run_kept:
  assumes "(review_step E chat parse decode)\<^sup>*\<^sup>* w v" and "reviewBook w"
  shows "repliesKept w v"
  using assms(1)
proof (induction rule: rtranclp_induct)
  case (step u v)
  then show ?case using review_step_kept [OF step(2)] repliesKept_trans by (auto simp: repliesKept_def)
qed (rule repliesKept_refl [OF assms(2)])

text \<open>What the operations make of a review that was replied to.\<close>

lemma replied_refused:
  assumes "reviewBook w" and "r \<in> set (w_googleReviews w)" and "googleReview_status r = RR_APPROVED"
  shows "\<not> is_ok (fst (bindA (enforceTier3 t) (\<lambda>x. bindA (openReview m t (googleReview_id r)) k) w))"
    "snd (bindA (enforceTier3 t) (\<lambda>x. bindA (openReview m t (googleReview_id r)) k) w) = w"
proof -
  have "\<not> is_ok (fst (openReview m t (googleReview_id r) w)) \<and> snd (openReview m t (googleReview_id r) w) = w"
  proof (cases "reviewOf t (googleReview_id r) w")
    case (Some s)
    then have "s = r" using assms(1,2)
      by (auto simp: reviewOf_def reviewBook_def distinct_map dest!: find_SomeD dest: inj_onD)
    then show ?thesis using Some assms(3) by (simp add: openReview_def)
  qed (simp add: openReview_def)
  then obtain e where "openReview m t (googleReview_id r) w = (Inl e, w)"
    by (cases "openReview m t (googleReview_id r) w"; cases "fst (openReview m t (googleReview_id r) w)") auto
  then show "\<not> is_ok (fst (bindA (enforceTier3 t) (\<lambda>x. bindA (openReview m t (googleReview_id r)) k) w))"
    "snd (bindA (enforceTier3 t) (\<lambda>x. bindA (openReview m t (googleReview_id r)) k) w) = w"
    by (auto simp: bindA_def enforceTier3_def split: option.split)
qed

text \<open>
  C23: A reply is final. Once a review is replied to, its row stays as it is through every run of syncs, suggestions,
  drafts, approvals, skips and connections of any tenants; and editing, skipping or approving it again is refused
  and changes nothing at all, so that no second reply is posted.
\<close>

theorem posted_reply_is_final:
  assumes "reviewBook w" and "(review_step E chat parse decode)\<^sup>*\<^sup>* w v"
    and "r \<in> set (w_googleReviews w)" and "googleReview_status r = RR_APPROVED"
  shows "r \<in> set (w_googleReviews v) \<and>
    \<not> is_ok (fst (approveAndPost E now t u (googleReview_id r) v)) \<and> snd (approveAndPost E now t u (googleReview_id r) v) = v \<and>
    \<not> is_ok (fst (updateDraft t (googleReview_id r) text v)) \<and> snd (updateDraft t (googleReview_id r) text v) = v \<and>
    \<not> is_ok (fst (skipReview t u (googleReview_id r) v)) \<and> snd (skipReview t u (googleReview_id r) v) = v"
proof -
  have k: "repliesKept w v" by (rule review_run_kept [OF assms(2,1)])
  then have b: "reviewBook v" and r: "r \<in> set (w_googleReviews v)" using assms(3,4) by (simp_all add: repliesKept_def)
  show ?thesis
    using r by (simp add: approveAndPost_def updateDraft_def skipReview_def replied_refused [OF b r assms(4)])
qed

text \<open>A connection that is cut and made again forgets which reviews were skipped.\<close>

lemma disconnect_deletes_reviews:
  assumes "businessConnection t w = Some g"
  shows "\<forall>r \<in> set (w_googleReviews (snd (disconnectReviews t u w))). googleReview_connectionId r \<noteq> googleConnection_id g"
proof -
  have "g \<in> set (w_googleConnections w)" "googleConnection_tenantId g = t"
    using assms by (auto simp: businessConnection_def dest: find_SomeD)
  moreover have "w_googleReviews (snd (audit_log e v)) = w_googleReviews v" for e v
    using same_audit [of v e] by (simp add: sameReviews_def)
  ultimately show ?thesis
    using assms by (auto simp: disconnectReviews_def deleteBusiness_def delete_where_def thenA_audit Let_def)
qed

section \<open>Suggestions within the plan\<close>

definition answers :: "chat \<Rightarrow> bool" where
  "answers chat = (\<forall>q. \<exists>r. chat q = Inr r)"

definition suggestAttempt ::
  "env \<Rightarrow> chat \<Rightarrow> uuid \<Rightarrow> uuid \<Rightarrow> uuid \<Rightarrow> instant \<times> string option \<Rightarrow> world \<Rightarrow> bool \<times> world" where
  "suggestAttempt E chat t u i e w = (let (r, v) = generateSuggestion E chat (fst e) t u i (snd e) w in (is_ok r, v))"

definition aiUsed :: "uuid \<Rightarrow> world \<Rightarrow> int" where
  "aiUsed t w = (case findTenant t w of None \<Rightarrow> 0 | Some tn \<Rightarrow> tenant_aiUsageCount tn)"

definition aiCap :: "uuid \<Rightarrow> world \<Rightarrow> int" where
  "aiCap t w = (case findTenant t w of None \<Rightarrow> 0 | Some tn \<Rightarrow> aiLimit tn)"

definition maySuggest :: "uuid \<Rightarrow> uuid \<Rightarrow> world \<Rightarrow> bool" where
  "maySuggest t i w =
     ((case findTenant t w of None \<Rightarrow> False
       | Some tn \<Rightarrow> tenant_planType tn = PLAN_SMS_VOICE_AI \<and> (tenant_trialActive tn \<or> tenant_subscriptionStatus tn = ACTIVE)) \<and>
      (case reviewOf t i w of None \<Rightarrow> False | Some r \<Rightarrow> googleReview_status r \<noteq> RR_APPROVED))"

lemma complete_answers:
  assumes "answers chat"
  obtains c where "complete E chat sp up n temp = Inr c"
proof -
  obtain r where "chat \<lparr>cq_model = conf E ''OPENAI_MODEL'' ''gpt-4o-mini'', cq_system = sp, cq_user = up,
      cq_maxTokens = n, cq_temperature = temp\<rparr> = Inr r"
    using assms by (auto simp: answers_def)
  then show ?thesis using that by (simp add: complete_def)
qed

lemma reviewOf_suggested:
  assumes "reviewOf t i w = Some r"
  shows "reviewOf t i (changeReview i (suggested text) w) = Some (suggested text r)"
proof -
  have "List.find (\<lambda>r. googleReview_id r = i \<and> googleReview_tenantId r = t)
        (update_where (\<lambda>r. googleReview_id r = i) (suggested text) rs) =
      map_option (suggested text) (List.find (\<lambda>r. googleReview_id r = i \<and> googleReview_tenantId r = t) rs)" for rs
    by (induction rs) (auto simp: suggested_def)
  then show ?thesis using assms by (simp add: reviewOf_def changeReview_def)
qed

text \<open>One attempt: it is granted below the limit, and then counts one.\<close>

lemma suggest_step:
  assumes "answers chat" and "maySuggest t i w" and "findTenant t w = Some tn"
  shows "if tenant_aiUsageCount tn < aiLimit tn
    then fst (suggestAttempt E chat t u i e w) \<and> maySuggest t i (snd (suggestAttempt E chat t u i e w)) \<and>
      findTenant t (snd (suggestAttempt E chat t u i e w)) = Some (tn\<lparr>tenant_aiUsageCount := tenant_aiUsageCount tn + 1\<rparr>)
    else suggestAttempt E chat t u i e w = (False, w)"
proof -
  obtain r where r: "reviewOf t i w = Some r" "googleReview_status r \<noteq> RR_APPROVED"
    using assms(2) by (auto simp: maySuggest_def split: option.splits)
  have tier: "enforceTier3 t w = (Inr tn, w)"
    using assms(2,3) by (auto simp: maySuggest_def enforceTier3_def)
  show ?thesis
  proof (cases "tenant_aiUsageCount tn < aiLimit tn")
    case True
    define tone where "tone = the (or_str (snd e) (Some ''professional and warm''))"
    obtain c where c: "complete E chat (replySystemPrompt tone) (replyUserPrompt tone r) 200 (75 / 100) = Inr c"
      by (rule complete_answers [OF assms(1)])
    define row where "row = usageRow (fst e) t ''review_reply_generation'' (replyUserPrompt tone r) c
      (estimateReviewCost (ac_tokensUsed c) (ac_model c))"
    define v where "v = snd (countCompletion t row w)"
    have run: "countCompletion t row w = (Inr (), v)"
      by (simp add: v_def countCompletion_run findTenant_exists [OF assms(3)])
    define z where "z = changeReview i (suggested (ac_text c)) v"
    define entry where "entry = (auditEntry t (Some u) ''CREATE'' ''GoogleReviewSuggestion'' i [])
      \<lparr>entry_newValues := Some (jobj [(''tokens'', Some (JNum (ac_tokensUsed c))), (''tone'', map_option JStr (snd e))])\<rparr>"
    have result: "suggestAttempt E chat t u i e w = (True, snd (audit_log entry z))"
      by (simp add: suggestAttempt_def generateSuggestion_def tier aiRoom_def True openReview_def r tone_def [symmetric]
          c [simplified] row_def [symmetric] run z_def [symmetric] entry_def [symmetric] thenA_audit Let_def)
    have found: "findTenant t z = Some (tn\<lparr>tenant_aiUsageCount := tenant_aiUsageCount tn + 1\<rparr>)"
      using findTenant_counted [OF assms(3), of row] by (simp add: z_def v_def changeReview_def findTenant_def)
    have "reviewOf t i v = Some r"
      using r(1) same_counted [of w t row] by (simp add: v_def sameReviews_def reviewOf_def)
    then have "reviewOf t i z = Some (suggested (ac_text c) r)" unfolding z_def by (rule reviewOf_suggested)
    then have "reviewOf t i (snd (audit_log entry z)) = Some (suggested (ac_text c) r)"
      using same_audit [of z entry] by (simp add: sameReviews_def reviewOf_def)
    then show ?thesis
      using True found assms(2,3) by (simp add: result maySuggest_def suggested_def)
  next
    case False
    then show ?thesis by (simp add: suggestAttempt_def generateSuggestion_def tier aiRoom_def Let_def)
  qed
qed

interpretation suggestQuota: quota "suggestAttempt E chat t u i" "aiUsed t" "aiCap t" "\<lambda>w. answers chat \<and> maySuggest t i w" "\<lambda>_. True"
  for E chat t u i
proof
  fix w and e :: "instant \<times> string option"
  assume inv: "answers chat \<and> maySuggest t i w"
  then obtain tn where tn: "findTenant t w = Some tn" by (auto simp: maySuggest_def split: option.splits)
  note step = suggest_step [OF conjunct1 [OF inv] conjunct2 [OF inv] tn, of E u e]
  show "answers chat \<and> maySuggest t i (snd (suggestAttempt E chat t u i e w))"
    using inv step by (auto split: if_splits)
  show "aiCap t (snd (suggestAttempt E chat t u i e w)) = aiCap t w"
    using tn step by (auto simp: aiCap_def aiLimit_def split: if_splits)
  show "fst (suggestAttempt E chat t u i e w) = (aiUsed t w < aiCap t w)"
    using tn step by (auto simp: aiCap_def aiUsed_def split: if_splits)
  show "aiUsed t (snd (suggestAttempt E chat t u i e w)) = aiUsed t w + (if aiUsed t w < aiCap t w then 1 else 0)"
    using tn step by (auto simp: aiCap_def aiUsed_def split: if_splits)
qed

text \<open>
  Suggestions for reviews stop at the AI limit of the plan. While the language model answers, requests for
  suggestions on a review that may have one are granted exactly as long as the limit leaves room, in their order;
  the counter ends at the limit or at the number of requests.
\<close>

theorem suggestions_stop_at_limit:
  assumes "answers chat" and "maySuggest t i w"
  shows "fst (attempts (suggestAttempt E chat t u i) es w) =
      replicate (min (length es) (nat (aiCap t w - aiUsed t w))) True @ replicate (length es - nat (aiCap t w - aiUsed t w)) False \<and>
    aiUsed t (snd (attempts (suggestAttempt E chat t u i) es w)) =
      aiUsed t w + int (min (length es) (nat (aiCap t w - aiUsed t w)))"
  using suggestQuota.run_answers [of chat t i w es] suggestQuota.run_used [of chat t i w es] assms by simp

section \<open>A concrete shop\<close>

definition shopReview :: "ReviewReplyStatus \<Rightarrow> googleReview" where
  "shopReview s = \<lparr>googleReview_id = ''r1'', googleReview_tenantId = ''t1'', googleReview_connectionId = ''g1'',
     googleReview_googleReviewId = ''x1'', googleReview_reviewerName = ''Ada'', googleReview_reviewerPhotoUrl = None,
     googleReview_rating = 4, googleReview_comment = Some ''Nice'', googleReview_reviewedAt = 1,
     googleReview_aiSuggestion = None, googleReview_draftReply = Some ''Thanks, Ada'', googleReview_status = s,
     googleReview_repliedAt = None, googleReview_createdAt = 2\<rparr>"

definition shopWorld :: "ReviewReplyStatus \<Rightarrow> world" where
  "shopWorld s = (demoWorld [demoTenant PLAN_SMS_VOICE_AI ACTIVE False 48])\<lparr>w_googleReviews := [shopReview s],
     w_uuid := (\<lambda>n. replicate n CHR ''i'')\<rparr>"

theorem suggestions_stop_at_limit_witness:
  "fst (attempts (suggestAttempt demoEnv politeChat ''t1'' ''u1'' ''r1'') [(1, None), (2, None), (3, None)] (shopWorld RR_SKIPPED)) =
     [True, True, False]"
proof -
  have tn: "findTenant ''t1'' (shopWorld RR_SKIPPED) = Some (demoTenant PLAN_SMS_VOICE_AI ACTIVE False 48)"
    by (simp add: shopWorld_def demoWorld_def findTenant_def demoTenant_def)
  have a: "answers politeChat" by (simp add: answers_def politeChat_def)
  have m: "maySuggest ''t1'' ''r1'' (shopWorld RR_SKIPPED)"
    using tn by (simp add: maySuggest_def demoTenant_def) (simp add: shopWorld_def reviewOf_def shopReview_def)
  have "nat (aiCap ''t1'' (shopWorld RR_SKIPPED) - aiUsed ''t1'' (shopWorld RR_SKIPPED)) = 2"
    using tn by (simp add: aiCap_def aiUsed_def aiLimit_def demoTenant_def)
  with suggestions_stop_at_limit [OF a m, of demoEnv "''u1''" "[(1, None), (2, None), (3, None)]"]
  show ?thesis by (simp add: numeral_2_eq_2 del: attempts.simps)
qed

theorem posted_reply_is_final_witness:
  "shopReview RR_APPROVED \<in> set (w_googleReviews (snd (skipReview ''t1'' ''u1'' ''r1'' (shopWorld RR_APPROVED))))"
proof -
  have "inj (\<lambda>n. replicate n CHR ''i'')" by (rule injI) (metis length_replicate)
  moreover have "replicate n CHR ''i'' \<noteq> ''r1''" for n by (cases n) simp_all
  ultimately have b: "reviewBook (shopWorld RR_APPROVED)"
    by (simp add: reviewBook_def shopWorld_def shopReview_def)
  have s: "(review_step demoEnv politeChat (\<lambda>_. None) (\<lambda>_. None))\<^sup>*\<^sup>* (shopWorld RR_APPROVED)
      (snd (skipReview ''t1'' ''u1'' ''r1'' (shopWorld RR_APPROVED)))"
    by (rule r_into_rtranclp) (rule review_step.skipping)
  have r: "shopReview RR_APPROVED \<in> set (w_googleReviews (shopWorld RR_APPROVED))" "googleReview_status (shopReview RR_APPROVED) = RR_APPROVED"
    by (simp_all add: shopWorld_def shopReview_def)
  from posted_reply_is_final [OF b s r] show ?thesis by simp
qed

end
