(* ===== verification/Analytics.thy ===== *)
theory Analytics
  imports Reminder_Worker Json_Values Contacts "HOL-Library.AList"
begin

text \<open>
  Analytics: \<open>modules/analytics\<close> and \<open>modules/revenue-analytics\<close>. Everything only reads. Local time is UTC plus the
  constant \<open>e_tz\<close>; a date text \<open>toISOString().slice(0, 10)\<close> is kept as the number of its day and written out in the
  result. \<open>label\<close> and \<open>money\<close> are the locale's texts for a day and a number, \<open>madeAt\<close> the column \<open>createdAt\<close> by the
  id of a row. A number that is \<open>NaN\<close> is \<open>None\<close>.
\<close>

section \<open>Days and weeks\<close>

definition dayMs :: int where
  "dayMs = 86400000"

definition utcDay :: "instant \<Rightarrow> int" where
  "utcDay t = t div dayMs"

definition dayText :: "int \<Rightarrow> string" where
  "dayText n = take 10 (toISOString (n * dayMs))"

text \<open>\<open>setHours(0, 0, 0, 0)\<close>, \<open>getDay()\<close>, and the way back to Monday\<close>

definition localMidnight :: "env \<Rightarrow> instant \<Rightarrow> instant" where
  "localMidnight E t = t - (t + e_tz E) mod dayMs"

definition weekday :: "env \<Rightarrow> instant \<Rightarrow> int" where
  "weekday E t = ((t + e_tz E) div dayMs + 4) mod 7"

definition toMonday :: "int \<Rightarrow> int" where
  "toMonday day = (if day = 0 then -6 else 1 - day)"

definition getWeekBounds :: "env \<Rightarrow> instant \<Rightarrow> instant \<times> instant" where
  "getWeekBounds E t =
     (let start = localMidnight E (t + toMonday (weekday E t) * dayMs) in (start, start + 7 * dayMs))"

definition periodStart :: "env \<Rightarrow> instant \<Rightarrow> int \<Rightarrow> instant" where
  "periodStart E now days = localMidnight E (now - days * dayMs)"

section \<open>Numbers\<close>

text \<open>\<open>Math.round\<close>, and a share in percent\<close>

definition jsRound :: "rat \<Rightarrow> int" where
  "jsRound x = \<lfloor>x + 1 / 2\<rfloor>"

definition percentOf :: "nat \<Rightarrow> nat \<Rightarrow> int" where
  "percentOf part whole = (if whole > 0 then jsRound (of_nat part / of_nat whole * 100) else 0)"

datatype direction = Up | Down | Flat

definition trend :: "rat option \<Rightarrow> rat option \<Rightarrow> direction \<times> int option" where
  "trend current previous =
     (if previous = Some 0 then (Flat, Some 0)
      else case (current, previous) of
             (Some c, Some p) \<Rightarrow>
               (let pct = jsRound ((c - p) / p * 100)
                in (if pct > 0 then Up else if pct < 0 then Down else Flat, Some \<bar>pct\<bar>))
           | _ \<Rightarrow> (Flat, None))"

definition trendOf :: "nat \<Rightarrow> nat \<Rightarrow> direction \<times> int option" where
  "trendOf current previous = trend (Some (of_nat current)) (Some (of_nat previous))"

text \<open>The configured value of an appointment, 150 when there is none; what so many appointments are worth.\<close>

definition averageValue :: "uuid \<Rightarrow> world \<Rightarrow> json" where
  "averageValue tenantId w =
     (case Option.bind (findTenant tenantId w) (\<lambda>t. jget (Some (tenant_settings t)) ''averageAppointmentValue'') of
        None \<Rightarrow> JNum 150 | Some JNull \<Rightarrow> JNum 150 | Some v \<Rightarrow> v)"

definition worth :: "nat \<Rightarrow> json \<Rightarrow> rat option" where
  "worth n v = map_option (\<lambda>r. of_nat n * r) (jnumber (Some v))"

section \<open>Filters\<close>

definition bindO :: "'a outcome \<Rightarrow> ('a \<Rightarrow> 'b outcome) \<Rightarrow> 'b outcome" where
  "bindO m k = (case m of Inl e \<Rightarrow> Inl e | Inr x \<Rightarrow> k x)"

text \<open>
  The filter of a query: the tenant's rows and, unless asked otherwise, no demo data. \<open>demo\<close> is the column
  \<open>isDemoData\<close>, \<open>None\<close> for a table that has none, where Prisma refuses the argument.
\<close>

definition applyTenantFilter ::
  "('r \<Rightarrow> uuid) \<Rightarrow> ('r \<Rightarrow> bool) option \<Rightarrow> ('r \<Rightarrow> bool) \<Rightarrow> uuid \<Rightarrow> bool \<Rightarrow> ('r \<Rightarrow> bool) outcome" where
  "applyTenantFilter tenantOf demo p tenantId excludeDemo =
     (if \<not> excludeDemo then Inr (\<lambda>r. p r \<and> tenantOf r = tenantId)
      else case demo of
             None \<Rightarrow> Inl (PrismaError ''PrismaClientValidationError'')
           | Some d \<Rightarrow> Inr (\<lambda>r. p r \<and> tenantOf r = tenantId \<and> \<not> d r))"

definition countRows :: "('r \<Rightarrow> bool) outcome \<Rightarrow> 'r list \<Rightarrow> nat outcome" where
  "countRows p rows = bindO p (\<lambda>q. Inr (count_where q rows))"

definition appointmentFilter :: "(appointment \<Rightarrow> bool) \<Rightarrow> uuid \<Rightarrow> bool \<Rightarrow> (appointment \<Rightarrow> bool) outcome" where
  "appointmentFilter = applyTenantFilter appointment_tenantId (Some appointment_isDemoData)"

definition reminderFilter :: "(reminder \<Rightarrow> bool) \<Rightarrow> uuid \<Rightarrow> bool \<Rightarrow> (reminder \<Rightarrow> bool) outcome" where
  "reminderFilter = applyTenantFilter reminder_tenantId None"

definition messageFilter :: "(messageLog \<Rightarrow> bool) \<Rightarrow> uuid \<Rightarrow> bool \<Rightarrow> (messageLog \<Rightarrow> bool) outcome" where
  "messageFilter = applyTenantFilter messageLog_tenantId (Some messageLog_isDemoData)"

definition between :: "instant \<Rightarrow> instant \<Rightarrow> instant \<Rightarrow> bool" where
  "between a b t = (a \<le> t \<and> t < b)"

definition isConfirmed :: "appointment \<Rightarrow> bool" where
  "isConfirmed a = (appointment_status a \<in> {A_CONFIRMED, A_COMPLETED})"

definition reachedBy :: "(reminder \<Rightarrow> bool) \<Rightarrow> world \<Rightarrow> appointment \<Rightarrow> bool" where
  "reachedBy p w a =
     list_ex (\<lambda>r. reminder_appointmentId r = Some (appointment_id a) \<and> reminder_status r \<in> {R_SENT, R_DELIVERED} \<and> p r)
       (w_reminders w)"

definition isPrevented :: "world \<Rightarrow> appointment \<Rightarrow> bool" where
  "isPrevented w a = (isConfirmed a \<and> reachedBy (\<lambda>_. True) w a)"

section \<open>The dashboard\<close>

record HeroMetrics =
  hm_appointments :: "nat \<times> direction \<times> int option"
  hm_confirmed :: "nat \<times> int \<times> direction \<times> int option"
  hm_prevented :: "nat \<times> direction \<times> int option"
  hm_revenue :: "rat option \<times> string \<times> json \<times> direction \<times> int option"
  hm_delivered :: nat
  hm_allTime :: "nat \<times> nat \<times> nat \<times> int"
  hm_generatedAt :: string

definition getDashboardMetrics ::
  "env \<Rightarrow> (rat option \<Rightarrow> string) \<Rightarrow> instant \<Rightarrow> uuid \<Rightarrow> bool \<Rightarrow> world \<Rightarrow> HeroMetrics outcome" where
  "getDashboardMetrics E money now tenantId excludeDemo w =
     (let this = getWeekBounds E now;
          before = (fst this - 7 * dayMs, fst this);
          inWeek = (\<lambda>b a. between (fst b) (snd b) (appointment_scheduledAt a));
          appts = (\<lambda>p. countRows (appointmentFilter p tenantId excludeDemo) (w_appointments w));
          reminders = (\<lambda>p. countRows (reminderFilter (\<lambda>r. reminder_status r \<in> {R_DELIVERED, R_SENT} \<and> p r) tenantId excludeDemo)
            (w_reminders w));
          avg = averageValue tenantId w
      in bindO (appts (inWeek this)) (\<lambda>booked.
         bindO (appts (\<lambda>a. inWeek this a \<and> isConfirmed a)) (\<lambda>confirmed.
         bindO (appts (inWeek before)) (\<lambda>bookedBefore.
         bindO (appts (\<lambda>a. inWeek before a \<and> isConfirmed a)) (\<lambda>confirmedBefore.
         bindO (reminders (\<lambda>r. between (fst this) (snd this) (reminder_scheduledSendTime r))) (\<lambda>delivered.
         bindO (appts (\<lambda>a. inWeek this a \<and> isPrevented w a)) (\<lambda>prevented.
         bindO (appts (\<lambda>a. inWeek before a \<and> isPrevented w a)) (\<lambda>preventedBefore.
         bindO (appts (\<lambda>_. True)) (\<lambda>allBooked.
         bindO (appts isConfirmed) (\<lambda>allConfirmed.
         bindO (reminders (\<lambda>_. True)) (\<lambda>allDelivered.
         Inr \<lparr>hm_appointments = (booked, trendOf booked bookedBefore),
              hm_confirmed = (confirmed, percentOf confirmed booked, trendOf confirmed confirmedBefore),
              hm_prevented = (prevented, trendOf prevented preventedBefore),
              hm_revenue = (worth prevented avg, ''$'' @ money (worth prevented avg), avg,
                trend (worth prevented avg) (worth preventedBefore avg)),
              hm_delivered = delivered,
              hm_allTime = (allBooked, allConfirmed, allDelivered, percentOf allConfirmed allBooked),
              hm_generatedAt = toISOString now\<rparr>)))))))))))"

record DashboardCounts =
  dc_total_contacts :: nat
  dc_total_events :: nat
  dc_confirmed_rsvps :: nat
  dc_messages_sent :: nat
  dc_active_campaigns :: nat
  dc_generatedAt :: string

definition getDashboard ::
  "(uuid \<Rightarrow> instant) \<Rightarrow> instant \<Rightarrow> uuid \<Rightarrow> instant option \<Rightarrow> instant option \<Rightarrow> bool \<Rightarrow> world \<Rightarrow> DashboardCounts outcome" where
  "getDashboard madeAt now tenantId from to excludeDemo w =
     (let made = (\<lambda>i. (case from of None \<Rightarrow> True | Some a \<Rightarrow> a \<le> madeAt i) \<and> (case to of None \<Rightarrow> True | Some b \<Rightarrow> madeAt i \<le> b))
      in bindO (countRows (applyTenantFilter contact_tenantId (Some contact_isDemoData) (\<lambda>c. made (contact_id c)) tenantId excludeDemo)
           (w_contacts w)) (\<lambda>contacts.
         bindO (countRows (applyTenantFilter event_tenantId (Some event_isDemoData) (\<lambda>e. made (event_id e)) tenantId excludeDemo)
           (w_events w)) (\<lambda>events.
         bindO (countRows (appointmentFilter (\<lambda>a. made (appointment_id a) \<and> appointment_status a = A_CONFIRMED) tenantId excludeDemo)
           (w_appointments w)) (\<lambda>confirmed.
         bindO (countRows (messageFilter (\<lambda>l. made (messageLog_id l) \<and> messageLog_direction l = OUTBOUND) tenantId excludeDemo)
           (w_messageLogs w)) (\<lambda>sent.
         bindO (countRows (applyTenantFilter campaign_tenantId (Some campaign_isDemoData)
             (\<lambda>c. made (campaign_id c) \<and> campaign_status c = ''ACTIVE'') tenantId excludeDemo) (w_campaigns w)) (\<lambda>active.
         Inr \<lparr>dc_total_contacts = contacts, dc_total_events = events, dc_confirmed_rsvps = confirmed,
              dc_messages_sent = sent, dc_active_campaigns = active, dc_generatedAt = toISOString now\<rparr>))))))"

record AttendanceOverview =
  ao_events_this_week :: nat
  ao_messages_sent :: nat
  ao_confirmed_attendees :: nat
  ao_pending_responses :: nat

definition getAttendanceOverview :: "env \<Rightarrow> instant \<Rightarrow> uuid \<Rightarrow> bool \<Rightarrow> world \<Rightarrow> AttendanceOverview outcome" where
  "getAttendanceOverview E now tenantId excludeDemo w =
     (let this = getWeekBounds E now;
          attendees = (\<lambda>s. countRows (applyTenantFilter eventParticipant_tenantId (Some eventParticipant_isDemoData)
            (\<lambda>p. eventParticipant_status p = s) tenantId excludeDemo) (w_eventParticipants w))
      in bindO (countRows (applyTenantFilter event_tenantId (Some event_isDemoData)
           (\<lambda>e. between (fst this) (snd this) (event_startTime e) \<and> event_status e \<noteq> E_CANCELLED) tenantId excludeDemo)
           (w_events w)) (\<lambda>events.
         bindO (countRows (messageFilter (\<lambda>l. messageLog_direction l = OUTBOUND) tenantId excludeDemo) (w_messageLogs w)) (\<lambda>sent.
         bindO (attendees P_confirmed) (\<lambda>confirmed.
         bindO (attendees P_pending) (\<lambda>pending.
         Inr \<lparr>ao_events_this_week = events, ao_messages_sent = sent, ao_confirmed_attendees = confirmed,
              ao_pending_responses = pending\<rparr>)))))"

section \<open>Series\<close>

text \<open>
  A JavaScript map filled row by row: the entry of the row's key, or a new one, is changed and set. \<open>Map.set\<close>
  keeps the place of a key that is there.
\<close>

definition tally :: "('x \<Rightarrow> 'k) \<Rightarrow> ('x \<Rightarrow> 'e \<Rightarrow> 'e) \<Rightarrow> 'e \<Rightarrow> 'x list \<Rightarrow> ('k \<times> 'e) list \<Rightarrow> ('k \<times> 'e) list" where
  "tally key f zero xs m = fold (\<lambda>x m. AList.update (key x) (f x (coalesce (map_of m (key x)) zero)) m) xs m"

definition emptyDays :: "int \<Rightarrow> nat \<Rightarrow> 'e \<Rightarrow> (int \<times> 'e) list" where
  "emptyDays start n zero = map (\<lambda>i. (utcDay (start + int i * dayMs), zero)) [0..<n]"

definition countDay :: "appointment \<Rightarrow> nat \<times> nat \<Rightarrow> nat \<times> nat" where
  "countDay a e = (Suc (fst e), if isConfirmed a then Suc (snd e) else snd e)"

record RatePoint =
  rt_date :: string
  rt_total :: nat
  rt_confirmed :: nat
  rt_rate :: "int option"

definition ratePoint :: "int \<times> nat \<times> nat \<Rightarrow> RatePoint" where
  "ratePoint e = (case e of (d, whole, confirmed) \<Rightarrow>
     \<lparr>rt_date = dayText d, rt_total = whole, rt_confirmed = confirmed,
      rt_rate = (if whole > 0 then Some (percentOf confirmed whole) else None)\<rparr>)"

definition getConfirmationRateOverTime ::
  "env \<Rightarrow> instant \<Rightarrow> uuid \<Rightarrow> nat \<Rightarrow> bool \<Rightarrow> world \<Rightarrow> RatePoint list outcome" where
  "getConfirmationRateOverTime E now tenantId days excludeDemo w =
     (let start = periodStart E now (int days)
      in bindO (appointmentFilter (\<lambda>a. between start now (appointment_scheduledAt a)) tenantId excludeDemo) (\<lambda>p.
           Inr (map ratePoint (sort_key fst (tally (\<lambda>a. utcDay (appointment_scheduledAt a)) countDay (0, 0)
             (filter p (w_appointments w)) (emptyDays start days (0, 0)))))))"

definition weekStartOf :: "env \<Rightarrow> instant \<Rightarrow> int" where
  "weekStartOf E t = utcDay (fst (getWeekBounds E t))"

definition countWeek :: "appointment \<Rightarrow> nat \<times> nat \<times> nat \<Rightarrow> nat \<times> nat \<times> nat" where
  "countWeek a e = (case e of (whole, noShows, prevented) \<Rightarrow>
     (Suc whole, if appointment_status a = A_NO_SHOW then Suc noShows else noShows,
      if isConfirmed a then Suc prevented else prevented))"

definition emptyWeeks :: "env \<Rightarrow> instant \<Rightarrow> nat \<Rightarrow> (int \<times> nat \<times> nat \<times> nat) list" where
  "emptyWeeks E start weeks =
     fold (\<lambda>i m. let key = weekStartOf E (start + int i * 7 * dayMs)
       in if key \<in> fst ` set m then m else m @ [(key, 0, 0, 0)]) [0..<weeks] []"

record WeekPoint =
  wp_weekStart :: string
  wp_weekLabel :: string
  wp_total :: nat
  wp_noShows :: nat
  wp_prevented :: nat
  wp_noShowRate :: int
  wp_preventionRate :: int

definition weekPoint :: "(string \<Rightarrow> string) \<Rightarrow> int \<times> nat \<times> nat \<times> nat \<Rightarrow> WeekPoint" where
  "weekPoint label e = (case e of (d, whole, noShows, prevented) \<Rightarrow>
     \<lparr>wp_weekStart = dayText d, wp_weekLabel = label (dayText d), wp_total = whole, wp_noShows = noShows,
      wp_prevented = prevented, wp_noShowRate = percentOf noShows whole, wp_preventionRate = percentOf prevented whole\<rparr>)"

text \<open>\<open>slice(-n)\<close>\<close>

definition lastOnes :: "nat \<Rightarrow> 'x list \<Rightarrow> 'x list" where
  "lastOnes n xs = (if n = 0 then xs else drop (length xs - n) xs)"

definition getNoShowReduction ::
  "env \<Rightarrow> (string \<Rightarrow> string) \<Rightarrow> instant \<Rightarrow> uuid \<Rightarrow> nat \<Rightarrow> bool \<Rightarrow> world \<Rightarrow> WeekPoint list outcome" where
  "getNoShowReduction E label now tenantId weeks excludeDemo w =
     (let start = periodStart E now (int weeks * 7)
      in bindO (appointmentFilter (\<lambda>a. start \<le> appointment_scheduledAt a) tenantId excludeDemo) (\<lambda>p.
           Inr (map (weekPoint label) (lastOnes weeks (sort_key fst (tally (\<lambda>a. weekStartOf E (appointment_scheduledAt a))
             countWeek (0, 0, 0) (filter p (w_appointments w)) (emptyWeeks E start weeks)))))))"

definition countChannel :: "messageLog \<Rightarrow> nat \<times> nat \<times> nat \<Rightarrow> nat \<times> nat \<times> nat" where
  "countChannel l e = (case e of (sent, delivered, failed) \<Rightarrow>
     (Suc sent, if messageLog_providerStatus l = Some ''delivered'' then Suc delivered else delivered,
      if messageLog_providerStatus l \<in> {Some ''failed'', Some ''undelivered''} then Suc failed else failed))"

definition getChannelPerformance :: "uuid \<Rightarrow> bool \<Rightarrow> world \<Rightarrow> (ChannelType \<times> (nat \<times> nat \<times> nat) \<times> int) list outcome" where
  "getChannelPerformance tenantId excludeDemo w =
     bindO (messageFilter (\<lambda>l. messageLog_direction l = OUTBOUND) tenantId excludeDemo) (\<lambda>p.
       Inr (map (\<lambda>(ch, e). (ch, e, percentOf (fst (snd e)) (fst e)))
         (tally messageLog_channel countChannel (0, 0, 0) (filter p (w_messageLogs w)) [])))"

section \<open>Activity and onboarding\<close>

definition getRecentActivity :: "uuid \<Rightarrow> int \<Rightarrow> world \<Rightarrow> (contactActivity \<times> contact option) list outcome" where
  "getRecentActivity tenantId limit w =
     map_sum id (map (\<lambda>a. (a, List.find (\<lambda>c. contact_id c = contactActivity_contactId a) (w_contacts w))))
       (pageRows 0 limit (order_desc contactActivity_createdAt
         (filter (\<lambda>a. contactActivity_tenantId a = tenantId) (w_contactActivities w))))"

record OnboardingStep =
  ob_id :: string
  ob_label :: string
  ob_done :: bool
  ob_count :: nat

definition getOnboardingProgress :: "uuid \<Rightarrow> world \<Rightarrow> OnboardingStep list \<times> nat" where
  "getOnboardingProgress tenantId w =
     (let contacts = count_where (\<lambda>c. contact_tenantId c = tenantId) (w_contacts w);
          events = count_where (\<lambda>e. event_tenantId e = tenantId) (w_events w);
          workflows = count_where (\<lambda>f. workflow_tenantId f = tenantId) (w_workflows w);
          subscribed = (map_option tenant_subscriptionStatus (findTenant tenantId w) = Some ACTIVE);
          steps = [\<lparr>ob_id = ''contacts'', ob_label = ''Add your first contact'', ob_done = contacts > 0, ob_count = contacts\<rparr>,
                   \<lparr>ob_id = ''events'', ob_label = ''Create your first event'', ob_done = events > 0, ob_count = events\<rparr>,
                   \<lparr>ob_id = ''automations'', ob_label = ''Set up an automation'', ob_done = workflows > 0, ob_count = workflows\<rparr>,
                   \<lparr>ob_id = ''billing'', ob_label = ''Subscribe to a plan'', ob_done = subscribed, ob_count = 0\<rparr>]
      in (steps, length (filter ob_done steps)))"

section \<open>The routes\<close>

text \<open>
  The query of a request as key and text. The global validation refuses a property that the DTO does not have,
  also one that another parameter of the route reads; what is not \<open>true\<close> is \<open>false\<close>.
\<close>

definition queryKeys :: "string list" where
  "queryKeys = [''from'', ''to'', ''excludeDemo'']"

definition validQuery :: "(string \<times> string) list \<Rightarrow> bool outcome" where
  "validQuery query =
     (case List.find (\<lambda>(k, v). k \<notin> set queryKeys) query of
        Some (k, v) \<Rightarrow> Inl (BadRequestException (''property '' @ k @ '' should not exist''))
      | None \<Rightarrow> Inr (case map_of query ''excludeDemo'' of None \<Rightarrow> True | Some v \<Rightarrow> v = ''true''))"

text \<open>\<open>ParseIntPipe\<close>: an optional minus sign and digits only.\<close>

definition isIntText :: "string \<Rightarrow> bool" where
  "isIntText s = (let u = (case s of c # cs \<Rightarrow> if c = CHR ''-'' then cs else s | [] \<Rightarrow> []) in u \<noteq> [] \<and> list_all is_digit u)"

definition intQuery :: "(string \<times> string) list \<Rightarrow> string \<Rightarrow> int \<Rightarrow> int outcome" where
  "intQuery query k d =
     (case map_of query k of
        None \<Rightarrow> Inr d
      | Some s \<Rightarrow> if isIntText s then Inr (the (parseInt s))
                  else Inl (BadRequestException ''Validation failed (numeric string is expected)''))"

definition heroRoute ::
  "env \<Rightarrow> (rat option \<Rightarrow> string) \<Rightarrow> instant \<Rightarrow> uuid \<Rightarrow> (string \<times> string) list \<Rightarrow> world \<Rightarrow> HeroMetrics outcome" where
  "heroRoute E money now tenantId query w =
     bindO (validQuery query) (\<lambda>excludeDemo. getDashboardMetrics E money now tenantId excludeDemo w)"

definition confirmationRateRoute ::
  "env \<Rightarrow> instant \<Rightarrow> uuid \<Rightarrow> (string \<times> string) list \<Rightarrow> world \<Rightarrow> RatePoint list outcome" where
  "confirmationRateRoute E now tenantId query w =
     bindO (intQuery query ''days'' 30) (\<lambda>days.
     bindO (validQuery query) (\<lambda>excludeDemo.
     getConfirmationRateOverTime E now tenantId (nat (min (max days 7) 90)) excludeDemo w))"

definition noShowRoute ::
  "env \<Rightarrow> (string \<Rightarrow> string) \<Rightarrow> instant \<Rightarrow> uuid \<Rightarrow> (string \<times> string) list \<Rightarrow> world \<Rightarrow> WeekPoint list outcome" where
  "noShowRoute E label now tenantId query w =
     bindO (intQuery query ''weeks'' 8) (\<lambda>weeks.
     bindO (validQuery query) (\<lambda>excludeDemo.
     getNoShowReduction E label now tenantId (nat (min (max weeks 4) 16)) excludeDemo w))"

section \<open>Revenue\<close>

definition revenueCount :: "(appointment \<Rightarrow> bool) \<Rightarrow> uuid \<Rightarrow> world \<Rightarrow> nat" where
  "revenueCount p tenantId w = count_where (\<lambda>a. appointment_tenantId a = tenantId \<and> p a) (w_appointments w)"

definition inPeriod :: "instant \<Rightarrow> instant \<Rightarrow> appointment \<Rightarrow> bool" where
  "inPeriod a b x = between a b (appointment_scheduledAt x)"

record Recovered =
  rv_noShowsPrevented :: nat
  rv_revenueRecovered :: "rat option"
  rv_formatted :: string

definition recovered :: "(rat option \<Rightarrow> string) \<Rightarrow> json \<Rightarrow> nat \<Rightarrow> Recovered" where
  "recovered money avg n = \<lparr>rv_noShowsPrevented = n, rv_revenueRecovered = worth n avg, rv_formatted = ''$'' @ money (worth n avg)\<rparr>"

record RevenueSummary =
  sm_avgAppointmentValue :: json
  sm_weekly :: Recovered
  sm_monthly :: Recovered
  sm_allTime :: Recovered
  sm_confirmationRate :: int
  sm_projected :: Recovered
  sm_cost :: rat
  sm_netRevenue :: "rat option"
  sm_roiPercent :: "int option"
  sm_generatedAt :: string

definition roundCents :: "rat \<Rightarrow> rat" where
  "roundCents x = of_int (jsRound (x * 100)) / 100"

definition getSummary :: "env \<Rightarrow> (rat option \<Rightarrow> string) \<Rightarrow> instant \<Rightarrow> uuid \<Rightarrow> world \<Rightarrow> RevenueSummary" where
  "getSummary E money now tenantId w =
     (let avg = averageValue tenantId w;
          weekly = revenueCount (\<lambda>a. inPeriod (periodStart E now 7) now a \<and> isPrevented w a) tenantId w;
          monthly = revenueCount (\<lambda>a. inPeriod (periodStart E now 30) now a \<and> isPrevented w a) tenantId w;
          allTime = revenueCount (isPrevented w) tenantId w;
          projectedMonthly = nat (jsRound (of_nat weekly * (30 / 7)));
          reminders = count_where (\<lambda>r. reminder_tenantId r = tenantId \<and> reminder_status r \<in> {R_SENT, R_DELIVERED}) (w_reminders w);
          cost = of_nat reminders * (4 / 100) :: rat;
          revenue = worth allTime avg
      in \<lparr>sm_avgAppointmentValue = avg, sm_weekly = recovered money avg weekly, sm_monthly = recovered money avg monthly,
          sm_allTime = recovered money avg allTime,
          sm_confirmationRate = percentOf (revenueCount isConfirmed tenantId w) (revenueCount (\<lambda>_. True) tenantId w),
          sm_projected = recovered money avg projectedMonthly, sm_cost = roundCents cost,
          sm_netRevenue = map_option (\<lambda>r. roundCents (r - cost)) revenue,
          sm_roiPercent = (if cost > 0 then map_option (\<lambda>r. jsRound ((r - cost) / cost * 100)) revenue else Some 0),
          sm_generatedAt = toISOString now\<rparr>)"

record RevenuePoint =
  pt_date :: string
  pt_label :: string
  pt_noShowsPrevented :: nat
  pt_revenueRecovered :: "rat option"
  pt_cumulative :: "rat option"

text \<open>The points in the order of their days, with what has been recovered up to each.\<close>

fun revenuePoints :: "(string \<Rightarrow> string) \<Rightarrow> json \<Rightarrow> nat \<Rightarrow> (int \<times> nat) list \<Rightarrow> RevenuePoint list" where
  "revenuePoints label avg before [] = []"
| "revenuePoints label avg before ((d, n) # es) =
     \<lparr>pt_date = dayText d, pt_label = label (dayText d), pt_noShowsPrevented = n, pt_revenueRecovered = worth n avg,
      pt_cumulative = worth (before + n) avg\<rparr> # revenuePoints label avg (before + n) es"

text \<open>The Monday of a day, computed from its noon in local time and read off in UTC.\<close>

definition mondayOf :: "env \<Rightarrow> int \<Rightarrow> int" where
  "mondayOf E d = utcDay ((d + toMonday ((d + 4) mod 7)) * dayMs + 12 * 60 * 60 * 1000 - e_tz E)"

definition rollUpToWeeks :: "env \<Rightarrow> (int \<times> nat) list \<Rightarrow> (int \<times> nat) list" where
  "rollUpToWeeks E days = tally (\<lambda>e. mondayOf E (fst e)) (\<lambda>e n. n + snd e) 0 days []"

text \<open>Only the days of the map are counted: \<open>if (byDate.has(key))\<close>.\<close>

definition countKnown :: "('x \<Rightarrow> 'k) \<Rightarrow> 'x list \<Rightarrow> ('k \<times> nat) list \<Rightarrow> ('k \<times> nat) list" where
  "countKnown key xs m =
     fold (\<lambda>x m. case map_of m (key x) of None \<Rightarrow> m | Some n \<Rightarrow> AList.update (key x) (Suc n) m) xs m"

definition getOverTime :: "env \<Rightarrow> (string \<Rightarrow> string) \<Rightarrow> instant \<Rightarrow> uuid \<Rightarrow> int \<Rightarrow> world \<Rightarrow> RevenuePoint list" where
  "getOverTime E label now tenantId days w =
     (let clamped = min (max days 7) 365;
          start = periodStart E now clamped;
          appts = filter (\<lambda>a. appointment_tenantId a = tenantId \<and> start \<le> appointment_scheduledAt a \<and> isPrevented w a) (w_appointments w);
          byDate = countKnown (\<lambda>a. utcDay (appointment_scheduledAt a)) appts (emptyDays start (nat clamped) 0)
      in revenuePoints label (averageValue tenantId w) 0
           (sort_key fst (if clamped > 30 then rollUpToWeeks E byDate else byDate)))"

record ChannelRevenue =
  ch_channel :: ChannelType
  ch_appointmentsInfluenced :: nat
  ch_revenueAttributed :: "rat option"
  ch_formatted :: string
  ch_percentageOfTotal :: int

definition CHANNELS :: "ChannelType list" where
  "CHANNELS = [SMS, WHATSAPP, VOICE, EMAIL]"

definition getByChannel :: "(rat option \<Rightarrow> string) \<Rightarrow> uuid \<Rightarrow> world \<Rightarrow> ChannelRevenue list" where
  "getByChannel money tenantId w =
     (let avg = averageValue tenantId w;
          counts = map (\<lambda>ch. (ch, revenueCount (\<lambda>a. isConfirmed a \<and> reachedBy (\<lambda>r. reminder_channel r = ch) w a) tenantId w)) CHANNELS;
          active = filter (\<lambda>(ch, n). n > 0) counts;
          whole = sum_list (map snd active)
      in map (\<lambda>(ch, n). \<lparr>ch_channel = ch, ch_appointmentsInfluenced = n, ch_revenueAttributed = worth n avg,
             ch_formatted = ''$'' @ money (worth n avg), ch_percentageOfTotal = percentOf n whole\<rparr>) active)"

record RevenueSnapshot =
  sn_appointments_booked :: nat
  sn_appointments_confirmed :: nat
  sn_no_shows_prevented :: nat
  sn_revenue_recovered :: "rat option"
  sn_revenue_recovered_formatted :: string
  sn_confirmation_rate :: int
  sn_all_time_confirmation_rate :: int

definition getSnapshot :: "env \<Rightarrow> (rat option \<Rightarrow> string) \<Rightarrow> instant \<Rightarrow> uuid \<Rightarrow> world \<Rightarrow> RevenueSnapshot" where
  "getSnapshot E money now tenantId w =
     (let weekStart = periodStart E now 7; avg = averageValue tenantId w;
          booked = revenueCount (inPeriod weekStart now) tenantId w;
          confirmed = revenueCount (\<lambda>a. inPeriod weekStart now a \<and> isConfirmed a) tenantId w;
          prevented = revenueCount (\<lambda>a. inPeriod weekStart now a \<and> isPrevented w a) tenantId w
      in \<lparr>sn_appointments_booked = booked, sn_appointments_confirmed = confirmed, sn_no_shows_prevented = prevented,
          sn_revenue_recovered = worth prevented avg, sn_revenue_recovered_formatted = ''$'' @ money (worth prevented avg),
          sn_confirmation_rate = percentOf confirmed booked,
          sn_all_time_confirmation_rate = percentOf (revenueCount isConfirmed tenantId w) (revenueCount (\<lambda>_. True) tenantId w)\<rparr>)"

end
