(* ===== verification/Analytics_Properties.thy ===== *)
theory Analytics_Properties
  imports Analytics Reminder_Properties
begin

text \<open>
  The series of the analytics pages: each point is what a count over the rows of its day gives, no row is lost; the
  revenue of the current day is. And what of the page can be loaded at all.
\<close>

section \<open>Tallies\<close>

lemma tally_Nil [simp]: "tally key f zero [] m = m"
  by (simp add: tally_def)

lemma tally_Cons: "tally key f zero (x # xs) m =
    tally key f zero xs (AList.update (key x) (f x (coalesce (map_of m (key x)) zero)) m)"
  by (simp add: tally_def)

lemma tally_keys: "fst ` set (tally key f zero xs m) = fst ` set m \<union> key ` set xs"
  by (induction xs arbitrary: m) (auto simp: tally_Cons dom_update)

lemma tally_distinct: "distinct (map fst m) \<Longrightarrow> distinct (map fst (tally key f zero xs m))"
  by (induction xs arbitrary: m) (simp_all add: tally_Cons distinct_update)

lemma tally_entry:
  "coalesce (map_of (tally key f zero xs m) k) zero =
   fold f (filter (\<lambda>x. key x = k) xs) (coalesce (map_of m k) zero)"
  by (induction xs arbitrary: m) (simp_all add: tally_Cons update_conv)

text \<open>Sorted by key, a tally lists for each key that occurs what its rows amount to.\<close>

lemma assoc_sorted:
  assumes "distinct (map fst m)"
  shows "sort_key fst m = map (\<lambda>k. (k, the (map_of m k))) (sorted_list_of_set (fst ` set m))"
proof -
  let ?s = "sort_key fst m"
  have d: "distinct (map fst ?s)" using assms by (metis distinct_map distinct_sort set_sort)
  have "map fst ?s = sorted_list_of_set (set (map fst ?s))"
    using d by (simp only: sorted_list_of_set.idem_if_sorted_distinct sorted_sort_key)
  then have keys: "map fst ?s = sorted_list_of_set (fst ` set m)" by simp
  have "e = (fst e, the (map_of m (fst e)))" if "e \<in> set ?s" for e
  proof -
    have "(fst e, snd e) \<in> set m" using that by simp
    then have "map_of m (fst e) = Some (snd e)" using assms by (rule map_of_is_SomeI [rotated])
    then show ?thesis by simp
  qed
  then have "?s = map (\<lambda>e. (fst e, the (map_of m (fst e)))) ?s" by (intro map_idI [symmetric]) metis
  also have "\<dots> = map (\<lambda>k. (k, the (map_of m k))) (map fst ?s)" by simp
  finally show ?thesis using keys by simp
qed

lemma tally_sorted:
  assumes "distinct (map fst m)"
  shows "sort_key fst (tally key f zero xs m) =
    map (\<lambda>k. (k, fold f (filter (\<lambda>x. key x = k) xs) (coalesce (map_of m k) zero)))
      (sorted_list_of_set (fst ` set m \<union> key ` set xs))"
proof -
  let ?t = "tally key f zero xs m"
  have "the (map_of ?t k) = fold f (filter (\<lambda>x. key x = k) xs) (coalesce (map_of m k) zero)"
    if "k \<in> fst ` set ?t" for k
  proof -
    obtain e where "map_of ?t k = Some e" using \<open>k \<in> fst ` set ?t\<close> by (metis map_of_eq_None_iff option.exhaust)
    then show ?thesis using tally_entry [of key f zero xs m k] by simp
  qed
  then show ?thesis
    using assoc_sorted [OF tally_distinct [OF assms], of key f zero xs] by (simp add: tally_keys)
qed

section \<open>The days of a range\<close>

lemma utcDay_shift: "utcDay (t + i * dayMs) = utcDay t + i"
  by (simp add: utcDay_def dayMs_def)

lemma emptyDays_keys: "map fst (emptyDays start n zero) = map (\<lambda>i. utcDay start + int i) [0..<n]"
  by (simp add: emptyDays_def utcDay_shift)

lemma emptyDays_distinct: "distinct (map fst (emptyDays start n zero))"
  by (simp add: emptyDays_keys distinct_map inj_on_def)

lemma emptyDays_set: "fst ` set (emptyDays start n zero) = {utcDay start ..< utcDay start + int n}"
proof -
  have "fst ` set (emptyDays start n zero) = (\<lambda>i. utcDay start + int i) ` {0..<n}"
    using arg_cong [OF emptyDays_keys [of start n zero], of set] by simp
  also have "\<dots> = {utcDay start ..< utcDay start + int n}"
  proof (intro equalityI subsetI)
    fix k
    assume "k \<in> {utcDay start ..< utcDay start + int n}"
    then have "k = utcDay start + int (nat (k - utcDay start))" "nat (k - utcDay start) \<in> {0..<n}" by auto
    then show "k \<in> (\<lambda>i. utcDay start + int i) ` {0..<n}" by blast
  qed auto
  finally show ?thesis .
qed

lemma emptyDays_entry: "coalesce (map_of (emptyDays start n zero) k) zero = zero"
proof (cases "map_of (emptyDays start n zero) k")
  case (Some e)
  then have "(k, e) \<in> set (emptyDays start n zero)" by (rule map_of_SomeD)
  then have "e = zero" by (auto simp: emptyDays_def)
  then show ?thesis using Some by simp
qed simp

lemma fold_countDay:
  "fold countDay as e = (fst e + length as, snd e + length (filter isConfirmed as))"
  by (induction as arbitrary: e) (auto simp: countDay_def)

section \<open>The confirmation rate\<close>

text \<open>The appointments of the chart, and what it should say.\<close>

definition chartAppointments :: "instant \<Rightarrow> instant \<Rightarrow> uuid \<Rightarrow> bool \<Rightarrow> world \<Rightarrow> appointment list" where
  "chartAppointments start now t excludeDemo w =
     filter (\<lambda>a. between start now (appointment_scheduledAt a) \<and> appointment_tenantId a = t \<and>
       (excludeDemo \<longrightarrow> \<not> appointment_isDemoData a)) (w_appointments w)"

definition onDay :: "int \<Rightarrow> appointment \<Rightarrow> bool" where
  "onDay d a = (utcDay (appointment_scheduledAt a) = d)"

lemma chart_filter:
  "appointmentFilter (\<lambda>a. between start now (appointment_scheduledAt a)) t excludeDemo = Inr p \<Longrightarrow>
     filter p (w_appointments w) = chartAppointments start now t excludeDemo w"
  by (auto simp: appointmentFilter_def applyTenantFilter_def chartAppointments_def intro: filter_cong split: if_splits)

lemma partition_count:
  assumes "distinct ds" and "\<forall>a \<in> set as. f a \<in> set ds"
  shows "(\<Sum>d \<leftarrow> ds. length (filter (\<lambda>a. f a = d) as)) = length as"
  using assms(2)
proof (induction as)
  case (Cons a as)
  have "(\<Sum>d \<leftarrow> ds. length (filter (\<lambda>a. f a = d) (a # as))) =
      (\<Sum>d \<leftarrow> ds. (if f a = d then 1 else 0) + length (filter (\<lambda>a. f a = d) as))"
    by (intro arg_cong [where f = sum_list] map_cong) auto
  also have "\<dots> = (\<Sum>d \<leftarrow> ds. if f a = d then 1 else 0) + (\<Sum>d \<leftarrow> ds. length (filter (\<lambda>a. f a = d) as))"
    by (simp add: sum_list_addf)
  also have "(\<Sum>d \<leftarrow> ds. if f a = d then 1 else (0::nat)) = 1"
    using assms(1) Cons.prems by (simp add: sum_list_distinct_conv_sum_set sum.delta')
  finally show ?case using Cons by simp
qed simp

text \<open>
  C25: The confirmation chart is exact. It has, in ascending order and once each, the days of the range and those of
  the appointments between its start and now, each with the number of its appointments and of the confirmed ones;
  together the points count every such appointment once.
\<close>

theorem confirmation_chart_exact:
  "getConfirmationRateOverTime E now t days excludeDemo w =
      (let start = periodStart E now (int days); as = chartAppointments start now t excludeDemo w;
           ds = sorted_list_of_set ({utcDay start ..< utcDay start + int days} \<union> (\<lambda>a. utcDay (appointment_scheduledAt a)) ` set as)
       in Inr (map (\<lambda>d. ratePoint (d, length (filter (onDay d) as), length (filter (\<lambda>a. onDay d a \<and> isConfirmed a) as))) ds)) \<and>
    (case getConfirmationRateOverTime E now t days excludeDemo w of Inl e \<Rightarrow> False
     | Inr ps \<Rightarrow> sum_list (map rt_total ps) = length (chartAppointments (periodStart E now (int days)) now t excludeDemo w))"
proof -
  define start where "start = periodStart E now (int days)"
  define as where "as = chartAppointments start now t excludeDemo w"
  define ds where "ds = sorted_list_of_set ({utcDay start ..< utcDay start + int days} \<union> (\<lambda>a. utcDay (appointment_scheduledAt a)) ` set as)"
  define point where "point d = ratePoint (d, length (filter (onDay d) as), length (filter (\<lambda>a. onDay d a \<and> isConfirmed a) as))" for d
  obtain p where p: "appointmentFilter (\<lambda>a. between start now (appointment_scheduledAt a)) t excludeDemo = Inr p"
    by (cases excludeDemo) (simp_all add: appointmentFilter_def applyTenantFilter_def)
  have day: "(\<lambda>a. utcDay (appointment_scheduledAt a) = d) = onDay d" for d by (simp add: onDay_def fun_eq_iff)
  have "sort_key fst (tally (\<lambda>a. utcDay (appointment_scheduledAt a)) countDay (0, 0) as (emptyDays start days (0, 0))) =
      map (\<lambda>d. (d, length (filter (onDay d) as), length (filter (\<lambda>a. onDay d a \<and> isConfirmed a) as))) ds"
    by (simp add: tally_sorted [OF emptyDays_distinct] emptyDays_set emptyDays_entry fold_countDay day ds_def filter_filter conj_commute)
  then have run: "getConfirmationRateOverTime E now t days excludeDemo w = Inr (map point ds)"
    by (simp add: getConfirmationRateOverTime_def start_def [symmetric] p bindO_def chart_filter [OF p] as_def [symmetric]
        point_def comp_def Let_def)
  have "(\<Sum>d \<leftarrow> ds. length (filter (\<lambda>a. utcDay (appointment_scheduledAt a) = d) as)) = length as"
    by (rule partition_count) (simp_all add: ds_def)
  then have "sum_list (map rt_total (map point ds)) = length as"
    by (simp add: comp_def point_def ratePoint_def day)
  then show ?thesis
    using run by (simp add: Let_def start_def as_def ds_def point_def)
qed

section \<open>Revenue over time\<close>

lemma countKnown_keys: "map fst (countKnown key xs m) = map fst m"
proof (induction xs arbitrary: m)
  case (Cons x xs)
  have "map fst (AList.update k v m) = map fst m" if "map_of m k = Some n" for k v n
    using map_of_SomeD [OF that] by (force simp: update_keys)
  then show ?case using Cons by (auto simp: countKnown_def split: option.split)
qed (simp add: countKnown_def)

lemma countKnown_entry:
  "map_of (countKnown key xs m) k = map_option (\<lambda>n. n + length (filter (\<lambda>x. key x = k) xs)) (map_of m k)"
proof (induction xs arbitrary: m)
  case Nil
  then show ?case by (simp add: countKnown_def option.map_ident)
next
  case (Cons x xs)
  have "countKnown key (x # xs) m = countKnown key xs
      (case map_of m (key x) of None \<Rightarrow> m | Some n \<Rightarrow> AList.update (key x) (Suc n) m)"
    by (simp add: countKnown_def)
  then show ?case
    using Cons by (cases "map_of m (key x)"; cases "map_of m k") (auto simp: update_conv)
qed

lemma sorted_days: "sorted_list_of_set {a ..< a + int n} = map (\<lambda>i. a + int i) [0..<n]"
proof -
  let ?xs = "map (\<lambda>i. a + int i) [0..<n]"
  have "set ?xs = {a ..< a + int n}"
  proof (intro equalityI subsetI)
    fix k
    assume "k \<in> {a ..< a + int n}"
    then have "k = a + int (nat (k - a))" "nat (k - a) \<in> {0..<n}" by auto
    then have "k \<in> (\<lambda>i. a + int i) ` {0..<n}" by blast
    then show "k \<in> set ?xs" by simp
  qed auto
  moreover have "sorted ?xs" by (auto simp: sorted_iff_nth_mono)
  moreover have "distinct ?xs" by (simp add: distinct_map inj_on_def)
  ultimately show ?thesis by (metis sorted_list_of_set.idem_if_sorted_distinct)
qed

text \<open>The no-shows prevented from a start on, and those of a day\<close>

definition preventedFrom :: "instant \<Rightarrow> uuid \<Rightarrow> world \<Rightarrow> appointment list" where
  "preventedFrom start t w =
     filter (\<lambda>a. appointment_tenantId a = t \<and> start \<le> appointment_scheduledAt a \<and> isPrevented w a) (w_appointments w)"

definition revenueDays :: "instant \<Rightarrow> nat \<Rightarrow> uuid \<Rightarrow> world \<Rightarrow> (int \<times> nat) list" where
  "revenueDays start n t w =
     map (\<lambda>i. (utcDay start + int i, length (filter (onDay (utcDay start + int i)) (preventedFrom start t w)))) [0..<n]"

lemma countKnown_days:
  "sort_key fst (countKnown (\<lambda>x. utcDay (f x)) xs (emptyDays start n 0)) =
    map (\<lambda>i. (utcDay start + int i, length (filter (\<lambda>x. utcDay (f x) = utcDay start + int i) xs))) [0..<n]"
proof -
  let ?m = "countKnown (\<lambda>x. utcDay (f x)) xs (emptyDays start n 0)"
  have keys: "map fst ?m = map fst (emptyDays start n (0::nat))" by (rule countKnown_keys)
  have d: "distinct (map fst ?m)" by (simp only: keys emptyDays_distinct)
  have set_keys: "fst ` set ?m = {utcDay start ..< utcDay start + int n}"
    using arg_cong [OF keys, of set] emptyDays_set [of start n "0::nat"] by simp
  have "the (map_of ?m (utcDay start + int i)) = length (filter (\<lambda>x. utcDay (f x) = utcDay start + int i) xs)" if "i < n" for i
  proof -
    have "utcDay start + int i \<in> fst ` set (emptyDays start n (0::nat))" using that by (simp add: emptyDays_set)
    then obtain e where e: "map_of (emptyDays start n (0::nat)) (utcDay start + int i) = Some e"
      by (metis map_of_eq_None_iff option.exhaust)
    then have "e = 0" using emptyDays_entry [of start n "0::nat" "utcDay start + int i"] by simp
    then show ?thesis using e by (simp add: countKnown_entry)
  qed
  then show ?thesis by (simp add: assoc_sorted [OF d] set_keys sorted_days)
qed

lemma getOverTime_daily:
  "days \<le> 30 \<Longrightarrow> getOverTime E label now t days w =
     revenuePoints label (averageValue t w) 0 (revenueDays (periodStart E now (max days 7)) (nat (max days 7)) t w)"
  by (simp add: getOverTime_def Let_def countKnown_days revenueDays_def preventedFrom_def onDay_def)

lemma revenuePoints_counts [simp]: "map pt_noShowsPrevented (revenuePoints label avg before es) = map snd es"
  by (induction label avg before es rule: revenuePoints.induct) simp_all

lemma localMidnight_day: "e_tz E = 0 \<Longrightarrow> localMidnight E s = utcDay s * dayMs"
  by (simp add: localMidnight_def utcDay_def minus_mod_eq_div_mult)

lemma utcDay_mult: "utcDay (d * dayMs) = d"
  by (simp add: utcDay_def dayMs_def)

lemma day_bounds: "(utcDay s < d) = (s < d * dayMs)" "(d \<le> utcDay s) = (d * dayMs \<le> s)"
  by (auto simp: utcDay_def dayMs_def)

lemma revenueDays_total:
  "sum_list (map snd (revenueDays start n t w)) =
     length (filter (\<lambda>a. utcDay (appointment_scheduledAt a) < utcDay start + int n) (preventedFrom start t w))"
  (is "_ = length (filter ?in ?as)")
proof -
  let ?ds = "map (\<lambda>i. utcDay start + int i) [0..<n]"
  have days: "set ?ds = {utcDay start ..< utcDay start + int n}"
    using arg_cong [OF sorted_days [of "utcDay start" n], of set] by simp
  have low: "utcDay start \<le> utcDay (appointment_scheduledAt a)" if "a \<in> set ?as" for a
    using that by (auto simp: preventedFrom_def utcDay_def dayMs_def intro: zdiv_mono1)
  have "filter (onDay d) ?as = filter (onDay d) (filter ?in ?as)" if "d \<in> set ?ds" for d
    using that unfolding days by (auto simp: onDay_def intro!: filter_cong)
  then have "sum_list (map snd (revenueDays start n t w)) = (\<Sum>d \<leftarrow> ?ds. length (filter (onDay d) (filter ?in ?as)))"
    by (intro arg_cong [where f = sum_list]) (simp add: revenueDays_def)
  also have "\<dots> = length (filter ?in ?as)"
    unfolding onDay_def
  proof (rule partition_count)
    show "distinct ?ds" by (simp add: distinct_map inj_on_def)
    show "\<forall>a \<in> set (filter ?in ?as). utcDay (appointment_scheduledAt a) \<in> set ?ds"
      unfolding days using low by simp
  qed
  finally show ?thesis .
qed

text \<open>
  C24: Revenue over time drops today. Up to 30 days the chart has exactly the days from its start on, each with the
  no-shows prevented on it, summed up in their order. Where local time is UTC the last of them is yesterday: together
  the points count what has been prevented before this midnight, and nothing of the current day.
\<close>

theorem revenue_chart_without_today:
  assumes "days \<le> 30" and "e_tz E = 0"
  shows "getOverTime E label now t days w =
      revenuePoints label (averageValue t w) 0 (revenueDays (periodStart E now (max days 7)) (nat (max days 7)) t w) \<and>
    sum_list (map pt_noShowsPrevented (getOverTime E label now t days w)) =
      length (filter (\<lambda>a. appointment_scheduledAt a < localMidnight E now) (preventedFrom (periodStart E now (max days 7)) t w))"
proof -
  have last: "utcDay (periodStart E now (max days 7)) + int (nat (max days 7)) = utcDay now"
    using utcDay_shift [of now "- max days 7"]
    by (simp add: periodStart_def localMidnight_day [OF assms(2)] utcDay_mult max_def)
  show ?thesis
    by (simp only: getOverTime_daily [OF assms(1)] revenuePoints_counts revenueDays_total last
        localMidnight_day [OF assms(2)] day_bounds simp_thms)
qed

text \<open>A clinic at noon of its tenth day, with a no-show prevented yesterday and one this morning\<close>

definition noonWorld :: world where
  "noonWorld = (clinic [])\<lparr>
     w_appointments := [(demoAppointment (9 * dayMs))\<lparr>appointment_status := A_COMPLETED\<rparr>,
       (demoAppointment (10 * dayMs))\<lparr>appointment_status := A_CONFIRMED\<rparr>],
     w_reminders := [demoReminder ''x'' R_SENT]\<rparr>"

theorem revenue_chart_without_today_witness:
  "sum_list (map pt_noShowsPrevented (getOverTime demoEnv (\<lambda>d. d) (10 * dayMs + 43200000) ''t1'' 7 noonWorld)) = 1 \<and>
   length (preventedFrom (3 * dayMs) ''t1'' noonWorld) = 2"
proof -
  have "e_tz demoEnv = 0" by (simp add: demoEnv_def)
  moreover have "length (filter (\<lambda>a. appointment_scheduledAt a < localMidnight demoEnv (10 * dayMs + 43200000))
      (preventedFrom (periodStart demoEnv (10 * dayMs + 43200000) (max 7 7)) ''t1'' noonWorld)) = 1"
    by code_simp
  moreover have "length (preventedFrom (3 * dayMs) ''t1'' noonWorld) = 2" by code_simp
  ultimately show ?thesis
    using revenue_chart_without_today [of 7 demoEnv "\<lambda>d. d" "10 * dayMs + 43200000" "''t1''" noonWorld] by linarith
qed

text \<open>
  The dashboard's own page gets none of its charts: the hero metrics of a request without a query fail because
  the reminder table has no column of demo data, and the requests for the confirmation rate and the no-shows, with
  the parameter that the page sends, are refused by the global validation.
\<close>

theorem analytics_page_gets_nothing:
  "\<not> is_ok (heroRoute E money now t [] w) \<and>
   \<not> is_ok (confirmationRateRoute E now t [(''days'', d)] w) \<and>
   \<not> is_ok (noShowRoute E label now t [(''weeks'', n)] w)"
proof -
  have v: "validQuery [] = Inr True" "\<exists>e. validQuery [(''days'', d)] = Inl e" "\<exists>e. validQuery [(''weeks'', n)] = Inl e"
    by (simp_all add: validQuery_def queryKeys_def)
  show ?thesis
    using v by (auto simp: heroRoute_def confirmationRateRoute_def noShowRoute_def bindO_def getDashboardMetrics_def
        countRows_def reminderFilter_def applyTenantFilter_def Let_def split: sum.splits)
qed

end
