(* ===== verification/Request_Bodies.thy ===== *)
theory Request_Bodies
  imports Store Json_Values "HOL-Library.AList"
begin

text \<open>
  What a page of the dashboard sends and how the API reads it. A JavaScript object is the list of its properties,
  \<open>{...o, k: v}\<close> an update of it. The global validation (\<open>main.ts\<close>) reads a body against the DTO of its route: a
  property that the DTO does not have is refused, at every level, as is one of another type. \<open>None\<close> is the answer
  400; \<open>null\<close> counts as absent. That an id is a UUID is not checked.
\<close>

type_synonym jsObj = "(string \<times> json) list"

section \<open>Reading\<close>

definition onlyKeys :: "string list \<Rightarrow> jsObj \<Rightarrow> bool" where
  "onlyKeys ks obj = list_all (\<lambda>(k, v). k \<in> set ks) obj"

definition optProp :: "(json \<Rightarrow> 'a option) \<Rightarrow> jsObj \<Rightarrow> string \<Rightarrow> 'a option option" where
  "optProp f obj k = (case map_of obj k of None \<Rightarrow> Some None | Some JNull \<Rightarrow> Some None | Some v \<Rightarrow> map_option Some (f v))"

definition reqProp :: "(json \<Rightarrow> 'a option) \<Rightarrow> jsObj \<Rightarrow> string \<Rightarrow> 'a option" where
  "reqProp f obj k = Option.bind (map_of obj k) f"

fun asStr :: "json \<Rightarrow> string option" where
  "asStr (JStr s) = Some s"
| "asStr _ = None"

fun asInt :: "json \<Rightarrow> int option" where
  "asInt (JNum n) = Some n"
| "asInt _ = None"

fun asBool :: "json \<Rightarrow> bool option" where
  "asBool (JBool b) = Some b"
| "asBool _ = None"

fun asObj :: "json \<Rightarrow> jsObj option" where
  "asObj (JObj kvs) = Some kvs"
| "asObj _ = None"

fun asArr :: "json \<Rightarrow> json list option" where
  "asArr (JArr js) = Some js"
| "asArr _ = None"

primrec readAll :: "('a \<Rightarrow> 'b option) \<Rightarrow> 'a list \<Rightarrow> 'b list option" where
  "readAll f [] = Some []"
| "readAll f (x # xs) = Option.bind (f x) (\<lambda>y. map_option ((#) y) (readAll f xs))"

text \<open>\<open>@IsString()\<close> with \<open>@MaxLength(n)\<close>\<close>

definition asText :: "nat \<Rightarrow> json \<Rightarrow> string option" where
  "asText n j = Option.bind (asStr j) (\<lambda>s. if length s \<le> n then Some s else None)"

text \<open>\<open>v || undefined\<close> for a text, written as a property or left out\<close>

definition givenText :: "string \<Rightarrow> string \<Rightarrow> jsObj" where
  "givenText k s = (if s = [] then [] else [(k, JStr s)])"

text \<open>A request that a route takes: \<open>None\<close> when its body is refused, else what the service does.\<close>

definition request :: "(jsObj \<Rightarrow> 'd option) \<Rightarrow> ('d \<Rightarrow> 'a act) \<Rightarrow> jsObj \<Rightarrow> 'a option act" where
  "request read serve obj w =
     (case read obj of None \<Rightarrow> (Inr None, w) | Some d \<Rightarrow> bindA (serve d) (\<lambda>v. returnA (Some v)) w)"

section \<open>Laws\<close>

lemma onlyKeys_update [simp]: "k \<in> set ks \<Longrightarrow> onlyKeys ks obj \<Longrightarrow> onlyKeys ks (AList.update k v obj)"
proof -
  have "onlyKeys ks x = (fst ` set x \<subseteq> set ks)" for x by (auto simp: onlyKeys_def list_all_iff)
  then show "k \<in> set ks \<Longrightarrow> onlyKeys ks obj \<Longrightarrow> onlyKeys ks (AList.update k v obj)" by (simp add: dom_update)
qed

lemma readAll_map: "(\<And>x. x \<in> set xs \<Longrightarrow> f (g x) = Some (k x)) \<Longrightarrow> readAll f (map g xs) = Some (map k xs)"
  by (induction xs) simp_all

lemma request_refused [simp]: "read obj = None \<Longrightarrow> request read serve obj w = (Inr None, w)"
  by (simp add: request_def)

lemma request_taken: "read obj = Some d \<Longrightarrow> request read serve obj w = bindA (serve d) (\<lambda>v. returnA (Some v)) w"
  by (simp add: request_def)

end
