(* ===== verification/Automation_Page.thy ===== *)
theory Automation_Page
  imports Workflow_Editing Request_Bodies
begin

text \<open>
  The page of automations of the dashboard, \<open>frontend/src/app/dashboard/automations/page.tsx\<close>, on top of the
  automation service: the list, the builder with its inputs, and what the API makes of a saved automation.
\<close>

section \<open>What the API sends and accepts\<close>

text \<open>
  A workflow as it is listed, with the rows of its trigger, actions and conditions: \<open>R k i\<close> is the column \<open>k\<close>
  of the row of \<open>i\<close> that \<open>Schema\<close> leaves out (ids and dates of nested rows).
\<close>

record PageWorkflow =
  pw_id :: uuid
  pw_name :: string
  pw_description :: "string option"
  pw_isActive :: bool
  pw_trigger :: "jsObj option"
  pw_actions :: "jsObj list"
  pw_executions :: nat

definition triggerJson :: "(string \<Rightarrow> string \<Rightarrow> json) \<Rightarrow> workflow \<Rightarrow> jsObj option" where
  "triggerJson R f = map_option (\<lambda>t. [(''id'', R ''id'' (workflow_id f)), (''workflowId'', JStr (workflow_id f)),
     (''type'', JStr t), (''config'', workflow_triggerConfig f), (''createdAt'', R ''createdAt'' (workflow_id f))])
     (workflow_triggerType f)"

definition conditionJson :: "(string \<Rightarrow> string \<Rightarrow> json) \<Rightarrow> uuid \<Rightarrow> uuid \<Rightarrow> workflowCondition \<Rightarrow> jsObj" where
  "conditionJson R f a c = [(''id'', R ''id'' a), (''workflowId'', JStr f), (''actionId'', JStr a),
     (''conditionType'', JStr (workflowCondition_conditionType c)),
     (''operator'', JStr (workflowCondition_operator c)), (''value'', JStr (workflowCondition_value c)),
     (''createdAt'', R ''createdAt'' a)]"

definition actionJson :: "(string \<Rightarrow> string \<Rightarrow> json) \<Rightarrow> uuid \<Rightarrow> workflowAction \<Rightarrow> jsObj" where
  "actionJson R f a = [(''id'', JStr (workflowAction_id a)), (''workflowId'', JStr f),
     (''stepOrder'', JNum (workflowAction_stepOrder a)), (''type'', JStr (workflowAction_type a)),
     (''config'', workflowAction_config a), (''delayMinutes'', JNum (workflowAction_delayMinutes a)),
     (''createdAt'', R ''createdAt'' (workflowAction_id a)),
     (''conditions'', JArr (map (\<lambda>c. JObj (conditionJson R f (workflowAction_id a) c)) (workflowAction_conditions a)))]"

definition workflowJson :: "(string \<Rightarrow> string \<Rightarrow> json) \<Rightarrow> workflow \<times> nat \<Rightarrow> PageWorkflow" where
  "workflowJson R = (\<lambda>(f, n). \<lparr>pw_id = workflow_id f, pw_name = workflow_name f, pw_description = workflow_description f,
     pw_isActive = workflow_isActive f, pw_trigger = triggerJson R f,
     pw_actions = map (actionJson R (workflow_id f)) (workflow_actions f), pw_executions = n\<rparr>)"

text \<open>The validation of a workflow against its DTOs\<close>

definition readCondition :: "json \<Rightarrow> WorkflowConditionDto option" where
  "readCondition j = Option.bind (asObj j) (\<lambda>obj.
     if \<not> onlyKeys [''conditionType'', ''operator'', ''value'', ''actionId''] obj then None
     else Option.bind (reqProp asStr obj ''conditionType'') (\<lambda>kind.
          Option.bind (optProp asStr obj ''operator'') (\<lambda>operator.
          Option.bind (reqProp asStr obj ''value'') (\<lambda>v.
          Option.bind (optProp asStr obj ''actionId'') (\<lambda>_.
          Some \<lparr>cd_conditionType = kind, cd_operator = operator, cd_value = v\<rparr>)))))"

definition readAction :: "json \<Rightarrow> WorkflowActionDto option" where
  "readAction j = Option.bind (asObj j) (\<lambda>obj.
     if \<not> onlyKeys [''stepOrder'', ''type'', ''config'', ''delayMinutes'', ''conditions''] obj then None
     else Option.bind (reqProp asInt obj ''stepOrder'') (\<lambda>step.
          Option.bind (reqProp asStr obj ''type'') (\<lambda>kind.
          Option.bind (optProp (map_option JObj \<circ> asObj) obj ''config'') (\<lambda>config.
          Option.bind (optProp asInt obj ''delayMinutes'') (\<lambda>delay.
          Option.bind (optProp (\<lambda>v. Option.bind (asArr v) (readAll readCondition)) obj ''conditions'') (\<lambda>conds.
          Some \<lparr>wa_stepOrder = step, wa_type = kind, wa_config = config, wa_delayMinutes = delay,
                wa_conditions = conds\<rparr>))))))"

definition readTrigger :: "json \<Rightarrow> WorkflowTriggerDto option" where
  "readTrigger j = Option.bind (asObj j) (\<lambda>obj.
     if \<not> onlyKeys [''type'', ''config''] obj then None
     else Option.bind (reqProp asStr obj ''type'') (\<lambda>kind.
          Option.bind (optProp (map_option JObj \<circ> asObj) obj ''config'') (\<lambda>config.
          Some \<lparr>td_type = kind, td_config = config\<rparr>)))"

definition workflowKeys :: "string list" where
  "workflowKeys = [''name'', ''description'', ''isActive'', ''trigger'', ''actions'']"

definition readActions :: "json \<Rightarrow> WorkflowActionDto list option" where
  "readActions j = Option.bind (asArr j) (readAll readAction)"

definition readCreate :: "jsObj \<Rightarrow> CreateWorkflowDto option" where
  "readCreate obj =
     (if \<not> onlyKeys workflowKeys obj then None
      else Option.bind (reqProp asStr obj ''name'') (\<lambda>name.
           Option.bind (optProp asStr obj ''description'') (\<lambda>descr.
           Option.bind (optProp asBool obj ''isActive'') (\<lambda>active.
           Option.bind (reqProp readTrigger obj ''trigger'') (\<lambda>trig.
           Option.bind (reqProp readActions obj ''actions'') (\<lambda>acts.
           let d = \<lparr>cw_name = name, cw_description = descr, cw_isActive = active, cw_trigger = trig, cw_actions = acts\<rparr>
           in if validCreate d then Some d else None))))))"

definition readUpdate :: "jsObj \<Rightarrow> UpdateWorkflowDto option" where
  "readUpdate obj =
     (if \<not> onlyKeys workflowKeys obj then None
      else Option.bind (optProp asStr obj ''name'') (\<lambda>name.
           Option.bind (optProp asStr obj ''description'') (\<lambda>descr.
           Option.bind (optProp asBool obj ''isActive'') (\<lambda>active.
           Option.bind (optProp readTrigger obj ''trigger'') (\<lambda>trig.
           Option.bind (optProp readActions obj ''actions'') (\<lambda>acts.
           let d = \<lparr>uw_name = name, uw_description = descr, uw_isActive = active, uw_trigger = trig, uw_actions = acts\<rparr>
           in if validUpdate d then Some d else None))))))"

section \<open>The builder\<close>

definition TRIGGER_OPTIONS :: "string list" where
  "TRIGGER_OPTIONS = [''appointment_created'', ''appointment_confirmed'', ''appointment_cancelled'',
     ''appointment_completed'', ''review_received'', ''client_inactive'']"

definition ACTION_OPTIONS :: "string list" where
  "ACTION_OPTIONS = [''send_sms'', ''send_whatsapp'', ''send_voice'', ''send_email'', ''generate_ai_message'',
     ''request_review'', ''add_tag'']"

definition CONDITION_OPTIONS :: "string list" where
  "CONDITION_OPTIONS = [''appointment_status_is'', ''customer_tag_has'', ''customer_unsubscribed'', ''time_of_day_between'']"

datatype Selection = OnTrigger | OnStep nat | OnNothing

record Builder =
  bl_id :: "uuid option"
  bl_name :: string
  bl_description :: string
  bl_trigger :: jsObj
  bl_actions :: "jsObj list"
  bl_selected :: Selection
  bl_error :: string

definition openBuilder :: "PageWorkflow option \<Rightarrow> Builder" where
  "openBuilder initial =
     \<lparr>bl_id = map_option pw_id initial,
      bl_name = (case initial of None \<Rightarrow> ''Untitled Workflow'' | Some f \<Rightarrow> pw_name f),
      bl_description = coalesce (Option.bind initial pw_description) [],
      bl_trigger = coalesce (Option.bind initial pw_trigger) [(''type'', JStr ''appointment_created''), (''config'', JObj [])],
      bl_actions = (case initial of None \<Rightarrow> [] | Some f \<Rightarrow> pw_actions f),
      bl_selected = OnTrigger, bl_error = []\<rparr>"

definition newBlankAction :: "nat \<Rightarrow> jsObj" where
  "newBlankAction stepOrder = [(''stepOrder'', JNum (int stepOrder)), (''type'', JStr ''send_sms''), (''config'', JObj []),
     (''delayMinutes'', JNum 0), (''conditions'', JArr [])]"

definition addAction :: "Builder \<Rightarrow> Builder" where
  "addAction b = b\<lparr>bl_actions := bl_actions b @ [newBlankAction (length (bl_actions b))],
     bl_selected := OnStep (length (bl_actions b))\<rparr>"

text \<open>The steps are numbered by their place.\<close>

definition numbered :: "jsObj list \<Rightarrow> jsObj list" where
  "numbered as = map (\<lambda>(i, a). AList.update ''stepOrder'' (JNum (int i)) a) (enumerate 0 as)"

definition deleteAction :: "nat \<Rightarrow> Builder \<Rightarrow> Builder" where
  "deleteAction i b = b\<lparr>bl_actions := numbered (take i (bl_actions b) @ drop (Suc i) (bl_actions b)), bl_selected := OnNothing\<rparr>"

text \<open>The fields of a step exist for the selected one only.\<close>

definition updateAction :: "(jsObj \<Rightarrow> jsObj) \<Rightarrow> Builder \<Rightarrow> Builder" where
  "updateAction f b =
     (case bl_selected b of
        OnStep i \<Rightarrow> if i < length (bl_actions b)
          then b\<lparr>bl_actions := (bl_actions b)[i := AList.update ''stepOrder'' (JNum (int i)) (f (bl_actions b ! i))]\<rparr> else b
      | _ \<Rightarrow> b)"

definition setConfig :: "string \<Rightarrow> json \<Rightarrow> jsObj \<Rightarrow> jsObj" where
  "setConfig k v a = AList.update ''config''
     (JObj (AList.update k v (coalesce (Option.bind (map_of a ''config'') asObj) []))) a"

definition conditionsOf :: "jsObj \<Rightarrow> json list" where
  "conditionsOf a = coalesce (Option.bind (map_of a ''conditions'') asArr) []"

definition setConditions :: "(json list \<Rightarrow> json list) \<Rightarrow> jsObj \<Rightarrow> jsObj" where
  "setConditions f a = AList.update ''conditions'' (JArr (f (conditionsOf a))) a"

definition newCondition :: json where
  "newCondition = JObj [(''conditionType'', JStr ''appointment_status_is''), (''operator'', JStr ''equals''),
     (''value'', JStr ''CONFIRMED'')]"

definition updateCondition :: "nat \<Rightarrow> string \<Rightarrow> string \<Rightarrow> json list \<Rightarrow> json list" where
  "updateCondition i key v cs =
     (if i < length cs then cs[i := JObj (AList.update key (JStr v) (coalesce (asObj (cs ! i)) []))] else cs)"

text \<open>
  What the user can enter: the selects offer their options only; the number field of the delay takes any
  number, one that is not whole being given by its decimal text, and is 0 when it is empty.
\<close>

datatype FieldNumber = Whole int | Fraction string

primrec fieldJson :: "FieldNumber \<Rightarrow> json" where
  "fieldJson (Whole n) = JNum n"
| "fieldJson (Fraction s) = JFrac s"

datatype ConditionField = Kind | Operator | Operand

datatype Input =
    Name string | Description string | PickTrigger string
  | AddStep | DeleteStep nat | SelectStep nat | SelectTrigger
  | PickAction string | Config string string | Delay FieldNumber
  | AddCondition | RemoveCondition nat | ChangeCondition nat ConditionField string

primrec fieldKey :: "ConditionField \<Rightarrow> string" where
  "fieldKey Kind = ''conditionType''"
| "fieldKey Operator = ''operator''"
| "fieldKey Operand = ''value''"

primrec edit :: "Input \<Rightarrow> Builder \<Rightarrow> Builder" where
  "edit (Name s) b = b\<lparr>bl_name := s\<rparr>"
| "edit (Description s) b = b\<lparr>bl_description := s\<rparr>"
| "edit (PickTrigger t) b = b\<lparr>bl_trigger := AList.update ''type'' (JStr t) (bl_trigger b)\<rparr>"
| "edit AddStep b = addAction b"
| "edit (DeleteStep i) b = deleteAction i b"
| "edit (SelectStep i) b = b\<lparr>bl_selected := OnStep i\<rparr>"
| "edit SelectTrigger b = b\<lparr>bl_selected := OnTrigger\<rparr>"
| "edit (PickAction t) b = updateAction (\<lambda>a. AList.update ''config'' (JObj []) (AList.update ''type'' (JStr t) a)) b"
| "edit (Config k s) b = updateAction (setConfig k (JStr s)) b"
| "edit (Delay n) b = updateAction (AList.update ''delayMinutes'' (fieldJson n)) b"
| "edit AddCondition b = updateAction (setConditions (\<lambda>cs. cs @ [newCondition])) b"
| "edit (RemoveCondition i) b = updateAction (setConditions (\<lambda>cs. take i cs @ drop (Suc i) cs)) b"
| "edit (ChangeCondition i k s) b = updateAction (setConditions (updateCondition i (fieldKey k) s)) b"

primrec enterable :: "Input \<Rightarrow> bool" where
  "enterable (Name s) = True"
| "enterable (Description s) = True"
| "enterable (PickTrigger t) = (t \<in> set TRIGGER_OPTIONS)"
| "enterable AddStep = True"
| "enterable (DeleteStep i) = True"
| "enterable (SelectStep i) = True"
| "enterable SelectTrigger = True"
| "enterable (PickAction t) = (t \<in> set ACTION_OPTIONS)"
| "enterable (Config k s) = True"
| "enterable (Delay n) = True"
| "enterable AddCondition = True"
| "enterable (RemoveCondition i) = True"
| "enterable (ChangeCondition i k s) = (k = Kind \<longrightarrow> s \<in> set CONDITION_OPTIONS)"

section \<open>Saving\<close>

definition savePayload :: "Builder \<Rightarrow> jsObj" where
  "savePayload b =
     [(''name'', JStr (trim (bl_name b)))] @
     (if trim (bl_description b) = [] then [] else [(''description'', JStr (trim (bl_description b)))]) @
     [(''isActive'', JBool True), (''trigger'', JObj (bl_trigger b)), (''actions'', JArr (map JObj (numbered (bl_actions b))))]"

definition postAutomation :: "instant \<Rightarrow> uuid \<Rightarrow> jsObj \<Rightarrow> WorkflowView option act" where
  "postAutomation now t = request readCreate (createWorkflow now t)"

definition patchAutomation :: "uuid \<Rightarrow> uuid \<Rightarrow> jsObj \<Rightarrow> WorkflowView option act" where
  "patchAutomation t i = request readUpdate (updateWorkflow t i)"

datatype SaveResult = Incomplete string | Refused | Failed exn | Saved WorkflowView

definition saveResult :: "WorkflowView option outcome \<Rightarrow> SaveResult" where
  "saveResult r = (case r of Inl e \<Rightarrow> Failed e | Inr None \<Rightarrow> Refused | Inr (Some v) \<Rightarrow> Saved v)"

definition handleSave :: "instant \<Rightarrow> uuid \<Rightarrow> Builder \<Rightarrow> world \<Rightarrow> SaveResult \<times> world" where
  "handleSave now t b w =
     (if trim (bl_name b) = [] then (Incomplete ''Workflow name is required'', w)
      else if \<not> jtruthy (map_of (bl_trigger b) ''type'') then (Incomplete ''Trigger type is required'', w)
      else if bl_actions b = [] then (Incomplete ''Add at least one action'', w)
      else map_prod saveResult id
        (case bl_id b of
           Some i \<Rightarrow> patchAutomation t i (savePayload b) w
         | None \<Rightarrow> postAutomation now t (savePayload b) w))"

section \<open>The list\<close>

definition loadWorkflows :: "(string \<Rightarrow> string \<Rightarrow> json) \<Rightarrow> uuid \<Rightarrow> world \<Rightarrow> PageWorkflow list" where
  "loadWorkflows R t w = map (workflowJson R) (findAllWorkflows t w)"

definition handleToggle ::
  "(string \<Rightarrow> string \<Rightarrow> json) \<Rightarrow> uuid \<Rightarrow> uuid \<Rightarrow> PageWorkflow list \<Rightarrow> world \<Rightarrow> PageWorkflow list \<times> world" where
  "handleToggle R t i shown w =
     (case toggleActive t i w of (Inl e, v) \<Rightarrow> (shown, v) | (Inr _, v) \<Rightarrow> (loadWorkflows R t v, v))"

definition handleDelete ::
  "(string \<Rightarrow> string \<Rightarrow> json) \<Rightarrow> uuid \<Rightarrow> uuid \<Rightarrow> PageWorkflow list \<Rightarrow> world \<Rightarrow> PageWorkflow list \<times> world" where
  "handleDelete R t i shown w =
     (case removeWorkflow t i w of (Inl e, v) \<Rightarrow> (shown, v) | (Inr _, v) \<Rightarrow> (loadWorkflows R t v, v))"

definition viewExecutions :: "uuid \<Rightarrow> uuid \<Rightarrow> world \<Rightarrow> workflowExecution list" where
  "viewExecutions t i w = (case getExecutions t i 50 w of Inl e \<Rightarrow> [] | Inr xs \<Rightarrow> xs)"

definition defaultStep :: "int \<Rightarrow> string \<Rightarrow> json list \<Rightarrow> json" where
  "defaultStep delay message conds = JObj [(''stepOrder'', JNum 0), (''type'', JStr ''send_sms''),
     (''delayMinutes'', JNum delay), (''config'', JObj [(''message'', JStr message)]), (''conditions'', JArr conds)]"

definition defaultAutomation :: "string \<Rightarrow> string \<Rightarrow> string \<Rightarrow> json \<Rightarrow> jsObj" where
  "defaultAutomation name descr trigger step =
     [(''name'', JStr name), (''description'', JStr descr), (''isActive'', JBool True),
      (''trigger'', JObj [(''type'', JStr trigger), (''config'', JObj [])]), (''actions'', JArr [step])]"

definition defaultAutomations :: "jsObj list" where
  "defaultAutomations =
     [defaultAutomation ''Booking confirmation'' ''Send an SMS when an appointment is booked'' ''appointment_created''
        (defaultStep 0 ''Hi {{customer_name}}, your appointment has been booked for {{scheduled_at}}. Reply YES to confirm or NO to cancel.'' []),
      defaultAutomation ''48-hour reminder'' ''Remind the client 2 days before their appointment'' ''appointment_created''
        (defaultStep 2880 ''Hi {{customer_name}}, just a reminder about your appointment tomorrow. Reply YES to confirm or call us to reschedule.''
           [JObj [(''conditionType'', JStr ''appointment_status_is''), (''operator'', JStr ''not_equals''), (''value'', JStr ''CONFIRMED'')]]),
      defaultAutomation ''Post-visit follow-up'' ''Check in after the appointment is completed'' ''appointment_completed''
        (defaultStep 60 ''Hi {{customer_name}}, thanks for visiting us today! We hope everything went well. Feel free to reach out if you need anything.'' [])]"

text \<open>The three requests, in the order given; the list is loaded again when none fails.\<close>

definition seedDefaults ::
  "(string \<Rightarrow> string \<Rightarrow> json) \<Rightarrow> instant \<Rightarrow> uuid \<Rightarrow> PageWorkflow list \<Rightarrow> world \<Rightarrow> PageWorkflow list \<times> world" where
  "seedDefaults R now t shown w =
     (let posted = fold (\<lambda>d (good, v). let (r, u) = postAutomation now t d v in (good \<and> is_ok r \<and> r \<noteq> Inr None, u))
            defaultAutomations (True, w)
      in (if fst posted then loadWorkflows R t (snd posted) else shown, snd posted))"

end
