(* ===== verification/Automation_Page_Properties.thy ===== *)
theory Automation_Page_Properties
  imports Automation_Page Workflow_Properties
begin

text \<open>
  The automation page and the API behind it: what the builder makes from nothing is stored step by step,
  unless a delay is no whole number of minutes of 32 bits; what it makes of a saved automation is always refused.
\<close>

section \<open>The builder's objects\<close>

text \<open>What a condition and a step of the builder have, and what the API reads of them.\<close>

fun builtCondition :: "json \<Rightarrow> bool" where
  "builtCondition (JObj c) = (onlyKeys [''conditionType'', ''operator'', ''value''] c \<and>
     (\<exists>k \<in> set CONDITION_OPTIONS. map_of c ''conditionType'' = Some (JStr k)) \<and>
     (\<exists>s. map_of c ''operator'' = Some (JStr s)) \<and> (\<exists>s. map_of c ''value'' = Some (JStr s)))"
| "builtCondition _ = False"

definition builtAction :: "jsObj \<Rightarrow> bool" where
  "builtAction a = (onlyKeys [''stepOrder'', ''type'', ''config'', ''delayMinutes'', ''conditions''] a \<and>
     (\<exists>n \<ge> 0. map_of a ''stepOrder'' = Some (JNum n)) \<and>
     (\<exists>t \<in> set ACTION_OPTIONS. map_of a ''type'' = Some (JStr t)) \<and>
     (\<exists>c. map_of a ''config'' = Some (JObj c)) \<and>
     (\<exists>n. map_of a ''delayMinutes'' = Some (fieldJson n)) \<and>
     (\<exists>cs. map_of a ''conditions'' = Some (JArr cs) \<and> list_all builtCondition cs))"

definition builtTrigger :: "jsObj \<Rightarrow> bool" where
  "builtTrigger x = (onlyKeys [''type'', ''config''] x \<and>
     (\<exists>t \<in> set TRIGGER_OPTIONS. map_of x ''type'' = Some (JStr t)) \<and> (\<exists>c. map_of x ''config'' = Some (JObj c)))"

definition builtBuilder :: "Builder \<Rightarrow> bool" where
  "builtBuilder b = (builtTrigger (bl_trigger b) \<and> list_all builtAction (bl_actions b))"

definition textAt :: "jsObj \<Rightarrow> string \<Rightarrow> string" where
  "textAt obj k = the (reqProp asStr obj k)"

definition numberAt :: "jsObj \<Rightarrow> string \<Rightarrow> int" where
  "numberAt obj k = the (reqProp asInt obj k)"

definition conditionDto :: "json \<Rightarrow> WorkflowConditionDto" where
  "conditionDto j = the (readCondition j)"

definition actionDto :: "jsObj \<Rightarrow> WorkflowActionDto" where
  "actionDto a = \<lparr>wa_stepOrder = numberAt a ''stepOrder'', wa_type = textAt a ''type'', wa_config = map_of a ''config'',
     wa_delayMinutes = Some (numberAt a ''delayMinutes''), wa_conditions = Some (map conditionDto (conditionsOf a))\<rparr>"

lemma condition_read:
  assumes "builtCondition j"
  shows "readCondition j = Some (conditionDto j)" and "validCondition (conditionDto j)"
proof -
  obtain c where c: "j = JObj c" "builtCondition (JObj c)" using assms by (cases j) auto
  have k: "onlyKeys [''conditionType'', ''operator'', ''value'', ''actionId''] c" "map_of c ''actionId'' = None"
    using c(2) by (auto simp: onlyKeys_def list_all_iff map_of_eq_None_iff)
  obtain d where d: "readCondition j = Some d" "cd_conditionType d \<in> set CONDITION_OPTIONS"
    using c k by (auto simp: readCondition_def reqProp_def optProp_def)
  then show "readCondition j = Some (conditionDto j)" "validCondition (conditionDto j)"
    by (auto simp: conditionDto_def validCondition_def CONDITION_OPTIONS_def CONDITION_TYPES_def)
qed

text \<open>The delay of a step, and the three ways in which the API takes it\<close>

definition delayOf :: "jsObj \<Rightarrow> json option" where
  "delayOf a = map_of a ''delayMinutes''"

definition wholeDelay :: "jsObj \<Rightarrow> bool" where
  "wholeDelay a = (\<exists>n. delayOf a = Some (JNum n))"

lemma action_read:
  assumes "builtAction a" and "wholeDelay a"
  shows "readAction (JObj a) = Some (actionDto a)"
    and "validAction (actionDto a) \<longleftrightarrow> (\<exists>n \<ge> 0. delayOf a = Some (JNum n))"
proof -
  obtain n t c m cs where a: "map_of a ''stepOrder'' = Some (JNum n)" "0 \<le> n" "t \<in> set ACTION_OPTIONS"
    "map_of a ''type'' = Some (JStr t)" "map_of a ''config'' = Some (JObj c)"
    "map_of a ''delayMinutes'' = Some (JNum m)" "map_of a ''conditions'' = Some (JArr cs)"
    "list_all builtCondition cs" "onlyKeys [''stepOrder'', ''type'', ''config'', ''delayMinutes'', ''conditions''] a"
    using assms by (auto simp: builtAction_def wholeDelay_def delayOf_def)
  have r: "readAll readCondition cs = Some (map conditionDto cs)"
    using readAll_map [of cs readCondition "\<lambda>j. j" conditionDto] condition_read(1) a(8) by (simp add: list_all_iff)
  have v: "list_all validCondition (map conditionDto cs)"
    using condition_read(2) a(8) by (auto simp: list_all_iff)
  show "readAction (JObj a) = Some (actionDto a)"
    using a r by (simp add: readAction_def reqProp_def optProp_def actionDto_def textAt_def numberAt_def conditionsOf_def)
  show "validAction (actionDto a) \<longleftrightarrow> (\<exists>n \<ge> 0. delayOf a = Some (JNum n))"
    using a v by (simp add: validAction_def actionDto_def textAt_def numberAt_def conditionsOf_def reqProp_def delayOf_def
        ACTION_OPTIONS_def ACTION_TYPES_def)
qed

lemma fraction_refused:
  assumes "delayOf a = Some (JFrac s)"
  shows "readAction (JObj a) = None"
  using assms by (simp add: readAction_def optProp_def delayOf_def Option.bind_eq_None_conv)

lemma readAll_None: "x \<in> set xs \<Longrightarrow> f x = None \<Longrightarrow> readAll f xs = None"
  by (induction xs) (auto split: option.split)

section \<open>Every input keeps them\<close>

lemma builtAction_update:
  assumes "builtAction a"
  shows "0 \<le> n \<Longrightarrow> builtAction (AList.update ''stepOrder'' (JNum n) a)"
    and "builtAction (AList.update ''delayMinutes'' (fieldJson m) a)"
    and "t \<in> set ACTION_OPTIONS \<Longrightarrow> builtAction (AList.update ''type'' (JStr t) a)"
    and "builtAction (AList.update ''config'' (JObj c) a)"
    and "list_all builtCondition cs \<Longrightarrow> builtAction (AList.update ''conditions'' (JArr cs) a)"
  using assms by (auto simp: builtAction_def update_conv')

lemma built_conditionsOf: "builtAction a \<Longrightarrow> list_all builtCondition (conditionsOf a)"
  by (auto simp: builtAction_def conditionsOf_def)

lemma built_numbered: "list_all builtAction as \<Longrightarrow> list_all builtAction (numbered as)"
  by (auto simp: numbered_def list_all_iff in_set_enumerate_eq intro!: builtAction_update(1))

lemma built_updateAction:
  assumes "builtBuilder b" and "\<And>a. builtAction a \<Longrightarrow> builtAction (f a)"
  shows "builtBuilder (updateAction f b)"
  using assms by (auto simp: builtBuilder_def updateAction_def list_all_length nth_list_update builtAction_update(1)
      split: Selection.split)

lemma built_updateCondition:
  assumes "list_all builtCondition cs" and "k = Kind \<longrightarrow> s \<in> set CONDITION_OPTIONS"
  shows "list_all builtCondition (updateCondition i (fieldKey k) s cs)"
proof -
  have "builtCondition (JObj (AList.update (fieldKey k) (JStr s) (coalesce (asObj c) [])))" if "builtCondition c" for c
    using that assms(2) by (cases c; cases k) (auto simp: update_conv')
  then show ?thesis using assms(1) by (simp add: updateCondition_def list_all_length nth_list_update del: builtCondition.simps)
qed

lemma built_newBlank: "builtAction (newBlankAction n)"
  by (simp add: builtAction_def newBlankAction_def onlyKeys_def ACTION_OPTIONS_def)
    (rule exI [of _ "Whole 0"], simp)

lemma built_edit:
  assumes "builtBuilder b" and "enterable e"
  shows "builtBuilder (edit e b)"
proof (cases e)
  case (PickTrigger t)
  then show ?thesis using assms by (auto simp: builtBuilder_def builtTrigger_def update_conv')
next
  case AddStep
  then show ?thesis using assms(1) built_newBlank by (simp add: builtBuilder_def addAction_def)
next
  case (DeleteStep i)
  have "list_all builtAction (take i (bl_actions b) @ drop (Suc i) (bl_actions b))"
    using assms(1) by (auto simp: builtBuilder_def list_all_iff dest: in_set_takeD in_set_dropD)
  then show ?thesis using assms(1) DeleteStep built_numbered by (simp add: builtBuilder_def deleteAction_def)
next
  case (PickAction t)
  then show ?thesis using assms(1,2) by (auto intro!: built_updateAction builtAction_update)
next
  case (Config k s)
  then show ?thesis using assms(1) by (auto simp: setConfig_def intro!: built_updateAction builtAction_update)
next
  case (Delay n)
  then show ?thesis using assms(1) by (auto intro!: built_updateAction builtAction_update)
next
  case AddCondition
  then show ?thesis using assms(1) built_conditionsOf
    by (auto simp: setConditions_def newCondition_def onlyKeys_def CONDITION_OPTIONS_def
        intro!: built_updateAction builtAction_update)
next
  case (RemoveCondition i)
  have "list_all builtCondition (take i cs @ drop (Suc i) cs)" if "list_all builtCondition cs" for cs
    using that by (auto simp: list_all_iff dest: in_set_takeD in_set_dropD)
  then show ?thesis using assms(1) RemoveCondition built_conditionsOf
    by (auto simp: setConditions_def simp del: list_all_append intro!: built_updateAction builtAction_update)
next
  case (ChangeCondition i k s)
  then show ?thesis using assms(1,2) built_conditionsOf
    by (auto simp: setConditions_def intro!: built_updateAction builtAction_update built_updateCondition)
qed (use assms in \<open>auto simp: builtBuilder_def\<close>)

text \<open>A builder opened on nothing, after some input\<close>

definition built :: "Input list \<Rightarrow> Builder" where
  "built es = fold edit es (openBuilder None)"

lemma built_sound:
  assumes "list_all enterable es"
  shows "builtBuilder (built es)"
proof -
  have "builtBuilder (fold edit es b)" if "builtBuilder b" for b
    using that assms by (induction es arbitrary: b) (auto intro: built_edit)
  then show ?thesis
    by (simp add: built_def openBuilder_def builtBuilder_def builtTrigger_def onlyKeys_def TRIGGER_OPTIONS_def)
qed

lemma edit_id [simp]: "bl_id (edit e b) = bl_id b"
  by (cases e) (auto simp: addAction_def deleteAction_def updateAction_def split: Selection.split)

lemma fold_edit_id [simp]: "bl_id (fold edit es b) = bl_id b"
  by (induction es arbitrary: b) simp_all

section \<open>Saving what was built\<close>

lemma trigger_read:
  assumes "builtTrigger x"
  shows "\<exists>t \<in> set TRIGGER_OPTIONS. map_of x ''type'' = Some (JStr t) \<and>
    (\<exists>c. readTrigger (JObj x) = Some \<lparr>td_type = t, td_config = Some (JObj c)\<rparr>)"
  using assms by (auto simp: builtTrigger_def readTrigger_def reqProp_def optProp_def)

definition savedDto :: "Builder \<Rightarrow> CreateWorkflowDto" where
  "savedDto b = \<lparr>cw_name = trim (bl_name b),
     cw_description = (if trim (bl_description b) = [] then None else Some (trim (bl_description b))),
     cw_isActive = Some True, cw_trigger = the (readTrigger (JObj (bl_trigger b))),
     cw_actions = map actionDto (numbered (bl_actions b))\<rparr>"

lemma payload_keys: "onlyKeys workflowKeys (savePayload b)"
  by (simp add: onlyKeys_def savePayload_def workflowKeys_def)

lemma payload_props:
  "map_of (savePayload b) ''name'' = Some (JStr (trim (bl_name b)))"
  "map_of (savePayload b) ''description'' =
     (if trim (bl_description b) = [] then None else Some (JStr (trim (bl_description b))))"
  "map_of (savePayload b) ''isActive'' = Some (JBool True)"
  "map_of (savePayload b) ''trigger'' = Some (JObj (bl_trigger b))"
  "map_of (savePayload b) ''actions'' = Some (JArr (map JObj (numbered (bl_actions b))))"
  by (simp_all add: savePayload_def)

lemma delay_numbered: "a \<in> set (numbered as) \<Longrightarrow> \<exists>x \<in> set as. delayOf a = delayOf x"
  by (auto simp: numbered_def in_set_enumerate_eq delayOf_def update_conv')

lemma numbered_delay:
  assumes "x \<in> set as"
  shows "\<exists>a \<in> set (numbered as). delayOf a = delayOf x"
proof -
  obtain i where "i < length as" "as ! i = x" using assms by (meson in_set_conv_nth)
  then have "AList.update ''stepOrder'' (JNum (int i)) x \<in> set (numbered as)"
    by (force simp: numbered_def in_set_enumerate_eq)
  moreover have "delayOf (AList.update ''stepOrder'' (JNum (int i)) x) = delayOf x" by (simp add: delayOf_def update_conv')
  ultimately show ?thesis by blast
qed

lemma payload_read:
  assumes "builtBuilder b"
  shows "readCreate (savePayload b) =
    (if \<forall>a \<in> set (bl_actions b). \<exists>n \<ge> 0. delayOf a = Some (JNum n) then Some (savedDto b) else None)"
proof -
  obtain t c where t: "t \<in> set TRIGGER_OPTIONS" "readTrigger (JObj (bl_trigger b)) = Some \<lparr>td_type = t, td_config = Some (JObj c)\<rparr>"
    using assms trigger_read [of "bl_trigger b"] by (auto simp: builtBuilder_def)
  have as: "list_all builtAction (numbered (bl_actions b))"
    using assms built_numbered by (simp add: builtBuilder_def)
  show ?thesis
  proof (cases "\<forall>a \<in> set (numbered (bl_actions b)). wholeDelay a")
    case True
    then have acts: "readActions (JArr (map JObj (numbered (bl_actions b)))) = Some (map actionDto (numbered (bl_actions b)))"
      using readAll_map [of "numbered (bl_actions b)" readAction JObj actionDto] action_read(1) as
      by (simp add: readActions_def list_all_iff)
    have "list_all validAction (map actionDto (numbered (bl_actions b))) \<longleftrightarrow>
        (\<forall>a \<in> set (numbered (bl_actions b)). \<exists>n \<ge> 0. delayOf a = Some (JNum n))"
      using True as action_read(2) by (auto simp: list_all_iff)
    also have "\<dots> \<longleftrightarrow> (\<forall>a \<in> set (bl_actions b). \<exists>n \<ge> 0. delayOf a = Some (JNum n))"
      using delay_numbered numbered_delay by metis
    finally have "validCreate (savedDto b) \<longleftrightarrow> (\<forall>a \<in> set (bl_actions b). \<exists>n \<ge> 0. delayOf a = Some (JNum n))"
      using t by (auto simp: validCreate_def savedDto_def validTrigger_def TRIGGER_OPTIONS_def TRIGGER_TYPES_def)
    then show ?thesis
      by (simp add: readCreate_def payload_keys payload_props reqProp_def optProp_def t(2) acts savedDto_def Let_def split: if_splits)
  next
    case False
    then obtain a where a: "a \<in> set (numbered (bl_actions b))" "\<not> wholeDelay a" by blast
    then obtain n where n: "delayOf a = Some (fieldJson n)"
      using as by (auto simp: list_all_iff builtAction_def delayOf_def)
    then obtain s where "delayOf a = Some (JFrac s)"
      using a(2) by (cases n) (auto simp: wholeDelay_def)
    then have "readAll readAction (map JObj (numbered (bl_actions b))) = None"
      using a(1) fraction_refused by (intro readAll_None [of "JObj a"]) auto
    then have "readCreate (savePayload b) = None"
      by (simp add: readCreate_def payload_keys payload_props reqProp_def optProp_def readActions_def Option.bind_eq_None_conv
          split: if_splits)
    moreover have "\<not> (\<forall>a \<in> set (bl_actions b). \<exists>n \<ge> 0. delayOf a = Some (JNum n))"
      using a delay_numbered by (metis wholeDelay_def)
    ultimately show ?thesis by simp
  qed
qed

lemma createWorkflow_stored:
  assumes "tenantExists t w" and "list_all storableAction (cw_actions dto)"
  shows "\<exists>v f. fst (createWorkflow now t dto w) = Inr v \<and> w_workflows (snd (createWorkflow now t dto w)) = w_workflows w @ [f] \<and>
    workflow_tenantId f = t \<and> workflow_name f = cw_name dto \<and> workflow_isActive f = coalesce (cw_isActive dto) True \<and>
    workflow_triggerType f = Some (td_type (cw_trigger dto)) \<and> map stored (workflow_actions f) = map asked (cw_actions dto)"
proof -
  let ?rows = "fst (createActions (cw_actions dto) (bump w))"
  define f where "f = \<lparr>workflow_id = newId w, workflow_tenantId = t, workflow_name = cw_name dto,
                    workflow_isActive = coalesce (cw_isActive dto) True,
                    workflow_triggerType = Some (td_type (cw_trigger dto)), workflow_actions = ?rows,
                    workflow_isDemoData = False, workflow_description = cw_description dto,
                    workflow_triggerConfig = coalesce (td_config (cw_trigger dto)) (JObj []),
                    workflow_createdAt = now\<rparr>"
  have "workflow_id f = newId w \<and> workflow_tenantId f = t" by (simp add: f_def)
  then have "List.find (\<lambda>x. workflow_id x = newId w \<and> workflow_tenantId x = t) (w_workflows w @ [f]) \<noteq> None"
    unfolding find_None_iff by auto
  then obtain g where "List.find (\<lambda>x. workflow_id x = newId w \<and> workflow_tenantId x = t) (w_workflows w @ [f]) = Some g"
    by blast
  then have "\<exists>v. findOneWorkflow t (newId w) (w\<lparr>w_next := x, w_workflows := w_workflows w @ [f]\<rparr>) = Inr v" for x
    by (simp add: findOneWorkflow_def)
  then obtain v where "findOneWorkflow t (newId w)
      (w\<lparr>w_next := Suc (w_next w + length (cw_actions dto)), w_workflows := w_workflows w @ [f]\<rparr>) = Inr v"
    by blast
  moreover have "createWorkflow now t dto w = (findOneWorkflow t (newId w)
      (w\<lparr>w_next := Suc (w_next w + length (cw_actions dto)), w_workflows := w_workflows w @ [f]\<rparr>),
      w\<lparr>w_next := Suc (w_next w + length (cw_actions dto)), w_workflows := w_workflows w @ [f]\<rparr>)"
    using assms by (simp add: createWorkflow_def case_prod_beta Let_def readA_def createActions_rows(3) bump_def f_def)
  ultimately show ?thesis by (simp add: f_def createActions_stored)
qed

text \<open>The step that an object of the builder shows at a place\<close>

fun shownCondition :: "json \<Rightarrow> workflowCondition" where
  "shownCondition j = (let c = coalesce (asObj j) [] in
     \<lparr>workflowCondition_conditionType = textAt c ''conditionType'', workflowCondition_operator = textAt c ''operator'',
      workflowCondition_value = textAt c ''value''\<rparr>)"

definition shownStep :: "nat \<times> jsObj \<Rightarrow> int \<times> string \<times> json \<times> int \<times> workflowCondition list" where
  "shownStep = (\<lambda>(i, a). (int i, textAt a ''type'', the (map_of a ''config''), numberAt a ''delayMinutes'',
     map shownCondition (conditionsOf a)))"

lemma condition_shown:
  assumes "builtCondition j"
  shows "conditionRow (conditionDto j) = shownCondition j"
proof -
  obtain c where c: "j = JObj c" "builtCondition (JObj c)" using assms by (cases j) auto
  have k: "onlyKeys [''conditionType'', ''operator'', ''value'', ''actionId''] c" "map_of c ''actionId'' = None"
    using c(2) by (auto simp: onlyKeys_def list_all_iff map_of_eq_None_iff)
  then show ?thesis
    using c by (auto simp: conditionDto_def readCondition_def reqProp_def optProp_def conditionRow_def textAt_def)
qed

lemma step_shown:
  assumes "builtAction a"
  shows "asked (actionDto (AList.update ''stepOrder'' (JNum (int i)) a)) = shownStep (i, a)"
proof -
  have "map (conditionRow \<circ> conditionDto) (conditionsOf a) = map shownCondition (conditionsOf a)"
    using built_conditionsOf [OF assms] condition_shown by (auto simp: list_all_iff)
  moreover obtain c where "map_of a ''config'' = Some c" using assms by (auto simp: builtAction_def)
  ultimately show ?thesis
    by (simp add: asked_def actionDto_def shownStep_def numberAt_def textAt_def reqProp_def update_conv' conditionsOf_def)
qed

lemma steps_shown:
  "list_all builtAction as \<Longrightarrow> map asked (map actionDto (numbered as)) = map shownStep (enumerate 0 as)"
  by (auto simp: numbered_def list_all_iff in_set_enumerate_eq step_shown [symmetric])

lemma storable_numbered:
  assumes "list_all builtAction as" and "\<forall>a \<in> set as. \<exists>n \<ge> 0. delayOf a = Some (JNum n)" and "length as \<le> 2 ^ 31"
  shows "list_all storableAction (map actionDto (numbered as)) \<longleftrightarrow>
    (\<forall>a \<in> set as. \<forall>n. delayOf a = Some (JNum n) \<longrightarrow> n \<le> 2147483647)"
proof -
  have one: "storableAction (actionDto (AList.update ''stepOrder'' (JNum (int i)) a)) \<longleftrightarrow>
      (\<forall>n. delayOf a = Some (JNum n) \<longrightarrow> n \<le> 2147483647)"
    if i: "i < length as" and a: "a \<in> set as" for i a
  proof -
    obtain n where n: "0 \<le> n" "delayOf a = Some (JNum n)" using assms(2) a by blast
    have "fitsInt (int i)" using i assms(3) by (simp add: fitsInt_def)
    then show ?thesis
      using n by (auto simp: storableAction_def fitsInt_def actionDto_def numberAt_def reqProp_def update_conv' delayOf_def)
  qed
  have "list_all storableAction (map actionDto (numbered as)) \<longleftrightarrow>
      (\<forall>i < length as. storableAction (actionDto (AList.update ''stepOrder'' (JNum (int i)) (as ! i))))"
    by (auto simp: list_all_length numbered_def nth_enumerate_eq)
  also have "\<dots> \<longleftrightarrow> (\<forall>i < length as. \<forall>n. delayOf (as ! i) = Some (JNum n) \<longrightarrow> n \<le> 2147483647)"
    using one by auto
  also have "\<dots> \<longleftrightarrow> (\<forall>a \<in> set as. \<forall>n. delayOf a = Some (JNum n) \<longrightarrow> n \<le> 2147483647)"
    by (metis in_set_conv_nth)
  finally show ?thesis .
qed

lemma built_save:
  assumes "bl_id b = None" and "builtBuilder b" and "trim (bl_name b) \<noteq> []" and "bl_actions b \<noteq> []"
  shows "handleSave now t b w = map_prod saveResult id (postAutomation now t (savePayload b) w)"
proof -
  obtain k where "map_of (bl_trigger b) ''type'' = Some (JStr k)" "k \<in> set TRIGGER_OPTIONS"
    using assms(2) trigger_read [of "bl_trigger b"] by (auto simp: builtBuilder_def)
  moreover from this(2) have "k \<noteq> []" by (auto simp: TRIGGER_OPTIONS_def)
  ultimately show ?thesis using assms by (simp add: handleSave_def)
qed

text \<open>
  C32: What is built is saved, when its delays are whole minutes that fit. Whatever the user enters into a builder
  opened on nothing, as soon as it has a name and a step (and at most 2147483648 steps), saving it has one of three
  outcomes: with a delay that is negative or not a whole number, which the page lets pass, the API refuses the request;
  with one of more than 2147483647 minutes the database does, with an error; in both cases nothing changes. Otherwise
  it is accepted, and the tenant has exactly one more workflow, active, with the name and the trigger of the builder
  and its steps in their order, numbered from 0.
\<close>

theorem built_automation_is_saved:
  assumes "tenantExists t w" and "list_all enterable es"
    and "trim (bl_name (built es)) \<noteq> []" and "bl_actions (built es) \<noteq> []" and "length (bl_actions (built es)) \<le> 2 ^ 31"
  shows "let b = built es; delays = map (\<lambda>a. map_of a ''delayMinutes'') (bl_actions b)
    in (\<forall>d \<in> set delays. (\<exists>n. d = Some (JNum n)) \<or> (\<exists>s. d = Some (JFrac s))) \<and>
       (if \<exists>d \<in> set delays. (\<exists>s. d = Some (JFrac s)) \<or> (\<exists>n < 0. d = Some (JNum n))
        then handleSave now t b w = (Refused, w)
        else if \<exists>d \<in> set delays. \<exists>n > 2147483647. d = Some (JNum n)
        then handleSave now t b w = (Failed INT_OVERFLOW, w)
        else \<exists>v f. fst (handleSave now t b w) = Saved v \<and>
          w_workflows (snd (handleSave now t b w)) = w_workflows w @ [f] \<and>
          workflow_tenantId f = t \<and> workflow_isActive f \<and> workflow_name f = trim (bl_name b) \<and>
          map_of (bl_trigger b) ''type'' = map_option JStr (workflow_triggerType f) \<and>
          map stored (workflow_actions f) = map shownStep (enumerate 0 (bl_actions b)))"
proof -
  let ?b = "built es" and ?dto = "savedDto (built es)"
  have b: "builtBuilder ?b" using assms(2) by (rule built_sound)
  have as: "list_all builtAction (bl_actions ?b)" using b by (simp add: builtBuilder_def)
  have save: "handleSave now t ?b w = map_prod saveResult id (postAutomation now t (savePayload ?b) w)"
    by (rule built_save [OF _ b assms(3,4)]) (simp add: built_def openBuilder_def)
  note read = payload_read [OF b]
  have num: "\<forall>a \<in> set (bl_actions ?b). \<exists>n. delayOf a = Some (fieldJson n)"
    using as by (auto simp: list_all_iff builtAction_def delayOf_def)
  then have kinds: "\<forall>a \<in> set (bl_actions ?b). (\<exists>n. delayOf a = Some (JNum n)) \<or> (\<exists>s. delayOf a = Some (JFrac s))"
    by (metis FieldNumber.exhaust fieldJson.simps)
  let ?bad = "\<exists>a \<in> set (bl_actions ?b). (\<exists>s. delayOf a = Some (JFrac s)) \<or> (\<exists>n < 0. delayOf a = Some (JNum n))"
  let ?long = "\<exists>a \<in> set (bl_actions ?b). \<exists>n > 2147483647. delayOf a = Some (JNum n)"
  have refused: "handleSave now t ?b w = (Refused, w)" if ?bad
  proof -
    have "\<not> (\<forall>a \<in> set (bl_actions ?b). \<exists>n \<ge> 0. delayOf a = Some (JNum n))" using that by fastforce
    then show ?thesis by (simp add: save read postAutomation_def saveResult_def)
  qed
  have good: "\<forall>a \<in> set (bl_actions ?b). \<exists>n \<ge> 0. delayOf a = Some (JNum n)" if "\<not> ?bad"
    using that kinds by (metis not_less)
  have taken: "handleSave now t ?b w = map_prod (\<lambda>r. saveResult (map_sum id Some r)) id (createWorkflow now t ?dto w)"
    if "\<not> ?bad"
    using good [OF that]
    by (cases "createWorkflow now t ?dto w")
       (auto simp: save read postAutomation_def request_taken bindA_def returnA_def saveResult_def split: sum.split)
  have fits: "list_all storableAction (cw_actions ?dto) \<longleftrightarrow> \<not> ?long" if "\<not> ?bad"
    using storable_numbered [OF as good [OF that] assms(5)] by (simp add: savedDto_def) (meson not_le)
  have overflow: "handleSave now t ?b w = (Failed INT_OVERFLOW, w)" if "\<not> ?bad" ?long
    using taken [OF that(1)] fits [OF that(1)] that(2) assms(1) by (simp add: createWorkflow_def saveResult_def)
  have saved: "\<exists>v f. fst (handleSave now t ?b w) = Saved v \<and>
      w_workflows (snd (handleSave now t ?b w)) = w_workflows w @ [f] \<and>
      workflow_tenantId f = t \<and> workflow_isActive f \<and> workflow_name f = trim (bl_name ?b) \<and>
      map_of (bl_trigger ?b) ''type'' = map_option JStr (workflow_triggerType f) \<and>
      map stored (workflow_actions f) = map shownStep (enumerate 0 (bl_actions ?b))" if "\<not> ?bad" "\<not> ?long"
  proof -
    obtain k c where k: "map_of (bl_trigger ?b) ''type'' = Some (JStr k)"
      "readTrigger (JObj (bl_trigger ?b)) = Some \<lparr>td_type = k, td_config = Some (JObj c)\<rparr>"
      using b trigger_read [of "bl_trigger ?b"] by (auto simp: builtBuilder_def)
    have dto: "cw_name ?dto = trim (bl_name ?b)" "cw_isActive ?dto = Some True" "td_type (cw_trigger ?dto) = k"
      "cw_actions ?dto = map actionDto (numbered (bl_actions ?b))"
      using k(2) by (simp_all add: savedDto_def)
    have store: "list_all storableAction (cw_actions ?dto)" using fits that by blast
    obtain v f where f: "fst (createWorkflow now t ?dto w) = Inr v"
      "w_workflows (snd (createWorkflow now t ?dto w)) = w_workflows w @ [f]"
      "workflow_tenantId f = t" "workflow_name f = trim (bl_name ?b)" "workflow_isActive f"
      "workflow_triggerType f = Some k" "map stored (workflow_actions f) = map asked (map actionDto (numbered (bl_actions ?b)))"
      using createWorkflow_stored [OF assms(1) store, of now] unfolding dto by auto
    then show ?thesis
      using taken [OF that(1)] k(1) steps_shown [OF as]
      by (simp add: saveResult_def map_prod_def split_beta del: map_map)
  qed
  show ?thesis
    unfolding Let_def using kinds refused overflow saved by (auto simp: delayOf_def simp del: map_map)
qed

section \<open>Saving what was saved\<close>

lemma edit_trigger: "map_of (bl_trigger b) ''id'' \<noteq> None \<Longrightarrow> map_of (bl_trigger (edit e b)) ''id'' \<noteq> None"
  by (cases e) (auto simp: addAction_def deleteAction_def updateAction_def update_conv' split: Selection.split)

lemma fold_edit_trigger: "map_of (bl_trigger b) ''id'' \<noteq> None \<Longrightarrow> map_of (bl_trigger (fold edit es b)) ''id'' \<noteq> None"
proof (induction es arbitrary: b)
  case (Cons e es)
  then show ?case by (metis edit_trigger fold_simps(2))
qed simp

lemma stored_trigger_refused:
  assumes "map_of x ''id'' \<noteq> None"
  shows "readTrigger (JObj x) = None"
proof -
  obtain v where "(''id'', v) \<in> set x" using assms by (metis map_of_SomeD not_None_eq)
  then have "\<not> onlyKeys [''type'', ''config''] x" by (force simp: onlyKeys_def list_all_iff)
  then show ?thesis by (simp add: readTrigger_def)
qed

text \<open>
  C33: A saved automation cannot be edited. The page sends the trigger back with the id that came with it, which the
  validation of the API refuses. Whatever the user enters into a builder opened on a listed automation: saving it
  ends in an error and changes nothing.
\<close>

theorem saved_automation_cannot_be_edited:
  assumes "workflow_triggerType f \<noteq> None"
  shows "handleSave now t (fold edit es (openBuilder (Some (workflowJson R (f, n))))) w = (Refused, w) \<or>
    (\<exists>m. handleSave now t (fold edit es (openBuilder (Some (workflowJson R (f, n))))) w = (Incomplete m, w))"
proof -
  let ?o = "openBuilder (Some (workflowJson R (f, n)))"
  let ?b = "fold edit es ?o"
  have "map_of (bl_trigger ?o) ''id'' \<noteq> None"
    using assms by (auto simp: openBuilder_def workflowJson_def triggerJson_def)
  then have "readTrigger (JObj (bl_trigger ?b)) = None"
    by (intro stored_trigger_refused fold_edit_trigger)
  then have "readUpdate (savePayload ?b) = None"
    by (simp add: readUpdate_def payload_keys payload_props optProp_def split: if_splits)
  moreover have "bl_id ?b = Some (workflow_id f)" by (simp add: openBuilder_def workflowJson_def)
  ultimately show ?thesis by (simp add: handleSave_def patchAutomation_def saveResult_def)
qed

section \<open>Concrete runs\<close>

lemma saveResult_complete: "map_prod saveResult id r \<noteq> (Incomplete m, v)"
  by (cases r) (auto simp: saveResult_def split: sum.splits option.splits)

definition officeWorld :: world where
  "officeWorld = demoWorld [demoTenant PLAN_SMS ACTIVE False 0]"

definition demoInputs :: "Input list" where
  "demoInputs = [Name ''Thanks'', PickTrigger ''appointment_completed'', AddStep, AddStep, PickAction ''add_tag'',
     Config ''tag'' ''vip'', AddCondition, ChangeCondition 0 Operand ''COMPLETED'', DeleteStep 0, AddStep, Delay (Whole 60)]"

theorem built_automation_is_saved_witness:
  "\<exists>v f. fst (handleSave 5 ''t1'' (built demoInputs) officeWorld) = Saved v \<and> workflow_name f = ''Thanks'' \<and>
    w_workflows (snd (handleSave 5 ''t1'' (built demoInputs) officeWorld)) = [f] \<and>
    map (\<lambda>a. (workflowAction_stepOrder a, workflowAction_type a)) (workflow_actions f) = [(0, ''add_tag''), (1, ''send_sms'')]"
proof -
  have d: "list_all enterable demoInputs"
    by (simp add: demoInputs_def TRIGGER_OPTIONS_def ACTION_OPTIONS_def)
  have n: "map (\<lambda>a. map_of a ''delayMinutes'') (bl_actions (built demoInputs)) = [Some (JNum 0), Some (JNum 60)]"
    and l: "length (bl_actions (built demoInputs)) = 2"
    by code_simp+
  have b: "trim (bl_name (built demoInputs)) = ''Thanks''" "bl_actions (built demoInputs) \<noteq> []"
    "map (fst \<circ> shownStep) (enumerate 0 (bl_actions (built demoInputs))) = [0, 1]"
    "map ((fst \<circ> snd) \<circ> shownStep) (enumerate 0 (bl_actions (built demoInputs))) = [''add_tag'', ''send_sms'']"
    by code_simp+
  have t: "tenantExists ''t1'' officeWorld" "w_workflows officeWorld = []"
    by (simp_all add: officeWorld_def) (simp add: demoWorld_def emptyWorld_def)
  obtain v f where r: "fst (handleSave 5 ''t1'' (built demoInputs) officeWorld) = Saved v"
    "w_workflows (snd (handleSave 5 ''t1'' (built demoInputs) officeWorld)) = [f]" "workflow_name f = ''Thanks''"
    "map stored (workflow_actions f) = map shownStep (enumerate 0 (bl_actions (built demoInputs)))"
    using built_automation_is_saved [OF t(1) d, of 5] b(1,2) t(2) l unfolding Let_def n by auto
  have "map (\<lambda>a. (workflowAction_stepOrder a, workflowAction_type a)) (workflow_actions f) =
      map (\<lambda>x. (fst x, fst (snd x))) (map stored (workflow_actions f))"
    by (simp add: stored_def)
  also have "\<dots> = [(0, ''add_tag''), (1, ''send_sms'')]"
    unfolding r(4) by code_simp
  finally show ?thesis using r(1-3) by (intro exI conjI) assumption+
qed

theorem saved_automation_cannot_be_edited_witness:
  "handleSave 5 ''t1'' (fold edit [Name ''Better name''] (openBuilder (Some (workflowJson (\<lambda>k i. JNull) (demoFlow, 0))))) flowWorld =
     (Refused, flowWorld)"
proof -
  define b where "b = fold edit [Name ''Better name''] (openBuilder (Some (workflowJson (\<lambda>k i. JNull) (demoFlow, 0))))"
  have "trim (bl_name b) \<noteq> []" "jtruthy (map_of (bl_trigger b) ''type'')" "bl_actions b \<noteq> []"
    unfolding b_def by code_simp+
  then have "\<not> (\<exists>m. handleSave 5 ''t1'' b flowWorld = (Incomplete m, flowWorld))"
    by (simp add: handleSave_def saveResult_complete)
  moreover have "workflow_triggerType demoFlow \<noteq> None" by (simp add: demoFlow_def)
  ultimately show ?thesis
    using saved_automation_cannot_be_edited [of demoFlow 5 "''t1''" "[Name ''Better name'']" "\<lambda>k i. JNull" 0 flowWorld] b_def by blast
qed

text \<open>The defaults that the page offers are accepted, all three.\<close>

lemma defaults_accepted: "list_all (\<lambda>d. readCreate d \<noteq> None) defaultAutomations"
  by code_simp

end
