(* ===== verification/Locations_Templates.thy ===== *)
theory Locations_Templates
  imports Reminder_Rules Workflow_Actions Request_Bodies
begin

text \<open>
  \<open>modules/locations\<close> and \<open>modules/template\<close>: the places of a tenant and its message templates, with their DTOs.
  An update leaves a column as it is when its property is absent. The database's text order is an argument,
  \<open>collate\<close>.
\<close>

section \<open>Locations\<close>

record LocationDto =
  ld_name :: "string option"
  ld_address :: "string option"
  ld_timezone :: "string option"
  ld_phone :: "string option"
  ld_isActive :: "bool option"

definition locationValues :: "LocationDto \<Rightarrow> (string \<times> json) list" where
  "locationValues d = opt ''name'' JStr (ld_name d) @ opt ''address'' JStr (ld_address d) @
     opt ''timezone'' JStr (ld_timezone d) @ opt ''phone'' JStr (ld_phone d) @ opt ''isActive'' JBool (ld_isActive d)"

definition locationKeys :: "string list" where
  "locationKeys = [''name'', ''address'', ''timezone'', ''phone'']"

definition readCreateLocation :: "jsObj \<Rightarrow> LocationDto option" where
  "readCreateLocation obj =
     (if \<not> onlyKeys locationKeys obj then None
      else Option.bind (reqProp (asText 120) obj ''name'') (\<lambda>name.
           Option.bind (optProp (asText 300) obj ''address'') (\<lambda>address.
           Option.bind (optProp (asText 80) obj ''timezone'') (\<lambda>zone.
           Option.bind (optProp (asText 30) obj ''phone'') (\<lambda>phone.
           Some \<lparr>ld_name = Some name, ld_address = address, ld_timezone = zone, ld_phone = phone, ld_isActive = None\<rparr>)))))"

definition readUpdateLocation :: "jsObj \<Rightarrow> LocationDto option" where
  "readUpdateLocation obj =
     (if \<not> onlyKeys (locationKeys @ [''isActive'']) obj then None
      else Option.bind (optProp (asText 120) obj ''name'') (\<lambda>name.
           Option.bind (optProp (asText 300) obj ''address'') (\<lambda>address.
           Option.bind (optProp (asText 80) obj ''timezone'') (\<lambda>zone.
           Option.bind (optProp (asText 30) obj ''phone'') (\<lambda>phone.
           Option.bind (optProp asBool obj ''isActive'') (\<lambda>active.
           Some \<lparr>ld_name = name, ld_address = address, ld_timezone = zone, ld_phone = phone, ld_isActive = active\<rparr>))))))"

text \<open>The audit entries of both services\<close>

definition changeEntry ::
  "uuid \<Rightarrow> uuid \<Rightarrow> string \<Rightarrow> uuid \<Rightarrow> (string \<times> json) list \<Rightarrow> (string \<times> json) list \<Rightarrow> AuditLogEntry" where
  "changeEntry t u entity i old new = \<lparr>entry_tenantId = t, entry_userId = Some u, entry_action = ''UPDATE'',
     entry_entity = entity, entry_entityId = i, entry_oldValues = Some (JObj old), entry_newValues = Some (JObj new)\<rparr>"

definition deleteEntry :: "uuid \<Rightarrow> uuid \<Rightarrow> string \<Rightarrow> uuid \<Rightarrow> AuditLogEntry" where
  "deleteEntry t u entity i = \<lparr>entry_tenantId = t, entry_userId = Some u, entry_action = ''DELETE'',
     entry_entity = entity, entry_entityId = i, entry_oldValues = None, entry_newValues = None\<rparr>"

definition createLocation :: "uuid \<Rightarrow> uuid \<Rightarrow> LocationDto \<Rightarrow> location act" where
  "createLocation tenantId userId dto w =
     (if \<not> tenantExists tenantId w then (Inl (PrismaError ''P2003''), w)
      else let l = \<lparr>location_id = newId w, location_tenantId = tenantId, location_name = coalesce (ld_name dto) [],
                 location_address = ld_address dto, location_timezone = coalesce (ld_timezone dto) ''UTC'',
                 location_phone = ld_phone dto, location_isActive = True\<rparr>
           in thenA (modifyA (\<lambda>w. bump (w\<lparr>w_locations := w_locations w @ [l]\<rparr>)))
                (thenA (audit_log (auditEntry tenantId (Some userId) ''CREATE'' ''Location'' (location_id l) (locationValues dto)))
                   (returnA l)) w)"

definition bookedAt :: "uuid \<Rightarrow> world \<Rightarrow> appointment list" where
  "bookedAt i w = filter (\<lambda>a. appointment_locationId a = Some i) (w_appointments w)"

definition findAllLocations :: "(string \<Rightarrow> int) \<Rightarrow> uuid \<Rightarrow> world \<Rightarrow> (location \<times> nat) list" where
  "findAllLocations collate tenantId w =
     map (\<lambda>l. (l, length (bookedAt (location_id l) w)))
       (order_asc (\<lambda>l. collate (location_name l)) (filter (\<lambda>l. location_tenantId l = tenantId) (w_locations w)))"

record LocationView =
  lv_location :: location
  lv_upcoming :: "(appointment \<times> customer option) list"
  lv_appointmentCount :: nat

definition findOneLocation :: "instant \<Rightarrow> uuid \<Rightarrow> uuid \<Rightarrow> LocationView act" where
  "findOneLocation now tenantId i w =
     (case List.find (\<lambda>l. location_id l = i \<and> location_tenantId l = tenantId) (w_locations w) of
        None \<Rightarrow> (Inl (NotFoundException ''Location not found''), w)
      | Some l \<Rightarrow>
          let upcoming = take 10 (order_asc appointment_scheduledAt (filter (\<lambda>a. appointment_status a \<in> {A_SCHEDULED, A_CONFIRMED} \<and>
                now \<le> appointment_scheduledAt a) (bookedAt i w)))
          in (Inr \<lparr>lv_location = l,
                lv_upcoming = map (\<lambda>a. (a, Option.bind (appointment_customerId a)
                  (\<lambda>c. List.find (\<lambda>x. customer_id x = c) (w_customers w)))) upcoming,
                lv_appointmentCount = length (bookedAt i w)\<rparr>, w))"

definition applyLocationDto :: "LocationDto \<Rightarrow> location \<Rightarrow> location" where
  "applyLocationDto d l = l\<lparr>location_name := coalesce (ld_name d) (location_name l),
     location_address := orKeep (ld_address d) (location_address l),
     location_timezone := coalesce (ld_timezone d) (location_timezone l),
     location_phone := orKeep (ld_phone d) (location_phone l),
     location_isActive := coalesce (ld_isActive d) (location_isActive l)\<rparr>"

definition nullable :: "string option \<Rightarrow> json" where
  "nullable s = (case s of None \<Rightarrow> JNull | Some x \<Rightarrow> JStr x)"

definition updateLocation :: "instant \<Rightarrow> uuid \<Rightarrow> uuid \<Rightarrow> uuid \<Rightarrow> LocationDto \<Rightarrow> location act" where
  "updateLocation now tenantId userId i dto =
     bindA (findOneLocation now tenantId i) (\<lambda>view. let existing = lv_location view in
       thenA (modifyA (\<lambda>w. w\<lparr>w_locations := update_where (\<lambda>l. location_id l = i) (applyLocationDto dto) (w_locations w)\<rparr>))
         (thenA (audit_log (changeEntry tenantId userId ''Location'' i
              [(''name'', JStr (location_name existing)), (''address'', nullable (location_address existing)),
               (''isActive'', JBool (location_isActive existing))] (locationValues dto)))
            (returnA (applyLocationDto dto existing))))"

text \<open>The tenant's appointments lose the location first; the database clears what else refers to it.\<close>

definition clearLocation :: "(appointment \<Rightarrow> bool) \<Rightarrow> uuid \<Rightarrow> appointment list \<Rightarrow> appointment list" where
  "clearLocation p i = update_where (\<lambda>a. p a \<and> appointment_locationId a = Some i) (\<lambda>a. a\<lparr>appointment_locationId := None\<rparr>)"

definition removeLocation :: "instant \<Rightarrow> uuid \<Rightarrow> uuid \<Rightarrow> uuid \<Rightarrow> unit act" where
  "removeLocation now tenantId userId i =
     bindA (findOneLocation now tenantId i) (\<lambda>_.
       thenA (modifyA (\<lambda>w. w\<lparr>w_appointments := clearLocation (\<lambda>a. appointment_tenantId a = tenantId) i (w_appointments w)\<rparr>))
         (thenA (modifyA (\<lambda>w. w\<lparr>w_locations := delete_where (\<lambda>l. location_id l = i) (w_locations w),
              w_appointments := clearLocation (\<lambda>_. True) i (w_appointments w)\<rparr>))
            (audit_log (deleteEntry tenantId userId ''Location'' i))))"

definition findAllSlim :: "(string \<Rightarrow> int) \<Rightarrow> uuid \<Rightarrow> world \<Rightarrow> (uuid \<times> string \<times> string \<times> string option) list" where
  "findAllSlim collate tenantId w =
     map (\<lambda>l. (location_id l, location_name l, location_timezone l, location_phone l))
       (order_asc (\<lambda>l. collate (location_name l))
         (filter (\<lambda>l. location_tenantId l = tenantId \<and> location_isActive l) (w_locations w)))"

section \<open>Templates\<close>

record TemplateDto =
  pd_name :: "string option"
  pd_channel :: "ChannelType option"
  pd_subject :: "string option"
  pd_body :: "string option"
  pd_variables :: "string list option"
  pd_isActive :: "bool option"

definition templateValues :: "TemplateDto \<Rightarrow> (string \<times> json) list" where
  "templateValues d = opt ''name'' JStr (pd_name d) @ opt ''channel'' (JStr \<circ> channelName) (pd_channel d) @
     opt ''subject'' JStr (pd_subject d) @ opt ''body'' JStr (pd_body d) @
     opt ''variables'' (\<lambda>vs. JArr (map JStr vs)) (pd_variables d) @ opt ''isActive'' JBool (pd_isActive d)"

definition templateKeys :: "string list" where
  "templateKeys = [''name'', ''channel'', ''subject'', ''body'', ''variables'']"

definition asChannel :: "json \<Rightarrow> ChannelType option" where
  "asChannel j = Option.bind (asStr j) channelNamed"

definition asTexts :: "json \<Rightarrow> string list option" where
  "asTexts j = Option.bind (asArr j) (readAll asStr)"

definition readCreateTemplate :: "jsObj \<Rightarrow> TemplateDto option" where
  "readCreateTemplate obj =
     (if \<not> onlyKeys templateKeys obj then None
      else Option.bind (reqProp asStr obj ''name'') (\<lambda>name.
           Option.bind (optProp asChannel obj ''channel'') (\<lambda>channel.
           Option.bind (optProp asStr obj ''subject'') (\<lambda>subject.
           Option.bind (reqProp asStr obj ''body'') (\<lambda>body.
           Option.bind (optProp asTexts obj ''variables'') (\<lambda>variables.
           Some \<lparr>pd_name = Some name, pd_channel = channel, pd_subject = subject, pd_body = Some body,
                 pd_variables = variables, pd_isActive = None\<rparr>))))))"

definition readUpdateTemplate :: "jsObj \<Rightarrow> TemplateDto option" where
  "readUpdateTemplate obj =
     (if \<not> onlyKeys (templateKeys @ [''isActive'']) obj then None
      else Option.bind (optProp asStr obj ''name'') (\<lambda>name.
           Option.bind (optProp asChannel obj ''channel'') (\<lambda>channel.
           Option.bind (optProp asStr obj ''subject'') (\<lambda>subject.
           Option.bind (optProp asStr obj ''body'') (\<lambda>body.
           Option.bind (optProp asTexts obj ''variables'') (\<lambda>variables.
           Option.bind (optProp asBool obj ''isActive'') (\<lambda>active.
           Some \<lparr>pd_name = name, pd_channel = channel, pd_subject = subject, pd_body = body,
                 pd_variables = variables, pd_isActive = active\<rparr>)))))))"

definition createTemplate :: "instant \<Rightarrow> uuid \<Rightarrow> uuid \<Rightarrow> TemplateDto \<Rightarrow> template act" where
  "createTemplate now tenantId userId dto w =
     (if \<not> tenantExists tenantId w then (Inl (PrismaError ''P2003''), w)
      else let t = \<lparr>template_id = newId w, template_tenantId = tenantId, template_body = coalesce (pd_body dto) [],
                 template_name = coalesce (pd_name dto) [], template_channel = coalesce (pd_channel dto) SMS,
                 template_subject = pd_subject dto, template_variables = coalesce (pd_variables dto) [],
                 template_isActive = True, template_createdAt = now\<rparr>
           in thenA (modifyA (\<lambda>w. bump (w\<lparr>w_templates := w_templates w @ [t]\<rparr>)))
                (thenA (audit_log (auditEntry tenantId (Some userId) ''CREATE'' ''Template'' (template_id t) (templateValues dto)))
                   (returnA t)) w)"

definition findAllTemplates :: "uuid \<Rightarrow> world \<Rightarrow> template list" where
  "findAllTemplates tenantId w = order_desc template_createdAt (filter (\<lambda>t. template_tenantId t = tenantId) (w_templates w))"

definition findOneTemplate :: "uuid \<Rightarrow> uuid \<Rightarrow> (template \<times> reminderRule list) act" where
  "findOneTemplate tenantId i w =
     (case List.find (\<lambda>t. template_id t = i \<and> template_tenantId t = tenantId) (w_templates w) of
        None \<Rightarrow> (Inl (NotFoundException ''Template not found''), w)
      | Some t \<Rightarrow> (Inr (t, filter (\<lambda>r. reminderRule_templateId r = Some i) (w_reminderRules w)), w))"

definition applyTemplateDto :: "TemplateDto \<Rightarrow> template \<Rightarrow> template" where
  "applyTemplateDto d t = t\<lparr>template_name := coalesce (pd_name d) (template_name t),
     template_channel := coalesce (pd_channel d) (template_channel t),
     template_subject := orKeep (pd_subject d) (template_subject t),
     template_body := coalesce (pd_body d) (template_body t),
     template_variables := coalesce (pd_variables d) (template_variables t),
     template_isActive := coalesce (pd_isActive d) (template_isActive t)\<rparr>"

definition updateTemplate :: "uuid \<Rightarrow> uuid \<Rightarrow> uuid \<Rightarrow> TemplateDto \<Rightarrow> template act" where
  "updateTemplate tenantId userId i dto =
     bindA (findOneTemplate tenantId i) (\<lambda>(existing, _).
       thenA (modifyA (\<lambda>w. w\<lparr>w_templates := update_where (\<lambda>t. template_id t = i) (applyTemplateDto dto) (w_templates w)\<rparr>))
         (thenA (audit_log (changeEntry tenantId userId ''Template'' i
              [(''name'', JStr (template_name existing)), (''channel'', JStr (channelName (template_channel existing))),
               (''body'', JStr (template_body existing)), (''isActive'', JBool (template_isActive existing))]
              (templateValues dto)))
            (returnA (applyTemplateDto dto existing))))"

text \<open>The rules that use a template lose it with its row (\<open>ON DELETE SET NULL\<close>).\<close>

definition removeTemplate :: "uuid \<Rightarrow> uuid \<Rightarrow> uuid \<Rightarrow> unit act" where
  "removeTemplate tenantId userId i =
     bindA (findOneTemplate tenantId i) (\<lambda>_.
       thenA (modifyA (\<lambda>w. w\<lparr>w_templates := delete_where (\<lambda>t. template_id t = i) (w_templates w),
            w_reminderRules := update_where (\<lambda>r. reminderRule_templateId r = Some i)
              (\<lambda>r. r\<lparr>reminderRule_templateId := None\<rparr>) (w_reminderRules w)\<rparr>))
         (audit_log (deleteEntry tenantId userId ''Template'' i)))"

end
