(* ===== verification/Dashboard_Forms.thy ===== *)
theory Dashboard_Forms
  imports Locations_Templates
begin

text \<open>
  The forms of the dashboard for locations, templates and reminder rules,
  \<open>frontend/src/app/dashboard/{locations,templates,reminders}/page.tsx\<close>, on top of their services. A result \<open>None\<close>
  is a request that the validation refused. \<open>t\<close> and \<open>u\<close> are the tenant and the user signed in.
\<close>

section \<open>Locations\<close>

record LocationForm =
  lf_name :: string
  lf_address :: string
  lf_timezone :: string
  lf_phone :: string
  lf_isActive :: bool

definition emptyLocation :: LocationForm where
  "emptyLocation = \<lparr>lf_name = [], lf_address = [], lf_timezone = ''UTC'', lf_phone = [], lf_isActive = True\<rparr>"

definition openLocation :: "location \<Rightarrow> LocationForm" where
  "openLocation l = \<lparr>lf_name = location_name l, lf_address = coalesce (location_address l) [],
     lf_timezone = location_timezone l, lf_phone = coalesce (location_phone l) [], lf_isActive = location_isActive l\<rparr>"

definition locationPayload :: "LocationForm \<Rightarrow> jsObj" where
  "locationPayload f = [(''name'', JStr (lf_name f))] @ givenText ''address'' (lf_address f) @
     [(''timezone'', JStr (lf_timezone f))] @ givenText ''phone'' (lf_phone f) @ [(''isActive'', JBool (lf_isActive f))]"

definition submitLocation :: "instant \<Rightarrow> uuid \<Rightarrow> uuid \<Rightarrow> uuid option \<Rightarrow> LocationForm \<Rightarrow> location option act" where
  "submitLocation now t u editId f =
     (case editId of
        Some i \<Rightarrow> request readUpdateLocation (updateLocation now t u i) (locationPayload f)
      | None \<Rightarrow> request readCreateLocation (createLocation t u) (locationPayload f))"

definition toggleLocation :: "instant \<Rightarrow> uuid \<Rightarrow> uuid \<Rightarrow> location \<Rightarrow> location option act" where
  "toggleLocation now t u l =
     request readUpdateLocation (updateLocation now t u (location_id l)) [(''isActive'', JBool (\<not> location_isActive l))]"

definition deleteLocation :: "instant \<Rightarrow> uuid \<Rightarrow> uuid \<Rightarrow> bool \<Rightarrow> uuid \<Rightarrow> unit act" where
  "deleteLocation now t u confirmed i = whenA confirmed (removeLocation now t u i)"

section \<open>Templates\<close>

record TemplateForm =
  pf_name :: string
  pf_channel :: string
  pf_body :: string
  pf_subject :: string

definition submitTemplate :: "instant \<Rightarrow> uuid \<Rightarrow> uuid \<Rightarrow> TemplateForm \<Rightarrow> template option act" where
  "submitTemplate now t u f = request readCreateTemplate (createTemplate now t u)
     [(''name'', JStr (pf_name f)), (''channel'', JStr (pf_channel f)), (''body'', JStr (pf_body f)),
      (''subject'', JStr (pf_subject f))]"

definition deleteTemplate :: "uuid \<Rightarrow> uuid \<Rightarrow> bool \<Rightarrow> uuid \<Rightarrow> unit act" where
  "deleteTemplate t u confirmed i = whenA confirmed (removeTemplate t u i)"

section \<open>Reminder rules\<close>

definition readRule :: "bool \<Rightarrow> jsObj \<Rightarrow> ReminderRuleDto option" where
  "readRule creating obj =
     (if \<not> onlyKeys ([''name'', ''channel'', ''templateId'', ''messageTemplate'', ''offsetMinutes'', ''channelStrategyId'',
             ''targetType'', ''targetId''] @ (if creating then [] else [''isActive''])) obj \<or>
          creating \<and> (map_of obj ''name'' \<in> {None, Some JNull} \<or> map_of obj ''offsetMinutes'' \<in> {None, Some JNull})
      then None
      else Option.bind (optProp (asText 120) obj ''name'') (\<lambda>name.
           Option.bind (optProp asChannel obj ''channel'') (\<lambda>channel.
           Option.bind (optProp asStr obj ''templateId'') (\<lambda>templateId.
           Option.bind (optProp (asText 1600) obj ''messageTemplate'') (\<lambda>message.
           Option.bind (optProp (\<lambda>j. Option.bind (asInt j) (\<lambda>n. if 1 \<le> n then Some n else None)) obj ''offsetMinutes'') (\<lambda>offset.
           Option.bind (optProp asBool obj ''isActive'') (\<lambda>active.
           Option.bind (optProp asStr obj ''channelStrategyId'') (\<lambda>strategy.
           Option.bind (optProp (\<lambda>j. Option.bind (asStr j) (\<lambda>s. if s \<in> set [''contact'', ''tag'', ''group'', ''segment'', ''campaign'']
             then Some s else None)) obj ''targetType'') (\<lambda>targetType.
           Option.bind (optProp asStr obj ''targetId'') (\<lambda>targetId.
           Some \<lparr>rd_name = name, rd_channel = channel, rd_templateId = templateId, rd_messageTemplate = message,
                 rd_offsetMinutes = offset, rd_isActive = active, rd_channelStrategyId = strategy,
                 rd_targetType = targetType, rd_targetId = targetId\<rparr>))))))))))"

text \<open>The state of the form: its fields, whether a preset is chosen and which message is.\<close>

datatype OffsetUnit = Minutes | Hours | Days

datatype MessageMode = InlineMessage | TemplateMessage | DefaultMessage

record RuleForm =
  rf_name :: string
  rf_channel :: string
  rf_offsetMinutes :: int
  rf_customOffsetValue :: string
  rf_customOffsetUnit :: OffsetUnit
  rf_messageTemplate :: string
  rf_templateId :: string
  rf_isActive :: bool
  rf_usePreset :: bool
  rf_msgMode :: MessageMode

definition msgModeOf :: "string \<Rightarrow> string \<Rightarrow> MessageMode" where
  "msgModeOf message templateId =
     (if message \<noteq> [] then InlineMessage else if templateId \<noteq> [] then TemplateMessage else DefaultMessage)"

definition defaultRuleForm :: RuleForm where
  "defaultRuleForm = \<lparr>rf_name = [], rf_channel = ''SMS'', rf_offsetMinutes = 1440, rf_customOffsetValue = ''24'',
     rf_customOffsetUnit = Hours, rf_messageTemplate = [], rf_templateId = [], rf_isActive = True,
     rf_usePreset = True, rf_msgMode = DefaultMessage\<rparr>"

definition openRule :: "reminderRule \<Rightarrow> RuleForm" where
  "openRule r =
     (let offset = reminderRule_offsetMinutes r; message = coalesce (reminderRule_messageTemplate r) [];
          templateId = coalesce (reminderRule_templateId r) []
      in \<lparr>rf_name = reminderRule_name r, rf_channel = channelName (reminderRule_channel r), rf_offsetMinutes = offset,
          rf_customOffsetValue = show_int (if offset div 60 = 0 then offset else offset div 60),
          rf_customOffsetUnit = (if offset \<ge> 1440 then Days else if offset \<ge> 60 then Hours else Minutes),
          rf_messageTemplate = message, rf_templateId = templateId, rf_isActive = reminderRule_isActive r,
          rf_usePreset = True, rf_msgMode = msgModeOf message templateId\<rparr>)"

definition PRESETS :: "int list" where
  "PRESETS = [2880, 1440, 720, 240, 120, 60, 30]"

definition resolvedMinutes :: "RuleForm \<Rightarrow> int" where
  "resolvedMinutes f =
     (if rf_usePreset f then rf_offsetMinutes f
      else let n = (case parseInt (rf_customOffsetValue f) of None \<Rightarrow> 1 | Some n \<Rightarrow> if n = 0 then 1 else n)
           in case rf_customOffsetUnit f of Days \<Rightarrow> n * 1440 | Hours \<Rightarrow> n * 60 | Minutes \<Rightarrow> n)"

definition plural :: "int \<Rightarrow> string" where
  "plural n = (if n \<noteq> 1 then ''s'' else [])"

definition offsetLabel :: "int \<Rightarrow> string" where
  "offsetLabel m =
     (if m \<ge> 1440 then let d = m div 1440; hours = (m mod 1440) div 60
        in if hours > 0 then show_int d @ ''d '' @ show_int hours @ ''h before'' else show_int d @ '' day'' @ plural d @ '' before''
      else if m \<ge> 60 then let hours = m div 60; rest = m mod 60
        in if rest > 0 then show_int hours @ ''h '' @ show_int rest @ ''m before''
           else show_int hours @ '' hour'' @ plural hours @ '' before''
      else show_int m @ '' min'' @ plural m @ '' before'')"

definition insertVar :: "string \<Rightarrow> RuleForm \<Rightarrow> RuleForm" where
  "insertVar v f = f\<lparr>rf_messageTemplate := (if rf_messageTemplate f = [] then [] else rf_messageTemplate f @ '' '') @ v\<rparr>"

definition rulePayload :: "RuleForm \<Rightarrow> jsObj" where
  "rulePayload f =
     [(''name'', JStr (rf_name f)), (''channel'', JStr (rf_channel f)), (''offsetMinutes'', JNum (resolvedMinutes f))] @
     givenText ''messageTemplate'' (if rf_msgMode f = InlineMessage then rf_messageTemplate f else []) @
     givenText ''templateId'' (if rf_msgMode f = TemplateMessage then rf_templateId f else [])"

definition saveRule :: "uuid \<Rightarrow> uuid \<Rightarrow> uuid option \<Rightarrow> RuleForm \<Rightarrow> reminderRule option act" where
  "saveRule t u editing f =
     (case editing of
        Some i \<Rightarrow> request (readRule False) (updateRule t u i) (rulePayload f @ [(''isActive'', JBool (rf_isActive f))])
      | None \<Rightarrow> request (readRule True) (createRule t u) (rulePayload f))"

definition toggleRule :: "uuid \<Rightarrow> uuid \<Rightarrow> uuid \<Rightarrow> bool \<Rightarrow> reminderRule option act" where
  "toggleRule t u i active = request (readRule False) (updateRule t u i) [(''isActive'', JBool active)]"

definition deleteRule :: "uuid \<Rightarrow> uuid \<Rightarrow> bool \<Rightarrow> uuid \<Rightarrow> unit act" where
  "deleteRule t u confirmed i = whenA confirmed (removeRule t u i)"

end
