(* ===== verification/Dashboard_Properties.thy ===== *)
theory Dashboard_Properties
  imports Dashboard_Forms Reminder_Properties
begin

text \<open>
  The forms of the dashboard and the services behind them: what a saved form changes and what it cannot change.
\<close>

section \<open>Numbers as text\<close>

lemma digit_char_value: "n < 10 \<Longrightarrow> is_digit (digit_char n) \<and> int (char_code (digit_char n)) - 48 = int n"
proof -
  assume "n < 10"
  then have "n \<in> {0, 1, 2, 3, 4, 5, 6, 7, 8, 9}" by auto
  then show ?thesis by (auto simp: digit_char_def is_digit_def char_code_def)
qed

lemma show_nat_value: "list_all is_digit (show_nat n) \<and> digits_value (show_nat n) = int n"
proof (induction n rule: show_nat.induct)
  case (1 n)
  show ?case
  proof (cases "n < 10")
    case True
    then show ?thesis using digit_char_value by (subst (1 2) show_nat.simps) (simp add: digits_value_def)
  next
    case False
    have "int n = 10 * int (n div 10) + int (n mod 10)" by presburger
    then show ?thesis
      using 1 [OF False] False digit_char_value [of "n mod 10"]
      by (subst (1 2) show_nat.simps) (simp add: digits_value_def)
  qed
qed

lemma digit_plain: "is_digit c \<Longrightarrow> \<not> is_space c \<and> c \<noteq> CHR ''-'' \<and> c \<noteq> CHR ''+''"
  by (auto simp: is_digit_def is_space_def char_code_def)

lemma parseInt_show:
  assumes "0 \<le> i"
  shows "parseInt (show_int i) = Some i"
proof -
  let ?s = "show_nat (nat i)"
  obtain c r where s: "?s = c # r" by (metis neq_Nil_conv show_nat_nonempty)
  have d: "list_all is_digit ?s" "digits_value ?s = i" using show_nat_value assms by simp_all
  have c: "\<not> is_space c" "c \<noteq> CHR ''-''" "c \<noteq> CHR ''+''" using d(1) s digit_plain by simp_all
  have "takeWhile is_digit ?s = ?s" using d(1) by (simp add: list_all_iff takeWhile_eq_all_conv)
  then show ?thesis using assms c d(2) s by (simp add: parseInt_def show_int_def)
qed

section \<open>Reminder rules\<close>

lemma readRule_fields:
  "readRule creating obj = Some d \<Longrightarrow>
     optProp (asText 1600) obj ''messageTemplate'' = Some (rd_messageTemplate d) \<and>
     optProp asStr obj ''templateId'' = Some (rd_templateId d) \<and>
     optProp (\<lambda>j. Option.bind (asInt j) (\<lambda>n. if 1 \<le> n then Some n else None)) obj ''offsetMinutes'' = Some (rd_offsetMinutes d)"
  by (auto simp: readRule_def bind_eq_Some_conv split: if_splits)

lemma rulePayload_props:
  "map_of (rulePayload f @ x) ''messageTemplate'' =
     (if rf_msgMode f = InlineMessage \<and> rf_messageTemplate f \<noteq> [] then Some (JStr (rf_messageTemplate f))
      else map_of x ''messageTemplate'')"
  "map_of (rulePayload f @ x) ''templateId'' =
     (if rf_msgMode f = TemplateMessage \<and> rf_templateId f \<noteq> [] then Some (JStr (rf_templateId f)) else map_of x ''templateId'')"
  "map_of (rulePayload f @ x) ''offsetMinutes'' = Some (JNum (resolvedMinutes f))"
  by (simp_all add: rulePayload_def givenText_def map_add_def)

lemma readRule_update:
  assumes "readRule False (rulePayload f @ [(''isActive'', JBool (rf_isActive f))]) = Some d"
  shows "rd_messageTemplate d = (if rf_msgMode f = InlineMessage \<and> rf_messageTemplate f \<noteq> [] then Some (rf_messageTemplate f) else None)"
    and "rd_templateId d = (if rf_msgMode f = TemplateMessage \<and> rf_templateId f \<noteq> [] then Some (rf_templateId f) else None)"
    and "rd_offsetMinutes d = Some (resolvedMinutes f)"
  using readRule_fields [OF assms]
  by (auto simp: rulePayload_props optProp_def asText_def simp del: map_of_append split: if_splits)

lemma saveRule_updates:
  assumes "findOneRule t i w = (Inr r, w)" and "saveRule t u (Some i) f w = (Inr (Some r'), w')"
  obtains d where "readRule False (rulePayload f @ [(''isActive'', JBool (rf_isActive f))]) = Some d"
    and "r' = applyRuleDto d r" and "findOneRule t i w' = (Inr r', w')"
proof -
  define obj where "obj = rulePayload f @ [(''isActive'', JBool (rf_isActive f))]"
  have sent: "request (readRule False) (updateRule t u i) obj w = (Inr (Some r'), w')"
    using assms(2) by (simp add: saveRule_def obj_def)
  then obtain d where d: "readRule False obj = Some d" by (cases "readRule False obj") auto
  have u: "updateRule t u i d w = (Inr r', w')"
    using sent unfolding request_taken [where read = "readRule False", OF d] bindA_def returnA_def
    by (cases "updateRule t u i d w") (auto split: sum.splits)
  then have links: "linksExist d w"
    using assms(1) by (simp add: updateRule_def split: if_splits)
  then have r': "r' = applyRuleDto d r"
    using u assms(1) by (simp add: updateRule_def)
  have "w_reminderRules w' = update_where (\<lambda>r. reminderRule_id r = i) (applyRuleDto d) (w_reminderRules w)"
    using u links assms(1) by (auto simp: updateRule_def audit_log_def bump_def)
  moreover have "List.find (\<lambda>r. reminderRule_id r = i \<and> reminderRule_tenantId r = t)
      (update_where (\<lambda>r. reminderRule_id r = i) (applyRuleDto d) rs) =
    map_option (applyRuleDto d) (List.find (\<lambda>r. reminderRule_id r = i \<and> reminderRule_tenantId r = t) rs)" for rs
    by (induction rs) (auto simp: applyRuleDto_def)
  ultimately have "findOneRule t i w' = (Inr r', w')"
    using assms(1) r' by (auto simp: findOneRule_def split: option.splits)
  then show thesis using that d r' unfolding obj_def by blast
qed

text \<open>
  C34: A rule keeps its own message. Once a rule has a text of its own, saving its form with another kind of message
  leaves that text in place: a template is stored, but every reminder of the rule still says the old text.
\<close>

theorem rule_message_sticks:
  assumes "findOneRule t i w = (Inr r, w)" and "reminderRule_messageTemplate r = Some m" and "m \<noteq> []"
    and "rf_msgMode f \<noteq> InlineMessage" and "saveRule t u (Some i) f w = (Inr (Some r'), w')"
  shows "findOneRule t i w' = (Inr r', w') \<and> reminderRule_offsetMinutes r' = resolvedMinutes f \<and>
    reminderRule_templateId r' = (if rf_msgMode f = TemplateMessage \<and> rf_templateId f \<noteq> [] then Some (rf_templateId f)
       else reminderRule_templateId r) \<and>
    (\<forall>E v a c k. reminder_messageContent (appointmentReminder E v t a c k r') = Some (resolveTemplate m (appointmentVars E v a c)))"
proof -
  obtain d where d: "readRule False (rulePayload f @ [(''isActive'', JBool (rf_isActive f))]) = Some d"
    "r' = applyRuleDto d r" "findOneRule t i w' = (Inr r', w')"
    using assms(1,5) by (rule saveRule_updates)
  then show ?thesis
    using readRule_update [OF d(1)] assms(2-4)
    by (simp add: applyRuleDto_def orKeep_def appointmentReminder_def ruleMessage_def)
qed

text \<open>
  Asking for a custom time of a rule of whole days reads its hours as days: 48 hours before become 48 days.
\<close>

lemma custom_time_reads_hours_as_days:
  assumes "1440 \<le> reminderRule_offsetMinutes r"
  shows "resolvedMinutes ((openRule r)\<lparr>rf_usePreset := False\<rparr>) = reminderRule_offsetMinutes r div 60 * 1440"
  using assms parseInt_show [of "reminderRule_offsetMinutes r div 60"] zdiv_mono1 [of 1440 "reminderRule_offsetMinutes r" 60]
  by (simp add: resolvedMinutes_def openRule_def Let_def)

section \<open>Locations\<close>

definition fittingLocation :: "LocationForm \<Rightarrow> bool" where
  "fittingLocation f = (length (lf_name f) \<le> 120 \<and> length (lf_address f) \<le> 300 \<and> length (lf_timezone f) \<le> 80 \<and>
     length (lf_phone f) \<le> 30)"

text \<open>
  The form of locations cannot add one. A new location is always refused, since the form sends a property that
  only the change of a location has. A change is taken as it stands, except that an address or a phone number can be
  replaced but not removed.
\<close>

theorem location_form_only_changes:
  assumes "findOneLocation now t i w = (Inr v, w)" and "fittingLocation g"
  shows "submitLocation now t u None f w = (Inr None, w) \<and>
    fst (submitLocation now t u (Some i) g w) = Inr (Some ((lv_location v)\<lparr>location_name := lf_name g,
      location_address := (if lf_address g = [] then location_address (lv_location v) else Some (lf_address g)),
      location_timezone := lf_timezone g,
      location_phone := (if lf_phone g = [] then location_phone (lv_location v) else Some (lf_phone g)),
      location_isActive := lf_isActive g\<rparr>))"
proof -
  have "readCreateLocation (locationPayload f) = None"
    by (simp add: readCreateLocation_def locationPayload_def givenText_def onlyKeys_def locationKeys_def)
  moreover have "readUpdateLocation (locationPayload g) = Some \<lparr>ld_name = Some (lf_name g),
      ld_address = (if lf_address g = [] then None else Some (lf_address g)), ld_timezone = Some (lf_timezone g),
      ld_phone = (if lf_phone g = [] then None else Some (lf_phone g)), ld_isActive = Some (lf_isActive g)\<rparr>"
    using assms(2) by (simp add: readUpdateLocation_def locationPayload_def givenText_def onlyKeys_def locationKeys_def
        reqProp_def optProp_def asText_def fittingLocation_def)
  ultimately show ?thesis
    using assms(1)
    by (simp add: submitLocation_def request_taken updateLocation_def bindA_ok Let_def applyLocationDto_def orKeep_def
        thenA_audit returnA_def bindA_def)
qed

lemma clearLocation_gone: "\<forall>a \<in> set (clearLocation (\<lambda>_. True) i as). appointment_locationId a \<noteq> Some i"
  by (induction as) (auto simp: clearLocation_def)

lemma length_clearLocation [simp]: "length (clearLocation p i as) = length as"
  by (simp add: clearLocation_def)

lemma location_removed:
  assumes "removeLocation now t u i w = (Inr (), w')"
  shows "\<forall>a \<in> set (w_appointments w'). appointment_locationId a \<noteq> Some i"
    and "length (w_appointments w') = length (w_appointments w)" and "i \<notin> location_id ` set (w_locations w')"
proof -
  obtain v where "findOneLocation now t i w = (Inr v, w)"
    using assms by (auto simp: removeLocation_def bindA_def findOneLocation_def Let_def split: option.splits)
  then have "w_appointments w' = clearLocation (\<lambda>_. True) i (clearLocation (\<lambda>a. appointment_tenantId a = t) i (w_appointments w))"
    "w_locations w' = delete_where (\<lambda>l. location_id l = i) (w_locations w)"
    using assms by (auto simp: removeLocation_def bindA_ok audit_log_def bump_def split: if_splits)
  then show "\<forall>a \<in> set (w_appointments w'). appointment_locationId a \<noteq> Some i"
    "length (w_appointments w') = length (w_appointments w)" "i \<notin> location_id ` set (w_locations w')"
    using clearLocation_gone by (simp_all add: delete_where_def) blast?
qed

section \<open>Concrete forms\<close>

definition formOffice :: world where
  "formOffice = (clinic [(demoRule ''r1'' 60)\<lparr>reminderRule_messageTemplate := Some ''See you''\<rparr>])\<lparr>
     w_templates := [\<lparr>template_id = ''p1'', template_tenantId = ''t1'', template_body = ''Come'', template_name = ''Come'',
       template_channel = SMS, template_subject = None, template_variables = [], template_isActive = True,
       template_createdAt = 0\<rparr>],
     w_locations := [\<lparr>location_id = ''l1'', location_tenantId = ''t1'', location_name = ''Main'', location_address = Some ''Street 1'',
       location_timezone = ''UTC'', location_phone = None, location_isActive = True\<rparr>]\<rparr>"

definition templateForm :: RuleForm where
  "templateForm = (openRule ((demoRule ''r1'' 60)\<lparr>reminderRule_messageTemplate := Some ''See you''\<rparr>))\<lparr>
     rf_msgMode := TemplateMessage, rf_templateId := ''p1''\<rparr>"

theorem rule_message_sticks_witness:
  "\<exists>r' w'. saveRule ''t1'' ''u1'' (Some ''r1'') templateForm formOffice = (Inr (Some r'), w') \<and>
     reminderRule_templateId r' = Some ''p1'' \<and>
     reminder_messageContent (appointmentReminder demoEnv w' ''t1'' (demoAppointment 10000000) (demoCustomer False) ''x'' r') =
       Some ''See you''"
proof -
  define r where "r = (demoRule ''r1'' 60)\<lparr>reminderRule_messageTemplate := Some ''See you''\<rparr>"
  have r: "findOneRule ''t1'' ''r1'' formOffice = (Inr r, formOffice)" "reminderRule_messageTemplate r = Some ''See you''"
    by (simp_all add: findOneRule_def formOffice_def clinic_def demoRule_def r_def)
  have f: "rf_msgMode templateForm \<noteq> InlineMessage" "rf_msgMode templateForm = TemplateMessage" "rf_templateId templateForm = ''p1''"
    by (simp_all add: templateForm_def)
  have "case fst (saveRule ''t1'' ''u1'' (Some ''r1'') templateForm formOffice) of Inr (Some _) \<Rightarrow> True | _ \<Rightarrow> False"
    by code_simp
  then obtain r' w' where s: "saveRule ''t1'' ''u1'' (Some ''r1'') templateForm formOffice = (Inr (Some r'), w')"
    by (cases "saveRule ''t1'' ''u1'' (Some ''r1'') templateForm formOffice") (auto split: sum.splits option.splits)
  have "resolveTemplate ''See you'' vars = ''See you''" for vars
    by (simp add: resolveTemplate_def replace_placeholders.simps placeholder_at_def)
  then show ?thesis
    using rule_message_sticks [OF r _ f(1) s] f s by auto
qed

theorem location_form_only_changes_witness:
  "fst (submitLocation 5 ''t1'' ''u1'' None emptyLocation formOffice) = Inr None \<and>
   map_sum id (map_option (\<lambda>l. (location_name l, location_address l))) (fst (submitLocation 5 ''t1'' ''u1'' (Some ''l1'')
     (emptyLocation\<lparr>lf_name := ''North''\<rparr>) formOffice)) = Inr (Some (''North'', Some ''Street 1''))"
proof -
  define v where "v = \<lparr>lv_location = hd (w_locations formOffice), lv_upcoming = [], lv_appointmentCount = 0\<rparr>"
  have "findOneLocation 5 ''t1'' ''l1'' formOffice = (Inr v, formOffice)"
    by (simp add: findOneLocation_def formOffice_def bookedAt_def demoAppointment_def v_def)
  moreover have "fittingLocation (emptyLocation\<lparr>lf_name := ''North''\<rparr>)"
    by (simp add: fittingLocation_def emptyLocation_def)
  moreover have "location_address (lv_location v) = Some ''Street 1''" by (simp add: v_def formOffice_def)
  ultimately show ?thesis
    using location_form_only_changes [of 5 "''t1''" "''l1''" formOffice v "emptyLocation\<lparr>lf_name := ''North''\<rparr>" "''u1''" emptyLocation]
    by (simp add: emptyLocation_def)
qed

end
