(* ===== verification/Api_Routes.thy ===== *)
theory Api_Routes
  imports Client_Session
begin

text \<open>
  The routes of the API and the requests of the pages: each controller's table (method, path, whether \<open>@Public()\<close>,
  the roles of \<open>@Roles()\<close>, handler) in the order of the declarations, the guards of \<open>app.module.ts\<close>, and the requests
  that the files of \<open>frontend/src\<close> make. Controllers share no path, so that the order among them does not matter.
  A part of a path that a page computes is a \<open>Value\<close>, an id that equals no fixed part.
\<close>

datatype HttpMethod = GET | POST | PUT | PATCH | DELETE

datatype Segment = Fixed string | Param

datatype Piece = Text string | Value

record Route =
  ro_method :: HttpMethod
  ro_path :: "Segment list"
  ro_public :: bool
  ro_roles :: "UserRole list"
  ro_handler :: string

definition routesOf :: "Segment list \<Rightarrow> (HttpMethod \<times> Segment list \<times> bool \<times> UserRole list \<times> string) list \<Rightarrow> Route list" where
  "routesOf pre rows = map (\<lambda>(m, p, public, roles, handler).
     \<lparr>ro_method = m, ro_path = pre @ p, ro_public = public, ro_roles = roles, ro_handler = handler\<rparr>) rows"

section \<open>Matching and guards\<close>

fun matches :: "Segment list \<Rightarrow> Piece list \<Rightarrow> bool" where
  "matches [] [] = True"
| "matches (Fixed s # ss) (Text t # ps) = (s = t \<and> matches ss ps)"
| "matches (Param # ss) (p # ps) = matches ss ps"
| "matches _ _ = False"

definition dispatch :: "Route list \<Rightarrow> HttpMethod \<Rightarrow> Piece list \<Rightarrow> Route option" where
  "dispatch routes m path = List.find (\<lambda>r. ro_method r = m \<and> matches (ro_path r) path) routes"

text \<open>
  The first two guards of every route: the token unless the route is public, then the roles. What comes after
  them is no part of the model: the rate limit (\<open>ThrottlerGuard\<close>) and the guards of single routes (the switch of
  the test routes, the strategies of the sign-in with Google and of the refresh token).
\<close>

datatype Refusal = NotRouted | NotSignedIn | NotPermitted

definition jwtAuthGuard :: "UserRole option \<Rightarrow> Route \<Rightarrow> bool" where
  "jwtAuthGuard user r = (ro_public r \<or> user \<noteq> None)"

definition rolesGuard :: "UserRole option \<Rightarrow> Route \<Rightarrow> bool" where
  "rolesGuard user r = (ro_roles r = [] \<or> (case user of None \<Rightarrow> False | Some u \<Rightarrow> u \<in> set (ro_roles r)))"

definition answer :: "Route list \<Rightarrow> UserRole option \<Rightarrow> HttpMethod \<Rightarrow> Piece list \<Rightarrow> Refusal + Route" where
  "answer routes user m path =
     (case dispatch routes m path of
        None \<Rightarrow> Inl NotRouted
      | Some r \<Rightarrow> if \<not> jwtAuthGuard user r then Inl NotSignedIn
                  else if \<not> rolesGuard user r then Inl NotPermitted else Inr r)"

section \<open>The controllers\<close>

definition healthRoutes :: "Route list" where
  "healthRoutes = routesOf [Fixed ''health'']
     [(GET, [], True, [], ''check''),
      (GET, [Fixed ''live''], True, [], ''live''),
      (GET, [Fixed ''ready''], True, [], ''ready'')]"

definition aIRoutes :: "Route list" where
  "aIRoutes = routesOf [Fixed ''ai'']
     [(POST, [Fixed ''generate-template''], False, [], ''generateTemplate''),
      (POST, [Fixed ''improve-template''], False, [], ''improveTemplate''),
      (POST, [Fixed ''change-tone''], False, [], ''changeTone''),
      (POST, [Fixed ''optimize-confirmation''], False, [], ''optimizeConfirmation''),
      (GET, [Fixed ''usage''], False, [], ''getUsage'')]"

definition analyticsRoutes :: "Route list" where
  "analyticsRoutes = routesOf [Fixed ''analytics'']
     [(GET, [Fixed ''dashboard''], False, [], ''getDashboardMetrics''),
      (GET, [Fixed ''hero-metrics''], False, [], ''getHeroMetrics''),
      (GET, [Fixed ''attendance-overview''], False, [], ''getAttendanceOverview''),
      (GET, [Fixed ''confirmation-rate''], False, [], ''getConfirmationRateOverTime''),
      (GET, [Fixed ''no-show-reduction''], False, [], ''getNoShowReduction''),
      (GET, [Fixed ''channel-performance''], False, [], ''getChannelPerformance''),
      (GET, [Fixed ''activity''], False, [], ''getRecentActivity''),
      (GET, [Fixed ''onboarding-progress''], False, [], ''getOnboardingProgress''),
      (GET, [], False, [], ''findAll'')]"

definition appointmentRoutes :: "Route list" where
  "appointmentRoutes = routesOf [Fixed ''appointments'']
     [(POST, [], False, [], ''create''),
      (GET, [], False, [], ''findAll''),
      (GET, [Fixed ''today''], False, [], ''findToday''),
      (GET, [Fixed ''needs-attention''], False, [], ''findNeedsAttention''),
      (GET, [Param], False, [], ''findOne''),
      (GET, [Param, Fixed ''pipeline''], False, [], ''getPipeline''),
      (PUT, [Param], False, [], ''update''),
      (DELETE, [Param], False, [], ''remove'')]"

definition authRoutes :: "Route list" where
  "authRoutes = routesOf [Fixed ''auth'']
     [(POST, [Fixed ''register''], True, [], ''register''),
      (POST, [Fixed ''login''], True, [], ''login''),
      (POST, [Fixed ''refresh''], True, [], ''refreshTokens''),
      (POST, [Fixed ''logout''], False, [], ''logout''),
      (POST, [Fixed ''forgot-password''], True, [], ''forgotPassword''),
      (POST, [Fixed ''reset-password''], True, [], ''resetPassword''),
      (GET, [Fixed ''google''], True, [], ''googleAuth''),
      (GET, [Fixed ''google'', Fixed ''callback''], True, [], ''googleAuthRedirect'')]"

definition automationRoutes :: "Route list" where
  "automationRoutes = routesOf [Fixed ''automations'']
     [(POST, [], False, [], ''create''),
      (GET, [], False, [], ''findAll''),
      (GET, [Fixed ''triggers'', Fixed ''supported''], False, [], ''getSupportedTriggers''),
      (GET, [Fixed ''actions'', Fixed ''supported''], False, [], ''getSupportedActions''),
      (GET, [Param], False, [], ''findOne''),
      (GET, [Param, Fixed ''executions''], False, [], ''getExecutions''),
      (PATCH, [Param], False, [], ''update''),
      (PATCH, [Param, Fixed ''toggle''], False, [], ''toggle''),
      (DELETE, [Param], False, [], ''remove'')]"

definition billingRoutes :: "Route list" where
  "billingRoutes = routesOf [Fixed ''billing'']
     [(GET, [], False, [], ''getBillingInfo''),
      (POST, [Fixed ''subscribe''], False, [], ''subscribe''),
      (POST, [Fixed ''initialize''], False, [], ''initialize''),
      (POST, [Fixed ''initialize-qa''], False, [], ''initializeQa''),
      (POST, [Fixed ''verify''], False, [], ''verify'')]"

definition cryptoWebhookRoutes :: "Route list" where
  "cryptoWebhookRoutes = routesOf [Fixed ''webhooks'', Fixed ''crypto'']
     [(POST, [], True, [], ''handleWebhook'')]"

definition paypalWebhookRoutes :: "Route list" where
  "paypalWebhookRoutes = routesOf [Fixed ''webhooks'', Fixed ''paypal'']
     [(POST, [], True, [], ''handleWebhook'')]"

definition paystackWebhookRoutes :: "Route list" where
  "paystackWebhookRoutes = routesOf [Fixed ''webhooks'', Fixed ''paystack'']
     [(POST, [], True, [], ''handleWebhook''),
      (POST, [Fixed ''qa-simulate''], True, [], ''simulateWebhook'')]"

definition bookingWidgetRoutes :: "Route list" where
  "bookingWidgetRoutes = routesOf [Fixed ''booking-widget'']
     [(GET, [Fixed ''config''], False, [], ''getConfig''),
      (PUT, [Fixed ''config''], False, [], ''saveConfig''),
      (GET, [Fixed ''embed-code''], False, [], ''getEmbedCode'')]"

definition publicBookingRoutes :: "Route list" where
  "publicBookingRoutes = routesOf [Fixed ''public'', Fixed ''booking'']
     [(GET, [Param], True, [], ''getWidgetData''),
      (GET, [Param, Fixed ''slots''], True, [], ''getSlots''),
      (POST, [Param], True, [], ''createBooking'')]"

definition calendarIntegrationRoutes :: "Route list" where
  "calendarIntegrationRoutes = routesOf [Fixed ''calendar'']
     [(GET, [Fixed ''connect''], False, [], ''getConnectUrl''),
      (GET, [Fixed ''google'', Fixed ''callback''], True, [], ''googleCallback''),
      (GET, [Fixed ''outlook'', Fixed ''callback''], True, [], ''outlookCallback''),
      (GET, [Fixed ''connections''], False, [], ''getConnections''),
      (DELETE, [Fixed ''connections'', Param], False, [], ''disconnect''),
      (POST, [Fixed ''sync'', Param], False, [], ''triggerSync'')]"

definition campaignRoutes :: "Route list" where
  "campaignRoutes = routesOf [Fixed ''campaigns'']
     [(POST, [], False, [], ''createCampaign''),
      (GET, [], False, [], ''findAllCampaigns''),
      (GET, [Param], False, [], ''findOneCampaign''),
      (PATCH, [Param], False, [], ''updateCampaign''),
      (DELETE, [Param], False, [], ''removeCampaign''),
      (GET, [Param, Fixed ''recipients''], False, [], ''getRecipients''),
      (GET, [Param, Fixed ''responses''], False, [], ''getResponses''),
      (GET, [Param, Fixed ''responses'', Fixed ''dashboard''], False, [], ''getResponseDashboard''),
      (POST, [Param, Fixed ''dispatch''], False, [], ''dispatch''),
      (POST, [Param, Fixed ''segments''], False, [], ''createSegment''),
      (GET, [Param, Fixed ''segments''], False, [], ''findSegments''),
      (PATCH, [Param, Fixed ''segments'', Param], False, [], ''updateSegment''),
      (DELETE, [Param, Fixed ''segments'', Param], False, [], ''removeSegment''),
      (GET, [Param, Fixed ''segments'', Param, Fixed ''count''], False, [], ''getSegmentCount''),
      (GET, [Param, Fixed ''stats''], False, [], ''getStats''),
      (GET, [Param, Fixed ''stats'', Fixed ''all''], False, [], ''getStatsAll''),
      (GET, [Param, Fixed ''stats'', Fixed ''segment'', Param], False, [], ''getStatsBySegment''),
      (GET, [Param, Fixed ''stats'', Fixed ''tag'', Param], False, [], ''getStatsByTag''),
      (GET, [Param, Fixed ''stats'', Fixed ''group'', Param], False, [], ''getStatsByGroup''),
      (GET, [Param, Fixed ''stats'', Fixed ''appointment'', Param], False, [], ''getStatsByAppointment'')]"

definition tagsRoutes :: "Route list" where
  "tagsRoutes = routesOf [Fixed ''tags'']
     [(POST, [], False, [], ''create''),
      (GET, [], False, [], ''findAll''),
      (DELETE, [Param], False, [], ''remove''),
      (POST, [Fixed ''assign''], False, [], ''assign''),
      (DELETE, [Fixed ''contacts'', Param, Fixed ''tags'', Param], False, [], ''removeFromContact'')]"

definition channelStrategyRoutes :: "Route list" where
  "channelStrategyRoutes = routesOf [Fixed ''channel-strategies'']
     [(POST, [], False, [], ''create''),
      (GET, [], False, [], ''findAll''),
      (GET, [Param], False, [], ''findOne''),
      (PUT, [Param], False, [], ''update''),
      (DELETE, [Param], False, [], ''remove'')]"

definition contactsRoutes :: "Route list" where
  "contactsRoutes = routesOf [Fixed ''contacts'']
     [(GET, [Fixed ''stats''], False, [], ''getStats''),
      (GET, [Fixed ''groups''], False, [], ''getGroups''),
      (POST, [Fixed ''groups''], False, [], ''createGroup''),
      (POST, [Fixed ''groups'', Param, Fixed ''members''], False, [], ''addMembersToGroup''),
      (DELETE, [Fixed ''groups'', Param, Fixed ''members'', Param], False, [], ''removeMemberFromGroup''),
      (GET, [Fixed ''tags''], False, [], ''getTags''),
      (POST, [Fixed ''tags''], False, [], ''createTag''),
      (POST, [Param, Fixed ''tags''], False, [], ''assignTag''),
      (GET, [], False, [], ''findAll''),
      (GET, [Param], False, [], ''findOne''),
      (GET, [Param, Fixed ''activity''], False, [], ''getActivity''),
      (GET, [Param, Fixed ''reminders''], False, [], ''getReminders''),
      (GET, [Param, Fixed ''messages''], False, [], ''getMessages''),
      (GET, [Param, Fixed ''groups''], False, [], ''getContactGroups''),
      (POST, [Param, Fixed ''groups''], False, [], ''addToGroup''),
      (DELETE, [Param, Fixed ''groups'', Param], False, [], ''removeFromGroup''),
      (POST, [], False, [], ''create''),
      (PATCH, [Param], False, [], ''update''),
      (DELETE, [Param], False, [], ''remove''),
      (POST, [Fixed ''bulk'', Fixed ''tag''], False, [], ''bulkTag''),
      (POST, [Fixed ''bulk'', Fixed ''delete''], False, [], ''bulkDelete''),
      (POST, [Fixed ''import''], False, [], ''importContacts'')]"

definition formRoutes :: "Route list" where
  "formRoutes = routesOf [Fixed ''forms'']
     [(POST, [], False, [], ''create''),
      (GET, [], False, [], ''list''),
      (DELETE, [Param], False, [], ''deactivate''),
      (GET, [Fixed ''s'', Param], True, [], ''getForm''),
      (POST, [Fixed ''s'', Param, Fixed ''submit''], True, [], ''submit'')]"

definition eventRoutes :: "Route list" where
  "eventRoutes = routesOf [Fixed ''events'']
     [(POST, [], False, [], ''create''),
      (GET, [Fixed ''active''], False, [], ''findActive''),
      (GET, [], False, [], ''findAll''),
      (GET, [Fixed ''calendar''], False, [], ''getCalendarFeed''),
      (GET, [Param], False, [], ''findOne''),
      (GET, [Param, Fixed ''stats''], False, [], ''getStats''),
      (GET, [Param, Fixed ''participants'', Param, Fixed ''qr''], False, [], ''getParticipantQr''),
      (POST, [Param, Fixed ''scan''], False, [], ''scanArrival''),
      (GET, [Param, Fixed ''smart-reminders''], False, [], ''getSmartReminders''),
      (PUT, [Param], False, [], ''update''),
      (DELETE, [Param], False, [], ''remove''),
      (POST, [Param, Fixed ''invite''], False, [], ''invite''),
      (POST, [Param, Fixed ''invite-audience''], False, [], ''inviteAudience''),
      (POST, [Param, Fixed ''respond''], False, [], ''respond''),
      (POST, [Param, Fixed ''broadcast''], False, [], ''broadcast''),
      (GET, [Param, Fixed ''suggest-replacements''], False, [], ''suggestReplacements''),
      (POST, [Param, Fixed ''replace''], False, [], ''replaceParticipant'')]"

definition googleReviewRoutes :: "Route list" where
  "googleReviewRoutes = routesOf [Fixed ''google-reviews'']
     [(GET, [Fixed ''connect''], False, [], ''getConnectUrl''),
      (GET, [Fixed ''oauth'', Fixed ''callback''], True, [], ''oauthCallback''),
      (GET, [Fixed ''connection''], False, [], ''getConnectionStatus''),
      (PATCH, [Fixed ''connection'', Fixed ''location''], False, [], ''selectLocation''),
      (DELETE, [Fixed ''connection''], False, [], ''disconnect''),
      (POST, [Fixed ''sync''], False, [], ''syncReviews''),
      (GET, [], False, [], ''listReviews''),
      (GET, [Param], False, [], ''getReview''),
      (POST, [Param, Fixed ''generate''], False, [], ''generateReply''),
      (PATCH, [Param, Fixed ''draft''], False, [], ''updateDraft''),
      (POST, [Param, Fixed ''approve''], False, [], ''approveAndPost''),
      (POST, [Param, Fixed ''skip''], False, [], ''skipReview'')]"

definition locationsRoutes :: "Route list" where
  "locationsRoutes = routesOf [Fixed ''locations'']
     [(GET, [], False, [], ''findAll''),
      (GET, [Fixed ''slim''], False, [], ''findAllSlim''),
      (GET, [Param], False, [], ''findOne''),
      (POST, [], False, [], ''create''),
      (PATCH, [Param], False, [], ''update''),
      (DELETE, [Param], False, [], ''remove'')]"

definition messagesRoutes :: "Route list" where
  "messagesRoutes = routesOf [Fixed ''messages'']
     [(POST, [], False, [], ''sendMessage'')]"

definition messagingRoutes :: "Route list" where
  "messagingRoutes = routesOf [Fixed ''messaging'']
     [(POST, [Fixed ''send-sms''], False, [], ''sendSms''),
      (POST, [Fixed ''send-voice''], False, [], ''sendVoice''),
      (GET, [Fixed ''check''], False, [], ''checkUsage''),
      (POST, [Fixed ''broadcast''], False, [], ''broadcast'')]"

definition termiiWebhookRoutes :: "Route list" where
  "termiiWebhookRoutes = routesOf [Fixed ''termii-webhook'']
     [(POST, [Fixed ''inbound''], True, [], ''handleInbound'')]"

definition twilioWebhookRoutes :: "Route list" where
  "twilioWebhookRoutes = routesOf [Fixed ''webhooks'', Fixed ''twilio'']
     [(POST, [Fixed ''status''], True, [], ''handleSmsStatus''),
      (POST, [Fixed ''inbound''], True, [], ''handleInboundSms''),
      (POST, [Fixed ''whatsapp-inbound''], True, [], ''handleInboundWhatsApp''),
      (POST, [Fixed ''voice-gather''], True, [], ''handleVoiceGather''),
      (POST, [Fixed ''voice-status''], True, [], ''handleVoiceStatus'')]"

definition usageRoutes :: "Route list" where
  "usageRoutes = routesOf [Fixed ''usage'']
     [(GET, [], False, [], ''getUsageStats''),
      (GET, [Fixed ''check'', Fixed ''sms''], False, [], ''checkSms''),
      (GET, [Fixed ''check'', Fixed ''voice''], False, [], ''checkVoice''),
      (GET, [Fixed ''check'', Fixed ''ai''], False, [], ''checkAi'')]"

definition reminderRoutes :: "Route list" where
  "reminderRoutes = routesOf [Fixed ''reminder-rules'']
     [(POST, [], False, [], ''create''),
      (GET, [], False, [], ''findAll''),
      (GET, [Param], False, [], ''findOne''),
      (PUT, [Param], False, [], ''update''),
      (DELETE, [Param], False, [], ''remove''),
      (GET, [Param, Fixed ''preview''], False, [], ''preview'')]"

definition reputationRoutes :: "Route list" where
  "reputationRoutes = routesOf [Fixed ''reputation'']
     [(GET, [Fixed ''stats''], False, [], ''getStats''),
      (GET, [Fixed ''responses''], False, [], ''getResponses''),
      (POST, [Fixed ''request'', Param], False, [], ''sendFeedbackRequest'')]"

definition revenueAnalyticsRoutes :: "Route list" where
  "revenueAnalyticsRoutes = routesOf [Fixed ''revenue-analytics'']
     [(GET, [Fixed ''snapshot''], False, [], ''getSnapshot''),
      (GET, [Fixed ''summary''], False, [], ''getSummary''),
      (GET, [Fixed ''over-time''], False, [], ''getOverTime''),
      (GET, [Fixed ''by-channel''], False, [], ''getByChannel'')]"

definition rsvpRoutes :: "Route list" where
  "rsvpRoutes = routesOf [Fixed ''rsvp'']
     [(POST, [], False, [], ''recordRsvp'')]"

definition templateRoutes :: "Route list" where
  "templateRoutes = routesOf [Fixed ''templates'']
     [(POST, [], False, [], ''create''),
      (GET, [], False, [], ''findAll''),
      (GET, [Param], False, [], ''findOne''),
      (PUT, [Param], False, [], ''update''),
      (DELETE, [Param], False, [], ''remove'')]"

definition tenantRoutes :: "Route list" where
  "tenantRoutes = routesOf [Fixed ''tenants'']
     [(GET, [], False, [], ''findAll''),
      (GET, [Fixed ''settings''], False, [], ''getSettings''),
      (PATCH, [Fixed ''settings''], False, [], ''updateSettings''),
      (GET, [Fixed ''sender-identity''], False, [], ''getSenderIdentity''),
      (PATCH, [Fixed ''sender-identity''], False, [], ''updateSenderIdentity''),
      (GET, [Fixed ''timezone''], False, [], ''getTimezone''),
      (PATCH, [Fixed ''timezone''], False, [], ''updateTimezone'')]"

definition userRoutes :: "Route list" where
  "userRoutes = routesOf [Fixed ''users'']
     [(GET, [Fixed ''me''], False, [], ''getMe''),
      (PATCH, [Fixed ''me''], False, [], ''updateMe''),
      (GET, [Fixed ''members''], False, [], ''listMembers''),
      (POST, [Fixed ''members'', Fixed ''invite''], False, [OWNER, ADMIN], ''inviteMember''),
      (PATCH, [Fixed ''members'', Param, Fixed ''role''], False, [OWNER, ADMIN], ''updateMemberRole''),
      (DELETE, [Fixed ''members'', Param], False, [OWNER, ADMIN], ''removeMember'')]"

definition webhookRoutes :: "Route list" where
  "webhookRoutes = routesOf [Fixed ''webhooks'']
     [(GET, [], False, [], ''findAll'')]"

definition apiRoutes :: "Route list" where
  "apiRoutes = concat
     [healthRoutes,
      aIRoutes,
      analyticsRoutes,
      appointmentRoutes,
      authRoutes,
      automationRoutes,
      billingRoutes,
      cryptoWebhookRoutes,
      paypalWebhookRoutes,
      paystackWebhookRoutes,
      bookingWidgetRoutes,
      publicBookingRoutes,
      calendarIntegrationRoutes,
      campaignRoutes,
      tagsRoutes,
      channelStrategyRoutes,
      contactsRoutes,
      formRoutes,
      eventRoutes,
      googleReviewRoutes,
      locationsRoutes,
      messagesRoutes,
      messagingRoutes,
      termiiWebhookRoutes,
      twilioWebhookRoutes,
      usageRoutes,
      reminderRoutes,
      reputationRoutes,
      revenueAnalyticsRoutes,
      rsvpRoutes,
      templateRoutes,
      tenantRoutes,
      userRoutes,
      webhookRoutes]"

section \<open>The requests of the pages\<close>

text \<open>
  \<open>WithCookies\<close>: sent by the client of \<open>lib/api.ts\<close>, with the session's cookies; \<open>Bare\<close>: by \<open>fetch\<close>, without.
\<close>

datatype Credentials = WithCookies | Bare

type_synonym PageRequest = "Credentials \<times> HttpMethod \<times> Piece list"

definition authCallbackCallbackHandlerRequests :: "PageRequest list" where
  "authCallbackCallbackHandlerRequests =
     [(WithCookies, GET, [Text ''billing''])]"

definition aiPageRequests :: "PageRequest list" where
  "aiPageRequests =
     [(WithCookies, POST, [Text ''ai'', Text ''generate-template'']),
      (WithCookies, POST, [Text ''ai'', Text ''improve-template'']),
      (WithCookies, POST, [Text ''ai'', Text ''change-tone'']),
      (WithCookies, POST, [Text ''ai'', Text ''optimize-confirmation''])]"

definition analyticsPageRequests :: "PageRequest list" where
  "analyticsPageRequests =
     [(WithCookies, GET, [Text ''analytics'', Text ''hero-metrics'']),
      (WithCookies, GET, [Text ''analytics'', Text ''channel-performance'']),
      (WithCookies, GET, [Text ''analytics'', Text ''no-show-reduction'']),
      (WithCookies, GET, [Text ''revenue-analytics'', Text ''snapshot'']),
      (WithCookies, GET, [Text ''revenue-analytics'', Text ''summary'']),
      (WithCookies, GET, [Text ''revenue-analytics'', Text ''by-channel'']),
      (WithCookies, GET, [Text ''analytics'', Text ''confirmation-rate'']),
      (WithCookies, GET, [Text ''revenue-analytics'', Text ''over-time''])]"

definition appointmentsByIdPageRequests :: "PageRequest list" where
  "appointmentsByIdPageRequests =
     [(WithCookies, GET, [Text ''appointments'', Value]),
      (WithCookies, GET, [Text ''appointments'', Value, Text ''pipeline'']),
      (WithCookies, PUT, [Text ''appointments'', Value]),
      (WithCookies, DELETE, [Text ''appointments'', Value])]"

definition appointmentsPageRequests :: "PageRequest list" where
  "appointmentsPageRequests =
     [(WithCookies, GET, [Text ''appointments'']),
      (WithCookies, GET, [Text ''events'']),
      (WithCookies, GET, [Text ''locations'', Text ''slim'']),
      (WithCookies, GET, [Text ''tags'']),
      (WithCookies, GET, [Text ''contacts'', Text ''groups'']),
      (WithCookies, GET, [Text ''campaigns'']),
      (WithCookies, POST, [Text ''appointments'']),
      (WithCookies, POST, [Text ''locations'']),
      (WithCookies, DELETE, [Text ''appointments'', Value])]"

definition automationsPageRequests :: "PageRequest list" where
  "automationsPageRequests =
     [(WithCookies, PATCH, [Text ''automations'', Value]),
      (WithCookies, POST, [Text ''automations'']),
      (WithCookies, GET, [Text ''automations'']),
      (WithCookies, GET, [Text ''automations'', Value, Text ''executions'']),
      (WithCookies, PATCH, [Text ''automations'', Value, Text ''toggle'']),
      (WithCookies, DELETE, [Text ''automations'', Value])]"

definition billingPageRequests :: "PageRequest list" where
  "billingPageRequests =
     [(WithCookies, GET, [Text ''billing'']),
      (WithCookies, GET, [Text ''auth'', Text ''profile'']),
      (WithCookies, POST, [Text ''billing'', Text ''subscribe''])]"

definition calendarPageRequests :: "PageRequest list" where
  "calendarPageRequests =
     [(WithCookies, GET, [Text ''events'', Text ''calendar''])]"

definition campaignsByIdResponsesPageRequests :: "PageRequest list" where
  "campaignsByIdResponsesPageRequests =
     [(WithCookies, GET, [Text ''campaigns'', Value]),
      (WithCookies, GET, [Text ''contacts'', Text ''tags'']),
      (WithCookies, GET, [Text ''contacts'', Text ''groups'']),
      (WithCookies, GET, [Text ''campaigns'', Value, Text ''responses'', Text ''dashboard''])]"

definition campaignsPageRequests :: "PageRequest list" where
  "campaignsPageRequests =
     [(WithCookies, POST, [Text ''campaigns'', Value, Text ''segments'']),
      (WithCookies, POST, [Text ''campaigns'', Value, Text ''dispatch'']),
      (WithCookies, GET, [Text ''campaigns'', Value, Text ''recipients'']),
      (WithCookies, POST, [Text ''messaging'', Text ''broadcast'']),
      (WithCookies, GET, [Text ''campaigns'', Value, Text ''stats'', Text ''all'']),
      (WithCookies, DELETE, [Text ''campaigns'', Value, Text ''segments'', Value]),
      (WithCookies, GET, [Text ''campaigns'']),
      (WithCookies, GET, [Text ''tags'']),
      (WithCookies, PATCH, [Text ''campaigns'', Value]),
      (WithCookies, POST, [Text ''campaigns'']),
      (WithCookies, DELETE, [Text ''campaigns'', Value])]"

definition contactsByIdPageRequests :: "PageRequest list" where
  "contactsByIdPageRequests =
     [(WithCookies, GET, [Text ''contacts'', Value, Text ''groups'']),
      (WithCookies, GET, [Text ''contacts'', Text ''groups'']),
      (WithCookies, GET, [Text ''contacts'', Value]),
      (WithCookies, GET, [Text ''contacts'', Value, Text ''activity'']),
      (WithCookies, GET, [Text ''contacts'', Value, Text ''reminders'']),
      (WithCookies, GET, [Text ''contacts'', Value, Text ''messages'']),
      (WithCookies, POST, [Text ''contacts'', Value, Text ''groups'']),
      (WithCookies, DELETE, [Text ''contacts'', Value, Text ''groups'', Value]),
      (WithCookies, PATCH, [Text ''contacts'', Value]),
      (WithCookies, DELETE, [Text ''contacts'', Value])]"

definition contactsPageRequests :: "PageRequest list" where
  "contactsPageRequests =
     [(WithCookies, POST, [Text ''contacts'']),
      (WithCookies, POST, [Text ''contacts'', Text ''import'']),
      (WithCookies, GET, [Text ''contacts'', Text ''groups'']),
      (WithCookies, GET, [Text ''contacts'', Text ''tags'']),
      (WithCookies, GET, [Text ''contacts'', Value, Text ''activity'']),
      (WithCookies, GET, [Text ''contacts'']),
      (WithCookies, GET, [Text ''contacts'', Text ''stats'']),
      (WithCookies, POST, [Text ''contacts'', Text ''bulk'', Text ''tag'']),
      (WithCookies, POST, [Text ''contacts'', Text ''bulk'', Text ''delete''])]"

definition eventsByIdPageRequests :: "PageRequest list" where
  "eventsByIdPageRequests =
     [(WithCookies, POST, [Text ''events'', Value, Text ''broadcast'']),
      (WithCookies, GET, [Text ''events'', Value, Text ''suggest-replacements'']),
      (WithCookies, POST, [Text ''events'', Value, Text ''replace'']),
      (WithCookies, GET, [Text ''events'', Value]),
      (WithCookies, GET, [Text ''events'', Value, Text ''stats'']),
      (WithCookies, GET, [Text ''appointments'', Value]),
      (WithCookies, PUT, [Text ''events'', Value]),
      (WithCookies, DELETE, [Text ''events'', Value])]"

definition eventsByIdScannerPageRequests :: "PageRequest list" where
  "eventsByIdScannerPageRequests =
     [(WithCookies, POST, [Text ''events'', Value, Text ''scan''])]"

definition eventsPageRequests :: "PageRequest list" where
  "eventsPageRequests =
     [(WithCookies, GET, [Text ''events'']),
      (WithCookies, GET, [Text ''events'', Value, Text ''stats'']),
      (WithCookies, GET, [Text ''events'', Text ''calendar'']),
      (WithCookies, GET, [Text ''contacts'']),
      (WithCookies, POST, [Text ''events'', Value, Text ''invite'']),
      (WithCookies, DELETE, [Text ''events'', Value]),
      (WithCookies, PATCH, [Text ''events'', Value]),
      (WithCookies, POST, [Text ''events''])]"

definition formsPageRequests :: "PageRequest list" where
  "formsPageRequests =
     [(WithCookies, GET, [Text ''forms'']),
      (WithCookies, GET, [Text ''events'']),
      (WithCookies, POST, [Text ''forms'']),
      (WithCookies, DELETE, [Text ''forms'', Value])]"

definition locationsPageRequests :: "PageRequest list" where
  "locationsPageRequests =
     [(WithCookies, GET, [Text ''locations'']),
      (WithCookies, PATCH, [Text ''locations'', Value]),
      (WithCookies, POST, [Text ''locations'']),
      (WithCookies, DELETE, [Text ''locations'', Value])]"

definition messagingPageRequests :: "PageRequest list" where
  "messagingPageRequests =
     [(WithCookies, POST, [Text ''messaging'', Text ''send-sms'']),
      (WithCookies, POST, [Text ''messaging'', Text ''send-voice'']),
      (WithCookies, POST, [Text ''messaging'', Text ''send-whatsapp'']),
      (WithCookies, POST, [Text ''messaging'', Text ''broadcast''])]"

definition dashboardPageRequests :: "PageRequest list" where
  "dashboardPageRequests =
     [(WithCookies, PUT, [Text ''appointments'', Value]),
      (WithCookies, GET, [Text ''appointments'', Text ''today'']),
      (WithCookies, GET, [Text ''appointments'', Text ''needs-attention'']),
      (WithCookies, GET, [Text ''appointments'', Value, Text ''pipeline''])]"

definition remindersPageRequests :: "PageRequest list" where
  "remindersPageRequests =
     [(WithCookies, GET, [Text ''reminder-rules'']),
      (WithCookies, GET, [Text ''templates'']),
      (WithCookies, PUT, [Text ''reminder-rules'', Value]),
      (WithCookies, POST, [Text ''reminder-rules'']),
      (WithCookies, DELETE, [Text ''reminder-rules'', Value])]"

definition reviewsPageRequests :: "PageRequest list" where
  "reviewsPageRequests =
     [(Bare, GET, [Text ''reputation'', Text ''stats'']),
      (Bare, GET, [Text ''reputation'', Text ''responses'']),
      (Bare, POST, [Text ''reputation'', Text ''request'', Value])]"

definition settingsPageRequests :: "PageRequest list" where
  "settingsPageRequests =
     [(WithCookies, GET, [Text ''google-reviews'', Text ''connection'']),
      (WithCookies, GET, [Text ''calendar'', Text ''connections'']),
      (WithCookies, GET, [Text ''tenants'', Text ''settings'']),
      (WithCookies, GET, [Text ''tenants'', Text ''sender-identity'']),
      (WithCookies, GET, [Text ''users'', Text ''members'']),
      (WithCookies, POST, [Text ''users'', Text ''members'', Text ''invite'']),
      (WithCookies, PATCH, [Text ''users'', Text ''members'', Value, Text ''role'']),
      (WithCookies, DELETE, [Text ''users'', Text ''members'', Value]),
      (WithCookies, PATCH, [Text ''google-reviews'', Text ''connection'', Text ''location'']),
      (WithCookies, DELETE, [Text ''google-reviews'', Text ''connection'']),
      (WithCookies, GET, [Text ''google-reviews'', Text ''connect'']),
      (WithCookies, GET, [Text ''calendar'', Text ''connect'']),
      (WithCookies, POST, [Text ''calendar'', Text ''sync'', Value]),
      (WithCookies, DELETE, [Text ''calendar'', Text ''connections'', Value]),
      (WithCookies, PATCH, [Text ''tenants'', Text ''settings'']),
      (WithCookies, PATCH, [Text ''users'', Text ''me'']),
      (WithCookies, PATCH, [Text ''tenants'', Text ''sender-identity'']),
      (WithCookies, PATCH, [Text ''tenants'', Text ''timezone''])]"

definition tagsPageRequests :: "PageRequest list" where
  "tagsPageRequests =
     [(WithCookies, GET, [Text ''contacts'', Text ''tags'']),
      (WithCookies, GET, [Text ''contacts''])]"

definition templatesPageRequests :: "PageRequest list" where
  "templatesPageRequests =
     [(WithCookies, GET, [Text ''templates'']),
      (WithCookies, POST, [Text ''templates'']),
      (WithCookies, DELETE, [Text ''templates'', Value])]"

definition widgetsPageRequests :: "PageRequest list" where
  "widgetsPageRequests =
     [(WithCookies, GET, [Text ''booking-widget'', Text ''config'']),
      (WithCookies, GET, [Text ''booking-widget'', Text ''embed-code'']),
      (WithCookies, PUT, [Text ''booking-widget'', Text ''config''])]"

definition forgotPasswordPageRequests :: "PageRequest list" where
  "forgotPasswordPageRequests =
     [(WithCookies, POST, [Text ''auth'', Text ''forgot-password''])]"

definition formsBySlugPageRequests :: "PageRequest list" where
  "formsBySlugPageRequests =
     [(Bare, GET, [Text ''forms'', Text ''s'', Value]),
      (Bare, POST, [Text ''forms'', Text ''s'', Value, Text ''submit''])]"

definition onboardingCallbackPageRequests :: "PageRequest list" where
  "onboardingCallbackPageRequests =
     [(WithCookies, POST, [Text ''billing'', Text ''verify''])]"

definition onboardingCheckoutPageRequests :: "PageRequest list" where
  "onboardingCheckoutPageRequests =
     [(WithCookies, POST, [Text ''billing'', Text ''initialize''])]"

definition onboardingPageRequests :: "PageRequest list" where
  "onboardingPageRequests =
     [(WithCookies, GET, [Text ''contacts'']),
      (WithCookies, GET, [Text ''events''])]"

definition registerPageRequests :: "PageRequest list" where
  "registerPageRequests =
     [(WithCookies, POST, [Text ''auth'', Text ''register''])]"

definition resetPasswordPageRequests :: "PageRequest list" where
  "resetPasswordPageRequests =
     [(WithCookies, POST, [Text ''auth'', Text ''reset-password''])]"

definition widgetByTenantIdPageRequests :: "PageRequest list" where
  "widgetByTenantIdPageRequests =
     [(Bare, GET, [Text ''public'', Text ''booking'', Value]),
      (Bare, GET, [Text ''public'', Text ''booking'', Value, Text ''slots'']),
      (Bare, POST, [Text ''public'', Text ''booking'', Value])]"

definition eventRsvpTrackerRequests :: "PageRequest list" where
  "eventRsvpTrackerRequests =
     [(WithCookies, GET, [Text ''events'', Value, Text ''stats''])]"

definition messagingAudienceSelectorRequests :: "PageRequest list" where
  "messagingAudienceSelectorRequests =
     [(WithCookies, GET, [Text ''contacts'', Text ''tags'']),
      (WithCookies, GET, [Text ''contacts'', Text ''groups'']),
      (WithCookies, GET, [Text ''appointments'']),
      (WithCookies, GET, [Text ''campaigns''])]"

definition messagingContactSearchDropdownRequests :: "PageRequest list" where
  "messagingContactSearchDropdownRequests =
     [(WithCookies, GET, [Text ''contacts'']),
      (WithCookies, POST, [Text ''contacts''])]"

definition onboardingOnboardingModalRequests :: "PageRequest list" where
  "onboardingOnboardingModalRequests =
     [(WithCookies, POST, [Text ''tags''])]"

definition useAppointmentsRequests :: "PageRequest list" where
  "useAppointmentsRequests =
     [(WithCookies, GET, [Text ''events'', Text ''calendar'']),
      (WithCookies, GET, [Text ''appointments''])]"

definition useOnboardingRequests :: "PageRequest list" where
  "useOnboardingRequests =
     [(WithCookies, GET, [Text ''tenants'', Text ''settings'']),
      (WithCookies, PATCH, [Text ''tenants'', Text ''settings''])]"

definition apiRequests :: "PageRequest list" where
  "apiRequests =
     [(WithCookies, PUT, [Text ''appointments'', Value]),
      (WithCookies, DELETE, [Text ''appointments'', Value]),
      (WithCookies, DELETE, [Text ''events'', Value])]"

definition authRequests :: "PageRequest list" where
  "authRequests =
     [(WithCookies, GET, [Text ''users'', Text ''me'']),
      (WithCookies, GET, [Text ''billing'']),
      (WithCookies, POST, [Text ''auth'', Text ''login'']),
      (WithCookies, POST, [Text ''auth'', Text ''register'']),
      (WithCookies, POST, [Text ''auth'', Text ''logout''])]"

definition pageRequests :: "(string \<times> PageRequest list) list" where
  "pageRequests =
     [(''app/auth/callback/CallbackHandler.tsx'', authCallbackCallbackHandlerRequests),
      (''app/dashboard/ai/page.tsx'', aiPageRequests),
      (''app/dashboard/analytics/page.tsx'', analyticsPageRequests),
      (''app/dashboard/appointments/[id]/page.tsx'', appointmentsByIdPageRequests),
      (''app/dashboard/appointments/page.tsx'', appointmentsPageRequests),
      (''app/dashboard/automations/page.tsx'', automationsPageRequests),
      (''app/dashboard/billing/page.tsx'', billingPageRequests),
      (''app/dashboard/calendar/page.tsx'', calendarPageRequests),
      (''app/dashboard/campaigns/[id]/responses/page.tsx'', campaignsByIdResponsesPageRequests),
      (''app/dashboard/campaigns/page.tsx'', campaignsPageRequests),
      (''app/dashboard/contacts/[id]/page.tsx'', contactsByIdPageRequests),
      (''app/dashboard/contacts/page.tsx'', contactsPageRequests),
      (''app/dashboard/events/[id]/page.tsx'', eventsByIdPageRequests),
      (''app/dashboard/events/[id]/scanner/page.tsx'', eventsByIdScannerPageRequests),
      (''app/dashboard/events/page.tsx'', eventsPageRequests),
      (''app/dashboard/forms/page.tsx'', formsPageRequests),
      (''app/dashboard/locations/page.tsx'', locationsPageRequests),
      (''app/dashboard/messaging/page.tsx'', messagingPageRequests),
      (''app/dashboard/page.tsx'', dashboardPageRequests),
      (''app/dashboard/reminders/page.tsx'', remindersPageRequests),
      (''app/dashboard/reviews/page.tsx'', reviewsPageRequests),
      (''app/dashboard/settings/page.tsx'', settingsPageRequests),
      (''app/dashboard/tags/page.tsx'', tagsPageRequests),
      (''app/dashboard/templates/page.tsx'', templatesPageRequests),
      (''app/dashboard/widgets/page.tsx'', widgetsPageRequests),
      (''app/forgot-password/page.tsx'', forgotPasswordPageRequests),
      (''app/forms/[slug]/page.tsx'', formsBySlugPageRequests),
      (''app/onboarding/callback/page.tsx'', onboardingCallbackPageRequests),
      (''app/onboarding/checkout/page.tsx'', onboardingCheckoutPageRequests),
      (''app/onboarding/page.tsx'', onboardingPageRequests),
      (''app/register/page.tsx'', registerPageRequests),
      (''app/reset-password/page.tsx'', resetPasswordPageRequests),
      (''app/widget/[tenantId]/page.tsx'', widgetByTenantIdPageRequests),
      (''components/EventRsvpTracker.tsx'', eventRsvpTrackerRequests),
      (''components/messaging/AudienceSelector.tsx'', messagingAudienceSelectorRequests),
      (''components/messaging/ContactSearchDropdown.tsx'', messagingContactSearchDropdownRequests),
      (''components/onboarding/OnboardingModal.tsx'', onboardingOnboardingModalRequests),
      (''hooks/useAppointments.ts'', useAppointmentsRequests),
      (''hooks/useOnboarding.ts'', useOnboardingRequests),
      (''lib/api.ts'', apiRequests),
      (''lib/auth.tsx'', authRequests)]"

text \<open>The user that a request is made for: the cookies of the user signed in, or nobody.\<close>

definition userOf :: "UserRole option \<Rightarrow> Credentials \<Rightarrow> UserRole option" where
  "userOf user c = (case c of WithCookies \<Rightarrow> user | Bare \<Rightarrow> None)"

definition refusedRequests :: "UserRole option \<Rightarrow> (string \<times> HttpMethod \<times> Piece list \<times> Refusal) list" where
  "refusedRequests user = concat (map (\<lambda>(page, rs). List.map_filter (\<lambda>(c, m, p).
     case answer apiRoutes (userOf user c) m p of Inl e \<Rightarrow> Some (page, m, p, e) | Inr _ \<Rightarrow> None) rs) pageRequests)"

end
