(* ===== verification/Api_Route_Properties.thy ===== *)
theory Api_Route_Properties
  imports Api_Routes
begin

text \<open>
  The pages and the routes fit together, with six exceptions; no route hides another.
\<close>

section \<open>Routes\<close>

text \<open>The path of a route itself, with a value for each parameter\<close>

definition ownPath :: "Route \<Rightarrow> Piece list" where
  "ownPath r = map (\<lambda>s. case s of Fixed t \<Rightarrow> Text t | Param \<Rightarrow> Value) (ro_path r)"

lemma own_path_matches: "matches (ro_path r) (ownPath r)"
proof -
  have "matches ss (map (\<lambda>s. case s of Fixed t \<Rightarrow> Text t | Param \<Rightarrow> Value) ss)" for ss
    by (induction ss) (auto split: Segment.split)
  then show ?thesis by (simp add: ownPath_def)
qed

section \<open>Looking a route up\<close>

lemma dispatch_Nil [simp]: "dispatch (routesOf pre []) m path = None"
  by (simp add: dispatch_def routesOf_def)

lemma dispatch_Cons [simp]:
  "dispatch (routesOf pre ((m', p, public, roles, h') # rows)) m path =
     (if m' = m \<and> matches (pre @ p) path
      then Some \<lparr>ro_method = m', ro_path = pre @ p, ro_public = public, ro_roles = roles, ro_handler = h'\<rparr>
      else dispatch (routesOf pre rows) m path)"
  by (simp add: dispatch_def routesOf_def)

lemma dispatch_append: "dispatch (as @ bs) m path = (case dispatch as m path of None \<Rightarrow> dispatch bs m path | Some r \<Rightarrow> Some r)"
  by (induction as) (auto simp: dispatch_def)

lemma dispatch_other: "t \<noteq> s \<Longrightarrow> dispatch (routesOf (Fixed s # pre) rows) m (Text t # ps) = None"
  by (induction rows) (auto simp: dispatch_def routesOf_def)

lemma healthRoutes_other: "t \<noteq> ''health'' \<Longrightarrow> dispatch healthRoutes m (Text t # ps) = None"
  by (simp add: healthRoutes_def dispatch_other)

lemma aIRoutes_other: "t \<noteq> ''ai'' \<Longrightarrow> dispatch aIRoutes m (Text t # ps) = None"
  by (simp add: aIRoutes_def dispatch_other)

lemma analyticsRoutes_other: "t \<noteq> ''analytics'' \<Longrightarrow> dispatch analyticsRoutes m (Text t # ps) = None"
  by (simp add: analyticsRoutes_def dispatch_other)

lemma appointmentRoutes_other: "t \<noteq> ''appointments'' \<Longrightarrow> dispatch appointmentRoutes m (Text t # ps) = None"
  by (simp add: appointmentRoutes_def dispatch_other)

lemma authRoutes_other: "t \<noteq> ''auth'' \<Longrightarrow> dispatch authRoutes m (Text t # ps) = None"
  by (simp add: authRoutes_def dispatch_other)

lemma automationRoutes_other: "t \<noteq> ''automations'' \<Longrightarrow> dispatch automationRoutes m (Text t # ps) = None"
  by (simp add: automationRoutes_def dispatch_other)

lemma billingRoutes_other: "t \<noteq> ''billing'' \<Longrightarrow> dispatch billingRoutes m (Text t # ps) = None"
  by (simp add: billingRoutes_def dispatch_other)

lemma cryptoWebhookRoutes_other: "t \<noteq> ''webhooks'' \<Longrightarrow> dispatch cryptoWebhookRoutes m (Text t # ps) = None"
  by (simp add: cryptoWebhookRoutes_def dispatch_other)

lemma paypalWebhookRoutes_other: "t \<noteq> ''webhooks'' \<Longrightarrow> dispatch paypalWebhookRoutes m (Text t # ps) = None"
  by (simp add: paypalWebhookRoutes_def dispatch_other)

lemma paystackWebhookRoutes_other: "t \<noteq> ''webhooks'' \<Longrightarrow> dispatch paystackWebhookRoutes m (Text t # ps) = None"
  by (simp add: paystackWebhookRoutes_def dispatch_other)

lemma bookingWidgetRoutes_other: "t \<noteq> ''booking-widget'' \<Longrightarrow> dispatch bookingWidgetRoutes m (Text t # ps) = None"
  by (simp add: bookingWidgetRoutes_def dispatch_other)

lemma publicBookingRoutes_other: "t \<noteq> ''public'' \<Longrightarrow> dispatch publicBookingRoutes m (Text t # ps) = None"
  by (simp add: publicBookingRoutes_def dispatch_other)

lemma calendarIntegrationRoutes_other: "t \<noteq> ''calendar'' \<Longrightarrow> dispatch calendarIntegrationRoutes m (Text t # ps) = None"
  by (simp add: calendarIntegrationRoutes_def dispatch_other)

lemma campaignRoutes_other: "t \<noteq> ''campaigns'' \<Longrightarrow> dispatch campaignRoutes m (Text t # ps) = None"
  by (simp add: campaignRoutes_def dispatch_other)

lemma tagsRoutes_other: "t \<noteq> ''tags'' \<Longrightarrow> dispatch tagsRoutes m (Text t # ps) = None"
  by (simp add: tagsRoutes_def dispatch_other)

lemma channelStrategyRoutes_other: "t \<noteq> ''channel-strategies'' \<Longrightarrow> dispatch channelStrategyRoutes m (Text t # ps) = None"
  by (simp add: channelStrategyRoutes_def dispatch_other)

lemma contactsRoutes_other: "t \<noteq> ''contacts'' \<Longrightarrow> dispatch contactsRoutes m (Text t # ps) = None"
  by (simp add: contactsRoutes_def dispatch_other)

lemma formRoutes_other: "t \<noteq> ''forms'' \<Longrightarrow> dispatch formRoutes m (Text t # ps) = None"
  by (simp add: formRoutes_def dispatch_other)

lemma eventRoutes_other: "t \<noteq> ''events'' \<Longrightarrow> dispatch eventRoutes m (Text t # ps) = None"
  by (simp add: eventRoutes_def dispatch_other)

lemma googleReviewRoutes_other: "t \<noteq> ''google-reviews'' \<Longrightarrow> dispatch googleReviewRoutes m (Text t # ps) = None"
  by (simp add: googleReviewRoutes_def dispatch_other)

lemma locationsRoutes_other: "t \<noteq> ''locations'' \<Longrightarrow> dispatch locationsRoutes m (Text t # ps) = None"
  by (simp add: locationsRoutes_def dispatch_other)

lemma messagesRoutes_other: "t \<noteq> ''messages'' \<Longrightarrow> dispatch messagesRoutes m (Text t # ps) = None"
  by (simp add: messagesRoutes_def dispatch_other)

lemma messagingRoutes_other: "t \<noteq> ''messaging'' \<Longrightarrow> dispatch messagingRoutes m (Text t # ps) = None"
  by (simp add: messagingRoutes_def dispatch_other)

lemma termiiWebhookRoutes_other: "t \<noteq> ''termii-webhook'' \<Longrightarrow> dispatch termiiWebhookRoutes m (Text t # ps) = None"
  by (simp add: termiiWebhookRoutes_def dispatch_other)

lemma twilioWebhookRoutes_other: "t \<noteq> ''webhooks'' \<Longrightarrow> dispatch twilioWebhookRoutes m (Text t # ps) = None"
  by (simp add: twilioWebhookRoutes_def dispatch_other)

lemma usageRoutes_other: "t \<noteq> ''usage'' \<Longrightarrow> dispatch usageRoutes m (Text t # ps) = None"
  by (simp add: usageRoutes_def dispatch_other)

lemma reminderRoutes_other: "t \<noteq> ''reminder-rules'' \<Longrightarrow> dispatch reminderRoutes m (Text t # ps) = None"
  by (simp add: reminderRoutes_def dispatch_other)

lemma reputationRoutes_other: "t \<noteq> ''reputation'' \<Longrightarrow> dispatch reputationRoutes m (Text t # ps) = None"
  by (simp add: reputationRoutes_def dispatch_other)

lemma revenueAnalyticsRoutes_other: "t \<noteq> ''revenue-analytics'' \<Longrightarrow> dispatch revenueAnalyticsRoutes m (Text t # ps) = None"
  by (simp add: revenueAnalyticsRoutes_def dispatch_other)

lemma rsvpRoutes_other: "t \<noteq> ''rsvp'' \<Longrightarrow> dispatch rsvpRoutes m (Text t # ps) = None"
  by (simp add: rsvpRoutes_def dispatch_other)

lemma templateRoutes_other: "t \<noteq> ''templates'' \<Longrightarrow> dispatch templateRoutes m (Text t # ps) = None"
  by (simp add: templateRoutes_def dispatch_other)

lemma tenantRoutes_other: "t \<noteq> ''tenants'' \<Longrightarrow> dispatch tenantRoutes m (Text t # ps) = None"
  by (simp add: tenantRoutes_def dispatch_other)

lemma userRoutes_other: "t \<noteq> ''users'' \<Longrightarrow> dispatch userRoutes m (Text t # ps) = None"
  by (simp add: userRoutes_def dispatch_other)

lemma webhookRoutes_other: "t \<noteq> ''webhooks'' \<Longrightarrow> dispatch webhookRoutes m (Text t # ps) = None"
  by (simp add: webhookRoutes_def dispatch_other)

lemmas other_controllers = healthRoutes_other aIRoutes_other analyticsRoutes_other appointmentRoutes_other authRoutes_other automationRoutes_other billingRoutes_other cryptoWebhookRoutes_other paypalWebhookRoutes_other paystackWebhookRoutes_other bookingWidgetRoutes_other publicBookingRoutes_other calendarIntegrationRoutes_other campaignRoutes_other tagsRoutes_other channelStrategyRoutes_other contactsRoutes_other formRoutes_other eventRoutes_other googleReviewRoutes_other locationsRoutes_other messagesRoutes_other messagingRoutes_other termiiWebhookRoutes_other twilioWebhookRoutes_other usageRoutes_other reminderRoutes_other reputationRoutes_other revenueAnalyticsRoutes_other rsvpRoutes_other templateRoutes_other tenantRoutes_other userRoutes_other webhookRoutes_other

lemmas controller_tables = healthRoutes_def aIRoutes_def analyticsRoutes_def appointmentRoutes_def authRoutes_def automationRoutes_def billingRoutes_def cryptoWebhookRoutes_def paypalWebhookRoutes_def paystackWebhookRoutes_def bookingWidgetRoutes_def publicBookingRoutes_def calendarIntegrationRoutes_def campaignRoutes_def tagsRoutes_def channelStrategyRoutes_def contactsRoutes_def formRoutes_def eventRoutes_def googleReviewRoutes_def locationsRoutes_def messagesRoutes_def messagingRoutes_def termiiWebhookRoutes_def twilioWebhookRoutes_def usageRoutes_def reminderRoutes_def reputationRoutes_def revenueAnalyticsRoutes_def rsvpRoutes_def templateRoutes_def tenantRoutes_def userRoutes_def webhookRoutes_def

lemmas request_tables = authCallbackCallbackHandlerRequests_def aiPageRequests_def analyticsPageRequests_def appointmentsByIdPageRequests_def appointmentsPageRequests_def automationsPageRequests_def billingPageRequests_def calendarPageRequests_def campaignsByIdResponsesPageRequests_def campaignsPageRequests_def contactsByIdPageRequests_def contactsPageRequests_def eventsByIdPageRequests_def eventsByIdScannerPageRequests_def eventsPageRequests_def formsPageRequests_def locationsPageRequests_def messagingPageRequests_def dashboardPageRequests_def remindersPageRequests_def reviewsPageRequests_def settingsPageRequests_def tagsPageRequests_def templatesPageRequests_def widgetsPageRequests_def forgotPasswordPageRequests_def formsBySlugPageRequests_def onboardingCallbackPageRequests_def onboardingCheckoutPageRequests_def onboardingPageRequests_def registerPageRequests_def resetPasswordPageRequests_def widgetByTenantIdPageRequests_def eventRsvpTrackerRequests_def messagingAudienceSelectorRequests_def messagingContactSearchDropdownRequests_def onboardingOnboardingModalRequests_def useAppointmentsRequests_def useOnboardingRequests_def apiRequests_def authRequests_def

lemma at_health: "dispatch apiRoutes m (Text ''health'' # ps) = dispatch (healthRoutes) m (Text ''health'' # ps)"
  by (simp add: apiRoutes_def dispatch_append other_controllers split: option.split)

lemma at_ai: "dispatch apiRoutes m (Text ''ai'' # ps) = dispatch (aIRoutes) m (Text ''ai'' # ps)"
  by (simp add: apiRoutes_def dispatch_append other_controllers split: option.split)

lemma at_analytics: "dispatch apiRoutes m (Text ''analytics'' # ps) = dispatch (analyticsRoutes) m (Text ''analytics'' # ps)"
  by (simp add: apiRoutes_def dispatch_append other_controllers split: option.split)

lemma at_appointments: "dispatch apiRoutes m (Text ''appointments'' # ps) = dispatch (appointmentRoutes) m (Text ''appointments'' # ps)"
  by (simp add: apiRoutes_def dispatch_append other_controllers split: option.split)

lemma at_auth: "dispatch apiRoutes m (Text ''auth'' # ps) = dispatch (authRoutes) m (Text ''auth'' # ps)"
  by (simp add: apiRoutes_def dispatch_append other_controllers split: option.split)

lemma at_automations: "dispatch apiRoutes m (Text ''automations'' # ps) = dispatch (automationRoutes) m (Text ''automations'' # ps)"
  by (simp add: apiRoutes_def dispatch_append other_controllers split: option.split)

lemma at_billing: "dispatch apiRoutes m (Text ''billing'' # ps) = dispatch (billingRoutes) m (Text ''billing'' # ps)"
  by (simp add: apiRoutes_def dispatch_append other_controllers split: option.split)

lemma at_webhooks: "dispatch apiRoutes m (Text ''webhooks'' # ps) = dispatch (cryptoWebhookRoutes @ paypalWebhookRoutes @ paystackWebhookRoutes @ twilioWebhookRoutes @ webhookRoutes) m (Text ''webhooks'' # ps)"
  by (simp add: apiRoutes_def dispatch_append other_controllers split: option.split)

lemma at_booking_widget: "dispatch apiRoutes m (Text ''booking-widget'' # ps) = dispatch (bookingWidgetRoutes) m (Text ''booking-widget'' # ps)"
  by (simp add: apiRoutes_def dispatch_append other_controllers split: option.split)

lemma at_public: "dispatch apiRoutes m (Text ''public'' # ps) = dispatch (publicBookingRoutes) m (Text ''public'' # ps)"
  by (simp add: apiRoutes_def dispatch_append other_controllers split: option.split)

lemma at_calendar: "dispatch apiRoutes m (Text ''calendar'' # ps) = dispatch (calendarIntegrationRoutes) m (Text ''calendar'' # ps)"
  by (simp add: apiRoutes_def dispatch_append other_controllers split: option.split)

lemma at_campaigns: "dispatch apiRoutes m (Text ''campaigns'' # ps) = dispatch (campaignRoutes) m (Text ''campaigns'' # ps)"
  by (simp add: apiRoutes_def dispatch_append other_controllers split: option.split)

lemma at_tags: "dispatch apiRoutes m (Text ''tags'' # ps) = dispatch (tagsRoutes) m (Text ''tags'' # ps)"
  by (simp add: apiRoutes_def dispatch_append other_controllers split: option.split)

lemma at_channel_strategies: "dispatch apiRoutes m (Text ''channel-strategies'' # ps) = dispatch (channelStrategyRoutes) m (Text ''channel-strategies'' # ps)"
  by (simp add: apiRoutes_def dispatch_append other_controllers split: option.split)

lemma at_contacts: "dispatch apiRoutes m (Text ''contacts'' # ps) = dispatch (contactsRoutes) m (Text ''contacts'' # ps)"
  by (simp add: apiRoutes_def dispatch_append other_controllers split: option.split)

lemma at_forms: "dispatch apiRoutes m (Text ''forms'' # ps) = dispatch (formRoutes) m (Text ''forms'' # ps)"
  by (simp add: apiRoutes_def dispatch_append other_controllers split: option.split)

lemma at_events: "dispatch apiRoutes m (Text ''events'' # ps) = dispatch (eventRoutes) m (Text ''events'' # ps)"
  by (simp add: apiRoutes_def dispatch_append other_controllers split: option.split)

lemma at_google_reviews: "dispatch apiRoutes m (Text ''google-reviews'' # ps) = dispatch (googleReviewRoutes) m (Text ''google-reviews'' # ps)"
  by (simp add: apiRoutes_def dispatch_append other_controllers split: option.split)

lemma at_locations: "dispatch apiRoutes m (Text ''locations'' # ps) = dispatch (locationsRoutes) m (Text ''locations'' # ps)"
  by (simp add: apiRoutes_def dispatch_append other_controllers split: option.split)

lemma at_messages: "dispatch apiRoutes m (Text ''messages'' # ps) = dispatch (messagesRoutes) m (Text ''messages'' # ps)"
  by (simp add: apiRoutes_def dispatch_append other_controllers split: option.split)

lemma at_messaging: "dispatch apiRoutes m (Text ''messaging'' # ps) = dispatch (messagingRoutes) m (Text ''messaging'' # ps)"
  by (simp add: apiRoutes_def dispatch_append other_controllers split: option.split)

lemma at_termii_webhook: "dispatch apiRoutes m (Text ''termii-webhook'' # ps) = dispatch (termiiWebhookRoutes) m (Text ''termii-webhook'' # ps)"
  by (simp add: apiRoutes_def dispatch_append other_controllers split: option.split)

lemma at_usage: "dispatch apiRoutes m (Text ''usage'' # ps) = dispatch (usageRoutes) m (Text ''usage'' # ps)"
  by (simp add: apiRoutes_def dispatch_append other_controllers split: option.split)

lemma at_reminder_rules: "dispatch apiRoutes m (Text ''reminder-rules'' # ps) = dispatch (reminderRoutes) m (Text ''reminder-rules'' # ps)"
  by (simp add: apiRoutes_def dispatch_append other_controllers split: option.split)

lemma at_reputation: "dispatch apiRoutes m (Text ''reputation'' # ps) = dispatch (reputationRoutes) m (Text ''reputation'' # ps)"
  by (simp add: apiRoutes_def dispatch_append other_controllers split: option.split)

lemma at_revenue_analytics: "dispatch apiRoutes m (Text ''revenue-analytics'' # ps) = dispatch (revenueAnalyticsRoutes) m (Text ''revenue-analytics'' # ps)"
  by (simp add: apiRoutes_def dispatch_append other_controllers split: option.split)

lemma at_rsvp: "dispatch apiRoutes m (Text ''rsvp'' # ps) = dispatch (rsvpRoutes) m (Text ''rsvp'' # ps)"
  by (simp add: apiRoutes_def dispatch_append other_controllers split: option.split)

lemma at_templates: "dispatch apiRoutes m (Text ''templates'' # ps) = dispatch (templateRoutes) m (Text ''templates'' # ps)"
  by (simp add: apiRoutes_def dispatch_append other_controllers split: option.split)

lemma at_tenants: "dispatch apiRoutes m (Text ''tenants'' # ps) = dispatch (tenantRoutes) m (Text ''tenants'' # ps)"
  by (simp add: apiRoutes_def dispatch_append other_controllers split: option.split)

lemma at_users: "dispatch apiRoutes m (Text ''users'' # ps) = dispatch (userRoutes) m (Text ''users'' # ps)"
  by (simp add: apiRoutes_def dispatch_append other_controllers split: option.split)

lemmas own_controllers = at_health at_ai at_analytics at_appointments at_auth at_automations at_billing at_webhooks at_booking_widget at_public at_calendar at_campaigns at_tags at_channel_strategies at_contacts at_forms at_events at_google_reviews at_locations at_messages at_messaging at_termii_webhook at_usage at_reminder_rules at_reputation at_revenue_analytics at_rsvp at_templates at_tenants at_users

section \<open>The pages\<close>

lemma list_all_routesOf [simp]:
  "list_all P (routesOf pre [])"
  "list_all P (routesOf pre ((m, p, public, roles, h') # rows)) \<longleftrightarrow>
     P \<lparr>ro_method = m, ro_path = pre @ p, ro_public = public, ro_roles = roles, ro_handler = h'\<rparr> \<and> list_all P (routesOf pre rows)"
  by (simp_all add: routesOf_def)

lemma list_all_apiRoutes: "list_all P apiRoutes \<longleftrightarrow>
    list_all P healthRoutes \<and> list_all P aIRoutes \<and> list_all P analyticsRoutes \<and> list_all P appointmentRoutes \<and> list_all P authRoutes \<and> list_all P automationRoutes \<and> list_all P billingRoutes \<and> list_all P cryptoWebhookRoutes \<and> list_all P paypalWebhookRoutes \<and> list_all P paystackWebhookRoutes \<and> list_all P bookingWidgetRoutes \<and> list_all P publicBookingRoutes \<and> list_all P calendarIntegrationRoutes \<and> list_all P campaignRoutes \<and> list_all P tagsRoutes \<and> list_all P channelStrategyRoutes \<and> list_all P contactsRoutes \<and> list_all P formRoutes \<and> list_all P eventRoutes \<and> list_all P googleReviewRoutes \<and> list_all P locationsRoutes \<and> list_all P messagesRoutes \<and> list_all P messagingRoutes \<and> list_all P termiiWebhookRoutes \<and> list_all P twilioWebhookRoutes \<and> list_all P usageRoutes \<and> list_all P reminderRoutes \<and> list_all P reputationRoutes \<and> list_all P revenueAnalyticsRoutes \<and> list_all P rsvpRoutes \<and> list_all P templateRoutes \<and> list_all P tenantRoutes \<and> list_all P userRoutes \<and> list_all P webhookRoutes"
  by (simp add: apiRoutes_def)

lemmas request_rules = refusedRequests_def pageRequests_def request_tables answer_def own_controllers dispatch_append
  controller_tables userOf_def jwtAuthGuard_def rolesGuard_def map_filter_simps

text \<open>What no role is granted\<close>

definition strayRequests :: "(string \<times> HttpMethod \<times> Piece list \<times> Refusal) list" where
  "strayRequests =
    [(''app/dashboard/billing/page.tsx'', GET, [Text ''auth'', Text ''profile''], NotRouted),
     (''app/dashboard/events/page.tsx'', PATCH, [Text ''events'', Value], NotRouted),
     (''app/dashboard/messaging/page.tsx'', POST, [Text ''messaging'', Text ''send-whatsapp''], NotRouted),
     (''app/dashboard/reviews/page.tsx'', GET, [Text ''reputation'', Text ''stats''], NotSignedIn),
     (''app/dashboard/reviews/page.tsx'', GET, [Text ''reputation'', Text ''responses''], NotSignedIn),
     (''app/dashboard/reviews/page.tsx'', POST, [Text ''reputation'', Text ''request'', Value], NotSignedIn)]"

text \<open>
  C35: The pages and the routes fit together with six exceptions. Every route of the API can be reached, hidden by none
  before it. Signed in as an owner or an administrator, every request that a page makes is routed and admitted, but
  three that no controller has (the profile on the page of billing, the change of an event, the WhatsApp message) and
  the three of the page of reviews, which are sent without the session; staff are refused three more, the changes of members.
\<close>

theorem pages_and_routes_fit:
  "list_all (\<lambda>r. dispatch apiRoutes (ro_method r) (ownPath r) = Some r) apiRoutes \<and>
   refusedRequests (Some OWNER) = strayRequests \<and> refusedRequests (Some ADMIN) = strayRequests \<and>
   refusedRequests (Some STAFF) = strayRequests @
     [(''app/dashboard/settings/page.tsx'', POST, [Text ''users'', Text ''members'', Text ''invite''], NotPermitted),
      (''app/dashboard/settings/page.tsx'', PATCH, [Text ''users'', Text ''members'', Value, Text ''role''], NotPermitted),
      (''app/dashboard/settings/page.tsx'', DELETE, [Text ''users'', Text ''members'', Value], NotPermitted)]"
proof (intro conjI)
  show "list_all (\<lambda>r. dispatch apiRoutes (ro_method r) (ownPath r) = Some r) apiRoutes"
    by (simp add: list_all_apiRoutes own_controllers dispatch_append controller_tables ownPath_def)
  show "refusedRequests (Some OWNER) = strayRequests" by (simp add: request_rules strayRequests_def)
  show "refusedRequests (Some ADMIN) = strayRequests" by (simp add: request_rules strayRequests_def)
qed (simp add: request_rules strayRequests_def)

end
