(* ===== verification/Spec2Isabelle.thy ===== *)
theory Spec2Isabelle
  imports Usage_Race Plan_Guard Billing_Outcomes Billing_Endpoints Reminder_Rules Compliance Failover Rsvp
    Termii_Webhook Worker_Properties Appointment_Properties Event_Properties Workflow_Properties Event_Automations
    Contact_Properties Contact_Forms Contact_Import
    Campaign_Properties Booking_Properties Account_Properties Client_Session Calendar_Properties
    Google_Review_Properties Analytics_Properties Automation_Page_Properties Dashboard_Properties
    Api_Route_Properties
begin

text \<open>
  The backend of Meetora (Remindly), a multi-tenant reminder service: \<open>src/src\<close>, a NestJS server with
  PostgreSQL through Prisma, Redis counters, BullMQ queues and worker processes. A tenant books
  appointments and events; rules schedule reminders; workers send them by SMS, WhatsApp, voice or e-mail;
  replies come back by webhook and confirm, cancel or move what was booked; automations run on triggers;
  a plan bounds what a tenant may use, and billing decides the plan.

  \<^bold>\<open>State.\<close> \<open>Schema\<close> models \<open>prisma/schema.prisma\<close>: an enum is a datatype, a table a list of records in the
  order the database returns them, and \<open>world\<close> all tables with the Redis counters (\<open>w_redis\<close>), the jobs
  no worker has taken yet (\<open>w_jobs\<close>), the messages handed to a provider (\<open>w_outbox\<close>) and the supply of
  row ids. \<open>Prelude\<close> has the query shapes (\<open>findFirst\<close> is \<open>List.find\<close>, \<open>updateMany\<close> is
  \<open>update_where\<close>, \<open>orderBy\<close> a stable sort with NULL first when descending) and the JavaScript string
  functions the code calls. \<open>Store\<close> has the operations: an action takes the world and gives a value or an
  exception and the world reached; an exception does not undo writes, except inside a \<open>$transaction\<close>.
  Keys and foreign keys are checked where the code can meet them (P2002, P2003, P2025, P2023). \<open>Cascades\<close>
  is what deleting a row does to others. Everything outside the repository is the record \<open>env\<close> or an
  argument: gateways, HTTP, HMAC, number parsing, locale formats, TwiML, the Twilio signature, the QR image.

  \<^bold>\<open>Conventions.\<close> One handler runs at one instant \<open>now\<close>. Calls the code does not wait for run in
  order, with their errors dropped. Local time is UTC plus the constant \<open>e_tz\<close>. Numbers are integers
  (counts, milliseconds); \<open>Math.round\<close> is exact. Texts are bytes, so that a dash is three.

  \<^bold>\<open>Plan.\<close> \<open>Plan_Limits\<close>, \<open>Usage_Validation\<close>, \<open>Rate_Limit\<close>, \<open>Redis_Counters\<close>, \<open>Plan_Guard\<close> model
  \<open>modules/plan\<close>. \<open>Quota\<close> is the contract of a counted resource, a locale with the bound on a run of
  attempts; \<open>Usage_Quota\<close> and \<open>Rate_Limit\<close> interpret it on the plan's counters and on the Redis windows.
  \<open>Usage_Race\<close> splits a usage call into its two database steps and bounds what overlapping calls exceed.

  \<^bold>\<open>Billing.\<close> \<open>Billing\<close>, \<open>Billing_Providers\<close>, \<open>Billing_Webhooks\<close>, \<open>Billing_Endpoints\<close> model
  \<open>modules/billing\<close> with its three providers; \<open>Json_Values\<close> the untyped values of payloads.
  \<open>Billing_Laws\<close> states what every entry point keeps as locales and interprets them on the code's
  operations; \<open>Billing_Properties\<close> and \<open>Billing_Outcomes\<close> prove that webhooks act exactly once, which
  subscription states are reachable, and what each transition leaves.

  \<^bold>\<open>Reminders.\<close> \<open>Reminder_Scheduler\<close> and \<open>Reminder_Rules\<close> model \<open>modules/reminder\<close>, \<open>Reminder_Worker\<close>
  the process \<open>workers/reminder.worker.ts\<close> with its failure handler and the check for unread messages.
  \<open>Reminder_Properties\<close>: exactly the due rules become reminders and jobs, and the effect of a cancellation.
  \<open>Worker_Properties\<close>: a job takes effect once unless the database fails, a refusal of the plan sends nothing;
  after a cancellation or an opt-out the worker sends nothing, whatever jobs the queue still holds; and the
  defects of retries, e-mails and unread checks.

  \<^bold>\<open>Messages.\<close> \<open>Messaging\<close> models number normalization, routing, the providers and the log of
  \<open>modules/messaging\<close>; \<open>Channel_Strategy\<close> and \<open>Failover\<close> the fallback chains: a
  failover goes one channel on in the chain in force (specification \<open>chainInForce\<close>), and an escalation over a
  chain without repetitions ends (measure: the channels after the current one);
  \<open>Template_Renderer\<close> placeholders and the RSVP footer; \<open>Compliance\<close> opt-out and opt-in.

  \<^bold>\<open>Replies.\<close> \<open>Twilio_Webhook\<close> and \<open>Termii_Webhook\<close> model the inbound webhooks, \<open>Rsvp\<close> the parser, the
  processor and the queue of event replies, \<open>Rescheduling\<close> the offer and choice of a new time,
  \<open>Reputation\<close> feedback, \<open>Event_Lifecycle\<close> what follows a change of status. \<open>Twilio_Properties\<close>: each
  message is handled once, a confirmation confirms exactly the next appointment, and where the router
  takes a reply for something else. \<open>Rescheduling\<close>: the slots offered are the first five open hours of the
  window (reference definition \<open>hoursUntil\<close>), and which bookings they respect.

  \<^bold>\<open>Appointments and events.\<close> \<open>Appointments\<close> models \<open>modules/appointment\<close>, \<open>Events\<close> \<open>modules/event\<close>.
  \<open>Appointment_Properties\<close>: a bulk booking isolates its contacts, and what the dashboard leaves behind.
  \<open>Event_Properties\<close>: the abstract attendance map with the refinement of invitations, answers and arrivals,
  the check-in as a step relation over concurrent scans, and the round trip of a QR code.

  \<^bold>\<open>Automations.\<close> \<open>Workflow_Engine\<close> models triggers, executions, the jobs of their actions and the loop
  guard, \<open>Workflow_Actions\<close> the worker's execution of an action, \<open>Workflow_Editing\<close> the pages that define
  automations. \<open>Workflow_Engine\<close>: the effect of a trigger equals a plan of executions, and loops are cut.
  \<open>Workflow_Properties\<close>: an execution accounts for its steps, a started automation completes, a stored
  action is carried out by the branch of its type, and none reaches a contact that opted out. \<open>Event_Automations\<close>: what the
  answers and arrivals of an event set off.

  \<^bold>\<open>Contacts.\<close> \<open>Contacts\<close> models \<open>modules/contacts\<close> (contacts, tags, groups, the contact page), \<open>Contact_Forms\<close>
  the public opt-in forms, \<open>Contact_Import\<close> the import of a sheet. \<open>Contact_Properties\<close>: how each operation keeps
  the tag array and the tag links of a contact together; \<open>Contact_Import\<close>: they agree under every sequence of
  requests, but for contacts from a file. Repeated submissions and imports add nobody, and replies of imported
  contacts are not matched.

  \<^bold>\<open>Campaigns.\<close> \<open>Campaigns\<close> models \<open>modules/campaign\<close> with segments, the dispatch and the statistics,
  \<open>Campaign_Worker\<close> the process \<open>workers/campaign.worker.ts\<close> with the retries of its queue, \<open>Broadcasts\<close> the
  broadcasts and single messages of \<open>modules/messaging\<close>. \<open>Campaign_Properties\<close>: the audience loaded in pages
  is the audience counted, a dispatch stays within the plan, broadcasts respect opt-out; a deleted tag
  widens its segments, accepted messages are sent again by every retry, large broadcasts reach nobody.

  \<^bold>\<open>Booking page.\<close> \<open>Booking_Widget\<close> models \<open>modules/booking-widget\<close>. \<open>Booking_Properties\<close>: the page offers
  exactly the free times of the grid, and what a booking writes.

  \<^bold>\<open>Accounts.\<close> \<open>Accounts\<close> models \<open>modules/auth\<close>, \<open>modules/user\<close>, \<open>modules/tenant\<close> and the role guard; bcrypt, the
  hash, signed tokens and the check of addresses are the record \<open>auth_env\<close>. \<open>Account_Properties\<close>: the owner of a
  tenant is permanent, a reset link works once, old refresh tokens revive. \<open>Client_Session\<close> is the HTTP layer of the
  web client, \<open>frontend/src/lib/api.ts\<close>, as a state machine of requests, answers and refreshes: no request is lost,
  and with this server no session can be refreshed.

  \<^bold>\<open>Calendars.\<close> \<open>Calendars\<close> models \<open>modules/calendar-integration\<close> with its providers. \<open>Calendar_Properties\<close>: a sync
  ends when the pages do, and syncing again adds nothing.

  \<^bold>\<open>AI texts and reviews.\<close> \<open>AI_Texts\<close> models \<open>modules/ai\<close>, \<open>Google_Reviews\<close> \<open>modules/google-review\<close>; the
  completion API is a parameter. \<open>AI_Properties\<close>: a text is counted twice, so a limit buys half of it.
  \<open>Google_Review_Properties\<close>: a posted reply is final, and suggestions stop at the limit (\<open>Quota\<close> again).

  \<^bold>\<open>Analytics.\<close> \<open>Analytics\<close> models \<open>modules/analytics\<close> and \<open>modules/revenue-analytics\<close>: the counts and the series
  over days and weeks. \<open>Analytics_Properties\<close>: the confirmation chart is exact, revenue over time drops the
  current day, and the requests of the dashboard's page for hero metrics and two of the charts are refused.

  \<^bold>\<open>Pages of the dashboard.\<close> \<open>Request_Bodies\<close>: what a page sends, and the validation of the API that reads it.
  \<open>Locations_Templates\<close> models \<open>modules/locations\<close> and \<open>modules/template\<close>; \<open>Automation_Page\<close> and \<open>Dashboard_Forms\<close>
  the pages of automations, locations, templates and reminder rules (\<open>frontend/src/app/dashboard\<close>): their state, what
  the user can enter, and what saving does through the API. \<open>Automation_Page_Properties\<close>: what is built from nothing is
  stored step by step when its delays are whole minutes of 32 bits and refused otherwise, what is saved cannot be edited. \<open>Dashboard_Properties\<close>: what a saved form cannot change.
  \<open>Api_Routes\<close>: the route tables of all controllers, the guards for tokens and roles, and every request the files of
  \<open>frontend/src\<close> make. \<open>Api_Route_Properties\<close>: which of them meet, and the six that fail for everyone.

  \<^bold>\<open>Loops.\<close> All recursion ends: over lists; the slot search and the marking of busy blocks by the time left
  in the window (\<open>measure\<close> on \<open>nat (windowEnd - cursor)\<close>); placeholders by the text left; audiences by the rows
  behind the page read. The times of the booking page and the pages of a calendar are an \<open>option\<close>: \<open>None\<close> is a loop that does not end. No fuel is
  used; escalations and attempts are lists of the events that cause them.

  \<^bold>\<open>Not modelled.\<close> The bodies of the other controllers only forward; the markup of the frontend and, but for their requests,
  its pages not named above are left out.
  \<open>findToday\<close> and the default month of the calendar rest on the Intl library, \<open>suggestReplacements\<close> on a
  column that is not modelled. Concurrency is modelled where the code guards against it or fails to
  (usage counting, check-in, retried webhooks and jobs), otherwise handlers run one after the other.
\<close>

end
